(* ===== verification/Prelude.thy ===== *)
theory Prelude
  imports Complex_Main "HOL-Library.AList" "HOL-Library.List_Lexorder" "HOL-Library.Char_ord"
    "HOL-Library.Multiset"
begin

section \<open>Python values, exceptions and strings\<close>

text \<open>
  The vocabulary the component theories share: Python's JSON-like values and dictionaries,
  the exception classes the program raises, the error monad over them, and the string
  operations (\<open>split\<close>, \<open>join\<close>, \<open>startswith\<close>, decimal numbers) with their laws.
  Numbers are rationals: Python's integers are exact, and its floats are idealised as exact
  numbers (rounding is not modelled); the infinities the quota code uses are in \<open>Quota\<close>.
\<close>

named_theorems res_simps \<open>evaluation of the error monad\<close>
named_theorems dict_simps \<open>lookups in dictionaries\<close>
named_theorems str_simps \<open>splitting and joining of strings\<close>

subsection \<open>Values and dictionaries\<close>

datatype json =
    JNull
  | JBool bool
  | JNum rat
  | JStr string
  | JList "json list"
  | JDict "(string \<times> json) list"

type_synonym pydict = "(string \<times> json) list"

text \<open>Python's truth value of an object.\<close>

fun truthy :: "json \<Rightarrow> bool" where
  "truthy JNull = False"
| "truthy (JBool b) = b"
| "truthy (JNum q) = (q \<noteq> 0)"
| "truthy (JStr s) = (s \<noteq> [])"
| "truthy (JList xs) = (xs \<noteq> [])"
| "truthy (JDict d) = (d \<noteq> [])"

text \<open>\<open>d.get(k)\<close>, \<open>d.get(k, v)\<close> and \<open>k in d\<close>.\<close>

definition dget :: "pydict \<Rightarrow> string \<Rightarrow> json" where
  "dget d k = (case map_of d k of None \<Rightarrow> JNull | Some v \<Rightarrow> v)"

definition dget_or :: "pydict \<Rightarrow> string \<Rightarrow> json \<Rightarrow> json" where
  "dget_or d k v0 = (case map_of d k of None \<Rightarrow> v0 | Some v \<Rightarrow> v)"

definition dhas :: "pydict \<Rightarrow> string \<Rightarrow> bool" where
  "dhas d k = (map_of d k \<noteq> None)"

lemma dget_Nil [simp, dict_simps]: "dget [] k = JNull"
  by (simp add: dget_def)

lemma dget_Cons [simp, dict_simps]: "dget ((k', v) # d) k = (if k = k' then v else dget d k)"
  by (simp add: dget_def)

lemma dget_or_Nil [simp, dict_simps]: "dget_or [] k v = v"
  by (simp add: dget_or_def)

lemma dget_or_Cons [simp, dict_simps]:
  "dget_or ((k', v) # d) k v0 = (if k = k' then v else dget_or d k v0)"
  by (simp add: dget_or_def)

lemma dhas_Nil [simp, dict_simps]: "dhas [] k = False"
  by (simp add: dhas_def)

lemma dhas_Cons [simp, dict_simps]: "dhas ((k', v) # d) k = (k = k' \<or> dhas d k)"
  by (simp add: dhas_def)

lemma dget_append [dict_simps]: "dget (d @ e) k = (if dhas d k then dget d k else dget e k)"
  by (auto simp: dget_def dhas_def map_add_def split: option.splits)

subsection \<open>Exceptions\<close>

text \<open>
  The exception classes the modelled code raises or catches: Python's own, kazoo's, and those
  of \<open>nodepool/exceptions.py\<close>. \<open>OtherError\<close> is any class the code has no handler for.
\<close>

datatype pyexc =
    TypeError
  | ValueError
  | KeyError
  | IndexError
  | AttributeError
  | RuntimeError
  | NotImplementedError
  | JSONDecodeError
  | GenericException
  | NoNodeError
  | NodeExistsError
  | LockTimeout
  | SessionExpiredError
  | TimeoutException
  | ConnectionTimeoutException
  | IPAddTimeoutException
  | ServerCreateTimeoutException
  | ServerDeleteTimeoutException
  | ImageCreateException
  | LaunchNodepoolException
  | LaunchStatusException
  | LaunchNetworkException
  | LaunchKeyscanException
  | CapacityException
  | QuotaException
  | RuntimeConfigurationException
  | ZKException
  | ZKLockException
  | NotFound
  | OtherError string

type_synonym 'a res = "pyexc + 'a"

definition bindE :: "'e + 'a \<Rightarrow> ('a \<Rightarrow> 'e + 'b) \<Rightarrow> 'e + 'b" where
  "bindE r f = (case r of Inl e \<Rightarrow> Inl e | Inr a \<Rightarrow> f a)"

lemma bindE_Inl [simp, res_simps]: "bindE (Inl e) f = Inl e"
  by (simp add: bindE_def)

lemma bindE_Inr [simp, res_simps]: "bindE (Inr a) f = f a"
  by (simp add: bindE_def)

lemma bindE_eq_Inr [res_simps]: "bindE r f = Inr b \<longleftrightarrow> (\<exists>a. r = Inr a \<and> f a = Inr b)"
  by (cases r) auto

lemma map_sum_eq_Inr [res_simps]: "map_sum f g r = Inr b \<longleftrightarrow> (\<exists>a. r = Inr a \<and> b = g a)"
  by (cases r) auto

lemma map_sum_eq_Inl [res_simps]: "map_sum f g r = Inl e \<longleftrightarrow> (\<exists>a. r = Inl a \<and> e = f a)"
  by (cases r) auto

text \<open>Reading a number out of a value, as arithmetic does: anything else is a TypeError.\<close>

fun num_of :: "json \<Rightarrow> rat res" where
  "num_of (JNum q) = Inr q"
| "num_of (JBool b) = Inr (if b then 1 else 0)"
| "num_of _ = Inl TypeError"

text \<open>
  Python's \<open>int(x)\<close>: numbers are truncated towards zero, strings are stripped of white space
  and read as an optional sign and decimal digits with single underscores between them
  (ASCII digits only), anything else raises.
\<close>

definition is_space :: "char \<Rightarrow> bool" where
  "is_space c = (c \<in> set [CHR '' '', CHR 0x09, CHR 0x0A, CHR 0x0B, CHR 0x0C, CHR 0x0D])"

definition is_digit :: "char \<Rightarrow> bool" where
  "is_digit c = (48 \<le> (of_char c :: nat) \<and> (of_char c :: nat) \<le> 57)"

fun read_digits :: "string \<Rightarrow> bool \<Rightarrow> int \<Rightarrow> int option" where
  "read_digits [] prev acc = (if prev then Some acc else None)"
| "read_digits (c # cs) prev acc =
     (if is_digit c then read_digits cs True (acc * 10 + (of_char c - 48))
      else if c = CHR ''_'' \<and> prev then read_digits cs False acc
      else None)"

definition py_strip :: "string \<Rightarrow> string" where
  "py_strip s = rev (dropWhile is_space (rev (dropWhile is_space s)))"

definition py_int_str :: "string \<Rightarrow> int option" where
  "py_int_str s =
     (case py_strip s of
        [] \<Rightarrow> None
      | c # cs \<Rightarrow>
          if c = CHR ''-'' then map_option uminus (read_digits cs False 0)
          else if c = CHR ''+'' then read_digits cs False 0
          else read_digits (c # cs) False 0)"

definition trunc :: "rat \<Rightarrow> int" where
  "trunc q = (if 0 \<le> q then \<lfloor>q\<rfloor> else \<lceil>q\<rceil>)"

fun py_int :: "json \<Rightarrow> int res" where
  "py_int (JNum q) = Inr (trunc q)"
| "py_int (JBool b) = Inr (if b then 1 else 0)"
| "py_int (JStr s) = (case py_int_str s of None \<Rightarrow> Inl ValueError | Some i \<Rightarrow> Inr i)"
| "py_int _ = Inl TypeError"

lemma trunc_of_int [simp]: "trunc (of_int i) = i"
  by (simp add: trunc_def)

subsection \<open>Strings\<close>

definition startswith :: "string \<Rightarrow> string \<Rightarrow> bool" where
  "startswith s p = (take (length p) s = p)"

text \<open>\<open>s.split(c)\<close> for a one-character separator: never empty, one field more than separators.\<close>

fun py_split :: "char \<Rightarrow> string \<Rightarrow> string list" where
  "py_split c [] = [[]]"
| "py_split c (x # xs) =
     (if x = c then [] # py_split c xs
      else (case py_split c xs of [] \<Rightarrow> [[x]] | y # ys \<Rightarrow> (x # y) # ys))"

fun py_join :: "string \<Rightarrow> string list \<Rightarrow> string" where
  "py_join sep [] = []"
| "py_join sep [x] = x"
| "py_join sep (x # y # ys) = x @ sep @ py_join sep (y # ys)"

lemma py_split_not_Nil [simp]: "py_split c s \<noteq> []"
  by (cases s) (auto split: list.splits)

lemma py_split_free [str_simps]: "c \<notin> set s \<Longrightarrow> py_split c s = [s]"
  by (induction s) auto

lemma py_split_append [str_simps]: "c \<notin> set s \<Longrightarrow> py_split c (s @ c # t) = s # py_split c t"
  by (induction s) auto

lemma py_split_append_rest:
  "py_split c (s @ c # t) = py_split c s @ py_split c t"
proof (induction s)
  case (Cons x s)
  then show ?case
    by (cases "py_split c s") (auto simp: py_split_not_Nil)
qed simp

lemma py_split_join:
  assumes "xs \<noteq> []" and "\<forall>x \<in> set xs. c \<notin> set x"
  shows "py_split c (py_join [c] xs) = xs"
  using assms
proof (induction xs)
  case (Cons x xs)
  then show ?case by (cases xs) (auto simp: str_simps)
qed simp

lemma py_join_split: "py_join [c] (py_split c s) = s"
proof (induction s)
  case (Cons x s)
  show ?case
  proof (cases "py_split c s")
    case (Cons y ys)
    with Cons.IH show ?thesis by (cases ys) auto
  qed (use py_split_not_Nil in blast)
qed simp

lemma py_split_free_parts: "p \<in> set (py_split c s) \<Longrightarrow> c \<notin> set p"
proof (induction s arbitrary: p)
  case (Cons x s)
  then show ?case
    by (cases "py_split c s") (auto split: if_splits)
qed simp

lemma startswith_append [simp, str_simps]: "startswith (p @ s) p"
  by (simp add: startswith_def)

lemma startswithE: "startswith s p \<Longrightarrow> (\<And>t. s = p @ t \<Longrightarrow> P) \<Longrightarrow> P"
  by (metis append_take_drop_id startswith_def)

subsection \<open>Lists and optional values\<close>

text \<open>\<open>xs.remove(x)\<close> removes the first occurrence; it raises when there is none.\<close>

definition py_remove :: "'a \<Rightarrow> 'a list \<Rightarrow> 'a list res" where
  "py_remove x xs = (if x \<in> set xs then Inr (remove1 x xs) else Inl ValueError)"

text \<open>A loop that stops at the first exception.\<close>

fun foldE :: "('a \<Rightarrow> 's \<Rightarrow> 'e + 's) \<Rightarrow> 'a list \<Rightarrow> 's \<Rightarrow> 'e + 's" where
  "foldE f [] s = Inr s"
| "foldE f (x # xs) s = bindE (f x s) (foldE f xs)"

lemma foldE_append: "foldE f (xs @ ys) s = bindE (foldE f xs s) (foldE f ys)"
  by (induction xs arbitrary: s) (auto simp: bindE_def split: sum.splits)

lemma foldE_inv:
  assumes "foldE f xs s = Inr t" and "P s"
    and "\<And>x s s'. x \<in> set xs \<Longrightarrow> P s \<Longrightarrow> f x s = Inr s' \<Longrightarrow> P s'"
  shows "P t"
  using assms by (induction xs arbitrary: s) (auto simp: bindE_eq_Inr)

end
