(* ===== verification/ZkModel.thy ===== *)
theory ZkModel
  imports Prelude
begin

section \<open>The data model stored in ZooKeeper\<close>

text \<open>
  The classes of \<open>nodepool/zk/zookeeper.py\<close> that are written to and read from ZooKeeper:
  the state constants, \<open>BaseModel\<close> and its subclasses \<open>ImageBuild\<close>, \<open>ImageUpload\<close>,
  \<open>NodeRequest\<close> and \<open>Node\<close>, each a record that extends the record of its base class, with its
  constructor, \<open>toDict\<close>, \<open>updateFromDict\<close>, \<open>fromDict\<close> and comparison. Attributes that the code
  copies from and to JSON without looking at them keep their JSON value; an attribute that is
  \<open>None\<close> is \<open>JNull\<close>. An update that raises half way leaves the object as it is at that point,
  so \<open>updateFromDict\<close> returns the exception, if any, together with the object.
\<close>

subsection \<open>States\<close>

datatype zk_state =
    BUILDING | UPLOADING | READY | DELETING | FAILED | REQUESTED | FULFILLED | PENDING
  | TESTING | IN_USE | USED | HOLD | INIT | ABORTED | DELETED

fun state_str :: "zk_state \<Rightarrow> string" where
  "state_str BUILDING = ''building''"
| "state_str UPLOADING = ''uploading''"
| "state_str READY = ''ready''"
| "state_str DELETING = ''deleting''"
| "state_str FAILED = ''failed''"
| "state_str REQUESTED = ''requested''"
| "state_str FULFILLED = ''fulfilled''"
| "state_str PENDING = ''pending''"
| "state_str TESTING = ''testing''"
| "state_str IN_USE = ''in-use''"
| "state_str USED = ''used''"
| "state_str HOLD = ''hold''"
| "state_str INIT = ''init''"
| "state_str ABORTED = ''aborted''"
| "state_str DELETED = ''deleted''"

definition all_states :: "zk_state list" where
  "all_states = [BUILDING, UPLOADING, READY, DELETING, FAILED, REQUESTED, FULFILLED, PENDING,
     TESTING, IN_USE, USED, HOLD, INIT, ABORTED, DELETED]"

definition state_of :: "string \<Rightarrow> zk_state option" where
  "state_of s = find (\<lambda>st. state_str st = s) all_states"

lemma state_str_inj [simp]: "state_str a = state_str b \<longleftrightarrow> a = b"
  by (cases a; cases b) simp_all

lemma state_of_state_str [simp]: "state_of (state_str st) = Some st"
  by (cases st) (simp_all add: state_of_def all_states_def)

lemma state_of_SomeD: "state_of s = Some st \<Longrightarrow> s = state_str st"
  by (auto simp: state_of_def find_Some_iff)

subsection \<open>\<open>as_list\<close>\<close>

definition as_list :: "json \<Rightarrow> json list" where
  "as_list item = (if \<not> truthy item then [] else (case item of JList xs \<Rightarrow> xs | _ \<Rightarrow> [item]))"

lemma as_list_JList [simp]: "as_list (JList xs) = xs"
  by (simp add: as_list_def)

subsection \<open>The base class\<close>

text \<open>The statistics ZooKeeper keeps for a znode, as far as the code reads them.\<close>

record zstat =
  created :: rat
  mzxid :: int
  children_count :: nat
  mtime :: rat                    \<comment> \<open>in milliseconds\<close>

record base_model =
  o_id :: "string option"
  o_state :: "zk_state option"
  o_state_time :: json
  o_stat :: "zstat option"

text \<open>\<open>BaseModel.__init__\<close>: the id is checked by its setter; a falsy id bypasses it.\<close>

definition base_id :: "json \<Rightarrow> string option res" where
  "base_id i = (if truthy i then (case i of JStr s \<Rightarrow> Inr (Some s) | _ \<Rightarrow> Inl TypeError)
                   else Inr None)"

text \<open>The \<open>state\<close> setter: the value is checked and \<open>state_time\<close> becomes the current time.\<close>

definition set_state ::
  "zk_state list \<Rightarrow> json \<Rightarrow> rat \<Rightarrow> 'a base_model_scheme \<Rightarrow> 'a base_model_scheme res" where
  "set_state valid value now ob =
     (case value of
        JStr s \<Rightarrow> (case state_of s of
                    Some st \<Rightarrow> if st \<in> set valid
                               then Inr (ob\<lparr>o_state := Some st, o_state_time := JNum now\<rparr>)
                               else Inl TypeError
                  | None \<Rightarrow> Inl TypeError)
      | _ \<Rightarrow> Inl TypeError)"

fun state_json :: "zk_state option \<Rightarrow> json" where
  "state_json None = JNull"
| "state_json (Some st) = JStr (state_str st)"

definition base_toDict :: "'a base_model_scheme \<Rightarrow> pydict" where
  "base_toDict ob = [(''state'', state_json (o_state ob)), (''state_time'', o_state_time ob)]"

type_synonym 'o upd = "pyexc option \<times> 'o"

definition base_updateFromDict ::
  "zk_state list \<Rightarrow> pydict \<Rightarrow> rat \<Rightarrow> 'a base_model_scheme \<Rightarrow> 'a base_model_scheme upd" where
  "base_updateFromDict valid d now ob =
     (case (if dhas d ''state'' then set_state valid (dget d ''state'') now ob else Inr ob) of
        Inl e \<Rightarrow> (Some e, ob)
      | Inr ob' \<Rightarrow>
          (None, if dhas d ''state_time'' then ob'\<lparr>o_state_time := dget d ''state_time''\<rparr> else ob'))"

text \<open>\<open>fromDict\<close> of every class: build the object, update it, let the exception through.\<close>

definition from_upd :: "'o upd \<Rightarrow> 'o res" where
  "from_upd u = (case u of (Some e, _) \<Rightarrow> Inl e | (None, ob) \<Rightarrow> Inr ob)"

lemma from_upd_simps [simp]: "from_upd (Some e, ob) = Inl e" "from_upd (None, ob) = Inr ob"
  by (simp_all add: from_upd_def)

lemma set_state_state_str [simp]:
  "set_state valid (JStr (state_str st)) now ob =
     (if st \<in> set valid then Inr (ob\<lparr>o_state := Some st, o_state_time := JNum now\<rparr>)
      else Inl TypeError)"
  by (simp add: set_state_def)

lemma set_state_valid:
  "set_state valid v now ob = Inr ob' \<Longrightarrow>
     \<exists>st \<in> set valid. o_state ob' = Some st \<and> v = JStr (state_str st) \<and> o_state_time ob' = JNum now"
  by (auto simp: set_state_def split: json.splits option.splits if_splits dest: state_of_SomeD)

lemma set_state_None [simp]: "set_state valid JNull now ob = Inl TypeError"
  by (simp add: set_state_def)

text \<open>
  An object whose stored dictionary starts with \<open>base_toDict\<close> is updated to the stored state and
  time, whatever its own state and whatever the clock says.
\<close>

lemma base_update_toDict:
  assumes "o_state src = Some st" and "st \<in> set valid"
  shows "base_updateFromDict valid (base_toDict src @ d) now ob =
           (None, ob\<lparr>o_state := Some st, o_state_time := o_state_time src\<rparr>)"
  using assms by (simp add: base_updateFromDict_def base_toDict_def)

text \<open>Whatever the dictionary, an object never leaves its class's set of states.\<close>

definition state_ok :: "zk_state list \<Rightarrow> 'a base_model_scheme \<Rightarrow> bool" where
  "state_ok valid ob = (case o_state ob of None \<Rightarrow> True | Some st \<Rightarrow> st \<in> set valid)"

lemma base_update_state_ok:
  "state_ok valid ob \<Longrightarrow> state_ok valid (snd (base_updateFromDict valid d now ob))"
  by (auto simp: base_updateFromDict_def state_ok_def split: sum.splits if_splits
      dest!: set_state_valid)

subsection \<open>Image builds\<close>

record image_build = base_model +
  ib_formats :: "string list"
  ib_image_name :: json
  ib_builder :: json
  ib_builder_id :: json
  ib_username :: json
  ib_python_path :: json
  ib_shell_type :: json

definition IMAGE_BUILD_STATES :: "zk_state list" where
  "IMAGE_BUILD_STATES = [BUILDING, READY, DELETING, FAILED]"

definition image_build_init :: "json \<Rightarrow> string option \<Rightarrow> image_build" where
  "image_build_init image_name build_id =
     \<lparr> o_id = build_id, o_state = None, o_state_time = JNull, o_stat = None,
       ib_formats = [], ib_image_name = image_name, ib_builder = JNull, ib_builder_id = JNull,
       ib_username = JNull, ib_python_path = JNull, ib_shell_type = JNull \<rparr>"

definition formats :: "image_build \<Rightarrow> string list" where
  "formats b = sort (ib_formats b)"

definition addFormat :: "string \<Rightarrow> image_build \<Rightarrow> image_build" where
  "addFormat fmt b = b\<lparr>ib_formats := ib_formats b @ [fmt]\<rparr>"

definition image_build_toDict :: "image_build \<Rightarrow> pydict" where
  "image_build_toDict b =
     base_toDict b
     @ (if ib_builder b \<noteq> JNull then [(''builder'', ib_builder b)] else [])
     @ (if ib_builder_id b \<noteq> JNull then [(''builder_id'', ib_builder_id b)] else [])
     @ (if length (formats b) \<noteq> 0 then [(''formats'', JStr (py_join '','' (formats b)))] else [])
     @ [(''username'', ib_username b), (''python_path'', ib_python_path b),
        (''shell_type'', ib_shell_type b)]"

definition image_build_updateFromDict :: "pydict \<Rightarrow> rat \<Rightarrow> image_build \<Rightarrow> image_build upd" where
  "image_build_updateFromDict d now b =
     (case base_updateFromDict IMAGE_BUILD_STATES d now b of
        (Some e, b') \<Rightarrow> (Some e, b')
      | (None, b') \<Rightarrow>
          let b'' = b'\<lparr> ib_builder := dget d ''builder'',
                        ib_builder_id := dget d ''builder_id'',
                        ib_username := dget_or d ''username'' (JStr ''zuul''),
                        ib_python_path := dget_or d ''python_path'' (JStr ''/usr/bin/python2''),
                        ib_shell_type := dget d ''shell_type'' \<rparr>;
              f = dget_or d ''formats'' (JStr [])
          in if truthy f
             then (case f of
                     JStr s \<Rightarrow> (None, b''\<lparr>ib_formats := py_split (CHR '','') s\<rparr>)
                   | _ \<Rightarrow> (Some AttributeError, b''))
             else (None, b''))"

definition image_build_fromDict ::
  "pydict \<Rightarrow> json \<Rightarrow> string option \<Rightarrow> rat \<Rightarrow> image_build res" where
  "image_build_fromDict d image_name i now =
     from_upd (image_build_updateFromDict d now (image_build_init image_name i))"

text \<open>The in-memory flags of an image: not serialised, so an update from data does nothing.\<close>

record image =
  im_name :: string
  im_paused :: bool
  im_stat :: "zstat option"   \<comment> \<open>set by the cache\<close>

definition image_init :: "string \<Rightarrow> image" where
  "image_init n = \<lparr> im_name = n, im_paused = False, im_stat = None \<rparr>"

definition image_updateFromDict :: "pydict \<Rightarrow> image \<Rightarrow> image upd" where
  "image_updateFromDict d i = (None, i)"

subsection \<open>Image uploads\<close>

record image_upload = base_model +
  iu_build_id :: json
  iu_provider_name :: json
  iu_image_name :: json
  iu_format :: json
  iu_username :: json
  iu_python_path :: json
  iu_shell_type :: json
  iu_external_id :: json
  iu_external_name :: json

definition IMAGE_UPLOAD_STATES :: "zk_state list" where
  "IMAGE_UPLOAD_STATES = [UPLOADING, READY, DELETING, FAILED]"

definition image_upload_init ::
  "json \<Rightarrow> json \<Rightarrow> json \<Rightarrow> string option \<Rightarrow> image_upload" where
  "image_upload_init build_id provider_name image_name upload_id =
     \<lparr> o_id = upload_id, o_state = None, o_state_time = JNull, o_stat = None,
       iu_build_id = build_id, iu_provider_name = provider_name, iu_image_name = image_name,
       iu_format = JNull, iu_username = JNull, iu_python_path = JNull, iu_shell_type = JNull,
       iu_external_id = JNull, iu_external_name = JNull \<rparr>"

definition image_upload_eq :: "image_upload \<Rightarrow> image_upload \<Rightarrow> bool" where
  "image_upload_eq a b =
     (o_id a = o_id b \<and> iu_provider_name a = iu_provider_name b \<and>
      iu_build_id a = iu_build_id b \<and> iu_image_name a = iu_image_name b \<and>
      iu_format a = iu_format b)"

definition image_upload_toDict :: "image_upload \<Rightarrow> pydict" where
  "image_upload_toDict u =
     base_toDict u
     @ [(''external_id'', iu_external_id u), (''external_name'', iu_external_name u),
        (''format'', iu_format u), (''username'', iu_username u),
        (''python_path'', iu_python_path u), (''shell_type'', iu_shell_type u)]"

definition image_upload_updateFromDict ::
  "pydict \<Rightarrow> rat \<Rightarrow> image_upload \<Rightarrow> image_upload upd" where
  "image_upload_updateFromDict d now u =
     (case base_updateFromDict IMAGE_UPLOAD_STATES d now u of
        (Some e, u') \<Rightarrow> (Some e, u')
      | (None, u') \<Rightarrow>
          (None, u'\<lparr> iu_external_id := dget d ''external_id'',
                     iu_external_name := dget d ''external_name'',
                     iu_format := dget d ''format'',
                     iu_username := dget_or d ''username'' (JStr ''zuul''),
                     iu_python_path := dget_or d ''python_path'' (JStr ''/usr/bin/python2''),
                     iu_shell_type := dget d ''shell_type'' \<rparr>))"

definition image_upload_fromDict ::
  "pydict \<Rightarrow> json \<Rightarrow> json \<Rightarrow> json \<Rightarrow> string option \<Rightarrow> rat \<Rightarrow> image_upload res" where
  "image_upload_fromDict d build_id provider_name image_name upload_id now =
     from_upd (image_upload_updateFromDict d now
       (image_upload_init build_id provider_name image_name upload_id))"

subsection \<open>Node requests\<close>

record node_request = base_model +
  r_lock :: bool           \<comment> \<open>the ZooKeeper lock object is set\<close>
  r_thread_lock :: bool    \<comment> \<open>the local thread lock is held\<close>
  r_declined_by :: json
  r_node_types :: json
  r_nodes :: json
  r_reuse :: json
  r_requestor :: json
  r_requestor_data :: json
  r_provider :: json
  r_relative_priority :: json
  r_event_id :: json
  r_created_time :: json
  r_tenant_name :: json

definition NODE_REQUEST_STATES :: "zk_state list" where
  "NODE_REQUEST_STATES = [REQUESTED, PENDING, FULFILLED, FAILED]"

definition node_request_init :: "string option \<Rightarrow> node_request" where
  "node_request_init i =
     \<lparr> o_id = i, o_state = None, o_state_time = JNull, o_stat = None,
       r_lock = False, r_thread_lock = False,
       r_declined_by = JList [], r_node_types = JList [], r_nodes = JList [],
       r_reuse = JBool True, r_requestor = JNull, r_requestor_data = JNull, r_provider = JNull,
       r_relative_priority = JNum 0, r_event_id = JNull, r_created_time = JNull,
       r_tenant_name = JNull \<rparr>"

definition node_request_eq :: "node_request \<Rightarrow> node_request \<Rightarrow> bool" where
  "node_request_eq a b =
     (o_id a = o_id b \<and> r_declined_by a = r_declined_by b \<and> r_node_types a = r_node_types b \<and>
      r_nodes a = r_nodes b \<and> r_reuse a = r_reuse b \<and> r_requestor a = r_requestor b \<and>
      r_requestor_data a = r_requestor_data b \<and> r_provider a = r_provider b \<and>
      r_relative_priority a = r_relative_priority b \<and> r_created_time a = r_created_time b \<and>
      r_tenant_name a = r_tenant_name b)"

text \<open>The sort key: queue precedence, relative priority, then the sequence number.\<close>

definition request_priority :: "node_request \<Rightarrow> (string \<times> json \<times> string) res" where
  "request_priority r =
     (case o_id r of
        None \<Rightarrow> Inl AttributeError
      | Some i \<Rightarrow> (case py_split (CHR ''-'') i of
                    [precedence, sequence] \<Rightarrow> Inr (precedence, r_relative_priority r, sequence)
                  | _ \<Rightarrow> Inl ValueError))"

definition node_request_toDict :: "node_request \<Rightarrow> pydict" where
  "node_request_toDict r =
     base_toDict r
     @ [(''declined_by'', r_declined_by r), (''node_types'', r_node_types r),
        (''nodes'', r_nodes r), (''reuse'', r_reuse r), (''requestor'', r_requestor r),
        (''requestor_data'', r_requestor_data r), (''provider'', r_provider r),
        (''relative_priority'', r_relative_priority r), (''event_id'', r_event_id r),
        (''created_time'', r_created_time r), (''tenant_name'', r_tenant_name r)]"

definition node_request_updateFromDict ::
  "pydict \<Rightarrow> rat \<Rightarrow> node_request \<Rightarrow> node_request upd" where
  "node_request_updateFromDict d now r =
     (case base_updateFromDict NODE_REQUEST_STATES d now r of
        (Some e, r') \<Rightarrow> (Some e, r')
      | (None, r') \<Rightarrow>
          (None, r'\<lparr> r_declined_by := dget_or d ''declined_by'' (JList []),
                     r_node_types := dget_or d ''node_types'' (JList []),
                     r_nodes := dget_or d ''nodes'' (JList []),
                     r_reuse := dget_or d ''reuse'' (JBool True),
                     r_requestor := dget d ''requestor'',
                     r_requestor_data := dget d ''requestor_data'',
                     r_provider := dget d ''provider'',
                     r_relative_priority := dget_or d ''relative_priority'' (JNum 0),
                     r_event_id := dget d ''event_id'',
                     r_created_time := dget d ''created_time'',
                     r_tenant_name := dget d ''tenant_name'' \<rparr>))"

definition node_request_fromDict :: "pydict \<Rightarrow> string option \<Rightarrow> rat \<Rightarrow> node_request res" where
  "node_request_fromDict d i now =
     from_upd (node_request_updateFromDict d now (node_request_init i))"

text \<open>\<open>getSafeAttributes\<close>: the attributes a user-visible template may see.\<close>

definition request_safe_attributes :: "node_request \<Rightarrow> pydict" where
  "request_safe_attributes r =
     [(''id'', case o_id r of None \<Rightarrow> JNull | Some i \<Rightarrow> JStr i),
      (''labels'', r_node_types r), (''requestor'', r_requestor r),
      (''requestor_data'', r_requestor_data r), (''relative_priority'', r_relative_priority r),
      (''event_id'', r_event_id r), (''created_time'', r_created_time r),
      (''tenant_name'', r_tenant_name r)]"

end
