(* ===== verification/ZkNode.thy ===== *)
theory ZkNode
  imports ZkModel
begin

section \<open>Nodes\<close>

text \<open>
  The class \<open>Node\<close> of \<open>nodepool/zk/zookeeper.py\<close> and the round trips of all serialised classes:
  what \<open>toDict\<close> writes, \<open>fromDict\<close> reads back.
\<close>

record node = base_model +
  n_lock :: bool                  \<comment> \<open>the ZooKeeper lock object is set; not serialised\<close>
  n_thread_lock :: bool           \<comment> \<open>the local thread lock is held; not serialised\<close>
  n_lock_contenders :: "string set"
  n_cloud :: json
  n_provider :: json
  n_pool :: json
  n_type :: "json list"
  n_allocated_to :: json
  n_az :: json
  n_region :: json
  n_public_ipv4 :: json
  n_private_ipv4 :: json
  n_public_ipv6 :: json
  n_host_id :: json
  n_interface_ip :: json
  n_connection_type :: json
  n_connection_port :: json
  n_shell_type :: json
  n_image_id :: json
  n_launcher :: json
  n_created_time :: json
  n_external_id :: json
  n_hostname :: json
  n_comment :: json
  n_user_data :: json
  n_hold_job :: json
  n_username :: json
  n_host_keys :: json
  n_hold_expiration :: json
  n_resources :: json
  n_slot :: json
  n_attributes :: json
  n_python_path :: json
  n_tenant_name :: json
  n_driver_data :: json
  n_requestor :: json

definition NODE_STATES :: "zk_state list" where
  "NODE_STATES = [BUILDING, TESTING, READY, IN_USE, USED, HOLD, DELETING, FAILED, INIT, ABORTED,
     DELETED]"

definition node_init :: "string option \<Rightarrow> node" where
  "node_init i =
     \<lparr> o_id = i, o_state = None, o_state_time = JNull, o_stat = None,
       n_lock = False, n_thread_lock = False, n_lock_contenders = {},
       n_cloud = JNull, n_provider = JNull, n_pool = JNull, n_type = [],
       n_allocated_to = JNull, n_az = JNull, n_region = JNull, n_public_ipv4 = JNull,
       n_private_ipv4 = JNull, n_public_ipv6 = JNull, n_host_id = JNull,
       n_interface_ip = JNull, n_connection_type = JNull, n_connection_port = JNum 22,
       n_shell_type = JNull, n_image_id = JNull, n_launcher = JNull, n_created_time = JNull,
       n_external_id = JNull, n_hostname = JNull, n_comment = JNull, n_user_data = JNull,
       n_hold_job = JNull, n_username = JNull, n_host_keys = JList [],
       n_hold_expiration = JNull, n_resources = JNull, n_slot = JNull, n_attributes = JNull,
       n_python_path = JNull, n_tenant_name = JNull, n_driver_data = JNull,
       n_requestor = JNull \<rparr>"

text \<open>The \<open>type\<close> setter.\<close>

definition set_type :: "json \<Rightarrow> node \<Rightarrow> node" where
  "set_type value n = n\<lparr>n_type := as_list value\<rparr>"

definition node_eq :: "node \<Rightarrow> node \<Rightarrow> bool" where
  "node_eq a b =
     (o_id a = o_id b \<and> n_cloud a = n_cloud b \<and> o_state a = o_state b \<and>
      o_state_time a = o_state_time b \<and> n_provider a = n_provider b \<and> n_pool a = n_pool b \<and>
      n_type a = n_type b \<and> n_allocated_to a = n_allocated_to b \<and> n_az a = n_az b \<and>
      n_region a = n_region b \<and> n_public_ipv4 a = n_public_ipv4 b \<and>
      n_private_ipv4 a = n_private_ipv4 b \<and> n_public_ipv6 a = n_public_ipv6 b \<and>
      n_host_id a = n_host_id b \<and> n_interface_ip a = n_interface_ip b \<and>
      n_image_id a = n_image_id b \<and> n_launcher a = n_launcher b \<and>
      n_created_time a = n_created_time b \<and> n_external_id a = n_external_id b \<and>
      n_hostname a = n_hostname b \<and> n_comment a = n_comment b \<and>
      n_user_data a = n_user_data b \<and> n_hold_job a = n_hold_job b \<and>
      n_username a = n_username b \<and> n_connection_type a = n_connection_type b \<and>
      n_connection_port a = n_connection_port b \<and> n_shell_type a = n_shell_type b \<and>
      n_host_keys a = n_host_keys b \<and> n_hold_expiration a = n_hold_expiration b \<and>
      n_resources a = n_resources b \<and> n_slot a = n_slot b \<and> n_attributes a = n_attributes b \<and>
      n_python_path a = n_python_path b \<and> n_tenant_name a = n_tenant_name b \<and>
      n_driver_data a = n_driver_data b \<and> n_requestor a = n_requestor b)"

definition node_toDict :: "node \<Rightarrow> pydict" where
  "node_toDict n =
     base_toDict n
     @ [(''cloud'', n_cloud n), (''provider'', n_provider n), (''pool'', n_pool n),
        (''type'', JList (n_type n)), (''allocated_to'', n_allocated_to n), (''az'', n_az n),
        (''region'', n_region n), (''public_ipv4'', n_public_ipv4 n),
        (''private_ipv4'', n_private_ipv4 n), (''public_ipv6'', n_public_ipv6 n),
        (''host_id'', n_host_id n), (''interface_ip'', n_interface_ip n),
        (''connection_port'', n_connection_port n), (''ssh_port'', n_connection_port n),
        (''image_id'', n_image_id n), (''launcher'', n_launcher n),
        (''created_time'', n_created_time n), (''external_id'', n_external_id n),
        (''hostname'', n_hostname n), (''comment'', n_comment n),
        (''user_data'', n_user_data n), (''hold_job'', n_hold_job n),
        (''host_keys'', n_host_keys n), (''username'', n_username n),
        (''connection_type'', n_connection_type n), (''shell_type'', n_shell_type n),
        (''hold_expiration'', n_hold_expiration n), (''resources'', n_resources n),
        (''slot'', n_slot n), (''attributes'', n_attributes n),
        (''python_path'', n_python_path n), (''tenant_name'', n_tenant_name n),
        (''driver_data'', n_driver_data n), (''requestor'', n_requestor n)]"

text \<open>
  The coercion of \<open>hold_expiration\<close>: an unreadable string becomes 0, and a value that is not a
  number or a string raises, after the attributes assigned before it.
\<close>

definition hold_expiration_of :: "json \<Rightarrow> json res" where
  "hold_expiration_of v =
     (if v \<noteq> JNull
      then (case py_int v of
              Inr i \<Rightarrow> Inr (JNum (of_int i))
            | Inl ValueError \<Rightarrow> Inr (JNum 0)
            | Inl e \<Rightarrow> Inl e)
      else Inr v)"

definition node_updateFromDict :: "pydict \<Rightarrow> rat \<Rightarrow> node \<Rightarrow> node upd" where
  "node_updateFromDict d now n =
     (case base_updateFromDict NODE_STATES d now n of
        (Some e, n1) \<Rightarrow> (Some e, n1)
      | (None, n1) \<Rightarrow>
          let n2 = set_type (dget d ''type'')
                (n1\<lparr> n_cloud := dget d ''cloud'', n_provider := dget d ''provider'',
                    n_pool := dget d ''pool'', n_allocated_to := dget d ''allocated_to'',
                    n_az := dget d ''az'', n_region := dget d ''region'',
                    n_public_ipv4 := dget d ''public_ipv4'',
                    n_private_ipv4 := dget d ''private_ipv4'',
                    n_public_ipv6 := dget d ''public_ipv6'', n_host_id := dget d ''host_id'',
                    n_interface_ip := dget d ''interface_ip'',
                    n_connection_port :=
                      dget_or d ''connection_port'' (dget_or d ''ssh_port'' (JNum 22)),
                    n_image_id := dget d ''image_id'', n_launcher := dget d ''launcher'',
                    n_created_time := dget d ''created_time'',
                    n_external_id := dget d ''external_id'', n_hostname := dget d ''hostname'',
                    n_comment := dget d ''comment'', n_user_data := dget d ''user_data'',
                    n_hold_job := dget d ''hold_job'',
                    n_username := dget_or d ''username'' (JStr ''zuul''),
                    n_connection_type := dget d ''connection_type'',
                    n_host_keys := dget_or d ''host_keys'' (JList []) \<rparr>)
          in (case hold_expiration_of (dget d ''hold_expiration'') of
                Inl e \<Rightarrow> (Some e, n2)
              | Inr h \<Rightarrow>
                  (None, n2\<lparr> n_hold_expiration := h, n_resources := dget d ''resources'',
                            n_slot := dget d ''slot'', n_attributes := dget d ''attributes'',
                            n_python_path := dget d ''python_path'',
                            n_shell_type := dget d ''shell_type'',
                            n_tenant_name := dget d ''tenant_name'',
                            n_driver_data := dget d ''driver_data'',
                            n_requestor := dget d ''requestor'' \<rparr>)))"

definition node_fromDict :: "pydict \<Rightarrow> string option \<Rightarrow> rat \<Rightarrow> node res" where
  "node_fromDict d i now = from_upd (node_updateFromDict d now (node_init i))"

subsection \<open>Round trips\<close>

text \<open>
  What a class must promise for its objects to survive a trip through ZooKeeper: reading what was
  written gives an object with the same dictionary, and the object read does not depend on the
  clock. \<open>good\<close> is what the class asks of an object for that.
\<close>

locale serializable =
  fixes to_dict :: "'o \<Rightarrow> pydict"
    and from_dict :: "pydict \<Rightarrow> rat \<Rightarrow> 'o res"
    and good :: "'o \<Rightarrow> bool"
    and reread :: "'o \<Rightarrow> 'o"
  assumes read_back: "good ob \<Longrightarrow> from_dict (to_dict ob) now = Inr (reread ob)"
    and same_dict: "good ob \<Longrightarrow> to_dict (reread ob) = to_dict ob"
    and reread_good: "good ob \<Longrightarrow> good (reread ob)"
begin

text \<open>Reading is idempotent: the object that was read writes, and reads back, the same.\<close>

lemma reread_idem: "good ob \<Longrightarrow> reread (reread ob) = reread ob"
proof -
  assume g: "good ob"
  have "Inr (reread (reread ob)) = from_dict (to_dict (reread ob)) 0"
    using read_back [OF reread_good [OF g]] by simp
  also have "\<dots> = Inr (reread ob)"
    using g by (simp add: same_dict read_back)
  finally show ?thesis by simp
qed

text \<open>Two objects with the same dictionary read back as the same object.\<close>

lemma dict_determines: "good a \<Longrightarrow> good b \<Longrightarrow> to_dict a = to_dict b \<Longrightarrow> reread a = reread b"
  by (metis read_back Inr_inject)

end

lemma hold_expiration_of_int [simp]: "hold_expiration_of (JNum (of_int i)) = Inr (JNum (of_int i))"
  by (simp add: hold_expiration_of_def)

lemma hold_expiration_of_null [simp]: "hold_expiration_of JNull = Inr JNull"
  by (simp add: hold_expiration_of_def)

definition node_good :: "node \<Rightarrow> bool" where
  "node_good n = (\<exists>st \<in> set NODE_STATES. o_state n = Some st \<and>
     (n_hold_expiration n = JNull \<or> (\<exists>i. n_hold_expiration n = JNum (of_int i))))"

text \<open>What is lost: the attributes that are not serialised are as after construction.\<close>

definition node_reread :: "string option \<Rightarrow> node \<Rightarrow> node" where
  "node_reread i n = n\<lparr>o_id := i, o_stat := None, n_lock := False, n_thread_lock := False,
     n_lock_contenders := {}\<rparr>"

lemma node_read_back:
  assumes "node_good n"
  shows "node_fromDict (node_toDict n) i now = Inr (node_reread i n)"
proof -
  from assms obtain st where st: "st \<in> set NODE_STATES" "o_state n = Some st"
    and h: "hold_expiration_of (n_hold_expiration n) = Inr (n_hold_expiration n)"
    unfolding node_good_def by fastforce
  have b: "base_updateFromDict NODE_STATES (node_toDict n) now (node_init i) =
    (None, (node_init i)\<lparr>o_state := Some st, o_state_time := o_state_time n\<rparr>)"
    unfolding node_toDict_def by (rule base_update_toDict [OF st(2,1)])
  show ?thesis
    unfolding node_fromDict_def node_updateFromDict_def b
    by (simp add: node_toDict_def base_toDict_def set_type_def h node_init_def node_reread_def st)
qed

interpretation node_ser: serializable node_toDict "\<lambda>d. node_fromDict d i" node_good "node_reread i"
  for i
  by unfold_locales
    (simp_all add: node_read_back, simp_all add: node_reread_def node_toDict_def base_toDict_def node_good_def)

section \<open>Round trips of the other serialised classes, and the stored bytes\<close>

text \<open>
  The contract \<open>serializable\<close> for node requests, image uploads and image builds, and the payload
  of a znode: \<open>serialize\<close> and \<open>_bytesToDict\<close> of \<open>nodepool/zk/zookeeper.py\<close>. The JSON text itself
  is not modelled: a payload is empty, the JSON value it encodes, or bytes that do not parse.
\<close>

subsection \<open>Node requests\<close>

definition request_good :: "node_request \<Rightarrow> bool" where
  "request_good r = (\<exists>st \<in> set NODE_REQUEST_STATES. o_state r = Some st)"

definition request_reread :: "string option \<Rightarrow> node_request \<Rightarrow> node_request" where
  "request_reread i r = r\<lparr>o_id := i, o_stat := None, r_lock := False, r_thread_lock := False\<rparr>"

lemma request_read_back:
  assumes "request_good r"
  shows "node_request_fromDict (node_request_toDict r) i now = Inr (request_reread i r)"
proof -
  from assms obtain st where st: "st \<in> set NODE_REQUEST_STATES" "o_state r = Some st"
    unfolding request_good_def by blast
  have b: "base_updateFromDict NODE_REQUEST_STATES (node_request_toDict r) now (node_request_init i)
    = (None, (node_request_init i)\<lparr>o_state := Some st, o_state_time := o_state_time r\<rparr>)"
    unfolding node_request_toDict_def by (rule base_update_toDict [OF st(2,1)])
  show ?thesis
    unfolding node_request_fromDict_def node_request_updateFromDict_def b
    by (simp add: node_request_toDict_def base_toDict_def node_request_init_def
        request_reread_def st)
qed

interpretation request_ser: serializable node_request_toDict
  "\<lambda>d. node_request_fromDict d i" request_good "request_reread i" for i
  by unfold_locales
    (simp_all add: request_read_back,
     simp_all add: request_reread_def node_request_toDict_def base_toDict_def request_good_def)

subsection \<open>Image uploads\<close>

definition upload_good :: "image_upload \<Rightarrow> bool" where
  "upload_good u = (\<exists>st \<in> set IMAGE_UPLOAD_STATES. o_state u = Some st)"

definition upload_reread ::
  "json \<Rightarrow> json \<Rightarrow> json \<Rightarrow> string option \<Rightarrow> image_upload \<Rightarrow> image_upload" where
  "upload_reread b p im i u = u\<lparr>o_id := i, o_stat := None, iu_build_id := b,
     iu_provider_name := p, iu_image_name := im\<rparr>"

lemma upload_read_back:
  assumes "upload_good u"
  shows "image_upload_fromDict (image_upload_toDict u) b p im i now = Inr (upload_reread b p im i u)"
proof -
  from assms obtain st where st: "st \<in> set IMAGE_UPLOAD_STATES" "o_state u = Some st"
    unfolding upload_good_def by blast
  have b: "base_updateFromDict IMAGE_UPLOAD_STATES (image_upload_toDict u) now
      (image_upload_init b p im i)
    = (None, (image_upload_init b p im i)\<lparr>o_state := Some st, o_state_time := o_state_time u\<rparr>)"
    unfolding image_upload_toDict_def by (rule base_update_toDict [OF st(2,1)])
  show ?thesis
    unfolding image_upload_fromDict_def image_upload_updateFromDict_def b
    by (simp add: image_upload_toDict_def base_toDict_def image_upload_init_def
        upload_reread_def st)
qed

interpretation upload_ser: serializable image_upload_toDict
  "\<lambda>d. image_upload_fromDict d b p im i" upload_good "upload_reread b p im i" for b p im i
  by unfold_locales
    (simp_all add: upload_read_back,
     simp_all add: upload_reread_def image_upload_toDict_def base_toDict_def upload_good_def)

subsection \<open>Image builds\<close>

text \<open>
  The formats are written as one comma-separated string, so a format with a comma, or the single
  empty format (which is written as the empty string), does not survive.
\<close>

definition build_good :: "image_build \<Rightarrow> bool" where
  "build_good b = ((\<exists>st \<in> set IMAGE_BUILD_STATES. o_state b = Some st) \<and>
     (\<forall>f \<in> set (ib_formats b). CHR '','' \<notin> set f) \<and> ib_formats b \<noteq> [[]])"

definition build_reread :: "json \<Rightarrow> string option \<Rightarrow> image_build \<Rightarrow> image_build" where
  "build_reread im i b = b\<lparr>o_id := i, o_stat := None, ib_image_name := im,
     ib_formats := sort (ib_formats b)\<rparr>"

lemma py_join_empty: "py_join [c] xs = [] \<longleftrightarrow> xs = [] \<or> xs = [[]]"
  by (induction "[c]" xs rule: py_join.induct) auto

lemma formats_split:
  assumes "\<forall>f \<in> set (ib_formats b). CHR '','' \<notin> set f"
    and "ib_formats b \<noteq> []"
  shows "py_split (CHR '','') (py_join '','' (formats b)) = formats b"
proof (rule py_split_join)
  show "formats b \<noteq> []"
    using assms(2) by (metis formats_def length_0_conv length_sort)
  show "\<forall>x \<in> set (formats b). CHR '','' \<notin> set x"
    using assms(1) by (simp add: formats_def)
qed

lemma formats_join_Nil:
  assumes "ib_formats b \<noteq> [[]]" and "ib_formats b \<noteq> []"
  shows "py_join '','' (formats b) \<noteq> []"
proof
  assume "py_join '','' (formats b) = []"
  then have "formats b = [] \<or> formats b = [[]]" by (simp add: py_join_empty)
  then have "mset (ib_formats b) = mset [] \<or> mset (ib_formats b) = mset [[]]"
    by (metis formats_def mset_sort)
  with assms show False by auto
qed

lemma build_read_back:
  assumes "build_good b"
  shows "image_build_fromDict (image_build_toDict b) im i now = Inr (build_reread im i b)"
proof -
  from assms obtain st where st: "st \<in> set IMAGE_BUILD_STATES" "o_state b = Some st"
    unfolding build_good_def by blast
  have b: "base_updateFromDict IMAGE_BUILD_STATES (image_build_toDict b) now (image_build_init im i)
    = (None, (image_build_init im i)\<lparr>o_state := Some st, o_state_time := o_state_time b\<rparr>)"
    unfolding image_build_toDict_def append_assoc by (rule base_update_toDict [OF st(2,1)])
  have len: "length (formats b) = length (ib_formats b)"
    by (simp add: formats_def)
  show ?thesis
  proof (cases "ib_formats b = []")
    case True
    then show ?thesis
      unfolding image_build_fromDict_def image_build_updateFromDict_def b
      by (simp add: image_build_toDict_def base_toDict_def image_build_init_def formats_def
          build_reread_def st Let_def)
  next
    case False
    then have s: "py_split (CHR '','') (py_join '','' (formats b)) = formats b"
      and ne: "py_join '','' (formats b) \<noteq> []"
      using assms formats_split formats_join_Nil unfolding build_good_def by blast+
    have "formats b = sort (ib_formats b)" by (simp add: formats_def)
    with False s ne show ?thesis
      unfolding image_build_fromDict_def image_build_updateFromDict_def b
      by (simp add: image_build_toDict_def base_toDict_def image_build_init_def len
          build_reread_def st Let_def)
  qed
qed

lemma build_reread_formats: "formats (build_reread im i b) = formats b"
  by (simp add: formats_def build_reread_def sorted_sort_id)

lemma build_reread_good: "build_good b \<Longrightarrow> build_good (build_reread im i b)"
proof -
  assume g: "build_good b"
  have "sort (ib_formats b) \<noteq> [[]]"
  proof
    assume "sort (ib_formats b) = [[]]"
    then have "mset (ib_formats b) = mset [[]]" by (metis mset_sort)
    then have "ib_formats b = [[]]" by simp
    with g show False by (simp add: build_good_def)
  qed
  with g show ?thesis by (simp add: build_good_def build_reread_def)
qed

interpretation build_ser: serializable image_build_toDict
  "\<lambda>d. image_build_fromDict d im i" build_good "build_reread im i" for im i
  by unfold_locales
    (simp_all add: build_read_back build_reread_good,
     simp add: image_build_toDict_def base_toDict_def build_reread_formats,
     simp add: build_reread_def)

subsection \<open>Payloads\<close>

datatype zdata = NoData | Json json | Garbage string

definition serialize :: "pydict \<Rightarrow> zdata" where
  "serialize d = Json (JDict d)"

text \<open>
  \<open>json.loads\<close>: unparsable bytes (the empty string included) raise. A value that is not an
  object is returned as it is, and fails in the caller when it looks a key up.
\<close>

fun bytesToDict :: "zdata \<Rightarrow> pydict res" where
  "bytesToDict (Json (JDict d)) = Inr d"
| "bytesToDict (Json (JStr s)) = Inl AttributeError"
| "bytesToDict (Json (JList xs)) = Inl AttributeError"
| "bytesToDict (Json _) = Inl TypeError"
| "bytesToDict NoData = Inl JSONDecodeError"
| "bytesToDict (Garbage s) = Inl JSONDecodeError"

lemma bytesToDict_serialize [simp]: "bytesToDict (serialize d) = Inr d"
  by (simp add: serialize_def)

text \<open>Whether \<open>if data:\<close> holds for a payload.\<close>

fun has_data :: "zdata \<Rightarrow> bool" where
  "has_data NoData = False"
| "has_data _ = True"

end
