(* ===== verification/ZkPaths.thy ===== *)
theory ZkPaths
  imports ZkNode
begin

section \<open>Paths in ZooKeeper\<close>

text \<open>
  The path builders and path parsers of the class \<open>ZooKeeper\<close>. A parser returns the cache key, a
  tuple of path components (here a list), or \<open>None\<close> for a path it does not know.
\<close>

definition IMAGE_ROOT :: string where "IMAGE_ROOT = ''/nodepool/images''"
definition LAUNCHER_ROOT :: string where "LAUNCHER_ROOT = ''/nodepool/launchers''"
definition NODE_ROOT :: string where "NODE_ROOT = ''/nodepool/nodes''"
definition REQUEST_ROOT :: string where "REQUEST_ROOT = ''/nodepool/requests''"
definition REQUEST_LOCK_ROOT :: string where "REQUEST_LOCK_ROOT = ''/nodepool/requests-lock''"
definition ELECTION_ROOT :: string where "ELECTION_ROOT = ''/nodepool/elections''"

type_synonym key = "string list"

abbreviation slash :: char where "slash \<equiv> CHR ''/''"

definition electionPath :: "string \<Rightarrow> string" where
  "electionPath election = ELECTION_ROOT @ ''/'' @ election"

definition imagePath :: "string \<Rightarrow> string" where
  "imagePath img = IMAGE_ROOT @ ''/'' @ img"

definition parseImagePath :: "string \<Rightarrow> key option" where
  "parseImagePath path =
     (if \<not> startswith path IMAGE_ROOT then None
      else let parts = py_split slash (drop (length IMAGE_ROOT) path)
           in if length parts \<noteq> 2 then None
              else if last parts = ''lock'' then None
              else Some [parts ! 1])"

definition imageBuildRequestPath :: "string \<Rightarrow> string" where
  "imageBuildRequestPath img = imagePath img @ ''/request-build''"

definition imageBuildsPath :: "string \<Rightarrow> string" where
  "imageBuildsPath img = imagePath img @ ''/builds''"

definition imagePausePath :: "string \<Rightarrow> string" where
  "imagePausePath img = imagePath img @ ''/pause''"

definition parseImagePausePath :: "string \<Rightarrow> key option" where
  "parseImagePausePath path =
     (if \<not> startswith path IMAGE_ROOT then None
      else let parts = py_split slash (drop (length IMAGE_ROOT) path)
           in if length parts \<noteq> 3 then None
              else if parts ! 2 \<noteq> ''pause'' then None
              else Some [parts ! 1])"

definition imageBuildIdPath :: "string \<Rightarrow> string \<Rightarrow> string" where
  "imageBuildIdPath img build_id = imageBuildsPath img @ ''/'' @ build_id"

definition parseImageBuildPath :: "string \<Rightarrow> key option" where
  "parseImageBuildPath path =
     (if \<not> startswith path IMAGE_ROOT then None
      else let parts = py_split slash (drop (length IMAGE_ROOT) path)
           in if length parts \<noteq> 4 then None
              else if last parts = ''lock'' then None
              else Some [parts ! 1, parts ! 3])"

definition imageBuildLockPath :: "string \<Rightarrow> string" where
  "imageBuildLockPath img = imageBuildsPath img @ ''/lock''"

definition imageBuildIdLockPath :: "string \<Rightarrow> string \<Rightarrow> string" where
  "imageBuildIdLockPath img build_id = imageBuildIdPath img build_id @ ''/lock''"

definition imageProviderPath :: "string \<Rightarrow> string \<Rightarrow> string" where
  "imageProviderPath img build_id = imageBuildsPath img @ ''/'' @ build_id @ ''/providers''"

definition imageUploadPath :: "string \<Rightarrow> string \<Rightarrow> string \<Rightarrow> string" where
  "imageUploadPath img build_id provider =
     imageBuildsPath img @ ''/'' @ build_id @ ''/providers/'' @ provider @ ''/images''"

definition parseImageUploadPath :: "string \<Rightarrow> key option" where
  "parseImageUploadPath path =
     (if \<not> startswith path IMAGE_ROOT then None
      else let parts = py_split slash (drop (length IMAGE_ROOT) path)
           in if length parts \<noteq> 8 then None
              else if last parts = ''lock'' then None
              else Some [parts ! 1, parts ! 3, parts ! 5, parts ! 7])"

definition imageUploadLockPath :: "string \<Rightarrow> string \<Rightarrow> string \<Rightarrow> string" where
  "imageUploadLockPath img build_id provider =
     imageUploadPath img build_id provider @ ''/lock''"

definition imageUploadNumberLockPath :: "string \<Rightarrow> string \<Rightarrow> string \<Rightarrow> string \<Rightarrow> string" where
  "imageUploadNumberLockPath img build_id provider upload_number =
     imageUploadPath img build_id provider @ ''/'' @ upload_number @ ''/lock''"

definition launcherPath :: "string \<Rightarrow> string" where
  "launcherPath launcher = LAUNCHER_ROOT @ ''/'' @ launcher"

definition nodePath :: "string \<Rightarrow> string" where
  "nodePath node = NODE_ROOT @ ''/'' @ node"

definition parseNodePath :: "string \<Rightarrow> key option" where
  "parseNodePath path =
     (if \<not> startswith path NODE_ROOT then None
      else let parts = py_split slash (drop (length NODE_ROOT) path)
           in if length parts \<noteq> 2 then None
              else if last parts = ''lock'' then None
              else Some [parts ! 1])"

definition nodeLockPath :: "string \<Rightarrow> string" where
  "nodeLockPath node = NODE_ROOT @ ''/'' @ node @ ''/lock''"

definition parseNodeLockPath :: "string \<Rightarrow> key option" where
  "parseNodeLockPath path =
     (if \<not> startswith path NODE_ROOT then None
      else let parts = py_split slash (drop (length NODE_ROOT) path)
           in if length parts \<noteq> 4 then None
              else if parts ! 2 \<noteq> ''lock'' then None
              else Some [parts ! 1, parts ! 3])"

definition requestPath :: "string \<Rightarrow> string" where
  "requestPath request = REQUEST_ROOT @ ''/'' @ request"

definition parseRequestPath :: "string \<Rightarrow> key option" where
  "parseRequestPath path =
     (if \<not> startswith path REQUEST_ROOT then None
      else let parts = py_split slash (drop (length REQUEST_ROOT) path)
           in if length parts \<noteq> 2 then None
              else if last parts = ''lock'' then None
              else Some [parts ! 1])"

definition requestLockPath :: "string \<Rightarrow> string" where
  "requestLockPath request = REQUEST_LOCK_ROOT @ ''/'' @ request"

text \<open>\<open>ImageCache.parsePath\<close>: uploads, then builds, then images.\<close>

definition imageCache_parsePath :: "string \<Rightarrow> key option" where
  "imageCache_parsePath path =
     (case parseImageUploadPath path of
        Some r \<Rightarrow> Some r
      | None \<Rightarrow> (case parseImageBuildPath path of
                  Some r \<Rightarrow> Some r
                | None \<Rightarrow> parseImagePath path))"

subsection \<open>Building and parsing\<close>

text \<open>A path component: no separator inside, and not the reserved name of a lock.\<close>

definition component :: "string \<Rightarrow> bool" where
  "component s = (slash \<notin> set s \<and> s \<noteq> ''lock'')"

text \<open>The path of a root and a list of components, and how every parser takes it apart.\<close>

fun slashes :: "string list \<Rightarrow> string" where
  "slashes [] = []"
| "slashes (p # ps) = slash # p @ slashes ps"

definition under :: "string \<Rightarrow> string list \<Rightarrow> string" where
  "under rt ps = rt @ slashes ps"

lemma split_slashes: "\<forall>p \<in> set ps. slash \<notin> set p \<Longrightarrow> py_split slash (slashes ps) = [] # ps"
proof (induction ps)
  case (Cons p ps)
  then have "py_split slash (slashes ps) = [] # ps" by simp
  with Cons.prems show ?case
    by (cases ps) (simp_all add: str_simps)
qed simp

lemma join_slashes: "py_join [slash] ([] # ps) = slashes ps"
proof (induction ps)
  case (Cons p ps)
  then show ?case by (cases ps) simp_all
qed simp

lemma parts_under:
  "\<forall>p \<in> set ps. slash \<notin> set p \<Longrightarrow>
     startswith (under rt ps) rt \<and> py_split slash (drop (length rt) (under rt ps)) = [] # ps"
  by (simp add: under_def split_slashes)

text \<open>Every builder is \<open>under\<close> of its root.\<close>

named_theorems path_under \<open>path builders as root and components\<close>

lemma imagePath_under [path_under]: "imagePath i = under IMAGE_ROOT [i]"
  by (simp add: under_def imagePath_def)

lemma imageBuildRequestPath_under [path_under]:
  "imageBuildRequestPath i = under IMAGE_ROOT [i, ''request-build'']"
  by (simp add: under_def imageBuildRequestPath_def imagePath_def)

lemma imageBuildsPath_under [path_under]: "imageBuildsPath i = under IMAGE_ROOT [i, ''builds'']"
  by (simp add: under_def imageBuildsPath_def imagePath_def)

lemma imagePausePath_under [path_under]: "imagePausePath i = under IMAGE_ROOT [i, ''pause'']"
  by (simp add: under_def imagePausePath_def imagePath_def)

lemma imageBuildIdPath_under [path_under]:
  "imageBuildIdPath i b = under IMAGE_ROOT [i, ''builds'', b]"
  by (simp add: under_def imageBuildIdPath_def imageBuildsPath_def imagePath_def)

lemma imageProviderPath_under [path_under]:
  "imageProviderPath i b = under IMAGE_ROOT [i, ''builds'', b, ''providers'']"
  by (simp add: under_def imageProviderPath_def imageBuildsPath_def imagePath_def)

lemma imageUploadPath_under [path_under]:
  "imageUploadPath i b p = under IMAGE_ROOT [i, ''builds'', b, ''providers'', p, ''images'']"
  by (simp add: under_def imageUploadPath_def imageBuildsPath_def imagePath_def)

lemma imageUploadNumberPath_under:
  "imageUploadPath i b p @ ''/'' @ u =
     under IMAGE_ROOT [i, ''builds'', b, ''providers'', p, ''images'', u]"
  by (simp add: under_def imageUploadPath_def imageBuildsPath_def imagePath_def)

lemma nodePath_under [path_under]: "nodePath n = under NODE_ROOT [n]"
  by (simp add: under_def nodePath_def)

lemma nodeLockPath_under [path_under]: "nodeLockPath n = under NODE_ROOT [n, ''lock'']"
  by (simp add: under_def nodeLockPath_def)

lemma requestPath_under [path_under]: "requestPath r = under REQUEST_ROOT [r]"
  by (simp add: under_def requestPath_def)

lemmas parse_defs = parseImagePath_def parseImagePausePath_def parseImageBuildPath_def
  parseImageUploadPath_def parseNodePath_def parseNodeLockPath_def parseRequestPath_def

lemma under_inj:
  assumes "\<forall>p \<in> set ps. slash \<notin> set p" and "\<forall>p \<in> set qs. slash \<notin> set p"
    and "under rt ps = under rt qs"
  shows "ps = qs"
proof -
  have "[] # ps = py_split slash (drop (length rt) (under rt ps))"
    using parts_under [OF assms(1), of rt] by metis
  also have "\<dots> = [] # qs"
    using parts_under [OF assms(2), of rt] assms(3) by metis
  finally show ?thesis by simp
qed

text \<open>What a path under a root splits into determines the path.\<close>

lemma parts_determine:
  assumes "startswith p rt" and "py_split slash (drop (length rt) p) = [] # ps"
  shows "p = under rt ps"
proof -
  from assms(1) obtain t where p: "p = rt @ t" by (auto elim: startswithE)
  have "t = py_join [slash] (py_split slash t)" by (simp add: py_join_split)
  also have "\<dots> = slashes ps" using assms(2) p by (simp add: join_slashes)
  finally show ?thesis using p by (simp add: under_def)
qed

text \<open>
  The node parser inverts the node path, and knows no other path below the root's separator.
\<close>

lemma parseNodePath_sound:
  assumes "parseNodePath p = Some k" and "startswith p (NODE_ROOT @ ''/'')"
  shows "\<exists>n. k = [n] \<and> p = nodePath n \<and> component n"
proof -
  define parts where "parts = py_split slash (drop (length NODE_ROOT) p)"
  from assms(1) have rt: "startswith p NODE_ROOT" and len: "length parts = 2"
    and lk: "last parts \<noteq> ''lock''" and k: "k = [parts ! 1]"
    unfolding parts_def by (auto simp: parseNodePath_def Let_def split: if_splits)
  from assms(2) obtain t where "p = (NODE_ROOT @ ''/'') @ t" by (auto elim: startswithE)
  then have parts: "parts = [] # py_split slash t" by (simp add: parts_def)
  then have "length (py_split slash t) = Suc 0" using len by simp
  then obtain n where "py_split slash t = [n]" unfolding length_Suc_conv by blast
  with parts have n: "parts = [[], n]" by simp
  then have sp: "py_split slash (drop (length NODE_ROOT) p) = [] # [n]"
    by (simp add: parts_def)
  have "p = under NODE_ROOT [n]"
    using rt sp by (rule parts_determine)
  moreover have "slash \<notin> set n"
    by (rule py_split_free_parts [of _ slash "drop (length NODE_ROOT) p"]) (simp add: sp)
  ultimately show ?thesis using k lk n by (auto simp: component_def nodePath_under)
qed

text \<open>The image parsers on the paths of the image tree.\<close>

lemma parse_under:
  assumes "\<forall>p \<in> set ps. slash \<notin> set p"
  shows "parseImageUploadPath (under IMAGE_ROOT ps) =
           (if length ps = 7 \<and> last ps \<noteq> ''lock'' then Some [ps ! 0, ps ! 2, ps ! 4, ps ! 6] else None)"
    and "parseImageBuildPath (under IMAGE_ROOT ps) =
           (if length ps = 3 \<and> last ps \<noteq> ''lock'' then Some [ps ! 0, ps ! 2] else None)"
    and "parseImagePath (under IMAGE_ROOT ps) =
           (if length ps = 1 \<and> last ps \<noteq> ''lock'' then Some [ps ! 0] else None)"
    and "parseImagePausePath (under IMAGE_ROOT ps) =
           (if length ps = 2 \<and> ps ! 1 = ''pause'' then Some [ps ! 0] else None)"
    and "parseNodePath (under NODE_ROOT ps) =
           (if length ps = 1 \<and> last ps \<noteq> ''lock'' then Some [ps ! 0] else None)"
    and "parseNodeLockPath (under NODE_ROOT ps) =
           (if length ps = 3 \<and> ps ! 1 = ''lock'' then Some [ps ! 0, ps ! 2] else None)"
    and "parseRequestPath (under REQUEST_ROOT ps) =
           (if length ps = 1 \<and> last ps \<noteq> ''lock'' then Some [ps ! 0] else None)"
  using parts_under [OF assms] by (auto simp: parse_defs Let_def)

text \<open>The image cache's key of a path of the image tree, by the number of components.\<close>

lemma imageCache_key_under:
  assumes "\<forall>p \<in> set ps. slash \<notin> set p"
  shows "imageCache_parsePath (under IMAGE_ROOT ps) =
     (if last ps = ''lock'' then None
      else if length ps = 7 then Some [ps ! 0, ps ! 2, ps ! 4, ps ! 6]
      else if length ps = 3 then Some [ps ! 0, ps ! 2]
      else if length ps = 1 then Some [ps ! 0] else None)"
  using parse_under [OF assms] by (auto simp: imageCache_parsePath_def)

text \<open>
  The request parser compares the root without a separator behind it, so it also takes the znodes
  of the lock tree for requests.
\<close>

lemma requestLockPath_parsed:
  assumes "component r"
  shows "parseRequestPath (requestLockPath r) = Some [r]"
proof -
  have eq: "requestLockPath r = REQUEST_ROOT @ ''-lock/'' @ r"
    by (simp add: requestLockPath_def REQUEST_LOCK_ROOT_def REQUEST_ROOT_def)
  have "py_split slash (drop (length REQUEST_ROOT) (requestLockPath r)) = [''-lock'', r]"
    using assms by (simp add: eq component_def str_simps)
  then show ?thesis
    using assms by (simp add: parseRequestPath_def Let_def component_def eq)
qed

end
