(* ===== verification/Kazoo.thy ===== *)
theory Kazoo
  imports ZkPaths
begin

section \<open>The ZooKeeper client\<close>

text \<open>
  The kazoo client and the ZooKeeper server are not part of the program: they are a record of
  functions over an abstract server state \<open>'z\<close>, which every operation of the class \<open>ZooKeeper\<close>
  takes as its first argument. What the program relies on is the locale \<open>zk_server\<close>: the documented
  behaviour of the client's calls, stated over the map from paths to payloads. An in-memory server
  (paths with data and statistics, a transaction counter and a sequence counter per parent) shows
  that the laws can hold together.
\<close>

record 'z kazoo =
  kz_get :: "string \<Rightarrow> 'z \<Rightarrow> (zdata \<times> zstat) res"
  kz_children :: "string \<Rightarrow> 'z \<Rightarrow> string list res"
  kz_exists :: "string \<Rightarrow> 'z \<Rightarrow> zstat option"
  kz_set :: "string \<Rightarrow> zdata \<Rightarrow> 'z \<Rightarrow> 'z res"
  kz_create :: "string \<Rightarrow> zdata \<Rightarrow> bool \<Rightarrow> 'z \<Rightarrow> 'z res"
    \<comment> \<open>path, value, makepath\<close>
  kz_create_seq :: "string \<Rightarrow> zdata \<Rightarrow> 'z \<Rightarrow> (string \<times> 'z) res"
    \<comment> \<open>path prefix, value; with makepath; returns the path made\<close>
  kz_delete :: "string \<Rightarrow> bool \<Rightarrow> 'z \<Rightarrow> 'z res"
    \<comment> \<open>path, recursive\<close>
  kz_ensure_path :: "string \<Rightarrow> 'z \<Rightarrow> 'z res"

text \<open>The subtree of a path: the path itself and what is below its separator.\<close>

definition in_subtree :: "string \<Rightarrow> string \<Rightarrow> bool" where
  "in_subtree p q = (q = p \<or> startswith q (p @ ''/''))"

text \<open>The proper ancestors of a path: what \<open>makepath\<close> may have to create.\<close>

definition ancestor :: "string \<Rightarrow> string \<Rightarrow> bool" where
  "ancestor a p = startswith p (a @ ''/'')"

locale zk_server =
  fixes K :: "'z kazoo"
    and tree :: "'z \<Rightarrow> string \<Rightarrow> zdata option"
  assumes get_missing: "tree z p = None \<Longrightarrow> kz_get K p z = Inl NoNodeError"
    and get_there: "tree z p = Some d \<Longrightarrow> \<exists>st. kz_get K p z = Inr (d, st)"
    and exists_iff: "kz_exists K p z \<noteq> None \<longleftrightarrow> tree z p \<noteq> None"
    and children_missing: "tree z p = None \<Longrightarrow> kz_children K p z = Inl NoNodeError"
    and children_there: "tree z p \<noteq> None \<Longrightarrow>
          \<exists>cs. kz_children K p z = Inr cs \<and> distinct cs \<and>
            (\<forall>c. c \<in> set cs \<longleftrightarrow> (slash \<notin> set c \<and> tree z (p @ ''/'' @ c) \<noteq> None))"
    and set_missing: "tree z p = None \<Longrightarrow> kz_set K p d z = Inl NoNodeError"
    and set_there: "tree z p \<noteq> None \<Longrightarrow>
          \<exists>z'. kz_set K p d z = Inr z' \<and> tree z' = (tree z)(p \<mapsto> d)"
    and create_there: "tree z p \<noteq> None \<Longrightarrow> kz_create K p d mk z = Inl NodeExistsError"
    and create_new: "tree z p = None \<Longrightarrow> kz_create K p d True z = Inr z' \<Longrightarrow>
          tree z' p = Some d \<and>
          (\<forall>q. q \<noteq> p \<longrightarrow> tree z' q = (if tree z q = None \<and> ancestor q p \<and> tree z' q \<noteq> None
                                    then Some NoData else tree z q))"
    and create_ok: "tree z p = None \<Longrightarrow> \<exists>z'. kz_create K p d True z = Inr z'"
    and create_seq: "kz_create_seq K p d z = Inr (path, z') \<Longrightarrow>
          \<exists>n. path = p @ n \<and> n \<noteq> [] \<and> slash \<notin> set n \<and> n \<noteq> ''lock'' \<and> tree z path = None \<and>
            tree z' path = Some d \<and>
            (\<forall>q. q \<noteq> path \<longrightarrow> tree z' q = (if tree z q = None \<and> ancestor q path \<and> tree z' q \<noteq> None
                                         then Some NoData else tree z q))"
    and delete_missing: "tree z p = None \<Longrightarrow> kz_delete K p r z = Inl NoNodeError"
    and delete_rec: "tree z p \<noteq> None \<Longrightarrow>
          \<exists>z'. kz_delete K p True z = Inr z' \<and>
            tree z' = (\<lambda>q. if in_subtree p q then None else tree z q)"
    and delete_plain: "kz_delete K p False z = Inr z' \<Longrightarrow> tree z' = (tree z)(p := None)"
begin

lemma get_cases:
  obtains (missing) "tree z p = None" "kz_get K p z = Inl NoNodeError"
  | (there) d st where "tree z p = Some d" "kz_get K p z = Inr (d, st)"
  by (metis get_missing get_there option.exhaust)

lemma get_after_set:
  assumes "kz_set K p d z = Inr z'"
  shows "\<exists>st. kz_get K p z' = Inr (d, st)"
proof -
  from assms have "tree z p \<noteq> None" using set_missing by force
  then obtain z'' where "kz_set K p d z = Inr z''" "tree z'' = (tree z)(p \<mapsto> d)"
    using set_there by blast
  with assms show ?thesis using get_there by simp
qed

lemma get_after_delete:
  assumes "kz_delete K p True z = Inr z'"
  shows "kz_get K p z' = Inl NoNodeError"
proof -
  from assms have "tree z p \<noteq> None" using delete_missing by force
  then obtain z'' where "kz_delete K p True z = Inr z''"
    "tree z'' = (\<lambda>q. if in_subtree p q then None else tree z q)"
    using delete_rec by blast
  with assms show ?thesis by (intro get_missing) (simp add: in_subtree_def)
qed

lemma get_after_create_seq:
  assumes "kz_create_seq K p d z = Inr (path, z')"
  shows "\<exists>st. kz_get K path z' = Inr (d, st)"
  using create_seq [OF assms] get_there by blast

text \<open>Setting or deleting a path leaves the other paths alone.\<close>

lemma tree_after_set:
  "kz_set K p d z = Inr z' \<Longrightarrow> tree z' = (tree z)(p \<mapsto> d)"
  by (metis Inl_Inr_False Inr_inject set_missing set_there)

lemma tree_after_delete:
  "kz_delete K p True z = Inr z' \<Longrightarrow> tree z' = (\<lambda>q. if in_subtree p q then None else tree z q)"
  by (metis Inl_Inr_False Inr_inject delete_missing delete_rec)

end

subsection \<open>An in-memory server\<close>

record mem_node =
  mn_data :: zdata
  mn_created :: rat
  mn_mzxid :: int
  mn_mtime :: rat
  mn_creates :: nat   \<comment> \<open>children created so far: the source of sequence numbers\<close>

record mem_zk =
  mz_nodes :: "(string \<times> mem_node) list"
  mz_zxid :: int
  mz_clock :: rat

definition mem_tree :: "mem_zk \<Rightarrow> string \<Rightarrow> zdata option" where
  "mem_tree z p = map_option mn_data (map_of (mz_nodes z) p)"

text \<open>The child names of a path among some paths.\<close>

definition child_name :: "string \<Rightarrow> string \<Rightarrow> string option" where
  "child_name p q =
     (if startswith q (p @ ''/'') \<and> slash \<notin> set (drop (Suc (length p)) q)
      then Some (drop (Suc (length p)) q) else None)"

definition mem_child_names :: "string \<Rightarrow> mem_zk \<Rightarrow> string list" where
  "mem_child_names p z = remdups (List.map_filter (child_name p) (map fst (mz_nodes z)))"

definition mem_stat :: "string \<Rightarrow> mem_zk \<Rightarrow> mem_node \<Rightarrow> zstat" where
  "mem_stat p z n = \<lparr> created = mn_created n, mzxid = mn_mzxid n,
     children_count = length (mem_child_names p z), mtime = mn_mtime n \<rparr>"

definition mem_get :: "string \<Rightarrow> mem_zk \<Rightarrow> (zdata \<times> zstat) res" where
  "mem_get p z = (case map_of (mz_nodes z) p of
     None \<Rightarrow> Inl NoNodeError | Some n \<Rightarrow> Inr (mn_data n, mem_stat p z n))"

definition mem_children :: "string \<Rightarrow> mem_zk \<Rightarrow> string list res" where
  "mem_children p z = (case map_of (mz_nodes z) p of
     None \<Rightarrow> Inl NoNodeError | Some n \<Rightarrow> Inr (mem_child_names p z))"

definition mem_exists :: "string \<Rightarrow> mem_zk \<Rightarrow> zstat option" where
  "mem_exists p z = map_option (mem_stat p z) (map_of (mz_nodes z) p)"

definition mem_write :: "string \<Rightarrow> mem_node \<Rightarrow> mem_zk \<Rightarrow> mem_zk" where
  "mem_write p n z = z\<lparr>mz_nodes := AList.update p n (mz_nodes z), mz_zxid := mz_zxid z + 1\<rparr>"

definition mem_set :: "string \<Rightarrow> zdata \<Rightarrow> mem_zk \<Rightarrow> mem_zk res" where
  "mem_set p d z = (case map_of (mz_nodes z) p of
     None \<Rightarrow> Inl NoNodeError
   | Some n \<Rightarrow> Inr (mem_write p (n\<lparr>mn_data := d, mn_mzxid := mz_zxid z + 1,
               mn_mtime := 1000 * mz_clock z\<rparr>) z))"

definition mem_new :: "zdata \<Rightarrow> mem_zk \<Rightarrow> mem_node" where
  "mem_new d z = \<lparr> mn_data = d, mn_created = mz_clock z, mn_mzxid = mz_zxid z + 1,
     mn_mtime = 1000 * mz_clock z, mn_creates = 0 \<rparr>"

text \<open>The proper ancestors of a path, outermost first, and the parent.\<close>

fun prefixes_at_slash :: "string \<Rightarrow> string \<Rightarrow> string list" where
  "prefixes_at_slash acc [] = []"
| "prefixes_at_slash acc (c # cs) =
     (if c = slash then acc # prefixes_at_slash (acc @ [c]) cs
      else prefixes_at_slash (acc @ [c]) cs)"

definition ancestors :: "string \<Rightarrow> string list" where
  "ancestors p = filter (\<lambda>a. a \<noteq> []) (prefixes_at_slash [] p)"

definition mem_ensure1 :: "string \<Rightarrow> mem_zk \<Rightarrow> mem_zk" where
  "mem_ensure1 p z = (if map_of (mz_nodes z) p = None then mem_write p (mem_new NoData z) z else z)"

definition mem_make_parents :: "string \<Rightarrow> mem_zk \<Rightarrow> mem_zk" where
  "mem_make_parents p z = fold mem_ensure1 (ancestors p) z"

definition mem_parent :: "string \<Rightarrow> string" where
  "mem_parent p = (case rev (ancestors p) of [] \<Rightarrow> [] | a # as \<Rightarrow> a)"

definition mem_count :: "string \<Rightarrow> mem_zk \<Rightarrow> nat" where
  "mem_count p z = (case map_of (mz_nodes z) p of None \<Rightarrow> 0 | Some n \<Rightarrow> mn_creates n)"

definition mem_bump :: "string \<Rightarrow> nat \<Rightarrow> mem_zk \<Rightarrow> mem_zk" where
  "mem_bump p k z = (case map_of (mz_nodes z) p of
     None \<Rightarrow> z | Some n \<Rightarrow> z\<lparr>mz_nodes := AList.update p (n\<lparr>mn_creates := k\<rparr>) (mz_nodes z)\<rparr>)"

definition mem_create :: "string \<Rightarrow> zdata \<Rightarrow> bool \<Rightarrow> mem_zk \<Rightarrow> mem_zk res" where
  "mem_create p d mk z =
     (if map_of (mz_nodes z) p \<noteq> None then Inl NodeExistsError
      else if \<not> mk \<and> ancestors p \<noteq> [] \<and> map_of (mz_nodes z) (mem_parent p) = None
      then Inl NoNodeError
      else let z1 = (if mk then mem_make_parents p z else z);
               z2 = mem_bump (mem_parent p) (Suc (mem_count (mem_parent p) z1)) z1
           in Inr (mem_write p (mem_new d z2) z2))"

text \<open>Sequence numbers have ten digits (and more when they do not fit).\<close>

fun digits_rev :: "nat \<Rightarrow> nat \<Rightarrow> string" where
  "digits_rev 0 n = []"
| "digits_rev (Suc f) n = char_of (48 + n mod 10) # (if n < 10 then [] else digits_rev f (n div 10))"

definition decimal :: "nat \<Rightarrow> string" where
  "decimal n = rev (digits_rev (Suc n) n)"

definition seq_str :: "nat \<Rightarrow> string" where
  "seq_str n = replicate (10 - length (decimal n)) (CHR ''0'') @ decimal n"

definition mem_create_seq :: "string \<Rightarrow> zdata \<Rightarrow> mem_zk \<Rightarrow> (string \<times> mem_zk) res" where
  "mem_create_seq p d z =
     (let z1 = mem_make_parents p z; n = mem_count (mem_parent p) z1; path = p @ seq_str n
      in if map_of (mz_nodes z1) path \<noteq> None then Inl NodeExistsError
         else let z2 = mem_bump (mem_parent p) (Suc n) z1
              in Inr (path, mem_write path (mem_new d z2) z2))"

definition mem_delete :: "string \<Rightarrow> bool \<Rightarrow> mem_zk \<Rightarrow> mem_zk res" where
  "mem_delete p r z =
     (if map_of (mz_nodes z) p = None then Inl NoNodeError
      else if r then Inr (z\<lparr>mz_nodes := filter (\<lambda>(q, n). \<not> in_subtree p q) (mz_nodes z)\<rparr>)
      else if mem_child_names p z \<noteq> [] then Inl (OtherError ''NotEmptyError'')
      else Inr (z\<lparr>mz_nodes := AList.delete p (mz_nodes z)\<rparr>))"

definition mem_ensure_path :: "string \<Rightarrow> mem_zk \<Rightarrow> mem_zk res" where
  "mem_ensure_path p z = Inr (mem_ensure1 p (mem_make_parents p z))"

definition mem_kazoo :: "mem_zk kazoo" where
  "mem_kazoo = \<lparr> kz_get = mem_get, kz_children = mem_children, kz_exists = mem_exists,
     kz_set = mem_set, kz_create = mem_create, kz_create_seq = mem_create_seq,
     kz_delete = mem_delete, kz_ensure_path = mem_ensure_path \<rparr>"

subsection \<open>The in-memory server keeps the laws\<close>

lemma mem_tree_write [simp]: "mem_tree (mem_write p n z) = (mem_tree z)(p \<mapsto> mn_data n)"
  by (auto simp: mem_tree_def mem_write_def update_conv' fun_eq_iff)

lemma mem_tree_bump [simp]: "mem_tree (mem_bump p k z) = mem_tree z"
  by (auto simp: mem_tree_def mem_bump_def update_conv' fun_eq_iff split: option.splits)

lemma mem_tree_None: "mem_tree z p = None \<longleftrightarrow> map_of (mz_nodes z) p = None"
  by (simp add: mem_tree_def)

lemma mem_tree_ensure1:
  "mem_tree (mem_ensure1 p z) q = (if mem_tree z q = None \<and> q = p then Some NoData else mem_tree z q)"
  by (auto simp: mem_ensure1_def mem_new_def mem_tree_None [symmetric] simp del: map_of_eq_None_iff)

lemma mem_tree_ensure:
  "mem_tree (fold mem_ensure1 ps z) q =
     (if mem_tree z q = None \<and> q \<in> set ps then Some NoData else mem_tree z q)"
  by (induction ps arbitrary: z) (auto simp: mem_tree_ensure1)

lemma prefixes_at_slash_sound:
  "a \<in> set (prefixes_at_slash acc s) \<Longrightarrow> startswith (acc @ s) (a @ ''/'')"
proof (induction acc s rule: prefixes_at_slash.induct)
  case (2 acc c cs)
  then show ?case by (auto simp: startswith_def split: if_splits)
qed simp

lemma ancestors_sound: "a \<in> set (ancestors p) \<Longrightarrow> ancestor a p"
  using prefixes_at_slash_sound [of a "[]" p] by (auto simp: ancestors_def ancestor_def)

lemma not_ancestor_self: "\<not> ancestor p p"
  by (auto simp: ancestor_def startswith_def dest: arg_cong [of _ _ length])

lemma mem_tree_parents:
  "mem_tree (mem_make_parents p z) q =
     (if mem_tree z q = None \<and> q \<in> set (ancestors p) then Some NoData else mem_tree z q)"
  by (simp add: mem_make_parents_def mem_tree_ensure)

lemma digits_rev_digits: "c \<in> set (digits_rev f n) \<Longrightarrow> is_digit c"
proof (induction f n rule: digits_rev.induct)
  case (2 f n)
  have "n mod 10 < 10" by simp
  then have "is_digit (char_of (48 + n mod 10))"
    by (simp add: is_digit_def of_char_of take_bit_eq_mod)
  with 2 show ?case by (auto split: if_splits)
qed simp

lemma seq_str_digits: "c \<in> set (seq_str n) \<Longrightarrow> is_digit c"
  by (auto simp: seq_str_def decimal_def is_digit_def dest!: digits_rev_digits split: if_splits)

lemma seq_str_name: "seq_str n \<noteq> []" "slash \<notin> set (seq_str n)" "seq_str n \<noteq> ''lock''"
proof -
  show "seq_str n \<noteq> []" by (simp add: seq_str_def decimal_def)
  show "slash \<notin> set (seq_str n)"
    using seq_str_digits [of slash n] by (auto simp: is_digit_def)
  show "seq_str n \<noteq> ''lock''"
    using seq_str_digits [of "CHR ''l''" n] by (auto simp: is_digit_def)
qed

lemma startswith_iff: "startswith s p \<longleftrightarrow> (\<exists>t. s = p @ t)"
  by (auto elim: startswithE)

lemma child_name_Some:
  "child_name p q = Some c \<longleftrightarrow> slash \<notin> set c \<and> q = p @ ''/'' @ c"
  by (auto simp: child_name_def startswith_iff)

lemma mem_child_names:
  "c \<in> set (mem_child_names p z) \<longleftrightarrow> slash \<notin> set c \<and> mem_tree z (p @ ''/'' @ c) \<noteq> None"
proof -
  have gen: "(\<exists>q \<in> S. A \<and> q = x) \<longleftrightarrow> A \<and> x \<in> S" for S :: "string set" and A x
    by blast
  have "c \<in> set (mem_child_names p z) \<longleftrightarrow> (\<exists>q \<in> fst ` set (mz_nodes z). child_name p q = Some c)"
    by (force simp: mem_child_names_def List.map_filter_def)
  also have "\<dots> \<longleftrightarrow> slash \<notin> set c \<and> p @ ''/'' @ c \<in> fst ` set (mz_nodes z)"
    unfolding child_name_Some by (rule gen)
  also have "p @ ''/'' @ c \<in> fst ` set (mz_nodes z) \<longleftrightarrow> mem_tree z (p @ ''/'' @ c) \<noteq> None"
    by (simp add: mem_tree_None map_of_eq_None_iff)
  finally show ?thesis .
qed

lemma ancestors_seq:
  "a \<in> set (ancestors p) \<Longrightarrow> ancestor a (p @ n)"
  using ancestors_sound [of a p] by (auto simp: ancestor_def startswith_iff)

interpretation mem: zk_server mem_kazoo mem_tree
proof
  fix z p d and mk :: bool and z'
  show "mem_tree z p = None \<Longrightarrow> kz_get mem_kazoo p z = Inl NoNodeError"
    by (simp add: mem_kazoo_def mem_get_def mem_tree_None)
  show "mem_tree z p = Some d \<Longrightarrow> \<exists>st. kz_get mem_kazoo p z = Inr (d, st)"
    by (auto simp: mem_kazoo_def mem_get_def mem_tree_def)
  show "kz_exists mem_kazoo p z \<noteq> None \<longleftrightarrow> mem_tree z p \<noteq> None"
    by (simp add: mem_kazoo_def mem_exists_def mem_tree_def)
  show "mem_tree z p = None \<Longrightarrow> kz_children mem_kazoo p z = Inl NoNodeError"
    by (simp add: mem_kazoo_def mem_children_def mem_tree_None)
  show "mem_tree z p \<noteq> None \<Longrightarrow> \<exists>cs. kz_children mem_kazoo p z = Inr cs \<and> distinct cs \<and>
      (\<forall>c. c \<in> set cs \<longleftrightarrow> (slash \<notin> set c \<and> mem_tree z (p @ ''/'' @ c) \<noteq> None))"
    by (rule exI [of _ "mem_child_names p z"])
      (auto simp: mem_kazoo_def mem_children_def mem_child_names mem_tree_def,
       simp_all add: mem_child_names_def)
  show "mem_tree z p = None \<Longrightarrow> kz_set mem_kazoo p d z = Inl NoNodeError"
    by (simp add: mem_kazoo_def mem_set_def mem_tree_None)
  show "mem_tree z p \<noteq> None \<Longrightarrow>
      \<exists>z'. kz_set mem_kazoo p d z = Inr z' \<and> mem_tree z' = (mem_tree z)(p \<mapsto> d)"
    by (auto simp: mem_kazoo_def mem_set_def mem_tree_None)
  show "mem_tree z p \<noteq> None \<Longrightarrow> kz_create mem_kazoo p d mk z = Inl NodeExistsError"
    by (auto simp: mem_kazoo_def mem_create_def mem_tree_None)
  show "mem_tree z p = None \<Longrightarrow> \<exists>z'. kz_create mem_kazoo p d True z = Inr z'"
    by (simp add: mem_kazoo_def mem_create_def mem_tree_None Let_def)
  show "mem_tree z' p = Some d \<and> (\<forall>q. q \<noteq> p \<longrightarrow> mem_tree z' q =
      (if mem_tree z q = None \<and> ancestor q p \<and> mem_tree z' q \<noteq> None then Some NoData
       else mem_tree z q))"
    if "mem_tree z p = None" "kz_create mem_kazoo p d True z = Inr z'"
    using that by (auto simp: mem_kazoo_def mem_create_def mem_tree_None [symmetric] Let_def
        mem_new_def mem_tree_parents ancestors_sound simp del: map_of_eq_None_iff split: if_splits)
  show "\<exists>n. path = p @ n \<and> n \<noteq> [] \<and> slash \<notin> set n \<and> n \<noteq> ''lock'' \<and> mem_tree z path = None \<and>
      mem_tree z' path = Some d \<and>
      (\<forall>q. q \<noteq> path \<longrightarrow> mem_tree z' q =
         (if mem_tree z q = None \<and> ancestor q path \<and> mem_tree z' q \<noteq> None then Some NoData
          else mem_tree z q))"
    if "kz_create_seq mem_kazoo p d z = Inr (path, z')" for path
  proof -
    define n where "n = mem_count (mem_parent p) (mem_make_parents p z)"
    from that have path: "path = p @ seq_str n"
      and free: "mem_tree (mem_make_parents p z) path = None"
      and z': "z' = mem_write path (mem_new d (mem_bump (mem_parent p) (Suc n) (mem_make_parents p z)))
                      (mem_bump (mem_parent p) (Suc n) (mem_make_parents p z))"
      by (auto simp: mem_kazoo_def mem_create_seq_def Let_def n_def mem_tree_None split: if_splits)
    have "mem_tree z path = None" using free by (simp add: mem_tree_parents split: if_splits)
    then show ?thesis
      using seq_str_name [of n] by (auto simp: path z' mem_new_def mem_tree_parents ancestors_seq)
  qed
  show "mem_tree z p = None \<Longrightarrow> kz_delete mem_kazoo p mk z = Inl NoNodeError"
    by (simp add: mem_kazoo_def mem_delete_def mem_tree_None)
  have flt: "map_of (filter (\<lambda>(q, n). \<not> in_subtree p q) xs) q =
      (if in_subtree p q then None else map_of xs q)" for xs q
    by (induction xs) auto
  show "mem_tree z p \<noteq> None \<Longrightarrow> \<exists>z'. kz_delete mem_kazoo p True z = Inr z' \<and>
      mem_tree z' = (\<lambda>q. if in_subtree p q then None else mem_tree z q)"
    by (auto simp: mem_kazoo_def mem_delete_def mem_tree_def flt fun_eq_iff
        simp del: map_of_eq_None_iff)
  show "kz_delete mem_kazoo p False z = Inr z' \<Longrightarrow> mem_tree z' = (mem_tree z)(p := None)"
    by (auto simp: mem_kazoo_def mem_delete_def mem_tree_def delete_conv' fun_eq_iff
        split: if_splits)
qed

end
