(* ===== verification/ZkCache.thy ===== *)
theory ZkCache
  imports ZkPaths
begin

section \<open>The tree cache\<close>

text \<open>
  \<open>NodepoolTreeCache\<close> of \<open>nodepool/zk/zookeeper.py\<close>: watch events go through an event queue (which
  decides whether data must be fetched) and a playback queue (which applies the fetched data to
  the cached objects). A subclass is a record of its methods; the caches of nodes, requests and
  images are such records. The ZooKeeper client appears as arguments: the result of a fetch, the
  existence of a path and its children.
\<close>

subsection \<open>Events and state\<close>

datatype event_type = EvNONE | EvCREATED | EvDELETED | EvCHANGED | EvCHILD

record watched_event =
  ev_type :: event_type
  ev_path :: "string option"

text \<open>What \<open>future.get()\<close> does: data and statistics, \<open>NoNodeError\<close>, or another exception.\<close>

datatype fetched = FetchData zdata zstat | FetchNoNode | FetchError pyexc

type_synonym playback = "watched_event \<times> fetched option \<times> key option"

record 'o cache =
  c_root :: string
  cached_objects :: "(key \<times> 'o) list"
  cached_paths :: "string list"
  event_queue :: "watched_event option list"
  playback_queue :: "playback option list"
  c_ready :: bool
  c_stopped :: bool
  c_stop_workers :: bool
  c_stats_event :: bool

text \<open>The methods a subclass provides, and the attributes of its objects the base class uses.\<close>

record 'o cache_class =
  cc_parsePath :: "string \<Rightarrow> key option"
  cc_fromDict :: "pydict \<Rightarrow> key \<Rightarrow> rat \<Rightarrow> 'o res"
  cc_update :: "pydict \<Rightarrow> rat \<Rightarrow> 'o \<Rightarrow> 'o upd"
  cc_stat :: "'o \<Rightarrow> zstat option"
  cc_set_stat :: "zstat \<Rightarrow> 'o \<Rightarrow> 'o"
  cc_locked :: "'o \<Rightarrow> bool"
  cc_preHook :: "string \<Rightarrow> bool \<Rightarrow> (key \<times> 'o) list \<Rightarrow> (key \<times> 'o) list"
  cc_postHook :: "'o cache \<Rightarrow> 'o cache"

subsection \<open>Session events and initialisation\<close>

definition sessionLost :: "'o cache \<Rightarrow> 'o cache" where
  "sessionLost c = c\<lparr> c_ready := False, c_stop_workers := True,
     event_queue := event_queue c @ [None], playback_queue := playback_queue c @ [None] \<rparr>"

text \<open>
  \<open>_walkTree\<close>: the paths of the tree in the order they are visited. \<open>children\<close> is \<open>None\<close> where
  the client raises \<open>NoNodeError\<close>. The depth of the tree bounds the recursion.
\<close>

definition child_path :: "string \<Rightarrow> string \<Rightarrow> string" where
  "child_path rt child = (if rt = ''/'' then [] else rt) @ ''/'' @ child"

fun walk :: "nat \<Rightarrow> (string \<Rightarrow> string list option) \<Rightarrow> string \<Rightarrow> string list" where
  "walk 0 children rt = []"
| "walk (Suc fuel) children rt =
     rt # (case children rt of
             None \<Rightarrow> []
           | Some cs \<Rightarrow> concat (map (\<lambda>c. walk fuel children (child_path rt c)) cs))"

definition none_event :: "string \<Rightarrow> watched_event option" where
  "none_event p = Some \<lparr> ev_type = EvNONE, ev_path = Some p \<rparr>"

definition walkTree ::
  "nat \<Rightarrow> (string \<Rightarrow> bool) \<Rightarrow> (string \<Rightarrow> string list option) \<Rightarrow> 'o cache \<Rightarrow> 'o cache" where
  "walkTree fuel exist children c =
     (let seen = (if exist (c_root c) then walk fuel children (c_root c) else []);
          gone = filter (\<lambda>p. p \<notin> set seen) (cached_paths c)
      in c\<lparr> event_queue := event_queue c @ map none_event seen @ map none_event gone \<rparr>)"

text \<open>
  \<open>_start\<close>: both queues are replaced, the flags reset, the watch added and the tree walked. When
  adding the watch fails the cache stays not ready (and another start is spawned).
\<close>

definition cache_start ::
  "bool \<Rightarrow> nat \<Rightarrow> (string \<Rightarrow> bool) \<Rightarrow> (string \<Rightarrow> string list option) \<Rightarrow> 'o cache \<Rightarrow> 'o cache" where
  "cache_start watch_ok fuel exist children c =
     (let c1 = c\<lparr> c_ready := False, event_queue := [], playback_queue := [],
                 c_stop_workers := False \<rparr>
      in if watch_ok then (walkTree fuel exist children c1)\<lparr>c_ready := True\<rparr> else c1)"

definition cache_stop :: "'o cache \<Rightarrow> 'o cache" where
  "cache_stop c = c\<lparr> c_stopped := True,
     event_queue := event_queue c @ [None], playback_queue := playback_queue c @ [None] \<rparr>"

subsection \<open>The event worker\<close>

definition handleCacheEvent ::
  "'o cache_class \<Rightarrow> (string \<Rightarrow> fetched) \<Rightarrow> watched_event \<Rightarrow> 'o cache \<Rightarrow> pyexc option \<times> 'o cache" where
  "handleCacheEvent C get ev c =
     (if ev_path ev = Some (c_root c) then (None, c)
      else case ev_path ev of
        None \<Rightarrow> (if ev_type ev = EvNONE then (None, c) else (Some AttributeError, c))
      | Some path \<Rightarrow>
          let k = cc_parsePath C path;
              fetch = (ev_type ev \<noteq> EvDELETED \<and> \<not> (k = None \<and> ev_type ev \<noteq> EvNONE));
              future = (if fetch then Some (get path) else None)
          in (None, c\<lparr>playback_queue := playback_queue c @ [Some (ev, future, k)]\<rparr>))"

text \<open>One round of the worker's loop on a non-empty queue; exceptions are logged.\<close>

definition eventWorker_step ::
  "'o cache_class \<Rightarrow> (string \<Rightarrow> fetched) \<Rightarrow> 'o cache \<Rightarrow> 'o cache" where
  "eventWorker_step C get c =
     (if c_stopped c \<or> c_stop_workers c then c
      else case event_queue c of
        [] \<Rightarrow> c
      | None # q \<Rightarrow> c\<lparr>event_queue := q\<rparr>
      | Some ev # q \<Rightarrow> snd (handleCacheEvent C get ev (c\<lparr>event_queue := q\<rparr>)))"

subsection \<open>The playback worker\<close>

definition add_path :: "string \<Rightarrow> 'o cache \<Rightarrow> 'o cache" where
  "add_path p c = c\<lparr>cached_paths := List.insert p (cached_paths c)\<rparr>"

definition discard_path :: "string \<Rightarrow> 'o cache \<Rightarrow> 'o cache" where
  "discard_path p c = c\<lparr>cached_paths := removeAll p (cached_paths c)\<rparr>"

text \<open>Applying fetched data to the object of a key.\<close>

definition cache_put ::
  "'o cache_class \<Rightarrow> key \<Rightarrow> pydict \<Rightarrow> zstat \<Rightarrow> rat \<Rightarrow> 'o cache \<Rightarrow> pyexc option \<times> 'o cache" where
  "cache_put C k d stat now c =
     (case map_of (cached_objects c) k of
        Some old \<Rightarrow>
          (case cc_stat C old of
             None \<Rightarrow> (Some AttributeError, c)
           | Some ostat \<Rightarrow>
               if mzxid stat \<le> mzxid ostat then (None, c)
               else if cc_locked C old then (None, c)
               else (case cc_update C d now old of
                       (Some e, ob) \<Rightarrow>
                         (Some e, c\<lparr>cached_objects := AList.update k ob (cached_objects c)\<rparr>)
                     | (None, ob) \<Rightarrow>
                         (None, cc_postHook C
                            (c\<lparr>cached_objects :=
                                 AList.update k (cc_set_stat C stat ob) (cached_objects c)\<rparr>))))
      | None \<Rightarrow>
          (case cc_fromDict C d k now of
             Inl e \<Rightarrow> (Some e, c)
           | Inr ob \<Rightarrow>
               (None, cc_postHook C
                  (c\<lparr>cached_objects :=
                       AList.update k (cc_set_stat C stat ob) (cached_objects c)\<rparr>))))"

text \<open>
  Whether the znode exists: what the event says, else what the fetch found (no fetch counts as
  absent). Then the known paths are updated and the subclass's hook runs.
\<close>

definition present_of :: "watched_event \<Rightarrow> fetched option \<Rightarrow> bool" where
  "present_of ev future =
     (if ev_type ev = EvCREATED \<or> ev_type ev = EvCHANGED then True
      else if ev_type ev = EvDELETED then False
      else (case future of Some (FetchData d st) \<Rightarrow> True | _ \<Rightarrow> False))"

definition hooked :: "'o cache_class \<Rightarrow> string \<Rightarrow> bool \<Rightarrow> 'o cache \<Rightarrow> 'o cache" where
  "hooked C path present c =
     (let c1 = (if present then add_path path c else discard_path path c)
      in c1\<lparr>cached_objects := cc_preHook C path present (cached_objects c1)\<rparr>)"

definition cache_drop :: "'o cache_class \<Rightarrow> key \<Rightarrow> 'o cache \<Rightarrow> 'o cache" where
  "cache_drop C k c = cc_postHook C (c\<lparr>cached_objects := AList.delete k (cached_objects c)\<rparr>)"

definition handlePlayback ::
  "'o cache_class \<Rightarrow> rat \<Rightarrow> playback \<Rightarrow> 'o cache \<Rightarrow> pyexc option \<times> 'o cache" where
  "handlePlayback C now item c =
     (let (ev, future, k) = item in
      case future of
        Some (FetchError e) \<Rightarrow> (Some e, c)
      | _ \<Rightarrow>
          let c2 = hooked C (the (ev_path ev)) (present_of ev future) c
          in (case k of
                None \<Rightarrow> (None, c2)
              | Some key \<Rightarrow>
                  (case future of
                     Some (FetchData d st) \<Rightarrow>
                       (if has_data d
                        then (case bytesToDict d of
                                Inl e \<Rightarrow> (Some e, c2)
                              | Inr dict \<Rightarrow> cache_put C key dict st now c2)
                        else (None, cache_drop C key c2))
                   | _ \<Rightarrow> (None, cache_drop C key c2))))"

definition playbackWorker_step :: "'o cache_class \<Rightarrow> rat \<Rightarrow> 'o cache \<Rightarrow> 'o cache" where
  "playbackWorker_step C now c =
     (if c_stopped c \<or> c_stop_workers c then c
      else case playback_queue c of
        [] \<Rightarrow> c
      | None # q \<Rightarrow> c\<lparr>playback_queue := q\<rparr>
      | Some item # q \<Rightarrow> snd (handlePlayback C now item (c\<lparr>playback_queue := q\<rparr>)))"

subsection \<open>The three caches\<close>

definition no_hook :: "'o cache \<Rightarrow> 'o cache" where
  "no_hook c = c"

text \<open>\<open>NodeCache\<close>: the pre-hook keeps the lock contenders of a cached node, the post-hook wakes the
  statistics thread.\<close>

definition nodeCache_preHook :: "string \<Rightarrow> bool \<Rightarrow> (key \<times> node) list \<Rightarrow> (key \<times> node) list" where
  "nodeCache_preHook path present objs =
     (case parseNodeLockPath path of
        Some [node_id, contender] \<Rightarrow>
          (case map_of objs [node_id] of
             None \<Rightarrow> objs
           | Some n \<Rightarrow>
               AList.update [node_id]
                 (n\<lparr>n_lock_contenders := (if present then insert contender (n_lock_contenders n)
                                         else n_lock_contenders n - {contender})\<rparr>) objs)
      | _ \<Rightarrow> objs)"

definition nodeCache :: "node cache_class" where
  "nodeCache = \<lparr> cc_parsePath = parseNodePath,
     cc_fromDict = (\<lambda>d k now. node_fromDict d (Some (k ! 0)) now),
     cc_update = node_updateFromDict,
     cc_stat = o_stat, cc_set_stat = (\<lambda>st n. n\<lparr>o_stat := Some st\<rparr>), cc_locked = n_lock,
     cc_preHook = nodeCache_preHook,
     cc_postHook = (\<lambda>c. c\<lparr>c_stats_event := True\<rparr>) \<rparr>"

definition requestCache :: "node_request cache_class" where
  "requestCache = \<lparr> cc_parsePath = parseRequestPath,
     cc_fromDict = (\<lambda>d k now. node_request_fromDict d (Some (k ! 0)) now),
     cc_update = node_request_updateFromDict,
     cc_stat = o_stat, cc_set_stat = (\<lambda>st r. r\<lparr>o_stat := Some st\<rparr>), cc_locked = r_lock,
     cc_preHook = (\<lambda>path present objs. objs),
     cc_postHook = no_hook \<rparr>"

datatype cached_image = CImage image | CBuild image_build | CUpload image_upload

definition imageCache_objectFromDict :: "pydict \<Rightarrow> key \<Rightarrow> rat \<Rightarrow> cached_image res" where
  "imageCache_objectFromDict d k now =
     (case k of
        [img, build_id, provider, upload_number] \<Rightarrow>
          map_sum id CUpload
            (image_upload_fromDict d (JStr build_id) (JStr provider) (JStr img) (Some upload_number) now)
      | [img, build_id] \<Rightarrow>
          map_sum id CBuild (image_build_fromDict d (JStr img) (Some build_id) now)
      | [img] \<Rightarrow> Inr (CImage (image_init img))
      | _ \<Rightarrow> Inl AttributeError)"

fun cached_image_update :: "pydict \<Rightarrow> rat \<Rightarrow> cached_image \<Rightarrow> cached_image upd" where
  "cached_image_update d now (CImage i) = map_prod id CImage (image_updateFromDict d i)"
| "cached_image_update d now (CBuild b) = map_prod id CBuild (image_build_updateFromDict d now b)"
| "cached_image_update d now (CUpload u) = map_prod id CUpload (image_upload_updateFromDict d now u)"

fun cached_image_stat :: "cached_image \<Rightarrow> zstat option" where
  "cached_image_stat (CImage i) = im_stat i"
| "cached_image_stat (CBuild b) = o_stat b"
| "cached_image_stat (CUpload u) = o_stat u"

fun cached_image_set_stat :: "zstat \<Rightarrow> cached_image \<Rightarrow> cached_image" where
  "cached_image_set_stat st (CImage i) = CImage (i\<lparr>im_stat := Some st\<rparr>)"
| "cached_image_set_stat st (CBuild b) = CBuild (b\<lparr>o_stat := Some st\<rparr>)"
| "cached_image_set_stat st (CUpload u) = CUpload (u\<lparr>o_stat := Some st\<rparr>)"

fun set_paused :: "bool \<Rightarrow> cached_image \<Rightarrow> cached_image" where
  "set_paused p (CImage i) = CImage (i\<lparr>im_paused := p\<rparr>)"
| "set_paused p ob = ob"

definition imageCache_preHook ::
  "string \<Rightarrow> bool \<Rightarrow> (key \<times> cached_image) list \<Rightarrow> (key \<times> cached_image) list" where
  "imageCache_preHook path present objs =
     (case parseImagePausePath path of
        None \<Rightarrow> objs
      | Some key \<Rightarrow>
          (case map_of objs key of
             None \<Rightarrow> objs
           | Some ob \<Rightarrow> AList.update key (set_paused present ob) objs))"

definition imageCache :: "cached_image cache_class" where
  "imageCache = \<lparr> cc_parsePath = imageCache_parsePath,
     cc_fromDict = imageCache_objectFromDict,
     cc_update = cached_image_update,
     cc_stat = cached_image_stat, cc_set_stat = cached_image_set_stat,
     cc_locked = (\<lambda>ob. False),
     cc_preHook = imageCache_preHook,
     cc_postHook = no_hook \<rparr>"

text \<open>The readers of the caches.\<close>

definition cache_get :: "key \<Rightarrow> 'o cache \<Rightarrow> 'o option" where
  "cache_get k c = map_of (cached_objects c) k"

definition getCachedNode :: "string \<Rightarrow> node cache \<Rightarrow> node option" where
  "getCachedNode node_id c = cache_get [node_id] c"

definition getCachedNodeIds :: "node cache \<Rightarrow> string option list" where
  "getCachedNodeIds c = map (\<lambda>(k, n). o_id n) (cached_objects c)"

definition getCachedRequest :: "string \<Rightarrow> node_request cache \<Rightarrow> node_request option" where
  "getCachedRequest request_id c = cache_get [request_id] c"

definition getCachedRequestIds :: "node_request cache \<Rightarrow> string option list" where
  "getCachedRequestIds c = map (\<lambda>(k, r). o_id r) (cached_objects c)"

definition sorted_items :: "(key \<times> 'o) list \<Rightarrow> (key \<times> 'o) list" where
  "sorted_items objs = sort_key fst objs"

definition cache_getImages :: "cached_image cache \<Rightarrow> image list" where
  "cache_getImages c =
     List.map_filter (\<lambda>(k, ob). case ob of CImage i \<Rightarrow> Some i | _ \<Rightarrow> None)
       (sorted_items (cached_objects c))"

definition cache_getBuilds :: "cached_image cache \<Rightarrow> image_build list" where
  "cache_getBuilds c =
     List.map_filter (\<lambda>(k, ob). case ob of CBuild b \<Rightarrow> Some b | _ \<Rightarrow> None)
       (sorted_items (cached_objects c))"

definition cache_getUploads :: "cached_image cache \<Rightarrow> image_upload list" where
  "cache_getUploads c =
     List.map_filter (\<lambda>(k, ob). case ob of CUpload u \<Rightarrow> Some u | _ \<Rightarrow> None)
       (sorted_items (cached_objects c))"

end
