(* ===== verification/ZkImages.thy ===== *)
theory ZkImages
  imports Kazoo ZkCache
begin

section \<open>Images, builds and uploads in ZooKeeper\<close>

text \<open>
  The methods of the class \<open>ZooKeeper\<close> that read and write image builds, uploads, build requests
  and the pause flag. \<open>K\<close> is the client, \<open>z\<close> the server state, \<open>now\<close> the clock. A method that
  only reads returns its value or an exception; one that writes returns the new server state too.
\<close>

definition orNoNode :: "'a res \<Rightarrow> 'a \<Rightarrow> 'a res" where
  "orNoNode r v = (case r of Inl NoNodeError \<Rightarrow> Inr v | _ \<Rightarrow> r)"

text \<open>The values of a reading loop, in order; the first exception ends it.\<close>

fun mapE :: "('a \<Rightarrow> 'b res) \<Rightarrow> 'a list \<Rightarrow> 'b list res" where
  "mapE f [] = Inr []"
| "mapE f (x # xs) = bindE (f x) (\<lambda>y. bindE (mapE f xs) (\<lambda>ys. Inr (y # ys)))"

definition not_lock :: "string list \<Rightarrow> string list" where
  "not_lock = filter (\<lambda>x. x \<noteq> ''lock'')"

subsection \<open>Images and the pause flag\<close>

definition getImageNames :: "'z kazoo \<Rightarrow> 'z \<Rightarrow> string list res" where
  "getImageNames K z = map_sum id sort (orNoNode (kz_children K IMAGE_ROOT z) [])"

definition getCachedImages :: "bool \<Rightarrow> cached_image cache \<Rightarrow> image list res" where
  "getCachedImages enable_cache c = (if \<not> enable_cache then Inl RuntimeError else Inr (cache_getImages c))"

definition getImagePaused :: "'z kazoo \<Rightarrow> string \<Rightarrow> 'z \<Rightarrow> bool res" where
  "getImagePaused K img z = orNoNode (map_sum id (\<lambda>x. True) (kz_get K (imagePausePath img) z)) False"

definition setImagePaused :: "'z kazoo \<Rightarrow> string \<Rightarrow> bool \<Rightarrow> 'z \<Rightarrow> 'z res" where
  "setImagePaused K img paused z =
     (let path = imagePausePath img in
      if paused
      then (case kz_create K path NoData False z of Inl NodeExistsError \<Rightarrow> Inr z | r \<Rightarrow> r)
      else orNoNode (kz_delete K path False z) z)"

subsection \<open>Builds\<close>

definition getBuildIds :: "'z kazoo \<Rightarrow> string \<Rightarrow> 'z \<Rightarrow> string list res" where
  "getBuildIds K img z = map_sum id not_lock (orNoNode (kz_children K (imageBuildsPath img) z) [])"

definition getBuildProviders :: "'z kazoo \<Rightarrow> string \<Rightarrow> string \<Rightarrow> 'z \<Rightarrow> string list res" where
  "getBuildProviders K img build_id z =
     map_sum id sort (orNoNode (kz_children K (imageProviderPath img build_id) z) [])"

definition getImageUploadNumbers ::
  "'z kazoo \<Rightarrow> string \<Rightarrow> string \<Rightarrow> string \<Rightarrow> 'z \<Rightarrow> string list res" where
  "getImageUploadNumbers K img build_id provider z =
     map_sum id not_lock (orNoNode (kz_children K (imageUploadPath img build_id provider) z) [])"

definition getBuild :: "'z kazoo \<Rightarrow> string \<Rightarrow> string \<Rightarrow> rat \<Rightarrow> 'z \<Rightarrow> image_build option res" where
  "getBuild K img build_id now z =
     (case kz_get K (imageBuildsPath img @ ''/'' @ build_id) z of
        Inl NoNodeError \<Rightarrow> Inr None
      | Inl e \<Rightarrow> Inl e
      | Inr (data, stat) \<Rightarrow>
          (case bindE (bytesToDict data)
                  (\<lambda>d. image_build_fromDict d (JStr img) (Some build_id) now) of
             Inl JSONDecodeError \<Rightarrow> Inr None
           | Inl e \<Rightarrow> Inl e
           | Inr b \<Rightarrow> Inr (Some (b\<lparr>o_stat := Some stat\<rparr>))))"

text \<open>\<open>getBuilds\<close>: with no states given, a build that has gone is in the result as \<open>None\<close>.\<close>

definition build_matches :: "zk_state list option \<Rightarrow> image_build option \<Rightarrow> bool" where
  "build_matches states data =
     (case states of
        None \<Rightarrow> True
      | Some ss \<Rightarrow> (case data of None \<Rightarrow> False
                   | Some b \<Rightarrow> (case o_state b of None \<Rightarrow> False | Some s \<Rightarrow> s \<in> set ss)))"

definition getBuilds ::
  "'z kazoo \<Rightarrow> string \<Rightarrow> zk_state list option \<Rightarrow> rat \<Rightarrow> 'z \<Rightarrow> image_build option list res" where
  "getBuilds K img states now z =
     (case kz_children K (imageBuildsPath img) z of
        Inl NoNodeError \<Rightarrow> Inr []
      | Inl e \<Rightarrow> Inl e
      | Inr builds \<Rightarrow>
          map_sum id (filter (build_matches states))
            (mapE (\<lambda>b. getBuild K img b now z) (not_lock builds)))"

definition getCachedBuilds :: "bool \<Rightarrow> cached_image cache \<Rightarrow> image_build list res" where
  "getCachedBuilds enable_cache c = (if \<not> enable_cache then Inl RuntimeError else Inr (cache_getBuilds c))"

text \<open>
  \<open>xs.sort(key=..., reverse=True)\<close> by state time: stable, newest first. A list with one element is
  not compared; otherwise a time that is not a number raises.
\<close>

definition sort_newest :: "('o \<Rightarrow> json) \<Rightarrow> 'o list \<Rightarrow> 'o list res" where
  "sort_newest time xs =
     (if length xs \<le> 1 then Inr xs
      else bindE (mapE (\<lambda>x. map_sum id (\<lambda>t. (t, x)) (num_of (time x))) xs)
             (\<lambda>ts. Inr (map snd (sort_key (\<lambda>p. - fst p) ts))))"

text \<open>\<open>xs[:count]\<close> with \<open>None\<close> for the whole list.\<close>

definition py_take :: "int option \<Rightarrow> 'a list \<Rightarrow> 'a list" where
  "py_take cnt xs =
     (case cnt of
        None \<Rightarrow> xs
      | Some n \<Rightarrow> if 0 \<le> n then take (nat n) xs else take (nat (int (length xs) + n)) xs)"

definition getMostRecentBuilds ::
  "'z kazoo \<Rightarrow> int option \<Rightarrow> string \<Rightarrow> zk_state option \<Rightarrow> rat \<Rightarrow> 'z \<Rightarrow> image_build option list res" where
  "getMostRecentBuilds K cnt img state now z =
     bindE (getBuilds K img (map_option (\<lambda>s. [s]) state) now z) (\<lambda>builds.
       if builds = [] then Inr []
       else if None \<in> set builds then Inl AttributeError
       else bindE (sort_newest (\<lambda>b. o_state_time (the b)) builds) (\<lambda>bs. Inr (py_take cnt bs)))"

definition storeBuild ::
  "'z kazoo \<Rightarrow> string \<Rightarrow> image_build \<Rightarrow> string option \<Rightarrow> string \<Rightarrow> 'z \<Rightarrow> (string \<times> 'z) res" where
  "storeBuild K img build_data build_id new_uuid z =
     (let build_path = imageBuildsPath img @ ''/''; value = serialize (image_build_toDict build_data)
      in case build_id of
           None \<Rightarrow> map_sum id (\<lambda>z'. (new_uuid, z')) (kz_create K (build_path @ new_uuid) value True z)
         | Some i \<Rightarrow> map_sum id (\<lambda>z'. (i, z')) (kz_set K (build_path @ i) value z))"

subsection \<open>Uploads\<close>

definition getImageUpload ::
  "'z kazoo \<Rightarrow> string \<Rightarrow> string \<Rightarrow> string \<Rightarrow> string \<Rightarrow> rat \<Rightarrow> 'z \<Rightarrow> image_upload option res" where
  "getImageUpload K img build_id provider upload_number now z =
     (case kz_get K (imageUploadPath img build_id provider @ ''/'' @ upload_number) z of
        Inl NoNodeError \<Rightarrow> Inr None
      | Inl e \<Rightarrow> Inl e
      | Inr (data, stat) \<Rightarrow>
          (case bindE (bytesToDict data)
                  (\<lambda>d. image_upload_fromDict d (JStr build_id) (JStr provider) (JStr img)
                         (Some upload_number) now) of
             Inl JSONDecodeError \<Rightarrow> Inr None
           | Inl e \<Rightarrow> Inl e
           | Inr u \<Rightarrow> Inr (Some (u\<lparr>o_stat := Some stat\<rparr>))))"

definition upload_matches :: "zk_state list option \<Rightarrow> image_upload \<Rightarrow> bool" where
  "upload_matches states u =
     (case states of
        None \<Rightarrow> True
      | Some ss \<Rightarrow> (case o_state u of None \<Rightarrow> False | Some s \<Rightarrow> s \<in> set ss))"

definition somes :: "'a option list \<Rightarrow> 'a list" where
  "somes xs = List.map_filter id xs"

definition getUploads ::
  "'z kazoo \<Rightarrow> string \<Rightarrow> string \<Rightarrow> string \<Rightarrow> zk_state list option \<Rightarrow> rat \<Rightarrow> 'z \<Rightarrow>
     image_upload list res" where
  "getUploads K img build_id provider states now z =
     (case kz_children K (imageUploadPath img build_id provider) z of
        Inl NoNodeError \<Rightarrow> Inr []
      | Inl e \<Rightarrow> Inl e
      | Inr uploads \<Rightarrow>
          map_sum id (\<lambda>us. filter (upload_matches states) (somes us))
            (mapE (\<lambda>u. getImageUpload K img build_id provider u now z) (not_lock uploads)))"

definition getMostRecentBuildImageUploads ::
  "'z kazoo \<Rightarrow> int option \<Rightarrow> string \<Rightarrow> string \<Rightarrow> string \<Rightarrow> zk_state option \<Rightarrow> rat \<Rightarrow> 'z \<Rightarrow>
     image_upload list res" where
  "getMostRecentBuildImageUploads K cnt img build_id provider state now z =
     bindE (getUploads K img build_id provider (map_option (\<lambda>s. [s]) state) now z) (\<lambda>uploads.
       if uploads = [] then Inr []
       else bindE (sort_newest o_state_time uploads) (\<lambda>us. Inr (py_take cnt us)))"

text \<open>
  \<open>getMostRecentImageUpload\<close>: the loop that keeps the newest matching upload, the first of those
  with the newest time.
\<close>

definition upload_relevant :: "string \<Rightarrow> string \<Rightarrow> zk_state \<Rightarrow> image_upload \<Rightarrow> bool" where
  "upload_relevant img provider state u =
     (iu_image_name u = JStr img \<and> iu_provider_name u = JStr provider \<and> o_state u = Some state)"

definition newer_upload :: "image_upload option \<Rightarrow> image_upload \<Rightarrow> image_upload option res" where
  "newer_upload recent u =
     (case recent of
        None \<Rightarrow> Inr (Some u)
      | Some r \<Rightarrow> bindE (num_of (o_state_time r)) (\<lambda>tr. bindE (num_of (o_state_time u)) (\<lambda>tu.
                    Inr (if tr < tu then Some u else Some r))))"

definition most_recent_of ::
  "string \<Rightarrow> string \<Rightarrow> zk_state \<Rightarrow> image_upload list \<Rightarrow> image_upload option res" where
  "most_recent_of img provider state uploads =
     foldE (\<lambda>u recent. if upload_relevant img provider state u then newer_upload recent u
                       else Inr recent) uploads None"

definition uncached_uploads ::
  "'z kazoo \<Rightarrow> string \<Rightarrow> string \<Rightarrow> zk_state \<Rightarrow> rat \<Rightarrow> 'z \<Rightarrow> image_upload list res" where
  "uncached_uploads K img provider state now z =
     bindE (getBuildIds K img z) (\<lambda>build_ids. map_sum id concat
       (mapE (\<lambda>build_id.
          bindE (orNoNode (kz_children K (imageUploadPath img build_id provider) z) []) (\<lambda>numbers.
            map_sum id (\<lambda>us. filter (\<lambda>u. o_state u = Some state) (somes us))
              (mapE (\<lambda>u. getImageUpload K img build_id provider u now z) (not_lock numbers))))
        build_ids))"

definition getMostRecentImageUpload ::
  "'z kazoo \<Rightarrow> bool \<Rightarrow> cached_image cache \<Rightarrow> string \<Rightarrow> string \<Rightarrow> zk_state \<Rightarrow> bool \<Rightarrow> rat \<Rightarrow> 'z \<Rightarrow>
     image_upload option res" where
  "getMostRecentImageUpload K enable_cache c img provider state cached now z =
     bindE (if cached
            then (if \<not> enable_cache then Inl RuntimeError else Inr (cache_getUploads c))
            else uncached_uploads K img provider state now z)
       (most_recent_of img provider state)"

definition getCachedImageUploads :: "bool \<Rightarrow> cached_image cache \<Rightarrow> image_upload list res" where
  "getCachedImageUploads enable_cache c =
     (if \<not> enable_cache then Inl RuntimeError else Inr (cache_getUploads c))"

definition last_component :: "string \<Rightarrow> string" where
  "last_component path = last (py_split slash path)"

definition storeImageUpload ::
  "'z kazoo \<Rightarrow> string \<Rightarrow> string \<Rightarrow> string \<Rightarrow> image_upload \<Rightarrow> string option \<Rightarrow> 'z \<Rightarrow> (string \<times> 'z) res" where
  "storeImageUpload K img build_id provider image_data upload_number z =
     (if kz_exists K (imageBuildsPath img) z = None then Inl ZKException
      else let upload_path = imageUploadPath img build_id provider @ ''/'';
               value = serialize (image_upload_toDict image_data)
           in case upload_number of
                None \<Rightarrow> map_sum id (\<lambda>(path, z'). (last_component path, z')) (kz_create_seq K upload_path value z)
              | Some n \<Rightarrow> map_sum id (\<lambda>z'. (n, z')) (kz_set K (upload_path @ n) value z))"

subsection \<open>Build requests\<close>

definition hasBuildRequest :: "'z kazoo \<Rightarrow> string \<Rightarrow> 'z \<Rightarrow> bool" where
  "hasBuildRequest K img z = (kz_exists K (imageBuildRequestPath img) z \<noteq> None)"

definition latestImageBuildStat :: "'z kazoo \<Rightarrow> string \<Rightarrow> 'z \<Rightarrow> zstat option res" where
  "latestImageBuildStat K img z =
     bindE (getBuildIds K img z) (\<lambda>builds.
       Inr (case builds of [] \<Rightarrow> None | b # bs \<Rightarrow> kz_exists K (imageBuildIdPath img b) z))"

record image_build_request =
  br_image_name :: string
  br_pending :: bool
  br_state_time :: rat

definition getBuildRequest :: "'z kazoo \<Rightarrow> string \<Rightarrow> 'z \<Rightarrow> image_build_request option res" where
  "getBuildRequest K img z =
     (case kz_get K (imageBuildRequestPath img) z of
        Inl NoNodeError \<Rightarrow> Inr None
      | Inl e \<Rightarrow> Inl e
      | Inr (data, stat) \<Rightarrow>
          bindE (case kz_exists K (imageBuildLockPath img) z of
                   None \<Rightarrow> Inr True
                 | Some lock_stat \<Rightarrow>
                     if children_count lock_stat = 0 then Inr True
                     else bindE (latestImageBuildStat K img z) (\<lambda>build_stat.
                       Inr (case build_stat of None \<Rightarrow> True | Some bs \<Rightarrow> created bs < created lock_stat)))
            (\<lambda>pending. Inr (Some \<lparr> br_image_name = img, br_pending = pending,
                                  br_state_time = created stat \<rparr>)))"

definition submitBuildRequest :: "'z kazoo \<Rightarrow> string \<Rightarrow> 'z \<Rightarrow> 'z res" where
  "submitBuildRequest K img z = kz_ensure_path K (imageBuildRequestPath img) z"

definition removeBuildRequest :: "'z kazoo \<Rightarrow> string \<Rightarrow> 'z \<Rightarrow> 'z res" where
  "removeBuildRequest K img z = orNoNode (kz_delete K (imageBuildRequestPath img) False z) z"

subsection \<open>Deleting builds and uploads\<close>

text \<open>The loop over the providers stops at the first one that has an upload.\<close>

fun any_uploads :: "'z kazoo \<Rightarrow> string \<Rightarrow> string \<Rightarrow> string list \<Rightarrow> 'z \<Rightarrow> bool res" where
  "any_uploads K img build_id [] z = Inr False"
| "any_uploads K img build_id (p # ps) z =
     bindE (getImageUploadNumbers K img build_id p z) (\<lambda>nums.
       if nums \<noteq> [] then Inr True else any_uploads K img build_id ps z)"

definition deleteBuild :: "'z kazoo \<Rightarrow> string \<Rightarrow> string \<Rightarrow> 'z \<Rightarrow> (bool \<times> 'z) res" where
  "deleteBuild K img build_id z =
     bindE (getBuildProviders K img build_id z) (\<lambda>provs.
       bindE (any_uploads K img build_id provs z) (\<lambda>some.
         if some then Inr (False, z)
         else map_sum id (\<lambda>z'. (True, z'))
                (orNoNode (kz_delete K (imageBuildsPath img @ ''/'' @ build_id) True z) z)))"

definition deleteUpload :: "'z kazoo \<Rightarrow> string \<Rightarrow> string \<Rightarrow> string \<Rightarrow> string \<Rightarrow> 'z \<Rightarrow> 'z res" where
  "deleteUpload K img build_id provider upload_number z =
     orNoNode (kz_delete K (imageUploadPath img build_id provider @ ''/'' @ upload_number) True z) z"

subsection \<open>All builds and uploads of a provider\<close>

definition getProviderBuilds :: "'z kazoo \<Rightarrow> string \<Rightarrow> 'z \<Rightarrow> (string \<times> string list) list res" where
  "getProviderBuilds K provider_name z =
     bindE (getImageNames K z) (\<lambda>names. map_sum id (filter (\<lambda>(img, bs). bs \<noteq> []))
       (mapE (\<lambda>img. bindE (getBuildIds K img z) (\<lambda>build_ids. map_sum id (\<lambda>bs. (img, somes bs))
          (mapE (\<lambda>b. map_sum id (\<lambda>ps. if provider_name \<in> set ps then Some b else None)
                   (getBuildProviders K img b z)) build_ids))) names))"

definition getProviderUploads ::
  "'z kazoo \<Rightarrow> string \<Rightarrow> rat \<Rightarrow> 'z \<Rightarrow> (string \<times> (string \<times> image_upload list) list) list res" where
  "getProviderUploads K provider_name now z =
     bindE (getImageNames K z) (\<lambda>names. map_sum id (filter (\<lambda>(img, bs). bs \<noteq> []))
       (mapE (\<lambda>img. bindE (getBuildIds K img z) (\<lambda>build_ids. map_sum id (\<lambda>bs. (img, somes bs))
          (mapE (\<lambda>b. bindE (getBuildProviders K img b z) (\<lambda>ps.
                   if provider_name \<notin> set ps then Inr None
                   else map_sum id (\<lambda>us. Some (b, us)) (getUploads K img b provider_name None now z)))
            build_ids))) names))"

definition removeProviderBuilds ::
  "'z kazoo \<Rightarrow> string \<Rightarrow> (string \<times> string list) list \<Rightarrow> 'z \<Rightarrow> 'z res" where
  "removeProviderBuilds K provider_name provider_builds z =
     foldE (\<lambda>(img, builds) z1. foldE (\<lambda>build z2.
         orNoNode (kz_delete K (imageProviderPath img build @ ''/'' @ provider_name) True z2) z2)
       builds z1) provider_builds z"

end
