(* ===== verification/Eff.thy ===== *)
theory Eff
  imports Prelude
begin

section \<open>Stateful code that may raise\<close>

text \<open>
  Methods that change state and may raise an exception half way are functions from a state to the
  result (the exception or the value) and the state as it is then: an exception does not undo what
  was done before it. This theory has the combinators the larger methods are written with
  (sequence, \<open>raise\<close>, \<open>try\<close>/\<open>except\<close>, loops, running on a component of the state), their laws, and
  the preservation of an invariant, which is proved combinator by combinator.
\<close>

type_synonym ('s, 'a) eff = "'s \<Rightarrow> 'a res \<times> 's"

named_theorems eff_simps \<open>evaluation of effects\<close>
named_theorems keeps \<open>effects that keep an invariant, whether they raise or not\<close>

definition eff_ret :: "'a \<Rightarrow> ('s, 'a) eff" where
  "eff_ret x s = (Inr x, s)"

definition eff_raise :: "pyexc \<Rightarrow> ('s, 'a) eff" where
  "eff_raise e s = (Inl e, s)"

definition eff_bind :: "('s, 'a) eff \<Rightarrow> ('a \<Rightarrow> ('s, 'b) eff) \<Rightarrow> ('s, 'b) eff" where
  "eff_bind m f s = (case m s of (Inl e, s') \<Rightarrow> (Inl e, s') | (Inr x, s') \<Rightarrow> f x s')"

definition eff_seq :: "('s, unit) eff \<Rightarrow> ('s, 'b) eff \<Rightarrow> ('s, 'b) eff" where
  "eff_seq m k = eff_bind m (\<lambda>u. k)"

definition eff_get :: "('s \<Rightarrow> 'a) \<Rightarrow> ('s, 'a) eff" where
  "eff_get f s = (Inr (f s), s)"

definition eff_mod :: "('s \<Rightarrow> 's) \<Rightarrow> ('s, unit) eff" where
  "eff_mod f s = (Inr (), f s)"

text \<open>A computation on values, and one that only reads the state.\<close>

definition eff_lift :: "'a res \<Rightarrow> ('s, 'a) eff" where
  "eff_lift r s = (r, s)"

definition eff_read :: "('s \<Rightarrow> 'a res) \<Rightarrow> ('s, 'a) eff" where
  "eff_read f s = (f s, s)"

text \<open>\<open>try: m except ...: h\<close>; the handler sees the exception and re-raises what it does not catch.\<close>

definition eff_try :: "('s, 'a) eff \<Rightarrow> (pyexc \<Rightarrow> ('s, 'a) eff) \<Rightarrow> ('s, 'a) eff" where
  "eff_try m h s = (case m s of (Inl e, s') \<Rightarrow> h e s' | (Inr x, s') \<Rightarrow> (Inr x, s'))"

text \<open>\<open>try: m except Exception: log\<close>.\<close>

definition eff_ignore :: "('s, unit) eff \<Rightarrow> ('s, unit) eff" where
  "eff_ignore m = eff_try m (\<lambda>e. eff_ret ())"

definition eff_when :: "bool \<Rightarrow> ('s, unit) eff \<Rightarrow> ('s, unit) eff" where
  "eff_when b m = (if b then m else eff_ret ())"

text \<open>\<open>try: m finally: f\<close>.\<close>

definition eff_finally :: "('s, 'a) eff \<Rightarrow> ('s, unit) eff \<Rightarrow> ('s, 'a) eff" where
  "eff_finally m f s =
     (case m s of (r, s1) \<Rightarrow> (case f s1 of (Inl e, s2) \<Rightarrow> (Inl e, s2) | (Inr u, s2) \<Rightarrow> (r, s2)))"

text \<open>A loop over a list, and one that keeps a value.\<close>

fun eff_each :: "('x \<Rightarrow> ('s, unit) eff) \<Rightarrow> 'x list \<Rightarrow> ('s, unit) eff" where
  "eff_each f [] = eff_ret ()"
| "eff_each f (x # xs) = eff_seq (f x) (eff_each f xs)"

fun eff_fold :: "('x \<Rightarrow> 'a \<Rightarrow> ('s, 'a) eff) \<Rightarrow> 'x list \<Rightarrow> 'a \<Rightarrow> ('s, 'a) eff" where
  "eff_fold f [] a = eff_ret a"
| "eff_fold f (x # xs) a = eff_bind (f x a) (eff_fold f xs)"

text \<open>An effect on a component of the state.\<close>

definition eff_zoom :: "('s \<Rightarrow> 't) \<Rightarrow> ('t \<Rightarrow> 's \<Rightarrow> 's) \<Rightarrow> ('t, 'a) eff \<Rightarrow> ('s, 'a) eff" where
  "eff_zoom g p m s = (case m (g s) of (r, t) \<Rightarrow> (r, p t s))"

text \<open>A method on an object that lives in the state, with the server state: exception, object, state.\<close>

definition eff_obj ::
  "('s \<Rightarrow> 'o) \<Rightarrow> ('o \<Rightarrow> 's \<Rightarrow> 's) \<Rightarrow> ('s \<Rightarrow> 'z) \<Rightarrow> ('z \<Rightarrow> 's \<Rightarrow> 's) \<Rightarrow>
     ('o \<Rightarrow> 'z \<Rightarrow> pyexc option \<times> 'o \<times> 'z) \<Rightarrow> ('s, unit) eff" where
  "eff_obj g p gz pz f s =
     (case f (g s) (gz s) of
        (ex, ob, z) \<Rightarrow> (case ex of None \<Rightarrow> Inr () | Some e \<Rightarrow> Inl e, pz z (p ob s)))"

subsection \<open>Laws\<close>

lemma eff_bind_ret [simp, eff_simps]: "eff_bind (eff_ret x) f = f x"
  by (rule ext) (simp add: eff_bind_def eff_ret_def)

lemma eff_bind_raise [simp, eff_simps]: "eff_bind (eff_raise e) f = eff_raise e"
  by (rule ext) (simp add: eff_bind_def eff_raise_def)

lemma eff_bind_assoc: "eff_bind (eff_bind m f) g = eff_bind m (\<lambda>x. eff_bind (f x) g)"
  by (rule ext) (auto simp: eff_bind_def split: prod.split sum.split)

lemma eff_try_ret [simp, eff_simps]: "eff_try (eff_ret x) h = eff_ret x"
  by (rule ext) (simp add: eff_try_def eff_ret_def)

lemma eff_try_raise [simp, eff_simps]: "eff_try (eff_raise e) h = h e"
  by (rule ext) (simp add: eff_try_def eff_raise_def)

lemma eff_run [eff_simps]:
  "eff_ret x s = (Inr x, s)" "eff_raise e s = (Inl e, s)" "eff_get f s = (Inr (f s), s)"
  "eff_mod u s = (Inr (), u s)" "eff_lift r s = (r, s)" "eff_read g s = (g s, s)"
  by (simp_all add: eff_ret_def eff_raise_def eff_get_def eff_mod_def eff_lift_def eff_read_def)

lemma eff_seq_run [eff_simps]:
  "eff_seq m k s = (case m s of (Inl e, s') \<Rightarrow> (Inl e, s') | (Inr u, s') \<Rightarrow> k s')"
  by (simp add: eff_seq_def eff_bind_def)

lemma eff_ignore_run [eff_simps]: "eff_ignore m s = (Inr (), snd (m s))"
  by (auto simp: eff_ignore_def eff_try_def eff_ret_def split: prod.split sum.split)

lemma eff_bind_Inr:
  "eff_bind m f s = (Inr y, s') \<longleftrightarrow> (\<exists>x t. m s = (Inr x, t) \<and> f x t = (Inr y, s'))"
  by (auto simp: eff_bind_def split: prod.splits sum.splits)

lemma eff_each_append: "eff_each f (xs @ ys) = eff_seq (eff_each f xs) (eff_each f ys)"
  by (induction xs) (simp_all add: eff_seq_def eff_bind_assoc)

text \<open>A loop whose every round catches its exceptions ends normally, after all rounds.\<close>

lemma eff_each_ignore:
  "eff_each (\<lambda>x. eff_ignore (f x)) xs s = (Inr (), fold (\<lambda>x s. snd (f x s)) xs s)"
  by (induction xs arbitrary: s) (simp_all add: eff_simps)

subsection \<open>Invariants\<close>

definition keeps_inv :: "('s \<Rightarrow> bool) \<Rightarrow> ('s, 'a) eff \<Rightarrow> bool" where
  "keeps_inv I m \<longleftrightarrow> (\<forall>s. I s \<longrightarrow> I (snd (m s)))"

lemma keepsI: "(\<And>s r s'. I s \<Longrightarrow> m s = (r, s') \<Longrightarrow> I s') \<Longrightarrow> keeps_inv I m"
  unfolding keeps_inv_def by (metis prod.collapse)

lemma keepsD: "keeps_inv I m \<Longrightarrow> I s \<Longrightarrow> I (snd (m s))"
  by (simp add: keeps_inv_def)

lemma keepsE: "keeps_inv I m \<Longrightarrow> I s \<Longrightarrow> m s = (r, s') \<Longrightarrow> I s'"
  by (metis keepsD snd_conv)

lemma keeps_pure [keeps]:
  "keeps_inv I (eff_ret x)" "keeps_inv I (eff_raise e)" "keeps_inv I (eff_get f)"
  "keeps_inv I (eff_lift r)" "keeps_inv I (eff_read g)"
  by (simp_all add: keeps_inv_def eff_simps)

lemma keeps_mod [keeps]: "(\<And>s. I s \<Longrightarrow> I (f s)) \<Longrightarrow> keeps_inv I (eff_mod f)"
  by (simp add: keeps_inv_def eff_simps)

lemma keeps_bind [keeps]:
  assumes "keeps_inv I m" and "\<And>x. keeps_inv I (f x)"
  shows "keeps_inv I (eff_bind m f)"
  by (rule keepsI) (auto simp: eff_bind_def split: prod.splits sum.splits dest: keepsE [OF assms(1)] keepsE [OF assms(2)])

lemma keeps_seq [keeps]: "keeps_inv I m \<Longrightarrow> keeps_inv I k \<Longrightarrow> keeps_inv I (eff_seq m k)"
  unfolding eff_seq_def by (rule keeps_bind)

lemma keeps_try [keeps]:
  assumes "keeps_inv I m" and "\<And>e. keeps_inv I (h e)"
  shows "keeps_inv I (eff_try m h)"
  by (rule keepsI) (auto simp: eff_try_def split: prod.splits sum.splits dest: keepsE [OF assms(1)] keepsE [OF assms(2)])

lemma keeps_ignore [keeps]: "keeps_inv I m \<Longrightarrow> keeps_inv I (eff_ignore m)"
  unfolding eff_ignore_def by (intro keeps)

lemma keeps_when [keeps]: "(b \<Longrightarrow> keeps_inv I m) \<Longrightarrow> keeps_inv I (eff_when b m)"
  by (cases b) (auto simp: eff_when_def intro: keeps)

lemma keeps_if [keeps]: "(b \<Longrightarrow> keeps_inv I m) \<Longrightarrow> (\<not> b \<Longrightarrow> keeps_inv I k) \<Longrightarrow> keeps_inv I (if b then m else k)"
  by simp

lemma keeps_option [keeps]:
  "keeps_inv I m \<Longrightarrow> (\<And>x. keeps_inv I (f x)) \<Longrightarrow> keeps_inv I (case y of None \<Rightarrow> m | Some x \<Rightarrow> f x)"
  by (cases y) auto

lemma keeps_each [keeps]: "(\<And>x. keeps_inv I (f x)) \<Longrightarrow> keeps_inv I (eff_each f xs)"
  by (induction xs) (auto intro: keeps)

lemma keeps_fold [keeps]: "(\<And>x a. keeps_inv I (f x a)) \<Longrightarrow> keeps_inv I (eff_fold f xs a)"
  by (induction xs arbitrary: a) (auto intro: keeps)

lemma keeps_zoom:
  assumes "\<And>s r t. I s \<Longrightarrow> m (g s) = (r, t) \<Longrightarrow> I (p t s)"
  shows "keeps_inv I (eff_zoom g p m)"
  by (rule keepsI) (auto simp: eff_zoom_def split: prod.splits dest: assms)

lemma keeps_obj:
  assumes "\<And>s ex ob z. I s \<Longrightarrow> f (g s) (gz s) = (ex, ob, z) \<Longrightarrow> I (pz z (p ob s))"
  shows "keeps_inv I (eff_obj g p gz pz f)"
  by (rule keepsI) (auto simp: eff_obj_def split: prod.splits dest: assms)

end
