(* ===== verification/ZkLocks.thy ===== *)
theory ZkLocks
  imports ZkImages Eff
begin

section \<open>Locks\<close>

text \<open>
  The lock recipe of kazoo is not part of the program: it is a record of functions, parameters of
  the model. Taking a lock may change the server state whatever its outcome (it creates the lock's
  znode and a contender below it), so its result and the new state are returned together. What is
  relied on is the locale \<open>lock_recipe\<close>: a lock only touches the subtree of its own path and the
  ancestors it has to create. The methods here are the image locks of the class \<open>ZooKeeper\<close>:
  the functions that take a lock and the context managers around them.
\<close>

record 'z locks =
  lk_acquire :: "string \<Rightarrow> string option \<Rightarrow> bool \<Rightarrow> rat option \<Rightarrow> bool \<Rightarrow> ('z, bool) eff"
    \<comment> \<open>path, identifier, blocking, timeout, ephemeral\<close>
  lk_release :: "string \<Rightarrow> ('z, unit) eff"
  lk_contenders :: "string \<Rightarrow> 'z \<Rightarrow> string list res"

text \<open>What two server states may differ in when only the znodes of a path were touched.\<close>

definition touched :: "string \<Rightarrow> (string \<Rightarrow> zdata option) \<Rightarrow> (string \<Rightarrow> zdata option) \<Rightarrow> bool" where
  "touched path t t' \<longleftrightarrow>
     (\<forall>q. \<not> in_subtree path q \<longrightarrow>
        t' q = t q \<or> (t q = None \<and> ancestor q path \<and> t' q = Some NoData))"

locale lock_recipe =
  fixes L :: "'z locks"
    and tree :: "'z \<Rightarrow> string \<Rightarrow> zdata option"
  assumes acquire_touches: "lk_acquire L p i b t e z = (r, z') \<Longrightarrow> touched p (tree z) (tree z')"
    and release_touches: "lk_release L p z = (r', z') \<Longrightarrow> touched p (tree z) (tree z')"

subsection \<open>Taking a lock\<close>

text \<open>
  The four functions share one shape: a timeout becomes \<open>TimeoutException\<close>; a missing znode and a
  lock held by somebody else become \<open>ZKLockException\<close>.
\<close>

definition take_lock ::
  "'z locks \<Rightarrow> string \<Rightarrow> string option \<Rightarrow> bool \<Rightarrow> rat option \<Rightarrow> bool \<Rightarrow> ('z, unit) eff" where
  "take_lock L path ident blocking timeout ephemeral z =
     (case lk_acquire L path ident blocking timeout ephemeral z of
        (Inl LockTimeout, z') \<Rightarrow> (Inl TimeoutException, z')
      | (Inl NoNodeError, z') \<Rightarrow> (Inl ZKLockException, z')
      | (Inl e, z') \<Rightarrow> (Inl e, z')
      | (Inr have_lock, z') \<Rightarrow> (if \<not> have_lock then Inl ZKLockException else Inr (), z'))"

definition getImageBuildLock :: "'z locks \<Rightarrow> string \<Rightarrow> bool \<Rightarrow> rat option \<Rightarrow> ('z, unit) eff" where
  "getImageBuildLock L img blocking timeout =
     take_lock L (imageBuildLockPath img) None blocking timeout True"

definition getImageBuildIdLock ::
  "'z locks \<Rightarrow> string \<Rightarrow> string \<Rightarrow> bool \<Rightarrow> rat option \<Rightarrow> ('z, unit) eff" where
  "getImageBuildIdLock L img build_id blocking timeout =
     take_lock L (imageBuildIdLockPath img build_id) None blocking timeout True"

definition getImageUploadNumberLock ::
  "'z locks \<Rightarrow> string \<Rightarrow> string \<Rightarrow> string \<Rightarrow> string \<Rightarrow> bool \<Rightarrow> rat option \<Rightarrow> ('z, unit) eff" where
  "getImageUploadNumberLock L img build_id provider upload_number blocking timeout =
     take_lock L (imageUploadNumberLockPath img build_id provider upload_number) None blocking timeout
       True"

definition getImageUploadLock ::
  "'z locks \<Rightarrow> string \<Rightarrow> string \<Rightarrow> string \<Rightarrow> bool \<Rightarrow> rat option \<Rightarrow> ('z, unit) eff" where
  "getImageUploadLock L img build_id provider blocking timeout =
     take_lock L (imageUploadLockPath img build_id provider) None blocking timeout True"

subsection \<open>The context managers\<close>

text \<open>
  The body runs only with the lock; the lock is released however the body ends, and an exception of
  the release replaces the body's outcome.
\<close>

definition with_lock :: "'z locks \<Rightarrow> string \<Rightarrow> ('z, unit) eff \<Rightarrow> ('z, 'a) eff \<Rightarrow> ('z, 'a) eff" where
  "with_lock L path get_lock body z =
     (case get_lock z of
        (Inl e, z1) \<Rightarrow> (Inl e, z1)
      | (Inr u, z1) \<Rightarrow>
          (case body z1 of
             (r, z2) \<Rightarrow>
               (case lk_release L path z2 of
                  (Inl e, z3) \<Rightarrow> (Inl e, z3)
                | (Inr u, z3) \<Rightarrow> (r, z3))))"

definition imageBuildLock ::
  "'z locks \<Rightarrow> string \<Rightarrow> bool \<Rightarrow> rat option \<Rightarrow> ('z, 'a) eff \<Rightarrow> ('z, 'a) eff" where
  "imageBuildLock L img blocking timeout =
     with_lock L (imageBuildLockPath img) (getImageBuildLock L img blocking timeout)"

definition imageBuildIdLock ::
  "'z locks \<Rightarrow> string \<Rightarrow> string \<Rightarrow> bool \<Rightarrow> rat option \<Rightarrow> ('z, 'a) eff \<Rightarrow> ('z, 'a) eff" where
  "imageBuildIdLock L img build_id blocking timeout =
     with_lock L (imageBuildIdLockPath img build_id)
       (getImageBuildIdLock L img build_id blocking timeout)"

definition imageUploadLock ::
  "'z locks \<Rightarrow> string \<Rightarrow> string \<Rightarrow> string \<Rightarrow> bool \<Rightarrow> rat option \<Rightarrow> ('z, 'a) eff \<Rightarrow> ('z, 'a) eff" where
  "imageUploadLock L img build_id provider blocking timeout =
     with_lock L (imageUploadLockPath img build_id provider)
       (getImageUploadLock L img build_id provider blocking timeout)"

text \<open>The upload's attributes name the lock; a path is built from the text of each of them.\<close>

definition imageUploadNumberLock ::
  "'z locks \<Rightarrow> string \<Rightarrow> string \<Rightarrow> string \<Rightarrow> string \<Rightarrow> bool \<Rightarrow> rat option \<Rightarrow> ('z, 'a) eff \<Rightarrow>
     ('z, 'a) eff" where
  "imageUploadNumberLock L image_name build_id provider_name upload_id blocking timeout =
     with_lock L (imageUploadNumberLockPath image_name build_id provider_name upload_id)
       (getImageUploadNumberLock L image_name build_id provider_name upload_id blocking timeout)"

subsection \<open>Properties\<close>

lemma touched_refl: "touched p t t"
  by (simp add: touched_def)

lemma in_subtree_self [simp]: "in_subtree p p"
  by (simp add: in_subtree_def)

lemma touchedD:
  "touched p t t' \<Longrightarrow> \<not> in_subtree p q \<Longrightarrow>
     t' q = t q \<or> (t q = None \<and> ancestor q p \<and> t' q = Some NoData)"
  unfolding touched_def by (elim allE impE)

lemma touched_trans:
  assumes "touched p t t'" and "touched p t' t''"
  shows "touched p t t''"
  unfolding touched_def
proof (intro allI impI)
  fix q assume q: "\<not> in_subtree p q"
  show "t'' q = t q \<or> (t q = None \<and> ancestor q p \<and> t'' q = Some NoData)"
    using touchedD [OF assms(1) q] touchedD [OF assms(2) q] by (elim disjE conjE) simp_all
qed

lemma touched_same: "touched p t t' \<Longrightarrow> \<not> in_subtree p q \<Longrightarrow> t q \<noteq> None \<Longrightarrow> t' q = t q"
  by (drule (1) touchedD) auto

lemma take_lock_cases:
  obtains (got) z' where "lk_acquire L p i b t e z = (Inr True, z')" "take_lock L p i b t e z = (Inr (), z')"
  | (failed) ex z' r where "lk_acquire L p i b t e z = (r, z')" "r \<noteq> Inr True"
      "take_lock L p i b t e z = (Inl ex, z')"
proof (cases "lk_acquire L p i b t e z")
  case (Pair r z')
  show ?thesis
  proof (cases r)
    case (Inl ex)
    show ?thesis
      by (rule failed [of r z' "case ex of LockTimeout \<Rightarrow> TimeoutException
            | NoNodeError \<Rightarrow> ZKLockException | _ \<Rightarrow> ex"])
        (use Pair Inl in \<open>auto simp: take_lock_def split: pyexc.splits\<close>)
  next
    case (Inr have_lock)
    show ?thesis
    proof (cases have_lock)
      case True
      with Pair Inr show ?thesis by (intro got [of z']) (simp_all add: take_lock_def)
    next
      case False
      with Pair Inr show ?thesis
        by (intro failed [of r z' ZKLockException]) (simp_all add: take_lock_def)
    qed
  qed
qed

context lock_recipe
begin

lemma take_lock_touches: "take_lock L p i b t e z = (r, z') \<Longrightarrow> touched p (tree z) (tree z')"
  by (rule take_lock_cases [of L p i b t e z]) (auto dest: acquire_touches)

end

text \<open>A body that keeps an invariant is run with the lock and its outcome is kept.\<close>

lemma with_lock_cases:
  obtains (no_lock) e z1 where "get_lock z = (Inl e, z1)" "with_lock L p get_lock body z = (Inl e, z1)"
  | (ran) z1 r z2 r' z3 where "get_lock z = (Inr (), z1)" "body z1 = (r, z2)"
      "lk_release L p z2 = (r', z3)"
      "with_lock L p get_lock body z = ((case r' of Inl e \<Rightarrow> Inl e | Inr u \<Rightarrow> r), z3)"
proof (cases "get_lock z")
  case (Pair g z1)
  show ?thesis
  proof (cases g)
    case (Inl e)
    with Pair show ?thesis by (intro no_lock) (auto simp: with_lock_def)
  next
    case (Inr u)
    obtain r z2 where b: "body z1 = (r, z2)" by fastforce
    obtain r' z3 where "lk_release L p z2 = (r', z3)" by fastforce
    with Pair Inr b show ?thesis by (intro ran) (auto simp: with_lock_def split: sum.splits)
  qed
qed

subsection \<open>Locks on the in-memory server\<close>

text \<open>
  One contender at a time: a lock whose path has a child is taken, and a blocking attempt on it
  times out. This shows that the laws of \<open>lock_recipe\<close> can hold together with those of
  \<open>zk_server\<close>, and lets the operations be run.
\<close>

definition mem_acquire :: "string \<Rightarrow> string option \<Rightarrow> bool \<Rightarrow> rat option \<Rightarrow> bool \<Rightarrow> (mem_zk, bool) eff" where
  "mem_acquire p i blocking t eph z =
     (if mem_child_names p z \<noteq> [] then (if blocking then Inl LockTimeout else Inr False, z)
      else (case mem_create_seq (p @ ''/contender-'') NoData z of
              Inl e \<Rightarrow> (Inl e, z) | Inr (c, z') \<Rightarrow> (Inr True, z')))"

definition mem_release :: "string \<Rightarrow> (mem_zk, unit) eff" where
  "mem_release p z =
     (case mem_child_names p z of
        [] \<Rightarrow> (Inl NoNodeError, z)
      | c # cs \<Rightarrow> (case mem_delete (p @ ''/'' @ c) True z of
                     Inl e \<Rightarrow> (Inl e, z) | Inr z' \<Rightarrow> (Inr (), z')))"

definition mem_locks :: "mem_zk locks" where
  "mem_locks = \<lparr> lk_acquire = mem_acquire, lk_release = mem_release, lk_contenders = mem_children \<rparr>"

lemma in_subtree_below: "in_subtree p (p @ ''/'' @ c)"
  by (simp add: in_subtree_def startswith_iff)

lemma append_eq_cases:
  assumes "a @ slash # u = p @ slash # v"
  shows "(\<exists>w. p = a @ slash # w) \<or> a = p \<or> (\<exists>w. a = p @ slash # w)"
  using assms by (auto simp: append_eq_append_conv2 append_eq_Cons_conv Cons_eq_append_conv)

lemma ancestor_below:
  assumes "ancestor q (p @ ''/'' @ c)"
  shows "ancestor q p \<or> in_subtree p q"
proof -
  from assms obtain u where "q @ slash # u = p @ slash # c"
    by (auto simp: ancestor_def startswith_iff)
  from append_eq_cases [OF this] show ?thesis
    by (auto simp: ancestor_def in_subtree_def startswith_iff)
qed

lemma in_subtree_trans: "in_subtree (p @ slash # c) q \<Longrightarrow> in_subtree p q"
  by (auto simp: in_subtree_def startswith_iff)

interpretation mem_lock: lock_recipe mem_locks mem_tree
proof
  fix p i and b :: bool and t eph z r z'
  assume a: "lk_acquire mem_locks p i b t eph z = (r, z')"
  show "touched p (mem_tree z) (mem_tree z')"
  proof (cases "z' = z")
    case False
    with a obtain c where c: "kz_create_seq mem_kazoo (p @ ''/contender-'') NoData z = Inr (c, z')"
      by (auto simp: mem_locks_def mem_acquire_def mem_kazoo_def split: if_splits sum.splits)
    from mem.create_seq [OF c] obtain n where c': "c = p @ ''/'' @ (''contender-'' @ n)"
      and others: "\<forall>q. q \<noteq> c \<longrightarrow> mem_tree z' q =
        (if mem_tree z q = None \<and> ancestor q c \<and> mem_tree z' q \<noteq> None then Some NoData
         else mem_tree z q)" by auto
    show ?thesis
      unfolding touched_def
    proof (intro allI impI)
      fix q assume q: "\<not> in_subtree p q"
      then have "q \<noteq> c" unfolding c' by (metis in_subtree_below)
      moreover have "ancestor q c \<Longrightarrow> ancestor q p"
        using q ancestor_below [of q p "''contender-'' @ n"] unfolding c' by blast
      ultimately show "mem_tree z' q = mem_tree z q \<or>
          (mem_tree z q = None \<and> ancestor q p \<and> mem_tree z' q = Some NoData)"
        using others [rule_format, of q] by (auto split: if_splits)
    qed
  qed (simp add: touched_refl)
next
  fix p z r' z'
  assume a: "lk_release mem_locks p z = (r', z')"
  show "touched p (mem_tree z) (mem_tree z')"
  proof (cases "z' = z")
    case False
    with a obtain c where "kz_delete mem_kazoo (p @ ''/'' @ c) True z = Inr z'"
      by (auto simp: mem_locks_def mem_release_def mem_kazoo_def split: list.splits sum.splits)
    from mem.tree_after_delete [OF this] show ?thesis
      by (auto simp: touched_def dest: in_subtree_trans)
  qed (simp add: touched_refl)
qed

end
