(* ===== verification/ZkNodes.thy ===== *)
theory ZkNodes
  imports ZkLocks
begin

section \<open>Node requests and nodes in ZooKeeper\<close>

text \<open>
  The methods of the class \<open>ZooKeeper\<close> that read, store, lock and delete node requests and nodes.
  A method that changes an object returns the exception, if any, with the object as it is then and
  the server state: an exception half way keeps what was done before it. An object's \<open>lock\<close> and
  \<open>_thread_lock\<close> are its fields \<open>n_lock\<close>, \<open>n_thread_lock\<close> (\<open>r_lock\<close>, \<open>r_thread_lock\<close>). Blocking
  on a thread lock that another thread holds is the parameter \<open>freed\<close>: whether that thread lets it
  go in time. An object taken from a cache is the cache's own object, so \<open>deleteOldestUnusedNode\<close>
  writes what it does to a node back into the cache. The ephemeral flag of a request's znode matters
  only when the session ends, which no single call observes.
\<close>

definition str_id :: "string option \<Rightarrow> string" where
  "str_id i = (case i of None \<Rightarrow> ''None'' | Some s \<Rightarrow> s)"

definition no_id :: "string option \<Rightarrow> bool" where
  "no_id i = (i = None \<or> i = Some [])"

text \<open>\<open>threading.Lock.acquire(blocking, timeout)\<close> on a lock that is held or not.\<close>

definition thread_acquire :: "bool \<Rightarrow> bool \<Rightarrow> rat option \<Rightarrow> bool \<Rightarrow> bool res" where
  "thread_acquire held blocking timeout freed =
     (let t = (case timeout of None \<Rightarrow> -1 | Some q \<Rightarrow> q) in
      if \<not> blocking \<and> t \<noteq> -1 then Inl ValueError
      else if t < 0 \<and> t \<noteq> -1 then Inl ValueError
      else Inr (\<not> held \<or> (blocking \<and> freed)))"

subsection \<open>Reading requests\<close>

definition getNodeRequests :: "'z kazoo \<Rightarrow> 'z \<Rightarrow> string list res" where
  "getNodeRequests K z = orNoNode (map_sum id sort (kz_children K REQUEST_ROOT z)) []"

definition getNodeRequestLockIDs :: "'z kazoo \<Rightarrow> 'z \<Rightarrow> string list res" where
  "getNodeRequestLockIDs K z = orNoNode (kz_children K REQUEST_LOCK_ROOT z) []"

record request_lock_stats =
  ls_lock_id :: string
  ls_stat :: zstat

definition getNodeRequestLockStats ::
  "'z kazoo \<Rightarrow> string \<Rightarrow> 'z \<Rightarrow> request_lock_stats option res" where
  "getNodeRequestLockStats K lock_id z =
     orNoNode (map_sum id (\<lambda>(data, stat). Some \<lparr> ls_lock_id = lock_id, ls_stat = stat \<rparr>)
       (kz_get K (requestLockPath lock_id) z)) None"

definition deleteNodeRequestLock :: "'z kazoo \<Rightarrow> string \<Rightarrow> 'z \<Rightarrow> 'z res" where
  "deleteNodeRequestLock K lock_id z = orNoNode (kz_delete K (requestLockPath lock_id) True z) z"

text \<open>The cache is \<open>None\<close> when the client was made without caches.\<close>

definition getNodeRequest ::
  "'z kazoo \<Rightarrow> node_request cache option \<Rightarrow> string option \<Rightarrow> bool \<Rightarrow> rat \<Rightarrow> 'z \<Rightarrow>
     node_request option res" where
  "getNodeRequest K rc request cached now z =
     (case (if cached then Option.bind rc (\<lambda>c. Option.bind request (\<lambda>i. getCachedRequest i c))
            else None) of
        Some d \<Rightarrow> Inr (Some d)
      | None \<Rightarrow>
          (case kz_get K (requestPath (str_id request)) z of
             Inl NoNodeError \<Rightarrow> Inr None
           | Inl e \<Rightarrow> Inl e
           | Inr (data, stat) \<Rightarrow>
               bindE (bytesToDict data) (\<lambda>dict.
                 bindE (node_request_fromDict dict request now) (\<lambda>d.
                   Inr (Some (d\<lparr>o_stat := Some stat\<rparr>))))))"

definition updateNodeRequest ::
  "'z kazoo \<Rightarrow> rat \<Rightarrow> node_request \<Rightarrow> 'z \<Rightarrow> node_request upd" where
  "updateNodeRequest K now r z =
     (case kz_get K (requestPath (str_id (o_id r))) z of
        Inl e \<Rightarrow> (Some e, r)
      | Inr (data, stat) \<Rightarrow>
          (case (if has_data data then bytesToDict data else Inr []) of
             Inl e \<Rightarrow> (Some e, r)
           | Inr d \<Rightarrow>
               (case node_request_updateFromDict d now r of
                  (Some e, r') \<Rightarrow> (Some e, r')
                | (None, r') \<Rightarrow> (None, r'\<lparr>o_stat := Some stat\<rparr>))))"

subsection \<open>Storing and deleting requests\<close>

definition storeNodeRequest ::
  "'z kazoo \<Rightarrow> node_request \<Rightarrow> string \<Rightarrow> string \<Rightarrow> rat \<Rightarrow> 'z \<Rightarrow>
     pyexc option \<times> node_request \<times> 'z" where
  "storeNodeRequest K r priority new_uuid now z =
     (if no_id (o_id r)
      then let r' = (if \<not> truthy (r_event_id r) then r\<lparr>r_event_id := JStr new_uuid\<rparr> else r)
           in (case kz_create_seq K (REQUEST_ROOT @ ''/'' @ priority @ ''-'')
                      (serialize (node_request_toDict r')) z of
                 Inl e \<Rightarrow> (Some e, r', z)
               | Inr (path, z') \<Rightarrow> (None, r'\<lparr>o_id := Some (last_component path)\<rparr>, z'))
      else (case getNodeRequest K None (o_id r) False now z of
              Inl e \<Rightarrow> (Some e, r, z)
            | Inr None \<Rightarrow> (Some GenericException, r, z)
            | Inr (Some old) \<Rightarrow>
                (case kz_set K (requestPath (str_id (o_id r))) (serialize (node_request_toDict r)) z of
                   Inl e \<Rightarrow> (Some e, r, z)
                 | Inr z' \<Rightarrow> (None, r, z'))))"

definition deleteNodeRequest :: "'z kazoo \<Rightarrow> node_request \<Rightarrow> 'z \<Rightarrow> 'z res" where
  "deleteNodeRequest K r z =
     (if no_id (o_id r) then Inr z
      else orNoNode (kz_delete K (requestPath (str_id (o_id r))) False z) z)"

subsection \<open>Locking requests\<close>

definition lockNodeRequest ::
  "'z kazoo \<Rightarrow> 'z locks \<Rightarrow> node_request \<Rightarrow> bool \<Rightarrow> rat option \<Rightarrow> bool \<Rightarrow> rat \<Rightarrow> 'z \<Rightarrow>
     pyexc option \<times> node_request \<times> 'z" where
  "lockNodeRequest K L r blocking timeout freed now z =
     (case thread_acquire (r_thread_lock r) blocking timeout freed of
        Inl e \<Rightarrow> (Some e, r, z)
      | Inr have_thread_lock \<Rightarrow>
          if \<not> have_thread_lock
          then (Some (if blocking then TimeoutException else ZKLockException), r, z)
          else (case take_lock L (requestLockPath (str_id (o_id r))) None blocking timeout True z of
                  (Inl e, z') \<Rightarrow> (Some e, r\<lparr>r_thread_lock := False\<rparr>, z')
                | (Inr u, z') \<Rightarrow>
                    (case updateNodeRequest K now (r\<lparr>r_thread_lock := True, r_lock := True\<rparr>) z' of
                       (ex, r') \<Rightarrow> (ex, r', z'))))"

definition unlockNodeRequest ::
  "'z locks \<Rightarrow> node_request \<Rightarrow> 'z \<Rightarrow> pyexc option \<times> node_request \<times> 'z" where
  "unlockNodeRequest L r z =
     (if \<not> r_lock r then (Some ZKLockException, r, z)
      else (case lk_release L (requestLockPath (str_id (o_id r))) z of
              (Inl e, z') \<Rightarrow> (Some e, r, z')
            | (Inr u, z') \<Rightarrow>
                (if r_thread_lock r then None else Some RuntimeError,
                 r\<lparr>r_lock := False, r_thread_lock := False\<rparr>, z')))"

subsection \<open>Reading nodes\<close>

definition getNodes :: "'z kazoo \<Rightarrow> 'z \<Rightarrow> string list res" where
  "getNodes K z = orNoNode (kz_children K NODE_ROOT z) []"

definition getNode ::
  "'z kazoo \<Rightarrow> node cache option \<Rightarrow> string \<Rightarrow> bool \<Rightarrow> bool \<Rightarrow> rat \<Rightarrow> 'z \<Rightarrow> node option res" where
  "getNode K nc i cached only_cached now z =
     (case (if cached then Option.bind nc (getCachedNode i) else None) of
        Some d \<Rightarrow> Inr (Some d)
      | None \<Rightarrow>
          if cached \<and> nc \<noteq> None \<and> only_cached then Inr None
          else (case kz_get K (nodePath i) z of
                  Inl NoNodeError \<Rightarrow> Inr None
                | Inl e \<Rightarrow> Inl e
                | Inr (data, stat) \<Rightarrow>
                    if \<not> has_data data then Inr None
                    else bindE (bytesToDict data) (\<lambda>dict.
                      bindE (node_fromDict dict (Some i) now) (\<lambda>d.
                        Inr (Some (d\<lparr>o_id := Some i, o_stat := Some stat\<rparr>))))))"

definition updateNode :: "'z kazoo \<Rightarrow> rat \<Rightarrow> node \<Rightarrow> 'z \<Rightarrow> node upd" where
  "updateNode K now n z =
     (case kz_get K (nodePath (str_id (o_id n))) z of
        Inl e \<Rightarrow> (Some e, n)
      | Inr (data, stat) \<Rightarrow>
          (case (if has_data data then bytesToDict data else Inr []) of
             Inl e \<Rightarrow> (Some e, n)
           | Inr d \<Rightarrow>
               (case node_updateFromDict d now n of
                  (Some e, n') \<Rightarrow> (Some e, n')
                | (None, n') \<Rightarrow> (None, n'\<lparr>o_stat := Some stat\<rparr>))))"

text \<open>The wrapper \<open>watchNode\<close> installs: \<open>None\<close> is the payload of a znode that is gone.\<close>

definition watchNode_callback ::
  "(node \<Rightarrow> bool \<Rightarrow> 'r) \<Rightarrow> zdata option \<Rightarrow> rat \<Rightarrow> node \<Rightarrow> 'r res \<times> node" where
  "watchNode_callback callback data now n =
     (case data of
        None \<Rightarrow> (Inr (callback n True), n)
      | Some bytes \<Rightarrow>
          (case bytesToDict bytes of
             Inl e \<Rightarrow> (Inl e, n)
           | Inr d \<Rightarrow>
               (case node_updateFromDict d now n of
                  (Some e, n') \<Rightarrow> (Inl e, n')
                | (None, n') \<Rightarrow> (Inr (callback n' False), n'))))"

subsection \<open>Storing and deleting nodes\<close>

definition storeNode ::
  "'z kazoo \<Rightarrow> rat \<Rightarrow> node \<Rightarrow> 'z \<Rightarrow> pyexc option \<times> node \<times> 'z" where
  "storeNode K now n z =
     (if no_id (o_id n)
      then let n' = n\<lparr>n_created_time := (if truthy (o_state_time n) then o_state_time n else JNum now)\<rparr>
           in (case kz_create_seq K (NODE_ROOT @ ''/'') (serialize (node_toDict n')) z of
                 Inl e \<Rightarrow> (Some e, n', z)
               | Inr (path, z') \<Rightarrow> (None, n'\<lparr>o_id := Some (last_component path)\<rparr>, z'))
      else (case kz_set K (nodePath (str_id (o_id n))) (serialize (node_toDict n)) z of
              Inl e \<Rightarrow> (Some e, n, z)
            | Inr z' \<Rightarrow> (None, n, z')))"

definition deleteRawNode :: "'z kazoo \<Rightarrow> string \<Rightarrow> 'z \<Rightarrow> 'z res" where
  "deleteRawNode K node_id z = orNoNode (kz_delete K (nodePath node_id) True z) z"

definition deleteNode ::
  "'z kazoo \<Rightarrow> rat \<Rightarrow> node \<Rightarrow> 'z \<Rightarrow> pyexc option \<times> node \<times> 'z" where
  "deleteNode K now n z =
     (if no_id (o_id n) then (None, n, z)
      else (case set_state NODE_STATES (JStr (state_str DELETED)) now n of
              Inl e \<Rightarrow> (Some e, n, z)
            | Inr n1 \<Rightarrow>
                (case kz_set K (nodePath (str_id (o_id n1))) (serialize (node_toDict n1)) z of
                   Inl e \<Rightarrow> (Some e, n1, z)
                 | Inr z1 \<Rightarrow>
                     (case deleteRawNode K (str_id (o_id n1)) z1 of
                        Inl e \<Rightarrow> (Some e, n1, z1)
                      | Inr z2 \<Rightarrow> (None, n1\<lparr>n_thread_lock := False\<rparr>, z2)))))"

subsection \<open>Locking nodes\<close>

definition lockNode ::
  "'z kazoo \<Rightarrow> 'z locks \<Rightarrow> node \<Rightarrow> bool \<Rightarrow> rat option \<Rightarrow> bool \<Rightarrow> string option \<Rightarrow> bool \<Rightarrow> rat \<Rightarrow> 'z \<Rightarrow>
     pyexc option \<times> node \<times> 'z" where
  "lockNode K L n blocking timeout ephemeral identifier freed now z =
     (case thread_acquire (n_thread_lock n) blocking timeout freed of
        Inl e \<Rightarrow> (Some e, n, z)
      | Inr have_thread_lock \<Rightarrow>
          if \<not> have_thread_lock
          then (Some (if blocking then TimeoutException else ZKLockException), n, z)
          else (case take_lock L (nodeLockPath (str_id (o_id n))) identifier blocking timeout ephemeral z of
                  (Inl e, z') \<Rightarrow> (Some e, n\<lparr>n_thread_lock := False\<rparr>, z')
                | (Inr u, z') \<Rightarrow>
                    (case updateNode K now (n\<lparr>n_thread_lock := ephemeral, n_lock := True\<rparr>) z' of
                       (ex, n') \<Rightarrow> (ex, n', z'))))"

definition unlockNode :: "'z locks \<Rightarrow> node \<Rightarrow> 'z \<Rightarrow> pyexc option \<times> node \<times> 'z" where
  "unlockNode L n z =
     (if \<not> n_lock n then (Some ZKLockException, n, z)
      else (case lk_release L (nodeLockPath (str_id (o_id n))) z of
              (Inl e, z') \<Rightarrow> (Some e, n, z')
            | (Inr u, z') \<Rightarrow>
                (if n_thread_lock n then None else Some RuntimeError,
                 n\<lparr>n_lock := False, n_thread_lock := False\<rparr>, z')))"

text \<open>
  \<open>contenders_re\<close>: the ten digits a name ends with. Of several contenders with the same digits the
  last one listed stays.
\<close>

definition is_digit :: "char \<Rightarrow> bool" where
  "is_digit c = (CHR ''0'' \<le> c \<and> c \<le> CHR ''9'')"

definition contender_digits :: "string \<Rightarrow> string option" where
  "contender_digits child =
     (let m = drop (length child - 10) child in
      if length m = 10 \<and> list_all is_digit m then Some m else None)"

definition contenders_of :: "string list \<Rightarrow> (string \<times> string) list" where
  "contenders_of children =
     foldl (\<lambda>d child. case contender_digits child of
                        None \<Rightarrow> d | Some k \<Rightarrow> AList.update k child d) [] children"

definition forceUnlockNode :: "'z kazoo \<Rightarrow> node \<Rightarrow> 'z \<Rightarrow> 'z res" where
  "forceUnlockNode K n z =
     (let lock_path = nodeLockPath (str_id (o_id n)) in
      bindE (orNoNode (kz_children K lock_path z) []) (\<lambda>children.
        let contenders = contenders_of children in
        (case sort (map fst contenders) of
           [] \<Rightarrow> Inr z
         | key # rest \<Rightarrow>
             (case map_of contenders key of
                None \<Rightarrow> Inl KeyError
              | Some lock_id \<Rightarrow> orNoNode (kz_delete K (lock_path @ ''/'' @ lock_id) False z) z))))"

definition getNodeLockContenders :: "'z locks \<Rightarrow> node \<Rightarrow> 'z \<Rightarrow> string list res" where
  "getNodeLockContenders L n z = lk_contenders L (nodeLockPath (str_id (o_id n))) z"

end
