(* ===== verification/Quota.thy ===== *)
theory Quota
  imports ZkNodes
begin

section \<open>Quota\<close>

text \<open>
  \<open>QuotaInformation\<close> and the mix-in \<open>QuotaSupport\<close> of \<open>nodepool/driver/utils.py\<close>. The numbers are
  Python's: exact rationals and the special values \<open>inf\<close>, \<open>-inf\<close> and \<open>nan\<close> that arithmetic on
  \<open>math.inf\<close> gives. A value that is not a number (a quota can be built from whatever a node's
  resources hold) raises \<open>TypeError\<close> in arithmetic and comparison, and an operation that raises half
  way keeps what it has done: so \<open>add\<close> and \<open>subtract\<close> return the exception together with the quota.
\<close>

subsection \<open>Numbers with infinities\<close>

datatype num = Fin rat | PosInf | NegInf | NaN

fun nneg :: "num \<Rightarrow> num" where
  "nneg (Fin q) = Fin (- q)"
| "nneg PosInf = NegInf"
| "nneg NegInf = PosInf"
| "nneg NaN = NaN"

fun nadd :: "num \<Rightarrow> num \<Rightarrow> num" where
  "nadd (Fin a) (Fin b) = Fin (a + b)"
| "nadd NaN y = NaN"
| "nadd x NaN = NaN"
| "nadd PosInf NegInf = NaN"
| "nadd NegInf PosInf = NaN"
| "nadd PosInf y = PosInf"
| "nadd NegInf y = NegInf"
| "nadd x PosInf = PosInf"
| "nadd x NegInf = NegInf"

definition nsub :: "num \<Rightarrow> num \<Rightarrow> num" where
  "nsub x y = nadd x (nneg y)"

text \<open>\<open>x < 0\<close>: false for \<open>nan\<close>.\<close>

fun nneg_p :: "num \<Rightarrow> bool" where
  "nneg_p (Fin q) = (q < 0)"
| "nneg_p NegInf = True"
| "nneg_p _ = False"

datatype qval = QNum num | QOther json

text \<open>A resource value read from ZooKeeper: JSON has no infinities.\<close>

fun qval_of_json :: "json \<Rightarrow> qval" where
  "qval_of_json (JNum q) = QNum (Fin q)"
| "qval_of_json (JBool b) = QNum (Fin (if b then 1 else 0))"
| "qval_of_json v = QOther v"

subsection \<open>\<open>QuotaInformation\<close>\<close>

type_synonym resources = "(string \<times> qval) list"

record quota =
  q_quota :: "(string \<times> resources) list"   \<comment> \<open>category, resource, value\<close>
  q_default :: num

definition get_default :: "num option \<Rightarrow> num \<Rightarrow> num" where
  "get_default value d = (case value of None \<Rightarrow> d | Some v \<Rightarrow> v)"

definition quota_init ::
  "num option \<Rightarrow> num option \<Rightarrow> num option \<Rightarrow> num \<Rightarrow> (string \<times> qval) list \<Rightarrow> quota" where
  "quota_init cores instances ram d kw =
     \<lparr> q_quota = [(''compute'', foldl (\<lambda>rs (k, v). AList.update k v rs)
         [(''cores'', QNum (get_default cores d)),
          (''instances'', QNum (get_default instances d)),
          (''ram'', QNum (get_default ram d))] kw)],
       q_default = d \<rparr>"

definition no_quota :: quota where
  "no_quota = quota_init None None None (Fin 0) []"

text \<open>\<open>d.setdefault(k, v)\<close>.\<close>

definition setdefault :: "'k \<Rightarrow> 'v \<Rightarrow> ('k \<times> 'v) list \<Rightarrow> ('k \<times> 'v) list" where
  "setdefault k v d = (if map_of d k = None then d @ [(k, v)] else d)"

text \<open>The first loop: every category and resource of the other quota exists.\<close>

definition with_keys_of :: "quota \<Rightarrow> quota \<Rightarrow> quota" where
  "with_keys_of other q = q\<lparr>q_quota :=
     foldl (\<lambda>cs (c, rs). let cs' = setdefault c [] cs in
              AList.update c (foldl (\<lambda>es (r, v). setdefault r (QNum (q_default q)) es)
                                (the (map_of cs' c)) rs) cs')
       (q_quota q) (q_quota other)\<rparr>"

definition quota_get :: "quota \<Rightarrow> string \<Rightarrow> string \<Rightarrow> qval" where
  "quota_get q c r = (case map_of (q_quota q) c of
     None \<Rightarrow> QNum (q_default q)
   | Some rs \<Rightarrow> (case map_of rs r of None \<Rightarrow> QNum (q_default q) | Some v \<Rightarrow> v))"

definition quota_set :: "string \<Rightarrow> string \<Rightarrow> qval \<Rightarrow> quota \<Rightarrow> quota" where
  "quota_set c r v q = q\<lparr>q_quota :=
     AList.update c (AList.update r v (case map_of (q_quota q) c of None \<Rightarrow> [] | Some rs \<Rightarrow> rs))
       (q_quota q)\<rparr>"

fun qarith :: "(num \<Rightarrow> num \<Rightarrow> num) \<Rightarrow> qval \<Rightarrow> qval \<Rightarrow> qval res" where
  "qarith f (QNum x) (QNum y) = Inr (QNum (f x y))"
| "qarith f _ _ = Inl TypeError"

definition quota_keys :: "quota \<Rightarrow> (string \<times> string) list" where
  "quota_keys q = concat (map (\<lambda>(c, rs). map (\<lambda>(r, v). (c, r)) rs) (q_quota q))"

text \<open>The second loop over the quota's own keys.\<close>

fun quota_each ::
  "(num \<Rightarrow> num \<Rightarrow> num) \<Rightarrow> quota \<Rightarrow> (string \<times> string) list \<Rightarrow> quota \<Rightarrow> pyexc option \<times> quota" where
  "quota_each f other [] q = (None, q)"
| "quota_each f other ((c, r) # ks) q =
     (case qarith f (quota_get q c r) (quota_get other c r) of
        Inl e \<Rightarrow> (Some e, q)
      | Inr v \<Rightarrow> quota_each f other ks (quota_set c r v q))"

definition add_subtract :: "bool \<Rightarrow> quota \<Rightarrow> quota \<Rightarrow> pyexc option \<times> quota" where
  "add_subtract add other q =
     (let q' = with_keys_of other q
      in quota_each (if add then nadd else nsub) other (quota_keys q') q')"

definition quota_add :: "quota \<Rightarrow> quota \<Rightarrow> pyexc option \<times> quota" where
  "quota_add = add_subtract True"

definition quota_subtract :: "quota \<Rightarrow> quota \<Rightarrow> pyexc option \<times> quota" where
  "quota_subtract = add_subtract False"

fun all_non_negative :: "qval list \<Rightarrow> bool res" where
  "all_non_negative [] = Inr True"
| "all_non_negative (QNum x # vs) = (if nneg_p x then Inr False else all_non_negative vs)"
| "all_non_negative (QOther v # vs) = Inl TypeError"

definition non_negative :: "quota \<Rightarrow> bool res" where
  "non_negative q = all_non_negative (concat (map (\<lambda>(c, rs). map snd rs) (q_quota q)))"

definition get_resources :: "quota \<Rightarrow> resources res" where
  "get_resources q = (case map_of (q_quota q) ''compute'' of
     None \<Rightarrow> Inl KeyError | Some rs \<Rightarrow> Inr rs)"

definition from_resources :: "resources \<Rightarrow> quota" where
  "from_resources rs = no_quota\<lparr>q_quota := AList.update ''compute'' rs (q_quota no_quota)\<rparr>"

subsection \<open>\<open>QuotaSupport\<close>\<close>

definition MAX_QUOTA_AGE :: rat where
  "MAX_QUOTA_AGE = 5 * 60"

record quota_cache =
  qc_timestamp :: rat
  qc_quota :: "quota option"

definition quota_cache_init :: quota_cache where
  "quota_cache_init = \<lparr> qc_timestamp = 0, qc_quota = None \<rparr>"

definition invalidateQuotaCache :: "quota_cache \<Rightarrow> quota_cache" where
  "invalidateQuotaCache s = s\<lparr>qc_timestamp := 0\<rparr>"

text \<open>
  \<open>limits\<close> and \<open>unmanaged\<close> are what the provider's methods return or raise, \<open>now\<close> the clock when the
  method is entered and \<open>later\<close> the clock when the new value is kept.
\<close>

definition estimatedNodepoolQuota ::
  "quota res \<Rightarrow> quota res \<Rightarrow> rat \<Rightarrow> rat \<Rightarrow> quota_cache \<Rightarrow> quota res \<times> quota_cache" where
  "estimatedNodepoolQuota limits unmanaged now later s =
     (case (case qc_quota s of
              None \<Rightarrow> None
            | Some q \<Rightarrow> if now < qc_timestamp s + MAX_QUOTA_AGE then Some q else None) of
        Some q \<Rightarrow> (Inr q, s)
      | None \<Rightarrow>
          (case limits of
             Inl e \<Rightarrow> ((case qc_quota s of Some q \<Rightarrow> Inr q | None \<Rightarrow> Inl e), s)
           | Inr nodepool_quota \<Rightarrow>
               (case unmanaged of
                  Inl e \<Rightarrow> (Inl e, s)
                | Inr u \<Rightarrow>
                    (case quota_subtract u nodepool_quota of
                       (Some e, q) \<Rightarrow> (Inl e, s)
                     | (None, q) \<Rightarrow> (Inr q, \<lparr> qc_timestamp = later, qc_quota = Some q \<rparr>)))))"

text \<open>
  The quota one node is counted with: from its resources when it has any, else from its label.
  Whatever raises here skips the node (after what was added before the exception). The pools of the
  provider are a map from names to their labels; a pool name that is no string is no key. What a
  label needs comes from the provider's \<open>quotaNeededByLabel\<close>, which changes the provider's state.
\<close>

definition node_labels :: "(string \<times> string list) list \<Rightarrow> json \<Rightarrow> string list option" where
  "node_labels pools p = (case p of JStr s \<Rightarrow> map_of pools s | _ \<Rightarrow> None)"

definition node_quota ::
  "(string \<Rightarrow> string \<Rightarrow> ('s, quota) eff) \<Rightarrow> string list \<Rightarrow> node \<Rightarrow> ('s, quota option) eff" where
  "node_quota needed labels n =
     (case n_type n of
        [] \<Rightarrow> eff_raise IndexError
      | t # ts \<Rightarrow>
          (case t of
             JStr l \<Rightarrow>
               if l \<notin> set labels then eff_ret None
               else if truthy (n_resources n)
               then (case n_resources n of
                       JDict d \<Rightarrow> eff_ret (Some (from_resources (map (\<lambda>(k, v). (k, qval_of_json v)) d)))
                     | _ \<Rightarrow> eff_raise AttributeError)
               else (case n_pool n of
                       JStr p \<Rightarrow> eff_bind (needed l p) (\<lambda>q. eff_ret (Some q))
                     | _ \<Rightarrow> eff_raise KeyError)
           | JList xs \<Rightarrow> eff_raise TypeError
           | JDict d \<Rightarrow> eff_raise TypeError
           | _ \<Rightarrow> eff_ret None))"

definition count_node ::
  "string \<Rightarrow> (string \<times> string list) list \<Rightarrow> (string \<Rightarrow> string \<Rightarrow> ('s, quota) eff) \<Rightarrow> string option \<Rightarrow>
     node \<Rightarrow> quota \<Rightarrow> ('s, quota) eff" where
  "count_node provider_name pools needed pool n used =
     (if n_provider n \<noteq> JStr provider_name then eff_ret used
      else if (case pool of None \<Rightarrow> False | Some p \<Rightarrow> n_pool n \<noteq> JStr p) then eff_ret used
      else (case node_labels pools (n_pool n) of
              None \<Rightarrow> eff_ret used
            | Some labels \<Rightarrow>
                eff_try (eff_bind (node_quota needed labels n) (\<lambda>q.
                    case q of None \<Rightarrow> eff_ret used | Some q' \<Rightarrow> eff_ret (snd (quota_add q' used))))
                  (\<lambda>e. eff_ret used)))"

definition estimatedNodepoolQuotaUsed ::
  "string \<Rightarrow> (string \<times> string list) list \<Rightarrow> (string \<Rightarrow> string \<Rightarrow> ('s, quota) eff) \<Rightarrow> string option \<Rightarrow>
     node list \<Rightarrow> ('s, quota) eff" where
  "estimatedNodepoolQuotaUsed provider_name pools needed pool ns =
     eff_fold (count_node provider_name pools needed pool) ns no_quota"

end
