(* ===== verification/ZkPools.thy ===== *)
theory ZkPools
  imports ZkNodes
begin

section \<open>Operations over all nodes, and the backup of the image data\<close>

text \<open>
  The iterators of the class \<open>ZooKeeper\<close> and the operations built on them: counting and listing the
  nodes of a pool or provider, the ready nodes by label, \<open>deleteOldestUnusedNode\<close>, and the export
  and import of the image data. A generator that only reads is the list of what it yields; the scan
  of \<open>deleteOldestUnusedNode\<close>, which may stop early, reads node by node.
\<close>

subsection \<open>Iterators\<close>

definition node_ids_of ::
  "'z kazoo \<Rightarrow> node cache option \<Rightarrow> bool \<Rightarrow> 'z \<Rightarrow> string option list res" where
  "node_ids_of K nc cached_ids z =
     (case (if cached_ids then nc else None) of
        Some c \<Rightarrow> Inr (getCachedNodeIds c)
      | None \<Rightarrow> map_sum id (map Some) (getNodes K z))"

definition nodeIterator ::
  "'z kazoo \<Rightarrow> node cache option \<Rightarrow> bool \<Rightarrow> bool \<Rightarrow> rat \<Rightarrow> 'z \<Rightarrow> node list res" where
  "nodeIterator K nc cached cached_ids now z =
     bindE (node_ids_of K nc cached_ids z) (\<lambda>ids.
       map_sum id somes (mapE (\<lambda>i. getNode K nc (str_id i) cached cached_ids now z) ids))"

definition nodeRequestLockStatsIterator :: "'z kazoo \<Rightarrow> 'z \<Rightarrow> request_lock_stats list res" where
  "nodeRequestLockStatsIterator K z =
     bindE (getNodeRequestLockIDs K z) (\<lambda>ids.
       map_sum id somes (mapE (\<lambda>i. getNodeRequestLockStats K i z) ids))"

text \<open>With \<open>cached_ids\<close> and no cache the code looks the ids up on \<open>None\<close>.\<close>

definition nodeRequestIterator ::
  "'z kazoo \<Rightarrow> node_request cache option \<Rightarrow> bool \<Rightarrow> bool \<Rightarrow> rat \<Rightarrow> 'z \<Rightarrow> node_request list res" where
  "nodeRequestIterator K rc cached cached_ids now z =
     bindE (if cached_ids
            then (case rc of None \<Rightarrow> Inl AttributeError | Some c \<Rightarrow> Inr (getCachedRequestIds c))
            else map_sum id (map Some) (getNodeRequests K z)) (\<lambda>ids.
       map_sum id somes (mapE (\<lambda>i. getNodeRequest K rc i cached now z) ids))"

subsection \<open>Nodes of a pool, of a provider, and ready nodes\<close>

definition of_pool :: "string \<Rightarrow> string \<Rightarrow> node \<Rightarrow> bool" where
  "of_pool provider_name pool_name n =
     (n_provider n = JStr provider_name \<and> n_pool n = JStr pool_name)"

definition countPoolNodes ::
  "'z kazoo \<Rightarrow> node cache option \<Rightarrow> string \<Rightarrow> string \<Rightarrow> rat \<Rightarrow> 'z \<Rightarrow> nat res" where
  "countPoolNodes K nc provider_name pool_name now z =
     map_sum id (\<lambda>ns. length (filter (of_pool provider_name pool_name) ns))
       (nodeIterator K nc True False now z)"

definition getProviderNodes ::
  "'z kazoo \<Rightarrow> node cache option \<Rightarrow> string \<Rightarrow> rat \<Rightarrow> 'z \<Rightarrow> node list res" where
  "getProviderNodes K nc provider_name now z =
     map_sum id (filter (\<lambda>n. n_provider n = JStr provider_name)) (nodeIterator K nc True False now z)"

fun removeProviderNodes ::
  "'z kazoo \<Rightarrow> rat \<Rightarrow> node list \<Rightarrow> 'z \<Rightarrow> pyexc option \<times> node list \<times> 'z" where
  "removeProviderNodes K now [] z = (None, [], z)"
| "removeProviderNodes K now (n # ns) z =
     (case deleteNode K now n z of
        (Some e, n', z') \<Rightarrow> (Some e, n' # ns, z')
      | (None, n', z') \<Rightarrow>
          (case removeProviderNodes K now ns z' of (ex, ns', z'') \<Rightarrow> (ex, n' # ns', z'')))"

definition unallocated_ready :: "node \<Rightarrow> bool" where
  "unallocated_ready n = (o_state n = Some READY \<and> \<not> truthy (n_allocated_to n))"

definition add_ready ::
  "string \<Rightarrow> node \<Rightarrow> (string \<times> node list) list \<Rightarrow> (string \<times> node list) list" where
  "add_ready label n ret =
     (case map_of ret label of
        None \<Rightarrow> AList.update label [n] ret
      | Some ns \<Rightarrow> AList.update label (ns @ [n]) ret)"

definition ready_by_label :: "string list \<Rightarrow> node list \<Rightarrow> (string \<times> node list) list" where
  "ready_by_label labels ns =
     foldl (\<lambda>ret n. if unallocated_ready n
                    then foldl (\<lambda>r label. if JStr label \<in> set (n_type n) then add_ready label n r else r)
                           ret labels
                    else ret) [] ns"

definition getReadyNodesOfTypes ::
  "'z kazoo \<Rightarrow> node cache option \<Rightarrow> string list \<Rightarrow> rat \<Rightarrow> 'z \<Rightarrow> (string \<times> node list) list res" where
  "getReadyNodesOfTypes K nc labels now z =
     map_sum id (ready_by_label labels) (nodeIterator K nc True True now z)"

subsection \<open>Deleting the oldest unused node\<close>

definition MAX_DELETE_AGE :: rat where
  "MAX_DELETE_AGE = 5 * 60"

text \<open>
  The scan: the unallocated ready nodes of the pool, or \<open>None\<close> when a node being deleted is recent
  enough (the state time divided by 1000, as the code has it).
\<close>

fun oldest_candidates ::
  "'z kazoo \<Rightarrow> node cache option \<Rightarrow> string \<Rightarrow> string \<Rightarrow> rat \<Rightarrow> 'z \<Rightarrow> string list \<Rightarrow> node list \<Rightarrow>
     node list option res" where
  "oldest_candidates K nc pr pl now z [] acc = Inr (Some acc)"
| "oldest_candidates K nc pr pl now z (i # ids) acc =
     bindE (getNode K nc i True False now z) (\<lambda>r.
       case r of
         None \<Rightarrow> oldest_candidates K nc pr pl now z ids acc
       | Some n \<Rightarrow>
           if of_pool pr pl n
           then if unallocated_ready n then oldest_candidates K nc pr pl now z ids (acc @ [n])
                else if o_state n = Some DELETING
                then bindE (num_of (o_state_time n)) (\<lambda>t.
                       if now - t / 1000 < MAX_DELETE_AGE then Inr None
                       else oldest_candidates K nc pr pl now z ids acc)
                else oldest_candidates K nc pr pl now z ids acc
           else oldest_candidates K nc pr pl now z ids acc)"

definition sort_oldest :: "node list \<Rightarrow> node list res" where
  "sort_oldest xs =
     (if length xs \<le> 1 then Inr xs
      else bindE (mapE (\<lambda>x. map_sum id (\<lambda>t. (t, x)) (num_of (o_state_time x))) xs)
             (\<lambda>ts. Inr (map snd (sort_key fst ts))))"

text \<open>The node object of the cache, changed in place.\<close>

definition put_back :: "node \<Rightarrow> node cache option \<Rightarrow> node cache option" where
  "put_back n nc = map_option (\<lambda>c.
     if map_of (cached_objects c) [str_id (o_id n)] = None then c
     else c\<lparr>cached_objects := AList.update [str_id (o_id n)] n (cached_objects c)\<rparr>) nc"

text \<open>The guarded block: the age is only logged, but computing it needs a number.\<close>

definition mark_deleting ::
  "'z kazoo \<Rightarrow> rat \<Rightarrow> node \<Rightarrow> 'z \<Rightarrow> pyexc option \<times> node \<times> 'z" where
  "mark_deleting K now n z =
     (case num_of (o_state_time n) of
        Inl e \<Rightarrow> (Some e, n, z)
      | Inr t \<Rightarrow>
          (case set_state NODE_STATES (JStr (state_str DELETING)) now n of
             Inl e \<Rightarrow> (Some e, n, z)
           | Inr n' \<Rightarrow> storeNode K now n' z))"

fun delete_first ::
  "'z kazoo \<Rightarrow> 'z locks \<Rightarrow> rat \<Rightarrow> node list \<Rightarrow> node cache option \<Rightarrow> 'z \<Rightarrow>
     bool res \<times> node cache option \<times> 'z" where
  "delete_first K L now [] nc z = (Inr False, nc, z)"
| "delete_first K L now (n # ns) nc z =
     (case lockNode K L n False None True None False now z of
        (Some e, n1, z1) \<Rightarrow>
          if e = ZKLockException then delete_first K L now ns (put_back n1 nc) z1
          else (Inl e, put_back n1 nc, z1)
      | (None, n1, z1) \<Rightarrow>
          if \<not> unallocated_ready n1
          then (case unlockNode L n1 z1 of
                  (Some e, n2, z2) \<Rightarrow> (Inl e, put_back n2 nc, z2)
                | (None, n2, z2) \<Rightarrow> delete_first K L now ns (put_back n2 nc) z2)
          else (case mark_deleting K now n1 z1 of
                  (ex, n2, z2) \<Rightarrow>
                    (case unlockNode L n2 z2 of
                       (Some e, n3, z3) \<Rightarrow> (Inl e, put_back n3 nc, z3)
                     | (None, n3, z3) \<Rightarrow>
                         if ex \<noteq> None then delete_first K L now ns (put_back n3 nc) z3
                         else (Inr True, put_back n3 nc, z3))))"

definition deleteOldestUnusedNode ::
  "'z kazoo \<Rightarrow> 'z locks \<Rightarrow> string \<Rightarrow> string \<Rightarrow> rat \<Rightarrow> node cache option \<Rightarrow> 'z \<Rightarrow>
     bool res \<times> node cache option \<times> 'z" where
  "deleteOldestUnusedNode K L provider_name pool_name now nc z =
     (case bindE (getNodes K z) (\<lambda>ids. oldest_candidates K nc provider_name pool_name now z ids []) of
        Inl e \<Rightarrow> (Inl e, nc, z)
      | Inr None \<Rightarrow> (Inr False, nc, z)
      | Inr (Some candidates) \<Rightarrow>
          (case sort_oldest candidates of
             Inl e \<Rightarrow> (Inl e, nc, z)
           | Inr ns \<Rightarrow> delete_first K L now ns nc z))"

subsection \<open>Backup of the image data\<close>

text \<open>The payload at a path as an entry of the result; a znode that is gone is skipped.\<close>

definition export_path :: "'z kazoo \<Rightarrow> string \<Rightarrow> 'z \<Rightarrow> (string \<times> zdata) list res" where
  "export_path K path z = orNoNode (map_sum id (\<lambda>(data, stat). [(path, data)]) (kz_get K path z)) []"

definition export_uploads ::
  "'z kazoo \<Rightarrow> string \<Rightarrow> string \<Rightarrow> string \<Rightarrow> 'z \<Rightarrow> (string \<times> zdata) list res" where
  "export_uploads K image_name build_no provider_name z =
     bindE (getImageUploadNumbers K image_name build_no provider_name z) (\<lambda>upload_nos.
       map_sum id concat (mapE (\<lambda>upload_no.
         export_path K (imageUploadPath image_name build_no provider_name @ ''/'' @ upload_no) z)
         upload_nos))"

definition export_build ::
  "'z kazoo \<Rightarrow> string \<Rightarrow> string \<Rightarrow> 'z \<Rightarrow> (string \<times> zdata) list res" where
  "export_build K image_name build_no z =
     bindE (export_path K (imageBuildsPath image_name @ ''/'' @ build_no) z) (\<lambda>entry.
       if entry = [] then Inr []
       else bindE (getBuildProviders K image_name build_no z) (\<lambda>providers.
         map_sum id (\<lambda>us. entry @ concat us)
           (mapE (\<lambda>provider_name. export_uploads K image_name build_no provider_name z) providers)))"

definition exportImageData :: "'z kazoo \<Rightarrow> 'z \<Rightarrow> (string \<times> zdata) list res" where
  "exportImageData K z =
     bindE (getImageNames K z) (\<lambda>names. map_sum id concat (mapE (\<lambda>image_name.
       bindE (getImagePaused K image_name z) (\<lambda>paused.
         bindE (getBuildIds K image_name z) (\<lambda>build_nos.
           map_sum id (\<lambda>bs. (if paused then [(imagePausePath image_name, NoData)] else []) @ concat bs)
             (mapE (\<lambda>build_no. export_build K image_name build_no z) build_nos)))) names))"

text \<open>The highest upload number below each path of uploads.\<close>

definition highest_num :: "(string \<times> zdata) list \<Rightarrow> (string \<times> int) list res" where
  "highest_num import_data =
     foldE (\<lambda>(path, data) h.
       let parts = py_split slash path in
       if length parts = 10
       then (let key = py_join ''/'' (take 9 parts) in
             bindE (py_int (JStr (parts ! 9))) (\<lambda>num.
               Inr (AList.update key (case map_of h key of None \<Rightarrow> num | Some m \<Rightarrow> max m num) h)))
       else Inr h) import_data []"

definition precreate ::
  "'z kazoo \<Rightarrow> (string \<times> zdata) list \<Rightarrow> string \<Rightarrow> 'z \<Rightarrow> 'z res" where
  "precreate K import_data path z =
     bindE (kz_create_seq K (path @ ''/'') NoData z) (\<lambda>(node, z').
       if map_of import_data node = None then kz_delete K node False z' else Inr z')"

definition import_path :: "'z kazoo \<Rightarrow> string \<times> zdata \<Rightarrow> 'z \<Rightarrow> 'z res" where
  "import_path K pd z =
     (case pd of (path, data) \<Rightarrow>
        if kz_exists K path z \<noteq> None then kz_set K path data z else kz_create K path data True z)"

definition importImageData :: "'z kazoo \<Rightarrow> (string \<times> zdata) list \<Rightarrow> 'z \<Rightarrow> 'z res" where
  "importImageData K import_data z =
     bindE (highest_num import_data) (\<lambda>highest.
       bindE (foldE (\<lambda>(path, num) z1. foldE (\<lambda>x z2. precreate K import_data path z2)
                       [0..<nat num] z1) highest z) (\<lambda>z1.
         foldE (import_path K) import_data z1))"

end
