(* ===== verification/RequestHandler.thy ===== *)
theory RequestHandler
  imports Quota ZkPools
begin

section \<open>The request handler\<close>

text \<open>
  The class \<open>NodeRequestHandler\<close> of \<open>nodepool/driver/__init__.py\<close>, which serves one node request,
  and its \<open>LabelRecorder\<close>. What a driver implements is a record of functions over the driver's own
  state \<open>'d\<close>; what the handler takes from its pool worker and from the configuration is a record of
  values. The state of a handler holds the request and node objects by value. Node objects are
  shared: the ready nodes a scan found are kept in a store by id, so that a node listed under several
  labels is one object, and an object that came from the node cache is changed there as well. Methods
  that may raise return the exception with the state at that point.
\<close>

subsection \<open>\<open>LabelRecorder\<close>\<close>

type_synonym recorder = "(string \<times> string) list"   \<comment> \<open>label, node id\<close>

definition recorder_add :: "string \<Rightarrow> string \<Rightarrow> recorder \<Rightarrow> recorder" where
  "recorder_add label node_id d = d @ [(label, node_id)]"

definition recorder_labels :: "recorder \<Rightarrow> string list" where
  "recorder_labels d = map fst d"

text \<open>
  \<open>pop\<close>: with no entry for the label the code reads a variable that was never assigned
  (\<open>UnboundLocalError\<close>); the result is \<open>None\<close> only for an entry with an empty id.
\<close>

definition recorder_pop :: "string \<Rightarrow> recorder \<Rightarrow> (string option \<times> recorder) res" where
  "recorder_pop label d =
     (case map_of d label of
        None \<Rightarrow> Inl (OtherError ''UnboundLocalError'')
      | Some node_id \<Rightarrow> if node_id = [] then Inr (None, d)
                        else Inr (Some node_id, remove1 (label, node_id) d))"

fun recorder_removeNode :: "string \<Rightarrow> recorder \<Rightarrow> recorder" where
  "recorder_removeNode i [] = []"
| "recorder_removeNode i ((l, j) # d) = (if j = i then d else (l, j) # recorder_removeNode i d)"

subsection \<open>State and parameters\<close>

record handler_config =
  hc_provider :: string
  hc_pool :: string
  hc_launcher_id :: string
  hc_max_servers :: num
  hc_node_attributes :: json
  hc_supported :: "string list"      \<comment> \<open>the labels of the pool\<close>
  hc_pause_at_quota :: bool          \<comment> \<open>\<open>PAUSE_AT_QUOTA\<close> of the provider\<close>
  hc_registered :: "string list"     \<comment> \<open>the ids of the registered launcher pools\<close>

text \<open>What a driver's checks read of ZooKeeper: the caches of the client and the server.\<close>

record 'z zk_view =
  v_nodes :: "node cache option"
  v_images :: "cached_image cache option"   \<comment> \<open>\<open>None\<close> for a client made without caches\<close>
  v_zk :: 'z

record ('d, 'z) handler_state =
  h_request :: node_request
  h_nodeset :: "node list"
  h_done :: bool
  h_paused :: bool
  h_satisfied :: recorder
  h_failed :: "node list"
  h_ready :: "node list"
  h_drv :: 'd
  h_objs :: "(string \<times> node) list"   \<comment> \<open>node objects of the last scan for ready nodes, by id\<close>
  h_cache :: "node cache option"
  h_images :: "cached_image cache option"
  h_zk :: 'z

record ('d, 'z) driver =
  dr_imagesAvailable :: "string list \<Rightarrow> rat \<Rightarrow> 'z zk_view \<Rightarrow> 'd \<Rightarrow> bool res"
  dr_hasProviderQuota :: "string list \<Rightarrow> rat \<Rightarrow> 'z zk_view \<Rightarrow> ('d, bool) eff"
  dr_hasRemainingQuota :: "string \<Rightarrow> rat \<Rightarrow> 'z zk_view \<Rightarrow> ('d, bool) eff"
  dr_checkReusableNode :: "node \<Rightarrow> 'd \<Rightarrow> bool"
  dr_nodeReused :: "node \<Rightarrow> 'd \<Rightarrow> 'd"
  dr_setNodeMetadata :: "node \<Rightarrow> 'd \<Rightarrow> 'd res"
  dr_launch :: "node \<Rightarrow> 'd \<Rightarrow> 'z \<Rightarrow> pyexc option \<times> node \<times> 'd \<times> 'z"
  dr_launchesComplete :: "node list \<Rightarrow> 'd \<Rightarrow> bool"
  dr_errorLabels :: "'d \<Rightarrow> string list"

type_synonym ('d, 'z) hstep = "('d, 'z) handler_state \<Rightarrow> pyexc option \<times> ('d, 'z) handler_state"

definition view_of :: "('d, 'z) handler_state \<Rightarrow> 'z zk_view" where
  "view_of h = \<lparr> v_nodes = h_cache h, v_images = h_images h, v_zk = h_zk h \<rparr>"

definition handler_init ::
  "node_request \<Rightarrow> 'd \<Rightarrow> node cache option \<Rightarrow> cached_image cache option \<Rightarrow> 'z \<Rightarrow> ('d, 'z) handler_state" where
  "handler_init r d nc ic z = \<lparr> h_request = r, h_nodeset = [], h_done = False, h_paused = False,
     h_satisfied = [], h_failed = [], h_ready = [], h_drv = d, h_objs = [], h_cache = nc,
     h_images = ic, h_zk = z \<rparr>"

definition json_id :: "string option \<Rightarrow> json" where
  "json_id i = (case i of None \<Rightarrow> JNull | Some s \<Rightarrow> JStr s)"

text \<open>The labels of a request; an element that is no string raises when it is looked up.\<close>

definition str_labels :: "json \<Rightarrow> string list res" where
  "str_labels j = (case j of
     JList xs \<Rightarrow> mapE (\<lambda>x. case x of JStr s \<Rightarrow> Inr s | _ \<Rightarrow> Inl TypeError) xs
   | _ \<Rightarrow> Inl TypeError)"

text \<open>A changed node object, in the store of the scan and in the cache.\<close>

definition put_obj :: "node \<Rightarrow> 'z \<Rightarrow> ('d, 'z) handler_state \<Rightarrow> ('d, 'z) handler_state" where
  "put_obj n z h = h\<lparr> h_zk := z, h_cache := put_back n (h_cache h),
     h_objs := (if map_of (h_objs h) (str_id (o_id n)) = None then h_objs h
                else AList.update (str_id (o_id n)) n (h_objs h)) \<rparr>"

subsection \<open>Unlocking the node set and declining\<close>

text \<open>
  One node: nothing without a lock; an error while clearing the allocation or unlocking is logged.
\<close>

definition unlock_one ::
  "'z kazoo \<Rightarrow> 'z locks \<Rightarrow> rat \<Rightarrow> bool \<Rightarrow> node \<Rightarrow> ('d, 'z) handler_state \<Rightarrow> ('d, 'z) handler_state" where
  "unlock_one K L now clear n h =
     (if \<not> n_lock n then h
      else (case (if clear then storeNode K now (n\<lparr>n_allocated_to := JNull\<rparr>) (h_zk h)
                  else (None, n, h_zk h)) of
              (ex, n1, z1) \<Rightarrow>
                (case unlockNode L n1 z1 of (ex', n2, z2) \<Rightarrow> put_obj n2 z2 h)))"

definition unlockNodeSet ::
  "'z kazoo \<Rightarrow> 'z locks \<Rightarrow> rat \<Rightarrow> bool \<Rightarrow> ('d, 'z) handler_state \<Rightarrow> ('d, 'z) handler_state" where
  "unlockNodeSet K L now clear h =
     (fold (unlock_one K L now clear) (h_nodeset h) h)\<lparr>h_nodeset := []\<rparr>"

definition set_request_state :: "zk_state \<Rightarrow> rat \<Rightarrow> ('d, 'z) hstep" where
  "set_request_state st now h =
     (case set_state NODE_REQUEST_STATES (JStr (state_str st)) now (h_request h) of
        Inl e \<Rightarrow> (Some e, h)
      | Inr r \<Rightarrow> (None, h\<lparr>h_request := r\<rparr>))"

definition mark_declined :: "handler_config \<Rightarrow> rat \<Rightarrow> ('d, 'z) hstep" where
  "mark_declined cfg now h =
     (case r_declined_by (h_request h) of
        JList xs \<Rightarrow>
          let me = JStr (hc_launcher_id cfg);
              xs' = (if me \<notin> set xs then xs @ [me] else xs);
              h' = h\<lparr>h_request := (h_request h)\<lparr>r_declined_by := JList xs'\<rparr>\<rparr>
          in (if JStr ` set (hc_registered cfg) \<subseteq> set xs'
              then set_request_state FAILED now h'
              else set_request_state REQUESTED now h')
      | _ \<Rightarrow> (Some AttributeError, h))"

definition store_and_unlock_request ::
  "'z kazoo \<Rightarrow> 'z locks \<Rightarrow> rat \<Rightarrow> ('d, 'z) hstep" where
  "store_and_unlock_request K L now h =
     (case storeNodeRequest K (h_request h) ''100'' [] now (h_zk h) of
        (Some e, r, z) \<Rightarrow> (Some e, h\<lparr>h_request := r, h_zk := z\<rparr>)
      | (None, r, z) \<Rightarrow>
          (case unlockNodeRequest L r z of
             (ex, r', z') \<Rightarrow> (ex, h\<lparr>h_request := r', h_zk := z'\<rparr>)))"

definition declinedHandlerCleanup ::
  "'z kazoo \<Rightarrow> 'z locks \<Rightarrow> rat \<Rightarrow> ('d, 'z) handler_state \<Rightarrow> ('d, 'z) handler_state" where
  "declinedHandlerCleanup K L now h =
     (snd (store_and_unlock_request K L now
        ((unlockNodeSet K L now True h)\<lparr>h_paused := False\<rparr>)))\<lparr>h_done := True\<rparr>"

definition declineRequest ::
  "'z kazoo \<Rightarrow> 'z locks \<Rightarrow> handler_config \<Rightarrow> rat \<Rightarrow> ('d, 'z) hstep" where
  "declineRequest K L cfg now h =
     (case mark_declined cfg now h of
        (Some e, h') \<Rightarrow> (Some e, h')
      | (None, h') \<Rightarrow> (None, declinedHandlerCleanup K L now h'))"

subsection \<open>Filling the node set\<close>

text \<open>
  \<open>Counter(requested) - Counter(saved)\<close>, and its elements: grouped by type, in the order the types
  first occur.
\<close>

definition needed_types :: "string list \<Rightarrow> string list \<Rightarrow> string list" where
  "needed_types requested saved =
     concat (map (\<lambda>t. replicate (count_list requested t - count_list saved t) t)
       (rev (remdups (rev requested))))"

text \<open>The loop over the ready nodes of a type; \<open>True\<close> when one of them was taken.\<close>

fun take_ready ::
  "'z kazoo \<Rightarrow> 'z locks \<Rightarrow> ('d, 'z) driver \<Rightarrow> handler_config \<Rightarrow> rat \<Rightarrow> string \<Rightarrow> string list \<Rightarrow>
     ('d, 'z) handler_state \<Rightarrow> bool res \<times> ('d, 'z) handler_state" where
  "take_ready K L D cfg now ntype [] h = (Inr False, h)"
| "take_ready K L D cfg now ntype (i # ids) h =
     (case map_of (h_objs h) i of
        None \<Rightarrow> take_ready K L D cfg now ntype ids h
      | Some n \<Rightarrow>
          if \<not> of_pool (hc_provider cfg) (hc_pool cfg) n \<or> n_lock_contenders n \<noteq> {} \<or>
             \<not> dr_checkReusableNode D n (h_drv h)
          then take_ready K L D cfg now ntype ids h
          else (case lockNode K L n False None True None False now (h_zk h) of
                  (Some e, n1, z1) \<Rightarrow>
                    if e = ZKLockException
                    then take_ready K L D cfg now ntype ids (put_obj n1 z1 h)
                    else (Inl e, put_obj n1 z1 h)
                | (None, n1, z1) \<Rightarrow>
                    if o_state n1 \<noteq> Some READY \<or> truthy (n_allocated_to n1)
                    then (case unlockNode L n1 z1 of
                            (Some e, n2, z2) \<Rightarrow> (Inl e, put_obj n2 z2 h)
                          | (None, n2, z2) \<Rightarrow> take_ready K L D cfg now ntype ids (put_obj n2 z2 h))
                    else let n2 = n1\<lparr> n_allocated_to := json_id (o_id (h_request h)),
                                     n_tenant_name := r_tenant_name (h_request h),
                                     n_requestor := r_requestor (h_request h) \<rparr>
                         in (case storeNode K now n2 z1 of
                               (Some e, n3, z3) \<Rightarrow> (Inl e, (put_obj n3 z3 h)\<lparr>h_paused := False\<rparr>)
                             | (None, n3, z3) \<Rightarrow>
                                 (Inr True, (put_obj n3 z3 h)\<lparr> h_paused := False,
                                    h_nodeset := h_nodeset h @ [n3],
                                    h_satisfied := recorder_add ntype (str_id (o_id n3)) (h_satisfied h),
                                    h_drv := dr_nodeReused D n3 (h_drv h) \<rparr>))))"

text \<open>A new node, as it is when it is stored for the first time.\<close>

definition new_node :: "handler_config \<Rightarrow> node_request \<Rightarrow> string \<Rightarrow> rat \<Rightarrow> node" where
  "new_node cfg r ntype now =
     set_type (JStr ntype) ((node_init None)\<lparr> o_state := Some INIT, o_state_time := JNum now,
       n_provider := JStr (hc_provider cfg), n_pool := JStr (hc_pool cfg),
       n_launcher := JStr (hc_launcher_id cfg), n_allocated_to := json_id (o_id r),
       n_tenant_name := r_tenant_name r, n_requestor := r_requestor r,
       n_attributes := hc_node_attributes cfg \<rparr>)"

text \<open>Store, lock, mark as building, store again, launch.\<close>

definition launch_new ::
  "'z kazoo \<Rightarrow> 'z locks \<Rightarrow> ('d, 'z) driver \<Rightarrow> handler_config \<Rightarrow> rat \<Rightarrow> string \<Rightarrow> ('d, 'z) hstep" where
  "launch_new K L D cfg now ntype h =
     (let n0 = new_node cfg (h_request h) ntype now in
      case dr_setNodeMetadata D n0 (h_drv h) of
        Inl e \<Rightarrow> (Some e, h)
      | Inr d \<Rightarrow>
          (case storeNode K now n0 (h_zk h) of
             (Some e, n1, z1) \<Rightarrow> (Some e, h\<lparr>h_drv := d, h_zk := z1\<rparr>)
           | (None, n1, z1) \<Rightarrow>
               (case lockNode K L n1 False None True None False now z1 of
                  (Some e, n2, z2) \<Rightarrow> (Some e, h\<lparr>h_drv := d, h_zk := z2\<rparr>)
                | (None, n2, z2) \<Rightarrow>
                    (case set_state NODE_STATES (JStr (state_str BUILDING)) now n2 of
                       Inl e \<Rightarrow> (Some e, h\<lparr>h_drv := d, h_zk := z2\<rparr>)
                     | Inr n3 \<Rightarrow>
                         (case storeNode K now n3 z2 of
                            (Some e, n4, z4) \<Rightarrow> (Some e, h\<lparr>h_drv := d, h_zk := z4\<rparr>)
                          | (None, n4, z4) \<Rightarrow>
                              (case dr_launch D n4 d z4 of
                                 (ex, n5, d5, z5) \<Rightarrow>
                                   (ex, h\<lparr> h_drv := d5, h_zk := z5,
                                          h_nodeset := h_nodeset h @ [n5],
                                          h_satisfied := recorder_add ntype (str_id (o_id n5))
                                                           (h_satisfied h) \<rparr>)))))))"

text \<open>
  At quota: a min-ready request is declined; otherwise the oldest unused node is deleted and the
  handler pauses, or gives the request back when the provider does not pause.
\<close>

definition at_quota ::
  "'z kazoo \<Rightarrow> 'z locks \<Rightarrow> handler_config \<Rightarrow> rat \<Rightarrow> ('d, 'z) hstep" where
  "at_quota K L cfg now h =
     (if r_requestor (h_request h) = JStr ''NodePool:min-ready'' then declineRequest K L cfg now h
      else (case deleteOldestUnusedNode K L (hc_provider cfg) (hc_pool cfg) now (h_cache h) (h_zk h) of
              (Inl e, nc, z) \<Rightarrow> (Some e, h\<lparr>h_cache := nc, h_zk := z\<rparr>)
            | (Inr deleted, nc, z) \<Rightarrow>
                let h' = h\<lparr>h_cache := nc, h_zk := z\<rparr>
                in if hc_pause_at_quota cfg then (None, h'\<lparr>h_paused := True\<rparr>)
                   else (None, declinedHandlerCleanup K L now h')))"

text \<open>The loop over the needed types; it returns early at quota.\<close>

fun fill_types ::
  "'z kazoo \<Rightarrow> 'z locks \<Rightarrow> ('d, 'z) driver \<Rightarrow> handler_config \<Rightarrow> rat \<Rightarrow>
     (string \<times> string list) list \<Rightarrow> string list \<Rightarrow> ('d, 'z) hstep" where
  "fill_types K L D cfg now ready [] h = (None, h)"
| "fill_types K L D cfg now ready (t # ts) h =
     (case take_ready K L D cfg now t (case map_of ready t of None \<Rightarrow> [] | Some ids \<Rightarrow> ids) h of
        (Inl e, h1) \<Rightarrow> (Some e, h1)
      | (Inr True, h1) \<Rightarrow> fill_types K L D cfg now ready ts h1
      | (Inr False, h1) \<Rightarrow>
          (case dr_hasRemainingQuota D t now (view_of h1) (h_drv h1) of
             (Inl e, d) \<Rightarrow> (Some e, h1\<lparr>h_drv := d\<rparr>)
           | (Inr False, d) \<Rightarrow> at_quota K L cfg now (h1\<lparr>h_drv := d\<rparr>)
           | (Inr True, d) \<Rightarrow>
               (case launch_new K L D cfg now t (h1\<lparr>h_drv := d, h_paused := False\<rparr>) of
                  (Some e, h2) \<Rightarrow> (Some e, h2)
                | (None, h2) \<Rightarrow> fill_types K L D cfg now ready ts h2)))"

text \<open>The node objects of a scan by id, and the ids of the ready nodes by label.\<close>

definition ids_by_label :: "(string \<times> node list) list \<Rightarrow> (string \<times> string list) list" where
  "ids_by_label ready = map (\<lambda>(l, ns). (l, map (\<lambda>n. str_id (o_id n)) ns)) ready"

definition objs_of :: "(string \<times> node list) list \<Rightarrow> (string \<times> node) list" where
  "objs_of ready = map (\<lambda>n. (str_id (o_id n), n)) (concat (map snd ready))"

definition waitForNodeSet ::
  "'z kazoo \<Rightarrow> 'z locks \<Rightarrow> ('d, 'z) driver \<Rightarrow> handler_config \<Rightarrow> rat \<Rightarrow> ('d, 'z) hstep" where
  "waitForNodeSet K L D cfg now h =
     (case str_labels (r_node_types (h_request h)) of
        Inl e \<Rightarrow> (Some e, h)
      | Inr requested \<Rightarrow>
          let needed = needed_types requested (recorder_labels (h_satisfied h)) in
          (case (if truthy (r_reuse (h_request h))
                 then getReadyNodesOfTypes K (h_cache h) needed now (h_zk h) else Inr []) of
             Inl e \<Rightarrow> (Some e, h)
           | Inr ready \<Rightarrow>
               fill_types K L D cfg now (ids_by_label ready) needed (h\<lparr>h_objs := objs_of ready\<rparr>)))"

subsection \<open>Accepting or declining\<close>

datatype decline_reason =
    PoolDisabled | TypesNotAvailable "string list" | ImagesNotAvailable | WouldExceedQuota

definition invalidNodeTypes :: "('d, 'z) driver \<Rightarrow> handler_config \<Rightarrow> string list \<Rightarrow> 'd \<Rightarrow> string list" where
  "invalidNodeTypes D cfg types d =
     remdups (filter (\<lambda>t. t \<notin> set (hc_supported cfg)) types @
              filter (\<lambda>t. t \<in> set types) (dr_errorLabels D d))"

fun num_le_0 :: "num \<Rightarrow> bool" where
  "num_le_0 (Fin q) = (q \<le> 0)"
| "num_le_0 NegInf = True"
| "num_le_0 _ = False"

definition getDeclinedReasons ::
  "('d, 'z) driver \<Rightarrow> handler_config \<Rightarrow> rat \<Rightarrow> ('d, 'z) handler_state \<Rightarrow>
     decline_reason list res \<times> ('d, 'z) handler_state" where
  "getDeclinedReasons D cfg now h =
     (case str_labels (r_node_types (h_request h)) of
        Inl e \<Rightarrow> (Inl e, h)
      | Inr types \<Rightarrow>
          let invalid = invalidNodeTypes D cfg types (h_drv h) in
          if num_le_0 (hc_max_servers cfg) then (Inr [PoolDisabled], h)
          else if invalid \<noteq> [] then (Inr [TypesNotAvailable invalid], h)
          else (case dr_imagesAvailable D types now (view_of h) (h_drv h) of
                  Inl e \<Rightarrow> (Inl e, h)
                | Inr False \<Rightarrow> (Inr [ImagesNotAvailable], h)
                | Inr True \<Rightarrow>
                    (case dr_hasProviderQuota D types now (view_of h) (h_drv h) of
                       (Inl e, d) \<Rightarrow> (Inl e, h\<lparr>h_drv := d\<rparr>)
                     | (Inr ok, d) \<Rightarrow> (Inr (if ok then [] else [WouldExceedQuota]), h\<lparr>h_drv := d\<rparr>))))"

text \<open>The configuration is \<open>None\<close> when the provider or the pool is gone.\<close>

definition runHandler ::
  "'z kazoo \<Rightarrow> 'z locks \<Rightarrow> ('d, 'z) driver \<Rightarrow> handler_config option \<Rightarrow> rat \<Rightarrow> ('d, 'z) hstep" where
  "runHandler K L D config now h =
     (case config of
        None \<Rightarrow> (Some GenericException, h)
      | Some cfg \<Rightarrow>
          (case getDeclinedReasons D cfg now h of
             (Inl e, h1) \<Rightarrow> (Some e, h1)
           | (Inr reasons, h1) \<Rightarrow>
               if reasons \<noteq> [] then declineRequest K L cfg now h1
               else if h_paused h1 then waitForNodeSet K L D cfg now h1
               else (case set_request_state PENDING now h1 of
                       (Some e, h2) \<Rightarrow> (Some e, h2)
                     | (None, h2) \<Rightarrow>
                         (case storeNodeRequest K (h_request h2) ''100'' [] now (h_zk h2) of
                            (Some e, r, z) \<Rightarrow> (Some e, h2\<lparr>h_request := r, h_zk := z\<rparr>)
                          | (None, r, z) \<Rightarrow>
                              waitForNodeSet K L D cfg now (h2\<lparr>h_request := r, h_zk := z\<rparr>)))))"

text \<open>
  \<open>run\<close>: any exception declines the request; an exception of that is raised. \<open>cfg\<close> carries what
  declining needs of the pool worker (the launcher's id and the registered pools).
\<close>

definition handler_run ::
  "'z kazoo \<Rightarrow> 'z locks \<Rightarrow> ('d, 'z) driver \<Rightarrow> handler_config option \<Rightarrow> handler_config \<Rightarrow> rat \<Rightarrow>
     ('d, 'z) hstep" where
  "handler_run K L D config cfg now h =
     (case runHandler K L D config now h of
        (None, h') \<Rightarrow> (None, h')
      | (Some e, h') \<Rightarrow> declineRequest K L cfg now h')"

subsection \<open>Polling\<close>

definition remove_node :: "node \<Rightarrow> node list \<Rightarrow> node list" where
  "remove_node n ns = (case List.find (node_eq n) ns of None \<Rightarrow> ns | Some m \<Rightarrow> remove1 m ns)"

text \<open>
  The nodes of the set by state: ready, aborted (removed and unlocked, so that it is launched again)
  or failed. An exception of the unlocking ends the poll.
\<close>

fun sort_nodes ::
  "'z locks \<Rightarrow> node list \<Rightarrow> node list \<Rightarrow> ('d, 'z) handler_state \<Rightarrow>
     node list res \<times> ('d, 'z) handler_state" where
  "sort_nodes L [] aborted h = (Inr aborted, h)"
| "sort_nodes L (n # ns) aborted h =
     (if o_state n = Some READY then sort_nodes L ns aborted (h\<lparr>h_ready := h_ready h @ [n]\<rparr>)
      else if o_state n = Some ABORTED
      then (case unlockNode L n (h_zk h) of
              (ex, n1, z1) \<Rightarrow>
                let h1 = (put_obj n1 z1 h)\<lparr>h_nodeset := remove_node n (h_nodeset h)\<rparr>
                in (case ex of Some e \<Rightarrow> (Inl e, h1)
                             | None \<Rightarrow> sort_nodes L ns (aborted @ [n1]) h1))
      else sort_nodes L ns aborted (h\<lparr>h_failed := h_failed h @ [n]\<rparr>))"

text \<open>The node ids in the order the types were requested.\<close>

fun pop_types :: "string list \<Rightarrow> recorder \<Rightarrow> json list \<Rightarrow> pyexc option \<times> recorder \<times> json list" where
  "pop_types [] d acc = (None, d, acc)"
| "pop_types (t # ts) d acc =
     (case recorder_pop t d of
        Inl e \<Rightarrow> (Some e, d, acc)
      | Inr (i, d') \<Rightarrow> pop_types ts d' (acc @ [case i of None \<Rightarrow> JNull | Some s \<Rightarrow> JStr s]))"

definition fulfill :: "rat \<Rightarrow> ('d, 'z) hstep" where
  "fulfill now h =
     (case (str_labels (r_node_types (h_request h)), r_nodes (h_request h)) of
        (Inr types, JList ids) \<Rightarrow>
          (case pop_types types (h_satisfied h) ids of
             (ex, d, ids') \<Rightarrow>
               let h' = h\<lparr>h_satisfied := d, h_request := (h_request h)\<lparr>r_nodes := JList ids'\<rparr>\<rparr>
               in (case ex of Some e \<Rightarrow> (Some e, h') | None \<Rightarrow> set_request_state FULFILLED now h'))
      | (Inl e, _) \<Rightarrow> (Some e, h)
      | _ \<Rightarrow> (Some AttributeError, h))"

text \<open>The end of a poll: unlock the node set, store the request, unlock it.\<close>

definition finish_poll ::
  "'z kazoo \<Rightarrow> 'z locks \<Rightarrow> rat \<Rightarrow> ('d, 'z) handler_state \<Rightarrow> bool res \<times> ('d, 'z) handler_state" where
  "finish_poll K L now h =
     (case store_and_unlock_request K L now (unlockNodeSet K L now False h) of
        (Some e, h') \<Rightarrow> (Inl e, h')
      | (None, h') \<Rightarrow> (Inr True, h'))"

definition request_gone ::
  "'z kazoo \<Rightarrow> 'z locks \<Rightarrow> rat \<Rightarrow> ('d, 'z) handler_state \<Rightarrow> bool res \<times> ('d, 'z) handler_state" where
  "request_gone K L now h =
     (let h1 = unlockNodeSet K L now True h in
      case unlockNodeRequest L (h_request h1) (h_zk h1) of
        (ex, r, z) \<Rightarrow>
          let h2 = h1\<lparr>h_request := r, h_zk := z\<rparr>
          in (case ex of
                None \<Rightarrow> (Inr True, h2)
              | Some e \<Rightarrow> if e = ZKLockException then (Inr True, h2) else (Inl e, h2)))"

definition handler_poll ::
  "'z kazoo \<Rightarrow> 'z locks \<Rightarrow> ('d, 'z) driver \<Rightarrow> handler_config \<Rightarrow> rat \<Rightarrow> ('d, 'z) handler_state \<Rightarrow>
     bool res \<times> ('d, 'z) handler_state" where
  "handler_poll K L D cfg now h =
     (if h_paused h then (Inr False, h)
      else if h_done h then (Inr True, h)
      else if \<not> dr_launchesComplete D (h_nodeset h) (h_drv h) then (Inr False, h)
      else (case sort_nodes L (h_nodeset h) [] h of
              (Inl e, h1) \<Rightarrow> (Inl e, h1)
            | (Inr aborted, h1) \<Rightarrow>
                (case getNodeRequest K None (o_id (h_request h1)) False now (h_zk h1) of
                   Inl e \<Rightarrow> (Inl e, h1)
                 | Inr None \<Rightarrow> request_gone K L now h1
                 | Inr (Some stored) \<Rightarrow>
                     if h_failed h1 \<noteq> []
                     then (case mark_declined cfg now h1 of
                             (Some e, h2) \<Rightarrow> (Inl e, h2)
                           | (None, h2) \<Rightarrow> finish_poll K L now h2)
                     else if aborted \<noteq> []
                     then (Inr False, h1\<lparr> h_paused := True,
                             h_satisfied := fold (\<lambda>n. recorder_removeNode (str_id (o_id n))) aborted
                                              (h_satisfied h1) \<rparr>)
                     else (case fulfill now h1 of
                             (Some e, h2) \<Rightarrow> (Inl e, h2)
                           | (None, h2) \<Rightarrow> finish_poll K L now h2))))"

end
