(* ===== verification/Nodescan.thy ===== *)
theory Nodescan
  imports Prelude
begin

section \<open>Scanning host keys\<close>

text \<open>
  \<open>NodescanRequest\<close> and \<open>NodescanWorker\<close> of \<open>nodepool/driver/statemachine.py\<close>: the state machine
  that connects to a new node and collects its ssh host keys, and the worker that advances up to
  100 of them. What the socket and the ssh library answer during one call of \<open>advance\<close> is a
  parameter: a record of functions of the position in the scan (no key type yet, or the index of the
  key type), so that the several connections one call may make get answers of their own. The sockets
  and the poll object are reduced to whether the request holds an open socket or transport.
\<close>

subsection \<open>Requests\<close>

datatype scan_state =
    SCAN_START | CONNECTING_INIT | NEGOTIATING_INIT | CONNECTING_KEY | NEGOTIATING_KEY
  | SCAN_COMPLETE

record scan_request =
  sc_state :: scan_state
  sc_iteration :: string
  sc_host_key_checking :: bool
  sc_gather :: bool
  sc_fake :: bool                 \<comment> \<open>a fake address, or the testing flag\<close>
  sc_timeout :: rat
  sc_complete :: bool
  sc_keys :: "string list"
  sc_sock :: bool
  sc_transport :: bool
  sc_key_types :: "string list"
  sc_key_index :: "int option"
  sc_start_time :: rat
  sc_connect_start :: rat
  sc_worker :: bool
  sc_exception :: "pyexc option"

text \<open>\<open>lookup\<close> is what looking the address up raises; a fake address is not looked up.\<close>

definition scan_init ::
  "string \<Rightarrow> bool \<Rightarrow> pyexc option \<Rightarrow> bool \<Rightarrow> rat \<Rightarrow> rat \<Rightarrow> scan_request res" where
  "scan_init connection_type fake lookup host_key_checking timeout now =
     (case (if fake then None else lookup) of
        Some e \<Rightarrow> Inl e
      | None \<Rightarrow> Inr
     \<lparr> sc_state = SCAN_START, sc_iteration = ''init'', sc_host_key_checking = host_key_checking,
       sc_gather = (connection_type = ''ssh'' \<or> connection_type = ''network_cli''),
       sc_fake = fake, sc_timeout = timeout, sc_complete = False, sc_keys = [],
       sc_sock = False, sc_transport = False, sc_key_types = [], sc_key_index = None,
       sc_start_time = now, sc_connect_start = 0, sc_worker = False, sc_exception = None \<rparr>)"

datatype connect_outcome = ConnectBlocks | ConnectDone | ConnectFails pyexc

record scan_env =
  se_now :: rat
  se_ready :: bool                                   \<comment> \<open>the poll reported the socket\<close>
  se_connect :: "int option \<Rightarrow> connect_outcome"
  se_errno :: "int option \<Rightarrow> bool"                   \<comment> \<open>the socket has an error\<close>
  se_start :: "int option \<Rightarrow> pyexc option"           \<comment> \<open>starting the ssh client raises\<close>
  se_event :: "int option \<Rightarrow> bool"                   \<comment> \<open>the negotiation has ended\<close>
  se_check :: "int option \<Rightarrow> pyexc option"           \<comment> \<open>the negotiation has failed\<close>
  se_types :: "string list"                          \<comment> \<open>the key types the client offers\<close>
  se_key :: "int option \<Rightarrow> string option"            \<comment> \<open>the key of the server\<close>

type_synonym scan_step = "pyexc option \<times> bool \<times> scan_request"  \<comment> \<open>raised, returned, state\<close>

definition scan_close :: "scan_request \<Rightarrow> scan_request" where
  "scan_close r = r\<lparr>sc_transport := False, sc_sock := False\<rparr>"

definition scan_fail :: "pyexc \<Rightarrow> scan_request \<Rightarrow> scan_request" where
  "scan_fail e r = (scan_close (r\<lparr>sc_exception := Some e\<rparr>))\<lparr>sc_complete := True, sc_state := SCAN_COMPLETE\<rparr>"

definition scan_result :: "scan_request \<Rightarrow> string list res" where
  "scan_result r = (case sc_exception r of Some e \<Rightarrow> Inl e | None \<Rightarrow> Inr (sc_keys r))"

definition scan_timed_out :: "scan_env \<Rightarrow> scan_request \<Rightarrow> pyexc option" where
  "scan_timed_out e r =
     (if se_now e - sc_start_time r > sc_timeout r then Some ConnectionTimeoutException else None)"

definition scan_connect :: "scan_env \<Rightarrow> scan_request \<Rightarrow> pyexc option \<times> scan_request" where
  "scan_connect e r =
     (case se_connect e (sc_key_index r) of
        ConnectBlocks \<Rightarrow> (None, r\<lparr>sc_sock := True, sc_state := CONNECTING_INIT, sc_connect_start := se_now e\<rparr>)
      | ConnectDone \<Rightarrow> (None, r\<lparr>sc_sock := True, sc_connect_start := se_now e\<rparr>)
      | ConnectFails ex \<Rightarrow> (Some ex, r\<lparr>sc_sock := True\<rparr>))"

definition scan_nextKey :: "scan_env \<Rightarrow> scan_request \<Rightarrow> pyexc option \<times> scan_request" where
  "scan_nextKey e r =
     (let r1 = scan_close r; i = the (sc_key_index r1) + 1; r2 = r1\<lparr>sc_key_index := Some i\<rparr>
      in if i \<ge> int (length (sc_key_types r2)) then (None, r2\<lparr>sc_state := SCAN_COMPLETE\<rparr>)
         else (case scan_connect e r2 of
                 (Some ex, r3) \<Rightarrow> (Some ex, r3)
               | (None, r3) \<Rightarrow> (None, r3\<lparr>sc_state := CONNECTING_KEY,
                                        sc_iteration := sc_key_types r3 ! nat i\<rparr>)))"

text \<open>The stanzas of \<open>advance\<close>, each guarded by a state.\<close>

definition scan_do_start :: "scan_env \<Rightarrow> scan_request \<Rightarrow> scan_step" where
  "scan_do_start e r =
     (if sc_state r \<noteq> SCAN_START then (None, False, r)
      else if \<not> sc_worker r then (Some GenericException, False, r)
      else if \<not> sc_host_key_checking r then (None, False, r\<lparr>sc_state := SCAN_COMPLETE\<rparr>)
      else if sc_fake r
      then (None, False, (if sc_gather r then r\<lparr>sc_keys := [''ssh-rsa FAKEKEY'']\<rparr> else r)
                           \<lparr>sc_state := SCAN_COMPLETE\<rparr>)
      else (case scan_connect e r of (ex, r') \<Rightarrow> (ex, False, r')))"

definition scan_connecting_init :: "scan_env \<Rightarrow> scan_request \<Rightarrow> scan_step" where
  "scan_connecting_init e r =
     (if sc_state r \<noteq> CONNECTING_INIT then (None, False, r)
      else if \<not> se_ready e
      then (case scan_timed_out e r of
              Some ex \<Rightarrow> (Some ex, False, r)
            | None \<Rightarrow> (None, True, if se_now e - sc_connect_start r \<ge> 10
                                  then (scan_close r)\<lparr>sc_state := SCAN_START\<rparr> else r))
      else if se_errno e (sc_key_index r)
      then (let r' = (scan_close r)\<lparr>sc_state := SCAN_START\<rparr> in
            case scan_timed_out e r' of Some ex \<Rightarrow> (Some ex, False, r') | None \<Rightarrow> (None, True, r'))
      else if sc_gather r
      then (case se_start e (sc_key_index r) of
              Some ex \<Rightarrow> (Some ex, False, r\<lparr>sc_transport := True\<rparr>)
            | None \<Rightarrow> (None, False, r\<lparr>sc_transport := True, sc_state := NEGOTIATING_INIT\<rparr>))
      else (None, False, r\<lparr>sc_state := SCAN_COMPLETE\<rparr>))"

definition scan_negotiating_init :: "scan_env \<Rightarrow> scan_request \<Rightarrow> scan_step" where
  "scan_negotiating_init e r =
     (if sc_state r \<noteq> NEGOTIATING_INIT then (None, False, r)
      else if \<not> se_event e (sc_key_index r)
      then (case scan_timed_out e r of Some ex \<Rightarrow> (Some ex, False, r) | None \<Rightarrow> (None, True, r))
      else if se_check e (sc_key_index r) \<noteq> None
      then (let r' = (scan_close r)\<lparr>sc_state := SCAN_START\<rparr> in
            case scan_timed_out e r' of
              Some ex \<Rightarrow> (Some ex, False, r')
            | None \<Rightarrow> (case scan_connect e r' of (ex, r'') \<Rightarrow> (ex, True, r'')))
      else (case scan_nextKey e (r\<lparr>sc_key_types := se_types e, sc_key_index := Some (-1)\<rparr>) of
              (ex, r') \<Rightarrow> (ex, False, r')))"

definition scan_connecting_key :: "scan_env \<Rightarrow> scan_request \<Rightarrow> scan_step" where
  "scan_connecting_key e r =
     (if sc_state r \<noteq> CONNECTING_KEY then (None, False, r)
      else if \<not> se_ready e
      then (case scan_timed_out e r of Some ex \<Rightarrow> (Some ex, False, r) | None \<Rightarrow> (None, True, r))
      else if se_errno e (sc_key_index r)
      then (case scan_nextKey e r of (ex, r') \<Rightarrow> (ex, True, r'))
      else (case se_start e (sc_key_index r) of
              Some ex \<Rightarrow> (Some ex, False, r\<lparr>sc_transport := True\<rparr>)
            | None \<Rightarrow> (None, False, r\<lparr>sc_transport := True, sc_state := NEGOTIATING_KEY\<rparr>)))"

text \<open>
  A failed negotiation moves to the next key type; otherwise, still in the same state, the server's
  key is kept and the scan moves on.
\<close>

definition scan_negotiating_key :: "scan_env \<Rightarrow> scan_request \<Rightarrow> scan_step" where
  "scan_negotiating_key e r =
     (if sc_state r \<noteq> NEGOTIATING_KEY then (None, False, r)
      else if \<not> se_event e (sc_key_index r)
      then (case scan_timed_out e r of Some ex \<Rightarrow> (Some ex, False, r) | None \<Rightarrow> (None, True, r))
      else if se_check e (sc_key_index r) \<noteq> None
      then (case scan_nextKey e r of (ex, r') \<Rightarrow> (ex, False, r'))
      else (let r' = (case se_key e (sc_key_index r) of
                        None \<Rightarrow> r | Some k \<Rightarrow> if k = [] then r else r\<lparr>sc_keys := sc_keys r @ [k]\<rparr>)
            in (case scan_nextKey e r' of (ex, r'') \<Rightarrow> (ex, False, r''))))"

definition scan_finish :: "scan_env \<Rightarrow> scan_request \<Rightarrow> scan_step" where
  "scan_finish e r =
     (None, True, if sc_state r = SCAN_COMPLETE then (scan_close r)\<lparr>sc_complete := True\<rparr> else r)"

definition scan_then :: "(scan_request \<Rightarrow> scan_step) \<Rightarrow> scan_step \<Rightarrow> scan_step" where
  "scan_then f s = (case s of (None, False, r) \<Rightarrow> f r | _ \<Rightarrow> s)"

definition scan_advance :: "scan_env \<Rightarrow> scan_request \<Rightarrow> pyexc option \<times> scan_request" where
  "scan_advance e r =
     (case scan_then (scan_finish e) (scan_then (scan_negotiating_key e)
             (scan_then (scan_connecting_key e) (scan_then (scan_negotiating_init e)
               (scan_then (scan_connecting_init e) (scan_do_start e r))))) of
        (ex, returned, r') \<Rightarrow> (ex, r'))"

subsection \<open>The worker\<close>

definition MAX_REQUESTS :: nat where
  "MAX_REQUESTS = 100"

record scan_worker =
  sw_active :: "nat list"
  sw_pending :: "nat list"
  sw_requests :: "nat \<Rightarrow> scan_request"    \<comment> \<open>the request objects\<close>

definition addRequest :: "nat \<Rightarrow> scan_worker \<Rightarrow> scan_worker" where
  "addRequest i w =
     (let w' = w\<lparr>sw_requests := (sw_requests w)(i := (sw_requests w i)\<lparr>sc_worker := True\<rparr>)\<rparr>
      in if length (sw_active w') \<ge> MAX_REQUESTS then w'\<lparr>sw_pending := sw_pending w' @ [i]\<rparr>
         else w'\<lparr>sw_active := sw_active w' @ [i]\<rparr>)"

definition removeRequest :: "nat option \<Rightarrow> scan_worker \<Rightarrow> scan_worker" where
  "removeRequest r w =
     (case r of
        None \<Rightarrow> w
      | Some i \<Rightarrow> w\<lparr> sw_requests := (sw_requests w)(i := scan_close (sw_requests w i)),
                    sw_active := remove1 i (sw_active w), sw_pending := remove1 i (sw_pending w) \<rparr>)"

text \<open>Pending requests move up while there is room.\<close>

fun promote :: "nat list \<Rightarrow> nat list \<Rightarrow> nat list \<times> nat list" where
  "promote active [] = (active, [])"
| "promote active (p # ps) =
     (if length active < MAX_REQUESTS then promote (active @ [p]) ps else (active, p # ps))"

definition scan_one :: "(nat \<Rightarrow> scan_env) \<Rightarrow> nat \<Rightarrow> scan_worker \<Rightarrow> scan_worker" where
  "scan_one env i w =
     (let r = sw_requests w i;
          socket_ready = (sc_sock r \<and> se_ready (env i));
          r' = (case scan_advance ((env i)\<lparr>se_ready := socket_ready\<rparr>) r of
                  (None, r') \<Rightarrow> r' | (Some e, r') \<Rightarrow> scan_fail e r');
          w' = w\<lparr>sw_requests := (sw_requests w)(i := r')\<rparr>
      in if sc_complete r' then removeRequest (Some i) w' else w')"

text \<open>
  The loop over the active list, which \<open>removeRequest\<close> shortens under the iterator: the iterator is a
  position in the list and moves on by one whatever was removed. \<open>n\<close> bounds the number of rounds;
  the length of the list is enough because the list never grows in the loop.
\<close>

fun scan_loop :: "(nat \<Rightarrow> scan_env) \<Rightarrow> nat \<Rightarrow> nat \<Rightarrow> scan_worker \<Rightarrow> scan_worker" where
  "scan_loop env 0 pos w = w"
| "scan_loop env (Suc n) pos w =
     (if pos < length (sw_active w)
      then scan_loop env n (Suc pos) (scan_one env (sw_active w ! pos) w) else w)"

definition scan_round :: "(nat \<Rightarrow> scan_env) \<Rightarrow> scan_worker \<Rightarrow> scan_worker" where
  "scan_round env w =
     (let (active, pending) = promote (sw_active w) (sw_pending w);
          w' = w\<lparr>sw_active := active, sw_pending := pending\<rparr>
      in scan_loop env (length active) 0 w')"

subsection \<open>What a scan guarantees\<close>

text \<open>
  At most one key per key type the client offers (one in all for a fake address). The invariant
  behind it: before the first connection has been negotiated there are no keys; while a key type is
  tried its index is in range and at most one key was found per earlier type.
\<close>

definition scan_bound :: "scan_request \<Rightarrow> bool" where
  "scan_bound r = (length (sc_keys r) \<le> max 1 (length (sc_key_types r)))"

definition scan_inv :: "scan_request \<Rightarrow> bool" where
  "scan_inv r =
     (case sc_state r of
        SCAN_START \<Rightarrow> sc_keys r = []
      | CONNECTING_INIT \<Rightarrow> sc_keys r = []
      | NEGOTIATING_INIT \<Rightarrow> sc_keys r = []
      | SCAN_COMPLETE \<Rightarrow> scan_bound r
      | _ \<Rightarrow> (\<exists>i. sc_key_index r = Some (int i) \<and> i < length (sc_key_types r) \<and> length (sc_keys r) \<le> i))"

definition step_ok :: "scan_step \<Rightarrow> bool" where
  "step_ok s = (case s of (ex, ret, r) \<Rightarrow> (ex = None \<longrightarrow> scan_inv r) \<and> scan_bound r)"

lemma scan_inv_bound: "scan_inv r \<Longrightarrow> scan_bound r"
  by (cases "sc_state r") (auto simp: scan_inv_def scan_bound_def)

lemma scan_close_simps [simp]:
  "sc_state (scan_close r) = sc_state r" "sc_keys (scan_close r) = sc_keys r"
  "sc_key_types (scan_close r) = sc_key_types r" "sc_key_index (scan_close r) = sc_key_index r"
  "sc_complete (scan_close r) = sc_complete r" "sc_start_time (scan_close r) = sc_start_time r"
  "sc_timeout (scan_close r) = sc_timeout r"
  by (simp_all add: scan_close_def)

lemma scan_bound_close [simp]: "scan_bound (scan_close r) = scan_bound r"
  by (simp add: scan_bound_def)

lemma scan_connect_frame:
  "sc_keys (snd (scan_connect e r)) = sc_keys r"
  "sc_key_types (snd (scan_connect e r)) = sc_key_types r"
  "sc_key_index (snd (scan_connect e r)) = sc_key_index r"
  "sc_state (snd (scan_connect e r)) = sc_state r \<or> sc_state (snd (scan_connect e r)) = CONNECTING_INIT"
  by (simp_all add: scan_connect_def split: connect_outcome.split)

lemma scan_nextKey_ok:
  assumes "scan_nextKey e r = (ex, r')" and "sc_key_index r = Some (int j - 1)"
    and "j \<le> length (sc_key_types r)" and "length (sc_keys r) \<le> j"
  shows "(ex = None \<longrightarrow> scan_inv r') \<and> scan_bound r'"
proof (cases "j = length (sc_key_types r)")
  case True
  with assms show ?thesis by (auto simp: scan_nextKey_def Let_def scan_inv_def scan_bound_def)
next
  case False
  let ?r = "(scan_close r)\<lparr>sc_key_index := Some (int j)\<rparr>"
  obtain ex' r'' where c: "scan_connect e ?r = (ex', r'')" by fastforce
  have f: "sc_keys r'' = sc_keys r" "sc_key_types r'' = sc_key_types r" "sc_key_index r'' = Some (int j)"
    using scan_connect_frame [of e ?r] c by simp_all
  from assms False c f show ?thesis
    by (cases ex') (auto simp: scan_nextKey_def Let_def scan_inv_def scan_bound_def)
qed

lemma scan_do_start_ok: "scan_inv r \<Longrightarrow> step_ok (scan_do_start e r)"
  using scan_inv_bound [of r] scan_connect_frame [of e r]
  by (cases "scan_connect e r")
    (auto simp: scan_do_start_def step_ok_def scan_inv_def scan_bound_def split: scan_state.splits)

lemma scan_connecting_init_ok: "scan_inv r \<Longrightarrow> step_ok (scan_connecting_init e r)"
  using scan_inv_bound [of r]
  by (auto simp: scan_connecting_init_def step_ok_def scan_inv_def scan_bound_def Let_def
      split: option.splits)

lemma scan_negotiating_init_ok:
  assumes "scan_inv r"
  shows "step_ok (scan_negotiating_init e r)"
proof -
  let ?c = "(scan_close r)\<lparr>sc_state := SCAN_START\<rparr>"
  let ?n = "r\<lparr>sc_key_types := se_types e, sc_key_index := Some (-1)\<rparr>"
  have keys: "sc_keys r = []" if "sc_state r = NEGOTIATING_INIT" using assms that by (simp add: scan_inv_def)
  obtain ex1 r1 where c: "scan_connect e ?c = (ex1, r1)" by fastforce
  obtain ex2 r2 where n: "scan_nextKey e ?n = (ex2, r2)" by fastforce
  have "step_ok (ex1, True, r1)" if "sc_state r = NEGOTIATING_INIT"
    using scan_connect_frame [of e ?c] c keys [OF that]
    by (auto simp: step_ok_def scan_inv_def scan_bound_def)
  moreover have "step_ok (ex2, False, r2)" if "sc_state r = NEGOTIATING_INIT"
    using scan_nextKey_ok [OF n, of 0] keys [OF that] by (simp add: step_ok_def)
  ultimately show ?thesis
    using assms scan_inv_bound [OF assms] c n
    by (auto simp: scan_negotiating_init_def Let_def step_ok_def scan_bound_def split: option.split)
qed

lemma scan_connecting_key_ok:
  assumes "scan_inv r"
  shows "step_ok (scan_connecting_key e r)"
proof (cases "sc_state r = CONNECTING_KEY")
  case True
  with assms obtain i where i: "sc_key_index r = Some (int i)" "i < length (sc_key_types r)"
    "length (sc_keys r) \<le> i" by (auto simp: scan_inv_def)
  obtain ex r' where n: "scan_nextKey e r = (ex, r')" by fastforce
  have "step_ok (ex, True, r')" using scan_nextKey_ok [OF n, of "Suc i"] i by (simp add: step_ok_def)
  then show ?thesis
    using assms scan_inv_bound [OF assms] n i True
    by (auto simp: scan_connecting_key_def step_ok_def scan_inv_def scan_bound_def split: option.split)
qed (use assms scan_inv_bound [OF assms] in \<open>simp add: scan_connecting_key_def step_ok_def\<close>)

lemma scan_negotiating_key_ok:
  assumes "scan_inv r"
  shows "step_ok (scan_negotiating_key e r)"
proof (cases "sc_state r = NEGOTIATING_KEY")
  case True
  with assms obtain i where i: "sc_key_index r = Some (int i)" "i < length (sc_key_types r)"
    "length (sc_keys r) \<le> i" by (auto simp: scan_inv_def)
  have next_ok: "step_ok (case scan_nextKey e r1 of (ex, r') \<Rightarrow> (ex, False, r'))"
    if "sc_key_index r1 = sc_key_index r" "sc_key_types r1 = sc_key_types r" "length (sc_keys r1) \<le> Suc i" for r1
  proof -
    obtain ex r' where n: "scan_nextKey e r1 = (ex, r')" by fastforce
    then show ?thesis using scan_nextKey_ok [OF n, of "Suc i"] i that by (simp add: step_ok_def)
  qed
  show ?thesis
    using assms scan_inv_bound [OF assms] i True next_ok [of r] next_ok [of "r\<lparr>sc_keys := sc_keys r @ [k]\<rparr>" for k]
    by (auto simp: scan_negotiating_key_def Let_def step_ok_def split: option.split)
qed (use assms scan_inv_bound [OF assms] in \<open>simp add: scan_negotiating_key_def step_ok_def\<close>)

lemma scan_finish_ok: "scan_inv r \<Longrightarrow> step_ok (scan_finish e r)"
  using scan_inv_bound [of r] by (auto simp: scan_finish_def step_ok_def scan_inv_def scan_bound_def)

lemma scan_then_ok:
  assumes "step_ok s" and "\<And>r. scan_inv r \<Longrightarrow> step_ok (f r)"
  shows "step_ok (scan_then f s)"
proof (cases s)
  case (fields ex ret r)
  then show ?thesis
    using assms(1) assms(2) [of r] by (cases ex; cases ret) (auto simp: scan_then_def step_ok_def)
qed

lemma scan_advance_ok:
  assumes "scan_inv r" and "scan_advance e r = (ex, r')"
  shows "(ex = None \<longrightarrow> scan_inv r') \<and> scan_bound r'"
proof -
  have "step_ok (scan_then (scan_finish e) (scan_then (scan_negotiating_key e)
      (scan_then (scan_connecting_key e) (scan_then (scan_negotiating_init e)
        (scan_then (scan_connecting_init e) (scan_do_start e r))))))"
    by (intro scan_then_ok scan_do_start_ok scan_connecting_init_ok scan_negotiating_init_ok
        scan_connecting_key_ok scan_negotiating_key_ok scan_finish_ok assms(1))
  with assms(2) show ?thesis by (auto simp: scan_advance_def step_ok_def split: prod.splits)
qed

text \<open>The advance of one request by the worker.\<close>

lemma scan_fail_simps [simp]:
  "sc_complete (scan_fail e r)" "sc_keys (scan_fail e r) = sc_keys r"
  "sc_key_types (scan_fail e r) = sc_key_types r" "sc_state (scan_fail e r) = SCAN_COMPLETE"
  "sc_exception (scan_fail e r) = Some e"
  by (simp_all add: scan_fail_def scan_close_def)

text \<open>A request that waits past its timeout without an answer is failed.\<close>

definition waiting :: "scan_env \<Rightarrow> scan_request \<Rightarrow> bool" where
  "waiting e r =
     ((sc_state r = CONNECTING_INIT \<or> sc_state r = CONNECTING_KEY) \<and> \<not> se_ready e \<or>
      (sc_state r = NEGOTIATING_INIT \<or> sc_state r = NEGOTIATING_KEY) \<and> \<not> se_event e (sc_key_index r))"

lemma waiting_times_out:
  assumes "waiting e r" and "se_now e - sc_start_time r > sc_timeout r"
  shows "scan_advance e r = (Some ConnectionTimeoutException, r)"
  using assms
  by (cases "sc_state r")
    (simp_all add: waiting_def scan_advance_def scan_then_def scan_do_start_def scan_connecting_init_def
      scan_negotiating_init_def scan_connecting_key_def scan_negotiating_key_def scan_timed_out_def)

subsection \<open>What the worker guarantees\<close>

lemma promote_bound: "length a \<le> MAX_REQUESTS \<Longrightarrow> length (fst (promote a p)) \<le> MAX_REQUESTS"
  by (induction a p rule: promote.induct) auto

lemma promote_keeps: "fst (promote a p) @ snd (promote a p) = a @ p"
  by (induction a p rule: promote.induct) auto

lemma scan_one_lists:
  "set (sw_active w) \<subseteq> insert i (set (sw_active (scan_one env i w)))"
  "set (sw_pending w) \<subseteq> insert i (set (sw_pending (scan_one env i w)))"
  "length (sw_active (scan_one env i w)) \<le> length (sw_active w)"
  "j \<noteq> i \<Longrightarrow> sw_requests (scan_one env i w) j = sw_requests w j"
  "set (sw_active (scan_one env i w)) \<subseteq> set (sw_active w)"
  "set (sw_pending (scan_one env i w)) \<subseteq> set (sw_pending w)"
  by (auto simp: scan_one_def removeRequest_def Let_def length_remove1 dest: notin_set_remove1
      elim: contrapos_np intro: in_set_remove1 [THEN iffD2])

lemma scan_one_tracked:
  assumes "distinct (sw_active w @ sw_pending w)" and "i \<in> set (sw_active w)"
  shows "i \<in> set (sw_active (scan_one env i w)) \<longleftrightarrow> \<not> sc_complete (sw_requests (scan_one env i w) i)"
    and "distinct (sw_active (scan_one env i w) @ sw_pending (scan_one env i w))"
  using assms
  by (auto simp: scan_one_def removeRequest_def Let_def split: option.splits dest: notin_set_remove1)

text \<open>
  The state of a worker between rounds: no request twice, at most \<open>MAX_REQUESTS\<close> active ones, and
  none of the tracked requests complete.
\<close>

definition worker_ok :: "scan_worker \<Rightarrow> bool" where
  "worker_ok w = (distinct (sw_active w @ sw_pending w) \<and> length (sw_active w) \<le> MAX_REQUESTS \<and>
     (\<forall>i \<in> set (sw_active w) \<union> set (sw_pending w). \<not> sc_complete (sw_requests w i)))"

lemma scan_loop_ok:
  assumes "worker_ok w"
  shows "worker_ok (scan_loop env n pos w) \<and>
    (\<forall>i \<in> set (sw_active w) \<union> set (sw_pending w).
       i \<in> set (sw_active (scan_loop env n pos w)) \<union> set (sw_pending (scan_loop env n pos w)) \<or>
       sc_complete (sw_requests (scan_loop env n pos w) i)) \<and>
    (\<forall>i. sc_complete (sw_requests w i) \<longrightarrow> sc_complete (sw_requests (scan_loop env n pos w) i))"
  using assms
proof (induction env n pos w rule: scan_loop.induct)
  case (2 env n pos w)
  show ?case
  proof (cases "pos < length (sw_active w)")
    case True
    let ?i = "sw_active w ! pos" and ?w = "scan_one env (sw_active w ! pos) w"
    have i: "?i \<in> set (sw_active w)" using True by simp
    have d: "distinct (sw_active w @ sw_pending w)" using "2.prems" by (simp add: worker_ok_def)
    note t = scan_one_tracked [OF d i, of env] and l = scan_one_lists [where w = w and env = env and i = ?i]
    have inc: "\<not> sc_complete (sw_requests w ?i)" using "2.prems" i by (simp add: worker_ok_def)
    have ok: "worker_ok ?w"
    proof -
      have "\<not> sc_complete (sw_requests ?w j)" if "j \<in> set (sw_active ?w) \<union> set (sw_pending ?w)" for j
      proof (cases "j = ?i")
        case True
        have "?i \<notin> set (sw_pending w)" using d i by auto
        then show ?thesis using that t(1) l(6) True by blast
      next
        case False
        have "j \<in> set (sw_active w) \<union> set (sw_pending w)" using that l(5,6) by blast
        then show ?thesis using "2.prems" l(4) [OF False] unfolding worker_ok_def by simp
      qed
      then show ?thesis using "2.prems" t(2) l(3) unfolding worker_ok_def by simp
    qed
    have kept: "sc_complete (sw_requests w j) \<Longrightarrow> sc_complete (sw_requests ?w j)" for j
      using l(4) [of j] inc by (cases "j = ?i") auto
    have here: "j \<in> set (sw_active ?w) \<union> set (sw_pending ?w) \<or> sc_complete (sw_requests ?w j)"
      if "j \<in> set (sw_active w) \<union> set (sw_pending w)" for j
      using that l(1,2) t(1) by auto
    have step: "scan_loop env (Suc n) pos w = scan_loop env n (Suc pos) ?w" using True by simp
    note ih = "2.IH" [OF True ok]
    show ?thesis
      unfolding step using ih kept here by blast
  qed (use "2.prems" in simp)
qed simp

lemma scan_round_ok:
  assumes "worker_ok w"
  shows "worker_ok (scan_round env w)"
    and "i \<in> set (sw_active w) \<union> set (sw_pending w) \<Longrightarrow>
           i \<in> set (sw_active (scan_round env w)) \<union> set (sw_pending (scan_round env w)) \<or>
           sc_complete (sw_requests (scan_round env w) i)"
proof -
  obtain a p where ap: "promote (sw_active w) (sw_pending w) = (a, p)" by fastforce
  let ?w = "w\<lparr>sw_active := a, sw_pending := p\<rparr>"
  have all: "a @ p = sw_active w @ sw_pending w"
    using promote_keeps [of "sw_active w" "sw_pending w"] ap by simp
  then have sets: "set a \<union> set p = set (sw_active w) \<union> set (sw_pending w)"
    by (metis set_append)
  have "worker_ok ?w"
    using assms promote_bound [of "sw_active w" "sw_pending w"] ap
    by (simp add: worker_ok_def all [symmetric] sets [symmetric] del: distinct_append set_append)
  from scan_loop_ok [OF this, of env "length a" 0] sets
  show "worker_ok (scan_round env w)"
    and "i \<in> set (sw_active w) \<union> set (sw_pending w) \<Longrightarrow>
           i \<in> set (sw_active (scan_round env w)) \<union> set (sw_pending (scan_round env w)) \<or>
           sc_complete (sw_requests (scan_round env w) i)"
    by (auto simp: scan_round_def ap)
qed

end
