(* ===== verification/SmProvider.thy ===== *)
theory SmProvider
  imports RequestHandler Nodescan
begin

section \<open>The state machine provider\<close>

text \<open>
  \<open>nodepool/driver/statemachine.py\<close>, first part: the interface of an adapter (a cloud), the data an
  adapter returns, the provider's state with its quota methods and the clean-up of leaked resources,
  and the deletion of a node. An adapter is a record of functions over the state \<open>'c\<close> of its cloud;
  its state machines are records that extend the base class \<open>StateMachine\<close> by \<open>'m\<close>. The
  configuration is a record of values. Metadata are strings, as the clouds keep them. Two clocks
  appear: \<open>now\<close> is \<open>time.time\<close> and \<open>clk\<close> is \<open>time.monotonic\<close>, both fixed during one call of a method.
\<close>

subsection \<open>Configuration\<close>

record image_config =
  ic_name :: string
  ic_username :: json
  ic_python_path :: json
  ic_shell_type :: json
  ic_connection_port :: json
  ic_connection_type :: json

record label_config =
  lc_name :: string
  lc_diskimage :: "string option"          \<comment> \<open>the name of the disk image\<close>
  lc_cloud_image :: "image_config option"
  lc_host_key_checking :: bool

record pool_config =
  pc_name :: string
  pc_labels :: "(string \<times> label_config) list"
  pc_max_servers :: num
  pc_max_cores :: "num option"
  pc_max_ram :: "num option"
  pc_max_volumes :: "num option"
  pc_max_volume_gb :: "num option"
  pc_max_resources :: "(string \<times> num) list"
  pc_ignore_provider_quota :: bool
  pc_use_internal_ip :: bool
  pc_azs :: "string list"

record provider_config =
  pr_name :: string
  pr_pools :: "(string \<times> pool_config) list"
  pr_diskimages :: "(string \<times> image_config) list"
  pr_launch_retries :: int
  pr_launch_timeout :: rat
  pr_boot_timeout :: rat

subsection \<open>The adapter\<close>

text \<open>
  \<open>Instance\<close>. The attributes that an instance may not have at all are options; \<open>in_quota\<close> is what its
  \<open>getQuotaInformation\<close> returns or raises.
\<close>

record cloud_instance =
  in_ready :: bool
  in_deleted :: bool
  in_external_id :: json
  in_public_ipv4 :: json
  in_public_ipv6 :: json
  in_private_ipv4 :: json
  in_private_ipv6 :: "json option"
  in_interface_ip :: json
  in_cloud :: json
  in_az :: json
  in_region :: json
  in_host_id :: json
  in_metadata :: "(string \<times> string) list"
  in_driver_data :: json
  in_slot :: json
  in_username :: "json option"
  in_python_path :: "json option"
  in_shell_type :: "json option"
  in_connection_port :: "json option"
  in_connection_type :: "json option"
  in_host_keys :: "json option"
  in_node_attributes :: "json option"
  in_quota :: "quota res"

definition instance_init :: cloud_instance where
  "instance_init =
     \<lparr> in_ready = False, in_deleted = False, in_external_id = JNull, in_public_ipv4 = JNull,
       in_public_ipv6 = JNull, in_private_ipv4 = JNull, in_private_ipv6 = None,
       in_interface_ip = JNull, in_cloud = JNull, in_az = JNull, in_region = JNull,
       in_host_id = JNull, in_metadata = [], in_driver_data = JNull, in_slot = JNull,
       in_username = None, in_python_path = None, in_shell_type = None, in_connection_port = None,
       in_connection_type = None, in_host_keys = None, in_node_attributes = None,
       in_quota = Inl NotImplementedError \<rparr>"

record cloud_resource =
  re_metadata :: "(string \<times> string) list"
  re_type :: string

text \<open>The base class \<open>StateMachine\<close>; \<open>sm_more\<close> are the fields of an adapter's subclass.\<close>

record 'm state_machine =
  sm_state :: string
  sm_external_id :: json
  sm_complete :: bool
  sm_start_time :: rat
  sm_more :: 'm

definition SM_START :: string where
  "SM_START = ''start''"

definition sm_init :: "rat \<Rightarrow> 'm \<Rightarrow> 'm state_machine" where
  "sm_init clk m = \<lparr> sm_state = SM_START, sm_external_id = JNull, sm_complete = False,
     sm_start_time = clk, sm_more = m \<rparr>"

record create_args =
  ca_hostname :: string
  ca_label :: label_config
  ca_image :: json
  ca_metadata :: "(string \<times> string) list"
  ca_request :: node_request
  ca_az :: json

record ('m, 'c) adapter =
  ad_getCreate :: "create_args \<Rightarrow> rat \<Rightarrow> ('c, 'm state_machine) eff"
  ad_getDelete :: "json \<Rightarrow> rat \<Rightarrow> ('c, 'm state_machine) eff"
  ad_advance :: "rat \<Rightarrow> 'm state_machine \<Rightarrow> 'c \<Rightarrow> cloud_instance option res \<times> 'm state_machine \<times> 'c"
  ad_listInstances :: "'c \<Rightarrow> cloud_instance list res"
  ad_listResources :: "'c \<Rightarrow> cloud_resource list res"
  ad_deleteResource :: "cloud_resource \<Rightarrow> ('c, unit) eff"
  ad_getQuotaLimits :: "'c \<Rightarrow> quota res"
  ad_getQuotaForLabel :: "label_config \<Rightarrow> 'c \<Rightarrow> quota res"
  ad_getAZs :: "'c \<Rightarrow> json list res"
  ad_labelReady :: "label_config \<Rightarrow> 'c \<Rightarrow> bool res"
  ad_uploadImage :: "string \<Rightarrow> string \<Rightarrow> string \<Rightarrow> json \<Rightarrow> (string \<times> string) list \<Rightarrow> json \<Rightarrow> json \<Rightarrow> ('c, json) eff"
    \<comment> \<open>provider image, name, file, format, metadata, md5, sha256\<close>
  ad_deleteImage :: "json \<Rightarrow> ('c, unit) eff"
  ad_notifyNodescanFailure :: "label_config \<Rightarrow> json \<Rightarrow> ('c, unit) eff"
  ad_getConsoleLog :: "label_config \<Rightarrow> json \<Rightarrow> ('c, unit) eff"

subsection \<open>The provider's state\<close>

text \<open>
  A launcher and a deleter hold the node they work on. The launchers are objects that a request
  handler and the provider both list: they live in a store, \<open>p_objs\<close>, and the lists hold their
  numbers.
\<close>

datatype start_future = Pending | Finished | Raised pyexc

record 'm launcher =
  ln_node :: node
  ln_pool :: pool_config
  ln_request :: node_request
  ln_chosen_az :: json
  ln_start_future :: "start_future option"
  ln_start_time :: "rat option"
  ln_attempts :: int
  ln_retries :: int
  ln_state_machine :: "'m state_machine option"
  ln_scan :: "nat option"                  \<comment> \<open>the request of the key scan\<close>
  ln_delete_machine :: "'m state_machine option"

record 'm deleter =
  de_node :: node
  de_start_time :: rat
  de_machine :: "'m state_machine"

record ('m, 'c) provider =
  p_objs :: "nat \<Rightarrow> 'm launcher option"
  p_next :: nat                            \<comment> \<open>the number of the next launcher\<close>
  p_launchers :: "nat list"
  p_deleters :: "'m deleter list"
  p_scan :: scan_worker
  p_next_scan :: nat                       \<comment> \<open>the number of the next scan request\<close>
  p_running :: bool
  p_label_quota :: "((string \<times> string) \<times> quota) list"    \<comment> \<open>pool and label\<close>
  p_quota_cache :: quota_cache
  p_error_labels :: "string list"
  p_leaked_nodes :: "string list"
  p_leaked_uploads :: "string list"
  p_cloud :: 'c

definition set_cloud :: "'c \<Rightarrow> ('m, 'c) provider \<Rightarrow> ('m, 'c) provider" where
  "set_cloud c p = p\<lparr>p_cloud := c\<rparr>"

abbreviation on_cloud :: "('c, 'a) eff \<Rightarrow> (('m, 'c) provider, 'a) eff" where
  "on_cloud \<equiv> eff_zoom p_cloud set_cloud"

subsection \<open>Quota\<close>

definition getProviderLimits :: "('m, 'c) adapter \<Rightarrow> 'c \<Rightarrow> quota res" where
  "getProviderLimits A c =
     (case ad_getQuotaLimits A c of
        Inl NotImplementedError \<Rightarrow> Inr (quota_init (Some PosInf) (Some PosInf) (Some PosInf) PosInf [])
      | r \<Rightarrow> r)"

text \<open>
  \<open>quotaNeededByLabel\<close>: the cache holds an entry for every label of the provider, so that none is
  evicted; a permanent error takes the label offline.
\<close>

definition quotaNeededByLabel ::
  "('m, 'c) adapter \<Rightarrow> string \<Rightarrow> pool_config \<Rightarrow> (('m, 'c) provider, quota) eff" where
  "quotaNeededByLabel A ntype pool =
     (case map_of (pc_labels pool) ntype of
        None \<Rightarrow> eff_raise KeyError
      | Some lb \<Rightarrow>
          eff_bind (eff_get p_label_quota) (\<lambda>cache.
            case map_of cache (pc_name pool, ntype) of
              Some qi \<Rightarrow> eff_ret qi
            | None \<Rightarrow>
                eff_bind
                  (eff_try (eff_read (\<lambda>p. ad_getQuotaForLabel A lb (p_cloud p)))
                    (\<lambda>e. if e = RuntimeConfigurationException
                         then eff_seq (eff_mod (\<lambda>p. p\<lparr>p_error_labels := List.insert ntype (p_error_labels p)\<rparr>))
                                (eff_ret no_quota)
                         else if e = NotImplementedError then eff_ret no_quota
                         else eff_raise e))
                  (\<lambda>qi. eff_seq (eff_mod (\<lambda>p. p\<lparr>p_label_quota :=
                                   setdefault (pc_name pool, ntype) qi (p_label_quota p)\<rparr>))
                          (eff_ret qi))))"

text \<open>Instances this provider owns and knows are managed; all others count.\<close>

definition meta_get :: "(string \<times> string) list \<Rightarrow> string \<Rightarrow> string option" where
  "meta_get meta k = map_of meta k"

definition is_managed :: "string \<Rightarrow> string option list \<Rightarrow> cloud_instance \<Rightarrow> bool" where
  "is_managed provider_name node_ids i =
     (let owner = meta_get (in_metadata i) ''nodepool_provider_name'';
          node_id = meta_get (in_metadata i) ''nodepool_node_id''
      in owner \<noteq> Some [] \<and> owner = Some provider_name \<and>
         \<not> no_id node_id \<and> node_id \<in> set node_ids)"

definition add_instance ::
  "string \<Rightarrow> string option list \<Rightarrow> cloud_instance \<Rightarrow> quota \<Rightarrow> quota res" where
  "add_instance provider_name node_ids i used =
     (if is_managed provider_name node_ids i then Inr used
      else bindE (case in_quota i of Inl NotImplementedError \<Rightarrow> Inr no_quota | r \<Rightarrow> r)
             (\<lambda>qi. case quota_add qi used of (Some e, q) \<Rightarrow> Inl e | (None, q) \<Rightarrow> Inr q))"

definition unmanagedQuotaUsed ::
  "'z kazoo \<Rightarrow> ('m, 'c) adapter \<Rightarrow> string \<Rightarrow> rat \<Rightarrow> 'z zk_view \<Rightarrow> 'c \<Rightarrow> quota res" where
  "unmanagedQuotaUsed K A provider_name now v c =
     bindE (nodeIterator K (v_nodes v) False True now (v_zk v)) (\<lambda>ns.
       bindE (ad_listInstances A c) (\<lambda>is'.
         foldE (add_instance provider_name (map o_id ns)) is' no_quota))"

text \<open>The two estimates of \<open>QuotaSupport\<close> for this provider.\<close>

definition nodepoolQuota ::
  "'z kazoo \<Rightarrow> ('m, 'c) adapter \<Rightarrow> provider_config \<Rightarrow> rat \<Rightarrow> 'z zk_view \<Rightarrow> (('m, 'c) provider, quota) eff" where
  "nodepoolQuota K A cfg now v p =
     (case estimatedNodepoolQuota (getProviderLimits A (p_cloud p))
             (unmanagedQuotaUsed K A (pr_name cfg) now v (p_cloud p)) now now (p_quota_cache p) of
        (r, qc) \<Rightarrow> (r, p\<lparr>p_quota_cache := qc\<rparr>))"

definition pool_labels :: "provider_config \<Rightarrow> (string \<times> string list) list" where
  "pool_labels cfg = map (\<lambda>(name, pool). (name, map fst (pc_labels pool))) (pr_pools cfg)"

definition quotaUsed ::
  "'z kazoo \<Rightarrow> ('m, 'c) adapter \<Rightarrow> provider_config \<Rightarrow> string option \<Rightarrow> rat \<Rightarrow> 'z zk_view \<Rightarrow>
     (('m, 'c) provider, quota) eff" where
  "quotaUsed K A cfg pool now v =
     eff_bind (eff_lift (nodeIterator K (v_nodes v) False True now (v_zk v)))
       (estimatedNodepoolQuotaUsed (pr_name cfg) (pool_labels cfg)
          (\<lambda>l name. case map_of (pr_pools cfg) name of
                      None \<Rightarrow> eff_raise KeyError | Some pool \<Rightarrow> quotaNeededByLabel A l pool)
          pool)"

subsection \<open>Leaked resources\<close>

text \<open>
  \<open>cleanupLeakedResources\<close>: a resource whose node (or upload) ZooKeeper does not know is remembered,
  and deleted when the previous run has remembered it too. A deletion that raises is logged.
\<close>

definition known_node_ids :: "string \<Rightarrow> node list \<Rightarrow> string option list" where
  "known_node_ids provider_name ns = map o_id (filter (\<lambda>n. n_provider n = JStr provider_name) ns)"

definition known_upload_ids :: "(string \<times> (string \<times> image_upload list) list) list \<Rightarrow> string list" where
  "known_upload_ids uploads =
     concat (map (\<lambda>(img, builds). concat (map (\<lambda>(build_id, us).
       map (\<lambda>u. build_id @ ''-'' @ str_id (o_id u)) us) builds)) uploads)"

definition build_upload_id :: "cloud_resource \<Rightarrow> string option" where
  "build_upload_id r =
     (case meta_get (re_metadata r) ''nodepool_upload_id'' of
        None \<Rightarrow> None
      | Some u \<Rightarrow> if u = [] then None
                  else Some (str_id (meta_get (re_metadata r) ''nodepool_build_id'') @ ''-'' @ u))"

definition leaked_one ::
  "('m, 'c) adapter \<Rightarrow> cloud_resource \<Rightarrow> string option \<Rightarrow> bool \<Rightarrow> string list \<Rightarrow> string list \<Rightarrow>
     ('c, string list) eff" where
  "leaked_one A r key known before found =
     (case key of
        None \<Rightarrow> eff_ret found
      | Some k \<Rightarrow>
          if k = [] \<or> known then eff_ret found
          else eff_seq (eff_when (k \<in> set before) (eff_ignore (ad_deleteResource A r)))
                 (eff_ret (List.insert k found)))"

definition leaked_step ::
  "('m, 'c) adapter \<Rightarrow> string \<Rightarrow> string option list \<Rightarrow> string list \<Rightarrow> string list \<Rightarrow> string list \<Rightarrow>
     cloud_resource \<Rightarrow> string list \<times> string list \<Rightarrow> ('c, string list \<times> string list) eff" where
  "leaked_step A provider_name known_nodes known_uploads old_nodes old_uploads r found =
     (if meta_get (re_metadata r) ''nodepool_provider_name'' \<noteq> Some provider_name then eff_ret found
      else let node_id = meta_get (re_metadata r) ''nodepool_node_id'' in
        eff_bind (leaked_one A r node_id (node_id \<in> set known_nodes) old_nodes (fst found)) (\<lambda>nodes.
          eff_bind (leaked_one A r (build_upload_id r) (the (build_upload_id r) \<in> set known_uploads)
                      old_uploads (snd found)) (\<lambda>uploads.
            eff_ret (nodes, uploads))))"

definition cleanupLeakedResources ::
  "'z kazoo \<Rightarrow> ('m, 'c) adapter \<Rightarrow> provider_config \<Rightarrow> rat \<Rightarrow> 'z zk_view \<Rightarrow> (('m, 'c) provider, unit) eff" where
  "cleanupLeakedResources K A cfg now v =
     eff_bind (eff_lift (nodeIterator K (v_nodes v) False True now (v_zk v))) (\<lambda>ns.
       eff_bind (eff_lift (getProviderUploads K (pr_name cfg) now (v_zk v))) (\<lambda>uploads.
         eff_bind (eff_read (\<lambda>p. ad_listResources A (p_cloud p))) (\<lambda>resources.
           eff_bind (eff_get (\<lambda>p. (p_leaked_nodes p, p_leaked_uploads p))) (\<lambda>(old_nodes, old_uploads).
             eff_bind (on_cloud (eff_fold
                 (leaked_step A (pr_name cfg) (known_node_ids (pr_name cfg) ns)
                    (known_upload_ids uploads) old_nodes old_uploads) resources ([], []))) (\<lambda>(nodes, ups).
               eff_mod (\<lambda>p. p\<lparr>p_leaked_nodes := nodes, p_leaked_uploads := ups\<rparr>))))))"

subsection \<open>Images\<close>

definition uploadImage ::
  "('m, 'c) adapter \<Rightarrow> provider_config \<Rightarrow> string \<Rightarrow> string \<Rightarrow> string \<Rightarrow> json \<Rightarrow>
     (string \<times> string) list \<Rightarrow> json \<Rightarrow> json \<Rightarrow> (('m, 'c) provider, json) eff" where
  "uploadImage A cfg provider_image image_name filename image_type meta md5 sha256 =
     on_cloud (ad_uploadImage A provider_image image_name filename image_type
       (AList.update ''nodepool_provider_name'' (pr_name cfg) meta) md5 sha256)"

definition deleteImage :: "('m, 'c) adapter \<Rightarrow> string \<Rightarrow> json \<Rightarrow> (('m, 'c) provider, unit) eff" where
  "deleteImage A name i = on_cloud (ad_deleteImage A i)"

subsection \<open>Deleting a node\<close>

definition DELETE_TIMEOUT :: rat where
  "DELETE_TIMEOUT = 600"

record ('m, 'c, 'z) delete_world =
  dw_deleter :: "'m deleter"
  dw_cloud :: 'c
  dw_zk :: 'z

definition on_deleter_node ::
  "(node \<Rightarrow> 'z \<Rightarrow> pyexc option \<times> node \<times> 'z) \<Rightarrow> (('m, 'c, 'z) delete_world, unit) eff" where
  "on_deleter_node =
     eff_obj (\<lambda>w. de_node (dw_deleter w)) (\<lambda>n w. w\<lparr>dw_deleter := (dw_deleter w)\<lparr>de_node := n\<rparr>\<rparr>)
       dw_zk (\<lambda>z w. w\<lparr>dw_zk := z\<rparr>)"

text \<open>\<open>node.state = st\<close>.\<close>

definition assign_state :: "zk_state \<Rightarrow> rat \<Rightarrow> node \<Rightarrow> 'z \<Rightarrow> pyexc option \<times> node \<times> 'z" where
  "assign_state st now n z =
     (case set_state NODE_STATES (JStr (state_str st)) now n of
        Inl e \<Rightarrow> (Some e, n, z) | Inr n' \<Rightarrow> (None, n', z))"

definition deleter_complete :: "'m deleter \<Rightarrow> bool" where
  "deleter_complete d = sm_complete (de_machine d)"

definition set_deleter_complete :: "(('m, 'c, 'z) delete_world, unit) eff" where
  "set_deleter_complete = eff_mod (\<lambda>w. w\<lparr>dw_deleter :=
     (dw_deleter w)\<lparr>de_machine := (de_machine (dw_deleter w))\<lparr>sm_complete := True\<rparr>\<rparr>\<rparr>)"

definition advance_deleter :: "('m, 'c) adapter \<Rightarrow> rat \<Rightarrow> (('m, 'c, 'z) delete_world, unit) eff" where
  "advance_deleter A clk w =
     (case ad_advance A clk (de_machine (dw_deleter w)) (dw_cloud w) of
        (r, m, c) \<Rightarrow> (map_sum id (\<lambda>i. ()) r,
                       w\<lparr>dw_deleter := (dw_deleter w)\<lparr>de_machine := m\<rparr>, dw_cloud := c\<rparr>))"

text \<open>What the \<open>try\<close> block of \<open>runStateMachine\<close> does; false when it returns from the method.\<close>

definition deleter_body ::
  "'z kazoo \<Rightarrow> ('m, 'c) adapter \<Rightarrow> rat \<Rightarrow> rat \<Rightarrow> (('m, 'c, 'z) delete_world, bool) eff" where
  "deleter_body K A now clk =
     eff_bind (eff_get dw_deleter) (\<lambda>d.
       if clk - sm_start_time (de_machine d) > DELETE_TIMEOUT
       then eff_raise ServerDeleteTimeoutException
       else eff_seq (eff_when (sm_state (de_machine d) = SM_START)
                      (eff_seq (on_deleter_node (assign_state DELETING now))
                               (on_deleter_node (storeNode K now))))
            (eff_seq (if truthy (n_external_id (de_node d)) then advance_deleter A clk
                      else set_deleter_complete)
              (eff_get (\<lambda>w. deleter_complete (dw_deleter w)))))"

definition deleter_run ::
  "'z kazoo \<Rightarrow> 'z locks \<Rightarrow> ('m, 'c) adapter \<Rightarrow> rat \<Rightarrow> rat \<Rightarrow> (('m, 'c, 'z) delete_world, bool) eff" where
  "deleter_run K L A now clk =
     eff_bind (eff_get dw_deleter) (\<lambda>d.
       let node_exists = (o_id (de_node d) \<noteq> None) in
       if deleter_complete d then eff_ret True
       else eff_bind
         (eff_try (deleter_body K A now clk)
           (\<lambda>e. if e = NotFound then eff_ret True
                else eff_seq (eff_when node_exists (on_deleter_node (unlockNode L)))
                       (eff_seq set_deleter_complete (eff_ret False))))
         (\<lambda>go_on. if \<not> go_on then eff_ret False
            else eff_seq (eff_when node_exists (on_deleter_node (deleteNode K now))) (eff_ret True)))"

text \<open>\<open>StateMachineNodeDeleter.__init__\<close> and \<open>startNodeCleanup\<close>.\<close>

definition startNodeCleanup ::
  "('m, 'c) adapter \<Rightarrow> node \<Rightarrow> rat \<Rightarrow> (('m, 'c) provider, 'm deleter) eff" where
  "startNodeCleanup A n clk =
     eff_bind (on_cloud (ad_getDelete A (n_external_id n) clk)) (\<lambda>m.
       let d = \<lparr> de_node = n, de_start_time = clk, de_machine = m \<rparr> in
       eff_seq (eff_mod (\<lambda>p. p\<lparr>p_deleters := p_deleters p @ [d]\<rparr>)) (eff_ret d))"

text \<open>
  One pass of \<open>_runStateMachines\<close> over the deleters: an exception is logged, and those complete after
  a call that returned are removed. The clock is read anew for every deleter.
\<close>

definition run_deleter ::
  "'z kazoo \<Rightarrow> 'z locks \<Rightarrow> ('m, 'c) adapter \<Rightarrow> rat \<Rightarrow> rat \<Rightarrow> 'm deleter \<Rightarrow> 'c \<times> 'z \<Rightarrow>
     (bool \<times> 'm deleter) \<times> 'c \<times> 'z" where
  "run_deleter K L A now clk d s =
     (case deleter_run K L A now clk \<lparr> dw_deleter = d, dw_cloud = fst s, dw_zk = snd s \<rparr> of
        (r, w) \<Rightarrow> (((case r of Inl e \<Rightarrow> False | Inr b \<Rightarrow> deleter_complete (dw_deleter w)), dw_deleter w),
                   dw_cloud w, dw_zk w))"

fun run_deleters ::
  "'z kazoo \<Rightarrow> 'z locks \<Rightarrow> ('m, 'c) adapter \<Rightarrow> (nat \<Rightarrow> rat \<times> rat) \<Rightarrow> nat \<Rightarrow> 'm deleter list \<Rightarrow> 'c \<times> 'z \<Rightarrow>
     'm deleter list \<times> 'c \<times> 'z" where
  "run_deleters K L A clock i [] s = ([], s)"
| "run_deleters K L A clock i (d # ds) s =
     (case run_deleter K L A (fst (clock i)) (snd (clock i)) d s of
        ((remove, d'), s') \<Rightarrow>
          (case run_deleters K L A clock (Suc i) ds s' of
             (ds', s'') \<Rightarrow> ((if remove then ds' else d' # ds'), s'')))"

definition runDeleteStateMachines ::
  "'z kazoo \<Rightarrow> 'z locks \<Rightarrow> ('m, 'c) adapter \<Rightarrow> (nat \<Rightarrow> rat \<times> rat) \<Rightarrow> ('m, 'c) provider \<Rightarrow> 'z \<Rightarrow>
     ('m, 'c) provider \<times> 'z" where
  "runDeleteStateMachines K L A clock p z =
     (case run_deleters K L A clock 0 (p_deleters p) (p_cloud p, z) of
        (ds, c, z') \<Rightarrow> (p\<lparr>p_deleters := ds, p_cloud := c\<rparr>, z'))"

end
