(* ===== verification/SmLauncher.thy ===== *)
theory SmLauncher
  imports SmProvider
begin

section \<open>Launching a node with a state machine\<close>

text \<open>
  \<open>StateMachineNodeLauncher\<close> of \<open>nodepool/driver/statemachine.py\<close> and the provider's loop over its
  launchers. A launcher runs an adapter's create state machine until the instance is there, has its
  host keys scanned and marks the node ready; on failure it deletes what it made with a delete state
  machine and tries again. Of what the handler holds, the launcher keeps the pool, the request and
  the chosen availability zone, which do not change after its creation. Logging and statistics are
  left out; all of it is guarded by the code so that it raises nothing.
\<close>

subsection \<open>The state of a launch\<close>

record ('m, 'c, 'z) launch_world =
  lw_l :: "'m launcher"
  lw_p :: "('m, 'c) provider"
  lw_zk :: 'z

type_synonym ('m, 'c, 'z, 'a) launch_eff = "(('m, 'c, 'z) launch_world, 'a) eff"

definition upd_l :: "('m launcher \<Rightarrow> 'm launcher) \<Rightarrow> ('m, 'c, 'z, unit) launch_eff" where
  "upd_l f = eff_mod (\<lambda>w. w\<lparr>lw_l := f (lw_l w)\<rparr>)"

definition upd_node :: "(node \<Rightarrow> node) \<Rightarrow> ('m, 'c, 'z, unit) launch_eff" where
  "upd_node f = upd_l (\<lambda>l. l\<lparr>ln_node := f (ln_node l)\<rparr>)"

definition on_node :: "(node \<Rightarrow> 'z \<Rightarrow> pyexc option \<times> node \<times> 'z) \<Rightarrow> ('m, 'c, 'z, unit) launch_eff" where
  "on_node = eff_obj (\<lambda>w. ln_node (lw_l w)) (\<lambda>n w. w\<lparr>lw_l := (lw_l w)\<lparr>ln_node := n\<rparr>\<rparr>)
               lw_zk (\<lambda>z w. w\<lparr>lw_zk := z\<rparr>)"

definition on_provider :: "(('m, 'c) provider, 'a) eff \<Rightarrow> ('m, 'c, 'z, 'a) launch_eff" where
  "on_provider = eff_zoom lw_p (\<lambda>p w. w\<lparr>lw_p := p\<rparr>)"

definition get_l :: "('m launcher \<Rightarrow> 'a) \<Rightarrow> ('m, 'c, 'z, 'a) launch_eff" where
  "get_l f = eff_get (\<lambda>w. f (lw_l w))"

definition launcher_init :: "node \<Rightarrow> pool_config \<Rightarrow> node_request \<Rightarrow> json \<Rightarrow> int \<Rightarrow> 'm launcher" where
  "launcher_init n pool r az retries =
     \<lparr> ln_node = n, ln_pool = pool, ln_request = r, ln_chosen_az = az, ln_start_future = None,
       ln_start_time = None, ln_attempts = 0, ln_retries = retries, ln_state_machine = None,
       ln_scan = None, ln_delete_machine = None \<rparr>"

text \<open>The property \<open>complete\<close>.\<close>

definition launcher_complete :: "'m launcher \<Rightarrow> bool" where
  "launcher_complete l = (o_state (ln_node l) \<noteq> Some BUILDING)"

subsection \<open>Starting\<close>

text \<open>\<open>pool.labels[node.type[0]]\<close>.\<close>

definition launch_label :: "'m launcher \<Rightarrow> label_config res" where
  "launch_label l =
     (case n_type (ln_node l) of
        [] \<Rightarrow> Inl IndexError
      | JStr t # ts \<Rightarrow> (case map_of (pc_labels (ln_pool l)) t of None \<Rightarrow> Inl KeyError | Some lb \<Rightarrow> Inr lb)
      | JList xs # ts \<Rightarrow> Inl TypeError
      | JDict d # ts \<Rightarrow> Inl TypeError
      | _ \<Rightarrow> Inl KeyError)"

definition recent_upload ::
  "'z kazoo \<Rightarrow> cached_image cache option \<Rightarrow> string \<Rightarrow> string \<Rightarrow> rat \<Rightarrow> 'z \<Rightarrow> image_upload option res" where
  "recent_upload K ic img provider_name now z =
     (case ic of
        None \<Rightarrow> Inl RuntimeError
      | Some c \<Rightarrow> getMostRecentImageUpload K True c img provider_name READY True now z)"

text \<open>
  The image of a label: the external id, the node's \<open>image_id\<close> and the configuration with the login
  settings. The names in a cached upload come from its path, so they are strings.
\<close>

definition label_image ::
  "'z kazoo \<Rightarrow> provider_config \<Rightarrow> cached_image cache option \<Rightarrow> label_config \<Rightarrow> rat \<Rightarrow> 'z \<Rightarrow>
     (json \<times> json \<times> image_config) res" where
  "label_image K cfg ic lb now z =
     (case lc_diskimage lb of
        Some d \<Rightarrow>
          (case map_of (pr_diskimages cfg) d of
             None \<Rightarrow> Inl KeyError
           | Some di \<Rightarrow>
               bindE (recent_upload K ic (ic_name di) (pr_name cfg) now z) (\<lambda>u.
                 case u of
                   None \<Rightarrow> Inl LaunchNodepoolException
                 | Some up \<Rightarrow>
                     (case (iu_image_name up, iu_build_id up, iu_provider_name up) of
                        (JStr img, JStr b, JStr p) \<Rightarrow>
                          Inr (iu_external_id up,
                               JStr (imageUploadPath img b p @ ''/'' @ str_id (o_id up)), di)
                      | _ \<Rightarrow> Inl TypeError)))
      | None \<Rightarrow>
          (case lc_cloud_image lb of
             None \<Rightarrow> Inl AttributeError
           | Some im \<Rightarrow> Inr (JNull, JStr (ic_name im), im)))"

text \<open>
  Resources as they are serialised. JSON has no infinities: Python writes the words, which are kept
  here as strings.
\<close>

fun json_of_qval :: "qval \<Rightarrow> json" where
  "json_of_qval (QNum (Fin q)) = JNum q"
| "json_of_qval (QNum PosInf) = JStr ''Infinity''"
| "json_of_qval (QNum NegInf) = JStr ''-Infinity''"
| "json_of_qval (QNum NaN) = JStr ''NaN''"
| "json_of_qval (QOther v) = v"

definition json_of_resources :: "resources \<Rightarrow> json" where
  "json_of_resources rs = JDict (map (\<lambda>(k, v). (k, json_of_qval v)) rs)"

definition image_settings :: "json \<Rightarrow> image_config \<Rightarrow> node \<Rightarrow> node" where
  "image_settings image_id im n =
     n\<lparr> n_image_id := image_id, n_username := ic_username im, n_python_path := ic_python_path im,
        n_shell_type := ic_shell_type im, n_connection_port := ic_connection_port im,
        n_connection_type := ic_connection_type im \<rparr>"

definition startStateMachine ::
  "'z kazoo \<Rightarrow> ('m, 'c) adapter \<Rightarrow> provider_config \<Rightarrow> cached_image cache option \<Rightarrow> rat \<Rightarrow> rat \<Rightarrow>
     ('m, 'c, 'z, unit) launch_eff" where
  "startStateMachine K A cfg ic now clk =
     eff_bind (eff_read (\<lambda>w. launch_label (lw_l w))) (\<lambda>lb.
     eff_bind (eff_read (\<lambda>w. label_image K cfg ic lb now (lw_zk w))) (\<lambda>(external_id, image_id, im).
     eff_seq (upd_node (image_settings image_id im))
     (eff_bind (get_l ln_pool) (\<lambda>pool.
      eff_bind (on_provider (quotaNeededByLabel A (lc_name lb) pool)) (\<lambda>qi.
      eff_bind (eff_lift (get_resources qi)) (\<lambda>rs.
      eff_seq (upd_node (\<lambda>n. n\<lparr>n_resources := json_of_resources rs\<rparr>))
      (eff_seq (on_node (storeNode K now))
      (eff_bind (get_l (\<lambda>l. l)) (\<lambda>l.
         case o_id (ln_node l) of
           None \<Rightarrow> eff_raise TypeError
         | Some i \<Rightarrow>
             eff_bind (on_provider (on_cloud (ad_getCreate A
                 \<lparr> ca_hostname = ''np'' @ i, ca_label = lb, ca_image = external_id,
                   ca_metadata = [(''nodepool_node_id'', i), (''nodepool_pool_name'', pc_name pool),
                                  (''nodepool_provider_name'', pr_name cfg)],
                   ca_request = ln_request l, ca_az = ln_chosen_az l \<rparr> clk))) (\<lambda>m.
               upd_l (\<lambda>l. l\<lparr>ln_state_machine := Some m\<rparr>)))))))))))"

text \<open>
  \<open>launch\<close>: the first attempt is handed to a thread pool (which runs \<open>start_worker\<close> some time
  later), the others start at once.
\<close>

definition launcher_launch ::
  "'z kazoo \<Rightarrow> ('m, 'c) adapter \<Rightarrow> provider_config \<Rightarrow> cached_image cache option \<Rightarrow> rat \<Rightarrow> rat \<Rightarrow>
     ('m, 'c, 'z, unit) launch_eff" where
  "launcher_launch K A cfg ic now clk =
     eff_seq (upd_l (\<lambda>l. l\<lparr>ln_attempts := ln_attempts l + 1\<rparr>))
       (eff_bind (get_l ln_attempts) (\<lambda>a.
          if a = 1 then upd_l (\<lambda>l. l\<lparr>ln_start_future := Some Pending\<rparr>)
          else startStateMachine K A cfg ic now clk))"

definition start_worker ::
  "'z kazoo \<Rightarrow> ('m, 'c) adapter \<Rightarrow> provider_config \<Rightarrow> cached_image cache option \<Rightarrow> rat \<Rightarrow> rat \<Rightarrow>
     ('m, 'c, 'z, unit) launch_eff" where
  "start_worker K A cfg ic now clk =
     eff_bind (get_l ln_start_future) (\<lambda>fut.
       if fut = Some Pending
       then eff_try (eff_seq (startStateMachine K A cfg ic now clk)
                       (upd_l (\<lambda>l. l\<lparr>ln_start_future := Some Finished\<rparr>)))
              (\<lambda>e. upd_l (\<lambda>l. l\<lparr>ln_start_future := Some (Raised e)\<rparr>))
       else eff_ret ())"

subsection \<open>What the instance tells\<close>

definition instance_ip :: "pool_config \<Rightarrow> cloud_instance \<Rightarrow> json res" where
  "instance_ip pool i =
     (if \<not> pc_use_internal_ip pool then Inr (in_interface_ip i)
      else if truthy (in_private_ipv4 i) then Inr (in_private_ipv4 i)
      else (case in_private_ipv6 i of
              None \<Rightarrow> Inl AttributeError
            | Some v6 \<Rightarrow> Inr (if truthy v6 then v6 else in_interface_ip i)))"

definition opt_attr :: "json option \<Rightarrow> json \<Rightarrow> json" where
  "opt_attr a v = (case a of None \<Rightarrow> v | Some x \<Rightarrow> x)"

text \<open>The attributes of a backing node are defaults, those of the pool override them.\<close>

definition merge_attributes :: "json option \<Rightarrow> json \<Rightarrow> json res" where
  "merge_attributes from_instance from_pool =
     (case from_instance of
        None \<Rightarrow> Inr from_pool
      | Some JNull \<Rightarrow> Inr from_pool
      | Some (JDict d) \<Rightarrow>
          if \<not> truthy from_pool then Inr (JDict d)
          else (case from_pool of
                  JDict e \<Rightarrow> Inr (JDict (foldl (\<lambda>d (k, v). AList.update k v d) d e))
                | _ \<Rightarrow> Inl TypeError)
      | Some _ \<Rightarrow> Inl AttributeError)"

definition instance_addresses :: "json \<Rightarrow> cloud_instance \<Rightarrow> node \<Rightarrow> node" where
  "instance_addresses ip i n =
     n\<lparr> n_external_id := in_external_id i, n_interface_ip := ip, n_public_ipv4 := in_public_ipv4 i,
        n_private_ipv4 := in_private_ipv4 i, n_public_ipv6 := in_public_ipv6 i,
        n_host_id := in_host_id i, n_cloud := in_cloud i, n_region := in_region i, n_az := in_az i,
        n_driver_data := in_driver_data i, n_slot := in_slot i \<rparr>"

definition instance_settings :: "cloud_instance \<Rightarrow> node \<Rightarrow> node" where
  "instance_settings i n =
     n\<lparr> n_username := opt_attr (in_username i) (n_username n),
        n_python_path := opt_attr (in_python_path i) (n_python_path n),
        n_shell_type := opt_attr (in_shell_type i) (n_shell_type n),
        n_connection_port := opt_attr (in_connection_port i) (n_connection_port n),
        n_connection_type := opt_attr (in_connection_type i) (n_connection_type n),
        n_host_keys := opt_attr (in_host_keys i) (n_host_keys n) \<rparr>"

definition updateNodeFromInstance ::
  "'z kazoo \<Rightarrow> rat \<Rightarrow> cloud_instance option \<Rightarrow> ('m, 'c, 'z, unit) launch_eff" where
  "updateNodeFromInstance K now inst =
     (case inst of
        None \<Rightarrow> eff_ret ()
      | Some i \<Rightarrow>
          eff_bind (get_l ln_pool) (\<lambda>pool.
          eff_bind (eff_lift (instance_ip pool i)) (\<lambda>ip.
          eff_seq (upd_node (instance_addresses ip i))
          (eff_bind (eff_lift (bindE (in_quota i) get_resources)) (\<lambda>rs.
           eff_seq (upd_node (\<lambda>n. instance_settings i (n\<lparr>n_resources := json_of_resources rs\<rparr>)))
           (eff_bind (get_l (\<lambda>l. n_attributes (ln_node l))) (\<lambda>attrs.
            eff_bind (eff_lift (merge_attributes (in_node_attributes i) attrs)) (\<lambda>attrs'.
            eff_seq (upd_node (\<lambda>n. n\<lparr>n_attributes := attrs'\<rparr>))
              (on_node (storeNode K now))))))))))"

subsection \<open>Undoing an attempt\<close>

text \<open>\<open>runDeleteStateMachine\<close>: true when there is nothing left to delete.\<close>

definition set_delete :: "'m state_machine option \<Rightarrow> ('m, 'c, 'z, unit) launch_eff" where
  "set_delete m = upd_l (\<lambda>l. l\<lparr>ln_delete_machine := m\<rparr>)"

definition advance_delete ::
  "('m, 'c) adapter \<Rightarrow> rat \<Rightarrow> 'm state_machine \<Rightarrow> ('m, 'c, 'z, bool) launch_eff" where
  "advance_delete A clk m w =
     (case ad_advance A clk m (p_cloud (lw_p w)) of
        (r, m', c) \<Rightarrow> (map_sum id (\<lambda>i. sm_complete m') r,
                        w\<lparr>lw_l := (lw_l w)\<lparr>ln_delete_machine := Some m'\<rparr>,
                          lw_p := set_cloud c (lw_p w)\<rparr>))"

definition runDeleteStateMachine ::
  "('m, 'c) adapter \<Rightarrow> rat \<Rightarrow> ('m, 'c, 'z, bool) launch_eff" where
  "runDeleteStateMachine A clk =
     eff_bind (get_l ln_delete_machine) (\<lambda>dm.
       case dm of
         None \<Rightarrow> eff_ret True
       | Some m \<Rightarrow>
           if sm_complete m then eff_seq (set_delete None) (eff_ret True)
           else if \<not> truthy (sm_external_id m) then eff_seq (set_delete None) (eff_ret True)
           else eff_try (eff_bind (advance_delete A clk m) (\<lambda>complete. eff_ret False))
             (\<lambda>e. if e = NotFound then eff_seq (set_delete None) (eff_ret True)
                  else eff_bind (get_l (\<lambda>l. sm_external_id (the (ln_delete_machine l)))) (\<lambda>x.
                    eff_bind (on_provider (on_cloud (ad_getDelete A x clk))) (\<lambda>m'.
                      eff_seq (set_delete (Some m')) (eff_ret False)))))"

subsection \<open>One step of a launch\<close>

text \<open>Whether a string occurs in another.\<close>

fun occurs_in :: "string \<Rightarrow> string \<Rightarrow> bool" where
  "occurs_in p [] = (p = [])"
| "occurs_in p (c # cs) = (startswith (c # cs) p \<or> occurs_in p cs)"

definition scan_of :: "('m, 'c, 'z) launch_world \<Rightarrow> scan_request option" where
  "scan_of w = map_option (sw_requests (p_scan (lw_p w))) (ln_scan (lw_l w))"

definition scan_done :: "('m, 'c, 'z) launch_world \<Rightarrow> bool" where
  "scan_done w = (case scan_of w of None \<Rightarrow> False | Some r \<Rightarrow> sc_complete r)"

text \<open>\<open>nodescan_worker.removeRequest(self.nodescan_request)\<close>, and forgetting the request.\<close>

definition drop_scan :: "('m, 'c, 'z, unit) launch_eff" where
  "drop_scan = eff_mod (\<lambda>w. w\<lparr> lw_p := (lw_p w)\<lparr>p_scan := removeRequest (ln_scan (lw_l w)) (p_scan (lw_p w))\<rparr>,
                              lw_l := (lw_l w)\<lparr>ln_scan := None\<rparr> \<rparr>)"

text \<open>A new scan request for the node; \<open>resolve\<close> is what looking an address up raises.\<close>

definition add_scan ::
  "(string \<Rightarrow> pyexc option) \<Rightarrow> provider_config \<Rightarrow> rat \<Rightarrow> ('m, 'c, 'z, unit) launch_eff" where
  "add_scan resolve cfg clk =
     eff_bind (eff_read (\<lambda>w. launch_label (lw_l w))) (\<lambda>lb.
     eff_bind (get_l ln_node) (\<lambda>n.
     case n_interface_ip n of
       JStr ip \<Rightarrow>
         eff_bind (eff_lift (scan_init (case n_connection_type n of JStr t \<Rightarrow> t | _ \<Rightarrow> [])
                     (occurs_in ''fake'' ip) (resolve ip) (lc_host_key_checking lb)
                     (pr_boot_timeout cfg) clk)) (\<lambda>r.
         eff_mod (\<lambda>w. let p = lw_p w; i = p_next_scan p in
           w\<lparr> lw_l := (lw_l w)\<lparr>ln_scan := Some i\<rparr>,
              lw_p := p\<lparr> p_next_scan := Suc i,
                         p_scan := addRequest i ((p_scan p)\<lparr>sw_requests := (sw_requests (p_scan p))(i := r)\<rparr>) \<rparr> \<rparr>))
     | _ \<Rightarrow> eff_raise TypeError))"

text \<open>The machine is complete and its keys are scanned: the node is ready.\<close>

definition finish_launch :: "'z kazoo \<Rightarrow> rat \<Rightarrow> ('m, 'c, 'z, unit) launch_eff" where
  "finish_launch K now =
     eff_bind (eff_read (\<lambda>w. case scan_of w of
                 None \<Rightarrow> Inl AttributeError
               | Some r \<Rightarrow> (case scan_result r of Inl e \<Rightarrow> Inl LaunchKeyscanException | Inr ks \<Rightarrow> Inr ks)))
       (\<lambda>keys.
        eff_seq (eff_when (keys \<noteq> []) (upd_node (\<lambda>n. n\<lparr>n_host_keys := JList (map JStr keys)\<rparr>)))
        (eff_seq (on_node (assign_state READY now)) (on_node (storeNode K now))))"

definition advance_create ::
  "('m, 'c) adapter \<Rightarrow> rat \<Rightarrow> ('m, 'c, 'z, cloud_instance option) launch_eff" where
  "advance_create A clk w =
     (case ln_state_machine (lw_l w) of
        None \<Rightarrow> (Inl AttributeError, w)
      | Some m \<Rightarrow>
          (case ad_advance A clk m (p_cloud (lw_p w)) of
             (r, m', c) \<Rightarrow> (r, w\<lparr>lw_l := (lw_l w)\<lparr>ln_state_machine := Some m'\<rparr>,
                                 lw_p := set_cloud c (lw_p w)\<rparr>)))"

definition machine_external_id :: "'m launcher \<Rightarrow> json" where
  "machine_external_id l = (case ln_state_machine l of None \<Rightarrow> JNull | Some m \<Rightarrow> sm_external_id m)"

definition machine_complete :: "'m launcher \<Rightarrow> bool" where
  "machine_complete l = (case ln_state_machine l of None \<Rightarrow> False | Some m \<Rightarrow> sm_complete m)"

definition use_external_id :: "('m, 'c, 'z, unit) launch_eff" where
  "use_external_id = upd_l (\<lambda>l. l\<lparr>ln_node := (ln_node l)\<lparr>n_external_id := machine_external_id l\<rparr>\<rparr>)"

text \<open>Advancing the create state machine, and what follows from it.\<close>

definition create_step ::
  "'z kazoo \<Rightarrow> ('m, 'c) adapter \<Rightarrow> (string \<Rightarrow> pyexc option) \<Rightarrow> provider_config \<Rightarrow> rat \<Rightarrow> rat \<Rightarrow>
     ('m, 'c, 'z, unit) launch_eff" where
  "create_step K A resolve cfg now clk =
     eff_bind (advance_create A clk) (\<lambda>inst.
     eff_bind (get_l (\<lambda>l. \<not> truthy (n_external_id (ln_node l)) \<and> truthy (machine_external_id l))) (\<lambda>known.
     eff_seq (eff_when known (eff_seq use_external_id (on_node (storeNode K now))))
     (eff_bind (get_l (\<lambda>l. machine_complete l \<and> ln_scan l = None)) (\<lambda>built.
      eff_when built (eff_seq (updateNodeFromInstance K now inst) (add_scan resolve cfg clk))))))"

text \<open>
  The \<open>try\<close> block of \<open>runStateMachine\<close>: \<open>Some b\<close> when it returns \<open>b\<close> from the method, \<open>None\<close> when it
  runs through.
\<close>

definition launch_body ::
  "'z kazoo \<Rightarrow> ('m, 'c) adapter \<Rightarrow> (string \<Rightarrow> pyexc option) \<Rightarrow> provider_config \<Rightarrow> rat \<Rightarrow> rat \<Rightarrow>
     ('m, 'c, 'z, bool option) launch_eff" where
  "launch_body K A resolve cfg now clk =
     eff_bind (get_l (\<lambda>l. (ln_state_machine l, ln_start_future l))) (\<lambda>(m0, fut).
     if m0 = None \<and> (fut = None \<or> fut = Some Pending) then eff_ret (Some False)
     else eff_seq (case (m0, fut) of (None, Some (Raised e)) \<Rightarrow> eff_raise e | _ \<Rightarrow> eff_ret ())
     (eff_seq (upd_l (\<lambda>l. if ln_start_time l = None then l\<lparr>ln_start_time := Some clk\<rparr> else l))
     (eff_bind (eff_read (\<lambda>w. case ln_state_machine (lw_l w) of None \<Rightarrow> Inl AttributeError | Some m \<Rightarrow> Inr m)) (\<lambda>m.
      eff_bind (eff_get scan_done) (\<lambda>scanned.
      if sm_complete m \<and> scanned then eff_seq (finish_launch K now) (eff_ret (Some True))
      else if clk - sm_start_time m > pr_launch_timeout cfg then eff_raise ServerCreateTimeoutException
      else eff_bind (runDeleteStateMachine A clk) (\<lambda>clean.
        if \<not> clean then eff_ret (Some False)
        else eff_seq (create_step K A resolve cfg now clk) (eff_ret None)))))))"

text \<open>The handlers of \<open>runStateMachine\<close>.\<close>

definition session_lost :: "rat \<Rightarrow> ('m, 'c, 'z, bool option) launch_eff" where
  "session_lost now =
     eff_seq (on_node (assign_state FAILED now))
     (eff_bind (get_l ln_state_machine) (\<lambda>m.
      eff_seq (eff_when (m \<noteq> None) use_external_id) (eff_seq drop_scan (eff_ret None))))"

definition over_quota :: "'z kazoo \<Rightarrow> rat \<Rightarrow> ('m, 'c, 'z, bool option) launch_eff" where
  "over_quota K now =
     eff_seq (on_node (assign_state ABORTED now))
     (eff_bind (get_l ln_state_machine) (\<lambda>m.
      eff_seq (eff_when (m \<noteq> None) use_external_id)
      (eff_seq (on_node (storeNode K now))
      (eff_seq (on_provider (eff_mod (\<lambda>p. p\<lparr>p_quota_cache := invalidateQuotaCache (p_quota_cache p)\<rparr>)))
      (eff_seq drop_scan (eff_ret None))))))"

definition notify_keyscan :: "('m, 'c) adapter \<Rightarrow> ('m, 'c, 'z, unit) launch_eff" where
  "notify_keyscan A =
     eff_ignore (eff_bind (eff_read (\<lambda>w. launch_label (lw_l w))) (\<lambda>lb.
       eff_bind (get_l (\<lambda>l. n_external_id (ln_node l))) (\<lambda>x.
         on_provider (on_cloud (eff_seq (ad_notifyNodescanFailure A lb x) (ad_getConsoleLog A lb x))))))"

definition launch_failed ::
  "'z kazoo \<Rightarrow> ('m, 'c) adapter \<Rightarrow> provider_config \<Rightarrow> cached_image cache option \<Rightarrow> rat \<Rightarrow> rat \<Rightarrow> pyexc \<Rightarrow>
     ('m, 'c, 'z, bool option) launch_eff" where
  "launch_failed K A cfg ic now clk e =
     eff_bind (get_l machine_external_id) (\<lambda>x.
     eff_seq (eff_when (truthy x) (eff_seq use_external_id (on_node (storeNode K now))))
     (eff_seq (eff_when (e = LaunchKeyscanException) (notify_keyscan A))
     (eff_seq drop_scan
     (eff_bind (get_l (\<lambda>l. ln_attempts l \<ge> ln_retries l)) (\<lambda>last.
      if last then eff_seq (on_node (assign_state FAILED now)) (eff_ret (Some True))
      else eff_bind (get_l (\<lambda>l. n_external_id (ln_node l))) (\<lambda>x.
        eff_bind (on_provider (on_cloud (ad_getDelete A x clk))) (\<lambda>m.
          eff_seq (set_delete (Some m))
            (eff_seq (launcher_launch K A cfg ic now clk) (eff_ret (Some False)))))))))) "

definition launcher_run ::
  "'z kazoo \<Rightarrow> ('m, 'c) adapter \<Rightarrow> (string \<Rightarrow> pyexc option) \<Rightarrow> provider_config \<Rightarrow> cached_image cache option \<Rightarrow>
     rat \<Rightarrow> rat \<Rightarrow> ('m, 'c, 'z, bool) launch_eff" where
  "launcher_run K A resolve cfg ic now clk =
     eff_bind (eff_try (launch_body K A resolve cfg now clk)
         (\<lambda>e. if e = SessionExpiredError then session_lost now
              else if e = QuotaException then over_quota K now
              else launch_failed K A cfg ic now clk e))
       (\<lambda>ret. case ret of Some b \<Rightarrow> eff_ret b | None \<Rightarrow> get_l launcher_complete)"

subsection \<open>The loop over the launchers\<close>

text \<open>
  One pass of \<open>_runStateMachines\<close>: an exception is logged, and the launchers complete after a call
  that returned are removed.
\<close>

definition run_launcher ::
  "'z kazoo \<Rightarrow> ('m, 'c) adapter \<Rightarrow> (string \<Rightarrow> pyexc option) \<Rightarrow> provider_config \<Rightarrow> cached_image cache option \<Rightarrow>
     rat \<Rightarrow> rat \<Rightarrow> nat \<Rightarrow> ('m, 'c) provider \<times> 'z \<Rightarrow> bool \<times> ('m, 'c) provider \<times> 'z" where
  "run_launcher K A resolve cfg ic now clk i s =
     (case p_objs (fst s) i of
        None \<Rightarrow> (False, s)
      | Some l \<Rightarrow>
          (case launcher_run K A resolve cfg ic now clk \<lparr> lw_l = l, lw_p = fst s, lw_zk = snd s \<rparr> of
             (r, w) \<Rightarrow> ((case r of Inl e \<Rightarrow> False | Inr b \<Rightarrow> launcher_complete (lw_l w)),
                        (lw_p w)\<lparr>p_objs := (p_objs (lw_p w))(i \<mapsto> lw_l w)\<rparr>, lw_zk w)))"

fun run_launchers ::
  "'z kazoo \<Rightarrow> ('m, 'c) adapter \<Rightarrow> (string \<Rightarrow> pyexc option) \<Rightarrow> provider_config \<Rightarrow> cached_image cache option \<Rightarrow>
     (nat \<Rightarrow> rat \<times> rat) \<Rightarrow> nat list \<Rightarrow> ('m, 'c) provider \<times> 'z \<Rightarrow> nat list \<times> ('m, 'c) provider \<times> 'z" where
  "run_launchers K A resolve cfg ic clock [] s = ([], s)"
| "run_launchers K A resolve cfg ic clock (i # is') s =
     (case run_launcher K A resolve cfg ic (fst (clock i)) (snd (clock i)) i s of
        (remove, s') \<Rightarrow>
          (case run_launchers K A resolve cfg ic clock is' s' of
             (keep, s'') \<Rightarrow> ((if remove then keep else i # keep), s'')))"

definition runCreateStateMachines ::
  "'z kazoo \<Rightarrow> ('m, 'c) adapter \<Rightarrow> (string \<Rightarrow> pyexc option) \<Rightarrow> provider_config \<Rightarrow> cached_image cache option \<Rightarrow>
     (nat \<Rightarrow> rat \<times> rat) \<Rightarrow> ('m, 'c) provider \<Rightarrow> 'z \<Rightarrow> ('m, 'c) provider \<times> 'z" where
  "runCreateStateMachines K A resolve cfg ic clock p z =
     (case run_launchers K A resolve cfg ic clock (p_launchers p) (p, z) of
        (keep, p', z') \<Rightarrow> (p'\<lparr>p_launchers := keep\<rparr>, z'))"

end
