(* ===== verification/SmHandler.thy ===== *)
theory SmHandler
  imports SmLauncher
begin

section \<open>The request handler of the state machine driver\<close>

text \<open>
  \<open>StateMachineHandler\<close> of \<open>nodepool/driver/statemachine.py\<close>: the checks of images and quota, the
  choice of an availability zone and the start of launchers, as an instance of the interface
  \<open>driver\<close> of the request handler. The random choice of a zone is a parameter.
\<close>

record ('m, 'c) sm_handler =
  sh_provider :: "('m, 'c) provider"
  sh_chosen_az :: json
  sh_launchers :: "nat list"
  sh_request :: node_request

definition set_provider :: "('m, 'c) provider \<Rightarrow> ('m, 'c) sm_handler \<Rightarrow> ('m, 'c) sm_handler" where
  "set_provider p s = s\<lparr>sh_provider := p\<rparr>"

abbreviation on_manager :: "(('m, 'c) provider, 'a) eff \<Rightarrow> (('m, 'c) sm_handler, 'a) eff" where
  "on_manager \<equiv> eff_zoom sh_provider set_provider"

definition sm_handler_init :: "('m, 'c) provider \<Rightarrow> node_request \<Rightarrow> ('m, 'c) sm_handler" where
  "sm_handler_init p r = \<lparr> sh_provider = p, sh_chosen_az = JNull, sh_launchers = [], sh_request = r \<rparr>"

definition launchers_of :: "('m, 'c) sm_handler \<Rightarrow> 'm launcher list" where
  "launchers_of s = map the (filter (\<lambda>l. l \<noteq> None) (map (p_objs (sh_provider s)) (sh_launchers s)))"

text \<open>As the code has it: the launchers that are complete.\<close>

definition alive_thread_count :: "('m, 'c) sm_handler \<Rightarrow> nat" where
  "alive_thread_count s = length (filter launcher_complete (launchers_of s))"

definition launchesComplete :: "('m, 'c) sm_handler \<Rightarrow> bool" where
  "launchesComplete s = list_all launcher_complete (launchers_of s)"

subsection \<open>Images\<close>

definition imageAvailable ::
  "'z kazoo \<Rightarrow> ('m, 'c) adapter \<Rightarrow> provider_config \<Rightarrow> pool_config \<Rightarrow> rat \<Rightarrow> 'z zk_view \<Rightarrow>
     'c \<Rightarrow> string \<Rightarrow> bool res" where
  "imageAvailable K A cfg pool now v c label =
     (case map_of (pc_labels pool) label of
        None \<Rightarrow> Inl KeyError
      | Some lb \<Rightarrow>
          if lc_cloud_image lb \<noteq> None then ad_labelReady A lb c
          else (case lc_diskimage lb of
                  None \<Rightarrow> Inl AttributeError
                | Some d \<Rightarrow> map_sum id (\<lambda>u. u \<noteq> None)
                             (recent_upload K (v_images v) d (pr_name cfg) now (v_zk v))))"

fun all_available :: "(string \<Rightarrow> bool res) \<Rightarrow> string list \<Rightarrow> bool res" where
  "all_available f [] = Inr True"
| "all_available f (t # ts) = bindE (f t) (\<lambda>ok. if ok then all_available f ts else Inr False)"

definition imagesAvailable ::
  "'z kazoo \<Rightarrow> ('m, 'c) adapter \<Rightarrow> provider_config \<Rightarrow> pool_config \<Rightarrow> string list \<Rightarrow> rat \<Rightarrow> 'z zk_view \<Rightarrow>
     ('m, 'c) sm_handler \<Rightarrow> bool res" where
  "imagesAvailable K A cfg pool types now v s =
     all_available (imageAvailable K A cfg pool now v (p_cloud (sh_provider s))) types"

subsection \<open>Quota\<close>

text \<open>
  The keyword arguments of the pool's quota: the limits of the pool, then its \<open>max_resources\<close>, which
  override them. \<open>volume_gb\<close> is the name given to the limit of the volume size.
\<close>

definition limit_set :: "num option \<Rightarrow> bool" where
  "limit_set x = (x \<noteq> None \<and> x \<noteq> Some (Fin 0))"

definition pool_args :: "string \<Rightarrow> pool_config \<Rightarrow> (string \<times> num option) list" where
  "pool_args volume_gb pool =
     foldl (\<lambda>d (k, v). AList.update k (Some v) d)
       ([(''cores'', pc_max_cores pool), (''instances'', Some (pc_max_servers pool)),
         (''ram'', pc_max_ram pool), (''default'', Some PosInf)]
        @ (if limit_set (pc_max_volumes pool) then [(''volumes'', pc_max_volumes pool)] else [])
        @ (if limit_set (pc_max_volume_gb pool) then [(volume_gb, pc_max_volume_gb pool)] else []))
       (pc_max_resources pool)"

definition quota_of_args :: "(string \<times> num option) list \<Rightarrow> quota" where
  "quota_of_args args =
     (let arg = (\<lambda>k. Option.bind (map_of args k) id)
      in quota_init (arg ''cores'') (arg ''instances'') (arg ''ram'')
           (case arg ''default'' of None \<Rightarrow> Fin 0 | Some d \<Rightarrow> d)
           (map (\<lambda>(k, v). (k, case v of None \<Rightarrow> QOther JNull | Some x \<Rightarrow> QNum x))
              (filter (\<lambda>(k, v). k \<notin> {''cores'', ''instances'', ''ram'', ''default''}) args)))"

definition lift_quota :: "pyexc option \<times> quota \<Rightarrow> quota res" where
  "lift_quota r = (case r of (Some e, q) \<Rightarrow> Inl e | (None, q) \<Rightarrow> Inr q)"

text \<open>The quota of a list of types together.\<close>

definition needed_quota ::
  "('m, 'c) adapter \<Rightarrow> pool_config \<Rightarrow> string list \<Rightarrow> (('m, 'c) sm_handler, quota) eff" where
  "needed_quota A pool types =
     eff_fold (\<lambda>t acc. eff_bind (on_manager (quotaNeededByLabel A t pool)) (\<lambda>q.
                 eff_lift (lift_quota (quota_add q acc)))) types no_quota"

definition hasProviderQuota ::
  "'z kazoo \<Rightarrow> ('m, 'c) adapter \<Rightarrow> provider_config \<Rightarrow> pool_config \<Rightarrow> string list \<Rightarrow> rat \<Rightarrow> 'z zk_view \<Rightarrow>
     (('m, 'c) sm_handler, bool) eff" where
  "hasProviderQuota K A cfg pool types now v =
     eff_bind (needed_quota A pool types) (\<lambda>needed.
     eff_bind (if pc_ignore_provider_quota pool then eff_ret True
               else eff_bind (on_manager (nodepoolQuota K A cfg now v)) (\<lambda>cloud.
                      eff_lift (bindE (lift_quota (quota_subtract needed cloud)) non_negative))) (\<lambda>ok.
     if \<not> ok then eff_ret False
     else eff_lift (bindE (lift_quota (quota_subtract needed (quota_of_args (pool_args ''volume_gb'' pool))))
                     non_negative)))"

definition hasRemainingQuota ::
  "'z kazoo \<Rightarrow> ('m, 'c) adapter \<Rightarrow> provider_config \<Rightarrow> pool_config \<Rightarrow> string \<Rightarrow> rat \<Rightarrow> 'z zk_view \<Rightarrow>
     (('m, 'c) sm_handler, bool) eff" where
  "hasRemainingQuota K A cfg pool ntype now v =
     eff_bind (on_manager (quotaNeededByLabel A ntype pool)) (\<lambda>needed.
     eff_bind (if pc_ignore_provider_quota pool then eff_ret True
               else eff_bind (on_manager (nodepoolQuota K A cfg now v)) (\<lambda>cloud.
                    eff_bind (on_manager (quotaUsed K A cfg None now v)) (\<lambda>used.
                      eff_lift (bindE (lift_quota (quota_subtract used cloud)) (\<lambda>q.
                        bindE (lift_quota (quota_subtract needed q)) non_negative))))) (\<lambda>ok.
     if \<not> ok then eff_ret False
     else eff_bind (on_manager (quotaUsed K A cfg (Some (pc_name pool)) now v)) (\<lambda>used.
            eff_lift (bindE (lift_quota (quota_subtract used (quota_of_args (pool_args ''volume-gb'' pool)))) (\<lambda>q.
              bindE (lift_quota (quota_subtract needed q)) non_negative)))))"

subsection \<open>Availability zones\<close>

definition checkReusableNode :: "node \<Rightarrow> ('m, 'c) sm_handler \<Rightarrow> bool" where
  "checkReusableNode n s = (\<not> (truthy (sh_chosen_az s) \<and> n_az n \<noteq> sh_chosen_az s))"

definition nodeReusedNotification :: "node \<Rightarrow> ('m, 'c) sm_handler \<Rightarrow> ('m, 'c) sm_handler" where
  "nodeReusedNotification n s =
     (if \<not> truthy (sh_chosen_az s) \<and> truthy (n_az n) then s\<lparr>sh_chosen_az := n_az n\<rparr> else s)"

definition setNodeMetadata ::
  "(json list \<Rightarrow> json) \<Rightarrow> ('m, 'c) adapter \<Rightarrow> pool_config \<Rightarrow> node \<Rightarrow> ('m, 'c) sm_handler \<Rightarrow>
     ('m, 'c) sm_handler res" where
  "setNodeMetadata choice A pool n s =
     (if truthy (sh_chosen_az s) then Inr s
      else bindE (if pc_azs pool \<noteq> [] then Inr (map JStr (pc_azs pool))
                  else ad_getAZs A (p_cloud (sh_provider s)))
             (\<lambda>azs. if azs = [] then Inl IndexError else Inr (s\<lparr>sh_chosen_az := choice azs\<rparr>)))"

subsection \<open>Launching\<close>

text \<open>
  \<open>launch\<close>: a new launcher, its first attempt handed to the thread pool, listed by the handler and by
  the provider.
\<close>

definition launch_node ::
  "provider_config \<Rightarrow> pool_config \<Rightarrow> node \<Rightarrow> ('m, 'c) sm_handler \<Rightarrow> ('m, 'c) sm_handler" where
  "launch_node cfg pool n s =
     (let p = sh_provider s; i = p_next p;
          l = (launcher_init n pool (sh_request s) (sh_chosen_az s) (pr_launch_retries cfg))
                \<lparr>ln_attempts := 1, ln_start_future := Some Pending\<rparr>
      in s\<lparr> sh_launchers := sh_launchers s @ [i],
            sh_provider := p\<lparr> p_objs := (p_objs p)(i \<mapsto> l), p_next := Suc i,
                              p_launchers := p_launchers p @ [i] \<rparr> \<rparr>)"

lemma launch_node_launches:
  "launcher_launch K A cfg ic now clk \<lparr> lw_l = launcher_init n pool r az k, lw_p = p, lw_zk = z \<rparr> =
     (Inr (), \<lparr> lw_l = (launcher_init n pool r az k)\<lparr>ln_attempts := 1, ln_start_future := Some Pending\<rparr>,
                lw_p = p, lw_zk = z \<rparr>)"
  by (simp add: launcher_launch_def upd_l_def get_l_def eff_simps eff_bind_def launcher_init_def)

definition sm_driver ::
  "'z kazoo \<Rightarrow> ('m, 'c) adapter \<Rightarrow> (json list \<Rightarrow> json) \<Rightarrow> provider_config \<Rightarrow> pool_config \<Rightarrow>
     (('m, 'c) sm_handler, 'z) driver" where
  "sm_driver K A choice cfg pool =
     \<lparr> dr_imagesAvailable = imagesAvailable K A cfg pool,
       dr_hasProviderQuota = hasProviderQuota K A cfg pool,
       dr_hasRemainingQuota = hasRemainingQuota K A cfg pool,
       dr_checkReusableNode = checkReusableNode,
       dr_nodeReused = nodeReusedNotification,
       dr_setNodeMetadata = setNodeMetadata choice A pool,
       dr_launch = (\<lambda>n s z. (None, n, launch_node cfg pool n s, z)),
       dr_launchesComplete = (\<lambda>ns s. launchesComplete s),
       dr_errorLabels = (\<lambda>s. p_error_labels (sh_provider s)) \<rparr>"

text \<open>
  The nodes of a handler are the objects its launchers work on: before a poll, the node set has the
  nodes as the launchers have them now.
\<close>

definition launched_node :: "('m, 'c) sm_handler \<Rightarrow> node \<Rightarrow> node" where
  "launched_node s n =
     (case List.find (\<lambda>l. o_id (ln_node l) = o_id n) (launchers_of s) of
        None \<Rightarrow> n | Some l \<Rightarrow> ln_node l)"

definition refresh_nodes ::
  "(('m, 'c) sm_handler, 'z) handler_state \<Rightarrow> (('m, 'c) sm_handler, 'z) handler_state" where
  "refresh_nodes h = h\<lparr>h_nodeset := map (launched_node (h_drv h)) (h_nodeset h)\<rparr>"

definition sm_poll ::
  "'z kazoo \<Rightarrow> 'z locks \<Rightarrow> ('m, 'c) adapter \<Rightarrow> (json list \<Rightarrow> json) \<Rightarrow> provider_config \<Rightarrow> pool_config \<Rightarrow>
     handler_config \<Rightarrow> rat \<Rightarrow> (('m, 'c) sm_handler, 'z) handler_state \<Rightarrow>
     bool res \<times> (('m, 'c) sm_handler, 'z) handler_state" where
  "sm_poll K L A choice cfg pool hc now h =
     handler_poll K L (sm_driver K A choice cfg pool) hc now (refresh_nodes h)"

end
