(* ===== verification/Config.thy ===== *)
theory Config
  imports Quota
begin

section \<open>The configuration\<close>

text \<open>
  \<open>nodepool/config.py\<close>: the configuration object, the disk images with their inheritance, the labels
  and providers, the substitution of environment variables, reading the file and the check whether
  the object is still recent. A configuration file is the JSON-like value its YAML text stands for;
  the names in it are strings. The file system is the outcome of each attempt to open a file and the
  modification time of a path; the parser of YAML, the recognition of IPv6 literals and the drivers
  are parameters.
\<close>

subsection \<open>Values of the file\<close>

definition key_of :: "pydict \<Rightarrow> string \<Rightarrow> json res" where
  "key_of d k = (case map_of d k of None \<Rightarrow> Inl KeyError | Some v \<Rightarrow> Inr v)"

fun name_of :: "json \<Rightarrow> string res" where
  "name_of (JStr s) = Inr s"
| "name_of _ = Inl TypeError"

fun names_of :: "json list \<Rightarrow> string list res" where
  "names_of [] = Inr []"
| "names_of (x # xs) = bindE (name_of x) (\<lambda>s. bindE (names_of xs) (\<lambda>ss. Inr (s # ss)))"

text \<open>Iteration: a list's elements, a string's characters, a dictionary's keys.\<close>

fun py_iter :: "json \<Rightarrow> json list res" where
  "py_iter (JList xs) = Inr xs"
| "py_iter (JStr s) = Inr (map (\<lambda>c. JStr [c]) s)"
| "py_iter (JDict d) = Inr (map (\<lambda>p. JStr (fst p)) d)"
| "py_iter _ = Inl TypeError"

fun dict_of :: "json \<Rightarrow> pydict res" where
  "dict_of (JDict d) = Inr d"
| "dict_of _ = Inl TypeError"

fun dicts_of :: "json list \<Rightarrow> pydict list res" where
  "dicts_of [] = Inr []"
| "dicts_of (x # xs) = bindE (dict_of x) (\<lambda>d. bindE (dicts_of xs) (\<lambda>ds. Inr (d # ds)))"

text \<open>\<open>d.update(e)\<close>.\<close>

definition dict_update :: "('k \<times> 'v) list \<Rightarrow> ('k \<times> 'v) list \<Rightarrow> ('k \<times> 'v) list" where
  "dict_update d e = fold (\<lambda>(k, v) acc. AList.update k v acc) e d"

text \<open>\<open>s.replace(old, new)\<close> for a non-empty \<open>old\<close>.\<close>

function py_replace :: "string \<Rightarrow> string \<Rightarrow> string \<Rightarrow> string" where
  "py_replace old new [] = []"
| "py_replace old new (c # cs) =
     (if old \<noteq> [] \<and> startswith (c # cs) old
      then new @ py_replace old new (drop (length old - 1) cs)
      else c # py_replace old new cs)"
  by pat_completeness auto
termination by (relation "measure (\<lambda>(old, new, s). length s)") auto

text \<open>\<open>str(v)\<close> of what a release may be: a string, an integer, a boolean or nothing.\<close>

definition int_str :: "int \<Rightarrow> string" where
  "int_str i = (if i < 0 then CHR ''-'' # decimal (nat (- i)) else decimal (nat i))"

fun str_of :: "json \<Rightarrow> string res" where
  "str_of (JStr s) = Inr s"
| "str_of (JNum q) = (if of_int \<lfloor>q\<rfloor> = q then Inr (int_str \<lfloor>q\<rfloor>) else Inl (OtherError ''not modelled''))"
| "str_of (JBool b) = Inr (if b then ''True'' else ''False'')"
| "str_of JNull = Inr ''None''"
| "str_of _ = Inl (OtherError ''not modelled'')"

subsection \<open>Disk images\<close>

record disk_image =
  dk_name :: string
  dk_build_timeout :: json
  dk_dib_cmd :: json
  dk_elements :: "json list"
  dk_elements_str :: string          \<comment> \<open>the joined elements\<close>
  dk_env_vars :: pydict
  dk_image_types :: "string list"    \<comment> \<open>a set\<close>
  dk_delete_after_upload :: json
  dk_keep_image_types :: "string list"
  dk_pause :: json
  dk_python_path :: json
  dk_shell_type :: json
  dk_rebuild_age :: json
  dk_release :: json
  dk_username :: json
  dk_meta :: json

definition BUILD_TIMEOUT :: rat where "BUILD_TIMEOUT = 8 * 60 * 60"
definition REBUILD_AGE :: rat where "REBUILD_AGE = 24 * 60 * 60"

definition disk_image_init :: "string \<Rightarrow> disk_image" where
  "disk_image_init name =
     \<lparr> dk_name = name, dk_build_timeout = JNum BUILD_TIMEOUT,
       dk_dib_cmd = JStr ''disk-image-create'', dk_elements = [], dk_elements_str = '''',
       dk_env_vars = [], dk_image_types = [], dk_delete_after_upload = JBool False,
       dk_keep_image_types = [], dk_pause = JBool False, dk_python_path = JStr ''auto'',
       dk_shell_type = JNull, dk_rebuild_age = JNum REBUILD_AGE, dk_release = JStr '''',
       dk_username = JStr ''zuul'', dk_meta = JDict [] \<rparr>"

text \<open>A value that is set only when the configuration has a true one.\<close>

definition or_old :: "pydict \<Rightarrow> string \<Rightarrow> json \<Rightarrow> json" where
  "or_old cfg k old = (if truthy (dget cfg k) then dget cfg k else old)"

definition set_of :: "pydict \<Rightarrow> string \<Rightarrow> string list \<Rightarrow> string list res" where
  "set_of cfg k old =
     (if \<not> truthy (dget cfg k) then Inr old
      else bindE (py_iter (dget cfg k)) (\<lambda>xs. map_sum id remdups (names_of xs)))"

definition setFromConfig :: "pydict \<Rightarrow> disk_image \<Rightarrow> disk_image res" where
  "setFromConfig cfg d =
     bindE (py_iter (dget_or cfg ''elements'' (JList []))) (\<lambda>elements.
     bindE (dict_of (dget_or cfg ''env-vars'' (JDict []))) (\<lambda>env_vars.
     bindE (set_of cfg ''formats'' (dk_image_types d)) (\<lambda>image_types.
     bindE (set_of cfg ''keep-formats'' (dk_keep_image_types d)) (\<lambda>keep_types.
       Inr (d\<lparr> dk_build_timeout := or_old cfg ''build-timeout'' (dk_build_timeout d),
               dk_dib_cmd := or_old cfg ''dib-cmd'' (dk_dib_cmd d),
               dk_elements := dk_elements d @ elements,
               dk_env_vars := dict_update (dk_env_vars d) env_vars,
               dk_image_types := image_types,
               dk_keep_image_types := keep_types,
               dk_delete_after_upload :=
                 (if dget cfg ''delete-after-upload'' \<noteq> JNull then dget cfg ''delete-after-upload''
                  else dk_delete_after_upload d),
               dk_pause := or_old cfg ''pause'' (dk_pause d),
               dk_python_path := or_old cfg ''python-path'' (dk_python_path d),
               dk_shell_type := or_old cfg ''shell-type'' (dk_shell_type d),
               dk_rebuild_age := or_old cfg ''rebuild-age'' (dk_rebuild_age d),
               dk_release := or_old cfg ''release'' (dk_release d),
               dk_username := or_old cfg ''username'' (dk_username d),
               dk_meta := dget_or cfg ''metadata'' (JDict []) \<rparr>)))))"

text \<open>
  The parents are merged from the root down. The recursion follows the \<open>parent\<close> keys; a cycle among
  them ends in Python's \<open>RecursionError\<close>, here when the fuel (the recursion limit) is used up.
\<close>

fun merge_image_cfg ::
  "nat \<Rightarrow> (string \<times> pydict) list \<Rightarrow> disk_image \<Rightarrow> string \<Rightarrow> disk_image res" where
  "merge_image_cfg 0 all_diskimages d parent = Inl (OtherError ''RecursionError'')"
| "merge_image_cfg (Suc n) all_diskimages d parent =
     (case map_of all_diskimages parent of
        None \<Rightarrow> Inl KeyError
      | Some parent_cfg \<Rightarrow>
          bindE (if truthy (dget parent_cfg ''parent'')
                 then bindE (name_of (dget parent_cfg ''parent'')) (merge_image_cfg n all_diskimages d)
                 else Inr d)
            (setFromConfig parent_cfg))"

definition load_image ::
  "nat \<Rightarrow> (string \<times> pydict) list \<Rightarrow> pydict \<Rightarrow> disk_image res" where
  "load_image limit all_diskimages cfg =
     bindE (bindE (key_of cfg ''name'') name_of) (\<lambda>name.
     bindE (if truthy (dget cfg ''parent'')
            then bindE (name_of (dget cfg ''parent''))
                   (merge_image_cfg limit all_diskimages (disk_image_init name))
            else Inr (disk_image_init name)) (\<lambda>d.
     bindE (setFromConfig cfg d) (\<lambda>d1.
     bindE (str_of (dk_release d1)) (\<lambda>release.
     bindE (names_of (dk_elements d1)) (\<lambda>elements.
       Inr (d1\<lparr> dk_release := JStr release, dk_elements_str := py_join '' '' elements \<rparr>))))))"

definition all_disk_images :: "pydict list \<Rightarrow> (string \<times> pydict) list res" where
  "all_disk_images cfgs =
     foldE (\<lambda>cfg acc. bindE (bindE (key_of cfg ''name'') name_of) (\<lambda>name. Inr (AList.update name cfg acc)))
       cfgs []"

definition setDiskImages ::
  "nat \<Rightarrow> pydict list \<Rightarrow> (string \<times> disk_image) list \<Rightarrow> (string \<times> disk_image) list res" where
  "setDiskImages limit cfgs old =
     bindE (all_disk_images cfgs) (\<lambda>all_diskimages.
       foldE (\<lambda>cfg acc. bindE (load_image limit all_diskimages cfg) (\<lambda>d.
           Inr (AList.update (dk_name d) d acc)))
         (filter (\<lambda>cfg. \<not> truthy (dget_or cfg ''abstract'' (JBool False))) cfgs) old)"

definition secure_env ::
  "pydict \<Rightarrow> (string \<times> disk_image) list \<Rightarrow> (string \<times> disk_image) list res" where
  "secure_env cfg images =
     bindE (bindE (key_of cfg ''name'') name_of) (\<lambda>name.
     case map_of images name of
       None \<Rightarrow> Inl GenericException
     | Some d \<Rightarrow> bindE (bindE (key_of cfg ''env-vars'') dict_of) (\<lambda>env_vars.
         Inr (AList.update name (d\<lparr>dk_env_vars := dict_update (dk_env_vars d) env_vars\<rparr>) images)))"

definition setSecureDiskimageEnv ::
  "pydict list \<Rightarrow> (string \<times> disk_image) list \<Rightarrow> (string \<times> disk_image) list res" where
  "setSecureDiskimageEnv = foldE secure_env"

text \<open>Equality of disk images: the attributes \<open>__eq__\<close> compares.\<close>

definition disk_image_eq :: "disk_image \<Rightarrow> disk_image \<Rightarrow> bool" where
  "disk_image_eq a b \<longleftrightarrow>
     dk_name a = dk_name b \<and> dk_build_timeout a = dk_build_timeout b \<and>
     dk_dib_cmd a = dk_dib_cmd b \<and> dk_elements_str a = dk_elements_str b \<and>
     map_of (dk_env_vars a) = map_of (dk_env_vars b) \<and>
     set (dk_image_types a) = set (dk_image_types b) \<and> dk_pause a = dk_pause b \<and>
     dk_python_path a = dk_python_path b \<and> dk_shell_type a = dk_shell_type b \<and>
     dk_rebuild_age a = dk_rebuild_age b \<and> dk_release a = dk_release b \<and>
     dk_username a = dk_username b \<and> dk_meta a = dk_meta b"

subsection \<open>The configuration object\<close>

datatype zk_servers = NoServers | Hosts string   \<comment> \<open>\<open>{}\<close> at first, a host string once set\<close>

record label_record =
  lr_name :: string
  lr_max_ready_age :: json
  lr_min_ready :: json
  lr_pools :: "string list"

record 'p nodepool_config =
  cf_diskimages :: "(string \<times> disk_image) list"
  cf_labels :: "(string \<times> label_record) list"
  cf_providers :: "(string \<times> 'p) list"
  cf_zookeeper_servers :: zk_servers
  cf_zookeeper_timeout :: rat
  cf_tls_cert :: json
  cf_tls_key :: json
  cf_tls_ca :: json
  cf_elements_dir :: json
  cf_images_dir :: json
  cf_build_log_dir :: json
  cf_build_log_retention :: json
  cf_max_hold_age :: "num option"
  cf_webapp :: "pydict option"
  cf_tenant_limits :: "(string \<times> (string \<times> num) list) list"
  cf_mtimes :: "(string \<times> int) list"

definition config_init :: "'p nodepool_config" where
  "config_init =
     \<lparr> cf_diskimages = [], cf_labels = [], cf_providers = [], cf_zookeeper_servers = NoServers,
       cf_zookeeper_timeout = 10, cf_tls_cert = JNull, cf_tls_key = JNull, cf_tls_ca = JNull,
       cf_elements_dir = JNull, cf_images_dir = JNull, cf_build_log_dir = JNull,
       cf_build_log_retention = JNull, cf_max_hold_age = None, cf_webapp = None,
       cf_tenant_limits = [], cf_mtimes = [] \<rparr>"

definition setConfigPathMtime :: "string \<Rightarrow> int \<Rightarrow> 'p nodepool_config \<Rightarrow> 'p nodepool_config" where
  "setConfigPathMtime path t c = c\<lparr>cf_mtimes := AList.update path t (cf_mtimes c)\<rparr>"

definition setBuildLog :: "json \<Rightarrow> json \<Rightarrow> 'p nodepool_config \<Rightarrow> 'p nodepool_config" where
  "setBuildLog directory retention c =
     c\<lparr> cf_build_log_dir := directory,
        cf_build_log_retention := (if retention = JNull then JNum 7 else retention) \<rparr>"

definition setMaxHoldAge :: "json \<Rightarrow> 'p nodepool_config \<Rightarrow> 'p nodepool_config res" where
  "setMaxHoldAge v c =
     map_sum id (\<lambda>age. c\<lparr>cf_max_hold_age := Some age\<rparr>)
       (if v = JNull then Inr PosInf
        else bindE (num_of v) (\<lambda>q. Inr (if q \<le> 0 then PosInf else Fin q)))"

definition setWebApp :: "json \<Rightarrow> 'p nodepool_config \<Rightarrow> 'p nodepool_config res" where
  "setWebApp v c =
     bindE (if v = JNull then Inr [] else dict_of v) (\<lambda>w.
       Inr (c\<lparr>cf_webapp := Some [(''port'', dget_or w ''port'' (JNum 8005)),
                (''listen_address'', dget_or w ''listen_address'' (JStr ''0.0.0.0''))]\<rparr>))"

definition setZooKeeperTLS :: "json \<Rightarrow> 'p nodepool_config \<Rightarrow> 'p nodepool_config res" where
  "setZooKeeperTLS v c =
     (if \<not> truthy v then Inr c
      else bindE (dict_of v) (\<lambda>t.
        Inr (c\<lparr> cf_tls_cert := dget t ''cert'', cf_tls_key := dget t ''key'',
                cf_tls_ca := dget t ''ca'' \<rparr>)))"

text \<open>\<open>ipv6\<close> is the text of the address when the host is an IPv6 literal.\<close>

record zk_server_config =
  zs_host :: string
  zs_port :: json
  zs_chroot :: string

definition buildZooKeeperHosts ::
  "(string \<Rightarrow> string option) \<Rightarrow> zk_server_config list \<Rightarrow> string res" where
  "buildZooKeeperHosts ipv6 host_list =
     map_sum id (py_join '','')
       (foldE (\<lambda>h acc. bindE (str_of (zs_port h)) (\<lambda>port.
           Inr (acc @ [(case ipv6 (zs_host h) of None \<Rightarrow> zs_host h | Some a \<Rightarrow> ''['' @ a @ '']'') @
                       '':'' @ port @ zs_chroot h]))) host_list [])"

definition zk_server_config :: "pydict \<Rightarrow> zk_server_config res" where
  "zk_server_config server =
     bindE (bindE (key_of server ''host'') name_of) (\<lambda>host.
     bindE (if truthy (dget server ''chroot'') then name_of (dget server ''chroot'') else Inr '''') (\<lambda>chroot.
       Inr \<lparr> zs_host = host, zs_port = dget_or server ''port'' (JNum 2281), zs_chroot = chroot \<rparr>))"

definition setZooKeeperServers ::
  "(string \<Rightarrow> string option) \<Rightarrow> json \<Rightarrow> 'p nodepool_config \<Rightarrow> 'p nodepool_config res" where
  "setZooKeeperServers ipv6 v c =
     (if \<not> truthy v then Inr c
      else bindE (bindE (py_iter v) dicts_of) (\<lambda>servers.
        bindE (foldE (\<lambda>s acc. bindE (zk_server_config s) (\<lambda>z. Inr (acc @ [z]))) servers []) (\<lambda>hosts.
          map_sum id (\<lambda>t. c\<lparr>cf_zookeeper_servers := Hosts t\<rparr>) (buildZooKeeperHosts ipv6 hosts))))"

definition label_of :: "pydict \<Rightarrow> label_record res" where
  "label_of label =
     bindE (bindE (key_of label ''name'') name_of) (\<lambda>name.
       Inr \<lparr> lr_name = name, lr_max_ready_age = dget_or label ''max-ready-age'' (JNum 0),
             lr_min_ready = dget_or label ''min-ready'' (JNum 0), lr_pools = [] \<rparr>)"

definition setLabels :: "json \<Rightarrow> 'p nodepool_config \<Rightarrow> 'p nodepool_config res" where
  "setLabels v c =
     (if \<not> truthy v then Inr c
      else bindE (bindE (py_iter v) dicts_of) (\<lambda>labels.
        map_sum id (\<lambda>ls. c\<lparr>cf_labels := ls\<rparr>)
          (foldE (\<lambda>l acc. bindE (label_of l) (\<lambda>r. Inr (AList.update (lr_name r) r acc)))
             labels (cf_labels c))))"

text \<open>
  The providers: a driver reads its provider's section, and may add its pools to the labels and its
  formats to the disk images of the configuration.
\<close>

type_synonym 'p drivers =
  "(string \<times> (pydict \<Rightarrow> 'p nodepool_config \<Rightarrow> ((string \<times> 'p) \<times> 'p nodepool_config) res)) list"

definition get_driver :: "'p drivers \<Rightarrow> string \<Rightarrow>
    (pydict \<Rightarrow> 'p nodepool_config \<Rightarrow> ((string \<times> 'p) \<times> 'p nodepool_config) res) res" where
  "get_driver drivers name =
     (case map_of drivers name of None \<Rightarrow> Inl RuntimeError | Some f \<Rightarrow> Inr f)"

definition provider_driver :: "pydict \<Rightarrow> pydict res" where
  "provider_driver provider =
     (let p1 = setdefault ''driver'' (JStr ''openstack'') provider in
      bindE (name_of (dget_or p1 ''name'' (JStr ''''))) (\<lambda>name.
        Inr (if startswith name ''fake'' then AList.update ''driver'' (JStr ''fake'') p1 else p1)))"

definition setProviders ::
  "'p drivers \<Rightarrow> json \<Rightarrow> 'p nodepool_config \<Rightarrow> 'p nodepool_config res" where
  "setProviders drivers v c =
     (if \<not> truthy v then Inr c
      else bindE (bindE (py_iter v) dicts_of) (\<lambda>providers.
        foldE (\<lambda>p c1.
          bindE (provider_driver p) (\<lambda>p1.
          bindE (bindE (key_of p1 ''driver'') name_of) (\<lambda>dn.
          bindE (get_driver drivers dn) (\<lambda>load.
          bindE (load p1 c1) (\<lambda>((name, pc), c2).
            Inr (c2\<lparr>cf_providers := AList.update name pc (cf_providers c2)\<rparr>))))))
          providers c))"

definition limit_of :: "json \<Rightarrow> num res" where
  "limit_of v = bindE (num_of v) (\<lambda>q. Inr (Fin q))"

definition pop_limit :: "pydict \<Rightarrow> string \<Rightarrow> num res" where
  "pop_limit d k = (case map_of d k of None \<Rightarrow> Inr PosInf | Some v \<Rightarrow> limit_of v)"

definition limit_keys :: "string list" where
  "limit_keys = [''tenant-name'', ''max-cores'', ''max-servers'', ''max-ram'', ''max-volumes'', ''max-volume-gb'']"

definition optional_limit ::
  "pydict \<Rightarrow> string \<Rightarrow> string \<Rightarrow> (string \<times> num) list \<Rightarrow> (string \<times> num) list res" where
  "optional_limit d k name limits =
     (if dhas d k then bindE (pop_limit d k) (\<lambda>v. Inr (AList.update name v limits)) else Inr limits)"

definition tenant_limit :: "pydict \<Rightarrow> (string \<times> (string \<times> num) list) res" where
  "tenant_limit limit =
     bindE (bindE (key_of limit ''tenant-name'') name_of) (\<lambda>tenant.
     bindE (pop_limit limit ''max-cores'') (\<lambda>cores.
     bindE (pop_limit limit ''max-servers'') (\<lambda>servers.
     bindE (pop_limit limit ''max-ram'') (\<lambda>ram.
     bindE (optional_limit limit ''max-volumes'' ''volumes''
              [(''cores'', cores), (''instances'', servers), (''ram'', ram)]) (\<lambda>l1.
     bindE (optional_limit limit ''max-volume-gb'' ''volume-gb'' l1) (\<lambda>l2.
     bindE (foldE (\<lambda>(k, v) l. bindE (limit_of v) (\<lambda>q. Inr (AList.update k q l)))
              (filter (\<lambda>(k, v). k \<notin> set limit_keys) limit) l2) (\<lambda>limits.
       Inr (tenant, limits))))))))"

definition setTenantResourceLimits :: "json \<Rightarrow> 'p nodepool_config \<Rightarrow> 'p nodepool_config res" where
  "setTenantResourceLimits v c =
     (if \<not> truthy v then Inr c
      else bindE (bindE (py_iter v) dicts_of) (\<lambda>limits.
        map_sum id (\<lambda>ls. c\<lparr>cf_tenant_limits := ls\<rparr>)
          (foldE (\<lambda>l acc. bindE (tenant_limit l) (\<lambda>(t, x). Inr (AList.update t x acc)))
             limits (cf_tenant_limits c))))"

subsection \<open>Reading the files\<close>

definition substitute_env_vars :: "string \<Rightarrow> (string \<times> string) list \<Rightarrow> string" where
  "substitute_env_vars config_str env =
     foldl (\<lambda>config (k, v). py_replace (''%('' @ k @ '')'') v config) config_str
       (filter (\<lambda>(k, v). startswith k ''NODEPOOL_'') env)"

text \<open>What an attempt to open the file gives: its text, or the number of the error.\<close>

fun openConfig ::
  "(string \<Rightarrow> json res) \<Rightarrow> (nat \<Rightarrow> int + string) \<Rightarrow> (string \<times> string) list \<Rightarrow> nat \<Rightarrow> nat \<Rightarrow> json res" where
  "openConfig yaml attempt env i 0 = Inl (OtherError ''OSError'')"
| "openConfig yaml attempt env i (Suc retry) =
     (case attempt i of
        Inr txt \<Rightarrow> yaml (substitute_env_vars txt env)
      | Inl errno \<Rightarrow>
          if errno = 2 \<and> retry \<noteq> 0 then openConfig yaml attempt env (Suc i) retry
          else Inl (OtherError ''OSError''))"

definition open_retries :: nat where "open_retries = 3"

definition getE :: "json \<Rightarrow> (pydict \<Rightarrow> 'a res) \<Rightarrow> 'a res" where
  "getE v f = (case v of JDict d \<Rightarrow> f d | _ \<Rightarrow> Inl AttributeError)"

definition loadConfig ::
  "nat \<Rightarrow> (string \<Rightarrow> string option) \<Rightarrow> 'p drivers \<Rightarrow> (string \<Rightarrow> int res) \<Rightarrow> (string \<Rightarrow> json res) \<Rightarrow>
     (nat \<Rightarrow> int + string) \<Rightarrow> (string \<times> string) list \<Rightarrow> string \<Rightarrow> 'p nodepool_config res" where
  "loadConfig limit ipv6 drivers mtime_of yaml attempt env config_path =
     bindE (mtime_of config_path) (\<lambda>config_mtime.
     bindE (openConfig yaml attempt env 0 open_retries) (\<lambda>v. getE v (\<lambda>config.
     (let c0 = setBuildLog (dget config ''build-log-dir'') (dget config ''build-log-retention'')
            (config_init\<lparr> cf_elements_dir := dget config ''elements-dir'',
                          cf_images_dir := dget config ''images-dir'' \<rparr>)
      in bindE (setMaxHoldAge (dget config ''max-hold-age'') c0) (\<lambda>c1.
         bindE (setWebApp (dget config ''webapp'') c1) (\<lambda>c2.
         bindE (setZooKeeperServers ipv6 (dget config ''zookeeper-servers'') c2) (\<lambda>c3.
         bindE (num_of (dget_or config ''zookeeper-timeout'' (JNum 10))) (\<lambda>timeout.
         bindE (if \<not> truthy (dget config ''diskimages'') then Inr []
                else bindE (bindE (py_iter (dget config ''diskimages'')) dicts_of) (\<lambda>ds.
                       setDiskImages limit ds [])) (\<lambda>images.
         bindE (setLabels (dget config ''labels'')
                  (c3\<lparr> cf_zookeeper_timeout := timeout, cf_diskimages := images \<rparr>)) (\<lambda>c4.
         bindE (setProviders drivers (dget config ''providers'') c4) (\<lambda>c5.
         bindE (setZooKeeperTLS (dget config ''zookeeper-tls'') c5) (\<lambda>c6.
         bindE (setTenantResourceLimits (dget config ''tenant-resource-limits'') c6) (\<lambda>c7.
           Inr (setConfigPathMtime config_path config_mtime c7))))))))))))))"

definition loadSecureConfig ::
  "(string \<Rightarrow> string option) \<Rightarrow> (string \<Rightarrow> int res) \<Rightarrow> (string \<Rightarrow> json res) \<Rightarrow>
     (nat \<Rightarrow> int + string) \<Rightarrow> (string \<times> string) list \<Rightarrow> string \<Rightarrow> 'p nodepool_config \<Rightarrow>
     'p nodepool_config res" where
  "loadSecureConfig ipv6 mtime_of yaml attempt env secure_path c =
     bindE (mtime_of secure_path) (\<lambda>secure_mtime.
     bindE (openConfig yaml attempt env 0 open_retries) (\<lambda>v.
     if \<not> truthy v then Inr c
     else getE v (\<lambda>secure.
       let c1 = (if truthy (dget_or secure ''zookeeper-servers'' (JList []))
                 then c\<lparr>cf_zookeeper_servers := NoServers\<rparr> else c)
       in bindE (setZooKeeperServers ipv6 (dget secure ''zookeeper-servers'') c1) (\<lambda>c2.
          bindE (bindE (py_iter (dget_or secure ''diskimages'' (JList []))) dicts_of) (\<lambda>ds.
          bindE (setSecureDiskimageEnv ds (cf_diskimages c2)) (\<lambda>images.
          bindE (setZooKeeperTLS (dget secure ''zookeeper-tls'') (c2\<lparr>cf_diskimages := images\<rparr>)) (\<lambda>c3.
            Inr (setConfigPathMtime secure_path secure_mtime c3))))))))"

definition recent_path :: "(string \<Rightarrow> int res) \<Rightarrow> string \<Rightarrow> 'p nodepool_config \<Rightarrow> bool res" where
  "recent_path mtime_of path c =
     bindE (mtime_of path) (\<lambda>t.
       Inr ((case map_of (cf_mtimes c) path of None \<Rightarrow> 0 | Some t0 \<Rightarrow> t0) = t))"

definition checkRecentConfig ::
  "(string \<Rightarrow> int res) \<Rightarrow> 'p nodepool_config \<Rightarrow> string \<Rightarrow> string option \<Rightarrow> bool res" where
  "checkRecentConfig mtime_of c config_path secure_path =
     bindE (recent_path mtime_of config_path c) (\<lambda>ok.
       if \<not> ok then Inr False
       else (case secure_path of
               None \<Rightarrow> Inr True
             | Some p \<Rightarrow> if p = [] then Inr True else recent_path mtime_of p c))"

section \<open>Inheritance of disk images\<close>

text \<open>
  The merging of parents is the fold of \<open>setFromConfig\<close> over the chain of ancestors from the root
  down, for every recursion limit the chain fits in; a disk image that is its own ancestor has no
  chain and exceeds every limit. The metadata of a parent is not inherited, and neither can a child
  take back a parent's pause.
\<close>

inductive ancestors_of :: "(string \<times> pydict) list \<Rightarrow> string \<Rightarrow> pydict list \<Rightarrow> bool" for images where
  root: "map_of images n = Some cfg \<Longrightarrow> \<not> truthy (dget cfg ''parent'') \<Longrightarrow> ancestors_of images n [cfg]"
| child: "map_of images n = Some cfg \<Longrightarrow> dget cfg ''parent'' = JStr p \<Longrightarrow> p \<noteq> [] \<Longrightarrow>
    ancestors_of images p cfgs \<Longrightarrow> ancestors_of images n (cfgs @ [cfg])"

inductive_cases ancestors_ofE: "ancestors_of images n cfgs"

lemma foldE_snoc: "foldE f (xs @ [x]) s = bindE (foldE f xs s) (f x)"
proof -
  have "foldE f [x] = f x" by (rule ext) (simp add: bindE_def split: sum.split)
  then show ?thesis by (simp add: foldE_append)
qed

lemma merge_is_fold:
  assumes "ancestors_of images n cfgs" and "length cfgs \<le> limit"
  shows "merge_image_cfg limit images d n = foldE setFromConfig cfgs d"
  using assms
proof (induction arbitrary: limit rule: ancestors_of.induct)
  case (root n cfg)
  then obtain m where "limit = Suc m" by (cases limit) auto
  with root foldE_snoc [of setFromConfig "[]" cfg d] show ?case by simp
next
  case (child n cfg p cfgs)
  then obtain m where "limit = Suc m" by (cases limit) auto
  with child show ?case by (simp add: foldE_snoc)
qed

text \<open>Without a cycle, told by a rank that falls from child to parent, every image has its chain.\<close>

lemma ranked_ancestors:
  fixes rank :: "string \<Rightarrow> nat"
  assumes fall: "\<And>n cfg. map_of images n = Some cfg \<Longrightarrow> truthy (dget cfg ''parent'') \<Longrightarrow>
      \<exists>p. dget cfg ''parent'' = JStr p \<and> map_of images p \<noteq> None \<and> rank p < rank n"
    and "map_of images n \<noteq> None"
  shows "\<exists>cfgs. ancestors_of images n cfgs \<and> length cfgs \<le> Suc (rank n)"
  using assms(2)
proof (induction "rank n" arbitrary: n rule: less_induct)
  case less
  then obtain cfg where cfg: "map_of images n = Some cfg" by auto
  show ?case
  proof (cases "truthy (dget cfg ''parent'')")
    case True
    with fall [OF cfg] obtain p where p: "dget cfg ''parent'' = JStr p" "map_of images p \<noteq> None"
      "rank p < rank n" by blast
    from less(1) [OF p(3,2)] obtain cfgs where c: "ancestors_of images p cfgs" "length cfgs \<le> Suc (rank p)"
      by blast
    from p(1) True have "p \<noteq> []" by auto
    with c p cfg have "ancestors_of images n (cfgs @ [cfg])" by (intro ancestors_of.child)
    with c(2) p(3) show ?thesis by (intro exI [of _ "cfgs @ [cfg]"]) simp
  next
    case False
    with cfg have "ancestors_of images n [cfg]" by (rule ancestors_of.root)
    then show ?thesis by (intro exI [of _ "[cfg]"]) simp
  qed
qed

lemma own_parent:
  assumes "map_of images n = Some cfg" and "dget cfg ''parent'' = JStr n" and "n \<noteq> []"
  shows "merge_image_cfg limit images d n = Inl (OtherError ''RecursionError'')"
  by (induction limit) (simp_all add: assms)

lemma setFromConfig_simps:
  assumes "setFromConfig cfg d = Inr d'"
  shows "dk_meta d' = dget_or cfg ''metadata'' (JDict [])"
    and "dk_pause d' = or_old cfg ''pause'' (dk_pause d)" and "dk_name d' = dk_name d"
  using assms by (auto simp: setFromConfig_def bindE_eq_Inr)

lemma load_image_meta:
  assumes "load_image limit images cfg = Inr d"
  shows "dk_meta d = dget_or cfg ''metadata'' (JDict [])"
  using assms by (auto simp: load_image_def bindE_eq_Inr dest!: setFromConfig_simps(1))

lemma pause_not_taken_back:
  assumes "setFromConfig cfg d = Inr d'" and "dget cfg ''pause'' = JBool False"
  shows "dk_pause d' = dk_pause d"
  using setFromConfig_simps(2) [OF assms(1)] assms(2) by (simp add: or_old_def)

end
