(* ===== verification/Machines.thy ===== *)
theory Machines
  imports SmHandler Config
begin

section \<open>Building state machines of the clouds\<close>

text \<open>
  The create and delete state machines of the cloud drivers have the same shape: \<open>advance\<close> is a
  sequence of blocks, each guarded by the machine's state; a block may raise, return from the method
  or move the machine on, in which case the next block may run as well. A run is a machine together
  with the adapter's world.
\<close>

record ('m, 'w) run =
  ru_machine :: "'m state_machine"
  ru_world :: 'w

type_synonym ('m, 'w, 'a) run_eff = "(('m, 'w) run, 'a) eff"

definition upd_machine :: "('m state_machine \<Rightarrow> 'm state_machine) \<Rightarrow> ('m, 'w, unit) run_eff" where
  "upd_machine f = eff_mod (\<lambda>r. r\<lparr>ru_machine := f (ru_machine r)\<rparr>)"

definition goto :: "string \<Rightarrow> ('m, 'w, unit) run_eff" where
  "goto s = upd_machine (\<lambda>m. m\<lparr>sm_state := s\<rparr>)"

definition upd_more :: "('m \<Rightarrow> 'm) \<Rightarrow> ('m, 'w, unit) run_eff" where
  "upd_more f = upd_machine (\<lambda>m. m\<lparr>sm_more := f (sm_more m)\<rparr>)"

definition set_ext :: "(json \<Rightarrow> json) \<Rightarrow> ('m, 'w, unit) run_eff" where
  "set_ext f = upd_machine (\<lambda>m. m\<lparr>sm_external_id := f (sm_external_id m)\<rparr>)"

definition finished :: "('m, 'w, unit) run_eff" where
  "finished = upd_machine (\<lambda>m. m\<lparr>sm_complete := True\<rparr>)"

definition get_more :: "('m \<Rightarrow> 'a) \<Rightarrow> ('m, 'w, 'a) run_eff" where
  "get_more f = eff_get (\<lambda>r. f (sm_more (ru_machine r)))"

definition on_world :: "('w, 'a) eff \<Rightarrow> ('m, 'w, 'a) run_eff" where
  "on_world m = eff_zoom ru_world (\<lambda>w r. r\<lparr>ru_world := w\<rparr>) m"

text \<open>A block: it runs in its state only; it tells whether the method goes on after it.\<close>

definition in_state :: "string \<Rightarrow> ('m, 'w, bool) run_eff \<Rightarrow> ('m, 'w, bool) run_eff" where
  "in_state s m = eff_bind (eff_get (\<lambda>r. sm_state (ru_machine r))) (\<lambda>t. if t = s then m else eff_ret True)"

definition go_on :: "('m, 'w, unit) run_eff \<Rightarrow> ('m, 'w, bool) run_eff" where
  "go_on m = eff_seq m (eff_ret True)"

definition then_go :: "('m, 'w, bool) run_eff \<Rightarrow> ('m, 'w, 'a option) run_eff \<Rightarrow> ('m, 'w, 'a option) run_eff" where
  "then_go m k = eff_bind m (\<lambda>go. if go then k else eff_ret None)"

text \<open>The last block: in the state \<open>complete\<close> the machine is complete and has its result.\<close>

definition in_complete :: "string \<Rightarrow> ('m, 'w, 'a) run_eff \<Rightarrow> ('m, 'w, 'a option) run_eff" where
  "in_complete s m = eff_bind (eff_get (\<lambda>r. sm_state (ru_machine r)))
     (\<lambda>t. if t = s then eff_bind (eff_seq finished m) (\<lambda>x. eff_ret (Some x)) else eff_ret None)"

text \<open>As the interface of an adapter has it.\<close>

definition as_advance :: "('m, 'w, 'a) run_eff \<Rightarrow> 'm state_machine \<Rightarrow> 'w \<Rightarrow> 'a res \<times> 'm state_machine \<times> 'w" where
  "as_advance e m w = (case e \<lparr> ru_machine = m, ru_world = w \<rparr> of (r, s) \<Rightarrow> (r, ru_machine s, ru_world s))"

text \<open>A call that runs in a thread of its own: not done yet, or done with a result.\<close>

datatype 'a future = Running | Done "'a res"

definition opt_json :: "string option \<Rightarrow> json" where
  "opt_json x = (case x of None \<Rightarrow> JNull | Some s \<Rightarrow> JStr s)"

text \<open>\<open>a or b or ...\<close>: the first value that is true, or the last.\<close>

fun first_true :: "json list \<Rightarrow> json" where
  "first_true [] = JNull"
| "first_true [v] = v"
| "first_true (v # w # vs) = (if truthy v then v else first_true (w # vs))"

text \<open>\<open>s.lower()\<close>, on ASCII.\<close>

definition lower_char :: "char \<Rightarrow> char" where
  "lower_char c = (let n = (of_char c :: nat) in if 65 \<le> n \<and> n \<le> 90 then char_of (n + 32) else c)"

definition lower :: "string \<Rightarrow> string" where
  "lower s = map lower_char s"

subsection \<open>Moving forward\<close>

text \<open>
  The states of a machine in the order of the blocks; a rank that no block lowers, whether it raises
  or not.
\<close>

definition at_least :: "(string \<Rightarrow> nat) \<Rightarrow> nat \<Rightarrow> ('m, 'w) run \<Rightarrow> bool" where
  "at_least rank k r \<longleftrightarrow> k \<le> rank (sm_state (ru_machine r))"

text \<open>The place of a state in a list of states, from one; zero for any other state.\<close>

definition place_in :: "string list \<Rightarrow> string \<Rightarrow> nat" where
  "place_in ss s = (if s \<in> set ss then Suc (length (takeWhile (\<lambda>x. x \<noteq> s) ss)) else 0)"

lemma place_in_pos: "0 < place_in ss s \<longleftrightarrow> s \<in> set ss"
  by (simp add: place_in_def)

lemma place_in_nth:
  assumes "s \<in> set ss"
  shows "place_in ss s \<le> length ss" and "ss ! (place_in ss s - 1) = s"
proof -
  have "length (takeWhile (\<lambda>x. x \<noteq> s) ss) < length ss"
    using assms by (induction ss) auto
  then show "place_in ss s \<le> length ss" using assms by (simp add: place_in_def)
  from \<open>length (takeWhile (\<lambda>x. x \<noteq> s) ss) < length ss\<close> show "ss ! (place_in ss s - 1) = s"
    using nth_length_takeWhile [of "\<lambda>x. x \<noteq> s" ss] assms by (simp add: place_in_def)
qed

definition complete_in :: "string \<Rightarrow> ('m, 'w) run \<Rightarrow> bool" where
  "complete_in s r \<longleftrightarrow> (sm_complete (ru_machine r) \<longrightarrow> sm_state (ru_machine r) = s)"

lemma keeps_goto: "k \<le> rank t \<Longrightarrow> keeps_inv (at_least rank k) (goto t)"
  by (simp add: goto_def upd_machine_def keeps_inv_def eff_mod_def at_least_def)

lemma keeps_rank [keeps]:
  "keeps_inv (at_least rank k) (upd_more f)" "keeps_inv (at_least rank k) (set_ext g)"
  "keeps_inv (at_least rank k) finished" "keeps_inv (at_least rank k) (on_world m)"
  "keeps_inv (at_least rank k) (get_more h)"
  by (auto simp: upd_more_def set_ext_def finished_def upd_machine_def keeps_inv_def eff_mod_def at_least_def
      on_world_def eff_zoom_def get_more_def eff_get_def split: prod.splits)

lemma keeps_in_state:
  assumes "\<And>k. k \<le> rank s \<Longrightarrow> keeps_inv (at_least rank k) m"
  shows "keeps_inv (at_least rank k) (in_state s m)"
proof -
  have "at_least rank k (snd (m r))" if "at_least rank k r" "sm_state (ru_machine r) = s" for r
    using keepsD [OF assms, of k r] that by (simp add: at_least_def)
  then show ?thesis by (simp add: keeps_inv_def in_state_def eff_bind_def eff_get_def eff_ret_def)
qed

lemma keeps_go_on [keeps]: "keeps_inv I m \<Longrightarrow> keeps_inv I (go_on m)"
  unfolding go_on_def by (intro keeps)

lemma keeps_then_go [keeps]: "keeps_inv I m \<Longrightarrow> keeps_inv I k \<Longrightarrow> keeps_inv I (then_go m k)"
  unfolding then_go_def by (intro keeps)

lemma keeps_in_complete: "keeps_inv (at_least rank k) m \<Longrightarrow> keeps_inv (at_least rank k) (in_complete s m)"
  unfolding in_complete_def by (intro keeps)

lemmas run_ops = upd_more_def set_ext_def goto_def finished_def upd_machine_def get_more_def on_world_def
  eff_zoom_def eff_mod_def eff_get_def eff_seq_def eff_bind_def eff_ret_def eff_raise_def eff_lift_def

lemma keeps_in_state_inv: "keeps_inv I m \<Longrightarrow> keeps_inv I (in_state s m)"
  unfolding in_state_def by (intro keeps)

lemma keeps_in_complete_inv: "keeps_inv I finished \<Longrightarrow> keeps_inv I m \<Longrightarrow> keeps_inv I (in_complete s m)"
  unfolding in_complete_def by (intro keeps)

text \<open>Every state a machine can get into: it is advanced, whatever a call does, and others change the world.\<close>

inductive machine_run :: "('m, 'w, 'a) run_eff \<Rightarrow> ('m, 'w) run \<Rightarrow> ('m, 'w) run \<Rightarrow> bool" for advance r0 where
  start: "machine_run advance r0 r0"
| step: "machine_run advance r0 r \<Longrightarrow> machine_run advance r0 (snd (advance r))"
| others: "machine_run advance r0 r \<Longrightarrow> machine_run advance r0 (r\<lparr>ru_world := w\<rparr>)"

lemma machine_run_inv:
  assumes "machine_run advance r0 r" and "I r0" and "keeps_inv I advance" and "\<And>r w. I r \<Longrightarrow> I (r\<lparr>ru_world := w\<rparr>)"
  shows "I r"
  using assms(1)
  by (induction rule: machine_run.induct) (auto intro: assms keepsD)

text \<open>
  The state after each of a list of calls. Before each call the environment does what it likes to the
  world and to what the machine has at hand: a future that the machine waits for is completed, by a
  result or an exception, an object it holds is changed. It does not touch the machine's state.
\<close>

fun machine_states ::
  "('e \<Rightarrow> ('m, 'w, 'a) run_eff) \<Rightarrow> ('e \<times> ('m \<Rightarrow> 'w \<Rightarrow> 'm \<times> 'w)) list \<Rightarrow> ('m, 'w) run \<Rightarrow> string list" where
  "machine_states advance [] r = []"
| "machine_states advance ((e, f) # es) r =
     (let (more, w) = f (sm_more (ru_machine r)) (ru_world r);
          r1 = snd (advance e \<lparr> ru_machine = (ru_machine r)\<lparr>sm_more := more\<rparr>, ru_world = w \<rparr>)
      in sm_state (ru_machine r1) # machine_states advance es r1)"

text \<open>
  The contract of the machines that only move forward, in the order of a list of states. The client of
  a machine calls \<open>advance\<close> again and again; what it may rely on is proved once, here: the machine
  passes through states of the list only, in their order, and does not come back to one it has left.
\<close>

locale forward_machine =
  fixes advance :: "'e \<Rightarrow> ('m, 'w, 'a) run_eff"
    and rank :: "string \<Rightarrow> nat"
    and order :: "string list"
  assumes forward: "keeps_inv (at_least rank k) (advance e)"
    and ranked: "rank = place_in order"
begin

lemma rank_step:
  "rank (sm_state (ru_machine r)) \<le>
     rank (sm_state (ru_machine (snd (advance e \<lparr> ru_machine = (ru_machine r)\<lparr>sm_more := x\<rparr>, ru_world = w \<rparr>))))"
  using keepsD [OF forward, of "rank (sm_state (ru_machine r))"
      "\<lparr> ru_machine = (ru_machine r)\<lparr>sm_more := x\<rparr>, ru_world = w \<rparr>" e] by (simp add: at_least_def)

lemma states_sorted: "sorted (map rank (sm_state (ru_machine r) # machine_states advance es r))"
proof (induction es arbitrary: r)
  case (Cons ef es)
  obtain e f where ef: "ef = (e, f)" by fastforce
  obtain x w where f: "f (sm_more (ru_machine r)) (ru_world r) = (x, w)" by fastforce
  let ?r1 = "snd (advance e \<lparr> ru_machine = (ru_machine r)\<lparr>sm_more := x\<rparr>, ru_world = w \<rparr>)"
  from Cons.IH [of ?r1] rank_step [of r e x w] show ?case
    by (auto simp: ef f Let_def intro: order_trans)
qed simp

lemma states_listed:
  assumes "sm_state (ru_machine r) \<in> set order"
  shows "set (machine_states advance es r) \<subseteq> set order"
proof
  fix s assume "s \<in> set (machine_states advance es r)"
  with states_sorted [of r es] have "rank (sm_state (ru_machine r)) \<le> rank s" by simp
  then show "s \<in> set order" using assms place_in_pos [of order] unfolding ranked by (metis less_le_trans)
qed

end

end
