(* ===== verification/Azure.thy ===== *)
theory Azure
  imports Machines
begin

section \<open>The Azure driver: data and operations\<close>

text \<open>
  \<open>nodepool/driver/azure/adapter.py\<close>, first part: what the adapter reads out of Azure's answers, the request that
  creates a virtual machine, listings, quota, images and their upload. Azure's objects are the JSON documents
  the code reads; the client \<open>azul\<close> is a record of functions over an abstract cloud (its own
  code is in the theory Azul). The listings kept for ten seconds are answers.
\<close>

subsection \<open>Reading documents\<close>

text \<open>\<open>x[k]\<close>, \<open>x.get(k, v)\<close>, \<open>k in x\<close> and \<open>for y in x\<close>, on what the documents hold.\<close>

fun jitem :: "json \<Rightarrow> string \<Rightarrow> json res" where
  "jitem (JDict d) k = (case map_of d k of None \<Rightarrow> Inl KeyError | Some v \<Rightarrow> Inr v)"
| "jitem v k = Inl TypeError"

fun jpath :: "json \<Rightarrow> string list \<Rightarrow> json res" where
  "jpath v [] = Inr v"
| "jpath v (k # ks) = bindE (jitem v k) (\<lambda>x. jpath x ks)"

fun jget_or :: "json \<Rightarrow> string \<Rightarrow> json \<Rightarrow> json res" where
  "jget_or (JDict d) k v0 = Inr (dget_or d k v0)"
| "jget_or v k v0 = Inl AttributeError"

fun jhas :: "json \<Rightarrow> string \<Rightarrow> bool res" where
  "jhas (JDict d) k = Inr (dhas d k)"
| "jhas v k = Inl TypeError"

fun jlist :: "json \<Rightarrow> json list res" where
  "jlist (JList xs) = Inr xs"
| "jlist (JDict d) = Inr (map (\<lambda>(k, v). JStr k) d)"
| "jlist (JStr s) = Inr (map (\<lambda>c. JStr [c]) s)"
| "jlist v = Inl TypeError"

text \<open>\<open>float(x)\<close> for the numbers Azure writes: digits, with a point between them or not.\<close>

definition py_float_str :: "string \<Rightarrow> rat option" where
  "py_float_str s =
     (let p = takeWhile (\<lambda>c. c \<noteq> CHR ''.'') s; q = drop 1 (dropWhile (\<lambda>c. c \<noteq> CHR ''.'') s) in
      if p = [] \<or> \<not> list_all is_digit p \<or> \<not> list_all is_digit q then None
      else map_option (\<lambda>i. of_int i / 10 ^ length q) (read_digits (p @ q) False 0))"

fun py_float :: "json \<Rightarrow> rat res" where
  "py_float (JNum q) = Inr q"
| "py_float (JStr s) = (case py_float_str s of None \<Rightarrow> Inl ValueError | Some q \<Rightarrow> Inr q)"
| "py_float v = Inl TypeError"

text \<open>Tags; their values are strings in Azure.\<close>

fun tags_of :: "json \<Rightarrow> (string \<times> string) list" where
  "tags_of (JDict d) = List.map_filter (\<lambda>(k, v). case v of JStr s \<Rightarrow> Some (k, s) | _ \<Rightarrow> None) d"
| "tags_of v = []"

subsection \<open>Instances\<close>

definition cap_step :: "json \<Rightarrow> num option \<times> num option \<Rightarrow> (num option \<times> num option) res" where
  "cap_step cap acc = (case acc of (cores, ram) \<Rightarrow>
     bindE (jitem cap ''name'') (\<lambda>n.
     bindE (if n = JStr ''vCPUs''
            then bindE (jitem cap ''value'') (\<lambda>v. map_sum id (\<lambda>i. Some (Fin (of_int i))) (py_int v)) else Inr cores) (\<lambda>cores1.
     bindE (if n = JStr ''MemoryGB''
            then bindE (jitem cap ''value'') (\<lambda>v. map_sum id (\<lambda>q. Some (Fin (of_int (trunc (q * 1024))))) (py_float v)) else Inr ram) (\<lambda>ram1.
       Inr (cores1, ram1)))))"

definition quota_info_from_sku :: "json \<Rightarrow> quota res" where
  "quota_info_from_sku sku =
     (if \<not> truthy sku then Inr (quota_init None (Some (Fin 1)) None (Fin 0) [])
      else bindE (bindE (jitem sku ''capabilities'') jlist) (\<lambda>caps.
           bindE (foldE cap_step caps (None, None)) (\<lambda>(cores, ram).
             Inr (quota_init cores (Some (Fin 1)) ram (Fin 0) []))))"

definition private_step :: "json \<Rightarrow> json \<times> json \<Rightarrow> (json \<times> json) res" where
  "private_step c acc = (case acc of (v4, v6) \<Rightarrow>
     bindE (jitem c ''properties'') (\<lambda>p.
     bindE (jitem p ''privateIPAddressVersion'') (\<lambda>ver.
     bindE (if ver = JStr ''IPv4'' then jitem p ''privateIPAddress'' else Inr v4) (\<lambda>x4.
     bindE (if ver = JStr ''IPv6'' then jitem p ''privateIPAddress'' else Inr v6) (\<lambda>x6.
       Inr (x4, x6))))))"

definition ip_configs :: "json \<Rightarrow> json list res" where
  "ip_configs nic = bindE (jpath nic [''properties'', ''ipConfigurations'']) jlist"

definition public_address :: "json \<Rightarrow> json res" where
  "public_address pip =
     (if truthy pip then bindE (jitem pip ''properties'') (\<lambda>p. jget_or p ''ipAddress'' JNull) else Inr JNull)"

definition az_zone :: "json \<Rightarrow> json res" where
  "az_zone vm =
     bindE (bindE (jget_or vm ''zones'' (JList [])) jlist) (\<lambda>zs. Inr (case zs of [] \<Rightarrow> JStr [] | z # zs' \<Rightarrow> z))"

definition az_instance_of :: "json \<Rightarrow> json \<Rightarrow> json \<Rightarrow> json \<Rightarrow> json \<Rightarrow> cloud_instance res" where
  "az_instance_of vm nic public_ipv4 public_ipv6 sku =
     bindE (jitem vm ''name'') (\<lambda>name.
     bindE (jget_or vm ''tags'' (JDict [])) (\<lambda>tags.
     bindE (if truthy nic then bindE (ip_configs nic) (\<lambda>cs. foldE private_step cs (JNull, JNull)) else Inr (JNull, JNull))
       (\<lambda>(priv4, priv6).
     bindE (public_address public_ipv4) (\<lambda>pub4.
     bindE (public_address public_ipv6) (\<lambda>pub6.
     bindE (jitem vm ''location'') (\<lambda>loc.
     bindE (az_zone vm) (\<lambda>az.
       Inr (instance_init\<lparr>
         in_external_id := name, in_metadata := tags_of tags, in_private_ipv4 := priv4, in_private_ipv6 := Some priv6,
         in_public_ipv4 := pub4, in_public_ipv6 := pub6, in_interface_ip := first_true [pub4, pub6, priv4, priv6],
         in_cloud := JStr ''Azure'', in_region := loc, in_az := az, in_quota := quota_info_from_sku sku \<rparr>))))))))"

subsection \<open>The cloud and the configuration\<close>

datatype az_kind = VMs | NICs | PIPs | Disks | Images

record 'c az_api =
  aa_list :: "az_kind \<Rightarrow> ('c, json list) eff"
  aa_delete :: "az_kind \<Rightarrow> string \<Rightarrow> ('c, json) eff"
  aa_create :: "az_kind \<Rightarrow> string \<Rightarrow> json \<Rightarrow> ('c, json) eff"
  aa_post_disk :: "string \<Rightarrow> string \<Rightarrow> json \<Rightarrow> ('c, json) eff"      \<comment> \<open>name, endpoint, parameters\<close>
  aa_get_image :: "string \<Rightarrow> ('c, json) eff"
  aa_get_subnet :: "json \<Rightarrow> json \<Rightarrow> json \<Rightarrow> ('c, json) eff"
  aa_usages :: "('c, (string \<times> rat) list) eff"                \<comment> \<open>name and limit\<close>
  aa_skus :: "('c, json list) eff"
  aa_wait :: "json \<Rightarrow> ('c, json) eff"                         \<comment> \<open>\<open>wait_for_async_operation\<close>\<close>
  aa_chunk :: "json \<Rightarrow> nat \<Rightarrow> int \<Rightarrow> nat list \<Rightarrow> ('c, unit) eff" \<comment> \<open>URL, first and last byte, data\<close>
  aa_api_version :: string

record 'c az_world =
  zw_cloud :: 'c
  zw_subnet :: json
  zw_skus :: "((json \<times> json) \<times> json) list"
  zw_images :: "(string \<times> json) list"                         \<comment> \<open>the cache of \<open>_getImage\<close>\<close>

type_synonym ('c, 'a) az_eff = "('c az_world, 'a) eff"

definition on_az :: "('c, 'a) eff \<Rightarrow> ('c, 'a) az_eff" where
  "on_az m = eff_zoom zw_cloud (\<lambda>c w. w\<lparr>zw_cloud := c\<rparr>) m"

record az_login =
  zl_username :: json
  zl_password :: json
  zl_generate :: bool
  zl_key :: json

record az_gallery =
  zg_gallery :: string
  zg_name :: string
  zg_version :: "string option"

record az_cloud_image =
  zi_login :: az_login
  zi_reference :: json
  zi_filter :: json
  zi_id :: json
  zi_community :: "az_gallery option"
  zi_shared :: "az_gallery option"

record az_pool =
  zp_ipv4 :: bool
  zp_ipv6 :: bool
  zp_public_ipv4 :: bool
  zp_public_ipv6 :: bool

record az_label =
  zb_pool :: az_pool
  zb_cloud_image :: "az_cloud_image option"
  zb_diskimage :: "az_login option"
  zb_size :: string
  zb_tags :: pydict
  zb_dynamic_tags :: "(string \<times> string) list"
  zb_user_data :: json
  zb_custom_data :: json
  zb_volume_size :: json

record az_config =
  zc_location :: string
  zc_resource_group :: string
  zc_subnet_id :: json
  zc_network :: json
  zc_format :: "string \<Rightarrow> pydict \<Rightarrow> string res"                \<comment> \<open>\<open>format\<close> with the request's attributes\<close>

subsection \<open>The constructor\<close>

definition find_subnet :: "'c az_api \<Rightarrow> az_config \<Rightarrow> ('c, json) az_eff" where
  "find_subnet A cfg =
     (if truthy (zc_subnet_id cfg) then eff_ret (zc_subnet_id cfg)
      else let net = (case zc_network cfg of JStr s \<Rightarrow> JDict [(''network'', JStr s)] | v \<Rightarrow> v) in
        eff_bind (eff_lift (jget_or net ''resource-group'' (JStr (zc_resource_group cfg)))) (\<lambda>grp.
        eff_bind (eff_lift (jitem net ''network'')) (\<lambda>name.
        eff_bind (eff_lift (jget_or net ''subnet'' (JStr ''default''))) (\<lambda>sub.
        eff_bind (on_az (aa_get_subnet A grp name sub)) (\<lambda>s. eff_lift (jitem s ''id''))))))"

definition getSKUs :: "'c az_api \<Rightarrow> ('c, unit) az_eff" where
  "getSKUs A =
     eff_bind (on_az (aa_skus A)) (eff_each (\<lambda>sku.
       eff_bind (eff_lift (bindE (jitem sku ''locations'') jlist)) (eff_each (\<lambda>loc.
         eff_bind (eff_lift (jitem sku ''name'')) (\<lambda>name.
           eff_mod (\<lambda>w. w\<lparr>zw_skus := AList.update (name, loc) sku (zw_skus w)\<rparr>))))))"

definition az_start :: "'c az_api \<Rightarrow> az_config \<Rightarrow> ('c, unit) az_eff" where
  "az_start A cfg =
     eff_bind (find_subnet A cfg) (\<lambda>s.
     eff_seq (eff_mod (\<lambda>w. w\<lparr>zw_subnet := s, zw_skus := []\<rparr>)) (getSKUs A))"

definition az_sku :: "'c az_world \<Rightarrow> json \<Rightarrow> json \<Rightarrow> json" where
  "az_sku w sz loc = (case map_of (zw_skus w) (sz, loc) of None \<Rightarrow> JNull | Some s \<Rightarrow> s)"

subsection \<open>Resources, instances and quota\<close>

record az_resource = cloud_resource +
  zr_name :: json

definition az_resource_of :: "string \<Rightarrow> json \<Rightarrow> az_resource res" where
  "az_resource_of t x =
     bindE (jget_or x ''tags'' (JDict [])) (\<lambda>tags. bindE (jitem x ''name'') (\<lambda>name.
       Inr \<lparr> re_metadata = tags_of tags, re_type = t, zr_name = name \<rparr>))"

definition az_kinds :: "(string \<times> az_kind) list" where
  "az_kinds = [(''INSTANCE'', VMs), (''nic'', NICs), (''pip'', PIPs), (''disk'', Disks), (''image'', Images)]"

definition az_listResources :: "'c az_api \<Rightarrow> ('c, az_resource list) az_eff" where
  "az_listResources A =
     eff_fold (\<lambda>(t, k) acc.
       eff_bind (on_az (aa_list A k)) (\<lambda>xs. eff_lift (map_sum id (\<lambda>rs. acc @ rs) (mapE (az_resource_of t) xs)))) az_kinds []"

text \<open>A type that is none of the five leaves the name of the collection unbound.\<close>

definition az_deleteResource :: "'c az_api \<Rightarrow> string \<Rightarrow> string \<Rightarrow> ('c, unit) az_eff" where
  "az_deleteResource A t name =
     (case map_of az_kinds t of
        None \<Rightarrow> eff_raise (OtherError ''UnboundLocalError'')
      | Some k \<Rightarrow> eff_bind (on_az (aa_delete A k name)) (\<lambda>r. eff_ret ()))"

definition az_list_one :: "'c az_world \<Rightarrow> json \<Rightarrow> cloud_instance res" where
  "az_list_one w vm =
     bindE (jpath vm [''properties'', ''hardwareProfile'', ''vmSize'']) (\<lambda>sz.
     bindE (jitem vm ''location'') (\<lambda>loc. az_instance_of vm JNull JNull JNull (az_sku w sz loc)))"

definition az_listInstances :: "'c az_api \<Rightarrow> ('c, cloud_instance list) az_eff" where
  "az_listInstances A = eff_bind (on_az (aa_list A VMs)) (\<lambda>vms. eff_read (\<lambda>w. mapE (az_list_one w) vms))"

definition az_getQuotaLimits :: "'c az_api \<Rightarrow> ('c, quota) az_eff" where
  "az_getQuotaLimits A =
     eff_bind (on_az (aa_usages A)) (\<lambda>us.
       let limit = (\<lambda>n. case map_of (rev us) n of None \<Rightarrow> PosInf | Some q \<Rightarrow> Fin q) in
         eff_ret (quota_init (Some (limit ''cores'')) (Some (limit ''virtualMachines'')) None PosInf []))"

definition az_getQuotaForLabel :: "az_config \<Rightarrow> az_label \<Rightarrow> ('c, quota) az_eff" where
  "az_getQuotaForLabel cfg l = eff_read (\<lambda>w. quota_info_from_sku (az_sku w (JStr (zb_size l)) (JStr (zc_location cfg))))"

subsection \<open>Refreshing\<close>

definition provisioning :: "json \<Rightarrow> json res" where
  "provisioning x = bindE (jitem x ''properties'') (\<lambda>p. jget_or p ''provisioningState'' JNull)"

definition az_succeeded :: "json \<Rightarrow> bool res" where
  "az_succeeded x = map_sum id (\<lambda>s. s = JStr ''Succeeded'') (provisioning x)"

definition az_failed :: "json \<Rightarrow> bool res" where
  "az_failed x = map_sum id (\<lambda>s. s = JStr ''Failed'') (provisioning x)"

definition PIP_TYPE :: string where "PIP_TYPE = ''Microsoft.Network/publicIPAddresses''"
definition NIC_TYPE :: string where "NIC_TYPE = ''Microsoft.Network/networkInterfaces''"
definition VM_TYPE :: string where "VM_TYPE = ''Microsoft.Compute/virtualMachines''"

definition kind_of_type :: "json \<Rightarrow> az_kind res" where
  "kind_of_type t =
     (if t = JStr PIP_TYPE then Inr PIPs else if t = JStr NIC_TYPE then Inr NICs
      else if t = JStr VM_TYPE then Inr VMs else Inl (OtherError ''UnboundLocalError''))"

fun find_same :: "json \<Rightarrow> json list \<Rightarrow> json option res" where
  "find_same x [] = Inr None"
| "find_same x (y # ys) =
     bindE (jitem y ''id'') (\<lambda>a. bindE (jitem x ''id'') (\<lambda>b. if a = b then Inr (Some y) else find_same x ys))"

definition az_look_up :: "'c az_api \<Rightarrow> json \<Rightarrow> ('c, json option) az_eff" where
  "az_look_up A x =
     eff_bind (eff_lift (bindE (jitem x ''type'') kind_of_type)) (\<lambda>k.
     eff_bind (on_az (aa_list A k)) (\<lambda>ys. eff_lift (find_same x ys)))"

definition az_refresh :: "'c az_api \<Rightarrow> json \<Rightarrow> bool \<Rightarrow> ('c, json) az_eff" where
  "az_refresh A x force =
     eff_bind (eff_lift (az_succeeded x)) (\<lambda>done.
       if done \<and> \<not> force then eff_ret x
       else eff_bind (az_look_up A x) (\<lambda>y. eff_ret (case y of Some z \<Rightarrow> z | None \<Rightarrow> x)))"

definition az_refresh_delete :: "'c az_api \<Rightarrow> json option \<Rightarrow> ('c, json option) az_eff" where
  "az_refresh_delete A x = (case x of None \<Rightarrow> eff_ret None | Some y \<Rightarrow> az_look_up A y)"

end
