(* ===== verification/DriverUtils.thy ===== *)
theory DriverUtils
  imports SmHandler
begin

section \<open>Driver utilities\<close>

text \<open>
  The rest of \<open>nodepool/driver/utils.py\<close>: \<open>NodeLauncher\<close> and \<open>NodeDeleter\<close> for drivers without
  state machines, the rate limiter, the lazy cache of resource listings and the uploader that cuts
  an image into segments. Clocks are streams of readings, one per call of \<open>time.monotonic\<close>; what
  threads and futures deliver is a parameter.
\<close>

subsection \<open>\<open>NodeLauncher\<close> and \<open>NodeDeleter\<close>\<close>

record ('s, 'z) node_world =
  nw_node :: node
  nw_zk :: 'z
  nw_more :: 's

definition nw_on :: "(node \<Rightarrow> 'z \<Rightarrow> pyexc option \<times> node \<times> 'z) \<Rightarrow> (('s, 'z) node_world, unit) eff" where
  "nw_on = eff_obj nw_node (\<lambda>n w. w\<lparr>nw_node := n\<rparr>) nw_zk (\<lambda>z w. w\<lparr>nw_zk := z\<rparr>)"

text \<open>\<open>run\<close> of a launcher whose \<open>launch\<close> is given; the statistics raise nothing.\<close>

definition nodeLauncher_run ::
  "'z kazoo \<Rightarrow> rat \<Rightarrow> (('s, 'z) node_world, unit) eff \<Rightarrow> (('s, 'z) node_world, unit) eff" where
  "nodeLauncher_run K now launch =
     eff_try launch
       (\<lambda>e. if e = SessionExpiredError then nw_on (assign_state FAILED now)
            else if e = QuotaException
            then eff_seq (nw_on (assign_state ABORTED now)) (nw_on (storeNode K now))
            else eff_seq (nw_on (assign_state FAILED now)) (nw_on (storeNode K now)))"

text \<open>
  \<open>NodeDeleter.delete\<close>: \<open>cleanup\<close> and \<open>wait\<close> are the provider's \<open>cleanupNode\<close> and
  \<open>waitForNodeCleanup\<close>, \<open>notify\<close> its notification.
\<close>

definition nodeDeleter_delete ::
  "'z kazoo \<Rightarrow> 'z locks \<Rightarrow> rat \<Rightarrow> (json \<Rightarrow> (('s, 'z) node_world, unit) eff) \<Rightarrow>
     (json \<Rightarrow> (('s, 'z) node_world, unit) eff) \<Rightarrow> (('s, 'z) node_world, unit) eff \<Rightarrow> bool \<Rightarrow>
     (('s, 'z) node_world, unit) eff" where
  "nodeDeleter_delete K L now cleanup wait notify node_exists =
     eff_bind
       (eff_try
         (eff_seq (nw_on (assign_state DELETING now))
           (eff_seq (nw_on (storeNode K now))
             (eff_bind (eff_get (\<lambda>w. n_external_id (nw_node w))) (\<lambda>x.
                eff_seq (eff_when (truthy x) (eff_seq (cleanup x) (wait x))) (eff_ret True)))))
         (\<lambda>e. if e = NotFound then eff_ret True
              else eff_seq (eff_when node_exists (nw_on (unlockNode L))) (eff_ret False)))
       (\<lambda>deleted. eff_when (deleted \<and> node_exists) (eff_seq (nw_on (deleteNode K now)) notify))"

definition nodeDeleter_run ::
  "'z kazoo \<Rightarrow> 'z locks \<Rightarrow> rat \<Rightarrow> (json \<Rightarrow> (('s, 'z) node_world, unit) eff) \<Rightarrow>
     (json \<Rightarrow> (('s, 'z) node_world, unit) eff) \<Rightarrow> (('s, 'z) node_world, unit) eff \<Rightarrow>
     (('s, 'z) node_world, unit) eff" where
  "nodeDeleter_run K L now cleanup wait notify =
     eff_bind (eff_get (\<lambda>w. o_id (nw_node w) \<noteq> None)) (\<lambda>node_exists.
       eff_ignore (nodeDeleter_delete K L now cleanup wait notify node_exists))"

subsection \<open>\<open>RateLimiter\<close>\<close>

record rate_limiter =
  rl_delta :: rat
  rl_last_ts :: "rat option"

definition rate_limiter_init :: "rat \<Rightarrow> rate_limiter" where
  "rate_limiter_init rate_limit =
     \<lparr> rl_delta = (if rate_limit = 0 then 0 else 1 / rate_limit), rl_last_ts = None \<rparr>"

text \<open>
  The loop of \<open>_enter\<close>: it reads the clock, and sleeps for what is missing. \<open>k\<close> counts the readings;
  the result is the number of the reading that ended the loop and the time slept. A clock that
  stands still makes it run forever, which is the value \<open>None\<close>.
\<close>

partial_function (option) rl_wait ::
  "rat \<Rightarrow> rat \<Rightarrow> (nat \<Rightarrow> rat) \<Rightarrow> nat \<Rightarrow> rat \<Rightarrow> (nat \<times> rat) option" where
  "rl_wait delta last_ts clock k waited =
     (let delay = clock k - last_ts in
      if delay \<ge> delta then Some (k, waited)
      else rl_wait delta last_ts clock (Suc k) (waited + (delta - delay)))"

definition rl_enter :: "(nat \<Rightarrow> rat) \<Rightarrow> rate_limiter \<Rightarrow> (rat \<times> rate_limiter) option" where
  "rl_enter clock rl =
     (case rl_last_ts rl of
        None \<Rightarrow> Some (0, rl\<lparr>rl_last_ts := Some (clock 0)\<rparr>)
      | Some last_ts \<Rightarrow>
          map_option (\<lambda>(k, waited). (waited, rl\<lparr>rl_last_ts := Some (clock (Suc k))\<rparr>))
            (rl_wait (rl_delta rl) last_ts clock 0 0))"

text \<open>
  A sleep takes at least as long as it was asked to: then the loop reads the clock twice at most.
\<close>

definition sleeps :: "rat \<Rightarrow> rat \<Rightarrow> (nat \<Rightarrow> rat) \<Rightarrow> bool" where
  "sleeps delta last_ts clock =
     (\<forall>k. clock k \<le> clock (Suc k) \<and>
          (clock k - last_ts < delta \<longrightarrow> clock k + (delta - (clock k - last_ts)) \<le> clock (Suc k)))"

lemma rl_wait_two:
  assumes "sleeps delta last_ts clock"
  shows "rl_wait delta last_ts clock k waited =
    (if clock k - last_ts \<ge> delta then Some (k, waited)
     else Some (Suc k, waited + (delta - (clock k - last_ts))))"
proof (cases "clock k - last_ts \<ge> delta")
  case False
  then have "clock k + (delta - (clock k - last_ts)) \<le> clock (Suc k)"
    using assms by (simp add: sleeps_def)
  then have "clock (Suc k) - last_ts \<ge> delta" by linarith
  with False show ?thesis
    by (subst rl_wait.simps, subst rl_wait.simps) (simp add: Let_def)
qed (subst rl_wait.simps, simp add: Let_def)

lemma rl_enter_spaced:
  assumes "rl_last_ts rl = Some last_ts" and "sleeps (rl_delta rl) last_ts clock" and "rl_delta rl \<ge> 0"
  shows "\<exists>waited t. rl_enter clock rl = Some (waited, rl\<lparr>rl_last_ts := Some t\<rparr>) \<and>
           t - last_ts \<ge> rl_delta rl \<and> waited \<ge> 0 \<and> (clock 0 \<ge> last_ts \<longrightarrow> waited \<le> rl_delta rl)"
proof -
  have mono: "clock k \<le> clock (Suc k)" for k using assms(2) by (simp add: sleeps_def)
  have slept: "clock 0 - last_ts < rl_delta rl \<Longrightarrow> clock 0 + (rl_delta rl - (clock 0 - last_ts)) \<le> clock 1"
    using assms(2) by (simp add: sleeps_def)
  show ?thesis
  proof (cases "clock 0 - last_ts \<ge> rl_delta rl")
    case True
    with mono [of 0] assms(3) show ?thesis
      by (intro exI [of _ 0] exI [of _ "clock 1"]) (simp add: rl_enter_def assms(1) rl_wait_two [OF assms(2)])
  next
    case False
    with mono [of 1] slept show ?thesis
      by (intro exI [of _ "rl_delta rl - (clock 0 - last_ts)"] exI [of _ "clock 2"])
        (simp add: rl_enter_def assms(1) rl_wait_two [OF assms(2)] numeral_2_eq_2)
  qed
qed

subsection \<open>\<open>LazyExecutorTTLCache\<close>\<close>

datatype 'v update = Running | Updated rat 'v | Failed pyexc

record 'v lazy_cache =
  lz_ttl :: rat
  lz_future :: "'v update option"
  lz_last_time :: "rat option"
  lz_last_value :: "'v option"

definition lazy_init :: "rat \<Rightarrow> 'v lazy_cache" where
  "lazy_init ttl = \<lparr> lz_ttl = ttl, lz_future = None, lz_last_time = None, lz_last_value = None \<rparr>"

text \<open>The outcome of a finished update is taken over, and the future forgotten in any case.\<close>

definition lazy_resolve :: "('v lazy_cache, unit) eff" where
  "lazy_resolve c =
     (case lz_future c of
        Some (Updated t v) \<Rightarrow>
          (Inr (), c\<lparr>lz_future := None, lz_last_time := Some t, lz_last_value := Some v\<rparr>)
      | Some (Failed e) \<Rightarrow> (Inl e, c\<lparr>lz_future := None\<rparr>)
      | _ \<Rightarrow> (Inr (), c))"

text \<open>
  A call: \<open>fetch\<close> is what the method returns when it is called here, \<open>now\<close> and \<open>later\<close> the clock
  before and after.
\<close>

definition lazy_call :: "'v res \<Rightarrow> rat \<Rightarrow> rat \<Rightarrow> ('v lazy_cache, 'v option) eff" where
  "lazy_call fetch now later =
     eff_seq lazy_resolve
       (eff_bind (eff_get (\<lambda>c. c)) (\<lambda>c.
          case lz_last_time c of
            Some t \<Rightarrow>
              if now - t < lz_ttl c then eff_ret (lz_last_value c)
              else eff_seq (eff_when (lz_future c = None) (eff_mod (\<lambda>c. c\<lparr>lz_future := Some Running\<rparr>)))
                     (eff_ret (lz_last_value c))
          | None \<Rightarrow>
              eff_bind (eff_lift fetch) (\<lambda>v.
                eff_seq (eff_mod (\<lambda>c. c\<lparr>lz_last_value := Some v, lz_last_time := Some later\<rparr>))
                  (eff_ret (Some v)))))"

text \<open>The executor finishes a running update.\<close>

definition lazy_finish :: "'v res \<Rightarrow> rat \<Rightarrow> 'v lazy_cache \<Rightarrow> 'v lazy_cache" where
  "lazy_finish r t c =
     (if lz_future c = Some Running
      then c\<lparr>lz_future := Some (case r of Inl e \<Rightarrow> Failed e | Inr v \<Rightarrow> Updated t v)\<rparr> else c)"

subsection \<open>\<open>ImageUploader\<close>\<close>

definition error_retries :: nat where "error_retries = 3"

definition concurrency :: nat where "concurrency = 10"

record 'd segment =
  sg_index :: nat
  sg_offset :: nat
  sg_data :: "'d list"

text \<open>The segments of a file, read one after the other; the segment size is positive.\<close>

function segments_from :: "nat \<Rightarrow> nat \<Rightarrow> nat \<Rightarrow> 'd list \<Rightarrow> 'd segment list" where
  "segments_from segment_size index offset content =
     (if content = [] \<or> segment_size = 0 then []
      else \<lparr> sg_index = index, sg_offset = offset, sg_data = take segment_size content \<rparr>
             # segments_from segment_size (Suc index) (offset + segment_size) (drop segment_size content))"
  by pat_completeness auto

termination
  by (relation "measure (\<lambda>(s, i, f, xs). length xs)") auto

declare segments_from.simps [simp del]

definition segments :: "nat \<Rightarrow> 'd list \<Rightarrow> 'd segment list" where
  "segments segment_size content = segments_from segment_size 0 0 content"

text \<open>\<open>checkTimeout\<close> against the deadline.\<close>

definition checkTimeout :: "rat option \<Rightarrow> rat \<Rightarrow> unit res" where
  "checkTimeout deadline now =
     (case deadline of None \<Rightarrow> Inr () | Some d \<Rightarrow> if d - now < 0 then Inl GenericException else Inr ())"

text \<open>
  \<open>_uploadInner\<close>: every segment is handed to the pool; with twenty or more outstanding the loop waits
  for the first to finish, and at the end it waits for all. \<open>finished w n fs\<close> are those of the
  outstanding uploads \<open>fs\<close> that are done when wait number \<open>n\<close>, of kind \<open>w\<close>, returns, \<open>outcome i\<close> what
  upload \<open>i\<close> raises, \<open>clock n\<close> the time after the wait. Every wait is given the time that is left.
\<close>

datatype return_when = FIRST_COMPLETED | ALL_COMPLETED

record upload_env =
  up_finished :: "return_when \<Rightarrow> nat \<Rightarrow> nat list \<Rightarrow> nat list"
  up_outcome :: "nat \<Rightarrow> pyexc option"
  up_clock :: "nat \<Rightarrow> rat"

fun first_error :: "(nat \<Rightarrow> pyexc option) \<Rightarrow> nat list \<Rightarrow> unit res" where
  "first_error f [] = Inr ()"
| "first_error f (i # is') = (case f i of Some e \<Rightarrow> Inl e | None \<Rightarrow> first_error f is')"

definition upload_wait :: "upload_env \<Rightarrow> return_when \<Rightarrow> rat option \<Rightarrow> nat \<Rightarrow> nat list \<Rightarrow> nat list res" where
  "upload_wait E w deadline n fs =
     (let finished = filter (\<lambda>i. i \<in> set (up_finished E w n fs)) fs;
          rest = filter (\<lambda>i. i \<notin> set (up_finished E w n fs)) fs
      in bindE (first_error (up_outcome E) finished) (\<lambda>u.
           map_sum id (\<lambda>u. rest) (checkTimeout deadline (up_clock E n))))"

fun upload_loop ::
  "upload_env \<Rightarrow> rat option \<Rightarrow> nat \<Rightarrow> 'd segment list \<Rightarrow> nat list \<Rightarrow> (nat \<times> nat list) res" where
  "upload_loop E deadline n [] fs = Inr (n, fs)"
| "upload_loop E deadline n (s # ss) fs =
     (let fs' = fs @ [sg_index s] in
      if length fs' \<ge> concurrency * 2
      then bindE (upload_wait E FIRST_COMPLETED deadline n fs') (\<lambda>rest.
        upload_loop E deadline (Suc n) ss rest)
      else upload_loop E deadline n ss fs')"

definition uploadInner :: "upload_env \<Rightarrow> rat option \<Rightarrow> 'd segment list \<Rightarrow> unit res" where
  "uploadInner E deadline ss =
     bindE (upload_loop E deadline 0 ss []) (\<lambda>(n, fs).
       map_sum id (\<lambda>rest. ()) (upload_wait E ALL_COMPLETED deadline n fs))"

text \<open>\<open>upload\<close>: an exception aborts the upload, and the result is \<open>None\<close>.\<close>

definition upload ::
  "('s, unit) eff \<Rightarrow> ('s, unit) eff \<Rightarrow> ('s, 'r) eff \<Rightarrow> ('s, unit) eff \<Rightarrow> ('s, 'r option) eff" where
  "upload startUpload inner finishUpload abortUpload =
     eff_seq startUpload
       (eff_try (eff_seq inner (eff_bind finishUpload (\<lambda>r. eff_ret (Some r))))
          (\<lambda>e. eff_seq abortUpload (eff_ret None)))"

text \<open>\<open>retry\<close>: \<open>x\<close> counts the tries.\<close>

fun retry_from :: "(pyexc \<Rightarrow> bool) \<Rightarrow> nat \<Rightarrow> ('s, 'a) eff \<Rightarrow> ('s, 'a option) eff" where
  "retry_from should 0 m = eff_ret None"
| "retry_from should (Suc n) m =
     eff_try (eff_bind m (\<lambda>r. eff_ret (Some r)))
       (\<lambda>e. if \<not> should e \<or> n = 0 then eff_raise e else retry_from should n m)"

definition retry :: "(pyexc \<Rightarrow> bool) \<Rightarrow> ('s, 'a) eff \<Rightarrow> ('s, 'a option) eff" where
  "retry should m = retry_from should error_retries m"

subsection \<open>What the uploader guarantees\<close>

lemma segments_from_data:
  "0 < segment_size \<Longrightarrow> concat (map sg_data (segments_from segment_size i f content)) = content"
proof (induction segment_size i f content rule: segments_from.induct)
  case (1 segment_size i f content)
  then show ?case by (subst segments_from.simps) (simp add: append_take_drop_id)
qed

lemma segments_from_index:
  "k < length (segments_from segment_size i f content) \<Longrightarrow>
     sg_index (segments_from segment_size i f content ! k) = i + k \<and>
     sg_offset (segments_from segment_size i f content ! k) = f + k * segment_size"
proof (induction segment_size i f content arbitrary: k rule: segments_from.induct)
  case (1 segment_size i f content)
  show ?case
  proof (cases "content = [] \<or> segment_size = 0")
    case True
    then show ?thesis using "1.prems" by (subst (asm) segments_from.simps) simp
  next
    case False
    have s: "segments_from segment_size i f content =
        \<lparr> sg_index = i, sg_offset = f, sg_data = take segment_size content \<rparr>
          # segments_from segment_size (Suc i) (f + segment_size) (drop segment_size content)"
      using False by (subst segments_from.simps) simp
    show ?thesis
    proof (cases k)
      case (Suc j)
      then show ?thesis using "1.IH" [OF False, of j] "1.prems" unfolding s by simp
    qed (simp add: s)
  qed
qed

text \<open>
  What the library says of \<open>concurrent.futures.wait\<close>: it returns when an upload, or all of them, are
  done, or else when the time it was given has elapsed; so a wait that comes back with less than it
  was to wait for does so at the deadline or later.
\<close>

definition wait_satisfied :: "return_when \<Rightarrow> nat list \<Rightarrow> nat list \<Rightarrow> bool" where
  "wait_satisfied w finished fs =
     (case w of FIRST_COMPLETED \<Rightarrow> fs = [] \<or> set finished \<inter> set fs \<noteq> {}
      | ALL_COMPLETED \<Rightarrow> set fs \<subseteq> set finished)"

definition waits :: "upload_env \<Rightarrow> rat option \<Rightarrow> bool" where
  "waits E deadline =
     (\<forall>w n fs. wait_satisfied w (up_finished E w n fs) fs \<or>
        (\<exists>d. deadline = Some d \<and> d \<le> up_clock E n))"

lemma waits_in_time:
  assumes "waits E deadline" and "deadline \<noteq> Some (up_clock E n)"
    and "upload_wait E w deadline n fs = Inr rest"
  shows "wait_satisfied w (up_finished E w n fs) fs"
proof -
  have "checkTimeout deadline (up_clock E n) = Inr ()"
    using assms(3) by (auto simp: upload_wait_def Let_def bindE_eq_Inr map_sum_eq_Inr)
  then show ?thesis using assms(1,2)
    by (fastforce simp: waits_def checkTimeout_def split: option.splits if_splits)
qed

lemma upload_wait_shrinks:
  assumes "waits E deadline" and "deadline \<noteq> Some (up_clock E n)"
    and "upload_wait E FIRST_COMPLETED deadline n fs = Inr rest" and "fs \<noteq> []"
  shows "length rest < length fs"
proof -
  have rest: "rest = filter (\<lambda>i. i \<notin> set (up_finished E FIRST_COMPLETED n fs)) fs"
    using assms(3) by (auto simp: upload_wait_def Let_def bindE_eq_Inr map_sum_eq_Inr)
  obtain i where "i \<in> set fs" "i \<in> set (up_finished E FIRST_COMPLETED n fs)"
    using waits_in_time [OF assms(1,2,3)] assms(4) by (auto simp: wait_satisfied_def)
  then show ?thesis unfolding rest by (intro length_filter_less) auto
qed

lemma upload_loop_bound:
  assumes E: "waits E deadline" "\<forall>n. deadline \<noteq> Some (up_clock E n)" and "length fs < concurrency * 2"
    and "upload_loop E deadline n ss fs = Inr (m, fs')"
  shows "length fs' < concurrency * 2"
  using assms
proof (induction E deadline n ss fs rule: upload_loop.induct)
  case (2 E deadline n s ss fs)
  show ?case
  proof (cases "length (fs @ [sg_index s]) \<ge> concurrency * 2")
    case True
    with 2 obtain rest where w: "upload_wait E FIRST_COMPLETED deadline n (fs @ [sg_index s]) = Inr rest"
      and l: "upload_loop E deadline (Suc n) ss rest = Inr (m, fs')"
      by (auto simp: Let_def bindE_eq_Inr)
    have "length rest < concurrency * 2"
      using upload_wait_shrinks [OF "2.prems"(1) _ w] "2.prems"(2,3) by simp
    then show ?thesis using 2 True w l by simp
  qed (use 2 in \<open>simp add: Let_def\<close>)
qed simp

text \<open>A call is tried three times at most, and its last exception comes through.\<close>

lemma retry_from_tries:
  assumes "keeps_inv I m" and "I s"
  shows "I (snd (retry_from should n m s))"
  using assms(2)
proof (induction n arbitrary: s)
  case (Suc n)
  then show ?case
    using keepsD [OF assms(1)]
    by (auto simp: eff_try_def eff_bind_def eff_simps split: prod.splits sum.splits)
      (metis snd_conv)+
qed (simp add: eff_simps)

end
