(* ===== verification/AzureMachines.thy ===== *)
theory AzureMachines
  imports Azure DriverUtils
begin

section \<open>The Azure driver: creating, deleting and uploading\<close>

text \<open>
  \<open>nodepool/driver/azure/adapter.py\<close>, second part: the virtual machine's specification, the create and the delete
  machine, and the upload of an image through a disk.
\<close>

subsection \<open>Creating a virtual machine\<close>

text \<open>
  \<open>generate_password\<close>: the draws of \<open>random.choices\<close> are a stream, and fuel bounds them; the first with a
  lower case letter, an upper case letter and a digit is the password.
\<close>

definition has_char :: "nat \<Rightarrow> nat \<Rightarrow> string \<Rightarrow> bool" where
  "has_char lo hi s = list_ex (\<lambda>c. lo \<le> (of_char c :: nat) \<and> (of_char c :: nat) \<le> hi) s"

definition good_password :: "string \<Rightarrow> bool" where
  "good_password s \<longleftrightarrow> has_char 97 122 s \<and> has_char 65 90 s \<and> has_char 48 57 s"

fun generate_password :: "(nat \<Rightarrow> string) \<Rightarrow> nat \<Rightarrow> nat \<Rightarrow> string option" where
  "generate_password draw n 0 = None"
| "generate_password draw n (Suc fuel) =
     (if good_password (draw n) then Some (draw n) else generate_password draw (Suc n) fuel)"

text \<open>The image, as the request refers to it, and the login it comes with.\<close>

definition gallery_id :: "string \<Rightarrow> az_gallery \<Rightarrow> string" where
  "gallery_id prefix g =
     prefix @ zg_gallery g @ ''/Images/'' @ zg_name g @
     (case zg_version g of Some (c # cs) \<Rightarrow> ''/Versions/'' @ c # cs | _ \<Rightarrow> [])"

definition cloud_reference :: "az_cloud_image \<Rightarrow> json" where
  "cloud_reference i =
     (if truthy (zi_reference i) then zi_reference i
      else case zi_community i of
        Some g \<Rightarrow> JDict [(''communityGalleryImageId'', JStr (gallery_id ''/CommunityGalleries/'' g))]
      | None \<Rightarrow>
          (case zi_shared i of
             Some g \<Rightarrow> JDict [(''sharedGalleryImageId'', JStr (gallery_id ''/SharedGalleries/'' g))]
           | None \<Rightarrow> JDict [(''id'', zi_id i)]))"

definition az_getImage :: "'c az_api \<Rightarrow> string \<Rightarrow> ('c, json) az_eff" where
  "az_getImage A name =
     eff_bind (eff_get (\<lambda>w. map_of (zw_images w) name)) (\<lambda>known.
       case known of
         Some i \<Rightarrow> eff_ret i
       | None \<Rightarrow> eff_bind (on_az (aa_get_image A name)) (\<lambda>i.
                   eff_seq (eff_mod (\<lambda>w. w\<lparr>zw_images := (name, i) # zw_images w\<rparr>)) (eff_ret i)))"

definition image_and_login :: "'c az_api \<Rightarrow> az_label \<Rightarrow> string option \<Rightarrow> json \<Rightarrow> ('c, json \<times> az_login) az_eff" where
  "image_and_login A l external reference =
     (case external of
        Some (c # cs) \<Rightarrow>
          eff_bind (az_getImage A (c # cs)) (\<lambda>i. eff_bind (eff_lift (jitem i ''id'')) (\<lambda>x.
            case zb_diskimage l of
              None \<Rightarrow> eff_raise AttributeError | Some d \<Rightarrow> eff_ret (JDict [(''id'', x)], d)))
      | _ \<Rightarrow>
          (case zb_cloud_image l of
             None \<Rightarrow> eff_raise AttributeError
           | Some i \<Rightarrow> eff_ret (if truthy reference then reference else cloud_reference i, zi_login i)))"

text \<open>A key of the request that is there only if its value is true.\<close>

definition if_true :: "string \<Rightarrow> json \<Rightarrow> pydict" where
  "if_true k v = (if truthy v then [(k, v)] else [])"

definition os_profile :: "string \<Rightarrow> az_login \<Rightarrow> string \<Rightarrow> json \<Rightarrow> string \<Rightarrow> pydict" where
  "os_profile hostname g user custom pw =
     [(''computerName'', JStr hostname)] @
     (if truthy (zl_key g)
      then [(''linuxConfiguration'', JDict [
              (''ssh'', JDict [(''publicKeys'', JList [JDict [
                 (''path'', JStr (''/home/'' @ user @ ''/.ssh/authorized_keys'')), (''keyData'', zl_key g)]])]),
              (''disablePasswordAuthentication'', JBool True)])]
      else []) @
     if_true ''adminUsername'' (zl_username g) @
     (if truthy (zl_password g) then [(''adminPassword'', zl_password g)]
      else if zl_generate g then [(''adminPassword'', JStr pw)] else []) @
     if_true ''customData'' custom"

definition make_ip_config :: "string \<Rightarrow> string \<Rightarrow> json \<Rightarrow> bool \<Rightarrow> json" where
  "make_ip_config name version subnet pip =
     JDict [(''name'', JStr (name @ ''-config'')),
       (''properties'', JDict ([(''privateIPAddressVersion'', JStr version), (''subnet'', JDict [(''id'', subnet)])] @
          (if pip
           then [(''publicIPAddressConfiguration'', JDict [(''name'', JStr (name @ ''-ip'')),
                   (''properties'', JDict [(''deleteOption'', JStr ''Delete''), (''publicIPAllocationMethod'', JStr ''Static'')]),
                   (''sku'', JDict [(''name'', JStr ''Standard'')])])]
           else [])))]"

definition nic_config :: "string \<Rightarrow> json \<Rightarrow> az_pool \<Rightarrow> json" where
  "nic_config hostname subnet p =
     JDict [(''name'', JStr (hostname @ ''-nic'')),
       (''properties'', JDict [(''deleteOption'', JStr ''Delete''),
          (''ipConfigurations'', JList (
             (if zp_ipv4 p then [make_ip_config (hostname @ ''-v4'') ''IPv4'' subnet (zp_public_ipv4 p)] else []) @
             (if zp_ipv6 p then [make_ip_config (hostname @ ''-v6'') ''IPv6'' subnet (zp_public_ipv6 p)] else [])))])]"

definition vm_spec ::
  "az_config \<Rightarrow> az_label \<Rightarrow> json \<Rightarrow> pydict \<Rightarrow> pydict \<Rightarrow> json \<Rightarrow> string \<Rightarrow> string \<Rightarrow> json" where
  "vm_spec cfg l img tags profile subnet version hostname =
     JDict [(''location'', JStr (zc_location cfg)), (''tags'', JDict tags),
       (''properties'', JDict ([
          (''osProfile'', JDict profile),
          (''hardwareProfile'', JDict [(''vmSize'', JStr (zb_size l))]),
          (''storageProfile'', JDict [(''imageReference'', img),
             (''osDisk'', JDict ([(''createOption'', JStr ''FromImage''), (''deleteOption'', JStr ''Delete'')] @
                                 if_true ''diskSizeGB'' (zb_volume_size l)))]),
          (''networkProfile'', JDict [(''networkApiVersion'', JStr version),
             (''networkInterfaceConfigurations'', JList [nic_config hostname subnet (zb_pool l)])])] @
          if_true ''userData'' (zb_user_data l)))]"

definition user_name :: "az_login \<Rightarrow> string" where
  "user_name g = (case zl_username g of JStr s \<Rightarrow> s | _ \<Rightarrow> ''None'')"

definition createVirtualMachine ::
  "'c az_api \<Rightarrow> az_config \<Rightarrow> az_label \<Rightarrow> string option \<Rightarrow> json \<Rightarrow> pydict \<Rightarrow> string \<Rightarrow> string \<Rightarrow> ('c, json) az_eff" where
  "createVirtualMachine A cfg l external reference tags hostname pw =
     eff_bind (image_and_login A l external reference) (\<lambda>(img, g).
     eff_bind (eff_get zw_subnet) (\<lambda>subnet.
       on_az (aa_create A VMs hostname
         (vm_spec cfg l img tags (os_profile hostname g (user_name g) (zb_custom_data l) pw) subnet (aa_api_version A) hostname))))"

definition deleteVirtualMachine :: "'c az_api \<Rightarrow> string \<Rightarrow> ('c, json option) az_eff" where
  "deleteVirtualMachine A name =
     eff_bind (on_az (aa_list A VMs)) (\<lambda>vms.
     eff_bind (eff_lift (foldE (\<lambda>vm found. if found \<noteq> None then Inr found
                                else bindE (jitem vm ''name'') (\<lambda>n. Inr (if n = JStr name then Some vm else None))) vms None)) (\<lambda>x.
       case x of
         None \<Rightarrow> eff_ret None
       | Some vm \<Rightarrow> eff_seq (eff_bind (on_az (aa_delete A VMs name)) (\<lambda>r. eff_ret ())) (eff_ret (Some vm))))"

text \<open>The image of a filter: of those that match, the last by name.\<close>

fun keep_if :: "('a \<Rightarrow> bool res) \<Rightarrow> 'a list \<Rightarrow> 'a list res" where
  "keep_if p [] = Inr []"
| "keep_if p (x # xs) = bindE (p x) (\<lambda>b. map_sum id (\<lambda>ys. if b then x # ys else ys) (keep_if p xs))"

definition same_item :: "string \<Rightarrow> json \<Rightarrow> json \<Rightarrow> bool res" where
  "same_item k v x = map_sum id (\<lambda>y. y = v) (jitem x k)"

definition tag_is :: "string \<Rightarrow> json \<Rightarrow> json \<Rightarrow> bool res" where
  "tag_is k v x = bindE (jitem x ''tags'') (\<lambda>t. map_sum id (\<lambda>y. y = v) (jget_or t k JNull))"

definition filter_images :: "pydict \<Rightarrow> json list \<Rightarrow> json list res" where
  "filter_images f is =
     bindE (keep_if (\<lambda>i. map_sum id (\<lambda>s. s = JStr ''Succeeded'') (jpath i [''properties'', ''provisioningState''])) is) (\<lambda>is.
     bindE (case map_of f ''name'' of None \<Rightarrow> Inr is | Some v \<Rightarrow> keep_if (same_item ''name'' v) is) (\<lambda>is.
     bindE (case map_of f ''location'' of None \<Rightarrow> Inr is | Some v \<Rightarrow> keep_if (same_item ''location'' v) is) (\<lambda>is.
       case map_of f ''tags'' of
         None \<Rightarrow> Inr is
       | Some (JDict tags) \<Rightarrow> foldE (\<lambda>(k, v) is. keep_if (tag_is k v) is) tags is
       | Some v \<Rightarrow> Inl AttributeError)))"

definition named_image :: "json \<Rightarrow> (string \<times> json) res" where
  "named_image i = bindE (jitem i ''name'') (\<lambda>n. case n of JStr s \<Rightarrow> Inr (s, i) | _ \<Rightarrow> Inl TypeError)"

definition getImageFromFilter :: "'c az_api \<Rightarrow> pydict \<Rightarrow> ('c, json) az_eff" where
  "getImageFromFilter A f =
     eff_bind (on_az (aa_list A Images)) (\<lambda>is.
     eff_bind (eff_lift (bindE (filter_images f is) (mapE named_image))) (\<lambda>ns.
       if ns = [] then eff_raise GenericException
       else eff_lift (map_sum id (\<lambda>i. JDict [(''id'', i)]) (jitem (snd (last (sort_key fst ns))) ''id''))))"

subsection \<open>The delete machine\<close>

definition AZ_VM_DELETING :: string where "AZ_VM_DELETING = ''deleting vm''"
definition AZ_COMPLETE :: string where "AZ_COMPLETE = ''complete''"

record az_delete =
  zd_name :: string
  zd_vm :: "json option"

type_synonym ('c, 'a) az_del = "(az_delete, 'c az_world, 'a) run_eff"

definition az_getDeleteStateMachine :: "string \<Rightarrow> rat \<Rightarrow> az_delete state_machine" where
  "az_getDeleteStateMachine i clk = (sm_init clk \<lparr> zd_name = i, zd_vm = None \<rparr>)\<lparr> sm_external_id := JStr i \<rparr>"

definition zd_start :: "'c az_api \<Rightarrow> ('c, unit) az_del" where
  "zd_start A =
     eff_bind (get_more zd_name) (\<lambda>i.
     eff_bind (on_world (deleteVirtualMachine A i)) (\<lambda>v.
     eff_seq (upd_more (\<lambda>d. d\<lparr>zd_vm := v\<rparr>)) (goto AZ_VM_DELETING)))"

definition zd_wait :: "'c az_api \<Rightarrow> ('c, unit) az_del" where
  "zd_wait A =
     eff_bind (get_more zd_vm) (\<lambda>v0.
     eff_bind (on_world (az_refresh_delete A v0)) (\<lambda>v.
     eff_seq (upd_more (\<lambda>d. d\<lparr>zd_vm := v\<rparr>))
       (if v \<noteq> None then eff_ret () else eff_seq (goto AZ_COMPLETE) finished)))"

definition az_delete_advance :: "'c az_api \<Rightarrow> ('c, unit option) az_del" where
  "az_delete_advance A =
     then_go (in_state SM_START (go_on (zd_start A)))
     (then_go (in_state AZ_VM_DELETING (go_on (zd_wait A))) (eff_ret None))"

subsection \<open>The create machine\<close>

definition AZ_VM_CREATING :: string where "AZ_VM_CREATING = ''creating vm''"
definition AZ_NIC_QUERY :: string where "AZ_NIC_QUERY = ''querying nic''"
definition AZ_PIP_QUERY :: string where "AZ_PIP_QUERY = ''querying pip''"

record az_create =
  zm_hostname :: string
  zm_label :: az_label
  zm_external :: "string option"
  zm_reference :: json
  zm_tags :: pydict
  zm_vm :: json
  zm_nic :: json
  zm_pip4 :: json
  zm_pip6 :: json

type_synonym ('c, 'a) az_cre = "(az_create, 'c az_world, 'a) run_eff"

definition az_tags :: "az_config \<Rightarrow> az_label \<Rightarrow> node_request \<Rightarrow> (string \<times> string) list \<Rightarrow> pydict" where
  "az_tags cfg l r metadata =
     dict_update
       (foldl (\<lambda>ts (k, v). case zc_format cfg v (request_safe_attributes r) of
                  Inl e \<Rightarrow> ts | Inr s \<Rightarrow> AList.update k (JStr s) ts) (zb_tags l) (zb_dynamic_tags l))
       (map (\<lambda>(k, v). (k, JStr v)) metadata)"

definition az_getCreateStateMachine ::
  "az_config \<Rightarrow> string \<Rightarrow> az_label \<Rightarrow> string option \<Rightarrow> (string \<times> string) list \<Rightarrow> node_request \<Rightarrow> rat \<Rightarrow> az_create state_machine" where
  "az_getCreateStateMachine cfg hostname l external metadata r clk =
     sm_init clk \<lparr> zm_hostname = hostname, zm_label = l, zm_external = external, zm_reference = JNull,
       zm_tags = az_tags cfg l r metadata, zm_vm = JNull, zm_nic = JNull, zm_pip4 = JNull, zm_pip6 = JNull \<rparr>"

definition zm_find_image :: "'c az_api \<Rightarrow> ('c, unit) az_cre" where
  "zm_find_image A =
     eff_bind (get_more (\<lambda>c. zb_cloud_image (zm_label c))) (\<lambda>ci. case ci of
       None \<Rightarrow> eff_ret ()
     | Some i \<Rightarrow> (case zi_filter i of
         JDict (x # xs) \<Rightarrow> eff_bind (on_world (getImageFromFilter A (x # xs))) (\<lambda>r. upd_more (\<lambda>c. c\<lparr>zm_reference := r\<rparr>))
       | _ \<Rightarrow> eff_ret ()))"

definition zm_start :: "'c az_api \<Rightarrow> az_config \<Rightarrow> string \<Rightarrow> ('c, unit) az_cre" where
  "zm_start A cfg pw =
     eff_bind (get_more zm_hostname) (\<lambda>h.
     eff_seq (set_ext (\<lambda>x. JStr h))
     (eff_seq (zm_find_image A)
     (eff_bind (get_more id) (\<lambda>c.
      eff_bind (on_world (createVirtualMachine A cfg (zm_label c) (zm_external c) (zm_reference c) (zm_tags c) h pw)) (\<lambda>v.
      eff_seq (upd_more (\<lambda>c. c\<lparr>zm_vm := v\<rparr>)) (goto AZ_VM_CREATING))))))"

text \<open>The first interface of the machine, with a type of its own.\<close>

definition first_nic :: "json \<Rightarrow> json res" where
  "first_nic vm =
     bindE (jpath vm [''properties'', ''networkProfile'', ''networkInterfaces'']) (\<lambda>ns. case ns of
       JList (JDict n # rest) \<Rightarrow> Inr (JDict (AList.update ''type'' (JStr NIC_TYPE) n))
     | JList [] \<Rightarrow> Inl IndexError
     | _ \<Rightarrow> Inl TypeError)"

definition zm_vm_creating :: "'c az_api \<Rightarrow> ('c, bool) az_cre" where
  "zm_vm_creating A =
     eff_bind (get_more zm_vm) (\<lambda>v0.
     eff_bind (on_world (az_refresh A v0 False)) (\<lambda>v.
     eff_seq (upd_more (\<lambda>c. c\<lparr>zm_vm := v\<rparr>))
     (eff_bind (eff_lift (az_succeeded v)) (\<lambda>ok.
        if ok then eff_bind (eff_lift (first_nic v)) (\<lambda>n.
                go_on (eff_seq (upd_more (\<lambda>c. c\<lparr>zm_nic := n\<rparr>)) (goto AZ_NIC_QUERY)))
        else eff_bind (eff_lift (az_failed v)) (\<lambda>bad. if bad then eff_raise LaunchStatusException else eff_ret False)))))"

definition has_private :: "json \<Rightarrow> bool res" where
  "has_private c = bindE (jitem c ''properties'') (\<lambda>p. jhas p ''privateIPAddress'')"

text \<open>The public addresses an interface refers to, in the order of its configurations.\<close>

definition note_public :: "json \<Rightarrow> ('c, unit) az_cre" where
  "note_public c =
     eff_bind (eff_lift (jitem c ''properties'')) (\<lambda>p.
     eff_bind (eff_lift (jhas p ''publicIPAddress'')) (\<lambda>has.
       if \<not> has then eff_ret ()
       else eff_bind (eff_lift (jitem p ''publicIPAddress'')) (\<lambda>ip.
            eff_bind (eff_lift (jpath ip [''properties'', ''publicIPAddressVersion''])) (\<lambda>ver.
              upd_more (\<lambda>c. if ver = JStr ''IPv4'' then c\<lparr>zm_pip4 := ip\<rparr>
                            else if ver = JStr ''IPv6'' then c\<lparr>zm_pip6 := ip\<rparr> else c)))))"

definition zm_nic_query :: "'c az_api \<Rightarrow> ('c, unit) az_cre" where
  "zm_nic_query A =
     eff_bind (get_more zm_nic) (\<lambda>n0.
     eff_bind (on_world (az_refresh A n0 True)) (\<lambda>n.
     eff_seq (upd_more (\<lambda>c. c\<lparr>zm_nic := n\<rparr>))
     (eff_bind (eff_lift (bindE (ip_configs n) (\<lambda>cs. bindE (mapE has_private cs) (\<lambda>bs. Inr (list_all id bs, cs))))) (\<lambda>(found, cs).
        if found then eff_seq (eff_each note_public cs) (goto AZ_PIP_QUERY) else eff_ret ()))))"

definition has_address :: "json \<Rightarrow> bool res" where
  "has_address ip = bindE (jitem ip ''properties'') (\<lambda>p. jhas p ''ipAddress'')"

text \<open>Refreshes an address, if there is one, and tells whether it is there.\<close>

definition zm_ask :: "'c az_api \<Rightarrow> (az_create \<Rightarrow> json) \<Rightarrow> (json \<Rightarrow> az_create \<Rightarrow> az_create) \<Rightarrow> ('c, bool) az_cre" where
  "zm_ask A fld upd =
     eff_bind (get_more fld) (\<lambda>x0.
       if \<not> truthy x0 then eff_ret True
       else eff_bind (on_world (az_refresh A x0 True)) (\<lambda>x.
            eff_seq (upd_more (upd x)) (eff_lift (has_address x))))"

definition zm_pip_query :: "'c az_api \<Rightarrow> ('c, unit) az_cre" where
  "zm_pip_query A =
     eff_bind (zm_ask A zm_pip4 (\<lambda>x c. c\<lparr>zm_pip4 := x\<rparr>)) (\<lambda>b4.
     eff_bind (zm_ask A zm_pip6 (\<lambda>x c. c\<lparr>zm_pip6 := x\<rparr>)) (\<lambda>b6.
       if b4 \<and> b6 then goto AZ_COMPLETE else eff_ret ()))"

text \<open>The instance is made without the SKU: its own quota is one instance.\<close>

definition zm_result :: "('c, cloud_instance) az_cre" where
  "zm_result =
     eff_bind (get_more id) (\<lambda>c. eff_lift (az_instance_of (zm_vm c) (zm_nic c) (zm_pip4 c) (zm_pip6 c) JNull))"

definition az_create_advance :: "'c az_api \<Rightarrow> az_config \<Rightarrow> string \<Rightarrow> ('c, cloud_instance option) az_cre" where
  "az_create_advance A cfg pw =
     then_go (in_state SM_START (go_on (zm_start A cfg pw)))
     (then_go (in_state AZ_VM_CREATING (zm_vm_creating A))
     (then_go (in_state AZ_NIC_QUERY (go_on (zm_nic_query A)))
     (then_go (in_state AZ_PIP_QUERY (go_on (zm_pip_query A)))
       (in_complete AZ_COMPLETE zm_result))))"

section \<open>The Azure driver: images\<close>

text \<open>
  The upload of an image in \<open>nodepool/driver/azure/adapter.py\<close>: a disk is created and opened for writing, the
  segments are put, and the image is made from the disk, which is deleted. The segments run one
  after the other here, in the order the pool gets them.
\<close>

record 'c az_upload =
  zu_cloud :: 'c
  zu_disk :: "json option"
  zu_url :: "json option"

type_synonym ('c, 'a) az_up = "('c az_upload, 'a) eff"

definition on_up :: "('c, 'a) eff \<Rightarrow> ('c, 'a) az_up" where
  "on_up m = eff_zoom zu_cloud (\<lambda>c u. u\<lparr>zu_cloud := c\<rparr>) m"

definition AZ_SEGMENT_SIZE :: nat where "AZ_SEGMENT_SIZE = 4 * 1024 ^ 2"

definition az_uploadSegment :: "'c az_api \<Rightarrow> nat segment \<Rightarrow> ('c, unit) az_up" where
  "az_uploadSegment A s =
     eff_bind (eff_read (\<lambda>u. case zu_url u of None \<Rightarrow> Inl AttributeError | Some x \<Rightarrow> Inr x)) (\<lambda>url.
     eff_bind (retry (\<lambda>e. True)
       (on_up (aa_chunk A url (sg_offset s) (int (sg_offset s) + int (length (sg_data s)) - 1) (sg_data s))))
     (\<lambda>r. eff_ret ()))"

text \<open>Waits for an operation, which has to succeed.\<close>

definition az_done :: "'c az_api \<Rightarrow> ('c, json) az_up \<Rightarrow> ('c, json) az_up" where
  "az_done A m =
     eff_bind m (\<lambda>r0.
     eff_bind (on_up (aa_wait A r0)) (\<lambda>r.
     eff_bind (eff_lift (jitem r ''status'')) (\<lambda>s.
       if s \<noteq> JStr ''Succeeded'' then eff_raise GenericException else eff_ret r)))"

definition disk_info :: "az_config \<Rightarrow> pydict \<Rightarrow> nat \<Rightarrow> json" where
  "disk_info cfg metadata len =
     JDict [(''location'', JStr (zc_location cfg)), (''tags'', JDict metadata),
       (''properties'', JDict [(''creationData'', JDict [(''createOption'', JStr ''Upload''),
          (''uploadSizeBytes'', JNum (of_nat len))])])]"

definition az_startUpload :: "'c az_api \<Rightarrow> az_config \<Rightarrow> string \<Rightarrow> pydict \<Rightarrow> nat \<Rightarrow> ('c, unit) az_up" where
  "az_startUpload A cfg name metadata len =
     eff_bind (az_done A (on_up (aa_create A Disks name (disk_info cfg metadata len)))) (\<lambda>r.
     eff_bind (eff_lift (jpath r [''properties'', ''output'', ''id''])) (\<lambda>i.
     eff_seq (eff_mod (\<lambda>u. u\<lparr>zu_disk := Some i\<rparr>))
     (eff_bind (az_done A (on_up (aa_post_disk A name ''beginGetAccess''
                  (JDict [(''access'', JStr ''Write''), (''durationInSeconds'', JNum (24 * 60 * 60))])))) (\<lambda>r.
      eff_bind (eff_lift (jpath r [''properties'', ''output'', ''accessSAS''])) (\<lambda>url.
        eff_mod (\<lambda>u. u\<lparr>zu_url := Some url\<rparr>))))))"

definition image_info :: "az_config \<Rightarrow> pydict \<Rightarrow> json \<Rightarrow> json" where
  "image_info cfg metadata disk =
     JDict [(''location'', JStr (zc_location cfg)), (''tags'', JDict metadata),
       (''properties'', JDict [(''hyperVGeneration'', JStr ''V2''),
          (''storageProfile'', JDict [
             (''osDisk'', JDict [(''osType'', JStr ''Linux''), (''managedDisk'', JDict [(''id'', disk)]), (''osState'', JStr ''Generalized'')]),
             (''zoneResilient'', JBool True)])])]"

definition az_finishUpload :: "'c az_api \<Rightarrow> az_config \<Rightarrow> string \<Rightarrow> pydict \<Rightarrow> ('c, unit) az_up" where
  "az_finishUpload A cfg name metadata =
     eff_bind (az_done A (on_up (aa_post_disk A name ''endGetAccess'' (JDict [])))) (\<lambda>r.
     eff_bind (eff_read (\<lambda>u. case zu_disk u of None \<Rightarrow> Inl AttributeError | Some i \<Rightarrow> Inr i)) (\<lambda>disk.
     eff_bind (az_done A (on_up (aa_create A Images name (image_info cfg metadata disk)))) (\<lambda>r.
     eff_bind (az_done A (on_up (aa_delete A Disks name))) (\<lambda>r. eff_ret ()))))"

text \<open>The uploader has no \<open>abortUpload\<close> of its own.\<close>

definition az_upload_all :: "'c az_api \<Rightarrow> az_config \<Rightarrow> string \<Rightarrow> nat list \<Rightarrow> pydict \<Rightarrow> ('c, unit option) az_up" where
  "az_upload_all A cfg name content metadata =
     upload (az_startUpload A cfg name metadata (length content))
       (eff_each (az_uploadSegment A) (segments AZ_SEGMENT_SIZE content))
       (az_finishUpload A cfg name metadata)
       (eff_ret ())"

text \<open>What \<open>upload\<close> returns is not looked at.\<close>

definition az_uploadImage :: "'c az_api \<Rightarrow> az_config \<Rightarrow> string \<Rightarrow> nat list \<Rightarrow> pydict \<Rightarrow> ('c, string) eff" where
  "az_uploadImage A cfg name content metadata c =
     (case az_upload_all A cfg name content metadata \<lparr> zu_cloud = c, zu_disk = None, zu_url = None \<rparr> of
        (Inl e, u) \<Rightarrow> (Inl e, zu_cloud u)
      | (Inr r, u) \<Rightarrow> (Inr name, zu_cloud u))"

definition az_deleteImage :: "'c az_api \<Rightarrow> string \<Rightarrow> ('c, unit) eff" where
  "az_deleteImage A i =
     eff_bind (aa_delete A Images i) (\<lambda>r0.
     eff_bind (aa_wait A r0) (\<lambda>r.
     eff_bind (eff_lift (jitem r ''status'')) (\<lambda>s.
       if s \<noteq> JStr ''Succeeded'' then eff_raise GenericException else eff_ret ())))"

subsection \<open>An upload that fails\<close>

text \<open>After the disk is open for writing nothing makes the upload fail.\<close>

lemma upload_total:
  assumes "begin_it s = (Inr (), t)"
  shows "\<exists>r u. upload begin_it inner end_it (eff_ret ()) s = (Inr r, u)"
proof -
  have "\<exists>r u. eff_try (eff_seq inner (eff_bind end_it (\<lambda>r. eff_ret (Some r))))
      (\<lambda>e. eff_seq (eff_ret ()) (eff_ret None)) t = (Inr r, u)"
    by (auto simp: eff_try_def eff_seq_def eff_ret_def split: prod.splits sum.splits)
  with assms show ?thesis by (simp add: upload_def eff_seq_def eff_bind_def)
qed

lemma az_upload_named:
  assumes "az_startUpload A cfg name metadata (length content) \<lparr> zu_cloud = c, zu_disk = None, zu_url = None \<rparr> = (Inr (), u)"
  shows "fst (az_uploadImage A cfg name content metadata c) = Inr name"
proof -
  obtain r v where "az_upload_all A cfg name content metadata \<lparr> zu_cloud = c, zu_disk = None, zu_url = None \<rparr> = (Inr r, v)"
    using upload_total [where begin_it = "az_startUpload A cfg name metadata (length content)", OF assms,
        of "eff_each (az_uploadSegment A) (segments AZ_SEGMENT_SIZE content)" "az_finishUpload A cfg name metadata"]
    unfolding az_upload_all_def by blast
  then show ?thesis by (simp add: az_uploadImage_def)
qed

subsection \<open>The machines move forward\<close>

lemmas az_states = AZ_VM_DELETING_def AZ_COMPLETE_def AZ_VM_CREATING_def AZ_NIC_QUERY_def AZ_PIP_QUERY_def SM_START_def

definition az_del_order :: "string list" where
  "az_del_order = [SM_START, AZ_VM_DELETING, AZ_COMPLETE]"

definition az_del_rank :: "string \<Rightarrow> nat" where
  "az_del_rank = place_in az_del_order"

definition az_cre_order :: "string list" where
  "az_cre_order = [SM_START, AZ_VM_CREATING, AZ_NIC_QUERY, AZ_PIP_QUERY, AZ_COMPLETE]"

definition az_cre_rank :: "string \<Rightarrow> nat" where
  "az_cre_rank = place_in az_cre_order"

lemma az_ranks [simp]:
  "az_del_rank SM_START = 1" "az_del_rank AZ_VM_DELETING = 2" "az_del_rank AZ_COMPLETE = 3"
  "az_cre_rank SM_START = 1" "az_cre_rank AZ_VM_CREATING = 2" "az_cre_rank AZ_NIC_QUERY = 3"
  "az_cre_rank AZ_PIP_QUERY = 4" "az_cre_rank AZ_COMPLETE = 5"
  by (simp_all add: az_del_rank_def az_cre_rank_def az_del_order_def az_cre_order_def place_in_def az_states)

interpretation az_del: forward_machine "\<lambda>A :: 'c az_api. az_delete_advance A" az_del_rank az_del_order
proof
  show "keeps_inv (at_least az_del_rank k) (az_delete_advance A)" for k and A :: "'c az_api"
    unfolding az_delete_advance_def zd_start_def zd_wait_def
    by (intro keeps keeps_in_state keeps_goto) simp_all
  show "az_del_rank = place_in az_del_order" by (simp add: az_del_rank_def)
qed

interpretation az_cre: forward_machine "\<lambda>(A :: 'c az_api, cfg, pw). az_create_advance A cfg pw" az_cre_rank az_cre_order
proof
  have "keeps_inv (at_least az_cre_rank k) (az_create_advance A cfg pw)" for k cfg pw and A :: "'c az_api"
    unfolding az_create_advance_def zm_start_def zm_find_image_def zm_vm_creating_def zm_nic_query_def zm_pip_query_def
      zm_ask_def note_public_def zm_result_def
    by (intro keeps keeps_in_state keeps_in_complete keeps_goto)
      (auto intro!: keeps keeps_goto split: option.split json.split list.split)
  then show "keeps_inv (at_least az_cre_rank k) (case e of (A :: 'c az_api, cfg, pw) \<Rightarrow> az_create_advance A cfg pw)" for k e
    by (cases e) simp
  show "az_cre_rank = place_in az_cre_order" by (simp add: az_cre_rank_def)
qed

subsection \<open>An instance with its addresses\<close>

text \<open>
  The public addresses of one version that the configurations of an interface refer to, in their order,
  as the data of the interface have them.
\<close>

definition public_ref :: "string \<Rightarrow> json \<Rightarrow> json list" where
  "public_ref v c =
     (case jpath c [''properties'', ''publicIPAddress''] of
        Inl e \<Rightarrow> []
      | Inr ip \<Rightarrow> if jpath ip [''properties'', ''publicIPAddressVersion''] = Inr (JStr v) then [ip] else [])"

definition public_refs :: "string \<Rightarrow> json list \<Rightarrow> json list" where
  "public_refs v cs = concat (map (public_ref v) cs)"

text \<open>A recorded address stands for the last one that the interface refers to.\<close>

definition held :: "json list \<Rightarrow> json \<Rightarrow> bool" where
  "held refs ip \<longleftrightarrow> (refs \<noteq> [] \<longrightarrow> truthy ip \<and> jitem ip ''id'' = jitem (last refs) ''id'')"

definition az_noted :: "az_create \<Rightarrow> bool" where
  "az_noted c \<longleftrightarrow> (\<exists>cs. ip_configs (zm_nic c) = Inr cs \<and> (\<forall>d \<in> set cs. has_private d = Inr True) \<and>
     held (public_refs ''IPv4'' cs) (zm_pip4 c) \<and> held (public_refs ''IPv6'' cs) (zm_pip6 c))"

definition az_addressed :: "az_create \<Rightarrow> bool" where
  "az_addressed c \<longleftrightarrow>
     (truthy (zm_pip4 c) \<longrightarrow> has_address (zm_pip4 c) = Inr True) \<and>
     (truthy (zm_pip6 c) \<longrightarrow> has_address (zm_pip6 c) = Inr True)"

definition az_complete_inv :: "(az_create, 'w) run \<Rightarrow> bool" where
  "az_complete_inv r \<longleftrightarrow>
     (sm_state (ru_machine r) = AZ_PIP_QUERY \<longrightarrow> az_noted (sm_more (ru_machine r))) \<and>
     (sm_state (ru_machine r) = AZ_COMPLETE \<longrightarrow> az_noted (sm_more (ru_machine r)) \<and> az_addressed (sm_more (ru_machine r))) \<and>
     (sm_complete (ru_machine r) \<longrightarrow> sm_state (ru_machine r) = AZ_COMPLETE)"

definition not_yet :: "('m, 'w) run \<Rightarrow> bool" where
  "not_yet r \<longleftrightarrow> sm_state (ru_machine r) \<notin> {AZ_PIP_QUERY, AZ_COMPLETE} \<and> \<not> sm_complete (ru_machine r)"

lemma not_yet_keeps [keeps]:
  "s \<noteq> AZ_COMPLETE \<Longrightarrow> s \<noteq> AZ_PIP_QUERY \<Longrightarrow> keeps_inv not_yet (goto s)"
  "keeps_inv not_yet (upd_more f)" "keeps_inv not_yet (set_ext g)" "keeps_inv not_yet (on_world m)" "keeps_inv not_yet (get_more h)"
  by (auto simp: keeps_inv_def not_yet_def run_ops split: prod.splits)

lemma in_state_inv:
  assumes "\<And>r x t. I r \<Longrightarrow> sm_state (ru_machine r) = s \<Longrightarrow> m r = (x, t) \<Longrightarrow> I t"
  shows "keeps_inv I (in_state s m)"
  using assms by (auto simp: keeps_inv_def in_state_def eff_bind_def eff_get_def eff_ret_def intro: prod.collapse [symmetric])

text \<open>A block of a state before the addresses are asked for that does not go on to them.\<close>

lemma block_before:
  assumes "keeps_inv not_yet m" and "s \<noteq> AZ_COMPLETE" and "s \<noteq> AZ_PIP_QUERY"
  shows "keeps_inv az_complete_inv (in_state s m)"
proof (rule in_state_inv)
  fix r x t assume "az_complete_inv r" "sm_state (ru_machine r) = s" "m r = (x, t)"
  then show "az_complete_inv t"
    using keepsE [OF assms(1), of r] assms(2,3) by (auto simp: az_complete_inv_def not_yet_def)
qed

text \<open>The addresses are noted from the interface's configurations.\<close>

lemma last_last: "last (last (x # xs) # ys) = last (x # xs @ ys)"
  by (cases ys) auto

lemma note_public_done:
  assumes "note_public c r = (Inr u, t)"
  shows "t = r\<lparr>ru_machine := (ru_machine r)\<lparr>sm_more := (sm_more (ru_machine r))\<lparr>
    zm_pip4 := last (zm_pip4 (sm_more (ru_machine r)) # public_ref ''IPv4'' c),
    zm_pip6 := last (zm_pip6 (sm_more (ru_machine r)) # public_ref ''IPv6'' c)\<rparr>\<rparr>\<rparr>"
proof -
  from assms obtain d where d: "jitem c ''properties'' = Inr (JDict d)"
    by (auto simp: note_public_def run_ops elim!: jhas.elims split: sum.splits)
  show ?thesis
  proof (cases "map_of d ''publicIPAddress''")
    case None
    with assms d show ?thesis by (simp add: note_public_def run_ops dhas_def public_ref_def)
  next
    case (Some ip)
    then show ?thesis using assms d
      by (auto simp: note_public_def run_ops dhas_def public_ref_def split: sum.splits)
  qed
qed

lemma note_all_done:
  "eff_each note_public cs r = (Inr u, t) \<Longrightarrow>
    t = r\<lparr>ru_machine := (ru_machine r)\<lparr>sm_more := (sm_more (ru_machine r))\<lparr>
      zm_pip4 := last (zm_pip4 (sm_more (ru_machine r)) # public_refs ''IPv4'' cs),
      zm_pip6 := last (zm_pip6 (sm_more (ru_machine r)) # public_refs ''IPv6'' cs)\<rparr>\<rparr>\<rparr>"
proof (induction cs arbitrary: r)
  case (Cons c cs)
  then obtain r1 where n: "note_public c r = (Inr (), r1)" and rest: "eff_each note_public cs r1 = (Inr u, t)"
    by (auto simp: eff_seq_def eff_bind_Inr)
  show ?case unfolding Cons.IH [OF rest] note_public_done [OF n]
    by (simp only: public_refs_def list.map concat.simps last_last) simp
qed (simp add: eff_ret_def public_refs_def)

lemma refs_truthy: "ip \<in> set (public_refs v cs) \<Longrightarrow> truthy ip"
  by (auto simp: public_refs_def public_ref_def bindE_eq_Inr elim!: jitem.elims split: sum.splits if_splits)

lemma held_last: "held (public_refs v cs) (last (x # public_refs v cs))"
  using refs_truthy [OF last_in_set] by (auto simp: held_def)

lemma mapE_all_True: "mapE f xs = Inr bs \<Longrightarrow> list_all id bs \<Longrightarrow> x \<in> set xs \<Longrightarrow> f x = Inr True"
  by (induction xs arbitrary: bs) (auto simp: bindE_eq_Inr)

lemma nic_query_block: "keeps_inv az_complete_inv (in_state AZ_NIC_QUERY (go_on (zm_nic_query A)))"
proof (rule in_state_inv)
  fix r x t assume inv: "az_complete_inv r" and st: "sm_state (ru_machine r) = AZ_NIC_QUERY"
    and run: "go_on (zm_nic_query A) r = (x, t)"
  from inv st have r: "not_yet r" by (auto simp: az_complete_inv_def not_yet_def az_states)
  obtain n r1 where n: "on_world (az_refresh A (zm_nic (sm_more (ru_machine r))) True) r = (n, r1)" by fastforce
  have r1: "not_yet r1" using keepsE [OF not_yet_keeps(4) r n] .
  have weak: "not_yet t \<Longrightarrow> az_complete_inv t" by (simp add: not_yet_def az_complete_inv_def)
  show "az_complete_inv t"
  proof (cases n)
    case (Inl e)
    with run n r1 weak show ?thesis by (auto simp: zm_nic_query_def go_on_def eff_seq_def eff_bind_def get_more_def eff_get_def)
  next
    case nic: (Inr nic)
    obtain u r2 where u: "upd_more (\<lambda>c. c\<lparr>zm_nic := nic\<rparr>) r1 = (u, r2)" by fastforce
    have r2: "not_yet r2" "zm_nic (sm_more (ru_machine r2)) = nic" "u = Inr ()"
      using keepsE [OF not_yet_keeps(2) r1 u] u by (auto simp: run_ops)
    let ?found = "bindE (ip_configs nic) (\<lambda>cs. bindE (mapE has_private cs) (\<lambda>bs. Inr (list_all id bs, cs)))"
    show ?thesis
    proof (cases ?found)
      case (Inl e)
      with run n nic u r2 weak show ?thesis
        by (auto simp: zm_nic_query_def go_on_def eff_seq_def eff_bind_def get_more_def eff_get_def eff_lift_def)
    next
      case (Inr fc)
      then obtain found cs where fc: "?found = Inr (found, cs)" by (cases fc) auto
      show ?thesis
      proof (cases found)
        case False
        with run n nic u r2 fc weak show ?thesis
          by (auto simp: zm_nic_query_def go_on_def eff_seq_def eff_bind_def get_more_def eff_get_def eff_lift_def eff_ret_def)
      next
        case True
        with fc have cs: "ip_configs nic = Inr cs" "\<forall>d \<in> set cs. has_private d = Inr True"
          by (auto simp: bindE_eq_Inr intro: mapE_all_True)
        obtain y r3 where y: "eff_each note_public cs r2 = (y, r3)" by fastforce
        have each: "keeps_inv not_yet (eff_each note_public cs)"
          unfolding note_public_def by (intro keeps)
        show ?thesis
        proof (cases y)
          case (Inl e)
          with run n nic u r2 fc True y keepsE [OF each r2(1) y] weak show ?thesis
            by (auto simp: zm_nic_query_def go_on_def eff_seq_def eff_bind_def get_more_def eff_get_def eff_lift_def)
        next
          case (Inr v)
          note r3 = note_all_done [OF y [unfolded Inr]]
          have "az_noted (sm_more (ru_machine r3))" "\<not> sm_complete (ru_machine r3)"
            using r2 cs held_last unfolding r3 by (auto simp: az_noted_def not_yet_def)
          with run n nic u r2 fc True y Inr show ?thesis
            by (auto simp: zm_nic_query_def go_on_def eff_seq_def eff_bind_def get_more_def eff_get_def eff_lift_def
                goto_def upd_machine_def eff_mod_def eff_ret_def az_complete_inv_def az_states)
        qed
      qed
    qed
  qed
qed

text \<open>A refreshed object is the same one: it has the same id.\<close>

lemma find_same_id: "find_same x ys = Inr (Some y) \<Longrightarrow> \<exists>i. jitem y ''id'' = Inr i \<and> jitem x ''id'' = Inr i"
  by (induction ys) (auto simp: bindE_eq_Inr split: if_splits)

lemma az_refresh_same:
  assumes "az_refresh A x0 f w = (Inr x, w1)"
  shows "jitem x ''id'' = jitem x0 ''id''" and "truthy x0 \<Longrightarrow> truthy x"
proof -
  have "x = x0 \<or> (\<exists>ys. find_same x0 ys = Inr (Some x))"
    using assms by (auto simp: az_refresh_def az_look_up_def eff_bind_def eff_lift_def eff_ret_def
        split: sum.splits prod.splits if_splits option.splits)
  then have *: "x = x0 \<or> (\<exists>i. jitem x ''id'' = Inr i \<and> jitem x0 ''id'' = Inr i)" using find_same_id by blast
  then show "jitem x ''id'' = jitem x0 ''id''" by auto
  from * show "truthy x0 \<Longrightarrow> truthy x" by (cases x) auto
qed

lemma zm_ask_run:
  assumes "zm_ask A fld upd r = (b, t)"
  shows "sm_state (ru_machine t) = sm_state (ru_machine r) \<and> sm_complete (ru_machine t) = sm_complete (ru_machine r) \<and>
    (sm_more (ru_machine t) = sm_more (ru_machine r) \<and> (b = Inr True \<longrightarrow> \<not> truthy (fld (sm_more (ru_machine r)))) \<or>
     (\<exists>x. sm_more (ru_machine t) = upd x (sm_more (ru_machine r)) \<and> truthy x \<and>
        jitem x ''id'' = jitem (fld (sm_more (ru_machine r))) ''id'' \<and> (b = Inr True \<longrightarrow> has_address x = Inr True)))"
proof (cases "truthy (fld (sm_more (ru_machine r)))")
  case False
  with assms show ?thesis by (auto simp: zm_ask_def run_ops)
next
  case True
  obtain y w1 where y: "az_refresh A (fld (sm_more (ru_machine r))) True (ru_world r) = (y, w1)" by fastforce
  show ?thesis
  proof (cases y)
    case (Inl e)
    with assms True y show ?thesis by (auto simp: zm_ask_def run_ops)
  next
    case (Inr x)
    with assms True y show ?thesis
      using az_refresh_same [of A "fld (sm_more (ru_machine r))" True "ru_world r" x w1]
      by (auto simp: zm_ask_def run_ops)
  qed
qed

lemma pip_query_block: "keeps_inv az_complete_inv (in_state AZ_PIP_QUERY (go_on (zm_pip_query A)))"
proof (rule in_state_inv)
  fix r x t assume inv: "az_complete_inv r" and st: "sm_state (ru_machine r) = AZ_PIP_QUERY"
    and run: "go_on (zm_pip_query A) r = (x, t)"
  then have r: "az_noted (sm_more (ru_machine r))" "\<not> sm_complete (ru_machine r)"
    by (auto simp: az_complete_inv_def az_states)
  obtain b4 r1 where r1: "zm_ask A zm_pip4 (\<lambda>x c. c\<lparr>zm_pip4 := x\<rparr>) r = (b4, r1)" by fastforce
  obtain b6 r2 where r2: "zm_ask A zm_pip6 (\<lambda>x c. c\<lparr>zm_pip6 := x\<rparr>) r1 = (b6, r2)" by fastforce
  have n1: "az_noted (sm_more (ru_machine r1))" using zm_ask_run [OF r1] r by (auto simp: az_noted_def held_def)
  have n2: "az_noted (sm_more (ru_machine r2))" using zm_ask_run [OF r2] n1 by (auto simp: az_noted_def held_def)
  have s: "sm_state (ru_machine r1) = AZ_PIP_QUERY" "sm_state (ru_machine r2) = AZ_PIP_QUERY"
    "\<not> sm_complete (ru_machine r1)" "\<not> sm_complete (ru_machine r2)"
    using zm_ask_run [OF r1] zm_ask_run [OF r2] r st by auto
  show "az_complete_inv t"
  proof (cases "b4 = Inr True \<and> b6 = Inr True")
    case True
    then have "az_addressed (sm_more (ru_machine r2))"
      using zm_ask_run [OF r1] zm_ask_run [OF r2] by (auto simp: az_addressed_def)
    with True r1 r2 n2 s run show ?thesis
      by (auto simp: zm_pip_query_def go_on_def run_ops az_complete_inv_def az_states az_addressed_def az_noted_def)
  next
    case False
    with r1 r2 n1 n2 s run show ?thesis
      by (cases b4; cases b6)
        (auto simp: zm_pip_query_def go_on_def eff_seq_def eff_bind_def eff_ret_def az_complete_inv_def az_states split: if_splits)
  qed
qed

lemma complete_block: "keeps_inv az_complete_inv (in_complete AZ_COMPLETE zm_result)"
  by (auto simp: keeps_inv_def in_complete_def zm_result_def run_ops az_complete_inv_def split: sum.splits)

lemma az_create_complete: "keeps_inv az_complete_inv (az_create_advance A cfg pw)"
proof -
  have "keeps_inv not_yet (go_on (zm_start A cfg pw))"
    unfolding zm_start_def zm_find_image_def
    by (intro keeps) (auto intro!: keeps simp: az_states split: option.split json.split list.split)
  moreover have "keeps_inv not_yet (zm_vm_creating A)"
    unfolding zm_vm_creating_def by (intro keeps) (simp_all add: az_states)
  ultimately show ?thesis
    unfolding az_create_advance_def
    by (intro keeps_then_go block_before nic_query_block pip_query_block complete_block) (simp_all add: az_states)
qed

text \<open>What a complete create machine has.\<close>

lemma complete_addresses:
  assumes "az_noted c" and "az_addressed c"
  shows "\<exists>cs. ip_configs (zm_nic c) = Inr cs \<and> (\<forall>d \<in> set cs. \<exists>a. jpath d [''properties'', ''privateIPAddress''] = Inr a) \<and>
    (\<forall>(v, ip) \<in> {(''IPv4'', zm_pip4 c), (''IPv6'', zm_pip6 c)}. public_refs v cs \<noteq> [] \<longrightarrow>
       jitem ip ''id'' = jitem (last (public_refs v cs)) ''id'' \<and> (\<exists>a. jpath ip [''properties'', ''ipAddress''] = Inr a))"
proof -
  from assms(1) obtain cs where cs: "ip_configs (zm_nic c) = Inr cs" "\<forall>d \<in> set cs. has_private d = Inr True"
    and h: "held (public_refs ''IPv4'' cs) (zm_pip4 c)" "held (public_refs ''IPv6'' cs) (zm_pip6 c)"
    by (auto simp: az_noted_def)
  have priv: "has_private d = Inr True \<Longrightarrow> \<exists>a. jpath d [''properties'', ''privateIPAddress''] = Inr a" for d
    by (auto simp: has_private_def bindE_eq_Inr dhas_def elim!: jhas.elims)
  have addr: "has_address ip = Inr True \<Longrightarrow> \<exists>a. jpath ip [''properties'', ''ipAddress''] = Inr a" for ip
    by (auto simp: has_address_def bindE_eq_Inr dhas_def elim!: jhas.elims)
  show ?thesis
    by (rule exI [of _ cs]) (use cs h assms(2) priv addr in \<open>auto simp: held_def az_addressed_def\<close>)
qed

end
