(* ===== verification/DibFiles.thy ===== *)
theory DibFiles
  imports Eff
begin

section \<open>Images on the builder's disk\<close>

text \<open>
  The images directory of a builder: its files with their text and its directories (a build's
  manifest). The class \<open>DibImageFile\<close>, the removal of a build's files and the names of local builds
  of \<open>nodepool/builder.py\<close>. A path is the name of the entry within the directory.
\<close>

record image_dir =
  id_files :: "(string \<times> string) list"
  id_dirs :: "string list"

type_synonym 'a dir_eff = "(image_dir, 'a) eff"

text \<open>\<open>os.remove\<close> under a handler for a missing file.\<close>

definition removeDibItem :: "string option \<Rightarrow> unit dir_eff" where
  "removeDibItem filename d =
     (case filename of
        None \<Rightarrow> (Inr (), d)
      | Some n \<Rightarrow>
          if map_of (id_files d) n \<noteq> None
          then (Inr (), d\<lparr>id_files := filter (\<lambda>(m, t). m \<noteq> n) (id_files d)\<rparr>)
          else if n \<in> set (id_dirs d) then (Inl (OtherError ''IsADirectoryError''), d)
          else (Inr (), d))"

subsection \<open>Image files\<close>

record dib_image_file =
  df_image_id :: string
  df_extension :: string
  df_md5 :: "string option"
  df_md5_file :: "string option"
  df_sha256 :: "string option"
  df_sha256_file :: "string option"

definition dot :: char where "dot = CHR ''.''"

definition dib_image_file_init :: "string \<Rightarrow> string \<Rightarrow> dib_image_file" where
  "dib_image_file_init image_id extension =
     \<lparr> df_image_id = image_id, df_extension = dropWhile (\<lambda>c. c = dot) extension,
       df_md5 = None, df_md5_file = None, df_sha256 = None, df_sha256_file = None \<rparr>"

text \<open>\<open>Path.stem\<close> and \<open>Path.suffix\<close>: the suffix is neither all of the name nor a dot alone.\<close>

definition last_ext :: "string \<Rightarrow> string" where
  "last_ext name = rev (takeWhile (\<lambda>c. c \<noteq> dot) (rev name))"

definition before_ext :: "string \<Rightarrow> string" where
  "before_ext name = take (length name - Suc (length (last_ext name))) name"

definition has_suffix :: "string \<Rightarrow> bool" where
  "has_suffix name \<longleftrightarrow> dot \<in> set name \<and> last_ext name \<noteq> [] \<and> before_ext name \<noteq> []"

definition path_stem :: "string \<Rightarrow> string" where
  "path_stem name = (if has_suffix name then before_ext name else name)"

definition path_suffix :: "string \<Rightarrow> string" where
  "path_suffix name = (if has_suffix name then dot # last_ext name else [])"

definition from_image_id :: "image_dir \<Rightarrow> string \<Rightarrow> dib_image_file list" where
  "from_image_id d image_id =
     filter (\<lambda>f. df_image_id f = image_id)
       (map (\<lambda>(n, t). dib_image_file_init (path_stem n) (path_suffix n)) (id_files d))"

definition checksum :: "image_dir \<Rightarrow> string \<Rightarrow> string option" where
  "checksum d filename = map_of (id_files d) filename"

text \<open>\<open>to_path\<close> also fills in the checksums; an empty checksum file counts as none.\<close>

definition to_path :: "image_dir \<Rightarrow> dib_image_file \<Rightarrow> string \<times> dib_image_file" where
  "to_path d f =
     (let my_path = df_image_id f @ dot # df_extension f;
          md5_path = my_path @ ''.md5'';
          f1 = (case checksum d md5_path of
                  Some t \<Rightarrow> if t = [] then f
                            else f\<lparr> df_md5_file := Some md5_path, df_md5 := Some (take 32 t) \<rparr>
                | None \<Rightarrow> f);
          sha256_path = my_path @ ''.sha256'';
          f2 = (case checksum d sha256_path of
                  Some t \<Rightarrow> if t = [] then f1
                            else f1\<lparr> df_sha256_file := Some sha256_path, df_sha256 := Some (take 64 t) \<rparr>
                | None \<Rightarrow> f1)
      in (my_path, f2))"

subsection \<open>Removing a build's files\<close>

text \<open>\<open>s.rsplit('.', 1)\<close> unpacked into two names.\<close>

definition rsplit_dot :: "string \<Rightarrow> (string \<times> string) res" where
  "rsplit_dot s = (if dot \<in> set s then Inr (before_ext s, last_ext s) else Inl ValueError)"

definition rmtree :: "string \<Rightarrow> unit dir_eff" where
  "rmtree n d =
     (if n \<in> set (id_dirs d) then (Inr (), d\<lparr>id_dirs := filter (\<lambda>m. m \<noteq> n) (id_dirs d)\<rparr>)
      else if map_of (id_files d) n \<noteq> None then (Inl (OtherError ''NotADirectoryError''), d)
      else (Inr (), d))"

definition build_base :: "string \<Rightarrow> string \<Rightarrow> string" where
  "build_base image_name build_id = py_join ''-'' [image_name, build_id]"

definition remove_image_file :: "dib_image_file \<Rightarrow> string dir_eff" where
  "remove_image_file f =
     eff_bind (eff_get (\<lambda>d. to_path d f)) (\<lambda>(filename, f1).
     eff_bind (eff_lift (rsplit_dot filename)) (\<lambda>(path, ext).
     eff_seq (eff_each removeDibItem [Some filename, df_md5_file f1, df_sha256_file f1])
       (eff_ret (path @ ''.d''))))"

text \<open>The manifest directory is named after the first file.\<close>

definition remove_step :: "dib_image_file \<Rightarrow> string option \<Rightarrow> string option dir_eff" where
  "remove_step f manifest =
     eff_bind (remove_image_file f) (\<lambda>m.
       eff_ret (case manifest of None \<Rightarrow> Some m | Some m0 \<Rightarrow> Some m0))"

definition deleteLocalBuild :: "string \<Rightarrow> string \<Rightarrow> unit dir_eff" where
  "deleteLocalBuild image_name build_id =
     eff_bind (eff_get (\<lambda>d. from_image_id d (build_base image_name build_id))) (\<lambda>files.
       if files = [] then eff_ret ()
       else eff_bind (eff_fold remove_step files None) (\<lambda>manifest. rmtree (the manifest)))"

text \<open>The files of a build whose format is not to be kept; the manifest stays.\<close>

definition prune_files :: "string list \<Rightarrow> string \<Rightarrow> string \<Rightarrow> unit dir_eff" where
  "prune_files to_keep image_name build_id =
     eff_bind (eff_get (\<lambda>d. from_image_id d (build_base image_name build_id)))
       (eff_each (\<lambda>f.
          if df_extension f \<in> set to_keep then eff_ret ()
          else eff_bind (eff_get (\<lambda>d. to_path d f)) (\<lambda>(image_path, f1).
                 eff_each removeDibItem [Some image_path, df_md5_file f1, df_sha256_file f1])))"

subsection \<open>The names of local builds\<close>

text \<open>
  \<open>^(.*)-([abcdef\d]+)\.(?:\w+)$\<close>: neither of the last two parts has a dash or a dot, so the dash is the
  last one of the name and the dot the last one too (ASCII digits and word characters; \<open>$\<close> also
  matches before a final line feed, and \<open>.\<close> does not match one).
\<close>

definition is_hex :: "char \<Rightarrow> bool" where
  "is_hex c \<longleftrightarrow> is_digit c \<or> c \<in> set ''abcdef''"

definition is_word :: "char \<Rightarrow> bool" where
  "is_word c \<longleftrightarrow> is_digit c \<or> c = CHR ''_'' \<or> (CHR ''a'' \<le> c \<and> c \<le> CHR ''z'') \<or>
     (CHR ''A'' \<le> c \<and> c \<le> CHR ''Z'')"

definition newline :: char where "newline = CHR 0x0A"

definition chomp :: "string \<Rightarrow> string" where
  "chomp s = (if s \<noteq> [] \<and> last s = newline then butlast s else s)"

definition match_local_build :: "string \<Rightarrow> (string \<times> string) option" where
  "match_local_build name =
     (let s = chomp name; tail = rev (takeWhile (\<lambda>c. c \<noteq> CHR ''-'') (rev s));
          image_name = take (length s - Suc (length tail)) s;
          hex = before_ext tail; ext = last_ext tail
      in if CHR ''-'' \<in> set s \<and> dot \<in> set tail \<and> newline \<notin> set image_name \<and>
            hex \<noteq> [] \<and> list_all is_hex hex \<and> ext \<noteq> [] \<and> list_all is_word ext
         then Some (image_name, hex) else None)"

fun local_builds :: "string list \<Rightarrow> (string \<times> string) list \<Rightarrow> (string \<times> string) list" where
  "local_builds [] seen = []"
| "local_builds (n # ns) seen =
     (case match_local_build n of
        None \<Rightarrow> local_builds ns seen
      | Some b \<Rightarrow> if b \<in> set seen then local_builds ns seen
                  else b # local_builds ns (seen @ [b]))"

definition getLocalBuilds :: "image_dir \<Rightarrow> (string \<times> string) list" where
  "getLocalBuilds d = local_builds (map fst (id_files d) @ id_dirs d) []"

end
