(* ===== verification/BuilderWorld.thy ===== *)
theory BuilderWorld
  imports DibFiles Config ZkLocks ZkNodes
begin

section \<open>What the workers of a builder share\<close>

text \<open>
  The state the three kinds of workers of \<open>nodepool/builder.py\<close> work on: the ZooKeeper server, the
  images directory, the clouds, and what the workers remember (the table of recent uploads of the
  cleanup worker, the status of each image for the statistics). The image managers of the providers
  are parameters, as are the server and its locks.
\<close>

text \<open>A disk image and a provider as the builder reads them from the configuration.\<close>

record provider_image =
  pi_name :: string
  pi_pause :: bool
  pi_meta :: pydict

record image_provider =
  ip_name :: string
  ip_manage_images :: bool
  ip_image_type :: string
  ip_diskimages :: "(string \<times> provider_image) list"
  ip_image_name_format :: string
  ip_post_upload_hook :: "string option"

record builder_config =
  bc_config :: "image_provider nodepool_config"
  bc_managers :: "string list"        \<comment> \<open>the keys of \<open>provider_managers\<close>\<close>
  bc_builder_id :: string
  bc_hostname :: string
  bc_statsd :: bool                   \<comment> \<open>statistics are sent\<close>

text \<open>
  The manager of a provider: upload (provider, image, name, file, format, metadata, md5, sha256) and
  deletion (provider, name, id) of an image.
\<close>

record 'c image_managers =
  im_upload :: "string \<Rightarrow> string \<Rightarrow> string \<Rightarrow> string \<Rightarrow> string \<Rightarrow> pydict \<Rightarrow> json \<Rightarrow> json \<Rightarrow> ('c, json) eff"
  im_delete :: "string \<Rightarrow> json \<Rightarrow> json \<Rightarrow> ('c, unit) eff"

text \<open>Build id, upload id and time of the recent uploads, by provider and image.\<close>

type_synonym recent_row = "(string \<times> (string \<times> string \<times> json) list) list"
type_synonym recency_table = "(string \<times> recent_row) list"

record ('c, 'z) builder_world =
  bw_zk :: 'z
  bw_dir :: image_dir
  bw_cloud :: 'c
  bw_rtable :: recency_table
  bw_build_status :: "(string \<times> nat) list"
  bw_upload_status :: "((string \<times> string) \<times> nat) list"
  bw_logs :: "(string \<times> rat \<times> string) list"
    \<comment> \<open>the build logs: name, modification time, text\<close>

type_synonym ('c, 'z, 'a) bw_eff = "(('c, 'z) builder_world, 'a) eff"

definition STATUS_IDLE :: nat where "STATUS_IDLE = 0"
definition STATUS_BUILDING :: nat where "STATUS_BUILDING = 1"
definition STATUS_UPLOADING :: nat where "STATUS_UPLOADING = 2"
definition STATUS_PAUSED :: nat where "STATUS_PAUSED = 3"

subsection \<open>Effects on the parts of the state\<close>

definition zk_read :: "('z \<Rightarrow> 'a res) \<Rightarrow> ('c, 'z, 'a) bw_eff" where
  "zk_read f = eff_read (\<lambda>w. f (bw_zk w))"

definition zk_do :: "('z \<Rightarrow> ('a \<times> 'z) res) \<Rightarrow> ('c, 'z, 'a) bw_eff" where
  "zk_do f w = (case f (bw_zk w) of Inl e \<Rightarrow> (Inl e, w) | Inr (x, z) \<Rightarrow> (Inr x, w\<lparr>bw_zk := z\<rparr>))"

definition zk_write :: "('z \<Rightarrow> 'z res) \<Rightarrow> ('c, 'z, unit) bw_eff" where
  "zk_write f = zk_do (\<lambda>z. map_sum id (\<lambda>z'. ((), z')) (f z))"

definition on_zk :: "('z, 'a) eff \<Rightarrow> ('c, 'z, 'a) bw_eff" where
  "on_zk = eff_zoom bw_zk (\<lambda>z. bw_zk_update (\<lambda>_. z))"

definition on_dir :: "'a dir_eff \<Rightarrow> ('c, 'z, 'a) bw_eff" where
  "on_dir = eff_zoom bw_dir (\<lambda>d. bw_dir_update (\<lambda>_. d))"

definition on_clouds :: "('c, 'a) eff \<Rightarrow> ('c, 'z, 'a) bw_eff" where
  "on_clouds = eff_zoom bw_cloud (\<lambda>c. bw_cloud_update (\<lambda>_. c))"

text \<open>The locks, for bodies that work on the whole state.\<close>

definition bw_locks :: "'z locks \<Rightarrow> ('c, 'z) builder_world locks" where
  "bw_locks L =
     \<lparr> lk_acquire = (\<lambda>p i b t e. on_zk (lk_acquire L p i b t e)),
       lk_release = (\<lambda>p. on_zk (lk_release L p)),
       lk_contenders = (\<lambda>p w. lk_contenders L p (bw_zk w)) \<rparr>"

text \<open>\<open>try: m except ZKLockException: h\<close>.\<close>

definition unless_locked :: "('s, 'a) eff \<Rightarrow> 'a \<Rightarrow> ('s, 'a) eff" where
  "unless_locked m x = eff_try m (\<lambda>e. if e = ZKLockException then eff_ret x else eff_raise e)"

text \<open>The names an upload object has; it is read with them, so they are strings.\<close>

fun json_text :: "json \<Rightarrow> string" where
  "json_text (JStr s) = s"
| "json_text _ = ''None''"

definition up_image :: "image_upload \<Rightarrow> string" where
  "up_image u = json_text (iu_image_name u)"

definition up_build :: "image_upload \<Rightarrow> string" where
  "up_build u = json_text (iu_build_id u)"

definition up_provider :: "image_upload \<Rightarrow> string" where
  "up_provider u = json_text (iu_provider_name u)"

definition up_id :: "image_upload \<Rightarrow> string" where
  "up_id u = str_id (o_id u)"

definition set_upload_state :: "zk_state \<Rightarrow> rat \<Rightarrow> image_upload \<Rightarrow> image_upload res" where
  "set_upload_state st now u = set_state IMAGE_UPLOAD_STATES (JStr (state_str st)) now u"

definition set_build_state :: "zk_state \<Rightarrow> rat \<Rightarrow> image_build \<Rightarrow> image_build res" where
  "set_build_state st now b = set_state IMAGE_BUILD_STATES (JStr (state_str st)) now b"

abbreviation (input) bc_images :: "builder_config \<Rightarrow> (string \<times> disk_image) list" where
  "bc_images cfg \<equiv> cf_diskimages (bc_config cfg)"

abbreviation (input) bc_providers :: "builder_config \<Rightarrow> image_provider list" where
  "bc_providers cfg \<equiv> map snd (cf_providers (bc_config cfg))"

end
