(* ===== verification/BuilderBuild.thy ===== *)
theory BuilderBuild
  imports BuilderWorld
begin

section \<open>The build worker\<close>

text \<open>
  The class \<open>BuildWorker\<close> of \<open>nodepool/builder.py\<close>: the pruning of build logs, the command that
  builds an image and the loop that waits for it, the record of a build in ZooKeeper, and the checks
  that start a build because it is due or was asked for. The external command is a parameter: for a
  command line and an environment it fails to start or gives what the loop sees of it until it ends,
  and what it does to the images directory.
\<close>

subsection \<open>Build logs\<close>

type_synonym build_logs = "(string \<times> rat \<times> string) list"

text \<open>\<open>existing[:0 - keep]\<close> of the logs whose name starts with the image's, oldest first.\<close>

definition logs_to_delete :: "nat \<Rightarrow> string \<Rightarrow> build_logs \<Rightarrow> build_logs" where
  "logs_to_delete keep name logs =
     (let existing = sort_key (\<lambda>l. fst (snd l)) (filter (\<lambda>l. startswith (fst l) name) logs)
      in take (length existing - keep) existing)"

definition prune_logs :: "nat \<Rightarrow> string \<Rightarrow> build_logs \<Rightarrow> build_logs" where
  "prune_logs keep name logs =
     filter (\<lambda>l. fst l \<notin> set (map fst (logs_to_delete keep name logs))) logs"

definition pruneBuildLogs :: "json \<Rightarrow> string \<Rightarrow> build_logs \<Rightarrow> build_logs res" where
  "pruneBuildLogs retention name logs =
     bindE (num_of retention) (\<lambda>q.
       if q < 0 then Inr logs
       else if of_int \<lfloor>q\<rfloor> \<noteq> q then Inl TypeError
       else Inr (prune_logs (nat (max \<lfloor>q\<rfloor> 1)) name logs))"

definition getBuildLog :: "string \<Rightarrow> string \<Rightarrow> string" where
  "getBuildLog name build_id = name @ ''-'' @ build_id @ ''.log''"

subsection \<open>The command\<close>

fun contains :: "string \<Rightarrow> string \<Rightarrow> bool" where
  "contains pat [] = (pat = [])"
| "contains pat (c # cs) = (startswith (c # cs) pat \<or> contains pat cs)"

definition DEFAULT_QEMU_IMAGE_COMPAT_OPTIONS :: string where
  "DEFAULT_QEMU_IMAGE_COMPAT_OPTIONS = ''--qemu-img-options '' @ [CHR 0x27] @ ''compat=0.10'' @ [CHR 0x27]"

definition image_path :: "builder_config \<Rightarrow> string \<Rightarrow> string" where
  "image_path cfg name = json_text (cf_images_dir (bc_config cfg)) @ ''/'' @ name"

definition dib_command :: "string \<Rightarrow> builder_config \<Rightarrow> string \<Rightarrow> disk_image \<Rightarrow> string res" where
  "dib_command here cfg build_id d =
     (let img_types = py_join '','' (dk_image_types d);
          qemu = (if contains ''qcow2'' img_types then DEFAULT_QEMU_IMAGE_COMPAT_OPTIONS else '''')
      in bindE (name_of (dk_dib_cmd d)) (\<lambda>dib_cmd.
           Inr (py_replace ''%p'' here dib_cmd @ '' -x -t '' @ img_types @ '' --checksum --no-tmpfs '' @
                qemu @ '' -o '' @ image_path cfg (build_base (dk_name d) build_id) @ '' '' @
                dk_elements_str d)))"

definition dib_environment :: "pydict \<Rightarrow> builder_config \<Rightarrow> string \<Rightarrow> disk_image \<Rightarrow> pydict" where
  "dib_environment environ cfg build_id d =
     dict_update
       (dict_update environ
          ([(''DIB_RELEASE'', dk_release d), (''DIB_IMAGE_NAME'', JStr (dk_name d)),
            (''DIB_IMAGE_FILENAME'', JStr (image_path cfg (build_base (dk_name d) build_id)))] @
           (if truthy (cf_elements_dir (bc_config cfg))
            then [(''ELEMENTS_PATH'', cf_elements_dir (bc_config cfg))] else [])))
       (dk_env_vars d)"

subsection \<open>Waiting for the command\<close>

text \<open>
  What \<open>poll\<close> returns: an event may have data (read in chunks until there is none; the clock is looked
  at afterwards) and may report the end of the process with its exit code. A round is the events of a
  poll and the time since the start when they have been handled; the end of the list is the poll that
  only reports the end.
\<close>

record dib_event =
  de_in :: bool
  de_data :: "string list"
  de_elapsed :: rat
  de_hup :: bool
  de_rc :: int

type_synonym dib_round = "dib_event list \<times> rat"

record dib_run =
  dr_rounds :: "dib_round list"
  dr_rc :: int
  dr_dir :: "image_dir \<Rightarrow> image_dir"   \<comment> \<open>what the command does to the images directory\<close>
  dr_lost :: bool                       \<comment> \<open>the connection to ZooKeeper was lost meanwhile\<close>

text \<open>The events of a round: the exit code if the process ended, and the log.\<close>

fun poll_events :: "rat \<Rightarrow> dib_event list \<Rightarrow> int option \<Rightarrow> string \<Rightarrow> int option \<times> string" where
  "poll_events timeout [] done_rc out = (done_rc, out)"
| "poll_events timeout (e # es) done_rc out =
     (let out1 = (if de_in e then out @ concat (de_data e) else out)
      in if de_in e \<and> de_elapsed e > timeout then (done_rc, out1)
         else poll_events timeout es (if de_hup e then Some (de_rc e) else done_rc) out1)"

definition exit_line :: "int \<Rightarrow> string" where
  "exit_line rc = ''Exit code: '' @ int_str rc @ [newline]"

text \<open>The exit code, whether the build timed out, and the log.\<close>

fun poll_loop :: "rat \<Rightarrow> dib_round list \<Rightarrow> int \<Rightarrow> string \<Rightarrow> int \<times> bool \<times> string" where
  "poll_loop timeout [] last_rc out = (last_rc, False, out @ exit_line last_rc)"
| "poll_loop timeout ((es, elapsed) # rs) last_rc out =
     (case poll_events timeout es None out of
        (Some rc, out1) \<Rightarrow> (rc, False, out1 @ exit_line rc)
      | (None, out1) \<Rightarrow> if elapsed > timeout then (1, True, out1)
                        else poll_loop timeout rs last_rc out1)"

subsection \<open>Building\<close>

definition new_build :: "builder_config \<Rightarrow> disk_image \<Rightarrow> image_build" where
  "new_build cfg d =
     (image_build_init (JStr (dk_name d)) None)
       \<lparr> ib_builder_id := JStr (bc_builder_id cfg), ib_builder := JStr (bc_hostname cfg) \<rparr>"

text \<open>
  The outcome: a lost connection, an exit code other than 0 or a timeout make it a failed build. With
  statistics the size of every image file is read, which raises when one is missing.
\<close>

definition build_result ::
  "builder_config \<Rightarrow> rat \<Rightarrow> string \<Rightarrow> disk_image \<Rightarrow> bool \<Rightarrow> int \<Rightarrow> bool \<Rightarrow> image_dir \<Rightarrow> image_build res" where
  "build_result cfg now build_id d lost rc did_timeout dir =
     (let b = (new_build cfg d)\<lparr> ib_username := dk_username d, ib_python_path := dk_python_path d,
                                 ib_shell_type := dk_shell_type d \<rparr>
      in if lost then set_build_state FAILED now b
         else if rc \<noteq> 0 \<or> did_timeout then set_build_state FAILED now b
         else bindE (set_build_state READY now b) (\<lambda>b1.
           if bc_statsd cfg \<and>
              list_ex (\<lambda>ext. map_of (id_files dir) (build_base (dk_name d) build_id @ dot # ext) = None)
                (py_split (CHR '','') (py_join '','' (dk_image_types d)))
           then Inl (OtherError ''FileNotFoundError'')
           else Inr (b1\<lparr>ib_formats := dk_image_types d\<rparr>)))"

text \<open>\<open>run\<close> starts the command; a failure to start is reported as \<open>BuilderError\<close>.\<close>

definition buildImage ::
  "string \<Rightarrow> pydict \<Rightarrow> (string \<Rightarrow> pydict \<Rightarrow> dib_run res) \<Rightarrow> builder_config \<Rightarrow> rat \<Rightarrow> string \<Rightarrow> disk_image \<Rightarrow>
     ('c, 'z, image_build) bw_eff" where
  "buildImage here environ run cfg now build_id d =
     eff_bind (eff_lift (dib_command here cfg build_id d)) (\<lambda>cmd.
     eff_bind (eff_read (\<lambda>w. pruneBuildLogs (cf_build_log_retention (bc_config cfg)) (dk_name d) (bw_logs w))) (\<lambda>logs.
     eff_seq (eff_mod (\<lambda>w. w\<lparr>bw_logs := logs\<rparr>))
     (eff_bind (eff_lift (case run cmd (dib_environment environ cfg build_id d) of
                            Inl (OtherError e) \<Rightarrow>
                              if e = ''OSError'' then Inl (OtherError ''BuilderError'') else Inl (OtherError e)
                          | r \<Rightarrow> r)) (\<lambda>p.
      eff_bind (eff_lift (num_of (dk_build_timeout d))) (\<lambda>timeout.
      case poll_loop timeout (dr_rounds p) (dr_rc p) '''' of
        (rc, did_timeout, out) \<Rightarrow>
          eff_seq (eff_mod (\<lambda>w. w\<lparr> bw_dir := dr_dir p (bw_dir w),
                       bw_logs := AList.update (getBuildLog (dk_name d) build_id) (now, out) (bw_logs w) \<rparr>))
            (eff_read (\<lambda>w. build_result cfg now build_id d (dr_lost p) rc did_timeout (bw_dir w))))))))"

text \<open>
  The result is recorded. When that fails, because the record was removed meanwhile or for any other
  reason, the files of the build are removed here.
\<close>

definition record_result ::
  "'z kazoo \<Rightarrow> rat \<Rightarrow> disk_image \<Rightarrow> string \<Rightarrow> image_build \<Rightarrow> ('c, 'z, image_build option) bw_eff" where
  "record_result K now d bnum data =
     eff_bind (eff_try (eff_bind (zk_do (storeBuild K (dk_name d) data (Some bnum) '''')) (\<lambda>n. eff_ret True))
                 (\<lambda>e. eff_ret False)) (\<lambda>stored.
       if stored then zk_read (getBuild K (dk_name d) bnum now)
       else eff_seq (on_dir (deleteLocalBuild (dk_name d) bnum))
              (eff_bind (eff_lift (set_build_state FAILED now (data\<lparr>o_id := Some bnum\<rparr>))) (\<lambda>b.
                 eff_ret (Some b))))"

definition buildWrapper ::
  "'z kazoo \<Rightarrow> (string \<Rightarrow> disk_image \<Rightarrow> ('c, 'z, image_build) bw_eff) \<Rightarrow> builder_config \<Rightarrow> rat \<Rightarrow> string \<Rightarrow>
     disk_image \<Rightarrow> ('c, 'z, image_build option) bw_eff" where
  "buildWrapper K build cfg now uuid d =
     eff_bind (eff_lift (set_build_state BUILDING now (new_build cfg d))) (\<lambda>b0.
     let data = b0\<lparr>ib_formats := dk_image_types d\<rparr> in
     eff_bind (zk_do (storeBuild K (dk_name d) data None uuid)) (\<lambda>bnum.
     eff_bind (eff_try (build bnum d) (\<lambda>e. eff_lift (set_build_state FAILED now data)))
       (record_result K now d bnum)))"

subsection \<open>When to build\<close>

definition set_status :: "string \<Rightarrow> nat \<Rightarrow> ('c, 'z, unit) bw_eff" where
  "set_status name st = eff_mod (\<lambda>w. w\<lparr>bw_build_status := AList.update name st (bw_build_status w)\<rparr>)"

text \<open>No build, one that is too old, or one that lacks a format.\<close>

definition build_due :: "rat \<Rightarrow> disk_image \<Rightarrow> image_build option list \<Rightarrow> bool res" where
  "build_due now d builds =
     (case builds of
        [] \<Rightarrow> Inr True
      | b # bs \<Rightarrow>
          bindE (num_of (o_state_time (the b))) (\<lambda>t.
          bindE (num_of (dk_rebuild_age d)) (\<lambda>age.
            Inr (of_int \<lfloor>now\<rfloor> - t \<ge> age \<or>
                 \<not> set (dk_image_types d) \<subseteq> set (formats (the b))))))"

text \<open>\<open>builds2 and builds[0].id != builds2[0].id\<close>.\<close>

definition build_appeared :: "image_build option list \<Rightarrow> image_build option list \<Rightarrow> bool res" where
  "build_appeared builds builds2 =
     (case builds2 of
        [] \<Rightarrow> Inr False
      | b2 # bs2 \<Rightarrow> (case builds of
                       [] \<Rightarrow> Inl IndexError
                     | b # bs \<Rightarrow> Inr (o_id (the b) \<noteq> o_id (the b2))))"

text \<open>The beginning the two checks share: nothing is built of a paused image or without formats.\<close>

definition unless_paused ::
  "'z kazoo \<Rightarrow> disk_image \<Rightarrow> ('c, 'z, unit) bw_eff \<Rightarrow> ('c, 'z, unit) bw_eff" where
  "unless_paused K d m =
     (if truthy (dk_pause d) then set_status (dk_name d) STATUS_PAUSED
      else eff_bind (zk_read (getImagePaused K (dk_name d))) (\<lambda>paused.
        if paused then set_status (dk_name d) STATUS_PAUSED
        else eff_seq (set_status (dk_name d) STATUS_IDLE)
               (if dk_image_types d = [] then eff_ret () else m)))"

type_synonym ('c, 'z) builds = "disk_image \<Rightarrow> ('c, 'z, image_build option) bw_eff"

definition checkImageForScheduledImageUpdates ::
  "'z kazoo \<Rightarrow> 'z locks \<Rightarrow> ('c, 'z) builds \<Rightarrow> rat \<Rightarrow> disk_image \<Rightarrow> ('c, 'z, unit) bw_eff" where
  "checkImageForScheduledImageUpdates K L wrapper now d =
     unless_paused K d
       (eff_bind (zk_read (getMostRecentBuilds K (Some 1) (dk_name d) (Some READY) now)) (\<lambda>builds.
        eff_bind (eff_lift (build_due now d builds)) (\<lambda>due.
        if \<not> due then eff_ret ()
        else eff_finally
          (unless_locked
             (imageBuildLock (bw_locks L) (dk_name d) False None
                (eff_bind (zk_read (getMostRecentBuilds K (Some 1) (dk_name d) (Some READY) now)) (\<lambda>builds2.
                 eff_bind (eff_lift (build_appeared builds builds2)) (\<lambda>appeared.
                 if appeared then eff_ret ()
                 else eff_seq (set_status (dk_name d) STATUS_BUILDING)
                        (eff_bind (wrapper d) (\<lambda>b. eff_ret ()))))))
             ())
          (set_status (dk_name d) STATUS_IDLE))))"

definition checkImageForManualBuildRequest ::
  "'z kazoo \<Rightarrow> 'z locks \<Rightarrow> ('c, 'z) builds \<Rightarrow> disk_image \<Rightarrow> ('c, 'z, unit) bw_eff" where
  "checkImageForManualBuildRequest K L wrapper d =
     unless_paused K d
       (eff_bind (eff_get (\<lambda>w. hasBuildRequest K (dk_name d) (bw_zk w))) (\<lambda>asked.
        if \<not> asked then eff_ret ()
        else eff_finally
          (unless_locked
             (imageBuildLock (bw_locks L) (dk_name d) False None
                (eff_bind (eff_get (\<lambda>w. hasBuildRequest K (dk_name d) (bw_zk w))) (\<lambda>still.
                 if \<not> still then eff_ret ()
                 else eff_seq (set_status (dk_name d) STATUS_BUILDING)
                   (eff_bind (wrapper d) (\<lambda>b.
                      eff_when (case b of None \<Rightarrow> False | Some x \<Rightarrow> o_state x = Some READY)
                        (zk_write (removeBuildRequest K (dk_name d))))))))
             ())
          (set_status (dk_name d) STATUS_IDLE)))"

text \<open>
  The loops over the images: they end when the worker is to stop or the connection is gone
  (\<open>running\<close>), and when the configuration has changed (\<open>recent\<close>, which reads the file system).
\<close>

fun check_images ::
  "(string \<Rightarrow> bool) \<Rightarrow> (string \<Rightarrow> bool res) \<Rightarrow> (disk_image \<Rightarrow> ('c, 'z, unit) bw_eff) \<Rightarrow> disk_image list \<Rightarrow>
     ('c, 'z, unit) bw_eff" where
  "check_images running recent check [] = eff_ret ()"
| "check_images running recent check (d # ds) =
     (if \<not> running (dk_name d) then eff_ret ()
      else eff_bind (eff_try
          (eff_bind (eff_lift (recent (dk_name d))) (\<lambda>ok.
             if ok then eff_seq (check d) (eff_ret True) else eff_ret False))
          (\<lambda>e. eff_ret True)) (\<lambda>go_on.
        if go_on then check_images running recent check ds else eff_ret ()))"

definition checkForScheduledImageUpdates ::
  "'z kazoo \<Rightarrow> 'z locks \<Rightarrow> ('c, 'z) builds \<Rightarrow> builder_config \<Rightarrow> (string \<Rightarrow> bool) \<Rightarrow> (string \<Rightarrow> bool res) \<Rightarrow>
     rat \<Rightarrow> ('c, 'z, unit) bw_eff" where
  "checkForScheduledImageUpdates K L wrapper cfg running recent now =
     check_images running recent (checkImageForScheduledImageUpdates K L wrapper now)
       (map snd (bc_images cfg))"

definition checkForManualBuildRequest ::
  "'z kazoo \<Rightarrow> 'z locks \<Rightarrow> ('c, 'z) builds \<Rightarrow> builder_config \<Rightarrow> (string \<Rightarrow> bool) \<Rightarrow> (string \<Rightarrow> bool res) \<Rightarrow>
     ('c, 'z, unit) bw_eff" where
  "checkForManualBuildRequest K L wrapper cfg running recent =
     check_images running recent (checkImageForManualBuildRequest K L wrapper) (map snd (bc_images cfg))"

end
