(* ===== verification/BuilderUpload.thy ===== *)
theory BuilderUpload
  imports BuilderBuild
begin

section \<open>The upload worker\<close>

text \<open>
  The class \<open>UploadWorker\<close> of \<open>nodepool/builder.py\<close>: the upload of an image file to a provider, and the
  check whether a provider's image has to be uploaded. The post-upload hook is an external command, a
  parameter.
\<close>

subsection \<open>The name of the image\<close>

lemma dropWhile_shorter: "length (dropWhile P cs) - k < Suc (length cs)"
  using length_dropWhile_le [of P cs] by simp

text \<open>
  \<open>str.format\<close> with named fields: doubled braces stand for themselves; fields with a conversion, a
  format specification, an attribute or an index are not modelled.
\<close>

function py_format :: "(string \<times> string) list \<Rightarrow> string \<Rightarrow> string res" where
  "py_format env [] = Inr []"
| "py_format env (c # cs) =
     (if c = CHR ''{'' then
        (if startswith cs ''{'' then map_sum id (\<lambda>r. c # r) (py_format env (drop 1 cs))
         else let field = takeWhile (\<lambda>x. x \<noteq> CHR ''}'') cs; rest = dropWhile (\<lambda>x. x \<noteq> CHR ''}'') cs in
           if rest = [] then Inl ValueError
           else if set field \<inter> set ''{!:.['' \<noteq> {} then Inl (OtherError ''not modelled'')
           else case map_of env field of
                  None \<Rightarrow> Inl KeyError
                | Some v \<Rightarrow> map_sum id (\<lambda>r. v @ r) (py_format env (drop 1 rest)))
      else if c = CHR ''}'' then
        (if startswith cs ''}'' then map_sum id (\<lambda>r. c # r) (py_format env (drop 1 cs))
         else Inl ValueError)
      else map_sum id (\<lambda>r. c # r) (py_format env cs))"
  by pat_completeness auto

termination
  by (relation "measure (\<lambda>(env, s). length s)") (auto simp: dropWhile_shorter)

subsection \<open>Uploading\<close>

definition upload_failed :: "rat \<Rightarrow> image_upload res" where
  "upload_failed now = set_upload_state FAILED now (image_upload_init JNull JNull JNull None)"

definition upload_ready ::
  "rat \<Rightarrow> json \<Rightarrow> string \<Rightarrow> string \<Rightarrow> json \<Rightarrow> json \<Rightarrow> json \<Rightarrow> image_upload res" where
  "upload_ready now external_id external_name fmt username python_path shell_type =
     bindE (set_upload_state READY now (image_upload_init JNull JNull JNull None)) (\<lambda>u.
       Inr (u\<lparr> iu_external_id := external_id, iu_external_name := JStr external_name,
               iu_format := JStr fmt, iu_username := username, iu_python_path := python_path,
               iu_shell_type := shell_type \<rparr>))"

definition str_json :: "string option \<Rightarrow> json" where
  "str_json s = (case s of None \<Rightarrow> JNull | Some t \<Rightarrow> JStr t)"

definition upload_meta ::
  "builder_config \<Rightarrow> provider_image \<Rightarrow> string \<Rightarrow> string \<Rightarrow> string \<Rightarrow> pydict res" where
  "upload_meta cfg pim image_name build_id upload_id =
     (case map_of (bc_images cfg) image_name of
        None \<Rightarrow> Inl KeyError
      | Some d \<Rightarrow> bindE (dict_of (dk_meta d)) (\<lambda>m.
          Inr (dict_update (dict_update m (pi_meta pim))
                 [(''nodepool_build_id'', JStr build_id), (''nodepool_upload_id'', JStr upload_id)])))"

text \<open>
  The hook: when it fails the image is to be deleted from the provider again, with a call that lacks
  the image's id; the \<open>TypeError\<close> it raises is only logged.
\<close>

definition run_hook ::
  "(string \<Rightarrow> string \<Rightarrow> json \<Rightarrow> string \<Rightarrow> ('c, unit) eff) \<Rightarrow> image_provider \<Rightarrow> json \<Rightarrow> string \<Rightarrow>
     ('c, 'z, bool) bw_eff" where
  "run_hook hook p external_id filename =
     (case ip_post_upload_hook p of
        None \<Rightarrow> eff_ret True
      | Some h \<Rightarrow>
          if h = [] then eff_ret True
          else eff_try (eff_seq (on_clouds (hook h (ip_name p) external_id filename)) (eff_ret True))
                 (\<lambda>e. eff_seq (eff_ignore (eff_raise TypeError)) (eff_ret False)))"

definition uploadImage_of ::
  "'c image_managers \<Rightarrow> (string \<Rightarrow> string \<Rightarrow> json \<Rightarrow> string \<Rightarrow> ('c, unit) eff) \<Rightarrow> builder_config \<Rightarrow> rat \<Rightarrow>
     string \<Rightarrow> string \<Rightarrow> string \<Rightarrow> dib_image_file list \<Rightarrow> image_provider \<Rightarrow> json \<Rightarrow> json \<Rightarrow> json \<Rightarrow>
     ('c, 'z, image_upload) bw_eff" where
  "uploadImage_of M hook cfg now build_id upload_id image_name images p username python_path shell_type =
     (case find (\<lambda>i. ip_image_type p = df_extension i) images of
        None \<Rightarrow> eff_raise (OtherError ''BuilderInvalidCommandError'')
      | Some img \<Rightarrow>
          eff_bind (eff_get (\<lambda>w. to_path (bw_dir w) img)) (\<lambda>(name, img1).
          let filename = image_path cfg name in
          eff_bind (eff_lift (py_format [(''image_name'', image_name), (''upload_id'', upload_id),
                                (''timestamp'', int_str \<lfloor>now\<rfloor>)] (ip_image_name_format p))) (\<lambda>ext_image_name.
          if ip_name p \<notin> set (bc_managers cfg) then eff_raise KeyError
          else case map_of (ip_diskimages p) image_name of
            None \<Rightarrow> eff_raise (OtherError ''BuilderInvalidCommandError'')
          | Some pim \<Rightarrow>
              eff_bind (eff_lift (upload_meta cfg pim image_name build_id upload_id)) (\<lambda>meta.
              eff_bind (eff_try
                  (eff_bind (on_clouds (im_upload M (ip_name p) (pi_name pim) ext_image_name filename
                       (df_extension img1) meta (str_json (df_md5 img1)) (str_json (df_sha256 img1))))
                     (\<lambda>external_id. eff_ret (Some external_id)))
                  (\<lambda>e. eff_ret None)) (\<lambda>uploaded.
              case uploaded of
                None \<Rightarrow> eff_lift (upload_failed now)
              | Some external_id \<Rightarrow>
                  eff_bind (run_hook hook p external_id filename) (\<lambda>hook_ok.
                  if \<not> hook_ok then eff_lift (upload_failed now)
                  else eff_lift (upload_ready now external_id ext_image_name (df_extension img1)
                         username python_path shell_type)))))))"

subsection \<open>When to upload\<close>

definition set_upload_status :: "string \<Rightarrow> string \<Rightarrow> nat \<Rightarrow> ('c, 'z, unit) bw_eff" where
  "set_upload_status img provider st =
     eff_mod (\<lambda>w. w\<lparr>bw_upload_status := AList.update (img, provider) st (bw_upload_status w)\<rparr>)"

definition ready_uploads ::
  "'z kazoo \<Rightarrow> rat \<Rightarrow> string \<Rightarrow> string \<Rightarrow> string \<Rightarrow> ('c, 'z, image_upload list) bw_eff" where
  "ready_uploads K now img build_id provider =
     zk_read (getMostRecentBuildImageUploads K (Some 1) img build_id provider (Some READY) now)"

type_synonym ('c, 'z) uploader =
  "string \<Rightarrow> string \<Rightarrow> string \<Rightarrow> dib_image_file list \<Rightarrow> image_provider \<Rightarrow> json \<Rightarrow> json \<Rightarrow> json \<Rightarrow>
     ('c, 'z, image_upload) bw_eff"

text \<open>The part under the lock: checked again, recorded as uploading, uploaded, recorded.\<close>

definition upload_locked ::
  "'z kazoo \<Rightarrow> ('c, 'z) uploader \<Rightarrow> rat \<Rightarrow> image_provider \<Rightarrow> string \<Rightarrow> image_build \<Rightarrow>
     dib_image_file list \<Rightarrow> ('c, 'z, bool) bw_eff" where
  "upload_locked K up now p img b local_images =
     (let build_id = str_id (o_id b) in
      eff_bind (ready_uploads K now img build_id (ip_name p)) (\<lambda>us.
      if us \<noteq> [] then eff_ret False
      else eff_bind (zk_read (getBuild K img build_id now)) (\<lambda>found.
      if (case found of None \<Rightarrow> True | Some x \<Rightarrow> o_state x = Some DELETING) then eff_ret False
      else eff_bind (eff_lift (set_upload_state UPLOADING now (image_upload_init JNull JNull JNull None))) (\<lambda>u0.
      eff_bind (zk_do (storeImageUpload K img build_id (ip_name p)
                  (u0\<lparr> iu_username := ib_username b, iu_python_path := ib_python_path b,
                       iu_shell_type := ib_shell_type b \<rparr>) None)) (\<lambda>upnum.
      eff_seq (set_upload_status img (ip_name p) STATUS_UPLOADING)
      (eff_bind (up build_id upnum img local_images p (ib_username b) (ib_python_path b) (ib_shell_type b)) (\<lambda>data.
       eff_bind (zk_do (storeImageUpload K img build_id (ip_name p) data (Some upnum))) (\<lambda>n.
         eff_ret (o_state data = Some READY)))))))))"

definition upload_image_file ::
  "'z kazoo \<Rightarrow> 'z locks \<Rightarrow> ('c, 'z) uploader \<Rightarrow> rat \<Rightarrow> image_provider \<Rightarrow> string \<Rightarrow> image_build \<Rightarrow>
     dib_image_file list \<Rightarrow> ('c, 'z, bool) bw_eff" where
  "upload_image_file K L up now p img b local_images =
     eff_finally
       (unless_locked
          (imageUploadLock (bw_locks L) img (str_id (o_id b)) (ip_name p) False None
             (upload_locked K up now p img b local_images))
          False)
       (set_upload_status img (ip_name p) STATUS_IDLE)"

definition checkProviderImageUpload ::
  "'z kazoo \<Rightarrow> 'z locks \<Rightarrow> ('c, 'z) uploader \<Rightarrow> rat \<Rightarrow> image_provider \<Rightarrow> provider_image \<Rightarrow>
     ('c, 'z, bool) bw_eff" where
  "checkProviderImageUpload K L up now p im =
     (case map_of (ip_diskimages p) (pi_name im) of
        None \<Rightarrow> eff_raise AttributeError
      | Some im1 \<Rightarrow>
          if pi_pause im1
          then eff_seq (set_upload_status (pi_name im) (ip_name p) STATUS_PAUSED) (eff_ret False)
          else eff_seq (set_upload_status (pi_name im) (ip_name p) STATUS_IDLE)
            (eff_bind (zk_read (getMostRecentBuilds K (Some 1) (pi_name im) (Some READY) now)) (\<lambda>builds.
             case builds of
               [] \<Rightarrow> eff_ret False
             | bo # bs \<Rightarrow>
                 let b = the bo in
                 eff_bind (eff_get (\<lambda>w. from_image_id (bw_dir w) (build_base (pi_name im) (str_id (o_id b)))))
                   (\<lambda>local_images.
                 if local_images = [] then eff_ret False
                 else eff_bind (ready_uploads K now (pi_name im) (str_id (o_id b)) (ip_name p)) (\<lambda>us.
                   if us \<noteq> [] then eff_ret False
                   else if ip_image_type p \<notin> set (formats b) then eff_ret False
                   else upload_image_file K L up now p (pi_name im) b local_images)))))"

text \<open>The loop over providers and images ends after the first upload that succeeded.\<close>

fun upload_round ::
  "(string \<Rightarrow> bool) \<Rightarrow> (image_provider \<Rightarrow> provider_image \<Rightarrow> ('c, 'z, bool) bw_eff) \<Rightarrow>
     (image_provider \<times> provider_image) list \<Rightarrow> ('c, 'z, unit) bw_eff" where
  "upload_round running check [] = eff_ret ()"
| "upload_round running check ((p, im) # rest) =
     (if \<not> running (pi_name im) then eff_ret ()
      else eff_bind (eff_try (check p im) (\<lambda>e. eff_ret False)) (\<lambda>uploaded.
        if uploaded then eff_ret () else upload_round running check rest))"

definition checkForProviderUploads ::
  "'z kazoo \<Rightarrow> 'z locks \<Rightarrow> ('c, 'z) uploader \<Rightarrow> builder_config \<Rightarrow> (string \<Rightarrow> bool) \<Rightarrow> rat \<Rightarrow>
     ('c, 'z, unit) bw_eff" where
  "checkForProviderUploads K L up cfg running now =
     upload_round running (checkProviderImageUpload K L up now)
       (concat (map (\<lambda>p. if ip_manage_images p then map (\<lambda>(n, im). (p, im)) (ip_diskimages p) else [])
          (bc_providers cfg)))"

end
