(* ===== verification/Azul.thy ===== *)
theory Azul
  imports Azure BuilderUpload
begin

section \<open>The Azure client\<close>

text \<open>
  \<open>nodepool/driver/azure/azul.py\<close>: the addresses of collections and objects, requests with the token they carry,
  listings page by page, and waiting for operations that Azure carries out after its answer. The HTTP
  library is a function over an abstract network; the clock is a stream of readings, one for
  each call of \<open>time.time\<close>. Loops that depend on what Azure answers take fuel.
\<close>

subsection \<open>Requests\<close>

record http_response =
  hr_status :: int
  hr_json :: "json option"                     \<comment> \<open>\<open>None\<close>: no text\<close>
  hr_headers :: "(string \<times> string) list"

text \<open>The client: its network, its token and when that expires, and the clock.\<close>

record 'c azul =
  zz_net :: 'c
  zz_token :: string
  zz_expires :: rat
  zz_clock :: "nat \<Rightarrow> rat"
  zz_ticks :: nat

type_synonym ('c, 'a) azul_eff = "('c azul, 'a) eff"

record 'c http =
  ht_send :: "string \<Rightarrow> string \<Rightarrow> json option \<Rightarrow> string \<Rightarrow> ('c, http_response) eff"
    \<comment> \<open>method, address, data and token\<close>
  ht_login :: "string \<Rightarrow> pydict \<Rightarrow> ('c, string \<times> rat) eff"       \<comment> \<open>token and \<open>expires_on\<close>\<close>

definition on_net :: "('c, 'a) eff \<Rightarrow> ('c, 'a) azul_eff" where
  "on_net m = eff_zoom zz_net (\<lambda>c z. z\<lparr>zz_net := c\<rparr>) m"

text \<open>\<open>time.time()\<close>.\<close>

definition azul_time :: "('c, rat) azul_eff" where
  "azul_time z = (Inr (zz_clock z (zz_ticks z)), z\<lparr>zz_ticks := Suc (zz_ticks z)\<rparr>)"

definition AUTH_URL :: string where
  "AUTH_URL = ''https://login.microsoftonline.com/{tenantId}/oauth2/token''"

text \<open>A token is fetched when the one there is has less than a minute to go.\<close>

definition auth_refresh :: "'c http \<Rightarrow> (string \<times> string) list \<Rightarrow> ('c, unit) azul_eff" where
  "auth_refresh H credential =
     eff_bind azul_time (\<lambda>now.
     eff_bind (eff_get zz_expires) (\<lambda>expires.
       if expires - now < 60
       then eff_bind (eff_lift (py_format credential AUTH_URL)) (\<lambda>url.
            eff_bind (eff_lift (case (map_of credential ''clientId'', map_of credential ''clientSecret'') of
                                  (Some i, Some s) \<Rightarrow> Inr (i, s) | _ \<Rightarrow> Inl KeyError)) (\<lambda>(i, s).
            eff_bind (on_net (ht_login H url
                [(''grant_type'', JStr ''client_credentials''), (''client_id'', JStr i), (''client_secret'', JStr s),
                 (''resource'', JStr ''https://management.azure.com/'')])) (\<lambda>(token, until).
              eff_mod (\<lambda>z. z\<lparr>zz_token := token, zz_expires := until\<rparr>))))
       else eff_ret ()))"

text \<open>An answer with the response it was read from and the time it was last asked about.\<close>

record az_answer =
  an_value :: json
  an_headers :: "(string \<times> string) list"
  an_retry :: rat

definition azure_error :: "int \<Rightarrow> json option \<Rightarrow> pyexc" where
  "azure_error status text =
     (case text of
        None \<Rightarrow> JSONDecodeError
      | Some err \<Rightarrow>
          (case bindE (jitem err ''error'') (\<lambda>e. bindE (jitem e ''code'') (\<lambda>c. jitem e ''message'')) of
             Inl e \<Rightarrow> e
           | Inr m \<Rightarrow> OtherError (if status = 404 then ''AzureNotFoundError'' else ''AzureError'')))"

definition azul_request ::
  "'c http \<Rightarrow> (string \<times> string) list \<Rightarrow> string \<Rightarrow> string \<Rightarrow> json option \<Rightarrow> int list \<Rightarrow> ('c, az_answer) azul_eff" where
  "azul_request H credential verb url data codes =
     eff_seq (auth_refresh H credential)
     (eff_bind (eff_get zz_token) (\<lambda>token.
      eff_bind (on_net (ht_send H verb url data token)) (\<lambda>r.
        if hr_status r \<in> set codes
        then eff_bind azul_time (\<lambda>now. eff_ret \<lparr> an_value = (case hr_json r of None \<Rightarrow> JDict [] | Some v \<Rightarrow> v),
                                              an_headers = hr_headers r, an_retry = now \<rparr>)
        else eff_raise (azure_error (hr_status r) (hr_json r)))))"

definition azul_get where "azul_get H cr url = azul_request H cr ''GET'' url None [200]"
definition azul_put where "azul_put H cr url data = azul_request H cr ''PUT'' url (Some data) [200, 201, 202]"
definition azul_post where "azul_post H cr url data = azul_request H cr ''POST'' url (Some data) [200, 202]"
definition azul_del where "azul_del H cr url = azul_request H cr ''DELETE'' url None [200, 201, 202, 204]"

subsection \<open>Addresses\<close>

record az_crud =
  zr_base :: string
  zr_args :: "(string \<times> string) list"

definition SUBSCRIPTION_URL :: string where
  "SUBSCRIPTION_URL = ''https://management.azure.com/subscriptions/{subscriptionId}/''"


definition RESOURCE_URL :: string where
  "RESOURCE_URL = ''resourceGroups/{resourceGroupName}/providers/{providerId}/{resource}/{resourceName}''"
definition NETWORK_URL :: string where
  "NETWORK_URL = ''resourceGroups/{resourceGroupName}/providers/Microsoft.Network/virtualNetworks/{virtualNetworkName}/{resource}/{resourceName}''"
definition LOCATION_URL :: string where "LOCATION_URL = ''providers/{providerId}/locations/{location}/{resource}''"
definition PROVIDER_URL :: string where "PROVIDER_URL = ''providers/{providerId}/{resource}/''"

definition crud_init :: "string \<Rightarrow> (string \<times> string) list \<Rightarrow> (string \<times> string) list \<Rightarrow> az_crud" where
  "crud_init base credential kw = \<lparr> zr_base = base, zr_args = dict_update kw credential \<rparr>"

definition crud_url :: "az_crud \<Rightarrow> string option \<Rightarrow> (string \<times> string) list \<Rightarrow> string res" where
  "crud_url x endpoint kw =
     py_format (dict_update (zr_args x) kw)
       (SUBSCRIPTION_URL @ zr_base x @ (case endpoint of None \<Rightarrow> [] | Some e \<Rightarrow> ''/'' @ e) @ ''?api-version={apiVersion}'')"

definition id_url :: "az_crud \<Rightarrow> string \<Rightarrow> (string \<times> string) list \<Rightarrow> string res" where
  "id_url x url kw =
     py_format (dict_update (zr_args x) kw) (''https://management.azure.com'' @ url @ ''?api-version={apiVersion}'')"

text \<open>\<open>paginate\<close>: as long as an answer has a \<open>nextLink\<close>.\<close>

fun paginate ::
  "'c http \<Rightarrow> (string \<times> string) list \<Rightarrow> json \<Rightarrow> json list \<Rightarrow> nat \<Rightarrow> ('c, json list option) azul_eff" where
  "paginate H cr data found 0 = eff_ret None"
| "paginate H cr data found (Suc fuel) =
     eff_bind (eff_lift (jhas data ''nextLink'')) (\<lambda>more.
       if \<not> more then eff_ret (Some found)
       else eff_bind (eff_lift (bindE (jitem data ''nextLink'') (\<lambda>u. case u of JStr s \<Rightarrow> Inr s | _ \<Rightarrow> Inl TypeError))) (\<lambda>url.
            eff_bind (azul_get H cr url) (\<lambda>a.
            eff_bind (eff_lift (bindE (jitem (an_value a) ''value'') jlist)) (\<lambda>xs.
              paginate H cr (an_value a) (found @ xs) fuel))))"

definition crud_list ::
  "'c http \<Rightarrow> (string \<times> string) list \<Rightarrow> az_crud \<Rightarrow> (string \<times> string) list \<Rightarrow> nat \<Rightarrow> ('c, json list option) azul_eff" where
  "crud_list H cr x kw fuel =
     eff_bind (eff_lift (crud_url x None kw)) (\<lambda>url.
     eff_bind (azul_get H cr url) (\<lambda>a.
     eff_bind (eff_lift (bindE (jitem (an_value a) ''value'') jlist)) (\<lambda>xs. paginate H cr (an_value a) xs fuel)))"

definition crud_get :: "'c http \<Rightarrow> (string \<times> string) list \<Rightarrow> az_crud \<Rightarrow> (string \<times> string) list \<Rightarrow> ('c, az_answer) azul_eff" where
  "crud_get H cr x kw = eff_bind (eff_lift (crud_url x None kw)) (azul_get H cr)"

definition crud_create ::
  "'c http \<Rightarrow> (string \<times> string) list \<Rightarrow> az_crud \<Rightarrow> json \<Rightarrow> (string \<times> string) list \<Rightarrow> ('c, az_answer) azul_eff" where
  "crud_create H cr x params kw = eff_bind (eff_lift (crud_url x None kw)) (\<lambda>url. azul_put H cr url params)"

definition crud_delete :: "'c http \<Rightarrow> (string \<times> string) list \<Rightarrow> az_crud \<Rightarrow> (string \<times> string) list \<Rightarrow> ('c, az_answer) azul_eff" where
  "crud_delete H cr x kw = eff_bind (eff_lift (crud_url x None kw)) (azul_del H cr)"

definition crud_post ::
  "'c http \<Rightarrow> (string \<times> string) list \<Rightarrow> az_crud \<Rightarrow> string \<Rightarrow> json \<Rightarrow> (string \<times> string) list \<Rightarrow> ('c, az_answer) azul_eff" where
  "crud_post H cr x endpoint params kw = eff_bind (eff_lift (crud_url x (Some endpoint) kw)) (\<lambda>url. azul_post H cr url params)"

definition crud_get_by_id :: "'c http \<Rightarrow> (string \<times> string) list \<Rightarrow> az_crud \<Rightarrow> string \<Rightarrow> ('c, az_answer) azul_eff" where
  "crud_get_by_id H cr x i = eff_bind (eff_lift (id_url x i [])) (azul_get H cr)"

text \<open>The names of an object of a resource group, and of one of a network.\<close>

definition in_group :: "string \<Rightarrow> string \<Rightarrow> (string \<times> string) list" where
  "in_group grp name = [(''resourceGroupName'', grp), (''resourceName'', name)]"

definition in_network :: "string \<Rightarrow> string \<Rightarrow> string \<Rightarrow> (string \<times> string) list" where
  "in_network grp net name = [(''resourceGroupName'', grp), (''virtualNetworkName'', net), (''resourceName'', name)]"

definition resource_crud :: "(string \<times> string) list \<Rightarrow> string \<Rightarrow> string \<Rightarrow> string \<Rightarrow> az_crud" where
  "resource_crud cr provider_id resource version =
     crud_init RESOURCE_URL cr [(''providerId'', provider_id), (''resource'', resource), (''apiVersion'', version)]"

definition cruds :: "(string \<times> string) list \<Rightarrow> az_kind \<Rightarrow> az_crud" where
  "cruds cr k = (case k of
     NICs \<Rightarrow> resource_crud cr ''Microsoft.Network'' ''networkInterfaces'' ''2020-11-01''
   | PIPs \<Rightarrow> resource_crud cr ''Microsoft.Network'' ''publicIPAddresses'' ''2020-11-01''
   | VMs \<Rightarrow> resource_crud cr ''Microsoft.Compute'' ''virtualMachines'' ''2023-03-01''
   | Disks \<Rightarrow> resource_crud cr ''Microsoft.Compute'' ''disks'' ''2020-06-30''
   | Images \<Rightarrow> resource_crud cr ''Microsoft.Compute'' ''images'' ''2020-12-01'')"

definition list_resources :: "'c http \<Rightarrow> (string \<times> string) list \<Rightarrow> az_kind \<Rightarrow> string \<Rightarrow> nat \<Rightarrow> ('c, json list option) azul_eff" where
  "list_resources H cr k grp fuel = crud_list H cr (cruds cr k) (in_group grp []) fuel"

definition list_usages :: "'c http \<Rightarrow> (string \<times> string) list \<Rightarrow> string \<Rightarrow> nat \<Rightarrow> ('c, json list option) azul_eff" where
  "list_usages H cr loc fuel =
     crud_list H cr (crud_init LOCATION_URL cr
       [(''providerId'', ''Microsoft.Compute''), (''resource'', ''usages''), (''apiVersion'', ''2020-12-01'')])
       [(''location'', loc)] fuel"

definition list_skus :: "'c http \<Rightarrow> (string \<times> string) list \<Rightarrow> nat \<Rightarrow> ('c, json list option) azul_eff" where
  "list_skus H cr fuel =
     crud_list H cr (crud_init PROVIDER_URL cr
       [(''providerId'', ''Microsoft.Compute''), (''resource'', ''skus''), (''apiVersion'', ''2019-04-01'')]) [] fuel"

definition get_subnet :: "'c http \<Rightarrow> (string \<times> string) list \<Rightarrow> string \<Rightarrow> string \<Rightarrow> string \<Rightarrow> ('c, az_answer) azul_eff" where
  "get_subnet H cr grp net name =
     crud_get H cr (crud_init NETWORK_URL cr [(''resource'', ''subnets''), (''apiVersion'', ''2020-07-01'')]) (in_network grp net name)"

subsection \<open>Operations that go on after the answer\<close>

text \<open>Where an operation can be asked about; without such an address it is over.\<close>

definition async_location :: "(string \<times> string) list \<Rightarrow> string option" where
  "async_location hs =
     (case map_of hs ''Azure-AsyncOperation'' of
        Some l \<Rightarrow> if l = [] then None else Some l
      | None \<Rightarrow> (case map_of hs ''Location'' of Some l \<Rightarrow> if l = [] then None else Some l | None \<Rightarrow> None))"

definition retry_after :: "(string \<times> string) list \<Rightarrow> rat res" where
  "retry_after hs = (case map_of hs ''Retry-After'' of None \<Rightarrow> Inr 2 | Some s \<Rightarrow> py_float (JStr s))"

text \<open>
  \<open>check_async_operation\<close>: the answer is asked about at \<open>an_retry\<close>, which moves on. It has to wait until the
  time between two questions is over; the wait is in the clock.
\<close>

definition check_async :: "'c http \<Rightarrow> (string \<times> string) list \<Rightarrow> az_answer \<Rightarrow> ('c, (json \<times> az_answer) option) azul_eff" where
  "check_async H cr a =
     (case async_location (an_headers a) of
        None \<Rightarrow> eff_ret None
      | Some loc \<Rightarrow>
          eff_bind (eff_lift (retry_after (an_headers a))) (\<lambda>wait.
          eff_bind azul_time (\<lambda>before.
          eff_bind azul_time (\<lambda>now.
          eff_bind (azul_get H cr loc) (\<lambda>r. eff_ret (Some (an_value r, a\<lparr>an_retry := now\<rparr>)))))))"

fun wait_async ::
  "'c http \<Rightarrow> (string \<times> string) list \<Rightarrow> rat \<Rightarrow> rat \<Rightarrow> az_answer \<Rightarrow> nat \<Rightarrow> ('c, json option option) azul_eff" where
  "wait_async H cr begun timeout a 0 = eff_ret None"
| "wait_async H cr begun timeout a (Suc fuel) =
     eff_bind azul_time (\<lambda>now.
       if now - begun > timeout then eff_raise GenericException
       else eff_bind (check_async H cr a) (\<lambda>x. case x of
              None \<Rightarrow> eff_ret (Some None)
            | Some (v, a1) \<Rightarrow>
                eff_bind (eff_lift (jitem v ''status'')) (\<lambda>s.
                  if s = JStr ''InProgress'' then wait_async H cr begun timeout a1 fuel
                  else if s = JStr ''Succeeded'' then eff_ret (Some (Some v))
                  else eff_raise GenericException)))"

definition wait_for_async_operation ::
  "'c http \<Rightarrow> (string \<times> string) list \<Rightarrow> az_answer \<Rightarrow> rat \<Rightarrow> nat \<Rightarrow> ('c, json option option) azul_eff" where
  "wait_for_async_operation H cr a timeout fuel = eff_bind azul_time (\<lambda>begun. wait_async H cr begun timeout a fuel)"

text \<open>Chunks of a disk go to an address with \<open>comp=page\<close>.\<close>

fun contains :: "string \<Rightarrow> string \<Rightarrow> bool" where
  "contains p [] = (p = [])"
| "contains p (c # cs) = (startswith (c # cs) p \<or> contains p cs)"

definition chunk_url :: "string \<Rightarrow> string" where
  "chunk_url url = (if contains ''comp=page'' url then url else url @ ''&comp=page'')"

definition chunk_headers :: "nat \<Rightarrow> nat \<Rightarrow> nat \<Rightarrow> (string \<times> string) list" where
  "chunk_headers start end len =
     [(''x-ms-blob-type'', ''PageBlob''), (''x-ms-page-write'', ''Update''), (''Content-Length'', decimal len),
      (''Range'', ''bytes='' @ decimal start @ ''-'' @ decimal end)]"

end
