(* ===== verification/AzureClaims.thy ===== *)
theory AzureClaims
  imports AzureMachines Azul
begin

section \<open>Properties of the Azure driver\<close>

text \<open>
  What an upload tells its caller, when a node has its addresses, and how the client waits; with
  witnesses on small clouds.
\<close>

subsection \<open>Waiting for operations\<close>

text \<open>The clock is read, never set.\<close>

definition ticking :: "(nat \<Rightarrow> rat) \<Rightarrow> nat \<Rightarrow> 'c azul \<Rightarrow> bool" where
  "ticking clk t z \<longleftrightarrow> zz_clock z = clk \<and> t \<le> zz_ticks z"

lemma ticking_keeps [keeps]:
  "keeps_inv (ticking clk t) azul_time" "keeps_inv (ticking clk t) (on_net m)"
  by (auto simp: keeps_inv_def ticking_def azul_time_def on_net_def eff_zoom_def split: prod.splits)

lemma keeps_pair [keeps]: "(\<And>x y. keeps_inv I (f x y)) \<Longrightarrow> keeps_inv I (case p of (x, y) \<Rightarrow> f x y)"
  by (cases p) simp

lemma ticking_check: "keeps_inv (ticking clk t) (check_async H cr a)"
  unfolding check_async_def azul_get_def azul_request_def auth_refresh_def
  by (intro keeps) (simp_all add: ticking_def)

lemma wait_out_of_fuel:
  assumes "mono clk" and "ticking clk t z" and "fst (wait_async H cr begun timeout a (Suc n) z) = Inr None"
  shows "clk (t + n) - begun \<le> timeout"
  using assms(2,3)
proof (induction n arbitrary: a t z)
  case 0
  then have "clk (zz_ticks z) - begun \<le> timeout" "t \<le> zz_ticks z"
    by (auto simp: azul_time_def eff_bind_def ticking_def eff_raise_def split: if_splits)
  with monoD [OF assms(1), of t "zz_ticks z"] show ?case by simp
next
  case (Suc n)
  let ?z = "z\<lparr>zz_ticks := Suc (zz_ticks z)\<rparr>"
  have t: "ticking clk (Suc t) ?z" using Suc.prems(1) by (simp add: ticking_def)
  obtain x z1 where c: "check_async H cr a ?z = (x, z1)" by fastforce
  from t c have t1: "ticking clk (Suc t) z1" using keepsE [OF ticking_check] by blast
  from Suc.prems c obtain v a1 where "x = Inr (Some (v, a1))" "jitem v ''status'' = Inr (JStr ''InProgress'')"
    and "fst (wait_async H cr begun timeout a1 (Suc n) z1) = Inr None"
    by (auto simp: azul_time_def eff_bind_def ticking_def eff_raise_def eff_ret_def eff_lift_def
        simp del: wait_async.simps(2) split: if_splits sum.splits option.splits
        simp add: wait_async.simps(2) [of H cr begun timeout a "Suc n"])
  from Suc.IH [OF t1 this(3)] show ?case by simp
qed

lemma wait_success:
  assumes "wait_async H cr begun timeout a fuel z = (Inr (Some (Some v)), z')"
  shows "jitem v ''status'' = Inr (JStr ''Succeeded'')"
  using assms
proof (induction fuel arbitrary: a z)
  case (Suc fuel)
  from Suc.prems show ?case
    by (auto simp: eff_bind_def eff_ret_def eff_raise_def eff_lift_def azul_time_def
        split: if_splits sum.splits option.splits prod.splits dest: Suc.IH)
qed (simp add: eff_ret_def)

definition http_slow :: "unit http" where
  "http_slow = \<lparr> ht_send = (\<lambda>verb url d t c. (Inr \<lparr> hr_status = 200, hr_json = Some (JDict [(''status'', JStr ''InProgress'')]),
                                                 hr_headers = [] \<rparr>, c)),
                 ht_login = (\<lambda>url d c. (Inr (''token'', 1000000), c)) \<rparr>"

definition http_quick :: "unit http" where
  "http_quick = \<lparr> ht_send = (\<lambda>verb url d t c. (Inr \<lparr> hr_status = 200, hr_json = Some (JDict [(''status'', JStr ''Succeeded'')]),
                                                  hr_headers = [] \<rparr>, c)),
                  ht_login = (\<lambda>url d c. (Inr (''token'', 1000000), c)) \<rparr>"

definition azul_one :: "unit azul" where
  "azul_one = \<lparr> zz_net = (), zz_token = ''t'', zz_expires = 1000000, zz_clock = (\<lambda>i. 100 * of_nat i), zz_ticks = 0 \<rparr>"

definition answer_one :: az_answer where
  "answer_one = \<lparr> an_value = JDict [], an_headers = [(''Location'', ''https://management.azure.com/op'')], an_retry = 0 \<rparr>"

text \<open>
  C39: Waiting for an operation ends, whatever Azure answers and how often it answers that the operation is in progress:
  as soon as the clock, which never goes back, passes the timeout, as many rounds as it was read are enough.
\<close>
theorem azul_wait_ends:
  assumes "mono (zz_clock z)" and "timeout < zz_clock z (Suc (zz_ticks z) + n) - zz_clock z (zz_ticks z)"
  shows "fst (wait_for_async_operation H cr a timeout (Suc n) z) \<noteq> Inr None"
proof
  let ?z = "z\<lparr>zz_ticks := Suc (zz_ticks z)\<rparr>"
  assume "fst (wait_for_async_operation H cr a timeout (Suc n) z) = Inr None"
  then have "fst (wait_async H cr (zz_clock z (zz_ticks z)) timeout a (Suc n) ?z) = Inr None"
    by (simp add: wait_for_async_operation_def azul_time_def eff_bind_def)
  moreover have "ticking (zz_clock z) (Suc (zz_ticks z)) ?z" by (simp add: ticking_def)
  ultimately have "zz_clock z (Suc (zz_ticks z) + n) - zz_clock z (zz_ticks z) \<le> timeout"
    using wait_out_of_fuel [OF assms(1)] by blast
  with assms(2) show False by simp
qed

theorem azul_wait_ends_witness:
  "fst (wait_for_async_operation http_slow [] answer_one 600 7 azul_one) \<noteq> Inr None"
  using azul_wait_ends [of azul_one 600 6 http_slow "[]" answer_one]
  by (simp add: azul_one_def mono_def)

text \<open>
  What a wait returns, when it returns an operation at all, is an operation that has succeeded: the callers'
  own tests of the status never find another one.
\<close>
theorem azul_wait_succeeded:
  assumes "wait_for_async_operation H cr a timeout fuel z = (Inr (Some (Some v)), z')"
  shows "jitem v ''status'' = Inr (JStr ''Succeeded'')"
proof -
  from assms obtain begun z1 where "wait_async H cr begun timeout a fuel z1 = (Inr (Some (Some v)), z')"
    by (auto simp: wait_for_async_operation_def eff_bind_def azul_time_def)
  then show ?thesis by (rule wait_success)
qed

lemma quick_wait:
  "wait_for_async_operation http_quick [] answer_one 600 1 azul_one =
     (Inr (Some (Some (JDict [(''status'', JStr ''Succeeded'')]))), azul_one\<lparr>zz_ticks := 6\<rparr>)"
  by (simp add: wait_for_async_operation_def check_async_def async_location_def answer_one_def retry_after_def azul_get_def
      azul_request_def auth_refresh_def azul_time_def on_net_def eff_zoom_def eff_simps eff_bind_def http_quick_def
      azul_one_def numeral_2_eq_2)

theorem azul_wait_succeeded_witness: "jitem (JDict [(''status'', JStr ''Succeeded'')]) ''status'' = Inr (JStr ''Succeeded'')"
  using azul_wait_succeeded [OF quick_wait] .

text \<open>An operation without an address to ask at is over at once, and the answer is \<open>None\<close>, which has no status.\<close>

lemma azul_wait_without_address:
  assumes "async_location (an_headers a) = None" and "0 \<le> timeout" and "mono (zz_clock z)"
    and "zz_clock z (Suc (zz_ticks z)) = zz_clock z (zz_ticks z)"
  shows "fst (wait_for_async_operation H cr a timeout (Suc n) z) = Inr (Some None)"
  using assms by (simp add: wait_for_async_operation_def azul_time_def eff_bind_def check_async_def eff_ret_def)

subsection \<open>Uploads\<close>

text \<open>A cloud that makes disks and no images.\<close>

definition az_answer_ok :: json where
  "az_answer_ok = JDict [(''status'', JStr ''Succeeded''), (''properties'', JDict [(''output'',
     JDict [(''id'', JStr ''disk''), (''accessSAS'', JStr ''https://sas'')])])]"

definition az_no_images :: "(az_kind \<times> string) list az_api" where
  "az_no_images = \<lparr> aa_list = (\<lambda>k c. (Inr [], c)),
     aa_delete = (\<lambda>k n c. (Inr az_answer_ok, filter (\<lambda>x. x \<noteq> (k, n)) c)),
     aa_create = (\<lambda>k n d c. if k = Images then (Inl (OtherError ''AzureError''), c) else (Inr az_answer_ok, (k, n) # c)),
     aa_post_disk = (\<lambda>n e p c. (Inr az_answer_ok, c)), aa_get_image = (\<lambda>n c. (Inl (OtherError ''AzureNotFoundError''), c)),
     aa_get_subnet = (\<lambda>g n s c. (Inr (JDict [(''id'', JStr ''subnet'')]), c)), aa_usages = (\<lambda>c. (Inr [], c)),
     aa_skus = (\<lambda>c. (Inr [], c)), aa_wait = (\<lambda>r c. (Inr r, c)), aa_chunk = (\<lambda>u s e d c. (Inr (), c)),
     aa_api_version = ''2020-11-01'' \<rparr>"

definition az_config_one :: az_config where
  "az_config_one = \<lparr> zc_location = ''westus'', zc_resource_group = ''nodepool'', zc_subnet_id = JNull, zc_network = JStr ''net'',
     zc_format = (\<lambda>f d. Inr f) \<rparr>"

lemma az_no_images_start:
  "az_startUpload az_no_images az_config_one ''img'' [] 0 \<lparr> zu_cloud = [], zu_disk = None, zu_url = None \<rparr> =
    (Inr (), \<lparr> zu_cloud = [(Disks, ''img'')], zu_disk = Some (JStr ''disk''), zu_url = Some (JStr ''https://sas'') \<rparr>)"
  by (simp add: az_startUpload_def az_done_def on_up_def eff_zoom_def eff_simps eff_bind_def az_no_images_def az_answer_ok_def)

lemma az_no_images_finish:
  "az_finishUpload az_no_images az_config_one ''img'' []
     \<lparr> zu_cloud = [(Disks, ''img'')], zu_disk = Some (JStr ''disk''), zu_url = Some (JStr ''https://sas'') \<rparr> =
    (Inl (OtherError ''AzureError''),
     \<lparr> zu_cloud = [(Disks, ''img'')], zu_disk = Some (JStr ''disk''), zu_url = Some (JStr ''https://sas'') \<rparr>)"
  by (simp add: az_finishUpload_def az_done_def on_up_def eff_zoom_def eff_simps eff_bind_def az_no_images_def az_answer_ok_def)

text \<open>
  C40: Once the disk is open for writing the upload of an image is reported as a success under the image's
  name, whatever happens afterwards: a segment that cannot be sent or an image that cannot be made is logged only.
\<close>
theorem az_failed_upload_reported:
  assumes "az_startUpload A cfg name metadata (length content) \<lparr> zu_cloud = c, zu_disk = None, zu_url = None \<rparr> = (Inr (), u)"
  shows "fst (az_uploadImage A cfg name content metadata c) = Inr name"
  using assms by (rule az_upload_named)

theorem az_failed_upload_reported_witness:
  "az_uploadImage az_no_images az_config_one ''img'' [] [] [] = (Inr ''img'', [(Disks, ''img'')])"
proof -
  have "az_upload_all az_no_images az_config_one ''img'' [] [] \<lparr> zu_cloud = [], zu_disk = None, zu_url = None \<rparr> =
    (Inr None, \<lparr> zu_cloud = [(Disks, ''img'')], zu_disk = Some (JStr ''disk''), zu_url = Some (JStr ''https://sas'') \<rparr>)"
    by (simp add: az_upload_all_def upload_def az_no_images_start az_no_images_finish eff_seq_def eff_bind_def
        segments_def segments_from.simps eff_try_def eff_ret_def)
  then have "snd (az_uploadImage az_no_images az_config_one ''img'' [] [] []) = [(Disks, ''img'')]"
    by (simp add: az_uploadImage_def)
  moreover have "fst (az_uploadImage az_no_images az_config_one ''img'' [] [] []) = Inr ''img''"
    using az_failed_upload_reported [of az_no_images az_config_one "''img''" "[]" "[]" "[]"] az_no_images_start by simp
  ultimately show ?thesis by (metis prod.collapse)
qed

subsection \<open>Addresses\<close>

definition az_vm_one :: json where
  "az_vm_one = JDict [(''id'', JStr ''vm1''), (''type'', JStr VM_TYPE), (''name'', JStr ''np1''), (''location'', JStr ''westus''),
     (''properties'', JDict [(''provisioningState'', JStr ''Succeeded''), (''networkProfile'', JDict [(''networkInterfaces'',
        JList [JDict [(''id'', JStr ''nic1''), (''properties'', JDict [])]])])])]"

definition az_pip_one :: json where
  "az_pip_one = JDict [(''id'', JStr ''pip1''), (''type'', JStr PIP_TYPE), (''properties'', JDict [
     (''publicIPAddressVersion'', JStr ''IPv4''), (''ipAddress'', JStr ''1.2.3.4'')])]"

definition az_nic_one :: json where
  "az_nic_one = JDict [(''id'', JStr ''nic1''), (''properties'', JDict [(''ipConfigurations'', JList [JDict [(''properties'', JDict [
     (''privateIPAddressVersion'', JStr ''IPv4''), (''privateIPAddress'', JStr ''10.0.0.1''), (''publicIPAddress'', az_pip_one)])]])])]"

definition az_ready_api :: "unit az_api" where
  "az_ready_api = \<lparr> aa_list = (\<lambda>k c. (Inr (case k of NICs \<Rightarrow> [az_nic_one] | PIPs \<Rightarrow> [az_pip_one] | _ \<Rightarrow> []), c)),
     aa_delete = (\<lambda>k n c. (Inr az_answer_ok, c)), aa_create = (\<lambda>k n d c. (Inr az_vm_one, c)),
     aa_post_disk = (\<lambda>n e p c. (Inr az_answer_ok, c)), aa_get_image = (\<lambda>n c. (Inr (JDict [(''id'', JStr ''img1'')]), c)),
     aa_get_subnet = (\<lambda>g n s c. (Inr (JDict [(''id'', JStr ''subnet'')]), c)), aa_usages = (\<lambda>c. (Inr [], c)),
     aa_skus = (\<lambda>c. (Inr [], c)), aa_wait = (\<lambda>r c. (Inr r, c)), aa_chunk = (\<lambda>u s e d c. (Inr (), c)),
     aa_api_version = ''2020-11-01'' \<rparr>"

definition az_machine_one :: "az_create state_machine" where
  "az_machine_one = sm_init 0 \<lparr> zm_hostname = ''np1'',
     zm_label = \<lparr> zb_pool = \<lparr> zp_ipv4 = True, zp_ipv6 = False, zp_public_ipv4 = True, zp_public_ipv6 = False \<rparr>,
        zb_cloud_image = None, zb_diskimage = Some \<lparr> zl_username = JStr ''zuul'', zl_password = JNull, zl_generate = False, zl_key = JNull \<rparr>,
        zb_size = ''s'', zb_tags = [], zb_dynamic_tags = [], zb_user_data = JNull, zb_custom_data = JNull, zb_volume_size = JNull \<rparr>,
     zm_external = Some ''img'', zm_reference = JNull, zm_tags = [], zm_vm = JNull, zm_nic = JNull, zm_pip4 = JNull, zm_pip6 = JNull \<rparr>"

definition az_world_one :: "unit az_world" where
  "az_world_one = \<lparr> zw_cloud = (), zw_subnet = JStr ''subnet'', zw_skus = [], zw_images = [] \<rparr>"

text \<open>
  C38: A create machine that is complete has the addresses of its instance, whatever happened on the way: each
  configuration of its interface has a private address; and for each version of addresses of which the
  interface refers to public ones, the machine has recorded the last of these (by its id) and that one
  has an address. (Of several of one version the earlier ones are not waited for.)
\<close>
theorem az_complete_addressed:
  assumes "machine_run (az_create_advance A cfg pw) \<lparr> ru_machine = m, ru_world = w \<rparr> r"
    and "sm_state m = SM_START" and "\<not> sm_complete m" and "sm_complete (ru_machine r)"
  shows "\<exists>cs. ip_configs (zm_nic (sm_more (ru_machine r))) = Inr cs \<and>
    (\<forall>d \<in> set cs. \<exists>a. jpath d [''properties'', ''privateIPAddress''] = Inr a) \<and>
    (\<forall>(v, ip) \<in> {(''IPv4'', zm_pip4 (sm_more (ru_machine r))), (''IPv6'', zm_pip6 (sm_more (ru_machine r)))}.
       public_refs v cs \<noteq> [] \<longrightarrow>
         jitem ip ''id'' = jitem (last (public_refs v cs)) ''id'' \<and> (\<exists>a. jpath ip [''properties'', ''ipAddress''] = Inr a))"
proof -
  have "az_complete_inv r"
    by (rule machine_run_inv [OF assms(1) _ az_create_complete]) (use assms(2,3) in \<open>auto simp: az_complete_inv_def az_states\<close>)
  with assms(4) show ?thesis by (intro complete_addresses) (simp_all add: az_complete_inv_def)
qed

text \<open>On a cloud where all is there at once, one call is enough.\<close>

lemma az_run_ready:
  "sm_complete (ru_machine (snd (az_create_advance az_ready_api az_config_one [] \<lparr> ru_machine = az_machine_one, ru_world = az_world_one \<rparr>)))"
  by (simp add: az_create_advance_def then_go_def in_state_def in_complete_def go_on_def zm_start_def zm_find_image_def zm_vm_creating_def
      zm_nic_query_def zm_pip_query_def zm_ask_def note_public_def zm_result_def run_ops createVirtualMachine_def image_and_login_def
      az_getImage_def on_az_def az_refresh_def az_look_up_def az_succeeded_def provisioning_def az_failed_def kind_of_type_def
      first_nic_def ip_configs_def has_private_def has_address_def az_machine_one_def sm_init_def az_world_one_def az_ready_api_def
      az_vm_one_def az_nic_one_def az_pip_one_def az_states VM_TYPE_def NIC_TYPE_def PIP_TYPE_def az_instance_of_def
      private_step_def public_address_def az_zone_def dget_or_def)

definition az_run_one :: "(az_create, unit az_world) run" where
  "az_run_one = snd (az_create_advance az_ready_api az_config_one [] \<lparr> ru_machine = az_machine_one, ru_world = az_world_one \<rparr>)"

lemma az_run_nic: "ip_configs (zm_nic (sm_more (ru_machine az_run_one))) =
    Inr [JDict [(''properties'', JDict [(''privateIPAddressVersion'', JStr ''IPv4''), (''privateIPAddress'', JStr ''10.0.0.1''),
      (''publicIPAddress'', az_pip_one)])]]"
  by (simp add: az_run_one_def az_create_advance_def then_go_def in_state_def in_complete_def go_on_def zm_start_def zm_find_image_def
      zm_vm_creating_def zm_nic_query_def zm_pip_query_def zm_ask_def note_public_def zm_result_def run_ops createVirtualMachine_def
      image_and_login_def az_getImage_def on_az_def az_refresh_def az_look_up_def az_succeeded_def provisioning_def az_failed_def
      kind_of_type_def first_nic_def ip_configs_def has_private_def has_address_def az_machine_one_def sm_init_def az_world_one_def
      az_ready_api_def az_vm_one_def az_nic_one_def az_pip_one_def az_states VM_TYPE_def NIC_TYPE_def PIP_TYPE_def az_instance_of_def
      private_step_def public_address_def az_zone_def dget_or_def)

theorem az_complete_addressed_witness:
  "jitem (zm_pip4 (sm_more (ru_machine az_run_one))) ''id'' = Inr (JStr ''pip1'') \<and>
   (\<exists>a. jpath (zm_pip4 (sm_more (ru_machine az_run_one))) [''properties'', ''ipAddress''] = Inr a)"
proof -
  have "machine_run (az_create_advance az_ready_api az_config_one [])
      \<lparr> ru_machine = az_machine_one, ru_world = az_world_one \<rparr> az_run_one"
    unfolding az_run_one_def by (rule machine_run.step [OF machine_run.start])
  moreover have "sm_state az_machine_one = SM_START" "\<not> sm_complete az_machine_one"
    by (simp_all add: az_machine_one_def sm_init_def)
  moreover have "public_refs ''IPv4'' [JDict [(''properties'', JDict [(''privateIPAddressVersion'', JStr ''IPv4''),
      (''privateIPAddress'', JStr ''10.0.0.1''), (''publicIPAddress'', az_pip_one)])]] = [az_pip_one]"
    by (simp add: public_refs_def public_ref_def az_pip_one_def)
  ultimately show ?thesis
    using az_complete_addressed [of az_ready_api az_config_one "[]" az_machine_one az_world_one az_run_one] az_run_ready
    by (auto simp: az_run_nic az_run_one_def [symmetric] az_pip_one_def)
qed

end
