(* ===== verification/K8s.thy ===== *)
theory K8s
  imports SmHandler DriverUtils Config
begin

section \<open>The Kubernetes driver: provider\<close>

text \<open>
  \<open>nodepool/driver/kubernetes/provider.py\<close>: the labels and bodies of pods (which the OpenShift driver has as well, apart
  from the secrets to pull images), namespaces with their service account and token, quota, and the
  cleanup of leaked namespaces. The API of Kubernetes is a record of functions over an abstract
  cluster. A node and ZooKeeper are next to the cluster, as for every launcher.
\<close>

subsection \<open>Configuration and API\<close>

record k8s_label =
  kl_name :: string
  kl_type :: string
  kl_spec :: json
  kl_image :: json
  kl_image_pull :: json
  kl_image_pull_secrets :: json
  kl_python_path :: json
  kl_shell_type :: json
  kl_cpu :: json
  kl_memory :: json
  kl_storage :: json
  kl_cpu_limit :: json
  kl_memory_limit :: json
  kl_storage_limit :: json
  kl_gpu :: json
  kl_gpu_resource :: json
  kl_env :: json
  kl_node_selector :: json
  kl_privileged :: json
  kl_scheduler_name :: json
  kl_volumes :: json
  kl_volume_mounts :: json
  kl_labels :: json
  kl_dynamic_labels :: "(string \<times> string) list"
  kl_annotations :: json
  kl_extra_resources :: "(string \<times> num) list"

record k8s_pool =
  kp_name :: string
  kp_labels :: "(string \<times> k8s_label) list"
  kp_max_servers :: num
  kp_max_cores :: "num option"
  kp_max_ram :: "num option"
  kp_max_resources :: "(string \<times> num) list"
  kp_ignore_provider_quota :: bool

record k8s_config =
  kc_name :: string
  kc_context :: json
  kc_launch_retries :: int
  kc_pools :: "(string \<times> k8s_pool) list"
  kc_format :: "string \<Rightarrow> pydict \<Rightarrow> string res"

record k8s_pod =
  kd_phase :: string
  kd_node_name :: json

record 'c k8s_api =
  ka_namespaces :: "('c, (string \<times> json) list) eff"           \<comment> \<open>names and labels\<close>
  ka_delete_namespace :: "string \<Rightarrow> ('c, unit) eff"
  ka_read_namespace :: "string \<Rightarrow> ('c, unit) eff"
  ka_create_namespace :: "json \<Rightarrow> ('c, string) eff"
  ka_create_account :: "string \<Rightarrow> json \<Rightarrow> ('c, unit) eff"
  ka_create_secret :: "string \<Rightarrow> json \<Rightarrow> ('c, unit) eff"
  ka_read_secret :: "string \<Rightarrow> string \<Rightarrow> ('c, (string \<times> string) list) eff"
  ka_create_role :: "string \<Rightarrow> json \<Rightarrow> ('c, unit) eff"
  ka_create_binding :: "string \<Rightarrow> json \<Rightarrow> ('c, unit) eff"
  ka_create_pod :: "string \<Rightarrow> json \<Rightarrow> ('c, unit) eff"
  ka_read_pod :: "string \<Rightarrow> string \<Rightarrow> ('c, k8s_pod) eff"
  ka_host :: json
  ka_verify_ssl :: bool
  ka_b64decode :: "string \<Rightarrow> string res"

text \<open>The provider's own state: it acts once it is ready.\<close>

record 'c k8s_world =
  kw_cluster :: 'c
  kw_ready :: bool

type_synonym ('c, 'z) kube = "('c k8s_world, 'z) node_world"
type_synonym ('c, 'z, 'a) kube_eff = "(('c, 'z) kube, 'a) eff"

definition on_cluster :: "('c, 'a) eff \<Rightarrow> ('c k8s_world, 'a) eff" where
  "on_cluster m = eff_zoom kw_cluster (\<lambda>c w. w\<lparr>kw_cluster := c\<rparr>) m"

definition on_kube :: "('c, 'a) eff \<Rightarrow> ('c, 'z, 'a) kube_eff" where
  "on_kube m = eff_zoom nw_more (\<lambda>k w. w\<lparr>nw_more := k\<rparr>) (on_cluster m)"

definition kube_node :: "(node \<Rightarrow> node) \<Rightarrow> ('c, 'z, unit) kube_eff" where
  "kube_node f = eff_mod (\<lambda>w. w\<lparr>nw_node := f (nw_node w)\<rparr>)"

text \<open>\<open>start\<close>, with the clients there or not.\<close>

definition k8s_start :: "bool \<Rightarrow> 'c k8s_world \<Rightarrow> 'c k8s_world" where
  "k8s_start clients w = (if kw_ready w \<or> \<not> clients then w else w\<lparr>kw_ready := True\<rparr>)"

definition k8s_stop :: "'c k8s_world \<Rightarrow> 'c k8s_world" where
  "k8s_stop w = w\<lparr>kw_ready := False\<rparr>"

subsection \<open>Labels and bodies of pods\<close>

fun dict_of :: "json \<Rightarrow> pydict" where
  "dict_of (JDict d) = d"
| "dict_of v = []"

definition getK8sLabels :: "k8s_config \<Rightarrow> k8s_label \<Rightarrow> node \<Rightarrow> string \<Rightarrow> node_request \<Rightarrow> pydict" where
  "getK8sLabels cfg l n pool r =
     dict_update
       (foldl (\<lambda>ls (k, v). case kc_format cfg v (request_safe_attributes r) of
                  Inl e \<Rightarrow> ls | Inr s \<Rightarrow> AList.update k (JStr s) ls)
          (dict_of (kl_labels l)) (kl_dynamic_labels l))
       [(''nodepool_node_id'', case o_id n of None \<Rightarrow> JNull | Some i \<Rightarrow> JStr i),
        (''nodepool_provider_name'', JStr (kc_name cfg)), (''nodepool_pool_name'', JStr pool),
        (''nodepool_node_label'', JStr (kl_name l))]"

definition pod_body :: "string \<Rightarrow> pydict \<Rightarrow> k8s_label \<Rightarrow> json \<Rightarrow> json" where
  "pod_body name labels l spec =
     JDict [(''apiVersion'', JStr ''v1''), (''kind'', JStr ''Pod''),
       (''metadata'', JDict [(''name'', JStr name), (''labels'', JDict labels), (''annotations'', JDict (dict_of (kl_annotations l)))]),
       (''spec'', spec), (''restartPolicy'', JStr ''Never'')]"

definition getPodBodyCustom :: "k8s_config \<Rightarrow> string \<Rightarrow> k8s_label \<Rightarrow> node \<Rightarrow> string \<Rightarrow> node_request \<Rightarrow> json" where
  "getPodBodyCustom cfg pod_name l n pool r = pod_body pod_name (getK8sLabels cfg l n pool r) l (kl_spec l)"

text \<open>\<open>'%.2f' % x\<close> for \<open>x \<ge> 0\<close>: rounded to the nearer hundredth, a tie to the even one.\<close>

definition hundredths :: "rat \<Rightarrow> nat" where
  "hundredths q =
     (let f = \<lfloor>q * 100\<rfloor>; d = q * 100 - of_int f in
      nat (if d < 1 / 2 then f else if d > 1 / 2 then f + 1 else if even f then f else f + 1))"

definition two_decimals :: "rat \<Rightarrow> string" where
  "two_decimals q =
     (let h = hundredths q; r = h mod 100 in decimal (h div 100) @ ''.'' @ (if r < 10 then ''0'' else []) @ decimal r)"

text \<open>A request or limit: the key with the value as an integer, with a unit or without.\<close>

definition amount :: "string \<Rightarrow> json \<Rightarrow> string option \<Rightarrow> pydict res" where
  "amount k v unit =
     (if \<not> truthy v then Inr []
      else map_sum id (\<lambda>i. [(k, case unit of None \<Rightarrow> JNum (of_int i) | Some u \<Rightarrow> JStr (int_str i @ u))]) (py_int v))"

definition gpu_amount :: "k8s_label \<Rightarrow> pydict" where
  "gpu_amount l =
     (case (kl_gpu_resource l, kl_gpu l) of
        (JStr (c # cs), JNum q) \<Rightarrow> if q = 0 then [] else [(c # cs, JStr (two_decimals q))]
      | _ \<Rightarrow> [])"

definition pod_amounts :: "json \<Rightarrow> json \<Rightarrow> json \<Rightarrow> k8s_label \<Rightarrow> pydict res" where
  "pod_amounts cpu memory storage l =
     bindE (amount ''cpu'' cpu None) (\<lambda>a. bindE (amount ''memory'' memory (Some ''Mi'')) (\<lambda>b.
     bindE (amount ''ephemeral-storage'' storage (Some ''M'')) (\<lambda>c. Inr (dict_update (a @ b @ c) (gpu_amount l)))))"

definition if_dict :: "string \<Rightarrow> pydict \<Rightarrow> pydict" where
  "if_dict k d = (if d = [] then [] else [(k, JDict d)])"

definition if_set :: "string \<Rightarrow> json \<Rightarrow> pydict" where
  "if_set k v = (if truthy v then [(k, v)] else [])"

definition container_body :: "k8s_label \<Rightarrow> pydict \<Rightarrow> pydict \<Rightarrow> pydict" where
  "container_body l requests limits =
     [(''name'', JStr (kl_name l)), (''image'', kl_image l), (''imagePullPolicy'', kl_image_pull l),
      (''command'', JList [JStr ''/bin/sh'', JStr ''-c'']), (''args'', JList [JStr ''while true; do sleep 30; done;'']),
      (''env'', kl_env l)] @
     if_dict ''resources'' (if_dict ''requests'' requests @ if_dict ''limits'' limits) @
     if_set ''volumeMounts'' (kl_volume_mounts l) @
     (if kl_privileged l = JNull then [] else [(''securityContext'', JDict [(''privileged'', kl_privileged l)])])"

definition getPodBodyNodepool ::
  "pydict \<Rightarrow> k8s_config \<Rightarrow> string \<Rightarrow> k8s_label \<Rightarrow> node \<Rightarrow> string \<Rightarrow> node_request \<Rightarrow> json res" where
  "getPodBodyNodepool secrets cfg pod_name l n pool r =
     bindE (pod_amounts (kl_cpu l) (kl_memory l) (kl_storage l) l) (\<lambda>requests.
     bindE (pod_amounts (kl_cpu_limit l) (kl_memory_limit l) (kl_storage_limit l) l) (\<lambda>limits.
       Inr (pod_body pod_name (getK8sLabels cfg l n pool r) l
         (JDict ([(''containers'', JList [JDict (container_body l requests limits)])] @ secrets @
            if_set ''nodeSelector'' (kl_node_selector l) @ if_set ''schedulerName'' (kl_scheduler_name l) @
            if_set ''volumes'' (kl_volumes l))))))"

definition getPodBody :: "pydict \<Rightarrow> k8s_config \<Rightarrow> string \<Rightarrow> k8s_label \<Rightarrow> node \<Rightarrow> string \<Rightarrow> node_request \<Rightarrow> json res" where
  "getPodBody secrets cfg pod_name l n pool r =
     (if truthy (kl_spec l) then Inr (getPodBodyCustom cfg pod_name l n pool r)
      else getPodBodyNodepool secrets cfg pod_name l n pool r)"

subsection \<open>Namespaces\<close>

text \<open>Reads the token's secret, thirty times at most, until it has a token and a certificate.\<close>

definition data_get :: "(string \<times> string) list \<Rightarrow> string \<Rightarrow> string" where
  "data_get d k = (case map_of d k of None \<Rightarrow> [] | Some v \<Rightarrow> v)"

fun wait_token :: "'c k8s_api \<Rightarrow> string \<Rightarrow> nat \<Rightarrow> ('c, (string \<times> string) option) eff" where
  "wait_token A ns 0 = eff_ret None"
| "wait_token A ns (Suc left) =
     eff_bind (ka_read_secret A ''zuul-worker'' ns) (\<lambda>d.
       if data_get d ''token'' = [] \<or> data_get d ''ca.crt'' = [] then wait_token A ns left
       else eff_bind (eff_lift (ka_b64decode A (data_get d ''token''))) (\<lambda>token.
              if token = [] then wait_token A ns left else eff_ret (Some (token, data_get d ''ca.crt''))))"

definition k8s_strs :: "string list \<Rightarrow> json" where "k8s_strs xs = JList (map JStr xs)"

definition all_verbs :: json where
  "all_verbs = k8s_strs [''create'', ''delete'', ''get'', ''list'', ''patch'', ''update'', ''watch'']"

definition k8s_rule :: "string list \<Rightarrow> json \<Rightarrow> json" where
  "k8s_rule resources verbs =
     JDict [(''apiGroups'', k8s_strs [[]]), (''resources'', k8s_strs resources), (''verbs'', verbs)]"

definition role_body :: "bool \<Rightarrow> json" where
  "role_body restricted =
     JDict [(''kind'', JStr ''Role''), (''apiVersion'', JStr ''rbac.authorization.k8s.io/v1''),
       (''metadata'', JDict [(''name'', JStr (if restricted then ''zuul-restricted'' else ''zuul''))]),
       (''rules'', JList
          (if restricted
           then [k8s_rule [''pods''] (k8s_strs [''get'', ''list'']), k8s_rule [''pods/exec''] all_verbs,
                 k8s_rule [''pods/logs''] all_verbs, k8s_rule [''pods/portforward''] all_verbs]
           else [k8s_rule [''pods'', ''pods/exec'', ''pods/log'', ''pods/portforward'', ''services'', ''endpoints'', ''crontabs'',
                   ''jobs'', ''deployments'', ''replicasets'', ''configmaps'', ''secrets''] all_verbs]))]"

definition binding_body :: "bool \<Rightarrow> string \<Rightarrow> json" where
  "binding_body restricted ns =
     JDict [(''apiVersion'', JStr ''rbac.authorization.k8s.io/v1''), (''kind'', JStr ''RoleBinding''),
       (''metadata'', JDict [(''name'', JStr ''zuul-role'')]),
       (''roleRef'', JDict [(''apiGroup'', JStr ''rbac.authorization.k8s.io''), (''kind'', JStr ''Role''),
          (''name'', JStr (if restricted then ''zuul-restricted'' else ''zuul''))]),
       (''subjects'', JList [JDict [(''kind'', JStr ''ServiceAccount''), (''name'', JStr ''zuul-worker''), (''namespace'', JStr ns)]]),
       (''userNames'', k8s_strs [''system:serviceaccount:'' @ ns @ '':zuul-worker''])]"

definition namespace_body :: "string \<Rightarrow> pydict \<Rightarrow> json" where
  "namespace_body ns labels =
     JDict [(''apiVersion'', JStr ''v1''), (''kind'', JStr ''Namespace''),
       (''metadata'', JDict [(''name'', JStr ns), (''labels'', JDict labels)])]"

definition account_body :: json where
  "account_body = JDict [(''apiVersion'', JStr ''v1''), (''kind'', JStr ''ServiceAccount''),
     (''metadata'', JDict [(''name'', JStr ''zuul-worker'')])]"

definition secret_body :: json where
  "secret_body = JDict [(''apiVersion'', JStr ''v1''), (''kind'', JStr ''Secret''),
     (''type'', JStr ''kubernetes.io/service-account-token''),
     (''metadata'', JDict [(''name'', JStr ''zuul-worker''),
        (''annotations'', JDict [(''kubernetes.io/service-account.name'', JStr ''zuul-worker'')])])]"

definition node_str :: "node \<Rightarrow> string" where
  "node_str n = (case o_id n of None \<Rightarrow> ''None'' | Some i \<Rightarrow> i)"

text \<open>How a job reaches a namespace: the host, the token and, if it is verified, the certificate.\<close>

definition access :: "bool \<Rightarrow> pydict \<Rightarrow> string \<Rightarrow> json \<Rightarrow> string \<Rightarrow> string \<Rightarrow> pydict" where
  "access verify name ns host token ca =
     name @ [(''namespace'', JStr ns), (''host'', host), (''skiptls'', JBool (\<not> verify)), (''token'', JStr token),
             (''user'', JStr ''zuul-worker'')] @
     (if verify then [(''ca_crt'', JStr ca)] else [])"

definition createNamespace ::
  "'c k8s_api \<Rightarrow> k8s_config \<Rightarrow> string \<Rightarrow> k8s_label \<Rightarrow> node_request \<Rightarrow> bool \<Rightarrow> ('c, 'z, pydict) kube_eff" where
  "createNamespace A cfg pool l r restricted =
     eff_bind (eff_get nw_node) (\<lambda>n.
       let ns = pool @ ''-'' @ node_str n in
       eff_bind (on_kube (ka_create_namespace A (namespace_body ns (getK8sLabels cfg l n pool r)))) (\<lambda>name.
       eff_seq (kube_node (\<lambda>n. n\<lparr>n_external_id := JStr ns\<rparr>))
       (eff_seq (on_kube (ka_create_account A ns account_body))
       (eff_seq (on_kube (ka_create_secret A ns secret_body))
       (eff_bind (on_kube (wait_token A ns 30)) (\<lambda>t. case t of
          None \<Rightarrow> eff_raise LaunchNodepoolException
        | Some (token, ca) \<Rightarrow>
            eff_seq (on_kube (ka_create_role A ns (role_body restricted)))
            (eff_seq (on_kube (ka_create_binding A ns (binding_body restricted ns)))
              (eff_ret (access (ka_verify_ssl A) [(''name'', JStr name)] ns (ka_host A) token ca)))))))))"

text \<open>
  Reads a pod until it runs, three hundred times at most; the number of the last reading, from zero,
  decides: the last one counts as a failure.
\<close>

fun wait_pod :: "('c, k8s_pod) eff \<Rightarrow> nat \<Rightarrow> nat \<Rightarrow> ('c, nat \<times> k8s_pod) eff" where
  "wait_pod read_pod tries 0 = eff_bind read_pod (\<lambda>p. eff_ret (tries, p))"
| "wait_pod read_pod tries (Suc left) =
     eff_bind read_pod (\<lambda>p. if kd_phase p = ''Running'' then eff_ret (tries, p) else wait_pod read_pod (Suc tries) left)"

definition pod_running :: "('c, k8s_pod) eff \<Rightarrow> ('c, k8s_pod) eff" where
  "pod_running read_pod =
     eff_bind (wait_pod read_pod 0 299) (\<lambda>(tries, p).
       if tries = 299 then eff_raise LaunchNodepoolException else eff_ret p)"

definition createPod ::
  "'c k8s_api \<Rightarrow> k8s_config \<Rightarrow> string \<Rightarrow> k8s_label \<Rightarrow> node_request \<Rightarrow> ('c, 'z, pydict) kube_eff" where
  "createPod A cfg pool l r =
     eff_bind (eff_get nw_node) (\<lambda>n.
     eff_bind (eff_lift (getPodBody [] cfg (kl_name l) l n pool r)) (\<lambda>body.
     eff_bind (createNamespace A cfg pool l r True) (\<lambda>res.
       let ns = pool @ ''-'' @ node_str n in
       eff_seq (on_kube (ka_create_pod A ns body))
       (eff_bind (on_kube (pod_running (ka_read_pod A (kl_name l) ns))) (\<lambda>p.
        eff_seq (kube_node (\<lambda>n. n\<lparr>n_host_id := kd_node_name p\<rparr>))
          (eff_ret (res @ [(''pod'', JStr (kl_name l))])))))))"

subsection \<open>Quota\<close>

definition k8s_getProviderLimits :: quota where
  "k8s_getProviderLimits = quota_init (Some PosInf) (Some PosInf) (Some PosInf) PosInf []"

definition amount_arg :: "string \<Rightarrow> json \<Rightarrow> (string \<times> num option) list" where
  "amount_arg k v = (case v of JNum q \<Rightarrow> if q = 0 then [] else [(k, Some (Fin q))] | _ \<Rightarrow> [])"

text \<open>The keyword arguments; \<open>instances\<close> among them would be given twice.\<close>

definition k8s_quotaNeededByLabel :: "string \<Rightarrow> k8s_pool option \<Rightarrow> quota res" where
  "k8s_quotaNeededByLabel ntype pool =
     (case pool of
        None \<Rightarrow> Inl AttributeError
      | Some p \<Rightarrow>
          (case map_of (kp_labels p) ntype of
             None \<Rightarrow> Inl KeyError
           | Some l \<Rightarrow>
               let resources = foldl (\<lambda>d (k, v). AList.update k (Some v) d)
                     (amount_arg ''cores'' (kl_cpu l) @ amount_arg ''ram'' (kl_memory l) @
                      amount_arg ''ephemeral-storage'' (kl_storage l) @
                      (case kl_gpu_resource l of JStr (c # cs) \<Rightarrow> amount_arg (c # cs) (kl_gpu l) | _ \<Rightarrow> []))
                     (kl_extra_resources l)
               in if map_of resources ''instances'' \<noteq> None then Inl TypeError
                  else Inr (quota_of_args ((''instances'', Some (Fin 1)) # resources))))"

subsection \<open>Leaked namespaces\<close>

text \<open>
  A namespace counts as managed if its name begins with a pool's and ends with a number; then its labels
  are the metadata, which may be missing.
\<close>

definition last_part :: "string \<Rightarrow> string" where
  "last_part s = last (py_split CHR ''-'' s)"

definition managed_name :: "string list \<Rightarrow> string \<Rightarrow> bool" where
  "managed_name pools name \<longleftrightarrow>
     list_ex (\<lambda>p. startswith name (p @ ''-'')) pools \<and> py_int_str (last_part name) \<noteq> None"

definition k8s_listNodes :: "'c k8s_api \<Rightarrow> string list \<Rightarrow> ('c k8s_world, (string \<times> json) list) eff" where
  "k8s_listNodes A pools =
     eff_bind (eff_get kw_ready) (\<lambda>ready.
       if \<not> ready then eff_ret []
       else eff_bind (on_cluster (ka_namespaces A)) (\<lambda>ns.
            eff_ret (map (\<lambda>(name, labels). (name, if managed_name pools name then labels else JDict [])) ns)))"

definition k8s_cleanupNode :: "'c k8s_api \<Rightarrow> string \<Rightarrow> ('c k8s_world, unit) eff" where
  "k8s_cleanupNode A server_id =
     eff_bind (eff_get kw_ready) (\<lambda>ready. eff_when ready (eff_ignore (on_cluster (ka_delete_namespace A server_id))))"

fun wait_gone :: "('c, unit) eff \<Rightarrow> nat \<Rightarrow> ('c, unit) eff" where
  "wait_gone read_it 0 = eff_ret ()"
| "wait_gone read_it (Suc left) =
     eff_bind (eff_try (eff_seq read_it (eff_ret True)) (\<lambda>e. eff_ret False)) (\<lambda>there.
       if there then wait_gone read_it left else eff_ret ())"

definition k8s_waitForNodeCleanup :: "'c k8s_api \<Rightarrow> string \<Rightarrow> ('c k8s_world, unit) eff" where
  "k8s_waitForNodeCleanup A server_id = on_cluster (wait_gone (ka_read_namespace A server_id) 300)"

text \<open>One server: \<open>'k' in meta\<close> raises for labels that are \<open>None\<close>.\<close>

definition k8s_cleanup_one ::
  "'c k8s_api \<Rightarrow> k8s_config \<Rightarrow> (string \<Rightarrow> node option res) \<Rightarrow> string \<times> json \<Rightarrow> ('c k8s_world, unit) eff" where
  "k8s_cleanup_one A cfg get_node s =
     (case s of (name, meta) \<Rightarrow>
        (case meta of
           JDict d \<Rightarrow>
             if \<not> dhas d ''nodepool_provider_name'' \<or> dget d ''nodepool_provider_name'' \<noteq> JStr (kc_name cfg) then eff_ret ()
             else (case map_of d ''nodepool_node_id'' of
                     Some (JStr i) \<Rightarrow> eff_bind (eff_lift (get_node i)) (\<lambda>n. eff_when (n = None) (k8s_cleanupNode A name))
                   | _ \<Rightarrow> eff_raise KeyError)
         | _ \<Rightarrow> eff_raise TypeError))"

definition k8s_cleanupLeakedResources ::
  "'c k8s_api \<Rightarrow> k8s_config \<Rightarrow> (string \<Rightarrow> node option res) \<Rightarrow> ('c k8s_world, unit) eff" where
  "k8s_cleanupLeakedResources A cfg get_node =
     eff_bind (k8s_listNodes A (map (\<lambda>(k, p). kp_name p) (kc_pools cfg))) (eff_each (k8s_cleanup_one A cfg get_node))"

end
