(* ===== verification/K8sLauncher.thy ===== *)
theory K8sLauncher
  imports K8s
begin

section \<open>Kubernetes and OpenShift: launchers and request handler\<close>

text \<open>
  The launchers of \<open>nodepool/driver/kubernetes/handler.py\<close>, \<open>nodepool/driver/openshift/handler.py\<close> and
  \<open>nodepool/driver/openshiftpods/handler.py\<close>, with the providers of the two OpenShift drivers, and the quota checks of
  the Kubernetes request handler.
\<close>

subsection \<open>Attempts\<close>

text \<open>
  \<open>launch\<close>: an attempt that fails takes back what it created; \<open>left\<close> counts the attempts there are.
  \<open>stop\<close> is the exception that ends the attempts at once, if this one does.
\<close>

definition take_back ::
  "'z kazoo \<Rightarrow> rat \<Rightarrow> (string \<Rightarrow> ('c, 'z, unit) kube_eff) \<Rightarrow> (string \<Rightarrow> ('c, 'z, unit) kube_eff) \<Rightarrow> ('c, 'z, unit) kube_eff" where
  "take_back K now cleanup wait =
     eff_bind (eff_get (\<lambda>w. n_external_id (nw_node w))) (\<lambda>x.
       case x of
         JStr (c # cs) \<Rightarrow>
           eff_seq (cleanup (c # cs))
           (eff_seq (wait (c # cs))
           (eff_seq (kube_node (\<lambda>n. n\<lparr>n_external_id := JNull, n_interface_ip := JNull\<rparr>))
             (nw_on (storeNode K now))))
       | _ \<Rightarrow> eff_ret ())"

fun k8s_attempts ::
  "('c, 'z, unit) kube_eff \<Rightarrow> ('c, 'z, unit) kube_eff \<Rightarrow> (pyexc \<Rightarrow> pyexc option) \<Rightarrow> nat \<Rightarrow> ('c, 'z, unit) kube_eff" where
  "k8s_attempts attempt revert stop 0 = eff_ret ()"
| "k8s_attempts attempt revert stop (Suc left) =
     eff_try attempt (\<lambda>e.
       if e = SessionExpiredError then eff_raise e
       else eff_seq revert
              (case stop e of
                 Some x \<Rightarrow> eff_raise x
               | None \<Rightarrow> if left = 0 then eff_raise e else k8s_attempts attempt revert stop left))"

definition json_of_qval :: "qval \<Rightarrow> json" where
  "json_of_qval v = (case v of QNum (Fin q) \<Rightarrow> JNum q | QOther j \<Rightarrow> j | _ \<Rightarrow> JNull)"

definition pool_of :: "k8s_config \<Rightarrow> json \<Rightarrow> k8s_pool option" where
  "pool_of cfg v = (case v of JStr s \<Rightarrow> map_of (kc_pools cfg) s | _ \<Rightarrow> None)"

text \<open>What the node's label needs, as the node's resources.\<close>

definition needed_resources :: "k8s_config \<Rightarrow> node \<Rightarrow> json res" where
  "needed_resources cfg n =
     (case n_type n of
        [] \<Rightarrow> Inl IndexError
      | t # ts \<Rightarrow>
          bindE (case t of JStr l \<Rightarrow> k8s_quotaNeededByLabel l (pool_of cfg (n_pool n))
                 | _ \<Rightarrow> Inl (if pool_of cfg (n_pool n) = None then AttributeError else KeyError)) (\<lambda>q.
          map_sum id (\<lambda>rs. JDict (map (\<lambda>(k, v). (k, json_of_qval v)) rs)) (get_resources q)))"

text \<open>The end of each \<open>_launchLabel\<close>: the node is ready, with its resources, and stored.\<close>

definition node_ready ::
  "'z kazoo \<Rightarrow> rat \<Rightarrow> k8s_config \<Rightarrow> k8s_label \<Rightarrow> pydict \<Rightarrow> (node \<Rightarrow> node) \<Rightarrow> (node \<Rightarrow> node) \<Rightarrow> ('c, 'z, unit) kube_eff" where
  "node_ready K now cfg l res first_one last_one =
     eff_seq (nw_on (assign_state READY now))
     (eff_seq (kube_node (\<lambda>n. first_one (n\<lparr>n_python_path := kl_python_path l, n_shell_type := kl_shell_type l, n_connection_port := JDict res\<rparr>)))
     (eff_bind (eff_read (\<lambda>w. needed_resources cfg (nw_node w))) (\<lambda>rs.
      eff_seq (kube_node (\<lambda>n. last_one (n\<lparr>n_resources := rs, n_cloud := kc_context cfg\<rparr>)))
        (nw_on (storeNode K now)))))"

subsection \<open>Kubernetes\<close>

definition k8s_launchLabel ::
  "'z kazoo \<Rightarrow> rat \<Rightarrow> 'c k8s_api \<Rightarrow> k8s_config \<Rightarrow> string \<Rightarrow> k8s_label \<Rightarrow> node_request \<Rightarrow> ('c, 'z, unit) kube_eff" where
  "k8s_launchLabel K now A cfg pool l r =
     eff_bind (if kl_type l = ''namespace'' then createNamespace A cfg pool l r False else createPod A cfg pool l r) (\<lambda>res.
       node_ready K now cfg l res
         (\<lambda>n. if kl_type l = ''namespace'' then n\<lparr>n_connection_type := JStr ''namespace''\<rparr>
              else n\<lparr>n_connection_type := JStr ''kubectl'', n_interface_ip := dget res ''pod''\<rparr>) (\<lambda>n. n))"

definition k8s_launch ::
  "'z kazoo \<Rightarrow> rat \<Rightarrow> 'c k8s_api \<Rightarrow> k8s_config \<Rightarrow> string \<Rightarrow> k8s_label \<Rightarrow> node_request \<Rightarrow> ('c, 'z, unit) kube_eff" where
  "k8s_launch K now A cfg pool l r =
     k8s_attempts (k8s_launchLabel K now A cfg pool l r)
       (take_back K now (\<lambda>i. eff_zoom nw_more (\<lambda>k w. w\<lparr>nw_more := k\<rparr>) (k8s_cleanupNode A i))
          (\<lambda>i. eff_zoom nw_more (\<lambda>k w. w\<lparr>nw_more := k\<rparr>) (k8s_waitForNodeCleanup A i)))
       (\<lambda>e. None) (nat (kc_launch_retries cfg))"

text \<open>The thread's \<open>run\<close>.\<close>

definition k8s_launcher_run ::
  "'z kazoo \<Rightarrow> rat \<Rightarrow> 'c k8s_api \<Rightarrow> k8s_config \<Rightarrow> string \<Rightarrow> k8s_label \<Rightarrow> node_request \<Rightarrow> ('c, 'z, unit) kube_eff" where
  "k8s_launcher_run K now A cfg pool l r = nodeLauncher_run K now (k8s_launch K now A cfg pool l r)"

subsection \<open>OpenShift projects\<close>

text \<open>The provider of OpenShift has the code for labels, pods and quota once more; a pod has secrets to pull its image, too.\<close>

definition ocp_getK8sLabels :: "k8s_config \<Rightarrow> k8s_label \<Rightarrow> node \<Rightarrow> string \<Rightarrow> node_request \<Rightarrow> pydict" where
  "ocp_getK8sLabels = getK8sLabels"

definition ocp_getPodBodyCustom :: "k8s_config \<Rightarrow> string \<Rightarrow> k8s_label \<Rightarrow> node \<Rightarrow> string \<Rightarrow> node_request \<Rightarrow> json" where
  "ocp_getPodBodyCustom = getPodBodyCustom"

definition ocp_getPodBodyNodepool :: "k8s_config \<Rightarrow> string \<Rightarrow> k8s_label \<Rightarrow> node \<Rightarrow> string \<Rightarrow> node_request \<Rightarrow> json res" where
  "ocp_getPodBodyNodepool cfg pod_name l = getPodBodyNodepool [(''imagePullSecrets'', kl_image_pull_secrets l)] cfg pod_name l"

definition ocp_quotaNeededByLabel :: "string \<Rightarrow> k8s_pool option \<Rightarrow> quota res" where
  "ocp_quotaNeededByLabel = k8s_quotaNeededByLabel"

record 'c ocp_api = "'c k8s_api" +
  oa_create_project :: "json \<Rightarrow> ('c, unit) eff"
  oa_delete_project :: "string \<Rightarrow> ('c, unit) eff"
  oa_get_project :: "string \<Rightarrow> ('c, unit) eff"
  oa_account_secrets :: "string \<Rightarrow> ('c, string list) eff"
  oa_bind_role :: "string \<Rightarrow> json \<Rightarrow> ('c, unit) eff"
  oa_projects :: "('c, string list) eff"
  oa_over_quota :: "pyexc \<Rightarrow> bool"            \<comment> \<open>\<open>'exceeded quota' in str(e).lower()\<close>\<close>

definition ocp_cleanupNode :: "'c ocp_api \<Rightarrow> string \<Rightarrow> ('c k8s_world, unit) eff" where
  "ocp_cleanupNode A i =
     eff_bind (eff_get kw_ready) (\<lambda>ready. eff_when ready (eff_ignore (on_cluster (oa_delete_project A i))))"

definition ocp_waitForNodeCleanup :: "'c ocp_api \<Rightarrow> string \<Rightarrow> ('c k8s_world, unit) eff" where
  "ocp_waitForNodeCleanup A i = on_cluster (wait_gone (oa_get_project A i) 300)"

definition ocp_listNodes :: "'c ocp_api \<Rightarrow> string \<Rightarrow> string list \<Rightarrow> ('c k8s_world, (string \<times> pydict) list) eff" where
  "ocp_listNodes A provider_name pools =
     eff_bind (eff_get kw_ready) (\<lambda>ready.
       if \<not> ready then eff_ret []
       else eff_bind (on_cluster (oa_projects A)) (\<lambda>ps.
            eff_ret (map (\<lambda>p. (p, if managed_name pools p
                                  then [(''nodepool_provider_name'', JStr provider_name), (''nodepool_node_id'', JStr (last_part p))]
                                  else [])) ps)))"

definition createProject ::
  "'c ocp_api \<Rightarrow> k8s_config \<Rightarrow> string \<Rightarrow> string \<Rightarrow> k8s_label \<Rightarrow> node_request \<Rightarrow> ('c, 'z, string) kube_eff" where
  "createProject A cfg pool project l r =
     eff_bind (eff_get nw_node) (\<lambda>n.
     eff_seq (on_kube (oa_create_project A
       (JDict [(''apiVersion'', JStr ''project.openshift.io/v1''), (''kind'', JStr ''ProjectRequest''),
          (''metadata'', JDict [(''name'', JStr project), (''labels'', JDict (ocp_getK8sLabels cfg l n pool r))])])))
       (eff_ret project))"

text \<open>
  The secrets of the service account, until one has a token and a certificate; the token of the last one
  read, even without a certificate, ends the wait as well.
\<close>

fun account_token :: "'c ocp_api \<Rightarrow> string \<Rightarrow> string list \<Rightarrow> string \<times> string \<Rightarrow> ('c, string \<times> string) eff" where
  "account_token A project [] found = eff_ret found"
| "account_token A project (s # ss) found =
     eff_bind (ka_read_secret (k8s_api.truncate A) s project) (\<lambda>d.
       let token = data_get d ''token''; ca = data_get d ''ca.crt'' in
       if token \<noteq> [] \<and> ca \<noteq> []
       then eff_bind (eff_lift (ka_b64decode A token)) (\<lambda>t. eff_ret (t, ca))
       else account_token A project ss (token, ca))"

fun wait_account_token :: "'c ocp_api \<Rightarrow> string \<Rightarrow> nat \<Rightarrow> string \<times> string \<Rightarrow> ('c, string \<times> string) eff" where
  "wait_account_token A project 0 found = eff_ret found"
| "wait_account_token A project (Suc left) found =
     eff_bind (oa_account_secrets A project) (\<lambda>ss.
     eff_bind (account_token A project ss ([], [])) (\<lambda>(t, ca).
       if t \<noteq> [] then eff_ret (t, ca) else wait_account_token A project left (t, ca)))"

definition prepareProject :: "'c ocp_api \<Rightarrow> string \<Rightarrow> ('c, pydict) eff" where
  "prepareProject A project =
     eff_seq (ka_create_account A project account_body)
     (eff_bind (wait_account_token A project 30 ([], [])) (\<lambda>(token, ca).
        if token = [] \<or> ca = [] then eff_raise LaunchNodepoolException
        else eff_seq (eff_try (oa_bind_role A project
                 (JDict [(''apiVersion'', JStr ''authorization.openshift.io/v1''), (''kind'', JStr ''RoleBinding''),
                    (''metadata'', JDict [(''name'', JStr ''admin-0'')]), (''roleRef'', JDict [(''name'', JStr ''admin'')]),
                    (''subjects'', JList [JDict [(''kind'', JStr ''ServiceAccount''), (''name'', JStr ''zuul-worker''),
                       (''namespace'', JStr project)]]),
                    (''userNames'', k8s_strs [''system:serviceaccount:'' @ project @ '':zuul-worker''])]))
                 (\<lambda>e. if e = ValueError then eff_ret () else eff_raise e))
             (eff_ret (access (ka_verify_ssl A) [] project (ka_host A) token ca))))"

definition ocp_createPod ::
  "'c k8s_api \<Rightarrow> k8s_config \<Rightarrow> string \<Rightarrow> string \<Rightarrow> string \<Rightarrow> k8s_label \<Rightarrow> node_request \<Rightarrow> ('c, 'z, unit) kube_eff" where
  "ocp_createPod A cfg pool project pod_name l r =
     eff_bind (eff_get nw_node) (\<lambda>n.
     eff_bind (eff_lift (if truthy (kl_spec l) then Inr (ocp_getPodBodyCustom cfg pod_name l n pool r)
                        else ocp_getPodBodyNodepool cfg pod_name l n pool r)) (\<lambda>body.
       on_kube (ka_create_pod A project body)))"

definition waitForPod :: "'c k8s_api \<Rightarrow> string \<Rightarrow> string \<Rightarrow> ('c, json) eff" where
  "waitForPod A project pod_name =
     eff_bind (pod_running (ka_read_pod A pod_name project)) (\<lambda>p. eff_ret (kd_node_name p))"

definition ocp_launchLabel ::
  "'z kazoo \<Rightarrow> rat \<Rightarrow> 'c ocp_api \<Rightarrow> k8s_config \<Rightarrow> string \<Rightarrow> k8s_label \<Rightarrow> node_request \<Rightarrow> ('c, 'z, unit) kube_eff" where
  "ocp_launchLabel K now A cfg pool l r =
     eff_bind (eff_get nw_node) (\<lambda>n.
       let project = pool @ ''-'' @ node_str n; api = k8s_api.truncate A in
       eff_bind (createProject A cfg pool project l r) (\<lambda>i.
       eff_seq (kube_node (\<lambda>n. n\<lparr>n_external_id := JStr i\<rparr>))
       (eff_seq (nw_on (storeNode K now))
       (eff_bind (on_kube (prepareProject A project)) (\<lambda>res.
        eff_bind (if kl_type l = ''pod''
                  then eff_seq (ocp_createPod api cfg pool project (kl_name l) l r)
                       (eff_bind (on_kube (waitForPod api project (kl_name l))) (\<lambda>h.
                          eff_ret (res @ [(''pod'', JStr (kl_name l))])))
                  else eff_ret res) (\<lambda>res1.
          eff_seq (kube_node (\<lambda>n. if kl_type l = ''pod''
                                 then n\<lparr>n_connection_type := JStr ''kubectl'', n_interface_ip := JStr (kl_name l)\<rparr>
                                 else n\<lparr>n_connection_type := JStr ''project''\<rparr>))
            (node_ready K now cfg l res1 (\<lambda>n. n) (\<lambda>n. n))))))))"

definition ocp_launch ::
  "'z kazoo \<Rightarrow> rat \<Rightarrow> 'c ocp_api \<Rightarrow> k8s_config \<Rightarrow> string \<Rightarrow> k8s_label \<Rightarrow> node_request \<Rightarrow> ('c, 'z, unit) kube_eff" where
  "ocp_launch K now A cfg pool l r =
     k8s_attempts (ocp_launchLabel K now A cfg pool l r)
       (take_back K now (\<lambda>i. eff_zoom nw_more (\<lambda>k w. w\<lparr>nw_more := k\<rparr>) (ocp_cleanupNode A i))
          (\<lambda>i. eff_zoom nw_more (\<lambda>k w. w\<lparr>nw_more := k\<rparr>) (ocp_waitForNodeCleanup A i)))
       (\<lambda>e. if oa_over_quota A e then Some QuotaException else None) (nat (kc_launch_retries cfg))"

subsection \<open>OpenShift pods\<close>

record 'c pods_api = "'c k8s_api" +
  pa_delete_pod :: "string \<Rightarrow> string \<Rightarrow> ('c, unit) eff"        \<comment> \<open>pod and project\<close>
  pa_list_pods :: "string \<Rightarrow> ('c, string list) eff"
  pa_token :: json
  pa_ca_crt :: json
  pa_over_quota :: "pyexc \<Rightarrow> bool"

text \<open>The pool and the pod of an id: the first pool whose name, with a dash, the id begins with.\<close>

definition getProjectPodName :: "string list \<Rightarrow> string \<Rightarrow> (string \<times> string) option" where
  "getProjectPodName pools server_id =
     map_option (\<lambda>p. (p, drop (length p + 1) server_id)) (find (\<lambda>p. startswith server_id (p @ ''-'')) pools)"

definition pool_names :: "k8s_config \<Rightarrow> string list" where
  "pool_names cfg = map fst (kc_pools cfg)"

definition pods_listNodes :: "'c pods_api \<Rightarrow> k8s_config \<Rightarrow> ('c k8s_world, (string \<times> pydict) list) eff" where
  "pods_listNodes A cfg =
     (let labels = concat (map (\<lambda>(k, p). map fst (kp_labels p)) (kc_pools cfg)) in
      eff_bind (eff_get kw_ready) (\<lambda>ready.
        if \<not> ready then eff_ret []
        else eff_fold (\<lambda>pool acc. eff_bind (on_cluster (pa_list_pods A pool)) (\<lambda>ps.
               eff_ret (acc @ map (\<lambda>p. (pool @ ''-'' @ p,
                   if managed_name labels p
                   then [(''nodepool_provider_name'', JStr (kc_name cfg)), (''nodepool_node_id'', JStr (last_part p))] else [])) ps)))
             (pool_names cfg) []))"

definition pods_cleanupNode :: "'c pods_api \<Rightarrow> k8s_config \<Rightarrow> string \<Rightarrow> ('c k8s_world, unit) eff" where
  "pods_cleanupNode A cfg server_id =
     eff_bind (eff_get kw_ready) (\<lambda>ready. eff_when ready
       (case getProjectPodName (pool_names cfg) server_id of
          None \<Rightarrow> eff_ret ()
        | Some (project, pod) \<Rightarrow> if project = [] then eff_ret () else eff_ignore (on_cluster (pa_delete_pod A pod project))))"

text \<open>Without a pool the reading itself raises.\<close>

definition pods_waitForNodeCleanup :: "'c pods_api \<Rightarrow> k8s_config \<Rightarrow> string \<Rightarrow> ('c k8s_world, unit) eff" where
  "pods_waitForNodeCleanup A cfg server_id =
     (case getProjectPodName (pool_names cfg) server_id of
        None \<Rightarrow> eff_ret ()
      | Some (project, pod) \<Rightarrow>
          on_cluster (wait_gone (eff_bind (ka_read_pod A pod project) (\<lambda>p. eff_ret ())) 300))"

definition pods_launchLabel ::
  "'z kazoo \<Rightarrow> rat \<Rightarrow> 'c pods_api \<Rightarrow> k8s_config \<Rightarrow> string \<Rightarrow> k8s_label \<Rightarrow> node_request \<Rightarrow> ('c, 'z, unit) kube_eff" where
  "pods_launchLabel K now A cfg project l r =
     eff_bind (eff_get nw_node) (\<lambda>n.
       let pod = kl_name l @ ''-'' @ node_str n; api = k8s_api.truncate A in
       eff_seq (ocp_createPod api cfg project project pod l r)
       (eff_seq (kube_node (\<lambda>n. n\<lparr>n_external_id := JStr (project @ ''-'' @ pod), n_interface_ip := JStr pod\<rparr>))
       (eff_seq (nw_on (storeNode K now))
       (eff_bind (on_kube (waitForPod api project pod)) (\<lambda>h.
          node_ready K now cfg l
            [(''pod'', JStr pod), (''namespace'', JStr project), (''host'', ka_host A), (''ca_crt'', pa_ca_crt A),
             (''skiptls'', JBool (\<not> ka_verify_ssl A)), (''token'', pa_token A), (''user'', JStr ''zuul-worker'')]
            (\<lambda>n. n\<lparr>n_connection_type := JStr ''kubectl''\<rparr>) (\<lambda>n. n\<lparr>n_host_id := h\<rparr>))))))"

definition pods_launch ::
  "'z kazoo \<Rightarrow> rat \<Rightarrow> 'c pods_api \<Rightarrow> k8s_config \<Rightarrow> string \<Rightarrow> k8s_label \<Rightarrow> node_request \<Rightarrow> ('c, 'z, unit) kube_eff" where
  "pods_launch K now A cfg pool l r =
     k8s_attempts (pods_launchLabel K now A cfg pool l r)
       (take_back K now (\<lambda>i. eff_zoom nw_more (\<lambda>k w. w\<lparr>nw_more := k\<rparr>) (pods_cleanupNode A cfg i))
          (\<lambda>i. eff_zoom nw_more (\<lambda>k w. w\<lparr>nw_more := k\<rparr>) (pods_waitForNodeCleanup A cfg i)))
       (\<lambda>e. if pa_over_quota A e then Some QuotaException else None) (nat (kc_launch_retries cfg))"

subsection \<open>The request handler\<close>

text \<open>The handler's threads, by number, and the provider's quota that is kept for a while.\<close>

record k8s_handler =
  kh_quota :: quota_cache
  kh_threads :: "nat list"

definition k8s_nodepoolQuota :: "rat \<Rightarrow> (k8s_handler, quota) eff" where
  "k8s_nodepoolQuota now h =
     (case estimatedNodepoolQuota (Inr k8s_getProviderLimits) (Inr no_quota) now now (kh_quota h) of
        (r, qc) \<Rightarrow> (r, h\<lparr>kh_quota := qc\<rparr>))"

definition k8s_quotaUsed ::
  "'z kazoo \<Rightarrow> k8s_config \<Rightarrow> string option \<Rightarrow> rat \<Rightarrow> 'z zk_view \<Rightarrow> (k8s_handler, quota) eff" where
  "k8s_quotaUsed K cfg pool now v =
     eff_bind (eff_lift (nodeIterator K (v_nodes v) False True now (v_zk v)))
       (estimatedNodepoolQuotaUsed (kc_name cfg) (map (\<lambda>(k, p). (k, map fst (kp_labels p))) (kc_pools cfg))
          (\<lambda>l k. eff_lift (case map_of (kc_pools cfg) k of None \<Rightarrow> Inl KeyError | Some p \<Rightarrow> k8s_quotaNeededByLabel l (Some p)))
          pool)"

text \<open>Of the limits of the pool; \<open>default\<close> among its \<open>max_resources\<close> would be given twice.\<close>

definition k8s_pool_quota :: "bool \<Rightarrow> k8s_pool \<Rightarrow> quota res" where
  "k8s_pool_quota with_resources pool =
     (let args = foldl (\<lambda>d (k, v). AList.update k (Some v) d)
          [(''cores'', kp_max_cores pool), (''instances'', Some (kp_max_servers pool)), (''ram'', kp_max_ram pool)]
          (if with_resources then kp_max_resources pool else [])
      in if map_of args ''default'' \<noteq> None then Inl TypeError
         else Inr (quota_of_args (args @ [(''default'', Some PosInf)])))"

definition k8s_hasProviderQuota :: "k8s_pool \<Rightarrow> string list \<Rightarrow> rat \<Rightarrow> (k8s_handler, bool) eff" where
  "k8s_hasProviderQuota pool types now =
     eff_bind (eff_lift (foldE (\<lambda>t acc. bindE (k8s_quotaNeededByLabel t (Some pool)) (\<lambda>q. lift_quota (quota_add q acc))) types no_quota)) (\<lambda>needed.
     eff_bind (if kp_ignore_provider_quota pool then eff_ret True
               else eff_bind (k8s_nodepoolQuota now) (\<lambda>cloud.
                      eff_lift (bindE (lift_quota (quota_subtract needed cloud)) non_negative))) (\<lambda>ok.
     if \<not> ok then eff_ret False
     else eff_lift (bindE (k8s_pool_quota False pool) (\<lambda>q. bindE (lift_quota (quota_subtract needed q)) non_negative))))"

definition k8s_hasRemainingQuota ::
  "'z kazoo \<Rightarrow> k8s_config \<Rightarrow> k8s_pool \<Rightarrow> string \<Rightarrow> rat \<Rightarrow> 'z zk_view \<Rightarrow> (k8s_handler, bool) eff" where
  "k8s_hasRemainingQuota K cfg pool ntype now v =
     eff_bind (eff_lift (k8s_quotaNeededByLabel ntype (Some pool))) (\<lambda>needed.
     eff_bind (k8s_nodepoolQuota now) (\<lambda>cloud.
     eff_bind (k8s_quotaUsed K cfg None now v) (\<lambda>used.
     eff_bind (eff_lift (bindE (lift_quota (quota_subtract used cloud)) (\<lambda>q.
                 bindE (lift_quota (quota_subtract needed q)) non_negative))) (\<lambda>ok.
     if \<not> ok then eff_ret False
     else eff_bind (k8s_quotaUsed K cfg (Some (kp_name pool)) now v) (\<lambda>used_here.
            eff_lift (bindE (k8s_pool_quota True pool) (\<lambda>limit. bindE (lift_quota (quota_subtract used_here limit)) (\<lambda>q.
              bindE (lift_quota (quota_subtract needed q)) non_negative))))))))"

definition k8s_alive_thread_count :: "(nat \<Rightarrow> bool) \<Rightarrow> k8s_handler \<Rightarrow> nat" where
  "k8s_alive_thread_count alive h = length (filter alive (kh_threads h))"

definition k8s_launchesComplete :: "(nat \<Rightarrow> bool) \<Rightarrow> node list \<Rightarrow> k8s_handler \<Rightarrow> bool" where
  "k8s_launchesComplete alive ns h =
     (if kh_threads h = [] then True
      else if k8s_alive_thread_count alive h > 0 then False
      else list_all (\<lambda>n. o_state n \<in> {Some READY, Some FAILED, Some ABORTED}) ns)"

text \<open>The handler of OpenShift has the check of what remains and the test of completion once more.\<close>

definition ocp_hasRemainingQuota ::
  "'z kazoo \<Rightarrow> k8s_config \<Rightarrow> k8s_pool \<Rightarrow> string \<Rightarrow> rat \<Rightarrow> 'z zk_view \<Rightarrow> (k8s_handler, bool) eff" where
  "ocp_hasRemainingQuota = k8s_hasRemainingQuota"

definition ocp_launchesComplete :: "(nat \<Rightarrow> bool) \<Rightarrow> node list \<Rightarrow> k8s_handler \<Rightarrow> bool" where
  "ocp_launchesComplete = k8s_launchesComplete"

end
