(* ===== verification/LauncherProps.thy ===== *)
theory LauncherProps
  imports SmHandler SmProvider
begin

section \<open>What a launch guarantees\<close>

text \<open>
  Invariants of a launcher, whatever the adapter and the server do. A condition on the launcher that
  does not look at the fields a launch assigns is kept by every part of a launch but the last one,
  which makes the node ready; the number of attempts and the node's state are two such conditions.
\<close>

subsection \<open>Invariants of the launcher in a launch\<close>

abbreviation on_l :: "('m launcher \<Rightarrow> bool) \<Rightarrow> ('m, 'c, 'z) launch_world \<Rightarrow> bool" where
  "on_l J \<equiv> (\<lambda>w. J (lw_l w))"

lemma keeps_upd_l [keeps]: "(\<And>l. J l \<Longrightarrow> J (f l)) \<Longrightarrow> keeps_inv (on_l J) (upd_l f)"
  by (simp add: upd_l_def keeps_mod)

lemma keeps_on_provider [keeps]: "keeps_inv (on_l J) (on_provider m)"
  unfolding on_provider_def by (rule keeps_zoom) simp

lemma keeps_get_l [keeps]: "keeps_inv I (get_l f)"
  by (simp add: get_l_def keeps)

lemma keeps_on_node:
  assumes "\<And>l z ex n' z'. J l \<Longrightarrow> f (ln_node l) z = (ex, n', z') \<Longrightarrow> J (l\<lparr>ln_node := n'\<rparr>)"
  shows "keeps_inv (on_l J) (on_node f)"
  unfolding on_node_def by (rule keeps_obj) (simp add: assms)

lemma keeps_prod [keeps]: "(\<And>a b. keeps_inv I (f a b)) \<Longrightarrow> keeps_inv I (case p of (a, b) \<Rightarrow> f a b)"
  by (cases p) simp

lemma keeps_json_str [keeps]:
  "(\<And>s. keeps_inv I (f s)) \<Longrightarrow> keeps_inv I m \<Longrightarrow> keeps_inv I (case v of JStr s \<Rightarrow> f s | _ \<Rightarrow> m)"
  by (cases v) simp_all

lemma storeNode_keeps_state: "storeNode K now n z = (ex, n', z') \<Longrightarrow> o_state n' = o_state n"
  by (auto simp: storeNode_def Let_def split: if_splits sum.splits)

lemma assign_state_sets:
  "assign_state st now n z = (ex, n', z') \<Longrightarrow> o_state n' = o_state n \<or> o_state n' = Some st"
  by (auto simp: assign_state_def set_state_def split: sum.splits option.splits if_splits)

locale launcher_invariant =
  fixes J :: "'m launcher \<Rightarrow> bool"
  assumes same_state: "J l \<Longrightarrow> o_state n = o_state (ln_node l) \<Longrightarrow> J (l\<lparr>ln_node := n\<rparr>)"
    and ends: "J l \<Longrightarrow> o_state n = Some FAILED \<or> o_state n = Some ABORTED \<Longrightarrow> J (l\<lparr>ln_node := n\<rparr>)"
    and fields: "J l \<Longrightarrow> J (l\<lparr>ln_state_machine := m\<rparr>)" "J l \<Longrightarrow> J (l\<lparr>ln_scan := i\<rparr>)"
      "J l \<Longrightarrow> J (l\<lparr>ln_delete_machine := m\<rparr>)" "J l \<Longrightarrow> J (l\<lparr>ln_start_time := t\<rparr>)"
      "J l \<Longrightarrow> J (l\<lparr>ln_start_future := u\<rparr>)"
    and attempt: "J l \<Longrightarrow> ln_attempts l < ln_retries l \<Longrightarrow> J (l\<lparr>ln_attempts := ln_attempts l + 1\<rparr>)"
begin

lemma keeps_store: "keeps_inv (on_l J) (on_node (storeNode K now))"
  by (rule keeps_on_node) (blast intro: same_state storeNode_keeps_state)

lemma keeps_end: "st = FAILED \<or> st = ABORTED \<Longrightarrow> keeps_inv (on_l J) (on_node (assign_state st now))"
  by (rule keeps_on_node) (blast dest: assign_state_sets intro: same_state ends)

lemma keeps_upd_node: "(\<And>n. o_state (f n) = o_state n) \<Longrightarrow> keeps_inv (on_l J) (upd_node f)"
  unfolding upd_node_def by (rule keeps_upd_l) (rule same_state, assumption, simp)

lemma keeps_set_delete: "keeps_inv (on_l J) (set_delete m)"
  unfolding set_delete_def by (rule keeps_upd_l) (rule fields)

lemma keeps_use_external_id: "keeps_inv (on_l J) use_external_id"
  unfolding use_external_id_def by (rule keeps_upd_l) (simp add: same_state)

lemma keeps_drop_scan: "keeps_inv (on_l J) drop_scan"
  unfolding drop_scan_def by (rule keeps_mod) (simp add: fields)

lemmas keeps_parts = keeps_store keeps_end keeps_upd_node keeps_set_delete keeps_use_external_id keeps_drop_scan

lemma keeps_startStateMachine: "keeps_inv (on_l J) (startStateMachine K A cfg ic now clk)"
  unfolding startStateMachine_def
  by (intro keeps keeps_parts) (simp_all add: image_settings_def fields)

lemma keeps_updateNodeFromInstance: "keeps_inv (on_l J) (updateNodeFromInstance K now inst)"
  unfolding updateNodeFromInstance_def
  by (intro keeps keeps_parts) (simp_all add: instance_addresses_def instance_settings_def)

lemma keeps_advance_delete: "keeps_inv (on_l J) (advance_delete A clk m)"
  by (rule keepsI) (auto simp: advance_delete_def fields split: prod.splits)

lemma keeps_runDelete: "keeps_inv (on_l J) (runDeleteStateMachine A clk)"
  unfolding runDeleteStateMachine_def
  by (intro keeps keeps_parts keeps_advance_delete)

lemma keeps_advance_create: "keeps_inv (on_l J) (advance_create A clk)"
  by (rule keepsI) (auto simp: advance_create_def fields split: option.splits prod.splits)

lemma keeps_add_scan: "keeps_inv (on_l J) (add_scan resolve cfg clk)"
  unfolding add_scan_def by (intro keeps keeps_mod) (simp_all add: Let_def fields)

lemma keeps_create_step: "keeps_inv (on_l J) (create_step K A resolve cfg now clk)"
  unfolding create_step_def
  by (intro keeps keeps_parts keeps_advance_create keeps_updateNodeFromInstance keeps_add_scan)

lemma keeps_session_lost: "keeps_inv (on_l J) (session_lost now)"
  unfolding session_lost_def by (intro keeps keeps_parts disjI1 refl)

lemma keeps_over_quota: "keeps_inv (on_l J) (over_quota K now)"
  unfolding over_quota_def by (intro keeps keeps_parts disjI2 refl)

lemma keeps_notify: "keeps_inv (on_l J) (notify_keyscan A)"
  unfolding notify_keyscan_def by (intro keeps)

text \<open>Another attempt is started only while some are left.\<close>

lemma launch_again:
  assumes "J (lw_l w)" and "ln_attempts (lw_l w) < ln_retries (lw_l w)"
  shows "J (lw_l (snd (launcher_launch K A cfg ic now clk w)))"
proof -
  let ?w = "w\<lparr>lw_l := (lw_l w)\<lparr>ln_attempts := ln_attempts (lw_l w) + 1\<rparr>\<rparr>"
  let ?rest = "eff_bind (get_l ln_attempts) (\<lambda>a.
          if a = 1 then upd_l (\<lambda>l. l\<lparr>ln_start_future := Some Pending\<rparr>)
          else startStateMachine K A cfg ic now clk)"
  have "keeps_inv (on_l J) ?rest"
    by (intro keeps keeps_startStateMachine) (simp add: fields)
  moreover have "J (lw_l ?w)" using attempt [OF assms] by simp
  ultimately have "J (lw_l (snd (?rest ?w)))" by (rule keepsD)
  then show ?thesis by (simp add: launcher_launch_def upd_l_def eff_simps)
qed

text \<open>The last part of a failed launch.\<close>

definition again ::
  "'z kazoo \<Rightarrow> ('m, 'c) adapter \<Rightarrow> provider_config \<Rightarrow> cached_image cache option \<Rightarrow> rat \<Rightarrow> rat \<Rightarrow>
     ('m, 'c, 'z, bool option) launch_eff" where
  "again K A cfg ic now clk =
     eff_bind (get_l (\<lambda>l. n_external_id (ln_node l))) (\<lambda>x.
        eff_bind (on_provider (on_cloud (ad_getDelete A x clk))) (\<lambda>m.
          eff_seq (set_delete (Some m))
            (eff_seq (launcher_launch K A cfg ic now clk) (eff_ret (Some False)))))"

lemma again_keeps:
  assumes "J (lw_l w)" and "ln_attempts (lw_l w) < ln_retries (lw_l w)"
  shows "J (lw_l (snd (again K A cfg ic now clk w)))"
proof -
  obtain r w1 where d: "on_provider (on_cloud (ad_getDelete A (n_external_id (ln_node (lw_l w))) clk)) w = (r, w1)"
    by fastforce
  then have same: "lw_l w1 = lw_l w"
    by (auto simp: on_provider_def eff_zoom_def split: prod.splits)
  show ?thesis
  proof (cases r)
    case (Inr m)
    let ?w = "w1\<lparr>lw_l := (lw_l w1)\<lparr>ln_delete_machine := Some m\<rparr>\<rparr>"
    have "J (lw_l (snd (launcher_launch K A cfg ic now clk ?w)))"
      by (rule launch_again) (use assms same in \<open>simp_all add: fields\<close>)
    with d Inr show ?thesis
      by (auto simp: again_def get_l_def set_delete_def upd_l_def eff_bind_def eff_simps
          split: prod.splits sum.splits)
  qed (use d same assms in \<open>simp add: again_def get_l_def eff_bind_def eff_simps\<close>)
qed

lemma keeps_launch_failed: "keeps_inv (on_l J) (launch_failed K A cfg ic now clk e)"
proof -
  have last: "keeps_inv (on_l J) (eff_bind (get_l (\<lambda>l. ln_attempts l \<ge> ln_retries l)) (\<lambda>last.
      if last then eff_seq (on_node (assign_state FAILED now)) (eff_ret (Some True))
      else again K A cfg ic now clk))"
  proof (rule keepsI)
    fix s r s'
    assume J: "J (lw_l s)" and run: "eff_bind (get_l (\<lambda>l. ln_attempts l \<ge> ln_retries l)) (\<lambda>last.
      if last then eff_seq (on_node (assign_state FAILED now)) (eff_ret (Some True))
      else again K A cfg ic now clk) s = (r, s')"
    have fin: "keeps_inv (on_l J) (eff_seq (on_node (assign_state FAILED now)) (eff_ret (Some True)))"
      by (intro keeps keeps_parts disjI1 refl)
    show "J (lw_l s')"
      using run J keepsE [OF fin, of s r s'] again_keeps [OF J, of K A cfg ic now clk]
      by (cases "ln_retries (lw_l s) \<le> ln_attempts (lw_l s)")
        (auto simp: get_l_def eff_bind_def eff_run)
  qed
  show ?thesis
    unfolding launch_failed_def
    by (intro keeps keeps_parts keeps_notify last [unfolded again_def])
qed

end

subsection \<open>The number of attempts\<close>

definition attempts_ok :: "int \<Rightarrow> 'm launcher \<Rightarrow> bool" where
  "attempts_ok k l = (ln_retries l = k \<and> ln_attempts l \<le> max 1 k)"

interpretation attempts: launcher_invariant "attempts_ok k"
  by unfold_locales (auto simp: attempts_ok_def)

subsection \<open>The state of the node\<close>

text \<open>The states a launch can give the node without having finished: the one it had, or an end.\<close>

definition state_in :: "zk_state option set \<Rightarrow> 'm launcher \<Rightarrow> bool" where
  "state_in S l = (o_state (ln_node l) \<in> S \<union> {Some FAILED, Some ABORTED})"

interpretation states: launcher_invariant "state_in S"
  by unfold_locales (auto simp: state_in_def)

subsection \<open>A whole call\<close>

text \<open>The part of the \<open>try\<close> block after the check for the end.\<close>

definition not_finished ::
  "'z kazoo \<Rightarrow> ('m, 'c) adapter \<Rightarrow> (string \<Rightarrow> pyexc option) \<Rightarrow> provider_config \<Rightarrow> rat \<Rightarrow> rat \<Rightarrow> 'm state_machine \<Rightarrow>
     ('m, 'c, 'z, bool option) launch_eff" where
  "not_finished K A resolve cfg now clk m =
     (if clk - sm_start_time m > pr_launch_timeout cfg then eff_raise ServerCreateTimeoutException
      else eff_bind (runDeleteStateMachine A clk) (\<lambda>clean.
        if \<not> clean then eff_ret (Some False)
        else eff_seq (create_step K A resolve cfg now clk) (eff_ret None)))"

definition handle_exception ::
  "'z kazoo \<Rightarrow> ('m, 'c) adapter \<Rightarrow> provider_config \<Rightarrow> cached_image cache option \<Rightarrow> rat \<Rightarrow> rat \<Rightarrow> pyexc \<Rightarrow>
     ('m, 'c, 'z, bool option) launch_eff" where
  "handle_exception K A cfg ic now clk e =
     (if e = SessionExpiredError then session_lost now
      else if e = QuotaException then over_quota K now
      else launch_failed K A cfg ic now clk e)"

context launcher_invariant
begin

lemma keeps_not_finished: "keeps_inv (on_l J) (not_finished K A resolve cfg now clk m)"
  unfolding not_finished_def by (intro keeps keeps_runDelete keeps_create_step)

lemma keeps_handle: "keeps_inv (on_l J) (handle_exception K A cfg ic now clk e)"
  unfolding handle_exception_def
  by (intro keeps keeps_session_lost keeps_over_quota keeps_launch_failed)

text \<open>With a condition that \<open>READY\<close> keeps as well, everything does.\<close>

lemma keeps_finish:
  assumes "\<And>l n. J l \<Longrightarrow> o_state n = Some READY \<Longrightarrow> J (l\<lparr>ln_node := n\<rparr>)"
  shows "keeps_inv (on_l J) (finish_launch K now)"
proof -
  have "keeps_inv (on_l J) (on_node (assign_state READY now))"
    by (rule keeps_on_node) (blast dest: assign_state_sets intro: same_state assms)
  note ready = this
  show ?thesis
    unfolding finish_launch_def by (intro keeps ready keeps_store keeps_upd_node) simp_all
qed

lemma keeps_launcher_run:
  assumes "\<And>l n. J l \<Longrightarrow> o_state n = Some READY \<Longrightarrow> J (l\<lparr>ln_node := n\<rparr>)"
  shows "keeps_inv (on_l J) (launcher_run K A resolve cfg ic now clk)"
proof -
  have start: "keeps_inv (on_l J) (case (m0, fut) of (None, Some (Raised e)) \<Rightarrow> eff_raise e | _ \<Rightarrow> eff_ret ())"
    for m0 :: "'m state_machine option" and fut
    by (cases m0; cases fut) (auto intro: keeps split: start_future.split)
  have "keeps_inv (on_l J) (launch_body K A resolve cfg now clk)"
    unfolding launch_body_def
    by (intro keeps keeps_finish assms keeps_not_finished [unfolded not_finished_def] start)
      (simp_all add: fields)
  then show ?thesis
    unfolding launcher_run_def
    by (intro keeps keeps_handle [unfolded handle_exception_def])
qed

end

lemma launcher_run_attempts:
  assumes "launcher_run K A resolve cfg ic now clk w = (r, w')" and "ln_attempts (lw_l w) \<le> max 1 (ln_retries (lw_l w))"
  shows "ln_attempts (lw_l w') \<le> max 1 (ln_retries (lw_l w')) \<and> ln_retries (lw_l w') = ln_retries (lw_l w)"
proof -
  have "keeps_inv (on_l (attempts_ok (ln_retries (lw_l w)))) (launcher_run K A resolve cfg ic now clk)"
    by (rule attempts.keeps_launcher_run) (simp add: attempts_ok_def)
  from keepsE [OF this _ assms(1)] assms(2) show ?thesis by (simp add: attempts_ok_def)
qed

subsection \<open>When a node becomes ready\<close>

text \<open>The create machine is complete and the scan has ended without an exception.\<close>

definition launch_done :: "('m, 'c, 'z) launch_world \<Rightarrow> bool" where
  "launch_done w = (machine_complete (lw_l w) \<and>
     (case scan_of w of None \<Rightarrow> False | Some r \<Rightarrow> sc_complete r \<and> sc_exception r = None))"

definition with_start_time :: "rat \<Rightarrow> ('m, 'c, 'z) launch_world \<Rightarrow> ('m, 'c, 'z) launch_world" where
  "with_start_time clk w = w\<lparr>lw_l := (if ln_start_time (lw_l w) = None then (lw_l w)\<lparr>ln_start_time := Some clk\<rparr>
                                     else lw_l w)\<rparr>"

lemma scan_of_start_time [simp]:
  "scan_of (with_start_time clk w) = scan_of w" "scan_done (with_start_time clk w) = scan_done w"
  by (simp_all add: scan_of_def scan_done_def with_start_time_def)

lemma finish_launch_raises:
  assumes "machine_complete (lw_l w)" and "scan_done w" and "\<not> launch_done w"
  shows "finish_launch K now w = (Inl LaunchKeyscanException, w)"
  using assms
  by (auto simp: finish_launch_def launch_done_def scan_done_def scan_result_def eff_bind_def eff_simps
      split: option.splits)

lemma launch_body_cases:
  obtains (early) r where "launch_body K A resolve cfg now clk w = (r, w)"
  | (raised) e where "launch_body K A resolve cfg now clk w = (Inl e, with_start_time clk w)"
  | (finish) m where "ln_state_machine (lw_l w) = Some m" "sm_complete m" "scan_done w"
      "launch_body K A resolve cfg now clk w =
         eff_seq (finish_launch K now) (eff_ret (Some True)) (with_start_time clk w)"
  | (go_on) m where "ln_state_machine (lw_l w) = Some m"
      "launch_body K A resolve cfg now clk w = not_finished K A resolve cfg now clk m (with_start_time clk w)"
proof (cases "ln_state_machine (lw_l w)")
  case None
  show thesis
  proof (cases "ln_start_future (lw_l w)")
    case None
    with \<open>ln_state_machine (lw_l w) = None\<close> show thesis
      by (intro early) (simp add: launch_body_def get_l_def eff_bind_def eff_simps)
  next
    case (Some f)
    with \<open>ln_state_machine (lw_l w) = None\<close> show thesis
    proof (cases f)
      case Finished
      with None Some show thesis
        by (intro raised [of AttributeError])
          (simp add: launch_body_def get_l_def upd_l_def eff_bind_def eff_simps with_start_time_def)
    qed (use None Some in \<open>auto simp: launch_body_def get_l_def eff_bind_def eff_simps intro: early\<close>)
  qed
next
  case (Some m)
  have sd: "scan_done (w\<lparr>lw_l := x\<rparr>) = scan_done w" if "ln_scan x = ln_scan (lw_l w)" for x
    using that by (simp add: scan_done_def scan_of_def)
  have body: "launch_body K A resolve cfg now clk w =
      (if sm_complete m \<and> scan_done w then eff_seq (finish_launch K now) (eff_ret (Some True)) (with_start_time clk w)
       else not_finished K A resolve cfg now clk m (with_start_time clk w))"
    by (simp add: launch_body_def get_l_def upd_l_def eff_bind_def [of "eff_get _"] eff_bind_def [of "eff_read _"]
        eff_seq_run eff_run Some with_start_time_def sd not_finished_def)
  show thesis
    by (cases "sm_complete m \<and> scan_done w") (use body Some in \<open>auto intro: finish go_on\<close>)
qed

lemma not_done_keeps_state:
  assumes "\<not> launch_done w" and "state_in S (lw_l w)"
  shows "state_in S (lw_l (snd (launch_body K A resolve cfg now clk w)))"
proof (cases rule: launch_body_cases [of K A resolve cfg now clk w])
  case (finish m)
  then have c: "machine_complete (lw_l (with_start_time clk w))" "scan_done (with_start_time clk w)"
    "\<not> launch_done (with_start_time clk w)"
    using assms(1) by (auto simp: machine_complete_def launch_done_def with_start_time_def scan_of_def scan_done_def)
  have "snd (launch_body K A resolve cfg now clk w) = with_start_time clk w"
    using finish(4) finish_launch_raises [OF c, of K now] by (simp add: eff_simps)
  with assms(2) show ?thesis by (simp add: state_in_def with_start_time_def)
next
  case (go_on m)
  have "state_in S (lw_l (with_start_time clk w))" using assms(2) by (simp add: state_in_def with_start_time_def)
  with go_on(2) keepsD [OF states.keeps_not_finished] show ?thesis by metis
qed (use assms(2) in \<open>simp_all add: state_in_def with_start_time_def\<close>)

lemma launcher_run_ready:
  assumes "launcher_run K A resolve cfg ic now clk w = (r, w')"
    and "o_state (ln_node (lw_l w)) \<noteq> Some READY" and "o_state (ln_node (lw_l w')) = Some READY"
  shows "launch_done w"
proof (rule ccontr)
  assume n: "\<not> launch_done w"
  let ?S = "{o_state (ln_node (lw_l w))}"
  let ?b = "eff_try (launch_body K A resolve cfg now clk) (handle_exception K A cfg ic now clk)"
  obtain x w1 where b: "launch_body K A resolve cfg now clk w = (x, w1)" by fastforce
  have w1: "state_in ?S (lw_l w1)"
    using not_done_keeps_state [OF n, of ?S K A resolve cfg now clk] b by (simp add: state_in_def)
  have "state_in ?S (lw_l (snd (?b w)))"
    using b w1 keepsD [OF states.keeps_handle, where s = w1]
    by (cases x) (simp_all add: eff_try_def)
  moreover have "lw_l w' = lw_l (snd (?b w))"
    using assms(1)
    by (auto simp: launcher_run_def handle_exception_def [abs_def] get_l_def eff_bind_def eff_simps
        split: prod.splits sum.splits option.splits)
  ultimately show False using assms(2,3) by (auto simp: state_in_def)
qed

section \<open>Concrete drivers\<close>

text \<open>
  A small cloud and its configuration, on which the properties of the drivers and of the launcher are
  tried: an adapter that completes a machine at the first step and counts the resources it deletes, a
  pool with one label and room for two instances, a scan worker with two scans, and an empty server.
\<close>

text \<open>An adapter whose labels need one instance each, and a pool with a limit of two.\<close>

definition one_instance :: quota where
  "one_instance = quota_init None (Some (Fin 1)) None (Fin 0) []"

definition w_adapter :: "(unit, nat) adapter" where
  "w_adapter = \<lparr> ad_getCreate = (\<lambda>a clk. eff_ret (sm_init clk ())),
     ad_getDelete = (\<lambda>x clk. eff_ret ((sm_init clk ())\<lparr>sm_external_id := x\<rparr>)),
     ad_advance = (\<lambda>clk m c. (Inr (Some instance_init), m\<lparr>sm_complete := True\<rparr>, c)),
     ad_listInstances = (\<lambda>c. Inr []), ad_listResources = (\<lambda>c. Inr []),
     ad_deleteResource = (\<lambda>r. eff_mod Suc), ad_getQuotaLimits = (\<lambda>c. Inl NotImplementedError),
     ad_getQuotaForLabel = (\<lambda>lb c. Inr one_instance), ad_getAZs = (\<lambda>c. Inr [JNull]),
     ad_labelReady = (\<lambda>lb c. Inr True), ad_uploadImage = (\<lambda>p n f t m h1 h2. eff_ret JNull),
     ad_deleteImage = (\<lambda>i. eff_ret ()), ad_notifyNodescanFailure = (\<lambda>lb x. eff_ret ()),
     ad_getConsoleLog = (\<lambda>lb x. eff_ret ()) \<rparr>"

definition w_image :: image_config where
  "w_image = \<lparr> ic_name = ''img'', ic_username = JStr ''zuul'', ic_python_path = JStr ''auto'',
     ic_shell_type = JNull, ic_connection_port = JNum 22, ic_connection_type = JStr ''ssh'' \<rparr>"

definition w_label :: label_config where
  "w_label = \<lparr> lc_name = ''small'', lc_diskimage = None, lc_cloud_image = Some w_image,
     lc_host_key_checking = True \<rparr>"

definition w_pool :: pool_config where
  "w_pool = \<lparr> pc_name = ''main'', pc_labels = [(''small'', w_label)], pc_max_servers = Fin 2,
     pc_max_cores = None, pc_max_ram = None, pc_max_volumes = None, pc_max_volume_gb = None,
     pc_max_resources = [], pc_ignore_provider_quota = True, pc_use_internal_ip = False, pc_azs = [] \<rparr>"

definition w_provider_config :: provider_config where
  "w_provider_config = \<lparr> pr_name = ''prov'', pr_pools = [(''main'', w_pool)], pr_diskimages = [],
     pr_launch_retries = 3, pr_launch_timeout = 600, pr_boot_timeout = 60 \<rparr>"

definition w_scan_request :: "rat \<Rightarrow> scan_request" where
  "w_scan_request start = \<lparr> sc_state = CONNECTING_INIT, sc_iteration = ''init'', sc_host_key_checking = True,
     sc_gather = True, sc_fake = False, sc_timeout = 60, sc_complete = False, sc_keys = [],
     sc_sock = True, sc_transport = False, sc_key_types = [], sc_key_index = None,
     sc_start_time = start, sc_connect_start = start, sc_worker = True, sc_exception = None \<rparr>"

definition w_scan_worker :: scan_worker where
  "w_scan_worker = \<lparr> sw_active = [0, 1], sw_pending = [], sw_requests = (\<lambda>i. w_scan_request (of_nat i)) \<rparr>"

definition w_state :: "(unit, nat) provider" where
  "w_state = \<lparr> p_objs = (\<lambda>i. None), p_next = 0, p_launchers = [], p_deleters = [],
     p_scan = w_scan_worker, p_next_scan = 2, p_running = True, p_label_quota = [],
     p_quota_cache = quota_cache_init, p_error_labels = [], p_leaked_nodes = [],
     p_leaked_uploads = [], p_cloud = 0 \<rparr>"

definition w_zk :: mem_zk where
  "w_zk = \<lparr> mz_nodes = [], mz_zxid = 0, mz_clock = 0 \<rparr>"

definition w_view :: "mem_zk zk_view" where
  "w_view = \<lparr> v_nodes = None, v_images = None, v_zk = w_zk \<rparr>"

definition w_request :: node_request where
  "w_request = (node_request_init (Some ''100-1''))\<lparr>o_state := Some PENDING, o_state_time := JNum 1,
     r_lock := True, r_thread_lock := True, r_node_types := JList [JStr ''small'', JStr ''large'']\<rparr>"

definition w_node :: "string \<Rightarrow> node" where
  "w_node i = (node_init (Some i))\<lparr>o_state := Some READY, o_state_time := JNum 1, n_lock := True,
     n_thread_lock := True, n_provider := JStr ''prov'', n_pool := JStr ''main'', n_type := [JStr ''small'']\<rparr>"

text \<open>A request for one node, stored in the server, and its handler at the start.\<close>

definition w_request1 :: node_request where
  "w_request1 = w_request\<lparr>o_state := Some REQUESTED, r_node_types := JList [JStr ''small''], r_reuse := JBool False\<rparr>"

definition w_zk1 :: mem_zk where
  "w_zk1 = \<lparr> mz_nodes = [(requestPath ''100-1'', \<lparr> mn_data = serialize (node_request_toDict w_request1),
     mn_created = 0, mn_mzxid = 1, mn_mtime = 0, mn_creates = 0 \<rparr>)], mz_zxid = 1, mz_clock = 0 \<rparr>"

definition w_start :: "((unit, nat) sm_handler, mem_zk) handler_state" where
  "w_start = handler_init w_request1 (sm_handler_init w_state w_request1) None None w_zk1"

text \<open>A handler that has all its nodes.\<close>

definition w_handler :: "((unit, nat) sm_handler, mem_zk) handler_state" where
  "w_handler = (handler_init w_request (sm_handler_init w_state w_request) None None w_zk)
     \<lparr>h_nodeset := [w_node ''7'', w_node ''8''], h_satisfied := [(''large'', ''7''), (''small'', ''8'')]\<rparr>"

definition w_handler_config :: handler_config where
  "w_handler_config = \<lparr> hc_provider = ''prov'', hc_pool = ''main'', hc_launcher_id = ''me'',
     hc_max_servers = Fin 2, hc_node_attributes = JNull, hc_supported = [''small'', ''large''],
     hc_pause_at_quota = True, hc_registered = [''me'', ''other''] \<rparr>"

definition w_driver :: "((unit, nat) sm_handler, mem_zk) driver" where
  "w_driver = sm_driver mem_kazoo w_adapter hd w_provider_config w_pool"

section \<open>Which resources are deleted as leaked\<close>

text \<open>
  The clean-up of leaked resources, over an adapter that records what it is asked to delete (and may
  raise when it does): what is deleted and what is remembered are sets given by the metadata of the
  resources, the ids ZooKeeper knows and the ids remembered by the previous run.
\<close>

definition owned :: "string \<Rightarrow> cloud_resource \<Rightarrow> bool" where
  "owned provider_name r = (meta_get (re_metadata r) ''nodepool_provider_name'' = Some provider_name)"

definition leaked_key :: "string option \<Rightarrow> bool \<Rightarrow> string option" where
  "leaked_key key known = (case key of None \<Rightarrow> None | Some k \<Rightarrow> if k = [] \<or> known then None else Some k)"

definition leaked_node :: "string option list \<Rightarrow> cloud_resource \<Rightarrow> string option" where
  "leaked_node known r =
     (let i = meta_get (re_metadata r) ''nodepool_node_id'' in leaked_key i (i \<in> set known))"

definition leaked_upload :: "string list \<Rightarrow> cloud_resource \<Rightarrow> string option" where
  "leaked_upload known r = leaked_key (build_upload_id r) (the (build_upload_id r) \<in> set known)"

text \<open>An adapter that keeps a list of the resources it was asked to delete.\<close>

definition records :: "('m, cloud_resource list) adapter \<Rightarrow> bool" where
  "records A = (\<forall>r c. snd (ad_deleteResource A r c) = c @ [r])"

definition keep_key :: "string option \<Rightarrow> string list \<Rightarrow> string list" where
  "keep_key k found = (case k of None \<Rightarrow> found | Some i \<Rightarrow> List.insert i found)"

lemma set_keep_key [simp]: "set (keep_key k found) = set found \<union> set_option k"
  by (cases k) (auto simp: keep_key_def)

lemma leaked_one_records:
  assumes "records A"
  shows "leaked_one A r key known before found c =
    (Inr (keep_key (leaked_key key known) found),
     c @ (if leaked_key key known \<in> Some ` set before then [r] else []))"
  using assms
  by (cases key) (auto simp: leaked_one_def leaked_key_def keep_key_def records_def eff_simps eff_when_def eff_bind_def)

lemma leaked_step_records:
  assumes "records A"
  shows "leaked_step A p nodes uploads old_nodes old_uploads r (fn, fu) c =
    (if \<not> owned p r then (Inr (fn, fu), c)
     else (Inr (keep_key (leaked_node nodes r) fn, keep_key (leaked_upload uploads r) fu),
           c @ (if leaked_node nodes r \<in> Some ` set old_nodes then [r] else [])
             @ (if leaked_upload uploads r \<in> Some ` set old_uploads then [r] else [])))"
  by (simp add: leaked_step_def owned_def leaked_node_def leaked_upload_def Let_def eff_bind_def eff_run
      leaked_one_records [OF assms])

definition twice_leaked ::
  "string \<Rightarrow> string option list \<Rightarrow> string list \<Rightarrow> string list \<Rightarrow> string list \<Rightarrow> cloud_resource \<Rightarrow> bool" where
  "twice_leaked p nodes uploads old_nodes old_uploads r =
     (owned p r \<and> (leaked_node nodes r \<in> Some ` set old_nodes \<or> leaked_upload uploads r \<in> Some ` set old_uploads))"

lemma leaked_fold:
  assumes "records A"
  shows "\<exists>fn' fu' c'. eff_fold (leaked_step A p nodes uploads old_nodes old_uploads) rs (fn, fu) c = (Inr (fn', fu'), c') \<and>
    set fn' = set fn \<union> {k. \<exists>r \<in> set rs. owned p r \<and> leaked_node nodes r = Some k} \<and>
    set fu' = set fu \<union> {k. \<exists>r \<in> set rs. owned p r \<and> leaked_upload uploads r = Some k} \<and>
    set c' = set c \<union> {r \<in> set rs. twice_leaked p nodes uploads old_nodes old_uploads r}"
proof (induction rs arbitrary: fn fu c)
  case (Cons r rs)
  let ?fn = "if owned p r then keep_key (leaked_node nodes r) fn else fn"
  let ?fu = "if owned p r then keep_key (leaked_upload uploads r) fu else fu"
  let ?c = "if owned p r then c @ (if leaked_node nodes r \<in> Some ` set old_nodes then [r] else [])
             @ (if leaked_upload uploads r \<in> Some ` set old_uploads then [r] else []) else c"
  have step: "leaked_step A p nodes uploads old_nodes old_uploads r (fn, fu) c = (Inr (?fn, ?fu), ?c)"
    by (simp add: leaked_step_records [OF assms])
  obtain fn' fu' c' where ih:
    "eff_fold (leaked_step A p nodes uploads old_nodes old_uploads) rs (?fn, ?fu) ?c = (Inr (fn', fu'), c')"
    "set fn' = set ?fn \<union> {k. \<exists>r \<in> set rs. owned p r \<and> leaked_node nodes r = Some k}"
    "set fu' = set ?fu \<union> {k. \<exists>r \<in> set rs. owned p r \<and> leaked_upload uploads r = Some k}"
    "set c' = set ?c \<union> {r \<in> set rs. twice_leaked p nodes uploads old_nodes old_uploads r}"
    using Cons.IH [of ?fn ?fu ?c] by blast
  have fn: "set ?fn = set fn \<union> {k. owned p r \<and> leaked_node nodes r = Some k}"
    and fu: "set ?fu = set fu \<union> {k. owned p r \<and> leaked_upload uploads r = Some k}"
    and c: "set ?c = set c \<union> {x. x = r \<and> twice_leaked p nodes uploads old_nodes old_uploads r}"
    by (auto simp: twice_leaked_def elim: option.set_cases)
  show ?case
    by (intro exI [of _ fn'] exI [of _ fu'] exI [of _ c'])
      (use ih(1) step in \<open>simp add: eff_bind_def ih(2-4) fn fu c\<close>, auto)
qed (simp add: eff_simps)

text \<open>One run of the clean-up.\<close>

lemma cleanup_leaked:
  assumes "nodeIterator K (v_nodes v) False True now (v_zk v) = Inr ns"
    and "getProviderUploads K (pr_name cfg) now (v_zk v) = Inr uploads"
    and "ad_listResources A (p_cloud p) = Inr rs" and "records A"
  shows "\<exists>p'. cleanupLeakedResources K A cfg now v p = (Inr (), p') \<and>
    set (p_leaked_nodes p') =
      {k. \<exists>r \<in> set rs. owned (pr_name cfg) r \<and> leaked_node (known_node_ids (pr_name cfg) ns) r = Some k} \<and>
    set (p_leaked_uploads p') =
      {k. \<exists>r \<in> set rs. owned (pr_name cfg) r \<and> leaked_upload (known_upload_ids uploads) r = Some k} \<and>
    set (p_cloud p') = set (p_cloud p) \<union>
      {r \<in> set rs. twice_leaked (pr_name cfg) (known_node_ids (pr_name cfg) ns) (known_upload_ids uploads)
                     (p_leaked_nodes p) (p_leaked_uploads p) r}"
proof -
  obtain fn' fu' c' where f:
    "eff_fold (leaked_step A (pr_name cfg) (known_node_ids (pr_name cfg) ns) (known_upload_ids uploads)
       (p_leaked_nodes p) (p_leaked_uploads p)) rs ([], []) (p_cloud p) = (Inr (fn', fu'), c')"
    "set fn' = {k. \<exists>r \<in> set rs. owned (pr_name cfg) r \<and> leaked_node (known_node_ids (pr_name cfg) ns) r = Some k}"
    "set fu' = {k. \<exists>r \<in> set rs. owned (pr_name cfg) r \<and> leaked_upload (known_upload_ids uploads) r = Some k}"
    "set c' = set (p_cloud p) \<union> {r \<in> set rs. twice_leaked (pr_name cfg) (known_node_ids (pr_name cfg) ns)
       (known_upload_ids uploads) (p_leaked_nodes p) (p_leaked_uploads p) r}"
    using leaked_fold [OF assms(4), of "pr_name cfg" "known_node_ids (pr_name cfg) ns" "known_upload_ids uploads"
        "p_leaked_nodes p" "p_leaked_uploads p" rs "[]" "[]" "p_cloud p"] by auto
  show ?thesis
    by (simp add: cleanupLeakedResources_def eff_bind_def eff_run eff_zoom_def assms(1-3) f set_cloud_def)
qed

end
