(* ===== verification/K8sClaims.thy ===== *)
theory K8sClaims
  imports K8sLauncher LauncherProps
begin

section \<open>Properties of the Kubernetes and OpenShift drivers\<close>

text \<open>
  How a launch ends, when a pod counts as running, whose pod an id is, and what stops the cleanup, with
  witnesses on small clusters.
\<close>

subsection \<open>The state a launch leaves its node in\<close>

text \<open>An operation that returns leaves the node ready.\<close>

definition ends_ready :: "(('s, 'z) node_world, 'a) eff \<Rightarrow> bool" where
  "ends_ready m \<longleftrightarrow> (\<forall>w x w'. m w = (Inr x, w') \<longrightarrow> o_state (nw_node w') = Some READY)"

definition node_is :: "zk_state \<Rightarrow> ('s, 'z) node_world \<Rightarrow> bool" where
  "node_is st w \<longleftrightarrow> o_state (nw_node w) = Some st"

lemma ends_ready_bind: "(\<And>x. ends_ready (f x)) \<Longrightarrow> ends_ready (eff_bind m f)"
  by (auto simp: ends_ready_def eff_bind_Inr)

lemma ends_ready_seq: "ends_ready k \<Longrightarrow> ends_ready (eff_seq m k)"
  unfolding eff_seq_def by (rule ends_ready_bind)

lemma assign_state_done: "st \<in> set NODE_STATES \<Longrightarrow> assign_state st now n z = (None, n\<lparr>o_state := Some st, o_state_time := JNum now\<rparr>, z)"
  by (simp add: assign_state_def set_state_def del: state_str.simps)

lemma node_is_keeps [keeps]:
  "(\<And>n. o_state (f n) = o_state n) \<Longrightarrow> keeps_inv (node_is st) (kube_node f)"
  "keeps_inv (node_is st) (nw_on (storeNode K now))"
  "st' \<in> set NODE_STATES \<Longrightarrow> st' = st \<Longrightarrow> keeps_inv (node_is st) (nw_on (assign_state st' now))"
  by (auto simp: kube_node_def keeps_inv_def node_is_def eff_mod_def nw_on_def eff_obj_def assign_state_done
      dest!: storeNode_keeps_state split: prod.splits)

text \<open>Setting the state, and then what keeps it.\<close>

lemma node_is_after:
  assumes "st \<in> set NODE_STATES" and "keeps_inv (node_is st) k"
  shows "node_is st (snd (eff_seq (nw_on (assign_state st now)) k w))"
proof -
  let ?w = "w\<lparr>nw_node := (nw_node w)\<lparr>o_state := Some st, o_state_time := JNum now\<rparr>\<rparr>"
  have "eff_seq (nw_on (assign_state st now)) k w = k ?w"
    using assms(1) by (simp add: eff_seq_def eff_bind_def nw_on_def eff_obj_def assign_state_done)
  moreover have "node_is st ?w" by (simp add: node_is_def)
  ultimately show ?thesis using keepsD [OF assms(2)] by metis
qed

lemma node_ready_ends:
  assumes "\<And>n. o_state (first_one n) = o_state n" and "\<And>n. o_state (last_one n) = o_state n"
  shows "ends_ready (node_ready K now cfg l res first_one last_one)"
  unfolding ends_ready_def
proof (intro allI impI)
  fix w x w' assume "node_ready K now cfg l res first_one last_one w = (Inr x, w')"
  then have "w' = snd (node_ready K now cfg l res first_one last_one w)" by simp
  moreover have "node_is READY (snd (node_ready K now cfg l res first_one last_one w))"
    unfolding node_ready_def
    by (intro node_is_after keeps) (simp_all add: NODE_STATES_def assms)
  ultimately show "o_state (nw_node w') = Some READY" by (simp add: node_is_def)
qed

lemma attempts_end_ready:
  assumes "ends_ready attempt"
  shows "ends_ready (k8s_attempts attempt revert stop (Suc left))"
proof (induction left)
  case 0
  with assms show ?case
    by (auto simp: ends_ready_def eff_try_def eff_seq_def eff_bind_def eff_raise_def split: prod.splits sum.splits if_splits option.splits)
next
  case (Suc left)
  have "o_state (nw_node w') = Some READY"
    if "eff_seq revert (case stop e of Some x \<Rightarrow> eff_raise x | None \<Rightarrow> k8s_attempts attempt revert stop (Suc left)) w = (Inr (), w')"
    for e w w'
    using that Suc.IH by (auto simp: ends_ready_def eff_seq_def eff_bind_Inr eff_raise_def split: option.splits)
  with assms show ?case
    by (auto simp: ends_ready_def eff_try_def eff_raise_def simp del: k8s_attempts.simps
        simp add: k8s_attempts.simps(2) [of attempt revert stop "Suc left"] split: prod.splits sum.splits if_splits)
qed

lemma launcher_run_ends:
  assumes "ends_ready launch"
  shows "o_state (nw_node (snd (nodeLauncher_run K now launch w))) \<in> {Some READY, Some FAILED, Some ABORTED}"
proof (cases "launch w")
  case (Pair r w1)
  show ?thesis
  proof (cases r)
    case (Inl e)
    have "node_is st (snd (eff_seq (nw_on (assign_state st now)) (nw_on (storeNode K now)) w1))"
      if "st \<in> set NODE_STATES" for st
      using that by (intro node_is_after keeps)
    then have "node_is FAILED (snd (eff_seq (nw_on (assign_state FAILED now)) (nw_on (storeNode K now)) w1))"
      and "node_is ABORTED (snd (eff_seq (nw_on (assign_state ABORTED now)) (nw_on (storeNode K now)) w1))"
      by (simp_all add: NODE_STATES_def)
    moreover have "node_is FAILED (snd (nw_on (assign_state FAILED now) w1))"
      by (simp add: nw_on_def eff_obj_def assign_state_done NODE_STATES_def node_is_def)
    ultimately show ?thesis
      using Pair Inl by (simp add: nodeLauncher_run_def eff_try_def node_is_def)
  next
    case (Inr u)
    with Pair assms show ?thesis by (simp add: nodeLauncher_run_def eff_try_def ends_ready_def)
  qed
qed

lemma k8s_label_ready: "ends_ready (k8s_launchLabel K now A cfg pool l r)"
  unfolding k8s_launchLabel_def by (intro ends_ready_bind node_ready_ends) simp_all

lemma ocp_label_ready: "ends_ready (ocp_launchLabel K now A cfg pool l r)"
  unfolding ocp_launchLabel_def Let_def
  by (intro ends_ready_bind ends_ready_seq node_ready_ends) simp_all

lemma pods_label_ready: "ends_ready (pods_launchLabel K now A cfg pool l r)"
  unfolding pods_launchLabel_def Let_def
  by (intro ends_ready_bind ends_ready_seq node_ready_ends) simp_all

lemma nat_pos: "0 < i \<Longrightarrow> \<exists>n. nat i = Suc n"
  by (metis not0_implies_Suc zero_less_nat_eq less_not_refl)

subsection \<open>Small clusters\<close>

definition k8s_label_one :: k8s_label where
  "k8s_label_one = \<lparr> kl_name = ''pod'', kl_type = ''pod'', kl_spec = JNull, kl_image = JStr ''fedora'', kl_image_pull = JStr ''IfNotPresent'',
     kl_image_pull_secrets = JList [], kl_python_path = JStr ''auto'', kl_shell_type = JNull, kl_cpu = JNum 2, kl_memory = JNum 1024,
     kl_storage = JNull, kl_cpu_limit = JNum 2, kl_memory_limit = JNum 1024, kl_storage_limit = JNull, kl_gpu = JNum (1 / 2),
     kl_gpu_resource = JStr ''gpu-vendor.example/gpu'', kl_env = JList [], kl_node_selector = JNull, kl_privileged = JNull,
     kl_scheduler_name = JNull, kl_volumes = JNull, kl_volume_mounts = JNull, kl_labels = JNull, kl_dynamic_labels = [],
     kl_annotations = JNull, kl_extra_resources = [] \<rparr>"

definition k8s_config_one :: k8s_config where
  "k8s_config_one = \<lparr> kc_name = ''kube'', kc_context = JStr ''ctx'', kc_launch_retries = 3,
     kc_pools = [(''main'', \<lparr> kp_name = ''main'', kp_labels = [(''pod'', k8s_label_one)], kp_max_servers = Fin 2, kp_max_cores = None,
        kp_max_ram = None, kp_max_resources = [], kp_ignore_provider_quota = False \<rparr>)],
     kc_format = (\<lambda>f d. Inr f) \<rparr>"

text \<open>A cluster that answers nothing.\<close>

definition k8s_down :: "(string \<times> json) list k8s_api" where
  "k8s_down = \<lparr> ka_namespaces = (\<lambda>c. (Inr c, c)), ka_delete_namespace = (\<lambda>n c. (Inl (OtherError ''ApiException''), c)),
     ka_read_namespace = (\<lambda>n c. (Inl (OtherError ''ApiException''), c)), ka_create_namespace = (\<lambda>b c. (Inl (OtherError ''ApiException''), c)),
     ka_create_account = (\<lambda>n b c. (Inl (OtherError ''ApiException''), c)), ka_create_secret = (\<lambda>n b c. (Inl (OtherError ''ApiException''), c)),
     ka_read_secret = (\<lambda>u n c. (Inl (OtherError ''ApiException''), c)), ka_create_role = (\<lambda>n b c. (Inl (OtherError ''ApiException''), c)),
     ka_create_binding = (\<lambda>n b c. (Inl (OtherError ''ApiException''), c)), ka_create_pod = (\<lambda>n b c. (Inl (OtherError ''ApiException''), c)),
     ka_read_pod = (\<lambda>p n c. (Inl (OtherError ''ApiException''), c)), ka_host = JStr ''https://kube'', ka_verify_ssl = True,
     ka_b64decode = Inr \<rparr>"

text \<open>
  C30: However a launch goes, and whatever the cluster and ZooKeeper raise, the thread leaves its node in one of the
  states the request handler waits for, provided that there is an attempt at all.
\<close>
theorem k8s_launch_ends:
  assumes "0 < kc_launch_retries cfg"
  shows "o_state (nw_node (snd (k8s_launcher_run K now A cfg pool l r w))) \<in> {Some READY, Some FAILED, Some ABORTED}"
proof -
  obtain n where "nat (kc_launch_retries cfg) = Suc n" using nat_pos [OF assms] by blast
  then have "ends_ready (k8s_launch K now A cfg pool l r)"
    unfolding k8s_launch_def using attempts_end_ready [OF k8s_label_ready] by metis
  then show ?thesis unfolding k8s_launcher_run_def by (rule launcher_run_ends)
qed

theorem k8s_launch_ends_witness:
  "o_state (nw_node (snd (k8s_launcher_run mem_kazoo 5 k8s_down k8s_config_one ''main'' k8s_label_one w_request
     \<lparr> nw_node = node_init (Some ''0000000001''), nw_zk = w_zk, nw_more = \<lparr> kw_cluster = [], kw_ready = True \<rparr> \<rparr>)))
   \<in> {Some READY, Some FAILED, Some ABORTED}"
  by (rule k8s_launch_ends) (simp add: k8s_config_one_def)

text \<open>Without an attempt the thread is over at once and the node stays as it was, building.\<close>

theorem k8s_no_attempt:
  assumes "kc_launch_retries cfg \<le> 0"
  shows "k8s_launcher_run K now A cfg pool l r w = (Inr (), w)"
  using assms by (simp add: k8s_launcher_run_def k8s_launch_def nodeLauncher_run_def eff_try_def eff_ret_def)

subsection \<open>Waiting for a pod\<close>

lemma wait_pod_count:
  assumes "kd_phase p \<noteq> ''Running''" and "kd_phase q = ''Running''"
  shows "wait_pod (\<lambda>c. (Inr (if c < k then p else q), Suc c)) t left c =
    (if c + left < k then (Inr (t + left, p), Suc (c + left))
     else (Inr (t + (k - c), q), Suc (max c k)))"
proof (induction left arbitrary: t c)
  case 0
  then show ?case by (auto simp: eff_bind_def eff_ret_def)
next
  case (Suc left)
  then show ?case
    by (cases "c < k") (auto simp: eff_bind_def eff_ret_def assms max_def Suc_diff_Suc)
qed

text \<open>
  A pod counts as running if one of the first 299 readings finds it so: that the 300th, the last one the code
  makes, finds it running does not help, the launch fails and the pod is taken down.
\<close>
theorem k8s_pod_last_reading:
  assumes "kd_phase p \<noteq> ''Running''" and "kd_phase q = ''Running''"
  shows "fst (pod_running (\<lambda>c. (Inr (if c < k then p else q), Suc c)) (0 :: nat)) =
    (if k < 299 then Inr q else Inl LaunchNodepoolException)"
  using wait_pod_count [OF assms, of k 0 299 0]
  by (simp add: pod_running_def eff_bind_def eff_ret_def eff_raise_def)

theorem k8s_pod_last_reading_witness:
  "fst (pod_running (\<lambda>c. (Inr (if c < 299 then \<lparr> kd_phase = ''Pending'', kd_node_name = JNull \<rparr>
      else \<lparr> kd_phase = ''Running'', kd_node_name = JStr ''host'' \<rparr>), Suc c)) (0 :: nat)) = Inl LaunchNodepoolException"
  using k8s_pod_last_reading [of "\<lparr> kd_phase = ''Pending'', kd_node_name = JNull \<rparr>"
      "\<lparr> kd_phase = ''Running'', kd_node_name = JStr ''host'' \<rparr>" 299]
  by simp

subsection \<open>Whose pod an id is\<close>

text \<open>
  The id of a pod leads back to its project and its name, as long as no other pool's name, with a dash, begins
  the id as well.
\<close>
theorem pods_id_roundtrip:
  assumes "pool \<in> set pools" and "\<forall>q \<in> set pools. startswith (pool @ ''-'' @ pod) (q @ ''-'') \<longrightarrow> q = pool"
  shows "getProjectPodName pools (pool @ ''-'' @ pod) = Some (pool, pod)"
proof -
  have "startswith (pool @ ''-'' @ pod) (pool @ ''-'')" using startswith_append [of "pool @ ''-''" pod] by simp
  with assms have "find (\<lambda>q. startswith (pool @ ''-'' @ pod) (q @ ''-'')) pools = Some pool"
    by (induction pools) auto
  then show ?thesis by (simp add: getProjectPodName_def)
qed

theorem pods_id_roundtrip_witness:
  "getProjectPodName [''main'', ''extra''] (''extra'' @ ''-'' @ ''pod-0000000007'') = Some (''extra'', ''pod-0000000007'')"
  by (rule pods_id_roundtrip) (simp_all add: startswith_def)

text \<open>With a pool whose name begins another's, the id of a pod of the other names a pod of the first.\<close>

theorem pods_wrong_project:
  "getProjectPodName [''a'', ''a-b''] (''a-b'' @ ''-'' @ ''pod-7'') = Some (''a'', ''b-pod-7'')"
  by (simp add: getProjectPodName_def startswith_def)

subsection \<open>The cleanup of leaked namespaces\<close>

text \<open>
  A namespace that only looks like one of the provider's, with no labels, ends the cleanup of all that come
  after it.
\<close>
theorem k8s_unlabelled_stops:
  assumes "kw_ready w" and "ka_namespaces A (kw_cluster w) = (Inr ((name, JNull) # ns), c)"
    and "managed_name (map (\<lambda>(k, p). kp_name p) (kc_pools cfg)) name"
  shows "k8s_cleanupLeakedResources A cfg get_node w = (Inl TypeError, w\<lparr>kw_cluster := c\<rparr>)"
  using assms
  by (simp add: k8s_cleanupLeakedResources_def k8s_listNodes_def on_cluster_def eff_zoom_def eff_bind_def eff_get_def eff_ret_def
      eff_seq_def k8s_cleanup_one_def eff_raise_def)

theorem k8s_unlabelled_stops_witness:
  "k8s_cleanupLeakedResources k8s_down k8s_config_one (\<lambda>i. Inr None)
     \<lparr> kw_cluster = [(''main-1'', JNull), (''main-0000000002'', JDict [])], kw_ready = True \<rparr> =
   (Inl TypeError, \<lparr> kw_cluster = [(''main-1'', JNull), (''main-0000000002'', JDict [])], kw_ready = True \<rparr>)"
proof (rule k8s_unlabelled_stops [where c = "[(''main-1'', JNull), (''main-0000000002'', JDict [])]", THEN trans])
  show "managed_name (map (\<lambda>(k, p). kp_name p) (kc_pools k8s_config_one)) ''main-1''"
    by (simp add: k8s_config_one_def managed_name_def startswith_def last_part_def py_int_str_def py_strip_def
        is_space_def Prelude.is_digit_def)
qed (simp_all add: k8s_down_def)

end
