(* ===== verification/ZkNodesProps.thy ===== *)
theory ZkNodesProps
  imports ZkPools
begin

section \<open>What the operations on nodes and requests do\<close>

text \<open>
  Storing and reading back, deleting, locking and unlocking, and the deletion of the oldest unused
  node, under the laws of the client (\<open>zk_server\<close>) and of the lock recipe (\<open>lock_recipe\<close>).
\<close>

subsection \<open>Helpers\<close>

lemma last_component_append [simp]: "slash \<notin> set n \<Longrightarrow> last_component (p @ slash # n) = n"
  by (simp add: last_component_def py_split_append_rest py_split_free)

lemma str_id_simps [simp]: "str_id (Some s) = s" "str_id None = ''None''"
  by (simp_all add: str_id_def)

lemma not_no_id: "\<not> no_id i \<longleftrightarrow> (\<exists>s. i = Some s \<and> s \<noteq> [])"
  by (cases i) (auto simp: no_id_def)

text \<open>Updating a node from what another node wrote: the serialised attributes are the writer's.\<close>

lemma node_update_toDict:
  assumes "node_good m"
  shows "node_updateFromDict (node_toDict m) now n =
    (None, m\<lparr>o_id := o_id n, o_stat := o_stat n, n_lock := n_lock n,
             n_thread_lock := n_thread_lock n, n_lock_contenders := n_lock_contenders n\<rparr>)"
proof -
  from assms obtain st where st: "st \<in> set NODE_STATES" "o_state m = Some st"
    and h: "hold_expiration_of (n_hold_expiration m) = Inr (n_hold_expiration m)"
    unfolding node_good_def by fastforce
  have b: "base_updateFromDict NODE_STATES (node_toDict m) now n =
    (None, n\<lparr>o_state := Some st, o_state_time := o_state_time m\<rparr>)"
    unfolding node_toDict_def by (rule base_update_toDict [OF st(2,1)])
  show ?thesis
    unfolding node_updateFromDict_def b
    by (simp add: node_toDict_def base_toDict_def set_type_def h st)
qed

lemma node_good_update [simp]:
  "node_good (n\<lparr>o_id := i\<rparr>) = node_good n" "node_good (n\<lparr>n_created_time := t\<rparr>) = node_good n"
  by (simp_all add: node_good_def)

lemma node_toDict_no_id [simp]: "node_toDict (n\<lparr>o_id := i\<rparr>) = node_toDict n"
  by (simp add: node_toDict_def base_toDict_def)

text \<open>An update never touches the fields that are not serialised.\<close>

lemma base_update_keeps:
  "base_updateFromDict valid d now ob = (e, ob') \<Longrightarrow> o_id ob' = o_id ob"
  "base_updateFromDict valid d now n = (e, n') \<Longrightarrow>
     n_lock n' = n_lock n \<and> n_thread_lock n' = n_thread_lock n \<and>
     n_lock_contenders n' = n_lock_contenders n"
  by (auto simp: base_updateFromDict_def set_state_def
      split: sum.splits json.splits option.splits if_splits)

lemma node_update_keeps:
  assumes "node_updateFromDict d now n = (e, n')"
  shows "o_id n' = o_id n \<and> n_lock n' = n_lock n \<and> n_thread_lock n' = n_thread_lock n"
proof (cases "base_updateFromDict NODE_STATES d now n")
  case (Pair e1 n1)
  note keeps = base_update_keeps(1) [OF Pair] base_update_keeps(2) [OF Pair]
  have "o_id (snd (node_updateFromDict d now n)) = o_id n1 \<and>
      n_lock (snd (node_updateFromDict d now n)) = n_lock n1 \<and>
      n_thread_lock (snd (node_updateFromDict d now n)) = n_thread_lock n1"
    by (cases e1; cases "hold_expiration_of (dget d ''hold_expiration'')")
      (simp_all add: node_updateFromDict_def Pair set_type_def)
  with keeps assms show ?thesis by simp
qed

lemma updateNode_keeps:
  "updateNode K now n z = (e, n') \<Longrightarrow>
     o_id n' = o_id n \<and> n_lock n' = n_lock n \<and> n_thread_lock n' = n_thread_lock n"
  by (auto simp: updateNode_def dest!: node_update_keeps
      split: prod.splits option.splits sum.splits if_splits)

lemma storeNode_keeps: "storeNode K now n z = (ex, n', z') \<Longrightarrow> n_lock n' = n_lock n"
  by (auto simp: storeNode_def Let_def split: if_splits sum.splits)

lemma lockNode_locks: "lockNode K L n b t e i f now z = (None, n', z') \<Longrightarrow> n_lock n'"
  by (auto simp: lockNode_def dest: updateNode_keeps split: sum.splits if_splits prod.splits)

lemma set_state_keeps_node:
  "set_state valid v now n = Inr n' \<Longrightarrow>
     o_id n' = o_id n \<and> n_lock n' = n_lock n \<and> n_thread_lock n' = n_thread_lock n"
  by (auto simp: set_state_def split: json.splits option.splits if_splits)

lemma set_node_state:
  "set_state NODE_STATES (JStr (state_str DELETED)) now n =
     Inr (n\<lparr>o_state := Some DELETED, o_state_time := JNum now\<rparr>)"
  "set_state NODE_STATES (JStr (state_str DELETING)) now n =
     Inr (n\<lparr>o_state := Some DELETING, o_state_time := JNum now\<rparr>)"
  unfolding set_state_state_str by (simp_all add: NODE_STATES_def)

subsection \<open>Nodes\<close>

context zk_server
begin

lemma getNode_there:
  assumes "tree z (nodePath i) = Some (serialize (node_toDict n))" and "node_good n"
  shows "\<exists>st. getNode K nc i False oc now z = Inr (Some ((node_reread (Some i) n)\<lparr>o_stat := Some st\<rparr>))"
proof -
  obtain st where "kz_get K (nodePath i) z = Inr (serialize (node_toDict n), st)"
    using get_there [OF assms(1)] by blast
  then have "getNode K nc i False oc now z =
      Inr (Some ((node_reread (Some i) n)\<lparr>o_id := Some i, o_stat := Some st\<rparr>))"
    using node_read_back [OF assms(2)] by (simp add: getNode_def serialize_def)
  moreover have "(node_reread (Some i) n)\<lparr>o_id := Some i, o_stat := Some st\<rparr> =
      (node_reread (Some i) n)\<lparr>o_stat := Some st\<rparr>"
    by (simp add: node_reread_def)
  ultimately show ?thesis by auto
qed

lemma storeNode_tree:
  assumes "storeNode K now n z = (None, n', z')"
  shows "\<exists>i. o_id n' = Some i \<and> tree z' (nodePath i) = Some (serialize (node_toDict n')) \<and>
      (no_id (o_id n) \<longrightarrow> tree z (nodePath i) = None \<and>
         n' = n\<lparr>n_created_time := (if truthy (o_state_time n) then o_state_time n else JNum now),
               o_id := Some i\<rparr>) \<and>
      (\<not> no_id (o_id n) \<longrightarrow> n' = n \<and> tree z' = (tree z)(nodePath i \<mapsto> serialize (node_toDict n)))"
proof (cases "no_id (o_id n)")
  case True
  let ?n = "n\<lparr>n_created_time := (if truthy (o_state_time n) then o_state_time n else JNum now)\<rparr>"
  from True assms obtain path where
    c: "kz_create_seq K (NODE_ROOT @ ''/'') (serialize (node_toDict ?n)) z = Inr (path, z')"
    and n': "n' = ?n\<lparr>o_id := Some (last_component path)\<rparr>"
    by (auto simp: storeNode_def Let_def split: sum.splits prod.splits)
  from create_seq [OF c] obtain m where m: "path = NODE_ROOT @ ''/'' @ m" "slash \<notin> set m"
    "tree z path = None" "tree z' path = Some (serialize (node_toDict ?n))" by auto
  have "last_component path = m" using m(1,2) by simp
  with True m n' show ?thesis by (auto simp: nodePath_def)
next
  case False
  then obtain i where i: "o_id n = Some i" by (auto simp: not_no_id)
  from False assms have "kz_set K (nodePath i) (serialize (node_toDict n)) z = Inr z'" "n' = n"
    by (auto simp: storeNode_def i split: sum.splits)
  with False i tree_after_set show ?thesis by auto
qed

lemma deleteNode_present:
  assumes "o_id n = Some i" and "i \<noteq> []" and "tree z (nodePath i) \<noteq> None"
  shows "\<exists>n' z'. deleteNode K now n z = (None, n', z') \<and> o_state n' = Some DELETED \<and>
      \<not> n_thread_lock n' \<and>
      tree z' = (\<lambda>q. if in_subtree (nodePath i) q then None else tree z q)"
proof -
  let ?n1 = "n\<lparr>o_state := Some DELETED, o_state_time := JNum now\<rparr>"
  obtain z1 where z1: "kz_set K (nodePath i) (serialize (node_toDict ?n1)) z = Inr z1"
    "tree z1 = (tree z)(nodePath i \<mapsto> serialize (node_toDict ?n1))"
    using set_there [OF assms(3)] by blast
  then have "tree z1 (nodePath i) \<noteq> None" by simp
  from delete_rec [OF this] obtain z2 where z2: "kz_delete K (nodePath i) True z1 = Inr z2"
    "tree z2 = (\<lambda>q. if in_subtree (nodePath i) q then None else tree z1 q)" by blast
  have "tree z2 = (\<lambda>q. if in_subtree (nodePath i) q then None else tree z q)"
    unfolding z2(2) z1(2) by auto
  moreover have "deleteNode K now n z = (None, ?n1\<lparr>n_thread_lock := False\<rparr>, z2)"
    using assms z1(1) z2(1)
    by (simp add: deleteNode_def no_id_def set_node_state deleteRawNode_def orNoNode_def
        del: state_str.simps set_state_state_str)
  moreover have "o_state (?n1\<lparr>n_thread_lock := False\<rparr>) = Some DELETED"
    "\<not> n_thread_lock (?n1\<lparr>n_thread_lock := False\<rparr>)" by simp_all
  ultimately show ?thesis by blast
qed

lemma deleteNode_absent:
  assumes "o_id n = Some i" and "i \<noteq> []" and "tree z (nodePath i) = None"
  shows "\<exists>n'. deleteNode K now n z = (Some NoNodeError, n', z)"
  using assms set_missing
  by (simp add: deleteNode_def no_id_def set_node_state del: state_str.simps set_state_state_str)

lemma updateNode_there:
  assumes "tree z (nodePath i) = Some (serialize (node_toDict m))" and "node_good m"
    and "o_id n = Some i"
  shows "\<exists>st. updateNode K now n z =
      (None, m\<lparr>o_id := Some i, o_stat := Some st, n_lock := n_lock n,
               n_thread_lock := n_thread_lock n, n_lock_contenders := n_lock_contenders n\<rparr>)"
proof -
  obtain st where "kz_get K (nodePath i) z = Inr (serialize (node_toDict m), st)"
    using get_there [OF assms(1)] by blast
  then have "updateNode K now n z =
      (None, m\<lparr>o_id := Some i, o_stat := o_stat n, n_lock := n_lock n,
               n_thread_lock := n_thread_lock n, n_lock_contenders := n_lock_contenders n\<rparr>
               \<lparr>o_stat := Some st\<rparr>)"
    using assms(3) by (simp add: updateNode_def serialize_def node_update_toDict [OF assms(2)])
  then show ?thesis by (intro exI [of _ st]) simp
qed

end

subsection \<open>Requests\<close>

lemma request_good_event [simp]:
  "request_good (r\<lparr>r_event_id := e\<rparr>) = request_good r" "request_good (r\<lparr>o_id := i\<rparr>) = request_good r"
  by (simp_all add: request_good_def)

lemma request_toDict_no_id [simp]: "node_request_toDict (r\<lparr>o_id := i\<rparr>) = node_request_toDict r"
  by (simp add: node_request_toDict_def base_toDict_def)

context zk_server
begin

lemma getNodeRequest_there:
  assumes "tree z (requestPath i) = Some (serialize (node_request_toDict r))" and "request_good r"
  shows "\<exists>st. getNodeRequest K None (Some i) c now z =
    Inr (Some ((request_reread (Some i) r)\<lparr>o_stat := Some st\<rparr>))"
proof -
  obtain st where "kz_get K (requestPath i) z = Inr (serialize (node_request_toDict r), st)"
    using get_there [OF assms(1)] by blast
  then have "getNodeRequest K None (Some i) c now z =
      Inr (Some ((request_reread (Some i) r)\<lparr>o_stat := Some st\<rparr>))"
    using request_read_back [OF assms(2)] by (simp add: getNodeRequest_def)
  then show ?thesis by blast
qed

lemma storeNodeRequest_read:
  assumes "storeNodeRequest K r priority uuid now z = (None, r', z')" and "request_good r"
    and "slash \<notin> set priority" and "uuid \<noteq> []"
  shows "\<exists>i st. o_id r' = Some i \<and>
      getNodeRequest K None (Some i) cached now' z' =
        Inr (Some ((request_reread (Some i) r')\<lparr>o_stat := Some st\<rparr>)) \<and>
      (if no_id (o_id r) then truthy (r_event_id r') \<and> startswith i (priority @ ''-'') else r' = r)"
proof (cases "no_id (o_id r)")
  case True
  let ?r = "if \<not> truthy (r_event_id r) then r\<lparr>r_event_id := JStr uuid\<rparr> else r"
  from True assms(1) obtain path where
    c: "kz_create_seq K (REQUEST_ROOT @ ''/'' @ priority @ ''-'') (serialize (node_request_toDict ?r)) z =
          Inr (path, z')"
    and r': "r' = ?r\<lparr>o_id := Some (last_component path)\<rparr>"
    unfolding storeNodeRequest_def Let_def by (auto split: sum.splits prod.splits)
  from create_seq [OF c] obtain m where m: "path = REQUEST_ROOT @ slash # (priority @ ''-'' @ m)"
    "slash \<notin> set m" "tree z' path = Some (serialize (node_request_toDict ?r))" by auto
  have i: "last_component path = priority @ ''-'' @ m"
    unfolding m(1) using m(2) assms(3) by (intro last_component_append) simp
  have good: "request_good r'" using r' assms(2) by simp
  have "tree z' (requestPath (priority @ ''-'' @ m)) = Some (serialize (node_request_toDict r'))"
    using m(1,3) r' by (simp add: requestPath_def)
  from getNodeRequest_there [OF this good, of cached now'] True r' i assms(4) show ?thesis
    by (auto simp: startswith_iff)
next
  case False
  then obtain i where i: "o_id r = Some i" by (auto simp: not_no_id)
  from False assms(1) have s: "kz_set K (requestPath i) (serialize (node_request_toDict r)) z = Inr z'" "r' = r"
    by (auto simp: storeNodeRequest_def i split: sum.splits option.splits)
  then have "tree z' (requestPath i) = Some (serialize (node_request_toDict r))"
    using tree_after_set by simp
  from getNodeRequest_there [OF this assms(2), of cached now'] False i s(2) show ?thesis by auto
qed

end

subsection \<open>Locking\<close>

text \<open>
  Taking the lock of a node: either the thread lock is not obtained and nothing changes, or the
  ZooKeeper lock is not obtained and the thread lock is free again, or both are held and the node is
  updated.
\<close>

lemma lockNode_cases:
  obtains
    (thread) e where "lockNode K L n b t eph ident freed now z = (Some e, n, z)"
      "thread_acquire (n_thread_lock n) b t freed \<noteq> Inr True"
  | (zk) e z' where
      "take_lock L (nodeLockPath (str_id (o_id n))) ident b t eph z = (Inl e, z')"
      "lockNode K L n b t eph ident freed now z = (Some e, n\<lparr>n_thread_lock := False\<rparr>, z')"
  | (locked) ex n' z' where
      "take_lock L (nodeLockPath (str_id (o_id n))) ident b t eph z = (Inr (), z')"
      "updateNode K now (n\<lparr>n_thread_lock := eph, n_lock := True\<rparr>) z' = (ex, n')"
      "lockNode K L n b t eph ident freed now z = (ex, n', z')"
proof (cases "thread_acquire (n_thread_lock n) b t freed")
  case (Inl e)
  then show ?thesis by (intro thread) (simp_all add: lockNode_def)
next
  case (Inr got)
  show ?thesis
  proof (cases got)
    case False
    with Inr show ?thesis by (intro thread) (simp_all add: lockNode_def)
  next
    case True
    obtain r z' where r: "take_lock L (nodeLockPath (str_id (o_id n))) ident b t eph z = (r, z')"
      by fastforce
    show ?thesis
    proof (cases r)
      case (Inl e)
      with r True Inr show ?thesis by (intro zk) (auto simp: lockNode_def)
    next
      case in_r: (Inr u)
      obtain ex n' where "updateNode K now (n\<lparr>n_thread_lock := eph, n_lock := True\<rparr>) z' = (ex, n')"
        by fastforce
      with r True Inr in_r show ?thesis by (intro locked) (auto simp: lockNode_def)
    qed
  qed
qed

lemma unlockNode_cases:
  obtains
    (unlocked) "\<not> n_lock n" "unlockNode L n z = (Some ZKLockException, n, z)"
  | (failed) e z' where "n_lock n" "lk_release L (nodeLockPath (str_id (o_id n))) z = (Inl e, z')"
      "unlockNode L n z = (Some e, n, z')"
  | (released) z' where "n_lock n" "lk_release L (nodeLockPath (str_id (o_id n))) z = (Inr (), z')"
      "unlockNode L n z = ((if n_thread_lock n then None else Some RuntimeError),
         n\<lparr>n_lock := False, n_thread_lock := False\<rparr>, z')"
proof (cases "n_lock n")
  case True
  obtain r z' where r: "lk_release L (nodeLockPath (str_id (o_id n))) z = (r, z')" by fastforce
  show ?thesis
  proof (cases r)
    case (Inl e)
    with True r show ?thesis by (intro failed) (auto simp: unlockNode_def)
  next
    case (Inr u)
    with True r show ?thesis by (intro released) (auto simp: unlockNode_def)
  qed
qed (auto intro: unlocked simp: unlockNode_def)

end
