(* ===== verification/ZkImagesProps.thy ===== *)
theory ZkImagesProps
  imports ZkImages
begin

section \<open>Properties of builds and uploads\<close>

text \<open>
  What the image methods of \<open>ZkImages\<close> guarantee: the newest upload is found, the list of most
  recent builds is ordered, a build is deleted exactly when it has no uploads, and what is stored
  is what is read. Facts about the server are used through the locale \<open>zk_server\<close>.
\<close>

subsection \<open>The newest upload\<close>

definition time_of :: "image_upload \<Rightarrow> rat" where
  "time_of u = (case num_of (o_state_time u) of Inr t \<Rightarrow> t | Inl e \<Rightarrow> 0)"

definition timed :: "image_upload \<Rightarrow> bool" where
  "timed u = (\<exists>t. num_of (o_state_time u) = Inr t)"

text \<open>What the loop has found after some uploads: the newest relevant one, the first of its time.\<close>

definition newest_in ::
  "string \<Rightarrow> string \<Rightarrow> zk_state \<Rightarrow> image_upload list \<Rightarrow> image_upload option \<Rightarrow> bool" where
  "newest_in img p st us r =
     (case r of
        None \<Rightarrow> (\<forall>u \<in> set us. \<not> upload_relevant img p st u)
      | Some u \<Rightarrow> \<exists>before after. us = before @ u # after \<and> upload_relevant img p st u \<and>
          (\<forall>v \<in> set before. upload_relevant img p st v \<longrightarrow> time_of v < time_of u) \<and>
          (\<forall>v \<in> set after. upload_relevant img p st v \<longrightarrow> time_of v \<le> time_of u))"

lemma newer_upload_timed:
  "timed u \<Longrightarrow> (case r of None \<Rightarrow> True | Some v \<Rightarrow> timed v) \<Longrightarrow>
     newer_upload r u = Inr (Some (case r of None \<Rightarrow> u
       | Some v \<Rightarrow> if time_of v < time_of u then u else v))"
  by (auto simp: newer_upload_def timed_def time_of_def split: option.splits)

lemma newest_inI:
  assumes "us = before @ u # after" and "upload_relevant img p st u"
    and "\<And>v. v \<in> set before \<Longrightarrow> upload_relevant img p st v \<Longrightarrow> time_of v < time_of u"
    and "\<And>v. v \<in> set after \<Longrightarrow> upload_relevant img p st v \<Longrightarrow> time_of v \<le> time_of u"
  shows "newest_in img p st us (Some u)"
  using assms unfolding newest_in_def by auto

lemma newest_in_snoc:
  assumes "newest_in img p st us r"
  shows "newest_in img p st (us @ [u])
     (if upload_relevant img p st u
      then Some (case r of None \<Rightarrow> u | Some v \<Rightarrow> if time_of v < time_of u then u else v) else r)"
proof (cases r)
  case None
  with assms have no: "\<forall>v \<in> set us. \<not> upload_relevant img p st v" by (simp add: newest_in_def)
  show ?thesis
  proof (cases "upload_relevant img p st u")
    case True
    have "newest_in img p st (us @ [u]) (Some u)"
      by (rule newest_inI [of _ us u "[]"]) (use no True in auto)
    with True None show ?thesis by simp
  next
    case False
    with no None show ?thesis by (simp add: newest_in_def)
  qed
next
  case (Some v)
  with assms obtain before after where us: "us = before @ v # after"
    and v: "upload_relevant img p st v"
    and b: "\<forall>w \<in> set before. upload_relevant img p st w \<longrightarrow> time_of w < time_of v"
    and a: "\<forall>w \<in> set after. upload_relevant img p st w \<longrightarrow> time_of w \<le> time_of v"
    by (auto simp: newest_in_def)
  show ?thesis
  proof (cases "upload_relevant img p st u \<and> time_of v < time_of u")
    case True
    then have "\<forall>w \<in> set us. upload_relevant img p st w \<longrightarrow> time_of w < time_of u"
      using us b a by fastforce
    then have "newest_in img p st (us @ [u]) (Some u)"
      by (intro newest_inI [of _ us u "[]"]) (use True in auto)
    with True Some show ?thesis by simp
  next
    case False
    have "newest_in img p st (us @ [u]) (Some v)"
      by (rule newest_inI [of _ before v "after @ [u]"]) (use False us v b a in auto)
    with False Some show ?thesis by auto
  qed
qed

lemma most_recent_snoc:
  "most_recent_of img p st (us @ [u]) = bindE (most_recent_of img p st us)
     (\<lambda>r. if upload_relevant img p st u then newer_upload r u else Inr r)"
  unfolding most_recent_of_def foldE_append
  by (cases "foldE (\<lambda>u recent. if upload_relevant img p st u then newer_upload recent u
      else Inr recent) us None") (auto simp: bindE_def split: sum.splits)

lemma newest_timed:
  "newest_in img p st us r \<Longrightarrow> (\<forall>u \<in> set us. timed u) \<Longrightarrow>
     (case r of None \<Rightarrow> True | Some v \<Rightarrow> timed v)"
  by (auto simp: newest_in_def split: option.splits)

text \<open>C\<open>newest\<close>: the loop returns a newest relevant upload, or \<open>None\<close> when there is none.\<close>

lemma most_recent_newest:
  assumes "\<forall>u \<in> set us. timed u"
  shows "\<exists>r. most_recent_of img p st us = Inr r \<and> newest_in img p st us r"
  using assms
proof (induction us rule: rev_induct)
  case Nil
  then show ?case by (simp add: most_recent_of_def newest_in_def)
next
  case (snoc u us)
  then obtain r where r: "most_recent_of img p st us = Inr r" "newest_in img p st us r" by auto
  from newest_timed [OF r(2)] snoc.prems
  have "newer_upload r u = Inr (Some (case r of None \<Rightarrow> u
      | Some v \<Rightarrow> if time_of v < time_of u then u else v))"
    by (intro newer_upload_timed) auto
  with r newest_in_snoc [OF r(2), of u] show ?case
    by (auto simp: most_recent_snoc)
qed

subsection \<open>The most recent builds\<close>

lemma mapE_Inr:
  "mapE f xs = Inr ys \<longleftrightarrow> list_all2 (\<lambda>x y. f x = Inr y) xs ys"
proof (induction xs arbitrary: ys)
  case (Cons x xs)
  show ?case
    by (cases ys) (auto simp: bindE_eq_Inr Cons.IH)
qed auto

lemma sort_newest_perm:
  assumes "sort_newest time xs = Inr ys"
  shows "mset ys = mset xs"
proof (cases "length xs \<le> 1")
  case True
  with assms show ?thesis by (simp add: sort_newest_def)
next
  case False
  with assms obtain ts where ts: "mapE (\<lambda>x. map_sum id (\<lambda>t. (t, x)) (num_of (time x))) xs = Inr ts"
    and ys: "ys = map snd (sort_key (\<lambda>p. - fst p) ts)"
    by (auto simp: sort_newest_def bindE_eq_Inr)
  from ts have "map snd ts = xs"
    unfolding mapE_Inr
    by (induction xs ts rule: list_all2_induct) (auto simp: map_sum_eq_Inr)
  then show ?thesis by (metis ys mset_map mset_sort)
qed

lemma sort_newest_sorted:
  assumes "sort_newest time xs = Inr ys"
  shows "sorted_wrt (\<lambda>a b. \<exists>ta tb. num_of (time a) = Inr ta \<and> num_of (time b) = Inr tb \<and> tb \<le> ta) ys"
proof (cases "length xs \<le> 1")
  case True
  with assms have "length ys \<le> 1" by (simp add: sort_newest_def)
  then show ?thesis by (cases ys) auto
next
  case False
  with assms obtain ts where ts: "mapE (\<lambda>x. map_sum id (\<lambda>t. (t, x)) (num_of (time x))) xs = Inr ts"
    and ys: "ys = map snd (sort_key (\<lambda>p. - fst p) ts)"
    by (auto simp: sort_newest_def bindE_eq_Inr)
  from ts have t: "\<forall>p \<in> set ts. num_of (time (snd p)) = Inr (fst p)"
    unfolding mapE_Inr
    by (induction xs ts rule: list_all2_induct) (auto simp: map_sum_eq_Inr)
  have "sorted (map (\<lambda>p. - fst p) (sort_key (\<lambda>p. - fst p) ts))" by simp
  then have "sorted_wrt (\<lambda>p q. fst q \<le> fst p) (sort_key (\<lambda>p. - fst p) ts)"
    by (simp add: sorted_wrt_map)
  then have "sorted_wrt (\<lambda>p q. \<exists>ta tb. num_of (time (snd p)) = Inr ta \<and>
      num_of (time (snd q)) = Inr tb \<and> tb \<le> ta) (sort_key (\<lambda>p. - fst p) ts)"
    by (rule sorted_wrt_mono_rel [rotated]) (use t in auto)
  then show ?thesis by (simp add: ys sorted_wrt_map)
qed

subsection \<open>Deleting a build\<close>

text \<open>ZooKeeper keeps a tree: whatever exists has existing ancestors.\<close>

definition tree_closed :: "(string \<Rightarrow> zdata option) \<Rightarrow> bool" where
  "tree_closed t = (\<forall>a q. t q \<noteq> None \<longrightarrow> ancestor a q \<longrightarrow> a \<noteq> [] \<longrightarrow> t a \<noteq> None)"

definition upload_exists :: "(string \<Rightarrow> zdata option) \<Rightarrow> string \<Rightarrow> string \<Rightarrow> bool" where
  "upload_exists t img b = (\<exists>prov num. slash \<notin> set prov \<and> slash \<notin> set num \<and> num \<noteq> ''lock'' \<and>
     t (imageUploadPath img b prov @ ''/'' @ num) \<noteq> None)"

text \<open>An upload the client sees: the parent of the uploads exists too.\<close>

definition upload_listed ::
  "(string \<Rightarrow> zdata option) \<Rightarrow> string \<Rightarrow> string \<Rightarrow> string \<Rightarrow> string \<Rightarrow> bool" where
  "upload_listed t img b p n = (t (imageUploadPath img b p) \<noteq> None \<and> n \<noteq> ''lock'' \<and>
     slash \<notin> set n \<and> t (imageUploadPath img b p @ ''/'' @ n) \<noteq> None)"

lemma not_lock_mem: "x \<in> set (not_lock xs) \<longleftrightarrow> x \<in> set xs \<and> x \<noteq> ''lock''"
  by (auto simp: not_lock_def)

context zk_server
begin

lemma upload_numbers:
  "\<exists>ns. getImageUploadNumbers K img b p z = Inr ns \<and>
     (\<forall>n. n \<in> set ns \<longleftrightarrow> upload_listed (tree z) img b p n)"
proof (cases "tree z (imageUploadPath img b p) = None")
  case True
  then show ?thesis
    by (simp add: getImageUploadNumbers_def children_missing orNoNode_def not_lock_def upload_listed_def)
next
  case False
  from children_there [OF this] obtain cs where "kz_children K (imageUploadPath img b p) z = Inr cs"
    "\<forall>c. c \<in> set cs \<longleftrightarrow> (slash \<notin> set c \<and> tree z (imageUploadPath img b p @ ''/'' @ c) \<noteq> None)"
    by blast
  with False show ?thesis
    by (intro exI [of _ "not_lock cs"])
      (simp add: getImageUploadNumbers_def orNoNode_def not_lock_mem upload_listed_def, blast)
qed

lemma build_providers:
  "\<exists>ps. getBuildProviders K img b z = Inr ps \<and>
     (\<forall>p. p \<in> set ps \<longleftrightarrow> tree z (imageProviderPath img b) \<noteq> None \<and> slash \<notin> set p \<and>
        tree z (imageProviderPath img b @ ''/'' @ p) \<noteq> None)"
proof (cases "tree z (imageProviderPath img b) = None")
  case True
  then show ?thesis
    by (simp add: getBuildProviders_def children_missing orNoNode_def)
next
  case False
  from children_there [OF this] obtain cs where "kz_children K (imageProviderPath img b) z = Inr cs"
    "\<forall>c. c \<in> set cs \<longleftrightarrow> (slash \<notin> set c \<and> tree z (imageProviderPath img b @ ''/'' @ c) \<noteq> None)"
    by blast
  with False show ?thesis
    by (intro exI [of _ "sort cs"]) (simp add: getBuildProviders_def orNoNode_def)
qed

lemma any_uploads_iff:
  "\<exists>b'. any_uploads K img b ps z = Inr b' \<and>
     (b' \<longleftrightarrow> (\<exists>p \<in> set ps. \<exists>n. upload_listed (tree z) img b p n))"
proof (induction ps)
  case (Cons p ps)
  obtain ns where ns: "getImageUploadNumbers K img b p z = Inr ns"
    and mem: "\<And>n. n \<in> set ns \<longleftrightarrow> upload_listed (tree z) img b p n"
    using upload_numbers by blast
  show ?case
  proof (cases "ns = []")
    case True
    with mem have "\<not> (\<exists>n. upload_listed (tree z) img b p n)" by simp
    with Cons.IH ns True show ?thesis by auto
  next
    case False
    then have "upload_listed (tree z) img b p (hd ns)" using mem [of "hd ns"] by simp
    with False ns show ?thesis by auto
  qed
qed auto

lemma deleteBuild_law:
  assumes closed: "tree_closed (tree z)"
  shows "upload_exists (tree z) img b \<Longrightarrow> deleteBuild K img b z = Inr (False, z)"
    and "\<not> upload_exists (tree z) img b \<Longrightarrow>
           \<exists>z'. deleteBuild K img b z = Inr (True, z') \<and>
             tree z' = (\<lambda>q. if in_subtree (imageBuildIdPath img b) q then None else tree z q)"
proof -
  obtain ps where ps: "getBuildProviders K img b z = Inr ps"
    and pm: "\<And>p. p \<in> set ps \<longleftrightarrow> tree z (imageProviderPath img b) \<noteq> None \<and> slash \<notin> set p \<and>
        tree z (imageProviderPath img b @ ''/'' @ p) \<noteq> None"
    using build_providers by blast
  obtain some where some: "any_uploads K img b ps z = Inr some"
    and sm: "some \<longleftrightarrow> (\<exists>p \<in> set ps. \<exists>n. upload_listed (tree z) img b p n)"
    using any_uploads_iff by blast
  have up: "tree z (imageUploadPath img b p) \<noteq> None \<and> tree z (imageProviderPath img b) \<noteq> None \<and>
      tree z (imageProviderPath img b @ ''/'' @ p) \<noteq> None"
    if "tree z (imageUploadPath img b p @ ''/'' @ n) \<noteq> None" for p n
  proof -
    have "ancestor a (imageUploadPath img b p @ ''/'' @ n) \<Longrightarrow> a \<noteq> [] \<Longrightarrow> tree z a \<noteq> None" for a
      using closed that unfolding tree_closed_def by blast
    moreover have "ancestor (imageUploadPath img b p) (imageUploadPath img b p @ ''/'' @ n)"
      "ancestor (imageProviderPath img b) (imageUploadPath img b p @ ''/'' @ n)"
      "ancestor (imageProviderPath img b @ ''/'' @ p) (imageUploadPath img b p @ ''/'' @ n)"
      by (auto simp: ancestor_def startswith_iff imageUploadPath_def imageProviderPath_def)
    moreover have "imageUploadPath img b p \<noteq> []" "imageProviderPath img b \<noteq> []"
      by (simp_all add: imageUploadPath_def imageProviderPath_def)
    ultimately show ?thesis by simp
  qed
  have iff: "some \<longleftrightarrow> upload_exists (tree z) img b"
  proof
    assume some
    with sm obtain p n where "p \<in> set ps" "upload_listed (tree z) img b p n" by blast
    with pm show "upload_exists (tree z) img b"
      unfolding upload_exists_def upload_listed_def by blast
  next
    assume "upload_exists (tree z) img b"
    then obtain p n where n: "slash \<notin> set p" "slash \<notin> set n" "n \<noteq> ''lock''"
      "tree z (imageUploadPath img b p @ ''/'' @ n) \<noteq> None"
      unfolding upload_exists_def by blast
    have "p \<in> set ps" using pm [of p] up [OF n(4)] n(1) by blast
    moreover have "upload_listed (tree z) img b p n"
      using n up [OF n(4)] unfolding upload_listed_def by blast
    ultimately show some using sm by blast
  qed
  show "deleteBuild K img b z = Inr (False, z)" if "upload_exists (tree z) img b"
    using that iff ps some by (simp add: deleteBuild_def)
  show "\<exists>z'. deleteBuild K img b z = Inr (True, z') \<and>
      tree z' = (\<lambda>q. if in_subtree (imageBuildIdPath img b) q then None else tree z q)"
    if none: "\<not> upload_exists (tree z) img b"
  proof (cases "tree z (imageBuildIdPath img b) = None")
    case True
    have "tree z q = None" if "in_subtree (imageBuildIdPath img b) q" for q
    proof (rule ccontr)
      assume a: "tree z q \<noteq> None"
      then have "q \<noteq> imageBuildIdPath img b" using True by auto
      with that have "ancestor (imageBuildIdPath img b) q"
        by (auto simp: in_subtree_def ancestor_def)
      moreover have "imageBuildIdPath img b \<noteq> []" by (simp add: imageBuildIdPath_def)
      ultimately have "tree z (imageBuildIdPath img b) \<noteq> None"
        using closed a unfolding tree_closed_def by blast
      with True show False by simp
    qed
    then have "tree z = (\<lambda>q. if in_subtree (imageBuildIdPath img b) q then None else tree z q)"
      by auto
    moreover have "deleteBuild K img b z = Inr (True, z)"
      using none iff ps some delete_missing [OF True]
      by (simp add: deleteBuild_def imageBuildIdPath_def orNoNode_def)
    ultimately show ?thesis by blast
  next
    case False
    from delete_rec [OF this] obtain z' where "kz_delete K (imageBuildIdPath img b) True z = Inr z'"
      "tree z' = (\<lambda>q. if in_subtree (imageBuildIdPath img b) q then None else tree z q)"
      by blast
    then show ?thesis
      using none iff ps some by (auto simp: deleteBuild_def imageBuildIdPath_def orNoNode_def)
  qed
qed

subsection \<open>Storing and reading back\<close>

lemma storeBuild_law:
  assumes "storeBuild K img b i uuid z = Inr (j, z')" and "build_good b"
  shows "\<exists>st. getBuild K img j now z' =
           Inr (Some ((build_reread (JStr img) (Some j) b)\<lparr>o_stat := Some st\<rparr>))"
proof -
  have "\<exists>st. kz_get K (imageBuildsPath img @ ''/'' @ j) z' = Inr (serialize (image_build_toDict b), st)"
  proof (cases i)
    case None
    with assms(1) have j: "j = uuid"
      and c: "kz_create K (imageBuildsPath img @ ''/'' @ uuid) (serialize (image_build_toDict b)) True z = Inr z'"
      by (auto simp: storeBuild_def Let_def map_sum_eq_Inr)
    have "tree z (imageBuildsPath img @ ''/'' @ uuid) = None"
      using create_there c by (metis Inl_Inr_False)
    from create_new [OF this c] show ?thesis using get_there j by blast
  next
    case (Some k)
    with assms(1) have "j = k"
      "kz_set K (imageBuildsPath img @ ''/'' @ k) (serialize (image_build_toDict b)) z = Inr z'"
      by (auto simp: storeBuild_def Let_def map_sum_eq_Inr)
    then show ?thesis using get_after_set by blast
  qed
  then show ?thesis
    using build_read_back [OF assms(2)] by (auto simp: getBuild_def)
qed

lemma storeImageUpload_law:
  assumes "storeImageUpload K img b p u i z = Inr (j, z')" and "upload_good u"
  shows "\<exists>st. getImageUpload K img b p j now z' =
           Inr (Some ((upload_reread (JStr b) (JStr p) (JStr img) (Some j) u)\<lparr>o_stat := Some st\<rparr>))"
    and "i = None \<Longrightarrow> j \<noteq> ''lock'' \<and> tree z (imageUploadPath img b p @ ''/'' @ j) = None"
proof -
  let ?path = "imageUploadPath img b p @ ''/''" and ?d = "serialize (image_upload_toDict u)"
  have new: "kz_create_seq K ?path ?d z = Inr (?path @ j, z') \<and> j \<noteq> ''lock'' \<and> tree z (?path @ j) = None"
    if "i = None"
  proof -
    from assms(1) that obtain path where c: "kz_create_seq K ?path ?d z = Inr (path, z')"
      and j: "j = last_component path"
      by (auto simp: storeImageUpload_def Let_def map_sum_eq_Inr split: if_splits)
    from create_seq [OF c] obtain n where n: "path = ?path @ n" "slash \<notin> set n" "n \<noteq> ''lock''"
      "tree z path = None" by blast
    have "py_split slash path = py_split slash (imageUploadPath img b p) @ py_split slash n"
      unfolding n(1) by (simp add: py_split_append_rest)
    then have "j = n" using n(2) by (simp add: j last_component_def py_split_free)
    with c n show ?thesis by simp
  qed
  show "j \<noteq> ''lock'' \<and> tree z (imageUploadPath img b p @ ''/'' @ j) = None" if "i = None"
    using new [OF that] by simp
  have "\<exists>st. kz_get K (?path @ j) z' = Inr (?d, st)"
  proof (cases i)
    case None
    with new get_after_create_seq show ?thesis by blast
  next
    case (Some k)
    with assms(1) have "j = k" "kz_set K (?path @ k) ?d z = Inr z'"
      by (auto simp: storeImageUpload_def Let_def map_sum_eq_Inr split: if_splits)
    then show ?thesis using get_after_set by blast
  qed
  then show "\<exists>st. getImageUpload K img b p j now z' =
      Inr (Some ((upload_reread (JStr b) (JStr p) (JStr img) (Some j) u)\<lparr>o_stat := Some st\<rparr>))"
    using upload_read_back [OF assms(2)] by (auto simp: getImageUpload_def)
qed

end

end
