(* ===== verification/ZkPoolsProps.thy ===== *)
theory ZkPoolsProps
  imports ZkNodesProps ZkImagesProps
begin

section \<open>What the operations over all nodes do\<close>

text \<open>
  Under the laws of the client and of the lock recipe together: \<open>deleteOldestUnusedNode\<close> changes
  at most one node, and only one that is ready and not allocated in ZooKeeper, whatever the cache
  said; an import writes every payload of the backup.
\<close>

locale zk_locks = zk_server K tree + lock_recipe L tree
  for K :: "'z kazoo" and tree :: "'z \<Rightarrow> string \<Rightarrow> zdata option" and L :: "'z locks"

subsection \<open>What locks on nodes leave alone\<close>

definition kept :: "(string \<Rightarrow> zdata option) \<Rightarrow> (string \<Rightarrow> zdata option) \<Rightarrow> bool" where
  "kept t t' \<longleftrightarrow>
     (\<forall>q. (\<forall>j. slash \<notin> set j \<longrightarrow> \<not> in_subtree (nodeLockPath j) q) \<longrightarrow> t q \<noteq> None \<longrightarrow> t' q = t q)"

lemma kept_refl [simp]: "kept t t"
  by (simp add: kept_def)

lemma kept_trans: "kept t t' \<Longrightarrow> kept t' t'' \<Longrightarrow> kept t t''"
  unfolding kept_def by metis

lemma touched_kept: "touched (nodeLockPath j) t t' \<Longrightarrow> slash \<notin> set j \<Longrightarrow> kept t t'"
  unfolding kept_def by (blast dest: touched_same)

lemma nodePath_no_lock:
  assumes "slash \<notin> set i"
  shows "\<not> in_subtree (nodeLockPath j) (nodePath i)"
proof
  assume "in_subtree (nodeLockPath j) (nodePath i)"
  then obtain t where t: "nodePath i = nodeLockPath j @ t"
    by (auto simp: in_subtree_def startswith_iff)
  then have "i = j @ ''/lock'' @ t"
    by (simp add: nodePath_def nodeLockPath_def)
  with assms show False by simp
qed

lemma kept_node: "kept t t' \<Longrightarrow> slash \<notin> set i \<Longrightarrow> t (nodePath i) \<noteq> None \<Longrightarrow> t' (nodePath i) = t (nodePath i)"
  unfolding kept_def by (meson nodePath_no_lock)

text \<open>The nodes a scan may meet: their znodes hold what some good node wrote.\<close>

definition stored_node :: "(string \<Rightarrow> zdata option) \<Rightarrow> string \<Rightarrow> node \<Rightarrow> bool" where
  "stored_node t i m \<longleftrightarrow>
     slash \<notin> set i \<and> i \<noteq> [] \<and> node_good m \<and> t (nodePath i) = Some (serialize (node_toDict m))"

lemma kept_stored: "kept t t' \<Longrightarrow> stored_node t i m \<Longrightarrow> stored_node t' i m"
  unfolding stored_node_def by (simp add: kept_node)

text \<open>The outcome of a round that deleted: one node, ready before, is \<open>DELETING\<close> after.\<close>

definition deleted_one ::
  "rat \<Rightarrow> string \<Rightarrow> (string \<Rightarrow> zdata option) \<Rightarrow> (string \<Rightarrow> zdata option) \<Rightarrow> bool" where
  "deleted_one now i t t' \<longleftrightarrow>
     (\<exists>m. stored_node t i m \<and> unallocated_ready m \<and>
        t' (nodePath i) =
          Some (serialize (node_toDict (m\<lparr>o_state := Some DELETING, o_state_time := JNum now\<rparr>))) \<and>
        kept (t(nodePath i := None)) (t'(nodePath i := None)))"

lemma kept_except: "kept t t' \<Longrightarrow> kept (t(p := None)) (t'(p := None))"
  unfolding kept_def by auto

lemma kept_deleted_one:
  assumes k: "kept t t'" and d: "deleted_one now i t' t''" and s: "t (nodePath i) \<noteq> None"
  shows "deleted_one now i t t''"
proof -
  from d obtain m where im: "stored_node t' i m" "unallocated_ready m"
    "t'' (nodePath i) =
       Some (serialize (node_toDict (m\<lparr>o_state := Some DELETING, o_state_time := JNum now\<rparr>)))"
    "kept (t'(nodePath i := None)) (t''(nodePath i := None))"
    unfolding deleted_one_def by blast
  have "slash \<notin> set i" using im(1) by (simp add: stored_node_def)
  from kept_node [OF k this s] have "t' (nodePath i) = t (nodePath i)" .
  with im(1) have "stored_node t i m" by (simp add: stored_node_def)
  moreover have "kept (t(nodePath i := None)) (t''(nodePath i := None))"
    using kept_except [OF k] im(4) by (rule kept_trans)
  ultimately show ?thesis using im(2,3) unfolding deleted_one_def by blast
qed

lemma storeNode_existing:
  "o_id n = Some i \<Longrightarrow> i \<noteq> [] \<Longrightarrow>
     storeNode K now n z = (case kz_set K (nodePath i) (serialize (node_toDict n)) z of
                              Inl e \<Rightarrow> (Some e, n, z) | Inr z' \<Rightarrow> (None, n, z'))"
  by (simp add: storeNode_def no_id_def)

context zk_locks
begin

lemma lockNode_kept:
  assumes "lockNode K L n b t eph ident freed now z = (e, n', z')" and "o_id n = Some i"
    and "slash \<notin> set i"
  shows "kept (tree z) (tree z')"
  by (rule lockNode_cases [of K L n b t eph ident freed now z])
    (use assms in \<open>auto dest!: take_lock_touches intro: touched_kept\<close>)

lemma unlockNode_kept:
  assumes "unlockNode L n z = (e, n', z')" and "o_id n = Some i" and "slash \<notin> set i"
  shows "kept (tree z) (tree z')"
  by (rule unlockNode_cases [of n L z])
    (use assms in \<open>auto dest!: release_touches intro: touched_kept\<close>)

text \<open>With the lock, the node is what ZooKeeper has.\<close>

lemma lockNode_stored:
  assumes "lockNode K L n b t eph ident freed now z = (None, n', z')"
    and "o_id n = Some i" and "stored_node (tree z) i m"
  shows "\<exists>st. n' = m\<lparr>o_id := Some i, o_stat := Some st, n_lock := True, n_thread_lock := eph,
                n_lock_contenders := n_lock_contenders n\<rparr>"
proof (rule lockNode_cases [of K L n b t eph ident freed now z])
  fix ex n1 z1
  assume a: "take_lock L (nodeLockPath (str_id (o_id n))) ident b t eph z = (Inr (), z1)"
    "updateNode K now (n\<lparr>n_thread_lock := eph, n_lock := True\<rparr>) z1 = (ex, n1)"
    "lockNode K L n b t eph ident freed now z = (ex, n1, z1)"
  have k: "kept (tree z) (tree z1)"
    using lockNode_kept [OF a(3) assms(2)] assms(3) by (simp add: stored_node_def)
  have s: "stored_node (tree z1) i m" by (rule kept_stored [OF k assms(3)])
  have "\<exists>st. updateNode K now (n\<lparr>n_thread_lock := eph, n_lock := True\<rparr>) z1 =
      (None, m\<lparr>o_id := Some i, o_stat := Some st, n_lock := True, n_thread_lock := eph,
               n_lock_contenders := n_lock_contenders n\<rparr>)"
    using updateNode_there [of z1 i m "n\<lparr>n_thread_lock := eph, n_lock := True\<rparr>" now] s assms(2)
    by (simp add: stored_node_def)
  with a assms(1) show ?thesis by auto
qed (use assms(1) in auto)

lemma mark_deleting_stored:
  assumes "mark_deleting K now n z = (ex, n', z')" and "o_id n = Some i"
    and "stored_node (tree z) i m"
  shows "o_id n' = Some i \<and>
    (ex = None \<longrightarrow> tree z' = (tree z)(nodePath i \<mapsto>
       serialize (node_toDict (n\<lparr>o_state := Some DELETING, o_state_time := JNum now\<rparr>)))) \<and>
    (ex \<noteq> None \<longrightarrow> z' = z)"
proof (cases "num_of (o_state_time n)")
  case (Inl e)
  with assms show ?thesis by (auto simp: mark_deleting_def)
next
  case (Inr tm)
  let ?n = "n\<lparr>o_state := Some DELETING, o_state_time := JNum now\<rparr>"
  from assms(3) have i: "i \<noteq> []" and there: "tree z (nodePath i) \<noteq> None"
    by (simp_all add: stored_node_def)
  obtain z1 where z1: "kz_set K (nodePath i) (serialize (node_toDict ?n)) z = Inr z1"
    "tree z1 = (tree z)(nodePath i \<mapsto> serialize (node_toDict ?n))"
    using set_there [OF there] by blast
  have "mark_deleting K now n z = (None, ?n, z1)"
    using z1(1) Inr storeNode_existing [of ?n i K now z] assms(2) i
    by (simp add: mark_deleting_def set_node_state del: state_str.simps set_state_state_str)
  with assms(1,2) z1(2) show ?thesis by auto
qed

text \<open>One candidate is deleted, or none and then no payload of a node changed.\<close>

lemma delete_first_safe:
  assumes "delete_first K L now ns nc z = (Inr b, nc', z')"
    and "\<forall>n \<in> set ns. \<exists>i m. o_id n = Some i \<and> stored_node (tree z) i m"
  shows "if b then \<exists>n \<in> set ns. deleted_one now (str_id (o_id n)) (tree z) (tree z')
         else kept (tree z) (tree z')"
  using assms
proof (induction ns arbitrary: nc z)
  case Nil
  then show ?case by auto
next
  case (Cons n ns)
  from Cons.prems(2) obtain i m where im: "o_id n = Some i" "stored_node (tree z) i m" by auto
  have sl: "slash \<notin> set i" using im(2) by (simp add: stored_node_def)
  have next_round: "if b then \<exists>n \<in> set (n # ns). deleted_one now (str_id (o_id n)) (tree z) (tree z')
      else kept (tree z) (tree z')"
    if "delete_first K L now ns c z1 = (Inr b, nc', z')" and k: "kept (tree z) (tree z1)" for c z1
  proof -
    have "\<forall>n \<in> set ns. \<exists>i m. o_id n = Some i \<and> stored_node (tree z1) i m"
      using Cons.prems(2) kept_stored [OF k] by (meson list.set_intros(2))
    note ih = Cons.IH [OF that(1) this]
    show ?thesis
    proof (cases b)
      case True
      with ih obtain n' where n': "n' \<in> set ns" "deleted_one now (str_id (o_id n')) (tree z1) (tree z')"
        by auto
      then have "tree z (nodePath (str_id (o_id n'))) \<noteq> None"
        using Cons.prems(2) by (fastforce simp: stored_node_def)
      from kept_deleted_one [OF k n'(2) this] n'(1) True show ?thesis by auto
    next
      case False
      with ih kept_trans [OF k] show ?thesis by simp
    qed
  qed
  obtain e1 n1 z1 where l: "lockNode K L n False None True None False now z = (e1, n1, z1)"
    by (metis prod_cases3)
  have k1: "kept (tree z) (tree z1)" by (rule lockNode_kept [OF l im(1) sl])
  show ?case
  proof (cases e1)
    case (Some e)
    with Cons.prems(1) l next_round k1 show ?thesis by (auto split: if_splits)
  next
    case None
    with l lockNode_stored [of n False None True None False now z n1 z1 i m] im
    obtain st where n1: "n1 = m\<lparr>o_id := Some i, o_stat := Some st, n_lock := True,
        n_thread_lock := True, n_lock_contenders := n_lock_contenders n\<rparr>" by auto
    then have i1: "o_id n1 = Some i" by simp
    show ?thesis
    proof (cases "unallocated_ready n1")
      case False
      obtain e2 n2 z2 where u: "unlockNode L n1 z1 = (e2, n2, z2)" by (metis prod_cases3)
      have "kept (tree z) (tree z2)"
        using k1 unlockNode_kept [OF u i1 sl] by (rule kept_trans)
      with Cons.prems(1) l None False u next_round show ?thesis
        by (cases e2) (auto simp: i1)
    next
      case True
      have ready: "unallocated_ready m" using True by (simp add: n1 unallocated_ready_def)
      have sm1: "stored_node (tree z1) i m" by (rule kept_stored [OF k1 im(2)])
      obtain ex n2 z2 where mk: "mark_deleting K now n1 z1 = (ex, n2, z2)" by (metis prod_cases3)
      note marked = mark_deleting_stored [OF mk i1 sm1]
      obtain e3 n3 z3 where u: "unlockNode L n2 z2 = (e3, n3, z3)" by (metis prod_cases3)
      have k3: "kept (tree z2) (tree z3)" using unlockNode_kept [OF u] marked sl by simp
      show ?thesis
      proof (cases "e3 = None \<and> ex = None")
        case both: True
        let ?m = "m\<lparr>o_state := Some DELETING, o_state_time := JNum now\<rparr>"
        have "node_toDict (n1\<lparr>o_state := Some DELETING, o_state_time := JNum now\<rparr>) = node_toDict ?m"
          by (simp add: n1 node_toDict_def base_toDict_def)
        then have t2: "tree z2 = (tree z1)(nodePath i \<mapsto> serialize (node_toDict ?m))"
          using marked both by simp
        have "tree z3 (nodePath i) = Some (serialize (node_toDict ?m))"
          using kept_node [OF k3 sl] by (simp add: t2)
        moreover have "kept ((tree z1)(nodePath i := None)) ((tree z3)(nodePath i := None))"
          using kept_except [OF k3, of "nodePath i"] by (simp add: t2)
        ultimately have "deleted_one now i (tree z1) (tree z3)"
          using sm1 ready unfolding deleted_one_def by blast
        with k1 im(2) have "deleted_one now i (tree z) (tree z3)"
          by (auto simp: stored_node_def intro: kept_deleted_one)
        moreover have "b" "z' = z3"
          using Cons.prems(1) l None True mk u both by (auto simp: prod.case)
        ultimately show ?thesis using im(1) by auto
      next
        case False
        show ?thesis
        proof (cases e3)
          case (Some e)
          with Cons.prems(1) l None True mk u show ?thesis by simp
        next
          case e3: None
          with False marked have "z2 = z1" by auto
          with k1 k3 have "kept (tree z) (tree z3)" by (auto intro: kept_trans)
          moreover have "delete_first K L now ns (put_back n3 nc) z3 = (Inr b, nc', z')"
            using Cons.prems(1) l None True mk u e3 False by simp
          ultimately show ?thesis by (rule next_round [rotated])
        qed
      qed
    qed
  qed
qed

text \<open>What the scan collects: nodes of the pool that were ready, from the cache or from ZooKeeper.\<close>

lemma getNode_id:
  assumes "getNode K nc i True False now z = Inr (Some n)"
    and "\<And>c j n. nc = Some c \<Longrightarrow> getCachedNode j c = Some n \<Longrightarrow> o_id n = Some j"
  shows "o_id n = Some i"
  using assms
  by (auto simp: getNode_def bindE_eq_Inr bind_eq_Some_conv split: option.splits sum.splits pyexc.splits if_splits)

lemma oldest_candidates_sound:
  assumes "oldest_candidates K nc pr pl now z ids acc = Inr (Some ns)" and "n \<in> set ns"
    and "\<And>c j n. nc = Some c \<Longrightarrow> getCachedNode j c = Some n \<Longrightarrow> o_id n = Some j"
  shows "n \<in> set acc \<or> (of_pool pr pl n \<and> unallocated_ready n \<and> (\<exists>i \<in> set ids. o_id n = Some i \<and>
           getNode K nc i True False now z = Inr (Some n)))"
  using assms(1,2)
proof (induction ids arbitrary: acc)
  case (Cons i ids)
  from Cons.prems(1) obtain r where r: "getNode K nc i True False now z = Inr r"
    by (auto simp: bindE_eq_Inr)
  show ?case
  proof (cases r)
    case None
    with Cons r show ?thesis by auto
  next
    case (Some m)
    have id: "o_id m = Some i" using getNode_id [of nc i now z m] r Some assms(3) by simp
    show ?thesis
    proof (cases "of_pool pr pl m \<and> unallocated_ready m")
      case True
      with Cons.prems(1) r Some
      have "oldest_candidates K nc pr pl now z ids (acc @ [m]) = Inr (Some ns)" by simp
      from Cons.IH [OF this Cons.prems(2)] True id r Some show ?thesis by auto
    next
      case False
      with Cons.prems(1) r Some have "oldest_candidates K nc pr pl now z ids acc = Inr (Some ns)"
        by (auto simp: bindE_eq_Inr split: if_splits)
      from Cons.IH [OF this Cons.prems(2)] show ?thesis by auto
    qed
  qed
qed simp

lemma sort_oldest_set:
  assumes "sort_oldest xs = Inr ys"
  shows "set ys = set xs"
proof (cases "length xs \<le> 1")
  case False
  with assms obtain ts where ts: "mapE (\<lambda>x. map_sum id (\<lambda>t. (t, x)) (num_of (o_state_time x))) xs = Inr ts"
    and ys: "ys = map snd (sort_key fst ts)"
    by (auto simp: sort_oldest_def bindE_eq_Inr)
  from ts have "map snd ts = xs"
    unfolding mapE_Inr
    by (induction xs ts rule: list_all2_induct) (auto simp: map_sum_eq_Inr)
  then show ?thesis unfolding ys by (metis mset_map mset_sort set_mset_mset)
qed (use assms in \<open>simp add: sort_oldest_def\<close>)

lemma deleteOldestUnusedNode_law:
  assumes "deleteOldestUnusedNode K L pr pl now nc z = (Inr b, nc', z')"
    and wf: "\<And>i. slash \<notin> set i \<Longrightarrow> tree z (nodePath i) \<noteq> None \<Longrightarrow> i \<noteq> [] \<and> (\<exists>m. stored_node (tree z) i m)"
    and ids: "\<And>c j n. nc = Some c \<Longrightarrow> getCachedNode j c = Some n \<Longrightarrow> o_id n = Some j"
  shows "if b then \<exists>i n. deleted_one now i (tree z) (tree z') \<and> of_pool pr pl n \<and>
           unallocated_ready n \<and> getNode K nc i True False now z = Inr (Some n)
         else kept (tree z) (tree z')"
proof -
  let ?scan = "bindE (getNodes K z) (\<lambda>js. oldest_candidates K nc pr pl now z js [])"
  consider "?scan = Inr None" | ns where "?scan = Inr (Some ns)"
    using assms(1) unfolding deleteOldestUnusedNode_def by (cases ?scan) (auto split: option.splits)
  then show ?thesis
  proof cases
    case 1
    with assms(1) show ?thesis by (auto simp: deleteOldestUnusedNode_def)
  next
    case (2 ns)
    then obtain js where g: "getNodes K z = Inr js"
      and o: "oldest_candidates K nc pr pl now z js [] = Inr (Some ns)" by (auto simp: bindE_eq_Inr)
    have present: "slash \<notin> set i \<and> tree z (nodePath i) \<noteq> None" if "i \<in> set js" for i
    proof (cases "tree z NODE_ROOT = None")
      case True
      with g that show ?thesis by (simp add: getNodes_def orNoNode_def children_missing)
    next
      case False
      with g that children_there [of z NODE_ROOT] show ?thesis
        by (auto simp: getNodes_def orNoNode_def nodePath_def)
    qed
    from 2 assms(1) obtain ms where s: "sort_oldest ns = Inr ms"
      and d: "delete_first K L now ms nc z = (Inr b, nc', z')"
      by (cases "sort_oldest ns") (auto simp: deleteOldestUnusedNode_def)
    have cand: "of_pool pr pl n \<and> unallocated_ready n \<and> (\<exists>i \<in> set js. o_id n = Some i \<and>
        getNode K nc i True False now z = Inr (Some n))" if "n \<in> set ms" for n
      using oldest_candidates_sound [OF o _ ids] that sort_oldest_set [OF s] by auto
    then have "\<forall>n \<in> set ms. \<exists>i m. o_id n = Some i \<and> stored_node (tree z) i m"
      using wf present by meson
    from delete_first_safe [OF d this] cand show ?thesis
      by (cases b) fastforce+
  qed
qed

end

subsection \<open>Importing a backup\<close>

context zk_server
begin

lemma import_path_tree:
  assumes "import_path K (p, d) z = Inr z'"
  shows "tree z' p = Some d" and "q \<noteq> p \<Longrightarrow> tree z q \<noteq> None \<Longrightarrow> tree z' q = tree z q"
proof -
  have "tree z' p = Some d \<and> (q \<noteq> p \<longrightarrow> tree z q \<noteq> None \<longrightarrow> tree z' q = tree z q)"
  proof (cases "tree z p = None")
    case True
    then have "kz_exists K p z = None" using exists_iff by blast
    with assms have "kz_create K p d True z = Inr z'" by (simp add: import_path_def)
    note new = create_new [OF True this]
    have "tree z' q = tree z q" if "q \<noteq> p" "tree z q \<noteq> None"
      using new [THEN conjunct2, rule_format, OF that(1)] that(2) by (simp only: simp_thms if_False)
    with new show ?thesis by (intro conjI impI) simp_all
  next
    case False
    then have "kz_exists K p z \<noteq> None" using exists_iff by blast
    with assms have "kz_set K p d z = Inr z'" by (simp add: import_path_def)
    from tree_after_set [OF this] show ?thesis by auto
  qed
  then show "tree z' p = Some d" and "q \<noteq> p \<Longrightarrow> tree z q \<noteq> None \<Longrightarrow> tree z' q = tree z q"
    by blast+
qed

lemma import_paths_tree:
  assumes "foldE (import_path K) ds z = Inr z'" and "distinct (map fst ds)"
  shows "(\<forall>(p, d) \<in> set ds. tree z' p = Some d) \<and>
    (\<forall>q. q \<notin> fst ` set ds \<longrightarrow> tree z q \<noteq> None \<longrightarrow> tree z' q = tree z q)"
  using assms
proof (induction ds arbitrary: z)
  case (Cons pd ds)
  obtain p d where pd: "pd = (p, d)" by (cases pd)
  with Cons.prems(1) obtain z1 where z1: "import_path K (p, d) z = Inr z1"
    "foldE (import_path K) ds z1 = Inr z'" by (auto simp: bindE_eq_Inr)
  note ih = Cons.IH [OF z1(2)]
  have p: "p \<notin> fst ` set ds" using Cons.prems(2) pd by auto
  have dist: "distinct (map fst ds)" using Cons.prems(2) by simp
  have rest: "\<forall>(p, d) \<in> set ds. tree z' p = Some d"
    and others: "\<And>q. q \<notin> fst ` set ds \<Longrightarrow> tree z1 q \<noteq> None \<Longrightarrow> tree z' q = tree z1 q"
    using ih [OF dist] by blast+
  have "tree z' p = Some d" using others [OF p] import_path_tree(1) [OF z1(1)] by simp
  moreover have "tree z' q = tree z q" if "q \<notin> fst ` set (pd # ds)" "tree z q \<noteq> None" for q
  proof -
    from that(1) pd have q: "q \<noteq> p" "q \<notin> fst ` set ds" by auto
    from import_path_tree(2) [OF z1(1) q(1) that(2)] others [OF q(2)] that(2) show ?thesis by simp
  qed
  ultimately show ?case using rest pd by simp
qed simp

lemma importImageData_tree:
  assumes "importImageData K ds z = Inr z'" and "distinct (map fst ds)" and "(p, d) \<in> set ds"
  shows "tree z' p = Some d"
proof -
  from assms(1) obtain z1 where "foldE (import_path K) ds z1 = Inr z'"
    unfolding importImageData_def bindE_eq_Inr by blast
  from import_paths_tree [OF this assms(2)] assms(3) show ?thesis by auto
qed

end

subsection \<open>The contenders of a lock\<close>

lemma contenders_of_snoc:
  "contenders_of (cs @ [c]) =
     (case contender_digits c of None \<Rightarrow> contenders_of cs | Some k \<Rightarrow> AList.update k c (contenders_of cs))"
  by (simp add: contenders_of_def split: option.split)

lemma contenders_of_keys: "fst ` set (contenders_of cs) = {k. \<exists>c \<in> set cs. contender_digits c = Some k}"
proof (induction cs rule: rev_induct)
  case (snoc c cs)
  then show ?case
    by (cases "contender_digits c") (auto simp: contenders_of_snoc dom_update)
qed (simp add: contenders_of_def)

lemma contenders_of_value:
  "map_of (contenders_of cs) k = Some c \<Longrightarrow> c \<in> set cs \<and> contender_digits c = Some k"
proof (induction cs rule: rev_induct)
  case (snoc c' cs)
  then show ?case
    by (cases "contender_digits c'") (auto simp: contenders_of_snoc update_conv' split: if_splits)
qed (simp add: contenders_of_def)

lemma forceUnlock_first:
  assumes "kz_children K (nodeLockPath (str_id (o_id n))) z = Inr cs"
    and "c \<in> set cs" and "contender_digits c = Some k"
    and "\<And>c' k'. c' \<in> set cs \<Longrightarrow> contender_digits c' = Some k' \<Longrightarrow> k \<le> k' \<and> (k' = k \<longrightarrow> c' = c)"
  shows "forceUnlockNode K n z =
    orNoNode (kz_delete K (nodeLockPath (str_id (o_id n)) @ ''/'' @ c) False z) z"
proof -
  let ?d = "contenders_of cs"
  have k: "k \<in> fst ` set ?d" using assms(2,3) by (auto simp: contenders_of_keys)
  have least: "k \<le> k'" if "k' \<in> fst ` set ?d" for k' using that assms(4) by (auto simp: contenders_of_keys)
  obtain rest where "sort (map fst ?d) = k # rest"
  proof (cases "sort (map fst ?d)")
    case Nil
    then have "set (map fst ?d) = {}" by (metis list.set(1) set_sort)
    with k show ?thesis by auto
  next
    case (Cons x xs)
    have "sorted (x # xs)" by (metis Cons sorted_sort)
    moreover have "k \<in> set (x # xs)" by (metis Cons k list.set_map set_sort)
    ultimately have "x \<le> k" by auto
    moreover have "x \<in> fst ` set ?d" by (metis Cons list.set_intros(1) list.set_map set_sort)
    then have "k \<le> x" by (rule least)
    ultimately show ?thesis using Cons that by auto
  qed
  moreover have "map_of ?d k = Some c"
  proof (cases "map_of ?d k")
    case None
    with k show ?thesis by (simp add: map_of_eq_None_iff)
  next
    case (Some c')
    with contenders_of_value [OF Some] assms(4) show ?thesis by auto
  qed
  ultimately show ?thesis
    using assms(1) by (simp add: forceUnlockNode_def Let_def orNoNode_def)
qed

subsection \<open>The guard against deleting twice\<close>

text \<open>
  State times are in seconds, and the scan divides them by 1000: from five minutes after the epoch
  on, no node being deleted is recent, whatever the documentation says.
\<close>

lemma recent_never:
  assumes "t \<le> now" and "301 \<le> now"
  shows "\<not> now - t / 1000 < MAX_DELETE_AGE"
  using assms by (simp add: MAX_DELETE_AGE_def field_simps)

lemma oldest_candidates_never_declines:
  assumes "301 \<le> now"
    and "\<And>i n t. i \<in> set ids \<Longrightarrow> getNode K nc i True False now z = Inr (Some n) \<Longrightarrow>
           num_of (o_state_time n) = Inr t \<Longrightarrow> t \<le> now"
  shows "oldest_candidates K nc pr pl now z ids acc \<noteq> Inr None"
  using assms(2)
proof (induction ids arbitrary: acc)
  case (Cons i ids)
  have ih: "oldest_candidates K nc pr pl now z ids acc \<noteq> Inr None" for acc
    using Cons.IH Cons.prems by (meson list.set_intros(2))
  show ?case
  proof (cases "getNode K nc i True False now z")
    case (Inr r)
    show ?thesis
    proof (cases r)
      case (Some n)
      have "num_of (o_state_time n) = Inr t \<Longrightarrow> \<not> now - t / 1000 < MAX_DELETE_AGE" for t
        using Cons.prems [of i n t] Inr Some recent_never [of t now] assms(1) by simp
      with Inr Some ih show ?thesis by (cases "num_of (o_state_time n)") auto
    qed (use Inr ih in simp)
  qed simp
qed simp

end
