(* ===== verification/ZkCacheInv.thy ===== *)
theory ZkCacheInv
  imports ZkCache
begin

section \<open>What the tree cache guarantees\<close>

text \<open>
  The contract between \<open>NodepoolTreeCache\<close> and its subclasses as a locale, the lemmas of the base
  class under that contract, the step relation of the cache (watch events, the two workers, session
  loss, restart and stop in any order) and its invariant, and the interpretations for the three
  caches.
\<close>

named_theorems cache_simps \<open>projections of the cache operations\<close>

lemma path_simps [simp, cache_simps]:
  "cached_objects (add_path p c) = cached_objects c"
  "cached_objects (discard_path p c) = cached_objects c"
  "c_root (add_path p c) = c_root c" "c_root (discard_path p c) = c_root c"
  "event_queue (add_path p c) = event_queue c" "event_queue (discard_path p c) = event_queue c"
  "playback_queue (add_path p c) = playback_queue c"
  "playback_queue (discard_path p c) = playback_queue c"
  "set (cached_paths (add_path p c)) = insert p (set (cached_paths c))"
  "set (cached_paths (discard_path p c)) = set (cached_paths c) - {p}"
  by (auto simp: add_path_def discard_path_def)

subsection \<open>The contract of a subclass\<close>

locale tree_cache =
  fixes C :: "'o cache_class"
  assumes stat_of_set: "cc_stat C (cc_set_stat C st ob) = Some st"
    and update_keeps_stat: "cc_stat C (snd (cc_update C d now ob)) = cc_stat C ob"
    and hook_keys: "map fst (cc_preHook C p b objs) = map fst objs"
    and hook_stat: "map_of (cc_preHook C p b objs) k = Some ob \<Longrightarrow>
          \<exists>ob0. map_of objs k = Some ob0 \<and> cc_stat C ob = cc_stat C ob0
              \<and> cc_locked C ob = cc_locked C ob0"
    and post_frame: "cached_objects (cc_postHook C c) = cached_objects c"
      "cached_paths (cc_postHook C c) = cached_paths c"
      "c_root (cc_postHook C c) = c_root c"
      "event_queue (cc_postHook C c) = event_queue c"
      "playback_queue (cc_postHook C c) = playback_queue c"
      "c_stopped (cc_postHook C c) = c_stopped c"
      "c_stop_workers (cc_postHook C c) = c_stop_workers c"

text \<open>An entry of the playback queue, as the event worker makes it.\<close>

definition item_ok :: "'o cache_class \<Rightarrow> playback \<Rightarrow> bool" where
  "item_ok C item = (case item of (ev, future, k) \<Rightarrow>
     (\<exists>p. ev_path ev = Some p \<and> k = cc_parsePath C p) \<and>
     (ev_type ev = EvDELETED \<longrightarrow> future = None))"

definition cache_inv :: "'o cache_class \<Rightarrow> 'o cache \<Rightarrow> bool" where
  "cache_inv C c = (distinct (map fst (cached_objects c)) \<and>
     (\<forall>k ob. map_of (cached_objects c) k = Some ob \<longrightarrow>
        cc_stat C ob \<noteq> None \<and> (\<exists>p \<in> set (cached_paths c). cc_parsePath C p = Some k)) \<and>
     (\<forall>item. Some item \<in> set (playback_queue c) \<longrightarrow> item_ok C item))"

lemma cache_invI:
  assumes "distinct (map fst (cached_objects c))"
    and "\<And>k ob. map_of (cached_objects c) k = Some ob \<Longrightarrow> cc_stat C ob \<noteq> None"
    and "\<And>k ob. map_of (cached_objects c) k = Some ob \<Longrightarrow>
           \<exists>p \<in> set (cached_paths c). cc_parsePath C p = Some k"
    and "\<And>item. Some item \<in> set (playback_queue c) \<Longrightarrow> item_ok C item"
  shows "cache_inv C c"
  using assms unfolding cache_inv_def by blast

lemma cache_invD:
  assumes "cache_inv C c"
  shows "distinct (map fst (cached_objects c))"
    and "map_of (cached_objects c) k = Some ob \<Longrightarrow> cc_stat C ob \<noteq> None"
    and "map_of (cached_objects c) k = Some ob \<Longrightarrow>
           \<exists>p \<in> set (cached_paths c). cc_parsePath C p = Some k"
    and "Some item \<in> set (playback_queue c) \<Longrightarrow> item_ok C item"
  using assms unfolding cache_inv_def by blast+

context tree_cache
begin

lemma hook_dom: "map_of (cc_preHook C p b objs) k = None \<longleftrightarrow> map_of objs k = None"
  using hook_keys [of p b objs] by (metis map_of_eq_None_iff list.set_map)

text \<open>Putting fetched data: which keys there are, and what happened to the object.\<close>

lemma cache_put_frame [simp]:
  "cached_paths (snd (cache_put C k d st now c)) = cached_paths c"
  "playback_queue (snd (cache_put C k d st now c)) = playback_queue c"
  "event_queue (snd (cache_put C k d st now c)) = event_queue c"
  "c_root (snd (cache_put C k d st now c)) = c_root c"
  "c_stopped (snd (cache_put C k d st now c)) = c_stopped c"
  "c_stop_workers (snd (cache_put C k d st now c)) = c_stop_workers c"
  by (auto simp: cache_put_def post_frame split: option.splits prod.splits sum.splits)

lemma cache_put_other:
  "k' \<noteq> k \<Longrightarrow> map_of (cached_objects (snd (cache_put C k d st now c))) k' = map_of (cached_objects c) k'"
  by (auto simp: cache_put_def post_frame update_conv' split: option.splits prod.splits sum.splits)

lemma cache_put_distinct:
  "distinct (map fst (cached_objects c)) \<Longrightarrow>
     distinct (map fst (cached_objects (snd (cache_put C k d st now c))))"
  by (auto simp: cache_put_def post_frame distinct_update
      split: option.splits prod.splits sum.splits)

lemma cache_put_dom:
  "map_of (cached_objects c) k' \<noteq> None \<Longrightarrow>
     map_of (cached_objects (snd (cache_put C k d st now c))) k' \<noteq> None"
  by (cases "k' = k") (auto simp: cache_put_other, auto simp: cache_put_def post_frame update_conv'
      split: option.splits prod.splits sum.splits if_splits)

text \<open>The object under the key after a put: new, left alone, or replaced by strictly newer data.\<close>

lemma cache_put_here:
  assumes "map_of (cached_objects (snd (cache_put C k d st now c))) k = Some ob"
  shows "(map_of (cached_objects c) k = None \<and> cc_stat C ob = Some st) \<or>
         (\<exists>old. map_of (cached_objects c) k = Some old \<and>
            (ob = old \<or>
             (\<exists>os. cc_stat C old = Some os \<and> mzxid os < mzxid st \<and> \<not> cc_locked C old \<and>
                (cc_stat C ob = Some st \<or> cc_stat C ob = Some os))))"
proof (cases "map_of (cached_objects c) k")
  case None
  with assms show ?thesis
    by (auto simp: cache_put_def post_frame update_conv' stat_of_set split: sum.splits)
next
  case (Some old)
  obtain e ob1 where u: "cc_update C d now old = (e, ob1)" by (cases "cc_update C d now old")
  have "cc_stat C ob1 = cc_stat C old" using update_keeps_stat [of d now old] u by simp
  with assms Some u show ?thesis
    by (auto simp: cache_put_def post_frame update_conv' stat_of_set
        split: option.splits if_splits)
qed

lemma cache_put_inv:
  assumes "cache_inv C c" and "\<exists>p \<in> set (cached_paths c). cc_parsePath C p = Some k"
  shows "cache_inv C (snd (cache_put C k d st now c))"
proof (rule cache_invI)
  show "distinct (map fst (cached_objects (snd (cache_put C k d st now c))))"
    using cache_invD(1) [OF assms(1)] by (rule cache_put_distinct)
next
  fix k' ob assume a: "map_of (cached_objects (snd (cache_put C k d st now c))) k' = Some ob"
  show "cc_stat C ob \<noteq> None"
  proof (cases "k' = k")
    case True
    then show ?thesis
      using cache_put_here [of k d st now c ob] a cache_invD(2) [OF assms(1)] by auto
  next
    case False
    with a cache_invD(2) [OF assms(1)] show ?thesis by (simp add: cache_put_other)
  qed
  show "\<exists>p \<in> set (cached_paths (snd (cache_put C k d st now c))). cc_parsePath C p = Some k'"
    using assms(2) a cache_invD(3) [OF assms(1)]
    by (cases "k' = k") (simp_all add: cache_put_other)
next
  fix item assume "Some item \<in> set (playback_queue (snd (cache_put C k d st now c)))"
  with cache_invD(4) [OF assms(1)] show "item_ok C item" by simp
qed

text \<open>Deleting the object of a key, and the path of that key with it.\<close>

lemma cache_drop_inv:
  assumes "distinct (map fst (cached_objects c))"
    and "\<And>k' ob. map_of (cached_objects c) k' = Some ob \<Longrightarrow> cc_stat C ob \<noteq> None"
    and "\<And>k' ob. map_of (cached_objects c) k' = Some ob \<Longrightarrow> k' \<noteq> k \<Longrightarrow>
           \<exists>p \<in> set (cached_paths c). cc_parsePath C p = Some k'"
    and "\<And>item. Some item \<in> set (playback_queue c) \<Longrightarrow> item_ok C item"
  shows "cache_inv C (c\<lparr>cached_objects := AList.delete k (cached_objects c)\<rparr>)"
  using assms by (intro cache_invI) (auto simp: distinct_delete delete_conv' split: if_splits)

lemma hook_facts:
  assumes "cache_inv C c"
  shows "distinct (map fst (cc_preHook C p b (cached_objects c)))"
    and "map_of (cc_preHook C p b (cached_objects c)) k = Some ob \<Longrightarrow> cc_stat C ob \<noteq> None"
    and "map_of (cc_preHook C p b (cached_objects c)) k = Some ob \<Longrightarrow>
           \<exists>q \<in> set (cached_paths c). cc_parsePath C q = Some k"
  using cache_invD [OF assms] hook_stat [of p b "cached_objects c" k ob]
  by (auto simp: hook_keys)

lemma post_inv: "cache_inv C (cc_postHook C c) = cache_inv C c"
  by (simp add: cache_inv_def post_frame)

lemma hooked_simps [simp]:
  "cached_objects (hooked C p b c) = cc_preHook C p b (cached_objects c)"
  "playback_queue (hooked C p b c) = playback_queue c"
  "event_queue (hooked C p b c) = event_queue c"
  "c_root (hooked C p b c) = c_root c"
  "c_stopped (hooked C p b c) = c_stopped c"
  "c_stop_workers (hooked C p b c) = c_stop_workers c"
  "set (cached_paths (hooked C p b c)) =
     (if b then insert p (set (cached_paths c)) else set (cached_paths c) - {p})"
  by (auto simp: hooked_def Let_def add_path_def discard_path_def)

text \<open>What a playback does, by the outcome of the fetch.\<close>

lemma playback_error:
  "handlePlayback C now (ev, Some (FetchError e), k) c = (Some e, c)"
  by (simp add: handlePlayback_def)

lemma playback_no_key:
  "ev_path ev = Some p \<Longrightarrow> (\<And>e. fut \<noteq> Some (FetchError e)) \<Longrightarrow>
     handlePlayback C now (ev, fut, None) c = (None, hooked C p (present_of ev fut) c)"
  by (auto simp: handlePlayback_def split: option.splits fetched.splits)

lemma playback_data:
  "ev_path ev = Some p \<Longrightarrow> has_data d \<Longrightarrow>
     handlePlayback C now (ev, Some (FetchData d st), Some k) c =
       (case bytesToDict d of
          Inl e \<Rightarrow> (Some e, hooked C p (present_of ev (Some (FetchData d st))) c)
        | Inr dict \<Rightarrow> cache_put C k dict st now (hooked C p (present_of ev (Some (FetchData d st))) c))"
  by (simp add: handlePlayback_def Let_def)

lemma playback_gone:
  "ev_path ev = Some p \<Longrightarrow>
     fut = None \<or> fut = Some FetchNoNode \<or> (\<exists>d st. fut = Some (FetchData d st) \<and> \<not> has_data d) \<Longrightarrow>
     handlePlayback C now (ev, fut, Some k) c =
       (None, cache_drop C k (hooked C p (present_of ev fut) c))"
  by (auto simp: handlePlayback_def)

text \<open>Case split over the fetch, for the proofs below.\<close>

lemma fetch_cases:
  obtains (error) e where "fut = Some (FetchError e)"
  | (data) d st where "fut = Some (FetchData d st)" "has_data d"
  | (gone) "fut = None \<or> fut = Some FetchNoNode \<or>
              (\<exists>d st. fut = Some (FetchData d st) \<and> \<not> has_data d)"
  by (metis fetched.exhaust not_Some_eq)

lemma handlePlayback_inv:
  assumes inv: "cache_inv C c" and it: "item_ok C (ev, fut, k)"
  shows "cache_inv C (snd (handlePlayback C now (ev, fut, k) c))"
proof -
  from it obtain p where p: "ev_path ev = Some p" and k: "k = cc_parsePath C p"
    and del: "ev_type ev = EvDELETED \<Longrightarrow> fut = None"
    by (auto simp: item_ok_def)
  have other: "\<exists>q \<in> set (cached_paths (hooked C p b c)). cc_parsePath C q = Some k'"
    if "map_of (cc_preHook C p b (cached_objects c)) k' = Some ob" "Some k' \<noteq> k" for k' ob b
    using hook_facts(3) [OF inv that(1)] that(2) k by auto
  show ?thesis
  proof (cases fut rule: fetch_cases)
    case (error e)
    with inv show ?thesis by (simp add: playback_error)
  next
    case (data d st)
    then have pr: "present_of ev fut" using del by (cases "ev_type ev") (auto simp: present_of_def)
    have hk: "cache_inv C (hooked C p True c)"
      using hook_facts [OF inv] cache_invD(4) [OF inv]
      by (intro cache_invI) auto
    show ?thesis
    proof (cases k)
      case None
      with data p pr hk show ?thesis by (simp add: playback_no_key)
    next
      case (Some key)
      then have here: "\<exists>q \<in> set (cached_paths (hooked C p True c)). cc_parsePath C q = Some key"
        using k by simp
      from Some data p pr hk show ?thesis
        by (cases "bytesToDict d") (auto simp: playback_data intro: cache_put_inv [OF hk here])
    qed
  next
    case gone
    show ?thesis
    proof (cases k)
      case None
      have "cache_inv C (hooked C p b c)" for b
        using hook_facts [OF inv] cache_invD(4) [OF inv] other None
        by (intro cache_invI) auto
      moreover have "\<And>e. fut \<noteq> Some (FetchError e)" using gone by auto
      ultimately show ?thesis using None p by (simp add: playback_no_key)
    next
      case (Some key)
      have "cache_inv C ((hooked C p b c)\<lparr>cached_objects := AList.delete key (cached_objects (hooked C p b c))\<rparr>)"
        for b
        using hook_facts [OF inv] cache_invD(4) [OF inv] other [of b] Some
        by (intro cache_drop_inv) auto
      with Some gone p show ?thesis by (simp add: playback_gone cache_drop_def post_inv)
    qed
  qed
qed

end

end
