(* ===== verification/ZkCacheSync.thy ===== *)
theory ZkCacheSync
  imports ZkCacheInv
begin

section \<open>The tree cache as a state machine\<close>

text \<open>
  Every interleaving of watch events, worker rounds, session loss, restart and stop is a run of the
  step relation \<open>cache_step\<close>; between the steps the holders of the cached objects, which are shared
  with them, lock, change, reread and unlock them (\<open>client_step\<close>). The invariant holds in every reachable state; data never goes back
  in time; and a restart on a quiescent tree makes the cache agree with the tree.
\<close>

subsection \<open>Steps and reachable states\<close>

definition cache_init :: "string \<Rightarrow> 'o cache" where
  "cache_init rt = \<lparr> c_root = rt, cached_objects = [], cached_paths = [], event_queue = [],
     playback_queue = [], c_ready = False, c_stopped = False, c_stop_workers = False,
     c_stats_event = False \<rparr>"

inductive cache_step :: "'o cache_class \<Rightarrow> 'o cache \<Rightarrow> 'o cache \<Rightarrow> bool" for C where
  watch: "cache_step C c (c\<lparr>event_queue := event_queue c @ [Some ev]\<rparr>)"
| event: "cache_step C c (eventWorker_step C get c)"
| play: "cache_step C c (playbackWorker_step C now c)"
| lost: "cache_step C c (sessionLost c)"
| start: "\<not> c_stopped c \<Longrightarrow> cache_step C c (cache_start ok fuel exist children c)"
| stop: "cache_step C c (cache_stop c)"

text \<open>
  What the rest of the process does to a cached object it has got: it may change it as it likes, lock it and
  unlock it. The statistics stay or are those of a later reading, as in \<open>lockNode\<close> and \<open>updateNode\<close>.
\<close>

inductive client_step :: "'o cache_class \<Rightarrow> 'o cache \<Rightarrow> 'o cache \<Rightarrow> bool" for C where
  change: "map_of (cached_objects c) k = Some ob \<Longrightarrow> cc_stat C ob = Some s \<Longrightarrow> cc_stat C ob1 = Some s1 \<Longrightarrow>
    s1 = s \<or> mzxid s < mzxid s1 \<Longrightarrow> client_step C c (c\<lparr>cached_objects := AList.update k ob1 (cached_objects c)\<rparr>)"

inductive cache_reachable :: "'o cache_class \<Rightarrow> string \<Rightarrow> 'o cache \<Rightarrow> bool" for C rt where
  initial: "cache_reachable C rt (cache_init rt)"
| step: "cache_reachable C rt c \<Longrightarrow> cache_step C c c' \<Longrightarrow> cache_reachable C rt c'"
| client: "cache_reachable C rt c \<Longrightarrow> client_step C c c' \<Longrightarrow> cache_reachable C rt c'"

definition hook_only :: "'o cache_class \<Rightarrow> 'o cache \<Rightarrow> key \<Rightarrow> 'o \<Rightarrow> bool" where
  "hook_only C c k new \<longleftrightarrow> (\<exists>p b. map_of (cc_preHook C p b (cached_objects c)) k = Some new)"

lemma cache_inv_init: "cache_inv C (cache_init rt)"
  by (simp add: cache_inv_def cache_init_def)

lemma handleCacheEvent_item:
  assumes "cache_inv C c"
  shows "cache_inv C (snd (handleCacheEvent C get ev c))"
  using assms by (auto simp: handleCacheEvent_def cache_inv_def item_ok_def Let_def
      split: option.splits)

lemma handleCacheEvent_frame [simp]:
  "cached_objects (snd (handleCacheEvent C get ev c)) = cached_objects c"
  "cached_paths (snd (handleCacheEvent C get ev c)) = cached_paths c"
  by (auto simp: handleCacheEvent_def Let_def split: option.splits)

lemma cache_inv_queues:
  assumes "cache_inv C c" and "cached_objects c' = cached_objects c"
    and "cached_paths c' = cached_paths c"
    and "\<And>item. Some item \<in> set (playback_queue c') \<Longrightarrow> Some item \<in> set (playback_queue c)"
  shows "cache_inv C c'"
  using assms unfolding cache_inv_def by auto

context tree_cache
begin

lemma cache_step_inv: "cache_step C c c' \<Longrightarrow> cache_inv C c \<Longrightarrow> cache_inv C c'"
proof (induction rule: cache_step.induct)
  case (watch c ev)
  then show ?case by (rule cache_inv_queues) auto
next
  case (event c get)
  have q: "cache_inv C (c\<lparr>event_queue := q\<rparr>)" for q
    using event by (rule cache_inv_queues) auto
  show ?case
    using event q by (auto simp: eventWorker_step_def handleCacheEvent_item split: list.splits option.splits)
next
  case (play c now)
  have q: "cache_inv C (c\<lparr>playback_queue := q\<rparr>)" if "playback_queue c = x # q" for x q
    using play by (rule cache_inv_queues) (auto simp: that)
  have it: "item_ok C item" if "playback_queue c = Some item # q" for item q
    using cache_invD(4) [OF play, of item] that by simp
  show ?case
    using play q by (auto simp: playbackWorker_step_def intro: handlePlayback_inv it
        split: list.splits option.splits)
next
  case (lost c)
  then show ?case by (rule cache_inv_queues) (auto simp: sessionLost_def)
next
  case (start c ok fuel exist children)
  from start.prems show ?case
    by (rule cache_inv_queues) (auto simp: cache_start_def walkTree_def Let_def split: if_splits)
next
  case (stop c)
  then show ?case by (rule cache_inv_queues) (auto simp: cache_stop_def)
qed

lemma client_step_inv: "client_step C c c' \<Longrightarrow> cache_inv C c \<Longrightarrow> cache_inv C c'"
proof (induction rule: client_step.induct)
  case (change c k ob s ob1 s1)
  note inv = cache_invD [OF change.prems]
  show ?case
    using change.hyps inv(1) inv(2,3,4) by (intro cache_invI) (auto simp: distinct_update update_conv' split: if_splits)
qed

lemma reachable_inv: "cache_reachable C rt c \<Longrightarrow> cache_inv C c"
  by (induction rule: cache_reachable.induct) (auto intro: cache_step_inv client_step_inv cache_inv_init)

text \<open>
  A step either leaves the data of a cached object at the same modification or moves it to a newer
  one; a locked object keeps its modification.
\<close>

lemma handlePlayback_newer:
  assumes p: "ev_path ev = Some p"
    and before: "map_of (cached_objects c) k = Some old" "cc_stat C old = Some os"
    and after: "map_of (cached_objects (snd (handlePlayback C now (ev, fut, key) c))) k = Some new"
  shows "\<exists>ns. cc_stat C new = Some ns \<and>
           (ns = os \<or> mzxid os < mzxid ns \<and> \<not> cc_locked C old)"
proof -
  obtain hk where hk: "map_of (cc_preHook C q b (cached_objects c)) k = Some (hk q b)"
    and hs: "cc_stat C (hk q b) = Some os \<and> cc_locked C (hk q b) = cc_locked C old" for q b
  proof (rule that [of "\<lambda>q b. the (map_of (cc_preHook C q b (cached_objects c)) k)"])
    fix q b
    obtain x where x: "map_of (cc_preHook C q b (cached_objects c)) k = Some x"
      using hook_dom [of q b "cached_objects c" k] before(1)
      by (cases "map_of (cc_preHook C q b (cached_objects c)) k") auto
    then show "map_of (cc_preHook C q b (cached_objects c)) k =
        Some (the (map_of (cc_preHook C q b (cached_objects c)) k))" by simp
    from hook_stat [OF x] before x
    show "cc_stat C (the (map_of (cc_preHook C q b (cached_objects c)) k)) = Some os \<and>
        cc_locked C (the (map_of (cc_preHook C q b (cached_objects c)) k)) = cc_locked C old"
      by auto
  qed
  have kept: ?thesis if "new = hk p b" for b using that hs by auto
  show ?thesis
  proof (cases fut rule: fetch_cases)
    case (error e)
    with after before show ?thesis by (simp add: playback_error)
  next
    case (data d st)
    show ?thesis
    proof (cases key)
      case None
      with data p after hk kept show ?thesis by (auto simp: playback_no_key)
    next
      case (Some kk)
      show ?thesis
      proof (cases "bytesToDict d")
        case (Inl e)
        with data p after hk kept Some show ?thesis by (auto simp: playback_data)
      next
        case (Inr dict)
        let ?h = "hooked C p (present_of ev (Some (FetchData d st))) c"
        from after data p Some Inr
        have a: "map_of (cached_objects (snd (cache_put C kk dict st now ?h))) k = Some new"
          by (simp add: playback_data)
        show ?thesis
        proof (cases "kk = k")
          case True
          from cache_put_here [OF a [unfolded True]] hk hs
          show ?thesis by auto
        next
          case False
          with a hk kept show ?thesis by (auto simp: cache_put_other)
        qed
      qed
    qed
  next
    case gone
    show ?thesis
    proof (cases key)
      case None
      have "\<And>e. fut \<noteq> Some (FetchError e)" using gone by auto
      with None p after hk kept show ?thesis by (auto simp: playback_no_key)
    next
      case (Some kk)
      with gone p after hk kept show ?thesis
        by (auto simp: playback_gone cache_drop_def post_frame delete_conv' split: if_splits)
    qed
  qed
qed

text \<open>A locked object is left alone by the cache, apart from what the hook of the subclass does to it.\<close>

lemma cache_put_locked:
  assumes "map_of (cached_objects c) k = Some old" and "cc_stat C old \<noteq> None" and "cc_locked C old"
  shows "cached_objects (snd (cache_put C k d st now c)) = cached_objects c"
  using assms by (auto simp: cache_put_def)

lemma handlePlayback_locked:
  assumes p: "ev_path ev = Some p"
    and before: "map_of (cached_objects c) k = Some old" "cc_stat C old \<noteq> None" "cc_locked C old"
    and after: "map_of (cached_objects (snd (handlePlayback C now (ev, fut, key) c))) k = Some new"
  shows "new = old \<or> hook_only C c k new"
proof (cases fut rule: fetch_cases)
  case (error e)
  with after before show ?thesis by (simp add: playback_error)
next
  case (data d st)
  let ?h = "hooked C p (present_of ev fut) c"
  show ?thesis
  proof (cases key)
    case None
    with data p after show ?thesis by (auto simp: playback_no_key hook_only_def)
  next
    case (Some kk)
    show ?thesis
    proof (cases "bytesToDict d")
      case (Inl e)
      with data p after Some show ?thesis by (auto simp: playback_data hook_only_def)
    next
      case (Inr dict)
      from after data p Some Inr have a: "map_of (cached_objects (snd (cache_put C kk dict st now ?h))) k = Some new"
        by (simp add: playback_data)
      have "map_of (cached_objects ?h) k = Some new"
      proof (cases "kk = k")
        case True
        obtain x where x: "map_of (cached_objects ?h) k = Some x"
          using hook_dom [of p "present_of ev fut" "cached_objects c" k] before(1)
          by (cases "map_of (cached_objects ?h) k") auto
        with hook_stat [of p "present_of ev fut" "cached_objects c" k x] before have "cc_stat C x \<noteq> None" "cc_locked C x" by auto
        from cache_put_locked [OF x this] a True show ?thesis by simp
      qed (use a in \<open>simp add: cache_put_other\<close>)
      then show ?thesis by (auto simp: hook_only_def)
    qed
  qed
next
  case gone
  show ?thesis
  proof (cases key)
    case None
    have "\<And>e. fut \<noteq> Some (FetchError e)" using gone by auto
    with None p after show ?thesis by (auto simp: playback_no_key hook_only_def)
  next
    case (Some kk)
    with gone p after show ?thesis
      by (auto simp: playback_gone cache_drop_def post_frame delete_conv' hook_only_def split: if_splits)
  qed
qed

lemma cache_step_locked:
  assumes "cache_step C c c'" and inv: "cache_inv C c"
    and "map_of (cached_objects c) k = Some old" and "cc_locked C old" and "map_of (cached_objects c') k = Some new"
  shows "new = old \<or> hook_only C c k new"
  using assms(1)
proof cases
  case (event get)
  with assms show ?thesis by (auto simp: eventWorker_step_def split: list.splits option.splits if_splits)
next
  case (play now)
  show ?thesis
  proof (cases "\<not> (c_stopped c \<or> c_stop_workers c) \<and> (\<exists>item q. playback_queue c = Some item # q)")
    case True
    then obtain item q where q: "playback_queue c = Some item # q" "\<not> (c_stopped c \<or> c_stop_workers c)" by blast
    obtain ev fut key where item: "item = (ev, fut, key)" by (cases item)
    then obtain p where p: "ev_path ev = Some p"
      using cache_invD(4) [OF inv, of item] q(1) by (auto simp: item_ok_def)
    have "new = old \<or> hook_only C (c\<lparr>playback_queue := q\<rparr>) k new"
      by (rule handlePlayback_locked [OF p, of "c\<lparr>playback_queue := q\<rparr>" k old now fut key new])
        (use assms play q item cache_invD(2) [OF inv] in \<open>simp_all add: playbackWorker_step_def\<close>)
    then show ?thesis by (simp add: hook_only_def)
  next
    case False
    with play assms show ?thesis by (auto simp: playbackWorker_step_def split: list.splits option.splits if_splits)
  qed
qed (use assms in \<open>auto simp: sessionLost_def cache_stop_def cache_start_def walkTree_def Let_def
      split: if_splits\<close>)

lemma cache_step_newer:
  assumes "cache_step C c c'" and inv: "cache_inv C c"
    and "map_of (cached_objects c) k = Some old" "cc_stat C old = Some os"
    and "map_of (cached_objects c') k = Some new"
  shows "\<exists>ns. cc_stat C new = Some ns \<and>
           (ns = os \<or> mzxid os < mzxid ns \<and> \<not> cc_locked C old)"
  using assms(1)
proof cases
  case (event get)
  with assms show ?thesis
    by (auto simp: eventWorker_step_def split: list.splits option.splits if_splits)
next
  case (play now)
  show ?thesis
  proof (cases "c_stopped c \<or> c_stop_workers c")
    case True
    with play assms show ?thesis by (simp add: playbackWorker_step_def)
  next
    case nst: False
    show ?thesis
    proof (cases "playback_queue c")
      case Nil
      with play assms nst show ?thesis by (simp add: playbackWorker_step_def)
    next
      case (Cons x q)
      show ?thesis
      proof (cases x)
        case None
        with Cons play assms nst show ?thesis by (simp add: playbackWorker_step_def)
      next
        case (Some item)
        obtain ev fut key where item: "item = (ev, fut, key)" by (cases item)
        then obtain p where p: "ev_path ev = Some p"
          using cache_invD(4) [OF inv, of item] Cons Some by (auto simp: item_ok_def)
        show ?thesis
          by (rule handlePlayback_newer [OF p, of "c\<lparr>playback_queue := q\<rparr>" k old os now fut key])
            (use assms play Cons Some item nst in \<open>simp_all add: playbackWorker_step_def\<close>)
      qed
    qed
  qed
qed (use assms in \<open>auto simp: sessionLost_def cache_stop_def cache_start_def walkTree_def Let_def
      split: if_splits\<close>)

end

subsection \<open>The walk of the tree\<close>

text \<open>The paths below a path, following the children the client lists.\<close>

inductive below :: "(string \<Rightarrow> string list option) \<Rightarrow> string \<Rightarrow> string \<Rightarrow> bool" for children where
  here: "below children rt rt"
| child: "children rt = Some cs \<Longrightarrow> c \<in> set cs \<Longrightarrow> below children (child_path rt c) p \<Longrightarrow>
            below children rt p"

lemma child_path_longer: "2 \<le> length rt \<Longrightarrow> length rt < length (child_path rt c)"
  by (cases "rt = ''/''") (auto simp: child_path_def)

lemma walk_below: "p \<in> set (walk fuel children rt) \<Longrightarrow> below children rt p"
proof (induction fuel children rt rule: walk.induct)
  case (2 fuel children rt)
  show ?case
  proof (cases "p = rt")
    case False
    with "2.prems" obtain cs c where "children rt = Some cs" "c \<in> set cs"
      "p \<in> set (walk fuel children (child_path rt c))"
      by (cases "children rt") auto
    with "2.IH" show ?thesis by (blast intro: below.child)
  qed (simp add: below.here)
qed simp

text \<open>
  Fuel: a tree whose listed paths have at most \<open>N\<close> characters is walked completely with more than
  \<open>N + 1 - length rt\<close> rounds, because every child's path is longer than its parent's.
\<close>

lemma below_walk:
  assumes "below children rt p" and "\<And>q. N < length q \<Longrightarrow> children q = None"
    and "2 \<le> length rt" and "Suc N - length rt < fuel"
  shows "p \<in> set (walk fuel children rt)"
  using assms(1,3,4)
proof (induction arbitrary: fuel rule: below.induct)
  case (here rt)
  then show ?case by (cases fuel) auto
next
  case (child rt cs c p)
  from child.prems(2) obtain f where f: "fuel = Suc f" by (cases fuel) auto
  have "length rt \<le> N" using child.hyps(1) assms(2) [of rt] by (metis not_le option.distinct(1))
  moreover have "length rt < length (child_path rt c)" using child.prems(1) by (rule child_path_longer)
  ultimately have "p \<in> set (walk f children (child_path rt c))"
    using child.prems f by (intro child.IH) auto
  with child.hyps(1,2) f show ?case by auto
qed

subsection \<open>Restart on a quiescent tree\<close>

definition drain_events :: "'o cache_class \<Rightarrow> (string \<Rightarrow> fetched) \<Rightarrow> 'o cache \<Rightarrow> 'o cache" where
  "drain_events C get c = (eventWorker_step C get ^^ length (event_queue c)) c"

definition drain_playback :: "'o cache_class \<Rightarrow> rat \<Rightarrow> 'o cache \<Rightarrow> 'o cache" where
  "drain_playback C now c = (playbackWorker_step C now ^^ length (playback_queue c)) c"

definition resync ::
  "'o cache_class \<Rightarrow> nat \<Rightarrow> (string \<Rightarrow> fetched) \<Rightarrow> (string \<Rightarrow> bool) \<Rightarrow>
     (string \<Rightarrow> string list option) \<Rightarrow> rat \<Rightarrow> 'o cache \<Rightarrow> 'o cache" where
  "resync C fuel get exist children now c =
     drain_playback C now (drain_events C get (cache_start True fuel exist children c))"

definition none_item :: "'o cache_class \<Rightarrow> (string \<Rightarrow> fetched) \<Rightarrow> string \<Rightarrow> playback" where
  "none_item C get p = (\<lparr> ev_type = EvNONE, ev_path = Some p \<rparr>, Some (get p), cc_parsePath C p)"

lemma drain_events_none:
  assumes "event_queue c = map none_event ps" and "\<not> c_stopped c" and "\<not> c_stop_workers c"
  shows "drain_events C get c = c\<lparr>event_queue := [],
     playback_queue := playback_queue c @ map (Some \<circ> none_item C get) (filter (\<lambda>p. p \<noteq> c_root c) ps)\<rparr>"
  using assms
proof (induction ps arbitrary: c)
  case Nil
  then show ?case by (simp add: drain_events_def)
next
  case (Cons p ps)
  let ?c = "eventWorker_step C get c"
  have c: "?c = c\<lparr>event_queue := map none_event ps,
      playback_queue := playback_queue c @ (if p = c_root c then [] else [Some (none_item C get p)])\<rparr>"
    using Cons.prems
    by (simp add: eventWorker_step_def none_event_def handleCacheEvent_def none_item_def Let_def)
  have "drain_events C get c = drain_events C get ?c"
    using Cons.prems(1) by (simp add: drain_events_def c funpow_swap1)
  also have "\<dots> = ?c\<lparr>event_queue := [], playback_queue := playback_queue ?c @
      map (Some \<circ> none_item C get) (filter (\<lambda>p. p \<noteq> c_root ?c) ps)\<rparr>"
    using Cons.prems by (intro Cons.IH) (simp_all add: c)
  finally show ?case by (auto simp: c)
qed

context tree_cache
begin

lemma playback_frame [simp]:
  "playback_queue (snd (handlePlayback C now it c)) = playback_queue c"
  "c_stopped (snd (handlePlayback C now it c)) = c_stopped c"
  "c_stop_workers (snd (handlePlayback C now it c)) = c_stop_workers c"
  by (cases it rule: prod_cases3; auto simp: handlePlayback_def Let_def cache_drop_def post_frame
      split: option.split fetched.split sum.split)+

lemma handlePlayback_inv_item:
  "cache_inv C c \<Longrightarrow> item_ok C it \<Longrightarrow> cache_inv C (snd (handlePlayback C now it c))"
  by (cases it rule: prod_cases3) (simp add: handlePlayback_inv)

lemma none_item_ok: "item_ok C (none_item C get p)"
  by (simp add: item_ok_def none_item_def)

lemma none_item_paths:
  assumes "\<And>e. get p \<noteq> FetchError e"
  shows "set (cached_paths (snd (handlePlayback C now (none_item C get p) c))) =
    (if \<exists>d st. get p = FetchData d st then insert p (set (cached_paths c))
     else set (cached_paths c) - {p})"
  using assms by (cases "get p") (auto simp: none_item_def handlePlayback_def present_of_def Let_def
      cache_drop_def post_frame split: option.splits sum.splits)

lemma none_item_keeps:
  assumes "cc_parsePath C p \<noteq> Some k" and "map_of (cached_objects c) k \<noteq> None"
  shows "map_of (cached_objects (snd (handlePlayback C now (none_item C get p) c))) k \<noteq> None"
proof -
  have d: "map_of (cc_preHook C q b (cached_objects c)) k \<noteq> None" for q b
    using assms(2) unfolding hook_dom .
  show ?thesis
  proof (cases "cc_parsePath C p")
    case None
    with assms(2) d show ?thesis
      by (cases "get p") (simp_all add: none_item_def handlePlayback_def Let_def del: map_of_eq_None_iff)
  next
    case (Some key)
    with assms have ne: "k \<noteq> key" by auto
  have put: "map_of (cached_objects (snd (cache_put C key dict st now (hooked C q b c)))) k =
      map_of (cc_preHook C q b (cached_objects c)) k" for dict st q b
    by (simp add: cache_put_other [OF ne])
  have drop: "map_of (cached_objects (cache_drop C key (hooked C q b c))) k =
      map_of (cc_preHook C q b (cached_objects c)) k" for q b
    using ne by (simp add: cache_drop_def post_frame delete_conv')
  from Some d assms(2) show ?thesis
    by (cases "get p")
      (simp_all add: none_item_def handlePlayback_def Let_def put drop split: sum.split del: map_of_eq_None_iff)
  qed
qed

lemma none_item_adds:
  assumes "cc_parsePath C p = Some k" and "get p = FetchData (Json (JDict d)) st"
    and "cc_fromDict C d k now = Inr ob"
  shows "map_of (cached_objects (snd (handlePlayback C now (none_item C get p) c))) k \<noteq> None"
  using assms by (auto simp: none_item_def handlePlayback_def Let_def cache_put_def post_frame
      update_conv' split: option.splits prod.splits)

text \<open>Playing back a queue of re-initialisation events.\<close>

lemma drain_none_items:
  assumes "playback_queue c = map (Some \<circ> none_item C get) ps"
    and "\<not> c_stopped c" and "\<not> c_stop_workers c"
    and "\<forall>p \<in> set ps. \<forall>e. get p \<noteq> FetchError e" and "cache_inv C c"
  shows "cache_inv C (drain_playback C now c) \<and>
    set (cached_paths (drain_playback C now c)) =
      (set (cached_paths c) - set ps) \<union> {p \<in> set ps. \<exists>d st. get p = FetchData d st} \<and>
    (\<forall>p k d st ob. (map_of (cached_objects c) k \<noteq> None \<or> p \<in> set ps) \<longrightarrow>
       (\<forall>q \<in> set ps. cc_parsePath C q = Some k \<longrightarrow> q = p) \<longrightarrow> cc_parsePath C p = Some k \<longrightarrow>
       get p = FetchData (Json (JDict d)) st \<longrightarrow> cc_fromDict C d k now = Inr ob \<longrightarrow>
       map_of (cached_objects (drain_playback C now c)) k \<noteq> None)"
  using assms
proof (induction ps arbitrary: c)
  case Nil
  then show ?case by (simp add: drain_playback_def)
next
  case (Cons p ps)
  let ?it = "none_item C get p"
  let ?c = "snd (handlePlayback C now ?it (c\<lparr>playback_queue := map (Some \<circ> none_item C get) ps\<rparr>))"
  have inv0: "cache_inv C (c\<lparr>playback_queue := map (Some \<circ> none_item C get) ps\<rparr>)"
    using Cons.prems(5) by (rule cache_inv_queues) (use Cons.prems(1) in auto)
  have drain: "drain_playback C now c = drain_playback C now ?c"
    using Cons.prems(1-3)
    by (simp add: drain_playback_def funpow_swap1) (simp add: playbackWorker_step_def comp_def)
  have inv1: "cache_inv C ?c"
    by (rule handlePlayback_inv_item [OF inv0 none_item_ok])
  have ih: "cache_inv C (drain_playback C now ?c) \<and>
    set (cached_paths (drain_playback C now ?c)) =
      (set (cached_paths ?c) - set ps) \<union> {p \<in> set ps. \<exists>d st. get p = FetchData d st} \<and>
    (\<forall>p k d st ob. (map_of (cached_objects ?c) k \<noteq> None \<or> p \<in> set ps) \<longrightarrow>
       (\<forall>q \<in> set ps. cc_parsePath C q = Some k \<longrightarrow> q = p) \<longrightarrow> cc_parsePath C p = Some k \<longrightarrow>
       get p = FetchData (Json (JDict d)) st \<longrightarrow> cc_fromDict C d k now = Inr ob \<longrightarrow>
       map_of (cached_objects (drain_playback C now ?c)) k \<noteq> None)"
    using Cons.prems inv1 by (intro Cons.IH) simp_all
  have paths: "set (cached_paths ?c) = (if \<exists>d st. get p = FetchData d st
      then insert p (set (cached_paths c)) else set (cached_paths c) - {p})"
    using none_item_paths [of get p now "c\<lparr>playback_queue := map (Some \<circ> none_item C get) ps\<rparr>"]
      Cons.prems(4) by simp
  have keep: "map_of (cached_objects ?c) k \<noteq> None"
    if "map_of (cached_objects c) k \<noteq> None" "cc_parsePath C p \<noteq> Some k" for k
    using none_item_keeps [OF that(2)] that(1) by simp
  note ih1 = ih [THEN conjunct1] and ih2 = ih [THEN conjunct2, THEN conjunct1]
    and ih3 = ih [THEN conjunct2, THEN conjunct2, rule_format]
  show ?case
    unfolding drain
  proof (intro conjI allI impI)
    show "cache_inv C (drain_playback C now ?c)" by (rule ih1)
    show "set (cached_paths (drain_playback C now ?c)) =
      (set (cached_paths c) - set (p # ps)) \<union> {q \<in> set (p # ps). \<exists>d st. get q = FetchData d st}"
      unfolding ih2 paths by auto
  next
    fix q k d st ob
    assume a: "map_of (cached_objects c) k \<noteq> None \<or> q \<in> set (p # ps)"
      "\<forall>r \<in> set (p # ps). cc_parsePath C r = Some k \<longrightarrow> r = q" "cc_parsePath C q = Some k"
      "get q = FetchData (Json (JDict d)) st" "cc_fromDict C d k now = Inr ob"
    have "map_of (cached_objects ?c) k \<noteq> None \<or> q \<in> set ps"
    proof (cases "p = q")
      case True
      with none_item_adds [where get = get, OF a(3,4,5)] show ?thesis by blast
    next
      case False
      with a(1,2) keep show ?thesis by auto
    qed
    then show "map_of (cached_objects (drain_playback C now ?c)) k \<noteq> None"
      by (rule ih3 [OF _ _ a(3,4,5)]) (use a(2) in simp)
  qed
qed

text \<open>
  After a restart on a tree that does not change, the cached paths are exactly the walked ones
  without the root, every cached object belongs to a walked path, and every walked path whose data
  decodes (and whose key no other path has) is cached.
\<close>

lemma resync_correct:
  fixes c :: "'o cache"
  assumes seen_def: "seen = walk fuel children (c_root c)"
    and f_def: "f = resync C fuel get exist children now c"
    and inv: "cache_inv C c" and run: "\<not> c_stopped c" and ex: "exist (c_root c)"
    and present: "\<And>p. p \<in> set seen \<Longrightarrow> \<exists>d st. get p = FetchData d st"
    and gone: "\<And>p. p \<notin> set seen \<Longrightarrow> get p = FetchNoNode"
    and root_new: "c_root c \<notin> set (cached_paths c)"
  shows "set (cached_paths f) = set seen - {c_root c}"
    and "map_of (cached_objects f) k \<noteq> None \<Longrightarrow>
           \<exists>p \<in> set seen. p \<noteq> c_root c \<and> cc_parsePath C p = Some k"
    and "p \<in> set seen \<Longrightarrow> p \<noteq> c_root c \<Longrightarrow> cc_parsePath C p = Some k \<Longrightarrow>
           (\<And>q. q \<in> set seen \<union> set (cached_paths c) \<Longrightarrow> cc_parsePath C q = Some k \<Longrightarrow> q = p) \<Longrightarrow>
           get p = FetchData (Json (JDict d)) st \<Longrightarrow> cc_fromDict C d k now = Inr ob \<Longrightarrow>
           map_of (cached_objects f) k \<noteq> None"
proof -
  define lost where "lost = filter (\<lambda>p. p \<notin> set seen) (cached_paths c)"
  define ps where "ps = filter (\<lambda>p. p \<noteq> c_root c) (seen @ lost)"
  let ?s = "cache_start True fuel exist children c"
  let ?e = "drain_events C get ?s"
  have s: "event_queue ?s = map none_event (seen @ lost)" "\<not> c_stopped ?s" "\<not> c_stop_workers ?s"
    "playback_queue ?s = []" "cached_objects ?s = cached_objects c" "cached_paths ?s = cached_paths c"
    "c_root ?s = c_root c"
    using run ex by (simp_all add: cache_start_def walkTree_def Let_def seen_def lost_def)
  have e: "?e = ?s\<lparr>event_queue := [], playback_queue := map (Some \<circ> none_item C get) ps\<rparr>"
    using drain_events_none [OF s(1,2,3)] s(4,7) by (simp add: ps_def)
  have "cache_inv C (?s\<lparr>event_queue := [], playback_queue := []\<rparr>)"
    using inv by (rule cache_inv_queues) (simp_all add: s)
  then have inv_e: "cache_inv C ?e"
    unfolding e by (auto simp: cache_inv_def item_ok_def none_item_def)
  have noerr: "\<forall>p \<in> set ps. \<forall>e. get p \<noteq> FetchError e"
    using present gone by (metis fetched.distinct(3,5))
  have f: "f = drain_playback C now ?e" by (simp add: f_def resync_def)
  have pq: "playback_queue ?e = map (Some \<circ> none_item C get) ps" "\<not> c_stopped ?e"
    "\<not> c_stop_workers ?e" "cached_paths ?e = cached_paths c"
    unfolding e using s by simp_all
  note d = drain_none_items [OF pq(1-3) noerr inv_e, of now, folded f]
  then have dp: "set (cached_paths f) = (set (cached_paths c) - set ps)
      \<union> {p \<in> set ps. \<exists>d st. get p = FetchData d st}" and di: "cache_inv C f"
    by (simp_all only: pq(4))
  have set_ps: "set ps = (set seen \<union> set (cached_paths c)) - {c_root c}"
    by (auto simp: ps_def lost_def)
  have ex_iff: "(\<exists>d st. get p = FetchData d st) \<longleftrightarrow> p \<in> set seen" for p
    using present gone by (metis fetched.distinct(1))
  show paths: "set (cached_paths f) = set seen - {c_root c}"
    unfolding dp ex_iff set_ps using root_new by blast
  show "\<exists>p \<in> set seen. p \<noteq> c_root c \<and> cc_parsePath C p = Some k"
    if "map_of (cached_objects f) k \<noteq> None"
  proof -
    from that obtain ob where "map_of (cached_objects f) k = Some ob" by auto
    with di have "\<exists>p \<in> set (cached_paths f). cc_parsePath C p = Some k" by (rule cache_invD(3))
    with paths show ?thesis by auto
  qed
  show "map_of (cached_objects f) k \<noteq> None"
    if "p \<in> set seen" "p \<noteq> c_root c" "cc_parsePath C p = Some k"
      "\<And>q. q \<in> set seen \<union> set (cached_paths c) \<Longrightarrow> cc_parsePath C q = Some k \<Longrightarrow> q = p"
      "get p = FetchData (Json (JDict d)) st" "cc_fromDict C d k now = Inr ob"
    using d that set_ps by blast
qed

end

subsection \<open>The three caches keep the contract\<close>

lemma update_stat_base:
  "o_stat (snd (base_updateFromDict valid d now ob)) = o_stat ob"
  by (auto simp: base_updateFromDict_def set_state_def split: sum.splits json.splits option.splits
      if_splits)

lemma node_update_stat: "o_stat (snd (node_updateFromDict d now n)) = o_stat n"
  using update_stat_base [of NODE_STATES d now n]
  by (auto simp: node_updateFromDict_def set_type_def Let_def split: prod.splits option.splits sum.splits)

lemma request_update_stat: "o_stat (snd (node_request_updateFromDict d now r)) = o_stat r"
  using update_stat_base [of NODE_REQUEST_STATES d now r]
  by (auto simp: node_request_updateFromDict_def split: prod.splits option.splits)

lemma build_update_stat: "o_stat (snd (image_build_updateFromDict d now b)) = o_stat b"
  using update_stat_base [of IMAGE_BUILD_STATES d now b]
  by (auto simp: image_build_updateFromDict_def Let_def split: prod.splits option.splits json.splits)

lemma upload_update_stat: "o_stat (snd (image_upload_updateFromDict d now u)) = o_stat u"
  using update_stat_base [of IMAGE_UPLOAD_STATES d now u]
  by (auto simp: image_upload_updateFromDict_def split: prod.splits option.splits)

lemma update_keys_same: "map_of al k = Some v0 \<Longrightarrow> map fst (AList.update k v al) = map fst al"
  by (induction al) auto

lemma nodeCache_hook_keys: "map fst (nodeCache_preHook p b objs) = map fst objs"
  by (auto simp: nodeCache_preHook_def update_keys_same split: option.splits list.splits)

lemma nodeCache_hook_stat:
  "map_of (nodeCache_preHook p b objs) k = Some ob \<Longrightarrow>
     \<exists>ob0. map_of objs k = Some ob0 \<and> o_stat ob = o_stat ob0 \<and> n_lock ob = n_lock ob0"
  by (auto simp: nodeCache_preHook_def update_conv' split: option.splits list.splits if_splits)

lemma nodeCache_hook_only:
  "map_of (nodeCache_preHook p b objs) k = Some new \<Longrightarrow> map_of objs k = Some old \<Longrightarrow>
     new = old\<lparr>n_lock_contenders := n_lock_contenders new\<rparr>"
  by (auto simp: nodeCache_preHook_def update_conv' split: option.splits list.splits if_splits)

lemma imageCache_hook_keys: "map fst (imageCache_preHook p b objs) = map fst objs"
  by (auto simp: imageCache_preHook_def update_keys_same split: option.splits)

lemma set_paused_stat: "cached_image_stat (set_paused b ob) = cached_image_stat ob"
  by (cases ob) auto

lemma imageCache_hook_stat:
  "map_of (imageCache_preHook p b objs) k = Some ob \<Longrightarrow>
     \<exists>ob0. map_of objs k = Some ob0 \<and> cached_image_stat ob = cached_image_stat ob0"
  by (auto simp: imageCache_preHook_def update_conv' set_paused_stat split: option.splits if_splits)

lemma cached_image_stat_set: "cached_image_stat (cached_image_set_stat st ob) = Some st"
  by (cases ob) auto

lemma cached_image_update_stat:
  "cached_image_stat (snd (cached_image_update d now ob)) = cached_image_stat ob"
  by (cases ob) (auto simp: image_updateFromDict_def build_update_stat upload_update_stat)

interpretation node_cache: tree_cache nodeCache
  by unfold_locales
    (auto simp: nodeCache_def node_update_stat nodeCache_hook_keys dest: nodeCache_hook_stat)

interpretation request_cache: tree_cache requestCache
  by unfold_locales (auto simp: requestCache_def request_update_stat no_hook_def)

interpretation image_cache: tree_cache imageCache
  by unfold_locales
    (auto simp: imageCache_def cached_image_stat_set cached_image_update_stat no_hook_def
      imageCache_hook_keys dest: imageCache_hook_stat)

end
