(* ===== verification/ZkClaims.thy ===== *)
theory ZkClaims
  imports ZkPoolsProps ZkNode ZkCacheSync
begin

section \<open>Properties of the ZooKeeper layer\<close>

text \<open>
  The properties of the tree cache, of nodes and requests, and of builds and uploads, each with a
  witness on the in-memory server where it has hypotheses.
\<close>

subsection \<open>Concrete inputs\<close>

definition z_empty :: mem_zk where
  "z_empty = \<lparr> mz_nodes = [], mz_zxid = 0, mz_clock = 0 \<rparr>"

definition n_ready :: node where
  "n_ready = (node_init None)\<lparr>o_state := Some READY, o_state_time := JNum 7,
     n_provider := JStr ''prov'', n_pool := JStr ''main'', n_type := [JStr ''small'']\<rparr>"

definition n_one :: node where
  "n_one = n_ready\<lparr>o_id := Some ''1''\<rparr>"

definition z_node :: mem_zk where
  "z_node = \<lparr> mz_nodes =
     [(NODE_ROOT, \<lparr> mn_data = NoData, mn_created = 0, mn_mzxid = 1, mn_mtime = 0, mn_creates = 1 \<rparr>),
      (nodePath ''1'', \<lparr> mn_data = serialize (node_toDict n_ready), mn_created = 0, mn_mzxid = 2,
                         mn_mtime = 0, mn_creates = 0 \<rparr>)],
     mz_zxid = 2, mz_clock = 0 \<rparr>"

lemma n_ready_good: "node_good n_ready" "node_good n_one"
  by (simp_all add: node_good_def n_one_def n_ready_def NODE_STATES_def node_init_def)

subsection \<open>The tree cache\<close>



text \<open>
  C2: Whatever the holders of cached nodes have done to them before - locked, changed, reread or
  unlocked them - a step of the cache never moves a cached node to older data, and it leaves a node
  that is locked in this process exactly as its holder has it, apart from the contenders of its lock.
\<close>
theorem node_cache_monotone:
  assumes "cache_reachable nodeCache rt c" and "cache_step nodeCache c c'"
    and "map_of (cached_objects c) k = Some old" and "o_stat old = Some os"
    and "map_of (cached_objects c') k = Some new"
  shows "(\<exists>ns. o_stat new = Some ns \<and> (ns = os \<or> mzxid os < mzxid ns)) \<and>
    (n_lock old \<longrightarrow> new = old\<lparr>n_lock_contenders := n_lock_contenders new\<rparr>)"
proof
  note inv = node_cache.reachable_inv [OF assms(1)]
  show "\<exists>ns. o_stat new = Some ns \<and> (ns = os \<or> mzxid os < mzxid ns)"
    using node_cache.cache_step_newer [OF assms(2) inv assms(3)] assms(4,5) by (auto simp: nodeCache_def)
  show "n_lock old \<longrightarrow> new = old\<lparr>n_lock_contenders := n_lock_contenders new\<rparr>"
    using node_cache.cache_step_locked [OF assms(2) inv assms(3) _ assms(5)] nodeCache_hook_only assms(3)
    by (auto simp: nodeCache_def hook_only_def)
qed

text \<open>A run of the node cache on which a node is read, and read again with newer data.\<close>

definition ev_changed :: watched_event where
  "ev_changed = \<lparr> ev_type = EvCHANGED, ev_path = Some (nodePath ''1'') \<rparr>"

definition read_node :: "int \<Rightarrow> node cache \<Rightarrow> node cache" where
  "read_node zxid c = playbackWorker_step nodeCache 0 (eventWorker_step nodeCache
     (\<lambda>p. FetchData (serialize (node_toDict n_ready)) \<lparr> created = 0, mzxid = zxid, children_count = 0, mtime = 0 \<rparr>)
     (c\<lparr>event_queue := event_queue c @ [Some ev_changed]\<rparr>))"

definition node_cache_run :: "node cache" where
  "node_cache_run = read_node 5 (cache_init NODE_ROOT)"

lemma event_round_reachable:
  "cache_reachable C rt c \<Longrightarrow>
     cache_reachable C rt (eventWorker_step C get (c\<lparr>event_queue := event_queue c @ [Some ev]\<rparr>))"
  by (rule cache_reachable.step [OF cache_reachable.step [OF _ cache_step.watch] cache_step.event])

lemma read_node_reachable: "cache_reachable nodeCache rt c \<Longrightarrow> cache_reachable nodeCache rt (read_node z c)"
  unfolding read_node_def
  by (rule cache_reachable.step [OF event_round_reachable cache_step.play])

definition node_cache_queued :: "node cache" where
  "node_cache_queued = eventWorker_step nodeCache
     (\<lambda>p. FetchData (serialize (node_toDict n_ready)) \<lparr> created = 0, mzxid = 6, children_count = 0, mtime = 0 \<rparr>)
     (node_cache_run\<lparr>event_queue := event_queue node_cache_run @ [Some ev_changed]\<rparr>)"

lemma node_cache_queued_reachable: "cache_reachable nodeCache NODE_ROOT node_cache_queued"
  unfolding node_cache_queued_def node_cache_run_def
  by (rule event_round_reachable [OF read_node_reachable [OF cache_reachable.initial]])

lemma parse_node_one: "parseNodePath (nodePath ''1'') = Some [''1'']" "nodePath ''1'' \<noteq> NODE_ROOT"
  "parseNodeLockPath (nodePath ''1'') = None"
  by code_simp+

lemma node_cache_run_eq:
  "node_cache_run = (cache_init NODE_ROOT)\<lparr>cached_paths := [nodePath ''1''], c_stats_event := True,
     cached_objects := [([''1''], (node_reread (Some ''1'') n_ready)\<lparr>o_stat :=
        Some \<lparr> created = 0, mzxid = 5, children_count = 0, mtime = 0 \<rparr>\<rparr>)]\<rparr>"
  by (simp add: node_cache_run_def read_node_def eventWorker_step_def cache_init_def ev_changed_def
      handleCacheEvent_def parse_node_one Let_def nodeCache_def playbackWorker_step_def
      handlePlayback_def hooked_def present_of_def add_path_def nodeCache_preHook_def serialize_def
      cache_put_def node_read_back [OF n_ready_good(1)])

lemma node_cache_run_stats:
  "map_option o_stat (map_of (cached_objects (playbackWorker_step nodeCache 0 node_cache_queued)) [''1'']) =
     Some (Some \<lparr> created = 0, mzxid = 6, children_count = 0, mtime = 0 \<rparr>)"
  "cached_objects node_cache_queued = cached_objects node_cache_run"
  by (simp_all add: node_cache_queued_def node_cache_run_eq eventWorker_step_def cache_init_def
      ev_changed_def handleCacheEvent_def parse_node_one Let_def nodeCache_def
      playbackWorker_step_def handlePlayback_def hooked_def present_of_def add_path_def
      nodeCache_preHook_def serialize_def cache_put_def node_reread_def
      node_update_toDict [OF n_ready_good(1)])

text \<open>A worker takes the node and marks it; newer data that arrives then waits until it lets go of it.\<close>

definition n_held :: node where
  "n_held = (node_reread (Some ''1'') n_ready)\<lparr>o_state := Some USED, n_lock := True,
     o_stat := Some \<lparr> created = 0, mzxid = 5, children_count = 0, mtime = 0 \<rparr>\<rparr>"

definition node_cache_held :: "node cache" where
  "node_cache_held = node_cache_queued\<lparr>cached_objects := AList.update [''1''] n_held (cached_objects node_cache_queued)\<rparr>"

lemma node_cache_held_reachable: "cache_reachable nodeCache NODE_ROOT node_cache_held"
proof -
  let ?st = "\<lparr> created = 0, mzxid = 5, children_count = 0, mtime = 0 \<rparr> :: zstat"
  have "map_of (cached_objects node_cache_queued) [''1''] =
      Some ((node_reread (Some ''1'') n_ready)\<lparr>o_stat := Some ?st\<rparr>)"
    by (simp add: node_cache_run_stats(2) node_cache_run_eq)
  moreover have "cc_stat nodeCache ((node_reread (Some ''1'') n_ready)\<lparr>o_stat := Some ?st\<rparr>) = Some ?st"
    "cc_stat nodeCache n_held = Some ?st" by (simp_all add: nodeCache_def n_held_def)
  ultimately show ?thesis unfolding node_cache_held_def
    by (rule cache_reachable.client [OF node_cache_queued_reachable client_step.change]) simp
qed

lemma node_cache_held_play:
  "map_of (cached_objects (playbackWorker_step nodeCache 0 node_cache_held)) [''1''] \<noteq> None"
  by (simp add: node_cache_held_def node_cache_queued_def node_cache_run_eq eventWorker_step_def cache_init_def
      ev_changed_def handleCacheEvent_def parse_node_one Let_def nodeCache_def
      playbackWorker_step_def handlePlayback_def hooked_def present_of_def add_path_def
      nodeCache_preHook_def serialize_def cache_put_def n_held_def)

theorem node_cache_monotone_witness:
  "\<exists>new. map_of (cached_objects (playbackWorker_step nodeCache 0 node_cache_held)) [''1''] = Some new \<and>
     n_lock new \<and> o_state new = Some USED \<and> (\<exists>ns. o_stat new = Some ns \<and> 5 \<le> mzxid ns)"
proof -
  have old: "map_of (cached_objects node_cache_held) [''1''] = Some n_held"
    "o_stat n_held = Some \<lparr> created = 0, mzxid = 5, children_count = 0, mtime = 0 \<rparr>" "n_lock n_held" "o_state n_held = Some USED"
    by (simp_all add: node_cache_held_def update_conv' n_held_def)
  obtain new where new: "map_of (cached_objects (playbackWorker_step nodeCache 0 node_cache_held)) [''1''] = Some new"
    using node_cache_held_play by blast
  from node_cache_monotone [OF node_cache_held_reachable cache_step.play [of _ _ 0] old(1,2) new] old(3)
  have n: "new = n_held\<lparr>n_lock_contenders := n_lock_contenders new\<rparr>" "\<exists>ns. o_stat new = Some ns \<and> 5 \<le> mzxid ns" by auto
  have "n_lock new" "o_state new = Some USED" using old(3,4) by (subst n(1), simp)+
  with new n(2) show ?thesis by blast
qed

lemma below_under: "below children rt p \<Longrightarrow> 2 \<le> length rt \<Longrightarrow> p = rt \<or> (\<exists>t. p = rt @ ''/'' @ t)"
proof (induction rule: below.induct)
  case (child rt cs c p)
  have "child_path rt c = rt @ ''/'' @ c" using child.prems by (auto simp: child_path_def)
  moreover have "2 \<le> length (rt @ ''/'' @ c)" using child.prems by simp
  ultimately show ?case using child.IH by auto
qed simp

lemma NODE_ROOT_long: "2 \<le> length NODE_ROOT" "parseNodePath NODE_ROOT = None"
  by (simp_all add: NODE_ROOT_def, code_simp)

text \<open>
  C3: When the session comes back and the node cache restarts on a tree that stands still, with any
  history behind it, then after the queued events are worked off it knows exactly the paths of the
  tree below its root, every cached node is in the tree, and every node of the tree whose payload
  was written by a node is cached.
\<close>
theorem node_cache_resync:
  assumes reach: "cache_reachable nodeCache NODE_ROOT c" and run: "\<not> c_stopped c"
    and rt: "c_root c = NODE_ROOT" and ex: "exist NODE_ROOT"
    and told: "\<forall>p \<in> set (cached_paths c). startswith p (NODE_ROOT @ ''/'')"
    and bound: "\<forall>q. N < length q \<longrightarrow> children q = None" and fuel: "Suc N - length NODE_ROOT < fuel"
    and get_there: "\<forall>p. below children NODE_ROOT p \<longrightarrow> (\<exists>d st. get p = FetchData d st)"
    and get_gone: "\<forall>p. \<not> below children NODE_ROOT p \<longrightarrow> get p = FetchNoNode"
    and f: "f = resync nodeCache fuel get exist children now c"
  shows "set (cached_paths f) = {p. below children NODE_ROOT p} - {NODE_ROOT} \<and>
    (\<forall>k. map_of (cached_objects f) k \<noteq> None \<longrightarrow>
       (\<exists>i. k = [i] \<and> below children NODE_ROOT (nodePath i))) \<and>
    (\<forall>i n st. component i \<longrightarrow> i \<noteq> ''lock'' \<longrightarrow> below children NODE_ROOT (nodePath i) \<longrightarrow> node_good n \<longrightarrow>
       get (nodePath i) = FetchData (serialize (node_toDict n)) st \<longrightarrow>
       map_of (cached_objects f) [i] \<noteq> None)"
proof -
  let ?seen = "walk fuel children (c_root c)"
  have seen: "p \<in> set ?seen \<longleftrightarrow> below children NODE_ROOT p" for p
    using below_walk [of children NODE_ROOT p N fuel] walk_below [of p fuel children NODE_ROOT]
      bound fuel NODE_ROOT_long(1) rt by auto
  have new: "c_root c \<notin> set (cached_paths c)"
    using told rt by (auto simp: startswith_def)
  note rs = node_cache.resync_correct [OF refl f node_cache.reachable_inv [OF reach] run, of]
  have under: "q = nodePath i \<and> component i" if "parseNodePath q = Some [i]"
    "startswith q (NODE_ROOT @ ''/'')" for q i
    using parseNodePath_sound [OF that] by auto
  have below_start: "startswith q (NODE_ROOT @ ''/'')" if "below children NODE_ROOT q" "q \<noteq> NODE_ROOT" for q
    using below_under [OF that(1) NODE_ROOT_long(1)] that(2) by (auto simp: startswith_iff)
  have paths: "set (cached_paths f) = {p. below children NODE_ROOT p} - {NODE_ROOT}"
    using rs(1) ex rt get_there get_gone seen new by auto
  moreover have "\<exists>i. k = [i] \<and> below children NODE_ROOT (nodePath i)"
    if "map_of (cached_objects f) k \<noteq> None" for k
  proof -
    from rs(2) [of k] that ex rt get_there get_gone seen new
    obtain p where "below children NODE_ROOT p" "p \<noteq> NODE_ROOT" "parseNodePath p = Some k"
      by (auto simp: nodeCache_def)
    with parseNodePath_sound [of p k] below_start show ?thesis by auto
  qed
  moreover have "map_of (cached_objects f) [i] \<noteq> None"
    if i: "component i" "i \<noteq> ''lock''" "below children NODE_ROOT (nodePath i)" and n: "node_good n"
      "get (nodePath i) = FetchData (serialize (node_toDict n)) st" for i n st
  proof (rule rs(3) [of "nodePath i" "[i]"])
    show "cc_parsePath nodeCache (nodePath i) = Some [i]"
      using i by (simp add: nodeCache_def nodePath_under parse_under component_def)
    show "cc_fromDict nodeCache (node_toDict n) [i] now = Inr (node_reread (Some i) n)"
      using n by (simp add: nodeCache_def node_read_back)
    fix q assume q: "q \<in> set ?seen \<union> set (cached_paths c)" "cc_parsePath nodeCache q = Some [i]"
    then have "parseNodePath q = Some [i]" by (simp add: nodeCache_def)
    moreover have "q \<noteq> NODE_ROOT"
    proof
      assume "q = NODE_ROOT"
      with \<open>parseNodePath q = Some [i]\<close> show False by (simp add: NODE_ROOT_long(2))
    qed
    ultimately show "q = nodePath i" using q(1) seen told below_start under by blast
  qed (use i n ex rt get_there get_gone seen new in \<open>auto simp: serialize_def nodePath_def\<close>)
  ultimately show ?thesis by blast
qed

definition one_child :: "string \<Rightarrow> string list option" where
  "one_child p = (if p = NODE_ROOT then Some [''1''] else if p = nodePath ''1'' then Some [] else None)"

definition one_get :: "string \<Rightarrow> fetched" where
  "one_get p = (if p = NODE_ROOT \<or> p = nodePath ''1''
     then FetchData (serialize (node_toDict n_ready)) \<lparr> created = 0, mzxid = 5, children_count = 0, mtime = 0 \<rparr>
     else FetchNoNode)"

lemma one_child_walk: "walk 20 one_child NODE_ROOT = [NODE_ROOT, nodePath ''1'']"
  by code_simp

lemma one_child_bound: "\<forall>q. length (nodePath ''1'') < length q \<longrightarrow> one_child q = None"
  by (auto simp: one_child_def nodePath_def)

lemma one_child_below: "below one_child NODE_ROOT p \<longleftrightarrow> p = NODE_ROOT \<or> p = nodePath ''1''"
  using below_walk [of one_child NODE_ROOT p "length (nodePath ''1'')" 20]
    walk_below [of p 20 one_child NODE_ROOT] one_child_bound NODE_ROOT_long(1)
  by (auto simp: one_child_walk nodePath_def)

theorem node_cache_resync_witness:
  "map_of (cached_objects (resync nodeCache 20 one_get (\<lambda>p. True) one_child 0 (cache_init NODE_ROOT)))
     [''1''] \<noteq> None"
proof -
  have "component ''1''" "below one_child NODE_ROOT (nodePath ''1'')"
    "one_get (nodePath ''1'') =
       FetchData (serialize (node_toDict n_ready)) \<lparr> created = 0, mzxid = 5, children_count = 0, mtime = 0 \<rparr>"
    by (simp_all add: component_def one_child_below one_get_def)
  then show ?thesis
    using node_cache_resync [OF cache_reachable.initial, of "\<lambda>p. True" "length (nodePath ''1'')"
        one_child 20 one_get "resync nodeCache 20 one_get (\<lambda>p. True) one_child 0 (cache_init NODE_ROOT)" 0]
      one_child_bound n_ready_good(1)
    by (simp add: cache_init_def one_child_below one_get_def nodePath_def del: map_of_eq_None_iff)
qed

subsection \<open>Nodes\<close>

text \<open>
  C4: What \<open>storeNode\<close> writes, \<open>getNode\<close> reads: for a new node (which gets a fresh id) and for an
  existing one the node read back has every serialised attribute of the node stored.
\<close>
theorem storeNode_getNode:
  assumes "zk_server K tree" and "storeNode K now n z = (None, n', z')" and "node_good n"
  shows "\<exists>i st. o_id n' = Some i \<and>
      getNode K nc i False oc now' z' = Inr (Some ((node_reread (Some i) n')\<lparr>o_stat := Some st\<rparr>)) \<and>
      (if no_id (o_id n) then tree z (nodePath i) = None else n' = n)"
proof -
  note facts = zk_server.storeNode_tree [OF assms(1,2)]
  then obtain i where i: "o_id n' = Some i" "tree z' (nodePath i) = Some (serialize (node_toDict n'))"
    by blast
  have "node_good n'" using facts assms(3) i(1) by (cases "no_id (o_id n)") auto
  from zk_server.getNode_there [OF assms(1) i(2) this] i facts show ?thesis by auto
qed

lemma z_empty_store: "fst (storeNode mem_kazoo 9 n_ready z_empty) = None"
  by code_simp

theorem storeNode_getNode_witness:
  "\<exists>n' z' i st. storeNode mem_kazoo 9 n_ready z_empty = (None, n', z') \<and>
     getNode mem_kazoo None i False False 10 z' =
       Inr (Some ((node_reread (Some i) n')\<lparr>o_stat := Some st\<rparr>))"
proof -
  obtain n' z' where "storeNode mem_kazoo 9 n_ready z_empty = (None, n', z')"
    using z_empty_store by (metis prod.collapse)
  from storeNode_getNode [OF mem.zk_server_axioms this n_ready_good(1)] this show ?thesis by blast
qed

text \<open>
  \<open>deleteNode\<close> on a node that exists leaves the object marked \<open>DELETED\<close> with its thread lock
  free, and removes its znode with everything below it and nothing else; on a node that is gone it
  raises \<open>NoNodeError\<close> and changes nothing in ZooKeeper.
\<close>
theorem deleteNode_correct:
  assumes "zk_server K tree" and "o_id n = Some i" and "i \<noteq> []"
  shows "if tree z (nodePath i) \<noteq> None
    then \<exists>n' z'. deleteNode K now n z = (None, n', z') \<and> o_state n' = Some DELETED \<and>
           \<not> n_thread_lock n' \<and>
           tree z' = (\<lambda>q. if in_subtree (nodePath i) q then None else tree z q)
    else \<exists>n'. deleteNode K now n z = (Some NoNodeError, n', z)"
  using zk_server.deleteNode_present [OF assms] zk_server.deleteNode_absent [OF assms] by auto

theorem deleteNode_correct_witness:
  "\<exists>n' z'. deleteNode mem_kazoo 9 n_one z_node = (None, n', z') \<and> o_state n' = Some DELETED \<and>
     mem_tree z' (nodePath ''1'') = None"
proof -
  have "mem_tree z_node (nodePath ''1'') \<noteq> None" "o_id n_one = Some ''1''"
    by (simp_all add: mem_tree_def z_node_def n_one_def)
  with deleteNode_correct [OF mem.zk_server_axioms, of n_one "''1''" z_node 9] show ?thesis
    by (auto simp: in_subtree_def)
qed

text \<open>
  When \<open>lockNode\<close> succeeds, the node holds the lock, its thread lock is held exactly when the
  lock is ephemeral, and every serialised attribute is the one ZooKeeper has at that moment,
  whatever the object said before (the id and the lock contenders are the object's own).
\<close>
theorem lockNode_fresh:
  assumes "zk_server K tree" and "lock_recipe L tree"
    and "lockNode K L n blocking timeout ephemeral identifier freed now z = (None, n', z')"
    and "o_id n = Some i" and "stored_node (tree z) i m"
  shows "\<exists>st. n' = m\<lparr>o_id := Some i, o_stat := Some st, n_lock := True, n_thread_lock := ephemeral,
                 n_lock_contenders := n_lock_contenders n\<rparr>"
proof -
  have "zk_locks K tree L" using assms(1,2) by (simp add: zk_locks_def)
  from zk_locks.lockNode_stored [OF this assms(3-5)] show ?thesis .
qed

lemma z_node_stored: "stored_node (mem_tree z_node) ''1'' n_ready"
  using n_ready_good by (simp add: stored_node_def z_node_def mem_tree_def nodePath_def NODE_ROOT_def)

lemma z_node_lock:
  "fst (lockNode mem_kazoo mem_locks (node_init (Some ''1'')) False None True None False 9 z_node) = None"
  by code_simp

theorem lockNode_fresh_witness:
  "\<exists>n' z'. lockNode mem_kazoo mem_locks (node_init (Some ''1'')) False None True None False 9 z_node =
     (None, n', z') \<and> n_lock n' \<and> n_thread_lock n' \<and> o_state n' = Some READY"
proof -
  obtain n' z' where l: "lockNode mem_kazoo mem_locks (node_init (Some ''1'')) False None True None
      False 9 z_node = (None, n', z')"
    using z_node_lock by (metis prod.collapse)
  have "o_id (node_init (Some ''1'')) = Some ''1''" by (simp add: node_init_def)
  from lockNode_fresh [OF mem.zk_server_axioms mem_lock.lock_recipe_axioms l this z_node_stored] l
  show ?thesis by (auto simp: n_ready_def)
qed

text \<open>
  When the znode of the node is gone by the time its lock is taken, \<open>lockNode\<close> raises
  \<open>NoNodeError\<close> and leaves both locks held: the release in its handler covers only the taking of
  the lock, not the update after it.
\<close>
theorem lockNode_leaks:
  assumes "zk_server K tree"
    and "lk_acquire L (nodeLockPath i) identifier True None ephemeral z = (Inr True, z')"
    and "tree z' (nodePath i) = None" and "o_id n = Some i" and "\<not> n_thread_lock n"
  shows "lockNode K L n True None ephemeral identifier freed now z =
    (Some NoNodeError, n\<lparr>n_thread_lock := ephemeral, n_lock := True\<rparr>, z')"
  using assms by (simp add: lockNode_def thread_acquire_def take_lock_def updateNode_def
      zk_server.get_missing [OF assms(1,3)])

definition free_locks :: "mem_zk locks" where
  "free_locks = mem_locks\<lparr>lk_acquire := (\<lambda>p i b t e z. (Inr True, z))\<rparr>"

theorem lockNode_leaks_witness:
  "lockNode mem_kazoo free_locks n_one True None True None False 9 z_empty =
    (Some NoNodeError, n_one\<lparr>n_thread_lock := True, n_lock := True\<rparr>, z_empty)"
  by (rule lockNode_leaks [OF mem.zk_server_axioms, of _ "''1''"])
    (simp_all add: free_locks_def mem_tree_def z_empty_def n_one_def n_ready_def node_init_def)

text \<open>
  C5: \<open>deleteOldestUnusedNode\<close>, with any cache in front of a store of well-formed nodes: a result of
  \<open>True\<close> means that one node of that pool, which was ready and not allocated in ZooKeeper itself
  (not only in the cache), is now stored as \<open>DELETING\<close> with the new state time, and that no other
  payload outside the lock subtrees changed; a result of \<open>False\<close> means that none changed at all.
\<close>
theorem deleteOldestUnusedNode_safe:
  assumes "zk_server K tree" and "lock_recipe L tree"
    and "deleteOldestUnusedNode K L pr pl now nc z = (Inr b, nc', z')"
    and "\<And>i. slash \<notin> set i \<Longrightarrow> tree z (nodePath i) \<noteq> None \<Longrightarrow> i \<noteq> [] \<and> (\<exists>m. stored_node (tree z) i m)"
    and "\<And>c j n. nc = Some c \<Longrightarrow> getCachedNode j c = Some n \<Longrightarrow> o_id n = Some j"
  shows "if b then \<exists>i n. deleted_one now i (tree z) (tree z') \<and> of_pool pr pl n \<and>
           unallocated_ready n \<and> getNode K nc i True False now z = Inr (Some n)
         else kept (tree z) (tree z')"
proof -
  have "zk_locks K tree L" using assms(1,2) by (simp add: zk_locks_def)
  from zk_locks.deleteOldestUnusedNode_law [OF this assms(3)] assms(4,5) show ?thesis by blast
qed

lemma z_node_nodes:
  "slash \<notin> set i \<Longrightarrow> mem_tree z_node (nodePath i) \<noteq> None \<Longrightarrow>
     i \<noteq> [] \<and> (\<exists>m. stored_node (mem_tree z_node) i m)"
  using z_node_stored by (auto simp: z_node_def mem_tree_def nodePath_def split: if_splits)

lemma z_node_delete_oldest:
  "fst (deleteOldestUnusedNode mem_kazoo mem_locks ''prov'' ''main'' 9 None z_node) = Inr True"
  by code_simp

theorem deleteOldestUnusedNode_safe_witness:
  "\<exists>nc' z' i. deleteOldestUnusedNode mem_kazoo mem_locks ''prov'' ''main'' 9 None z_node =
     (Inr True, nc', z') \<and> deleted_one 9 i (mem_tree z_node) (mem_tree z')"
proof -
  obtain nc' z' where d: "deleteOldestUnusedNode mem_kazoo mem_locks ''prov'' ''main'' 9 None z_node =
     (Inr True, nc', z')"
    using z_node_delete_oldest by (metis prod.collapse)
  from deleteOldestUnusedNode_safe [OF mem.zk_server_axioms mem_lock.lock_recipe_axioms d] z_node_nodes d
  show ?thesis by auto
qed

text \<open>
  The guard that should keep \<open>deleteOldestUnusedNode\<close> from deleting a second node within five
  minutes of the last deletion is dead: it divides a time in seconds by 1000, so from 301 seconds
  after the epoch on the scan never declines, whatever nodes are being deleted.
\<close>
theorem recent_deletion_never_declines:
  assumes "301 \<le> now"
    and "\<And>i n t. i \<in> set ids \<Longrightarrow> getNode K nc i True False now z = Inr (Some n) \<Longrightarrow>
           num_of (o_state_time n) = Inr t \<Longrightarrow> t \<le> now"
  shows "oldest_candidates K nc pr pl now z ids acc \<noteq> Inr None"
  using assms by (rule oldest_candidates_never_declines)

definition n_deleting :: node where
  "n_deleting = n_ready\<lparr>o_id := Some ''1'', o_state := Some DELETING, o_state_time := JNum 1000\<rparr>"

definition deleting_cache :: "node cache" where
  "deleting_cache = (cache_init NODE_ROOT)\<lparr>cached_objects := [([''1''], n_deleting)]\<rparr>"

theorem recent_deletion_never_declines_witness:
  "oldest_candidates mem_kazoo (Some deleting_cache) ''prov'' ''main'' 1000 z_node [''1''] [] \<noteq> Inr None"
  by (rule recent_deletion_never_declines)
    (auto simp: getNode_def getCachedNode_def cache_get_def deleting_cache_def cache_init_def n_deleting_def)

subsection \<open>Builds and uploads\<close>

text \<open>
  C6: \<open>deleteBuild\<close> deletes a build exactly when no provider has an upload of it: otherwise it
  returns \<open>False\<close> and changes nothing; when it deletes, the build's subtree goes and nothing else.
\<close>
theorem deleteBuild_correct:
  assumes "zk_server K tree" and "tree_closed (tree z)"
  shows "if upload_exists (tree z) img b then deleteBuild K img b z = Inr (False, z)
    else \<exists>z'. deleteBuild K img b z = Inr (True, z') \<and>
           tree z' = (\<lambda>q. if in_subtree (imageBuildIdPath img b) q then None else tree z q)"
  using zk_server.deleteBuild_law [OF assms] by simp

theorem deleteBuild_correct_witness:
  "\<exists>z'. deleteBuild mem_kazoo ''img'' ''b'' z_empty = Inr (True, z')"
proof -
  have "tree_closed (mem_tree z_empty)" "\<not> upload_exists (mem_tree z_empty) ''img'' ''b''"
    by (simp_all add: tree_closed_def upload_exists_def mem_tree_def z_empty_def)
  with deleteBuild_correct [OF mem.zk_server_axioms, of z_empty "''img''" "''b''"] show ?thesis by auto
qed

text \<open>
  An upload that is stored is read back with every serialised attribute; a new upload gets a
  number that did not exist before and is not the name of the lock.
\<close>
theorem storeImageUpload_getImageUpload:
  assumes "zk_server K tree" and "storeImageUpload K img b p u i z = Inr (j, z')" and "upload_good u"
  shows "(\<exists>st. getImageUpload K img b p j now z' =
           Inr (Some ((upload_reread (JStr b) (JStr p) (JStr img) (Some j) u)\<lparr>o_stat := Some st\<rparr>))) \<and>
    (i = None \<longrightarrow> j \<noteq> ''lock'' \<and> tree z (imageUploadPath img b p @ ''/'' @ j) = None)"
  using zk_server.storeImageUpload_law [OF assms] by blast

definition u_up :: image_upload where
  "u_up = (image_upload_init JNull JNull JNull None)\<lparr>o_state := Some UPLOADING, o_state_time := JNum 1\<rparr>"

definition z_builds :: mem_zk where
  "z_builds = \<lparr> mz_nodes = [(imageBuildsPath ''img'',
      \<lparr> mn_data = NoData, mn_created = 0, mn_mzxid = 1, mn_mtime = 0, mn_creates = 0 \<rparr>)], mz_zxid = 1, mz_clock = 0 \<rparr>"

lemma z_builds_store:
  "(case storeImageUpload mem_kazoo ''img'' ''b'' ''prov'' u_up None z_builds of
      Inl e \<Rightarrow> False | Inr r \<Rightarrow> fst r = ''0000000000'')"
  by code_simp

theorem storeImageUpload_getImageUpload_witness:
  "\<exists>z' st. storeImageUpload mem_kazoo ''img'' ''b'' ''prov'' u_up None z_builds = Inr (''0000000000'', z') \<and>
     getImageUpload mem_kazoo ''img'' ''b'' ''prov'' ''0000000000'' 5 z' =
       Inr (Some ((upload_reread (JStr ''b'') (JStr ''prov'') (JStr ''img'') (Some ''0000000000'') u_up)
         \<lparr>o_stat := Some st\<rparr>))"
proof -
  obtain z' where s: "storeImageUpload mem_kazoo ''img'' ''b'' ''prov'' u_up None z_builds =
      Inr (''0000000000'', z')"
    using z_builds_store
    by (cases "storeImageUpload mem_kazoo ''img'' ''b'' ''prov'' u_up None z_builds") auto
  have "upload_good u_up"
    by (simp add: upload_good_def u_up_def image_upload_init_def IMAGE_UPLOAD_STATES_def)
  from storeImageUpload_getImageUpload [OF mem.zk_server_axioms s this] s show ?thesis by blast
qed

text \<open>
  \<open>getMostRecentImageUpload\<close> on numeric state times returns the newest of the relevant uploads -
  the first of those with the newest time - and \<open>None\<close> exactly when no upload is relevant.
\<close>
theorem most_recent_upload:
  assumes "\<forall>u \<in> set us. timed u"
  shows "\<exists>r. most_recent_of img p st us = Inr r \<and> newest_in img p st us r"
  using assms by (rule most_recent_newest)

theorem most_recent_upload_witness:
  "\<exists>r. most_recent_of ''img'' ''prov'' UPLOADING [u_up] = Inr r \<and>
     newest_in ''img'' ''prov'' UPLOADING [u_up] r"
  by (rule most_recent_upload) (simp add: timed_def u_up_def)

text \<open>
  \<open>getMostRecentBuilds\<close> returns a part of the builds that match, newest first, and never more than
  the count asked for.
\<close>
theorem most_recent_builds:
  assumes "getMostRecentBuilds K (Some (int n)) img state now z = Inr bs"
  shows "length bs \<le> n \<and>
    sorted_wrt (\<lambda>a b. \<exists>ta tb. num_of (o_state_time (the a)) = Inr ta \<and>
                            num_of (o_state_time (the b)) = Inr tb \<and> tb \<le> ta) bs \<and>
    (\<exists>all. getBuilds K img (map_option (\<lambda>s. [s]) state) now z = Inr all \<and> mset bs \<subseteq># mset all)"
proof -
  from assms obtain all where all: "getBuilds K img (map_option (\<lambda>s. [s]) state) now z = Inr all"
    and r: "(if all = [] then Inr [] else if None \<in> set all then Inl AttributeError
             else bindE (sort_newest (\<lambda>b. o_state_time (the b)) all) (\<lambda>xs. Inr (py_take (Some (int n)) xs)))
            = Inr bs"
    unfolding getMostRecentBuilds_def bindE_eq_Inr by blast
  show ?thesis
  proof (cases "all = []")
    case False
    with r obtain xs where xs: "sort_newest (\<lambda>b. o_state_time (the b)) all = Inr xs"
      and bs: "bs = take n xs"
      by (auto simp: bindE_eq_Inr py_take_def split: if_splits)
    have "mset bs \<subseteq># mset xs" unfolding bs
      by (metis append_take_drop_id mset_append mset_subset_eq_add_left)
    with sort_newest_perm [OF xs] all sort_newest_sorted [OF xs] show ?thesis
      by (simp add: bs sorted_wrt_take)
  qed (use r all in simp)
qed

theorem most_recent_builds_witness:
  "getMostRecentBuilds mem_kazoo (Some (int 2)) ''img'' None 0 z_empty = Inr [] \<and> length [] \<le> (2::nat)"
proof -
  have r: "getMostRecentBuilds mem_kazoo (Some (int 2)) ''img'' None 0 z_empty = Inr []"
    by (simp add: getMostRecentBuilds_def getBuilds_def mem_kazoo_def mem_children_def z_empty_def)
  from most_recent_builds [OF r] r show ?thesis by simp
qed

text \<open>
  After an import of a backup, every path of the backup has the payload of the backup, whatever
  was in ZooKeeper before and whatever sequence nodes were made first.
\<close>
theorem importImageData_restores:
  assumes "zk_server K tree" and "importImageData K backup z = Inr z'" and "distinct (map fst backup)"
    and "(p, d) \<in> set backup"
  shows "tree z' p = Some d"
  by (rule zk_server.importImageData_tree [OF assms])

definition a_backup :: "(string \<times> zdata) list" where
  "a_backup = [(''/nodepool/images/i/builds/b'', Garbage ''x''),
     (''/nodepool/images/i/builds/b/providers/p/images/0000000001'', Garbage ''y'')]"

lemma a_backup_import: "case importImageData mem_kazoo a_backup z_empty of Inl e \<Rightarrow> False | Inr z \<Rightarrow> True"
  by code_simp

theorem importImageData_restores_witness:
  "\<exists>z'. importImageData mem_kazoo a_backup z_empty = Inr z' \<and>
     mem_tree z' ''/nodepool/images/i/builds/b'' = Some (Garbage ''x'')"
proof -
  obtain z' where "importImageData mem_kazoo a_backup z_empty = Inr z'"
    using a_backup_import by (auto split: sum.splits)
  from importImageData_restores [OF mem.zk_server_axioms this] this show ?thesis
    by (simp add: a_backup_def)
qed

subsection \<open>Locks and paths\<close>

text \<open>
  \<open>forceUnlockNode\<close> removes the contender whose ten-digit sequence number is the least, whatever
  the rest of the names says, and leaves the other contenders alone.
\<close>
theorem forceUnlockNode_first:
  assumes "kz_children K (nodeLockPath (str_id (o_id n))) z = Inr cs"
    and "c \<in> set cs" and "contender_digits c = Some k"
    and "\<And>c' k'. c' \<in> set cs \<Longrightarrow> contender_digits c' = Some k' \<Longrightarrow> k \<le> k' \<and> (k' = k \<longrightarrow> c' = c)"
  shows "forceUnlockNode K n z =
    orNoNode (kz_delete K (nodeLockPath (str_id (o_id n)) @ ''/'' @ c) False z) z"
  using assms by (rule forceUnlock_first)

definition two_contenders :: "mem_zk kazoo" where
  "two_contenders = mem_kazoo\<lparr>kz_children := (\<lambda>p z. Inr [''aaaa0000000001'', ''zz0000000000'', ''x''])\<rparr>"

theorem forceUnlockNode_first_witness:
  "forceUnlockNode two_contenders n_one z_empty =
    orNoNode (kz_delete two_contenders (nodeLockPath ''1'' @ ''/zz0000000000'') False z_empty) z_empty"
proof -
  have "str_id (o_id n_one) = ''1''" by (simp add: n_one_def)
  moreover have "c' = ''aaaa0000000001'' \<or> c' = ''zz0000000000''"
    if "c' \<in> {''aaaa0000000001'', ''zz0000000000'', ''x''}" "contender_digits c' = Some k'" for c' k'
    using that by (auto simp: contender_digits_def)
  moreover have "contender_digits ''aaaa0000000001'' = Some ''0000000001''"
    "contender_digits ''zz0000000000'' = Some ''0000000000''" "''0000000000'' \<le> ''0000000001''"
    by code_simp+
  ultimately show ?thesis
    using forceUnlockNode_first [of two_contenders n_one z_empty
        "[''aaaa0000000001'', ''zz0000000000'', ''x'']" "''zz0000000000''" "''0000000000''"]
    by (fastforce simp: two_contenders_def)
qed

text \<open>
  The keys of the image cache: a path below the images root is an upload, a build or an image
  by its number of components, and nothing when it ends in \<open>lock\<close> - also for image, provider or
  build names that contain dots, dashes or any other character but the slash.
\<close>
theorem image_cache_keys:
  assumes "\<forall>p \<in> set [img, b, prov, n]. slash \<notin> set p \<and> p \<noteq> ''lock''"
  shows "imageCache_parsePath (imagePath img) = Some [img] \<and>
    imageCache_parsePath (imageBuildIdPath img b) = Some [img, b] \<and>
    imageCache_parsePath (imageUploadPath img b prov @ ''/'' @ n) = Some [img, b, prov, n] \<and>
    imageCache_parsePath (imageBuildLockPath img) = None \<and>
    imageCache_parsePath (imageBuildIdLockPath img b) = None \<and>
    imageCache_parsePath (imageUploadLockPath img b prov) = None \<and>
    imageCache_parsePath (imageUploadNumberLockPath img b prov n) = None"
proof -
  have paths: "imageUploadPath img b prov @ ''/'' @ n =
      under IMAGE_ROOT [img, ''builds'', b, ''providers'', prov, ''images'', n]"
    "imageBuildLockPath img = under IMAGE_ROOT [img, ''builds'', ''lock'']"
    "imageBuildIdLockPath img b = under IMAGE_ROOT [img, ''builds'', b, ''lock'']"
    "imageUploadLockPath img b prov =
       under IMAGE_ROOT [img, ''builds'', b, ''providers'', prov, ''images'', ''lock'']"
    "imageUploadNumberLockPath img b prov n =
       under IMAGE_ROOT [img, ''builds'', b, ''providers'', prov, ''images'', n, ''lock'']"
    by (simp_all add: under_def imageUploadPath_def imageBuildsPath_def imagePath_def imageBuildIdPath_def
        imageBuildLockPath_def imageBuildIdLockPath_def imageUploadLockPath_def
        imageUploadNumberLockPath_def)
  show ?thesis
    using assms unfolding paths imageBuildIdPath_under imagePath_under by (simp add: imageCache_key_under)
qed

theorem image_cache_keys_witness:
  "imageCache_parsePath (imageUploadPath ''i'' ''b'' ''p'' @ ''/'' @ ''0000000001'') =
     Some [''i'', ''b'', ''p'', ''0000000001'']"
  using image_cache_keys [of "''i''" "''b''" "''p''" "''0000000001''"] by simp

text \<open>
  The request parser compares the root of the requests without the separator behind it, so the
  znode of a request's lock is taken for a request, under the request's own key. (The cache is not
  told of that znode as long as its watch is on the root of the requests only.)
\<close>
theorem request_lock_is_parsed:
  assumes "component r"
  shows "cc_parsePath requestCache (requestLockPath r) = Some [r] \<and>
    cc_parsePath requestCache (requestPath r) = Some [r]"
proof -
  have "requestPath r = under REQUEST_ROOT [r]" by (simp add: under_def requestPath_def)
  moreover have "py_split slash (drop (length REQUEST_ROOT) (requestPath r)) = [[], r]"
    using assms by (simp add: requestPath_def component_def str_simps)
  then have "parseRequestPath (requestPath r) = Some [r]"
    using assms by (simp add: parseRequestPath_def Let_def component_def requestPath_def)
  ultimately show ?thesis using requestLockPath_parsed [OF assms] by (simp add: requestCache_def)
qed

theorem request_lock_is_parsed_witness:
  "cc_parsePath requestCache ''/nodepool/requests-lock/100-0000000001'' = Some [''100-0000000001'']"
proof -
  have "component ''100-0000000001''" by (simp add: component_def)
  from request_lock_is_parsed [OF this] show ?thesis
    by (simp add: requestLockPath_def REQUEST_LOCK_ROOT_def)
qed

text \<open>
  The image cache never holds an object for a znode without data: the event of such a znode
  drops the key. The znodes of images never have data, so no \<open>Image\<close> is ever cached.
\<close>
theorem empty_payload_not_cached:
  "map_of (cached_objects (snd (handlePlayback imageCache now
     (ev, Some (FetchData NoData st), Some k) c))) k = None"
  by (simp add: handlePlayback_def cache_drop_def imageCache_def no_hook_def delete_conv' Let_def)

subsection \<open>Requests and builds\<close>

text \<open>
  A node request that is stored is read back with every serialised attribute; a new request
  gets an event id if it had none, and an id that starts with its priority.
\<close>
theorem storeNodeRequest_getNodeRequest:
  assumes "zk_server K tree" and "storeNodeRequest K r priority uuid now z = (None, r', z')"
    and "request_good r" and "slash \<notin> set priority" and "uuid \<noteq> []"
  shows "\<exists>i st. o_id r' = Some i \<and>
      getNodeRequest K None (Some i) cached now' z' =
        Inr (Some ((request_reread (Some i) r')\<lparr>o_stat := Some st\<rparr>)) \<and>
      (if no_id (o_id r) then truthy (r_event_id r') \<and> startswith i (priority @ ''-'') else r' = r)"
  by (rule zk_server.storeNodeRequest_read [OF assms])

definition r_new :: node_request where
  "r_new = (node_request_init None)\<lparr>o_state := Some REQUESTED, o_state_time := JNum 3\<rparr>"

lemma r_new_store: "fst (storeNodeRequest mem_kazoo r_new ''100'' ''uuid'' 9 z_empty) = None"
  by code_simp

theorem storeNodeRequest_getNodeRequest_witness:
  "\<exists>r' z' i st. storeNodeRequest mem_kazoo r_new ''100'' ''uuid'' 9 z_empty = (None, r', z') \<and>
     getNodeRequest mem_kazoo None (Some i) True 10 z' =
       Inr (Some ((request_reread (Some i) r')\<lparr>o_stat := Some st\<rparr>)) \<and> startswith i ''100-''"
proof -
  obtain r' z' where s: "storeNodeRequest mem_kazoo r_new ''100'' ''uuid'' 9 z_empty = (None, r', z')"
    using r_new_store by (metis prod.collapse)
  have "request_good r_new" "no_id (o_id r_new)"
    by (simp_all add: request_good_def r_new_def node_request_init_def NODE_REQUEST_STATES_def no_id_def)
  with storeNodeRequest_getNodeRequest [OF mem.zk_server_axioms s] s show ?thesis by fastforce
qed

text \<open>
  A build that is stored, under its id or a fresh one, is read back with its state, times and
  attributes and with its formats in order.
\<close>
theorem storeBuild_getBuild:
  assumes "zk_server K tree" and "storeBuild K img b i uuid z = Inr (j, z')" and "build_good b"
  shows "\<exists>st. getBuild K img j now z' =
           Inr (Some ((build_reread (JStr img) (Some j) b)\<lparr>o_stat := Some st\<rparr>)) \<and>
         j = (case i of None \<Rightarrow> uuid | Some k \<Rightarrow> k)"
proof -
  have "j = (case i of None \<Rightarrow> uuid | Some k \<Rightarrow> k)"
    using assms(2) by (auto simp: storeBuild_def Let_def map_sum_eq_Inr split: option.splits)
  with zk_server.storeBuild_law [OF assms] show ?thesis by blast
qed

definition b_ready :: image_build where
  "b_ready = (image_build_init JNull None)\<lparr>o_state := Some READY, o_state_time := JNum 1,
     ib_formats := [''vhd'', ''qcow2'']\<rparr>"

lemma b_ready_store: "case storeBuild mem_kazoo ''img'' b_ready None ''u1'' z_empty of
    Inl e \<Rightarrow> False | Inr r \<Rightarrow> fst r = ''u1''"
  by code_simp

theorem storeBuild_getBuild_witness:
  "\<exists>z' st. storeBuild mem_kazoo ''img'' b_ready None ''u1'' z_empty = Inr (''u1'', z') \<and>
     getBuild mem_kazoo ''img'' ''u1'' 5 z' =
       Inr (Some ((build_reread (JStr ''img'') (Some ''u1'') b_ready)\<lparr>o_stat := Some st\<rparr>))"
proof -
  obtain z' where s: "storeBuild mem_kazoo ''img'' b_ready None ''u1'' z_empty = Inr (''u1'', z')"
    using b_ready_store by (cases "storeBuild mem_kazoo ''img'' b_ready None ''u1'' z_empty") auto
  have "build_good b_ready"
    by (simp add: build_good_def b_ready_def image_build_init_def IMAGE_BUILD_STATES_def)
  from storeBuild_getBuild [OF mem.zk_server_axioms s this] s show ?thesis by blast
qed

end
