(* ===== verification/QuotaProps.thy ===== *)
theory QuotaProps
  imports Quota
begin

section \<open>What quota arithmetic computes\<close>

text \<open>
  A quota whose values are numbers is a function from resources to numbers, with its default where
  it has no value. On such quotas \<open>add\<close> and \<open>subtract\<close> never raise and work resource by resource,
  and \<open>non_negative\<close> decides the sign of every resource the quota has.
\<close>

subsection \<open>Well-formed quotas\<close>

definition has_key :: "quota \<Rightarrow> string \<Rightarrow> string \<Rightarrow> bool" where
  "has_key q c r = (\<exists>rs. map_of (q_quota q) c = Some rs \<and> map_of rs r \<noteq> None)"

fun is_num :: "qval \<Rightarrow> bool" where
  "is_num (QNum x) = True"
| "is_num (QOther v) = False"

fun the_num :: "qval \<Rightarrow> num" where
  "the_num (QNum x) = x"
| "the_num (QOther v) = NaN"

definition qnum :: "quota \<Rightarrow> string \<Rightarrow> string \<Rightarrow> num" where
  "qnum q c r = the_num (quota_get q c r)"

definition keys_ok :: "quota \<Rightarrow> bool" where
  "keys_ok q = (distinct (map fst (q_quota q)) \<and>
     (\<forall>(c, rs) \<in> set (q_quota q). distinct (map fst rs)))"

definition quota_ok :: "quota \<Rightarrow> bool" where
  "quota_ok q = (keys_ok q \<and> (\<forall>(c, rs) \<in> set (q_quota q). \<forall>(r, v) \<in> set rs. is_num v))"

lemma keys_ok_inner: "keys_ok q \<Longrightarrow> map_of (q_quota q) c = Some rs \<Longrightarrow> distinct (map fst rs)"
  by (auto simp: keys_ok_def dest!: map_of_SomeD)

lemma quota_ok_num: "quota_ok q \<Longrightarrow> is_num (quota_get q c r)"
  by (force simp: quota_ok_def quota_get_def split: option.splits dest!: map_of_SomeD)

lemma quota_ok_get: "quota_ok q \<Longrightarrow> quota_get q c r = QNum (qnum q c r)"
  using quota_ok_num [of q c r] by (cases "quota_get q c r") (auto simp: qnum_def)

lemma quota_keys_iff:
  assumes "keys_ok q"
  shows "(c, r) \<in> set (quota_keys q) \<longleftrightarrow> has_key q c r"
proof
  assume "(c, r) \<in> set (quota_keys q)"
  then obtain rs v where rs: "(c, rs) \<in> set (q_quota q)" "(r, v) \<in> set rs"
    by (auto simp: quota_keys_def)
  with assms have "map_of (q_quota q) c = Some rs" by (auto simp: keys_ok_def)
  moreover have "r \<in> fst ` set rs" using rs(2) by force
  ultimately show "has_key q c r" by (auto simp: has_key_def map_of_eq_None_iff)
next
  assume "has_key q c r"
  then obtain rs v where "map_of (q_quota q) c = Some rs" "map_of rs r = Some v"
    by (auto simp: has_key_def)
  then have "(c, rs) \<in> set (q_quota q)" "(r, v) \<in> set rs" by (auto dest: map_of_SomeD)
  then show "(c, r) \<in> set (quota_keys q)" by (force simp: quota_keys_def)
qed

lemma quota_keys_distinct: "keys_ok q \<Longrightarrow> distinct (quota_keys q)"
proof -
  have "distinct (map fst cs) \<Longrightarrow> \<forall>(c, rs) \<in> set cs. distinct (map fst rs) \<Longrightarrow>
      distinct (concat (map (\<lambda>(c, rs). map (\<lambda>(r, v). (c, r)) rs) cs))" for cs :: "(string \<times> resources) list"
  proof (induction cs)
    case (Cons x cs)
    obtain c rs where x: "x = (c, rs)" by (cases x)
    have "map (\<lambda>(r, v). (c, r)) rs = map (Pair c) (map fst rs)" by (induction rs) auto
    then have "distinct (map (\<lambda>(r, v). (c, r)) rs)"
      using Cons.prems x by (simp add: distinct_map inj_on_def)
    with Cons x show ?case by force
  qed simp
  then show "keys_ok q \<Longrightarrow> distinct (quota_keys q)" by (simp add: keys_ok_def quota_keys_def)
qed

subsection \<open>Giving a quota the keys of another\<close>

lemma map_of_setdefault:
  "map_of (setdefault k v d) k' = (if k' = k \<and> map_of d k = None then Some v else map_of d k')"
  by (auto simp: setdefault_def map_add_def split: option.splits)

lemma setdefault_distinct: "distinct (map fst d) \<Longrightarrow> distinct (map fst (setdefault k v d))"
  by (auto simp: setdefault_def map_of_eq_None_iff)

definition add_keys :: "num \<Rightarrow> resources \<Rightarrow> resources \<Rightarrow> resources" where
  "add_keys d rs es = foldl (\<lambda>es (r, v). setdefault r (QNum d) es) es rs"

lemma map_of_add_keys:
  "map_of (add_keys d rs es) r =
     (if map_of es r = None \<and> map_of rs r \<noteq> None then Some (QNum d) else map_of es r)"
  unfolding add_keys_def
proof (induction rs arbitrary: es)
  case (Cons x rs)
  obtain k v where x: "x = (k, v)" by (cases x)
  show ?case
    unfolding x foldl_Cons case_prod_conv Cons.IH
    by (cases "map_of es r"; cases "k = r") (simp_all add: map_of_setdefault del: map_of_eq_None_iff)
qed simp

lemma add_keys_distinct: "distinct (map fst es) \<Longrightarrow> distinct (map fst (add_keys d rs es))"
  unfolding add_keys_def
  by (induction rs arbitrary: es) (auto intro: setdefault_distinct)

definition add_category :: "num \<Rightarrow> string \<times> resources \<Rightarrow> (string \<times> resources) list \<Rightarrow>
    (string \<times> resources) list" where
  "add_category d crs cs = (case crs of (c, rs) \<Rightarrow>
     let cs' = setdefault c [] cs in AList.update c (add_keys d rs (the (map_of cs' c))) cs')"

lemma with_keys_of_fold:
  "q_quota (with_keys_of other q) = foldl (\<lambda>cs crs. add_category (q_default q) crs cs) (q_quota q) (q_quota other)"
proof -
  have "(\<lambda>cs (c, rs). let cs' = setdefault c [] cs in
           AList.update c (foldl (\<lambda>es (r, v). setdefault r (QNum (q_default q)) es) (the (map_of cs' c)) rs) cs')
        = (\<lambda>cs crs. add_category (q_default q) crs cs)"
    by (auto simp: fun_eq_iff add_category_def add_keys_def)
  then show ?thesis by (simp add: with_keys_of_def)
qed

lemma map_of_add_category:
  "map_of (add_category d (c, rs) cs) c' =
     (if c' = c then Some (add_keys d rs (case map_of cs c of None \<Rightarrow> [] | Some es \<Rightarrow> es))
      else map_of cs c')"
  by (auto simp: add_category_def Let_def update_conv' map_of_setdefault split: option.splits)

lemma add_category_distinct:
  "distinct (map fst cs) \<Longrightarrow> distinct (map fst (add_category d crs cs))"
  by (cases crs) (auto simp: add_category_def Let_def intro!: distinct_update setdefault_distinct)

lemma map_of_categories:
  assumes "distinct (map fst os)"
  shows "map_of (foldl (\<lambda>cs crs. add_category d crs cs) cs os) c =
    (case map_of os c of
       None \<Rightarrow> map_of cs c
     | Some rs \<Rightarrow> Some (add_keys d rs (case map_of cs c of None \<Rightarrow> [] | Some es \<Rightarrow> es)))"
  using assms
proof (induction os arbitrary: cs)
  case (Cons x os)
  obtain c' rs where x: "x = (c', rs)" by (cases x)
  with Cons.prems have "map_of os c' = None" by (simp add: map_of_eq_None_iff)
  with Cons x show ?case
    by (cases "c = c'") (simp_all add: map_of_add_category split: option.split)
qed simp

lemma categories_distinct:
  "distinct (map fst cs) \<Longrightarrow> distinct (map fst (foldl (\<lambda>cs crs. add_category d crs cs) cs os))"
  by (induction os arbitrary: cs) (auto intro: add_category_distinct)

lemma with_keys_of_default [simp]: "q_default (with_keys_of other q) = q_default q"
  by (simp add: with_keys_of_def)

lemma map_of_with_keys:
  assumes "keys_ok other"
  shows "map_of (q_quota (with_keys_of other q)) c =
    (case map_of (q_quota other) c of
       None \<Rightarrow> map_of (q_quota q) c
     | Some rs \<Rightarrow> Some (add_keys (q_default q) rs (case map_of (q_quota q) c of None \<Rightarrow> [] | Some es \<Rightarrow> es)))"
  unfolding with_keys_of_fold using assms by (intro map_of_categories) (simp add: keys_ok_def)

lemma with_keys_of_get:
  assumes "keys_ok other"
  shows "quota_get (with_keys_of other q) c r = quota_get q c r"
  by (auto simp: quota_get_def map_of_with_keys [OF assms] map_of_add_keys split: option.splits)

lemma with_keys_of_has_key:
  assumes "keys_ok other"
  shows "has_key (with_keys_of other q) c r \<longleftrightarrow> has_key q c r \<or> has_key other c r"
  by (cases "map_of (q_quota q) c"; cases "map_of (q_quota other) c")
    (auto simp: has_key_def map_of_with_keys [OF assms] map_of_add_keys simp del: map_of_eq_None_iff)

lemma keys_okI:
  assumes "distinct (map fst (q_quota q))"
    and "\<And>c rs. map_of (q_quota q) c = Some rs \<Longrightarrow> distinct (map fst rs)"
  shows "keys_ok q"
  using assms by (auto simp: keys_ok_def)

lemma quota_okI:
  assumes "keys_ok q" and "\<And>c r. is_num (quota_get q c r)"
  shows "quota_ok q"
proof -
  have "is_num v" if "(c, rs) \<in> set (q_quota q)" "(r, v) \<in> set rs" for c rs r v
  proof -
    from that(1) assms(1) have "map_of (q_quota q) c = Some rs" "distinct (map fst rs)"
      by (auto simp: keys_ok_def)
    with that(2) assms(2) [of c r] show ?thesis by (simp add: quota_get_def)
  qed
  with assms(1) show ?thesis by (auto simp: quota_ok_def)
qed

lemma with_keys_of_ok:
  assumes "quota_ok other" and "quota_ok q"
  shows "quota_ok (with_keys_of other q)"
proof (rule quota_okI)
  have o: "keys_ok other" and q: "keys_ok q" using assms by (simp_all add: quota_ok_def)
  show "keys_ok (with_keys_of other q)"
  proof (rule keys_okI)
    show "distinct (map fst (q_quota (with_keys_of other q)))"
      unfolding with_keys_of_fold using q by (intro categories_distinct) (simp add: keys_ok_def)
    show "distinct (map fst rs)" if "map_of (q_quota (with_keys_of other q)) c = Some rs" for c rs
      using that keys_ok_inner [OF q] by (auto simp: map_of_with_keys [OF o] split: option.splits
          intro!: add_keys_distinct)
  qed
  show "is_num (quota_get (with_keys_of other q) c r)" for c r
    using quota_ok_num [OF assms(2)] by (simp add: with_keys_of_get [OF o])
qed

subsection \<open>Arithmetic\<close>

lemma quota_get_set:
  "quota_get (quota_set c r v q) c' r' = (if c' = c \<and> r' = r then v else quota_get q c' r')"
  by (auto simp: quota_get_def quota_set_def update_conv' split: option.splits)

lemma quota_set_keys:
  assumes "has_key q c r"
  shows "has_key (quota_set c r v q) c' r' = has_key q c' r'"
  using assms by (auto simp: has_key_def quota_set_def update_conv' split: option.splits)

lemma quota_set_ok: "quota_ok q \<Longrightarrow> quota_ok (quota_set c r (QNum x) q)"
proof (rule quota_okI)
  assume q: "quota_ok q"
  then have k: "keys_ok q" by (simp add: quota_ok_def)
  show "keys_ok (quota_set c r (QNum x) q)"
    by (rule keys_okI) (use k keys_ok_inner [OF k] in \<open>auto simp: quota_set_def keys_ok_def
        update_conv' distinct_update split: option.splits if_splits\<close>)
  show "is_num (quota_get (quota_set c r (QNum x) q) c' r')" for c' r'
    using quota_ok_num [OF q] by (simp add: quota_get_set)
qed

lemma quota_set_default [simp]: "q_default (quota_set c r v q) = q_default q"
  by (simp add: quota_set_def)

lemma quota_each_ok:
  assumes "quota_ok q" and "quota_ok other" and "distinct ks" and "\<forall>(c, r) \<in> set ks. has_key q c r"
  shows "\<exists>q'. quota_each f other ks q = (None, q') \<and> quota_ok q' \<and> q_default q' = q_default q \<and>
    (\<forall>c r. has_key q' c r = has_key q c r) \<and>
    (\<forall>c r. qnum q' c r = (if (c, r) \<in> set ks then f (qnum q c r) (qnum other c r) else qnum q c r))"
  using assms
proof (induction ks arbitrary: q)
  case (Cons x ks)
  obtain c r where x: "x = (c, r)" by (cases x)
  let ?q = "quota_set c r (QNum (f (qnum q c r) (qnum other c r))) q"
  have k: "has_key q c r" using Cons.prems(4) x by auto
  have "\<exists>q'. quota_each f other ks ?q = (None, q') \<and> quota_ok q' \<and> q_default q' = q_default ?q \<and>
    (\<forall>c r. has_key q' c r = has_key ?q c r) \<and>
    (\<forall>c r. qnum q' c r = (if (c, r) \<in> set ks then f (qnum ?q c r) (qnum other c r) else qnum ?q c r))"
    using Cons.prems quota_set_keys [OF k] by (intro Cons.IH quota_set_ok) auto
  then obtain q' where q': "quota_each f other ks ?q = (None, q')" "quota_ok q'"
    "q_default q' = q_default ?q" "\<And>c r. has_key q' c r = has_key ?q c r"
    "\<And>c r. qnum q' c r = (if (c, r) \<in> set ks then f (qnum ?q c r) (qnum other c r) else qnum ?q c r)"
    by blast
  have "quota_each f other (x # ks) q = (None, q')"
    using quota_ok_get [OF Cons.prems(1)] quota_ok_get [OF Cons.prems(2)] q'(1) by (simp add: x)
  moreover have "qnum ?q c' r' = (if c' = c \<and> r' = r then f (qnum q c r) (qnum other c r) else qnum q c' r')"
    for c' r' by (simp add: qnum_def quota_get_set)
  with q'(5) Cons.prems(3) x have "qnum q' c' r' = (if (c', r') \<in> set (x # ks)
      then f (qnum q c' r') (qnum other c' r') else qnum q c' r')" for c' r' by auto
  ultimately show ?case
    using q'(2-4) quota_set_keys [OF k] by (intro exI [of _ q']) simp
qed simp

lemma add_subtract_correct:
  assumes "quota_ok q" and "quota_ok other"
  shows "\<exists>q'. add_subtract add other q = (None, q') \<and> quota_ok q' \<and> q_default q' = q_default q \<and>
    (\<forall>c r. has_key q' c r \<longleftrightarrow> has_key q c r \<or> has_key other c r) \<and>
    (\<forall>c r. has_key q' c r \<longrightarrow>
       qnum q' c r = (if add then nadd else nsub) (qnum q c r) (qnum other c r))"
proof -
  let ?f = "if add then nadd else nsub" and ?w = "with_keys_of other q"
  have o: "keys_ok other" using assms(2) by (simp add: quota_ok_def)
  have w: "quota_ok ?w" using assms(2,1) by (rule with_keys_of_ok)
  then have wk: "keys_ok ?w" by (simp add: quota_ok_def)
  have "qnum ?w c r = qnum q c r" for c r by (simp add: qnum_def with_keys_of_get [OF o])
  moreover have "\<forall>(c, r) \<in> set (quota_keys ?w). has_key ?w c r"
    by (auto simp: quota_keys_iff [OF wk])
  then obtain q' where "quota_each ?f other (quota_keys ?w) ?w = (None, q')" "quota_ok q'"
    "q_default q' = q_default ?w" "\<And>c r. has_key q' c r = has_key ?w c r"
    "\<And>c r. qnum q' c r = (if (c, r) \<in> set (quota_keys ?w) then ?f (qnum ?w c r) (qnum other c r)
                              else qnum ?w c r)"
    using quota_each_ok [OF w assms(2) quota_keys_distinct [OF wk], of ?f] by blast
  ultimately show ?thesis
    by (intro exI [of _ q'])
      (simp add: add_subtract_def Let_def quota_keys_iff [OF wk] with_keys_of_has_key [OF o])
qed

lemma non_negative_correct:
  assumes "quota_ok q"
  shows "non_negative q = Inr (\<forall>c r. has_key q c r \<longrightarrow> \<not> nneg_p (qnum q c r))"
proof -
  have "\<forall>v \<in> set vs. is_num v \<Longrightarrow> all_non_negative vs = Inr (\<forall>v \<in> set vs. \<not> nneg_p (the_num v))" for vs
  proof (induction vs)
    case (Cons v vs)
    then show ?case by (cases v) auto
  qed simp
  note all = this
  let ?vs = "concat (map (\<lambda>(c, rs). map snd rs) (q_quota q))"
  have num: "\<forall>v \<in> set ?vs. is_num v" using assms by (force simp: quota_ok_def)
  have k: "keys_ok q" using assms by (simp add: quota_ok_def)
  have "(\<forall>v \<in> set ?vs. \<not> nneg_p (the_num v)) \<longleftrightarrow>
      (\<forall>c r. has_key q c r \<longrightarrow> \<not> nneg_p (qnum q c r))"
  proof (intro iffI allI impI)
    fix c r assume a: "\<forall>v \<in> set ?vs. \<not> nneg_p (the_num v)" and "has_key q c r"
    then obtain rs v where rs: "map_of (q_quota q) c = Some rs" "map_of rs r = Some v"
      by (auto simp: has_key_def)
    then have "(c, rs) \<in> set (q_quota q)" "(r, v) \<in> set rs" by (auto dest: map_of_SomeD)
    then have "v \<in> set ?vs" by force
    with a have "\<not> nneg_p (the_num v)" by (rule bspec)
    with rs show "\<not> nneg_p (qnum q c r)" by (simp add: qnum_def quota_get_def)
  next
    assume a: "\<forall>c r. has_key q c r \<longrightarrow> \<not> nneg_p (qnum q c r)"
    show "\<forall>v \<in> set ?vs. \<not> nneg_p (the_num v)"
    proof
      fix v assume "v \<in> set ?vs"
      then obtain c rs r where "(c, rs) \<in> set (q_quota q)" "(r, v) \<in> set rs" by auto
      with k have m: "map_of (q_quota q) c = Some rs" "map_of rs r = Some v" by (auto simp: keys_ok_def)
      then have "has_key q c r" by (simp add: has_key_def)
      with a have "\<not> nneg_p (qnum q c r)" by blast
      then show "\<not> nneg_p (the_num v)" using m by (simp add: qnum_def quota_get_def)
    qed
  qed
  with all [OF num] show ?thesis by (simp add: non_negative_def)
qed

end
