(* ===== verification/QuotaUse.thy ===== *)
theory QuotaUse
  imports QuotaProps SmHandler
begin

section \<open>Quota decisions\<close>

text \<open>
  What the quota checks of handlers and workers decide. The quota counted for the nodes in ZooKeeper
  is well formed whatever the nodes' resources hold, because a node that cannot be added is left
  after part of it was; the two subtractions and the sign test then compare the limit with what is
  used and needed, resource by resource.
\<close>

subsection \<open>The quota in use is well formed\<close>

definition cats_ok :: "(string \<times> resources) list \<Rightarrow> bool" where
  "cats_ok cs = (distinct (map fst cs) \<and>
     (\<forall>c rs. map_of cs c = Some rs \<longrightarrow> distinct (map fst rs) \<and> (\<forall>r v. map_of rs r = Some v \<longrightarrow> is_num v)))"

lemma quota_ok_cats: "quota_ok q = cats_ok (q_quota q)"
proof
  assume q: "quota_ok q"
  then have k: "keys_ok q" by (simp add: quota_ok_def)
  then show "cats_ok (q_quota q)"
    using quota_ok_num [OF q] keys_ok_inner [OF k]
    by (fastforce simp: cats_ok_def keys_ok_def quota_get_def split: option.splits)
next
  assume c: "cats_ok (q_quota q)"
  have "keys_ok q" using c by (intro keys_okI) (auto simp: cats_ok_def)
  then show "quota_ok q"
    by (rule quota_okI) (use c in \<open>auto simp: cats_ok_def quota_get_def split: option.splits\<close>)
qed

lemma add_category_ok: "cats_ok cs \<Longrightarrow> cats_ok (add_category d crs cs)"
  by (cases crs)
    (auto simp: cats_ok_def map_of_add_category map_of_add_keys add_category_distinct add_keys_distinct
      simp del: map_of_eq_None_iff split: option.splits if_splits)

lemma with_keys_of_always_ok: "quota_ok q \<Longrightarrow> quota_ok (with_keys_of other q)"
proof -
  have "cats_ok cs \<Longrightarrow> cats_ok (foldl (\<lambda>cs crs. add_category d crs cs) cs os)" for d cs os
    by (induction os arbitrary: cs) (simp_all add: add_category_ok)
  then show "quota_ok q \<Longrightarrow> quota_ok (with_keys_of other q)"
    by (simp add: quota_ok_cats with_keys_of_fold)
qed

lemma quota_each_always_ok:
  "quota_ok q \<Longrightarrow> quota_ok (snd (quota_each f other ks q)) \<and>
     q_default (snd (quota_each f other ks q)) = q_default q"
proof (induction f other ks q rule: quota_each.induct)
  case (2 f other c r ks q)
  have "\<exists>x. v = QNum x" if "qarith f (quota_get q c r) (quota_get other c r) = Inr v" for v
    using that by (auto elim: qarith.elims)
  with 2 show ?case by (fastforce intro: quota_set_ok split: sum.splits)
qed simp

lemma quota_add_always_ok:
  "quota_ok q \<Longrightarrow> quota_ok (snd (quota_add other q)) \<and> q_default (snd (quota_add other q)) = q_default q"
  by (simp add: quota_add_def add_subtract_def Let_def quota_each_always_ok with_keys_of_always_ok)

lemma foldl_update_keeps:
  assumes "distinct (map fst d)" and "\<forall>k v. map_of d k = Some v \<longrightarrow> P k v"
    and "\<forall>(k, v) \<in> set kw. P k (g v)"
  shows "distinct (map fst (foldl (\<lambda>d (k, v). AList.update k (g v) d) d kw)) \<and>
    (\<forall>k v. map_of (foldl (\<lambda>d (k, v). AList.update k (g v) d) d kw) k = Some v \<longrightarrow> P k v)"
  using assms
proof (induction kw arbitrary: d)
  case (Cons x kw)
  obtain k v where x: "x = (k, v)" by (cases x)
  have "\<forall>k' v'. map_of (AList.update k (g v) d) k' = Some v' \<longrightarrow> P k' v'"
    using Cons.prems(2,3) x by (simp add: update_conv')
  then show ?case
    using Cons.IH [OF distinct_update [OF Cons.prems(1)]] Cons.prems(3) x by simp
qed simp

lemma quota_init_ok:
  assumes "\<forall>(k, v) \<in> set kw. is_num v"
  shows "quota_ok (quota_init c i r d kw)"
proof -
  let ?es = "[(''cores'', QNum (get_default c d)), (''instances'', QNum (get_default i d)),
    (''ram'', QNum (get_default r d))]"
  have "distinct (map fst ?es)" "\<forall>k v. map_of ?es k = Some v \<longrightarrow> is_num v"
    by (simp_all split: if_split)
  from foldl_update_keeps [of ?es "\<lambda>k v. is_num v" kw "\<lambda>v. v", OF this assms] show ?thesis
    by (simp add: quota_ok_cats cats_ok_def quota_init_def del: map_of.simps)
qed

lemma no_quota_ok: "quota_ok no_quota" "q_default no_quota = Fin 0"
  by (simp_all add: no_quota_def quota_init_ok) (simp add: quota_init_def)

text \<open>A counted quota: well formed, with zero for what it does not mention.\<close>

definition counted :: "quota \<Rightarrow> bool" where
  "counted q = (quota_ok q \<and> q_default q = Fin 0)"

lemma eff_fold_result:
  assumes "eff_fold f xs a s = (Inr b, t)" and "P a"
    and "\<And>x a s b t. P a \<Longrightarrow> f x a s = (Inr b, t) \<Longrightarrow> P b"
  shows "P b"
  using assms(1,2)
proof (induction xs arbitrary: a s)
  case (Cons x xs)
  then show ?case using assms(3) by (auto simp: eff_bind_Inr)
qed (simp add: eff_simps)

lemma count_node_counted:
  assumes "counted used" and "count_node p pools needed pool n used s = (Inr q, t)"
  shows "counted q"
proof -
  have add: "counted (snd (quota_add q' used))" for q'
    using assms(1) quota_add_always_ok [of used] by (simp add: counted_def)
  have "q = used \<or> (\<exists>q'. q = snd (quota_add q' used))"
    using assms(2)
    by (auto simp: count_node_def eff_simps eff_bind_def eff_try_def
        split: if_split_asm option.split_asm prod.split_asm sum.split_asm)
  with assms(1) add show ?thesis by auto
qed

lemma quotaUsed_counted:
  assumes "quotaUsed K A cfg pool now v s = (Inr used, t)"
  shows "counted used"
proof -
  obtain ns s' f where "eff_fold (count_node (pr_name cfg) (pool_labels cfg) f pool) ns no_quota s' = (Inr used, t)"
    using assms unfolding quotaUsed_def estimatedNodepoolQuotaUsed_def eff_bind_Inr by blast
  moreover have "counted no_quota" by (simp add: counted_def no_quota_ok)
  ultimately show ?thesis by (rule eff_fold_result) (rule count_node_counted)
qed

subsection \<open>Limit, use and need\<close>

definition quota_decision :: "quota \<Rightarrow> quota \<Rightarrow> quota \<Rightarrow> bool res" where
  "quota_decision limit used needed =
     bindE (lift_quota (quota_subtract used limit)) (\<lambda>q.
       bindE (lift_quota (quota_subtract needed q)) non_negative)"

definition fits :: "quota \<Rightarrow> quota \<Rightarrow> quota \<Rightarrow> bool" where
  "fits limit used needed =
     (\<forall>c r. has_key limit c r \<or> has_key used c r \<or> has_key needed c r \<longrightarrow>
        \<not> nneg_p (nsub (nsub (qnum limit c r) (qnum used c r)) (qnum needed c r)))"

lemma nsub_zero [simp]: "nsub x (Fin 0) = x"
  by (cases x) (simp_all add: nsub_def)

lemma qnum_default: "\<not> has_key q c r \<Longrightarrow> qnum q c r = q_default q"
  by (auto simp: has_key_def qnum_def quota_get_def split: option.splits)

lemma lift_quota_simps [simp]: "lift_quota (None, q) = Inr q" "lift_quota (Some e, q) = Inl e"
  by (simp_all add: lift_quota_def)

lemma quota_decision_fits:
  assumes "quota_ok limit" and "counted used" and "quota_ok needed"
  shows "quota_decision limit used needed = Inr (fits limit used needed)"
proof -
  have used: "quota_ok used" "q_default used = Fin 0" using assms(2) by (simp_all add: counted_def)
  obtain q1 where q1: "quota_subtract used limit = (None, q1)" "quota_ok q1" "q_default q1 = q_default limit"
    "\<And>c r. has_key q1 c r \<longleftrightarrow> has_key limit c r \<or> has_key used c r"
    "\<And>c r. has_key q1 c r \<Longrightarrow> qnum q1 c r = nsub (qnum limit c r) (qnum used c r)"
    using add_subtract_correct [OF assms(1) used(1), of False] unfolding quota_subtract_def by auto
  obtain q2 where q2: "quota_subtract needed q1 = (None, q2)" "quota_ok q2"
    "\<And>c r. has_key q2 c r \<longleftrightarrow> has_key q1 c r \<or> has_key needed c r"
    "\<And>c r. has_key q2 c r \<Longrightarrow> qnum q2 c r = nsub (qnum q1 c r) (qnum needed c r)"
    using add_subtract_correct [OF q1(2) assms(3), of False] unfolding quota_subtract_def by auto
  have "qnum q1 c r = nsub (qnum limit c r) (qnum used c r)" for c r
    using q1(3-5) used(2) by (cases "has_key q1 c r") (auto simp: qnum_default)
  then show ?thesis
    unfolding quota_decision_def using q1 q2 by (auto simp: non_negative_correct [OF q2(2)] fits_def)
qed

text \<open>The limits of a pool are well formed.\<close>

lemma quota_of_args_ok:
  assumes "\<forall>(k, v) \<in> set args. k \<in> {''cores'', ''instances'', ''ram''} \<or> v \<noteq> None"
  shows "quota_ok (quota_of_args args)"
  unfolding quota_of_args_def Let_def using assms
  by (intro quota_init_ok) (auto split: option.splits)

lemma limit_set_Some: "limit_set x \<Longrightarrow> \<exists>y. x = Some y"
  by (auto simp: limit_set_def)

lemma pool_limits_ok:
  assumes "volume_gb \<in> {''volume_gb'', ''volume-gb''}"
  shows "quota_ok (quota_of_args (pool_args volume_gb pool))"
proof -
  let ?P = "\<lambda>k v. k \<in> {''cores'', ''instances'', ''ram''} \<or> v \<noteq> None"
  let ?d = "[(''cores'', pc_max_cores pool), (''instances'', Some (pc_max_servers pool)),
         (''ram'', pc_max_ram pool), (''default'', Some PosInf)]
        @ (if limit_set (pc_max_volumes pool) then [(''volumes'', pc_max_volumes pool)] else [])
        @ (if limit_set (pc_max_volume_gb pool) then [(volume_gb, pc_max_volume_gb pool)] else [])"
  have "distinct (map fst ?d)" using assms by auto
  moreover have "\<forall>(k, v) \<in> set ?d. ?P k v" by simp (blast dest: limit_set_Some)
  then have "\<forall>k v. map_of ?d k = Some v \<longrightarrow> ?P k v" by (blast dest: map_of_SomeD)
  moreover have "\<forall>(k, v) \<in> set (pc_max_resources pool). ?P k (Some v)" by auto
  ultimately have d: "distinct (map fst (pool_args volume_gb pool))"
    and n: "\<forall>k v. map_of (pool_args volume_gb pool) k = Some v \<longrightarrow> ?P k v"
    using foldl_update_keeps [of ?d ?P "pc_max_resources pool" Some] unfolding pool_args_def by blast+
  have "?P k v" if "(k, v) \<in> set (pool_args volume_gb pool)" for k v
    using that n map_of_eq_Some_iff [OF d] by blast
  then show ?thesis by (intro quota_of_args_ok ballI) (simp only: split_paired_all case_prod_conv)
qed

subsection \<open>The check before a launch\<close>

lemma eff_zoom_Inr:
  "eff_zoom g p m s = (Inr x, s') \<longleftrightarrow> (\<exists>t. m (g s) = (Inr x, t) \<and> s' = p t s)"
  by (auto simp: eff_zoom_def split: prod.splits)

text \<open>What a label needs is well formed when the adapter's answers and the cached ones are.\<close>

definition label_quota_ok :: "('m, 'c) adapter \<Rightarrow> ('m, 'c) provider \<Rightarrow> bool" where
  "label_quota_ok A p = ((\<forall>lb c q. ad_getQuotaForLabel A lb c = Inr q \<longrightarrow> quota_ok q) \<and>
     (\<forall>k q. map_of (p_label_quota p) k = Some q \<longrightarrow> quota_ok q))"

lemma quotaNeededByLabel_ok:
  assumes "quotaNeededByLabel A t pool p = (Inr q, p')" and "label_quota_ok A p"
  shows "quota_ok q"
  using assms no_quota_ok(1)
  by (auto simp: quotaNeededByLabel_def label_quota_ok_def eff_simps eff_bind_def eff_try_def eff_seq_def
      split: option.splits sum.splits if_splits prod.splits)

lemma hasRemainingQuota_checks:
  assumes "hasRemainingQuota K A cfg pool t now v s = (Inr True, s')" and "label_quota_ok A (sh_provider s)"
  shows "\<exists>needed s0 used s1. on_manager (quotaNeededByLabel A t pool) s = (Inr needed, s0) \<and>
    on_manager (quotaUsed K A cfg (Some (pc_name pool)) now v) s1 = (Inr used, s') \<and>
    fits (quota_of_args (pool_args ''volume-gb'' pool)) used needed"
proof -
  obtain needed s0 where needed: "on_manager (quotaNeededByLabel A t pool) s = (Inr needed, s0)"
    and rest: "\<exists>s1 used s2. on_manager (quotaUsed K A cfg (Some (pc_name pool)) now v) s1 = (Inr used, s2) \<and>
      eff_lift (quota_decision (quota_of_args (pool_args ''volume-gb'' pool)) used needed) s2 = (Inr True, s')"
    using assms(1) unfolding hasRemainingQuota_def eff_bind_Inr quota_decision_def
    by (auto simp: eff_bind_Inr eff_ret_def eff_lift_def split: if_split_asm)
  then obtain s1 used where used: "on_manager (quotaUsed K A cfg (Some (pc_name pool)) now v) s1 = (Inr used, s')"
    and fit: "quota_decision (quota_of_args (pool_args ''volume-gb'' pool)) used needed = Inr True"
    by (auto simp: eff_lift_def)
  have "quota_ok needed"
    using needed quotaNeededByLabel_ok assms(2) unfolding eff_zoom_Inr by blast
  moreover have "counted used" using used quotaUsed_counted unfolding eff_zoom_Inr by blast
  ultimately have "fits (quota_of_args (pool_args ''volume-gb'' pool)) used needed"
    using fit quota_decision_fits pool_limits_ok by fastforce
  with needed used show ?thesis by blast
qed

end
