(* ===== verification/DriverClaims.thy ===== *)
theory DriverClaims
  imports LauncherProps QuotaUse DriverUtils
begin

section \<open>Properties of the drivers' common parts\<close>

text \<open>
  The properties of quota checks, host key scans, rate limits and segmented uploads, with witnesses
  on concrete adapters, answers and clocks.
\<close>

subsection \<open>Quota\<close>

text \<open>
  C7: A launch that the quota check of the state machine driver lets pass fits the pool: for every
  resource that the pool limits, the provider's nodes use, or the label needs, the limit less what
  is used less what is needed is not negative. What is used is what the code counts for the pool's
  nodes, whatever these nodes claim as resources.
\<close>
theorem remaining_quota_fits:
  assumes "hasRemainingQuota K A cfg pool t now v s = (Inr True, s')" and "label_quota_ok A (sh_provider s)"
  shows "\<exists>needed s0 used s1. on_manager (quotaNeededByLabel A t pool) s = (Inr needed, s0) \<and>
    on_manager (quotaUsed K A cfg (Some (pc_name pool)) now v) s1 = (Inr used, s') \<and>
    (\<forall>c r. let limit = quota_of_args (pool_args ''volume-gb'' pool) in
       has_key limit c r \<or> has_key used c r \<or> has_key needed c r \<longrightarrow>
       \<not> nneg_p (nsub (nsub (qnum limit c r) (qnum used c r)) (qnum needed c r)))"
  using hasRemainingQuota_checks [OF assms] unfolding fits_def Let_def by blast

lemma w_remaining:
  "fst (hasRemainingQuota mem_kazoo w_adapter w_provider_config w_pool ''small'' 9 w_view
     (sm_handler_init w_state (node_request_init (Some ''100-1'')))) = Inr True"
  by code_simp

lemma w_label_quota: "label_quota_ok w_adapter w_state"
  by (auto simp: label_quota_ok_def w_adapter_def w_state_def one_instance_def intro: quota_init_ok)

theorem remaining_quota_fits_witness:
  "\<exists>needed s0. on_manager (quotaNeededByLabel w_adapter ''small'' w_pool)
     (sm_handler_init w_state (node_request_init (Some ''100-1''))) = (Inr needed, s0)"
proof -
  let ?s = "sm_handler_init w_state (node_request_init (Some ''100-1''))"
  obtain s' where s': "hasRemainingQuota mem_kazoo w_adapter w_provider_config w_pool ''small'' 9 w_view ?s
      = (Inr True, s')"
    using w_remaining by (metis prod.collapse)
  have ok: "label_quota_ok w_adapter (sh_provider ?s)"
    using w_label_quota by (simp add: sm_handler_init_def)
  from remaining_quota_fits [OF s' ok] show ?thesis by blast
qed

subsection \<open>Host key scans\<close>

text \<open>The calls of \<open>advance\<close> until the scan is complete or raises.\<close>

fun scan_steps :: "scan_env list \<Rightarrow> scan_request \<Rightarrow> pyexc option \<times> scan_request" where
  "scan_steps [] r = (None, r)"
| "scan_steps (e # es) r =
     (if sc_complete r then (None, r)
      else (case scan_advance e r of (Some ex, r') \<Rightarrow> (Some ex, r') | (None, r') \<Rightarrow> scan_steps es r'))"

lemma scan_steps_bound: "scan_inv r \<Longrightarrow> scan_bound (snd (scan_steps es r))"
proof (induction es r rule: scan_steps.induct)
  case (2 e es r)
  obtain ex r' where a: "scan_advance e r = (ex, r')" by fastforce
  show ?case
    using 2 scan_advance_ok [OF "2.prems" a] a scan_inv_bound [OF "2.prems"] by (cases ex) auto
qed (simp add: scan_inv_bound)

text \<open>
  Whatever the sockets and the ssh library answer, and however often the scan is advanced, a new
  scan collects at most one key for each key type the ssh client offers (one for a fake address).
\<close>
theorem scan_keys_bounded:
  assumes "scan_init connection_type fake lookup host_key_checking timeout start = Inr r"
  shows "length (sc_keys (snd (scan_steps es r))) \<le> max 1 (length (sc_key_types (snd (scan_steps es r))))"
proof -
  have "scan_inv r" using assms by (auto simp: scan_init_def scan_inv_def split: option.splits)
  then show ?thesis using scan_steps_bound by (simp add: scan_bound_def)
qed

text \<open>A server that gives a key for both of the client's key types.\<close>

definition w_env :: scan_env where
  "w_env = \<lparr> se_now = 1, se_ready = True, se_connect = (\<lambda>k. ConnectBlocks), se_errno = (\<lambda>k. False),
     se_start = (\<lambda>k. None), se_event = (\<lambda>k. True), se_check = (\<lambda>k. None),
     se_types = [''rsa'', ''dss''], se_key = (\<lambda>k. Some ''key'') \<rparr>"

definition w_new_scan :: scan_request where
  "w_new_scan = (w_scan_request 0)\<lparr>sc_state := SCAN_START, sc_sock := False, sc_worker := False, sc_connect_start := 0\<rparr>"

theorem scan_keys_bounded_witness:
  "length (sc_keys (snd (scan_steps [w_env, w_env] w_new_scan)))
     \<le> max 1 (length (sc_key_types (snd (scan_steps [w_env, w_env] w_new_scan))))"
proof -
  have "scan_init ''ssh'' False None True 60 0 = Inr w_new_scan" by code_simp
  from scan_keys_bounded [OF this] show ?thesis .
qed

text \<open>
  Progress of a scan: when the worker advances a request that waits for its socket or for the end
  of a negotiation, and the boot timeout is over, the request fails with a connection timeout and the
  worker forgets it.
\<close>
theorem waiting_scan_fails:
  assumes "waiting ((env i)\<lparr>se_ready := sc_sock (sw_requests w i) \<and> se_ready (env i)\<rparr>) (sw_requests w i)"
    and "se_now (env i) - sc_start_time (sw_requests w i) > sc_timeout (sw_requests w i)"
    and "distinct (sw_active w)"
  shows "sc_complete (sw_requests (scan_one env i w) i) \<and>
    scan_result (sw_requests (scan_one env i w) i) = Inl ConnectionTimeoutException \<and>
    i \<notin> set (sw_active (scan_one env i w))"
proof -
  let ?e = "(env i)\<lparr>se_ready := sc_sock (sw_requests w i) \<and> se_ready (env i)\<rparr>"
  have "scan_advance ?e (sw_requests w i) = (Some ConnectionTimeoutException, sw_requests w i)"
    using assms(1,2) by (intro waiting_times_out) simp_all
  then show ?thesis
    using assms(3)
    by (simp add: scan_one_def Let_def removeRequest_def scan_result_def scan_close_def scan_fail_def)
qed

definition w_silent :: "nat \<Rightarrow> scan_env" where
  "w_silent i = w_env\<lparr>se_now := 100, se_ready := False\<rparr>"

theorem waiting_scan_fails_witness:
  "scan_result (sw_requests (scan_one w_silent 1 w_scan_worker) 1) = Inl ConnectionTimeoutException"
proof -
  have "waiting ((w_silent 1)\<lparr>se_ready := sc_sock (sw_requests w_scan_worker 1) \<and> se_ready (w_silent 1)\<rparr>)
      (sw_requests w_scan_worker 1)"
    "se_now (w_silent 1) - sc_start_time (sw_requests w_scan_worker 1) > sc_timeout (sw_requests w_scan_worker 1)"
    "distinct (sw_active w_scan_worker)"
    by (simp_all add: waiting_def w_silent_def w_env_def w_scan_worker_def w_scan_request_def)
  from waiting_scan_fails [where env = w_silent and w = w_scan_worker and i = 1, OF this] show ?thesis by blast
qed

text \<open>
  C8: A round of the scan worker keeps its invariant (no request listed twice, at most
  \<open>MAX_REQUESTS\<close> active, no listed request complete), and loses no request: a request that was listed
  is listed afterwards or complete.
\<close>
theorem scan_round_loses_nothing:
  assumes "worker_ok w"
  shows "worker_ok (scan_round env w) \<and>
    (\<forall>i. i \<in> set (sw_active w) \<union> set (sw_pending w) \<longrightarrow>
       i \<in> set (sw_active (scan_round env w)) \<union> set (sw_pending (scan_round env w)) \<or>
       sc_complete (sw_requests (scan_round env w) i))"
  using scan_round_ok [OF assms] by blast

theorem scan_round_loses_nothing_witness:
  "worker_ok (scan_round w_silent w_scan_worker)"
proof -
  have "worker_ok w_scan_worker"
    by (simp add: worker_ok_def w_scan_worker_def w_scan_request_def MAX_REQUESTS_def)
  from scan_round_loses_nothing [OF this] show ?thesis by blast
qed

text \<open>
  A connection that is made at once (the non-blocking \<open>connect\<close> does not raise) leaves the scan
  in its first state: every call of \<open>advance\<close> connects again, and as long as that is so the scan
  neither completes nor times out, whatever the time.
\<close>
lemma immediate_connect_never_completes:
  assumes "sc_state r = SCAN_START" and "sc_worker r" and "sc_host_key_checking r" and "\<not> sc_fake r"
    and "\<not> sc_complete r" and "\<forall>e \<in> set es. \<forall>k. se_connect e k = ConnectDone"
  shows "\<exists>r'. scan_steps es r = (None, r') \<and> sc_state r' = SCAN_START \<and> \<not> sc_complete r'"
  using assms
proof (induction es arbitrary: r)
  case (Cons e es)
  let ?r = "r\<lparr>sc_sock := True, sc_connect_start := se_now e\<rparr>"
  have "scan_advance e r = (None, ?r)"
    using Cons.prems
    by (simp add: scan_advance_def scan_then_def scan_do_start_def scan_connecting_init_def scan_connect_def
        scan_negotiating_init_def scan_connecting_key_def scan_negotiating_key_def scan_finish_def)
  then show ?case using Cons.IH [of ?r] Cons.prems by simp
qed simp

subsection \<open>Rate limits\<close>

text \<open>
  Entering a rate limit terminates when sleeping takes as long as asked: the loop then ends, the
  call that follows is at least \<open>delta\<close> after the last one, and with a clock that is not behind the
  last call no more than \<open>delta\<close> is slept.
\<close>
theorem rate_limit_spacing:
  assumes "rl_last_ts rl = Some last_ts" and "sleeps (rl_delta rl) last_ts clock" and "rl_delta rl \<ge> 0"
  shows "\<exists>waited t. rl_enter clock rl = Some (waited, rl\<lparr>rl_last_ts := Some t\<rparr>) \<and>
    t - last_ts \<ge> rl_delta rl \<and> waited \<ge> 0 \<and> (clock 0 \<ge> last_ts \<longrightarrow> waited \<le> rl_delta rl)"
  by (rule rl_enter_spaced [OF assms])

definition w_clock :: "nat \<Rightarrow> rat" where
  "w_clock k = 10 + of_nat k"

theorem rate_limit_spacing_witness:
  "\<exists>waited t. rl_enter w_clock ((rate_limiter_init 2)\<lparr>rl_last_ts := Some 10\<rparr>)
     = Some (waited, (rate_limiter_init 2)\<lparr>rl_last_ts := Some t\<rparr>) \<and> t - 10 \<ge> 1 / 2 \<and> waited \<le> 1 / 2"
proof -
  let ?rl = "(rate_limiter_init 2)\<lparr>rl_last_ts := Some 10\<rparr>"
  have "rl_last_ts ?rl = Some 10" "sleeps (rl_delta ?rl) 10 w_clock" "rl_delta ?rl \<ge> 0"
    by (auto simp: sleeps_def w_clock_def rate_limiter_init_def)
  from rate_limit_spacing [OF this] show ?thesis
    by (auto simp: w_clock_def rate_limiter_init_def)
qed

subsection \<open>Segmented uploads\<close>

lemma segments_from_piece:
  "k < length (segments_from n i f content) \<Longrightarrow>
     sg_data (segments_from n i f content ! k) = take n (drop (k * n) content)"
proof (induction n i f content arbitrary: k rule: segments_from.induct)
  case (1 n i f content)
  show ?case
  proof (cases "content = [] \<or> n = 0")
    case False
    have s: "segments_from n i f content = \<lparr> sg_index = i, sg_offset = f, sg_data = take n content \<rparr>
          # segments_from n (Suc i) (f + n) (drop n content)"
      using False by (subst segments_from.simps) simp
    show ?thesis
      using "1.IH" [OF False] "1.prems" unfolding s by (cases k) (simp_all add: add.commute)
  qed (use "1.prems" in \<open>subst (asm) segments_from.simps, simp\<close>)
qed

text \<open>
  The segments of an image put together are the image; segment \<open>k\<close> has the index \<open>k\<close>, starts at
  \<open>k\<close> segment sizes and holds the data at its offset.
\<close>
theorem segments_roundtrip:
  assumes "0 < segment_size"
  shows "concat (map sg_data (segments segment_size content)) = content \<and>
    (\<forall>k < length (segments segment_size content).
       let s = segments segment_size content ! k in
       sg_index s = k \<and> sg_offset s = k * segment_size \<and>
       sg_data s = take segment_size (drop (sg_offset s) content))"
  using segments_from_data [OF assms] segments_from_index [of _ segment_size 0 0 content]
    segments_from_piece [of _ segment_size 0 0 content]
  by (simp add: segments_def Let_def)

theorem segments_roundtrip_witness:
  "concat (map sg_data (segments 2 [7, 8, 9 :: nat])) = [7, 8, 9]"
  using segments_roundtrip [of 2 "[7, 8, 9 :: nat]"] by simp

lemma first_error_none: "first_error f is' = Inr () \<longleftrightarrow> (\<forall>i \<in> set is'. f i = None)"
  by (induction is') (auto split: option.splits)

lemma upload_wait_done:
  assumes "upload_wait E w deadline n fs = Inr rest" and "i \<in> set fs"
  shows "i \<in> set rest \<and> i \<notin> set (up_finished E w n fs) \<or> up_outcome E i = None"
  using assms by (auto simp: upload_wait_def Let_def bindE_eq_Inr map_sum_eq_Inr first_error_none)

lemma upload_loop_done:
  "upload_loop E deadline n ss fs = Inr (m, fs') \<Longrightarrow> i \<in> set fs \<union> sg_index ` set ss \<Longrightarrow>
     i \<in> set fs' \<or> up_outcome E i = None"
proof (induction E deadline n ss fs rule: upload_loop.induct)
  case (2 E deadline n s ss fs)
  show ?case
  proof (cases "length (fs @ [sg_index s]) \<ge> concurrency * 2")
    case True
    with 2 obtain rest where w: "upload_wait E FIRST_COMPLETED deadline n (fs @ [sg_index s]) = Inr rest"
      and l: "upload_loop E deadline (Suc n) ss rest = Inr (m, fs')"
      by (auto simp: Let_def bindE_eq_Inr)
    from "2.IH"(1) [OF refl True l] upload_wait_done [OF w, of i] "2.prems"(2) show ?thesis by auto
  qed (use 2 in \<open>simp add: Let_def\<close>)
qed auto

text \<open>
  C9: When no check of the time falls in the very instant of the deadline, an upload that succeeds has
  uploaded every segment - if it ran out of time with one outstanding, it fails - and while it goes
  on there are never \<open>2 * concurrency\<close> uploads outstanding between two segments. A wait of the
  library may come back without what it waited for, but then the time it was given is over.
\<close>
theorem upload_complete_and_bounded:
  assumes "uploadInner E deadline ss = Inr ()" and "waits E deadline"
    and "\<forall>n. deadline \<noteq> Some (up_clock E n)"
  shows "(\<forall>s \<in> set ss. up_outcome E (sg_index s) = None) \<and>
    (\<forall>k m fs. upload_loop E deadline 0 (take k ss) [] = Inr (m, fs) \<longrightarrow> length fs < concurrency * 2)"
proof -
  obtain n fs rest where l: "upload_loop E deadline 0 ss [] = Inr (n, fs)"
    and w: "upload_wait E ALL_COMPLETED deadline n fs = Inr rest"
    using assms(1) by (auto simp: uploadInner_def bindE_eq_Inr map_sum_eq_Inr)
  have "set fs \<subseteq> set (up_finished E ALL_COMPLETED n fs)"
    using waits_in_time [OF assms(2) _ w] assms(3) by (simp add: wait_satisfied_def)
  then have "up_outcome E (sg_index s) = None" if "s \<in> set ss" for s
    using upload_loop_done [OF l, of "sg_index s"] upload_wait_done [OF w, of "sg_index s"] that by auto
  moreover have "length fs < concurrency * 2"
    if "upload_loop E deadline 0 (take k ss) [] = Inr (m, fs)" for k m fs
    by (rule upload_loop_bound [OF assms(2,3) _ that]) (simp add: concurrency_def)
  ultimately show ?thesis by blast
qed

text \<open>Every wait brings what it waited for, long before the deadline.\<close>

definition w_upload :: upload_env where
  "w_upload = \<lparr> up_finished = (\<lambda>w n fs. if w = ALL_COMPLETED then fs else take 1 fs),
     up_outcome = (\<lambda>i. None), up_clock = (\<lambda>n. 5) \<rparr>"

lemma w_upload_satisfied: "wait_satisfied w (up_finished w_upload w n fs) fs"
  by (cases fs; cases w) (simp_all add: wait_satisfied_def w_upload_def)

lemma w_upload_waits: "waits w_upload (Some 100)" "\<forall>n. Some 100 \<noteq> Some (up_clock w_upload n)"
  by (simp add: waits_def w_upload_satisfied, simp add: w_upload_def)

theorem upload_complete_and_bounded_witness:
  "list_all (\<lambda>s. up_outcome w_upload (sg_index s) = None) (segments 1 [7, 8, 9 :: nat])"
proof -
  have "uploadInner w_upload (Some 100) (segments 1 [7, 8, 9 :: nat]) = Inr ()"
    by (simp add: uploadInner_def w_upload_def upload_wait_def Let_def checkTimeout_def segments_def
        segments_from.simps concurrency_def first_error_none)
  then show ?thesis
    using upload_complete_and_bounded [OF _ w_upload_waits, of "segments 1 [7, 8, 9 :: nat]"]
    unfolding list_all_iff by blast
qed

end
