(* ===== verification/HandlerProps.thy ===== *)
theory HandlerProps
  imports ZkNodesProps SmHandler
begin

section \<open>What a request handler guarantees\<close>

text \<open>
  The interface between request handlers and drivers: a launch keeps the lock of the node. For every
  such driver a handler's node set is locked and its record of satisfied labels matches the node set
  at any moment, and the labels of a node set that is complete are those requested. The state machine
  driver satisfies the interface.
\<close>

subsection \<open>The invariant\<close>

definition set_matches :: "('d, 'z) handler_state \<Rightarrow> bool" where
  "set_matches h = (map snd (h_satisfied h) = map (\<lambda>n. str_id (o_id n)) (h_nodeset h))"

text \<open>A handler that is done has given its nodes back, but keeps the record.\<close>

definition handler_ok :: "('d, 'z) handler_state \<Rightarrow> bool" where
  "handler_ok h = ((\<forall>n \<in> set (h_nodeset h). n_lock n) \<and> (\<not> h_done h \<longrightarrow> set_matches h))"

lemma put_obj_simps [simp]:
  "h_nodeset (put_obj n z h) = h_nodeset h" "h_done (put_obj n z h) = h_done h"
  "h_paused (put_obj n z h) = h_paused h" "h_satisfied (put_obj n z h) = h_satisfied h"
  "h_failed (put_obj n z h) = h_failed h" "h_ready (put_obj n z h) = h_ready h"
  "h_request (put_obj n z h) = h_request h" "h_drv (put_obj n z h) = h_drv h"
  "h_zk (put_obj n z h) = z"
  by (simp_all add: put_obj_def)

text \<open>Two handlers with the same node set, record and flags.\<close>

definition same_set :: "('d, 'z) handler_state \<Rightarrow> ('d, 'z) handler_state \<Rightarrow> bool" where
  "same_set h h' = (h_nodeset h' = h_nodeset h \<and> h_satisfied h' = h_satisfied h \<and> h_done h' = h_done h)"

lemma same_set_refl [simp]: "same_set h h"
  by (simp add: same_set_def)

lemma same_set_trans: "same_set h h' \<Longrightarrow> same_set h' h'' \<Longrightarrow> same_set h h''"
  by (simp add: same_set_def)

lemma same_set_ok: "same_set h h' \<Longrightarrow> handler_ok h' = handler_ok h"
  by (simp add: same_set_def handler_ok_def set_matches_def)

text \<open>One more node, locked and recorded under the label \<open>t\<close>.\<close>

definition one_more :: "string \<Rightarrow> ('d, 'z) handler_state \<Rightarrow> ('d, 'z) handler_state \<Rightarrow> bool" where
  "one_more t h h' = (\<exists>n. n_lock n \<and> h_nodeset h' = h_nodeset h @ [n] \<and>
     h_satisfied h' = h_satisfied h @ [(t, str_id (o_id n))] \<and> h_done h' = h_done h)"

lemma one_more_ok: "one_more t h h' \<Longrightarrow> handler_ok h \<Longrightarrow> handler_ok h'"
  by (auto simp: one_more_def handler_ok_def set_matches_def)

lemma one_more_from: "same_set h h1 \<Longrightarrow> one_more t h1 h' \<Longrightarrow> one_more t h h'"
  by (simp add: one_more_def same_set_def)

subsection \<open>Taking a ready node\<close>

definition taken :: "string \<Rightarrow> bool res \<Rightarrow> ('d, 'z) handler_state \<Rightarrow> ('d, 'z) handler_state \<Rightarrow> bool" where
  "taken t r h h' = (if r = Inr True then one_more t h h' \<and> \<not> h_paused h' else same_set h h')"

lemma taken_from: "taken t r h1 h' \<Longrightarrow> same_set h h1 \<Longrightarrow> taken t r h h'"
  using one_more_from same_set_trans by (auto simp: taken_def)

lemma taken_ok: "taken t r h h' \<Longrightarrow> handler_ok h \<Longrightarrow> handler_ok h'"
  using one_more_ok same_set_ok unfolding taken_def by (cases "r = Inr True") fastforce+

lemma take_ready_adds: "take_ready K L D cfg now t ids h = (r, h') \<Longrightarrow> taken t r h h'"
proof (induction ids arbitrary: h r h')
  case (Cons i ids)
  have again: ?case if "take_ready K L D cfg now t ids h1 = (r, h')" and "same_set h h1" for h1
    using Cons.IH [OF that(1)] that(2) by (rule taken_from)
  have same: "same_set h (put_obj m z h)" for m z by (simp add: same_set_def)
  show ?case
  proof (cases "map_of (h_objs h) i")
    case None
    then show ?thesis using again [OF _ same_set_refl] Cons.prems by simp
  next
    case (Some n)
    let ?skip = "\<not> of_pool (hc_provider cfg) (hc_pool cfg) n \<or> n_lock_contenders n \<noteq> {} \<or>
        \<not> dr_checkReusableNode D n (h_drv h)"
    obtain ex n1 z1 where lock: "lockNode K L n False None True None False now (h_zk h) = (ex, n1, z1)"
      by (cases "lockNode K L n False None True None False now (h_zk h)") auto
    obtain ex' n2 z2 where unlock: "unlockNode L n1 z1 = (ex', n2, z2)"
      by (cases "unlockNode L n1 z1") auto
    let ?n = "n1\<lparr> n_allocated_to := json_id (o_id (h_request h)),
                 n_tenant_name := r_tenant_name (h_request h), n_requestor := r_requestor (h_request h) \<rparr>"
    obtain es n3 z3 where store: "storeNode K now ?n z1 = (es, n3, z3)"
      by (cases "storeNode K now ?n z1") auto
    show ?thesis
    proof (cases "?skip \<or> ex \<noteq> None")
      case True
      then show ?thesis
        using Cons.prems again [OF _ same] again [OF _ same_set_refl] same lock Some
        by (auto simp: taken_def [of _ "Inl _"] split: if_split_asm)
    next
      case False
      then have "n_lock n3" using lockNode_locks [of K L n] lock storeNode_keeps [OF store] by simp
      with False show ?thesis
        using Cons.prems again [OF _ same] same lock Some unlock store
        by (auto simp: taken_def [of _ "Inl _"] taken_def [of _ "Inr True"] Let_def one_more_def same_set_def
            recorder_add_def split: if_split_asm option.split_asm)
    qed
  qed
qed (simp add: taken_def)

text \<open>At quota: the node set is as it was, or the handler is done and has none.\<close>

lemma set_request_state_same:
  "set_request_state st now h = (ex, h') \<Longrightarrow> same_set h h' \<and> h_paused h' = h_paused h"
  by (auto simp: set_request_state_def same_set_def split: sum.splits)

lemma mark_declined_same: "mark_declined cfg now h = (ex, h') \<Longrightarrow> same_set h h' \<and> h_paused h' = h_paused h"
  by (auto simp: mark_declined_def Let_def same_set_def dest!: set_request_state_same
      split: json.splits if_splits)

lemma unlock_one_same: "same_set h (unlock_one K L now clear n h)"
  by (auto simp: unlock_one_def same_set_def split: prod.split)

lemma unlockNodeSet_empties:
  "h_nodeset (unlockNodeSet K L now clear h) = []"
  "h_done (unlockNodeSet K L now clear h) = h_done h"
  "h_request (unlockNodeSet K L now clear h) = h_request h"
proof -
  have "h_done (fold (unlock_one K L now clear) ns h) = h_done h \<and>
      h_request (fold (unlock_one K L now clear) ns h) = h_request h" for ns
    by (induction ns arbitrary: h) (auto simp: unlock_one_def split: prod.split)
  then show "h_nodeset (unlockNodeSet K L now clear h) = []"
    "h_done (unlockNodeSet K L now clear h) = h_done h"
    "h_request (unlockNodeSet K L now clear h) = h_request h"
    by (simp_all add: unlockNodeSet_def)
qed

lemma store_and_unlock_same: "store_and_unlock_request K L now h = (ex, h') \<Longrightarrow> same_set h h'"
  by (auto simp: store_and_unlock_request_def same_set_def split: prod.splits option.splits)

lemma declinedHandlerCleanup_done:
  "h_done (declinedHandlerCleanup K L now h)" "h_nodeset (declinedHandlerCleanup K L now h) = []"
proof -
  let ?h = "(unlockNodeSet K L now True h)\<lparr>h_paused := False\<rparr>"
  have "same_set ?h (snd (store_and_unlock_request K L now ?h))"
    using store_and_unlock_same by (metis prod.collapse)
  then show "h_done (declinedHandlerCleanup K L now h)" "h_nodeset (declinedHandlerCleanup K L now h) = []"
    by (simp_all add: declinedHandlerCleanup_def same_set_def unlockNodeSet_empties)
qed

lemma done_ok: "h_done h \<Longrightarrow> h_nodeset h = [] \<Longrightarrow> handler_ok h"
  by (simp add: handler_ok_def)

lemma declineRequest_ok:
  assumes "declineRequest K L cfg now h = (ex, h')" and "handler_ok h"
  shows "handler_ok h'"
proof (cases "mark_declined cfg now h")
  case (Pair e h1)
  note same = mark_declined_same [OF Pair]
  show ?thesis
    using assms Pair same_set_ok [of h h1] same done_ok [OF declinedHandlerCleanup_done]
    by (cases e) (auto simp: declineRequest_def)
qed

lemma declineRequest_done: "declineRequest K L cfg now h = (None, h') \<Longrightarrow> h_done h'"
  by (auto simp: declineRequest_def declinedHandlerCleanup_done split: prod.splits option.splits)

lemma at_quota_done: "at_quota K L cfg now h = (None, h') \<Longrightarrow> h_done h' \<or> h_paused h'"
  by (auto simp: at_quota_def Let_def declinedHandlerCleanup_done dest: declineRequest_done
      split: if_splits sum.splits prod.splits)

lemma at_quota_ok:
  assumes "at_quota K L cfg now h = (ex, h')" and "handler_ok h"
  shows "handler_ok h'"
proof (cases "r_requestor (h_request h) = JStr ''NodePool:min-ready''")
  case True
  with assms declineRequest_ok [of K L cfg now h ex h'] show ?thesis by (simp add: at_quota_def)
next
  case False
  have same: "handler_ok (h\<lparr>h_cache := nc, h_zk := z\<rparr>)" "handler_ok (h\<lparr>h_cache := nc, h_zk := z, h_paused := b\<rparr>)" for nc z b
    using assms(2) by (simp_all add: handler_ok_def set_matches_def)
  from False assms same show ?thesis
    by (auto simp: at_quota_def Let_def declinedHandlerCleanup_done intro: done_ok
        split: prod.splits sum.splits if_splits)
qed

subsection \<open>Locked node sets\<close>

definition locked :: "('d, 'z) handler_state \<Rightarrow> bool" where
  "locked h = (\<forall>n \<in> set (h_nodeset h). n_lock n)"

lemma same_set_locked: "same_set h h' \<Longrightarrow> locked h' = locked h"
  by (simp add: same_set_def locked_def)

lemma one_more_locked: "one_more t h h' \<Longrightarrow> locked h \<Longrightarrow> locked h'"
  by (auto simp: one_more_def locked_def)

lemma empty_locked: "h_nodeset h = [] \<Longrightarrow> locked h"
  by (simp add: locked_def)

lemma declineRequest_locked: "declineRequest K L cfg now h = (ex, h') \<Longrightarrow> locked h \<Longrightarrow> locked h'"
  by (auto simp: declineRequest_def dest!: mark_declined_same same_set_locked
      intro: empty_locked declinedHandlerCleanup_done split: prod.splits option.splits)

lemma at_quota_locked:
  assumes "at_quota K L cfg now h = (ex, h')" and "locked h"
  shows "locked h'"
proof (cases "r_requestor (h_request h) = JStr ''NodePool:min-ready''")
  case False
  have "locked (h\<lparr>h_cache := nc, h_zk := z\<rparr>)" "locked (h\<lparr>h_cache := nc, h_zk := z, h_paused := b\<rparr>)" for nc z b
    using assms(2) by (simp_all add: locked_def)
  with False assms(1) show ?thesis
    by (auto simp: at_quota_def Let_def intro: empty_locked declinedHandlerCleanup_done
        split: prod.splits sum.splits if_splits)
qed (use assms declineRequest_locked in \<open>auto simp: at_quota_def\<close>)

lemma sort_nodes_locked:
  "sort_nodes L ns ab h = (r, h') \<Longrightarrow> locked h \<Longrightarrow> locked h'"
proof (induction ns arbitrary: ab h)
  case (Cons n ns)
  have sub: "set (remove_node n ms) \<subseteq> set ms" for ms
    using set_remove1_subset [of _ ms] by (auto simp: remove_node_def split: option.splits)
  have step: "locked (h\<lparr>h_ready := a\<rparr>)" "locked (h\<lparr>h_failed := a\<rparr>)"
    "locked ((put_obj m z h)\<lparr>h_nodeset := remove_node n (h_nodeset h)\<rparr>)" for a m z
    using Cons.prems(2) sub by (auto simp: locked_def)
  show ?case
  proof (cases "o_state n = Some ABORTED")
    case True
    then show ?thesis
      using Cons.prems(1) Cons.IH step(3) by (auto simp: Let_def split: prod.splits option.splits)
  qed (use Cons step(1,2) in \<open>auto split: if_splits\<close>)
qed simp

lemma fulfill_same: "fulfill now h = (ex, h') \<Longrightarrow> h_nodeset h' = h_nodeset h"
  by (auto simp: fulfill_def Let_def same_set_def dest!: set_request_state_same
      split: prod.splits sum.splits json.splits option.splits)

lemma finish_poll_empties:
  assumes "finish_poll K L now h = (r, h')"
  shows "h_nodeset h' = []"
proof -
  obtain ex h1 where s: "store_and_unlock_request K L now (unlockNodeSet K L now False h) = (ex, h1)"
    by fastforce
  from store_and_unlock_same [OF this] assms s show ?thesis
    by (cases ex) (auto simp: finish_poll_def same_set_def unlockNodeSet_empties)
qed

lemma request_gone_empties: "request_gone K L now h = (r, h') \<Longrightarrow> h_nodeset h' = []"
  by (auto simp: request_gone_def Let_def unlockNodeSet_empties split: prod.splits option.splits if_splits)

lemma handler_poll_locked:
  assumes "handler_poll K L D cfg now h = (r, h')" and "locked h"
  shows "locked h'"
proof (cases "h_paused h \<or> h_done h \<or> \<not> dr_launchesComplete D (h_nodeset h) (h_drv h)")
  case False
  obtain res h1 where s: "sort_nodes L (h_nodeset h) [] h = (res, h1)" by fastforce
  have h1: "locked h1" by (rule sort_nodes_locked [OF s assms(2)])
  obtain em hm where m: "mark_declined cfg now h1 = (em, hm)" by fastforce
  obtain ef hf where f: "fulfill now h1 = (ef, hf)" by fastforce
  have "locked hm" "locked hf"
    using mark_declined_same [OF m] fulfill_same [OF f] h1 by (auto simp: same_set_def locked_def)
  with h1 False assms(1) s m f show ?thesis
    by (auto simp: handler_poll_def locked_def dest!: finish_poll_empties request_gone_empties
        split: sum.splits option.splits if_splits)
qed (use assms in \<open>auto simp: handler_poll_def split: if_splits\<close>)

subsection \<open>The types still needed\<close>

lemma count_concat_replicate:
  assumes "distinct ts"
  shows "count_list (concat (map (\<lambda>t. replicate (f t) t) ts)) x = (if x \<in> set ts then f x else 0)"
  using assms by (induction ts) (auto simp: count_list_eq_length_filter filter_replicate)

lemma needed_types_count:
  "count_list (needed_types requested saved) x = count_list requested x - count_list saved x"
proof -
  have "x \<notin> set requested \<Longrightarrow> count_list requested x = 0" by simp
  then show ?thesis
    unfolding needed_types_def by (subst count_concat_replicate) auto
qed

lemma count_mset_list: "count (mset xs) x = count_list xs x"
  by (induction xs) auto

lemma needed_types_mset: "mset (needed_types requested saved) = mset requested - mset saved"
  by (rule multiset_eqI) (simp add: count_mset_list needed_types_count)

subsection \<open>For every driver\<close>

locale request_driver =
  fixes D :: "('d, 'z) driver"
  assumes launch_keeps_lock: "dr_launch D n d z = (ex, n', d', z') \<Longrightarrow> n_lock n \<Longrightarrow> n_lock n'"
begin

lemma launch_new_ok:
  assumes "launch_new K L D cfg now t h = (ex, h')"
  shows "one_more t h h' \<and> h_paused h' = h_paused h \<or> (ex \<noteq> None \<and> same_set h h')"
proof -
  have lock: "n_lock n5"
    if "lockNode K L n1 False None True None False now z1 = (None, n2, z2)"
      and "set_state NODE_STATES st now n2 = Inr n3" and "storeNode K now n3 z2 = (None, n4, z4)"
      and "dr_launch D n4 d z4 = (e, n5, d5, z5)" for n1 z1 n2 z2 st n3 n4 z4 d e n5 d5 z5
    using that lockNode_locks set_state_keeps_node storeNode_keeps launch_keeps_lock by metis
  let ?n = "new_node cfg (h_request h) t now"
  obtain e1 n1 z1 where s1: "storeNode K now ?n (h_zk h) = (e1, n1, z1)"
    by (cases "storeNode K now ?n (h_zk h)") auto
  obtain e2 n2 z2 where s2: "lockNode K L n1 False None True None False now z1 = (e2, n2, z2)"
    by (cases "lockNode K L n1 False None True None False now z1") auto
  show ?thesis
  proof (cases "dr_setNodeMetadata D ?n (h_drv h)")
    case (Inl e)
    then show ?thesis using assms by (auto simp: launch_new_def Let_def)
  next
    case (Inr d)
    note md = this
    show ?thesis
    proof (cases "set_state NODE_STATES (JStr (state_str BUILDING)) now n2")
      case (Inl e)
      then show ?thesis
        using assms md s1 s2 by (cases e1; cases e2) (auto simp: launch_new_def Let_def same_set_def)
    next
      case (Inr n3)
      obtain e4 n4 z4 where s4: "storeNode K now n3 z2 = (e4, n4, z4)"
        by (cases "storeNode K now n3 z2") auto
      obtain e5 n5 d5 z5 where s5: "dr_launch D n4 d z4 = (e5, n5, d5, z5)"
        by (cases "dr_launch D n4 d z4") auto
      show ?thesis
      proof (cases "e1 = None \<and> e2 = None \<and> e4 = None")
        case True
        then have "n_lock n5" using lock s2 Inr s4 s5 by blast
        with True show ?thesis
          using assms md s1 s2 Inr s4 s5 by (auto simp: launch_new_def Let_def one_more_def recorder_add_def)
      next
        case False
        then show ?thesis
          using assms md s1 s2 Inr s4
          by (cases e1; cases e2; cases e4) (auto simp: launch_new_def Let_def same_set_def)
      qed
    qed
  qed
qed

lemma fill_types_cases:
  assumes "fill_types K L D cfg now ready (t # ts) h = (ex, h')"
  obtains (raised) "ex \<noteq> None" "same_set h h' \<or> one_more t h h'"
  | (more) h1 where "one_more t h h1" "fill_types K L D cfg now ready ts h1 = (ex, h')"
  | (stopped) h1 where "same_set h h1" "at_quota K L cfg now h1 = (ex, h')"
proof -
  define ids where "ids = (case map_of ready t of None \<Rightarrow> [] | Some ids \<Rightarrow> ids)"
  obtain r h1 where take: "take_ready K L D cfg now t ids h = (r, h1)" by fastforce
  note taken = take_ready_adds [OF take]
  obtain q d where quota: "dr_hasRemainingQuota D t now (view_of h1) (h_drv h1) = (q, d)" by fastforce
  let ?h = "h1\<lparr>h_drv := d, h_paused := False\<rparr>"
  obtain el h2 where launch: "launch_new K L D cfg now t ?h = (el, h2)" by fastforce
  have step: "(ex, h') = (case r of
      Inl e \<Rightarrow> (Some e, h1)
    | Inr True \<Rightarrow> fill_types K L D cfg now ready ts h1
    | Inr False \<Rightarrow> (case q of
        Inl e \<Rightarrow> (Some e, h1\<lparr>h_drv := d\<rparr>)
      | Inr False \<Rightarrow> at_quota K L cfg now (h1\<lparr>h_drv := d\<rparr>)
      | Inr True \<Rightarrow> (case el of Some e \<Rightarrow> (Some e, h2) | None \<Rightarrow> fill_types K L D cfg now ready ts h2)))"
    using assms by (simp only: fill_types.simps ids_def [symmetric] take quota launch prod.case)
  have same: "same_set h1 (h1\<lparr>h_drv := d\<rparr>)" "same_set h1 ?h" by (simp_all add: same_set_def)
  show thesis
  proof (cases "r = Inr True")
    case True
    then show thesis using step taken by (intro more [of h1]) (simp_all add: taken_def)
  next
    case False
    then have h1: "same_set h h1" using taken by (simp add: taken_def)
    have d: "same_set h (h1\<lparr>h_drv := d\<rparr>)" "same_set h ?h"
      using h1 same same_set_trans by blast+
    have h2: "one_more t h h2 \<or> el \<noteq> None \<and> same_set h h2"
      using launch_new_ok [OF launch] d(2) one_more_from same_set_trans by blast
    show thesis
    proof (cases "r = Inr False \<and> q = Inr False")
      case True
      then show thesis using step d(1) by (intro stopped) simp_all
    next
      case False
      with \<open>r \<noteq> Inr True\<close> step h1 d(1) h2 show thesis
        by (cases el) (auto split: sum.split_asm bool.split_asm intro: raised more [of h2])
    qed
  qed
qed

lemma fill_types_ok:
  "fill_types K L D cfg now ready ts h = (ex, h') \<Longrightarrow> handler_ok h \<Longrightarrow> handler_ok h'"
proof (induction ts arbitrary: h)
  case (Cons t ts)
  from Cons.prems(1) show ?case
  proof (cases rule: fill_types_cases)
    case raised
    then show ?thesis using Cons.prems(2) one_more_ok same_set_ok by blast
  next
    case (more h1)
    then show ?thesis using Cons.IH Cons.prems(2) one_more_ok by blast
  next
    case (stopped h1)
    then show ?thesis using at_quota_ok Cons.prems(2) same_set_ok by blast
  qed
qed simp

lemma fill_types_complete:
  "fill_types K L D cfg now ready ts h = (None, h') \<Longrightarrow> \<not> h_done h' \<Longrightarrow> \<not> h_paused h' \<Longrightarrow>
     recorder_labels (h_satisfied h') = recorder_labels (h_satisfied h) @ ts \<and> h_done h' = h_done h"
proof (induction ts arbitrary: h)
  case (Cons t ts)
  from Cons.prems(1) show ?case
  proof (cases rule: fill_types_cases)
    case (more h1)
    then show ?thesis using Cons.IH Cons.prems(2,3) by (auto simp: one_more_def recorder_labels_def)
  next
    case (stopped h1)
    then show ?thesis using at_quota_done Cons.prems(2,3) by blast
  qed simp
qed simp

lemma fill_types_locked:
  "fill_types K L D cfg now ready ts h = (ex, h') \<Longrightarrow> locked h \<Longrightarrow> locked h'"
proof (induction ts arbitrary: h)
  case (Cons t ts)
  from Cons.prems(1) show ?case
  proof (cases rule: fill_types_cases)
    case raised
    then show ?thesis using Cons.prems(2) one_more_locked same_set_locked by blast
  next
    case (more h1)
    then show ?thesis using Cons.IH Cons.prems(2) one_more_locked by blast
  next
    case (stopped h1)
    then show ?thesis using at_quota_locked Cons.prems(2) same_set_locked by blast
  qed
qed simp

lemma waitForNodeSet_locked:
  assumes "waitForNodeSet K L D cfg now h = (ex, h')" and "locked h"
  shows "locked h'"
proof -
  have "locked (h\<lparr>h_objs := x\<rparr>)" for x using assms(2) by (simp add: locked_def)
  with assms show ?thesis
    by (auto simp: waitForNodeSet_def Let_def dest: fill_types_locked split: sum.split_asm)
qed

lemma getDeclinedReasons_same: "getDeclinedReasons D cfg now h = (r, h') \<Longrightarrow> same_set h h'"
  by (auto simp: getDeclinedReasons_def Let_def same_set_def
      split: sum.splits if_splits prod.splits bool.splits)

lemma runHandler_locked:
  assumes "runHandler K L D config now h = (ex, h')" and "locked h"
  shows "locked h'"
proof (cases config)
  case (Some cfg)
  obtain r h1 where d: "getDeclinedReasons D cfg now h = (r, h1)" by fastforce
  have h1: "locked h1" using getDeclinedReasons_same [OF d] same_set_locked assms(2) by blast
  obtain e2 h2 where p: "set_request_state PENDING now h1 = (e2, h2)" by fastforce
  have h2: "locked h2" "locked (h2\<lparr>h_request := q, h_zk := z\<rparr>)" for q z
    using set_request_state_same [OF p] h1 by (simp_all add: locked_def same_set_def)
  from h1 h2 assms(1) Some d p show ?thesis
    by (auto simp: runHandler_def dest: declineRequest_locked waitForNodeSet_locked
        split: sum.splits if_splits option.splits prod.splits)
qed (use assms in \<open>simp add: runHandler_def\<close>)

lemma handler_run_locked:
  assumes "handler_run K L D config cfg now h = (ex, h')" and "locked h"
  shows "locked h'"
  using assms by (auto simp: handler_run_def dest: runHandler_locked declineRequest_locked
      split: prod.splits option.splits)

lemma waitForNodeSet_ok:
  assumes "waitForNodeSet K L D cfg now h = (ex, h')" and "handler_ok h"
  shows "handler_ok h'"
proof -
  have "handler_ok (h\<lparr>h_objs := x\<rparr>)" for x using assms(2) by (simp add: handler_ok_def set_matches_def)
  with assms show ?thesis
    by (auto simp: waitForNodeSet_def Let_def dest: fill_types_ok split: sum.split_asm)
qed

text \<open>A node set that is complete has the labels of the request, each as often as requested.\<close>

lemma waitForNodeSet_complete:
  assumes "waitForNodeSet K L D cfg now h = (None, h')" and "\<not> h_done h'" and "\<not> h_paused h'"
    and "str_labels (r_node_types (h_request h)) = Inr requested"
    and "mset (recorder_labels (h_satisfied h)) \<subseteq># mset requested"
  shows "mset (recorder_labels (h_satisfied h')) = mset requested"
proof -
  let ?needed = "needed_types requested (recorder_labels (h_satisfied h))"
  obtain ready where "fill_types K L D cfg now (ids_by_label ready) ?needed (h\<lparr>h_objs := objs_of ready\<rparr>) = (None, h')"
    using assms(1,4) by (auto simp: waitForNodeSet_def Let_def split: sum.split_asm)
  from fill_types_complete [OF this assms(2,3)]
  have "recorder_labels (h_satisfied h') = recorder_labels (h_satisfied h) @ ?needed" by simp
  then show ?thesis using assms(5) by (simp add: needed_types_mset)
qed

end

text \<open>The state machine driver hands the node to a launcher unchanged.\<close>

interpretation sm: request_driver "sm_driver K A choice cfg pool"
  by unfold_locales (simp add: sm_driver_def)

subsection \<open>Fulfilling a request\<close>

lemma pop_types_all:
  "mset types = mset (map fst d) \<Longrightarrow> \<forall>(t, i) \<in> set d. i \<noteq> [] \<Longrightarrow>
     \<exists>ids. pop_types types d acc = (None, [], acc @ map JStr ids) \<and> length ids = length types \<and>
       mset (zip types ids) = mset d"
proof (induction types arbitrary: d acc)
  case (Cons t ts)
  have "t \<in> fst ` set d"
    using Cons.prems(1) by (metis list.set_intros(1) set_map mset_eq_setD)
  then obtain i where i: "map_of d t = Some i" by (metis imageE map_of_eq_None_iff not_None_eq)
  then have mem: "(t, i) \<in> set d" by (rule map_of_SomeD)
  then have ne: "i \<noteq> []" using Cons.prems(2) by blast
  let ?d = "remove1 (t, i) d"
  have d: "mset d = add_mset (t, i) (mset ?d)" using mem by simp
  have "add_mset t (mset ts) = add_mset t (mset (map fst ?d))"
    using Cons.prems(1) d by (metis fst_conv image_mset_add_mset mset.simps(2) mset_map)
  then have m: "mset ts = mset (map fst ?d)" by simp
  have n: "\<forall>(t, i) \<in> set ?d. i \<noteq> []"
    using Cons.prems(2) set_remove1_subset [of "(t, i)" d] by blast
  from Cons.IH [OF m n, of "acc @ [JStr i]"] obtain ids where
    "pop_types ts ?d (acc @ [JStr i]) = (None, [], (acc @ [JStr i]) @ map JStr ids)"
    "length ids = length ts" "mset (zip ts ids) = mset ?d" by blast
  with i ne d show ?case
    by (intro exI [of _ "i # ids"]) (simp add: recorder_pop_def)
qed simp

lemma set_request_valid:
  "st \<in> set NODE_REQUEST_STATES \<Longrightarrow> set_request_state st now h =
     (None, h\<lparr>h_request := (h_request h)\<lparr>o_state := Some st, o_state_time := JNum now\<rparr>\<rparr>)"
  unfolding set_request_state_def set_state_state_str by simp

lemma set_request_simps:
  "set_request_state FULFILLED now h =
     (None, h\<lparr>h_request := (h_request h)\<lparr>o_state := Some FULFILLED, o_state_time := JNum now\<rparr>\<rparr>)"
  "set_request_state FAILED now h =
     (None, h\<lparr>h_request := (h_request h)\<lparr>o_state := Some FAILED, o_state_time := JNum now\<rparr>\<rparr>)"
  "set_request_state REQUESTED now h =
     (None, h\<lparr>h_request := (h_request h)\<lparr>o_state := Some REQUESTED, o_state_time := JNum now\<rparr>\<rparr>)"
  by (rule set_request_valid, simp add: NODE_REQUEST_STATES_def)+

lemma fulfill_all:
  assumes "str_labels (r_node_types (h_request h)) = Inr types" and "r_nodes (h_request h) = JList []"
    and "mset (recorder_labels (h_satisfied h)) = mset types" and "\<forall>(t, i) \<in> set (h_satisfied h). i \<noteq> []"
  shows "\<exists>ids h'. fulfill now h = (None, h') \<and> r_nodes (h_request h') = JList (map JStr ids) \<and>
    o_state (h_request h') = Some FULFILLED \<and> length ids = length types \<and>
    mset (zip types ids) = mset (h_satisfied h)"
proof -
  obtain ids where "pop_types types (h_satisfied h) [] = (None, [], [] @ map JStr ids)"
    "length ids = length types" "mset (zip types ids) = mset (h_satisfied h)"
    using pop_types_all [OF assms(3) [unfolded recorder_labels_def, symmetric] assms(4)] by blast
  with assms(1,2) show ?thesis
    by (intro exI [of _ ids]) (simp add: fulfill_def Let_def set_request_simps)
qed

text \<open>A poll that leaves the request fulfilled has found every node ready.\<close>

lemma sort_nodes_all_ready:
  "sort_nodes L ns ab h = (Inr ab', h') \<Longrightarrow>
     length ab \<le> length ab' \<and> length (h_failed h) \<le> length (h_failed h') \<and>
     h_request h' = h_request h \<and>
     (ab' = ab \<longrightarrow> h_failed h' = h_failed h \<longrightarrow> (\<forall>n \<in> set ns. o_state n = Some READY))"
proof (induction ns arbitrary: ab h)
  case (Cons n ns)
  show ?case
  proof (cases "o_state n = Some READY \<or> o_state n = Some ABORTED")
    case True
    then show ?thesis
      using Cons.prems by (auto simp: Let_def dest!: Cons.IH split: prod.splits option.splits if_splits)
  next
    case False
    then have "sort_nodes L ns ab (h\<lparr>h_failed := h_failed h @ [n]\<rparr>) = (Inr ab', h')"
      using Cons.prems by simp
    from Cons.IH [OF this] show ?thesis by auto
  qed
qed simp

lemma storeNodeRequest_state: "storeNodeRequest K r p u now z = (ex, r', z') \<Longrightarrow> o_state r' = o_state r"
  by (auto simp: storeNodeRequest_def Let_def split: if_splits sum.splits option.splits)

lemma unlockNodeRequest_state: "unlockNodeRequest L r z = (ex, r', z') \<Longrightarrow> o_state r' = o_state r"
  by (auto simp: unlockNodeRequest_def split: if_splits sum.splits prod.splits)

lemma finish_poll_state:
  assumes "finish_poll K L now h = (r, h')"
  shows "o_state (h_request h') = o_state (h_request h)"
  using assms
  by (auto simp: finish_poll_def store_and_unlock_request_def unlockNodeSet_empties
      dest!: storeNodeRequest_state unlockNodeRequest_state split: prod.splits option.splits)

lemma request_gone_state:
  assumes "request_gone K L now h = (r, h')"
  shows "o_state (h_request h') = o_state (h_request h)"
  using assms
  by (auto simp: request_gone_def Let_def unlockNodeSet_empties dest!: unlockNodeRequest_state
      split: prod.splits option.splits if_splits)

lemma mark_declined_state:
  assumes "mark_declined cfg now h = (None, h')"
  shows "o_state (h_request h') = Some FAILED \<or> o_state (h_request h') = Some REQUESTED"
  using assms
  by (auto simp: mark_declined_def Let_def set_request_simps split: json.splits if_splits)

lemma poll_fulfilled_ready:
  assumes "handler_poll K L D cfg now h = (Inr True, h')" and "\<not> h_done h"
    and "o_state (h_request h) \<noteq> Some FULFILLED" and "o_state (h_request h') = Some FULFILLED"
  shows "\<forall>n \<in> set (h_nodeset h). o_state n = Some READY"
proof -
  have run: "\<not> h_paused h" "dr_launchesComplete D (h_nodeset h) (h_drv h)"
    using assms(1,2) by (auto simp: handler_poll_def split: if_splits)
  obtain res h1 where s: "sort_nodes L (h_nodeset h) [] h = (res, h1)" by fastforce
  obtain ab where ab: "res = Inr ab"
    using assms(1,2) run s by (cases res) (auto simp: handler_poll_def)
  note sorted = sort_nodes_all_ready [OF s [unfolded ab]]
  have "\<exists>stored. getNodeRequest K None (o_id (h_request h1)) False now (h_zk h1) = Inr (Some stored)"
    using assms run s ab sorted
    by (auto simp: handler_poll_def dest!: request_gone_state split: sum.splits option.splits)
  moreover have "h_failed h1 = []"
    using calculation assms run s ab mark_declined_state [of cfg now h1]
    by (auto simp: handler_poll_def dest!: finish_poll_state split: prod.splits option.splits if_splits)
  moreover have "ab = []"
    using calculation assms run s ab by (auto simp: handler_poll_def split: if_splits)
  ultimately show ?thesis using sorted by simp
qed

end
