(* ===== verification/HandlerClaims.thy ===== *)
theory HandlerClaims
  imports LauncherProps HandlerProps
begin

section \<open>Properties of request handlers\<close>

text \<open>
  A request handler over an arbitrary driver that keeps the lock of a node it launches, and over the
  state machine driver.
\<close>

subsection \<open>The handler as a state machine\<close>

text \<open>
  The steps of a handler: a run, a poll, and whatever other threads do in between to its nodes, the
  caches and the server, as long as they leave the locks of its nodes alone.
\<close>

inductive handler_step ::
  "'z kazoo \<Rightarrow> 'z locks \<Rightarrow> ('d, 'z) driver \<Rightarrow> handler_config \<Rightarrow>
     ('d, 'z) handler_state \<Rightarrow> ('d, 'z) handler_state \<Rightarrow> bool" for K L D cfg where
  run: "handler_run K L D config cfg now h = (ex, h') \<Longrightarrow> handler_step K L D cfg h h'"
| poll: "handler_poll K L D cfg now h = (r, h') \<Longrightarrow> handler_step K L D cfg h h'"
| others: "map n_lock (h_nodeset h') = map n_lock (h_nodeset h) \<Longrightarrow> handler_step K L D cfg h h'"

inductive handler_reachable ::
  "'z kazoo \<Rightarrow> 'z locks \<Rightarrow> ('d, 'z) driver \<Rightarrow> handler_config \<Rightarrow> ('d, 'z) handler_state \<Rightarrow> bool" for K L D cfg where
  start: "handler_reachable K L D cfg (handler_init r d nc ic z)"
| step: "handler_reachable K L D cfg h \<Longrightarrow> handler_step K L D cfg h h' \<Longrightarrow> handler_reachable K L D cfg h'"

lemma map_lock_locked: "map n_lock ns' = map n_lock ns \<Longrightarrow> \<forall>n \<in> set ns. n_lock n \<Longrightarrow> \<forall>n \<in> set ns'. n_lock n"
  by (metis in_set_conv_nth length_map nth_map)

context request_driver
begin

lemma step_locked: "handler_step K L D cfg h h' \<Longrightarrow> locked h \<Longrightarrow> locked h'"
  by (cases rule: handler_step.cases)
    (auto simp: locked_def dest: handler_run_locked [unfolded locked_def] handler_poll_locked [unfolded locked_def]
      map_lock_locked)

lemma reachable_locked: "handler_reachable K L D cfg h \<Longrightarrow> locked h"
proof (induction rule: handler_reachable.induct)
  case start
  show ?case by (simp add: locked_def handler_init_def)
qed (rule step_locked)

end

text \<open>
  C10: In every state a handler of the state machine driver can reach - by runs, by polls, and by
  whatever other threads do without touching the locks of its nodes - all nodes of its node set are
  locked.
\<close>
theorem node_set_locked:
  assumes "handler_reachable K L (sm_driver K A choice cfg pool) hc h" and "n \<in> set (h_nodeset h)"
  shows "n_lock n"
  using sm.reachable_locked [OF assms(1)] assms(2) by (simp add: locked_def)

definition w_run :: "pyexc option \<times> ((unit, nat) sm_handler, mem_zk) handler_state" where
  "w_run = handler_run mem_kazoo mem_locks w_driver (Some w_handler_config) w_handler_config 9 w_start"

lemma w_run_set: "map o_id (h_nodeset (snd w_run)) = [Some ''0000000000'']"
  by code_simp

theorem node_set_locked_witness:
  "map n_lock (h_nodeset (snd w_run)) = [True]"
proof -
  have "handler_step mem_kazoo mem_locks w_driver w_handler_config w_start (snd w_run)"
    by (rule handler_step.run [where config = "Some w_handler_config" and now = 9 and ex = "fst w_run"])
      (simp add: w_run_def)
  then have reach: "handler_reachable mem_kazoo mem_locks w_driver w_handler_config (snd w_run)"
    unfolding w_start_def by (rule handler_reachable.step [OF handler_reachable.start])
  then have locked: "n_lock n" if "n \<in> set (h_nodeset (snd w_run))" for n
    unfolding w_driver_def using that by (rule node_set_locked)
  obtain n where "h_nodeset (snd w_run) = [n]" using w_run_set by auto
  then show ?thesis using locked by simp
qed

subsection \<open>Filling and fulfilling\<close>

text \<open>
  C11: When waiting for nodes ends without the handler being done or paused, the labels it has recorded
  are the requested labels, each as often as requested, if those recorded before were among them.
\<close>
theorem wait_satisfies_labels:
  assumes "waitForNodeSet K L (sm_driver K A choice cfg pool) hc now h = (None, h')"
    and "\<not> h_done h'" and "\<not> h_paused h'"
    and "str_labels (r_node_types (h_request h)) = Inr requested"
    and "mset (recorder_labels (h_satisfied h)) \<subseteq># mset requested"
  shows "mset (recorder_labels (h_satisfied h')) = mset requested"
  by (rule sm.waitForNodeSet_complete [OF assms])

definition w_wait :: "pyexc option \<times> ((unit, nat) sm_handler, mem_zk) handler_state" where
  "w_wait = waitForNodeSet mem_kazoo mem_locks w_driver w_handler_config 9 w_start"

lemma w_wait_ends: "fst w_wait = None" "\<not> h_done (snd w_wait)" "\<not> h_paused (snd w_wait)"
  by code_simp+

theorem wait_satisfies_labels_witness:
  "mset (recorder_labels (h_satisfied (snd w_wait))) = {#''small''#}"
proof -
  have w: "waitForNodeSet mem_kazoo mem_locks (sm_driver mem_kazoo w_adapter hd w_provider_config w_pool)
      w_handler_config 9 w_start = (None, snd w_wait)"
    using w_wait_ends(1) unfolding w_wait_def w_driver_def by (metis prod.collapse)
  have t: "str_labels (r_node_types (h_request w_start)) = Inr [''small'']"
    "mset (recorder_labels (h_satisfied w_start)) \<subseteq># mset [''small'']"
    by (simp_all add: w_start_def handler_init_def w_request1_def str_labels_def recorder_labels_def)
  from wait_satisfies_labels [OF w w_wait_ends(2,3) t] show ?thesis by simp
qed

text \<open>
  Fulfilling a request whose labels are all recorded never raises; it lists one node id for each
  requested label, in the order of the request, and uses every recorded node exactly once.
\<close>
theorem fulfill_in_order:
  assumes "str_labels (r_node_types (h_request h)) = Inr types" and "r_nodes (h_request h) = JList []"
    and "mset (recorder_labels (h_satisfied h)) = mset types" and "\<forall>(t, i) \<in> set (h_satisfied h). i \<noteq> []"
  shows "\<exists>ids h'. fulfill now h = (None, h') \<and> r_nodes (h_request h') = JList (map JStr ids) \<and>
    o_state (h_request h') = Some FULFILLED \<and> length ids = length types \<and>
    mset (zip types ids) = mset (h_satisfied h)"
  by (rule fulfill_all [OF assms])

theorem fulfill_in_order_witness:
  "\<exists>ids h'. fulfill 9 w_handler = (None, h') \<and> r_nodes (h_request h') = JList (map JStr ids) \<and>
     mset (zip [''small'', ''large''] ids) = {#(''large'', ''7''), (''small'', ''8'')#}"
proof -
  have "str_labels (r_node_types (h_request w_handler)) = Inr [''small'', ''large'']"
    "r_nodes (h_request w_handler) = JList []"
    "mset (recorder_labels (h_satisfied w_handler)) = mset [''small'', ''large'']"
    "\<forall>(t, i) \<in> set (h_satisfied w_handler). i \<noteq> []"
    by (simp_all add: w_handler_def handler_init_def w_request_def node_request_init_def str_labels_def
        recorder_labels_def add_mset_commute)
  from fulfill_in_order [OF this, of 9] show ?thesis
    by (auto simp: w_handler_def)
qed

text \<open>
  C12: A poll that ends with the request fulfilled, where it was not before, has found every node of
  the node set ready.
\<close>
theorem poll_fulfills_only_ready:
  assumes "handler_poll K L D cfg now h = (Inr True, h')" and "\<not> h_done h"
    and "o_state (h_request h) \<noteq> Some FULFILLED" and "o_state (h_request h') = Some FULFILLED"
  shows "\<forall>n \<in> set (h_nodeset h). o_state n = Some READY"
  by (rule poll_fulfilled_ready [OF assms])

definition w_zk2 :: mem_zk where
  "w_zk2 = w_zk1\<lparr>mz_nodes := mz_nodes w_zk1 @
     map (\<lambda>p. (p, \<lparr> mn_data = NoData, mn_created = 0, mn_mzxid = 1, mn_mtime = 0, mn_creates = 0 \<rparr>))
       [nodeLockPath ''7'' @ ''/contender-1'', nodeLockPath ''8'' @ ''/contender-1'',
        requestLockPath ''100-1'' @ ''/contender-1'']\<rparr>"

definition w_poll :: "bool res \<times> ((unit, nat) sm_handler, mem_zk) handler_state" where
  "w_poll = handler_poll mem_kazoo mem_locks w_driver w_handler_config 9 (w_handler\<lparr>h_zk := w_zk2\<rparr>)"

lemma w_poll_ends: "fst w_poll = Inr True" "o_state (h_request (snd w_poll)) = Some FULFILLED"
  by code_simp+

theorem poll_fulfills_only_ready_witness:
  "list_all (\<lambda>n. o_state n = Some READY) (h_nodeset w_handler)"
proof -
  have p: "handler_poll mem_kazoo mem_locks w_driver w_handler_config 9 (w_handler\<lparr>h_zk := w_zk2\<rparr>)
      = (Inr True, snd w_poll)"
    using w_poll_ends(1) unfolding w_poll_def by (metis prod.collapse)
  have "\<not> h_done (w_handler\<lparr>h_zk := w_zk2\<rparr>)" "o_state (h_request (w_handler\<lparr>h_zk := w_zk2\<rparr>)) \<noteq> Some FULFILLED"
    by (simp_all add: w_handler_def handler_init_def w_request_def)
  from poll_fulfills_only_ready [OF p this w_poll_ends(2)] show ?thesis by (simp add: list_all_iff)
qed

subsection \<open>Declining\<close>

text \<open>
  A declined request records this launcher once; it has failed when every registered launcher pool
  has declined it, and is requested again otherwise. The handler is done, its nodes are given back.
\<close>
theorem decline_decides:
  assumes "r_declined_by (h_request h) = JList xs"
  shows "\<exists>h1 h2. mark_declined cfg now h = (None, h1) \<and> declineRequest K L cfg now h = (None, h2) \<and>
    (let xs' = (if JStr (hc_launcher_id cfg) \<in> set xs then xs else xs @ [JStr (hc_launcher_id cfg)]) in
     r_declined_by (h_request h1) = JList xs' \<and>
     o_state (h_request h1) = Some (if JStr ` set (hc_registered cfg) \<subseteq> set xs' then FAILED else REQUESTED)) \<and>
    h_done h2 \<and> h_nodeset h2 = []"
  using assms
  by (simp add: declineRequest_def mark_declined_def Let_def set_request_simps declinedHandlerCleanup_done)

theorem decline_decides_witness:
  "\<exists>h1. mark_declined w_handler_config 9 w_handler = (None, h1) \<and>
     o_state (h_request h1) = Some REQUESTED"
proof -
  have "r_declined_by (h_request w_handler) = JList []"
    by (simp add: w_handler_def handler_init_def w_request_def node_request_init_def)
  from decline_decides [OF this, of w_handler_config 9] show ?thesis
    by (auto simp: Let_def w_handler_config_def)
qed

end
