(* ===== verification/LauncherClaims.thy ===== *)
theory LauncherClaims
  imports LauncherProps
begin

section \<open>Properties of launching and cleaning up\<close>

text \<open>
  The state machine driver: the attempts of a launch, the states a launch gives a node, and the
  resources that are deleted as leaked.
\<close>

subsection \<open>Launching\<close>

definition w_create :: "unit state_machine" where
  "w_create = \<lparr> sm_state = ''done'', sm_external_id = JNull, sm_complete = True, sm_start_time = 0, sm_more = () \<rparr>"

definition w_building :: node where
  "w_building = (node_init None)\<lparr>o_state := Some BUILDING, o_state_time := JNum 1, n_lock := True,
     n_thread_lock := True, n_provider := JStr ''prov'', n_pool := JStr ''main'', n_type := [JStr ''small'']\<rparr>"

text \<open>A launch with one attempt whose machine is complete and whose scan is number \<open>i\<close>.\<close>

definition w_launch :: "scan_request \<Rightarrow> (unit, nat, mem_zk) launch_world" where
  "w_launch r = \<lparr> lw_l = (launcher_init w_building w_pool w_request1 JNull 1)
       \<lparr>ln_attempts := 1, ln_start_future := Some Finished, ln_state_machine := Some w_create, ln_scan := Some 0\<rparr>,
     lw_p = w_state\<lparr>p_scan := w_scan_worker\<lparr>sw_requests := (\<lambda>i. r)\<rparr>\<rparr>, lw_zk = w_zk \<rparr>"

definition w_scanned :: scan_request where
  "w_scanned = (w_scan_request 0)\<lparr>sc_state := SCAN_COMPLETE, sc_complete := True, sc_keys := [''ssh-rsa KEY'']\<rparr>"

definition w_run_launch ::
  "scan_request \<Rightarrow> bool res \<times> (unit, nat, mem_zk) launch_world" where
  "w_run_launch r = launcher_run mem_kazoo w_adapter (\<lambda>ip. None) w_provider_config None 9 10 (w_launch r)"

text \<open>
  C13: A call of a launcher's state machine never makes it exceed its number of attempts, whatever the
  adapter, the server and the scan do: the configured retries, and one attempt in any case.
\<close>
theorem launch_attempts_bounded:
  assumes "launcher_run K A resolve cfg ic now clk w = (r, w')" and "ln_attempts (lw_l w) \<le> max 1 (ln_retries (lw_l w))"
  shows "ln_attempts (lw_l w') \<le> max 1 (ln_retries (lw_l w')) \<and> ln_retries (lw_l w') = ln_retries (lw_l w)"
  by (rule launcher_run_attempts [OF assms])

theorem launch_attempts_bounded_witness:
  "ln_attempts (lw_l (snd (w_run_launch w_scanned))) \<le> 1"
proof -
  have run: "launcher_run mem_kazoo w_adapter (\<lambda>ip. None) w_provider_config None 9 10 (w_launch w_scanned)
      = (fst (w_run_launch w_scanned), snd (w_run_launch w_scanned))" by (simp add: w_run_launch_def)
  have "ln_attempts (lw_l (w_launch w_scanned)) \<le> max 1 (ln_retries (lw_l (w_launch w_scanned)))"
    "ln_retries (lw_l (w_launch w_scanned)) = 1"
    by (simp_all add: w_launch_def launcher_init_def)
  with launch_attempts_bounded [OF run this(1)] show ?thesis by auto
qed

text \<open>
  C14: The states a launch can give a node: after a call the node is in the state it was in, or ready,
  failed or aborted.
\<close>
theorem launch_node_states:
  assumes "launcher_run K A resolve cfg ic now clk w = (r, w')"
  shows "o_state (ln_node (lw_l w')) \<in>
    {o_state (ln_node (lw_l w)), Some READY, Some FAILED, Some ABORTED}"
proof -
  have "keeps_inv (on_l (state_in {o_state (ln_node (lw_l w)), Some READY})) (launcher_run K A resolve cfg ic now clk)"
    by (rule states.keeps_launcher_run) (simp add: state_in_def)
  from keepsE [OF this _ assms] show ?thesis by (auto simp: state_in_def)
qed

theorem launch_node_states_witness:
  "o_state (ln_node (lw_l (snd (w_run_launch w_scanned)))) \<in> {Some BUILDING, Some READY, Some FAILED, Some ABORTED}"
proof -
  have run: "launcher_run mem_kazoo w_adapter (\<lambda>ip. None) w_provider_config None 9 10 (w_launch w_scanned)
      = (fst (w_run_launch w_scanned), snd (w_run_launch w_scanned))" by (simp add: w_run_launch_def)
  have "o_state (ln_node (lw_l (w_launch w_scanned))) = Some BUILDING"
    by (simp add: w_launch_def launcher_init_def w_building_def)
  with launch_node_states [OF run] show ?thesis by simp
qed

text \<open>
  C15: A launch makes a node ready only when its create machine was complete and its key scan had
  ended without an exception when the call began.
\<close>
theorem ready_only_after_scan:
  assumes "launcher_run K A resolve cfg ic now clk w = (r, w')"
    and "o_state (ln_node (lw_l w)) \<noteq> Some READY" and "o_state (ln_node (lw_l w')) = Some READY"
  shows "machine_complete (lw_l w) \<and> (\<exists>s. scan_of w = Some s \<and> sc_complete s \<and> sc_exception s = None)"
  using launcher_run_ready [OF assms] by (auto simp: launch_done_def split: option.splits)

lemma w_run_ready: "o_state (ln_node (lw_l (snd (w_run_launch w_scanned)))) = Some READY"
  by code_simp

theorem ready_only_after_scan_witness:
  "\<exists>s. scan_of (w_launch w_scanned) = Some s \<and> sc_complete s \<and> sc_exception s = None"
proof -
  have run: "launcher_run mem_kazoo w_adapter (\<lambda>ip. None) w_provider_config None 9 10 (w_launch w_scanned)
      = (fst (w_run_launch w_scanned), snd (w_run_launch w_scanned))" by (simp add: w_run_launch_def)
  have "o_state (ln_node (lw_l (w_launch w_scanned))) \<noteq> Some READY"
    by (simp add: w_launch_def launcher_init_def w_building_def)
  from ready_only_after_scan [OF run this w_run_ready] show ?thesis by blast
qed

text \<open>
  A launch ends: when the last attempt fails (other than by a lost session or for want of quota)
  and left no instance, the call returns true, the node has failed and the launcher is complete. The
  server is left as it was, so the failure is not stored.
\<close>
theorem last_failure_ends:
  assumes "launch_body K A resolve cfg now clk w = (Inl e, w1)"
    and "e \<noteq> SessionExpiredError" and "e \<noteq> QuotaException" and "e \<noteq> LaunchKeyscanException"
    and "ln_retries (lw_l w1) \<le> ln_attempts (lw_l w1)" and "\<not> truthy (machine_external_id (lw_l w1))"
  shows "\<exists>w'. launcher_run K A resolve cfg ic now clk w = (Inr True, w') \<and>
    o_state (ln_node (lw_l w')) = Some FAILED \<and> launcher_complete (lw_l w') \<and> lw_zk w' = lw_zk w1"
proof -
  have fail: "on_node (assign_state FAILED now) v =
      (Inr (), v\<lparr>lw_l := (lw_l v)\<lparr>ln_node := (ln_node (lw_l v))\<lparr>o_state := Some FAILED, o_state_time := JNum now\<rparr>\<rparr>\<rparr>)"
    for v :: "('a, 'b, 'c) launch_world"
    unfolding on_node_def eff_obj_def assign_state_def set_state_state_str by (simp add: NODE_STATES_def)
  show ?thesis
    using assms
    by (simp add: launcher_run_def launch_failed_def get_l_def drop_scan_def eff_bind_def eff_try_def eff_simps
        eff_when_def fail launcher_complete_def)
qed

theorem last_failure_ends_witness:
  "\<exists>w'. launcher_run mem_kazoo w_adapter (\<lambda>ip. None) w_provider_config None 9 1000
     (w_launch (w_scan_request 0)) = (Inr True, w') \<and> o_state (ln_node (lw_l w')) = Some FAILED"
proof -
  let ?b = "launch_body mem_kazoo w_adapter (\<lambda>ip. None) w_provider_config 9 1000 (w_launch (w_scan_request 0))"
  have b: "?b = (Inl ServerCreateTimeoutException, snd ?b)"
    by (simp add: launch_body_def get_l_def upd_l_def eff_bind_def eff_simps w_launch_def launcher_init_def
        w_create_def scan_done_def scan_of_def w_scan_request_def w_provider_config_def)
  have "ln_retries (lw_l (snd ?b)) \<le> ln_attempts (lw_l (snd ?b))" "\<not> truthy (machine_external_id (lw_l (snd ?b)))"
    by (simp_all add: launch_body_def get_l_def upd_l_def eff_bind_def eff_simps w_launch_def launcher_init_def
        w_create_def scan_done_def scan_of_def w_scan_request_def w_provider_config_def machine_external_id_def)
  with last_failure_ends [OF b _ _ _ this, of None] show ?thesis by auto
qed

subsection \<open>Leaked resources\<close>

text \<open>
  C16: A run of the clean-up asks the adapter to delete exactly the resources of this provider whose
  node (or upload) ZooKeeper does not know now and that the previous run has remembered as leaked, and
  remembers exactly those leaked now; an adapter that raises stops nothing.
\<close>
theorem leaked_twice_deleted:
  assumes "nodeIterator K (v_nodes v) False True now (v_zk v) = Inr ns"
    and "getProviderUploads K (pr_name cfg) now (v_zk v) = Inr uploads"
    and "ad_listResources A (p_cloud p) = Inr rs" and "records A"
  shows "\<exists>p'. cleanupLeakedResources K A cfg now v p = (Inr (), p') \<and>
    set (p_leaked_nodes p') =
      {k. \<exists>r \<in> set rs. owned (pr_name cfg) r \<and> leaked_node (known_node_ids (pr_name cfg) ns) r = Some k} \<and>
    set (p_leaked_uploads p') =
      {k. \<exists>r \<in> set rs. owned (pr_name cfg) r \<and> leaked_upload (known_upload_ids uploads) r = Some k} \<and>
    set (p_cloud p') = set (p_cloud p) \<union>
      {r \<in> set rs. owned (pr_name cfg) r \<and>
         (leaked_node (known_node_ids (pr_name cfg) ns) r \<in> Some ` set (p_leaked_nodes p) \<or>
          leaked_upload (known_upload_ids uploads) r \<in> Some ` set (p_leaked_uploads p))}"
  using cleanup_leaked [OF assms] unfolding twice_leaked_def .

definition w_resource :: cloud_resource where
  "w_resource = \<lparr> re_metadata = [(''nodepool_provider_name'', ''prov''), (''nodepool_node_id'', ''5'')],
     re_type = ''vm'' \<rparr>"

definition w_leaky :: "(unit, cloud_resource list) adapter" where
  "w_leaky = \<lparr> ad_getCreate = (\<lambda>a clk. eff_ret (sm_init clk ())), ad_getDelete = (\<lambda>x clk. eff_ret (sm_init clk ())),
     ad_advance = (\<lambda>clk m c. (Inr None, m, c)), ad_listInstances = (\<lambda>c. Inr []),
     ad_listResources = (\<lambda>c. Inr [w_resource]),
     ad_deleteResource = (\<lambda>r c. (Inl RuntimeError, c @ [r])), ad_getQuotaLimits = (\<lambda>c. Inl NotImplementedError),
     ad_getQuotaForLabel = (\<lambda>lb c. Inl NotImplementedError), ad_getAZs = (\<lambda>c. Inr [JNull]),
     ad_labelReady = (\<lambda>lb c. Inr True), ad_uploadImage = (\<lambda>p n f t m h1 h2. eff_ret JNull),
     ad_deleteImage = (\<lambda>i. eff_ret ()), ad_notifyNodescanFailure = (\<lambda>lb x. eff_ret ()),
     ad_getConsoleLog = (\<lambda>lb x. eff_ret ()) \<rparr>"

definition w_leaky_state :: "(unit, cloud_resource list) provider" where
  "w_leaky_state = \<lparr> p_objs = (\<lambda>i. None), p_next = 0, p_launchers = [], p_deleters = [],
     p_scan = w_scan_worker, p_next_scan = 2, p_running = True, p_label_quota = [],
     p_quota_cache = quota_cache_init, p_error_labels = [], p_leaked_nodes = [''5''],
     p_leaked_uploads = [], p_cloud = [] \<rparr>"

lemma w_nothing_known:
  "nodeIterator mem_kazoo None False True 9 w_zk = Inr []"
  "getProviderUploads mem_kazoo ''prov'' 9 w_zk = Inr []"
  by code_simp+

theorem leaked_twice_deleted_witness:
  "\<exists>p'. cleanupLeakedResources mem_kazoo w_leaky w_provider_config 9 w_view w_leaky_state = (Inr (), p') \<and>
     set (p_cloud p') = {w_resource} \<and> set (p_leaked_nodes p') = {''5''}"
proof -
  have a: "nodeIterator mem_kazoo (v_nodes w_view) False True 9 (v_zk w_view) = Inr []"
    "getProviderUploads mem_kazoo (pr_name w_provider_config) 9 (v_zk w_view) = Inr []"
    "ad_listResources w_leaky (p_cloud w_leaky_state) = Inr [w_resource]" "records w_leaky"
    using w_nothing_known by (simp_all add: w_view_def w_provider_config_def w_leaky_def records_def)
  have r: "owned ''prov'' w_resource" "leaked_node [] w_resource = Some ''5''"
    by (simp_all add: owned_def leaked_node_def leaked_key_def w_resource_def meta_get_def)
  from leaked_twice_deleted [OF a] obtain p' where
    "cleanupLeakedResources mem_kazoo w_leaky w_provider_config 9 w_view w_leaky_state = (Inr (), p')"
    "set (p_leaked_nodes p') = {''5''}" "set (p_cloud p') = {w_resource}"
    using r by (auto simp: w_provider_config_def known_node_ids_def w_leaky_state_def)
  then show ?thesis by blast
qed

end
