(* ===== verification/PoolWorker.thy ===== *)
theory PoolWorker
  imports RequestHandler
begin

section \<open>Pool workers\<close>

text \<open>
  \<open>PoolWorker\<close> of \<open>nodepool/launcher.py\<close>: the thread of a pool that picks up node requests, gives each
  to a request handler and polls the handlers. A worker is independent of the driver: what it uses of
  a provider manager is a record of functions. Its handlers are objects in a store; the paused ones
  and the active ones are lists of their numbers. All handlers of a worker share the provider's
  state, the caches and the server, which the worker holds and lends to a handler while one of its
  methods runs. The generator \<open>_assignHandlers\<close> is the loop over the sorted requests with the work its
  caller does at every point where it yields.
\<close>

subsection \<open>State and parameters\<close>

record pool_component =
  pcp_id :: string
  pcp_provider_name :: string
  pcp_supported_labels :: "string list"
  pcp_priority :: rat
  pcp_paused :: bool

record label_quota =
  lq_entries :: "(string \<times> num) list"
  lq_default :: "num option"               \<comment> \<open>of a \<open>defaultdict\<close>\<close>

text \<open>What the worker uses of a provider manager; \<open>'p\<close> is the state its handlers share.\<close>

record ('d, 'p, 'z) manager =
  mg_driver :: "('d, 'z) driver"
  mg_new :: "node_request \<Rightarrow> 'p \<Rightarrow> 'd"
  mg_shared :: "'d \<Rightarrow> 'p"
  mg_share :: "'p \<Rightarrow> 'd \<Rightarrow> 'd"
  mg_alive :: "'d \<Rightarrow> nat"
  mg_quota_support :: bool
  mg_label_quota :: "'p \<Rightarrow> label_quota"
  mg_needed :: "string \<Rightarrow> ('p, quota) eff"

record worker_config =
  wc_handler :: handler_config
  wc_priority :: "rat option"               \<comment> \<open>of the pool\<close>
  wc_provider_priority :: "rat option"
  wc_max_concurrency :: int
  wc_tenant_limits :: "(string \<times> (string \<times> num) list) list"
  wc_other_active :: nat                    \<comment> \<open>active threads of the provider's other pools\<close>

record ('d, 'p, 'z) worker =
  pw_objs :: "nat \<Rightarrow> ('d, 'z) handler_state option"
  pw_next :: nat
  pw_handlers :: "nat list"
  pw_paused :: "nat list"
  pw_component_paused :: bool
  pw_label_quota :: label_quota
  pw_shared :: 'p
  pw_nodes :: "node cache option"
  pw_images :: "cached_image cache option"
  pw_requests :: "node_request cache option"
  pw_zk :: 'z

definition launcher_id :: "worker_config \<Rightarrow> string" where
  "launcher_id wc = hc_launcher_id (wc_handler wc)"

definition getPriority :: "worker_config \<Rightarrow> rat" where
  "getPriority wc =
     (case wc_priority wc of
        Some p \<Rightarrow> p
      | None \<Rightarrow> (case wc_provider_priority wc of Some p \<Rightarrow> p | None \<Rightarrow> 100))"

definition worker_view :: "('d, 'p, 'z) worker \<Rightarrow> 'z zk_view" where
  "worker_view w = \<lparr> v_nodes = pw_nodes w, v_images = pw_images w, v_zk = pw_zk w \<rparr>"

text \<open>The request object of the cache, changed in place.\<close>

definition put_back_request :: "node_request \<Rightarrow> node_request cache option \<Rightarrow> node_request cache option" where
  "put_back_request r rc = map_option (\<lambda>c.
     if map_of (cached_objects c) [str_id (o_id r)] = None then c
     else c\<lparr>cached_objects := AList.update [str_id (o_id r)] r (cached_objects c)\<rparr>) rc"

subsection \<open>Running a handler's method\<close>

definition lend ::
  "('d, 'p, 'z) manager \<Rightarrow> ('d, 'p, 'z) worker \<Rightarrow> ('d, 'z) handler_state \<Rightarrow> ('d, 'z) handler_state" where
  "lend M w h = h\<lparr> h_drv := mg_share M (pw_shared w) (h_drv h), h_cache := pw_nodes w,
                  h_images := pw_images w, h_zk := pw_zk w \<rparr>"

definition give_back ::
  "('d, 'p, 'z) manager \<Rightarrow> ('d, 'z) handler_state \<Rightarrow> ('d, 'p, 'z) worker \<Rightarrow> ('d, 'p, 'z) worker" where
  "give_back M h w = w\<lparr> pw_shared := mg_shared M (h_drv h), pw_nodes := h_cache h,
                       pw_requests := put_back_request (h_request h) (pw_requests w), pw_zk := h_zk h \<rparr>"

definition get_handler :: "nat \<Rightarrow> ('d, 'p, 'z) worker \<Rightarrow> ('d, 'z) handler_state" where
  "get_handler i w = the (pw_objs w i)"

text \<open>A method of handler \<open>i\<close>.\<close>

definition on_handler ::
  "('d, 'p, 'z) manager \<Rightarrow> nat \<Rightarrow> (('d, 'z) handler_state, 'a) eff \<Rightarrow> (('d, 'p, 'z) worker, 'a) eff" where
  "on_handler M i m w =
     (case m (lend M w (get_handler i w)) of
        (r, h) \<Rightarrow> (r, (give_back M h w)\<lparr>pw_objs := (pw_objs w)(i \<mapsto> h)\<rparr>))"

definition hstep_eff :: "('d, 'z) hstep \<Rightarrow> (('d, 'z) handler_state, unit) eff" where
  "hstep_eff f h = (case f h of (None, h') \<Rightarrow> (Inr (), h') | (Some e, h') \<Rightarrow> (Inl e, h'))"

definition new_handler ::
  "('d, 'p, 'z) manager \<Rightarrow> node_request \<Rightarrow> (('d, 'p, 'z) worker, nat) eff" where
  "new_handler M req w =
     (Inr (pw_next w),
      w\<lparr> pw_objs := (pw_objs w)(pw_next w \<mapsto>
             handler_init req (mg_new M req (pw_shared w)) (pw_nodes w) (pw_images w) (pw_zk w)),
         pw_next := Suc (pw_next w) \<rparr>)"

text \<open>\<open>activeThreads\<close> of this worker.\<close>

definition activeThreads :: "('d, 'p, 'z) manager \<Rightarrow> ('d, 'p, 'z) worker \<Rightarrow> nat" where
  "activeThreads M w =
     sum_list (map (\<lambda>i. mg_alive M (mg_share M (pw_shared w) (h_drv (get_handler i w)))) (pw_handlers w))"

subsection \<open>Tenant quota\<close>

text \<open>
  \<open>QuotaInformation(**d)\<close> of a dictionary: the three named resources default to zero, a key \<open>default\<close>
  is the default.
\<close>

definition quota_of_dict :: "pydict \<Rightarrow> quota" where
  "quota_of_dict d =
     (let dflt = (case map_of d ''default'' of Some (JNum q) \<Rightarrow> Fin q | _ \<Rightarrow> Fin 0);
          named = [''cores'', ''instances'', ''ram''];
          val = (\<lambda>k. case map_of d k of None \<Rightarrow> QNum dflt | Some JNull \<Rightarrow> QNum dflt | Some v \<Rightarrow> qval_of_json v)
      in \<lparr> q_quota = [(''compute'', map (\<lambda>k. (k, val k)) named
                @ map (\<lambda>(k, v). (k, qval_of_json v)) (filter (\<lambda>(k, v). k \<notin> set (''default'' # named)) d))],
           q_default = dflt \<rparr>)"

definition quota_of_limits :: "(string \<times> num) list \<Rightarrow> quota" where
  "quota_of_limits limits =
     quota_init (map_of limits ''cores'') (map_of limits ''instances'') (map_of limits ''ram'') PosInf
       (map (\<lambda>(k, v). (k, QNum v)) (filter (\<lambda>(k, v). k \<notin> {''cores'', ''instances'', ''ram''}) limits))"

definition or_raise :: "pyexc option \<times> quota \<Rightarrow> quota res" where
  "or_raise r = (case r of (Some e, q) \<Rightarrow> Inl e | (None, q) \<Rightarrow> Inr q)"

definition add_tenant_node :: "json \<Rightarrow> node \<Rightarrow> quota \<Rightarrow> quota res" where
  "add_tenant_node tenant n used =
     (if \<not> truthy (n_resources n) \<or> n_tenant_name n \<noteq> tenant then Inr used
      else (case n_resources n of
              JDict d \<Rightarrow> or_raise (quota_add (quota_of_dict d) used)
            | _ \<Rightarrow> Inl TypeError))"

definition getUsedQuotaForTenant ::
  "'z kazoo \<Rightarrow> rat \<Rightarrow> json \<Rightarrow> 'z zk_view \<Rightarrow> quota res" where
  "getUsedQuotaForTenant K now tenant v =
     bindE (nodeIterator K (v_nodes v) False True now (v_zk v)) (\<lambda>ns.
       foldE (add_tenant_node tenant) ns no_quota)"

definition needed_by_types ::
  "('d, 'p, 'z) manager \<Rightarrow> string list \<Rightarrow> string list \<Rightarrow> (('d, 'p, 'z) worker, quota) eff" where
  "needed_by_types M pool_labels types =
     eff_fold (\<lambda>t acc. if t \<notin> set pool_labels then eff_ret acc
        else eff_bind (eff_zoom pw_shared (\<lambda>p w. w\<lparr>pw_shared := p\<rparr>) (mg_needed M t)) (\<lambda>q.
               eff_lift (or_raise (quota_add q acc)))) types no_quota"

definition hasTenantQuota ::
  "'z kazoo \<Rightarrow> ('d, 'p, 'z) manager \<Rightarrow> worker_config \<Rightarrow> rat \<Rightarrow> json \<Rightarrow> (string \<times> num) list \<Rightarrow>
     string list \<Rightarrow> (('d, 'p, 'z) worker, bool) eff" where
  "hasTenantQuota K M wc now tenant limits types =
     eff_bind (needed_by_types M (hc_supported (wc_handler wc)) types) (\<lambda>needed.
     eff_bind (eff_read (\<lambda>w. getUsedQuotaForTenant K now tenant (worker_view w))) (\<lambda>used.
     eff_lift (bindE (or_raise (quota_subtract used (quota_of_limits limits))) (\<lambda>q.
       bindE (or_raise (quota_subtract needed q)) non_negative))))"

subsection \<open>Which requests to look at\<close>

text \<open>
  The order: requests this pool has all labels for come first, then by priority. Relative priorities
  that are no numbers cannot be compared.
\<close>

definition missing_labels :: "string list \<Rightarrow> string list \<Rightarrow> string list" where
  "missing_labels pool_labels types = remdups (filter (\<lambda>t. t \<notin> set pool_labels) types)"

definition assign_key :: "string list \<Rightarrow> node_request \<Rightarrow> (nat \<times> string \<times> rat \<times> string) res" where
  "assign_key pool_labels r =
     bindE (str_labels (r_node_types r)) (\<lambda>types.
       bindE (request_priority r) (\<lambda>(precedence, relative, sequence).
         bindE (num_of relative) (\<lambda>p.
           Inr (length (missing_labels pool_labels types), precedence, p, sequence))))"

definition key_le :: "nat \<times> string \<times> rat \<times> string \<Rightarrow> nat \<times> string \<times> rat \<times> string \<Rightarrow> bool" where
  "key_le a b =
     (case a of (n1, s1, p1, q1) \<Rightarrow> case b of (n2, s2, p2, q2) \<Rightarrow>
        n1 < n2 \<or> (n1 = n2 \<and> (s1 < s2 \<or> (s1 = s2 \<and> (p1 < p2 \<or> (p1 = p2 \<and> q1 \<le> q2))))))"

fun insert_by :: "('k \<Rightarrow> 'k \<Rightarrow> bool) \<Rightarrow> 'k \<times> 'v \<Rightarrow> ('k \<times> 'v) list \<Rightarrow> ('k \<times> 'v) list" where
  "insert_by le x [] = [x]"
| "insert_by le x (y # ys) = (if le (fst x) (fst y) then x # y # ys else y # insert_by le x ys)"

definition sort_by :: "('k \<Rightarrow> 'k \<Rightarrow> bool) \<Rightarrow> ('k \<times> 'v) list \<Rightarrow> ('k \<times> 'v) list" where
  "sort_by le xs = foldr (insert_by le) xs []"

definition sorted_requests :: "string list \<Rightarrow> node_request list \<Rightarrow> node_request list res" where
  "sorted_requests pool_labels rs =
     bindE (mapE (\<lambda>r. map_sum id (\<lambda>k. (k, r)) (assign_key pool_labels r)) rs) (\<lambda>krs.
       Inr (map snd (sort_by key_le krs)))"

text \<open>The other pools that could take a request.\<close>

definition has_declined :: "string \<Rightarrow> node_request \<Rightarrow> bool res" where
  "has_declined i r =
     (case r_declined_by r of JList xs \<Rightarrow> Inr (JStr i \<in> set xs) | _ \<Rightarrow> Inl TypeError)"

definition candidate_pools ::
  "pool_component list \<Rightarrow> json list \<Rightarrow> string list \<Rightarrow> pool_component list" where
  "candidate_pools pools declined types =
     filter (\<lambda>x. set types \<subseteq> set (pcp_supported_labels x) \<and> JStr (pcp_id x) \<notin> set declined) pools"

definition yields_to_provider :: "string \<Rightarrow> node_request \<Rightarrow> pool_component list \<Rightarrow> bool" where
  "yields_to_provider provider_name r candidates =
     (truthy (r_provider r) \<and> r_provider r \<noteq> JStr provider_name \<and>
      list_ex (\<lambda>x. JStr (pcp_provider_name x) = r_provider r) candidates)"

definition yields_to_priority :: "rat \<Rightarrow> pool_component list \<Rightarrow> bool" where
  "yields_to_priority priority candidates =
     list_ex (\<lambda>x. pcp_priority x < priority \<and> \<not> pcp_paused x) candidates"

fun num_pos :: "num \<Rightarrow> bool" where
  "num_pos (Fin q) = (q > 0)"
| "num_pos PosInf = True"
| "num_pos _ = False"

definition labels_free :: "label_quota \<Rightarrow> string list \<Rightarrow> bool" where
  "labels_free lq types =
     list_all (\<lambda>l. num_pos (case map_of (lq_entries lq) l of None \<Rightarrow> PosInf | Some x \<Rightarrow> x)) types"

text \<open>The checks that leave a request to others, or for later.\<close>

definition defers ::
  "worker_config \<Rightarrow> bool \<Rightarrow> pool_component list \<Rightarrow> label_quota \<Rightarrow> node_request \<Rightarrow> json list \<Rightarrow>
     string list \<Rightarrow> bool" where
  "defers wc quota_support pools lq r declined types =
     (let candidates = candidate_pools pools declined types in
      yields_to_provider (hc_provider (wc_handler wc)) r candidates \<or>
      yields_to_priority (getPriority wc) candidates \<or>
      (missing_labels (hc_supported (wc_handler wc)) types \<noteq> [] \<and> candidates \<noteq> []) \<or>
      (quota_support \<and> \<not> labels_free lq types))"

subsection \<open>Assigning a request\<close>

text \<open>The label quota after a request was accepted: one less for every label of every node.\<close>

definition label_minus :: "string \<Rightarrow> label_quota \<Rightarrow> label_quota" where
  "label_minus l lq =
     (case (case map_of (lq_entries lq) l of None \<Rightarrow> lq_default lq | Some x \<Rightarrow> Some x) of
        None \<Rightarrow> lq
      | Some x \<Rightarrow> lq\<lparr>lq_entries := AList.update l (nsub x (Fin 1)) (lq_entries lq)\<rparr>)"

definition charge_labels :: "node list \<Rightarrow> label_quota \<Rightarrow> label_quota" where
  "charge_labels ns lq =
     fold (\<lambda>n lq. fold (\<lambda>t lq. case t of JStr l \<Rightarrow> label_minus l lq | _ \<Rightarrow> lq) (n_type n) lq) ns lq"

definition tenant_defers ::
  "'z kazoo \<Rightarrow> ('d, 'p, 'z) manager \<Rightarrow> worker_config \<Rightarrow> rat \<Rightarrow> node_request \<Rightarrow> string list \<Rightarrow>
     (('d, 'p, 'z) worker, bool) eff" where
  "tenant_defers K M wc now r types =
     (case r_tenant_name r of
        JStr t \<Rightarrow>
          (case map_of (wc_tenant_limits wc) t of
             None \<Rightarrow> eff_ret False
           | Some limits \<Rightarrow>
               if t = [] \<or> \<not> mg_quota_support M then eff_ret False
               else eff_try (eff_bind (hasTenantQuota K M wc now (JStr t) limits types) (\<lambda>ok. eff_ret (\<not> ok)))
                      (\<lambda>e. eff_ret True))
      | _ \<Rightarrow> eff_ret False)"

text \<open>
  Locking the request: false when it is locked by somebody else or gone, or when it turns out not to
  be wanted any more (then it is unlocked again).
\<close>

definition lock_request ::
  "'z kazoo \<Rightarrow> 'z locks \<Rightarrow> ('d, 'p, 'z) manager \<Rightarrow> worker_config \<Rightarrow> rat \<Rightarrow> nat \<Rightarrow>
     (('d, 'p, 'z) worker, bool) eff" where
  "lock_request K L M wc now i =
     (let on_req = (\<lambda>f. on_handler M i (eff_obj h_request (\<lambda>r h. h\<lparr>h_request := r\<rparr>) h_zk (\<lambda>z h. h\<lparr>h_zk := z\<rparr>) f))
      in eff_bind (eff_try (eff_seq (on_req (\<lambda>r z. lockNodeRequest K L r False None False now z)) (eff_ret True))
             (\<lambda>e. if e = ZKLockException \<or> e = NoNodeError then eff_ret False else eff_raise e))
           (\<lambda>locked. if \<not> locked then eff_ret False
              else eff_bind (eff_get (\<lambda>w. h_request (get_handler i w))) (\<lambda>r.
                if o_state r \<noteq> Some REQUESTED
                then eff_seq (on_req (unlockNodeRequest L)) (eff_ret False)
                else eff_bind (eff_lift (has_declined (launcher_id wc) r)) (\<lambda>declined.
                  if declined then eff_seq (on_req (unlockNodeRequest L)) (eff_ret False)
                  else eff_ret True))))"

text \<open>What follows once the request is locked and nothing speaks against it.\<close>

definition accept_request ::
  "'z kazoo \<Rightarrow> 'z locks \<Rightarrow> ('d, 'p, 'z) manager \<Rightarrow> worker_config \<Rightarrow> rat \<Rightarrow> nat \<Rightarrow>
     (('d, 'p, 'z) worker, unit) eff" where
  "accept_request K L M wc now i =
     eff_seq (on_handler M i (hstep_eff (handler_run K L (mg_driver M) (Some (wc_handler wc)) (wc_handler wc) now)))
       (eff_mod (\<lambda>w. let h = get_handler i w in
          w\<lparr> pw_label_quota := (if mg_quota_support M then charge_labels (h_nodeset h) (pw_label_quota w)
                                else pw_label_quota w),
             pw_paused := (if h_paused h then List.insert i (pw_paused w) else pw_paused w),
             pw_handlers := pw_handlers w @ [i] \<rparr>))"

definition limited :: "('d, 'p, 'z) manager \<Rightarrow> worker_config \<Rightarrow> ('d, 'p, 'z) worker \<Rightarrow> bool" where
  "limited M wc w =
     (wc_max_concurrency wc > 0 \<and>
      int (activeThreads M w + wc_other_active wc) \<ge> wc_max_concurrency wc)"

definition consider_request ::
  "'z kazoo \<Rightarrow> 'z locks \<Rightarrow> ('d, 'p, 'z) manager \<Rightarrow> worker_config \<Rightarrow> rat \<Rightarrow> node_request \<Rightarrow>
     (('d, 'p, 'z) worker, unit) eff" where
  "consider_request K L M wc now r =
     eff_bind (new_handler M r) (\<lambda>i.
     eff_bind (on_handler M i (getDeclinedReasons (mg_driver M) (wc_handler wc) now)) (\<lambda>reasons.
     eff_bind (eff_get (\<lambda>w. pw_paused w \<noteq> [] \<or> limited M wc w)) (\<lambda>busy.
     if busy \<and> reasons = [] then eff_ret ()
     else eff_bind (lock_request K L M wc now i) (\<lambda>locked.
       if \<not> locked then eff_ret ()
       else if reasons = [] then accept_request K L M wc now i
       else on_handler M i (hstep_eff (declineRequest K L (wc_handler wc) now))))))"

definition assign_request ::
  "'z kazoo \<Rightarrow> 'z locks \<Rightarrow> ('d, 'p, 'z) manager \<Rightarrow> worker_config \<Rightarrow> pool_component list \<Rightarrow> rat \<Rightarrow>
     node_request \<Rightarrow> (('d, 'p, 'z) worker, unit) eff" where
  "assign_request K L M wc pools now r =
     (if o_state r \<noteq> Some REQUESTED then eff_ret ()
      else eff_bind (eff_lift (has_declined (launcher_id wc) r)) (\<lambda>declined.
        if declined then eff_ret ()
        else eff_bind (eff_lift (str_labels (r_node_types r))) (\<lambda>types.
          eff_bind (eff_get pw_label_quota) (\<lambda>lq.
            if defers wc (mg_quota_support M) pools lq r (as_list (r_declined_by r)) types then eff_ret ()
            else eff_bind (tenant_defers K M wc now r types) (\<lambda>defer.
              if defer then eff_ret () else consider_request K L M wc now r)))))"

subsection \<open>The handlers in progress\<close>

definition poll_handler ::
  "'z kazoo \<Rightarrow> 'z locks \<Rightarrow> ('d, 'p, 'z) manager \<Rightarrow> worker_config \<Rightarrow> rat \<Rightarrow> nat \<Rightarrow> nat list \<Rightarrow>
     (('d, 'p, 'z) worker, nat list) eff" where
  "poll_handler K L M wc now i active =
     eff_try (eff_bind (on_handler M i (handler_poll K L (mg_driver M) (wc_handler wc) now)) (\<lambda>finished.
         if finished then eff_ret active
         else eff_seq (eff_mod (\<lambda>w. w\<lparr>pw_paused := (if h_paused (get_handler i w)
                                       then List.insert i (pw_paused w) else pw_paused w)\<rparr>))
                (eff_ret (active @ [i]))))
       (\<lambda>e. if e = SessionExpiredError then eff_ret active else eff_ret (active @ [i]))"

definition removeCompletedHandlers ::
  "'z kazoo \<Rightarrow> 'z locks \<Rightarrow> ('d, 'p, 'z) manager \<Rightarrow> worker_config \<Rightarrow> rat \<Rightarrow> (('d, 'p, 'z) worker, unit) eff" where
  "removeCompletedHandlers K L M wc now =
     eff_bind (eff_get pw_handlers) (\<lambda>hs.
       eff_bind (eff_fold (poll_handler K L M wc now) hs []) (\<lambda>active.
         eff_mod (\<lambda>w. w\<lparr>pw_handlers := active\<rparr>)))"

text \<open>Paused handlers are run again, the most urgent request first.\<close>

definition paused_order :: "('d, 'p, 'z) worker \<Rightarrow> nat list res" where
  "paused_order w =
     bindE (mapE (\<lambda>i. bindE (request_priority (h_request (get_handler i w))) (\<lambda>(precedence, relative, sequence).
                      bindE (num_of relative) (\<lambda>p. Inr ((0::nat, precedence, p, sequence), i)))) (pw_paused w))
       (\<lambda>kis. Inr (map snd (sort_by key_le kis)))"

definition retry_paused ::
  "'z kazoo \<Rightarrow> 'z locks \<Rightarrow> ('d, 'p, 'z) manager \<Rightarrow> worker_config \<Rightarrow> rat \<Rightarrow> nat \<Rightarrow> (('d, 'p, 'z) worker, unit) eff" where
  "retry_paused K L M wc now i =
     eff_seq (on_handler M i (hstep_eff (handler_run K L (mg_driver M) (Some (wc_handler wc)) (wc_handler wc) now)))
       (eff_mod (\<lambda>w. if h_paused (get_handler i w) then w else w\<lparr>pw_paused := remove1 i (pw_paused w)\<rparr>))"

definition process_paused_handlers ::
  "'z kazoo \<Rightarrow> 'z locks \<Rightarrow> ('d, 'p, 'z) manager \<Rightarrow> worker_config \<Rightarrow> rat \<Rightarrow> (('d, 'p, 'z) worker, unit) eff" where
  "process_paused_handlers K L M wc now =
     eff_bind (eff_get pw_paused) (\<lambda>ps.
     eff_seq (eff_when (ps \<noteq> [])
        (eff_seq (eff_mod (\<lambda>w. w\<lparr>pw_component_paused := True\<rparr>))
           (eff_bind (eff_read paused_order) (eff_each (retry_paused K L M wc now)))))
     (eff_mod (\<lambda>w. if pw_paused w = [] then w\<lparr>pw_component_paused := False\<rparr> else w)))"

subsection \<open>The main loop\<close>

text \<open>
  \<open>assignHandlers\<close> together with the loop over its chunks: \<open>yields k\<close> says that the time was up before
  request number \<open>k\<close>.
\<close>

fun assign_loop ::
  "'z kazoo \<Rightarrow> 'z locks \<Rightarrow> ('d, 'p, 'z) manager \<Rightarrow> worker_config \<Rightarrow> pool_component list \<Rightarrow> rat \<Rightarrow>
     (nat \<Rightarrow> bool) \<Rightarrow> nat \<Rightarrow> node_request list \<Rightarrow> (('d, 'p, 'z) worker, unit) eff" where
  "assign_loop K L M wc pools now yields k [] = eff_ret ()"
| "assign_loop K L M wc pools now yields k (r # rs) =
     eff_seq (eff_when (yields k)
        (eff_seq (removeCompletedHandlers K L M wc now) (process_paused_handlers K L M wc now)))
     (eff_seq (assign_request K L M wc pools now r)
        (assign_loop K L M wc pools now yields (Suc k) rs))"

definition assignHandlers ::
  "'z kazoo \<Rightarrow> 'z locks \<Rightarrow> ('d, 'p, 'z) manager \<Rightarrow> worker_config option \<Rightarrow> pool_component list \<Rightarrow> rat \<Rightarrow>
     (nat \<Rightarrow> bool) \<Rightarrow> (('d, 'p, 'z) worker, unit) eff" where
  "assignHandlers K L M config pools now yields =
     (case config of
        None \<Rightarrow> eff_ret ()
      | Some wc \<Rightarrow>
          if wc_max_concurrency wc = 0 then eff_ret ()
          else eff_seq (eff_when (mg_quota_support M)
                 (eff_mod (\<lambda>w. w\<lparr>pw_label_quota := mg_label_quota M (pw_shared w)\<rparr>)))
               (eff_bind (eff_read (\<lambda>w. bindE (nodeRequestIterator K (pw_requests w) True False now (pw_zk w))
                            (sorted_requests (hc_supported (wc_handler wc)))))
                  (assign_loop K L M wc pools now yields 0)))"

text \<open>
  One round of \<open>run\<close>: an exception is logged. \<open>registered\<close> says whether the worker sees its own
  registration; the waiting while ZooKeeper is suspended and the statistics are left out.
\<close>

definition worker_round ::
  "'z kazoo \<Rightarrow> 'z locks \<Rightarrow> ('d, 'p, 'z) manager \<Rightarrow> worker_config \<Rightarrow> pool_component list \<Rightarrow> rat \<Rightarrow>
     (nat \<Rightarrow> bool) \<Rightarrow> bool \<Rightarrow> (('d, 'p, 'z) worker, unit) eff" where
  "worker_round K L M wc pools now yields registered =
     (if \<not> registered then eff_ret ()
      else eff_ignore (eff_seq (process_paused_handlers K L M wc now)
        (eff_seq (assignHandlers K L M (Some wc) pools now yields)
           (removeCompletedHandlers K L M wc now))))"

text \<open>When the worker stops, the paused handlers give their nodes back.\<close>

definition worker_exit ::
  "'z kazoo \<Rightarrow> 'z locks \<Rightarrow> ('d, 'p, 'z) manager \<Rightarrow> rat \<Rightarrow> (('d, 'p, 'z) worker, unit) eff" where
  "worker_exit K L M now =
     eff_bind (eff_get pw_paused) (eff_each (\<lambda>i.
       on_handler M i (\<lambda>h. (Inr (), unlockNodeSet K L now True h))))"

end
