(* ===== verification/Cleanup.thy ===== *)
theory Cleanup
  imports RequestHandler
begin

section \<open>The cleanup workers\<close>

text \<open>
  \<open>CleanupWorker\<close> and \<open>DeletedNodeWorker\<close> of \<open>nodepool/launcher.py\<close>: the periodic tasks that reset lost
  requests, remove stale locks, mark old nodes for deletion, remove empty nodes, and hand deletable
  nodes to their provider. The state of a task is the server with the caches of the client, the node
  object a loop is at, and the node objects of a scan for ready nodes; a node object that comes from
  the cache is changed there too. \<open>'p\<close> is the state of the providers. The clock \<open>now\<close> is fixed during
  a task.
\<close>

subsection \<open>State\<close>

record ('p, 'z) cleanup_world =
  cw_cur :: node                            \<comment> \<open>the node of the loop\<close>
  cw_objs :: "(string \<times> node) list"         \<comment> \<open>the node objects of a scan, by id\<close>
  cw_nodes :: "node cache option"
  cw_requests :: "node_request cache option"
  cw_prov :: 'p
  cw_zk :: 'z

type_synonym ('p, 'z, 'a) cl_eff = "(('p, 'z) cleanup_world, 'a) eff"

definition on_cur :: "(node \<Rightarrow> 'z \<Rightarrow> pyexc option \<times> node \<times> 'z) \<Rightarrow> ('p, 'z, unit) cl_eff" where
  "on_cur f w =
     (case f (cw_cur w) (cw_zk w) of
        (ex, n, z) \<Rightarrow> (case ex of None \<Rightarrow> Inr () | Some e \<Rightarrow> Inl e,
          w\<lparr> cw_cur := n, cw_nodes := put_back n (cw_nodes w), cw_zk := z,
             cw_objs := (if map_of (cw_objs w) (str_id (o_id n)) = None then cw_objs w
                         else AList.update (str_id (o_id n)) n (cw_objs w)) \<rparr>))"

definition set_cur :: "node \<Rightarrow> ('p, 'z, unit) cl_eff" where
  "set_cur n = eff_mod (\<lambda>w. w\<lparr>cw_cur := n\<rparr>)"

definition cur :: "(node \<Rightarrow> 'a) \<Rightarrow> ('p, 'z, 'a) cl_eff" where
  "cur f = eff_get (\<lambda>w. f (cw_cur w))"

definition assign_to :: "zk_state \<Rightarrow> rat \<Rightarrow> node \<Rightarrow> 'z \<Rightarrow> pyexc option \<times> node \<times> 'z" where
  "assign_to st now n z =
     (case set_state NODE_STATES (JStr (state_str st)) now n of
        Inl e \<Rightarrow> (Some e, n, z) | Inr n' \<Rightarrow> (None, n', z))"

text \<open>\<open>lockNode(node, blocking=False)\<close> under \<open>except ZKLockException\<close>: whether the lock was taken.\<close>

definition try_lock :: "'z kazoo \<Rightarrow> 'z locks \<Rightarrow> rat \<Rightarrow> ('p, 'z, bool) cl_eff" where
  "try_lock K L now =
     eff_try (eff_seq (on_cur (\<lambda>n z. lockNode K L n False None True None False now z)) (eff_ret True))
       (\<lambda>e. if e = ZKLockException then eff_ret False else eff_raise e)"

definition unlock_cur :: "'z locks \<Rightarrow> ('p, 'z, unit) cl_eff" where
  "unlock_cur L = on_cur (unlockNode L)"

text \<open>\<open>try: node.state = DELETING; storeNode ... except: log ... finally: unlockNode\<close>.\<close>

definition mark_and_unlock :: "'z kazoo \<Rightarrow> 'z locks \<Rightarrow> rat \<Rightarrow> ('p, 'z, unit) cl_eff" where
  "mark_and_unlock K L now =
     eff_seq (eff_ignore (eff_seq (on_cur (assign_to DELETING now)) (on_cur (storeNode K now))))
       (unlock_cur L)"

definition configured :: "string list \<Rightarrow> node \<Rightarrow> bool" where
  "configured providers n = (n_provider n \<in> JStr ` set providers)"

subsection \<open>Request locks\<close>

definition LOCK_CLEANUP :: rat where
  "LOCK_CLEANUP = 8 * (60 * 60)"

definition cleanupNodeRequestLocks :: "'z kazoo \<Rightarrow> rat \<Rightarrow> 'z \<Rightarrow> 'z res" where
  "cleanupNodeRequestLocks K now z =
     bindE (getNodeRequests K z) (\<lambda>requests.
     bindE (nodeRequestLockStatsIterator K z) (\<lambda>locks.
       foldE (\<lambda>l z1. if ls_lock_id l \<in> set requests then Inr z1
                else if now - mtime (ls_stat l) / 1000 > LOCK_CLEANUP
                then deleteNodeRequestLock K (ls_lock_id l) z1 else Inr z1) locks z))"

subsection \<open>Lost requests\<close>

text \<open>
  The loop over the nodes of a lost request; false when it returns early because a node is locked.
  The nodes are read one by one.
\<close>

definition deallocate_cur :: "'z kazoo \<Rightarrow> 'z locks \<Rightarrow> rat \<Rightarrow> json \<Rightarrow> ('p, 'z, bool) cl_eff" where
  "deallocate_cur K L now req_id =
     eff_bind (eff_try (eff_seq (on_cur (\<lambda>n z. lockNode K L n True None True None True now z)) (eff_ret True))
         (\<lambda>e. if e = ZKLockException then eff_ret False else eff_raise e)) (\<lambda>locked.
     if \<not> locked then eff_ret False
     else eff_bind (cur n_allocated_to) (\<lambda>owner.
       if owner \<noteq> req_id then eff_seq (unlock_cur L) (eff_ret True)
       else eff_bind (cur o_state) (\<lambda>st.
         eff_seq (eff_when (st = Some INIT) (on_cur (assign_to DELETING now)))
         (eff_seq (on_cur (\<lambda>n z. (None, n\<lparr>n_allocated_to := JNull\<rparr>, z)))
         (eff_seq (eff_ignore (on_cur (storeNode K now)))
         (eff_seq (unlock_cur L) (eff_ret True)))))))"

fun deallocate_nodes ::
  "'z kazoo \<Rightarrow> 'z locks \<Rightarrow> rat \<Rightarrow> json \<Rightarrow> string list \<Rightarrow> ('p, 'z, bool) cl_eff" where
  "deallocate_nodes K L now req_id [] = eff_ret True"
| "deallocate_nodes K L now req_id (i # is') =
     eff_bind (eff_read (\<lambda>w. getNode K None i False False now (cw_zk w))) (\<lambda>r.
       case r of
         None \<Rightarrow> deallocate_nodes K L now req_id is'
       | Some n \<Rightarrow>
           if n_allocated_to n \<noteq> req_id then deallocate_nodes K L now req_id is'
           else eff_seq (set_cur n) (eff_bind (deallocate_cur K L now req_id) (\<lambda>go_on.
                  if go_on then deallocate_nodes K L now req_id is' else eff_ret False)))"

definition resetLostRequest ::
  "'z kazoo \<Rightarrow> 'z locks \<Rightarrow> rat \<Rightarrow> string option \<Rightarrow> ('p, 'z, unit) cl_eff" where
  "resetLostRequest K L now i =
     eff_bind (eff_read (\<lambda>w. getNodeRequest K None i False now (cw_zk w))) (\<lambda>found.
     case found of
       None \<Rightarrow> eff_raise AttributeError
     | Some r \<Rightarrow>
         if o_state r \<noteq> Some PENDING then eff_ret ()
         else eff_bind (eff_read (\<lambda>w. getNodes K (cw_zk w))) (\<lambda>ids.
           eff_bind (deallocate_nodes K L now (json_id (o_id r)) ids) (\<lambda>go_on.
           if \<not> go_on then eff_ret ()
           else eff_bind (eff_lift (set_state NODE_REQUEST_STATES (JStr (state_str REQUESTED)) now r)) (\<lambda>r1 w.
             (case storeNodeRequest K (r1\<lparr>r_nodes := JList []\<rparr>) ''100'' [] now (cw_zk w) of
                (Some e, r2, z) \<Rightarrow> (Inl e, w\<lparr>cw_zk := z\<rparr>)
              | (None, r2, z) \<Rightarrow> (Inr (), w\<lparr>cw_zk := z\<rparr>))))))"

definition put_request :: "node_request \<Rightarrow> node_request cache option \<Rightarrow> node_request cache option" where
  "put_request r rc = map_option (\<lambda>c.
     if map_of (cached_objects c) [str_id (o_id r)] = None then c
     else c\<lparr>cached_objects := AList.update [str_id (o_id r)] r (cached_objects c)\<rparr>) rc"

text \<open>One request, read from the cache when it is there.\<close>

definition cleanup_request ::
  "'z kazoo \<Rightarrow> 'z locks \<Rightarrow> rat \<Rightarrow> string \<Rightarrow> ('p, 'z, unit) cl_eff" where
  "cleanup_request K L now i =
     eff_bind (eff_read (\<lambda>w. getNodeRequest K (cw_requests w) (Some i) True now (cw_zk w))) (\<lambda>found.
     case found of
       None \<Rightarrow> eff_ret ()
     | Some r \<Rightarrow>
         if o_state r \<noteq> Some PENDING then eff_ret ()
         else eff_bind (eff_try
             (\<lambda>w. case lockNodeRequest K L r False None False now (cw_zk w) of
                    (ex, r1, z) \<Rightarrow> (case ex of None \<Rightarrow> Inr (Some r1) | Some e \<Rightarrow> Inl e,
                                    w\<lparr>cw_requests := put_request r1 (cw_requests w), cw_zk := z\<rparr>))
             (\<lambda>e. if e = ZKLockException then eff_ret None else eff_raise e)) (\<lambda>locked.
           case locked of
             None \<Rightarrow> eff_ret ()
           | Some r1 \<Rightarrow>
               eff_seq (eff_ignore (resetLostRequest K L now (o_id r1)))
                 (\<lambda>w. case unlockNodeRequest L r1 (cw_zk w) of
                        (ex, r2, z) \<Rightarrow> (case ex of None \<Rightarrow> Inr () | Some e \<Rightarrow> Inl e,
                                        w\<lparr>cw_requests := put_request r2 (cw_requests w), cw_zk := z\<rparr>))))"

definition cleanupLostRequests :: "'z kazoo \<Rightarrow> 'z locks \<Rightarrow> rat \<Rightarrow> ('p, 'z, unit) cl_eff" where
  "cleanupLostRequests K L now =
     eff_bind (eff_read (\<lambda>w. getNodeRequests K (cw_zk w))) (eff_each (cleanup_request K L now))"

subsection \<open>Old nodes\<close>

text \<open>The part the ready and the held nodes share: lock, look at the state again, mark, unlock.\<close>

definition expire_cur :: "'z kazoo \<Rightarrow> 'z locks \<Rightarrow> rat \<Rightarrow> zk_state \<Rightarrow> ('p, 'z, unit) cl_eff" where
  "expire_cur K L now st =
     eff_bind (try_lock K L now) (\<lambda>locked.
       if \<not> locked then eff_ret ()
       else eff_bind (cur o_state) (\<lambda>s.
         if s \<noteq> Some st then unlock_cur L else mark_and_unlock K L now))"

definition expire_ready ::
  "'z kazoo \<Rightarrow> 'z locks \<Rightarrow> rat \<Rightarrow> string list \<Rightarrow> rat \<Rightarrow> string \<Rightarrow> ('p, 'z, unit) cl_eff" where
  "expire_ready K L now providers max_ready_age i =
     eff_bind (eff_get (\<lambda>w. map_of (cw_objs w) i)) (\<lambda>found.
     case found of
       None \<Rightarrow> eff_ret ()
     | Some n \<Rightarrow>
         if \<not> configured providers n then eff_ret ()
         else eff_bind (eff_lift (num_of (o_state_time n))) (\<lambda>t.
           if of_int \<lfloor>now\<rfloor> - t < max_ready_age then eff_ret ()
           else eff_seq (set_cur n) (expire_cur K L now READY)))"

text \<open>\<open>labels\<close> maps the names of the configured labels to their \<open>max_ready_age\<close>.\<close>

definition cleanupMaxReadyAge ::
  "'z kazoo \<Rightarrow> 'z locks \<Rightarrow> rat \<Rightarrow> string list \<Rightarrow> (string \<times> rat) list \<Rightarrow> ('p, 'z, unit) cl_eff" where
  "cleanupMaxReadyAge K L now providers labels =
     eff_bind (eff_read (\<lambda>w. getReadyNodesOfTypes K (cw_nodes w)
                 (map fst (filter (\<lambda>(l, age). age > 0) labels)) now (cw_zk w))) (\<lambda>ready.
     eff_seq (eff_mod (\<lambda>w. w\<lparr>cw_objs := objs_of ready\<rparr>))
       (eff_each (\<lambda>(label, ids). eff_bind
            (eff_lift (case map_of labels label of None \<Rightarrow> Inl KeyError | Some age \<Rightarrow> Inr age)) (\<lambda>age.
             eff_each (expire_ready K L now providers age) ids)) (ids_by_label ready)))"

fun num_less :: "num \<Rightarrow> num \<Rightarrow> bool" where
  "num_less (Fin x) (Fin y) = (x < y)"
| "num_less (Fin x) PosInf = True"
| "num_less NegInf (Fin y) = True"
| "num_less NegInf PosInf = True"
| "num_less _ _ = False"

text \<open>Python's \<open>min(a, b)\<close>.\<close>

definition num_min :: "num \<Rightarrow> num \<Rightarrow> num" where
  "num_min a b = (if num_less b a then b else a)"

text \<open>The time a held node may stay: the sooner of its own expiration and the configured maximum.\<close>

definition hold_uptime :: "num \<Rightarrow> node \<Rightarrow> num res" where
  "hold_uptime max_hold_age n =
     (case n_hold_expiration n of
        JNull \<Rightarrow> Inr (num_min PosInf max_hold_age)
      | v \<Rightarrow> bindE (num_of v) (\<lambda>q. Inr (num_min (if q > 0 then Fin q else PosInf) max_hold_age)))"

definition expire_held ::
  "'z kazoo \<Rightarrow> 'z locks \<Rightarrow> rat \<Rightarrow> string list \<Rightarrow> num \<Rightarrow> node \<Rightarrow> ('p, 'z, unit) cl_eff" where
  "expire_held K L now providers max_hold_age n =
     (if \<not> configured providers n then eff_ret ()
      else eff_bind (eff_lift (hold_uptime max_hold_age n)) (\<lambda>up.
        case up of
          Fin limit \<Rightarrow>
            eff_bind (eff_lift (num_of (o_state_time n))) (\<lambda>t.
              if of_int \<lfloor>now\<rfloor> - t < limit then eff_ret ()
              else eff_seq (set_cur n) (expire_cur K L now HOLD))
        | _ \<Rightarrow> eff_ret ()))"

definition cleanupMaxHoldAge ::
  "'z kazoo \<Rightarrow> 'z locks \<Rightarrow> rat \<Rightarrow> string list \<Rightarrow> num \<Rightarrow> ('p, 'z, unit) cl_eff" where
  "cleanupMaxHoldAge K L now providers max_hold_age =
     eff_bind (eff_read (\<lambda>w. nodeIterator K (cw_nodes w) False True now (cw_zk w))) (\<lambda>ns.
       eff_each (expire_held K L now providers max_hold_age) (filter (\<lambda>n. o_state n = Some HOLD) ns))"

subsection \<open>Empty nodes\<close>

definition cleanup_empty :: "'z kazoo \<Rightarrow> rat \<Rightarrow> string \<Rightarrow> 'z \<Rightarrow> 'z res" where
  "cleanup_empty K now i z =
     bindE (getNode K None i False False now z) (\<lambda>r.
       case r of None \<Rightarrow> deleteRawNode K i z | Some n \<Rightarrow> Inr z)"

definition cleanupEmptyNodes :: "'z kazoo \<Rightarrow> rat \<Rightarrow> 'z \<Rightarrow> 'z res" where
  "cleanupEmptyNodes K now z = bindE (getNodes K z) (\<lambda>ids. foldE (cleanup_empty K now) ids z)"

subsection \<open>The tasks of the cleanup worker\<close>

text \<open>
  A task on the server alone; and the list of tasks, each with its exceptions logged. \<open>leaked\<close> are the
  clean-ups of the providers that have a manager.
\<close>

definition on_zk :: "('z \<Rightarrow> 'z res) \<Rightarrow> ('p, 'z, unit) cl_eff" where
  "on_zk f w = (case f (cw_zk w) of Inl e \<Rightarrow> (Inl e, w) | Inr z \<Rightarrow> (Inr (), w\<lparr>cw_zk := z\<rparr>))"

definition cleanup_run ::
  "'z kazoo \<Rightarrow> 'z locks \<Rightarrow> rat \<Rightarrow> string list \<Rightarrow> (string \<times> rat) list \<Rightarrow> num \<Rightarrow> ('p, 'z, unit) cl_eff list \<Rightarrow>
     ('p, 'z, unit) cl_eff" where
  "cleanup_run K L now providers labels max_hold_age leaked =
     eff_each eff_ignore
       [on_zk (cleanupNodeRequestLocks K now), eff_each eff_ignore leaked, cleanupLostRequests K L now,
        cleanupMaxReadyAge K L now providers labels, cleanupMaxHoldAge K L now providers max_hold_age,
        on_zk (cleanupEmptyNodes K now)]"

subsection \<open>The worker that deletes nodes\<close>

definition cleanup_states :: "zk_state list" where
  "cleanup_states = [USED, IN_USE, BUILDING, FAILED, DELETING, DELETED, ABORTED]"

text \<open>\<open>zk_conn.getNodeRequest(node.allocated_to)\<close> is \<open>None\<close>.\<close>

definition request_missing ::
  "'z kazoo \<Rightarrow> rat \<Rightarrow> bool \<Rightarrow> ('p, 'z, bool) cl_eff" where
  "request_missing K now cached =
     eff_read (\<lambda>w. case n_allocated_to (cw_cur w) of
       JStr i \<Rightarrow> map_sum id (\<lambda>r. r = None) (getNodeRequest K (cw_requests w) (Some i) cached now (cw_zk w))
     | _ \<Rightarrow> Inl TypeError)"

definition ready_allocated :: "node \<Rightarrow> bool" where
  "ready_allocated n = (o_state n = Some READY \<and> truthy (n_allocated_to n))"

text \<open>\<open>x and y and not z\<close>, where the last condition asks ZooKeeper.\<close>

definition orphaned :: "'z kazoo \<Rightarrow> rat \<Rightarrow> bool \<Rightarrow> ('p, 'z, bool) cl_eff" where
  "orphaned K now cached =
     eff_bind (cur ready_allocated) (\<lambda>b. if b then request_missing K now cached else eff_ret False)"

definition deallocate_orphan :: "'z kazoo \<Rightarrow> 'z locks \<Rightarrow> rat \<Rightarrow> ('p, 'z, unit) cl_eff" where
  "deallocate_orphan K L now =
     eff_bind (orphaned K now True) (\<lambda>b.
       if \<not> b then eff_ret ()
       else eff_bind (try_lock K L now) (\<lambda>locked.
         if \<not> locked then eff_ret ()
         else eff_bind (orphaned K now False) (\<lambda>still.
           eff_seq (eff_when still
               (eff_seq (on_cur (\<lambda>n z. (None, n\<lparr>n_allocated_to := JNull\<rparr>, z)))
                  (eff_ignore (on_cur (storeNode K now)))))
             (unlock_cur L))))"

text \<open>
  \<open>start\<close> is the provider's \<open>startNodeCleanup\<close>; looking the provider up may fail as well.
  \<open>_deleteInstance\<close> logs every exception of it, so that nothing is left for its caller to handle.
\<close>

definition deleteInstance ::
  "(json \<Rightarrow> node \<Rightarrow> ('p, unit) eff) \<Rightarrow> ('p, 'z, unit) cl_eff" where
  "deleteInstance start =
     eff_bind (eff_get cw_cur) (\<lambda>n.
       eff_ignore (eff_zoom cw_prov (\<lambda>p w. w\<lparr>cw_prov := p\<rparr>) (start (n_provider n) n)))"

definition delete_cur ::
  "'z kazoo \<Rightarrow> 'z locks \<Rightarrow> rat \<Rightarrow> (json \<Rightarrow> node \<Rightarrow> ('p, unit) eff) \<Rightarrow> ('p, 'z, unit) cl_eff" where
  "delete_cur K L now start =
     eff_bind (try_lock K L now) (\<lambda>locked.
     if \<not> locked then eff_ret ()
     else eff_bind (eff_get cw_cur) (\<lambda>n.
       if o_state n = Some DELETED \<or> n_provider n = JNull
       then eff_try (on_cur (deleteNode K now)) (\<lambda>e. eff_ignore (unlock_cur L))
       else if \<not> (o_state n \<in> Some ` set cleanup_states) then unlock_cur L
       else eff_try (deleteInstance start) (\<lambda>e. unlock_cur L)))"

definition cleanup_node ::
  "'z kazoo \<Rightarrow> 'z locks \<Rightarrow> rat \<Rightarrow> (json \<Rightarrow> node \<Rightarrow> ('p, unit) eff) \<Rightarrow> string list \<Rightarrow> string option \<Rightarrow>
     ('p, 'z, unit) cl_eff" where
  "cleanup_node K L now start providers i =
     eff_bind (eff_read (\<lambda>w. getNode K (cw_nodes w) (str_id i) True True now (cw_zk w))) (\<lambda>found.
     case found of
       None \<Rightarrow> eff_ret ()
     | Some n \<Rightarrow>
         if \<not> configured providers n \<or> n_lock_contenders n \<noteq> {} then eff_ret ()
         else eff_seq (set_cur n) (eff_seq (deallocate_orphan K L now)
           (eff_bind (cur o_state) (\<lambda>s.
              eff_when (s \<in> Some ` set cleanup_states) (delete_cur K L now start)))))"

definition cleanupNodes ::
  "'z kazoo \<Rightarrow> 'z locks \<Rightarrow> rat \<Rightarrow> (json \<Rightarrow> node \<Rightarrow> ('p, unit) eff) \<Rightarrow> string list \<Rightarrow> ('p, 'z, unit) cl_eff" where
  "cleanupNodes K L now start providers =
     eff_bind (eff_read (\<lambda>w. node_ids_of K (cw_nodes w) True (cw_zk w)))
       (eff_each (cleanup_node K L now start providers))"

definition deleted_node_worker ::
  "'z kazoo \<Rightarrow> 'z locks \<Rightarrow> rat \<Rightarrow> (json \<Rightarrow> node \<Rightarrow> ('p, unit) eff) \<Rightarrow> string list \<Rightarrow> ('p, 'z, unit) cl_eff" where
  "deleted_node_worker K L now start providers = eff_ignore (cleanupNodes K L now start providers)"

end
