(* ===== verification/MinReady.thy ===== *)
theory MinReady
  imports SmLauncher
begin

section \<open>The launcher's main loop\<close>

text \<open>
  \<open>NodePool\<close> of \<open>nodepool/launcher.py\<close>: the requests that keep a minimum of nodes ready, and the set of
  pool workers that follows the configuration. The requests submitted and not yet completed are a
  dictionary from labels to request objects, in the order the labels were first requested.
\<close>

subsection \<open>State and configuration\<close>

record label_pool =
  lp_provider :: string
  lp_manage_images :: bool
  lp_labels :: "label_config list"

record label_entry =
  le_name :: string
  le_min_ready :: int
  le_max_ready_age :: rat
  le_pools :: "label_pool list"

record 'z nodepool_world =
  np_submitted :: "(string \<times> node_request list) list"
  np_zk :: 'z

type_synonym ('z, 'a) np_eff = "('z nodepool_world, 'a) eff"

definition np_read :: "('z \<Rightarrow> 'a res) \<Rightarrow> ('z, 'a) np_eff" where
  "np_read f = eff_read (\<lambda>w. f (np_zk w))"

definition np_step :: "('z \<Rightarrow> 'z res) \<Rightarrow> ('z, unit) np_eff" where
  "np_step f w = (case f (np_zk w) of Inl e \<Rightarrow> (Inl e, w) | Inr z \<Rightarrow> (Inr (), w\<lparr>np_zk := z\<rparr>))"

subsection \<open>Completed requests\<close>

text \<open>A node of a fulfilled request: a node that is gone raises \<open>AttributeError\<close>.\<close>

definition free_node :: "'z kazoo \<Rightarrow> rat \<Rightarrow> json \<Rightarrow> 'z \<Rightarrow> 'z res" where
  "free_node K now j z =
     (case j of
        JStr i \<Rightarrow>
          bindE (getNode K None i False False now z) (\<lambda>r.
            case r of
              None \<Rightarrow> Inl AttributeError
            | Some n \<Rightarrow> (case storeNode K now (n\<lparr>n_allocated_to := JNull\<rparr>) z of
                          (Some e, n', z') \<Rightarrow> Inl e | (None, n', z') \<Rightarrow> Inr z'))
      | _ \<Rightarrow> Inl TypeError)"

fun free_nodes :: "'z kazoo \<Rightarrow> rat \<Rightarrow> json list \<Rightarrow> ('z, unit) np_eff" where
  "free_nodes K now [] = eff_ret ()"
| "free_nodes K now (j # js) = eff_seq (np_step (free_node K now j)) (free_nodes K now js)"

text \<open>One submitted request: what is left of it.\<close>

definition complete_request ::
  "'z kazoo \<Rightarrow> rat \<Rightarrow> node_request \<Rightarrow> node_request list \<Rightarrow> ('z, node_request list) np_eff" where
  "complete_request K now r active =
     eff_bind (np_read (getNodeRequest K None (o_id r) False now)) (\<lambda>found.
     case found of
       None \<Rightarrow> eff_ret active
     | Some r' \<Rightarrow>
         if o_state r' = Some FULFILLED
         then eff_seq (case r_nodes r' of JList ids \<Rightarrow> free_nodes K now ids | _ \<Rightarrow> eff_raise TypeError)
                (eff_seq (np_step (deleteNodeRequest K r')) (eff_ret active))
         else if o_state r' = Some FAILED
         then eff_seq (np_step (deleteNodeRequest K r')) (eff_ret active)
         else eff_ret (active @ [r']))"

definition complete_label ::
  "'z kazoo \<Rightarrow> rat \<Rightarrow> string \<Rightarrow> ('z, unit) np_eff" where
  "complete_label K now label =
     eff_bind (eff_get (\<lambda>w. the (map_of (np_submitted w) label))) (\<lambda>rs.
     eff_bind (eff_fold (complete_request K now) rs []) (\<lambda>active.
     eff_mod (\<lambda>w. w\<lparr>np_submitted := (if active \<noteq> [] then AList.update label active (np_submitted w)
                                      else AList.delete label (np_submitted w))\<rparr>)))"

definition removeCompletedRequests :: "'z kazoo \<Rightarrow> rat \<Rightarrow> ('z, unit) np_eff" where
  "removeCompletedRequests K now =
     eff_bind (eff_get (\<lambda>w. map fst (np_submitted w))) (eff_each (complete_label K now))"

subsection \<open>Keeping nodes ready\<close>

text \<open>Some provider of the label has an image for it; \<open>ready\<close> is \<open>labelReady\<close> of a provider's manager.\<close>

fun any_label ::
  "'z kazoo \<Rightarrow> cached_image cache option \<Rightarrow> (string \<Rightarrow> label_config \<Rightarrow> bool res) \<Rightarrow> string \<Rightarrow> rat \<Rightarrow> 'z \<Rightarrow>
     label_config list \<Rightarrow> bool res" where
  "any_label K ic ready provider_name now z [] = Inr False"
| "any_label K ic ready provider_name now z (lb # lbs) =
     bindE (case lc_diskimage lb of
              Some d \<Rightarrow> map_sum id (\<lambda>u. u \<noteq> None) (recent_upload K ic d provider_name now z)
            | None \<Rightarrow> ready provider_name lb)
       (\<lambda>ok. if ok then Inr True else any_label K ic ready provider_name now z lbs)"

fun labelImageIsAvailable ::
  "'z kazoo \<Rightarrow> cached_image cache option \<Rightarrow> (string \<Rightarrow> label_config \<Rightarrow> bool res) \<Rightarrow> rat \<Rightarrow> 'z \<Rightarrow>
     label_pool list \<Rightarrow> bool res" where
  "labelImageIsAvailable K ic ready now z [] = Inr False"
| "labelImageIsAvailable K ic ready now z (p # ps) =
     (if \<not> lp_manage_images p then Inr True
      else bindE (any_label K ic ready (lp_provider p) now z (lp_labels p))
             (\<lambda>ok. if ok then Inr True else labelImageIsAvailable K ic ready now z ps))"

definition min_ready_request :: "string \<Rightarrow> rat \<Rightarrow> node_request" where
  "min_ready_request label now =
     (node_request_init None)\<lparr> o_state := Some REQUESTED, o_state_time := JNum now,
        r_requestor := JStr ''NodePool:min-ready'', r_node_types := JList [JStr label],
        r_reuse := JBool False \<rparr>"

text \<open>\<open>uuid k\<close> is the event id of the \<open>k\<close>-th request that is made.\<close>

definition createRequest ::
  "'z kazoo \<Rightarrow> (nat \<Rightarrow> string) \<Rightarrow> rat \<Rightarrow> string \<Rightarrow> nat \<Rightarrow> ('z, unit) np_eff" where
  "createRequest K uuid now label k w =
     (case storeNodeRequest K (min_ready_request label now) ''900'' (uuid k) now (np_zk w) of
        (Some e, r, z) \<Rightarrow> (Inl e, w\<lparr>np_zk := z\<rparr>)
      | (None, r, z) \<Rightarrow>
          (Inr (), w\<lparr> np_zk := z, np_submitted :=
             AList.update label ((case map_of (np_submitted w) label of None \<Rightarrow> [] | Some rs \<Rightarrow> rs) @ [r])
               (np_submitted w) \<rparr>))"

definition nodes_needed :: "int \<Rightarrow> (string \<times> node list) list \<Rightarrow> string \<Rightarrow> nat" where
  "nodes_needed min_ready ready label =
     (case map_of ready label of
        None \<Rightarrow> nat min_ready
      | Some ns \<Rightarrow> nat (min_ready - int (length ns)))"

definition fill_label ::
  "'z kazoo \<Rightarrow> cached_image cache option \<Rightarrow> (string \<Rightarrow> label_config \<Rightarrow> bool res) \<Rightarrow> (nat \<Rightarrow> string) \<Rightarrow> rat \<Rightarrow>
     string list \<Rightarrow> (string \<times> node list) list \<Rightarrow> label_entry \<Rightarrow> ('z, unit) np_eff" where
  "fill_label K ic ready uuid now needed ready_nodes lb =
     (if le_name lb \<notin> set needed \<or> le_min_ready lb \<le> 0 then eff_ret ()
      else let need = nodes_needed (le_min_ready lb) ready_nodes (le_name lb) in
        if need = 0 then eff_ret ()
        else eff_bind (np_read (\<lambda>z. labelImageIsAvailable K ic ready now z (le_pools lb))) (\<lambda>available.
          eff_when available (eff_each (createRequest K uuid now (le_name lb)) [0..<need])))"

definition createMinReady ::
  "'z kazoo \<Rightarrow> node cache option \<Rightarrow> cached_image cache option \<Rightarrow> (string \<Rightarrow> label_config \<Rightarrow> bool res) \<Rightarrow>
     (nat \<Rightarrow> string) \<Rightarrow> rat \<Rightarrow> label_entry list \<Rightarrow> ('z, unit) np_eff" where
  "createMinReady K nc ic ready uuid now labels =
     eff_seq (removeCompletedRequests K now)
       (eff_bind (eff_get (\<lambda>w. filter (\<lambda>l. l \<notin> fst ` set (np_submitted w)) (map le_name labels))) (\<lambda>needed.
        eff_bind (np_read (getReadyNodesOfTypes K nc needed now)) (\<lambda>ready_nodes.
        eff_each (fill_label K ic ready uuid now needed ready_nodes) labels)))"

subsection \<open>The pool workers\<close>

text \<open>
  The threads by key, the provider's name and the pool's joined by a dash. A configuration is a list
  of providers with the names of their pools.
\<close>

record pool_thread =
  pt_provider :: string
  pt_pool :: string
  pt_alive :: bool

definition pool_key :: "string \<Rightarrow> string \<Rightarrow> string" where
  "pool_key provider_name pool = provider_name @ ''-'' @ pool"

definition config_pools :: "(string \<times> string list) list \<Rightarrow> (string \<times> string) list" where
  "config_pools providers = concat (map (\<lambda>(p, pools). map (\<lambda>pool. (p, pool)) pools) providers)"

definition start_pool :: "string \<times> string \<Rightarrow> (string \<times> pool_thread) list \<Rightarrow> (string \<times> pool_thread) list" where
  "start_pool pp threads =
     (let key = pool_key (fst pp) (snd pp);
          t = \<lparr> pt_provider = fst pp, pt_pool = snd pp, pt_alive = True \<rparr>
      in case map_of threads key of
           None \<Rightarrow> threads @ [(key, t)]
         | Some old \<Rightarrow> if pt_alive old then threads else AList.update key t threads)"

definition update_pools ::
  "(string \<times> string list) list \<Rightarrow> (string \<times> pool_thread) list \<Rightarrow> (string \<times> pool_thread) list" where
  "update_pools providers threads =
     (let pools = config_pools providers;
          keys = map (\<lambda>(p, pool). pool_key p pool) pools
      in fold start_pool pools (filter (\<lambda>(key, t). key \<in> set keys) threads))"

definition getPoolWorkers :: "string \<Rightarrow> (string \<times> pool_thread) list \<Rightarrow> pool_thread list" where
  "getPoolWorkers provider_name threads =
     filter (\<lambda>t. pt_provider t = provider_name) (map snd threads)"

end
