(* ===== verification/WorkerClaims.thy ===== *)
theory WorkerClaims
  imports LauncherProps ZkNodesProps PoolWorker Cleanup MinReady "HOL-Library.Product_Lexorder"
begin

section \<open>Properties of the launcher's threads\<close>

text \<open>
  The order in which a pool worker looks at requests, the requests that keep nodes ready, and the
  worker that deletes nodes.
\<close>

subsection \<open>The order of requests\<close>

text \<open>The comparison of keys is Python's on tuples: the lexicographic order.\<close>

lemma key_le_lex: "key_le a b \<longleftrightarrow> a \<le> b"
  by (cases a; cases b) (auto simp: key_le_def less_prod_def' less_eq_prod_def)

lemma sort_by_key_le:
  "sort_by key_le (xs :: ((nat \<times> string \<times> rat \<times> string) \<times> 'v) list) = sort_key fst xs"
proof -
  have "insert_by key_le x ys = insort_key fst x ys" for x :: "(nat \<times> string \<times> rat \<times> string) \<times> 'v" and ys
    by (induction ys) (auto simp: key_le_lex)
  then have "insert_by key_le = (insort_key fst :: (nat \<times> string \<times> rat \<times> string) \<times> 'v \<Rightarrow> _)"
    by (intro ext)
  then show ?thesis by (simp add: sort_by_def sort_key_def)
qed

lemma mapE_keys:
  assumes "\<And>r. g r = (case f r of Inl e \<Rightarrow> Inl e | Inr k \<Rightarrow> Inr (k, r))"
  shows "mapE g rs = Inr krs \<Longrightarrow> krs = map (\<lambda>r. (projr (f r), r)) rs \<and> (\<forall>r \<in> set rs. \<exists>k. f r = Inr k)"
    and "mapE g rs = Inl e \<Longrightarrow> \<exists>r \<in> set rs. \<exists>e. f r = Inl e"
  by (induction rs arbitrary: krs) (auto simp: assms bindE_def split: sum.splits)

lemma key_pairs: "map_sum id (\<lambda>k. (k, r)) x = (case x of Inl e \<Rightarrow> Inl e | Inr k \<Rightarrow> Inr (k, r))"
  by (cases x) simp_all

lemma map_insort_pair:
  "insort_key fst (f r, r) (map (\<lambda>r. (f r, r)) rs) = map (\<lambda>r. (f r, r)) (insort_key f r rs)"
  by (induction rs) auto

lemma map_snd_sort: "map snd (sort_key fst (map (\<lambda>r. (f r, r)) rs)) = sort_key f rs"
proof -
  have "sort_key fst (map (\<lambda>r. (f r, r)) rs) = map (\<lambda>r. (f r, r)) (sort_key f rs)"
    unfolding sort_key_def by (induction rs) (simp_all add: map_insort_pair)
  then show ?thesis by (simp add: o_def)
qed

lemma sorted_requests_key:
  assumes "\<forall>r \<in> set rs. \<exists>k. assign_key labels r = Inr k"
  shows "sorted_requests labels rs = Inr (sort_key (\<lambda>r. projr (assign_key labels r)) rs)"
proof (cases "mapE (\<lambda>r. map_sum id (\<lambda>k. (k, r)) (assign_key labels r)) rs")
  case (Inl e)
  with mapE_keys(2) [OF key_pairs Inl] assms show ?thesis by fastforce
next
  case (Inr krs)
  with mapE_keys(1) [OF key_pairs Inr] show ?thesis
    by (simp add: sorted_requests_def sort_by_key_le map_snd_sort)
qed

text \<open>
  The attributes of a request that its place depends on, as the request holds them: its labels, the
  two parts of its id and its relative priority.
\<close>

definition request_with :: "node_request \<Rightarrow> string list \<Rightarrow> string \<Rightarrow> rat \<Rightarrow> string \<Rightarrow> bool" where
  "request_with r types precedence priority sequence =
     (r_node_types r = JList (map JStr types) \<and> r_relative_priority r = JNum priority \<and>
      o_id r = Some (precedence @ CHR ''-'' # sequence) \<and>
      CHR ''-'' \<notin> set precedence \<and> CHR ''-'' \<notin> set sequence)"

lemma str_labels_strings: "str_labels (JList (map JStr types)) = Inr types"
  by (induction types) (simp_all add: str_labels_def bindE_def split: sum.splits)

lemma assign_key_with:
  assumes "request_with r types precedence priority sequence"
  shows "assign_key labels r = Inr (card (set types - set labels), precedence, priority, sequence)"
proof -
  have "length (missing_labels labels types) = card (set types - set labels)"
    unfolding missing_labels_def length_remdups_card_conv set_filter by (rule arg_cong [of _ _ card]) auto
  then show ?thesis using assms
    by (simp add: assign_key_def request_with_def str_labels_strings request_priority_def py_split_append py_split_free)
qed

text \<open>
  C17: A pool worker takes requests with fewer labels that its pool lacks before those with more; among
  these, those of lower precedence, then of lower relative priority, then those submitted first. It
  takes each of them exactly once.
\<close>
theorem requests_sorted:
  assumes "\<forall>r \<in> set rs. \<exists>types precedence priority sequence.
    request_with r types precedence priority sequence"
  shows "\<exists>out. sorted_requests labels rs = Inr out \<and> mset out = mset rs \<and>
    (\<forall>i j types1 prec1 prio1 seq1 types2 prec2 prio2 seq2. i < j \<longrightarrow> j < length out \<longrightarrow>
       request_with (out ! i) types1 prec1 prio1 seq1 \<longrightarrow> request_with (out ! j) types2 prec2 prio2 seq2 \<longrightarrow>
       (let missing1 = card (set types1 - set labels); missing2 = card (set types2 - set labels) in
        missing1 < missing2 \<or> missing1 = missing2 \<and>
          (prec1 < prec2 \<or> prec1 = prec2 \<and> (prio1 < prio2 \<or> prio1 = prio2 \<and> seq1 \<le> seq2))))"
proof (intro exI conjI allI impI)
  let ?f = "\<lambda>r. projr (assign_key labels r)" and ?out = "sort_key (\<lambda>r. projr (assign_key labels r)) rs"
  show "sorted_requests labels rs = Inr ?out"
    using assms assign_key_with by (intro sorted_requests_key ballI) blast
  fix i j types1 prec1 prio1 seq1 types2 prec2 prio2 seq2
  assume *: "i < j" "j < length ?out" "request_with (?out ! i) types1 prec1 prio1 seq1"
    "request_with (?out ! j) types2 prec2 prio2 seq2"
  have "map ?f ?out ! i \<le> map ?f ?out ! j"
    using *(1,2) by (intro sorted_nth_mono) (simp_all del: length_sort)
  then have "?f (?out ! i) \<le> ?f (?out ! j)" using *(1,2) by (simp del: length_sort)
  then show "let missing1 = card (set types1 - set labels); missing2 = card (set types2 - set labels) in
      missing1 < missing2 \<or> missing1 = missing2 \<and>
        (prec1 < prec2 \<or> prec1 = prec2 \<and> (prio1 < prio2 \<or> prio1 = prio2 \<and> seq1 \<le> seq2))"
    by (auto simp: assign_key_with [OF *(3)] assign_key_with [OF *(4)] less_prod_def' less_eq_prod_def Let_def)
qed simp

definition w_request_low :: node_request where
  "w_request_low = w_request\<lparr>o_id := Some ''300-2'', r_relative_priority := JNum 1,
     r_node_types := JList [JStr ''small'']\<rparr>"

lemma w_requests_with:
  "request_with w_request [''small'', ''large''] ''100'' 0 ''1''"
  "request_with w_request_low [''small''] ''300'' 1 ''2''"
  by (simp_all add: request_with_def w_request_def w_request_low_def node_request_init_def no_id_def)

theorem requests_sorted_witness:
  "\<exists>out. sorted_requests [''small''] [w_request, w_request_low] = Inr out \<and>
     mset out = {#w_request, w_request_low#}"
  using requests_sorted [of "[w_request, w_request_low]" "[''small'']"] w_requests_with by fastforce

subsection \<open>Keeping nodes ready\<close>

lemma createRequest_adds:
  assumes "createRequest K uuid now label k w = (Inr (), w')"
  shows "\<exists>r. map_of (np_submitted w') label =
      Some ((case map_of (np_submitted w) label of None \<Rightarrow> [] | Some rs \<Rightarrow> rs) @ [r]) \<and>
    r_node_types r = JList [JStr label] \<and> r_requestor r = JStr ''NodePool:min-ready'' \<and>
    (\<forall>l. l \<noteq> label \<longrightarrow> map_of (np_submitted w') l = map_of (np_submitted w) l)"
proof -
  obtain e r z where s: "storeNodeRequest K (min_ready_request label now) ''900'' (uuid k) now (np_zk w) = (e, r, z)"
    by (cases "storeNodeRequest K (min_ready_request label now) ''900'' (uuid k) now (np_zk w)") auto
  have "r_node_types r = JList [JStr label] \<and> r_requestor r = JStr ''NodePool:min-ready''"
    using s by (auto simp: storeNodeRequest_def min_ready_request_def node_request_init_def no_id_def Let_def
        split: sum.splits)
  with s assms show ?thesis
    by (cases e) (auto simp: createRequest_def update_conv')
qed

definition submitted :: "'z nodepool_world \<Rightarrow> string \<Rightarrow> node_request list" where
  "submitted w label = (case map_of (np_submitted w) label of None \<Rightarrow> [] | Some rs \<Rightarrow> rs)"

lemma createRequests_add:
  "eff_each (createRequest K uuid now label) ks w = (Inr (), w') \<Longrightarrow>
     \<exists>rs. submitted w' label = submitted w label @ rs \<and> length rs = length ks \<and>
       (\<forall>r \<in> set rs. r_node_types r = JList [JStr label] \<and> r_requestor r = JStr ''NodePool:min-ready'') \<and>
       (\<forall>l. l \<noteq> label \<longrightarrow> map_of (np_submitted w') l = map_of (np_submitted w) l)"
proof (induction ks arbitrary: w)
  case (Cons k ks)
  obtain w1 where c: "createRequest K uuid now label k w = (Inr (), w1)"
    and rest: "eff_each (createRequest K uuid now label) ks w1 = (Inr (), w')"
    using Cons.prems by (auto simp: eff_seq_run split: prod.splits sum.splits)
  from createRequest_adds [OF c] obtain r where r: "submitted w1 label = submitted w label @ [r]"
    "r_node_types r = JList [JStr label]" "r_requestor r = JStr ''NodePool:min-ready''"
    "\<forall>l. l \<noteq> label \<longrightarrow> map_of (np_submitted w1) l = map_of (np_submitted w) l"
    by (auto simp: submitted_def)
  from Cons.IH [OF rest] obtain rs where "submitted w' label = submitted w1 label @ rs" "length rs = length ks"
    "\<forall>r \<in> set rs. r_node_types r = JList [JStr label] \<and> r_requestor r = JStr ''NodePool:min-ready''"
    "\<forall>l. l \<noteq> label \<longrightarrow> map_of (np_submitted w') l = map_of (np_submitted w1) l" by blast
  with r show ?case by (intro exI [of _ "r # rs"]) simp
qed (simp add: eff_simps)

text \<open>
  For a label that has no requests outstanding and has an image, keeping a minimum of nodes ready
  submits exactly as many requests for one node of the label as there are ready nodes missing, and
  touches the requests of no other label.
\<close>
theorem min_ready_requests:
  assumes "fill_label K ic ready uuid now needed ready_nodes lb w = (Inr (), w')"
    and "le_name lb \<in> set needed"
    and "labelImageIsAvailable K ic ready now (np_zk w) (le_pools lb) = Inr True"
  shows "\<exists>rs. submitted w' (le_name lb) = submitted w (le_name lb) @ rs \<and>
    length rs = nat (le_min_ready lb - int (length (case map_of ready_nodes (le_name lb) of
                                                       None \<Rightarrow> [] | Some ns \<Rightarrow> ns))) \<and>
    (\<forall>r \<in> set rs. r_node_types r = JList [JStr (le_name lb)] \<and> r_requestor r = JStr ''NodePool:min-ready'') \<and>
    (\<forall>l. l \<noteq> le_name lb \<longrightarrow> map_of (np_submitted w') l = map_of (np_submitted w) l)"
proof -
  let ?need = "nodes_needed (le_min_ready lb) ready_nodes (le_name lb)"
  have need: "?need = nat (le_min_ready lb - int (length (case map_of ready_nodes (le_name lb) of
      None \<Rightarrow> [] | Some ns \<Rightarrow> ns)))"
    by (simp add: nodes_needed_def split: option.split)
  show ?thesis
  proof (cases "le_min_ready lb \<le> 0 \<or> ?need = 0")
    case True
    then have "w' = w" "?need = 0"
      using assms(1,2) need by (auto simp: fill_label_def Let_def eff_simps split: if_splits)
    with need show ?thesis by simp
  next
    case False
    then have "eff_each (createRequest K uuid now (le_name lb)) [0..<?need] w = (Inr (), w')"
      using assms by (simp add: fill_label_def Let_def np_read_def eff_bind_def eff_run eff_when_def)
    from createRequests_add [OF this] show ?thesis unfolding need by simp
  qed
qed

definition w_entry :: label_entry where
  "w_entry = \<lparr> le_name = ''small'', le_min_ready = 1, le_max_ready_age = 0,
     le_pools = [\<lparr> lp_provider = ''prov'', lp_manage_images = False, lp_labels = [w_label] \<rparr>] \<rparr>"

definition w_np :: "mem_zk nodepool_world" where
  "w_np = \<lparr> np_submitted = [], np_zk = w_zk \<rparr>"

definition w_fill :: "unit res \<times> mem_zk nodepool_world" where
  "w_fill = fill_label mem_kazoo None (\<lambda>p lb. Inr True) (\<lambda>k. ''uuid'') 9 [''small''] [] w_entry w_np"

lemma w_create: "fst (createRequest mem_kazoo (\<lambda>k. ''uuid'') 9 ''small'' 0 w_np) = Inr ()"
  by code_simp

lemma w_fill_ends: "fst w_fill = Inr ()"
proof -
  obtain w' where "createRequest mem_kazoo (\<lambda>k. ''uuid'') 9 ''small'' 0 w_np = (Inr (), w')"
    using w_create by (metis prod.collapse)
  then show ?thesis
    by (simp add: w_fill_def fill_label_def w_entry_def np_read_def eff_bind_def eff_run eff_seq_run eff_when_def
        Let_def nodes_needed_def)
qed

theorem min_ready_requests_witness:
  "length (submitted (snd w_fill) ''small'') = 1"
proof -
  have f: "fill_label mem_kazoo None (\<lambda>p lb. Inr True) (\<lambda>k. ''uuid'') 9 [''small''] [] w_entry w_np
      = (Inr (), snd w_fill)"
    using w_fill_ends unfolding w_fill_def by (metis prod.collapse)
  have a: "le_name w_entry \<in> set [''small'']"
    "labelImageIsAvailable mem_kazoo None (\<lambda>p lb. Inr True) 9 (np_zk w_np) (le_pools w_entry) = Inr True"
    by (simp_all add: w_entry_def)
  from min_ready_requests [OF f a] show ?thesis
    by (auto simp: w_entry_def w_np_def submitted_def)
qed

subsection \<open>Deleting nodes\<close>

text \<open>
  When the provider's \<open>startNodeCleanup\<close> raises, the deletion of a node ends without an exception
  and leaves the node locked: the handler that would unlock it is never reached.
\<close>
theorem failed_cleanup_keeps_lock:
  assumes "lockNode K L (cw_cur w) False None True None False now (cw_zk w) = (None, n, z)"
    and "o_state n \<in> Some ` set cleanup_states" and "o_state n \<noteq> Some DELETED" and "n_provider n \<noteq> JNull"
    and "\<And>p. \<exists>e p'. start (n_provider n) n p = (Inl e, p')"
  shows "\<exists>w'. delete_cur K L now start w = (Inr (), w') \<and> cw_cur w' = n \<and> n_lock n"
proof -
  have "n_lock n"
    using assms(1) by (rule lockNode_locks)
  moreover obtain w1 where l: "try_lock K L now w = (Inr True, w1)" "cw_cur w1 = n"
    using assms(1) by (simp add: try_lock_def on_cur_def eff_try_def eff_simps)
  obtain e p' where s: "start (n_provider n) n (cw_prov w1) = (Inl e, p')" using assms(5) by blast
  have "deleteInstance start w1 = (Inr (), w1\<lparr>cw_prov := p'\<rparr>)"
    by (simp add: deleteInstance_def eff_bind_def eff_run eff_ignore_run eff_zoom_def l(2) s)
  then have "delete_cur K L now start w = (Inr (), w1\<lparr>cw_prov := p'\<rparr>)"
    using assms(2-4) l by (simp add: delete_cur_def eff_bind_def eff_run eff_try_def)
  ultimately show ?thesis using l(2) by simp
qed

definition w_used :: node where
  "w_used = (node_init (Some ''5''))\<lparr>o_state := Some USED, o_state_time := JNum 1,
     n_provider := JStr ''prov'', n_pool := JStr ''main'', n_type := [JStr ''small'']\<rparr>"

definition w_zk_used :: mem_zk where
  "w_zk_used = \<lparr> mz_nodes = [(nodePath ''5'', \<lparr> mn_data = serialize (node_toDict w_used),
     mn_created = 0, mn_mzxid = 1, mn_mtime = 0, mn_creates = 0 \<rparr>)], mz_zxid = 1, mz_clock = 0 \<rparr>"

definition w_cleanup :: "(unit, mem_zk) cleanup_world" where
  "w_cleanup = \<lparr> cw_cur = w_used, cw_objs = [], cw_nodes = None, cw_requests = None, cw_prov = (),
     cw_zk = w_zk_used \<rparr>"

definition w_lock :: "pyexc option \<times> node \<times> mem_zk" where
  "w_lock = lockNode mem_kazoo mem_locks w_used False None True None False 9 w_zk_used"

lemma w_lock_ends:
  "fst w_lock = None" "o_state (fst (snd w_lock)) = Some USED" "n_provider (fst (snd w_lock)) = JStr ''prov''"
  by code_simp+

theorem failed_cleanup_keeps_lock_witness:
  "\<exists>w'. delete_cur mem_kazoo mem_locks 9 (\<lambda>p n. eff_raise KeyError) w_cleanup = (Inr (), w') \<and> n_lock (cw_cur w')"
proof -
  let ?n = "fst (snd w_lock)"
  have a: "lockNode mem_kazoo mem_locks (cw_cur w_cleanup) False None True None False 9 (cw_zk w_cleanup)
      = (None, ?n, snd (snd w_lock))"
    using w_lock_ends(1) unfolding w_lock_def by (simp add: w_cleanup_def) (metis prod.collapse)
  have b: "o_state ?n \<in> Some ` set cleanup_states" "o_state ?n \<noteq> Some DELETED" "n_provider ?n \<noteq> JNull"
    using w_lock_ends(2,3) by (simp_all add: cleanup_states_def)
  have c: "\<exists>e p'. (eff_raise KeyError :: (unit, unit) eff) p = (Inl e, p')" for p
    by (simp add: eff_simps)
  from failed_cleanup_keeps_lock [where start = "\<lambda>p n. eff_raise KeyError", OF a b c] show ?thesis by auto
qed

end
