(* ===== verification/BuilderCleanup.thy ===== *)
theory BuilderCleanup
  imports BuilderWorld
begin

section \<open>The cleanup worker of the builder\<close>

text \<open>
  The class \<open>CleanupWorker\<close> of \<open>nodepool/builder.py\<close>: the table of recent uploads, the deletion of
  uploads and builds that are no longer needed, and the pruning of the files of local builds. The
  clock \<open>now\<close> is fixed during a round.
\<close>

subsection \<open>Recent uploads\<close>

definition row_append :: "string \<Rightarrow> (string \<times> string \<times> json) list \<Rightarrow> recent_row \<Rightarrow> recent_row" where
  "row_append provider entries row =
     (case map_of row provider of
        None \<Rightarrow> row @ [(provider, entries)]
      | Some old \<Rightarrow> AList.update provider (old @ entries) row)"

definition recent_entries ::
  "'z kazoo \<Rightarrow> rat \<Rightarrow> 'z \<Rightarrow> string \<Rightarrow> string \<Rightarrow> string \<Rightarrow> (string \<times> string \<times> json) list res" where
  "recent_entries K now z img build_id provider =
     map_sum id (map (\<lambda>u. (build_id, up_id u, o_state_time u)))
       (getMostRecentBuildImageUploads K (Some 2) img build_id provider (Some READY) now z)"

definition recent_of_build ::
  "'z kazoo \<Rightarrow> rat \<Rightarrow> 'z \<Rightarrow> string \<Rightarrow> image_build option \<Rightarrow> recent_row \<Rightarrow> recent_row res" where
  "recent_of_build K now z img b row =
     (case b of
        None \<Rightarrow> Inl AttributeError
      | Some b1 \<Rightarrow>
          bindE (getBuildProviders K img (str_id (o_id b1)) z) (\<lambda>ps.
            foldE (\<lambda>p r. bindE (recent_entries K now z img (str_id (o_id b1)) p) (\<lambda>es.
                Inr (row_append p es r))) ps row))"

text \<open>Sorted by time, the two most recent kept.\<close>

definition sort_row :: "recent_row \<Rightarrow> recent_row res" where
  "sort_row row =
     mapE (\<lambda>(p, es). map_sum id (\<lambda>s. (p, take 2 s)) (sort_newest (\<lambda>(b, u, t). t) es)) row"

definition buildUploadRecencyTable :: "'z kazoo \<Rightarrow> rat \<Rightarrow> 'z \<Rightarrow> recency_table res" where
  "buildUploadRecencyTable K now z =
     bindE (getImageNames K z) (\<lambda>imgs.
     bindE (foldE (\<lambda>img tbl.
         bindE (getBuilds K img (Some [READY]) now z) (\<lambda>builds.
         bindE (foldE (recent_of_build K now z img) builds []) (\<lambda>row.
           Inr (AList.update img row tbl)))) imgs []) (\<lambda>tbl.
       mapE (\<lambda>(i, row). map_sum id (\<lambda>r. (i, r)) (sort_row row)) tbl))"

definition isRecentUpload ::
  "recency_table \<Rightarrow> string \<Rightarrow> string \<Rightarrow> string \<Rightarrow> string \<Rightarrow> bool res" where
  "isRecentUpload tbl img provider build_id upload_id =
     (case map_of tbl img of
        None \<Rightarrow> Inl KeyError
      | Some row \<Rightarrow>
          Inr (case map_of row provider of
                 None \<Rightarrow> False
               | Some es \<Rightarrow> list_ex (\<lambda>(b, u, t). build_id = b \<and> upload_id = u) es))"

subsection \<open>Uploads\<close>

definition inProgressUpload :: "'z locks \<Rightarrow> image_upload \<Rightarrow> ('c, 'z, bool) bw_eff" where
  "inProgressUpload L u =
     (if o_state u \<noteq> Some UPLOADING then eff_ret False
      else unless_locked
             (eff_seq (imageUploadLock (bw_locks L) (up_image u) (up_build u) (up_provider u) False None
                         (eff_ret ())) (eff_ret False))
             True)"

definition with_upload_lock :: "'z locks \<Rightarrow> image_upload \<Rightarrow> ('c, 'z, 'a) bw_eff \<Rightarrow> ('c, 'z, 'a) bw_eff" where
  "with_upload_lock L u =
     imageUploadNumberLock (bw_locks L) (up_image u) (up_build u) (up_provider u) (up_id u) False None"

text \<open>The first half of \<open>_deleteUpload\<close>: nothing when the lock is held by somebody else.\<close>

definition mark_upload ::
  "'z kazoo \<Rightarrow> 'z locks \<Rightarrow> rat \<Rightarrow> image_upload \<Rightarrow> ('c, 'z, image_upload option) bw_eff" where
  "mark_upload K L now u =
     (if o_state u = Some DELETING then eff_ret (Some u)
      else eff_bind (inProgressUpload L u) (\<lambda>busy.
        if busy then eff_ret (Some u)
        else unless_locked
               (with_upload_lock L u
                  (eff_bind (eff_lift (set_upload_state DELETING now u)) (\<lambda>u1.
                     eff_bind (zk_do (storeImageUpload K (up_image u1) (up_build u1) (up_provider u1) u1
                                        (Some (up_id u1)))) (\<lambda>n. eff_ret (Some u1)))))
               None))"

definition delete_external ::
  "'c image_managers \<Rightarrow> image_upload \<Rightarrow> ('c, 'z, unit) bw_eff" where
  "delete_external M u =
     eff_when (truthy (iu_external_id u))
       (on_clouds (im_delete M (up_provider u) (iu_external_name u) (iu_external_id u)))"

definition deleteUpload_of ::
  "'z kazoo \<Rightarrow> 'z locks \<Rightarrow> 'c image_managers \<Rightarrow> builder_config \<Rightarrow> rat \<Rightarrow> image_upload \<Rightarrow>
     ('c, 'z, unit) bw_eff" where
  "deleteUpload_of K L M cfg now u =
     eff_bind (mark_upload K L now u) (\<lambda>marked.
     case marked of
       None \<Rightarrow> eff_ret ()
     | Some u1 \<Rightarrow>
         if o_state u1 \<noteq> Some DELETING then eff_ret ()
         else if up_provider u1 \<notin> set (bc_managers cfg) then eff_raise KeyError
         else eff_bind (eff_try (eff_seq (delete_external M u1) (eff_ret True)) (\<lambda>e. eff_ret False)) (\<lambda>gone.
           if \<not> gone then eff_ret ()
           else unless_locked
                  (with_upload_lock L u1
                     (zk_write (deleteUpload K (up_image u1) (up_build u1) (up_provider u1) (up_id u1))))
                  ()))"

definition cleanupProvider ::
  "'z kazoo \<Rightarrow> 'z locks \<Rightarrow> 'c image_managers \<Rightarrow> builder_config \<Rightarrow> rat \<Rightarrow> image_provider \<Rightarrow> string \<Rightarrow>
     string \<Rightarrow> ('c, 'z, unit) bw_eff" where
  "cleanupProvider K L M cfg now p img build_id =
     eff_bind (zk_read (getUploads K img build_id (ip_name p) None now))
       (eff_each (\<lambda>u.
          eff_bind (eff_read (\<lambda>w. isRecentUpload (bw_rtable w) img (ip_name p) build_id (up_id u))) (\<lambda>recent.
            if recent then eff_ret () else deleteUpload_of K L M cfg now u)))"

definition cleanupObsoleteProviderUploads ::
  "'z kazoo \<Rightarrow> 'z locks \<Rightarrow> 'c image_managers \<Rightarrow> builder_config \<Rightarrow> rat \<Rightarrow> image_provider \<Rightarrow> string \<Rightarrow>
     string \<Rightarrow> ('c, 'z, unit) bw_eff" where
  "cleanupObsoleteProviderUploads K L M cfg now p img build_id =
     (if img \<in> set (map fst (ip_diskimages p)) then eff_ret ()
      else eff_bind (zk_read (getUploads K img build_id (ip_name p) None now))
             (eff_each (deleteUpload_of K L M cfg now)))"

definition cleanup_cruft ::
  "'z kazoo \<Rightarrow> 'z locks \<Rightarrow> 'c image_managers \<Rightarrow> builder_config \<Rightarrow> rat \<Rightarrow> string \<Rightarrow> string \<Rightarrow> string \<Rightarrow>
     image_upload \<Rightarrow> ('c, 'z, unit) bw_eff" where
  "cleanup_cruft K L M cfg now provider img build_id u =
     eff_bind (if o_state u = Some UPLOADING
               then eff_bind (inProgressUpload L u) (\<lambda>busy. eff_ret (\<not> busy)) else eff_ret False) (\<lambda>stale.
       if stale
       then eff_bind (zk_read (getImageUpload K img build_id provider (up_id u) now)) (\<lambda>found.
              case found of
                None \<Rightarrow> eff_ret ()
              | Some u1 \<Rightarrow>
                  if o_state u \<noteq> o_state u1 then eff_ret ()
                  else zk_write (deleteUpload K img build_id provider (up_id u)))
       else if o_state u = Some DELETING then deleteUpload_of K L M cfg now u
       else if o_state u = Some FAILED then deleteUpload_of K L M cfg now u
       else eff_ret ())"

definition cleanupCurrentProviderUploads ::
  "'z kazoo \<Rightarrow> 'z locks \<Rightarrow> 'c image_managers \<Rightarrow> builder_config \<Rightarrow> rat \<Rightarrow> string \<Rightarrow> string \<Rightarrow> string \<Rightarrow>
     ('c, 'z, unit) bw_eff" where
  "cleanupCurrentProviderUploads K L M cfg now provider img build_id =
     eff_bind (zk_read (getUploads K img build_id provider (Some [UPLOADING, DELETING, FAILED]) now))
       (eff_each (cleanup_cruft K L M cfg now provider img build_id))"

subsection \<open>Builds\<close>

text \<open>
  A build whose state has changed under the lock counts as in progress; one that has gone does not.
\<close>

definition inProgressBuild ::
  "'z kazoo \<Rightarrow> 'z locks \<Rightarrow> rat \<Rightarrow> image_build \<Rightarrow> string \<Rightarrow> ('c, 'z, bool) bw_eff" where
  "inProgressBuild K L now b img =
     (if o_state b \<noteq> Some BUILDING then eff_ret False
      else unless_locked
             (imageBuildLock (bw_locks L) img False None
                (eff_bind (zk_read (getBuild K img (str_id (o_id b)) now)) (\<lambda>found.
                   eff_ret (case found of None \<Rightarrow> False | Some b1 \<Rightarrow> o_state b1 \<noteq> Some BUILDING))))
             True)"

text \<open>The two newest ready builds of an image that is configured, by id.\<close>

definition builds_to_keep :: "bool \<Rightarrow> image_build option list \<Rightarrow> string list res" where
  "builds_to_keep is_configured all_builds =
     (if \<not> is_configured then Inr []
      else if None \<in> set all_builds then Inl AttributeError
      else map_sum id (\<lambda>bs. map (\<lambda>b. str_id (o_id b)) (take 2 (filter (\<lambda>b. o_state b = Some READY) bs)))
             (sort_newest o_state_time (map the all_builds)))"

text \<open>The uploads of a build that are left, over all providers it has uploads for.\<close>

definition remaining_uploads ::
  "'z kazoo \<Rightarrow> rat \<Rightarrow> string \<Rightarrow> string \<Rightarrow> 'z \<Rightarrow> image_upload list res" where
  "remaining_uploads K now img build_id z =
     bindE (getBuildProviders K img build_id z) (\<lambda>ps.
       map_sum id concat (mapE (\<lambda>p. getUploads K img build_id p None now z) ps))"

text \<open>What is done with the uploads of a build first, whatever its state.\<close>

definition cleanup_build_uploads ::
  "'z kazoo \<Rightarrow> 'z locks \<Rightarrow> 'c image_managers \<Rightarrow> builder_config \<Rightarrow> rat \<Rightarrow> string \<Rightarrow> string \<Rightarrow> bool \<Rightarrow>
     ('c, 'z, unit) bw_eff" where
  "cleanup_build_uploads K L M cfg now img build_id kept =
     eff_each (\<lambda>p.
       eff_when (ip_manage_images p) (eff_ignore
         (eff_seq (cleanupObsoleteProviderUploads K L M cfg now p img build_id)
            (eff_when kept (cleanupCurrentProviderUploads K L M cfg now (ip_name p) img build_id)))))
       (bc_providers cfg)"

definition mark_build ::
  "'z kazoo \<Rightarrow> 'z locks \<Rightarrow> rat \<Rightarrow> string \<Rightarrow> image_build \<Rightarrow> ('c, 'z, unit) bw_eff" where
  "mark_build K L now img b =
     imageBuildIdLock (bw_locks L) img (str_id (o_id b)) False None
       (eff_bind (eff_lift (set_build_state DELETING now b)) (\<lambda>b1.
          eff_bind (zk_do (storeBuild K img b1 (Some (str_id (o_id b1))) '''')) (\<lambda>n. eff_ret ())))"

text \<open>The rest: a build that is not wanted loses its uploads, is marked, and is deleted when it has none.\<close>

definition remove_build ::
  "'z kazoo \<Rightarrow> 'z locks \<Rightarrow> 'c image_managers \<Rightarrow> builder_config \<Rightarrow> rat \<Rightarrow> string \<Rightarrow> image_build \<Rightarrow>
     ('c, 'z, unit) bw_eff" where
  "remove_build K L M cfg now img b =
     eff_seq
       (eff_each (\<lambda>p. eff_when (ip_manage_images p)
            (eff_ignore (cleanupProvider K L M cfg now p img (str_id (o_id b))))) (bc_providers cfg))
       (eff_bind (zk_read (remaining_uploads K now img (str_id (o_id b)))) (\<lambda>uploads.
          eff_seq
            (eff_when ((uploads = [] \<or> list_all (\<lambda>u. o_state u = Some DELETING) uploads) \<and>
                       o_state b \<noteq> Some DELETING)
               (mark_build K L now img b))
            (eff_when (uploads = [])
               (eff_bind (zk_do (deleteBuild K img (str_id (o_id b)))) (\<lambda>deleted. eff_ret ())))))"

definition cleanup_build ::
  "'z kazoo \<Rightarrow> 'z locks \<Rightarrow> 'c image_managers \<Rightarrow> builder_config \<Rightarrow> rat \<Rightarrow> string \<Rightarrow> string list \<Rightarrow>
     image_build option \<Rightarrow> ('c, 'z, unit) bw_eff" where
  "cleanup_build K L M cfg now img keep build =
     (case build of
        None \<Rightarrow> eff_raise AttributeError
      | Some b \<Rightarrow>
          let kept = (str_id (o_id b) \<in> set keep) in
          eff_seq (cleanup_build_uploads K L M cfg now img (str_id (o_id b)) kept)
            (eff_bind (if o_state b = Some DELETING then eff_ret False
                       else if kept then eff_ret True
                       else inProgressBuild K L now b img) (\<lambda>skip.
               if skip then eff_ret () else remove_build K L M cfg now img b)))"

definition cleanupImage ::
  "'z kazoo \<Rightarrow> 'z locks \<Rightarrow> 'c image_managers \<Rightarrow> builder_config \<Rightarrow> rat \<Rightarrow> string \<Rightarrow> ('c, 'z, unit) bw_eff" where
  "cleanupImage K L M cfg now img =
     eff_bind (zk_read (getBuilds K img None now)) (\<lambda>all_builds.
     eff_bind (eff_lift (builds_to_keep (map_of (bc_images cfg) img \<noteq> None) all_builds)) (\<lambda>keep.
       eff_each (cleanup_build K L M cfg now img keep) all_builds))"

subsection \<open>Local builds\<close>

text \<open>The formats that still have to be uploaded to a provider of the image.\<close>

definition needs_format ::
  "'z kazoo \<Rightarrow> rat \<Rightarrow> string \<Rightarrow> string \<Rightarrow> 'z \<Rightarrow> image_provider \<Rightarrow> string list \<Rightarrow> string list res" where
  "needs_format K now img build_id z p to_keep =
     (if \<not> ip_manage_images p \<or> img \<notin> set (map fst (ip_diskimages p)) then Inr to_keep
      else bindE (getMostRecentBuildImageUploads K (Some 1) img build_id (ip_name p) (Some READY) now z) (\<lambda>us.
             Inr (if us = [] then List.insert (ip_image_type p) to_keep else to_keep)))"

definition formats_to_keep ::
  "'z kazoo \<Rightarrow> builder_config \<Rightarrow> rat \<Rightarrow> disk_image \<Rightarrow> string \<Rightarrow> string \<Rightarrow> 'z \<Rightarrow> string list res" where
  "formats_to_keep K cfg now d img build_id z =
     foldE (needs_format K now img build_id z) (bc_providers cfg) (dk_keep_image_types d)"

definition pruneLocalBuildFormats ::
  "'z kazoo \<Rightarrow> builder_config \<Rightarrow> rat \<Rightarrow> string \<Rightarrow> string \<Rightarrow> ('c, 'z, unit) bw_eff" where
  "pruneLocalBuildFormats K cfg now img build_id =
     (case map_of (bc_images cfg) img of
        None \<Rightarrow> eff_raise AttributeError
      | Some d \<Rightarrow>
          if \<not> truthy (dk_delete_after_upload d) then eff_ret ()
          else eff_bind (zk_read (formats_to_keep K cfg now d img build_id)) (\<lambda>to_keep.
                 on_dir (prune_files to_keep img build_id)))"

definition cleanup_local_build ::
  "'z kazoo \<Rightarrow> builder_config \<Rightarrow> rat \<Rightarrow> string \<times> string \<Rightarrow> ('c, 'z, unit) bw_eff" where
  "cleanup_local_build K cfg now b =
     (case b of (img, build_id) \<Rightarrow>
        eff_bind (zk_read (getBuild K img build_id now)) (\<lambda>build.
          eff_seq
            (eff_when (case build of None \<Rightarrow> True | Some x \<Rightarrow> o_state x = Some DELETING)
               (on_dir (deleteLocalBuild img build_id)))
            (eff_when (case build of None \<Rightarrow> False | Some x \<Rightarrow> o_state x = Some READY)
               (pruneLocalBuildFormats K cfg now img build_id))))"

text \<open>A round: the images, then the local builds; a failure of one does not stop the others.\<close>

definition builder_cleanup ::
  "'z kazoo \<Rightarrow> 'z locks \<Rightarrow> 'c image_managers \<Rightarrow> builder_config \<Rightarrow> rat \<Rightarrow> ('c, 'z, unit) bw_eff" where
  "builder_cleanup K L M cfg now =
     eff_bind (zk_read (getImageNames K)) (\<lambda>image_names.
     eff_bind (zk_read (buildUploadRecencyTable K now)) (\<lambda>tbl.
     eff_seq (eff_mod (\<lambda>w. w\<lparr>bw_rtable := tbl\<rparr>))
     (eff_seq (eff_each (\<lambda>img. eff_ignore (cleanupImage K L M cfg now img)) image_names)
     (eff_bind (eff_get (\<lambda>w. getLocalBuilds (bw_dir w)))
        (eff_each (\<lambda>b. eff_ignore (cleanup_local_build K cfg now b)))))))"

end
