(* ===== verification/BuilderRun.thy ===== *)
theory BuilderRun
  imports BuilderCleanup BuilderUpload
begin

section \<open>The rounds of the builder's workers\<close>

text \<open>
  The class \<open>BaseWorker\<close> and the \<open>_run\<close> methods of \<open>nodepool/builder.py\<close>: the configuration a worker
  holds and its replacement, \<open>ProviderManager.reconfigure\<close> of \<open>nodepool/provider_manager.py\<close>, the
  statistics of the cleanup worker, and the identity and configuration of the builder itself.
\<close>

subsection \<open>Provider managers\<close>

text \<open>
  A manager is known by a number; \<open>pm_provider\<close> is the configuration it was made with. Making and
  starting one may raise. \<open>'s\<close> is the state of all managers.
\<close>

record 'p pmanager =
  pm_id :: nat
  pm_provider :: 'p

record ('p, 's) manager_ops =
  mo_make :: "'p \<Rightarrow> ('s, nat) eff"         \<comment> \<open>\<open>get_provider(p)\<close> and \<open>start\<close>\<close>
  mo_idle :: "nat \<Rightarrow> ('s, unit) eff"
  mo_stop :: "nat \<Rightarrow> ('s, unit) eff"
  mo_join :: "nat \<Rightarrow> ('s, unit) eff"
  mo_differs :: "'p \<Rightarrow> 'p \<Rightarrow> bool"        \<comment> \<open>\<open>!=\<close> of the configurations\<close>
  mo_manages :: "'p \<Rightarrow> bool"

type_synonym 'p managers = "(string \<times> 'p pmanager) list"

definition reconfigure_one ::
  "('p, 's) manager_ops \<Rightarrow> 'p managers \<Rightarrow> bool \<Rightarrow> string \<times> 'p \<Rightarrow> 'p managers \<times> nat list \<Rightarrow>
     ('s, 'p managers \<times> nat list) eff" where
  "reconfigure_one G old only_image_manager np acc =
     (case np of (name, p) \<Rightarrow> case acc of (new, stops) \<Rightarrow>
        if only_image_manager \<and> \<not> mo_manages G p then eff_ret (new, stops)
        else (let create = (\<lambda>stops1. eff_try
                    (eff_bind (mo_make G p) (\<lambda>i.
                       eff_ret (AList.update name \<lparr> pm_id = i, pm_provider = p \<rparr> new, stops1)))
                    (\<lambda>e. eff_ret (new, stops1)))
              in case map_of old name of
                   None \<Rightarrow> create stops
                 | Some m \<Rightarrow>
                     if mo_differs G p (pm_provider m)
                     then eff_seq (mo_idle G (pm_id m)) (create (stops @ [pm_id m]))
                     else eff_ret (AList.update name m new, stops)))"

definition reconfigure_managers ::
  "('p, 's) manager_ops \<Rightarrow> 'p managers \<Rightarrow> (string \<times> 'p) list \<Rightarrow> bool \<Rightarrow> ('s, 'p managers) eff" where
  "reconfigure_managers G old providers only_image_manager =
     eff_bind (eff_fold (reconfigure_one G old only_image_manager) providers ([], [])) (\<lambda>(new, stops).
       eff_seq (eff_each (mo_stop G) stops) (eff_ret new))"

definition stopProviders :: "('p, 's) manager_ops \<Rightarrow> 'p managers \<Rightarrow> ('s, unit) eff" where
  "stopProviders G ms = eff_each (\<lambda>(n, m). eff_seq (mo_stop G (pm_id m)) (mo_join G (pm_id m))) ms"

subsection \<open>The configuration of a worker\<close>

text \<open>
  The servers of a configuration are a dictionary only until they are set: then they are one string of
  hosts, which has no \<open>values\<close>.
\<close>

definition checkForZooKeeperChanges :: "'p nodepool_config \<Rightarrow> 'p nodepool_config \<Rightarrow> bool res" where
  "checkForZooKeeperChanges old new =
     (if cf_zookeeper_servers old = cf_zookeeper_servers new then Inr False
      else (case cf_zookeeper_servers new of NoServers \<Rightarrow> Inr True | Hosts h \<Rightarrow> Inl AttributeError))"

definition checkConfigRecent ::
  "(string \<Rightarrow> int res) \<Rightarrow> 'p nodepool_config option \<Rightarrow> string \<Rightarrow> string option \<Rightarrow> bool res" where
  "checkConfigRecent mtime_of cfg config_path secure_path =
     (case cfg of
        None \<Rightarrow> Inr False
      | Some c \<Rightarrow> checkRecentConfig mtime_of c config_path secure_path)"

text \<open>The worker's own state: its configuration and managers, and the state of the managers.\<close>

record ('p, 's) worker_state =
  ws_config :: "'p nodepool_config option"
  ws_managers :: "'p managers"
  ws_state :: 's

definition readConfig ::
  "'p nodepool_config res \<Rightarrow> ('p nodepool_config \<Rightarrow> 'p nodepool_config res) option \<Rightarrow> 'p nodepool_config res" where
  "readConfig loaded secure =
     bindE loaded (\<lambda>c. case secure of None \<Rightarrow> Inr c | Some f \<Rightarrow> f c)"

text \<open>
  \<open>_reloadConfig\<close>: \<open>recent\<close> and \<open>new_config\<close> are what checking and reading the files give. A build
  worker has no managers and does the same without them.
\<close>

definition reloadConfig ::
  "('p, 's) manager_ops \<Rightarrow> bool res \<Rightarrow> 'p nodepool_config res \<Rightarrow> bool \<Rightarrow> (('p, 's) worker_state, unit) eff" where
  "reloadConfig G recent new_config has_managers =
     eff_bind (eff_lift recent) (\<lambda>ok.
       if ok then eff_ret ()
       else eff_bind (eff_lift new_config) (\<lambda>new.
         eff_seq (eff_mod (\<lambda>s. if ws_config s = None then s\<lparr>ws_config := Some new\<rparr> else s))
         (eff_bind (eff_read (\<lambda>s. checkForZooKeeperChanges (the (ws_config s)) new)) (\<lambda>reset.
          eff_bind
            (if has_managers
             then (\<lambda>s. eff_zoom ws_state (\<lambda>t. ws_state_update (\<lambda>_. t))
                         (reconfigure_managers G (ws_managers s) (cf_providers new) True) s)
             else eff_ret []) (\<lambda>managers.
            eff_mod (\<lambda>s. s\<lparr> ws_config := Some new, ws_managers := managers \<rparr>))))))"

subsection \<open>Statistics\<close>

definition max_of :: "nat list \<Rightarrow> nat" where
  "max_of ns = foldl max STATUS_IDLE ns"

definition status_of :: "string \<Rightarrow> (string \<times> nat) list \<Rightarrow> nat" where
  "status_of img st = (case map_of st img of None \<Rightarrow> STATUS_IDLE | Some n \<Rightarrow> n)"

text \<open>The largest status of each provider over the upload workers, in the order of their appearance.\<close>

definition upload_status_by_provider ::
  "string \<Rightarrow> ((string \<times> string) \<times> nat) list list \<Rightarrow> (string \<times> nat) list" where
  "upload_status_by_provider img workers =
     foldl (\<lambda>acc ((i, p), n). if i = img then AList.update p (max n (status_of p acc)) acc else acc)
       [] (concat workers)"

definition image_gauges ::
  "string \<Rightarrow> string \<Rightarrow> bool \<Rightarrow> (string \<times> nat) list list \<Rightarrow> ((string \<times> string) \<times> nat) list list \<Rightarrow>
     (string \<times> nat) list" where
  "image_gauges hostname img pending builds uploads =
     [(''nodepool.builder.'' @ hostname @ ''.image.'' @ img @ ''.build.state'',
       max_of (map (status_of img) builds))] @
     map (\<lambda>(p, n). (''nodepool.builder.'' @ hostname @ ''.image.'' @ img @ ''.provider.'' @ p @
                    ''.upload.state'', n)) (upload_status_by_provider img uploads) @
     [(''nodepool.image.'' @ img @ ''.image_build_requests'', if pending then 1 else 0)]"

definition emitBuildRequestStats ::
  "'z kazoo \<Rightarrow> builder_config \<Rightarrow> (string \<times> nat) list list \<Rightarrow> ((string \<times> string) \<times> nat) list list \<Rightarrow>
     'z \<Rightarrow> (string \<times> nat) list res" where
  "emitBuildRequestStats K cfg builds uploads z =
     (if \<not> bc_statsd cfg then Inr []
      else bindE (getImageNames K z) (\<lambda>imgs.
        bindE (foldE (\<lambda>img (gauges, cnt).
            bindE (getBuildRequest K img z) (\<lambda>request.
              let pending = (case request of None \<Rightarrow> False | Some r \<Rightarrow> br_pending r)
              in Inr (gauges @ image_gauges (bc_hostname cfg) img pending builds uploads,
                      cnt + (if pending then 1 else 0)))) imgs ([], 0)) (\<lambda>(gauges, cnt).
          Inr (gauges @ [(''nodepool.image_build_requests'', cnt)]))))"

subsection \<open>The builder\<close>

text \<open>The builder's id is kept in a file of the images directory; \<open>uuid\<close> is a new one.\<close>

definition builder_id_file :: string where
  "builder_id_file = ''builder_id.txt''"

definition getBuilderID :: "string \<Rightarrow> string \<Rightarrow> string dir_eff" where
  "getBuilderID id_file uuid d =
     (case map_of (id_files d) id_file of
        Some t \<Rightarrow> (Inr t, d)
      | None \<Rightarrow> if id_file \<in> set (id_dirs d) then (Inl (OtherError ''IsADirectoryError''), d)
                else (Inr uuid, d\<lparr>id_files := id_files d @ [(id_file, uuid)]\<rparr>))"

definition getAndValidateConfig :: "'p nodepool_config res \<Rightarrow> 'p nodepool_config res" where
  "getAndValidateConfig new_config =
     bindE new_config (\<lambda>c.
       if (case cf_zookeeper_servers c of NoServers \<Rightarrow> True | Hosts h \<Rightarrow> h = []) then Inl RuntimeError
       else if \<not> truthy (cf_images_dir c) then Inl RuntimeError
       else Inr c)"

end
