(* ===== verification/BuilderProps.thy ===== *)
theory BuilderProps
  imports BuilderRun ZkPoolsProps
begin

section \<open>What the builder's cleanup leaves alone\<close>

text \<open>
  A znode that none of a worker's writes and locks reaches keeps its data. The effects of the cleanup
  worker are taken through this invariant one by one; what remains is where the paths of builds,
  uploads and their locks lie in the tree.
\<close>

definition znode_is ::
  "('z \<Rightarrow> string \<Rightarrow> zdata option) \<Rightarrow> string \<Rightarrow> zdata \<Rightarrow> ('c, 'z) builder_world \<Rightarrow> bool" where
  "znode_is tree q d w \<longleftrightarrow> tree (bw_zk w) q = Some d"

subsection \<open>Effects that do not touch ZooKeeper\<close>

lemma keeps_zk_read [keeps]: "keeps_inv I (zk_read f)"
  by (simp add: zk_read_def keeps)

lemma keeps_on_clouds [keeps]: "keeps_inv (znode_is tree q d) (on_clouds m)"
  by (auto simp: on_clouds_def znode_is_def intro: keeps_zoom)

lemma keeps_on_dir [keeps]: "keeps_inv (znode_is tree q d) (on_dir m)"
  by (auto simp: on_dir_def znode_is_def intro: keeps_zoom)

lemma keeps_unless_locked [keeps]: "keeps_inv I m \<Longrightarrow> keeps_inv I (unless_locked m x)"
  by (auto simp: unless_locked_def intro!: keeps)

lemma keeps_finally [keeps]:
  assumes "keeps_inv I m" and "keeps_inv I f"
  shows "keeps_inv I (eff_finally m f)"
  by (rule keepsI) (auto simp: eff_finally_def split: prod.splits sum.splits
      dest: keepsE [OF assms(1)] keepsE [OF assms(2)])

lemma keeps_zk_do:
  assumes "\<And>z x z'. tree z q = Some d \<Longrightarrow> f z = Inr (x, z') \<Longrightarrow> tree z' q = Some d"
  shows "keeps_inv (znode_is tree q d) (zk_do f)"
  by (rule keepsI) (auto simp: zk_do_def znode_is_def split: sum.splits dest: assms)

lemma keeps_zk_write:
  assumes "\<And>z z'. tree z q = Some d \<Longrightarrow> f z = Inr z' \<Longrightarrow> tree z' q = Some d"
  shows "keeps_inv (znode_is tree q d) (zk_write f)"
  unfolding zk_write_def by (rule keeps_zk_do) (auto simp: map_sum_eq_Inr dest: assms)

lemma with_lock_finally:
  "with_lock L p get_lock body = eff_bind get_lock (\<lambda>u. eff_finally body (lk_release L p))"
  by (rule ext) (auto simp: with_lock_def eff_bind_def eff_finally_def split: prod.splits sum.splits)

lemma keeps_with_lock:
  assumes "keeps_inv I get_lock" and "keeps_inv I body" and "keeps_inv I (lk_release L p)"
  shows "keeps_inv I (with_lock L p get_lock body)"
  unfolding with_lock_finally by (intro keeps assms)

text \<open>What a value returned without an exception satisfies.\<close>

definition returns :: "('a \<Rightarrow> bool) \<Rightarrow> ('s, 'a) eff \<Rightarrow> bool" where
  "returns P m \<longleftrightarrow> (\<forall>s x s'. m s = (Inr x, s') \<longrightarrow> P x)"

named_theorems returned \<open>values of effects\<close>

lemma returnsD: "returns P m \<Longrightarrow> m s = (Inr x, s') \<Longrightarrow> P x"
  by (auto simp: returns_def)

lemma returns_ret [returned]: "P x \<Longrightarrow> returns P (eff_ret x)"
  by (simp add: returns_def eff_ret_def)

lemma returns_raise [returned]: "returns P (eff_raise e)"
  by (simp add: returns_def eff_raise_def)

lemma returns_lift [returned]: "(\<And>x. r = Inr x \<Longrightarrow> P x) \<Longrightarrow> returns P (eff_lift r)"
  by (simp add: returns_def eff_lift_def)

lemma returns_bind:
  assumes "returns Q m" and "\<And>x. Q x \<Longrightarrow> returns P (f x)"
  shows "returns P (eff_bind m f)"
  unfolding returns_def
  by (auto simp: eff_bind_Inr dest!: returnsD [OF assms(1)] dest: returnsD [OF assms(2)])

lemma returns_then [returned]: "(\<And>x. returns P (f x)) \<Longrightarrow> returns P (eff_bind m f)"
  by (rule returns_bind [of "\<lambda>x. True"]) (simp add: returns_def)

lemma returns_unless_locked [returned]:
  "returns P m \<Longrightarrow> P x \<Longrightarrow> returns P (unless_locked m x)"
  by (auto simp: returns_def unless_locked_def eff_try_def eff_ret_def eff_raise_def
      split: prod.splits sum.splits if_splits)

lemma returns_with_lock: "returns P body \<Longrightarrow> returns P (with_lock L p get_lock body)"
  by (auto simp: returns_def with_lock_def split: prod.splits sum.splits)

lemma keeps_bind_returned:
  assumes "keeps_inv I m" and "returns P m" and "\<And>x. P x \<Longrightarrow> keeps_inv I (f x)"
  shows "keeps_inv I (eff_bind m f)"
proof (rule keepsI)
  fix s r s' assume s: "I s" and b: "eff_bind m f s = (r, s')"
  show "I s'"
  proof (cases "m s")
    case (Pair x t)
    with s assms(1) have t: "I t" by (auto dest: keepsE)
    show ?thesis
    proof (cases x)
      case (Inr y)
      with Pair returnsD [OF assms(2)] have "P y" by blast
      with b Pair Inr t keepsE [OF assms(3)] show ?thesis by (auto simp: eff_bind_def)
    qed (use Pair b t in \<open>simp add: eff_bind_def\<close>)
  qed
qed

lemma keeps_read_bind:
  assumes "\<And>w x. I w \<Longrightarrow> f (bw_zk w) = Inr x \<Longrightarrow> keeps_inv I (g x)"
  shows "keeps_inv I (eff_bind (zk_read f) g)"
proof (rule keepsI)
  fix w r w' assume w: "I w" and b: "eff_bind (zk_read f) g w = (r, w')"
  show "I w'"
  proof (cases "f (bw_zk w)")
    case (Inr x)
    with b keepsE [OF assms [OF w Inr] w] show ?thesis
      by (simp add: zk_read_def eff_bind_def eff_read_def)
  qed (use b w in \<open>simp add: zk_read_def eff_bind_def eff_read_def\<close>)
qed

lemma keeps_each_mem:
  "(\<And>x. x \<in> set xs \<Longrightarrow> keeps_inv I (f x)) \<Longrightarrow> keeps_inv I (eff_each f xs)"
  by (induction xs) (auto intro: keeps)

subsection \<open>Locks and writes elsewhere\<close>

context zk_locks
begin

lemma keeps_locked:
  assumes "\<not> in_subtree p q" and "keeps_inv (znode_is tree q d) body"
  shows "keeps_inv (znode_is tree q d)
    (with_lock (bw_locks L) p (take_lock (bw_locks L) p i b t e) body)"
proof (rule keeps_with_lock [OF _ assms(2)])
  show "keeps_inv (znode_is tree q d) (take_lock (bw_locks L) p i b t e)"
  proof (rule keepsI)
    fix w r w'
    assume w: "znode_is tree q d w" and m: "take_lock (bw_locks L) p i b t e w = (r, w')"
    obtain r1 z1 where a: "lk_acquire L p i b t e (bw_zk w) = (r1, z1)" by fastforce
    then have "lk_acquire (bw_locks L) p i b t e w = (r1, w\<lparr>bw_zk := z1\<rparr>)"
      by (simp add: bw_locks_def on_zk_def eff_zoom_def)
    with m have "w' = w\<lparr>bw_zk := z1\<rparr>"
      by (auto simp: take_lock_def split: sum.splits pyexc.splits if_splits)
    with w touched_same [OF acquire_touches [OF a] assms(1)] show "znode_is tree q d w'"
      by (simp add: znode_is_def)
  qed
  show "keeps_inv (znode_is tree q d) (lk_release (bw_locks L) p)"
  proof (rule keepsI)
    fix w r w'
    assume w: "znode_is tree q d w" and m: "lk_release (bw_locks L) p w = (r, w')"
    obtain r1 z1 where a: "lk_release L p (bw_zk w) = (r1, z1)" by fastforce
    with m have "w' = w\<lparr>bw_zk := z1\<rparr>" by (auto simp: bw_locks_def on_zk_def eff_zoom_def)
    with w touched_same [OF release_touches [OF a] assms(1)] show "znode_is tree q d w'"
      by (simp add: znode_is_def)
  qed
qed

lemma set_elsewhere:
  "kz_set K p v z = Inr z' \<Longrightarrow> p \<noteq> q \<Longrightarrow> tree z' q = tree z q"
  by (simp add: tree_after_set)

lemma delete_elsewhere:
  "orNoNode (kz_delete K p True z) z = Inr z' \<Longrightarrow> \<not> in_subtree p q \<Longrightarrow> tree z' q = tree z q"
  by (auto simp: orNoNode_def tree_after_delete split: sum.splits pyexc.splits)

lemma storeImageUpload_elsewhere:
  "storeImageUpload K img b p u (Some n) z = Inr (m, z') \<Longrightarrow> imageUploadPath img b p @ ''/'' @ n \<noteq> q \<Longrightarrow>
     tree z' q = tree z q"
  by (auto simp: storeImageUpload_def map_sum_eq_Inr tree_after_set split: if_splits)

lemma storeBuild_elsewhere:
  "storeBuild K img b (Some i) uuid z = Inr (m, z') \<Longrightarrow> imageBuildIdPath img i \<noteq> q \<Longrightarrow>
     tree z' q = tree z q"
  by (auto simp: storeBuild_def imageBuildIdPath_def map_sum_eq_Inr tree_after_set)

lemma deleteBuild_elsewhere:
  "deleteBuild K img i z = Inr (m, z') \<Longrightarrow> \<not> in_subtree (imageBuildIdPath img i) q \<Longrightarrow>
     tree z' q = tree z q"
  by (auto simp: deleteBuild_def bindE_eq_Inr imageBuildIdPath_def map_sum_eq_Inr
      dest: delete_elsewhere split: if_splits)

end

interpretation mem_server: zk_locks mem_kazoo mem_tree mem_locks
  by unfold_locales

subsection \<open>Where builds and uploads are\<close>

definition depth :: "string \<Rightarrow> nat" where
  "depth p = count_list p slash"

lemma depth_append [simp]: "depth (p @ q) = depth p + depth q"
  by (simp add: depth_def)

lemma depth_simps [simp]: "depth [] = 0" "depth (c # p) = (if c = slash then Suc (depth p) else depth p)"
  by (simp_all add: depth_def)

lemma depth_free: "slash \<notin> set p \<longleftrightarrow> depth p = 0"
  by (simp add: depth_def count_list_0_iff)

lemma in_subtree_depth: "in_subtree p q \<Longrightarrow> q = p \<or> depth p < depth q"
  by (auto simp: in_subtree_def startswith_iff)

lemma deeper_apart: "depth q < depth p \<Longrightarrow> \<not> in_subtree p q"
  by (auto dest: in_subtree_depth)

lemma image_depths:
  "depth (imageBuildsPath img) = 4 + depth img"
  "depth (imageBuildIdPath img b) = 5 + depth img + depth b"
  "depth (imageUploadPath img b p) = 8 + depth img + depth b + depth p"
  by (simp_all add: imageBuildIdPath_def imageBuildsPath_def imageUploadPath_def imagePath_def
      IMAGE_ROOT_def)

subsection \<open>Uploads\<close>

definition same_upload :: "image_upload \<Rightarrow> image_upload \<Rightarrow> bool" where
  "same_upload u v \<longleftrightarrow> up_image u = up_image v \<and> up_build u = up_build v \<and>
     up_provider u = up_provider v \<and> up_id u = up_id v"

text \<open>The znode is neither in the upload's subtree nor in that of the uploads' lock.\<close>

definition upload_apart :: "image_upload \<Rightarrow> string \<Rightarrow> bool" where
  "upload_apart u q \<longleftrightarrow>
     \<not> in_subtree (imageUploadPath (up_image u) (up_build u) (up_provider u) @ ''/'' @ up_id u) q \<and>
     \<not> in_subtree (imageUploadLockPath (up_image u) (up_build u) (up_provider u)) q"

lemma same_upload_apart: "same_upload u v \<Longrightarrow> upload_apart u q = upload_apart v q"
  by (simp add: same_upload_def upload_apart_def)

lemma set_upload_state_same: "set_upload_state st now u = Inr v \<Longrightarrow> same_upload v u"
  by (auto simp: set_upload_state_def set_state_def same_upload_def up_image_def up_build_def
      up_provider_def up_id_def split: option.splits if_splits)

lemma upload_lock_apart:
  assumes "upload_apart u q"
  shows "\<not> in_subtree (imageUploadNumberLockPath (up_image u) (up_build u) (up_provider u) (up_id u)) q"
  using assms in_subtree_trans [of "imageUploadPath (up_image u) (up_build u) (up_provider u) @ ''/'' @ up_id u" "''lock''" q]
  by (auto simp: upload_apart_def imageUploadNumberLockPath_def)

lemma mark_upload_same:
  fixes K :: "'z kazoo"
  shows "returns (\<lambda>r. \<forall>v. r = Some v \<longrightarrow> same_upload v u)
     (mark_upload K L now u :: ('c, 'z, image_upload option) bw_eff)"
proof -
  have "returns (\<lambda>r. \<forall>v. r = Some v \<longrightarrow> same_upload v u)
      (eff_bind (eff_lift (set_upload_state DELETING now u)) (\<lambda>u1.
         eff_bind (m u1) (\<lambda>n. eff_ret (Some u1))))" for m :: "image_upload \<Rightarrow> ('c, 'z, 'n) bw_eff"
    by (rule returns_bind [where Q = "\<lambda>v. same_upload v u"])
      (auto intro!: returned dest: set_upload_state_same)
  then have "returns (\<lambda>r. \<forall>v. r = Some v \<longrightarrow> same_upload v u)
      (unless_locked (with_upload_lock L u
         (eff_bind (eff_lift (set_upload_state DELETING now u)) (\<lambda>u1.
            eff_bind (m u1) (\<lambda>n. eff_ret (Some u1))))) None)" for m :: "image_upload \<Rightarrow> ('c, 'z, 'n) bw_eff"
    unfolding with_upload_lock_def imageUploadNumberLock_def
    by (intro returns_unless_locked returns_with_lock) auto
  then show ?thesis
    by (auto simp: mark_upload_def same_upload_def [of u u] intro!: returns_then returns_ret)
qed

context zk_locks
begin

lemma keeps_inProgressUpload:
  "upload_apart u q \<Longrightarrow> keeps_inv (znode_is tree q d) (inProgressUpload L u)"
  unfolding inProgressUpload_def imageUploadLock_def getImageUploadLock_def
  by (intro keeps keeps_locked) (simp add: upload_apart_def)

lemma keeps_with_upload_lock:
  "upload_apart u q \<Longrightarrow> keeps_inv (znode_is tree q d) m \<Longrightarrow>
     keeps_inv (znode_is tree q d) (with_upload_lock L u m)"
  unfolding with_upload_lock_def imageUploadNumberLock_def getImageUploadNumberLock_def
  by (intro keeps_locked upload_lock_apart)

lemma keeps_mark_upload:
  assumes "upload_apart u q"
  shows "keeps_inv (znode_is tree q d) (mark_upload K L now u)"
proof -
  have "keeps_inv (znode_is tree q d) (zk_do (storeImageUpload K (up_image v) (up_build v)
          (up_provider v) v (Some (up_id v))))" if "same_upload v u" for v
    using assms that
    by (intro keeps_zk_do) (auto simp: upload_apart_def same_upload_def dest!: storeImageUpload_elsewhere [where q = q])
  then show ?thesis
    unfolding mark_upload_def
    by (intro keeps keeps_inProgressUpload keeps_with_upload_lock assms
        keeps_bind_returned [where P = "\<lambda>v. same_upload v u" and m = "eff_lift r" for r])
      (auto intro!: returned dest: set_upload_state_same)
qed

lemma keeps_deleteUpload_of:
  assumes "upload_apart u q"
  shows "keeps_inv (znode_is tree q d) (deleteUpload_of K L M cfg now u)"
proof -
  have w: "keeps_inv (znode_is tree q d) (zk_write (deleteUpload K (up_image v) (up_build v) (up_provider v) (up_id v)))"
    if "same_upload v u" for v
    using assms that
    by (intro keeps_zk_write) (auto simp: upload_apart_def same_upload_def deleteUpload_def dest!: delete_elsewhere [where q = q])
  show ?thesis
    unfolding deleteUpload_of_def
  proof (rule keeps_bind_returned [OF keeps_mark_upload [OF assms] mark_upload_same])
    fix r assume r: "\<forall>v. r = Some v \<longrightarrow> same_upload v u"
    show "keeps_inv (znode_is tree q d) (case r of None \<Rightarrow> eff_ret ()
        | Some v \<Rightarrow> if o_state v \<noteq> Some DELETING then eff_ret ()
            else if up_provider v \<notin> set (bc_managers cfg) then eff_raise KeyError
            else eff_bind (eff_try (eff_seq (delete_external M v) (eff_ret True)) (\<lambda>e. eff_ret False))
              (\<lambda>gone. if \<not> gone then eff_ret () else unless_locked (with_upload_lock L v
                (zk_write (deleteUpload K (up_image v) (up_build v) (up_provider v) (up_id v)))) ()))"
    proof (cases r)
      case (Some v)
      with r have v: "same_upload v u" by simp
      then have "upload_apart v q" using assms same_upload_apart by blast
      with Some w [OF v] show ?thesis
        by (auto simp: delete_external_def intro!: keeps keeps_with_upload_lock)
    qed (simp add: keeps)
  qed
qed

lemma keeps_cleanup_cruft:
  assumes "upload_apart u q" and "up_image u = img" "up_build u = b" "up_provider u = p"
  shows "keeps_inv (znode_is tree q d) (cleanup_cruft K L M cfg now p img b u)"
proof -
  have "keeps_inv (znode_is tree q d) (zk_write (deleteUpload K img b p (up_id u)))"
    using assms by (intro keeps_zk_write) (auto simp: upload_apart_def deleteUpload_def dest!: delete_elsewhere [where q = q])
  then show ?thesis
    unfolding cleanup_cruft_def
    by (intro keeps keeps_inProgressUpload keeps_deleteUpload_of assms)
qed

end

subsection \<open>What is read\<close>

lemma image_upload_fromDict_names:
  assumes "image_upload_fromDict d b p img i now = Inr u"
  shows "iu_image_name u = img \<and> iu_build_id u = b \<and> iu_provider_name u = p \<and> o_id u = i"
  using assms
  by (auto simp: image_upload_fromDict_def from_upd_def image_upload_updateFromDict_def
      base_updateFromDict_def set_state_def image_upload_init_def Let_def
      split: prod.splits option.splits sum.splits if_splits json.splits)

lemma image_build_fromDict_id:
  assumes "image_build_fromDict d img i now = Inr b"
  shows "o_id b = i"
  using assms
  by (auto simp: image_build_fromDict_def from_upd_def image_build_updateFromDict_def
      base_updateFromDict_def set_state_def image_build_init_def Let_def
      split: prod.splits option.splits sum.splits if_splits json.splits)

lemma getImageUpload_names:
  assumes "getImageUpload K img b p n now z = Inr (Some u)"
  shows "up_image u = img \<and> up_build u = b \<and> up_provider u = p \<and> up_id u = n"
  using assms
  by (auto simp: getImageUpload_def up_image_def up_build_def up_provider_def up_id_def str_id_def
      bindE_eq_Inr split: sum.splits pyexc.splits prod.splits dest!: image_upload_fromDict_names)

lemma getBuild_id: "getBuild K img i now z = Inr (Some b) \<Longrightarrow> o_id b = Some i"
  by (auto simp: getBuild_def bindE_eq_Inr split: sum.splits pyexc.splits prod.splits
      dest!: image_build_fromDict_id)

lemma list_all2_mem:
  assumes "y \<in> set ys" and "list_all2 P xs ys"
  obtains x where "x \<in> set xs" "P x y"
  using assms(2,1) by (induction rule: list_all2_induct) auto

context zk_server
begin

lemma children_names:
  "kz_children K p z = Inr cs \<Longrightarrow> distinct cs \<and> (\<forall>c \<in> set cs. slash \<notin> set c)"
  by (cases "tree z p") (use children_missing children_there in fastforce)+

lemma getUploads_mem:
  assumes "getUploads K img b p st now z = Inr us" and "u \<in> set us"
  shows "up_image u = img \<and> up_build u = b \<and> up_provider u = p \<and> slash \<notin> set (up_id u) \<and>
    up_id u \<noteq> ''lock'' \<and> upload_matches st u \<and> getImageUpload K img b p (up_id u) now z = Inr (Some u)"
proof -
  from assms obtain cs os where cs: "kz_children K (imageUploadPath img b p) z = Inr cs"
    and os: "list_all2 (\<lambda>n ou. getImageUpload K img b p n now z = Inr ou) (not_lock cs) os"
    and us: "us = filter (upload_matches st) (somes os)"
    by (auto simp: getUploads_def map_sum_eq_Inr mapE_Inr split: sum.splits pyexc.splits)
  from us assms(2) have "Some u \<in> set os" and st: "upload_matches st u"
    by (auto simp: somes_def map_filter_def)
  obtain n where "n \<in> set (not_lock cs)" "getImageUpload K img b p n now z = Inr (Some u)"
    by (rule list_all2_mem [OF \<open>Some u \<in> set os\<close> os])
  with getImageUpload_names [OF this(2)] children_names [OF cs] st show ?thesis
    by (auto simp: not_lock_mem)
qed

lemma getBuilds_mem:
  assumes "getBuilds K img None now z = Inr bs"
  shows "\<exists>ids. distinct ids \<and> (\<forall>i \<in> set ids. slash \<notin> set i \<and> i \<noteq> ''lock'') \<and>
    list_all2 (\<lambda>i bo. getBuild K img i now z = Inr bo) ids bs"
proof (cases "kz_children K (imageBuildsPath img) z")
  case (Inl e)
  with assms have "bs = []" by (auto simp: getBuilds_def split: pyexc.splits)
  then show ?thesis by (intro exI [of _ "[]"]) simp
next
  case (Inr cs)
  with assms have "list_all2 (\<lambda>i bo. getBuild K img i now z = Inr bo) (not_lock cs) bs"
    by (auto simp: getBuilds_def map_sum_eq_Inr mapE_Inr build_matches_def)
  with children_names [OF Inr] show ?thesis
    by (intro exI [of _ "not_lock cs"]) (auto simp: not_lock_def)
qed

text \<open>Builds read together are told apart by their ids.\<close>

lemma getBuilds_unique:
  assumes "getBuilds K img None now z = Inr bs" and "Some b \<in> set bs" and "Some c \<in> set bs"
    and "o_id b = o_id c"
  shows "b = c"
proof -
  obtain ids where d: "distinct ids" and l: "list_all2 (\<lambda>i bo. getBuild K img i now z = Inr bo) ids bs"
    using getBuilds_mem [OF assms(1)] by blast
  from assms(2,3) obtain j k where j: "j < length bs" "bs ! j = Some b" and k: "k < length bs" "bs ! k = Some c"
    by (auto simp: in_set_conv_nth)
  from l j k have "o_id b = Some (ids ! j)" "o_id c = Some (ids ! k)" "length ids = length bs"
    by (auto simp: list_all2_conv_all_nth dest!: getBuild_id)
  with assms(4) d j k have "j = k" by (simp add: nth_eq_iff_index_eq)
  with j k show ?thesis by simp
qed

lemma getBuilds_ids:
  assumes "getBuilds K img None now z = Inr bs" and "Some b \<in> set bs"
  shows "\<exists>i. o_id b = Some i \<and> slash \<notin> set i \<and> i \<noteq> ''lock'' \<and> getBuild K img i now z = Inr (Some b)"
proof -
  obtain ids where d: "\<forall>i \<in> set ids. slash \<notin> set i \<and> i \<noteq> ''lock''"
    and l: "list_all2 (\<lambda>i bo. getBuild K img i now z = Inr bo) ids bs"
    using getBuilds_mem [OF assms(1)] by blast
  obtain i where "i \<in> set ids" "getBuild K img i now z = Inr (Some b)"
    by (rule list_all2_mem [OF assms(2) l])
  with d getBuild_id [OF this(2)] show ?thesis by auto
qed

end

text \<open>The builds that are kept: ready ones, in the list.\<close>

lemma builds_to_keep_ready:
  assumes "builds_to_keep c bs = Inr keep" and "i \<in> set keep"
  shows "\<exists>b. Some b \<in> set bs \<and> str_id (o_id b) = i \<and> o_state b = Some READY"
proof -
  from assms obtain ss where none: "None \<notin> set bs" and ss: "sort_newest o_state_time (map the bs) = Inr ss"
    and keep: "keep = map (\<lambda>b. str_id (o_id b)) (take 2 (filter (\<lambda>b. o_state b = Some READY) ss))"
    by (auto simp: builds_to_keep_def map_sum_eq_Inr split: if_splits)
  from keep assms(2) obtain b where b: "b \<in> set (filter (\<lambda>b. o_state b = Some READY) ss)"
    and i: "i = str_id (o_id b)"
    by (auto dest: in_set_takeD)
  from b have "b \<in> set ss" and st: "o_state b = Some READY" by auto
  moreover have "set ss = set (map the bs)" using sort_newest_perm [OF ss] by (metis set_mset_mset)
  ultimately obtain bo where "bo \<in> set bs" "b = the bo" by auto
  with none have "Some b \<in> set bs" by (cases bo) auto
  with i st show ?thesis by blast
qed

subsection \<open>The cleanup of an image\<close>

definition uploads_apart :: "string \<Rightarrow> string \<Rightarrow> string \<Rightarrow> string \<Rightarrow> bool" where
  "uploads_apart img b p q \<longleftrightarrow>
     (\<forall>u. up_image u = img \<longrightarrow> up_build u = b \<longrightarrow> up_provider u = p \<longrightarrow> slash \<notin> set (up_id u) \<longrightarrow>
        up_id u \<noteq> ''lock'' \<longrightarrow> upload_apart u q)"

context zk_locks
begin

lemma uploads_apart_mem:
  "uploads_apart img b p q \<Longrightarrow> getUploads K img b p st now z = Inr us \<Longrightarrow> u \<in> set us \<Longrightarrow> upload_apart u q"
  using getUploads_mem unfolding uploads_apart_def by blast

lemma keeps_cleanupProvider:
  assumes "uploads_apart img b (ip_name p) q"
  shows "keeps_inv (znode_is tree q d) (cleanupProvider K L M cfg now p img b)"
  unfolding cleanupProvider_def
  by (intro keeps_read_bind keeps_each_mem keeps keeps_deleteUpload_of uploads_apart_mem [OF assms])

lemma keeps_cleanupObsolete:
  assumes "img \<notin> set (map fst (ip_diskimages p)) \<Longrightarrow> uploads_apart img b (ip_name p) q"
  shows "keeps_inv (znode_is tree q d) (cleanupObsoleteProviderUploads K L M cfg now p img b)"
  unfolding cleanupObsoleteProviderUploads_def
  by (intro keeps_read_bind keeps_each_mem keeps keeps_deleteUpload_of uploads_apart_mem [OF assms])

lemma keeps_cleanupCurrent:
  fixes M :: "'c image_managers"
  assumes "\<And>(w :: ('c, 'z) builder_world) us u. znode_is tree q d w \<Longrightarrow>
      getUploads K img b p (Some [UPLOADING, DELETING, FAILED]) now (bw_zk w) = Inr us \<Longrightarrow> u \<in> set us \<Longrightarrow>
      upload_apart u q"
  shows "keeps_inv (znode_is tree q d) (cleanupCurrentProviderUploads K L M cfg now p img b)"
  unfolding cleanupCurrentProviderUploads_def
proof (intro keeps_read_bind keeps_each_mem)
  fix w :: "('c, 'z) builder_world" and us u
  assume w: "znode_is tree q d w" and us: "getUploads K img b p (Some [UPLOADING, DELETING, FAILED]) now (bw_zk w) = Inr us"
    and u: "u \<in> set us"
  show "keeps_inv (znode_is tree q d) (cleanup_cruft K L M cfg now p img b u)"
    using keeps_cleanup_cruft [OF assms [OF w us u]] getUploads_mem [OF us u] by blast
qed

lemma keeps_inProgressBuild:
  assumes "\<not> in_subtree (imageBuildLockPath img) q"
  shows "keeps_inv (znode_is tree q d) (inProgressBuild K L now b img)"
  unfolding inProgressBuild_def imageBuildLock_def getImageBuildLock_def
  by (intro keeps keeps_locked assms)

lemma set_build_state_id: "set_build_state st now b = Inr c \<Longrightarrow> o_id c = o_id b"
  by (auto simp: set_build_state_def set_state_def split: option.splits if_splits)

lemma keeps_mark_build:
  assumes "\<not> in_subtree (imageBuildIdPath img (str_id (o_id b))) q"
  shows "keeps_inv (znode_is tree q d) (mark_build K L now img b)"
proof -
  have lock: "\<not> in_subtree (imageBuildIdLockPath img (str_id (o_id b))) q"
    using assms in_subtree_trans [of "imageBuildIdPath img (str_id (o_id b))" "''lock''" q]
    by (auto simp: imageBuildIdLockPath_def)
  have "keeps_inv (znode_is tree q d) (zk_do (storeBuild K img c (Some (str_id (o_id c))) ''''))"
    if "o_id c = o_id b" for c
    using assms that by (intro keeps_zk_do) (auto dest!: storeBuild_elsewhere [where q = q])
  then show ?thesis
    unfolding mark_build_def imageBuildIdLock_def getImageBuildIdLock_def
    by (intro keeps keeps_locked lock keeps_bind_returned [where P = "\<lambda>c. o_id c = o_id b" and m = "eff_lift r" for r])
      (auto intro!: returned dest: set_build_state_id)
qed

lemma keeps_remove_build:
  assumes "\<not> in_subtree (imageBuildIdPath img (str_id (o_id b))) q"
    and "\<And>p. p \<in> set (bc_providers cfg) \<Longrightarrow> uploads_apart img (str_id (o_id b)) (ip_name p) q"
  shows "keeps_inv (znode_is tree q d) (remove_build K L M cfg now img b)"
proof -
  have "keeps_inv (znode_is tree q d) (zk_do (deleteBuild K img (str_id (o_id b))))"
    using assms(1) by (intro keeps_zk_do) (auto dest!: deleteBuild_elsewhere [where q = q])
  then show ?thesis
    unfolding remove_build_def
    by (intro keeps keeps_each_mem keeps_cleanupProvider keeps_mark_build assms)
qed

lemma keeps_cleanup_build_uploads:
  fixes M :: "'c image_managers"
  assumes "\<And>p. p \<in> set (bc_providers cfg) \<Longrightarrow> ip_manage_images p \<Longrightarrow>
      img \<notin> set (map fst (ip_diskimages p)) \<Longrightarrow> uploads_apart img b (ip_name p) q"
    and "\<And>p (w :: ('c, 'z) builder_world) us u. p \<in> set (bc_providers cfg) \<Longrightarrow> k \<Longrightarrow> znode_is tree q d w \<Longrightarrow>
      getUploads K img b (ip_name p) (Some [UPLOADING, DELETING, FAILED]) now (bw_zk w) = Inr us \<Longrightarrow>
      u \<in> set us \<Longrightarrow> upload_apart u q"
  shows "keeps_inv (znode_is tree q d) (cleanup_build_uploads K L M cfg now img b k)"
  unfolding cleanup_build_uploads_def
  by (intro keeps keeps_each_mem keeps_cleanupObsolete keeps_cleanupCurrent) (blast intro: assms)+

text \<open>A znode of a build that is kept, apart from the locks and from what belongs to other builds.\<close>

lemma cleanupImage_keeps:
  fixes M :: "'c image_managers"
  assumes bs: "getBuilds K img None now (bw_zk w) = Inr bs"
    and keep: "builds_to_keep (map_of (bc_images cfg) img \<noteq> None) bs = Inr keep" and i: "i \<in> set keep"
    and lock: "\<not> in_subtree (imageBuildLockPath img) q"
    and other: "\<And>c. c \<noteq> i \<Longrightarrow> slash \<notin> set c \<Longrightarrow> \<not> in_subtree (imageBuildIdPath img c) q"
    and others: "\<And>c p. c \<noteq> i \<Longrightarrow> slash \<notin> set c \<Longrightarrow> p \<in> set (bc_providers cfg) \<Longrightarrow>
        uploads_apart img c (ip_name p) q"
    and obsolete: "\<And>p. p \<in> set (bc_providers cfg) \<Longrightarrow> ip_manage_images p \<Longrightarrow>
        img \<notin> set (map fst (ip_diskimages p)) \<Longrightarrow> uploads_apart img i (ip_name p) q"
    and current: "\<And>p (w :: ('c, 'z) builder_world) us u. p \<in> set (bc_providers cfg) \<Longrightarrow> znode_is tree q d w \<Longrightarrow>
        getUploads K img i (ip_name p) (Some [UPLOADING, DELETING, FAILED]) now (bw_zk w) = Inr us \<Longrightarrow>
        u \<in> set us \<Longrightarrow> upload_apart u q"
    and w: "znode_is tree q d w"
  shows "znode_is tree q d (snd (cleanupImage K L M cfg now img w))"
proof -
  have one: "keeps_inv (znode_is tree q d) (cleanup_build K L M cfg now img keep bo)" if bo: "bo \<in> set bs" for bo
  proof (cases bo)
    case (Some b)
    with getBuilds_ids [OF bs] bo obtain j where j: "o_id b = Some j" "slash \<notin> set j" by blast
    show ?thesis
    proof (cases "j = i")
      case True
      from builds_to_keep_ready [OF keep i] obtain c where c: "Some c \<in> set bs" "str_id (o_id c) = i"
        "o_state c = Some READY" by blast
      from getBuilds_ids [OF bs c(1)] c(2) have "o_id c = Some i" by (auto simp: str_id_def)
      with getBuilds_unique [OF bs _ c(1), of b] bo Some j True have "b = c" by simp
      with c(3) Some j i True
      have "cleanup_build K L M cfg now img keep bo =
          eff_seq (cleanup_build_uploads K L M cfg now img i True) (eff_ret ())"
        by (simp add: cleanup_build_def str_id_def)
      moreover have "keeps_inv (znode_is tree q d) (cleanup_build_uploads K L M cfg now img i True)"
        by (intro keeps_cleanup_build_uploads obsolete) (blast intro: current)+
      ultimately show ?thesis by (simp add: keeps)
    next
      case False
      note ap = others [OF False j(2)]
      have "keeps_inv (znode_is tree q d) (cleanup_build_uploads K L M cfg now img j k)" for k
        by (intro keeps_cleanup_build_uploads) (blast intro: ap uploads_apart_mem [OF ap])+
      moreover have "keeps_inv (znode_is tree q d) (remove_build K L M cfg now img b)"
        using j by (intro keeps_remove_build) (simp_all add: str_id_def other [OF False] ap)
      ultimately show ?thesis
        using Some j by (auto simp: cleanup_build_def str_id_def Let_def intro!: keeps keeps_inProgressBuild lock)
    qed
  qed (simp add: cleanup_build_def keeps)
  have "keeps_inv (znode_is tree q d) (eff_each (cleanup_build K L M cfg now img keep) bs)"
    by (rule keeps_each_mem) (rule one)
  from keepsD [OF this w] show ?thesis
    by (simp add: cleanupImage_def zk_read_def eff_bind_def eff_read_def eff_lift_def bs keep
        del: not_None_eq)
qed

end

subsection \<open>Builds and uploads that are kept\<close>

lemma build_subtree:
  assumes "slash \<notin> set i"
  shows "in_subtree (imageBuildsPath img @ ''/'' @ x) (imageBuildIdPath img i) \<longleftrightarrow> x = i"
  using assms by (auto simp: in_subtree_def startswith_iff imageBuildIdPath_def)

lemma uploads_in_build:
  assumes "\<not> in_subtree (imageBuildIdPath img b) q"
  shows "uploads_apart img b p q"
  using assms in_subtree_trans [of "imageBuildIdPath img b" _ q]
  by (auto simp: uploads_apart_def upload_apart_def imageUploadLockPath_def imageUploadPath_def imageBuildIdPath_def)

lemma builds_apart:
  assumes "slash \<notin> set i" and "slash \<notin> set c" and "c \<noteq> i"
  shows "\<not> in_subtree (imageBuildIdPath img c) (imageBuildIdPath img i @ slash # x)"
proof
  assume "in_subtree (imageBuildIdPath img c) (imageBuildIdPath img i @ slash # x)"
  then obtain t where "i @ slash # x = c \<or> i @ slash # x = c @ slash # t"
    by (auto simp: in_subtree_def startswith_iff imageBuildIdPath_def)
  moreover have "i @ slash # x \<noteq> c" using assms(2) by auto
  ultimately have "i @ slash # x = c @ slash # t" by blast
  with assms show False
    by (auto simp: append_eq_append_conv2 append_eq_Cons_conv Cons_eq_append_conv)
qed

lemma free_append_eq:
  assumes "a @ slash # x = b @ slash # y" and "slash \<notin> set a" and "slash \<notin> set b"
  shows "a = b \<and> x = y"
  using assms by (auto simp: append_eq_append_conv2 append_eq_Cons_conv Cons_eq_append_conv)

lemma upload_subtree:
  assumes p: "slash \<notin> set p" and u: "slash \<notin> set u"
    and s: "in_subtree (imageUploadPath img i p' @ ''/'' @ u') (imageUploadPath img i p @ ''/'' @ u)"
  shows "p' = p \<and> u' = u"
proof -
  let ?P = "imageUploadPath img i p' @ ''/'' @ u'" and ?Q = "imageUploadPath img i p @ ''/'' @ u"
  have "depth ?Q \<le> depth ?P" using p u by (simp add: image_depths depth_free)
  with in_subtree_depth [OF s] have eq: "?Q = ?P" by linarith
  then have "depth ?Q = depth ?P" by simp
  then have "slash \<notin> set p'" using p u by (simp add: image_depths depth_free)
  moreover from eq have "p @ slash # ''images/'' @ u = p' @ slash # ''images/'' @ u'"
    by (simp add: imageUploadPath_def)
  ultimately have "p = p' \<and> ''images/'' @ u = ''images/'' @ u'" using free_append_eq p by blast
  then show ?thesis by simp
qed

context zk_locks
begin

lemma kept_id:
  assumes "getBuilds K img None now z = Inr bs" and "builds_to_keep x bs = Inr keep" and "i \<in> set keep"
  shows "slash \<notin> set i" "i \<noteq> ''lock''"
proof -
  from builds_to_keep_ready [OF assms(2,3)] obtain c where c: "Some c \<in> set bs" "str_id (o_id c) = i" by blast
  from getBuilds_ids [OF assms(1) c(1)] c(2) show "slash \<notin> set i" "i \<noteq> ''lock''"
    by (auto simp: str_id_def)
qed

theorem kept_build_stays:
  assumes bs: "getBuilds K img None now (bw_zk w) = Inr bs"
    and keep: "builds_to_keep (map_of (bc_images cfg) img \<noteq> None) bs = Inr keep" and i: "i \<in> set keep"
    and w: "tree (bw_zk w) (imageBuildIdPath img i) = Some d"
  shows "tree (bw_zk (snd (cleanupImage K L M cfg now img w))) (imageBuildIdPath img i) = Some d"
proof -
  note i' = kept_id [OF bs keep i]
  let ?q = "imageBuildIdPath img i"
  have sub: "\<not> in_subtree (imageBuildIdPath img x) ?q" if "x \<noteq> i" for x
    using build_subtree [OF i'(1), of img x] that by (simp add: imageBuildIdPath_def)
  have up: "uploads_apart img b p ?q" for b p
  proof (cases "b = i")
    case True
    show ?thesis
      using build_subtree [OF i'(1), of img "i @ ''/providers/'' @ p @ ''/images/'' @ x" for x] True
      by (auto simp: uploads_apart_def upload_apart_def imageUploadPath_def imageUploadLockPath_def)
  qed (simp add: uploads_in_build sub)
  have "znode_is tree ?q d (snd (cleanupImage K L M cfg now img w))"
  proof (rule cleanupImage_keeps [OF bs keep i])
    show "\<not> in_subtree (imageBuildLockPath img) ?q"
      using sub [OF not_sym [OF i'(2)]] by (simp add: imageBuildLockPath_def imageBuildIdPath_def)
    show "znode_is tree ?q d w" using w by (simp add: znode_is_def)
  qed (use sub up uploads_apart_mem [OF up] in blast)+
  then show ?thesis by (simp add: znode_is_def)
qed

lemma getImageUpload_state:
  assumes "tree z (imageUploadPath img b p @ ''/'' @ n) = Some d"
    and "tree z' (imageUploadPath img b p @ ''/'' @ n) = Some d"
    and "getImageUpload K img b p n now z = Inr (Some u)" and "getImageUpload K img b p n now z' = Inr (Some v)"
  shows "o_state u = o_state v"
proof -
  from get_there [OF assms(1)] get_there [OF assms(2)] obtain st st' where
    "kz_get K (imageUploadPath img b p @ ''/'' @ n) z = Inr (d, st)"
    "kz_get K (imageUploadPath img b p @ ''/'' @ n) z' = Inr (d, st')" by blast
  with assms(3,4) show ?thesis
    by (auto simp: getImageUpload_def bindE_eq_Inr split: sum.splits pyexc.splits)
qed

theorem kept_upload_stays:
  fixes w :: "('c, 'z) builder_world"
  assumes bs: "getBuilds K img None now (bw_zk w) = Inr bs"
    and keep: "builds_to_keep (map_of (bc_images cfg) img \<noteq> None) bs = Inr keep" and i: "i \<in> set keep"
    and names: "slash \<notin> set p" "slash \<notin> set n" "n \<noteq> ''lock''"
    and used: "\<And>r. r \<in> set (bc_providers cfg) \<Longrightarrow> ip_name r = p \<Longrightarrow> img \<in> set (map fst (ip_diskimages r))"
    and u: "getImageUpload K img i p n now (bw_zk w) = Inr (Some u)" "o_state u = Some READY"
    and w: "tree (bw_zk w) (imageUploadPath img i p @ ''/'' @ n) = Some d"
  shows "tree (bw_zk (snd (cleanupImage K L M cfg now img w))) (imageUploadPath img i p @ ''/'' @ n) = Some d"
proof -
  note i' = kept_id [OF bs keep i]
  let ?q = "imageUploadPath img i p @ ''/'' @ n"
  have q: "?q = imageBuildIdPath img i @ slash # ''providers/'' @ p @ ''/images/'' @ n"
    by (simp add: imageUploadPath_def imageBuildIdPath_def)
  have sub: "\<not> in_subtree (imageBuildIdPath img x) ?q" if "x \<noteq> i" "slash \<notin> set x" for x
    unfolding q by (rule builds_apart) (use i' that in auto)
  have apart: "upload_apart v ?q" if "up_image v = img" "up_build v = i" "up_provider v \<noteq> p \<or> up_id v \<noteq> n" for v
    using upload_subtree [OF names(1,2), of img i "up_provider v"] that names(3)
    by (auto simp: upload_apart_def imageUploadLockPath_def)
  have "znode_is tree ?q d (snd (cleanupImage K L M cfg now img w))"
  proof (rule cleanupImage_keeps [OF bs keep i])
    have "slash \<notin> set ''lock''" by simp
    with sub [OF not_sym [OF i'(2)]] show "\<not> in_subtree (imageBuildLockPath img) ?q"
      by (simp add: imageBuildLockPath_def imageBuildIdPath_def)
    show "znode_is tree ?q d w" using w by (simp add: znode_is_def)
    show "uploads_apart img x (ip_name r) ?q" if "x \<noteq> i" "slash \<notin> set x" for x r
      by (rule uploads_in_build) (rule sub [OF that])
    show "uploads_apart img i (ip_name r) ?q"
      if "r \<in> set (bc_providers cfg)" "img \<notin> set (map fst (ip_diskimages r))" for r
    proof -
      have "ip_name r \<noteq> p" using used [OF that(1)] that(2) by blast
      then show ?thesis unfolding uploads_apart_def by (intro allI impI apart) simp_all
    qed
    fix r w' us v
    assume w': "znode_is tree ?q d w'" and us: "getUploads K img i (ip_name r)
        (Some [UPLOADING, DELETING, FAILED]) now (bw_zk w') = Inr us" and v: "v \<in> set us"
    note m = getUploads_mem [OF us v]
    show "upload_apart v ?q"
    proof (cases "up_provider v = p \<and> up_id v = n")
      case True
      with m have "getImageUpload K img i p n now (bw_zk w') = Inr (Some v)" by auto
      with getImageUpload_state [OF w _ u(1) this] w' u(2) have "o_state v = Some READY"
        by (simp add: znode_is_def)
      with m have False by (simp add: upload_matches_def)
      then show ?thesis ..
    qed (use apart m in blast)
  qed (use sub in blast)
  then show ?thesis by (simp add: znode_is_def)
qed

end

end
