(* ===== verification/DibProps.thy ===== *)
theory DibProps
  imports BuilderProps
begin

section \<open>Which files the cleanup removes\<close>

text \<open>
  The files a build's removal or pruning can reach are those of the build, by name; every other file
  keeps its text. What is left after a removal that ends normally has no extension, and the build's
  manifest is gone.
\<close>

subsection \<open>Names of image files\<close>

lemma last_ext_no_dot: "dot \<notin> set (last_ext name)"
  by (auto simp: last_ext_def dest: set_takeWhileD)

lemma has_suffix_split:
  assumes "dot \<in> set name"
  shows "name = before_ext name @ dot # last_ext name"
proof -
  let ?r = "rev name"
  have "dropWhile (\<lambda>c. c \<noteq> dot) ?r = dot # tl (dropWhile (\<lambda>c. c \<noteq> dot) ?r)"
    using assms by (metis (mono_tags, lifting) dropWhile_eq_Nil_conv hd_Cons_tl hd_dropWhile set_rev)
  then have r: "?r = takeWhile (\<lambda>c. c \<noteq> dot) ?r @ dot # tl (dropWhile (\<lambda>c. c \<noteq> dot) ?r)"
    by (metis takeWhile_dropWhile_id)
  define a where "a = rev (tl (dropWhile (\<lambda>c. c \<noteq> dot) ?r))"
  from r have "name = a @ dot # last_ext name"
    unfolding a_def last_ext_def by (metis append.assoc append_Cons append_Nil rev.simps(2) rev_append rev_rev_ident)
  moreover from this have "before_ext name = a"
    unfolding before_ext_def by (metis add_diff_cancel_right' append_eq_conv_conj length_Cons length_append)
  ultimately show ?thesis by simp
qed

lemma takeWhile_free: "dot \<notin> set r \<Longrightarrow> takeWhile (\<lambda>c. c \<noteq> dot) (r @ dot # x) = r"
  by (induction r) auto

lemma last_ext_name: "dot \<notin> set e \<Longrightarrow> last_ext (b @ dot # e) = e"
  by (simp add: last_ext_def takeWhile_free)

lemma drop_last_ext [simp]: "dropWhile (\<lambda>c. c = dot) (last_ext n) = last_ext n"
  by (cases "last_ext n") (use last_ext_no_dot [of n] in auto)

lemma rsplit_dot_name: "dot \<notin> set e \<Longrightarrow> rsplit_dot (b @ dot # e) = Inr (b, e)"
  by (simp add: rsplit_dot_def before_ext_def last_ext_name)

text \<open>An image file of an id: its name is the id, or the id, a dot and its extension.\<close>

lemma from_image_id_ext:
  assumes "f \<in> set (from_image_id d i)"
  shows "df_image_id f = i \<and> dot \<notin> set (df_extension f) \<and> df_md5_file f = None \<and> df_sha256_file f = None"
  using assms
  by (auto simp: last_ext_no_dot from_image_id_def dib_image_file_init_def path_suffix_def
      split: if_splits)

lemma from_image_id_file:
  assumes "n \<in> fst ` set (id_files d)" and "has_suffix n" and "path_stem n = i"
  shows "\<exists>f \<in> set (from_image_id d i). n = i @ dot # df_extension f"
proof -
  from assms(1) obtain t where t: "(n, t) \<in> set (id_files d)" by auto
  let ?f = "dib_image_file_init (path_stem n) (path_suffix n)"
  have "df_extension ?f = last_ext n" "df_image_id ?f = i"
    using assms(2,3) by (simp_all add: dib_image_file_init_def path_suffix_def)
  moreover have "n = i @ dot # last_ext n"
    using has_suffix_split [of n] assms(2,3) by (simp add: path_stem_def has_suffix_def)
  moreover have "?f \<in> set (from_image_id d i)"
    using t assms(3) by (force simp: from_image_id_def dib_image_file_init_def)
  ultimately show ?thesis by metis
qed

text \<open>The names \<open>to_path\<close> gives.\<close>

definition file_names :: "string \<Rightarrow> string \<Rightarrow> string set" where
  "file_names i e = {i @ dot # e, i @ dot # e @ ''.md5'', i @ dot # e @ ''.sha256''}"

lemma to_path_names:
  assumes "to_path d f = (n, f1)" and "df_md5_file f = None" and "df_sha256_file f = None"
  shows "n = df_image_id f @ dot # df_extension f"
    and "item \<in> {Some n, df_md5_file f1, df_sha256_file f1} \<Longrightarrow> item = Some m \<Longrightarrow>
           m \<in> file_names (df_image_id f) (df_extension f)"
  using assms by (auto simp: to_path_def file_names_def Let_def split: option.splits if_splits)

lemma to_path_checksums:
  assumes "to_path d f = (n, f1)" and "df_md5_file f = None" and "df_sha256_file f = None"
    and "item \<in> {df_md5_file f1, df_sha256_file f1}" and "item = Some m"
  shows "m \<in> fst ` set (id_files d)"
proof -
  from assms have "map_of (id_files d) m \<noteq> None"
    by (auto simp: to_path_def checksum_def Let_def split: option.splits if_splits)
  then show ?thesis by (simp add: map_of_eq_None_iff)
qed

subsection \<open>Effects on the files\<close>

lemma map_of_filter_other: "n \<noteq> m \<Longrightarrow> map_of (filter (\<lambda>(k, t). k \<noteq> n) xs) m = map_of xs m"
  by (induction xs) auto

text \<open>A file that is not an item keeps its text; files only become fewer; directories stay.\<close>

definition file_is :: "string \<Rightarrow> string option \<Rightarrow> image_dir \<Rightarrow> bool" where
  "file_is n t d \<longleftrightarrow> map_of (id_files d) n = t"

lemma keeps_removeDibItem:
  "(\<And>m. item = Some m \<Longrightarrow> m \<noteq> n) \<Longrightarrow> keeps_inv (file_is n t) (removeDibItem item)"
  by (rule keepsI) (auto simp: removeDibItem_def file_is_def map_of_filter_other split: option.splits if_splits)

lemma keeps_items:
  assumes "df_image_id f = i" "df_md5_file f = None" "df_sha256_file f = None"
    and "n \<notin> file_names i (df_extension f)" and "to_path d f = (m, f1)"
  shows "keeps_inv (file_is n t) (eff_each removeDibItem [Some m, df_md5_file f1, df_sha256_file f1])"
proof (rule keeps_each_mem)
  fix item assume "item \<in> set [Some m, df_md5_file f1, df_sha256_file f1]"
  then have "item \<in> {Some m, df_md5_file f1, df_sha256_file f1}" by auto
  with to_path_names(2) [OF assms(5,2,3) this] assms(1,4)
  show "keeps_inv (file_is n t) (removeDibItem item)"
    by (intro keeps_removeDibItem) auto
qed

lemma keeps_get_bind:
  assumes "\<And>s. I s \<Longrightarrow> keeps_inv I (g (f s))"
  shows "keeps_inv I (eff_bind (eff_get f) g)"
  by (rule keepsI) (auto simp: eff_bind_def eff_get_def intro: keepsE [OF assms])

lemma keeps_prune_files:
  assumes "\<And>e. dot \<notin> set e \<Longrightarrow> e \<notin> set to_keep \<Longrightarrow> n \<notin> file_names (build_base img b) e"
  shows "keeps_inv (file_is n t) (prune_files to_keep img b)"
  unfolding prune_files_def
proof (intro keeps_get_bind keeps_each_mem)
  fix d f assume f: "f \<in> set (from_image_id d (build_base img b))"
  note e = from_image_id_ext [OF f]
  have "keeps_inv (file_is n t) (case to_path d' f of (m, f1) \<Rightarrow>
      eff_each removeDibItem [Some m, df_md5_file f1, df_sha256_file f1])"
    if "df_extension f \<notin> set to_keep" for d'
  proof (cases "to_path d' f")
    case (Pair m f1)
    with keeps_items [OF _ _ _ _ Pair, of "build_base img b"] assms e that show ?thesis by simp
  qed
  then show "keeps_inv (file_is n t) (if df_extension f \<in> set to_keep then eff_ret ()
      else eff_bind (eff_get (\<lambda>d. to_path d f)) (\<lambda>(m, f1).
        eff_each removeDibItem [Some m, df_md5_file f1, df_sha256_file f1]))"
    by (intro keeps keeps_get_bind)
qed

lemma keeps_remove_image_file:
  assumes "df_image_id f = i" "df_md5_file f = None" "df_sha256_file f = None"
    and "n \<notin> file_names i (df_extension f)"
  shows "keeps_inv (file_is n t) (remove_image_file f)"
  unfolding remove_image_file_def
proof (rule keeps_get_bind)
  fix d
  obtain m f1 where m: "to_path d f = (m, f1)" by fastforce
  have "keeps_inv (file_is n t) (eff_seq
      (eff_each removeDibItem [Some m, df_md5_file f1, df_sha256_file f1]) (eff_ret x))" for x
    by (intro keeps_seq keeps_items [OF assms m] keeps_pure)
  then show "keeps_inv (file_is n t) (case to_path d f of (filename, f1) \<Rightarrow>
      eff_bind (eff_lift (rsplit_dot filename)) (\<lambda>(path, ext).
        eff_seq (eff_each removeDibItem [Some filename, df_md5_file f1, df_sha256_file f1])
          (eff_ret (path @ ''.d''))))"
    unfolding m prod.case by (intro keeps_bind keeps_pure) (auto split: prod.split)
qed

lemma keeps_rmtree: "keeps_inv (file_is n t) (rmtree m)"
  by (rule keepsI) (auto simp: rmtree_def file_is_def split: if_splits)

lemma keeps_fold_mem:
  "(\<And>x a. x \<in> set xs \<Longrightarrow> keeps_inv I (f x a)) \<Longrightarrow> keeps_inv I (eff_fold f xs a)"
  by (induction xs arbitrary: a) (auto intro: keeps)

lemma keeps_deleteLocalBuild:
  assumes "\<And>e. dot \<notin> set e \<Longrightarrow> n \<notin> file_names (build_base img b) e"
  shows "keeps_inv (file_is n t) (deleteLocalBuild img b)"
  unfolding deleteLocalBuild_def remove_step_def
  by (intro keeps keeps_get_bind keeps_fold_mem keeps_remove_image_file keeps_rmtree)
    (auto dest!: from_image_id_ext simp: assms)

subsection \<open>What is left of a build\<close>

text \<open>A file that is gone stays gone.\<close>

lemma keeps_absent_item: "keeps_inv (file_is n None) (removeDibItem item)"
  by (rule keepsI) (auto simp: removeDibItem_def file_is_def map_of_eq_None_iff split: option.splits if_splits)

lemma keeps_absent_remove: "keeps_inv (file_is n None) (remove_image_file f)"
  unfolding remove_image_file_def
  by (auto intro!: keeps keeps_absent_item split: prod.split)

text \<open>A loop that ends normally leaves what one of its rounds established and the others keep.\<close>

lemma fold_establishes:
  assumes "eff_fold f xs a s = (Inr r, s')" and "x \<in> set xs" and "\<And>y b. keeps_inv I (f y b)"
    and "\<And>b t c t'. f x b t = (Inr c, t') \<Longrightarrow> I t'"
  shows "I s'"
  using assms(1,2)
proof (induction xs arbitrary: a s)
  case (Cons y ys)
  from Cons.prems(1) obtain c t where f: "f y a s = (Inr c, t)" and rest: "eff_fold f ys c t = (Inr r, s')"
    by (auto simp: eff_bind_Inr)
  show ?case
  proof (cases "y = x")
    case True
    with f assms(4) have "I t" by blast
    with keepsE [OF keeps_fold_mem [where f = f and I = I, OF assms(3)] _ rest] show ?thesis by blast
  qed (use Cons.IH [OF rest] Cons.prems(2) in simp)
qed simp

lemma remove_image_file_removes:
  assumes "remove_image_file f d = (Inr m, d')" and "df_md5_file f = None" "df_sha256_file f = None"
  shows "file_is (df_image_id f @ dot # df_extension f) None d'"
proof -
  let ?n = "df_image_id f @ dot # df_extension f"
  obtain n f1 where t: "to_path d f = (n, f1)" by fastforce
  note n = to_path_names(1) [OF t assms(2,3)]
  from assms(1) t n have "\<exists>x. eff_each removeDibItem [Some ?n, df_md5_file f1, df_sha256_file f1] d = (Inr x, d')"
    by (auto simp: remove_image_file_def eff_bind_Inr eff_seq_def eff_run split: prod.splits)
  then obtain x d1 where d1: "removeDibItem (Some ?n) d = (Inr (), d1)"
    and r: "eff_each removeDibItem [df_md5_file f1, df_sha256_file f1] d1 = (Inr x, d')"
    by (auto simp: eff_bind_Inr eff_seq_def)
  from d1 have "file_is ?n None d1"
    by (auto simp: removeDibItem_def file_is_def map_of_eq_None_iff split: if_splits)
  from keepsE [OF keeps_each [OF keeps_absent_item] this r] show ?thesis .
qed

lemma remove_image_file_manifest:
  assumes "remove_image_file f d = (Inr m, d')" and "dot \<notin> set (df_extension f)"
    and "df_md5_file f = None" "df_sha256_file f = None"
  shows "m = df_image_id f @ ''.d''"
proof -
  obtain n f1 where t: "to_path d f = (n, f1)" by fastforce
  note n = to_path_names(1) [OF t assms(3,4)]
  from assms(1) t n rsplit_dot_name [OF assms(2)] show ?thesis
    by (auto simp: remove_image_file_def eff_bind_Inr eff_seq_def eff_run)
qed

text \<open>The files of an image id with an extension.\<close>

definition image_files :: "string \<Rightarrow> image_dir \<Rightarrow> string set" where
  "image_files i d = {n \<in> fst ` set (id_files d). has_suffix n \<and> path_stem n = i}"

lemma removed_all:
  assumes "eff_fold remove_step (from_image_id d i) a d = (Inr r, d')"
  shows "image_files i d' = {}"
proof (rule ccontr)
  have keeps: "keeps_inv (file_is n None) (remove_step f b)" for n f b
    unfolding remove_step_def by (intro keeps keeps_absent_remove)
  assume "image_files i d' \<noteq> {}"
  then obtain n where n: "n \<in> fst ` set (id_files d')" "has_suffix n" "path_stem n = i"
    by (auto simp: image_files_def)
  have "n \<in> fst ` set (id_files d)"
  proof (rule ccontr)
    assume "n \<notin> fst ` set (id_files d)"
    then have "file_is n None d" by (simp add: file_is_def map_of_eq_None_iff)
    from keepsE [OF keeps_fold [OF keeps] this assms] n(1) show False
      by (simp add: file_is_def map_of_eq_None_iff)
  qed
  with from_image_id_file n(2,3) obtain f where f: "f \<in> set (from_image_id d i)" "n = i @ dot # df_extension f"
    by blast
  note e = from_image_id_ext [OF f(1)]
  have "file_is n None d'"
  proof (rule fold_establishes [OF assms f(1) keeps])
    fix b t c t' assume "remove_step f b t = (Inr c, t')"
    then obtain m where "remove_image_file f t = (Inr m, t')"
      by (auto simp: remove_step_def eff_bind_Inr eff_run)
    from remove_image_file_removes [OF this] e f(2) show "file_is n None t'" by simp
  qed
  with n(1) show False by (simp add: file_is_def map_of_eq_None_iff)
qed

lemma manifest_name:
  assumes "eff_fold remove_step fs a d = (Inr r, d')"
    and "\<And>f. f \<in> set fs \<Longrightarrow> df_image_id f = i \<and> dot \<notin> set (df_extension f) \<and> df_md5_file f = None \<and>
           df_sha256_file f = None"
    and "fs \<noteq> [] \<or> a \<noteq> None" and "a \<noteq> None \<Longrightarrow> a = Some (i @ ''.d'')"
  shows "r = Some (i @ ''.d'')"
  using assms
proof (induction fs arbitrary: a d)
  case (Cons f fs)
  from Cons.prems(1) obtain m t where m: "remove_image_file f d = (Inr m, t)"
    and rest: "eff_fold remove_step fs
        (case a of None \<Rightarrow> Some m | Some m0 \<Rightarrow> Some m0) t = (Inr r, d')"
    by (auto simp: remove_step_def [of f] eff_bind_Inr eff_run)
  have "m = i @ ''.d''" using remove_image_file_manifest [OF m] Cons.prems(2) [of f] by simp
  then show ?case
    using Cons.prems(2,4) by (intro Cons.IH [OF rest]) (auto split: option.splits)
qed (auto simp: eff_ret_def)

lemma deleteLocalBuild_removes:
  assumes "deleteLocalBuild img b d = (Inr (), d')"
  shows "image_files (build_base img b) d' = {}"
    and "image_files (build_base img b) d \<noteq> {} \<Longrightarrow> build_base img b @ ''.d'' \<notin> set (id_dirs d')"
proof -
  let ?i = "build_base img b" and ?fs = "from_image_id d (build_base img b)"
  have none: "image_files ?i d = {}" if "?fs = []"
    using that from_image_id_file [of _ d ?i] by (auto simp: image_files_def)
  show "image_files ?i d' = {}" "image_files ?i d \<noteq> {} \<Longrightarrow> ?i @ ''.d'' \<notin> set (id_dirs d')"
  proof (atomize (full), cases "?fs = []")
    case True
    with assms have "d' = d" by (simp add: deleteLocalBuild_def eff_bind_def eff_get_def eff_ret_def)
    with none [OF True] show "image_files ?i d' = {} \<and> (image_files ?i d \<noteq> {} \<longrightarrow> ?i @ ''.d'' \<notin> set (id_dirs d'))"
      by simp
  next
    case False
    with assms obtain r t where f: "eff_fold remove_step ?fs None d = (Inr r, t)"
      and rm: "rmtree (the r) t = (Inr (), d')"
      by (auto simp: deleteLocalBuild_def eff_bind_Inr eff_run)
    have "r = Some (?i @ ''.d'')"
      by (rule manifest_name [OF f]) (use False from_image_id_ext in auto)
    with rm have "?i @ ''.d'' \<notin> set (id_dirs d')" "id_files d' = id_files t"
      by (auto simp: rmtree_def split: if_splits)
    with removed_all [OF f] show "image_files ?i d' = {} \<and> (image_files ?i d \<noteq> {} \<longrightarrow> ?i @ ''.d'' \<notin> set (id_dirs d'))"
      by (simp add: image_files_def)
  qed
qed

end
