(* ===== verification/BuildProps.thy ===== *)
theory BuildProps
  imports DibProps
begin

section \<open>What building and uploading do\<close>

text \<open>
  When a build is recorded as ready, when something is sent to a cloud, what a failed hook leaves
  there, how many build logs are kept, and when the inheritance of disk images is resolved.
\<close>

subsection \<open>Building\<close>

text \<open>The command was started, ended with 0 before the timeout, and the connection was kept.\<close>

definition built_ok ::
  "string \<Rightarrow> pydict \<Rightarrow> (string \<Rightarrow> pydict \<Rightarrow> dib_run res) \<Rightarrow> builder_config \<Rightarrow> string \<Rightarrow> disk_image \<Rightarrow> bool" where
  "built_ok here environ run cfg build_id d \<longleftrightarrow>
     (\<exists>cmd p timeout out. dib_command here cfg build_id d = Inr cmd \<and>
        run cmd (dib_environment environ cfg build_id d) = Inr p \<and>
        num_of (dk_build_timeout d) = Inr timeout \<and>
        poll_loop timeout (dr_rounds p) (dr_rc p) '''' = (0, False, out) \<and> \<not> dr_lost p)"

lemma set_build_state_simps:
  "set_build_state READY now b = Inr (b\<lparr>o_state := Some READY, o_state_time := JNum now\<rparr>)"
  "set_build_state FAILED now b = Inr (b\<lparr>o_state := Some FAILED, o_state_time := JNum now\<rparr>)"
  "set_build_state BUILDING now b = Inr (b\<lparr>o_state := Some BUILDING, o_state_time := JNum now\<rparr>)"
  unfolding set_build_state_def set_state_state_str IMAGE_BUILD_STATES_def by simp_all

lemma build_result_cases:
  assumes "build_result cfg now i d lost rc t dir = Inr b"
  shows "(o_state b = Some READY \<and> \<not> lost \<and> rc = 0 \<and> \<not> t \<and> ib_formats b = dk_image_types d) \<or>
         (o_state b = Some FAILED \<and> ib_formats b = [])"
  using assms
  by (auto simp: build_result_def set_build_state_simps new_build_def image_build_init_def Let_def
      split: if_splits)

lemma buildImage_outcome:
  assumes "buildImage here environ run cfg now i d w = (Inr b, w')"
  shows "(o_state b = Some READY \<and> built_ok here environ run cfg i d \<and> ib_formats b = dk_image_types d) \<or>
         (o_state b = Some FAILED \<and> ib_formats b = [])"
proof -
  from assms obtain cmd logs p timeout w1 where cmd: "dib_command here cfg i d = Inr cmd"
    and run: "(case run cmd (dib_environment environ cfg i d) of
        Inl (OtherError e) \<Rightarrow> if e = ''OSError'' then Inl (OtherError ''BuilderError'') else Inl (OtherError e)
      | r \<Rightarrow> r) = Inr p"
    and t: "num_of (dk_build_timeout d) = Inr timeout"
    and rest: "(case poll_loop timeout (dr_rounds p) (dr_rc p) '''' of (rc, did_timeout, out) \<Rightarrow>
        eff_seq (eff_mod (\<lambda>w. w\<lparr> bw_dir := dr_dir p (bw_dir w),
             bw_logs := AList.update (getBuildLog (dk_name d) i) (now, out) (bw_logs w) \<rparr>))
          (eff_read (\<lambda>w. build_result cfg now i d (dr_lost p) rc did_timeout (bw_dir w)))) w1 = (Inr b, w')"
    unfolding buildImage_def
    by (auto simp: eff_bind_Inr eff_seq_def eff_run)
  from run have run: "run cmd (dib_environment environ cfg i d) = Inr p"
    by (auto split: sum.splits pyexc.splits if_splits)
  obtain rc to out where pl: "poll_loop timeout (dr_rounds p) (dr_rc p) '''' = (rc, to, out)"
    by (metis prod_cases3)
  from rest obtain dir where "build_result cfg now i d (dr_lost p) rc to dir = Inr b"
    unfolding pl by (auto simp: eff_bind_Inr eff_seq_def eff_run)
  from build_result_cases [OF this] cmd run t pl show ?thesis
    by (auto simp: built_ok_def)
qed


text \<open>The result of a wrapped build: ready or failed, and ready only as ZooKeeper has it.\<close>

context zk_server
begin

lemma record_result_outcome:
  assumes "record_result K now d i b w = (Inr r, w')" and g: "build_good b"
  shows "r = Some (b\<lparr>o_id := Some i, o_state := Some FAILED, o_state_time := JNum now\<rparr>) \<or>
    (\<exists>st. r = Some ((build_reread (JStr (dk_name d)) (Some i) b)\<lparr>o_stat := Some st\<rparr>) \<and>
       getBuild K (dk_name d) i now (bw_zk w') = Inr r)"
proof (cases "storeBuild K (dk_name d) b (Some i) '''' (bw_zk w)")
  case (Inl e)
  with assms(1) show ?thesis
    by (auto simp: record_result_def eff_bind_Inr eff_try_def eff_bind_def zk_do_def eff_ret_def
        eff_seq_def eff_lift_def set_build_state_simps split: prod.splits sum.splits)
next
  case (Inr jz)
  obtain j z where jz: "jz = (j, z)" by fastforce
  with Inr have j: "j = i" by (auto simp: storeBuild_def Let_def map_sum_eq_Inr)
  from storeBuild_law [OF _ g, of "dk_name d" "Some i" "''''" "bw_zk w" j z now] Inr jz obtain st where
    "getBuild K (dk_name d) j now z = Inr (Some ((build_reread (JStr (dk_name d)) (Some j) b)\<lparr>o_stat := Some st\<rparr>))"
    by blast
  with assms(1) Inr jz j show ?thesis
    by (auto simp: record_result_def eff_bind_def eff_try_def zk_do_def eff_ret_def zk_read_def eff_read_def)
qed

lemma buildWrapper_outcome:
  assumes w: "buildWrapper K (buildImage here environ run cfg now) cfg now uuid d w = (Inr r, w')"
    and good: "\<forall>f \<in> set (dk_image_types d). CHR '','' \<notin> set f" "dk_image_types d \<noteq> [[]]"
  shows "\<exists>b. r = Some b \<and> (o_state b = Some READY \<or> o_state b = Some FAILED) \<and> o_id b = Some uuid \<and>
     (o_state b = Some READY \<longrightarrow> built_ok here environ run cfg uuid d \<and>
        formats b = sort (dk_image_types d) \<and> getBuild K (dk_name d) uuid now (bw_zk w') = Inr (Some b))"
proof -
  let ?b0 = "(new_build cfg d)\<lparr>o_state := Some BUILDING, o_state_time := JNum now, ib_formats := dk_image_types d\<rparr>"
  let ?built = "eff_try (buildImage here environ run cfg now uuid d) (\<lambda>e. eff_lift (set_build_state FAILED now ?b0))"
  from w obtain z where s: "storeBuild K (dk_name d) ?b0 None uuid (bw_zk w) = Inr (uuid, z)"
    and rest: "eff_bind ?built (record_result K now d uuid) (w\<lparr>bw_zk := z\<rparr>) = (Inr r, w')"
    unfolding buildWrapper_def set_build_state_simps Let_def
    by (auto simp: eff_bind_def eff_lift_def zk_do_def storeBuild_def map_sum_eq_Inr split: sum.splits)
  from rest obtain b w2 where b: "?built (w\<lparr>bw_zk := z\<rparr>) = (Inr b, w2)"
    and r: "record_result K now d uuid b w2 = (Inr r, w')"
    by (auto simp only: eff_bind_Inr)
  have b_cases: "(o_state b = Some READY \<and> built_ok here environ run cfg uuid d \<and> ib_formats b = dk_image_types d) \<or>
      (o_state b = Some FAILED \<and> (ib_formats b = dk_image_types d \<or> ib_formats b = []))"
  proof (cases "buildImage here environ run cfg now uuid d (w\<lparr>bw_zk := z\<rparr>)")
    case (Pair x t)
    with b buildImage_outcome [of here environ run cfg now uuid d "w\<lparr>bw_zk := z\<rparr>"] show ?thesis
      by (cases x) (auto simp: eff_try_def eff_lift_def set_build_state_simps)
  qed
  then have "build_good b" using good by (auto simp: build_good_def IMAGE_BUILD_STATES_def)
  from record_result_outcome [OF r this] b_cases show ?thesis
    by (auto simp: build_reread_def formats_def sorted_sort_id)
qed

end

subsection \<open>Uploading\<close>

text \<open>What has to hold before an image is sent to a provider.\<close>

definition upload_due ::
  "'z kazoo \<Rightarrow> rat \<Rightarrow> image_provider \<Rightarrow> provider_image \<Rightarrow> ('c, 'z) builder_world \<Rightarrow> bool" where
  "upload_due K now p im w \<longleftrightarrow>
     (\<exists>im1 b bs. map_of (ip_diskimages p) (pi_name im) = Some im1 \<and> \<not> pi_pause im1 \<and>
        getMostRecentBuilds K (Some 1) (pi_name im) (Some READY) now (bw_zk w) = Inr (b # bs) \<and>
        from_image_id (bw_dir w) (build_base (pi_name im) (str_id (o_id (the b)))) \<noteq> [] \<and>
        getMostRecentBuildImageUploads K (Some 1) (pi_name im) (str_id (o_id (the b))) (ip_name p)
          (Some READY) now (bw_zk w) = Inr [] \<and>
        ip_image_type p \<in> set (formats (the b)))"

lemma checkProviderImageUpload_cloud:
  assumes "\<not> upload_due K now p im w"
  shows "bw_cloud (snd (checkProviderImageUpload K L up now p im w)) = bw_cloud w"
proof (cases "map_of (ip_diskimages p) (pi_name im)")
  case None
  then show ?thesis by (simp add: checkProviderImageUpload_def eff_raise_def)
next
  case (Some im1)
  show ?thesis
  proof (cases "pi_pause im1")
    case True
    with Some show ?thesis
      by (simp add: checkProviderImageUpload_def set_upload_status_def eff_seq_def eff_bind_def eff_mod_def eff_ret_def)
  next
    case False
    show ?thesis
    proof (cases "getMostRecentBuilds K (Some 1) (pi_name im) (Some READY) now (bw_zk w)")
      case (Inl e)
      with Some False show ?thesis
        by (simp add: checkProviderImageUpload_def set_upload_status_def eff_seq_def eff_bind_def eff_mod_def
            zk_read_def eff_read_def)
    next
      case (Inr bs)
      show ?thesis
      proof (cases bs)
        case Nil
        with Inr Some False show ?thesis
          by (simp add: checkProviderImageUpload_def set_upload_status_def eff_seq_def eff_bind_def eff_mod_def
              zk_read_def eff_read_def eff_ret_def)
      next
        case (Cons b bs')
        note run = checkProviderImageUpload_def set_upload_status_def eff_seq_def eff_bind_def eff_mod_def
          zk_read_def eff_read_def eff_ret_def eff_get_def ready_uploads_def Let_def
        let ?i = "str_id (o_id (the b))"
        show ?thesis
        proof (cases "from_image_id (bw_dir w) (build_base (pi_name im) ?i) = []")
          case True
          with Inr Some False Cons show ?thesis by (simp add: run)
        next
          case files: False
          show ?thesis
          proof (cases "getMostRecentBuildImageUploads K (Some 1) (pi_name im) ?i (ip_name p) (Some READY) now (bw_zk w)")
            case (Inl e)
            with Inr Some False Cons files show ?thesis by (simp add: run)
          next
            case us: (Inr us)
            with assms Inr Some False Cons files have "us \<noteq> [] \<or> ip_image_type p \<notin> set (formats (the b))"
              by (auto simp: upload_due_def)
            with Inr Some False Cons files us show ?thesis by (auto simp: run)
          qed
        qed
      qed
    qed
  qed
qed

text \<open>Nothing is sent either when a ready upload has appeared before the lock was taken.\<close>

lemma upload_locked_again:
  assumes "getMostRecentBuildImageUploads K (Some 1) img (str_id (o_id b)) (ip_name p) (Some READY) now (bw_zk w) = Inr us"
    and "us \<noteq> []"
  shows "upload_locked K up now p img b files w = (Inr False, w)"
  using assms
  by (simp add: upload_locked_def ready_uploads_def eff_bind_def zk_read_def eff_read_def eff_ret_def Let_def)

text \<open>A hook that fails: the image stays in the cloud, and no record knows its id.\<close>

lemma set_upload_state_simps:
  "set_upload_state READY now u = Inr (u\<lparr>o_state := Some READY, o_state_time := JNum now\<rparr>)"
  "set_upload_state FAILED now u = Inr (u\<lparr>o_state := Some FAILED, o_state_time := JNum now\<rparr>)"
  "set_upload_state UPLOADING now u = Inr (u\<lparr>o_state := Some UPLOADING, o_state_time := JNum now\<rparr>)"
  "set_upload_state DELETING now u = Inr (u\<lparr>o_state := Some DELETING, o_state_time := JNum now\<rparr>)"
  unfolding set_upload_state_def set_state_state_str IMAGE_UPLOAD_STATES_def by simp_all

lemma failed_hook:
  assumes "find (\<lambda>i. ip_image_type p = df_extension i) images = Some f"
    and "to_path (bw_dir w) f = (name, f1)"
    and "py_format [(''image_name'', img), (''upload_id'', n), (''timestamp'', int_str \<lfloor>now\<rfloor>)]
           (ip_image_name_format p) = Inr ext"
    and "ip_name p \<in> set (bc_managers cfg)" and "map_of (ip_diskimages p) img = Some pim"
    and "upload_meta cfg pim img b n = Inr meta"
    and "im_upload M (ip_name p) (pi_name pim) ext (image_path cfg name) (df_extension f1) meta
           (str_json (df_md5 f1)) (str_json (df_sha256 f1)) (bw_cloud w) = (Inr external_id, c1)"
    and "ip_post_upload_hook p = Some h" "h \<noteq> []"
    and "hook h (ip_name p) external_id (image_path cfg name) c1 = (Inl e, c2)"
  shows "\<exists>u. uploadImage_of M hook cfg now b n img images p username python_path shell_type w =
      (Inr u, w\<lparr>bw_cloud := c2\<rparr>) \<and> o_state u = Some FAILED \<and> iu_external_id u = JNull"
  using assms
  by (simp add: uploadImage_of_def eff_bind_def eff_get_def eff_lift_def eff_try_def on_clouds_def eff_zoom_def
      eff_ret_def eff_seq_def run_hook_def eff_ignore_def eff_raise_def Let_def upload_failed_def
      set_upload_state_simps image_upload_init_def)

subsection \<open>Formats that are kept\<close>

lemma needs_format_mono: "needs_format K now img i z p ks = Inr ks' \<Longrightarrow> set ks \<subseteq> set ks'"
  by (auto simp: needs_format_def bindE_eq_Inr split: if_splits)

lemma needs_format_needed:
  assumes "needs_format K now img i z p ks = Inr ks'" and "ip_manage_images p" and "img \<in> set (map fst (ip_diskimages p))"
    and "getMostRecentBuildImageUploads K (Some 1) img i (ip_name p) (Some READY) now z = Inr []"
  shows "ip_image_type p \<in> set ks'"
  using assms by (auto simp: needs_format_def bindE_eq_Inr)

lemma fold_needs_format:
  assumes "foldE (needs_format K now img i z) ps ks = Inr ks'"
  shows "set ks \<subseteq> set ks'"
    and "p \<in> set ps \<Longrightarrow> ip_manage_images p \<Longrightarrow> img \<in> set (map fst (ip_diskimages p)) \<Longrightarrow>
      getMostRecentBuildImageUploads K (Some 1) img i (ip_name p) (Some READY) now z = Inr [] \<Longrightarrow>
      ip_image_type p \<in> set ks'"
proof (atomize (full), use assms in \<open>induction ps arbitrary: ks\<close>)
  case (Cons q qs)
  then obtain ks1 where k: "needs_format K now img i z q ks = Inr ks1"
    and rest: "foldE (needs_format K now img i z) qs ks1 = Inr ks'"
    by (auto simp: bindE_eq_Inr)
  from Cons.IH [OF rest] needs_format_mono [OF k] needs_format_needed [OF k] show ?case by auto
qed simp

text \<open>The extension is read off a name.\<close>

lemma file_names_ext:
  assumes "n \<in> file_names i e" and "dot \<notin> set e"
  shows "takeWhile (\<lambda>c. c \<noteq> dot) (drop (Suc (length i)) n) = e"
proof -
  have dots: "''.md5'' = dot # ''md5''" "''.sha256'' = dot # ''sha256''" by (simp_all add: dot_def)
  have "takeWhile (\<lambda>c. c \<noteq> dot) e = e" using assms(2) by (auto simp: takeWhile_eq_all_conv)
  with assms takeWhile_free [OF assms(2)] show ?thesis by (auto simp: file_names_def dots)
qed

lemma file_names_apart:
  assumes "n \<in> file_names i e" and "dot \<notin> set e" and "dot \<notin> set f" and "e \<noteq> f"
  shows "n \<notin> file_names i f"
  using file_names_ext [of n i] assms by blast

text \<open>The files of the format of a provider that has no ready upload yet keep their text.\<close>

lemma prune_keeps_needed:
  assumes p: "p \<in> set (bc_providers cfg)" "ip_manage_images p" "img \<in> set (map fst (ip_diskimages p))"
    and none: "getMostRecentBuildImageUploads K (Some 1) img i (ip_name p) (Some READY) now (bw_zk w) = Inr []"
    and n: "n \<in> file_names (build_base img i) (ip_image_type p)" "dot \<notin> set (ip_image_type p)"
  shows "map_of (id_files (bw_dir (snd (pruneLocalBuildFormats K cfg now img i w)))) n =
    map_of (id_files (bw_dir w)) n"
proof (cases "map_of (bc_images cfg) img")
  case None
  then show ?thesis by (simp add: pruneLocalBuildFormats_def eff_raise_def)
next
  case (Some d)
  show ?thesis
  proof (cases "formats_to_keep K cfg now d img i (bw_zk w)")
    case (Inl e)
    with Some show ?thesis
      by (simp add: pruneLocalBuildFormats_def eff_bind_def zk_read_def eff_read_def eff_ret_def)
  next
    case (Inr ks)
    with fold_needs_format(2) [OF _ p none] have k: "ip_image_type p \<in> set ks" by (auto simp: formats_to_keep_def)
    let ?t = "map_of (id_files (bw_dir w)) n"
    have "keeps_inv (file_is n ?t) (prune_files ks img i)"
      by (rule keeps_prune_files) (use file_names_apart [OF n(1) n(2)] k in blast)
    then have "file_is n ?t (snd (prune_files ks img i (bw_dir w)))"
      by (rule keepsD) (simp add: file_is_def)
    then have "file_is n ?t (bw_dir (snd (on_dir (prune_files ks img i) w)))"
      by (cases "prune_files ks img i (bw_dir w)") (simp add: on_dir_def eff_zoom_def)
    with Some Inr show ?thesis
      by (simp add: pruneLocalBuildFormats_def eff_bind_def zk_read_def eff_read_def eff_ret_def file_is_def)
  qed
qed

subsection \<open>Build logs\<close>

lemma prune_logs_others:
  "\<not> startswith (fst l) name \<Longrightarrow> l \<in> set (prune_logs keep name logs) \<longleftrightarrow> l \<in> set logs"
proof -
  assume n: "\<not> startswith (fst l) name"
  have "set (logs_to_delete keep name logs) \<subseteq> set (filter (\<lambda>l. startswith (fst l) name) logs)"
    by (auto simp: logs_to_delete_def Let_def dest!: in_set_takeD)
  with n show ?thesis by (auto simp: prune_logs_def)
qed

text \<open>At most \<open>keep\<close> logs are left whose name starts with the image's, whichever image they are of.\<close>

lemma prune_logs_count:
  assumes "distinct (map fst logs)"
  shows "length (filter (\<lambda>l. startswith (fst l) name) (prune_logs keep name logs)) =
    min keep (length (filter (\<lambda>l. startswith (fst l) name) logs))"
proof -
  let ?E = "filter (\<lambda>l. startswith (fst l) name) logs"
  let ?S = "sort_key (\<lambda>l. fst (snd l)) ?E" and ?D = "logs_to_delete keep name logs"
  have dE: "distinct (map fst ?E)" using assms by (simp add: distinct_map_filter)
  moreover have "mset (map fst ?S) = mset (map fst ?E)" by simp
  ultimately have dS: "distinct (map fst ?S)" using mset_eq_imp_distinct_iff by blast
  have D: "?D = take (length ?S - keep) ?S" by (simp add: logs_to_delete_def Let_def)
  have inj: "l \<in> set ?D \<longleftrightarrow> fst l \<in> fst ` set ?D" if "l \<in> set ?S" for l
  proof
    assume "fst l \<in> fst ` set ?D"
    then obtain l' where l': "l' \<in> set ?D" "fst l' = fst l" by auto
    then have "l' \<in> set ?S" unfolding D by (blast dest: in_set_takeD)
    with dS l' that have "l' = l" by (metis distinct_map inj_onD)
    with l' show "l \<in> set ?D" by simp
  qed simp
  have "filter (\<lambda>l. startswith (fst l) name) (prune_logs keep name logs) = filter (\<lambda>l. fst l \<notin> fst ` set ?D) ?E"
    by (simp add: prune_logs_def conj_commute)
  also have "length \<dots> = length (filter (\<lambda>l. fst l \<notin> fst ` set ?D) ?S)"
  proof -
    have "mset (filter P ?E) = mset (filter P ?S)" for P by (simp only: mset_filter mset_sort)
    then show ?thesis by (rule mset_eq_length)
  qed
  also have "filter (\<lambda>l. fst l \<notin> fst ` set ?D) ?S = filter (\<lambda>l. l \<notin> set ?D) ?S"
    using inj by (intro filter_cong) auto
  also have "\<dots> = drop (length ?S - keep) ?S"
  proof -
    have "?S = ?D @ drop (length ?S - keep) ?S" unfolding D by simp
    moreover have "distinct ?S" using dS by (simp add: distinct_map)
    ultimately have "set ?D \<inter> set (drop (length ?S - keep) ?S) = {}" by (metis distinct_append)
    then have "filter (\<lambda>l. l \<notin> set ?D) (drop (length ?S - keep) ?S) = drop (length ?S - keep) ?S"
      by (intro filter_True) blast
    moreover have "filter (\<lambda>l. l \<notin> set ?D) ?D = []" by simp
    moreover have "filter (\<lambda>l. l \<notin> set ?D) ?S =
        filter (\<lambda>l. l \<notin> set ?D) ?D @ filter (\<lambda>l. l \<notin> set ?D) (drop (length ?S - keep) ?S)"
      by (metis D append_take_drop_id filter_append)
    ultimately show ?thesis by simp
  qed
  finally show ?thesis by simp
qed

end
