(* ===== verification/BuilderClaims.thy ===== *)
theory BuilderClaims
  imports BuildProps Config
begin

section \<open>Properties of the image builder\<close>

text \<open>
  What the builder's workers keep, remove, build and send, and how disk images inherit, each with a
  witness on the in-memory server.
\<close>

subsection \<open>Concrete inputs\<close>

definition pim_a :: provider_image where
  "pim_a = \<lparr> pi_name = ''img'', pi_pause = False, pi_meta = [] \<rparr>"

definition p_a :: image_provider where
  "p_a = \<lparr> ip_name = ''prov'', ip_manage_images = True, ip_image_type = ''raw'',
     ip_diskimages = [(''img'', pim_a)], ip_image_name_format = ''{image_name}-{timestamp}'',
     ip_post_upload_hook = Some ''hook'' \<rparr>"

definition d_img :: disk_image where
  "d_img = (disk_image_init ''img'')\<lparr>dk_image_types := [''raw''], dk_delete_after_upload := JBool True\<rparr>"

definition c_one :: builder_config where
  "c_one = \<lparr> bc_config = config_init\<lparr>cf_diskimages := [(''img'', d_img)], cf_providers := [(''prov'', p_a)],
       cf_images_dir := JStr ''/d'',
       cf_build_log_retention := JNum 7\<rparr>,
     bc_managers = [''prov''], bc_builder_id = ''id'', bc_hostname = ''host'', bc_statsd = False \<rparr>"

definition b_kept :: image_build where
  "b_kept = (image_build_init (JStr ''img'') None)\<lparr>o_state := Some READY, o_state_time := JNum 5,
     ib_formats := [''raw'']\<rparr>"

definition u_kept :: image_upload where
  "u_kept = (image_upload_init JNull JNull JNull None)\<lparr>o_state := Some READY, o_state_time := JNum 6\<rparr>"

definition mn_of :: "zdata \<Rightarrow> mem_node" where
  "mn_of d = \<lparr> mn_data = d, mn_created = 0, mn_mzxid = 1, mn_mtime = 0, mn_creates = 0 \<rparr>"

definition z_kept :: mem_zk where
  "z_kept = \<lparr> mz_nodes = [(imageBuildsPath ''img'', mn_of NoData),
     (imageBuildIdPath ''img'' ''1'', mn_of (serialize (image_build_toDict b_kept))),
     (imageUploadPath ''img'' ''1'' ''prov'', mn_of NoData),
     (imageUploadPath ''img'' ''1'' ''prov'' @ ''/2'', mn_of (serialize (image_upload_toDict u_kept)))],
     mz_zxid = 1, mz_clock = 0 \<rparr>"

definition w_of :: "mem_zk \<Rightarrow> image_dir \<Rightarrow> (nat, mem_zk) builder_world" where
  "w_of z d = \<lparr> bw_zk = z, bw_dir = d, bw_cloud = 0, bw_rtable = [], bw_build_status = [],
     bw_upload_status = [], bw_logs = [] \<rparr>"

definition d_one :: image_dir where
  "d_one = \<lparr> id_files = [(''img-1.raw'', ''x''), (''img-1.raw.md5'', ''m''), (''img-1.qcow2'', ''y''), (''img-2.raw'', ''z'')],
     id_dirs = [''img-1.d''] \<rparr>"

definition M_one :: "nat image_managers" where
  "M_one = \<lparr> im_upload = (\<lambda>p n e f x m s t c. (Inr (JStr ''ext''), Suc c)), im_delete = (\<lambda>p n i c. (Inr (), c - 1)) \<rparr>"

lemmas world_defs = w_of_def d_one_def c_one_def p_a_def pim_a_def d_img_def config_init_def disk_image_init_def

lemma z_kept_builds:
  "map_sum id (map (map_option o_id)) (getBuilds mem_kazoo ''img'' None 9 z_kept) = Inr [Some (Some ''1'')]"
  "bindE (getBuilds mem_kazoo ''img'' None 9 z_kept) (builds_to_keep True) = Inr [''1'']"
  by code_simp+

lemma z_kept_read:
  obtains bs where "getBuilds mem_kazoo ''img'' None 9 (bw_zk (w_of z_kept d)) = Inr bs"
    "builds_to_keep (map_of (bc_images c_one) ''img'' \<noteq> None) bs = Inr [''1'']"
proof -
  obtain bs where "getBuilds mem_kazoo ''img'' None 9 z_kept = Inr bs" "builds_to_keep True bs = Inr [''1'']"
    using z_kept_builds(2) by (auto simp: bindE_eq_Inr)
  then show ?thesis by (intro that [of bs]) (simp_all add: world_defs)
qed

subsection \<open>What the cleanup keeps\<close>

text \<open>
  C18: The cleanup of an image never touches the record of a build that is kept: for the two newest
  ready builds of a configured image, whatever the other builds, their uploads, the locks and the
  providers do in the round, the build's znode keeps its data.
\<close>
theorem cleanup_keeps_builds:
  fixes M :: "'c image_managers"
  assumes "zk_server K tree" and "lock_recipe L tree"
    and "getBuilds K img None now (bw_zk w) = Inr bs"
    and "builds_to_keep (map_of (bc_images cfg) img \<noteq> None) bs = Inr keep" and "i \<in> set keep"
    and "tree (bw_zk w) (imageBuildIdPath img i) = Some d"
  shows "tree (bw_zk (snd (cleanupImage K L M cfg now img w))) (imageBuildIdPath img i) = Some d"
proof -
  have "zk_locks K tree L" using assms(1,2) by (simp add: zk_locks_def)
  from zk_locks.kept_build_stays [OF this assms(3-6)] show ?thesis .
qed

theorem cleanup_keeps_builds_witness:
  "mem_tree (bw_zk (snd (cleanupImage mem_kazoo mem_locks M_one c_one 9 ''img'' (w_of z_kept d_one))))
     (imageBuildIdPath ''img'' ''1'') = Some (serialize (image_build_toDict b_kept))"
proof -
  obtain bs where bs: "getBuilds mem_kazoo ''img'' None 9 (bw_zk (w_of z_kept d_one)) = Inr bs"
    "builds_to_keep (map_of (bc_images c_one) ''img'' \<noteq> None) bs = Inr [''1'']"
    by (rule z_kept_read)
  have "mem_tree (bw_zk (w_of z_kept d_one)) (imageBuildIdPath ''img'' ''1'') =
      Some (serialize (image_build_toDict b_kept))"
    by (simp add: w_of_def z_kept_def mem_tree_def mn_of_def imageBuildIdPath_def imageUploadPath_def
        imageBuildsPath_def)
  from cleanup_keeps_builds [OF mem.zk_server_axioms mem_lock.lock_recipe_axioms bs _ this]
  show ?thesis by simp
qed

text \<open>
  C19: A ready upload of a build that is kept stays recorded as it is, as long as every provider of
  that name still has the image in its configuration.
\<close>
theorem cleanup_keeps_uploads:
  fixes M :: "'c image_managers"
  assumes "zk_server K tree" and "lock_recipe L tree"
    and "getBuilds K img None now (bw_zk w) = Inr bs"
    and "builds_to_keep (map_of (bc_images cfg) img \<noteq> None) bs = Inr keep" and "i \<in> set keep"
    and "slash \<notin> set p" and "slash \<notin> set n" and "n \<noteq> ''lock''"
    and "\<And>r. r \<in> set (bc_providers cfg) \<Longrightarrow> ip_name r = p \<Longrightarrow> img \<in> set (map fst (ip_diskimages r))"
    and "getImageUpload K img i p n now (bw_zk w) = Inr (Some u)" and "o_state u = Some READY"
    and "tree (bw_zk w) (imageUploadPath img i p @ ''/'' @ n) = Some d"
  shows "tree (bw_zk (snd (cleanupImage K L M cfg now img w))) (imageUploadPath img i p @ ''/'' @ n) = Some d"
proof -
  have "zk_locks K tree L" using assms(1,2) by (simp add: zk_locks_def)
  from zk_locks.kept_upload_stays [OF this assms(3-12)] show ?thesis .
qed

lemma z_kept_upload:
  "map_sum id (map_option o_state) (getImageUpload mem_kazoo ''img'' ''1'' ''prov'' ''2'' 9 z_kept) = Inr (Some (Some READY))"
  by code_simp

theorem cleanup_keeps_uploads_witness:
  "mem_tree (bw_zk (snd (cleanupImage mem_kazoo mem_locks M_one c_one 9 ''img'' (w_of z_kept d_one))))
     (imageUploadPath ''img'' ''1'' ''prov'' @ ''/'' @ ''2'') = Some (serialize (image_upload_toDict u_kept))"
proof -
  obtain bs where bs: "getBuilds mem_kazoo ''img'' None 9 (bw_zk (w_of z_kept d_one)) = Inr bs"
    "builds_to_keep (map_of (bc_images c_one) ''img'' \<noteq> None) bs = Inr [''1'']"
    by (rule z_kept_read)
  obtain u where u: "getImageUpload mem_kazoo ''img'' ''1'' ''prov'' ''2'' 9 (bw_zk (w_of z_kept d_one)) = Inr (Some u)"
    "o_state u = Some READY"
    using z_kept_upload
    by (cases "getImageUpload mem_kazoo ''img'' ''1'' ''prov'' ''2'' 9 z_kept") (auto simp: w_of_def)
  have t: "mem_tree (bw_zk (w_of z_kept d_one)) (imageUploadPath ''img'' ''1'' ''prov'' @ ''/'' @ ''2'') =
      Some (serialize (image_upload_toDict u_kept))"
    by (simp add: w_of_def z_kept_def mem_tree_def mn_of_def imageBuildIdPath_def imageUploadPath_def
        imageBuildsPath_def)
  show ?thesis
    by (rule cleanup_keeps_uploads [OF mem.zk_server_axioms mem_lock.lock_recipe_axioms bs _ _ _ _ _ u t])
      (simp_all add: world_defs)
qed

text \<open>
  Removing a local build that ends normally leaves no image file of the build and no manifest, if
  it had files; and however it ends, every file whose name is not one of the build's keeps its text.
\<close>
theorem local_build_removed:
  "deleteLocalBuild img b d = (Inr (), d') \<Longrightarrow>
      image_files (build_base img b) d' = {} \<and>
      (image_files (build_base img b) d \<noteq> {} \<longrightarrow> build_base img b @ ''.d'' \<notin> set (id_dirs d')) \<and>
      (\<forall>n. (\<forall>e. dot \<notin> set e \<longrightarrow> n \<notin> file_names (build_base img b) e) \<longrightarrow>
         map_of (id_files d') n = map_of (id_files d) n)"
proof -
  assume d: "deleteLocalBuild img b d = (Inr (), d')"
  have "map_of (id_files d') n = map_of (id_files d) n"
    if "\<forall>e. dot \<notin> set e \<longrightarrow> n \<notin> file_names (build_base img b) e" for n
    using keepsE [OF keeps_deleteLocalBuild [of n img b "map_of (id_files d) n"] _ d] that
    by (simp add: file_is_def)
  with deleteLocalBuild_removes [OF d] show ?thesis by blast
qed

lemma d_one_removed: "fst (deleteLocalBuild ''img'' ''1'' d_one) = Inr ()"
  by code_simp

theorem local_build_removed_witness:
  "image_files ''img-1'' (snd (deleteLocalBuild ''img'' ''1'' d_one)) = {}"
proof -
  have "deleteLocalBuild ''img'' ''1'' d_one = (Inr (), snd (deleteLocalBuild ''img'' ''1'' d_one))"
    using d_one_removed by (metis prod.collapse)
  moreover have "build_base ''img'' ''1'' = ''img-1''" by code_simp
  ultimately show ?thesis using local_build_removed by metis
qed

text \<open>
  C20: Pruning the formats of a ready build never removes a file that still has to be uploaded: the
  image and the checksums of the format of every provider that manages images, has the image in its
  configuration and has no ready upload of this build, keep their text.
\<close>
theorem prune_keeps_unsent:
  assumes "p \<in> set (bc_providers cfg)" and "ip_manage_images p" and "img \<in> set (map fst (ip_diskimages p))"
    and "getMostRecentBuildImageUploads K (Some 1) img i (ip_name p) (Some READY) now (bw_zk w) = Inr []"
    and "n \<in> file_names (build_base img i) (ip_image_type p)" and "dot \<notin> set (ip_image_type p)"
  shows "map_of (id_files (bw_dir (snd (pruneLocalBuildFormats K cfg now img i w)))) n =
    map_of (id_files (bw_dir w)) n"
  using prune_keeps_needed [OF assms] .

lemma z_builds_none:
  "getMostRecentBuildImageUploads mem_kazoo (Some 1) ''img'' ''1'' (ip_name p_a) (Some READY) 9
     (bw_zk (w_of \<lparr> mz_nodes = [], mz_zxid = 1, mz_clock = 0 \<rparr> d_one)) = Inr []"
  by code_simp

theorem prune_keeps_unsent_witness:
  "map_of (id_files (bw_dir (snd (pruneLocalBuildFormats mem_kazoo c_one 9 ''img'' ''1''
     (w_of \<lparr> mz_nodes = [], mz_zxid = 1, mz_clock = 0 \<rparr> d_one))))) ''img-1.raw'' = Some ''x''"
proof -
  have "''img-1.raw'' \<in> file_names (build_base ''img'' ''1'') (ip_image_type p_a)"
    by (simp add: file_names_def build_base_def p_a_def dot_def)
  moreover have "dot \<notin> set (ip_image_type p_a)" "p_a \<in> set (bc_providers c_one)"
    by (simp_all add: p_a_def dot_def c_one_def)
  ultimately show ?thesis
    using prune_keeps_unsent [of p_a c_one "''img''" mem_kazoo "''1''" 9, OF _ _ _ z_builds_none, of "''img-1.raw''"]
    by (simp add: p_a_def w_of_def d_one_def)
qed

subsection \<open>Building and uploading\<close>

text \<open>
  C21: A build that is wrapped ends ready or failed, and is ready only when its command was started and
  ended with exit code 0 before the timeout, with the connection kept; then ZooKeeper has the build
  with exactly the image's formats (when none of them has a comma and they are not one empty name).
\<close>
theorem build_ready_only_if_built:
  assumes "zk_server K tree"
    and "buildWrapper K (buildImage here environ run cfg now) cfg now uuid d w = (Inr r, w')"
    and "\<forall>f \<in> set (dk_image_types d). CHR '','' \<notin> set f" and "dk_image_types d \<noteq> [[]]"
  shows "\<exists>b. r = Some b \<and> (o_state b = Some READY \<or> o_state b = Some FAILED) \<and> o_id b = Some uuid \<and>
     (o_state b = Some READY \<longrightarrow> built_ok here environ run cfg uuid d \<and>
        formats b = sort (dk_image_types d) \<and> getBuild K (dk_name d) uuid now (bw_zk w') = Inr (Some b))"
  using zk_server.buildWrapper_outcome [OF assms] .

definition run_ok :: "string \<Rightarrow> pydict \<Rightarrow> dib_run res" where
  "run_ok cmd env = Inr \<lparr> dr_rounds = [], dr_rc = 0, dr_dir = id, dr_lost = False \<rparr>"

definition w_empty :: "(nat, mem_zk) builder_world" where
  "w_empty = w_of \<lparr> mz_nodes = [], mz_zxid = 1, mz_clock = 0 \<rparr> d_one"

definition built_one :: "image_build option res \<times> (nat, mem_zk) builder_world" where
  "built_one = buildWrapper mem_kazoo (buildImage '''' [] run_ok c_one 9) c_one 9 ''7'' d_img w_empty"

lemma built_one_ready: "map_sum id (map_option o_state) (fst built_one) = Inr (Some (Some READY))"
  by code_simp

theorem build_ready_only_if_built_witness:
  "\<exists>b. getBuild mem_kazoo ''img'' ''7'' 9 (bw_zk (snd built_one)) = Inr (Some b) \<and> o_state b = Some READY \<and>
     formats b = [''raw''] \<and> built_ok '''' [] run_ok c_one ''7'' d_img"
proof -
  obtain r where r: "fst built_one = Inr r" "map_option o_state r = Some (Some READY)"
    using built_one_ready by (cases "fst built_one") auto
  have d: "\<forall>f \<in> set (dk_image_types d_img). CHR '','' \<notin> set f" "dk_image_types d_img \<noteq> [[]]"
    "dk_image_types d_img = [''raw'']" "dk_name d_img = ''img''"
    by (simp_all add: d_img_def disk_image_init_def)
  have "buildWrapper mem_kazoo (buildImage '''' [] run_ok c_one 9) c_one 9 ''7'' d_img w_empty = (Inr r, snd built_one)"
    using r(1) by (simp add: built_one_def prod_eq_iff)
  from build_ready_only_if_built [OF mem.zk_server_axioms this d(1,2)] r(2) d(3,4) show ?thesis by auto
qed

text \<open>
  Nothing is done to a cloud by the check of a provider's image unless an upload is due: the image
  is configured for the provider and not paused, its newest ready build has local files and the
  provider's format, and the provider has no ready upload of it.
\<close>
theorem upload_only_when_due:
  assumes "\<not> upload_due K now p im w"
  shows "bw_cloud (snd (checkProviderImageUpload K L up now p im w)) = bw_cloud w"
  using checkProviderImageUpload_cloud [OF assms] .

lemma z_kept_uploaded:
  "(case getMostRecentBuilds mem_kazoo (Some 1) ''img'' (Some READY) 9 z_kept of
      Inr (Some b # bs) \<Rightarrow> o_id b = Some ''1'' | r \<Rightarrow> False)"
  "(case getMostRecentBuildImageUploads mem_kazoo (Some 1) ''img'' ''1'' ''prov'' (Some READY) 9 z_kept of
      Inr us \<Rightarrow> us \<noteq> [] | Inl e \<Rightarrow> False)"
  by code_simp+

theorem upload_only_when_due_witness:
  "\<forall>up. bw_cloud (snd (checkProviderImageUpload mem_kazoo mem_locks up 9 p_a pim_a (w_of z_kept d_one))) = 0"
proof -
  have "\<not> upload_due mem_kazoo 9 p_a pim_a (w_of z_kept d_one)"
    using z_kept_uploaded
    by (auto simp: upload_due_def w_of_def p_a_def pim_a_def str_id_def split: sum.splits list.splits option.splits)
  show ?thesis
    by (intro allI trans [OF upload_only_when_due [OF \<open>\<not> upload_due mem_kazoo 9 p_a pim_a (w_of z_kept d_one)\<close>]]) (simp add: w_of_def)
qed

text \<open>
  When the post-upload hook fails, the image stays in the cloud, and the upload is recorded as
  failed without the id of the image, so that no cleanup can remove it: the handler's call for the
  deletion lacks an argument.
\<close>
theorem failed_hook_leaks_image:
  assumes "find (\<lambda>i. ip_image_type p = df_extension i) images = Some f"
    and "to_path (bw_dir w) f = (name, f1)"
    and "py_format [(''image_name'', img), (''upload_id'', n), (''timestamp'', int_str \<lfloor>now\<rfloor>)]
           (ip_image_name_format p) = Inr ext"
    and "ip_name p \<in> set (bc_managers cfg)" and "map_of (ip_diskimages p) img = Some pim"
    and "upload_meta cfg pim img b n = Inr meta"
    and "im_upload M (ip_name p) (pi_name pim) ext (image_path cfg name) (df_extension f1) meta
           (str_json (df_md5 f1)) (str_json (df_sha256 f1)) (bw_cloud w) = (Inr external_id, c1)"
    and "ip_post_upload_hook p = Some h" and "h \<noteq> []"
    and "hook h (ip_name p) external_id (image_path cfg name) c1 = (Inl e, c2)"
  shows "\<exists>u. uploadImage_of M hook cfg now b n img images p username python_path shell_type w =
      (Inr u, w\<lparr>bw_cloud := c2\<rparr>) \<and> o_state u = Some FAILED \<and> iu_external_id u = JNull"
  using assms by (rule failed_hook)

definition hook_fails :: "string \<Rightarrow> string \<Rightarrow> json \<Rightarrow> string \<Rightarrow> (nat, unit) eff" where
  "hook_fails h p i f c = (Inl RuntimeError, c)"

definition f_raw :: dib_image_file where
  "f_raw = dib_image_file_init ''img-1'' ''.raw''"

theorem failed_hook_leaks_image_witness:
  "\<exists>u w. uploadImage_of M_one hook_fails c_one 9 ''1'' ''2'' ''img'' [f_raw] p_a JNull JNull JNull w_empty = (Inr u, w) \<and>
     bw_cloud w = 1 \<and> iu_external_id u = JNull"
proof -
  obtain name f1 where t: "to_path (bw_dir w_empty) f_raw = (name, f1)" by fastforce
  have f: "find (\<lambda>i. ip_image_type p_a = df_extension i) [f_raw] = Some f_raw" by code_simp
  obtain ext where e: "py_format [(''image_name'', ''img''), (''upload_id'', ''2''), (''timestamp'', int_str \<lfloor>9 :: rat\<rfloor>)]
      (ip_image_name_format p_a) = Inr ext"
    by (simp add: p_a_def startswith_def)
  have m: "upload_meta c_one pim_a ''img'' ''1'' ''2'' =
      Inr [(''nodepool_build_id'', JStr ''1''), (''nodepool_upload_id'', JStr ''2'')]"
    by (simp add: upload_meta_def world_defs dict_update_def)
  show ?thesis
    using failed_hook_leaks_image [OF f t e _ _ m, where M = M_one and external_id = "JStr ''ext''"
        and ?c1.0 = 1 and ?h = "''hook''" and hook = hook_fails and ?e = RuntimeError and ?c2.0 = 1]
    by (force simp: p_a_def c_one_def M_one_def hook_fails_def w_empty_def w_of_def)
qed

text \<open>
  After a build at most as many logs of an image are kept as configured, counting every log whose
  name starts with the image's name; the logs of all other names are untouched.
\<close>
theorem build_logs_kept:
  assumes "distinct (map fst logs)"
  shows "length (filter (\<lambda>l. startswith (fst l) name) (prune_logs keep name logs)) =
      min keep (length (filter (\<lambda>l. startswith (fst l) name) logs)) \<and>
    (\<forall>l. \<not> startswith (fst l) name \<longrightarrow> l \<in> set (prune_logs keep name logs) \<longleftrightarrow> l \<in> set logs)"
  using prune_logs_count [OF assms] prune_logs_others by blast

theorem build_logs_kept_witness:
  "length (filter (\<lambda>l. startswith (fst l) ''fedora'')
     (prune_logs 1 ''fedora'' [(''fedora-1.log'', 1, ''''), (''fedora-arm-2.log'', 2, '''')])) = 1"
  using build_logs_kept [of "[(''fedora-1.log'', 1, ''''), (''fedora-arm-2.log'', 2, '''')]" "''fedora''" 1]
  by (simp add: startswith_def)

subsection \<open>The configuration\<close>

text \<open>
  C22: The merging of a disk image's parents is the fold of \<open>setFromConfig\<close> over the chain of its
  ancestors, from the root down, for every recursion limit the chain fits in; without a cycle - when a
  rank falls from every image to its parent - every image has such a chain, no longer than its rank.
\<close>
theorem inheritance_is_fold:
  fixes rank :: "string \<Rightarrow> nat"
  assumes "\<And>n cfg. map_of images n = Some cfg \<Longrightarrow> truthy (dget cfg ''parent'') \<Longrightarrow>
      \<exists>p. dget cfg ''parent'' = JStr p \<and> map_of images p \<noteq> None \<and> rank p < rank n"
    and "map_of images n \<noteq> None" and "Suc (rank n) \<le> limit"
  shows "\<exists>cfgs. ancestors_of images n cfgs \<and> merge_image_cfg limit images d n = foldE setFromConfig cfgs d"
proof -
  from ranked_ancestors [of images rank n] assms obtain cfgs where
    c: "ancestors_of images n cfgs" "length cfgs \<le> Suc (rank n)" by blast
  from merge_is_fold [OF c(1)] c assms(3) show ?thesis by (meson order_trans)
qed

definition imgs_two :: "(string \<times> pydict) list" where
  "imgs_two = [(''base'', [(''name'', JStr ''base''), (''elements'', JList [JStr ''vm''])]),
     (''img'', [(''name'', JStr ''img''), (''parent'', JStr ''base''), (''elements'', JList [JStr ''py''])])]"

theorem inheritance_is_fold_witness:
  "\<exists>cfgs. ancestors_of imgs_two ''img'' cfgs \<and>
     merge_image_cfg 2 imgs_two (disk_image_init ''x'') ''img'' = foldE setFromConfig cfgs (disk_image_init ''x'')"
proof (rule inheritance_is_fold [of _ "\<lambda>n. if n = ''img'' then 1 else 0"])
  fix n cfg assume "map_of imgs_two n = Some cfg" "truthy (dget cfg ''parent'')"
  then show "\<exists>p. dget cfg ''parent'' = JStr p \<and> map_of imgs_two p \<noteq> None \<and>
      (if p = ''img'' then 1 else 0 :: nat) < (if n = ''img'' then 1 else 0)"
    by (auto simp: imgs_two_def dget_def split: if_splits)
qed (simp_all add: imgs_two_def)

text \<open>
  A worker whose configuration gets other ZooKeeper servers never adopts the new configuration:
  reloading raises \<open>AttributeError\<close> and changes nothing, in this round and in every later one.
\<close>
theorem reload_stuck:
  assumes "ws_config s = Some old" and "cf_zookeeper_servers new = Hosts h"
    and "cf_zookeeper_servers old \<noteq> Hosts h"
  shows "reloadConfig G (Inr False) (Inr new) m s = (Inl AttributeError, s)"
  using assms
  by (simp add: reloadConfig_def eff_bind_def eff_lift_def eff_seq_def eff_mod_def eff_read_def
      checkForZooKeeperChanges_def)

theorem reload_stuck_witness:
  "\<forall>G m. reloadConfig G (Inr False) (Inr (config_init\<lparr>cf_zookeeper_servers := Hosts ''b''\<rparr>)) m
     \<lparr> ws_config = Some (config_init\<lparr>cf_zookeeper_servers := Hosts ''a''\<rparr>), ws_managers = [], ws_state = (0::nat) \<rparr> =
   (Inl AttributeError,
     \<lparr> ws_config = Some (config_init\<lparr>cf_zookeeper_servers := Hosts ''a''\<rparr>), ws_managers = [], ws_state = 0 \<rparr>)"
  by (intro allI, rule reload_stuck [where old = "config_init\<lparr>cf_zookeeper_servers := Hosts ''a''\<rparr>"]) (simp, simp, simp)

end
