(* ===== verification/ZkWorld.thy ===== *)
theory ZkWorld
  imports ZkPools Eff
begin

section \<open>Drivers that keep state in ZooKeeper\<close>

text \<open>
  The drivers that are not clouds work on their own state and on the server. Their states extend
  \<open>zk_world\<close>; the effects here read the server, write it, and run a method of an object on it.
\<close>

record 'z zk_world =
  zw_zk :: 'z

type_synonym ('z, 'm, 'a) zw_eff = "(('z, 'm) zk_world_scheme, 'a) eff"

definition zw_read :: "('z \<Rightarrow> 'a res) \<Rightarrow> ('z, 'm, 'a) zw_eff" where
  "zw_read f = eff_read (\<lambda>w. f (zw_zk w))"

definition zw_write :: "('z \<Rightarrow> 'z res) \<Rightarrow> ('z, 'm, unit) zw_eff" where
  "zw_write f w = (case f (zw_zk w) of Inl e \<Rightarrow> (Inl e, w) | Inr z \<Rightarrow> (Inr (), w\<lparr>zw_zk := z\<rparr>))"

text \<open>A method of an object that changes it and the server; after an exception the object is lost.\<close>

definition zw_obj :: "('o \<Rightarrow> 'z \<Rightarrow> pyexc option \<times> 'o \<times> 'z) \<Rightarrow> 'o \<Rightarrow> ('z, 'm, 'o) zw_eff" where
  "zw_obj f ob w =
     (case f ob (zw_zk w) of
        (None, ob1, z) \<Rightarrow> (Inr ob1, w\<lparr>zw_zk := z\<rparr>)
      | (Some e, ob1, z) \<Rightarrow> (Inl e, w\<lparr>zw_zk := z\<rparr>))"

text \<open>\<open>node.state = st\<close>.\<close>

definition node_state :: "zk_state \<Rightarrow> rat \<Rightarrow> node \<Rightarrow> node res" where
  "node_state st now n = set_state NODE_STATES (JStr (state_str st)) now n"

text \<open>Python's list index, which counts negative numbers from the end.\<close>

definition py_index :: "int \<Rightarrow> 'a list \<Rightarrow> nat res" where
  "py_index i xs =
     (let j = (if i < 0 then i + int (length xs) else i)
      in if 0 \<le> j \<and> j < int (length xs) then Inr (nat j) else Inl IndexError)"

text \<open>A number used as an index.\<close>

definition index_of_json :: "json \<Rightarrow> int res" where
  "index_of_json v =
     bindE (num_of v) (\<lambda>q. if of_int \<lfloor>q\<rfloor> = q then Inr \<lfloor>q\<rfloor> else Inl TypeError)"

text \<open>\<open>xs.index(x)\<close>.\<close>

fun list_index :: "'a \<Rightarrow> 'a list \<Rightarrow> nat res" where
  "list_index x [] = Inl ValueError"
| "list_index x (y # ys) = (if x = y then Inr 0 else map_sum id Suc (list_index x ys))"

lemma list_index_Inr:
  "list_index x xs = Inr i \<Longrightarrow> i < length xs \<and> xs ! i = x \<and> (\<forall>j < i. xs ! j \<noteq> x)"
proof (induction xs arbitrary: i)
  case (Cons y ys)
  show ?case
  proof (cases "x = y")
    case False
    with Cons.prems obtain k where "list_index x ys = Inr k" "i = Suc k" by (auto simp: map_sum_eq_Inr)
    with Cons.IH [of k] False show ?thesis by (auto simp: less_Suc_eq_0_disj nth_Cons split: nat.splits)
  qed (use Cons.prems in simp)
qed simp

lemma list_index_Inl: "list_index x xs = Inl e \<Longrightarrow> x \<notin> set xs \<and> e = ValueError"
  by (induction xs) (auto simp: map_sum_eq_Inl split: if_splits)

lemma py_index_Inr: "py_index i xs = Inr j \<Longrightarrow> j < length xs"
  by (auto simp: py_index_def Let_def split: if_splits)

end
