(* ===== verification/NodeUtils.thy ===== *)
theory NodeUtils
  imports SmLauncher ZkWorld
begin

section \<open>Scanning a node from its driver\<close>

text \<open>
  \<open>nodepool/nodeutils.py\<close>: the blocking scan for the host keys of a node and the look-up of its
  address. The network is a record of functions: what looking up an address gives, and what the
  connection attempts see, each with the clock when it starts. A list of attempts that ends stands for
  a clock that has passed the timeout.
\<close>

datatype address_family = AF_INET | AF_INET6 | AF_OTHER

text \<open>
  One attempt to read a key: the set-up before \<open>key_index\<close> is advanced may raise; after it the key,
  none, or an exception that is only logged.
\<close>

datatype key_attempt = SetupRaises | KeyAttempt "string option res"

record network =
  nw_resolve :: "string \<Rightarrow> json \<Rightarrow> (address_family \<times> string) list res"   \<comment> \<open>\<open>getaddrinfo\<close>\<close>
  nw_attempts :: "string \<Rightarrow> json \<Rightarrow> bool \<Rightarrow> (rat \<times> unit res) list"
  nw_key_types :: nat                                       \<comment> \<open>the number of key types\<close>
  nw_keys :: "string \<Rightarrow> json \<Rightarrow> key_attempt list"
  nw_start :: rat

text \<open>\<open>iterate_timeout\<close> around the attempts to connect; exceptions of an attempt are logged.\<close>

fun wait_connect :: "rat \<Rightarrow> (rat \<times> unit res) list \<Rightarrow> unit res" where
  "wait_connect deadline [] = Inl ConnectionTimeoutException"
| "wait_connect deadline ((t, r) # rs) =
     (if \<not> t < deadline then Inl ConnectionTimeoutException
      else case r of Inr u \<Rightarrow> Inr () | Inl e \<Rightarrow> wait_connect deadline rs)"

text \<open>
  The loop over the key types, \<open>None\<close> when it has not ended after the given attempts: an attempt whose
  set-up raises does not advance the index.
\<close>

fun gather_keys :: "nat \<Rightarrow> nat \<Rightarrow> key_attempt list \<Rightarrow> string list \<Rightarrow> string list option" where
  "gather_keys n i [] keys = None"
| "gather_keys n i (SetupRaises # as) keys = gather_keys n i as keys"
| "gather_keys n i (KeyAttempt r # as) keys =
     (if i \<ge> n then gather_keys n i as keys
      else let keys1 = (case r of Inr (Some k) \<Rightarrow> if k = [] then keys else keys @ [k] | v \<Rightarrow> keys)
           in if Suc i \<ge> n then Some keys1 else gather_keys n (Suc i) as keys1)"

definition first_address :: "network \<Rightarrow> string \<Rightarrow> json \<Rightarrow> (address_family \<times> string) res" where
  "first_address N host port =
     bindE (nw_resolve N host port) (\<lambda>as. case as of [] \<Rightarrow> Inl IndexError | a # as \<Rightarrow> Inr a)"

definition nodescan :: "network \<Rightarrow> string \<Rightarrow> json \<Rightarrow> rat \<Rightarrow> bool \<Rightarrow> string list option res" where
  "nodescan N ip port limit gather_hostkeys =
     (if occurs_in ''fake'' ip
      then Inr (Some (if gather_hostkeys then [''ssh-rsa FAKEKEY''] else []))
      else bindE (first_address N ip port) (\<lambda>a.
        bindE (wait_connect (nw_start N + limit) (nw_attempts N ip port gather_hostkeys)) (\<lambda>u.
          Inr (if gather_hostkeys then gather_keys (nw_key_types N) 0 (nw_keys N ip port) [] else Some []))))"

definition set_node_ip :: "network \<Rightarrow> node \<Rightarrow> node res" where
  "set_node_ip N n =
     (case n_hostname n of
        JStr host \<Rightarrow>
          if occurs_in ''fake'' host then Inr n
          else bindE (first_address N host (n_connection_port n)) (\<lambda>(family, addr).
            case family of
              AF_INET \<Rightarrow> Inr (n\<lparr>n_public_ipv4 := JStr addr\<rparr>)
            | AF_INET6 \<Rightarrow> Inr (n\<lparr>n_public_ipv6 := JStr addr\<rparr>)
            | AF_OTHER \<Rightarrow> Inl LaunchNetworkException)
      | v \<Rightarrow> Inl TypeError)"

subsection \<open>How many keys, and when it ends\<close>

lemma gather_keys_bound: "gather_keys n i as keys = Some ks \<Longrightarrow> i < n \<Longrightarrow> length ks + i \<le> length keys + n"
proof (induction n i as keys arbitrary: ks rule: gather_keys.induct)
  case (3 n i r as keys)
  let ?k = "case r of Inr (Some k) \<Rightarrow> if k = [] then keys else keys @ [k] | v \<Rightarrow> keys"
  have len: "length ?k \<le> Suc (length keys)" by (auto split: sum.splits option.splits)
  show ?case
  proof (cases "Suc i \<ge> n")
    case True
    with 3 len show ?thesis by (auto simp: Let_def)
  next
    case False
    with "3.prems" have "gather_keys n (Suc i) as ?k = Some ks" by (simp add: Let_def)
    with "3.IH"(2) [OF _ refl False] False "3.prems"(2) len show ?thesis by fastforce
  qed
qed simp_all

text \<open>With as many attempts that do not fail in their set-up as there are key types, the loop ends.\<close>

lemma gather_keys_ends:
  "n - i \<le> length (filter (\<lambda>a. a \<noteq> SetupRaises) as) \<Longrightarrow> i < n \<Longrightarrow> gather_keys n i as keys \<noteq> None"
proof (induction n i as keys rule: gather_keys.induct)
  case (3 n i r as keys)
  then show ?case by (auto simp: Let_def)
qed auto

lemma gather_keys_stuck: "\<forall>a \<in> set as. a = SetupRaises \<Longrightarrow> gather_keys n i as keys = None"
  by (induction as) auto

end
