(* ===== verification/StaticDriver.thy ===== *)
theory StaticDriver
  imports NodeUtils Config
begin

section \<open>The static driver\<close>

text \<open>
  \<open>nodepool/driver/static/provider.py\<close>: machines that exist are registered as nodes, as many per
  machine as jobs may run on it, each in a slot of its own. Several threads may sync machines at the
  start; here they run one after the other. A scan that does not return counts as raising.
\<close>

record static_node =
  sn_name :: string
  sn_username :: string
  sn_connection_port :: int
  sn_connection_type :: string
  sn_host_key :: "string list"
  sn_host_key_checking :: bool
  sn_timeout :: int
  sn_shell_type :: json
  sn_max_parallel_jobs :: int
  sn_python_path :: json
  sn_labels :: "string list"

record static_pool =
  sp_name :: string
  sp_nodes :: "static_node list"
  sp_node_attributes :: json
  sp_labels :: "string list"

record static_config =
  stc_name :: string
  stc_pools :: "(string \<times> static_pool) list"

type_synonym node_tuple = "json \<times> json \<times> json"

definition static_tuple :: "static_node \<Rightarrow> node_tuple" where
  "static_tuple s = (JStr (sn_name s), JStr (sn_username s), JNum (of_int (sn_connection_port s)))"

definition nodeTuple :: "node \<Rightarrow> node_tuple" where
  "nodeTuple n = (n_hostname n, n_username n, n_connection_port n)"

type_synonym node_slots = "(node_tuple \<times> node option list) list"

record 'z st_world = "'z zk_world" +
  st_slots :: node_slots
  st_idle :: bool

type_synonym ('z, 'a) st_eff = "('z st_world, 'a) eff"

definition static_nodes :: "static_config \<Rightarrow> static_node list" where
  "static_nodes cfg = concat (map (sp_nodes \<circ> snd) (stc_pools cfg))"

text \<open>Of two machines with the same tuple the later one stays.\<close>

definition poolNodes :: "static_config \<Rightarrow> (node_tuple \<times> static_node) list" where
  "poolNodes cfg = foldl (\<lambda>m s. AList.update (static_tuple s) s m) [] (static_nodes cfg)"

subsection \<open>Scanning\<close>

definition StaticNodeError :: pyexc where
  "StaticNodeError = OtherError ''StaticNodeError''"

definition scan_static :: "network \<Rightarrow> static_node \<Rightarrow> bool \<Rightarrow> string list res" where
  "scan_static N s gather =
     bindE (nodescan N (sn_name s) (JNum (of_int (sn_connection_port s))) (of_int (sn_timeout s)) gather)
       (\<lambda>r. case r of None \<Rightarrow> Inl (OtherError ''does not return'') | Some ks \<Rightarrow> Inr ks)"

definition checkHost :: "network \<Rightarrow> static_node \<Rightarrow> string list res" where
  "checkHost N s =
     (let gather = (sn_connection_type s = ''ssh'' \<or> sn_connection_type s = ''network_cli'') in
      if gather \<and> \<not> sn_host_key_checking s then Inr (sn_host_key s)
      else case scan_static N s gather of
        Inl e \<Rightarrow> Inl (if e = ConnectionTimeoutException then StaticNodeError else e)
      | Inr keys \<Rightarrow>
          if \<not> gather then Inr []
          else if set (sn_host_key s) \<subseteq> set keys then Inr keys
          else Inl StaticNodeError)"

definition keys_json :: "string list \<Rightarrow> json" where
  "keys_json ks = JList (map JStr ks)"

subsection \<open>The slots\<close>

definition empty_slots :: "static_config \<Rightarrow> node_slots" where
  "empty_slots cfg =
     foldl (\<lambda>m s. AList.update (static_tuple s) (replicate (nat (sn_max_parallel_jobs s)) None) m)
       [] (static_nodes cfg)"

text \<open>The place a node's own slot number gives it among the slots of its machine, if it is free.\<close>

definition own_slot :: "json \<Rightarrow> node option list \<Rightarrow> nat option res" where
  "own_slot slot xs =
     (if slot = JNull then Inr None
      else bindE (num_of slot) (\<lambda>q.
        if \<not> of_nat (length xs) > q then Inr None
        else bindE (index_of_json slot) (\<lambda>i.
          bindE (py_index i xs) (\<lambda>j. Inr (if xs ! j = None then Some j else None)))))"

definition slot_node :: "node \<Rightarrow> node_slots \<times> node list \<Rightarrow> (node_slots \<times> node list) res" where
  "slot_node n acc =
     (case acc of (slots, unslotted) \<Rightarrow>
        case map_of slots (nodeTuple n) of
          None \<Rightarrow> Inr (AList.update (nodeTuple n) [] slots, unslotted @ [n])
        | Some xs \<Rightarrow>
            bindE (own_slot (n_slot n) xs) (\<lambda>place.
              Inr (case place of
                     Some j \<Rightarrow> (AList.update (nodeTuple n) (xs[j := Some n]) slots, unslotted)
                   | None \<Rightarrow> (slots, unslotted @ [n]))))"

text \<open>A node without a place takes the first free slot, or one more.\<close>

definition place_node :: "node \<Rightarrow> node option list \<Rightarrow> node option list" where
  "place_node n xs = (case list_index None xs of Inr j \<Rightarrow> xs[j := Some n] | Inl e \<Rightarrow> xs @ [Some n])"

definition place_unslotted :: "node \<Rightarrow> node_slots \<Rightarrow> node_slots" where
  "place_unslotted n slots =
     (case map_of slots (nodeTuple n) of
        None \<Rightarrow> slots | Some xs \<Rightarrow> AList.update (nodeTuple n) (place_node n xs) slots)"

definition counts_as_registered :: "static_config \<Rightarrow> node \<Rightarrow> bool" where
  "counts_as_registered cfg n \<longleftrightarrow>
     n_provider n = JStr (stc_name cfg) \<and> o_state n \<noteq> Some BUILDING \<and> o_state n \<noteq> Some DELETING"

definition registered_slots :: "static_config \<Rightarrow> node list \<Rightarrow> node_slots res" where
  "registered_slots cfg nodes =
     bindE (foldE slot_node (filter (counts_as_registered cfg) nodes) (empty_slots cfg, []))
       (\<lambda>(slots, unslotted). Inr (foldl (\<lambda>m n. place_unslotted n m) slots unslotted))"

definition getRegisteredNodes :: "'z kazoo \<Rightarrow> static_config \<Rightarrow> rat \<Rightarrow> ('z, unit) st_eff" where
  "getRegisteredNodes K cfg now =
     eff_bind (zw_read (\<lambda>z. bindE (nodeIterator K None False False now z) (registered_slots cfg)))
       (\<lambda>slots. eff_mod (\<lambda>w. w\<lparr>st_slots := slots\<rparr>))"

definition getRegisteredReadyNodes ::
  "'z kazoo \<Rightarrow> static_config \<Rightarrow> rat \<Rightarrow> node_tuple \<Rightarrow> 'z \<Rightarrow> node list res" where
  "getRegisteredReadyNodes K cfg now t z =
     map_sum id (filter (\<lambda>n. n_provider n = JStr (stc_name cfg) \<and> o_state n = Some READY \<and>
         n_allocated_to n = JNull \<and> nodeTuple n = t))
       (nodeIterator K None False False now z)"

subsection \<open>Registering, updating and deregistering\<close>

definition static_node_of ::
  "network \<Rightarrow> json \<Rightarrow> static_pool \<Rightarrow> static_node \<Rightarrow> string list \<Rightarrow> int \<Rightarrow> rat \<Rightarrow> node res" where
  "static_node_of N provider_name pool s host_keys slot now =
     bindE (node_state READY now (node_init None)) (\<lambda>n.
     bindE (set_node_ip N (n\<lparr> n_provider := provider_name, n_pool := JStr (sp_name pool),
         n_launcher := JStr ''static driver'', n_type := map JStr (sn_labels s),
         n_external_id := JStr (sn_name s), n_hostname := JStr (sn_name s),
         n_username := JStr (sn_username s), n_interface_ip := JStr (sn_name s),
         n_connection_port := JNum (of_int (sn_connection_port s)),
         n_connection_type := JStr (sn_connection_type s), n_python_path := sn_python_path s,
         n_shell_type := sn_shell_type s \<rparr>)) (\<lambda>n1.
       Inr (n1\<lparr> n_host_keys := keys_json host_keys, n_attributes := sp_node_attributes pool,
                n_slot := JNum (of_int slot) \<rparr>)))"

definition registerNodeFromConfig ::
  "'z kazoo \<Rightarrow> network \<Rightarrow> rat \<Rightarrow> json \<Rightarrow> static_pool \<Rightarrow> static_node \<Rightarrow> int \<Rightarrow> ('z, unit) st_eff" where
  "registerNodeFromConfig K N now provider_name pool s slot =
     eff_bind (eff_lift (checkHost N s)) (\<lambda>host_keys.
     eff_bind (eff_lift (static_node_of N provider_name pool s host_keys slot now)) (\<lambda>n.
     eff_bind (zw_obj (storeNode K now) n) (\<lambda>n1. eff_ret ())))"

definition attrs_current :: "static_node \<Rightarrow> string list \<Rightarrow> node \<Rightarrow> bool" where
  "attrs_current s host_keys n \<longleftrightarrow>
     n_type n = map JStr (sn_labels s) \<and> n_username n = JStr (sn_username s) \<and>
     n_connection_port n = JNum (of_int (sn_connection_port s)) \<and> n_shell_type n = sn_shell_type s \<and>
     n_connection_type n = JStr (sn_connection_type s) \<and> n_python_path n = sn_python_path s \<and>
     n_host_keys n = keys_json host_keys"

definition set_attrs :: "static_node \<Rightarrow> node \<Rightarrow> node" where
  "set_attrs s n =
     n\<lparr> n_type := map JStr (sn_labels s), n_username := JStr (sn_username s),
        n_connection_port := JNum (of_int (sn_connection_port s)),
        n_connection_type := JStr (sn_connection_type s), n_shell_type := sn_shell_type s,
        n_python_path := sn_python_path s \<rparr>"

definition st_unlock :: "'z locks \<Rightarrow> node \<Rightarrow> ('z, unit) st_eff" where
  "st_unlock L n = eff_bind (zw_obj (unlockNode L) n) (\<lambda>n1. eff_ret ())"

definition st_lock :: "'z kazoo \<Rightarrow> 'z locks \<Rightarrow> rat \<Rightarrow> node \<Rightarrow> ('z, node) st_eff" where
  "st_lock K L now n = zw_obj (\<lambda>n z. lockNode K L n False None True None False now z) n"

text \<open>
  The handler around the lock also covers the assignments, but only for \<open>ZKLockException\<close>: when the
  address of the node cannot be looked up the exception leaves the node locked.
\<close>

definition update_node ::
  "'z kazoo \<Rightarrow> 'z locks \<Rightarrow> network \<Rightarrow> rat \<Rightarrow> static_node \<Rightarrow> string list \<Rightarrow> node \<Rightarrow> ('z, unit) st_eff" where
  "update_node K L N now s host_keys n =
     (if attrs_current s host_keys n then eff_ret ()
      else eff_bind (eff_try (eff_bind (st_lock K L now n) (\<lambda>n1.
               eff_bind (eff_lift (set_node_ip N (set_attrs s n1))) (\<lambda>n2.
                 eff_ret (Some (n2\<lparr>n_host_keys := keys_json host_keys\<rparr>)))))
             (\<lambda>e. if e = ZKLockException then eff_ret None else eff_raise e)) (\<lambda>locked.
           case locked of
             None \<Rightarrow> eff_ret ()
           | Some n2 \<Rightarrow> eff_finally (eff_bind (zw_obj (storeNode K now) n2) (\<lambda>n3. eff_ret ())) (st_unlock L n2)))"

definition updateNodeFromConfig ::
  "'z kazoo \<Rightarrow> 'z locks \<Rightarrow> network \<Rightarrow> static_config \<Rightarrow> rat \<Rightarrow> static_node \<Rightarrow> ('z, unit) st_eff" where
  "updateNodeFromConfig K L N cfg now s =
     eff_bind (eff_lift (checkHost N s)) (\<lambda>host_keys.
     eff_bind (zw_read (getRegisteredReadyNodes K cfg now (static_tuple s))) (\<lambda>nodes.
       eff_each (update_node K L N now s host_keys) nodes))"

text \<open>An exception while storing is logged; one in the \<open>finally\<close> is not.\<close>

definition deregisterNode :: "'z kazoo \<Rightarrow> 'z locks \<Rightarrow> rat \<Rightarrow> node \<Rightarrow> ('z, unit) st_eff" where
  "deregisterNode K L now n =
     eff_bind (eff_try (eff_bind (st_lock K L now n) (\<lambda>n1. eff_ret (Some n1)))
         (\<lambda>e. if e = ZKLockException then eff_ret None else eff_raise e)) (\<lambda>locked.
     case locked of
       None \<Rightarrow> eff_ret ()
     | Some n1 \<Rightarrow>
         eff_bind (zw_read (getNode K None (str_id (o_id n1)) False False now)) (\<lambda>found.
         if (case found of None \<Rightarrow> False | Some m \<Rightarrow> o_state m \<noteq> Some READY) then st_unlock L n1
         else eff_bind (eff_lift (node_state DELETING now n1)) (\<lambda>n2.
           eff_finally (eff_ignore (eff_bind (zw_obj (storeNode K now) n2) (\<lambda>n3. eff_ret ()))) (st_unlock L n2))))"

text \<open>\<open>nodeTuple(None)\<close> raises.\<close>

definition deregister_slot :: "'z kazoo \<Rightarrow> 'z locks \<Rightarrow> rat \<Rightarrow> node option \<Rightarrow> ('z, unit) st_eff" where
  "deregister_slot K L now n =
     (case n of None \<Rightarrow> eff_raise AttributeError | Some m \<Rightarrow> deregisterNode K L now m)"

definition checkNodeLiveness ::
  "'z kazoo \<Rightarrow> 'z locks \<Rightarrow> network \<Rightarrow> static_config \<Rightarrow> rat \<Rightarrow> node \<Rightarrow> ('z, bool) st_eff" where
  "checkNodeLiveness K L N cfg now n =
     (case map_of (poolNodes cfg) (nodeTuple n) of
        None \<Rightarrow> eff_ret False
      | Some s \<Rightarrow>
          if \<not> sn_host_key_checking s then eff_ret True
          else (case scan_static N s False of
                  Inr ks \<Rightarrow> eff_ret True
                | Inl e \<Rightarrow> eff_seq (eff_ignore (deregisterNode K L now n)) (eff_ret False)))"

subsection \<open>Synchronising with the configuration\<close>

definition sync_slot ::
  "'z kazoo \<Rightarrow> 'z locks \<Rightarrow> network \<Rightarrow> static_config \<Rightarrow> rat \<Rightarrow> static_pool \<Rightarrow> static_node \<Rightarrow>
     nat \<times> node option \<Rightarrow> bool \<Rightarrow> ('z, bool) st_eff" where
  "sync_slot K L N cfg now pool s sl update =
     (case sl of
        (slot, None) \<Rightarrow> eff_seq (registerNodeFromConfig K N now (JStr (stc_name cfg)) pool s (int slot)) (eff_ret update)
      | (slot, Some n) \<Rightarrow>
          if int slot \<ge> sn_max_parallel_jobs s
          then eff_seq (eff_ignore (deregisterNode K L now n)) (eff_ret update)
          else eff_ret True)"

definition syncNodeCount ::
  "'z kazoo \<Rightarrow> 'z locks \<Rightarrow> network \<Rightarrow> static_config \<Rightarrow> rat \<Rightarrow> static_pool \<Rightarrow> static_node \<Rightarrow> ('z, bool) st_eff" where
  "syncNodeCount K L N cfg now pool s =
     eff_bind (eff_read (\<lambda>w. case map_of (st_slots w) (static_tuple s) of None \<Rightarrow> Inl KeyError | Some xs \<Rightarrow> Inr xs))
       (\<lambda>xs. eff_fold (sync_slot K L N cfg now pool s) (enumerate 0 xs) False)"

definition syncAndUpdateNode ::
  "'z kazoo \<Rightarrow> 'z locks \<Rightarrow> network \<Rightarrow> static_config \<Rightarrow> rat \<Rightarrow> static_pool \<Rightarrow> static_node \<Rightarrow> ('z, unit) st_eff" where
  "syncAndUpdateNode K L N cfg now pool s =
     eff_bind (syncNodeCount K L N cfg now pool s) (\<lambda>update.
       eff_when update (updateNodeFromConfig K L N cfg now s))"

text \<open>The machines that were synchronised without an exception.\<close>

definition sync_one ::
  "'z kazoo \<Rightarrow> 'z locks \<Rightarrow> network \<Rightarrow> static_config \<Rightarrow> rat \<Rightarrow> static_pool \<times> static_node \<Rightarrow>
     node_tuple list \<Rightarrow> ('z, node_tuple list) st_eff" where
  "sync_one K L N cfg now ps synced =
     eff_try (eff_seq (syncAndUpdateNode K L N cfg now (fst ps) (snd ps))
                (eff_ret (synced @ [static_tuple (snd ps)])))
       (\<lambda>e. eff_ret synced)"

definition pool_static_nodes :: "static_config \<Rightarrow> (static_pool \<times> static_node) list" where
  "pool_static_nodes cfg = concat (map (\<lambda>(n, p). map (\<lambda>s. (p, s)) (sp_nodes p)) (stc_pools cfg))"

definition static_start_inner ::
  "'z kazoo \<Rightarrow> 'z locks \<Rightarrow> network \<Rightarrow> static_config \<Rightarrow> rat \<Rightarrow> ('z, unit) st_eff" where
  "static_start_inner K L N cfg now =
     eff_seq (getRegisteredNodes K cfg now)
     (eff_bind (eff_fold (sync_one K L N cfg now) (pool_static_nodes cfg) []) (\<lambda>synced.
      eff_bind (eff_get st_slots)
        (eff_each (\<lambda>(t, nodes). if t \<in> set synced then eff_ret ()
                               else eff_each (\<lambda>n. eff_ignore (deregister_slot K L now n)) nodes))))"

definition static_start ::
  "'z kazoo \<Rightarrow> 'z locks \<Rightarrow> network \<Rightarrow> static_config \<Rightarrow> rat \<Rightarrow> ('z, unit) st_eff" where
  "static_start K L N cfg now = eff_ignore (static_start_inner K L N cfg now)"

definition static_cleanupLeakedResources ::
  "'z kazoo \<Rightarrow> 'z locks \<Rightarrow> network \<Rightarrow> static_config \<Rightarrow> rat \<Rightarrow> ('z, unit) st_eff" where
  "static_cleanupLeakedResources K L N cfg now =
     eff_bind (eff_get st_idle) (\<lambda>idle.
       if idle then eff_ret ()
       else eff_seq (getRegisteredNodes K cfg now)
              (eff_each (\<lambda>(p, s). eff_ignore (eff_bind (syncNodeCount K L N cfg now p s) (\<lambda>u. eff_ret ())))
                 (pool_static_nodes cfg)))"

definition static_idle :: "('z, unit) st_eff" where
  "static_idle = eff_mod (\<lambda>w. w\<lparr>st_idle := True\<rparr>)"

subsection \<open>A node was deleted\<close>

text \<open>
  Whether the slot of a deleted node is to be filled again: \<open>None\<close> when the configuration has fewer
  slots now, or its place is taken.
\<close>

definition slot_to_fill :: "static_node \<Rightarrow> node_slots \<Rightarrow> node \<Rightarrow> int option res" where
  "slot_to_fill s slots n =
     (if n_slot n = JNull then Inr None
      else bindE (num_of (n_slot n)) (\<lambda>q.
        if q \<ge> of_int (sn_max_parallel_jobs s) then Inr None
        else case map_of slots (nodeTuple n) of
          None \<Rightarrow> Inr None
        | Some xs \<Rightarrow>
            if list_ex (\<lambda>x. case x of None \<Rightarrow> False | Some m \<Rightarrow> node_eq m n) xs then Inr None
            else bindE (index_of_json (n_slot n)) (\<lambda>i.
              case py_index i xs of
                Inl e \<Rightarrow> Inr None
              | Inr j \<Rightarrow> Inr (if xs ! j \<noteq> None then None else Some i))))"

definition reregister ::
  "'z kazoo \<Rightarrow> network \<Rightarrow> static_config \<Rightarrow> rat \<Rightarrow> node \<Rightarrow> static_node \<Rightarrow> int \<Rightarrow> ('z, unit) st_eff" where
  "reregister K N cfg now n s slot =
     eff_bind (eff_lift (bindE (name_of (n_pool n)) (\<lambda>p.
         case map_of (stc_pools cfg) p of None \<Rightarrow> Inl KeyError | Some pool \<Rightarrow> Inr pool))) (\<lambda>pool.
       registerNodeFromConfig K N now (n_provider n) pool s slot)"

definition nodeDeletedNotification ::
  "'z kazoo \<Rightarrow> network \<Rightarrow> static_config \<Rightarrow> rat \<Rightarrow> node \<Rightarrow> ('z, unit) st_eff" where
  "nodeDeletedNotification K N cfg now n =
     eff_bind (eff_get st_idle) (\<lambda>idle.
     if idle then eff_ret ()
     else case map_of (poolNodes cfg) (nodeTuple n) of
       None \<Rightarrow> eff_ret ()
     | Some s \<Rightarrow>
         eff_bind (eff_try (eff_seq (getRegisteredNodes K cfg now) (eff_ret True)) (\<lambda>e. eff_ret False)) (\<lambda>ok.
         if \<not> ok then eff_ret ()
         else eff_bind (eff_read (\<lambda>w. slot_to_fill s (st_slots w) n)) (\<lambda>fill.
           case fill of
             None \<Rightarrow> eff_ret ()
           | Some slot \<Rightarrow> eff_ignore (reregister K N cfg now n s slot))))"

subsection \<open>Quota\<close>

definition static_getProviderLimits :: quota where
  "static_getProviderLimits = quota_init (Some PosInf) (Some PosInf) (Some PosInf) PosInf []"

definition static_quotaNeededByLabel :: quota where
  "static_quotaNeededByLabel = quota_init (Some (Fin 0)) (Some (Fin 1)) (Some (Fin 0)) (Fin 1) []"

text \<open>A \<open>Counter\<close>: the labels of the pools with zero, then every label of a free node counted.\<close>

definition count_label :: "json \<Rightarrow> (json \<times> nat) list \<Rightarrow> (json \<times> nat) list" where
  "count_label l c = AList.update l (Suc (case map_of c l of None \<Rightarrow> 0 | Some k \<Rightarrow> k)) c"

definition static_getLabelQuota :: "'z kazoo \<Rightarrow> static_config \<Rightarrow> rat \<Rightarrow> 'z \<Rightarrow> (json \<times> nat) list res" where
  "static_getLabelQuota K cfg now z =
     (let zero = foldl (\<lambda>c l. AList.update (JStr l) 0 c) [] (concat (map (sp_labels \<circ> snd) (stc_pools cfg)))
      in map_sum id (\<lambda>ns. foldl (\<lambda>c l. count_label l c) zero
             (concat (map n_type (filter (\<lambda>n. o_state n = Some READY \<and> n_allocated_to n = JNull) ns))))
           (nodeIterator K None False False now z))"

end
