(* ===== verification/StaticProps.thy ===== *)
theory StaticProps
  imports StaticDriver
begin

section \<open>No registered node is lost\<close>

text \<open>
  The slots hold every registered node of the provider exactly once, under the tuple of its machine;
  and a deleted node is registered again only when its slot exists and is free.
\<close>

definition nodes_in :: "node option list \<Rightarrow> node multiset" where
  "nodes_in xs = mset (List.map_filter id xs)"

definition slot_nodes :: "node_slots \<Rightarrow> node multiset" where
  "slot_nodes m = sum_list (map (nodes_in \<circ> snd) m)"

lemma nodes_in_simps [simp]:
  "nodes_in [] = {#}" "nodes_in (Some n # xs) = add_mset n (nodes_in xs)" "nodes_in (None # xs) = nodes_in xs"
  "nodes_in (xs @ ys) = nodes_in xs + nodes_in ys"
  by (simp_all add: nodes_in_def List.map_filter_def)

lemma nodes_in_replicate [simp]: "nodes_in (replicate k None) = {#}"
  by (induction k) simp_all

lemma nodes_in_update:
  "j < length xs \<Longrightarrow> xs ! j = None \<Longrightarrow> nodes_in (xs[j := Some n]) = add_mset n (nodes_in xs)"
proof (induction xs arbitrary: j)
  case (Cons x xs)
  then show ?case by (cases j; cases x) auto
qed simp

lemma slot_nodes_update:
  assumes "distinct (map fst m)" and "map_of m t = Some xs"
  shows "slot_nodes (AList.update t ys m) + nodes_in xs = slot_nodes m + nodes_in ys"
  using assms by (induction m) (auto simp: slot_nodes_def split: if_splits)

lemma slot_nodes_new:
  assumes "map_of m t = None"
  shows "slot_nodes (AList.update t [] m) = slot_nodes m"
  using assms by (induction m) (auto simp: slot_nodes_def split: if_splits)

text \<open>The nodes under a tuple have it.\<close>

definition tuples_match :: "node_slots \<Rightarrow> bool" where
  "tuples_match m \<longleftrightarrow> (\<forall>t xs n. (t, xs) \<in> set m \<longrightarrow> Some n \<in> set xs \<longrightarrow> nodeTuple n = t)"

lemma update_mem: "(t, ys) \<in> set (AList.update k v m) \<Longrightarrow> (t, ys) \<in> set m \<or> t = k \<and> ys = v"
  by (induction m) (auto split: if_splits)

lemma tuples_match_update:
  assumes "tuples_match m" and "\<And>n. Some n \<in> set xs \<Longrightarrow> nodeTuple n = t"
  shows "tuples_match (AList.update t xs m)"
  using assms unfolding tuples_match_def by (blast dest: update_mem)

lemma tuples_matchD: "tuples_match m \<Longrightarrow> map_of m t = Some xs \<Longrightarrow> Some n \<in> set xs \<Longrightarrow> nodeTuple n = t"
  unfolding tuples_match_def by (blast dest: map_of_SomeD)

definition slots_inv :: "node_slots \<Rightarrow> bool" where
  "slots_inv m \<longleftrightarrow> distinct (map fst m) \<and> tuples_match m"

lemma empty_slots_inv: "slots_inv (empty_slots cfg) \<and> slot_nodes (empty_slots cfg) = {#}"
proof -
  have "slots_inv (foldl (\<lambda>m s. AList.update (static_tuple s) (replicate (nat (sn_max_parallel_jobs s)) None) m) m ss) \<and>
      slot_nodes (foldl (\<lambda>m s. AList.update (static_tuple s) (replicate (nat (sn_max_parallel_jobs s)) None) m) m ss) = {#}"
    if "slots_inv m" "slot_nodes m = {#}" for m ss
    using that
  proof (induction ss arbitrary: m)
    case (Cons s ss)
    let ?xs = "replicate (nat (sn_max_parallel_jobs s)) None :: node option list"
    have "tuples_match (AList.update (static_tuple s) ?xs m)"
      using Cons.prems(1) by (intro tuples_match_update) (auto simp: slots_inv_def)
    moreover have "slot_nodes (AList.update (static_tuple s) ?xs m) = {#}"
      using Cons.prems(2) by (induction m) (auto simp: slot_nodes_def split: if_splits)
    ultimately show ?case
      unfolding foldl.simps using Cons.prems(1) by (intro Cons.IH) (auto simp: slots_inv_def distinct_update)
  qed simp
  from this [of "[]" "static_nodes cfg"] show ?thesis
    by (simp add: empty_slots_def slots_inv_def tuples_match_def slot_nodes_def)
qed

lemma own_slot_place: "own_slot s xs = Inr (Some j) \<Longrightarrow> j < length xs \<and> xs ! j = None"
  by (auto simp: own_slot_def bindE_eq_Inr dest: py_index_Inr split: if_splits)

text \<open>One round of the first loop, and of the second.\<close>

definition slotted :: "node list \<Rightarrow> node_slots \<times> node list \<Rightarrow> bool" where
  "slotted ns acc \<longleftrightarrow> slots_inv (fst acc) \<and> slot_nodes (fst acc) + mset (snd acc) = mset ns \<and>
     (\<forall>n \<in> set (snd acc). map_of (fst acc) (nodeTuple n) \<noteq> None)"

lemma update_still: "map_of m k \<noteq> None \<Longrightarrow> map_of (AList.update t v m) k \<noteq> None"
  by (simp add: update_conv')

lemma update_there: "map_of (AList.update t v m) t \<noteq> None"
  by (simp add: update_conv')

lemma slot_node_slotted:
  assumes "slot_node n acc = Inr acc'" and "slotted ns acc"
  shows "slotted (ns @ [n]) acc'"
proof -
  obtain m us where acc: "acc = (m, us)" by fastforce
  from assms(2) acc have inv: "distinct (map fst m)" "tuples_match m" and all: "slot_nodes m + mset us = mset ns"
    and us: "\<forall>n \<in> set us. map_of m (nodeTuple n) \<noteq> None" by (auto simp: slotted_def slots_inv_def)
  show ?thesis
  proof (cases "map_of m (nodeTuple n)")
    case None
    with assms(1) acc have acc': "acc' = (AList.update (nodeTuple n) [] m, us @ [n])" by (simp add: slot_node_def)
    have "tuples_match (AList.update (nodeTuple n) [] m)" using inv(2) by (rule tuples_match_update) simp
    moreover have "distinct (map fst (AList.update (nodeTuple n) [] m))" using inv(1) by (rule distinct_update)
    ultimately show ?thesis
      using all us slot_nodes_new [OF None] update_still [of m _ "nodeTuple n" "[]"] update_there [of "nodeTuple n" "[]" m]
      by (auto simp: slotted_def slots_inv_def acc')
  next
    case (Some xs)
    with assms(1) acc obtain place where place: "own_slot (n_slot n) xs = Inr place"
      and acc': "acc' = (case place of Some j \<Rightarrow> (AList.update (nodeTuple n) (xs[j := Some n]) m, us)
                                     | None \<Rightarrow> (m, us @ [n]))"
      by (auto simp: slot_node_def bindE_eq_Inr)
    show ?thesis
    proof (cases place)
      case None
      with acc' Some inv all us show ?thesis by (auto simp: slotted_def slots_inv_def)
    next
      case j: (Some j)
      with own_slot_place place have at: "j < length xs" "xs ! j = None" by blast+
      let ?m = "AList.update (nodeTuple n) (xs[j := Some n]) m"
      have "tuples_match ?m"
        by (rule tuples_match_update [OF inv(2)])
          (use tuples_matchD [OF inv(2) Some] set_update_subset_insert [of xs j "Some n"] in fastforce)
      moreover have "distinct (map fst ?m)" using inv(1) by (rule distinct_update)
      moreover have "slot_nodes ?m = add_mset n (slot_nodes m)"
        using slot_nodes_update [OF inv(1) Some, of "xs[j := Some n]"] by (simp add: nodes_in_update [OF at])
      ultimately show ?thesis
        using all us update_still [of m _ "nodeTuple n" "xs[j := Some n]"]
        by (auto simp: slotted_def slots_inv_def acc' j)
    qed
  qed
qed

lemma foldE_slotted:
  assumes "foldE slot_node ns acc = Inr acc'" and "slotted ks acc"
  shows "slotted (ks @ ns) acc'"
  using assms
proof (induction ns arbitrary: acc ks)
  case (Cons n ns)
  then obtain acc1 where "slot_node n acc = Inr acc1" "foldE slot_node ns acc1 = Inr acc'"
    by (auto simp: bindE_eq_Inr)
  from Cons.IH [OF this(2) slot_node_slotted [OF this(1) Cons.prems(2)]] show ?case by simp
qed simp

lemma place_node_nodes: "nodes_in (place_node n xs) = add_mset n (nodes_in xs)"
  by (auto simp: place_node_def nodes_in_update dest: list_index_Inr split: sum.split)

lemma place_node_mem: "Some k \<in> set (place_node n xs) \<Longrightarrow> k = n \<or> Some k \<in> set xs"
  by (auto simp: place_node_def split: sum.splits dest: subsetD [OF set_update_subset_insert])

lemma place_all:
  assumes "slots_inv m" and "\<forall>n \<in> set us. map_of m (nodeTuple n) \<noteq> None"
  shows "slots_inv (foldl (\<lambda>m n. place_unslotted n m) m us) \<and>
    slot_nodes (foldl (\<lambda>m n. place_unslotted n m) m us) = slot_nodes m + mset us"
  using assms
proof (induction us arbitrary: m)
  case (Cons n us)
  then obtain xs where xs: "map_of m (nodeTuple n) = Some xs" by auto
  let ?m = "AList.update (nodeTuple n) (place_node n xs) m"
  have inv: "distinct (map fst m)" "tuples_match m" using Cons.prems(1) by (auto simp: slots_inv_def)
  have "tuples_match ?m"
    by (rule tuples_match_update [OF inv(2)]) (use tuples_matchD [OF inv(2) xs] place_node_mem in blast)
  moreover have "distinct (map fst ?m)" using inv(1) by (rule distinct_update)
  moreover have "slot_nodes ?m = add_mset n (slot_nodes m)"
    using slot_nodes_update [OF inv(1) xs, of "place_node n xs"] by (simp add: place_node_nodes)
  moreover have "\<forall>k \<in> set us. map_of ?m (nodeTuple k) \<noteq> None"
    using Cons.prems(2) update_still [of m _ "nodeTuple n" "place_node n xs"] by auto
  ultimately show ?case using Cons.IH [of ?m] xs by (simp add: place_unslotted_def slots_inv_def)
qed simp

lemma registered_slots_nodes:
  assumes "registered_slots cfg ns = Inr m"
  shows "slots_inv m \<and> slot_nodes m = mset (filter (counts_as_registered cfg) ns)"
proof -
  let ?ns = "filter (counts_as_registered cfg) ns"
  from assms obtain slots us where f: "foldE slot_node ?ns (empty_slots cfg, []) = Inr (slots, us)"
    and m: "m = foldl (\<lambda>m n. place_unslotted n m) slots us"
    by (auto simp: registered_slots_def bindE_eq_Inr)
  have "slotted [] (empty_slots cfg, [])" using empty_slots_inv [of cfg] by (simp add: slotted_def)
  from foldE_slotted [OF f this] place_all [of slots us] show ?thesis by (auto simp: slotted_def m)
qed

subsection \<open>Registering again\<close>

lemma slot_to_fill_free:
  assumes "slot_to_fill s slots n = Inr (Some i)"
  shows "n_slot n = JNum (of_int i) \<or> n_slot n = JBool (i = 1) \<and> i \<in> {0, 1}"
    and "i < sn_max_parallel_jobs s"
    and "\<exists>xs j. map_of slots (nodeTuple n) = Some xs \<and> py_index i xs = Inr j \<and> xs ! j = None \<and>
      (\<forall>m. Some m \<in> set xs \<longrightarrow> \<not> node_eq m n)"
proof -
  have s: "n_slot n \<noteq> JNull" using assms by (auto simp: slot_to_fill_def)
  from assms s obtain q xs where q: "num_of (n_slot n) = Inr q" "\<not> of_int (sn_max_parallel_jobs s) \<le> q"
    and xs0: "map_of slots (nodeTuple n) = Some xs"
    and rest: "(if list_ex (\<lambda>x. case x of None \<Rightarrow> False | Some m \<Rightarrow> node_eq m n) xs then Inr None
      else bindE (index_of_json (n_slot n)) (\<lambda>i. case py_index i xs of Inl e \<Rightarrow> Inr None
        | Inr j \<Rightarrow> Inr (if xs ! j \<noteq> None then None else Some i))) = Inr (Some i)"
    by (auto simp: slot_to_fill_def bindE_eq_Inr split: option.split_asm if_split_asm)
  from rest obtain i' where i': "index_of_json (n_slot n) = Inr i'"
    and none: "\<not> list_ex (\<lambda>x. case x of None \<Rightarrow> False | Some m \<Rightarrow> node_eq m n) xs"
    and r: "(case py_index i' xs of Inl e \<Rightarrow> Inr None
        | Inr j \<Rightarrow> Inr (if xs ! j \<noteq> None then None else Some i')) = (Inr (Some i) :: int option res)"
    by (auto simp: bindE_eq_Inr split: if_split_asm)
  from r obtain j where "py_index i' xs = Inr j" "xs ! j = None" "i' = i"
    by (cases "py_index i' xs") (auto split: if_split_asm)
  with i' none xs0 have xs: "map_of slots (nodeTuple n) = Some xs" "index_of_json (n_slot n) = Inr i"
    "py_index i xs = Inr j" "xs ! j = None"
    "\<not> list_ex (\<lambda>x. case x of None \<Rightarrow> False | Some m \<Rightarrow> node_eq m n) xs" by simp_all
  from q(1) xs(2) have i: "of_int i = q" by (auto simp: index_of_json_def split: if_splits)
  with q show "n_slot n = JNum (of_int i) \<or> n_slot n = JBool (i = 1) \<and> i \<in> {0, 1}"
    by (cases "n_slot n") (auto split: if_splits)
  from i q(2) show "i < sn_max_parallel_jobs s" by auto
  show "\<exists>xs j. map_of slots (nodeTuple n) = Some xs \<and> py_index i xs = Inr j \<and> xs ! j = None \<and>
      (\<forall>m. Some m \<in> set xs \<longrightarrow> \<not> node_eq m n)"
    using xs by (fastforce simp: list_ex_iff)
qed

lemma node_state_id: "node_state st now n = Inr k \<Longrightarrow> o_id k = o_id n"
  by (auto simp: node_state_def set_state_def split: option.splits if_splits)

lemma set_node_ip_id: "set_node_ip N n = Inr k \<Longrightarrow> o_id k = o_id n"
  by (auto simp: set_node_ip_def bindE_eq_Inr split: json.splits if_splits address_family.splits)
    (metis address_family.exhaust)

lemma static_node_new: "static_node_of N p pool s ks i now = Inr k \<Longrightarrow> o_id k = None"
  by (auto simp: static_node_of_def bindE_eq_Inr node_init_def dest!: node_state_id set_node_ip_id)

lemma node_state_ready: "node_state READY now n = Inr (n\<lparr>o_state := Some READY, o_state_time := JNum now\<rparr>)"
  using state_of_state_str [of READY] by (simp add: node_state_def set_state_def NODE_STATES_def)

lemma storeNode_new:
  assumes "o_id n = None" and "\<And>d. \<exists>r. kz_create_seq K (NODE_ROOT @ ''/'') d z = Inr r"
  shows "\<exists>n' z'. storeNode K now n z = (None, n', z')"
  using assms(2) [of "serialize (node_toDict (n\<lparr>n_created_time := (if truthy (o_state_time n) then o_state_time n else JNum now)\<rparr>))"]
  by (auto simp: storeNode_def Let_def no_id_def assms(1))

lemma reregister_stores:
  assumes "zw_zk (snd (reregister K N cfg now n s slot w)) \<noteq> zw_zk w"
  shows "\<exists>m e m1. n_slot m = JNum (of_int slot) \<and> o_id m = None \<and>
    storeNode K now m (zw_zk w) = (e, m1, zw_zk (snd (reregister K N cfg now n s slot w)))"
proof -
  let ?pool = "bindE (name_of (n_pool n)) (\<lambda>p.
    case map_of (stc_pools cfg) p of None \<Rightarrow> Inl KeyError | Some pool \<Rightarrow> Inr pool)"
  note run = reregister_def registerNodeFromConfig_def eff_bind_def eff_lift_def eff_ret_def
  from assms obtain pool where pool: "?pool = Inr pool" by (cases ?pool) (simp_all add: run)
  from assms pool obtain ks where ks: "checkHost N s = Inr ks" by (cases "checkHost N s") (simp_all add: run)
  from assms pool ks obtain m where m: "static_node_of N (n_provider n) pool s ks slot now = Inr m"
    by (cases "static_node_of N (n_provider n) pool s ks slot now") (simp_all add: run)
  obtain e m1 z where st: "storeNode K now m (zw_zk w) = (e, m1, z)" by (metis prod_cases3)
  with pool ks m have "zw_zk (snd (reregister K N cfg now n s slot w)) = z"
    by (cases e) (simp_all add: run zw_obj_def)
  moreover have "n_slot m = JNum (of_int slot)" using m by (auto simp: static_node_of_def bindE_eq_Inr)
  ultimately show ?thesis using st static_node_new [OF m] by blast
qed

lemma nodeDeleted_changes:
  assumes "zw_zk (snd (nodeDeletedNotification K N cfg now n w)) \<noteq> zw_zk w"
  shows "\<not> st_idle w \<and> (\<exists>s ns slots slot. map_of (poolNodes cfg) (nodeTuple n) = Some s \<and>
    nodeIterator K None False False now (zw_zk w) = Inr ns \<and> registered_slots cfg ns = Inr slots \<and>
    slot_to_fill s slots n = Inr (Some slot) \<and>
    (\<exists>m e m1. n_slot m = JNum (of_int slot) \<and> o_id m = None \<and>
      storeNode K now m (zw_zk w) = (e, m1, zw_zk (snd (nodeDeletedNotification K N cfg now n w)))))"
proof (cases "st_idle w \<or> map_of (poolNodes cfg) (nodeTuple n) = None")
  case True
  with assms show ?thesis
    by (auto simp: nodeDeletedNotification_def eff_bind_def eff_get_def eff_ret_def split: if_splits)
next
  case False
  then obtain s where s: "\<not> st_idle w" "map_of (poolNodes cfg) (nodeTuple n) = Some s" by auto
  note run = nodeDeletedNotification_def getRegisteredNodes_def eff_bind_def eff_get_def eff_ret_def eff_seq_def
    eff_try_def zw_read_def eff_read_def eff_mod_def
  show ?thesis
  proof (cases "bindE (nodeIterator K None False False now (zw_zk w)) (registered_slots cfg)")
    case (Inl e)
    with assms s show ?thesis by (simp add: run)
  next
    case (Inr slots)
    show ?thesis
    proof (cases "slot_to_fill s slots n")
      case (Inl e)
      with assms s Inr show ?thesis by (simp add: run)
    next
      case fill: (Inr x)
      with assms s Inr obtain slot where x: "x = Some slot" by (cases x) (auto simp: run)
      let ?w = "w\<lparr>st_slots := slots\<rparr>"
      have "zw_zk (snd (nodeDeletedNotification K N cfg now n w)) = zw_zk (snd (reregister K N cfg now n s slot ?w))"
        using s Inr fill x by (simp add: run eff_ignore_run)
      moreover have "zw_zk ?w = zw_zk w" by simp
      ultimately have "\<exists>m e m1. n_slot m = JNum (of_int slot) \<and> o_id m = None \<and>
          storeNode K now m (zw_zk w) = (e, m1, zw_zk (snd (nodeDeletedNotification K N cfg now n w)))"
        using reregister_stores [of K N cfg now n s slot ?w] assms by simp
      then obtain m e m1 where "n_slot m = JNum (of_int slot)" "o_id m = None"
        "storeNode K now m (zw_zk w) = (e, m1, zw_zk (snd (nodeDeletedNotification K N cfg now n w)))" by blast
      moreover from Inr obtain ns where "nodeIterator K None False False now (zw_zk w) = Inr ns" "registered_slots cfg ns = Inr slots"
        by (auto simp: bindE_eq_Inr)
      ultimately show ?thesis using s fill x by blast
    qed
  qed
qed

end
