(* ===== verification/Metastatic.thy ===== *)
theory Metastatic
  imports ZkWorld SmProvider Config
begin

section \<open>The metastatic driver\<close>

text \<open>
  \<open>nodepool/driver/metastatic/adapter.py\<close>: end nodes are slots of backing nodes, which other drivers
  launch on request. The adapter's records of backing nodes are objects that its tables and its state
  machines share; they live in a store and are named by numbers. \<open>dumps\<close> and \<open>loads\<close> are the JSON
  text functions (\<open>loads\<close> is \<open>None\<close> when it raises).
\<close>

subsection \<open>Configuration and state\<close>

record ms_label =
  ml_name :: string
  ml_backing_label :: string
  ml_max_parallel_jobs :: int
  ml_grace_time :: rat
  ml_min_retention_time :: rat
  ml_max_age :: "rat option"

record ms_config =
  mc_name :: string
  mc_pools :: "(string \<times> ms_label) list list"   \<comment> \<open>the labels of each pool\<close>
  mc_label_of :: "label_config \<Rightarrow> ms_label"      \<comment> \<open>the driver's label object\<close>
  mc_dumps :: "pydict \<Rightarrow> string"
  mc_loads :: "json \<Rightarrow> json option"

fun find_label :: "(string \<times> ms_label) list list \<Rightarrow> string \<Rightarrow> ms_label option" where
  "find_label [] name = None"
| "find_label (p # ps) name = (case map_of p name of Some l \<Rightarrow> Some l | None \<Rightarrow> find_label ps name)"

definition my_id :: "ms_config \<Rightarrow> string" where
  "my_id cfg = ''NodePool:metastatic:'' @ mc_name cfg"

record backing_node =
  bn_label_name :: string
  bn_slot_count :: json
  bn_node_id :: "string option"
  bn_request_id :: "string option"
  bn_allocated :: "string option list"
  bn_failed :: json
  bn_launched :: json
  bn_last_used :: rat

definition backing_node_init :: "string \<Rightarrow> json \<Rightarrow> rat \<Rightarrow> backing_node res" where
  "backing_node_init label_name slot_count now =
     bindE (index_of_json slot_count) (\<lambda>n.
       Inr \<lparr> bn_label_name = label_name, bn_slot_count = slot_count, bn_node_id = None,
             bn_request_id = None, bn_allocated = replicate (nat n) None,
             bn_failed = JBool False, bn_launched = JNum now, bn_last_used = now \<rparr>)"

definition hasAvailableSlot :: "backing_node \<Rightarrow> bool" where
  "hasAvailableSlot b = (if truthy (bn_failed b) then False else None \<in> set (bn_allocated b))"

definition isEmpty :: "backing_node \<Rightarrow> bool" where
  "isEmpty b = list_all (\<lambda>x. x = None \<or> x = Some []) (bn_allocated b)"

text \<open>The slot is the one asked for, or the first free one.\<close>

definition allocateSlot :: "string \<Rightarrow> json \<Rightarrow> backing_node \<Rightarrow> (int \<times> backing_node) res" where
  "allocateSlot node_id slot_id b =
     bindE (if slot_id = JNull then map_sum id int (list_index None (bn_allocated b))
            else index_of_json slot_id) (\<lambda>idx.
     bindE (py_index idx (bn_allocated b)) (\<lambda>i.
       if bn_allocated b ! i \<noteq> None then Inl GenericException
       else Inr (idx, b\<lparr>bn_allocated := (bn_allocated b)[i := Some node_id]\<rparr>)))"

definition deallocateSlot :: "string \<Rightarrow> rat \<Rightarrow> backing_node \<Rightarrow> (nat \<times> backing_node) res" where
  "deallocateSlot node_id now b =
     bindE (list_index (Some node_id) (bn_allocated b)) (\<lambda>i.
       Inr (i, b\<lparr>bn_allocated := (bn_allocated b)[i := None], bn_last_used := now\<rparr>))"

definition backsNode :: "string \<Rightarrow> backing_node \<Rightarrow> bool" where
  "backsNode node_id b = (Some node_id \<in> set (bn_allocated b))"

record ms_adapter =
  ma_store :: "nat \<Rightarrow> backing_node"
  ma_next :: nat
  ma_records :: "(string \<times> nat list) list"     \<comment> \<open>\<open>backing_node_records\<close>\<close>
  ma_init :: bool                               \<comment> \<open>\<open>performed_init\<close>\<close>

record 'z ms_world = "'z zk_world" +
  mw_ad :: ms_adapter

type_synonym ('z, 'a) ms_eff = "('z ms_world, 'a) eff"

definition upd_ad :: "(ms_adapter \<Rightarrow> ms_adapter) \<Rightarrow> ('z, unit) ms_eff" where
  "upd_ad f = eff_mod (\<lambda>w. w\<lparr>mw_ad := f (mw_ad w)\<rparr>)"

definition get_bnr :: "nat \<Rightarrow> ('z, backing_node) ms_eff" where
  "get_bnr i = eff_get (\<lambda>w. ma_store (mw_ad w) i)"

definition put_bnr :: "nat \<Rightarrow> backing_node \<Rightarrow> ('z, unit) ms_eff" where
  "put_bnr i b = upd_ad (\<lambda>a. a\<lparr>ma_store := (ma_store a)(i := b)\<rparr>)"

text \<open>A new record, in the list of its label.\<close>

definition addBackingNode :: "string \<Rightarrow> backing_node \<Rightarrow> ms_adapter \<Rightarrow> ms_adapter" where
  "addBackingNode label b a =
     a\<lparr> ma_store := (ma_store a)(ma_next a := b), ma_next := Suc (ma_next a),
        ma_records := (case map_of (ma_records a) label of
             None \<Rightarrow> ma_records a @ [(label, [ma_next a])]
           | Some is \<Rightarrow> AList.update label (is @ [ma_next a]) (ma_records a)) \<rparr>"

definition all_records :: "ms_adapter \<Rightarrow> nat list" where
  "all_records a = concat (map snd (ma_records a))"

definition drop_record :: "nat \<Rightarrow> ms_adapter \<Rightarrow> ms_adapter" where
  "drop_record i a = a\<lparr>ma_records := map (\<lambda>(l, is). (l, remove1 i is)) (ma_records a)\<rparr>"

definition makeBackingNodeUserData :: "ms_config \<Rightarrow> backing_node \<Rightarrow> json" where
  "makeBackingNodeUserData cfg b =
     JStr (mc_dumps cfg [(''owner'', JStr (my_id cfg)), (''label'', JStr (bn_label_name b)),
       (''slots'', bn_slot_count b), (''failed'', bn_failed b), (''launched'', bn_launched b)])"

subsection \<open>Recovery of the records from ZooKeeper\<close>

text \<open>
  \<open>'owner' not in user_data\<close> and \<open>user_data['owner']\<close>, for any value the text of a node's user data may
  denote: the first raises for what has no members, the second for what is not a dictionary.
\<close>

fun owner_of :: "json \<Rightarrow> json option res" where
  "owner_of (JDict d) = Inr (if dhas d ''owner'' then Some (dget d ''owner'') else None)"
| "owner_of (JList xs) = (if JStr ''owner'' \<in> set xs then Inl TypeError else Inr None)"
| "owner_of (JStr s) = (if list_ex (\<lambda>k. startswith (drop k s) ''owner'') [0..<Suc (length s)]
                        then Inl TypeError else Inr None)"
| "owner_of v = Inl TypeError"

definition key_err :: "pydict \<Rightarrow> string \<Rightarrow> json res" where
  "key_err d k = (case map_of d k of None \<Rightarrow> Inl KeyError | Some v \<Rightarrow> Inr v)"

definition record_of :: "node \<Rightarrow> pydict \<Rightarrow> rat \<Rightarrow> backing_node res" where
  "record_of n d now =
     bindE (key_err d ''label'') (\<lambda>label.
     bindE (key_err d ''slots'') (\<lambda>slots.
     bindE (name_of label) (\<lambda>l.
     bindE (backing_node_init l slots now) (\<lambda>b.
       Inr (b\<lparr> bn_node_id := o_id n, bn_failed := dget_or d ''failed'' (JBool False),
               bn_launched := dget_or d ''launched'' (JNum 0) \<rparr>)))))"

text \<open>The first loop: a node whose data names us and whose lock we hold. The map is from node ids.\<close>

definition find_backing ::
  "'z locks \<Rightarrow> ms_config \<Rightarrow> rat \<Rightarrow> node \<Rightarrow> (string \<times> nat) list \<Rightarrow> ('z, (string \<times> nat) list) ms_eff" where
  "find_backing L cfg now n backing =
     (case mc_loads cfg (n_user_data n) of
        None \<Rightarrow> eff_ret backing
      | Some user_data \<Rightarrow>
          eff_bind (eff_lift (owner_of user_data)) (\<lambda>owner.
          if owner \<noteq> Some (JStr (my_id cfg)) then eff_ret backing
          else eff_bind (zw_read (getNodeLockContenders L n)) (\<lambda>contenders.
            case contenders of
              [] \<Rightarrow> eff_ret backing
            | c # cs \<Rightarrow>
                if c \<noteq> my_id cfg then eff_ret backing
                else eff_bind (eff_lift (bindE (dict_of user_data) (\<lambda>d. record_of n d now))) (\<lambda>b.
                     eff_bind (eff_get (\<lambda>w. ma_next (mw_ad w))) (\<lambda>i.
                     eff_seq (upd_ad (addBackingNode (bn_label_name b) b))
                       (eff_ret (AList.update (str_id (o_id n)) i backing)))))))"

text \<open>The second loop: the nodes of this provider take their slots again.\<close>

definition assign_node :: "ms_config \<Rightarrow> (string \<times> nat) list \<Rightarrow> node \<Rightarrow> ('z, unit) ms_eff" where
  "assign_node cfg backing n =
     (if n_provider n \<noteq> JStr (mc_name cfg) \<or> \<not> truthy (n_driver_data n) then eff_ret ()
      else case n_driver_data n of
        JDict d \<Rightarrow>
          (case dget d ''backing_node'' of
             JStr bn \<Rightarrow>
               (case (if bn = [] then None else map_of backing bn) of
                  None \<Rightarrow> eff_ret ()
                | Some i \<Rightarrow>
                    eff_bind (get_bnr i) (\<lambda>b.
                    eff_bind (eff_lift (allocateSlot (str_id (o_id n)) (dget d ''slot'') b)) (\<lambda>(idx, b1).
                      put_bnr i b1)))
           | JList xs \<Rightarrow> if xs = [] then eff_ret () else eff_raise TypeError
           | JDict e \<Rightarrow> if e = [] then eff_ret () else eff_raise TypeError
           | v \<Rightarrow> eff_ret ())
      | v \<Rightarrow> eff_raise AttributeError)"

definition init_inner :: "'z kazoo \<Rightarrow> 'z locks \<Rightarrow> ms_config \<Rightarrow> rat \<Rightarrow> ('z, unit) ms_eff" where
  "init_inner K L cfg now =
     eff_bind (zw_read (nodeIterator K None False False now)) (\<lambda>nodes.
     eff_bind (eff_fold (find_backing L cfg now) nodes []) (\<lambda>backing.
     eff_bind (zw_read (nodeIterator K None False False now)) (\<lambda>nodes2.
     eff_seq (eff_each (assign_node cfg backing) nodes2)
       (upd_ad (\<lambda>a. a\<lparr>ma_init := True\<rparr>)))))"

definition ms_init :: "'z kazoo \<Rightarrow> 'z locks \<Rightarrow> ms_config \<Rightarrow> rat \<Rightarrow> ('z, unit) ms_eff" where
  "ms_init K L cfg now =
     eff_bind (eff_get (\<lambda>w. ma_init (mw_ad w))) (\<lambda>done.
       if done then eff_ret () else init_inner K L cfg now)"

subsection \<open>Allocation\<close>

fun deallocate_first :: "string \<Rightarrow> rat \<Rightarrow> nat list \<Rightarrow> ('z, unit) ms_eff" where
  "deallocate_first node_id now [] = eff_ret ()"
| "deallocate_first node_id now (i # is) =
     eff_bind (get_bnr i) (\<lambda>b.
       if backsNode node_id b
       then eff_bind (eff_lift (deallocateSlot node_id now b)) (\<lambda>(slot, b1). put_bnr i b1)
       else deallocate_first node_id now is)"

definition deallocateInner :: "string \<Rightarrow> rat \<Rightarrow> ('z, unit) ms_eff" where
  "deallocateInner node_id now =
     eff_bind (eff_get (\<lambda>w. all_records (mw_ad w))) (deallocate_first node_id now)"

definition deallocateBackingNode ::
  "'z kazoo \<Rightarrow> 'z locks \<Rightarrow> ms_config \<Rightarrow> string \<Rightarrow> rat \<Rightarrow> ('z, unit) ms_eff" where
  "deallocateBackingNode K L cfg node_id now =
     eff_seq (ms_init K L cfg now) (deallocateInner node_id now)"

definition new_backing_request :: "ms_config \<Rightarrow> ms_label \<Rightarrow> rat \<Rightarrow> node_request res" where
  "new_backing_request cfg l now =
     map_sum id (\<lambda>r. r\<lparr>r_requestor := JStr (my_id cfg)\<rparr>)
       (set_state NODE_REQUEST_STATES (JStr (state_str REQUESTED)) now
          ((node_request_init None)\<lparr>r_node_types := JList [JStr (ml_backing_label l)]\<rparr>))"

text \<open>A record for a new request; its number.\<close>

definition request_backing ::
  "'z kazoo \<Rightarrow> ms_config \<Rightarrow> ms_label \<Rightarrow> string \<Rightarrow> rat \<Rightarrow> ('z, nat) ms_eff" where
  "request_backing K cfg l uuid now =
     eff_bind (eff_lift (new_backing_request cfg l now)) (\<lambda>r.
     eff_bind (zw_obj (\<lambda>r z. storeNodeRequest K r ''100'' uuid now z) r) (\<lambda>r1.
     eff_bind (eff_lift (backing_node_init (ml_name l) (JNum (of_int (ml_max_parallel_jobs l))) now)) (\<lambda>b.
     eff_bind (eff_get (\<lambda>w. ma_next (mw_ad w))) (\<lambda>i.
     eff_seq (upd_ad (addBackingNode (ml_name l) (b\<lparr>bn_request_id := o_id r1\<rparr>)))
       (eff_ret i)))))"

definition allocateBackingNode ::
  "'z kazoo \<Rightarrow> 'z locks \<Rightarrow> ms_config \<Rightarrow> ms_label \<Rightarrow> string \<Rightarrow> string \<Rightarrow> rat \<Rightarrow> ('z, nat \<times> int) ms_eff" where
  "allocateBackingNode K L cfg l node_id uuid now =
     eff_seq (ms_init K L cfg now)
     (eff_seq (deallocateInner node_id now)
     (eff_bind (eff_get (\<lambda>w. case map_of (ma_records (mw_ad w)) (ml_name l) of
                   None \<Rightarrow> None
                 | Some is \<Rightarrow> find (\<lambda>i. hasAvailableSlot (ma_store (mw_ad w) i)) is)) (\<lambda>found.
      eff_bind (case found of Some i \<Rightarrow> eff_ret i | None \<Rightarrow> request_backing K cfg l uuid now) (\<lambda>i.
      eff_bind (get_bnr i) (\<lambda>b.
      eff_bind (eff_lift (allocateSlot node_id JNull b)) (\<lambda>(slot, b1).
        eff_seq (put_bnr i b1) (eff_ret (i, slot))))))))"

subsection \<open>The requests for backing nodes\<close>

definition waiting_requests :: "ms_adapter \<Rightarrow> (string \<times> nat) list" where
  "waiting_requests a =
     foldl (\<lambda>m i. case bn_request_id (ma_store a i) of
                    None \<Rightarrow> m
                  | Some r \<Rightarrow> if r = [] then m else AList.update r i m) [] (all_records a)"

definition fail_record :: "string \<Rightarrow> nat \<Rightarrow> ms_adapter \<Rightarrow> ms_adapter" where
  "fail_record request_id i a =
     (if bn_request_id (ma_store a i) = Some request_id
      then drop_record i (a\<lparr>ma_store := (ma_store a)(i := (ma_store a i)\<lparr>bn_failed := JBool True\<rparr>)\<rparr>)
      else a)"

definition set_backing :: "nat \<Rightarrow> string \<Rightarrow> ('z, unit) ms_eff" where
  "set_backing i node_id =
     eff_bind (get_bnr i) (\<lambda>b. put_bnr i (b\<lparr>bn_request_id := None, bn_node_id := Some node_id\<rparr>))"

text \<open>A fulfilled request: its node is locked for good and marked as ours, and the request deleted.\<close>

definition take_backing ::
  "'z kazoo \<Rightarrow> 'z locks \<Rightarrow> ms_config \<Rightarrow> bool \<Rightarrow> rat \<Rightarrow> node_request \<Rightarrow> nat \<Rightarrow> ('z, unit) ms_eff" where
  "take_backing K L cfg freed now r i =
     eff_bind (eff_lift (case r_nodes r of
                  JList [] \<Rightarrow> Inl IndexError | JList (n # ns) \<Rightarrow> name_of n | v \<Rightarrow> Inl TypeError)) (\<lambda>node_id.
     eff_bind (zw_read (getNode K None node_id False False now)) (\<lambda>found.
     case found of
       None \<Rightarrow> eff_raise AttributeError
     | Some n \<Rightarrow>
         eff_bind (zw_obj (\<lambda>n z. lockNode K L n True (Some 30) False (Some (my_id cfg)) freed now z) n) (\<lambda>n1.
         eff_bind (get_bnr i) (\<lambda>b.
         eff_bind (eff_lift (node_state IN_USE now (n1\<lparr>n_user_data := makeBackingNodeUserData cfg b\<rparr>))) (\<lambda>n2.
         eff_bind (zw_obj (storeNode K now) n2) (\<lambda>n3.
         eff_seq (zw_write (deleteNodeRequest K r))
           (set_backing i node_id)))))))"

definition check_request ::
  "'z kazoo \<Rightarrow> 'z locks \<Rightarrow> ms_config \<Rightarrow> bool \<Rightarrow> rat \<Rightarrow> (string \<times> nat) list \<Rightarrow> node_request \<Rightarrow> ('z, unit) ms_eff" where
  "check_request K L cfg freed now pending r =
     (case map_of pending (str_id (o_id r)) of
        None \<Rightarrow> eff_ret ()
      | Some i \<Rightarrow>
          eff_seq
            (eff_when (o_state r = Some FAILED)
               (upd_ad (\<lambda>a. fold (fail_record (str_id (o_id r))) (all_records a) a)))
            (eff_when (o_state r = Some FULFILLED) (take_backing K L cfg freed now r i)))"

definition checkBackingNodeRequests ::
  "'z kazoo \<Rightarrow> 'z locks \<Rightarrow> ms_config \<Rightarrow> bool \<Rightarrow> rat \<Rightarrow> ('z, unit) ms_eff" where
  "checkBackingNodeRequests K L cfg freed now =
     eff_seq (ms_init K L cfg now)
     (eff_bind (eff_get (\<lambda>w. waiting_requests (mw_ad w))) (\<lambda>pending.
      if pending = [] then eff_ret ()
      else eff_bind (zw_read (nodeRequestIterator K None False False now))
             (eff_each (check_request K L cfg freed now pending))))"

subsection \<open>Releasing backing nodes\<close>

definition too_old :: "ms_label option \<Rightarrow> rat \<Rightarrow> backing_node \<Rightarrow> bool res" where
  "too_old ml now b =
     (case Option.bind ml ml_max_age of
        None \<Rightarrow> Inr False
      | Some age \<Rightarrow> if age = 0 then Inr False
                    else map_sum id (\<lambda>t. now - t > age) (num_of (bn_launched b)))"

definition idle_times :: "ms_label option \<Rightarrow> backing_node \<Rightarrow> rat \<times> rat" where
  "idle_times ml b =
     (case ml of
        None \<Rightarrow> (0, 0)
      | Some l \<Rightarrow> if truthy (bn_failed b) then (0, 0) else (ml_grace_time l, ml_min_retention_time l))"

definition releasable :: "rat \<times> rat \<Rightarrow> rat \<Rightarrow> backing_node \<Rightarrow> bool res" where
  "releasable limits now b =
     (if isEmpty b \<and> now - bn_last_used b > fst limits
      then map_sum id (\<lambda>t. now - t > snd limits) (num_of (bn_launched b)) else Inr False)"

definition release_record :: "'z kazoo \<Rightarrow> rat \<Rightarrow> nat \<Rightarrow> backing_node \<Rightarrow> ('z, unit) ms_eff" where
  "release_record K now i b =
     eff_seq (put_bnr i (b\<lparr>bn_failed := JBool True\<rparr>))
     (eff_bind (zw_read (getNode K None (str_id (bn_node_id b)) False False now)) (\<lambda>found.
      eff_seq (case found of
                 None \<Rightarrow> eff_ret ()
               | Some n \<Rightarrow>
                   eff_bind (eff_lift (node_state USED now n)) (\<lambda>n1.
                   eff_bind (zw_obj (storeNode K now) n1) (\<lambda>n2. zw_write (forceUnlockNode K n2))))
        (upd_ad (drop_record i))))"

definition check_record :: "'z kazoo \<Rightarrow> ms_config \<Rightarrow> rat \<Rightarrow> nat \<Rightarrow> ('z, unit) ms_eff" where
  "check_record K cfg now i =
     eff_bind (get_bnr i) (\<lambda>b.
     let ml = find_label (mc_pools cfg) (bn_label_name b) in
     eff_bind (eff_lift (too_old ml now b)) (\<lambda>old.
     let b1 = (if old then b\<lparr>bn_failed := JBool True\<rparr> else b) in
     eff_seq (put_bnr i b1)
     (eff_bind (eff_lift (releasable (idle_times ml b1) now b1)) (\<lambda>release.
        eff_when release (release_record K now i b1)))))"

definition ms_listResources :: "'z kazoo \<Rightarrow> 'z locks \<Rightarrow> ms_config \<Rightarrow> rat \<Rightarrow> ('z, unit) ms_eff" where
  "ms_listResources K L cfg now =
     eff_seq (ms_init K L cfg now)
     (eff_bind (eff_get (\<lambda>w. all_records (mw_ad w))) (eff_each (check_record K cfg now)))"

definition fail_backing :: "'z kazoo \<Rightarrow> ms_config \<Rightarrow> rat \<Rightarrow> nat \<Rightarrow> ('z, unit) ms_eff" where
  "fail_backing K cfg now i =
     eff_bind (get_bnr i) (\<lambda>b.
     let b1 = b\<lparr>bn_failed := JBool True\<rparr> in
     eff_seq (put_bnr i b1)
     (eff_bind (zw_read (getNode K None (str_id (bn_node_id b)) False False now)) (\<lambda>found.
      case found of
        None \<Rightarrow> eff_raise AttributeError
      | Some n \<Rightarrow> eff_bind (zw_obj (storeNode K now) (n\<lparr>n_user_data := makeBackingNodeUserData cfg b1\<rparr>))
                    (\<lambda>n1. eff_ret ()))))"

definition ms_notifyNodescanFailure :: "'z kazoo \<Rightarrow> ms_config \<Rightarrow> ms_label \<Rightarrow> string \<Rightarrow> rat \<Rightarrow> ('z, unit) ms_eff" where
  "ms_notifyNodescanFailure K cfg l external_id now =
     eff_bind (eff_get (\<lambda>w.
         case map_of (ma_records (mw_ad w)) (ml_name l) of
           None \<Rightarrow> None
         | Some is \<Rightarrow> find (\<lambda>i. backsNode external_id (ma_store (mw_ad w) i)) is)) (\<lambda>found.
       case found of None \<Rightarrow> eff_ret () | Some i \<Rightarrow> fail_backing K cfg now i)"

subsection \<open>The state machines\<close>

definition MS_REQUESTING :: string where "MS_REQUESTING = ''requesting backing node''"
definition MS_COMPLETE :: string where "MS_COMPLETE = ''complete''"

record ms_create =
  mr_label :: ms_label
  mr_metadata :: "(string \<times> string) list"
  mr_node_id :: string
  mr_record :: nat              \<comment> \<open>\<open>backing_node_record\<close>, set by the first step\<close>
  mr_slot :: int

definition ms_getCreateStateMachine ::
  "ms_config \<Rightarrow> create_args \<Rightarrow> rat \<Rightarrow> ms_create state_machine res" where
  "ms_getCreateStateMachine cfg c clk =
     (case map_of (ca_metadata c) ''nodepool_node_id'' of
        None \<Rightarrow> Inl KeyError
      | Some i \<Rightarrow> Inr (sm_init clk \<lparr> mr_label = mc_label_of cfg (ca_label c), mr_metadata = ca_metadata c,
                                   mr_node_id = i, mr_record = 0, mr_slot = 0 \<rparr>))"

definition ms_instance ::
  "node option \<Rightarrow> int \<Rightarrow> node \<Rightarrow> (string \<times> string) list \<Rightarrow> cloud_instance" where
  "ms_instance backing_node slot n metadata =
     (let i = (case backing_node of
                 None \<Rightarrow> instance_init
               | Some b \<Rightarrow> instance_init\<lparr> in_interface_ip := n_interface_ip b, in_public_ipv4 := n_public_ipv4 b,
                     in_public_ipv6 := n_public_ipv6 b, in_private_ipv4 := n_private_ipv4 b, in_az := n_az b,
                     in_region := n_region b, in_cloud := n_cloud b, in_username := Some (n_username b),
                     in_python_path := Some (n_python_path b), in_shell_type := Some (n_shell_type b),
                     in_connection_port := Some (n_connection_port b),
                     in_connection_type := Some (n_connection_type b),
                     in_host_keys := Some (n_host_keys b), in_node_attributes := Some (n_attributes b) \<rparr>)
      in i\<lparr> in_metadata := metadata,
            in_driver_data := JDict [(''metadata'', JDict (map (\<lambda>(k, v). (k, JStr v)) metadata)),
              (''backing_node'', case backing_node of None \<Rightarrow> JNull | Some b \<Rightarrow> JStr (str_id (o_id b))),
              (''slot'', JNum (of_int slot)), (''node'', JStr (str_id (o_id n)))],
            in_external_id := JStr (str_id (o_id n)), in_slot := JNum (of_int slot),
            in_quota := Inr (quota_init None (Some (Fin 1)) None (Fin 0) []) \<rparr>)"

text \<open>A step of \<open>advance\<close>: the result, the machine and the state as they are then.\<close>

type_synonym ('z, 'a) ms_step = "ms_create state_machine \<Rightarrow> 'z ms_world \<Rightarrow> 'a res \<times> ms_create state_machine \<times> 'z ms_world"

definition ms_start_step ::
  "'z kazoo \<Rightarrow> 'z locks \<Rightarrow> ms_config \<Rightarrow> string \<Rightarrow> rat \<Rightarrow> ('z, unit) ms_step" where
  "ms_start_step K L cfg uuid now m w =
     (if sm_state m \<noteq> SM_START then (Inr (), m, w)
      else case allocateBackingNode K L cfg (mr_label (sm_more m)) (mr_node_id (sm_more m)) uuid now w of
        (Inl e, w1) \<Rightarrow> (Inl e, m, w1)
      | (Inr (i, slot), w1) \<Rightarrow>
          (Inr (),
           m\<lparr> sm_more := (sm_more m)\<lparr> mr_record := i, mr_slot := slot \<rparr>,
              sm_state := (if bn_node_id (ma_store (mw_ad w1) i) = None then MS_REQUESTING else MS_COMPLETE),
              sm_external_id := JStr (mr_node_id (sm_more m)) \<rparr>, w1))"

text \<open>False when the backing node is still to come.\<close>

definition ms_request_step ::
  "'z kazoo \<Rightarrow> 'z locks \<Rightarrow> ms_config \<Rightarrow> bool \<Rightarrow> rat \<Rightarrow> ('z, bool) ms_step" where
  "ms_request_step K L cfg freed now m w =
     (if sm_state m \<noteq> MS_REQUESTING then (Inr True, m, w)
      else case checkBackingNodeRequests K L cfg freed now w of
        (Inl e, w1) \<Rightarrow> (Inl e, m, w1)
      | (Inr u, w1) \<Rightarrow>
          let b = ma_store (mw_ad w1) (mr_record (sm_more m)) in
          if truthy (bn_failed b) then (Inl GenericException, m, w1)
          else if bn_node_id b = None then (Inr False, m, w1)
          else (Inr True, m\<lparr>sm_state := MS_COMPLETE\<rparr>, w1))"

definition ms_complete_step :: "'z kazoo \<Rightarrow> rat \<Rightarrow> ('z, cloud_instance option) ms_step" where
  "ms_complete_step K now m w =
     (if sm_state m \<noteq> MS_COMPLETE then (Inr None, m, w)
      else case getNode K None (str_id (bn_node_id (ma_store (mw_ad w) (mr_record (sm_more m))))) False False now (zw_zk w) of
        Inl e \<Rightarrow> (Inl e, m, w)
      | Inr backing \<Rightarrow>
          (case getNode K None (mr_node_id (sm_more m)) False False now (zw_zk w) of
             Inl e \<Rightarrow> (Inl e, m, w)
           | Inr None \<Rightarrow> (Inl AttributeError, m, w)
           | Inr (Some n) \<Rightarrow>
               (Inr (Some (ms_instance backing (mr_slot (sm_more m)) n (mr_metadata (sm_more m)))),
                m\<lparr>sm_complete := True\<rparr>, w)))"

definition ms_create_advance ::
  "'z kazoo \<Rightarrow> 'z locks \<Rightarrow> ms_config \<Rightarrow> string \<Rightarrow> bool \<Rightarrow> rat \<Rightarrow> ('z, cloud_instance option) ms_step" where
  "ms_create_advance K L cfg uuid freed now m w =
     (case ms_start_step K L cfg uuid now m w of
        (Inl e, m1, w1) \<Rightarrow> (Inl e, m1, w1)
      | (Inr u, m1, w1) \<Rightarrow>
          (case ms_request_step K L cfg freed now m1 w1 of
             (Inl e, m2, w2) \<Rightarrow> (Inl e, m2, w2)
           | (Inr go, m2, w2) \<Rightarrow> if go then ms_complete_step K now m2 w2 else (Inr None, m2, w2)))"

text \<open>The deletion of an end node: its slot is free, and the machine is complete at once.\<close>

definition ms_delete_advance ::
  "'z kazoo \<Rightarrow> 'z locks \<Rightarrow> ms_config \<Rightarrow> rat \<Rightarrow> string state_machine \<Rightarrow> 'z ms_world \<Rightarrow>
     unit res \<times> string state_machine \<times> 'z ms_world" where
  "ms_delete_advance K L cfg now m w =
     (case (if sm_state m = SM_START
            then (case deallocateBackingNode K L cfg (sm_more m) now w of
                    (Inl e, w1) \<Rightarrow> (Inl e, m, w1)
                  | (Inr u, w1) \<Rightarrow> (Inr (), m\<lparr>sm_state := MS_COMPLETE\<rparr>, w1))
            else (Inr (), m, w)) of
        (Inl e, m1, w1) \<Rightarrow> (Inl e, m1, w1)
      | (Inr u, m1, w1) \<Rightarrow>
          (Inr (), if sm_state m1 = MS_COMPLETE then m1\<lparr>sm_complete := True\<rparr> else m1, w1))"

definition ms_listInstances :: "'z kazoo \<Rightarrow> 'z locks \<Rightarrow> ms_config \<Rightarrow> rat \<Rightarrow> ('z, cloud_instance list) ms_eff" where
  "ms_listInstances K L cfg now = eff_seq (ms_init K L cfg now) (eff_ret [])"

definition ms_getQuotaLimits :: quota where
  "ms_getQuotaLimits = quota_init None None None PosInf []"

definition ms_getQuotaForLabel :: quota where
  "ms_getQuotaForLabel = quota_init None (Some (Fin 1)) None (Fin 0) []"

end
