(* ===== verification/MetastaticProps.thy ===== *)
theory MetastaticProps
  imports Metastatic
begin

section \<open>How many slots an end node has\<close>

text \<open>
  The invariant of the metastatic driver's records: no record is listed twice, and an end node is in
  at most as many slots of all backing nodes together as recoveries from ZooKeeper were begun (a
  recovery that raises leaves its records behind, and the next one adds its own). Every operation
  keeps it, whether it raises or not.
\<close>

definition alloc_count :: "backing_node \<Rightarrow> string \<Rightarrow> nat" where
  "alloc_count b n = count (mset (bn_allocated b)) (Some n)"

definition uses :: "ms_adapter \<Rightarrow> string \<Rightarrow> nat" where
  "uses a n = (\<Sum>i \<in> set (all_records a). alloc_count (ma_store a i) n)"

definition records_ok :: "ms_adapter \<Rightarrow> bool" where
  "records_ok a \<longleftrightarrow> distinct (map fst (ma_records a)) \<and> distinct (all_records a) \<and>
     (\<forall>i \<in> set (all_records a). i < ma_next a)"

definition slots_ok :: "nat \<Rightarrow> ms_adapter \<Rightarrow> bool" where
  "slots_ok tries a \<longleftrightarrow> records_ok a \<and> (\<forall>n. uses a n \<le> tries)"

subsection \<open>Counting\<close>

lemma alloc_count_update:
  assumes "i < length (bn_allocated b)"
  shows "alloc_count (b\<lparr>bn_allocated := (bn_allocated b)[i := x]\<rparr>) n + (if bn_allocated b ! i = Some n then 1 else 0) =
    alloc_count b n + (if x = Some n then 1 else 0)"
proof -
  have "bn_allocated b ! i \<in># mset (bn_allocated b)" using assms by simp
  then have "0 < count (mset (bn_allocated b)) (bn_allocated b ! i)" by (simp only: count_greater_zero_iff)
  then have "bn_allocated b ! i = Some n \<Longrightarrow> Suc (alloc_count b n - Suc 0) = alloc_count b n"
    by (simp add: alloc_count_def)
  then show ?thesis using assms by (auto simp: alloc_count_def mset_update)
qed

lemma alloc_count_pos: "Some n \<in> set (bn_allocated b) \<longleftrightarrow> 0 < alloc_count b n"
  by (simp add: alloc_count_def)

lemma alloc_count_same: "bn_allocated b = bn_allocated c \<Longrightarrow> alloc_count b = alloc_count c"
  by (simp add: alloc_count_def fun_eq_iff)

lemma store_simps [simp]:
  "all_records (a\<lparr>ma_store := s\<rparr>) = all_records a" "all_records (a\<lparr>ma_init := b\<rparr>) = all_records a"
  by (simp_all add: all_records_def)

lemma records_ok_store [simp]: "records_ok (a\<lparr>ma_store := s\<rparr>) = records_ok a"
  "records_ok (a\<lparr>ma_init := b\<rparr>) = records_ok a"
  by (simp_all add: records_ok_def)

lemma uses_put:
  assumes "i \<in> set (all_records a)"
  shows "uses (a\<lparr>ma_store := (ma_store a)(i := b)\<rparr>) n + alloc_count (ma_store a i) n = uses a n + alloc_count b n"
proof -
  have "(\<Sum>j \<in> set (all_records a) - {i}. alloc_count (if j = i then b else ma_store a j) n) =
      (\<Sum>j \<in> set (all_records a) - {i}. alloc_count (ma_store a j) n)"
    by (rule sum.cong) auto
  with assms show ?thesis by (simp add: uses_def sum.remove [of "set (all_records a)" i])
qed

lemma uses_put_same:
  assumes "bn_allocated b = bn_allocated (ma_store a i)"
  shows "uses (a\<lparr>ma_store := (ma_store a)(i := b)\<rparr>) n = uses a n"
  unfolding uses_def store_simps
  by (rule sum.cong) (simp_all add: alloc_count_same [OF assms])

lemma slots_ok_put_same:
  "slots_ok tries a \<Longrightarrow> bn_allocated b = bn_allocated (ma_store a i) \<Longrightarrow> slots_ok tries (a\<lparr>ma_store := (ma_store a)(i := b)\<rparr>)"
  by (simp add: slots_ok_def uses_put_same)

lemma remove1_concat: "distinct (concat (map snd rs)) \<Longrightarrow>
    set (concat (map snd (map (\<lambda>(l, is). (l, remove1 i is)) rs))) = set (concat (map snd rs)) - {i} \<and>
    distinct (concat (map snd (map (\<lambda>(l, is). (l, remove1 i is)) rs)))"
  for i :: nat and rs :: "(string \<times> nat list) list"
proof (induction rs)
  case (Cons r rs)
  obtain l js where r: "r = (l, js)" by fastforce
  with Cons have ih: "set (concat (map snd (map (\<lambda>(l, is). (l, remove1 i is)) rs))) = set (concat (map snd rs)) - {i}"
    "distinct (concat (map snd (map (\<lambda>(l, is). (l, remove1 i is)) rs)))" by auto
  from Cons.prems r have "distinct js" "set js \<inter> set (concat (map snd rs)) = {}" by auto
  with ih r show ?case by (auto simp del: set_concat)
qed simp

lemma drop_record_records:
  assumes "distinct (all_records a)"
  shows "set (all_records (drop_record i a)) = set (all_records a) - {i}" "distinct (all_records (drop_record i a))"
  using remove1_concat [of "ma_records a" i] assms by (simp_all add: drop_record_def all_records_def)

lemma slots_ok_drop:
  assumes "slots_ok tries a"
  shows "slots_ok tries (drop_record i a)"
proof -
  from assms have d: "distinct (all_records a)" by (simp add: slots_ok_def records_ok_def)
  note r = drop_record_records [OF d, of i]
  have "map fst (ma_records (drop_record i a)) = map fst (ma_records a)" "ma_next (drop_record i a) = ma_next a"
    "ma_store (drop_record i a) = ma_store a"
    by (simp_all add: drop_record_def case_prod_unfold o_def)
  moreover have u: "uses (drop_record i a) n \<le> uses a n" for n
    unfolding uses_def r(1) calculation by (intro sum_mono2) auto
  ultimately show ?thesis
    using assms r by (auto simp: slots_ok_def records_ok_def intro: order_trans [OF u])
qed

lemma update_concat:
  assumes "distinct (map fst rs)" and "map_of rs l = Some is"
  shows "mset (concat (map snd (AList.update l (is @ [j]) rs))) = add_mset j (mset (concat (map snd rs)))"
  using assms by (induction rs) (auto split: if_splits)

lemma addBackingNode_records:
  assumes "distinct (map fst (ma_records a))"
  shows "mset (all_records (addBackingNode l b a)) = add_mset (ma_next a) (mset (all_records a))"
    "distinct (map fst (ma_records (addBackingNode l b a)))"
  using assms update_concat [OF assms, of l _ "ma_next a"]
  by (auto simp: addBackingNode_def all_records_def distinct_update map_of_eq_None_iff split: option.split)

lemma addBackingNode_ok:
  assumes "records_ok a" and "set (bn_allocated b) \<subseteq> {None}"
  shows "records_ok (addBackingNode l b a)" and "uses (addBackingNode l b a) n = uses a n"
    and "ma_next a \<in> set (all_records (addBackingNode l b a))"
    and "ma_store (addBackingNode l b a) (ma_next a) = b"
proof -
  from assms(1) have d: "distinct (map fst (ma_records a))" "distinct (all_records a)"
    "\<forall>i \<in> set (all_records a). i < ma_next a" by (auto simp: records_ok_def)
  note m = addBackingNode_records [OF d(1), of l b]
  from m(1) have s: "set (all_records (addBackingNode l b a)) = insert (ma_next a) (set (all_records a))"
    by (metis set_mset_add_mset_insert set_mset_mset)
  have fresh: "ma_next a \<notin> set (all_records a)" using d(3) by auto
  with d(2) m(1) have dist: "distinct (all_records (addBackingNode l b a))"
    by (metis distinct.simps(2) mset.simps(2) mset_eq_imp_distinct_iff)
  have st: "ma_store (addBackingNode l b a) = (ma_store a)(ma_next a := b)"
    "ma_next (addBackingNode l b a) = Suc (ma_next a)" by (simp_all add: addBackingNode_def)
  show "records_ok (addBackingNode l b a)" using m(2) dist s st d(3) by (auto simp: records_ok_def)
  have "alloc_count b n = 0" using assms(2) alloc_count_pos [of n b] by auto
  then show "uses (addBackingNode l b a) n = uses a n"
    unfolding uses_def s st using fresh by (auto intro!: sum.cong)
  show "ma_next a \<in> set (all_records (addBackingNode l b a))" by (simp add: s)
  show "ma_store (addBackingNode l b a) (ma_next a) = b" by (simp add: st)
qed

lemma backing_node_init_free:
  "backing_node_init l s now = Inr b \<Longrightarrow> set (bn_allocated b) \<subseteq> {None}"
  by (auto simp: backing_node_init_def bindE_eq_Inr)

subsection \<open>Effects that leave the slots alone\<close>

definition world_ok :: "nat \<Rightarrow> bool \<Rightarrow> 'z ms_world \<Rightarrow> bool" where
  "world_ok tries fin w \<longleftrightarrow> slots_ok tries (mw_ad w) \<and> ma_init (mw_ad w) = fin \<and> (fin \<longrightarrow> 0 < tries)"

lemma keeps_zw_read [keeps]: "keeps_inv I (zw_read f)"
  by (simp add: zw_read_def keeps)

lemma keeps_ms_obj [keeps]: "keeps_inv (world_ok tries fin :: 'z ms_world \<Rightarrow> bool) (zw_obj f ob)"
  by (rule keepsI) (auto simp: zw_obj_def world_ok_def split: prod.splits option.splits)

lemma keeps_ms_write [keeps]: "keeps_inv (world_ok tries fin :: 'z ms_world \<Rightarrow> bool) (zw_write f)"
  by (rule keepsI) (auto simp: zw_write_def world_ok_def split: sum.splits)

lemma keeps_upd_ad:
  "(\<And>a. slots_ok tries a \<Longrightarrow> slots_ok tries (f a)) \<Longrightarrow> (\<And>a. ma_init (f a) = ma_init a) \<Longrightarrow> keeps_inv (world_ok tries fin) (upd_ad f)"
  by (simp add: upd_ad_def world_ok_def keeps_inv_def eff_mod_def)

lemma get_put_same:
  assumes "\<And>b. bn_allocated (f b) = bn_allocated b"
  shows "keeps_inv (world_ok tries fin) (eff_bind (get_bnr i) (\<lambda>b. put_bnr i (f b)))"
  by (rule keepsI)
    (auto simp: eff_bind_def get_bnr_def put_bnr_def eff_get_def upd_ad_def eff_mod_def world_ok_def
      intro!: slots_ok_put_same assms)

text \<open>A record that was just read is put back with the same slots.\<close>

definition same_alloc :: "nat \<Rightarrow> bool \<Rightarrow> nat \<Rightarrow> backing_node \<Rightarrow> 'z ms_world \<Rightarrow> bool" where
  "same_alloc tries fin i b w \<longleftrightarrow> world_ok tries fin w \<and> bn_allocated (ma_store (mw_ad w) i) = bn_allocated b"

lemma keeps_get_bnr:
  assumes "\<And>b. keeps_inv (same_alloc tries fin i b) (f b)"
  shows "keeps_inv (world_ok tries fin) (eff_bind (get_bnr i) f)"
proof (rule keepsI)
  fix w r w' assume w: "world_ok tries fin w" and m: "eff_bind (get_bnr i) f w = (r, w')"
  from m have "f (ma_store (mw_ad w) i) w = (r, w')" by (simp add: eff_bind_def get_bnr_def eff_get_def)
  with keepsE [OF assms, of "ma_store (mw_ad w) i" w] w show "world_ok tries fin w'"
    by (auto simp: same_alloc_def)
qed

lemma keeps_same_obj [keeps]: "keeps_inv (same_alloc tries fin i b) (zw_obj f ob)"
  by (rule keepsI) (auto simp: zw_obj_def same_alloc_def world_ok_def split: prod.splits option.splits)

lemma keeps_same_write [keeps]: "keeps_inv (same_alloc tries fin i b) (zw_write f)"
  by (rule keepsI) (auto simp: zw_write_def same_alloc_def world_ok_def split: sum.splits)

lemma keeps_same_put: "bn_allocated c = bn_allocated b \<Longrightarrow> keeps_inv (same_alloc tries fin i b) (put_bnr i c)"
  by (rule keepsI)
    (auto simp: put_bnr_def upd_ad_def eff_mod_def same_alloc_def world_ok_def intro!: slots_ok_put_same)

lemma keeps_same_drop: "keeps_inv (same_alloc tries fin i b) (upd_ad (drop_record j))"
  by (rule keepsI)
    (auto simp: upd_ad_def eff_mod_def same_alloc_def world_ok_def drop_record_def
      intro: slots_ok_drop [unfolded drop_record_def])

lemma keeps_same_bind:
  assumes "\<And>c. bn_allocated c = bn_allocated b \<Longrightarrow> keeps_inv (same_alloc tries fin i b) (f c)"
  shows "keeps_inv (same_alloc tries fin i b) (eff_bind (get_bnr i) f)"
  by (rule keepsI) (auto simp: eff_bind_def get_bnr_def eff_get_def same_alloc_def dest!: keepsE [OF assms, rotated 2])

lemma keeps_release: "keeps_inv (same_alloc tries fin i b) (release_record K now i c)"
  if "bn_allocated c = bn_allocated b" for c
  unfolding release_record_def using that by (intro keeps keeps_same_put keeps_same_drop) simp_all

lemma keeps_check_record: "keeps_inv (world_ok tries fin) (check_record K cfg now i)"
  unfolding check_record_def Let_def
  by (intro keeps_get_bnr keeps keeps_same_put keeps_release) simp_all

lemma keeps_fail_backing: "keeps_inv (world_ok tries fin) (fail_backing K cfg now i)"
  unfolding fail_backing_def Let_def by (intro keeps_get_bnr keeps keeps_same_put) simp_all

lemma keeps_get [keeps]: "keeps_inv I (get_bnr i)"
  by (simp add: get_bnr_def keeps)

lemma keeps_set_backing: "keeps_inv (world_ok tries fin) (set_backing i n)"
  unfolding set_backing_def by (rule get_put_same) simp

lemma keeps_take_backing: "keeps_inv (world_ok tries fin) (take_backing K L cfg freed now r i)"
  unfolding take_backing_def
  by (intro keeps keeps_set_backing)

lemma slots_ok_fail: "slots_ok tries a \<Longrightarrow> slots_ok tries (fail_record r i a)"
  by (auto simp: fail_record_def intro!: slots_ok_drop slots_ok_put_same)

lemma slots_ok_fails: "slots_ok tries a \<Longrightarrow> slots_ok tries (fold (fail_record r) is a)"
  by (induction "is" arbitrary: a) (auto intro: slots_ok_fail)

lemma init_fails: "ma_init (fold (fail_record r) is a) = ma_init a"
  by (induction "is" arbitrary: a) (auto simp: fail_record_def drop_record_def)

lemma slots_ok_fails_all: "slots_ok tries a \<Longrightarrow> slots_ok tries (fold (fail_record r) (all_records a) a)"
  by (rule slots_ok_fails)

lemma keeps_check_request: "keeps_inv (world_ok tries fin) (check_request K L cfg freed now pending r)"
  unfolding check_request_def
  by (intro keeps keeps_upd_ad slots_ok_fails_all init_fails keeps_take_backing)

subsection \<open>Taking and freeing slots\<close>

lemma slots_ok_dealloc:
  assumes ok: "slots_ok tries a" and i: "i \<in> set (all_records a)"
    and d: "deallocateSlot n now (ma_store a i) = Inr (j, b)"
  shows "slots_ok tries (a\<lparr>ma_store := (ma_store a)(i := b)\<rparr>)" "uses (a\<lparr>ma_store := (ma_store a)(i := b)\<rparr>) n < tries"
proof -
  let ?a = "a\<lparr>ma_store := (ma_store a)(i := b)\<rparr>" and ?b = "ma_store a i"
  from d have j: "j < length (bn_allocated ?b)" "bn_allocated ?b ! j = Some n"
    and b: "b = ?b\<lparr>bn_allocated := (bn_allocated ?b)[j := None], bn_last_used := now\<rparr>"
    by (auto simp: deallocateSlot_def bindE_eq_Inr dest: list_index_Inr)
  have u: "uses ?a m + (if n = m then 1 else 0) = uses a m" for m
  proof -
    have "alloc_count b m + (if n = m then 1 else 0) = alloc_count ?b m"
      using alloc_count_update [OF j(1), of None m] j(2) unfolding b
      by (simp add: alloc_count_def split: if_splits)
    with uses_put [OF i, of b m] show ?thesis by simp
  qed
  have le: "uses a m \<le> tries" for m using ok by (simp add: slots_ok_def)
  have "uses ?a m \<le> tries" for m using u [of m] le [of m] by (simp split: if_splits)
  then show "slots_ok tries ?a" using ok by (simp add: slots_ok_def)
  show "uses ?a n < tries" using u [of n] le [of n] by simp
qed

lemma slots_ok_alloc:
  assumes ok: "slots_ok tries a" and i: "i \<in> set (all_records a)" and room: "uses a n < tries"
    and al: "allocateSlot n s (ma_store a i) = Inr (k, b)"
  shows "slots_ok tries (a\<lparr>ma_store := (ma_store a)(i := b)\<rparr>)"
    and "m \<noteq> n \<Longrightarrow> uses (a\<lparr>ma_store := (ma_store a)(i := b)\<rparr>) m = uses a m"
proof -
  let ?a = "a\<lparr>ma_store := (ma_store a)(i := b)\<rparr>" and ?b = "ma_store a i"
  from al obtain j where j: "j < length (bn_allocated ?b)" "bn_allocated ?b ! j = None"
    and b: "b = ?b\<lparr>bn_allocated := (bn_allocated ?b)[j := Some n]\<rparr>"
    by (auto simp: allocateSlot_def bindE_eq_Inr dest: py_index_Inr split: if_splits)
  have u: "uses ?a m = uses a m + (if n = m then 1 else 0)" for m
  proof -
    have "alloc_count b m = alloc_count ?b m + (if n = m then 1 else 0)"
      using alloc_count_update [OF j(1), of "Some n" m] j(2) unfolding b by (simp split: if_splits)
    with uses_put [OF i, of b m] show ?thesis by simp
  qed
  then show "m \<noteq> n \<Longrightarrow> uses ?a m = uses a m" by simp
  have "uses ?a m \<le> tries" for m using u [of m] ok room by (auto simp: slots_ok_def)
  then show "slots_ok tries ?a" using ok by (simp add: slots_ok_def)
qed

lemma deallocate_first_ok:
  assumes "deallocate_first n now is w = (r, w')" and "slots_ok tries (mw_ad w)" and "0 < tries"
    and "set is \<subseteq> set (all_records (mw_ad w))"
    and "\<forall>j \<in> set (all_records (mw_ad w)) - set is. alloc_count (ma_store (mw_ad w) j) n = 0"
  shows "r = Inr () \<and> slots_ok tries (mw_ad w') \<and> uses (mw_ad w') n < tries \<and> zw_zk w' = zw_zk w \<and>
    ma_records (mw_ad w') = ma_records (mw_ad w) \<and> ma_init (mw_ad w') = ma_init (mw_ad w)"
  using assms
proof (induction "is")
  case Nil
  then show ?case by (auto simp: eff_ret_def uses_def)
next
  case (Cons i js)
  let ?a = "mw_ad w" and ?b = "ma_store (mw_ad w) i"
  show ?case
  proof (cases "backsNode n ?b")
    case True
    then obtain j b where d: "deallocateSlot n now ?b = Inr (j, b)"
      by (cases "list_index (Some n) (bn_allocated ?b)")
        (auto simp: backsNode_def deallocateSlot_def dest: list_index_Inl)
    with Cons.prems True have "r = Inr ()" "w' = w\<lparr>mw_ad := ?a\<lparr>ma_store := (ma_store ?a)(i := b)\<rparr>\<rparr>"
      by (auto simp: eff_bind_def get_bnr_def eff_get_def eff_lift_def put_bnr_def upd_ad_def eff_mod_def)
    with slots_ok_dealloc [OF Cons.prems(2) _ d] Cons.prems(4) show ?thesis by simp
  next
    case False
    then have "alloc_count ?b n = 0" using alloc_count_pos [of n ?b] by (simp add: backsNode_def)
    with Cons False show ?thesis
      by (auto simp: eff_bind_def get_bnr_def eff_get_def)
  qed
qed

lemma deallocateInner_ok:
  assumes "deallocateInner n now w = (r, w')" and "slots_ok tries (mw_ad w)" and "0 < tries"
  shows "r = Inr ()" "slots_ok tries (mw_ad w')" "uses (mw_ad w') n < tries" "zw_zk w' = zw_zk w"
    "ma_records (mw_ad w') = ma_records (mw_ad w)" "ma_init (mw_ad w') = ma_init (mw_ad w)"
  using deallocate_first_ok [of n now "all_records (mw_ad w)" w r w'] assms
  by (auto simp: deallocateInner_def eff_bind_def eff_get_def)

lemma request_backing_ok:
  assumes "request_backing K cfg l uuid now w = (r, w')" and "slots_ok tries (mw_ad w)"
  shows "slots_ok tries (mw_ad w') \<and> ma_init (mw_ad w') = ma_init (mw_ad w) \<and>
    (\<forall>i. r = Inr i \<longrightarrow> i \<in> set (all_records (mw_ad w')) \<and> (\<forall>n. uses (mw_ad w') n = uses (mw_ad w) n))"
proof -
  have rec: "records_ok (mw_ad w)" using assms(2) by (simp add: slots_ok_def)
  show ?thesis
  proof (cases "new_backing_request cfg l now")
    case (Inl e)
    with assms show ?thesis by (auto simp: request_backing_def eff_bind_def eff_lift_def)
  next
    case (Inr r0)
    obtain ex r1 z where st: "storeNodeRequest K r0 ''100'' uuid now (zw_zk w) = (ex, r1, z)" by (metis prod_cases3)
    show ?thesis
    proof (cases ex)
      case (Some e)
      with Inr st assms show ?thesis
        by (auto simp: request_backing_def eff_bind_def eff_lift_def zw_obj_def)
    next
      case None
      show ?thesis
      proof (cases "backing_node_init (ml_name l) (JNum (of_int (ml_max_parallel_jobs l))) now")
        case (Inl e)
        with Inr None st assms show ?thesis
          by (auto simp: request_backing_def eff_bind_def eff_lift_def zw_obj_def \<open>new_backing_request cfg l now = Inr r0\<close>)
      next
        case b: (Inr b)
        let ?b = "b\<lparr>bn_request_id := o_id r1\<rparr>" and ?a = "mw_ad w"
        have free: "set (bn_allocated ?b) \<subseteq> {None}" using backing_node_init_free [OF b] by simp
        from Inr None st b assms(1) have "r = Inr (ma_next ?a)" "mw_ad w' = addBackingNode (ml_name l) ?b ?a"
          by (auto simp: request_backing_def eff_bind_def eff_lift_def zw_obj_def eff_get_def eff_seq_def
              upd_ad_def eff_mod_def eff_ret_def)
        moreover have "ma_init (addBackingNode (ml_name l) ?b ?a) = ma_init ?a" by (simp add: addBackingNode_def)
        ultimately show ?thesis
          using addBackingNode_ok [OF rec free, of "ml_name l"] assms(2) by (simp add: slots_ok_def)
      qed
    qed
  qed
qed

lemma ms_init_done: "ma_init (mw_ad w) \<Longrightarrow> ms_init K L cfg now w = (Inr (), w)"
  by (simp add: ms_init_def eff_bind_def eff_get_def eff_ret_def)

lemma keeps_ms_init [keeps]: "keeps_inv (world_ok tries True) (ms_init K L cfg now)"
  by (rule keepsI) (simp add: world_ok_def ms_init_done)

lemma keeps_deallocate [keeps]: "keeps_inv (world_ok tries True) (deallocateInner n now)"
  by (rule keepsI) (auto simp: world_ok_def dest: deallocateInner_ok)

lemma keeps_deallocateBackingNode: "keeps_inv (world_ok tries True) (deallocateBackingNode K L cfg n now)"
  unfolding deallocateBackingNode_def by (intro keeps)

text \<open>The record that gets the node: one of the label with a free slot, else that of a new request.\<close>

definition free_record :: "string \<Rightarrow> ms_adapter \<Rightarrow> nat option" where
  "free_record l a = (case map_of (ma_records a) l of
     None \<Rightarrow> None | Some is \<Rightarrow> find (\<lambda>i. hasAvailableSlot (ma_store a i)) is)"

lemma allocate_picks:
  assumes w: "world_ok tries True w" and d: "deallocateInner n now w = (r1, w1)"
    and x: "(case free_record (ml_name l) (mw_ad w1) of
      Some i \<Rightarrow> eff_ret i | None \<Rightarrow> request_backing K cfg l uuid now) w1 = (x, w2)"
  shows "slots_ok tries (mw_ad w2) \<and> ma_init (mw_ad w2) \<and>
      (\<forall>i. x = Inr i \<longrightarrow> i \<in> set (all_records (mw_ad w2)) \<and> uses (mw_ad w2) n < tries)"
    and "free_record (ml_name l) (mw_ad w1) \<noteq> None \<Longrightarrow> zw_zk w2 = zw_zk w"
proof -
  from w have init: "ma_init (mw_ad w)" and ok: "slots_ok tries (mw_ad w)" and pos: "0 < tries"
    by (simp_all add: world_ok_def)
  note d' = deallocateInner_ok [OF d ok pos]
  show "slots_ok tries (mw_ad w2) \<and> ma_init (mw_ad w2) \<and>
      (\<forall>i. x = Inr i \<longrightarrow> i \<in> set (all_records (mw_ad w2)) \<and> uses (mw_ad w2) n < tries)"
  proof (cases "free_record (ml_name l) (mw_ad w1)")
    case None
    with x have "request_backing K cfg l uuid now w1 = (x, w2)" by simp
    from request_backing_ok [OF this d'(2)] d' init show ?thesis by auto
  next
    case (Some i)
    with x have "x = Inr i" "w2 = w1" by (auto simp: eff_ret_def)
    moreover from Some have "i \<in> set (all_records (mw_ad w1))"
      by (force simp: free_record_def all_records_def find_Some_iff split: option.splits dest: map_of_SomeD)
    ultimately show ?thesis using d' init by simp
  qed
  show "free_record (ml_name l) (mw_ad w1) \<noteq> None \<Longrightarrow> zw_zk w2 = zw_zk w"
    using x d'(4) by (auto simp: eff_ret_def)
qed

lemma allocate_run:
  assumes w: "world_ok tries True w" and d: "deallocateInner n now w = (r1, w1)"
    and x: "(case free_record (ml_name l) (mw_ad w1) of
      Some i \<Rightarrow> eff_ret i | None \<Rightarrow> request_backing K cfg l uuid now) w1 = (x, w2)"
  shows "allocateBackingNode K L cfg l n uuid now w =
      (eff_bind (\<lambda>u. (x, w2)) (\<lambda>i. eff_bind (get_bnr i) (\<lambda>b.
        eff_bind (eff_lift (allocateSlot n JNull b)) (\<lambda>(slot, b1). eff_seq (put_bnr i b1) (eff_ret (i, slot)))))) w1"
  using deallocateInner_ok(1) [OF d, of tries] w d x
  by (simp add: allocateBackingNode_def eff_seq_def eff_bind_def world_ok_def ms_init_done eff_get_def
      flip: free_record_def)

lemma keeps_allocate: "keeps_inv (world_ok tries True) (allocateBackingNode K L cfg l n uuid now)"
proof (rule keepsI)
  fix w r w' assume w: "world_ok tries True w" and m: "allocateBackingNode K L cfg l n uuid now w = (r, w')"
  obtain r1 w1 where d: "deallocateInner n now w = (r1, w1)" by fastforce
  obtain x w2 where x: "(case free_record (ml_name l) (mw_ad w1) of
      Some i \<Rightarrow> eff_ret i | None \<Rightarrow> request_backing K cfg l uuid now) w1 = (x, w2)"
    by fastforce
  note w2 = allocate_picks(1) [OF w d x] and eq = allocate_run [OF w d x]
  have pos: "0 < tries" using w by (simp add: world_ok_def)
  show "world_ok tries True w'"
  proof (cases x)
    case (Inl e)
    with eq m w2 pos show ?thesis by (simp add: eff_bind_def world_ok_def)
  next
    case (Inr i)
    show ?thesis
    proof (cases "allocateSlot n JNull (ma_store (mw_ad w2) i)")
      case (Inl e)
      with eq m w2 pos Inr show ?thesis by (simp add: eff_bind_def world_ok_def get_bnr_def eff_get_def eff_lift_def)
    next
      case al: (Inr kb)
      obtain k b where kb: "kb = (k, b)" by fastforce
      from eq m Inr al kb have "w' = w2\<lparr>mw_ad := (mw_ad w2)\<lparr>ma_store := (ma_store (mw_ad w2))(i := b)\<rparr>\<rparr>"
        by (simp add: eff_bind_def get_bnr_def eff_get_def eff_lift_def eff_seq_def put_bnr_def upd_ad_def
            eff_mod_def eff_ret_def)
      with slots_ok_alloc(1) [OF _ _ _ al [unfolded kb]] w2 pos Inr show ?thesis by (simp add: world_ok_def)
    qed
  qed
qed

lemma allocated_there:
  assumes w: "world_ok tries True w" and m: "allocateBackingNode K L cfg l n uuid now w = (Inr (i, slot), w')"
    and d: "deallocateInner n now w = (r1, w1)"
  shows "i \<in> set (all_records (mw_ad w')) \<and> 0 \<le> slot \<and>
      slot < int (length (bn_allocated (ma_store (mw_ad w') i))) \<and> bn_allocated (ma_store (mw_ad w') i) ! nat slot = Some n"
    and "free_record (ml_name l) (mw_ad w1) \<noteq> None \<Longrightarrow> zw_zk w' = zw_zk w"
proof -
  obtain x w2 where x: "(case free_record (ml_name l) (mw_ad w1) of
      Some i \<Rightarrow> eff_ret i | None \<Rightarrow> request_backing K cfg l uuid now) w1 = (x, w2)"
    by fastforce
  note w2 = allocate_picks [OF w d x]
  from m [unfolded allocate_run [OF w d x]] obtain b where xi: "x = Inr i"
    and al: "allocateSlot n JNull (ma_store (mw_ad w2) i) = Inr (slot, b)"
    and w': "w' = w2\<lparr>mw_ad := (mw_ad w2)\<lparr>ma_store := (ma_store (mw_ad w2))(i := b)\<rparr>\<rparr>"
    by (auto simp: eff_bind_Inr eff_seq_def eff_run get_bnr_def put_bnr_def upd_ad_def)
  from al obtain j where "slot = int j" "j < length (bn_allocated (ma_store (mw_ad w2) i))"
    and "bn_allocated b = (bn_allocated (ma_store (mw_ad w2) i))[j := Some n]"
    by (auto simp: allocateSlot_def bindE_eq_Inr map_sum_eq_Inr py_index_def dest!: list_index_Inr split: if_splits)
  with w2(1) xi show "i \<in> set (all_records (mw_ad w')) \<and> 0 \<le> slot \<and>
      slot < int (length (bn_allocated (ma_store (mw_ad w') i))) \<and> bn_allocated (ma_store (mw_ad w') i) ! nat slot = Some n"
    by (simp add: w' all_records_def)
  show "free_record (ml_name l) (mw_ad w1) \<noteq> None \<Longrightarrow> zw_zk w' = zw_zk w"
    using w2(2) by (simp add: w')
qed

lemma keeps_checkRequests: "keeps_inv (world_ok tries True) (checkBackingNodeRequests K L cfg freed now)"
  unfolding checkBackingNodeRequests_def by (intro keeps keeps_check_request)

lemma keeps_listResources: "keeps_inv (world_ok tries True) (ms_listResources K L cfg now)"
  unfolding ms_listResources_def by (intro keeps keeps_check_record)

lemma keeps_ms_notify: "keeps_inv (world_ok tries fin) (ms_notifyNodescanFailure K cfg l n now)"
  unfolding ms_notifyNodescanFailure_def by (intro keeps keeps_fail_backing)

end
