(* ===== verification/MetastaticInit.thy ===== *)
theory MetastaticInit
  imports MetastaticProps ZkPoolsProps
begin

section \<open>Recovery of the metastatic driver\<close>

text \<open>
  The recovery from ZooKeeper gives each end node at most one slot more, whether it ends normally or
  not. From a new adapter, which has no records, the operations - the first of them recover, again and
  again if they fail - and the changes of other processes to ZooKeeper keep the invariant.
\<close>

lemma somes_distinct:
  assumes "list_all2 (\<lambda>i x. \<forall>y. x = Some y \<longrightarrow> f y = i) is xs" and "distinct is"
  shows "distinct (map f (somes xs)) \<and> set (map f (somes xs)) \<subseteq> set is"
  using assms
proof (induction rule: list_all2_induct)
  case (Cons i "is" x xs)
  then show ?case by (cases x) (auto simp: somes_def List.map_filter_simps)
qed (simp add: somes_def List.map_filter_simps)

lemma read_node_id:
  "getNode K None i False oc now z = Inr (Some n) \<Longrightarrow> o_id n = Some i"
  by (auto simp: getNode_def bindE_eq_Inr split: sum.splits pyexc.splits prod.splits if_splits)

context zk_server
begin

lemma getNodes_distinct:
  assumes "getNodes K z = Inr is"
  shows "distinct is"
proof (cases "tree z NODE_ROOT = None")
  case True
  with assms show ?thesis by (simp add: getNodes_def orNoNode_def children_missing)
next
  case False
  with assms children_there [of z NODE_ROOT] show ?thesis by (auto simp: getNodes_def orNoNode_def)
qed

lemma nodeIterator_distinct:
  assumes "nodeIterator K None False False now z = Inr ns"
  shows "distinct (map (\<lambda>n. str_id (o_id n)) ns)"
proof -
  from assms obtain "is" xs where i: "getNodes K z = Inr is"
    and xs: "list_all2 (\<lambda>i x. getNode K None (str_id i) False False now z = Inr x) (map Some is) xs"
    and ns: "ns = somes xs"
    by (auto simp: nodeIterator_def node_ids_of_def bindE_eq_Inr map_sum_eq_Inr mapE_Inr)
  from xs have "list_all2 (\<lambda>i x. \<forall>y. x = Some y \<longrightarrow> str_id (o_id y) = i) is xs"
    by (auto simp: list_all2_map1 str_id_def elim!: list_all2_mono dest!: read_node_id)
  with somes_distinct [OF this getNodes_distinct [OF i]] ns show ?thesis by simp
qed

end

subsection \<open>The two loops\<close>

lemma slots_ok_suc: "slots_ok tries a \<Longrightarrow> slots_ok (Suc tries) a"
  by (simp add: slots_ok_def le_Suc_eq)

lemma record_of_free: "record_of n d now = Inr b \<Longrightarrow> set (bn_allocated b) \<subseteq> {None}"
  by (auto simp: record_of_def bindE_eq_Inr dest!: backing_node_init_free)

lemma find_backing_cases:
  assumes "find_backing L cfg now n m w = (Inr m', w')"
  obtains "m' = m \<and> w' = w"
    | b where "set (bn_allocated b) \<subseteq> {None}" "m' = AList.update (str_id (o_id n)) (ma_next (mw_ad w)) m"
        "mw_ad w' = addBackingNode (bn_label_name b) b (mw_ad w)"
proof (cases "mc_loads cfg (n_user_data n)")
  case None
  with assms that(1) show thesis by (simp add: find_backing_def eff_ret_def)
next
  case (Some ud)
  note run = find_backing_def Some eff_bind_def eff_lift_def zw_read_def eff_read_def eff_ret_def eff_get_def
    eff_seq_def upd_ad_def eff_mod_def
  show thesis
  proof (cases "owner_of ud")
    case (Inl e)
    with assms show thesis by (simp add: run)
  next
    case (Inr owner)
    show thesis
    proof (cases "owner = Some (JStr (my_id cfg))")
      case False
      with assms that(1) Inr show thesis by (simp add: run)
    next
      case owner: True
      show thesis
      proof (cases "getNodeLockContenders L n (zw_zk w)")
        case (Inl e)
        with assms Inr owner show thesis by (simp add: run)
      next
        case cs: (Inr cs)
        show thesis
        proof (cases "cs = [] \<or> hd cs \<noteq> my_id cfg")
          case True
          with assms that(1) Inr owner cs show thesis by (cases cs) (simp_all add: run)
        next
          case False
          then obtain cs' where cs': "cs = my_id cfg # cs'" by (cases cs) auto
          show thesis
          proof (cases "bindE (dict_of ud) (\<lambda>d. record_of n d now)")
            case (Inl e)
            with assms Inr owner cs cs' show thesis by (simp add: run)
          next
            case b: (Inr b)
            then have "set (bn_allocated b) \<subseteq> {None}" by (auto simp: bindE_eq_Inr dest!: record_of_free)
            moreover from assms Inr owner cs cs' b have "m' = AList.update (str_id (o_id n)) (ma_next (mw_ad w)) m"
              "w' = w\<lparr>mw_ad := addBackingNode (bn_label_name b) b (mw_ad w)\<rparr>" by (simp_all add: run)
            ultimately show thesis by (intro that(2) [of b]) simp_all
          qed
        qed
      qed
    qed
  qed
qed

lemma find_backing_raises: "find_backing L cfg now n m w = (Inl e, w') \<Longrightarrow> w' = w"
  by (auto simp: find_backing_def eff_bind_def eff_lift_def zw_read_def eff_read_def eff_ret_def eff_get_def
      eff_seq_def upd_ad_def eff_mod_def split: option.splits sum.splits list.splits if_splits)

lemma update_values: "snd ` set (AList.update k v m) \<subseteq> insert v (snd ` set m)"
  by (induction m) auto

definition found_ok :: "nat \<Rightarrow> (string \<times> nat) list \<Rightarrow> 'z ms_world \<Rightarrow> bool" where
  "found_ok tries m w \<longleftrightarrow> world_ok tries False w \<and> snd ` set m \<subseteq> set (all_records (mw_ad w))"

lemma find_backing_ok:
  assumes "find_backing L cfg now n m w = (Inr m', w')" and "found_ok tries m w"
  shows "found_ok tries m' w'"
proof -
  from assms(2) have ok: "world_ok tries False w" and m: "snd ` set m \<subseteq> set (all_records (mw_ad w))"
    by (simp_all add: found_ok_def)
  consider "m' = m \<and> w' = w"
    | b where "set (bn_allocated b) \<subseteq> {None}" "m' = AList.update (str_id (o_id n)) (ma_next (mw_ad w)) m"
        "mw_ad w' = addBackingNode (bn_label_name b) b (mw_ad w)"
    using assms(1)
    by (rule find_backing_cases)
  then show ?thesis
  proof cases
    case 2
    have rec: "records_ok (mw_ad w)" using ok by (simp add: world_ok_def slots_ok_def)
    note add = addBackingNode_ok [OF rec 2(1), of "bn_label_name b"]
    have "set (all_records (mw_ad w)) \<subseteq> set (all_records (mw_ad w'))"
      using arg_cong [OF addBackingNode_records(1) [of "mw_ad w" "bn_label_name b" b], of set_mset] rec 2(3)
      by (auto simp: records_ok_def)
    then have sub: "insert (ma_next (mw_ad w)) (snd ` set m) \<subseteq> set (all_records (mw_ad w'))"
      using add(3) m by (simp add: 2(3) subset_trans [OF m])
    have "snd ` set m' \<subseteq> set (all_records (mw_ad w'))"
      unfolding 2(2) by (rule subset_trans [OF update_values sub])
    moreover have "ma_init (mw_ad w') = ma_init (mw_ad w)" by (simp add: 2(3) addBackingNode_def)
    ultimately show ?thesis using add 2(3) ok by (simp add: found_ok_def world_ok_def slots_ok_def)
  qed (use assms in auto)
qed

lemma find_all_ok:
  assumes "eff_fold (find_backing L cfg now) ns m w = (r, w')" and "found_ok tries m w"
  shows "world_ok tries False w' \<and> (\<forall>m'. r = Inr m' \<longrightarrow> found_ok tries m' w')"
  using assms
proof (induction ns arbitrary: m w)
  case (Cons n ns)
  obtain x w1 where f: "find_backing L cfg now n m w = (x, w1)" by fastforce
  show ?case
  proof (cases x)
    case (Inl e)
    with f Cons.prems find_backing_raises [of L cfg now n m w e w1] show ?thesis
      by (auto simp: eff_bind_def found_ok_def)
  next
    case (Inr m1)
    with f Cons.prems(1) have "eff_fold (find_backing L cfg now) ns m1 w1 = (r, w')" by (simp add: eff_bind_def)
    from Cons.IH [OF this find_backing_ok [OF f [unfolded Inr] Cons.prems(2)]] show ?thesis .
  qed
qed (auto simp: eff_ret_def found_ok_def)

lemma assign_node_cases:
  assumes "assign_node cfg m n w = (Inr (), w')"
  obtains "w' = w"
    | bn i idx b where "map_of m bn = Some i" "allocateSlot (str_id (o_id n)) idx (ma_store (mw_ad w) i) = Inr b"
        "mw_ad w' = (mw_ad w)\<lparr>ma_store := (ma_store (mw_ad w))(i := snd b)\<rparr>"
proof (cases "n_provider n \<noteq> JStr (mc_name cfg) \<or> \<not> truthy (n_driver_data n)")
  case True
  with assms that(1) show thesis by (simp add: assign_node_def eff_ret_def)
next
  case False
  note run = assign_node_def eff_bind_def eff_lift_def eff_ret_def eff_raise_def eff_get_def
    get_bnr_def put_bnr_def upd_ad_def eff_mod_def
  show thesis
  proof (cases "n_driver_data n")
    case (JDict d)
    show thesis
    proof (cases "dget d ''backing_node''")
      case (JStr bn)
      show thesis
      proof (cases "if bn = [] then None else map_of m bn")
        case None
        with False assms that(1) JDict JStr show thesis by (simp add: run)
      next
        case (Some i)
        then have i: "map_of m bn = Some i" by (simp split: if_splits)
        show thesis
        proof (cases "allocateSlot (str_id (o_id n)) (dget d ''slot'') (ma_store (mw_ad w) i)")
          case (Inl e)
          with False assms JDict JStr Some show thesis by (simp add: run)
        next
          case (Inr b)
          with False assms JDict JStr Some
          have "w' = w\<lparr>mw_ad := (mw_ad w)\<lparr>ma_store := (ma_store (mw_ad w))(i := snd b)\<rparr>\<rparr>"
            by (simp add: run case_prod_unfold)
          then show thesis by (intro that(2) [OF i Inr]) simp
        qed
      qed
    qed (use False assms that(1) JDict in \<open>simp_all add: run split: if_splits\<close>)
  qed (use False assms in \<open>simp_all add: run\<close>)
qed

lemma assign_node_raises: "assign_node cfg m n w = (Inl e, w') \<Longrightarrow> w' = w"
  by (auto simp: assign_node_def eff_bind_def eff_lift_def eff_ret_def eff_raise_def eff_get_def get_bnr_def
      put_bnr_def upd_ad_def eff_mod_def split: json.splits option.splits sum.splits if_splits)

lemma assign_node_ok:
  assumes "assign_node cfg m n w = (Inr (), w')" and "slots_ok tries (mw_ad w)"
    and "snd ` set m \<subseteq> set (all_records (mw_ad w))" and "uses (mw_ad w) (str_id (o_id n)) < tries"
  shows "slots_ok tries (mw_ad w') \<and> all_records (mw_ad w') = all_records (mw_ad w) \<and>
    ma_init (mw_ad w') = ma_init (mw_ad w) \<and>
    (\<forall>k. k \<noteq> str_id (o_id n) \<longrightarrow> uses (mw_ad w') k = uses (mw_ad w) k)"
proof -
  consider "w' = w"
    | bn i idx b where "map_of m bn = Some i" "allocateSlot (str_id (o_id n)) idx (ma_store (mw_ad w) i) = Inr b"
        "mw_ad w' = (mw_ad w)\<lparr>ma_store := (ma_store (mw_ad w))(i := snd b)\<rparr>"
    using assms(1)
    by (rule assign_node_cases)
  then show ?thesis
  proof cases
    case 2
    from 2(1) have "i \<in> snd ` set m" by (force dest: map_of_SomeD)
    with assms(3) have i: "i \<in> set (all_records (mw_ad w))" by blast
    obtain k b' where b: "b = (k, b')" by fastforce
    from slots_ok_alloc [OF assms(2) i assms(4) 2(2) [unfolded b]] 2(3) b show ?thesis by simp
  qed (use assms in auto)
qed

lemma assign_all_ok:
  assumes "eff_each (assign_node cfg m) ns w = (r, w')" and "slots_ok tries (mw_ad w)"
    and "snd ` set m \<subseteq> set (all_records (mw_ad w))"
    and "\<forall>n \<in> set ns. uses (mw_ad w) (str_id (o_id n)) < tries" and "distinct (map (\<lambda>n. str_id (o_id n)) ns)"
  shows "slots_ok tries (mw_ad w') \<and> ma_init (mw_ad w') = ma_init (mw_ad w)"
  using assms
proof (induction ns arbitrary: w)
  case (Cons n ns)
  obtain x w1 where a: "assign_node cfg m n w = (x, w1)" by fastforce
  show ?case
  proof (cases x)
    case (Inl e)
    with a Cons.prems assign_node_raises [of cfg m n w e w1] show ?thesis by (auto simp: eff_seq_def eff_bind_def)
  next
    case (Inr u)
    with a Cons.prems(1) have rest: "eff_each (assign_node cfg m) ns w1 = (r, w')"
      by (simp add: eff_seq_def eff_bind_def)
    have "\<forall>k \<in> set ns. str_id (o_id k) \<noteq> str_id (o_id n)"
      using Cons.prems(5) unfolding list.map distinct.simps set_map image_iff by metis
    with assign_node_ok [of cfg m n w w1 tries] a Inr Cons.prems(2-5) Cons.IH [OF rest] show ?thesis by auto
  qed
qed (simp add: eff_ret_def)

context zk_server
begin

lemma init_inner_ok:
  assumes "init_inner K L cfg now w = (r, w')" and ok: "world_ok tries False w"
  shows "world_ok (Suc tries) (r = Inr ()) w'"
proof -
  have "slots_ok (Suc tries) (mw_ad w') \<and> ma_init (mw_ad w') = (r = Inr ())"
  proof (cases "nodeIterator K None False False now (zw_zk w)")
    case (Inl e)
    with assms show ?thesis
      by (auto simp: init_inner_def eff_bind_def zw_read_def eff_read_def world_ok_def intro: slots_ok_suc)
  next
    case ns: (Inr ns)
    obtain x w1 where f: "eff_fold (find_backing L cfg now) ns [] w = (x, w1)" by fastforce
    have w1: "world_ok tries False w1" "\<forall>m. x = Inr m \<longrightarrow> found_ok tries m w1"
      using find_all_ok [OF f, of tries] ok by (auto simp: found_ok_def)
    note run = init_inner_def eff_bind_def zw_read_def eff_read_def eff_seq_def upd_ad_def eff_mod_def
    show ?thesis
    proof (cases x)
      case (Inl e)
      with assms ns f w1 show ?thesis by (auto simp: run world_ok_def intro: slots_ok_suc)
    next
      case m: (Inr m)
      show ?thesis
      proof (cases "nodeIterator K None False False now (zw_zk w1)")
        case (Inl e)
        with assms ns f m w1 show ?thesis by (auto simp: run world_ok_def intro: slots_ok_suc)
      next
        case ns2: (Inr ns2)
        obtain y w2 where a: "eff_each (assign_node cfg m) ns2 w1 = (y, w2)" by fastforce
        from w1 m have "slots_ok (Suc tries) (mw_ad w1)" "\<forall>n. uses (mw_ad w1) n < Suc tries"
          "snd ` set m \<subseteq> set (all_records (mw_ad w1))" "\<not> ma_init (mw_ad w1)"
          by (auto simp: found_ok_def world_ok_def slots_ok_def le_SucI less_Suc_eq_le)
        with assign_all_ok [OF a, of "Suc tries"] nodeIterator_distinct [OF ns2]
        have "slots_ok (Suc tries) (mw_ad w2)" "\<not> ma_init (mw_ad w2)" by auto
        with assms ns f m ns2 a show ?thesis by (cases y) (auto simp: run slots_ok_def uses_def)
      qed
    qed
  qed
  then show ?thesis by (simp add: world_ok_def)
qed

text \<open>An operation that begins with the recovery: what it does afterwards only runs when that is done.\<close>

lemma after_init:
  assumes keeps: "\<And>tries. keeps_inv (world_ok tries True) (eff_seq (ms_init K L cfg now) m)" and ok: "world_ok tries fin w"
    and run: "eff_seq (ms_init K L cfg now) m w = (r, w')"
  shows "world_ok (if fin then tries else Suc tries) (ma_init (mw_ad w')) w'"
proof (cases fin)
  case True
  with keepsE [OF keeps, of tries w r w'] run ok show ?thesis by (auto simp: world_ok_def)
next
  case False
  obtain x w1 where i: "ms_init K L cfg now w = (x, w1)" by fastforce
  with ok False have "init_inner K L cfg now w = (x, w1)"
    by (simp add: ms_init_def eff_bind_def eff_get_def world_ok_def)
  from init_inner_ok [OF this] ok False have w1: "world_ok (Suc tries) (x = Inr ()) w1" by simp
  show ?thesis
  proof (cases x)
    case (Inl e)
    with w1 run i False show ?thesis by (auto simp: world_ok_def eff_seq_def eff_bind_def)
  next
    case (Inr u)
    with run i w1 have "eff_seq (ms_init K L cfg now) m w1 = (r, w')"
      by (simp add: eff_seq_def eff_bind_def ms_init_done world_ok_def)
    with keepsE [OF keeps, of "Suc tries" w1 r w'] w1 Inr False show ?thesis by (auto simp: world_ok_def)
  qed
qed

end

subsection \<open>Reachable states\<close>

text \<open>
  \<open>ms_reachable K L cfg tries w\<close>: a new adapter, without records, can come to the state \<open>w\<close> and has then
  begun its recovery \<open>tries\<close> times. A step is an operation of the adapter, whatever its result, or a
  change of ZooKeeper by others. Every operation except the notification begins the recovery as long
  as none has come to its end.
\<close>

definition recoveries :: "nat \<Rightarrow> 'z ms_world \<Rightarrow> nat" where
  "recoveries tries w = (if ma_init (mw_ad w) then tries else Suc tries)"

inductive ms_reachable :: "'z kazoo \<Rightarrow> 'z locks \<Rightarrow> ms_config \<Rightarrow> nat \<Rightarrow> 'z ms_world \<Rightarrow> bool" for K L cfg where
  started: "ma_records (mw_ad w) = [] \<Longrightarrow> \<not> ma_init (mw_ad w) \<Longrightarrow> ms_reachable K L cfg 0 w"
| listed: "ms_reachable K L cfg tries w \<Longrightarrow>
    ms_reachable K L cfg (recoveries tries w) (snd (ms_listInstances K L cfg now w))"
| allocated: "ms_reachable K L cfg tries w \<Longrightarrow>
    ms_reachable K L cfg (recoveries tries w) (snd (allocateBackingNode K L cfg l n uuid now w))"
| deallocated: "ms_reachable K L cfg tries w \<Longrightarrow>
    ms_reachable K L cfg (recoveries tries w) (snd (deallocateBackingNode K L cfg n now w))"
| checked: "ms_reachable K L cfg tries w \<Longrightarrow>
    ms_reachable K L cfg (recoveries tries w) (snd (checkBackingNodeRequests K L cfg freed now w))"
| released: "ms_reachable K L cfg tries w \<Longrightarrow>
    ms_reachable K L cfg (recoveries tries w) (snd (ms_listResources K L cfg now w))"
| scan_failed: "ms_reachable K L cfg tries w \<Longrightarrow>
    ms_reachable K L cfg tries (snd (ms_notifyNodescanFailure K cfg l n now w))"
| others: "ms_reachable K L cfg tries w \<Longrightarrow> ms_reachable K L cfg tries (w\<lparr>zw_zk := z\<rparr>)"

context zk_server
begin

lemma recovering_step:
  assumes "\<And>tries. keeps_inv (world_ok tries True) (eff_seq (ms_init K L cfg now) m)"
    and "world_ok tries (ma_init (mw_ad w)) w"
  shows "world_ok (recoveries tries w) (ma_init (mw_ad (snd (eff_seq (ms_init K L cfg now) m w))))
    (snd (eff_seq (ms_init K L cfg now) m w))"
  using after_init [OF assms, of "fst (eff_seq (ms_init K L cfg now) m w)"]
  by (auto simp: recoveries_def)

lemma reachable_ok: "ms_reachable K L cfg tries w \<Longrightarrow> world_ok tries (ma_init (mw_ad w)) w"
proof (induction rule: ms_reachable.induct)
  case (started w)
  then show ?case by (simp add: world_ok_def slots_ok_def records_ok_def uses_def all_records_def)
next
  case (listed tries w now)
  then show ?case unfolding ms_listInstances_def by (intro recovering_step keeps)
next
  case (allocated tries w l n uuid now)
  then show ?case using recovering_step [OF keeps_allocate [unfolded allocateBackingNode_def]]
    unfolding allocateBackingNode_def by blast
next
  case (deallocated tries w n now)
  then show ?case using recovering_step [OF keeps_deallocateBackingNode [unfolded deallocateBackingNode_def]]
    unfolding deallocateBackingNode_def by blast
next
  case (checked tries w freed now)
  then show ?case using recovering_step [OF keeps_checkRequests [unfolded checkBackingNodeRequests_def]]
    unfolding checkBackingNodeRequests_def by blast
next
  case (released tries w now)
  then show ?case using recovering_step [OF keeps_listResources [unfolded ms_listResources_def]]
    unfolding ms_listResources_def by blast
next
  case (scan_failed tries w l n now)
  from keepsD [OF keeps_ms_notify this(2)] show ?case by (simp add: world_ok_def)
next
  case (others tries w z)
  then show ?case by (simp add: world_ok_def)
qed

end

subsection \<open>User data that is not a dictionary\<close>

lemma fold_raises:
  assumes "x \<in> set xs" and "\<And>a s. \<exists>e s'. f x a s = (Inl e, s') \<and> (I s \<longrightarrow> I s')"
    and "\<And>y a. keeps_inv I (f y a)" and "I s"
  shows "\<exists>e s'. eff_fold f xs a s = (Inl e, s') \<and> I s'"
  using assms(1,4)
proof (induction xs arbitrary: a s)
  case (Cons y ys)
  show ?case
  proof (cases "f y a s")
    case (Pair r t)
    with Cons.prems(2) keepsE [OF assms(3)] have t: "I t" by blast
    show ?thesis
    proof (cases r)
      case (Inl e)
      with Pair t show ?thesis by (simp add: eff_bind_def)
    next
      case (Inr b)
      have "y \<noteq> x" using assms(2) [of a s] Pair Inr by auto
      with Cons t obtain e s' where "eff_fold f ys b t = (Inl e, s') \<and> I s'" by fastforce
      with Pair Inr show ?thesis by (simp add: eff_bind_def)
    qed
  qed
qed simp

definition not_init :: "'z ms_world \<Rightarrow> bool" where
  "not_init w \<longleftrightarrow> \<not> ma_init (mw_ad w)"

lemma keeps_find_backing: "keeps_inv not_init (find_backing L cfg now n m)"
proof -
  have add: "keeps_inv not_init (upd_ad (addBackingNode l b))" for l b
    by (rule keepsI) (auto simp: upd_ad_def eff_mod_def not_init_def addBackingNode_def)
  show ?thesis
    unfolding find_backing_def
    by (auto intro!: keeps add split: option.split list.split)
qed

lemma number_raises:
  "mc_loads cfg (n_user_data n) = Some (JNum q) \<Longrightarrow> find_backing L cfg now n m w = (Inl TypeError, w)"
  by (simp add: find_backing_def eff_bind_def eff_lift_def)

lemma init_fails_on_number:
  assumes "not_init w" and "nodeIterator K None False False now (zw_zk w) = Inr ns" and "n \<in> set ns"
    and "mc_loads cfg (n_user_data n) = Some (JNum q)"
  shows "\<exists>e w'. ms_init K L cfg now w = (Inl e, w') \<and> not_init w'"
proof -
  have "\<exists>e s'. eff_fold (find_backing L cfg now) ns [] w = (Inl e, s') \<and> not_init s'"
    by (rule fold_raises [OF assms(3)])
      (use assms(1) in \<open>auto simp: number_raises [OF assms(4)] keeps_find_backing\<close>)
  then show ?thesis
    using assms(1,2)
    by (auto simp: ms_init_def init_inner_def eff_bind_def eff_get_def zw_read_def eff_read_def not_init_def)
qed

end
