(* ===== verification/DriverStateClaims.thy ===== *)
theory DriverStateClaims
  imports ZkClaims StaticProps MetastaticInit
begin

section \<open>Properties of the metastatic and static drivers\<close>

text \<open>
  What the records of the metastatic driver and the slots of the static driver hold, with witnesses on
  the in-memory server.
\<close>

subsection \<open>Concrete inputs\<close>

definition ml_one :: ms_label where
  "ml_one = \<lparr> ml_name = ''l'', ml_backing_label = ''big'', ml_max_parallel_jobs = 2, ml_grace_time = 60,
     ml_min_retention_time = 0, ml_max_age = None \<rparr>"

definition mc_one :: ms_config where
  "mc_one = \<lparr> mc_name = ''meta'', mc_pools = [[(''l'', ml_one)]], mc_label_of = (\<lambda>l. ml_one),
     mc_dumps = (\<lambda>d. ''''), mc_loads = (\<lambda>v. Some (JNum 3)) \<rparr>"

definition mw_of :: "mem_zk \<Rightarrow> mem_zk ms_world" where
  "mw_of z = \<lparr> zw_zk = z, mw_ad = \<lparr> ma_store = (\<lambda>i. \<lparr> bn_label_name = [], bn_slot_count = JNull, bn_node_id = None,
     bn_request_id = None, bn_allocated = [], bn_failed = JNull, bn_launched = JNull, bn_last_used = 0 \<rparr>),
     ma_next = 0, ma_records = [], ma_init = False \<rparr> \<rparr>"

definition mw_ready :: "mem_zk ms_world" where
  "mw_ready = snd (ms_listInstances mem_kazoo mem_locks mc_one 9 (mw_of z_empty))"

lemma mw_ready_reachable: "ms_reachable mem_kazoo mem_locks mc_one 1 mw_ready"
proof -
  have "ms_reachable mem_kazoo mem_locks mc_one 0 (mw_of z_empty)" by (rule started) (simp_all add: mw_of_def)
  from listed [OF this, of 9] show ?thesis by (simp add: mw_ready_def recoveries_def mw_of_def)
qed

lemma mw_ready_init: "ma_init (mw_ad mw_ready)"
  by code_simp

definition mw_first :: "(nat \<times> int) res \<times> mem_zk ms_world" where
  "mw_first = allocateBackingNode mem_kazoo mem_locks mc_one ml_one ''n1'' ''u'' 9 mw_ready"

lemma mw_first_reachable: "ms_reachable mem_kazoo mem_locks mc_one 1 (snd mw_first)"
  using allocated [OF mw_ready_reachable] mw_ready_init unfolding mw_first_def recoveries_def by simp

lemma mw_first_init: "ma_init (mw_ad (snd mw_first))"
  by code_simp

subsection \<open>The metastatic driver\<close>

text \<open>
  C23: In every state the metastatic adapter can reach from its start, by its operations (whether they
  raise or not, the recovery among them) and by changes others make in ZooKeeper, no record is listed
  twice, and an end node is in at most as many slots of all the listed backing nodes together as
  recoveries were begun: before the first it is in none, and in at most one when the first one ended
  well. (A recovery that raises leaves its records behind, and the next one adds new ones.)
\<close>
theorem metastatic_slots:
  assumes "zk_server K tree" and "ms_reachable K L cfg tries w"
  shows "distinct (all_records (mw_ad w)) \<and>
    (\<Sum>i \<in> set (all_records (mw_ad w)). count (mset (bn_allocated (ma_store (mw_ad w) i))) (Some n)) \<le> tries"
  using zk_server.reachable_ok [OF assms]
  by (simp_all add: world_ok_def slots_ok_def records_ok_def uses_def alloc_count_def)

theorem metastatic_slots_witness:
  "distinct (all_records (mw_ad (snd mw_first))) \<and>
   (\<Sum>i \<in> set (all_records (mw_ad (snd mw_first))).
      count (mset (bn_allocated (ma_store (mw_ad (snd mw_first)) i))) (Some ''n1'')) \<le> 1"
  using metastatic_slots [OF mem.zk_server_axioms mw_first_reachable] by simp

text \<open>
  C24: When the metastatic adapter has recovered - at the first attempt or a later one - and allocates a
  slot for an end node, the node is in that slot of a listed backing node afterwards; and when a backing
  node of the label has a free slot once the node's old slot is given back, ZooKeeper is left as it was:
  no further backing node is requested.
\<close>
theorem metastatic_allocation:
  assumes "zk_server K tree" and "ms_reachable K L cfg tries w" and "ma_init (mw_ad w)"
    and "allocateBackingNode K L cfg l n uuid now w = (Inr (i, slot), w')"
  shows "i \<in> set (all_records (mw_ad w')) \<and> 0 \<le> slot \<and>
      slot < int (length (bn_allocated (ma_store (mw_ad w') i))) \<and>
      bn_allocated (ma_store (mw_ad w') i) ! nat slot = Some n \<and>
      (free_record (ml_name l) (mw_ad (snd (deallocateInner n now w))) \<noteq> None \<longrightarrow> zw_zk w' = zw_zk w)"
proof -
  have ok: "world_ok tries True w" using zk_server.reachable_ok [OF assms(1,2)] assms(3) by simp
  obtain r w1 where d: "deallocateInner n now w = (r, w1)" by fastforce
  from allocated_there [OF ok assms(4) d] d show ?thesis by auto
qed

lemma mw_first_result: "fst mw_first = Inr (0, 0)"
  by code_simp

lemma mw_second_result:
  "fst (allocateBackingNode mem_kazoo mem_locks mc_one ml_one ''n2'' ''v'' 9 (snd mw_first)) = Inr (0, 1)"
  by code_simp

lemma mw_second_free: "free_record ''l'' (mw_ad (snd (deallocateInner ''n2'' 9 (snd mw_first)))) = Some 0"
  by code_simp

theorem metastatic_allocation_witness:
  "\<exists>w'. allocateBackingNode mem_kazoo mem_locks mc_one ml_one ''n2'' ''v'' 9 (snd mw_first) = (Inr (0, 1), w') \<and>
     bn_allocated (ma_store (mw_ad w') 0) ! 1 = Some ''n2'' \<and> zw_zk w' = zw_zk (snd mw_first)"
proof -
  obtain w' where w': "allocateBackingNode mem_kazoo mem_locks mc_one ml_one ''n2'' ''v'' 9 (snd mw_first) =
      (Inr (0, 1), w')"
    using mw_second_result by (metis prod.collapse)
  with metastatic_allocation [OF mem.zk_server_axioms mw_first_reachable mw_first_init w'] mw_second_free show ?thesis
    by (simp add: ml_one_def)
qed

text \<open>
  One node in ZooKeeper whose user data is a JSON number, whoever wrote it, keeps the metastatic adapter
  from ever recovering its records: the recovery raises before it is done, so every allocation and every
  release raises as well, and the next operation fails in the same way.
\<close>
theorem user_data_stops_metastatic:
  assumes "\<not> ma_init (mw_ad w)" and "nodeIterator K None False False now (zw_zk w) = Inr ns" and "n \<in> set ns"
    and "mc_loads cfg (n_user_data n) = Some (JNum q)"
  shows "\<exists>e w'. allocateBackingNode K L cfg l i uuid now w = (Inl e, w') \<and> \<not> ma_init (mw_ad w')"
    and "\<exists>e w'. deallocateBackingNode K L cfg i now w = (Inl e, w') \<and> \<not> ma_init (mw_ad w')"
    and "\<exists>e w'. ms_listResources K L cfg now w = (Inl e, w') \<and> \<not> ma_init (mw_ad w')"
proof -
  from init_fails_on_number [OF _ assms(2-4)] assms(1) obtain e w' where
    "ms_init K L cfg now w = (Inl e, w')" "\<not> ma_init (mw_ad w')" unfolding not_init_def by blast
  then show "\<exists>e w'. allocateBackingNode K L cfg l i uuid now w = (Inl e, w') \<and> \<not> ma_init (mw_ad w')"
    and "\<exists>e w'. deallocateBackingNode K L cfg i now w = (Inl e, w') \<and> \<not> ma_init (mw_ad w')"
    and "\<exists>e w'. ms_listResources K L cfg now w = (Inl e, w') \<and> \<not> ma_init (mw_ad w')"
    by (simp_all add: allocateBackingNode_def deallocateBackingNode_def ms_listResources_def eff_seq_def eff_bind_def)
qed

lemma z_node_iterated:
  "case nodeIterator mem_kazoo None False False 9 z_node of Inl e \<Rightarrow> False | Inr ns \<Rightarrow> ns \<noteq> []"
  by code_simp

theorem user_data_stops_metastatic_witness:
  "\<exists>e w'. allocateBackingNode mem_kazoo mem_locks mc_one ml_one ''n1'' ''u'' 9 (mw_of z_node) = (Inl e, w') \<and>
     \<not> ma_init (mw_ad w')"
proof -
  obtain n ns where "nodeIterator mem_kazoo None False False 9 z_node = Inr (n # ns)"
    using z_node_iterated by (auto split: sum.splits simp: neq_Nil_conv)
  then show ?thesis
    by (intro user_data_stops_metastatic(1) [of _ _ _ "n # ns" n]) (simp_all add: mw_of_def mc_one_def)
qed

subsection \<open>The static driver\<close>

definition sn_one :: static_node where
  "sn_one = \<lparr> sn_name = ''fake'', sn_username = ''u'', sn_connection_port = 22, sn_connection_type = ''ssh'',
     sn_host_key = [], sn_host_key_checking = True, sn_timeout = 1, sn_shell_type = JNull,
     sn_max_parallel_jobs = 2, sn_python_path = JNull, sn_labels = [''l''] \<rparr>"

definition stc_one :: static_config where
  "stc_one = \<lparr> stc_name = ''prov'', stc_pools =
     [(''main'', \<lparr> sp_name = ''main'', sp_nodes = [sn_one], sp_node_attributes = JNull, sp_labels = [''l''] \<rparr>)] \<rparr>"

definition nw_one :: network where
  "nw_one = \<lparr> nw_resolve = (\<lambda>h p. Inl IndexError), nw_attempts = (\<lambda>i p g. []), nw_key_types = 1,
     nw_keys = (\<lambda>i p. []), nw_start = 0 \<rparr>"

definition sw_of :: "mem_zk \<Rightarrow> mem_zk st_world" where
  "sw_of z = \<lparr> zw_zk = z, st_slots = [], st_idle = False \<rparr>"

definition n_static :: node where
  "n_static = n_ready\<lparr> n_hostname := JStr ''fake'', n_username := JStr ''u'', n_connection_port := JNum 22,
     n_slot := JNum 1, o_id := Some ''9'' \<rparr>"

text \<open>
  C25: When the static driver reads its registered nodes, the slots hold exactly the nodes of the
  provider that are neither being built nor deleted, each once, and every node among the slots of the
  machine it stands for; the machines are distinct.
\<close>
theorem static_slots_hold_nodes:
  assumes "getRegisteredNodes K cfg now w = (Inr (), w')"
  shows "\<exists>ns. nodeIterator K None False False now (zw_zk w) = Inr ns \<and>
      (\<Sum>x \<leftarrow> st_slots w'. mset (List.map_filter id (snd x))) = mset (filter (counts_as_registered cfg) ns) \<and>
      distinct (map fst (st_slots w')) \<and>
      (\<forall>t xs n. (t, xs) \<in> set (st_slots w') \<longrightarrow> Some n \<in> set xs \<longrightarrow> nodeTuple n = t)"
proof -
  from assms obtain ns where ns: "nodeIterator K None False False now (zw_zk w) = Inr ns"
    and r: "registered_slots cfg ns = Inr (st_slots w')"
    by (auto simp: getRegisteredNodes_def eff_bind_Inr zw_read_def eff_run bindE_eq_Inr)
  from registered_slots_nodes [OF r] ns show ?thesis
    by (simp add: slots_inv_def slot_nodes_def nodes_in_def tuples_match_def comp_def)
qed

lemma static_read: "fst (getRegisteredNodes mem_kazoo stc_one 9 (sw_of z_node)) = Inr ()"
  by code_simp

theorem static_slots_hold_nodes_witness:
  "\<exists>w' ns. getRegisteredNodes mem_kazoo stc_one 9 (sw_of z_node) = (Inr (), w') \<and>
     nodeIterator mem_kazoo None False False 9 z_node = Inr ns \<and>
     (\<Sum>x \<leftarrow> st_slots w'. mset (List.map_filter id (snd x))) = mset (filter (counts_as_registered stc_one) ns)"
proof -
  obtain w' where w': "getRegisteredNodes mem_kazoo stc_one 9 (sw_of z_node) = (Inr (), w')"
    using static_read by (metis prod.collapse)
  from static_slots_hold_nodes [OF w'] w' show ?thesis by (auto simp: sw_of_def)
qed

text \<open>
  C26: The notification that a node was deleted changes ZooKeeper only when the provider still runs, the
  node's machine is configured, the number of the node's own slot is below the machine's parallel jobs,
  and in the slots just read from ZooKeeper the machine has that very slot free and none that holds the
  node. The change is then the storing of one new node with that slot number.
\<close>
theorem static_reregister_only_free:
  assumes "zw_zk (snd (nodeDeletedNotification K N cfg now n w)) \<noteq> zw_zk w"
  shows "\<not> st_idle w \<and> (\<exists>s ns slots i xs j m e m1. map_of (poolNodes cfg) (nodeTuple n) = Some s \<and>
      nodeIterator K None False False now (zw_zk w) = Inr ns \<and> registered_slots cfg ns = Inr slots \<and>
      (n_slot n = JNum (of_int i) \<or> n_slot n = JBool (i = 1) \<and> i \<in> {0, 1}) \<and> i < sn_max_parallel_jobs s \<and>
      map_of slots (nodeTuple n) = Some xs \<and> py_index i xs = Inr j \<and> xs ! j = None \<and>
      (\<forall>k. Some k \<in> set xs \<longrightarrow> \<not> node_eq k n) \<and>
      n_slot m = JNum (of_int i) \<and> o_id m = None \<and>
      storeNode K now m (zw_zk w) = (e, m1, zw_zk (snd (nodeDeletedNotification K N cfg now n w))))"
proof -
  from nodeDeleted_changes [OF assms] obtain s ns slots i m e m1 where idle: "\<not> st_idle w"
    and *: "map_of (poolNodes cfg) (nodeTuple n) = Some s" "nodeIterator K None False False now (zw_zk w) = Inr ns"
      "registered_slots cfg ns = Inr slots" and fill: "slot_to_fill s slots n = Inr (Some i)"
    and m: "n_slot m = JNum (of_int i)" "o_id m = None"
      "storeNode K now m (zw_zk w) = (e, m1, zw_zk (snd (nodeDeletedNotification K N cfg now n w)))" by blast
  from slot_to_fill_free(3) [OF fill] obtain xs j where "map_of slots (nodeTuple n) = Some xs"
    "py_index i xs = Inr j" "xs ! j = None" "\<forall>k. Some k \<in> set xs \<longrightarrow> \<not> node_eq k n" by blast
  with idle * m slot_to_fill_free(1,2) [OF fill] show ?thesis by blast
qed

definition sw_read :: "mem_zk st_world" where
  "sw_read = snd (getRegisteredNodes mem_kazoo stc_one 9 (sw_of z_node))"

lemma static_free: "map_of (st_slots sw_read) (nodeTuple n_static) = Some [None, None]"
  by code_simp

lemma static_fill: "slot_to_fill sn_one (st_slots sw_read) n_static = Inr (Some 1)"
  using static_free
  by (simp add: slot_to_fill_def sn_one_def n_static_def index_of_json_def py_index_def)

lemma fake_host: "checkHost nw_one sn_one = Inr [''ssh-rsa FAKEKEY'']"
proof -
  have "occurs_in ''fake'' ''fake''" by code_simp
  then show ?thesis by (simp add: checkHost_def scan_static_def nodescan_def sn_one_def del: occurs_in.simps)
qed

lemma fake_node: "\<exists>n. static_node_of nw_one p pool sn_one ks 1 9 = Inr n"
proof -
  have "occurs_in ''fake'' ''fake''" by code_simp
  then show ?thesis
    by (simp add: static_node_of_def node_state_ready set_node_ip_def sn_one_def del: occurs_in.simps)
qed

lemma z_node_room:
  "(let z1 = mem_make_parents (NODE_ROOT @ ''/'') z_node
    in map_of (mz_nodes z1) ((NODE_ROOT @ ''/'') @ seq_str (mem_count (mem_parent (NODE_ROOT @ ''/'')) z1))) = None"
  by code_simp

lemma z_node_created: "\<exists>r. kz_create_seq mem_kazoo (NODE_ROOT @ ''/'') d z_node = Inr r"
  using z_node_room unfolding mem_kazoo_def mem_create_seq_def Let_def by simp

lemma sw_read_zk: "zw_zk sw_read = z_node"
  by (simp add: sw_read_def getRegisteredNodes_def eff_bind_def eff_run zw_read_def sw_of_def split: sum.split)

lemma static_written: "zw_zk (snd (reregister mem_kazoo nw_one stc_one 9 n_static sn_one 1 sw_read)) \<noteq> z_node"
proof -
  obtain n where n: "static_node_of nw_one (n_provider n_static) (snd (hd (stc_pools stc_one))) sn_one
      [''ssh-rsa FAKEKEY''] 1 9 = Inr n"
    using fake_node by blast
  note new = static_node_new [OF n]
  from storeNode_new [OF new z_node_created] obtain n' z' where st: "storeNode mem_kazoo 9 n z_node = (None, n', z')"
    by blast
  have "z' \<noteq> z_node" using mem.storeNode_tree [OF st] new by auto
  with n st show ?thesis
    by (simp add: reregister_def registerNodeFromConfig_def eff_bind_def eff_run fake_host zw_obj_def sw_read_zk
        stc_one_def n_static_def n_ready_def)
qed

lemma static_deleted:
  "snd (nodeDeletedNotification mem_kazoo nw_one stc_one 9 n_static (sw_of z_node)) =
     snd (reregister mem_kazoo nw_one stc_one 9 n_static sn_one 1 sw_read)"
proof -
  have read: "getRegisteredNodes mem_kazoo stc_one 9 (sw_of z_node) = (Inr (), sw_read)"
    using static_read unfolding sw_read_def by (metis prod.collapse)
  have s: "map_of (poolNodes stc_one) (nodeTuple n_static) = Some sn_one" "\<not> st_idle (sw_of z_node)"
    by (simp_all add: poolNodes_def static_nodes_def stc_one_def nodeTuple_def static_tuple_def sn_one_def
        n_static_def sw_of_def)
  show ?thesis
    using read s static_fill
    by (simp add: nodeDeletedNotification_def eff_bind_def eff_try_def eff_seq_def eff_run eff_ignore_run)
qed

theorem static_reregister_only_free_witness:
  "\<exists>ns slots xs m e m1 z. nodeIterator mem_kazoo None False False 9 z_node = Inr ns \<and>
     registered_slots stc_one ns = Inr slots \<and> map_of slots (nodeTuple n_static) = Some xs \<and>
     xs ! 1 = None \<and> n_slot m = JNum 1 \<and> storeNode mem_kazoo 9 m z_node = (e, m1, z)"
proof -
  have zk: "zw_zk (sw_of z_node) = z_node" by (simp add: sw_of_def)
  have "zw_zk (snd (nodeDeletedNotification mem_kazoo nw_one stc_one 9 n_static (sw_of z_node))) \<noteq> zw_zk (sw_of z_node)"
    using static_written unfolding static_deleted by (simp add: sw_of_def)
  from static_reregister_only_free [OF this] obtain ns slots xs i j m e m1 z where
    r: "nodeIterator mem_kazoo None False False 9 z_node = Inr ns"
      "registered_slots stc_one ns = Inr slots" "map_of slots (nodeTuple n_static) = Some xs"
    and i: "n_slot n_static = JNum (of_int i) \<or> n_slot n_static = JBool (i = 1) \<and> i \<in> {0, 1}"
    and free: "py_index i xs = Inr j" "xs ! j = None"
    and m: "n_slot m = JNum (of_int i)" "storeNode mem_kazoo 9 m z_node = (e, m1, z)"
    unfolding zk by blast
  from i have "i = 1" by (simp add: n_static_def)
  with free(1) have "j = 1" by (auto simp: py_index_def split: if_splits)
  with r free(2) m \<open>i = 1\<close> show ?thesis by auto
qed

end
