(* ===== verification/Aws.thy ===== *)
theory Aws
  imports Machines
begin

section \<open>The AWS driver: data and quota\<close>

text \<open>
  \<open>nodepool/driver/aws/adapter.py\<close>, first part: what the EC2 calls return, instances and resources,
  the quota codes of instance, host and volume types, and the quota methods. The clients of boto3 are
  a record of effects on the cloud's state \<open>'c\<close>, which includes the lazy caches in front of the list
  calls: a listing may be old. A \<open>ClientError\<close> carries its code.
\<close>

definition ClientError :: "string \<Rightarrow> pyexc" where
  "ClientError code = OtherError (''ClientError '' @ code)"

fun client_code :: "pyexc \<Rightarrow> string option" where
  "client_code (OtherError s) = (if startswith s ''ClientError '' then Some (drop 12 s) else None)"
| "client_code e = None"

lemma client_code_ClientError [simp]: "client_code (ClientError c) = Some c"
  by (simp add: ClientError_def startswith_iff)

subsection \<open>Configuration\<close>

record aws_pool =
  apl_security_group_id :: "string option"
  apl_subnet_id :: "string option"
  apl_public_ipv4 :: bool
  apl_public_ipv6 :: bool
  apl_az :: "string option"

record aws_label =
  awl_name :: string
  awl_pool :: aws_pool
  awl_image_id :: "string option"         \<comment> \<open>of the cloud image\<close>
  awl_image_filters :: "json option"
  awl_ebs_optimized :: bool
  awl_instance_type :: "string option"
  awl_key_name :: string
  awl_volume_type :: "string option"
  awl_volume_size :: "int option"
  awl_iops :: "int option"
  awl_throughput :: "int option"
  awl_userdata :: "string option"
  awl_iam_profile :: "pydict option"
  awl_tags :: pydict
  awl_dynamic_tags :: "(string \<times> string) list"
  awl_use_spot :: bool
  awl_imdsv2 :: "string option"
  awl_dedicated_host :: bool
  awl_fleet :: "(string list \<times> string) option"    \<comment> \<open>instance types, allocation strategy\<close>

record aws_config =
  awc_name :: string
  awc_region :: string
  awc_labels :: "aws_label list"          \<comment> \<open>of all pools\<close>
  awc_bucket :: "string option"           \<comment> \<open>the bucket of the object storage, if it is configured\<close>
  awc_object_storage :: bool
  awc_import_timeout :: "rat option"
  awc_str :: "json \<Rightarrow> string"             \<comment> \<open>\<open>str\<close> of a tag's value\<close>
  awc_format :: "string \<Rightarrow> pydict \<Rightarrow> string res"   \<comment> \<open>\<open>format\<close> with the request's attributes\<close>

subsection \<open>What the calls return\<close>

type_synonym tags = "(string \<times> string) list"

record aws_host =
  ah_id :: string
  ah_state :: string
  ah_tags :: "tags option"

record aws_instance =
  ai_id :: string
  ai_state :: string
  ai_type :: string
  ai_tags :: "tags option"
  ai_private_ip :: "string option"
  ai_public_ip :: "string option"
  ai_interfaces :: "string option list list"   \<comment> \<open>the IPv6 addresses of each interface\<close>
  ai_az :: "string option"
  ai_host_id :: "string option"
  ai_lifecycle :: "string option"
  ai_volumes :: "string list"

record aws_volume =
  av_id :: string
  av_state :: string
  av_type :: string
  av_iops :: "int option"
  av_size :: "int option"
  av_tags :: "tags option"

record aws_ami =
  am_id :: string
  am_name :: string
  am_state :: string
  am_tags :: "tags option"
  am_devices :: "string option option list"    \<comment> \<open>\<open>Ebs\<close> and its \<open>SnapshotId\<close>\<close>

record aws_snapshot =
  as_id :: string
  as_state :: string
  as_description :: string
  as_tags :: "tags option"

record aws_import_task =
  at_status :: string
  at_tags :: "tags option"
  at_image_id :: string
  at_snapshot_id :: "string option"

record instance_type_info =
  it_cores :: rat
  it_vcpus :: rat
  it_ram :: rat

record 'c aws_api =
  aa_hosts :: "('c, aws_host list) eff"
  aa_instances :: "('c, aws_instance list) eff"
  aa_volumes :: "('c, aws_volume list) eff"
  aa_amis :: "('c, aws_ami list) eff"
  aa_snapshots :: "('c, aws_snapshot list) eff"
  aa_objects :: "('c, string list) eff"
  aa_object_tags :: "string \<Rightarrow> ('c, tags) eff"
  aa_ec2_quotas :: "('c, (string \<times> rat) list) eff"
  aa_ebs_quotas :: "('c, (string \<times> rat) list) eff"
  aa_instance_type :: "string \<Rightarrow> ('c, instance_type_info) eff"
  aa_terminate :: "string list \<Rightarrow> ('c, unit) eff"
  aa_release_hosts :: "string list \<Rightarrow> ('c, unit) eff"
  aa_delete_volume :: "string \<Rightarrow> ('c, unit) eff"
  aa_deregister_image :: "string \<Rightarrow> ('c, unit) eff"
  aa_delete_snapshot :: "string \<Rightarrow> ('c, unit) eff"
  aa_delete_object :: "string \<Rightarrow> ('c, unit) eff"
  aa_create_tags :: "string \<Rightarrow> tags \<Rightarrow> ('c, unit) eff"
  aa_import_image_tasks :: "string \<Rightarrow> ('c, aws_import_task list) eff"
  aa_import_snapshot_tasks :: "string option \<Rightarrow> ('c, aws_import_task list) eff"   \<comment> \<open>one task, or all\<close>
  aa_describe_images :: "json \<Rightarrow> ('c, (string \<times> string) list) eff"   \<comment> \<open>creation date and id\<close>
  aa_image_devices :: "string \<Rightarrow> ('c, json list) eff"       \<comment> \<open>the block devices of an image\<close>
  aa_allocate_hosts :: "pydict \<Rightarrow> ('c, string list) eff"
  aa_run_instances :: "pydict \<Rightarrow> ('c, aws_instance list) eff"
  aa_create_fleet :: "pydict \<Rightarrow> ('c, string list) eff"      \<comment> \<open>the ids of the instances\<close>
  aa_describe_instances :: "string \<Rightarrow> ('c, aws_instance list) eff"
  aa_templates :: "('c, (string \<times> tags) list) eff"
  aa_create_template :: "pydict \<Rightarrow> ('c, unit) eff"
  aa_delete_template :: "string \<Rightarrow> ('c, unit) eff"
  aa_template_name :: "pydict \<Rightarrow> string"                    \<comment> \<open>the hash of the arguments\<close>
  aa_upload_object :: "string \<Rightarrow> pydict \<Rightarrow> ('c, unit) eff"
  aa_import_image :: "pydict \<Rightarrow> ('c, string) eff"           \<comment> \<open>the task's id\<close>
  aa_import_snapshot :: "pydict \<Rightarrow> ('c, string) eff"
  aa_snapshot_size :: "string \<Rightarrow> ('c, int) eff"
  aa_register_image :: "pydict \<Rightarrow> ('c, string) eff"

text \<open>The adapter's own state beside the cloud's.\<close>

record 'c aws_world =
  aw_cloud :: 'c
  aw_instance_queue :: "string list"
  aw_host_queue :: "string list"
  aw_not_images :: "string list"
  aw_not_snapshots :: "string list"

type_synonym ('c, 'a) aws_eff = "('c aws_world, 'a) eff"

definition on_aws :: "('c, 'a) eff \<Rightarrow> ('c, 'a) aws_eff" where
  "on_aws m = eff_zoom aw_cloud (\<lambda>c w. w\<lparr>aw_cloud := c\<rparr>) m"

text \<open>A tag that occurs twice has its last value.\<close>

definition tag_list_to_dict :: "tags option \<Rightarrow> (string \<times> string) list" where
  "tag_list_to_dict ts = (case ts of None \<Rightarrow> [] | Some xs \<Rightarrow> dict_update [] xs)"

definition tag_dict_to_list :: "aws_config \<Rightarrow> pydict \<Rightarrow> json" where
  "tag_dict_to_list cfg d = JList (map (\<lambda>(k, v). JDict [(''Key'', JStr k), (''Value'', JStr (awc_str cfg v))]) d)"

subsection \<open>Instances and resources\<close>

definition first_ipv6 :: "aws_instance \<Rightarrow> json" where
  "first_ipv6 i = (case ai_interfaces i of (a # as) # fs \<Rightarrow> opt_json a | x \<Rightarrow> JNull)"

definition aws_instance_of :: "aws_config \<Rightarrow> aws_instance \<Rightarrow> aws_host option \<Rightarrow> quota \<Rightarrow> cloud_instance" where
  "aws_instance_of cfg i h q =
     instance_init\<lparr>
       in_external_id := JDict ((''instance'', JStr (ai_id i)) #
         (case h of None \<Rightarrow> [] | Some x \<Rightarrow> [(''host'', JStr (ah_id x))])),
       in_metadata := tag_list_to_dict (ai_tags i),
       in_private_ipv4 := opt_json (ai_private_ip i), in_private_ipv6 := Some JNull,
       in_public_ipv4 := opt_json (ai_public_ip i), in_public_ipv6 := first_ipv6 i,
       in_cloud := JStr ''AWS'', in_region := JStr (awc_region cfg), in_az := opt_json (ai_az i),
       in_interface_ip := first_true [opt_json (ai_public_ip i), first_ipv6 i, opt_json (ai_private_ip i), JNull],
       in_quota := Inr q \<rparr>"

record aws_resource = cloud_resource +
  ar_id :: string

definition aws_resource :: "tags option \<Rightarrow> string \<Rightarrow> string \<Rightarrow> aws_resource" where
  "aws_resource ts t i = \<lparr> re_metadata = tag_list_to_dict ts, re_type = t, ar_id = i \<rparr>"

subsection \<open>Quota codes\<close>

definition INSTANCE_QUOTA_CODES :: "(string \<times> string \<times> string) list" where
  "INSTANCE_QUOTA_CODES =
     [(''a'', (''L-1216C47A'', ''L-34B43A08'')), (''c'', (''L-1216C47A'', ''L-34B43A08'')),
      (''d'', (''L-1216C47A'', ''L-34B43A08'')), (''h'', (''L-1216C47A'', ''L-34B43A08'')),
      (''i'', (''L-1216C47A'', ''L-34B43A08'')), (''m'', (''L-1216C47A'', ''L-34B43A08'')),
      (''r'', (''L-1216C47A'', ''L-34B43A08'')), (''t'', (''L-1216C47A'', ''L-34B43A08'')),
      (''z'', (''L-1216C47A'', ''L-34B43A08'')), (''dl'', (''L-6E869C2A'', ''L-85EED4F7'')),
      (''f'', (''L-74FC7D96'', ''L-88CF9481'')), (''g'', (''L-DB2E81BA'', ''L-3819A6DF'')),
      (''vt'', (''L-DB2E81BA'', ''L-3819A6DF'')), (''u-'', (''L-43DA4232'', '''')),
      (''inf'', (''L-1945791B'', ''L-B5D1601B'')), (''p'', (''L-417A185B'', ''L-7212CCBC'')),
      (''x'', (''L-7295265B'', ''L-E3A00192'')), (''trn'', (''L-2C3B7624'', ''L-6B0D517C'')),
      (''hpc'', (''L-F7808C92'', ''''))]"

definition HOST_QUOTA_CODES :: "(string \<times> string) list" where
  "HOST_QUOTA_CODES =
     [(''a1'', ''L-949445B0''), (''c3'', ''L-8D142A2E''), (''c4'', ''L-E4BF28E0''),
      (''c5'', ''L-81657574''), (''c5a'', ''L-03F01FD8''), (''c5d'', ''L-C93F66A2''),
      (''c5n'', ''L-20F13EBD''), (''c6a'', ''L-D75D2E84''), (''c6g'', ''L-A749B537''),
      (''c6gd'', ''L-545AED39''), (''c6gn'', ''L-5E3A299D''), (''c6i'', ''L-5FA3355A''),
      (''c6id'', ''L-1BBC5241''), (''c6in'', ''L-6C2C40CC''), (''c7a'', ''L-698B67E5''),
      (''c7g'', ''L-13B8FCE8''), (''c7gd'', ''L-EF58B059''), (''c7gn'', ''L-97677CE3''),
      (''c7i'', ''L-587AA6E3''), (''d2'', ''L-8B27377A''), (''dl1'', ''L-AD667A3D''),
      (''f1'', ''L-5C4CD236''), (''g3'', ''L-DE82EABA''), (''g3s'', ''L-9675FDCD''),
      (''g4ad'', ''L-FD8E9B9A''), (''g4dn'', ''L-CAE24619''), (''g5'', ''L-A6E7FE5E''),
      (''g5g'', ''L-4714FFEA''), (''g6'', ''L-B88B9D6B''), (''gr6'', ''L-E68C3AFF''),
      (''h1'', ''L-84391ECC''), (''i2'', ''L-6222C1B6''), (''i3'', ''L-8E60B0B1''),
      (''i3en'', ''L-77EE2B11''), (''i4g'', ''L-F62CBADB''), (''i4i'', ''L-0300530D''),
      (''im4gn'', ''L-93155D6F''), (''inf'', ''L-5480EFD2''), (''inf2'', ''L-E5BCF7B5''),
      (''is4gen'', ''L-CB4F5825''), (''m3'', ''L-3C82F907''), (''m4'', ''L-EF30B25E''),
      (''m5'', ''L-8B7BF662''), (''m5a'', ''L-B10F70D6''), (''m5ad'', ''L-74F41837''),
      (''m5d'', ''L-8CCBD91B''), (''m5dn'', ''L-DA07429F''), (''m5n'', ''L-24D7D4AD''),
      (''m5zn'', ''L-BD9BD803''), (''m6a'', ''L-80F2B67F''), (''m6g'', ''L-D50A37FA''),
      (''m6gd'', ''L-84FB37AA''), (''m6i'', ''L-D269BEFD''), (''m6id'', ''L-FDB0A352''),
      (''m6idn'', ''L-9721EDD9''), (''m6in'', ''L-D037CF10''), (''m7a'', ''L-4740F819''),
      (''m7g'', ''L-9126620E''), (''m7gd'', ''L-F8516154''), (''m7i'', ''L-30E31217''),
      (''mac1'', ''L-A8448DC5''), (''mac2'', ''L-5D8DADF5''), (''mac2-m2'', ''L-B90B5B66''),
      (''mac2-m2pro'', ''L-14F120D1''), (''p2'', ''L-2753CF59''), (''p3'', ''L-A0A19F79''),
      (''p3dn'', ''L-B601B3B6''), (''p4d'', ''L-86A789C3''), (''p5'', ''L-5136197D''),
      (''r3'', ''L-B7208018''), (''r4'', ''L-313524BA''), (''r5'', ''L-EA4FD6CF''),
      (''r5a'', ''L-8FE30D52''), (''r5ad'', ''L-EC7178B6''), (''r5b'', ''L-A2D59C67''),
      (''r5d'', ''L-8814B54F''), (''r5dn'', ''L-4AB14223''), (''r5n'', ''L-52EF324A''),
      (''r6a'', ''L-BC1589C5''), (''r6g'', ''L-B6D6065D''), (''r6gd'', ''L-EF284EFB''),
      (''r6i'', ''L-F13A970A''), (''r6id'', ''L-B89271A9''), (''r6idn'', ''L-C4EABC2C''),
      (''r6in'', ''L-EA99608B''), (''r7a'', ''L-4D15192B''), (''r7g'', ''L-67B8B4C7''),
      (''r7gd'', ''L-01137DCE''), (''r7i'', ''L-55E05032''), (''r7iz'', ''L-BC9FCC71''),
      (''t3'', ''L-1586174D''), (''trn1'', ''L-5E4FB836''), (''trn1n'', ''L-39926A58''),
      (''u-12tb1'', ''L-D6994875''), (''u-18tb1'', ''L-5F7FD336''),
      (''u-24tb1'', ''L-FACBE655''), (''u-3tb1'', ''L-7F5506AB''), (''u-6tb1'', ''L-89870E8E''),
      (''u-9tb1'', ''L-98E1FFAC''), (''u7in-16tb'', ''L-75B9BECB''),
      (''u7in-24tb'', ''L-CA51381E''), (''u7in-32tb'', ''L-9D28191F''),
      (''vt1'', ''L-A68CFBF7''), (''x1'', ''L-DE3D9563''), (''x1e'', ''L-DEF8E115''),
      (''x2gd'', ''L-5CC9EA82''), (''x2idn'', ''L-A84ABF80''), (''x2iedn'', ''L-D0AA08B1''),
      (''x2iezn'', ''L-888B4496''), (''z1d'', ''L-F035E935'')]"

definition VOLUME_QUOTA_CODES :: "(string \<times> (string \<times> string) list) list" where
  "VOLUME_QUOTA_CODES =
     [(''io1'', [(''iops'', ''L-B3A130E6''), (''storage'', ''L-FD252861'')]),
      (''io2'', [(''iops'', ''L-8D977E7E''), (''storage'', ''L-09BD8365'')]),
      (''sc1'', [(''storage'', ''L-17AF77E8'')]), (''gp2'', [(''storage'', ''L-D18FCD1D'')]),
      (''gp3'', [(''storage'', ''L-7A658B76'')]),
      (''standard'', [(''storage'', ''L-9CF3C2EB'')]),
      (''st1'', [(''storage'', ''L-82ACEF56'')])]"

datatype market = ON_DEMAND | SPOT

text \<open>\<open>([a-z\-]+)\d.*\<close> and \<open>([a-z\d\-]+)\..*\<close> at the start of a type's name.\<close>

definition is_lower :: "char \<Rightarrow> bool" where
  "is_lower c = (let n = (of_char c :: nat) in 97 \<le> n \<and> n \<le> 122)"

definition key_before :: "(char \<Rightarrow> bool) \<Rightarrow> (char \<Rightarrow> bool) \<Rightarrow> string \<Rightarrow> string option" where
  "key_before P Q s =
     (let k = takeWhile P s; r = dropWhile P s
      in if k \<noteq> [] \<and> r \<noteq> [] \<and> Q (hd r) then Some k else None)"

definition instance_key :: "string \<Rightarrow> string option" where
  "instance_key = key_before (\<lambda>c. is_lower c \<or> c = CHR ''-'') is_digit"

definition host_key :: "string \<Rightarrow> string option" where
  "host_key = key_before (\<lambda>c. is_lower c \<or> is_digit c \<or> c = CHR ''-'') (\<lambda>c. c = CHR ''.'')"

definition getQuotaCodeForInstanceType :: "string \<Rightarrow> market \<Rightarrow> string option" where
  "getQuotaCodeForInstanceType t m =
     (case instance_key t of
        None \<Rightarrow> None
      | Some k \<Rightarrow> (case map_of INSTANCE_QUOTA_CODES k of
                     None \<Rightarrow> None
                   | Some (on_demand, spot) \<Rightarrow> Some (case m of ON_DEMAND \<Rightarrow> on_demand | SPOT \<Rightarrow> spot)))"

definition getQuotaCodeForHostType :: "string \<Rightarrow> string option" where
  "getQuotaCodeForHostType t = (case host_key t of None \<Rightarrow> None | Some k \<Rightarrow> map_of HOST_QUOTA_CODES k)"

text \<open>A code that is missing or empty is no code.\<close>

definition real_code :: "string option \<Rightarrow> string option" where
  "real_code c = (if c = Some [] then None else c)"

definition code_arg :: "string option \<Rightarrow> rat \<Rightarrow> (string \<times> qval) list" where
  "code_arg c v = (case real_code c of None \<Rightarrow> [] | Some k \<Rightarrow> [(k, QNum (Fin v))])"

subsection \<open>Quota of types\<close>

definition getQuotaForInstanceType :: "'c aws_api \<Rightarrow> string \<Rightarrow> market \<Rightarrow> ('c, quota) aws_eff" where
  "getQuotaForInstanceType A t m =
     eff_bind (eff_try (on_aws (aa_instance_type A t))
         (\<lambda>e. eff_raise (if client_code e = Some ''InvalidInstanceType'' then RuntimeConfigurationException else e)))
       (\<lambda>i. eff_ret (quota_init (Some (Fin (it_cores i))) (Some (Fin 1)) (Some (Fin (it_ram i))) (Fin 0)
              (code_arg (getQuotaCodeForInstanceType t m) (it_vcpus i))))"

definition getQuotaForHostType :: "string \<Rightarrow> quota" where
  "getQuotaForHostType t = quota_init None (Some (Fin 1)) None (Fin 0) (code_arg (getQuotaCodeForHostType t) 1)"

definition volume_args :: "string \<Rightarrow> int option \<Rightarrow> int option \<Rightarrow> (string \<times> qval) list" where
  "volume_args t iops storage =
     (let codes = (case map_of VOLUME_QUOTA_CODES t of None \<Rightarrow> [] | Some cs \<Rightarrow> cs);
          arg = (\<lambda>resource v. case (map_of codes resource, v) of
                   (Some c, Some n) \<Rightarrow> [(c, QNum (Fin (of_int n)))] | x \<Rightarrow> [])
      in arg ''iops'' iops @ arg ''storage'' storage)"

text \<open>An existing volume: values of zero do not count. A configured one: they do.\<close>

definition getQuotaForVolume :: "aws_volume \<Rightarrow> quota" where
  "getQuotaForVolume v =
     (let some = (\<lambda>x. if x = Some 0 then None else x)
      in quota_init None None None (Fin 0) (volume_args (av_type v) (some (av_iops v)) (some (av_size v))))"

definition getQuotaForVolumeType :: "string \<Rightarrow> int option \<Rightarrow> int option \<Rightarrow> quota" where
  "getQuotaForVolumeType t storage iops = quota_init None None None (Fin 0) (volume_args t iops storage)"

definition label_market :: "aws_label \<Rightarrow> market" where
  "label_market l = (if awl_use_spot l then SPOT else ON_DEMAND)"

definition str_true :: "string option \<Rightarrow> bool" where
  "str_true x = (x \<noteq> None \<and> x \<noteq> Some [])"

text \<open>\<open>_getQuotaForLabel\<close>: the second argument is the type of the instance that a fleet has chosen.\<close>

definition type_quota :: "'c aws_api \<Rightarrow> aws_label \<Rightarrow> string option \<Rightarrow> ('c, quota) aws_eff" where
  "type_quota A l chosen =
     (if awl_dedicated_host l
      then (case awl_instance_type l of None \<Rightarrow> eff_raise TypeError | Some t \<Rightarrow> eff_ret (getQuotaForHostType t))
      else if awl_fleet l \<noteq> None \<and> chosen = None then eff_ret (quota_init None (Some (Fin 1)) None (Fin 0) [])
      else (case (if str_true (awl_instance_type l) then awl_instance_type l else chosen) of
              None \<Rightarrow> eff_raise (OtherError ''ParamValidationError'')
            | Some t \<Rightarrow> getQuotaForInstanceType A t (label_market l)))"

definition aws_getQuotaForLabel :: "'c aws_api \<Rightarrow> aws_label \<Rightarrow> string option \<Rightarrow> ('c, quota) aws_eff" where
  "aws_getQuotaForLabel A l chosen =
     eff_bind (type_quota A l chosen) (\<lambda>q.
       if str_true (awl_volume_type l)
       then eff_lift (lift_quota (quota_add q
              (getQuotaForVolumeType (the (awl_volume_type l)) (awl_volume_size l) (awl_iops l))))
       else eff_ret q)"

subsection \<open>The limits\<close>

text \<open>
  The types the labels use; a set is a list without repetition, in the order of the first use. (The
  order of a Python set is not specified; it does not matter here, since a code has one limit.)
\<close>

definition label_types :: "aws_label \<Rightarrow> string list" where
  "label_types l =
     (if awl_dedicated_host l then []
      else case awl_instance_type l of
        Some t \<Rightarrow> if t \<noteq> [] then [t] else (case awl_fleet l of None \<Rightarrow> [] | Some (ts, a) \<Rightarrow> ts)
      | None \<Rightarrow> (case awl_fleet l of None \<Rightarrow> [] | Some (ts, a) \<Rightarrow> ts))"

definition instance_codes :: "aws_label list \<Rightarrow> string option list" where
  "instance_codes ls =
     concat (map (\<lambda>l. map (\<lambda>t. getQuotaCodeForInstanceType t (label_market l)) (label_types l)) ls)"

text \<open>A dedicated host of a label without an instance type raises when its name is matched.\<close>

definition host_codes :: "aws_label list \<Rightarrow> string option list res" where
  "host_codes ls = mapE (\<lambda>l. case awl_instance_type l of None \<Rightarrow> Inl TypeError | Some t \<Rightarrow> Inr (getQuotaCodeForHostType t))
     (filter awl_dedicated_host ls)"

definition volume_types :: "aws_label list \<Rightarrow> string list" where
  "volume_types ls = concat (map (\<lambda>l. if str_true (awl_volume_type l) then [the (awl_volume_type l)] else []) ls)"

definition add_limit :: "(string \<times> rat) list \<Rightarrow> string option \<Rightarrow> (string \<times> qval) list \<Rightarrow> (string \<times> qval) list" where
  "add_limit quotas code args =
     (case real_code code of
        None \<Rightarrow> args
      | Some c \<Rightarrow> if map_of args c \<noteq> None then args
                  else (case map_of quotas c of None \<Rightarrow> args | Some v \<Rightarrow> args @ [(c, QNum (Fin v))]))"

text \<open>The limits of storage are in terabytes, what is used in gigabytes.\<close>

definition add_volume_limit ::
  "(string \<times> rat) list \<Rightarrow> string \<times> string \<Rightarrow> (string \<times> qval) list \<Rightarrow> (string \<times> qval) list" where
  "add_volume_limit quotas rc args =
     (case rc of (resource, c) \<Rightarrow>
        if map_of args c \<noteq> None then args
        else case map_of quotas c of
          None \<Rightarrow> args
        | Some v \<Rightarrow> args @ [(c, QNum (Fin (if resource = ''storage'' then v * 1000 else v)))])"

definition volume_codes :: "string \<Rightarrow> (string \<times> string) list" where
  "volume_codes t = (case map_of VOLUME_QUOTA_CODES t of None \<Rightarrow> [] | Some cs \<Rightarrow> cs)"

definition limit_args :: "aws_label list \<Rightarrow> (string \<times> rat) list \<Rightarrow> (string \<times> rat) list \<Rightarrow> (string \<times> qval) list res" where
  "limit_args ls ec2 ebs =
     bindE (host_codes ls) (\<lambda>hosts.
       Inr (fold (add_volume_limit ebs) (concat (map volume_codes (volume_types ls)))
             (fold (add_limit ec2) (instance_codes ls @ hosts) [])))"

definition aws_getQuotaLimits :: "'c aws_api \<Rightarrow> aws_config \<Rightarrow> ('c, quota) aws_eff" where
  "aws_getQuotaLimits A cfg =
     eff_bind (on_aws (aa_ec2_quotas A)) (\<lambda>ec2.
     eff_bind (on_aws (aa_ebs_quotas A)) (\<lambda>ebs.
     eff_lift (map_sum id (quota_init None None None PosInf) (limit_args (awc_labels cfg) ec2 ebs))))"

subsection \<open>What exists\<close>

definition aws_listInstance :: "'c aws_api \<Rightarrow> aws_config \<Rightarrow> aws_volume list \<Rightarrow> aws_instance \<Rightarrow> ('c, cloud_instance) aws_eff" where
  "aws_listInstance A cfg volumes i =
     eff_bind (if str_true (ai_host_id i) then eff_ret (getQuotaForHostType (ai_type i))
               else getQuotaForInstanceType A (ai_type i)
                      (if ai_lifecycle i = Some ''spot'' then SPOT else ON_DEMAND)) (\<lambda>q.
     eff_bind (eff_fold (\<lambda>v q. case find (\<lambda>x. av_id x = v) (rev volumes) of
                 None \<Rightarrow> eff_ret q
               | Some x \<Rightarrow> eff_lift (lift_quota (quota_add q (getQuotaForVolume x)))) (ai_volumes i) q) (\<lambda>q1.
       eff_ret (aws_instance_of cfg i None q1)))"

definition aws_listInstances :: "'c aws_api \<Rightarrow> aws_config \<Rightarrow> ('c, cloud_instance list) aws_eff" where
  "aws_listInstances A cfg =
     eff_bind (on_aws (aa_volumes A)) (\<lambda>volumes.
     eff_bind (on_aws (aa_instances A)) (\<lambda>instances.
     eff_fold (\<lambda>i acc. eff_bind (aws_listInstance A cfg volumes i) (\<lambda>x. eff_ret (acc @ [x])))
       (filter (\<lambda>i. lower (ai_state i) \<noteq> ''terminated'') instances) []))"

end
