(* ===== verification/AwsMachines.thy ===== *)
theory AwsMachines
  imports Aws
begin

section \<open>The AWS driver: instances and hosts\<close>

text \<open>
  \<open>nodepool/driver/aws/adapter.py\<close>, second part: the arguments instances and hosts are created with,
  the queues of deletions with the thread that empties them, and the two state machines. Instances and
  hosts are created in threads of an executor: what the machine waits for is a \<open>future\<close>, which the
  executor's step makes \<open>Done\<close>.
\<close>

subsection \<open>Creating\<close>

text \<open>\<open>_allocateHost\<close>; the host that is returned is only known by its id.\<close>

definition host_args :: "aws_config \<Rightarrow> aws_label \<Rightarrow> pydict \<Rightarrow> pydict" where
  "host_args cfg l ts =
     [(''AutoPlacement'', JStr ''off''), (''AvailabilityZone'', opt_json (apl_az (awl_pool l))),
      (''InstanceType'', opt_json (awl_instance_type l)), (''Quantity'', JNum 1),
      (''HostRecovery'', JStr ''off''), (''HostMaintenance'', JStr ''off''),
      (''TagSpecifications'', JList [JDict [(''ResourceType'', JStr ''dedicated-host''),
         (''Tags'', tag_dict_to_list cfg ts)]])]"

definition first_of :: "'a list \<Rightarrow> 'a res" where
  "first_of xs = (case xs of [] \<Rightarrow> Inl IndexError | x # ys \<Rightarrow> Inr x)"

definition allocateHost :: "'c aws_api \<Rightarrow> aws_config \<Rightarrow> aws_label \<Rightarrow> pydict \<Rightarrow> ('c, aws_host) aws_eff" where
  "allocateHost A cfg l ts =
     eff_bind (on_aws (aa_allocate_hosts A (host_args cfg l ts))) (\<lambda>ids.
     eff_bind (eff_lift (first_of ids)) (\<lambda>i.
       eff_ret \<lparr> ah_id = i, ah_state = ''pending'', ah_tags = None \<rparr>))"

definition opt_arg :: "string \<Rightarrow> json \<Rightarrow> pydict" where
  "opt_arg k v = (if truthy v then [(k, v)] else [])"

definition opt_int :: "int option \<Rightarrow> json" where
  "opt_int n = (case n of None \<Rightarrow> JNull | Some i \<Rightarrow> JNum (of_int i))"

definition network_arg :: "aws_label \<Rightarrow> json" where
  "network_arg l =
     JDict ([(''AssociatePublicIpAddress'', JBool (apl_public_ipv4 (awl_pool l))), (''DeviceIndex'', JNum 0)] @
       (if str_true (apl_security_group_id (awl_pool l))
        then [(''Groups'', JList [opt_json (apl_security_group_id (awl_pool l))])] else []) @
       opt_arg ''SubnetId'' (opt_json (apl_subnet_id (awl_pool l))) @
       (if apl_public_ipv6 (awl_pool l) then [(''Ipv6AddressCount'', JNum 1)] else []))"

definition resource_tags :: "aws_config \<Rightarrow> pydict \<Rightarrow> json" where
  "resource_tags cfg ts = JList (map (\<lambda>t. JDict [(''ResourceType'', JStr t), (''Tags'', tag_dict_to_list cfg ts)])
     [''instance'', ''volume''])"

definition profile_arg :: "aws_label \<Rightarrow> pydict" where
  "profile_arg l =
     (case awl_iam_profile l of
        None \<Rightarrow> []
      | Some d \<Rightarrow>
          if dhas d ''name'' then [(''IamInstanceProfile'', JDict [(''Name'', dget d ''name'')])]
          else if dhas d ''arn'' then [(''IamInstanceProfile'', JDict [(''Arn'', dget d ''arn'')])]
          else [])"

text \<open>The first block device of the image, made to go with the instance, without \<open>Encrypted\<close>.\<close>

definition ebs_settings :: "aws_label \<Rightarrow> pydict" where
  "ebs_settings l =
     [(''DeleteOnTermination'', JBool True)] @ opt_arg ''VolumeSize'' (opt_int (awl_volume_size l)) @
     opt_arg ''VolumeType'' (opt_json (awl_volume_type l)) @ opt_arg ''Iops'' (opt_int (awl_iops l)) @
     opt_arg ''Throughput'' (opt_int (awl_throughput l))"

definition device_arg :: "aws_label \<Rightarrow> json list \<Rightarrow> pydict res" where
  "device_arg l devices =
     (case devices of
        [] \<Rightarrow> Inr []
      | d # ds \<Rightarrow> bindE (dict_of d) (\<lambda>m.
          if \<not> dhas m ''Ebs'' then Inr []
          else bindE (dict_of (dget m ''Ebs'')) (\<lambda>e.
            let e1 = filter (\<lambda>(k, v). k \<noteq> ''Encrypted'') (dict_update e (ebs_settings l))
            in Inr [(''BlockDeviceMappings'', JList [JDict (AList.update ''Ebs'' (JDict e1) m)])])))"

definition spot_arg :: "aws_label \<Rightarrow> pydict" where
  "spot_arg l = (if awl_use_spot l
     then [(''InstanceMarketOptions'', JDict [(''MarketType'', JStr ''spot''), (''SpotOptions'',
            JDict [(''SpotInstanceType'', JStr ''one-time''), (''InstanceInterruptionBehavior'', JStr ''terminate'')])])]
     else [])"

definition metadata_arg :: "aws_label \<Rightarrow> pydict" where
  "metadata_arg l =
     (if awl_imdsv2 l = Some ''required'' \<or> awl_imdsv2 l = Some ''optional''
      then [(''MetadataOptions'', JDict [(''HttpTokens'', opt_json (awl_imdsv2 l)), (''HttpEndpoint'', JStr ''enabled'')])]
      else [])"

definition placement_arg :: "aws_label \<Rightarrow> string option \<Rightarrow> pydict" where
  "placement_arg l host =
     (let p = (if str_true host
               then [(''Tenancy'', JStr ''host''), (''HostId'', opt_json host), (''Affinity'', JStr ''host'')] else []) @
              opt_arg ''AvailabilityZone'' (opt_json (apl_az (awl_pool l)))
      in if p = [] then [] else [(''Placement'', JDict p)])"

definition instance_args ::
  "aws_config \<Rightarrow> aws_label \<Rightarrow> string \<Rightarrow> pydict \<Rightarrow> string option \<Rightarrow> json list \<Rightarrow> pydict res" where
  "instance_args cfg l img ts host devices =
     bindE (device_arg l devices) (\<lambda>bdm.
       Inr ([(''ImageId'', JStr img), (''MinCount'', JNum 1), (''MaxCount'', JNum 1),
             (''KeyName'', JStr (awl_key_name l)), (''EbsOptimized'', JBool (awl_ebs_optimized l)),
             (''InstanceType'', opt_json (awl_instance_type l)), (''NetworkInterfaces'', JList [network_arg l]),
             (''TagSpecifications'', resource_tags cfg ts)] @
            opt_arg ''UserData'' (opt_json (awl_userdata l)) @ profile_arg l @ bdm @ spot_arg l @
            metadata_arg l @ placement_arg l host))"

definition runInstance ::
  "'c aws_api \<Rightarrow> aws_config \<Rightarrow> aws_label \<Rightarrow> string \<Rightarrow> pydict \<Rightarrow> string option \<Rightarrow> ('c, aws_instance) aws_eff" where
  "runInstance A cfg l img ts host =
     eff_bind (on_aws (aa_image_devices A img)) (\<lambda>devices.
     eff_bind (eff_lift (instance_args cfg l img ts host devices)) (\<lambda>args.
     eff_bind (on_aws (aa_run_instances A args)) (\<lambda>is. eff_lift (first_of is))))"

definition fleet_args :: "aws_config \<Rightarrow> aws_label \<Rightarrow> string list \<times> string \<Rightarrow> string \<Rightarrow> string \<Rightarrow> pydict \<Rightarrow> pydict" where
  "fleet_args cfg l fleet template img ts =
     [(if awl_use_spot l then ''SpotOptions'' else ''OnDemandOptions'', JDict [(''AllocationStrategy'', JStr (snd fleet))]),
      (''TargetCapacitySpecification'', JDict [(''TotalTargetCapacity'', JNum 1),
         (''DefaultTargetCapacityType'', JStr (if awl_use_spot l then ''spot'' else ''on-demand''))]),
      (''LaunchTemplateConfigs'', JList [JDict [
         (''LaunchTemplateSpecification'', JDict [(''LaunchTemplateName'', JStr template), (''Version'', JStr ''$Latest'')]),
         (''Overrides'', JList (map (\<lambda>t. JDict [(''ImageId'', JStr img), (''InstanceType'', JStr t),
             (''SubnetId'', opt_json (apl_subnet_id (awl_pool l)))]) (fst fleet)))]]),
      (''Type'', JStr ''instant''), (''TagSpecifications'', resource_tags cfg ts)]"

subsection \<open>Launch templates\<close>

definition template_args :: "aws_config \<Rightarrow> (string \<Rightarrow> string) \<Rightarrow> aws_label \<Rightarrow> pydict" where
  "template_args cfg base64 l =
     [(''LaunchTemplateData'', JDict ([(''KeyName'', JStr (awl_key_name l)),
         (''SecurityGroupIds'', JList [opt_json (apl_security_group_id (awl_pool l))]),
         (''BlockDeviceMappings'', JList [JDict [(''DeviceName'', JStr ''/dev/sda1''), (''Ebs'', JDict (ebs_settings l))]])] @
         metadata_arg l @
         (if str_true (awl_userdata l) then [(''UserData'', JStr (base64 (the (awl_userdata l))))] else []))),
      (''TagSpecifications'', JList [JDict [(''ResourceType'', JStr ''launch-template''),
         (''Tags'', tag_dict_to_list cfg [(''nodepool_managed'', JBool True), (''nodepool_provider_name'', JStr (awc_name cfg))])]])]"

definition label_template :: "'c aws_api \<Rightarrow> aws_config \<Rightarrow> (string \<Rightarrow> string) \<Rightarrow> aws_label \<Rightarrow> string" where
  "label_template A cfg base64 l = aa_template_name A (template_args cfg base64 l)"

text \<open>A template that somebody else has just created is as good as ours; other client errors are raised.\<close>

definition create_template ::
  "'c aws_api \<Rightarrow> aws_config \<Rightarrow> (string \<Rightarrow> string) \<Rightarrow> string list \<Rightarrow> aws_label \<Rightarrow> string list \<Rightarrow> ('c, string list) aws_eff" where
  "create_template A cfg base64 existing l made =
     (let name = label_template A cfg base64 l in
      if name \<in> set existing \<or> name \<in> set made then eff_ret made
      else eff_try (eff_seq (on_aws (aa_create_template A
                               (template_args cfg base64 l @ [(''LaunchTemplateName'', JStr name)])))
                      (eff_ret (name # made)))
             (\<lambda>e. case client_code e of
                    None \<Rightarrow> eff_ret made
                  | Some c \<Rightarrow> if c = ''InvalidLaunchTemplateName.AlreadyExistsException'' then eff_ret made
                              else eff_raise e))"

text \<open>
  The templates that no label uses any more, and that carry the name of this provider; once for each
  tag that matches.
\<close>

definition drop_template :: "'c aws_api \<Rightarrow> aws_config \<Rightarrow> string list \<Rightarrow> string \<times> tags \<Rightarrow> ('c, unit) aws_eff" where
  "drop_template A cfg configured t =
     (if fst t \<in> set configured then eff_ret ()
      else eff_each (\<lambda>tag. eff_when (tag = (''nodepool_provider_name'', awc_name cfg))
                              (on_aws (aa_delete_template A (fst t)))) (snd t))"

definition createLaunchTemplates :: "'c aws_api \<Rightarrow> aws_config \<Rightarrow> (string \<Rightarrow> string) \<Rightarrow> ('c, unit) aws_eff" where
  "createLaunchTemplates A cfg base64 =
     (let fleet = filter (\<lambda>l. awl_fleet l \<noteq> None) (awc_labels cfg) in
      if fleet = [] then eff_ret ()
      else eff_bind (on_aws (aa_templates A)) (\<lambda>ts.
        let existing = dict_update [] ts in
        eff_bind (eff_fold (create_template A cfg base64 (map fst existing)) fleet []) (\<lambda>made.
          eff_each (drop_template A cfg (map (label_template A cfg base64) fleet)) existing)))"

definition createFleet ::
  "'c aws_api \<Rightarrow> aws_config \<Rightarrow> string \<Rightarrow> aws_label \<Rightarrow> string list \<times> string \<Rightarrow> string \<Rightarrow> pydict \<Rightarrow> ('c, aws_instance) aws_eff" where
  "createFleet A cfg template l fleet img ts =
     eff_bind (on_aws (aa_create_fleet A (fleet_args cfg l fleet template img ts))) (\<lambda>ids.
     eff_bind (eff_lift (first_of ids)) (\<lambda>i.
     eff_bind (on_aws (aa_describe_instances A i)) (\<lambda>is. eff_lift (first_of is))))"

text \<open>The image of a label: the one that was built, or the newest one its filters match.\<close>

fun newest_image :: "(string \<times> string) list \<Rightarrow> (string \<times> string) option" where
  "newest_image [] = None"
| "newest_image (x # xs) = (case newest_image xs of
     None \<Rightarrow> Some x | Some y \<Rightarrow> Some (if fst x < fst y then y else x))"

definition getImageId :: "'c aws_api \<Rightarrow> aws_label \<Rightarrow> ('c, string) aws_eff" where
  "getImageId A l =
     (case awl_image_filters l of
        Some fs \<Rightarrow> eff_bind (on_aws (aa_describe_images A fs)) (\<lambda>images.
                     case newest_image images of None \<Rightarrow> eff_raise GenericException | Some (d, i) \<Rightarrow> eff_ret i)
      | None \<Rightarrow> (case awl_image_id l of None \<Rightarrow> eff_raise (OtherError ''ParamValidationError'') | Some i \<Rightarrow> eff_ret i))"

definition createInstance ::
  "'c aws_api \<Rightarrow> aws_config \<Rightarrow> (string \<Rightarrow> string) \<Rightarrow> aws_label \<Rightarrow> string option \<Rightarrow> pydict \<Rightarrow> string option \<Rightarrow>
     ('c, aws_instance) aws_eff" where
  "createInstance A cfg base64 l img ts host =
     eff_bind (if str_true img then eff_ret (the img) else getImageId A l) (\<lambda>i.
       case awl_fleet l of
         Some fleet \<Rightarrow> createFleet A cfg (label_template A cfg base64 l) l fleet i ts
       | None \<Rightarrow> runInstance A cfg l i ts host)"

end
