(* ===== verification/AwsLife.thy ===== *)
theory AwsLife
  imports AwsMachines
begin

section \<open>The AWS driver: the state machines\<close>

text \<open>
  \<open>nodepool/driver/aws/adapter.py\<close>, third part: deleting instances and hosts in batches, looking up
  their state, and the machines that create and delete them.
\<close>

subsection \<open>Deleting\<close>

definition aws_deleteInstance :: "'c aws_api \<Rightarrow> json \<Rightarrow> bool \<Rightarrow> ('c, aws_instance option) aws_eff" where
  "aws_deleteInstance A external_id immediate =
     eff_bind (on_aws (aa_instances A)) (\<lambda>is.
       case find (\<lambda>i. JStr (ai_id i) = external_id) is of
         None \<Rightarrow> eff_ret None
       | Some i \<Rightarrow>
           eff_seq (if immediate then on_aws (aa_terminate A [ai_id i])
                    else eff_mod (\<lambda>w. w\<lparr>aw_instance_queue := aw_instance_queue w @ [ai_id i]\<rparr>))
             (eff_ret (Some i)))"

definition releaseHost :: "'c aws_api \<Rightarrow> json \<Rightarrow> bool \<Rightarrow> ('c, aws_host option) aws_eff" where
  "releaseHost A external_id immediate =
     eff_bind (on_aws (aa_hosts A)) (\<lambda>hs.
       case find (\<lambda>h. JStr (ah_id h) = external_id) hs of
         None \<Rightarrow> eff_ret None
       | Some h \<Rightarrow>
           eff_seq (if immediate then on_aws (aa_release_hosts A [ah_id h])
                    else eff_mod (\<lambda>w. w\<lparr>aw_host_queue := aw_host_queue w @ [ah_id h]\<rparr>))
             (eff_ret (Some h)))"

text \<open>\<open>_deleteVolume\<close>, \<open>_deleteAmi\<close> and \<open>_deleteSnapshot\<close> are alike.\<close>

definition delete_listed ::
  "('c, 'r list) eff \<Rightarrow> ('r \<Rightarrow> string) \<Rightarrow> (string \<Rightarrow> ('c, unit) eff) \<Rightarrow> string \<Rightarrow> ('c, 'r option) aws_eff" where
  "delete_listed all id_of delete i =
     eff_bind (on_aws all) (\<lambda>rs.
       case find (\<lambda>r. id_of r = i) rs of
         None \<Rightarrow> eff_ret None
       | Some r \<Rightarrow> eff_seq (on_aws (delete (id_of r))) (eff_ret (Some r)))"

definition deleteVolume :: "'c aws_api \<Rightarrow> string \<Rightarrow> ('c, aws_volume option) aws_eff" where
  "deleteVolume A = delete_listed (aa_volumes A) av_id (aa_delete_volume A)"

definition deleteAmi :: "'c aws_api \<Rightarrow> string \<Rightarrow> ('c, aws_ami option) aws_eff" where
  "deleteAmi A = delete_listed (aa_amis A) am_id (aa_deregister_image A)"

definition deleteSnapshot :: "'c aws_api \<Rightarrow> string \<Rightarrow> ('c, aws_snapshot option) aws_eff" where
  "deleteSnapshot A = delete_listed (aa_snapshots A) as_id (aa_delete_snapshot A)"

text \<open>\<open>_getBatch\<close>: what is there, at most 50.\<close>

definition BATCH :: nat where "BATCH = 50"

definition get_batch :: "string list \<Rightarrow> string list \<times> string list" where
  "get_batch queue = (take BATCH queue, drop BATCH queue)"

text \<open>A batch has left its queue before the call that deletes it.\<close>

definition deleteThreadInner :: "'c aws_api \<Rightarrow> ('c, unit) aws_eff" where
  "deleteThreadInner A =
     eff_bind (eff_get (\<lambda>w. fst (get_batch (aw_instance_queue w)))) (\<lambda>ids.
     eff_seq (eff_mod (\<lambda>w. w\<lparr>aw_instance_queue := snd (get_batch (aw_instance_queue w))\<rparr>))
     (eff_seq (eff_when (ids \<noteq> []) (on_aws (aa_terminate A ids)))
     (eff_bind (eff_get (\<lambda>w. fst (get_batch (aw_host_queue w)))) (\<lambda>hosts.
      eff_seq (eff_mod (\<lambda>w. w\<lparr>aw_host_queue := snd (get_batch (aw_host_queue w))\<rparr>))
        (eff_when (hosts \<noteq> []) (on_aws (aa_release_hosts A hosts)))))))"

definition deleteThread_round :: "'c aws_api \<Rightarrow> ('c, unit) aws_eff" where
  "deleteThread_round A = eff_ignore (deleteThreadInner A)"

subsection \<open>Looking up\<close>

definition refresh_instance :: "'c aws_api \<Rightarrow> aws_instance \<Rightarrow> ('c, aws_instance) aws_eff" where
  "refresh_instance A i =
     eff_bind (on_aws (aa_instances A)) (\<lambda>is.
       eff_ret (case find (\<lambda>j. ai_id j = ai_id i) is of None \<Rightarrow> i | Some j \<Rightarrow> j))"

definition refresh_host :: "'c aws_api \<Rightarrow> aws_host \<Rightarrow> ('c, aws_host) aws_eff" where
  "refresh_host A h =
     eff_bind (on_aws (aa_hosts A)) (\<lambda>hs.
       eff_ret (case find (\<lambda>j. ah_id j = ah_id h) hs of None \<Rightarrow> h | Some j \<Rightarrow> j))"

text \<open>\<open>_refreshDelete\<close>: none when it is gone.\<close>

definition live_instance :: "aws_instance list \<Rightarrow> string \<Rightarrow> aws_instance option" where
  "live_instance is i = (case find (\<lambda>j. ai_id j = i) is of
     None \<Rightarrow> None | Some j \<Rightarrow> if lower (ai_state j) = ''terminated'' then None else Some j)"

definition live_host :: "aws_host list \<Rightarrow> string \<Rightarrow> aws_host option" where
  "live_host hs i = (case find (\<lambda>j. ah_id j = i) hs of
     None \<Rightarrow> None
   | Some j \<Rightarrow> if lower (ah_state j) \<in> {''released'', ''released-permanent-failure''} then None else Some j)"

definition refresh_delete_instance :: "'c aws_api \<Rightarrow> aws_instance option \<Rightarrow> ('c, aws_instance option) aws_eff" where
  "refresh_delete_instance A i =
     (case i of
        None \<Rightarrow> eff_ret None
      | Some x \<Rightarrow> eff_bind (on_aws (aa_instances A)) (\<lambda>is. eff_ret (live_instance is (ai_id x))))"

definition refresh_delete_host :: "'c aws_api \<Rightarrow> aws_host option \<Rightarrow> ('c, aws_host option) aws_eff" where
  "refresh_delete_host A h =
     (case h of
        None \<Rightarrow> eff_ret None
      | Some x \<Rightarrow> eff_bind (on_aws (aa_hosts A)) (\<lambda>hs. eff_ret (live_host hs (ah_id x))))"

subsection \<open>The delete machine\<close>

text \<open>\<open>k in external_id\<close> and \<open>external_id[k]\<close>.\<close>

fun ext_has :: "string \<Rightarrow> json \<Rightarrow> bool res" where
  "ext_has k (JDict d) = Inr (dhas d k)"
| "ext_has k (JList xs) = Inr (JStr k \<in> set xs)"
| "ext_has k v = Inl TypeError"

fun ext_at :: "string \<Rightarrow> json \<Rightarrow> json res" where
  "ext_at k (JDict d) = (case map_of d k of None \<Rightarrow> Inl KeyError | Some v \<Rightarrow> Inr v)"
| "ext_at k v = Inl TypeError"

definition HOST_RELEASING_START :: string where "HOST_RELEASING_START = ''start releasing host''"
definition HOST_RELEASING :: string where "HOST_RELEASING = ''releasing host''"
definition INSTANCE_DELETING_START :: string where "INSTANCE_DELETING_START = ''start deleting instance''"
definition INSTANCE_DELETING :: string where "INSTANCE_DELETING = ''deleting instance''"
definition AWS_COMPLETE :: string where "AWS_COMPLETE = ''complete''"

record aws_delete =
  dl_instance :: "aws_instance option"
  dl_host :: "aws_host option"

type_synonym ('c, 'a) aws_del = "(aws_delete, 'c aws_world, 'a) run_eff"

definition aws_getDeleteStateMachine :: "json \<Rightarrow> rat \<Rightarrow> aws_delete state_machine" where
  "aws_getDeleteStateMachine external_id clk =
     (sm_init clk \<lparr> dl_instance = None, dl_host = None \<rparr>)\<lparr> sm_external_id :=
        (case external_id of JStr s \<Rightarrow> JDict [(''instance'', JStr s)] | v \<Rightarrow> v) \<rparr>"

definition ext_check :: "string \<Rightarrow> ('c, bool) aws_del" where
  "ext_check k = eff_read (\<lambda>r. ext_has k (sm_external_id (ru_machine r)))"

definition ext_part :: "string \<Rightarrow> ('c, json) aws_del" where
  "ext_part k = eff_read (\<lambda>r. ext_at k (sm_external_id (ru_machine r)))"

definition del_start :: "('c, unit) aws_del" where
  "del_start = eff_bind (ext_check ''instance'') (\<lambda>i.
     if i then goto INSTANCE_DELETING_START
     else eff_bind (ext_check ''host'') (\<lambda>h. if h then goto HOST_RELEASING_START else goto AWS_COMPLETE))"

definition del_instance_start :: "'c aws_api \<Rightarrow> ('c, unit) aws_del" where
  "del_instance_start A =
     eff_bind (ext_part ''instance'') (\<lambda>i.
     eff_bind (on_world (aws_deleteInstance A i False)) (\<lambda>x.
     eff_seq (upd_more (\<lambda>d. d\<lparr>dl_instance := x\<rparr>)) (goto INSTANCE_DELETING)))"

definition del_instance :: "'c aws_api \<Rightarrow> ('c, unit) aws_del" where
  "del_instance A =
     eff_bind (get_more dl_instance) (\<lambda>i.
     eff_bind (on_world (refresh_delete_instance A i)) (\<lambda>x.
     eff_seq (upd_more (\<lambda>d. d\<lparr>dl_instance := x\<rparr>))
       (if x \<noteq> None then eff_ret ()
        else eff_bind (ext_check ''host'') (\<lambda>h. if h then goto HOST_RELEASING_START else goto AWS_COMPLETE))))"

definition del_host_start :: "'c aws_api \<Rightarrow> ('c, unit) aws_del" where
  "del_host_start A =
     eff_bind (ext_part ''host'') (\<lambda>h.
     eff_bind (on_world (releaseHost A h False)) (\<lambda>x.
     eff_seq (upd_more (\<lambda>d. d\<lparr>dl_host := x\<rparr>)) (goto HOST_RELEASING)))"

definition del_host :: "'c aws_api \<Rightarrow> ('c, unit) aws_del" where
  "del_host A =
     eff_bind (get_more dl_host) (\<lambda>h.
     eff_bind (on_world (refresh_delete_host A h)) (\<lambda>x.
     eff_seq (upd_more (\<lambda>d. d\<lparr>dl_host := x\<rparr>)) (if x = None then goto AWS_COMPLETE else eff_ret ())))"

definition aws_delete_advance :: "'c aws_api \<Rightarrow> ('c, unit option) aws_del" where
  "aws_delete_advance A =
     then_go (in_state SM_START (go_on del_start))
     (then_go (in_state INSTANCE_DELETING_START (go_on (del_instance_start A)))
     (then_go (in_state INSTANCE_DELETING (go_on (del_instance A)))
     (then_go (in_state HOST_RELEASING_START (go_on (del_host_start A)))
     (then_go (in_state HOST_RELEASING (go_on (del_host A)))
       (in_complete AWS_COMPLETE (eff_ret ()))))))"

subsection \<open>The create machine\<close>

definition HOST_ALLOCATING_START :: string where "HOST_ALLOCATING_START = ''start allocating host''"
definition HOST_ALLOCATING_SUBMIT :: string where "HOST_ALLOCATING_SUBMIT = ''submit allocating host''"
definition HOST_ALLOCATING :: string where "HOST_ALLOCATING = ''allocating host''"
definition INSTANCE_CREATING_START :: string where "INSTANCE_CREATING_START = ''start creating instance''"
definition INSTANCE_CREATING_SUBMIT :: string where "INSTANCE_CREATING_SUBMIT = ''submit creating instance''"
definition INSTANCE_CREATING :: string where "INSTANCE_CREATING = ''creating instance''"

record aws_create =
  cr_label :: aws_label
  cr_image :: "string option"
  cr_tags :: pydict
  cr_host_future :: "aws_host future option"
  cr_future :: "aws_instance future option"
  cr_host :: "aws_host option"
  cr_instance :: "aws_instance option"
  cr_dedicated :: "string option"

type_synonym ('c, 'a) aws_cre = "(aws_create, 'c aws_world, 'a) run_eff"

text \<open>A dynamic tag that cannot be formatted is logged and left as it is.\<close>

definition format_tags :: "aws_config \<Rightarrow> aws_label \<Rightarrow> node_request \<Rightarrow> pydict" where
  "format_tags cfg l r =
     foldl (\<lambda>ts (k, v). case awc_format cfg v (request_safe_attributes r) of
                Inl e \<Rightarrow> ts | Inr s \<Rightarrow> AList.update k (JStr s) ts)
       (awl_tags l) (awl_dynamic_tags l)"

definition aws_getCreateStateMachine ::
  "aws_config \<Rightarrow> aws_label \<Rightarrow> string \<Rightarrow> string option \<Rightarrow> (string \<times> string) list \<Rightarrow> node_request \<Rightarrow> rat \<Rightarrow>
     aws_create state_machine" where
  "aws_getCreateStateMachine cfg l hostname img metadata r clk =
     (sm_init clk \<lparr> cr_label = l, cr_image = img,
        cr_tags = AList.update ''Name'' (JStr hostname)
          (dict_update (format_tags cfg l r) (map (\<lambda>(k, v). (k, JStr v)) metadata)),
        cr_host_future = None, cr_future = None, cr_host = None, cr_instance = None,
        cr_dedicated = None \<rparr>)\<lparr> sm_external_id := JDict [] \<rparr>"

text \<open>\<open>self.external_id[k] = v\<close>, on the dictionary the machine starts with.\<close>

fun ext_put :: "string \<Rightarrow> string \<Rightarrow> json \<Rightarrow> json" where
  "ext_put k v (JDict d) = JDict (AList.update k (JStr v) d)"
| "ext_put k v e = e"

text \<open>The errors of the two calls that name a full quota or a cloud without capacity.\<close>

definition capacity_error :: "string \<Rightarrow> pyexc \<Rightarrow> pyexc" where
  "capacity_error limit_code e =
     (if client_code e = Some limit_code then QuotaException
      else if client_code e = Some ''InsufficientInstanceCapacity'' then CapacityException
      else e)"

definition complete_future :: "string \<Rightarrow> 'a future option \<Rightarrow> 'a option res" where
  "complete_future limit_code f =
     (case f of
        None \<Rightarrow> Inl AttributeError
      | Some Running \<Rightarrow> Inr None
      | Some (Done (Inl e)) \<Rightarrow> Inl (capacity_error limit_code e)
      | Some (Done (Inr x)) \<Rightarrow> Inr (Some x))"

definition cre_start :: "('c, unit) aws_cre" where
  "cre_start = eff_bind (get_more (awl_dedicated_host \<circ> cr_label)) (\<lambda>d.
     goto (if d then HOST_ALLOCATING_START else INSTANCE_CREATING_START))"

definition cre_host_start :: "('c, unit) aws_cre" where
  "cre_host_start = eff_seq (upd_more (\<lambda>c. c\<lparr>cr_host_future := Some Running\<rparr>)) (goto HOST_ALLOCATING_SUBMIT)"

definition cre_host_submit :: "('c, bool) aws_cre" where
  "cre_host_submit =
     eff_bind (get_more cr_host_future) (\<lambda>f.
     eff_bind (eff_lift (complete_future ''HostLimitExceeded'' f)) (\<lambda>x.
       case x of
         None \<Rightarrow> eff_ret False
       | Some h \<Rightarrow> go_on (eff_seq (upd_more (\<lambda>c. c\<lparr>cr_host := Some h\<rparr>))
                          (eff_seq (set_ext (ext_put ''host'' (ah_id h))) (goto HOST_ALLOCATING)))))"

definition cre_host :: "'c aws_api \<Rightarrow> ('c, bool) aws_cre" where
  "cre_host A =
     eff_bind (get_more cr_host) (\<lambda>h. case h of None \<Rightarrow> eff_raise TypeError | Some h0 \<Rightarrow>
     eff_bind (on_world (refresh_host A h0)) (\<lambda>h1.
     eff_seq (upd_more (\<lambda>c. c\<lparr>cr_host := Some h1\<rparr>))
       (let s = lower (ah_state h1) in
        if s = ''available''
        then go_on (eff_seq (upd_more (\<lambda>c. c\<lparr>cr_dedicated := Some (ah_id h1)\<rparr>)) (goto INSTANCE_CREATING_START))
        else if s \<in> {''permanent-failure'', ''released'', ''released-permanent-failure''}
        then eff_raise LaunchStatusException
        else eff_ret False)))"

definition cre_instance_start :: "('c, unit) aws_cre" where
  "cre_instance_start = eff_seq (upd_more (\<lambda>c. c\<lparr>cr_future := Some Running\<rparr>)) (goto INSTANCE_CREATING_SUBMIT)"

definition cre_instance_submit :: "'c aws_api \<Rightarrow> ('c, bool) aws_cre" where
  "cre_instance_submit A =
     eff_bind (get_more cr_future) (\<lambda>f.
     eff_bind (eff_lift (complete_future ''VolumeLimitExceeded'' f)) (\<lambda>x.
       case x of
         None \<Rightarrow> eff_ret False
       | Some i \<Rightarrow> go_on (eff_seq (upd_more (\<lambda>c. c\<lparr>cr_instance := Some i\<rparr>))
                          (eff_seq (set_ext (ext_put ''instance'' (ai_id i)))
                          (eff_bind (get_more cr_label) (\<lambda>l.
                           eff_bind (on_world (aws_getQuotaForLabel A l None)) (\<lambda>q. goto INSTANCE_CREATING)))))))"

definition cre_instance :: "'c aws_api \<Rightarrow> ('c, bool) aws_cre" where
  "cre_instance A =
     eff_bind (get_more cr_instance) (\<lambda>i. case i of None \<Rightarrow> eff_raise TypeError | Some i0 \<Rightarrow>
     eff_bind (on_world (refresh_instance A i0)) (\<lambda>i1.
     eff_seq (upd_more (\<lambda>c. c\<lparr>cr_instance := Some i1\<rparr>))
       (if lower (ai_state i1) = ''running'' then go_on (goto AWS_COMPLETE)
        else if lower (ai_state i1) = ''terminated'' then eff_raise LaunchStatusException
        else eff_ret False)))"

definition cre_result :: "'c aws_api \<Rightarrow> aws_config \<Rightarrow> ('c, cloud_instance) aws_cre" where
  "cre_result A cfg =
     eff_bind (get_more (\<lambda>c. (cr_label c, cr_instance c, cr_host c))) (\<lambda>(l, i, h).
       case i of None \<Rightarrow> eff_raise TypeError | Some x \<Rightarrow>
       eff_bind (on_world (aws_getQuotaForLabel A l (Some (ai_type x)))) (\<lambda>q.
         eff_ret (aws_instance_of cfg x h q)))"

definition aws_create_advance :: "'c aws_api \<Rightarrow> aws_config \<Rightarrow> ('c, cloud_instance option) aws_cre" where
  "aws_create_advance A cfg =
     then_go (in_state SM_START (go_on cre_start))
     (then_go (in_state HOST_ALLOCATING_START (go_on cre_host_start))
     (then_go (in_state HOST_ALLOCATING_SUBMIT cre_host_submit)
     (then_go (in_state HOST_ALLOCATING (cre_host A))
     (then_go (in_state INSTANCE_CREATING_START (go_on cre_instance_start))
     (then_go (in_state INSTANCE_CREATING_SUBMIT (cre_instance_submit A))
     (then_go (in_state INSTANCE_CREATING (cre_instance A))
       (in_complete AWS_COMPLETE (cre_result A cfg))))))))"

text \<open>The executor runs what was submitted.\<close>

definition run_host_future :: "'c aws_api \<Rightarrow> aws_config \<Rightarrow> ('c, unit) aws_cre" where
  "run_host_future A cfg =
     eff_bind (get_more id) (\<lambda>c.
       if cr_host_future c \<noteq> Some Running then eff_ret ()
       else eff_bind (eff_try (eff_bind (on_world (allocateHost A cfg (cr_label c) (cr_tags c))) (\<lambda>h. eff_ret (Inr h)))
                        (\<lambda>e. eff_ret (Inl e))) (\<lambda>x.
            upd_more (\<lambda>c. c\<lparr>cr_host_future := Some (Done x)\<rparr>)))"

definition run_future :: "'c aws_api \<Rightarrow> aws_config \<Rightarrow> (string \<Rightarrow> string) \<Rightarrow> ('c, unit) aws_cre" where
  "run_future A cfg base64 =
     eff_bind (get_more id) (\<lambda>c.
       if cr_future c \<noteq> Some Running then eff_ret ()
       else eff_bind (eff_try (eff_bind (on_world (createInstance A cfg base64 (cr_label c) (cr_image c) (cr_tags c)
                          (cr_dedicated c))) (\<lambda>i. eff_ret (Inr i)))
                        (\<lambda>e. eff_ret (Inl e))) (\<lambda>x.
            upd_more (\<lambda>c. c\<lparr>cr_future := Some (Done x)\<rparr>)))"

end
