(* ===== verification/AwsImages.thy ===== *)
theory AwsImages
  imports AwsLife DriverUtils
begin

section \<open>The AWS driver: images and resources\<close>

text \<open>
  \<open>nodepool/driver/aws/adapter.py\<close>, fourth part: what \<open>listResources\<close> yields and \<open>deleteResource\<close>
  deletes, the tags that imported images and snapshots get afterwards, and the three ways of uploading
  an image. The loops that wait for an import task have no limit in the code: they take fuel here, and
  \<open>None\<close> says that they have not ended.
\<close>

subsection \<open>Tags of imported images\<close>

text \<open>Whether the tags of a task name this provider.\<close>

definition own_tags :: "aws_config \<Rightarrow> tags option \<Rightarrow> bool" where
  "own_tags cfg ts = (map_of (tag_list_to_dict ts) ''nodepool_provider_name'' = Some (awc_name cfg))"

text \<open>A task that is malformed, for AWS, is one that no longer exists.\<close>

definition getImportImageTask :: "'c aws_api \<Rightarrow> string \<Rightarrow> ('c, aws_import_task option) aws_eff" where
  "getImportImageTask A task_id =
     eff_try (eff_bind (on_aws (aa_import_image_tasks A task_id)) (\<lambda>ts.
                eff_ret (case ts of [] \<Rightarrow> None | t # rest \<Rightarrow> Some t)))
       (\<lambda>e. if client_code e = Some ''InvalidConversionTaskId.Malformed'' then eff_ret None else eff_raise e)"

definition not_our_image :: "string \<Rightarrow> ('c, unit) aws_eff" where
  "not_our_image i = eff_mod (\<lambda>w. w\<lparr>aw_not_images := List.insert i (aw_not_images w)\<rparr>)"

definition not_our_snapshot :: "string \<Rightarrow> ('c, unit) aws_eff" where
  "not_our_snapshot i = eff_mod (\<lambda>w. w\<lparr>aw_not_snapshots := List.insert i (aw_not_snapshots w)\<rparr>)"

text \<open>The snapshot of an image's first block device.\<close>

definition ami_snapshot :: "aws_ami \<Rightarrow> string option" where
  "ami_snapshot a = (case am_devices a of Some (Some s) # ds \<Rightarrow> if s = [] then None else Some s | x \<Rightarrow> None)"

text \<open>\<open>create_tags\<close> with \<open>task['Tags']\<close>.\<close>

definition create_tags :: "'c aws_api \<Rightarrow> string \<Rightarrow> tags option \<Rightarrow> ('c, unit) aws_eff" where
  "create_tags A resource ts =
     (case ts of None \<Rightarrow> eff_raise KeyError | Some xs \<Rightarrow> on_aws (aa_create_tags A resource xs))"

definition has_tags :: "tags option \<Rightarrow> bool" where
  "has_tags ts = (ts \<noteq> None \<and> ts \<noteq> Some [])"

text \<open>The first loop: an image without tags is tagged from its import task, or kept to be examined.\<close>

definition tag_imported :: "'c aws_api \<Rightarrow> aws_config \<Rightarrow> string \<Rightarrow> string \<Rightarrow> ('c, bool) aws_eff" where
  "tag_imported A cfg task_id resource =
     eff_bind (getImportImageTask A task_id) (\<lambda>task.
       case task of
         None \<Rightarrow> eff_ret False
       | Some t \<Rightarrow> if own_tags cfg (at_tags t)
                   then eff_seq (create_tags A resource (at_tags t)) (eff_ret True)
                   else eff_ret False)"

definition examine_ami ::
  "'c aws_api \<Rightarrow> aws_config \<Rightarrow> aws_ami \<Rightarrow> (aws_ami \<times> string) list \<Rightarrow> ('c, (aws_ami \<times> string) list) aws_eff" where
  "examine_ami A cfg a found =
     eff_bind (eff_get (\<lambda>w. am_id a \<in> set (aw_not_images w))) (\<lambda>known.
     if known \<or> has_tags (am_tags a) then eff_ret found
     else eff_bind (if startswith (am_name a) ''import-ami-'' then tag_imported A cfg (am_name a) (am_id a)
                    else eff_ret False) (\<lambda>tagged.
       if tagged then eff_ret found
       else case ami_snapshot a of
         None \<Rightarrow> eff_seq (not_our_image (am_id a)) (eff_ret found)
       | Some s \<Rightarrow> eff_ret (found @ [(a, s)])))"

text \<open>The tags of the snapshots that the import tasks made; and the task the loop ends with.\<close>

definition task_map :: "aws_import_task list \<Rightarrow> (string \<times> tags) list res" where
  "task_map ts = foldE (\<lambda>t m. case at_snapshot_id t of
      None \<Rightarrow> Inr m
    | Some s \<Rightarrow> if s = [] then Inr m
                else (case at_tags t of None \<Rightarrow> Inl KeyError | Some xs \<Rightarrow> Inr (AList.update s xs m))) ts []"

text \<open>
  The second loop, as it is written: what is looked up are the tags of the image's own snapshot, what
  is written are those of \<open>task\<close>, the last task of the loop before.
\<close>

definition tag_examined ::
  "'c aws_api \<Rightarrow> aws_config \<Rightarrow> (string \<times> tags) list \<Rightarrow> aws_import_task list \<Rightarrow> aws_ami \<times> string \<Rightarrow>
     ('c, unit) aws_eff" where
  "tag_examined A cfg m tasks as =
     (case as of (a, s) \<Rightarrow>
        case map_of m s of
          None \<Rightarrow> not_our_image (am_id a)
        | Some ts \<Rightarrow>
            if ts = [] \<or> \<not> own_tags cfg (Some ts) then not_our_image (am_id a)
            else create_tags A (am_id a) (at_tags (last tasks)))"

definition tagAmis :: "'c aws_api \<Rightarrow> aws_config \<Rightarrow> ('c, unit) aws_eff" where
  "tagAmis A cfg =
     eff_bind (on_aws (aa_amis A)) (\<lambda>amis.
     eff_bind (eff_fold (examine_ami A cfg) amis []) (\<lambda>found.
       if found = [] then eff_ret ()
       else eff_bind (on_aws (aa_import_snapshot_tasks A None)) (\<lambda>tasks.
            eff_bind (eff_lift (task_map tasks)) (\<lambda>m.
              eff_each (tag_examined A cfg m tasks) found))))"

text \<open>\<open>.*?(import-ami-\w*)\<close>: the first occurrence in a snapshot's description, on one line.\<close>

definition is_word :: "char \<Rightarrow> bool" where
  "is_word c = (let n = (of_char c :: nat)
     in is_digit c \<or> is_lower c \<or> 65 \<le> n \<and> n \<le> 90 \<or> c = CHR ''_'')"

fun import_task_of :: "string \<Rightarrow> string option" where
  "import_task_of [] = None"
| "import_task_of (c # cs) =
     (if startswith (c # cs) ''import-ami-''
      then Some (''import-ami-'' @ takeWhile is_word (drop 11 (c # cs)))
      else if c = CHR 0x0A then None else import_task_of cs)"

definition examine_snapshot ::
  "'c aws_api \<Rightarrow> aws_config \<Rightarrow> aws_snapshot \<Rightarrow> aws_snapshot list \<Rightarrow> ('c, aws_snapshot list) aws_eff" where
  "examine_snapshot A cfg s found =
     eff_bind (eff_get (\<lambda>w. as_id s \<in> set (aw_not_snapshots w))) (\<lambda>known.
     if known \<or> has_tags (as_tags s) then eff_ret found
     else eff_bind (case (if occurs_in ''import-ami'' (as_description s)
                          then import_task_of (as_description s) else None) of
                      None \<Rightarrow> eff_ret False
                    | Some t \<Rightarrow> tag_imported A cfg t (as_id s)) (\<lambda>tagged.
       eff_ret (if tagged then found else found @ [s])))"

definition tag_examined_snapshot ::
  "'c aws_api \<Rightarrow> aws_config \<Rightarrow> (string \<times> tags) list \<Rightarrow> aws_snapshot \<Rightarrow> ('c, unit) aws_eff" where
  "tag_examined_snapshot A cfg m s =
     (case map_of m (as_id s) of
        None \<Rightarrow> not_our_snapshot (as_id s)
      | Some ts \<Rightarrow>
          if ts = [] \<or> \<not> own_tags cfg (Some ts) then not_our_snapshot (as_id s)
          else create_tags A (as_id s) (Some ts))"

definition tagSnapshots :: "'c aws_api \<Rightarrow> aws_config \<Rightarrow> ('c, unit) aws_eff" where
  "tagSnapshots A cfg =
     eff_bind (on_aws (aa_snapshots A)) (\<lambda>snaps.
     eff_bind (eff_fold (examine_snapshot A cfg) snaps []) (\<lambda>found.
       if found = [] then eff_ret ()
       else eff_bind (on_aws (aa_import_snapshot_tasks A None)) (\<lambda>tasks.
            eff_bind (eff_lift (task_map tasks)) (\<lambda>m.
              eff_each (tag_examined_snapshot A cfg m) found))))"

subsection \<open>Resources\<close>

text \<open>The tags of an object are read one by one; an object whose tags AWS refuses is left out.\<close>

definition list_object :: "'c aws_api \<Rightarrow> string \<Rightarrow> aws_resource list \<Rightarrow> ('c, aws_resource list) aws_eff" where
  "list_object A key found =
     eff_try (eff_bind (on_aws (aa_object_tags A key)) (\<lambda>ts. eff_ret (found @ [aws_resource (Some ts) ''object'' key])))
       (\<lambda>e. if client_code e \<noteq> None then eff_ret found else eff_raise e)"

definition listObjects :: "'c aws_api \<Rightarrow> aws_config \<Rightarrow> ('c, string list) aws_eff" where
  "listObjects A cfg = (if str_true (awc_bucket cfg) then on_aws (aa_objects A) else eff_ret [])"

definition aws_listResources :: "'c aws_api \<Rightarrow> aws_config \<Rightarrow> ('c, aws_resource list) aws_eff" where
  "aws_listResources A cfg =
     eff_seq (tagSnapshots A cfg)
     (eff_seq (tagAmis A cfg)
     (eff_bind (on_aws (aa_hosts A)) (\<lambda>hs.
      eff_bind (on_aws (aa_instances A)) (\<lambda>is.
      eff_bind (on_aws (aa_volumes A)) (\<lambda>vs.
      eff_bind (on_aws (aa_amis A)) (\<lambda>as.
      eff_bind (on_aws (aa_snapshots A)) (\<lambda>ss.
      eff_bind (if awc_object_storage cfg
                then eff_bind (listObjects A cfg) (\<lambda>keys. eff_fold (list_object A) keys [])
                else eff_ret []) (\<lambda>objects.
        eff_ret
          (map (\<lambda>h. aws_resource (ah_tags h) ''host'' (ah_id h))
             (filter (\<lambda>h. lower (ah_state h) \<notin> {''released'', ''released-permanent-failure''}) hs) @
           map (\<lambda>i. aws_resource (ai_tags i) ''instance'' (ai_id i)) (filter (\<lambda>i. lower (ai_state i) \<noteq> ''terminated'') is) @
           map (\<lambda>v. aws_resource (av_tags v) ''volume'' (av_id v)) (filter (\<lambda>v. lower (av_state v) \<noteq> ''deleted'') vs) @
           map (\<lambda>a. aws_resource (am_tags a) ''ami'' (am_id a)) (filter (\<lambda>a. lower (am_state a) \<noteq> ''deleted'') as) @
           map (\<lambda>s. aws_resource (as_tags s) ''snapshot'' (as_id s)) (filter (\<lambda>s. lower (as_state s) \<noteq> ''deleted'') ss) @
           objects)))))))))"

definition quietly :: "('c, 'a) aws_eff \<Rightarrow> ('c, unit) aws_eff" where
  "quietly m = eff_bind m (\<lambda>x. eff_ret ())"

definition aws_deleteResource :: "'c aws_api \<Rightarrow> aws_resource \<Rightarrow> ('c, unit) aws_eff" where
  "aws_deleteResource A r =
     (let i = ar_id r; t = re_type r in
      if t = ''host'' then quietly (releaseHost A (JStr i) True)
      else if t = ''instance'' then quietly (aws_deleteInstance A (JStr i) True)
      else if t = ''volume'' then quietly (deleteVolume A i)
      else if t = ''ami'' then quietly (deleteAmi A i)
      else if t = ''snapshot'' then quietly (deleteSnapshot A i)
      else if t = ''object'' then on_aws (aa_delete_object A i)
      else eff_ret ())"

text \<open>An image goes with the snapshots its block devices name.\<close>

definition image_snapshots :: "aws_ami list \<Rightarrow> string \<Rightarrow> string list" where
  "image_snapshots amis i =
     remdups (concat (map (\<lambda>a. List.map_filter
        (\<lambda>d. case d of Some (Some s) \<Rightarrow> if s = [] then None else Some s | x \<Rightarrow> None) (am_devices a))
        (filter (\<lambda>a. am_id a = i) amis)))"

definition aws_deleteImage :: "'c aws_api \<Rightarrow> string \<Rightarrow> ('c, unit) aws_eff" where
  "aws_deleteImage A i =
     eff_bind (on_aws (aa_amis A)) (\<lambda>amis.
     eff_seq (quietly (deleteAmi A i))
       (eff_each (\<lambda>s. quietly (deleteSnapshot A s)) (image_snapshots amis i)))"

subsection \<open>Uploading\<close>

record aws_image =
  ami_architecture :: string
  ami_ena_support :: bool
  ami_volume_size :: "int option"
  ami_volume_type :: string
  ami_import_method :: string
  ami_imds_support :: "string option"
  ami_iops :: "int option"
  ami_throughput :: "int option"

text \<open>
  The submission of an import is tried again, while AWS says there are too many, until the deadline;
  attempt \<open>n\<close> that fails ends at \<open>clock n\<close>.
\<close>

fun import_submit ::
  "('c, 'a) aws_eff \<Rightarrow> rat \<Rightarrow> (nat \<Rightarrow> rat) \<Rightarrow> nat \<Rightarrow> nat \<Rightarrow> ('c, 'a option) aws_eff" where
  "import_submit call deadline clock n 0 = eff_ret None"
| "import_submit call deadline clock n (Suc fuel) =
     eff_try (eff_bind call (\<lambda>x. eff_ret (Some x)))
       (\<lambda>e. if client_code e = Some ''ResourceCountLimitExceeded'' \<and> clock n < deadline
            then import_submit call deadline clock (Suc n) fuel else eff_raise e)"

definition task_ended :: "aws_import_task \<Rightarrow> bool" where
  "task_ended t = (lower (at_status t) \<in> {''completed'', ''deleted''})"

text \<open>
  The task that the inner loops leave behind (there is one page): the first that has ended, else the
  last. The name is unbound when no call has returned a task.
\<close>

fun left_task :: "aws_import_task option \<Rightarrow> aws_import_task list \<Rightarrow> aws_import_task option" where
  "left_task old [] = old"
| "left_task old (t # ts) = (if task_ended t then Some t else left_task (Some t) ts)"

fun import_wait ::
  "('c, aws_import_task list) aws_eff \<Rightarrow> aws_import_task option \<Rightarrow> nat \<Rightarrow> ('c, aws_import_task option) aws_eff" where
  "import_wait poll task 0 = eff_ret None"
| "import_wait poll task (Suc fuel) =
     eff_bind poll (\<lambda>ts.
       if list_ex task_ended ts then eff_ret (left_task task ts)
       else import_wait poll (left_task task ts) fuel)"

definition register_args ::
  "aws_config \<Rightarrow> aws_image \<Rightarrow> string \<Rightarrow> pydict \<Rightarrow> int \<Rightarrow> string \<Rightarrow> pydict" where
  "register_args cfg img name metadata gib snapshot_id =
     [(''Architecture'', JStr (ami_architecture img)),
      (''BlockDeviceMappings'', JList [JDict [(''DeviceName'', JStr ''/dev/sda1''), (''Ebs'', JDict (
         [(''DeleteOnTermination'', JBool True), (''SnapshotId'', JStr snapshot_id),
          (''VolumeSize'', JNum (of_int gib)), (''VolumeType'', JStr (ami_volume_type img))] @
         opt_arg ''Iops'' (opt_int (ami_iops img)) @ opt_arg ''Throughput'' (opt_int (ami_throughput img))))]]),
      (''RootDeviceName'', JStr ''/dev/sda1''), (''VirtualizationType'', JStr ''hvm''),
      (''EnaSupport'', JBool (ami_ena_support img)), (''Name'', JStr name),
      (''TagSpecifications'', JList [JDict [(''ResourceType'', JStr ''image''),
         (''Tags'', tag_dict_to_list cfg metadata)]])] @
     (if ami_imds_support img = Some ''v2.0'' then [(''ImdsSupport'', JStr ''v2.0'')] else [])"

definition disk_container :: "string \<Rightarrow> string \<Rightarrow> string \<Rightarrow> json" where
  "disk_container fmt bucket object =
     JDict [(''Format'', JStr fmt), (''UserBucket'', JDict [(''S3Bucket'', JStr bucket), (''S3Key'', JStr object)])]"

definition task_tags :: "aws_config \<Rightarrow> string \<Rightarrow> pydict \<Rightarrow> json" where
  "task_tags cfg kind metadata =
     JList [JDict [(''ResourceType'', JStr kind), (''Tags'', tag_dict_to_list cfg metadata)]]"

definition import_deadline :: "aws_config \<Rightarrow> (nat \<Rightarrow> rat) \<Rightarrow> rat" where
  "import_deadline cfg clock = clock 0 + (case awc_import_timeout cfg of None \<Rightarrow> 0 | Some t \<Rightarrow> t)"

text \<open>
  Importing a snapshot. Its size is looked up inside a handler that ignores exceptions, but used after
  it: when the look-up raises and the configuration has no size, the name is unbound.
\<close>

definition tag_snapshot :: "'c aws_api \<Rightarrow> aws_import_task \<Rightarrow> ('c, int option) aws_eff" where
  "tag_snapshot A t =
     (case at_snapshot_id t of
        None \<Rightarrow> eff_ret None
      | Some s \<Rightarrow> eff_try (eff_bind (on_aws (aa_snapshot_size A s)) (\<lambda>n.
                    eff_seq (eff_ignore (create_tags A s (at_tags t))) (eff_ret (Some n))))
                  (\<lambda>e. eff_ret None))"

definition known_size :: "aws_image \<Rightarrow> int option \<Rightarrow> int res" where
  "known_size img found =
     (case ami_volume_size img of
        Some n \<Rightarrow> if n \<noteq> 0 then Inr n else (case found of None \<Rightarrow> Inl (OtherError ''UnboundLocalError'') | Some m \<Rightarrow> Inr m)
      | None \<Rightarrow> (case found of None \<Rightarrow> Inl (OtherError ''UnboundLocalError'') | Some m \<Rightarrow> Inr m))"

definition snapshot_done ::
  "'c aws_api \<Rightarrow> aws_config \<Rightarrow> aws_image \<Rightarrow> string \<Rightarrow> pydict \<Rightarrow> string \<Rightarrow> aws_import_task \<Rightarrow> ('c, string) aws_eff" where
  "snapshot_done A cfg img name metadata object t =
     eff_seq (on_aws (aa_delete_object A object))
     (if lower (at_status t) \<noteq> ''completed'' then eff_raise GenericException
      else eff_bind (tag_snapshot A t) (\<lambda>found.
           eff_bind (eff_lift (known_size img found)) (\<lambda>gib.
           case at_snapshot_id t of
             None \<Rightarrow> eff_raise KeyError
           | Some s \<Rightarrow> on_aws (aa_register_image A (register_args cfg img name metadata gib s)))))"

definition uploadImageSnapshot ::
  "'c aws_api \<Rightarrow> aws_config \<Rightarrow> (nat \<Rightarrow> rat) \<Rightarrow> nat \<Rightarrow> aws_image \<Rightarrow> string \<Rightarrow> string \<Rightarrow> pydict \<Rightarrow> string \<Rightarrow> string \<Rightarrow>
     ('c, string option) aws_eff" where
  "uploadImageSnapshot A cfg clock fuel img name fmt metadata bucket object =
     eff_bind (import_submit (on_aws (aa_import_snapshot A [(''DiskContainer'', disk_container fmt bucket object),
                  (''TagSpecifications'', task_tags cfg ''import-snapshot-task'' metadata)]))
                (import_deadline cfg clock) clock 1 fuel) (\<lambda>submitted.
     case submitted of
       None \<Rightarrow> eff_ret None
     | Some task_id \<Rightarrow>
         eff_bind (import_wait (on_aws (aa_import_snapshot_tasks A (Some task_id))) None fuel) (\<lambda>task.
         case task of
           None \<Rightarrow> eff_ret None
         | Some t \<Rightarrow> eff_bind (snapshot_done A cfg img name metadata object t) (\<lambda>i. eff_ret (Some i))))"

definition image_done :: "'c aws_api \<Rightarrow> string \<Rightarrow> aws_import_task \<Rightarrow> ('c, string) aws_eff" where
  "image_done A object t =
     eff_seq (on_aws (aa_delete_object A object))
     (if lower (at_status t) \<noteq> ''completed'' then eff_raise GenericException
      else eff_seq (eff_ignore (create_tags A (at_image_id t) (at_tags t)))
          (eff_seq (case at_snapshot_id t of
                      None \<Rightarrow> eff_ret ()
                    | Some s \<Rightarrow> eff_ignore (create_tags A s (at_tags t)))
             (eff_ret (at_image_id t))))"

definition uploadImageImage ::
  "'c aws_api \<Rightarrow> aws_config \<Rightarrow> (nat \<Rightarrow> rat) \<Rightarrow> nat \<Rightarrow> aws_image \<Rightarrow> string \<Rightarrow> pydict \<Rightarrow> string \<Rightarrow> string \<Rightarrow>
     ('c, string option) aws_eff" where
  "uploadImageImage A cfg clock fuel img fmt metadata bucket object =
     eff_bind (import_submit (on_aws (aa_import_image A [(''Architecture'', JStr (ami_architecture img)),
                  (''DiskContainers'', JList [disk_container fmt bucket object]),
                  (''TagSpecifications'', task_tags cfg ''import-image-task'' metadata)]))
                (import_deadline cfg clock) clock 1 fuel) (\<lambda>submitted.
     case submitted of
       None \<Rightarrow> eff_ret None
     | Some task_id \<Rightarrow>
         eff_bind (import_wait (on_aws (aa_import_image_tasks A task_id)) None fuel) (\<lambda>task.
         case task of
           None \<Rightarrow> eff_ret None
         | Some t \<Rightarrow> eff_bind (image_done A object t) (\<lambda>i. eff_ret (Some i))))"

text \<open>The upload by blocks is that of \<open>ImageUploader\<close>: its size and snapshot, or none when it was aborted.\<close>

definition uploadImageSnapshotEBS ::
  "'c aws_api \<Rightarrow> aws_config \<Rightarrow> ('c, (int \<times> string) option) aws_eff \<Rightarrow> aws_image \<Rightarrow> string \<Rightarrow> pydict \<Rightarrow> ('c, string) aws_eff" where
  "uploadImageSnapshotEBS A cfg uploaded img name metadata =
     eff_bind uploaded (\<lambda>r.
       case r of
         None \<Rightarrow> eff_raise TypeError
       | Some (gib, s) \<Rightarrow> on_aws (aa_register_image A (register_args cfg img name metadata gib s)))"

definition aws_uploadImage ::
  "'c aws_api \<Rightarrow> aws_config \<Rightarrow> (nat \<Rightarrow> rat) \<Rightarrow> nat \<Rightarrow> ('c, (int \<times> string) option) aws_eff \<Rightarrow> aws_image \<Rightarrow> string \<Rightarrow>
     string \<Rightarrow> pydict \<Rightarrow> ('c, string option) aws_eff" where
  "aws_uploadImage A cfg clock fuel uploaded img name fmt metadata =
     (let object = name @ ''.'' @ fmt; method = ami_import_method img in
      if method = ''image'' \<and> ami_imds_support img = Some ''v2.0'' then eff_raise GenericException
      else if method = ''ebs-direct''
      then eff_bind (uploadImageSnapshotEBS A cfg uploaded img name metadata) (\<lambda>i. eff_ret (Some i))
      else case awc_bucket cfg of
        None \<Rightarrow> eff_raise (if awc_object_storage cfg then KeyError else TypeError)
      | Some bucket \<Rightarrow>
          eff_seq (on_aws (aa_upload_object A object metadata))
            (if method = ''image'' then uploadImageImage A cfg clock fuel img fmt metadata bucket object
             else if method = ''snapshot'' then uploadImageSnapshot A cfg clock fuel img name fmt metadata bucket object
             else eff_raise GenericException))"

subsection \<open>Upload by blocks\<close>

text \<open>
  \<open>EBSSnapshotUploader\<close>, with bytes as numbers. The base class hands the segments to a pool of
  threads; here they are uploaded one after the other. \<open>finishUpload\<close> asks until AWS has a final
  answer: \<open>clock n\<close> is the time after question \<open>n\<close>.
\<close>

record 'c ebs_client =
  ec_start :: "int \<Rightarrow> pydict \<Rightarrow> ('c, string) eff"
  ec_put :: "string \<Rightarrow> nat \<Rightarrow> nat list \<Rightarrow> ('c, string) eff"      \<comment> \<open>the checksum AWS has\<close>
  ec_complete :: "string \<Rightarrow> nat \<Rightarrow> ('c, string) eff"            \<comment> \<open>the snapshot's status\<close>
  ec_delete :: "string \<Rightarrow> ('c, unit) eff"
  ec_checksum :: "nat list \<Rightarrow> string"
  ec_retryable :: "pyexc \<Rightarrow> bool"

record 'c ebs_upload =
  eu_cloud :: 'c
  eu_snapshot :: "string option"
  eu_count :: nat

type_synonym ('c, 'a) ebs_eff = "('c ebs_upload, 'a) eff"

definition SEGMENT_SIZE :: nat where "SEGMENT_SIZE = 512 * 1024"

definition size_in_gib :: "nat \<Rightarrow> int" where
  "size_in_gib len = \<lceil>(of_nat len :: rat) / 1024 ^ 3\<rceil>"

definition ebs_retry :: "'c ebs_client \<Rightarrow> ('c, 'a) eff \<Rightarrow> ('c, 'a) ebs_eff" where
  "ebs_retry C m =
     eff_bind (retry (ec_retryable C) (eff_zoom eu_cloud (\<lambda>c u. u\<lparr>eu_cloud := c\<rparr>) m))
       (\<lambda>r. case r of None \<Rightarrow> eff_raise TypeError | Some x \<Rightarrow> eff_ret x)"

definition snapshot_id :: "('c, string) ebs_eff" where
  "snapshot_id = eff_read (\<lambda>u. case eu_snapshot u of None \<Rightarrow> Inl AttributeError | Some s \<Rightarrow> Inr s)"

definition pad_block :: "nat list \<Rightarrow> nat list" where
  "pad_block data = data @ replicate (SEGMENT_SIZE - length data) 0"

definition uploadSegment :: "'c ebs_client \<Rightarrow> nat segment \<Rightarrow> ('c, unit) ebs_eff" where
  "uploadSegment C s =
     (let data = pad_block (sg_data s) in
      eff_bind snapshot_id (\<lambda>i.
      eff_bind (ebs_retry C (ec_put C i (sg_index s) data)) (\<lambda>sum.
        if sum \<noteq> ec_checksum C data then eff_raise GenericException
        else eff_mod (\<lambda>u. u\<lparr>eu_count := Suc (eu_count u)\<rparr>))))"

definition startUpload :: "'c ebs_client \<Rightarrow> nat \<Rightarrow> pydict \<Rightarrow> ('c, unit) ebs_eff" where
  "startUpload C len metadata =
     eff_bind (ebs_retry C (ec_start C (size_in_gib len) metadata)) (\<lambda>i.
       eff_mod (\<lambda>u. u\<lparr>eu_snapshot := Some i\<rparr>))"

fun finishUpload ::
  "'c ebs_client \<Rightarrow> nat \<Rightarrow> rat option \<Rightarrow> (nat \<Rightarrow> rat) \<Rightarrow> nat \<Rightarrow> nat \<Rightarrow> ('c, (int \<times> string) option) ebs_eff" where
  "finishUpload C len deadline clock n 0 = eff_ret None"
| "finishUpload C len deadline clock n (Suc fuel) =
     eff_bind snapshot_id (\<lambda>i.
     eff_bind (eff_get eu_count) (\<lambda>k.
     eff_bind (ebs_retry C (ec_complete C i k)) (\<lambda>status.
       if status = ''error'' then eff_raise GenericException
       else if status = ''completed'' then eff_ret (Some (size_in_gib len, i))
       else eff_bind (eff_lift (checkTimeout deadline (clock n)))
              (\<lambda>u. finishUpload C len deadline clock (Suc n) fuel))))"

definition abortUpload ::
  "'c ebs_client \<Rightarrow> nat \<Rightarrow> rat option \<Rightarrow> (nat \<Rightarrow> rat) \<Rightarrow> nat \<Rightarrow> ('c, unit) ebs_eff" where
  "abortUpload C len deadline clock fuel =
     eff_seq (eff_ignore (eff_bind (finishUpload C len deadline clock 0 fuel) (\<lambda>r. eff_ret ())))
       (eff_bind (eff_get eu_snapshot) (\<lambda>s.
          if str_true s then eff_zoom eu_cloud (\<lambda>c u. u\<lparr>eu_cloud := c\<rparr>) (ec_delete C (the s)) else eff_ret ()))"

definition ebs_upload_all ::
  "'c ebs_client \<Rightarrow> nat list \<Rightarrow> pydict \<Rightarrow> rat option \<Rightarrow> (nat \<Rightarrow> rat) \<Rightarrow> nat \<Rightarrow> ('c, (int \<times> string) option option) ebs_eff" where
  "ebs_upload_all C content metadata deadline clock fuel =
     upload (startUpload C (length content) metadata)
       (eff_each (uploadSegment C) (segments SEGMENT_SIZE content))
       (finishUpload C (length content) deadline clock 0 fuel)
       (abortUpload C (length content) deadline clock fuel)"

end
