(* ===== verification/AwsProps.thy ===== *)
theory AwsProps
  imports AwsImages ZkImagesProps
begin

section \<open>Lemmas about the AWS driver\<close>

text \<open>
  Both machines only move forward, and what a create machine has got is named by its external id.
\<close>

subsection \<open>The machines move forward\<close>

lemmas aws_states = HOST_RELEASING_START_def HOST_RELEASING_def INSTANCE_DELETING_START_def
  INSTANCE_DELETING_def AWS_COMPLETE_def HOST_ALLOCATING_START_def HOST_ALLOCATING_SUBMIT_def
  HOST_ALLOCATING_def INSTANCE_CREATING_START_def INSTANCE_CREATING_SUBMIT_def INSTANCE_CREATING_def SM_START_def

definition aws_del_order :: "string list" where
  "aws_del_order = [SM_START, INSTANCE_DELETING_START, INSTANCE_DELETING, HOST_RELEASING_START,
     HOST_RELEASING, AWS_COMPLETE]"

definition del_rank :: "string \<Rightarrow> nat" where
  "del_rank = place_in aws_del_order"

lemma del_ranks [simp]:
  "del_rank SM_START = 1" "del_rank INSTANCE_DELETING_START = 2" "del_rank INSTANCE_DELETING = 3"
  "del_rank HOST_RELEASING_START = 4" "del_rank HOST_RELEASING = 5" "del_rank AWS_COMPLETE = 6"
  by (simp_all add: del_rank_def aws_del_order_def place_in_def aws_states)

lemma keeps_rank_ext [keeps]:
  "keeps_inv (at_least rank k) (ext_check s)" "keeps_inv (at_least rank k) (ext_part s)"
  unfolding ext_check_def ext_part_def by (intro keeps)+

interpretation del_machine: forward_machine "\<lambda>A :: 'c aws_api. aws_delete_advance A" del_rank aws_del_order
proof
  show "keeps_inv (at_least del_rank k) (aws_delete_advance A)" for k and A :: "'c aws_api"
    unfolding aws_delete_advance_def del_start_def del_instance_start_def del_instance_def
      del_host_start_def del_host_def
    by (intro keeps keeps_in_state keeps_in_complete keeps_goto) simp_all
  show "del_rank = place_in aws_del_order" by (simp add: del_rank_def)
qed

definition aws_cre_order :: "string list" where
  "aws_cre_order = [SM_START, HOST_ALLOCATING_START, HOST_ALLOCATING_SUBMIT, HOST_ALLOCATING,
     INSTANCE_CREATING_START, INSTANCE_CREATING_SUBMIT, INSTANCE_CREATING, AWS_COMPLETE]"

definition cre_rank :: "string \<Rightarrow> nat" where
  "cre_rank = place_in aws_cre_order"

lemma cre_ranks [simp]:
  "cre_rank SM_START = 1" "cre_rank HOST_ALLOCATING_START = 2" "cre_rank HOST_ALLOCATING_SUBMIT = 3"
  "cre_rank HOST_ALLOCATING = 4" "cre_rank INSTANCE_CREATING_START = 5" "cre_rank INSTANCE_CREATING_SUBMIT = 6"
  "cre_rank INSTANCE_CREATING = 7" "cre_rank AWS_COMPLETE = 8"
  by (simp_all add: cre_rank_def aws_cre_order_def place_in_def aws_states)

interpretation cre_machine: forward_machine "\<lambda>(A :: 'c aws_api, cfg). aws_create_advance A cfg" cre_rank aws_cre_order
proof
  have "keeps_inv (at_least cre_rank k) (aws_create_advance A cfg)" for k cfg and A :: "'c aws_api"
    unfolding aws_create_advance_def cre_start_def cre_host_start_def cre_host_submit_def cre_host_def
      cre_instance_start_def cre_instance_submit_def cre_instance_def cre_result_def Let_def
    by (intro keeps keeps_in_state keeps_in_complete keeps_goto)
      (auto intro!: keeps keeps_goto split: option.split prod.split)
  then show "keeps_inv (at_least cre_rank k) (case e of (A :: 'c aws_api, cfg) \<Rightarrow> aws_create_advance A cfg)" for k e
    by (cases e) simp
  show "cre_rank = place_in aws_cre_order" by (simp add: cre_rank_def)
qed

subsection \<open>What a create machine has got, its external id names\<close>

definition names_created :: "(aws_create, 'w) run \<Rightarrow> bool" where
  "names_created r \<longleftrightarrow> (\<exists>d. sm_external_id (ru_machine r) = JDict d) \<and>
     (\<forall>h. cr_host (sm_more (ru_machine r)) = Some h \<longrightarrow>
        ext_at ''host'' (sm_external_id (ru_machine r)) = Inr (JStr (ah_id h))) \<and>
     (\<forall>i. cr_instance (sm_more (ru_machine r)) = Some i \<longrightarrow>
        ext_at ''instance'' (sm_external_id (ru_machine r)) = Inr (JStr (ai_id i)))"

lemma keeps_names [keeps]:
  "keeps_inv names_created (goto s)" "keeps_inv names_created finished"
  "keeps_inv names_created (on_world m)" "keeps_inv names_created (get_more f)"
  "keeps_inv names_created (upd_more (\<lambda>c. c\<lparr>cr_host_future := hf\<rparr>))"
  "keeps_inv names_created (upd_more (\<lambda>c. c\<lparr>cr_future := fu\<rparr>))"
  "keeps_inv names_created (upd_more (\<lambda>c. c\<lparr>cr_dedicated := de\<rparr>))"
  by (auto simp: keeps_inv_def names_created_def run_ops split: prod.splits)

declare keeps_in_state_inv [keeps]

lemma keeps_new_host:
  assumes "keeps_inv names_created k"
  shows "keeps_inv names_created (eff_seq (upd_more (\<lambda>c. c\<lparr>cr_host := Some h\<rparr>))
    (eff_seq (set_ext (ext_put ''host'' (ah_id h))) k))"
proof (rule keepsI)
  fix r x r' assume r: "names_created r"
    and e: "eff_seq (upd_more (\<lambda>c. c\<lparr>cr_host := Some h\<rparr>)) (eff_seq (set_ext (ext_put ''host'' (ah_id h))) k) r = (x, r')"
  let ?m = "ru_machine r"
  let ?s = "r\<lparr>ru_machine := ?m\<lparr>sm_more := (sm_more ?m)\<lparr>cr_host := Some h\<rparr>, sm_external_id := ext_put ''host'' (ah_id h) (sm_external_id ?m)\<rparr>\<rparr>"
  have "names_created ?s" using r by (auto simp: names_created_def AList.update_conv' split: option.splits)
  moreover have "k ?s = (x, r')" using e by (simp add: run_ops)
  ultimately show "names_created r'" using keepsE [OF assms] by blast
qed

lemma keeps_new_instance:
  assumes "keeps_inv names_created k"
  shows "keeps_inv names_created (eff_seq (upd_more (\<lambda>c. c\<lparr>cr_instance := Some i\<rparr>))
    (eff_seq (set_ext (ext_put ''instance'' (ai_id i))) k))"
proof (rule keepsI)
  fix r x r' assume r: "names_created r"
    and e: "eff_seq (upd_more (\<lambda>c. c\<lparr>cr_instance := Some i\<rparr>)) (eff_seq (set_ext (ext_put ''instance'' (ai_id i))) k) r = (x, r')"
  let ?m = "ru_machine r"
  let ?s = "r\<lparr>ru_machine := ?m\<lparr>sm_more := (sm_more ?m)\<lparr>cr_instance := Some i\<rparr>, sm_external_id := ext_put ''instance'' (ai_id i) (sm_external_id ?m)\<rparr>\<rparr>"
  have "names_created ?s" using r by (auto simp: names_created_def AList.update_conv' split: option.splits)
  moreover have "k ?s = (x, r')" using e by (simp add: run_ops)
  ultimately show "names_created r'" using keepsE [OF assms] by blast
qed

lemma refresh_host_id: "refresh_host A h w = (Inr h1, w') \<Longrightarrow> ah_id h1 = ah_id h"
  by (auto simp: refresh_host_def eff_bind_Inr eff_ret_def find_Some_iff split: option.splits)

lemma refresh_instance_id: "refresh_instance A i w = (Inr i1, w') \<Longrightarrow> ai_id i1 = ai_id i"
  by (auto simp: refresh_instance_def eff_bind_Inr eff_ret_def find_Some_iff split: option.splits)

lemma keeps_cre_host: "keeps_inv names_created (cre_host A)"
proof (rule keepsI)
  fix r x r' assume r: "names_created r" and e: "cre_host A r = (x, r')"
  show "names_created r'"
  proof (cases "cr_host (sm_more (ru_machine r))")
    case None
    with e r show ?thesis by (auto simp: cre_host_def run_ops)
  next
    case (Some h)
    obtain y w where o: "refresh_host A h (ru_world r) = (y, w)" by fastforce
    show ?thesis
    proof (cases y)
      case (Inl err)
      with o e r Some show ?thesis by (auto simp: cre_host_def run_ops names_created_def)
    next
      case (Inr h1)
      with refresh_host_id o have "ah_id h1 = ah_id h" by blast
      with o e r Some Inr show ?thesis
        by (auto simp: cre_host_def go_on_def Let_def run_ops names_created_def split: if_splits)
    qed
  qed
qed

lemma keeps_cre_instance: "keeps_inv names_created (cre_instance A)"
proof (rule keepsI)
  fix r x r' assume r: "names_created r" and e: "cre_instance A r = (x, r')"
  show "names_created r'"
  proof (cases "cr_instance (sm_more (ru_machine r))")
    case None
    with e r show ?thesis by (auto simp: cre_instance_def run_ops)
  next
    case (Some i)
    obtain y w where o: "refresh_instance A i (ru_world r) = (y, w)" by fastforce
    show ?thesis
    proof (cases y)
      case (Inl err)
      with o e r Some show ?thesis by (auto simp: cre_instance_def run_ops names_created_def)
    next
      case (Inr i1)
      with refresh_instance_id o have "ai_id i1 = ai_id i" by blast
      with o e r Some Inr show ?thesis
        by (auto simp: cre_instance_def go_on_def run_ops names_created_def split: if_splits)
    qed
  qed
qed

lemma keeps_submits: "keeps_inv names_created cre_host_submit" "keeps_inv names_created (cre_instance_submit A)"
  unfolding cre_host_submit_def cre_instance_submit_def
  by (intro keeps_bind keeps_names keeps_pure keeps_option keeps_go_on keeps_new_host keeps_new_instance)+

lemma keeps_create: "keeps_inv names_created (aws_create_advance A cfg)"
  unfolding aws_create_advance_def cre_start_def cre_host_start_def cre_instance_start_def cre_result_def
  by (intro keeps keeps_in_complete_inv keeps_cre_host keeps_cre_instance keeps_submits)
    (auto intro!: keeps split: option.split prod.split)

lemma keeps_futures:
  "keeps_inv names_created (run_host_future A cfg)" "keeps_inv names_created (run_future A cfg base64)"
  unfolding run_host_future_def run_future_def by (intro keeps)+

text \<open>
  The life of a create machine: it is made, advanced, its calls are run by the executor, and the world changes.
\<close>

inductive aws_creating :: "'c aws_api \<Rightarrow> aws_config \<Rightarrow> (string \<Rightarrow> string) \<Rightarrow> (aws_create, 'c aws_world) run \<Rightarrow> bool"
  for A cfg base64 where
  made: "aws_creating A cfg base64
     \<lparr> ru_machine = aws_getCreateStateMachine cfg l hostname img metadata rq clk, ru_world = w \<rparr>"
| advanced: "aws_creating A cfg base64 r \<Longrightarrow> aws_creating A cfg base64 (snd (aws_create_advance A cfg r))"
| host_run: "aws_creating A cfg base64 r \<Longrightarrow> aws_creating A cfg base64 (snd (run_host_future A cfg r))"
| instance_run: "aws_creating A cfg base64 r \<Longrightarrow> aws_creating A cfg base64 (snd (run_future A cfg base64 r))"
| others: "aws_creating A cfg base64 r \<Longrightarrow> aws_creating A cfg base64 (r\<lparr>ru_world := w\<rparr>)"

lemma creating_names: "aws_creating A cfg base64 r \<Longrightarrow> names_created r"
proof (induction rule: aws_creating.induct)
  case made
  then show ?case by (simp add: names_created_def aws_getCreateStateMachine_def sm_init_def)
next
  case (others r w)
  then show ?case by (simp add: names_created_def)
qed (blast intro: keepsD [OF keeps_create] keepsD [OF keeps_futures(1)] keepsD [OF keeps_futures(2)])+

section \<open>Lemmas about deletions, tags and limits of the AWS driver\<close>

text \<open>
  What a delete machine does while its instance is listed and when it is not, what a round of the
  delete thread takes from the queues, which tags an imported image gets, and that the limits of a
  provider cover the quota codes of its labels.
\<close>

subsection \<open>The delete machine and the listing\<close>

lemmas block_defs = in_state_def then_go_def in_complete_def go_on_def run_ops eff_read_def ext_check_def ext_part_def

lemma delete_waits:
  assumes "sm_state m = INSTANCE_DELETING" and "dl_instance (sm_more m) = Some i"
    and "aa_instances A (aw_cloud w) = (Inr xs, c)" and "live_instance xs (ai_id i) = Some j"
  shows "aws_delete_advance A \<lparr> ru_machine = m, ru_world = w \<rparr> =
    (Inr None, \<lparr> ru_machine = m\<lparr>sm_more := (sm_more m)\<lparr>dl_instance := Some j\<rparr>\<rparr>, ru_world = w\<lparr>aw_cloud := c\<rparr> \<rparr>)"
  using assms
  by (simp add: aws_delete_advance_def block_defs aws_states del_instance_def refresh_delete_instance_def on_aws_def)

text \<open>From the start: the id is queued once, and the machine waits.\<close>

lemma delete_starts:
  assumes "sm_state m = SM_START" and "ext_at ''instance'' (sm_external_id m) = Inr (JStr i)"
    and "ext_has ''instance'' (sm_external_id m) = Inr True"
    and "aa_instances A (aw_cloud w) = (Inr xs, c)" and "find (\<lambda>x. ai_id x = i) xs = Some x"
    and "aa_instances A c = (Inr ys, c2)" and "live_instance ys i = Some j"
  shows "aws_delete_advance A \<lparr> ru_machine = m, ru_world = w \<rparr> =
    (Inr None, \<lparr> ru_machine = m\<lparr>sm_state := INSTANCE_DELETING, sm_more := (sm_more m)\<lparr>dl_instance := Some j\<rparr>\<rparr>,
       ru_world = w\<lparr>aw_cloud := c2, aw_instance_queue := aw_instance_queue w @ [i]\<rparr> \<rparr>)"
proof -
  have "ai_id x = i" using assms(5) by (auto simp: find_Some_iff)
  with assms show ?thesis
    by (simp add: aws_delete_advance_def block_defs aws_states del_instance_def del_start_def del_instance_start_def
        aws_deleteInstance_def refresh_delete_instance_def on_aws_def)
qed

lemma delete_unlisted:
  assumes "sm_state m = SM_START" and "sm_external_id m = JDict [(''instance'', JStr i)]"
    and "aa_instances A (aw_cloud w) = (Inr xs, c)" and "i \<notin> ai_id ` set xs"
  shows "\<exists>m'. aws_delete_advance A \<lparr> ru_machine = m, ru_world = w \<rparr> =
    (Inr (Some ()), \<lparr> ru_machine = m', ru_world = w\<lparr>aw_cloud := c\<rparr> \<rparr>) \<and> sm_complete m'"
proof -
  have "find (\<lambda>x. ai_id x = i) xs = None" using assms(4) by (auto simp: find_None_iff)
  with assms show ?thesis
    by (simp add: aws_delete_advance_def block_defs aws_states del_instance_def del_start_def del_instance_start_def
        aws_deleteInstance_def refresh_delete_instance_def on_aws_def)
qed

subsection \<open>Batches\<close>

lemma batch_taken: "aw_instance_queue (snd (deleteThread_round A w)) = drop 50 (aw_instance_queue w)"
  by (auto simp: deleteThread_round_def eff_ignore_run deleteThreadInner_def get_batch_def BATCH_def eff_when_def
      on_aws_def run_ops split: prod.splits sum.splits)

lemma batches_taken: "aw_instance_queue (((\<lambda>w. snd (deleteThread_round A w)) ^^ n) w) = drop (50 * n) (aw_instance_queue w)"
proof (induction n)
  case (Suc n)
  then show ?case using batch_taken [of A "((\<lambda>w. snd (deleteThread_round A w)) ^^ n) w"] by (simp add: add.commute)
qed simp

lemma batch_lost:
  assumes "aw_instance_queue w \<noteq> []" and "aa_terminate A (take 50 (aw_instance_queue w)) (aw_cloud w) = (Inl e, c)"
  shows "deleteThread_round A w = (Inr (), w\<lparr>aw_cloud := c, aw_instance_queue := drop 50 (aw_instance_queue w)\<rparr>)"
  using assms
  by (simp add: deleteThread_round_def eff_ignore_run deleteThreadInner_def get_batch_def BATCH_def eff_when_def
      on_aws_def run_ops)

lemma batch_sent:
  assumes "aw_instance_queue w \<noteq> []" and "aw_host_queue w = []"
    and "aa_terminate A (take 50 (aw_instance_queue w)) (aw_cloud w) = (Inr (), c)"
  shows "deleteThread_round A w = (Inr (), w\<lparr>aw_cloud := c, aw_instance_queue := drop 50 (aw_instance_queue w)\<rparr>)"
  using assms
  by (simp add: deleteThread_round_def eff_ignore_run deleteThreadInner_def get_batch_def BATCH_def eff_when_def
      on_aws_def run_ops)

subsection \<open>Tags\<close>

text \<open>An image without tags of its own, made from a snapshot that one of the tasks imported for this provider.\<close>

lemma tagAmis_one:
  assumes "aa_amis A (aw_cloud w) = (Inr [a], c)" and "am_id a \<notin> set (aw_not_images w)" and "\<not> has_tags (am_tags a)"
    and "\<not> startswith (am_name a) ''import-ami-''" and "ami_snapshot a = Some s"
    and "aa_import_snapshot_tasks A None c = (Inr tasks, c2)" and "task_map tasks = Inr m"
    and "map_of m s = Some ts" and "ts \<noteq> []" and "own_tags cfg (Some ts)" and "at_tags (last tasks) = Some us"
  shows "tagAmis A cfg w = (case aa_create_tags A (am_id a) us c2 of (r, c3) \<Rightarrow> (r, w\<lparr>aw_cloud := c3\<rparr>))"
  using assms
  by (simp add: tagAmis_def examine_ami_def tag_examined_def create_tags_def on_aws_def run_ops split: prod.split sum.split)

subsection \<open>Limits\<close>

lemma add_limit_keeps: "map_of args c = Some v \<Longrightarrow> map_of (add_limit quotas code args) c = Some v"
  by (auto simp: add_limit_def map_add_Some_iff split: option.splits)

lemma add_limits_keep: "map_of args c = Some v \<Longrightarrow> map_of (fold (add_limit quotas) codes args) c = Some v"
  by (induction codes arbitrary: args) (auto intro: add_limit_keeps)

text \<open>Every entry of the arguments is the quota's own.\<close>

definition args_from :: "(string \<times> rat) list \<Rightarrow> (string \<times> qval) list \<Rightarrow> bool" where
  "args_from quotas args \<longleftrightarrow> (\<forall>c v. map_of args c = Some v \<longrightarrow> (\<exists>q. map_of quotas c = Some q \<and> v = QNum (Fin q)))"

lemma add_limit_from: "args_from quotas args \<Longrightarrow> args_from quotas (add_limit quotas code args)"
  by (auto simp: args_from_def add_limit_def map_add_def split: option.splits if_splits)

lemma add_limits_from: "args_from quotas args \<Longrightarrow> args_from quotas (fold (add_limit quotas) codes args)"
  by (induction codes arbitrary: args) (auto intro: add_limit_from)

lemma add_limits_cover:
  assumes "code \<in> set codes" and "real_code code = Some c" and "map_of quotas c = Some v" and "args_from quotas args"
  shows "map_of (fold (add_limit quotas) codes args) c = Some (QNum (Fin v))"
proof -
  from assms(1) obtain xs ys where codes: "codes = xs @ code # ys" by (auto simp: in_set_conv_decomp)
  let ?a = "fold (add_limit quotas) xs args"
  have af: "args_from quotas ?a" using assms(4) by (rule add_limits_from)
  have "map_of (add_limit quotas code ?a) c = Some (QNum (Fin v))"
  proof (cases "map_of ?a c")
    case None
    then show ?thesis using assms(2,3) by (simp add: add_limit_def map_add_def)
  next
    case (Some x)
    with af obtain q where "map_of quotas c = Some q" "x = QNum (Fin q)" unfolding args_from_def by blast
    with assms(3) have "x = QNum (Fin v)" by simp
    with add_limit_keeps [OF Some] show ?thesis by simp
  qed
  from add_limits_keep [OF this] show ?thesis by (simp add: codes)
qed

lemma fold_none: "(\<And>x a. x \<in> set xs \<Longrightarrow> map_of a c = None \<Longrightarrow> map_of (f x a) c = None) \<Longrightarrow> map_of a c = None \<Longrightarrow>
    map_of (fold f xs a) c = None"
  by (induction xs arbitrary: a) auto

lemma add_volume_keeps: "map_of args c = Some v \<Longrightarrow> map_of (add_volume_limit quotas rc args) c = Some v"
  by (auto simp: add_volume_limit_def map_add_Some_iff split: option.splits prod.splits)

lemma add_volumes_keep: "map_of args c = Some v \<Longrightarrow> map_of (fold (add_volume_limit quotas) rcs args) c = Some v"
  by (induction rcs arbitrary: args) (auto intro: add_volume_keeps)

definition volume_limit :: "string \<Rightarrow> rat \<Rightarrow> qval" where
  "volume_limit resource v = QNum (Fin (if resource = ''storage'' then v * 1000 else v))"

text \<open>A code that stands for one resource only, and is not an argument yet.\<close>

lemma add_volumes_cover:
  assumes "(resource, c) \<in> set rcs" and "\<And>r. (r, c) \<in> set rcs \<Longrightarrow> r = resource" and "map_of quotas c = Some v"
    and "map_of args c = None"
  shows "map_of (fold (add_volume_limit quotas) rcs args) c = Some (volume_limit resource v)"
  using assms
proof (induction rcs arbitrary: args)
  case (Cons rc rcs)
  obtain r d where rc: "rc = (r, d)" by fastforce
  show ?case
  proof (cases "d = c")
    case True
    with Cons.prems(2) [of r] rc have "r = resource" by simp
    with True Cons.prems(3,4) rc have "map_of (add_volume_limit quotas rc args) c = Some (volume_limit resource v)"
      by (simp add: add_volume_limit_def volume_limit_def map_add_def)
    from add_volumes_keep [OF this] show ?thesis by simp
  next
    case False
    with Cons.prems(4) rc have none: "map_of (add_volume_limit quotas rc args) c = None"
      by (auto simp: add_volume_limit_def map_add_def split: option.splits)
    have there: "(resource, c) \<in> set rcs" using Cons.prems(1) False rc by auto
    have one: "r' = resource" if "(r', c) \<in> set rcs" for r' using Cons.prems(2) [of r'] that by simp
    show ?thesis using Cons.IH [OF there one Cons.prems(3) none] by simp
  qed
qed simp

text \<open>The codes of the tables: those of volumes are apart, and each stands for one resource.\<close>

definition all_volume_codes :: "(string \<times> string) list" where
  "all_volume_codes = concat (map snd VOLUME_QUOTA_CODES)"

lemma volume_codes_in: "rc \<in> set (volume_codes t) \<Longrightarrow> rc \<in> set all_volume_codes"
proof (cases "map_of VOLUME_QUOTA_CODES t")
  case (Some cs)
  assume "rc \<in> set (volume_codes t)"
  with Some map_of_SomeD [OF Some] have "(t, cs) \<in> set VOLUME_QUOTA_CODES" "rc \<in> set cs" by (simp_all add: volume_codes_def)
  then show ?thesis unfolding all_volume_codes_def by force
qed (simp add: volume_codes_def)

lemma volume_codes_distinct: "distinct (map snd all_volume_codes)"
  by code_simp

lemma volume_codes_apart_instance:
  "list_all (\<lambda>(k, a, b). a \<notin> snd ` set all_volume_codes \<and> b \<notin> snd ` set all_volume_codes) INSTANCE_QUOTA_CODES"
  by code_simp

lemma volume_codes_apart_host: "list_all (\<lambda>(k, a). a \<notin> snd ` set all_volume_codes) HOST_QUOTA_CODES"
  by code_simp

lemma instance_code_apart:
  assumes "getQuotaCodeForInstanceType t m = Some c"
  shows "c \<notin> snd ` set all_volume_codes"
proof -
  from assms obtain k a b where k: "map_of INSTANCE_QUOTA_CODES k = Some (a, b)" and c: "c = a \<or> c = b"
    by (auto simp: getQuotaCodeForInstanceType_def split: option.splits market.splits)
  from volume_codes_apart_instance map_of_SomeD [OF k] c show ?thesis by (auto simp: list_all_iff)
qed

lemma host_code_apart:
  assumes "getQuotaCodeForHostType t = Some c"
  shows "c \<notin> snd ` set all_volume_codes"
proof -
  from assms obtain k where k: "map_of HOST_QUOTA_CODES k = Some c"
    by (auto simp: getQuotaCodeForHostType_def split: option.splits)
  from volume_codes_apart_host map_of_SomeD [OF k] show ?thesis by (auto simp: list_all_iff)
qed

text \<open>The codes of every label have their limits, as far as AWS reports them.\<close>

lemma limits_of_types:
  assumes "limit_args ls ec2 ebs = Inr args"
    and "code \<in> set (instance_codes ls) \<or> (\<exists>hs. host_codes ls = Inr hs \<and> code \<in> set hs)"
    and "real_code code = Some c" and "map_of ec2 c = Some v"
  shows "map_of args c = Some (QNum (Fin v))"
proof -
  from assms(1) obtain hs where hs: "host_codes ls = Inr hs"
    and args: "args = fold (add_volume_limit ebs) (concat (map volume_codes (volume_types ls)))
      (fold (add_limit ec2) (instance_codes ls @ hs) [])"
    by (auto simp: limit_args_def bindE_eq_Inr)
  have "code \<in> set (instance_codes ls @ hs)" using assms(2) hs by auto
  from add_limits_cover [OF this assms(3,4)] have "map_of (fold (add_limit ec2) (instance_codes ls @ hs) []) c = Some (QNum (Fin v))"
    by (simp add: args_from_def)
  from add_volumes_keep [OF this] show ?thesis by (simp add: args)
qed

lemma type_code_apart:
  assumes "code \<in> set (instance_codes ls @ hs)" and "host_codes ls = Inr hs" and "real_code code = Some c"
  shows "c \<notin> snd ` set all_volume_codes"
proof -
  from assms(3) have code: "code = Some c" by (simp add: real_code_def split: if_splits)
  from assms(1) consider "code \<in> set (instance_codes ls)" | "code \<in> set hs" by auto
  then show ?thesis
  proof cases
    case 1
    then obtain l t where "code = getQuotaCodeForInstanceType t (label_market l)" by (auto simp: instance_codes_def)
    with code instance_code_apart show ?thesis by metis
  next
    case 2
    from assms(2) 2 obtain t where "code = getQuotaCodeForHostType t"
      unfolding host_codes_def
      by (induction "filter awl_dedicated_host ls" arbitrary: ls hs)
        (auto simp: bindE_eq_Inr split: option.splits dest!: filter_eq_ConsD [OF sym])
    with code host_code_apart show ?thesis by metis
  qed
qed

lemma limits_of_volumes:
  assumes "limit_args ls ec2 ebs = Inr args" and "t \<in> set (volume_types ls)" and "(resource, c) \<in> set (volume_codes t)"
    and "map_of ebs c = Some v"
  shows "map_of args c = Some (volume_limit resource v)"
proof -
  let ?rcs = "concat (map volume_codes (volume_types ls))"
  from assms(1) obtain hs where hs: "host_codes ls = Inr hs"
    and args: "args = fold (add_volume_limit ebs) ?rcs (fold (add_limit ec2) (instance_codes ls @ hs) [])"
    by (auto simp: limit_args_def bindE_eq_Inr)
  have c: "c \<in> snd ` set all_volume_codes" using volume_codes_in [OF assms(3)] by force
  have "map_of (fold (add_limit ec2) (instance_codes ls @ hs) []) c = None"
  proof (rule fold_none)
    fix code and a :: "(string \<times> qval) list" assume "code \<in> set (instance_codes ls @ hs)" and a: "map_of a c = None"
    with type_code_apart [OF _ hs] c have "real_code code \<noteq> Some c" by blast
    with a show "map_of (add_limit ec2 code a) c = None"
      by (auto simp: add_limit_def map_add_def split: option.splits)
  qed simp
  moreover have "(resource, c) \<in> set ?rcs" using assms(2,3) by auto
  moreover have "r = resource" if "(r, c) \<in> set ?rcs" for r
  proof -
    have "(r, c) \<in> set all_volume_codes" "(resource, c) \<in> set all_volume_codes"
      using that assms(3) volume_codes_in by auto
    with volume_codes_distinct show ?thesis unfolding distinct_map by (metis inj_onD prod.inject snd_conv)
  qed
  ultimately show ?thesis unfolding args using add_volumes_cover assms(4) by blast
qed

end
