(* ===== verification/AwsClaims.thy ===== *)
theory AwsClaims
  imports AwsProps "HOL-Library.Sublist"
begin

section \<open>Properties of the AWS driver\<close>

text \<open>
  What the state machines, the deletions, the tags and the limits of the AWS driver guarantee, and
  where they fail, with witnesses on a cloud that is a list of instances.
\<close>

subsection \<open>A cloud for the witnesses\<close>

definition api_one :: "aws_instance list aws_api" where
  "api_one = \<lparr> aa_hosts = (\<lambda>c. (Inr [], c)), aa_instances = (\<lambda>c. (Inr c, c)), aa_volumes = (\<lambda>c. (Inr [], c)),
     aa_amis = (\<lambda>c. (Inr [\<lparr> am_id = ''ami-1'', am_name = ''n'', am_state = ''available'', am_tags = None,
                          am_devices = [Some (Some ''snap-1'')] \<rparr>], c)),
     aa_snapshots = (\<lambda>c. (Inr [], c)), aa_objects = (\<lambda>c. (Inr [], c)), aa_object_tags = (\<lambda>k c. (Inr [], c)),
     aa_ec2_quotas = (\<lambda>c. (Inr [], c)), aa_ebs_quotas = (\<lambda>c. (Inr [], c)),
     aa_instance_type = (\<lambda>t c. (Inr \<lparr> it_cores = 1, it_vcpus = 2, it_ram = 1024 \<rparr>, c)),
     aa_terminate = (\<lambda>is c. (Inl (ClientError ''InvalidInstanceID.NotFound''), c)),
     aa_release_hosts = (\<lambda>is c. (Inr (), c)), aa_delete_volume = (\<lambda>i c. (Inr (), c)),
     aa_deregister_image = (\<lambda>i c. (Inr (), c)), aa_delete_snapshot = (\<lambda>i c. (Inr (), c)),
     aa_delete_object = (\<lambda>i c. (Inr (), c)),
     aa_create_tags = (\<lambda>i ts c. (Inr (), map (\<lambda>x. x\<lparr>ai_tags := Some ts\<rparr>) c)),
     aa_import_image_tasks = (\<lambda>t c. (Inr [], c)),
     aa_import_snapshot_tasks = (\<lambda>t c. (Inr
        [\<lparr> at_status = ''completed'', at_tags = Some [(''nodepool_provider_name'', ''aws''), (''nodepool_upload_id'', ''1'')],
           at_image_id = [], at_snapshot_id = Some ''snap-1'' \<rparr>,
         \<lparr> at_status = ''active'', at_tags = Some [(''owner'', ''other'')], at_image_id = [], at_snapshot_id = None \<rparr>], c)),
     aa_describe_images = (\<lambda>f c. (Inr [], c)), aa_image_devices = (\<lambda>i c. (Inr [], c)),
     aa_allocate_hosts = (\<lambda>a c. (Inr [], c)),
     aa_run_instances = (\<lambda>a c. (Inr c, c)), aa_create_fleet = (\<lambda>a c. (Inr [], c)),
     aa_describe_instances = (\<lambda>i c. (Inr c, c)), aa_templates = (\<lambda>c. (Inr [], c)),
     aa_create_template = (\<lambda>a c. (Inr (), c)), aa_delete_template = (\<lambda>n c. (Inr (), c)),
     aa_template_name = (\<lambda>a. []), aa_upload_object = (\<lambda>n m c. (Inr (), c)),
     aa_import_image = (\<lambda>a c. (Inr [], c)), aa_import_snapshot = (\<lambda>a c. (Inr [], c)),
     aa_snapshot_size = (\<lambda>s c. (Inr 1, c)), aa_register_image = (\<lambda>a c. (Inr [], c)) \<rparr>"

definition aws_one :: aws_config where
  "aws_one = \<lparr> awc_name = ''aws'', awc_region = ''us'', awc_labels = [], awc_bucket = None, awc_object_storage = False,
     awc_import_timeout = None, awc_str = (\<lambda>v. []), awc_format = (\<lambda>f d. Inr f) \<rparr>"

definition label_one :: aws_label where
  "label_one = \<lparr> awl_name = ''l'', awl_pool = \<lparr> apl_security_group_id = None, apl_subnet_id = None, apl_public_ipv4 = True,
       apl_public_ipv6 = False, apl_az = None \<rparr>, awl_image_id = Some ''ami-1'', awl_image_filters = None,
     awl_ebs_optimized = False, awl_instance_type = Some ''t3.medium'', awl_key_name = ''k'',
     awl_volume_type = Some ''gp3'', awl_volume_size = Some 80, awl_iops = None, awl_throughput = None,
     awl_userdata = None, awl_iam_profile = None, awl_tags = [], awl_dynamic_tags = [], awl_use_spot = False,
     awl_imdsv2 = None, awl_dedicated_host = False, awl_fleet = None \<rparr>"

definition i_one :: aws_instance where
  "i_one = \<lparr> ai_id = ''i-1'', ai_state = ''pending'', ai_type = ''t3.medium'', ai_tags = None, ai_private_ip = None,
     ai_public_ip = None, ai_interfaces = [], ai_az = None, ai_host_id = None, ai_lifecycle = None, ai_volumes = [] \<rparr>"

definition aw_one :: "aws_instance list aws_world" where
  "aw_one = \<lparr> aw_cloud = [i_one], aw_instance_queue = [], aw_host_queue = [], aw_not_images = [], aw_not_snapshots = [] \<rparr>"

subsection \<open>The state machines\<close>

text \<open>States whose places never fall pass through the list, leaving each state for good.\<close>

lemma places_subseq:
  assumes "sorted (map (place_in ss) (x # xs))" and "x \<in> set ss"
  shows "subseq (remdups_adj (x # xs)) (drop (place_in ss x - 1) ss)"
  using assms
proof (induction xs arbitrary: x)
  case Nil
  have "drop (place_in ss x - 1) ss = x # drop (place_in ss x) ss"
    using place_in_nth [OF Nil.prems(2)] place_in_pos [of ss x] Nil.prems(2)
      Cons_nth_drop_Suc [of "place_in ss x - 1" ss] by simp
  then show ?case by simp
next
  case (Cons y ys)
  have y: "y \<in> set ss" using Cons.prems place_in_pos [of ss x] place_in_pos [of ss y] by auto
  have ih: "subseq (remdups_adj (y # ys)) (drop (place_in ss y - 1) ss)"
    using Cons.IH [of y] Cons.prems(1) y by simp
  show ?case
  proof (cases "x = y")
    case False
    have pos: "0 < place_in ss x" "0 < place_in ss y" using Cons.prems(2) y place_in_pos by blast+
    have "place_in ss x \<noteq> place_in ss y"
      using False place_in_nth(2) [OF Cons.prems(2)] place_in_nth(2) [OF y] by auto
    with Cons.prems(1) have lt: "place_in ss x < place_in ss y" by simp
    have "drop (place_in ss x - 1) ss = x # drop (place_in ss x) ss"
      using place_in_nth [OF Cons.prems(2)] pos Cons_nth_drop_Suc [of "place_in ss x - 1" ss] by simp
    moreover have "subseq (drop (place_in ss y - 1) ss) (drop (place_in ss x) ss)"
    proof -
      have "drop (place_in ss y - 1) ss = drop (place_in ss y - 1 - place_in ss x) (drop (place_in ss x) ss)"
        using lt by simp
      then show ?thesis using suffix_imp_subseq [OF suffix_drop] by metis
    qed
    ultimately show ?thesis using False ih subseq_order.trans [OF ih] by simp
  qed (use ih in simp)
qed

lemma in_order:
  assumes "sorted (map (place_in ss) (x # xs))" and "x \<in> set ss"
  shows "subseq (remdups_adj (x # xs)) ss"
  using places_subseq [OF assms] subseq_order.trans suffix_imp_subseq [OF suffix_drop] by blast

text \<open>
  C27: However often the two state machines are advanced, whatever the calls answer or raise, and whatever
  happens in between - futures they wait for are completed, by a result or an exception, the instance
  and host they hold are changed, the world changes - they pass through their states in the order of
  the code's blocks and never come back to a state they have left.
\<close>
theorem aws_machines_move_on:
  assumes "sm_state (ru_machine r) \<in> set [SM_START, INSTANCE_DELETING_START, INSTANCE_DELETING,
      HOST_RELEASING_START, HOST_RELEASING, AWS_COMPLETE]"
    and "sm_state (ru_machine s) \<in> set [SM_START, HOST_ALLOCATING_START, HOST_ALLOCATING_SUBMIT, HOST_ALLOCATING,
      INSTANCE_CREATING_START, INSTANCE_CREATING_SUBMIT, INSTANCE_CREATING, AWS_COMPLETE]"
  shows "subseq (remdups_adj (sm_state (ru_machine r) # machine_states aws_delete_advance es r))
      [SM_START, INSTANCE_DELETING_START, INSTANCE_DELETING, HOST_RELEASING_START, HOST_RELEASING, AWS_COMPLETE] \<and>
    subseq (remdups_adj (sm_state (ru_machine s) # machine_states (\<lambda>(A, cfg). aws_create_advance A cfg) fs s))
      [SM_START, HOST_ALLOCATING_START, HOST_ALLOCATING_SUBMIT, HOST_ALLOCATING,
       INSTANCE_CREATING_START, INSTANCE_CREATING_SUBMIT, INSTANCE_CREATING, AWS_COMPLETE]"
  using in_order [OF del_machine.states_sorted [of r es, unfolded del_rank_def aws_del_order_def] assms(1)]
    in_order [OF cre_machine.states_sorted [of s fs, unfolded cre_rank_def aws_cre_order_def] assms(2)]
  by (rule conjI)

text \<open>A create machine whose future is completed between its second and its third call.\<close>

definition cre_one :: "(aws_create, aws_instance list aws_world) run" where
  "cre_one = \<lparr> ru_machine = aws_getCreateStateMachine aws_one label_one ''np1'' None [] (node_request_init None) 0,
     ru_world = aw_one \<rparr>"

definition complete_one :: "aws_create \<Rightarrow> aws_instance list aws_world \<Rightarrow> aws_create \<times> aws_instance list aws_world" where
  "complete_one m w =
     (let r = snd (run_future api_one aws_one (\<lambda>s. s) \<lparr> ru_machine = sm_init 0 m, ru_world = w \<rparr>)
      in (sm_more (ru_machine r), ru_world r))"

definition del_one :: "(aws_delete, aws_instance list aws_world) run" where
  "del_one = \<lparr> ru_machine = sm_init 0 \<lparr> dl_instance = Some i_one, dl_host = None \<rparr>, ru_world = aw_one \<rparr>"

lemma one_starts: "sm_state (ru_machine del_one) = SM_START" "sm_state (ru_machine cre_one) = SM_START"
  by (simp_all add: del_one_def cre_one_def aws_getCreateStateMachine_def sm_init_def)

theorem aws_machines_move_on_witness:
  "subseq (remdups_adj (SM_START # machine_states (\<lambda>(A, cfg). aws_create_advance A cfg)
      [((api_one, aws_one), Pair), ((api_one, aws_one), Pair), ((api_one, aws_one), complete_one)] cre_one))
    [SM_START, HOST_ALLOCATING_START, HOST_ALLOCATING_SUBMIT, HOST_ALLOCATING,
     INSTANCE_CREATING_START, INSTANCE_CREATING_SUBMIT, INSTANCE_CREATING, AWS_COMPLETE]"
proof -
  have "sm_state (ru_machine del_one) \<in> set [SM_START, INSTANCE_DELETING_START, INSTANCE_DELETING,
      HOST_RELEASING_START, HOST_RELEASING, AWS_COMPLETE]"
    and "sm_state (ru_machine cre_one) \<in> set [SM_START, HOST_ALLOCATING_START, HOST_ALLOCATING_SUBMIT, HOST_ALLOCATING,
      INSTANCE_CREATING_START, INSTANCE_CREATING_SUBMIT, INSTANCE_CREATING, AWS_COMPLETE]"
    unfolding one_starts by simp_all
  from conjunct2 [OF aws_machines_move_on [OF this, of "[]"]] show ?thesis unfolding one_starts .
qed

text \<open>
  C28: In every state of its life, after any exceptions, the external id of an AWS create machine
  names the host and the instance it has got, so that what is deleted by that id is all that was created.
\<close>
theorem aws_external_id_complete:
  assumes "aws_creating A cfg base64 r"
  shows "\<exists>d. sm_external_id (ru_machine r) = JDict d \<and>
    (\<forall>h. cr_host (sm_more (ru_machine r)) = Some h \<longrightarrow> map_of d ''host'' = Some (JStr (ah_id h))) \<and>
    (\<forall>i. cr_instance (sm_more (ru_machine r)) = Some i \<longrightarrow> map_of d ''instance'' = Some (JStr (ai_id i)))"
  using creating_names [OF assms] by (auto simp: names_created_def split: option.splits)

definition created_one :: "(aws_create, aws_instance list aws_world) run" where
  "created_one = snd (aws_create_advance api_one aws_one (snd (run_future api_one aws_one (\<lambda>s. s)
     (snd (aws_create_advance api_one aws_one
       \<lparr> ru_machine = aws_getCreateStateMachine aws_one label_one ''np1'' None [] (node_request_init None) 0,
         ru_world = aw_one \<rparr>)))))"

lemma created_one_instance: "cr_instance (sm_more (ru_machine created_one)) = Some i_one"
  by code_simp

theorem aws_external_id_complete_witness:
  "\<exists>d. sm_external_id (ru_machine created_one) = JDict d \<and> map_of d ''instance'' = Some (JStr ''i-1'')"
proof -
  have "aws_creating api_one aws_one (\<lambda>s. s) created_one"
    unfolding created_one_def by (intro aws_creating.intros)
  from aws_external_id_complete [OF this] created_one_instance show ?thesis by (auto simp: i_one_def)
qed

text \<open>
  C29: As long as the listing has the instance alive, an AWS delete machine waits for it: it is not
  complete, it stays in its state, and nothing is queued, so the host under the instance is not released.
\<close>
theorem aws_delete_waits:
  assumes "sm_state m = INSTANCE_DELETING" and "dl_instance (sm_more m) = Some i"
    and "aa_instances A (aw_cloud w) = (Inr xs, c)" and "live_instance xs (ai_id i) = Some j"
  shows "\<exists>d. aws_delete_advance A \<lparr> ru_machine = m, ru_world = w \<rparr> =
    (Inr None, \<lparr> ru_machine = m\<lparr>sm_more := d\<rparr>, ru_world = w\<lparr>aw_cloud := c\<rparr> \<rparr>) \<and> dl_instance d = Some j"
  using delete_waits [OF assms] by auto

definition deleting_one :: "aws_delete state_machine" where
  "deleting_one = (sm_init 0 \<lparr> dl_instance = Some i_one, dl_host = None \<rparr>)\<lparr> sm_state := INSTANCE_DELETING \<rparr>"

theorem aws_delete_waits_witness:
  "\<exists>d. aws_delete_advance api_one \<lparr> ru_machine = deleting_one, ru_world = aw_one \<rparr> =
    (Inr None, \<lparr> ru_machine = deleting_one\<lparr>sm_more := d\<rparr>, ru_world = aw_one\<lparr>aw_cloud := [i_one]\<rparr> \<rparr>) \<and> dl_instance d = Some i_one"
proof -
  have "lower (ai_state i_one) \<noteq> ''terminated''" by code_simp
  then have "live_instance [i_one] (ai_id i_one) = Some i_one" by (simp add: live_instance_def)
  then show ?thesis
    by (intro aws_delete_waits [of _ i_one _ _ "[i_one]"]) (simp_all add: deleting_one_def sm_init_def api_one_def aw_one_def)
qed

text \<open>
  An instance that the listing does not show, for example because the cached listing is
  older than the instance, counts as deleted: the machine is complete after one call, although nothing was queued or
  terminated.
\<close>
theorem aws_delete_unlisted:
  assumes "aa_instances A (aw_cloud w) = (Inr xs, c)" and "i \<notin> ai_id ` set xs"
  shows "\<exists>m. aws_delete_advance A \<lparr> ru_machine = aws_getDeleteStateMachine (JStr i) clk, ru_world = w \<rparr> =
    (Inr (Some ()), \<lparr> ru_machine = m, ru_world = w\<lparr>aw_cloud := c\<rparr> \<rparr>) \<and> sm_complete m"
  using assms
  by (intro delete_unlisted) (simp_all add: aws_getDeleteStateMachine_def sm_init_def)

theorem aws_delete_unlisted_witness:
  "\<exists>m. aws_delete_advance api_one \<lparr> ru_machine = aws_getDeleteStateMachine (JStr ''i-2'') 0, ru_world = aw_one \<rparr> =
    (Inr (Some ()), \<lparr> ru_machine = m, ru_world = aw_one\<lparr>aw_cloud := [i_one]\<rparr> \<rparr>) \<and> sm_complete m"
  by (rule aws_delete_unlisted [of _ _ "[i_one]"]) (simp_all add: api_one_def aw_one_def i_one_def)

subsection \<open>Batches, tags and limits\<close>

text \<open>
  Each round of the AWS delete thread takes the next fifty ids from its queue, whether the call
  succeeds or not, so that after \<open>n\<close> rounds \<open>50 n\<close> of them are gone; and a batch whose call fails is
  lost: its instances are not queued again.
\<close>
theorem aws_delete_batches:
  "aw_instance_queue (((\<lambda>w. snd (deleteThread_round A w)) ^^ n) w) = drop (50 * n) (aw_instance_queue w) \<and>
   (aw_instance_queue w \<noteq> [] \<longrightarrow> aa_terminate A (take 50 (aw_instance_queue w)) (aw_cloud w) = (Inl e, c) \<longrightarrow>
      deleteThread_round A w = (Inr (), w\<lparr>aw_cloud := c, aw_instance_queue := drop 50 (aw_instance_queue w)\<rparr>))"
  by (intro conjI impI batches_taken batch_lost)

theorem aws_delete_batches_witness:
  "deleteThread_round api_one (aw_one\<lparr>aw_instance_queue := [''i-1'', ''i-9'']\<rparr>) = (Inr (), aw_one)"
  by (subst aws_delete_batches [THEN conjunct2, rule_format]) (simp_all add: api_one_def aw_one_def)

text \<open>
  An AMI made from an imported snapshot of this provider is given the tags of the last import task
  AWS lists, whatever image that task belongs to, and not the tags of its own task.
\<close>
theorem aws_foreign_tags:
  assumes "aa_amis A (aw_cloud w) = (Inr [a], c)" and "am_id a \<notin> set (aw_not_images w)" and "am_tags a = None"
    and "\<not> startswith (am_name a) ''import-ami-''" and "ami_snapshot a = Some s"
    and "aa_import_snapshot_tasks A None c = (Inr tasks, c2)" and "task_map tasks = Inr m"
    and "map_of m s = Some ts" and "own_tags cfg (Some ts)" and "at_tags (last tasks) = Some us"
  shows "tagAmis A cfg w = (case aa_create_tags A (am_id a) us c2 of (r, c3) \<Rightarrow> (r, w\<lparr>aw_cloud := c3\<rparr>))"
proof -
  have "ts \<noteq> []" using assms(9) by (auto simp: own_tags_def tag_list_to_dict_def dict_update_def)
  with assms show ?thesis by (intro tagAmis_one) (simp_all add: has_tags_def)
qed

theorem aws_foreign_tags_witness:
  "tagAmis api_one aws_one aw_one = (Inr (), aw_one\<lparr>aw_cloud := [i_one\<lparr>ai_tags := Some [(''owner'', ''other'')]\<rparr>]\<rparr>)"
proof -
  define a where "a = \<lparr> am_id = ''ami-1'', am_name = ''n'', am_state = ''available'', am_tags = None,
    am_devices = [Some (Some ''snap-1'')] \<rparr>"
  define tags where "tags = [(''nodepool_provider_name'', ''aws''), (''nodepool_upload_id'', ''1'')]"
  define tasks where "tasks = [\<lparr> at_status = ''completed'', at_tags = Some tags, at_image_id = [], at_snapshot_id = Some ''snap-1'' \<rparr>,
    \<lparr> at_status = ''active'', at_tags = Some [(''owner'', ''other'')], at_image_id = [], at_snapshot_id = None \<rparr>]"
  have amis: "aa_amis api_one (aw_cloud aw_one) = (Inr [a], [i_one])" by (simp add: api_one_def aw_one_def a_def)
  have tasks: "aa_import_snapshot_tasks api_one None [i_one] = (Inr tasks, [i_one])"
    by (simp add: api_one_def tasks_def tags_def)
  have known: "task_map tasks = Inr [(''snap-1'', tags)]" unfolding tasks_def tags_def by code_simp
  have own: "own_tags aws_one (Some tags)" unfolding tags_def by code_simp
  show ?thesis
    by (subst aws_foreign_tags [OF amis _ _ _ _ tasks known _ own, where us = "[(''owner'', ''other'')]"])
      (simp_all add: a_def tasks_def aw_one_def ami_snapshot_def startswith_def api_one_def)
qed

text \<open>
  The limits of an AWS provider cover what its labels use: every quota code of an instance type, of a
  dedicated host and of a volume type of a label has the limit that AWS reports for it, that of storage in gigabytes.
\<close>
theorem aws_limits_cover:
  assumes "limit_args ls ec2 ebs = Inr args" and "l \<in> set ls"
  shows "(t \<in> set (label_types l) \<longrightarrow> getQuotaCodeForInstanceType t (label_market l) = Some c \<longrightarrow> c \<noteq> [] \<longrightarrow>
      map_of ec2 c = Some v \<longrightarrow> map_of args c = Some (QNum (Fin v))) \<and>
    (awl_volume_type l = Some vt \<longrightarrow> (resource, d) \<in> set (volume_codes vt) \<longrightarrow> map_of ebs d = Some u \<longrightarrow>
      map_of args d = Some (QNum (Fin (if resource = ''storage'' then u * 1000 else u))))"
proof (intro conjI impI)
  show "map_of args c = Some (QNum (Fin v))"
    if "t \<in> set (label_types l)" "getQuotaCodeForInstanceType t (label_market l) = Some c" "c \<noteq> []" "map_of ec2 c = Some v"
    using assms(2) that by (intro limits_of_types [OF assms(1), of "Some c"]) (force simp: instance_codes_def real_code_def)+
  show "map_of args d = Some (QNum (Fin (if resource = ''storage'' then u * 1000 else u)))"
    if "awl_volume_type l = Some vt" "(resource, d) \<in> set (volume_codes vt)" "map_of ebs d = Some u"
  proof -
    have "vt \<noteq> []" using that(2) by (auto simp: volume_codes_def VOLUME_QUOTA_CODES_def)
    with that(1) assms(2) have "vt \<in> set (volume_types ls)" by (force simp: volume_types_def str_true_def)
    from limits_of_volumes [OF assms(1) this that(2,3)] show ?thesis by (simp add: volume_limit_def)
  qed
qed

lemma limit_args_one: "\<exists>args. limit_args [label_one] [(''L-1216C47A'', 32)] [(''L-7A658B76'', 50)] = Inr args"
  by (simp add: limit_args_def host_codes_def label_one_def)

theorem aws_limits_cover_witness:
  "\<exists>args. limit_args [label_one] [(''L-1216C47A'', 32)] [(''L-7A658B76'', 50)] = Inr args \<and>
     map_of args ''L-1216C47A'' = Some (QNum (Fin 32)) \<and> map_of args ''L-7A658B76'' = Some (QNum (Fin 50000))"
proof -
  obtain args where a: "limit_args [label_one] [(''L-1216C47A'', 32)] [(''L-7A658B76'', 50)] = Inr args"
    using limit_args_one by blast
  have t: "getQuotaCodeForInstanceType ''t3.medium'' (label_market label_one) = Some ''L-1216C47A''" by code_simp
  have v: "volume_codes ''gp3'' = [(''storage'', ''L-7A658B76'')]" by code_simp
  have "map_of args ''L-1216C47A'' = Some (QNum (Fin 32))"
    by (rule aws_limits_cover [where l = label_one and t = "''t3.medium''", OF a, THEN conjunct1, rule_format])
      (simp_all add: t label_types_def, simp_all add: label_one_def)
  moreover have "map_of args ''L-7A658B76'' = Some (QNum (Fin (if ''storage'' = ''storage'' then 50 * 1000 else 50)))"
    by (rule aws_limits_cover [where l = label_one and vt = "''gp3''", OF a, THEN conjunct2, rule_format])
      (simp_all add: v, simp_all add: label_one_def)
  ultimately show ?thesis using a by simp
qed

end
