(* ===== verification/Gce.thy ===== *)
theory Gce
  imports Machines
begin

section \<open>The GCE driver\<close>

text \<open>
  \<open>nodepool/driver/gce/adapter.py\<close>: instances, quota, the create and delete machines and what they do in
  the cloud. The compute API is a record of functions over an abstract cloud. The two caches that
  keep what they have seen (image ids and machine types) are part of the adapter's state; the
  listing, which is kept for ten seconds, is an answer of the API.
\<close>

subsection \<open>Data\<close>

text \<open>An entry of a metadata's \<open>items\<close>; the items may be missing.\<close>

record gce_item =
  gt_key :: string
  gt_value :: string

record gce_metadata =
  gm_items :: "gce_item list option"

record gce_interface =
  gf_network_ip :: "string option"
  gf_access :: "string option list"       \<comment> \<open>\<open>natIP\<close> of each access configuration\<close>

record gce_instance =
  gi_name :: string
  gi_zone :: string
  gi_status :: string
  gi_machine_type :: string
  gi_interfaces :: "gce_interface list"
  gi_metadata :: "gce_metadata option"

record gce_machine_type =
  gy_self_link :: "string option"
  gy_cpus :: "rat option"
  gy_memory :: "rat option"

record gce_image =
  gg_name :: string
  gg_image_id :: "string option"
  gg_project :: "string option"
  gg_family :: "string option"
  gg_username :: "string option"
  gg_key :: "string option"

record gce_label =
  gl_name :: string
  gl_image :: "gce_image option"
  gl_instance_type :: string
  gl_volume_type :: string
  gl_volume_size :: json

record gce_config =
  gc_name :: string
  gc_zone :: string

record gce_disk =
  gd_source :: "string option"
  gd_type :: string
  gd_size :: string

text \<open>The body of \<open>insert\<close>, less the constants of its network and disk.\<close>

record gce_body =
  gb_name :: string
  gb_machine_type :: string
  gb_disk :: gce_disk
  gb_metadata :: gce_metadata

record 'c gce_api =
  ga_list :: "('c, gce_instance list) eff"
  ga_insert :: "gce_body \<Rightarrow> ('c, unit) eff"
  ga_delete :: "string \<Rightarrow> ('c, unit) eff"
  ga_family :: "string option \<Rightarrow> string \<Rightarrow> ('c, string) eff"
  ga_machine_type :: "string \<Rightarrow> ('c, gce_machine_type) eff"
  ga_region_quotas :: "('c, (string \<times> rat) list) eff"      \<comment> \<open>metric and limit\<close>

record 'c gce_world =
  gw_cloud :: 'c
  gw_images :: "(gce_image \<times> string option) list"
  gw_types :: "(string \<times> gce_machine_type) list"

type_synonym ('c, 'a) gce_eff = "('c gce_world, 'a) eff"

definition on_gce :: "('c, 'a) eff \<Rightarrow> ('c, 'a) gce_eff" where
  "on_gce m = eff_zoom gw_cloud (\<lambda>c w. w\<lparr>gw_cloud := c\<rparr>) m"

subsection \<open>Metadata\<close>

definition gce_metadata_to_dict :: "gce_metadata option \<Rightarrow> (string \<times> string) list" where
  "gce_metadata_to_dict m =
     (case m of
        None \<Rightarrow> []
      | Some x \<Rightarrow> dict_update [] (map (\<lambda>i. (gt_key i, gt_value i)) (case gm_items x of None \<Rightarrow> [] | Some is \<Rightarrow> is)))"

definition dict_to_gce_metadata :: "(string \<times> string) list \<Rightarrow> gce_metadata" where
  "dict_to_gce_metadata d = \<lparr> gm_items = Some (map (\<lambda>(k, v). \<lparr> gt_key = k, gt_value = v \<rparr>) d) \<rparr>"

subsection \<open>Instances\<close>

text \<open>\<open>s.rsplit(c, 1)[0]\<close> and \<open>s.rsplit(c, 1)[1]\<close>.\<close>

definition rsplit_first :: "char \<Rightarrow> string \<Rightarrow> string" where
  "rsplit_first c s = (if c \<in> set s then rev (tl (dropWhile (\<lambda>x. x \<noteq> c) (rev s))) else s)"

definition rsplit_second :: "char \<Rightarrow> string \<Rightarrow> string res" where
  "rsplit_second c s = (if c \<in> set s then Inr (rev (takeWhile (\<lambda>x. x \<noteq> c) (rev s))) else Inl IndexError)"

definition gce_instance_of :: "gce_instance \<Rightarrow> quota \<Rightarrow> cloud_instance res" where
  "gce_instance_of d q =
     bindE (rsplit_second CHR ''/'' (gi_zone d)) (\<lambda>zone.
       let private = (case gi_interfaces d of [] \<Rightarrow> JNull | f # fs \<Rightarrow> opt_json (gf_network_ip f));
           public = (case gi_interfaces d of
                       f # fs \<Rightarrow> (case gf_access f of a # as \<Rightarrow> opt_json a | [] \<Rightarrow> JNull) | [] \<Rightarrow> JNull)
       in Inr (instance_init\<lparr>
            in_external_id := JStr (gi_name d), in_cloud := JStr ''Google'',
            in_region := JStr (rsplit_first CHR ''-'' zone), in_az := JStr zone,
            in_private_ipv4 := private, in_public_ipv4 := public,
            in_interface_ip := first_true [public, private],
            in_metadata := gce_metadata_to_dict (gi_metadata d), in_quota := Inr q \<rparr>))"

record gce_resource = cloud_resource +
  gr_id :: string

subsection \<open>Looking up\<close>

text \<open>Image ids and machine types are remembered; what raises is not.\<close>

definition gce_image_id :: "'c gce_api \<Rightarrow> gce_image \<Rightarrow> ('c, string option) gce_eff" where
  "gce_image_id A img =
     (if gg_image_id img \<noteq> None \<and> gg_image_id img \<noteq> Some [] then eff_ret (gg_image_id img)
      else case gg_family img of
        None \<Rightarrow> eff_ret (gg_image_id img)
      | Some f \<Rightarrow> if f = [] then eff_ret (gg_image_id img)
                  else eff_bind (on_gce (ga_family A (gg_project img) f)) (\<lambda>i. eff_ret (Some i)))"

definition gce_getImageId :: "'c gce_api \<Rightarrow> gce_image \<Rightarrow> ('c, string option) gce_eff" where
  "gce_getImageId A img =
     eff_bind (eff_get (\<lambda>w. map_of (gw_images w) img)) (\<lambda>known.
       case known of
         Some i \<Rightarrow> eff_ret i
       | None \<Rightarrow> eff_bind (gce_image_id A img) (\<lambda>i.
                   eff_seq (eff_mod (\<lambda>w. w\<lparr>gw_images := (img, i) # gw_images w\<rparr>)) (eff_ret i)))"

definition gce_getMachineType :: "'c gce_api \<Rightarrow> string \<Rightarrow> ('c, gce_machine_type) gce_eff" where
  "gce_getMachineType A t =
     eff_bind (eff_get (\<lambda>w. map_of (gw_types w) t)) (\<lambda>known.
       case known of
         Some m \<Rightarrow> eff_ret m
       | None \<Rightarrow> eff_bind (on_gce (ga_machine_type A t)) (\<lambda>m.
                   eff_seq (eff_mod (\<lambda>w. w\<lparr>gw_types := (t, m) # gw_types w\<rparr>)) (eff_ret m)))"

text \<open>A machine type without its sizes is forgotten, with all the others, before the exception goes on.\<close>

definition getQuotaForMachineType :: "'c gce_api \<Rightarrow> string \<Rightarrow> ('c, quota) gce_eff" where
  "getQuotaForMachineType A t =
     eff_bind (gce_getMachineType A t) (\<lambda>m.
       case (gy_cpus m, gy_memory m) of
         (Some c, Some r) \<Rightarrow> eff_ret (quota_init (Some (Fin c)) (Some (Fin 1)) (Some (Fin r)) (Fin 0) [])
       | _ \<Rightarrow> eff_seq (eff_mod (\<lambda>w. w\<lparr>gw_types := []\<rparr>)) (eff_raise KeyError))"

definition gce_getInstance :: "'c gce_api \<Rightarrow> string \<Rightarrow> ('c, gce_instance option) gce_eff" where
  "gce_getInstance A hostname =
     eff_bind (on_gce (ga_list A)) (\<lambda>is. eff_ret (find (\<lambda>i. gi_name i = hostname) is))"

text \<open>\<open>s.split('/')[-1]\<close>.\<close>

definition last_part :: "string \<Rightarrow> string" where
  "last_part s = last (py_split CHR ''/'' s)"

subsection \<open>Creating and deleting\<close>

definition gce_disk_of :: "gce_config \<Rightarrow> gce_label \<Rightarrow> string option \<Rightarrow> gce_disk res" where
  "gce_disk_of cfg l img =
     bindE (str_of (gl_volume_size l)) (\<lambda>size.
       Inr \<lparr> gd_source = img, gd_type = ''zones/'' @ gc_zone cfg @ ''/diskTypes/'' @ gl_volume_type l, gd_size = size \<rparr>)"

text \<open>\<open>'{}:{}'.format(username, key)\<close>.\<close>

definition ssh_keys :: "gce_image \<Rightarrow> (string \<times> string) list \<Rightarrow> (string \<times> string) list" where
  "ssh_keys img metadata =
     (case gg_key img of
        None \<Rightarrow> metadata
      | Some k \<Rightarrow> if k = [] then metadata
                  else AList.update ''ssh-keys''
                         ((case gg_username img of None \<Rightarrow> ''None'' | Some u \<Rightarrow> u) @ '':'' @ k) metadata)"

definition gce_createInstance ::
  "'c gce_api \<Rightarrow> gce_config \<Rightarrow> string \<Rightarrow> (string \<times> string) list \<Rightarrow> gce_label \<Rightarrow> ('c, unit) gce_eff" where
  "gce_createInstance A cfg hostname metadata l =
     (case gl_image l of
        None \<Rightarrow> eff_raise AttributeError
      | Some img \<Rightarrow>
          eff_bind (gce_getImageId A img) (\<lambda>i.
          eff_bind (eff_lift (gce_disk_of cfg l i)) (\<lambda>disk.
          eff_bind (gce_getMachineType A (gl_instance_type l)) (\<lambda>m.
          case gy_self_link m of
            None \<Rightarrow> eff_raise KeyError
          | Some link \<Rightarrow>
              on_gce (ga_insert A \<lparr> gb_name = hostname, gb_machine_type = link, gb_disk = disk,
                gb_metadata = dict_to_gce_metadata (ssh_keys img metadata) \<rparr>)))))"

definition gce_deleteInstance :: "'c gce_api \<Rightarrow> string \<Rightarrow> ('c, unit) gce_eff" where
  "gce_deleteInstance A i = on_gce (ga_delete A i)"

subsection \<open>The delete machine\<close>

definition GCE_INSTANCE_DELETING :: string where "GCE_INSTANCE_DELETING = ''deleting instance''"
definition GCE_INSTANCE_CREATING :: string where "GCE_INSTANCE_CREATING = ''creating instance''"
definition GCE_COMPLETE :: string where "GCE_COMPLETE = ''complete''"

record gce_delete =
  gx_id :: string

definition gce_getDeleteStateMachine :: "string \<Rightarrow> rat \<Rightarrow> gce_delete state_machine" where
  "gce_getDeleteStateMachine i clk = (sm_init clk \<lparr> gx_id = i \<rparr>)\<lparr> sm_external_id := JStr i \<rparr>"

definition gce_del_start :: "'c gce_api \<Rightarrow> (gce_delete, 'c gce_world, unit) run_eff" where
  "gce_del_start A =
     eff_bind (get_more gx_id) (\<lambda>i.
     eff_seq (on_world (gce_deleteInstance A i)) (goto GCE_INSTANCE_DELETING))"

definition gce_del_wait :: "'c gce_api \<Rightarrow> (gce_delete, 'c gce_world, unit) run_eff" where
  "gce_del_wait A =
     eff_bind (get_more gx_id) (\<lambda>i.
     eff_bind (on_world (gce_getInstance A i)) (\<lambda>d.
       if (case d of None \<Rightarrow> True | Some x \<Rightarrow> gi_status x = ''TERMINATED'') then goto GCE_COMPLETE else eff_ret ()))"

definition gce_delete_advance :: "'c gce_api \<Rightarrow> (gce_delete, 'c gce_world, unit option) run_eff" where
  "gce_delete_advance A =
     then_go (in_state SM_START (go_on (gce_del_start A)))
     (then_go (in_state GCE_INSTANCE_DELETING (go_on (gce_del_wait A)))
       (in_complete GCE_COMPLETE (eff_ret ())))"

subsection \<open>The create machine\<close>

record gce_create =
  gn_hostname :: string
  gn_metadata :: "(string \<times> string) list"
  gn_label :: gce_label
  gn_instance :: "gce_instance option"
  gn_quota :: "quota option"

type_synonym ('c, 'a) gce_cre = "(gce_create, 'c gce_world, 'a) run_eff"

definition gce_getCreateStateMachine ::
  "gce_label \<Rightarrow> string \<Rightarrow> (string \<times> string) list \<Rightarrow> rat \<Rightarrow> gce_create state_machine" where
  "gce_getCreateStateMachine l hostname metadata clk =
     sm_init clk \<lparr> gn_hostname = hostname, gn_metadata = metadata, gn_label = l, gn_instance = None, gn_quota = None \<rparr>"

text \<open>The external id is known before the instance is asked for.\<close>

definition gce_cre_start :: "'c gce_api \<Rightarrow> gce_config \<Rightarrow> ('c, unit) gce_cre" where
  "gce_cre_start A cfg =
     eff_bind (get_more id) (\<lambda>c.
     eff_seq (set_ext (\<lambda>x. JStr (gn_hostname c)))
     (eff_seq (on_world (gce_createInstance A cfg (gn_hostname c) (gn_metadata c) (gn_label c)))
       (goto GCE_INSTANCE_CREATING)))"

definition gce_need_quota :: "'c gce_api \<Rightarrow> gce_instance \<Rightarrow> ('c, unit) gce_cre" where
  "gce_need_quota A d =
     eff_bind (get_more gn_quota) (\<lambda>q.
       if q \<noteq> None then eff_ret ()
       else eff_bind (on_world (getQuotaForMachineType A (last_part (gi_machine_type d)))) (\<lambda>x.
              upd_more (\<lambda>c. c\<lparr>gn_quota := Some x\<rparr>)))"

definition gce_cre_wait :: "'c gce_api \<Rightarrow> ('c, bool) gce_cre" where
  "gce_cre_wait A =
     eff_bind (get_more gn_hostname) (\<lambda>h.
     eff_bind (on_world (gce_getInstance A h)) (\<lambda>found.
       case found of
         None \<Rightarrow> eff_ret False
       | Some d \<Rightarrow>
           eff_seq (gce_need_quota A d)
           (if gi_status d = ''RUNNING''
            then go_on (eff_seq (upd_more (\<lambda>c. c\<lparr>gn_instance := Some d\<rparr>)) (goto GCE_COMPLETE))
            else if gi_status d = ''TERMINATED'' then eff_raise LaunchStatusException
            else eff_ret False)))"

definition gce_cre_result :: "('c, cloud_instance) gce_cre" where
  "gce_cre_result =
     eff_bind (get_more id) (\<lambda>c.
       case (gn_instance c, gn_quota c) of
         (Some d, Some q) \<Rightarrow> eff_lift (gce_instance_of d q)
       | _ \<Rightarrow> eff_raise TypeError)"

definition gce_create_advance :: "'c gce_api \<Rightarrow> gce_config \<Rightarrow> ('c, cloud_instance option) gce_cre" where
  "gce_create_advance A cfg =
     then_go (in_state SM_START (go_on (gce_cre_start A cfg)))
     (then_go (in_state GCE_INSTANCE_CREATING (gce_cre_wait A))
       (in_complete GCE_COMPLETE gce_cre_result))"

subsection \<open>The adapter\<close>

definition gce_list_one :: "'c gce_api \<Rightarrow> gce_instance \<Rightarrow> cloud_instance list \<Rightarrow> ('c, cloud_instance list) gce_eff" where
  "gce_list_one A d acc =
     eff_bind (getQuotaForMachineType A (last_part (gi_machine_type d))) (\<lambda>q.
     eff_bind (eff_lift (gce_instance_of d q)) (\<lambda>x. eff_ret (acc @ [x])))"

definition gce_listInstances :: "'c gce_api \<Rightarrow> ('c, cloud_instance list) gce_eff" where
  "gce_listInstances A = eff_bind (on_gce (ga_list A)) (\<lambda>is. eff_fold (gce_list_one A) is [])"

definition gce_listResources :: "'c gce_api \<Rightarrow> ('c, gce_resource list) gce_eff" where
  "gce_listResources A =
     eff_bind (on_gce (ga_list A)) (\<lambda>is.
       eff_ret (map (\<lambda>i. \<lparr> re_metadata = gce_metadata_to_dict (gi_metadata i), re_type = ''instance'', gr_id = gi_name i \<rparr>)
         (filter (\<lambda>i. gi_status i \<noteq> ''TERMINATED'') is)))"

definition gce_deleteResource :: "'c gce_api \<Rightarrow> gce_resource \<Rightarrow> ('c, unit) gce_eff" where
  "gce_deleteResource A r = eff_when (re_type r = ''instance'') (gce_deleteInstance A (gr_id r))"

text \<open>The last limit of a metric counts.\<close>

definition gce_limit :: "string \<Rightarrow> (string \<times> rat) list \<Rightarrow> num option" where
  "gce_limit metric qs = map_option Fin (map_of (rev qs) metric)"

definition gce_getQuotaLimits :: "'c gce_api \<Rightarrow> ('c, quota) gce_eff" where
  "gce_getQuotaLimits A =
     eff_bind (on_gce (ga_region_quotas A)) (\<lambda>qs.
       eff_ret (quota_init (gce_limit ''CPUS'' qs) (gce_limit ''INSTANCES'' qs) None PosInf []))"

definition gce_getQuotaForLabel :: "'c gce_api \<Rightarrow> gce_label \<Rightarrow> ('c, quota) gce_eff" where
  "gce_getQuotaForLabel A l = getQuotaForMachineType A (gl_instance_type l)"

end
