(* ===== verification/Ibm.thy ===== *)
theory Ibm
  imports Machines
begin

section \<open>The IBM VPC driver: names, data and operations\<close>

text \<open>
  \<open>nodepool/driver/ibmvpc/adapter.py\<close>, first part: the names of resource groups that stand for metadata,
  instances, floating addresses and images, and the operations of the adapter. The services are a record
  of functions over an abstract cloud; what the constructor has read (resource groups, profiles,
  subnets, keys) is the adapter's state. The listings kept for ten seconds are answers.
\<close>

subsection \<open>Names\<close>

definition is_name_char :: "char \<Rightarrow> bool" where
  "is_name_char c = (let n = (of_char c :: nat) in
     65 \<le> n \<and> n \<le> 90 \<or> 97 \<le> n \<and> n \<le> 122 \<or> is_digit c \<or> c = CHR ''-'')"

text \<open>\<open>^np([0-9]+)$\<close> and \<open>^npimage([0-9]+)(.*?)\<close>, on names without line breaks.\<close>

definition match_hostname :: "string \<Rightarrow> string option" where
  "match_hostname s =
     (let d = drop 2 s in
      if startswith s ''np'' \<and> d \<noteq> [] \<and> list_all is_digit d then Some d else None)"

definition match_upload :: "string \<Rightarrow> string option" where
  "match_upload s =
     (let d = takeWhile is_digit (drop 7 s) in if startswith s ''npimage'' \<and> d \<noteq> [] then Some d else None)"

text \<open>\<open>^np_([A-Za-z0-9-]+)_([A-Za-z0-9-]+)$\<close> and \<open>^npimages_([A-Za-z0-9-]+)$\<close>.\<close>

definition match_group :: "string \<Rightarrow> (string \<times> string) option" where
  "match_group s =
     (let r = drop 3 s; p = takeWhile is_name_char r; q = dropWhile is_name_char r in
      if startswith s ''np_'' \<and> p \<noteq> [] \<and> q \<noteq> [] \<and> hd q = CHR ''_'' \<and> tl q \<noteq> [] \<and> list_all is_name_char (tl q)
      then Some (p, tl q) else None)"

definition match_image_group :: "string \<Rightarrow> string option" where
  "match_image_group s =
     (let r = drop 9 s in
      if startswith s ''npimages_'' \<and> r \<noteq> [] \<and> list_all is_name_char r then Some r else None)"

definition make_resource_group_name :: "string \<Rightarrow> string \<Rightarrow> string res" where
  "make_resource_group_name provider pool =
     (if CHR ''_'' \<in> set provider \<or> CHR ''_'' \<in> set pool then Inl GenericException
      else Inr (''np_'' @ provider @ ''_'' @ pool))"

definition make_image_resource_group_name :: "string \<Rightarrow> string res" where
  "make_image_resource_group_name provider =
     (if CHR ''_'' \<in> set provider then Inl GenericException else Inr (''npimages_'' @ provider))"

definition get_metadata :: "string option \<Rightarrow> string \<Rightarrow> (string \<times> string) list" where
  "get_metadata grp name =
     (case match_hostname name of
        Some i \<Rightarrow> [(''nodepool_node_id'', i)]
      | None \<Rightarrow> (case match_upload name of Some i \<Rightarrow> [(''nodepool_upload_id'', i)] | None \<Rightarrow> [])) @
     (case grp of
        None \<Rightarrow> []
      | Some g \<Rightarrow>
          (case match_group g of
             Some (p, q) \<Rightarrow> [(''nodepool_provider_name'', p), (''nodepool_pool_name'', q)]
           | None \<Rightarrow> (case match_image_group g of Some p \<Rightarrow> [(''nodepool_provider_name'', p)] | None \<Rightarrow> [])))"

subsection \<open>Data\<close>

record ibm_ref =
  ib_name :: "string option"
  ib_id :: string

record ibm_group =
  ig_name :: string
  ig_id :: string

record ibm_vm =
  iv_id :: string
  iv_name :: string
  iv_status :: string
  iv_nic :: string
  iv_address :: string
  iv_zone :: string
  iv_profile :: string
  iv_group :: ibm_ref

record ibm_fip =
  if_id :: string
  if_name :: string
  if_status :: string
  if_address :: string
  if_target :: "string option"
  if_group :: ibm_ref

record ibm_image =
  ii_id :: string
  ii_name :: string
  ii_status :: string
  ii_owner :: string
  ii_os :: "(string \<times> string) list"
  ii_group :: ibm_ref

record ibm_profile =
  ip_cores :: "rat option"
  ip_ram :: "rat option"

record ibm_subnet =
  is_id :: string
  is_zone :: string

datatype ibm_image_ref = By_Id string | By_Href string

record ibm_filter =
  ft_os :: "(string \<times> string) list"
  ft_owner :: "string option"
  ft_status :: "string option"

record ibm_cloud_image =
  ic_image_id :: "string option"
  ic_image_href :: "string option"
  ic_image_name :: "string option"
  ic_filter :: "ibm_filter option"
  ic_keys :: "string list"

record ibm_pool =
  ipl_name :: string
  ipl_subnet :: string
  ipl_zone :: string
  ipl_public_ipv4 :: bool

record ibm_label =
  ilb_pool :: ibm_pool
  ilb_profile :: string
  ilb_cloud_image :: "ibm_cloud_image option"
  ilb_user_data :: "string option"

record ibm_config =
  icf_name :: string
  icf_region :: string
  icf_vpc :: string
  icf_pools :: "ibm_pool list"
  icf_storage :: "(string \<times> string) option"     \<comment> \<open>instance and bucket of the object storage\<close>
  icf_cores :: "rat option"
  icf_instances :: "rat option"
  icf_ram :: "rat option"

record 'c ibm_api =
  ia_vpcs :: "('c, (string \<times> string) list) eff"                  \<comment> \<open>name and id\<close>
  ia_storage :: "string \<Rightarrow> ('c, string list) eff"                 \<comment> \<open>the CRNs of an instance\<close>
  ia_groups :: "('c, ibm_group list) eff"
  ia_create_group :: "string \<Rightarrow> ('c, ibm_group) eff"
  ia_profiles :: "('c, (string \<times> ibm_profile) list) eff"
  ia_subnets :: "string option \<Rightarrow> ('c, (string \<times> ibm_subnet) list \<times> string option option) eff"
  ia_keys :: "string option \<Rightarrow> ('c, (string \<times> string) list \<times> string option option) eff"
    \<comment> \<open>a page from a start, and the start of the next one if there is one\<close>
  ia_vms :: "('c, ibm_vm list) eff"
  ia_fips :: "('c, ibm_fip list) eff"
  ia_images :: "('c, ibm_image list) eff"
  ia_objects :: "('c, string list option) eff"                     \<comment> \<open>without \<open>Contents\<close>: \<open>None\<close>\<close>
  ia_create_fip :: "string \<Rightarrow> string \<Rightarrow> string \<Rightarrow> ('c, ibm_fip) eff"  \<comment> \<open>name, grp, zone\<close>
  ia_attach_fip :: "string \<Rightarrow> string \<Rightarrow> string \<Rightarrow> ('c, unit) eff"
  ia_delete_fip :: "string \<Rightarrow> ('c, unit) eff"
  ia_create_vm :: "pydict \<Rightarrow> ('c, ibm_vm) eff"
  ia_delete_vm :: "string \<Rightarrow> ('c, unit) eff"
  ia_create_image :: "pydict \<Rightarrow> ('c, ibm_image) eff"
  ia_get_image :: "string \<Rightarrow> ('c, ibm_image) eff"
  ia_delete_image :: "string \<Rightarrow> ('c, unit) eff"
  ia_delete_object :: "string \<Rightarrow> ('c, unit) eff"
  ia_upload :: "string \<Rightarrow> string \<Rightarrow> ('c, unit) eff"
  ia_location :: "('c, string) eff"
  ia_client_error :: "pyexc \<Rightarrow> bool"
  ia_api_code :: "pyexc \<Rightarrow> int option"                            \<comment> \<open>the code of an \<open>ApiException\<close>\<close>

record 'c ibm_world =
  iw_cloud :: 'c
  iw_vpc :: string
  iw_storage :: bool
  iw_groups :: "(string \<times> ibm_group) list"
  iw_profiles :: "(string \<times> ibm_profile) list"
  iw_subnets :: "(string \<times> ibm_subnet) list"
  iw_keys :: "(string \<times> string) list"

type_synonym ('c, 'a) ibm_eff = "('c ibm_world, 'a) eff"

definition on_ibm :: "('c, 'a) eff \<Rightarrow> ('c, 'a) ibm_eff" where
  "on_ibm m = eff_zoom iw_cloud (\<lambda>c w. w\<lparr>iw_cloud := c\<rparr>) m"

text \<open>\<open>d[k]\<close>.\<close>

definition item_of :: "('k \<times> 'v) list \<Rightarrow> 'k \<Rightarrow> 'v res" where
  "item_of d k = (case map_of d k of None \<Rightarrow> Inl KeyError | Some v \<Rightarrow> Inr v)"

subsection \<open>The constructor\<close>

text \<open>\<open>_handlePagination\<close>: until a page has no next one; fuel bounds the pages.\<close>

fun handlePagination ::
  "(string option \<Rightarrow> ('s, 'r list \<times> string option option) eff) \<Rightarrow> string option \<Rightarrow> 'r list \<Rightarrow> nat \<Rightarrow> ('s, 'r list option) eff" where
  "handlePagination fetch start found 0 = eff_ret None"
| "handlePagination fetch start found (Suc fuel) =
     eff_bind (fetch start) (\<lambda>(rs, next). case next of
       None \<Rightarrow> eff_ret (Some (found @ rs))
     | Some start1 \<Rightarrow> handlePagination fetch start1 (found @ rs) fuel)"

definition getResourceGroups :: "'c ibm_api \<Rightarrow> ('c, unit) ibm_eff" where
  "getResourceGroups A =
     eff_bind (on_ibm (ia_groups A)) (\<lambda>gs.
       eff_mod (\<lambda>w. w\<lparr>iw_groups := dict_update (iw_groups w) (map (\<lambda>g. (ig_name g, g)) gs)\<rparr>))"

definition create_group :: "'c ibm_api \<Rightarrow> string \<Rightarrow> ('c, unit) ibm_eff" where
  "create_group A name =
     eff_bind (eff_get (\<lambda>w. map_of (iw_groups w) name)) (\<lambda>known.
       if known \<noteq> None then eff_ret ()
       else eff_bind (on_ibm (ia_create_group A name)) (\<lambda>g.
              eff_mod (\<lambda>w. w\<lparr>iw_groups := AList.update name g (iw_groups w)\<rparr>)))"

definition createResourceGroups :: "'c ibm_api \<Rightarrow> ibm_config \<Rightarrow> ('c, unit) ibm_eff" where
  "createResourceGroups A cfg =
     eff_each (\<lambda>p. eff_bind (eff_lift (make_resource_group_name (icf_name cfg) (ipl_name p))) (create_group A)) (icf_pools cfg)"

text \<open>The storage instance, by the fifth part of its name; without one the client cannot be made.\<close>

definition find_storage :: "'c ibm_api \<Rightarrow> ibm_config \<Rightarrow> ('c, unit) ibm_eff" where
  "find_storage A cfg =
     (case icf_storage cfg of
        None \<Rightarrow> eff_ret ()
      | Some (instance_name, bucket) \<Rightarrow>
          eff_bind (on_ibm (ia_storage A instance_name)) (\<lambda>crns.
          eff_bind (eff_lift (mapE (\<lambda>c. let ps = py_split CHR '':'' c in
                       if length ps \<le> 4 then Inl IndexError else Inr (ps ! 4 = ''cloud-object-storage'')) crns)) (\<lambda>found.
            if True \<in> set found then eff_mod (\<lambda>w. w\<lparr>iw_storage := True\<rparr>) else eff_raise TypeError)))"

definition check_subnet :: "ibm_pool \<Rightarrow> ('c, unit) ibm_eff" where
  "check_subnet p =
     eff_bind (eff_read (\<lambda>w. item_of (iw_subnets w) (ipl_subnet p))) (\<lambda>s.
       if is_zone s \<noteq> ipl_zone p then eff_raise GenericException else eff_ret ())"

text \<open>Whether the constructor is done: a listing may not end.\<close>

definition ibm_start :: "'c ibm_api \<Rightarrow> ibm_config \<Rightarrow> nat \<Rightarrow> ('c, bool) ibm_eff" where
  "ibm_start A cfg fuel =
     eff_bind (on_ibm (ia_vpcs A)) (\<lambda>vpcs. case map_of vpcs (icf_vpc cfg) of None \<Rightarrow> eff_raise GenericException | Some v \<Rightarrow>
     eff_seq (eff_mod (\<lambda>w. w\<lparr>iw_vpc := v\<rparr>))
     (eff_seq (find_storage A cfg)
     (eff_seq (getResourceGroups A)
     (eff_seq (createResourceGroups A cfg)
     (eff_bind (on_ibm (ia_profiles A)) (\<lambda>ps.
      eff_seq (eff_mod (\<lambda>w. w\<lparr>iw_profiles := dict_update (iw_profiles w) ps\<rparr>))
     (eff_bind (handlePagination (\<lambda>s. on_ibm (ia_subnets A s)) None [] fuel) (\<lambda>sn. case sn of None \<Rightarrow> eff_ret False | Some ss \<Rightarrow>
      eff_seq (eff_mod (\<lambda>w. w\<lparr>iw_subnets := dict_update (iw_subnets w) ss\<rparr>))
     (eff_seq (eff_each check_subnet (icf_pools cfg))
     (eff_bind (handlePagination (\<lambda>s. on_ibm (ia_keys A s)) None [] fuel) (\<lambda>ks. case ks of None \<Rightarrow> eff_ret False | Some keys \<Rightarrow>
      eff_seq (eff_mod (\<lambda>w. w\<lparr>iw_keys := dict_update (iw_keys w) keys\<rparr>)) (eff_ret True))))))))))))"

definition ibm_empty :: "'c \<Rightarrow> 'c ibm_world" where
  "ibm_empty c = \<lparr> iw_cloud = c, iw_vpc = [], iw_storage = False, iw_groups = [], iw_profiles = [], iw_subnets = [], iw_keys = [] \<rparr>"

subsection \<open>Looking up\<close>

text \<open>By name if the reference has one, otherwise by id; the groups are those the constructor saw.\<close>

definition getResourceGroupByReference :: "ibm_ref \<Rightarrow> ('c, ibm_group) ibm_eff" where
  "getResourceGroupByReference r =
     eff_read (\<lambda>w. case ib_name r of
       Some n \<Rightarrow> item_of (iw_groups w) n
     | None \<Rightarrow> (case find (\<lambda>g. ig_id g = ib_id r) (map snd (iw_groups w)) of
                  None \<Rightarrow> Inl GenericException | Some g \<Rightarrow> Inr g))"

definition ibm_refreshFloatingIP :: "'c ibm_api \<Rightarrow> ibm_fip option \<Rightarrow> bool \<Rightarrow> ('c, ibm_fip option) ibm_eff" where
  "ibm_refreshFloatingIP A x del =
     (case x of
        None \<Rightarrow> eff_ret None
      | Some f \<Rightarrow> eff_bind (on_ibm (ia_fips A)) (\<lambda>fs.
          eff_ret (case find (\<lambda>g. if_id g = if_id f) fs of Some g \<Rightarrow> Some g | None \<Rightarrow> if del then None else Some f)))"

definition ibm_refreshInstance :: "'c ibm_api \<Rightarrow> ibm_vm option \<Rightarrow> bool \<Rightarrow> ('c, ibm_vm option) ibm_eff" where
  "ibm_refreshInstance A x del =
     (case x of
        None \<Rightarrow> eff_ret None
      | Some v \<Rightarrow> eff_bind (on_ibm (ia_vms A)) (\<lambda>vs.
          eff_ret (case find (\<lambda>u. iv_id u = iv_id v) vs of Some u \<Rightarrow> Some u | None \<Rightarrow> if del then None else Some v)))"

definition getImageIdFromName :: "'c ibm_api \<Rightarrow> string \<Rightarrow> ('c, ibm_image_ref) ibm_eff" where
  "getImageIdFromName A name =
     eff_bind (on_ibm (ia_images A)) (\<lambda>is. case find (\<lambda>i. ii_name i = name) is of
       None \<Rightarrow> eff_raise GenericException | Some i \<Rightarrow> eff_ret (By_Id (ii_id i)))"

definition filter_matches :: "ibm_filter \<Rightarrow> ibm_image \<Rightarrow> bool" where
  "filter_matches f i \<longleftrightarrow>
     (let os = map (\<lambda>(k, v). (py_replace ''-'' ''_'' k, v)) (ft_os f) in
        list_all (\<lambda>k. map_of (ii_os i) k = map_of (rev os) k) (map fst os)) \<and>
     (case ft_owner f of None \<Rightarrow> True | Some x \<Rightarrow> x = ii_owner i) \<and>
     (case ft_status f of None \<Rightarrow> True | Some x \<Rightarrow> x = ii_status i)"

definition getImageIdFromFilter :: "'c ibm_api \<Rightarrow> ibm_filter \<Rightarrow> ('c, ibm_image_ref) ibm_eff" where
  "getImageIdFromFilter A f =
     eff_bind (on_ibm (ia_images A)) (\<lambda>is. case find (filter_matches f) is of
       None \<Rightarrow> eff_raise GenericException | Some i \<Rightarrow> eff_ret (By_Id (ii_id i)))"

definition quota_info_from_profile :: "ibm_profile option \<Rightarrow> quota" where
  "quota_info_from_profile p =
     (case p of
        None \<Rightarrow> quota_init None (Some (Fin 1)) None (Fin 0) []
      | Some x \<Rightarrow> quota_init (map_option Fin (ip_cores x)) (Some (Fin 1)) (map_option Fin (ip_ram x)) (Fin 0) [])"

definition ibm_instance_of ::
  "ibm_config \<Rightarrow> ibm_vm \<Rightarrow> ibm_profile option \<Rightarrow> ibm_group \<Rightarrow> ibm_fip option \<Rightarrow> cloud_instance" where
  "ibm_instance_of cfg v p g f =
     (let public = (case f of None \<Rightarrow> JNull | Some x \<Rightarrow> JStr (if_address x)) in
      instance_init\<lparr>
        in_external_id := JStr (iv_name v), in_metadata := get_metadata (Some (ig_name g)) (iv_name v),
        in_private_ipv4 := JStr (iv_address v), in_private_ipv6 := Some JNull, in_public_ipv4 := public,
        in_interface_ip := first_true [public, JStr (iv_address v)], in_cloud := JStr ''IBM'',
        in_region := JStr (icf_region cfg), in_az := JStr (iv_zone v), in_quota := Inr (quota_info_from_profile p) \<rparr>)"

subsection \<open>Creating and deleting\<close>

definition ibm_createFloatingIP :: "'c ibm_api \<Rightarrow> string \<Rightarrow> ibm_label \<Rightarrow> string \<Rightarrow> ('c, ibm_fip) ibm_eff" where
  "ibm_createFloatingIP A hostname l grp =
     eff_bind (eff_read (\<lambda>w. item_of (iw_groups w) grp)) (\<lambda>g.
       on_ibm (ia_create_fip A hostname (ig_id g) (ipl_zone (ilb_pool l))))"

definition ibm_deleteFloatingIP :: "'c ibm_api \<Rightarrow> string \<Rightarrow> ('c, ibm_fip option) ibm_eff" where
  "ibm_deleteFloatingIP A name =
     eff_bind (on_ibm (ia_fips A)) (\<lambda>fs. case find (\<lambda>f. if_name f = name) fs of
       None \<Rightarrow> eff_ret None
     | Some f \<Rightarrow> eff_seq (on_ibm (ia_delete_fip A (if_id f))) (eff_ret (Some f)))"

definition ibm_deleteInstance :: "'c ibm_api \<Rightarrow> string \<Rightarrow> ('c, ibm_vm option) ibm_eff" where
  "ibm_deleteInstance A name =
     eff_bind (on_ibm (ia_vms A)) (\<lambda>vs. case find (\<lambda>v. iv_name v = name) vs of
       None \<Rightarrow> eff_ret None
     | Some v \<Rightarrow> eff_seq (on_ibm (ia_delete_vm A (iv_id v))) (eff_ret (Some v)))"

definition named :: "string \<Rightarrow> json" where "named s = JDict [(''name'', JStr s)]"
definition with_id :: "string \<Rightarrow> json" where "with_id s = JDict [(''id'', JStr s)]"

definition image_json :: "ibm_image_ref option \<Rightarrow> json" where
  "image_json r = (case r of None \<Rightarrow> JNull | Some (By_Id i) \<Rightarrow> with_id i | Some (By_Href h) \<Rightarrow> JDict [(''href'', JStr h)])"

definition vm_args ::
  "ibm_label \<Rightarrow> ibm_image_ref option \<Rightarrow> string \<Rightarrow> string \<Rightarrow> string \<Rightarrow> string \<Rightarrow> string list \<Rightarrow> pydict" where
  "vm_args l img hostname grp vpc subnet keys =
     [(''keys'', JList (map with_id keys)), (''name'', JStr hostname), (''profile'', named (ilb_profile l)),
      (''resource_group'', with_id grp), (''vpc'', with_id vpc), (''image'', image_json img),
      (''primary_network_interface'', JDict [(''name'', JStr ''eth0''), (''subnet'', with_id subnet)]),
      (''zone'', named (ipl_zone (ilb_pool l))),
      (''boot_volume_attachment'', JDict [(''volume'', JDict [(''name'', JStr hostname), (''profile'', named ''general-purpose'')]),
        (''delete_volume_on_instance_delete'', JBool True)])] @
     (case ilb_user_data l of Some u \<Rightarrow> if u \<noteq> [] then [(''user_data'', JStr u)] else [] | None \<Rightarrow> [])"

definition ibm_createInstance ::
  "'c ibm_api \<Rightarrow> ibm_label \<Rightarrow> ibm_image_ref option \<Rightarrow> string \<Rightarrow> string \<Rightarrow> ('c, ibm_vm) ibm_eff" where
  "ibm_createInstance A l img hostname grp =
     eff_bind (eff_read (\<lambda>w. item_of (iw_groups w) grp)) (\<lambda>g.
     eff_bind (eff_read (\<lambda>w. item_of (iw_subnets w) (ipl_subnet (ilb_pool l)))) (\<lambda>s.
     eff_bind (eff_read (\<lambda>w. mapE (item_of (iw_keys w)) (case ilb_cloud_image l of None \<Rightarrow> [] | Some i \<Rightarrow> ic_keys i))) (\<lambda>keys.
     eff_bind (eff_get iw_vpc) (\<lambda>vpc.
       on_ibm (ia_create_vm A (vm_args l img hostname (ig_id g) vpc (is_id s) keys))))))"

subsection \<open>Resources and instances\<close>

record ibm_resource = cloud_resource +
  ir_name :: string
  ir_id :: string

definition ibm_resource :: "string \<Rightarrow> string \<Rightarrow> string \<Rightarrow> ibm_group \<Rightarrow> ibm_resource" where
  "ibm_resource t name i g = \<lparr> re_metadata = get_metadata (Some (ig_name g)) name, re_type = t, ir_name = name, ir_id = i \<rparr>"

definition resources_of ::
  "string \<Rightarrow> ('r \<Rightarrow> string) \<Rightarrow> ('r \<Rightarrow> string) \<Rightarrow> ('r \<Rightarrow> ibm_ref) \<Rightarrow> 'r list \<Rightarrow> ('c, ibm_resource list) ibm_eff" where
  "resources_of t name i ref xs =
     eff_fold (\<lambda>x acc. eff_bind (getResourceGroupByReference (ref x)) (\<lambda>g. eff_ret (acc @ [ibm_resource t (name x) (i x) g]))) xs []"

text \<open>The bucket may not exist; a bucket that is empty has no \<open>Contents\<close>, which raises.\<close>

definition ibm_objects :: "'c ibm_api \<Rightarrow> ('c, string list) ibm_eff" where
  "ibm_objects A =
     eff_bind (on_ibm (ia_objects A)) (\<lambda>os. case os of None \<Rightarrow> eff_raise KeyError | Some ks \<Rightarrow> eff_ret ks)"

definition ibm_listResources :: "'c ibm_api \<Rightarrow> ibm_config \<Rightarrow> ('c, ibm_resource list) ibm_eff" where
  "ibm_listResources A cfg =
     eff_bind (on_ibm (ia_vms A)) (\<lambda>vs.
     eff_bind (resources_of ''instance'' iv_name iv_id iv_group vs) (\<lambda>rs1.
     eff_bind (on_ibm (ia_fips A)) (\<lambda>fs.
     eff_bind (resources_of ''floatingip'' if_name if_id if_group fs) (\<lambda>rs2.
     eff_bind (on_ibm (ia_images A)) (\<lambda>is.
     eff_bind (resources_of ''image'' ii_name ii_id ii_group (filter (\<lambda>i. ii_owner i = ''user'') is)) (\<lambda>rs3.
     eff_bind (eff_lift (make_image_resource_group_name (icf_name cfg))) (\<lambda>rgname.
     eff_bind (eff_get (\<lambda>w. (iw_storage w, map_of (iw_groups w) rgname))) (\<lambda>(storage, grp).
       case grp of
         Some g \<Rightarrow>
           if storage
           then eff_bind (eff_try (ibm_objects A) (\<lambda>e. if ia_client_error A e then eff_ret [] else eff_raise e)) (\<lambda>ks.
                  eff_ret (rs1 @ rs2 @ rs3 @ map (\<lambda>k. ibm_resource ''object'' k k g) ks))
           else eff_ret (rs1 @ rs2 @ rs3)
       | None \<Rightarrow> eff_ret (rs1 @ rs2 @ rs3)))))))))"

definition ibm_deleteResource :: "'c ibm_api \<Rightarrow> ibm_resource \<Rightarrow> ('c, unit) ibm_eff" where
  "ibm_deleteResource A r =
     (if re_type r = ''instance'' then on_ibm (ia_delete_vm A (ir_id r))
      else if re_type r = ''floatingip'' then on_ibm (ia_delete_fip A (ir_id r))
      else if re_type r = ''image'' then on_ibm (ia_delete_image A (ir_id r))
      else if re_type r = ''object'' then on_ibm (ia_delete_object A (ir_id r))
      else eff_ret ())"

text \<open>The address of the same name, if it is attached to the instance's interface; a later one of a name counts.\<close>

definition attached_fip :: "ibm_fip list \<Rightarrow> ibm_vm \<Rightarrow> ibm_fip option" where
  "attached_fip fs v =
     (case find (\<lambda>f. if_name f = iv_name v) (rev fs) of
        None \<Rightarrow> None | Some f \<Rightarrow> if if_target f = Some (iv_nic v) then Some f else None)"

definition ibm_listInstances :: "'c ibm_api \<Rightarrow> ibm_config \<Rightarrow> ('c, cloud_instance list) ibm_eff" where
  "ibm_listInstances A cfg =
     eff_bind (on_ibm (ia_fips A)) (\<lambda>fs.
     eff_bind (on_ibm (ia_vms A)) (\<lambda>vs.
     eff_fold (\<lambda>v acc.
        eff_bind (getResourceGroupByReference (iv_group v)) (\<lambda>g.
        eff_bind (eff_get (\<lambda>w. map_of (iw_profiles w) (iv_profile v))) (\<lambda>p.
          eff_ret (acc @ [ibm_instance_of cfg v p g (attached_fip fs v)])))) vs []))"

definition ibm_getQuotaLimits :: "ibm_config \<Rightarrow> quota" where
  "ibm_getQuotaLimits cfg =
     quota_init (map_option Fin (icf_cores cfg)) (map_option Fin (icf_instances cfg)) (map_option Fin (icf_ram cfg)) PosInf []"

definition ibm_getQuotaForLabel :: "ibm_label \<Rightarrow> ('c, quota) ibm_eff" where
  "ibm_getQuotaForLabel l = eff_get (\<lambda>w. quota_info_from_profile (map_of (iw_profiles w) (ilb_profile l)))"

subsection \<open>Images\<close>

text \<open>Waiting for an image that is pending has no limit in the code; fuel bounds the questions.\<close>

fun image_wait :: "'c ibm_api \<Rightarrow> string \<Rightarrow> nat \<Rightarrow> ('c, string option) ibm_eff" where
  "image_wait A i 0 = eff_ret None"
| "image_wait A i (Suc fuel) =
     eff_bind (on_ibm (ia_get_image A i)) (\<lambda>img.
       if ii_status img = ''pending'' then image_wait A (ii_id img) fuel
       else if ii_status img = ''available'' then eff_ret (Some (ii_id img))
       else eff_raise GenericException)"

text \<open>\<open>s.rsplit('-', 1)[0]\<close>.\<close>

definition before_last_dash :: "string \<Rightarrow> string" where
  "before_last_dash s = (if CHR ''-'' \<in> set s then rev (tl (dropWhile (\<lambda>x. x \<noteq> CHR ''-'') (rev s))) else s)"

definition ibm_uploadImage ::
  "'c ibm_api \<Rightarrow> ibm_config \<Rightarrow> string \<Rightarrow> string \<Rightarrow> string \<Rightarrow> string \<Rightarrow> nat \<Rightarrow> ('c, string option) ibm_eff" where
  "ibm_uploadImage A cfg os name filename fmt fuel =
     (case icf_storage cfg of
        None \<Rightarrow> eff_raise TypeError
      | Some (instance_name, bucket) \<Rightarrow>
          let object = name @ ''.'' @ fmt in
          eff_bind (on_ibm (ia_location A)) (\<lambda>loc.
          eff_seq (on_ibm (ia_upload A filename object))
          (eff_bind (eff_lift (make_image_resource_group_name (icf_name cfg))) (\<lambda>rgname.
           eff_seq (create_group A rgname)
          (eff_bind (eff_read (\<lambda>w. item_of (iw_groups w) rgname)) (\<lambda>g.
           eff_bind (on_ibm (ia_create_image A
             [(''name'', JStr name), (''resource_group'', with_id (ig_id g)),
              (''file'', JDict [(''href'', JStr (''cos://'' @ before_last_dash loc @ ''/'' @ bucket @ ''/'' @ object))]),
              (''operating_system'', named os)])) (\<lambda>img.
           eff_bind (image_wait A (ii_id img) fuel) (\<lambda>done.
             case done of
               None \<Rightarrow> eff_ret None
             | Some i \<Rightarrow> eff_seq (on_ibm (ia_delete_object A object)) (eff_ret (Some i))))))))))"

text \<open>An error of the service that is not 404 is caught as well, and leaves the image's name unbound.\<close>

definition ibm_deleteImage :: "'c ibm_api \<Rightarrow> ibm_config \<Rightarrow> string \<Rightarrow> ('c, unit) ibm_eff" where
  "ibm_deleteImage A cfg i =
     (if icf_storage cfg = None then eff_raise TypeError
      else eff_bind (eff_try (eff_bind (on_ibm (ia_get_image A i)) (\<lambda>img. eff_ret (Some (ii_name img))))
             (\<lambda>e. case ia_api_code A e of
                    None \<Rightarrow> eff_raise e
                  | Some c \<Rightarrow> if c = 404 then eff_ret None else eff_raise (OtherError ''UnboundLocalError''))) (\<lambda>x.
           case x of
             None \<Rightarrow> eff_ret ()
           | Some name \<Rightarrow>
               eff_bind (ibm_objects A) (\<lambda>ks.
               eff_seq (eff_each (\<lambda>k. eff_when (startswith k name) (on_ibm (ia_delete_object A k))) ks)
                 (on_ibm (ia_delete_image A i)))))"

end
