(* ===== verification/IbmMachines.thy ===== *)
theory IbmMachines
  imports Ibm
begin

section \<open>The IBM VPC driver: state machines\<close>

text \<open>
  \<open>nodepool/driver/ibmvpc/adapter.py\<close>, second part: the machines that create and delete an instance with its
  floating address; and what their names, which stand for metadata, and their order guarantee.
\<close>

definition IBM_FIP_DELETING :: string where "IBM_FIP_DELETING = ''deleting fip''"
definition IBM_VM_DELETING :: string where "IBM_VM_DELETING = ''deleting vm''"
definition IBM_FIP_CREATING :: string where "IBM_FIP_CREATING = ''creating fip''"
definition IBM_VM_CREATING :: string where "IBM_VM_CREATING = ''creating vm''"
definition IBM_FIP_ATTACHING :: string where "IBM_FIP_ATTACHING = ''attaching fip''"
definition IBM_COMPLETE :: string where "IBM_COMPLETE = ''complete''"

subsection \<open>The delete machine\<close>

record ibm_delete =
  id_name :: string
  id_fip :: "ibm_fip option"
  id_vm :: "ibm_vm option"

type_synonym ('c, 'a) ibm_del = "(ibm_delete, 'c ibm_world, 'a) run_eff"

definition ibm_getDeleteStateMachine :: "string \<Rightarrow> rat \<Rightarrow> ibm_delete state_machine" where
  "ibm_getDeleteStateMachine i clk =
     (sm_init clk \<lparr> id_name = i, id_fip = None, id_vm = None \<rparr>)\<lparr> sm_external_id := JStr i \<rparr>"

definition id_start :: "'c ibm_api \<Rightarrow> ('c, unit) ibm_del" where
  "id_start A =
     eff_bind (get_more id_name) (\<lambda>i.
     eff_bind (on_world (ibm_deleteFloatingIP A i)) (\<lambda>f.
     eff_seq (upd_more (\<lambda>d. d\<lparr>id_fip := f\<rparr>)) (goto IBM_FIP_DELETING)))"

definition id_fip_wait :: "'c ibm_api \<Rightarrow> ('c, unit) ibm_del" where
  "id_fip_wait A =
     eff_bind (get_more id_fip) (\<lambda>f0.
     eff_bind (on_world (ibm_refreshFloatingIP A f0 True)) (\<lambda>f.
     eff_seq (upd_more (\<lambda>d. d\<lparr>id_fip := f\<rparr>))
       (if f \<noteq> None then eff_ret ()
        else eff_bind (get_more id_name) (\<lambda>i.
             eff_bind (on_world (ibm_deleteInstance A i)) (\<lambda>v.
             eff_seq (upd_more (\<lambda>d. d\<lparr>id_vm := v\<rparr>)) (goto IBM_VM_DELETING))))))"

definition id_vm_wait :: "'c ibm_api \<Rightarrow> ('c, unit) ibm_del" where
  "id_vm_wait A =
     eff_bind (get_more id_vm) (\<lambda>v0.
     eff_bind (on_world (ibm_refreshInstance A v0 True)) (\<lambda>v.
     eff_seq (upd_more (\<lambda>d. d\<lparr>id_vm := v\<rparr>))
       (if v \<noteq> None then eff_ret () else eff_seq (goto IBM_COMPLETE) finished)))"

definition ibm_delete_advance :: "'c ibm_api \<Rightarrow> ('c, unit option) ibm_del" where
  "ibm_delete_advance A =
     then_go (in_state SM_START (go_on (id_start A)))
     (then_go (in_state IBM_FIP_DELETING (go_on (id_fip_wait A)))
     (then_go (in_state IBM_VM_DELETING (go_on (id_vm_wait A))) (eff_ret None)))"

subsection \<open>The create machine\<close>

record ibm_create =
  im_hostname :: string
  im_label :: ibm_label
  im_image :: "ibm_image_ref option"
  im_group :: string
  im_fip :: "ibm_fip option"
  im_vm :: "ibm_vm option"

type_synonym ('c, 'a) ibm_cre = "(ibm_create, 'c ibm_world, 'a) run_eff"

definition ibm_getCreateStateMachine ::
  "ibm_config \<Rightarrow> ibm_label \<Rightarrow> string \<Rightarrow> string option \<Rightarrow> rat \<Rightarrow> ibm_create state_machine res" where
  "ibm_getCreateStateMachine cfg l hostname external clk =
     bindE (make_resource_group_name (icf_name cfg) (ipl_name (ilb_pool l))) (\<lambda>g.
       Inr (sm_init clk \<lparr> im_hostname = hostname, im_label = l,
         im_image = (case external of Some (c # cs) \<Rightarrow> Some (By_Id (c # cs)) | _ \<Rightarrow> None),
         im_group = g, im_fip = None, im_vm = None \<rparr>))"

text \<open>Of several ways to name the image in the configuration the last one counts.\<close>

definition nonempty :: "string option \<Rightarrow> bool" where
  "nonempty x \<longleftrightarrow> x \<noteq> None \<and> x \<noteq> Some []"

definition image_of_cloud :: "'c ibm_api \<Rightarrow> ibm_cloud_image \<Rightarrow> ('c, ibm_image_ref option) ibm_eff" where
  "image_of_cloud A i =
     (let r1 = (if nonempty (ic_image_id i) then Some (By_Id (the (ic_image_id i))) else None);
          r2 = (if nonempty (ic_image_href i) then Some (By_Href (the (ic_image_href i))) else r1)
      in eff_bind (if nonempty (ic_image_name i)
                   then eff_bind (getImageIdFromName A (the (ic_image_name i))) (\<lambda>x. eff_ret (Some x)) else eff_ret r2) (\<lambda>r3.
         case ic_filter i of
           None \<Rightarrow> eff_ret r3
         | Some f \<Rightarrow> eff_bind (getImageIdFromFilter A f) (\<lambda>x. eff_ret (Some x))))"

definition im_find_image :: "'c ibm_api \<Rightarrow> ('c, unit) ibm_cre" where
  "im_find_image A =
     eff_bind (get_more id) (\<lambda>c.
       if im_image c \<noteq> None then eff_ret ()
       else case ilb_cloud_image (im_label c) of
         None \<Rightarrow> eff_ret ()
       | Some i \<Rightarrow> eff_bind (on_world (image_of_cloud A i)) (\<lambda>r. upd_more (\<lambda>c. c\<lparr>im_image := r\<rparr>)))"

definition im_start :: "'c ibm_api \<Rightarrow> ('c, unit) ibm_cre" where
  "im_start A =
     eff_bind (get_more id) (\<lambda>c.
     eff_seq (set_ext (\<lambda>x. JStr (im_hostname c)))
     (eff_seq (im_find_image A)
     (eff_seq (if ipl_public_ipv4 (ilb_pool (im_label c))
               then eff_bind (on_world (ibm_createFloatingIP A (im_hostname c) (im_label c) (im_group c))) (\<lambda>f.
                      upd_more (\<lambda>c. c\<lparr>im_fip := Some f\<rparr>))
               else eff_ret ())
       (goto IBM_FIP_CREATING))))"

text \<open>Refreshes the address, if there is one; one that has failed raises.\<close>

definition im_refresh_fip :: "'c ibm_api \<Rightarrow> ('c, ibm_fip option) ibm_cre" where
  "im_refresh_fip A =
     eff_bind (get_more im_fip) (\<lambda>f0.
     eff_bind (on_world (ibm_refreshFloatingIP A f0 False)) (\<lambda>f.
     eff_seq (upd_more (\<lambda>c. c\<lparr>im_fip := f\<rparr>))
       (case f of
          None \<Rightarrow> eff_ret None
        | Some x \<Rightarrow> if if_status x = ''failed'' then eff_raise GenericException else eff_ret (Some x))))"

definition im_fip_creating :: "'c ibm_api \<Rightarrow> ('c, bool) ibm_cre" where
  "im_fip_creating A =
     eff_bind (im_refresh_fip A) (\<lambda>f.
       if (case f of None \<Rightarrow> False | Some x \<Rightarrow> if_status x \<noteq> ''available'') then eff_ret False
       else eff_bind (get_more id) (\<lambda>c.
            eff_bind (on_world (ibm_createInstance A (im_label c) (im_image c) (im_hostname c) (im_group c))) (\<lambda>v.
              go_on (eff_seq (upd_more (\<lambda>c. c\<lparr>im_vm := Some v\<rparr>)) (goto IBM_VM_CREATING)))))"

definition im_vm_creating :: "'c ibm_api \<Rightarrow> ('c, bool) ibm_cre" where
  "im_vm_creating A =
     eff_bind (get_more im_vm) (\<lambda>v0.
     eff_bind (on_world (ibm_refreshInstance A v0 False)) (\<lambda>v.
     eff_seq (upd_more (\<lambda>c. c\<lparr>im_vm := v\<rparr>))
       (case v of
          None \<Rightarrow> eff_raise TypeError
        | Some x \<Rightarrow>
            if iv_status x = ''running''
            then eff_bind (get_more im_fip) (\<lambda>f.
                 eff_seq (case f of None \<Rightarrow> eff_ret ()
                          | Some y \<Rightarrow> on_world (on_ibm (ia_attach_fip A (iv_id x) (iv_nic x) (if_id y))))
                   (go_on (goto IBM_FIP_ATTACHING)))
            else if iv_status x = ''failed'' then eff_raise LaunchStatusException
            else eff_ret False)))"

definition im_fip_attaching :: "'c ibm_api \<Rightarrow> ('c, bool) ibm_cre" where
  "im_fip_attaching A =
     eff_bind (im_refresh_fip A) (\<lambda>f.
       if (case f of None \<Rightarrow> False | Some x \<Rightarrow> if_target x = None) then eff_ret False
       else go_on (goto IBM_COMPLETE))"

definition im_result :: "ibm_config \<Rightarrow> ('c, cloud_instance) ibm_cre" where
  "im_result cfg =
     eff_bind (get_more id) (\<lambda>c. case im_vm c of
       None \<Rightarrow> eff_raise TypeError
     | Some v \<Rightarrow>
         eff_bind (on_world (getResourceGroupByReference (iv_group v))) (\<lambda>g.
         eff_bind (on_world (eff_get (\<lambda>w. map_of (iw_profiles w) (iv_profile v)))) (\<lambda>p.
           eff_ret (ibm_instance_of cfg v p g (im_fip c)))))"

definition ibm_create_advance :: "'c ibm_api \<Rightarrow> ibm_config \<Rightarrow> ('c, cloud_instance option) ibm_cre" where
  "ibm_create_advance A cfg =
     then_go (in_state SM_START (go_on (im_start A)))
     (then_go (in_state IBM_FIP_CREATING (im_fip_creating A))
     (then_go (in_state IBM_VM_CREATING (im_vm_creating A))
     (then_go (in_state IBM_FIP_ATTACHING (im_fip_attaching A))
       (in_complete IBM_COMPLETE (im_result cfg)))))"

subsection \<open>The machines move forward\<close>

lemmas ibm_states = IBM_FIP_DELETING_def IBM_VM_DELETING_def IBM_FIP_CREATING_def IBM_VM_CREATING_def
  IBM_FIP_ATTACHING_def IBM_COMPLETE_def SM_START_def

definition ibm_del_order :: "string list" where
  "ibm_del_order = [SM_START, IBM_FIP_DELETING, IBM_VM_DELETING, IBM_COMPLETE]"

definition ibm_del_rank :: "string \<Rightarrow> nat" where
  "ibm_del_rank = place_in ibm_del_order"

definition ibm_cre_order :: "string list" where
  "ibm_cre_order = [SM_START, IBM_FIP_CREATING, IBM_VM_CREATING, IBM_FIP_ATTACHING, IBM_COMPLETE]"

definition ibm_cre_rank :: "string \<Rightarrow> nat" where
  "ibm_cre_rank = place_in ibm_cre_order"

lemma ibm_ranks [simp]:
  "ibm_del_rank SM_START = 1" "ibm_del_rank IBM_FIP_DELETING = 2" "ibm_del_rank IBM_VM_DELETING = 3"
  "ibm_del_rank IBM_COMPLETE = 4" "ibm_cre_rank SM_START = 1" "ibm_cre_rank IBM_FIP_CREATING = 2"
  "ibm_cre_rank IBM_VM_CREATING = 3" "ibm_cre_rank IBM_FIP_ATTACHING = 4" "ibm_cre_rank IBM_COMPLETE = 5"
  by (simp_all add: ibm_del_rank_def ibm_cre_rank_def ibm_del_order_def ibm_cre_order_def place_in_def ibm_states)

interpretation ibm_del: forward_machine "\<lambda>A :: 'c ibm_api. ibm_delete_advance A" ibm_del_rank ibm_del_order
proof
  show "keeps_inv (at_least ibm_del_rank k) (ibm_delete_advance A)" for k and A :: "'c ibm_api"
    unfolding ibm_delete_advance_def id_start_def id_fip_wait_def id_vm_wait_def
    by (intro keeps keeps_in_state keeps_goto) simp_all
  show "ibm_del_rank = place_in ibm_del_order" by (simp add: ibm_del_rank_def)
qed

interpretation ibm_cre: forward_machine "\<lambda>(A :: 'c ibm_api, cfg). ibm_create_advance A cfg" ibm_cre_rank ibm_cre_order
proof
  have "keeps_inv (at_least ibm_cre_rank k) (ibm_create_advance A cfg)" for k cfg and A :: "'c ibm_api"
    unfolding ibm_create_advance_def im_start_def im_find_image_def im_refresh_fip_def im_fip_creating_def
      im_vm_creating_def im_fip_attaching_def im_result_def
    by (intro keeps keeps_in_state keeps_in_complete keeps_goto)
      (auto intro!: keeps keeps_goto split: option.split)
  then show "keeps_inv (at_least ibm_cre_rank k) (case e of (A :: 'c ibm_api, cfg) \<Rightarrow> ibm_create_advance A cfg)" for k e
    by (cases e) simp
  show "ibm_cre_rank = place_in ibm_cre_order" by (simp add: ibm_cre_rank_def)
qed

subsection \<open>Names stand for metadata\<close>

lemma name_char_no_underscore: "is_name_char c \<Longrightarrow> c \<noteq> CHR ''_''"
  by (auto simp: is_name_char_def is_digit_def Let_def)

lemma takeWhile_upto: "list_all P xs \<Longrightarrow> \<not> P y \<Longrightarrow> takeWhile P (xs @ y # ys) = xs \<and> dropWhile P (xs @ y # ys) = y # ys"
  by (induction xs) auto

lemma match_group_made:
  assumes "list_all is_name_char p" and "p \<noteq> []" and "list_all is_name_char q" and "q \<noteq> []"
  shows "match_group (''np_'' @ p @ ''_'' @ q) = Some (p, q)"
proof -
  have u: "\<not> is_name_char CHR ''_''" using name_char_no_underscore by blast
  from takeWhile_upto [OF assms(1) u, of q] u assms show ?thesis
    by (simp add: match_group_def startswith_def)
qed

text \<open>And the other way round: a group that counts as one of a provider has the name that is made for it.\<close>

lemma match_group_sound:
  assumes "match_group s = Some (p, q)"
  shows "make_resource_group_name p q = Inr s"
proof -
  let ?r = "drop 3 s"
  from assms have s: "startswith s ''np_''" and p: "p = takeWhile is_name_char ?r"
    and q: "dropWhile is_name_char ?r \<noteq> []" "hd (dropWhile is_name_char ?r) = CHR ''_''" "q = tl (dropWhile is_name_char ?r)"
    and names: "list_all is_name_char q"
    by (auto simp: match_group_def Let_def split: if_splits)
  have "?r = p @ ''_'' @ q"
  proof -
    have "?r = p @ dropWhile is_name_char ?r" by (simp add: p)
    also have "dropWhile is_name_char ?r = CHR ''_'' # q" using q by (metis list.collapse)
    finally show ?thesis by simp
  qed
  moreover from s have "s = ''np_'' @ ?r" by (elim startswithE) simp
  moreover have "CHR ''_'' \<notin> set p" "CHR ''_'' \<notin> set q"
    using names name_char_no_underscore by (auto simp: p list_all_iff dest: set_takeWhileD)
  ultimately show ?thesis by (simp add: make_resource_group_name_def)
qed

lemma match_hostname_made: "d \<noteq> [] \<Longrightarrow> list_all is_digit d \<Longrightarrow> match_hostname (''np'' @ d) = Some d"
  by (simp add: match_hostname_def startswith_def)

subsection \<open>The address goes first\<close>

lemma ibm_fip_first:
  assumes "sm_state m = IBM_FIP_DELETING" and "id_fip (sm_more m) = Some f"
    and "ia_fips A (iw_cloud w) = (Inr fs, c)" and "find (\<lambda>g. if_id g = if_id f) fs = Some g"
  shows "ibm_delete_advance A \<lparr> ru_machine = m, ru_world = w \<rparr> =
    (Inr None, \<lparr> ru_machine = m\<lparr>sm_more := (sm_more m)\<lparr>id_fip := Some g\<rparr>\<rparr>, ru_world = w\<lparr>iw_cloud := c\<rparr> \<rparr>)"
  using assms
  by (simp add: ibm_delete_advance_def then_go_def in_state_def go_on_def id_fip_wait_def ibm_refreshFloatingIP_def
      on_ibm_def run_ops ibm_states)

subsection \<open>A group the constructor did not see\<close>

lemma unknown_group_stops:
  assumes "ia_fips A (iw_cloud w) = (Inr fs, c1)" and "ia_vms A c1 = (Inr vs, c2)"
    and "v \<in> set vs" and "ib_name (iv_group v) = Some n" and "map_of (iw_groups w) n = None"
  shows "\<exists>e w'. ibm_listInstances A cfg w = (Inl e, w')"
proof -
  have fold: "\<exists>e w'. eff_fold (\<lambda>v acc. eff_bind (getResourceGroupByReference (iv_group v)) (\<lambda>g.
        eff_bind (eff_get (\<lambda>w. map_of (iw_profiles w) (iv_profile v))) (\<lambda>p.
          eff_ret (acc @ [ibm_instance_of cfg v p g (attached_fip fs v)])))) vs acc u = (Inl e, w')"
    if "iw_groups u = iw_groups w" for acc u
    using assms(3) that
  proof (induction vs arbitrary: acc)
    case (Cons x xs)
    show ?case
    proof (cases "v = x")
      case True
      with assms(4,5) Cons.prems(2) show ?thesis
        by (simp add: getResourceGroupByReference_def eff_read_def eff_bind_def item_of_def)
    next
      case False
      with Cons.prems have "v \<in> set xs" by auto
      from Cons.IH [OF this Cons.prems(2)] show ?thesis
        by (cases "fst (getResourceGroupByReference (iv_group x) u)")
          (auto simp: getResourceGroupByReference_def eff_read_def eff_bind_def eff_get_def eff_ret_def split: prod.splits)
    qed
  qed simp
  from fold [of "w\<lparr>iw_cloud := c2\<rparr>" "[]"] assms(1,2) show ?thesis by (simp add: ibm_listInstances_def on_ibm_def eff_bind_def eff_zoom_def)
qed

end
