(* ===== verification/CloudClaims.thy ===== *)
theory CloudClaims
  imports Gce IbmMachines
begin

section \<open>Lemmas about the GCE driver\<close>

text \<open>
  Both machines only move forward, what a create machine asks for is named by its external id before it
  is asked for, metadata survive the way to the cloud and back, and an instance that is gone before
  its deletion is asked for keeps its delete machine at the start.
\<close>

subsection \<open>The machines move forward\<close>

lemmas gce_states = GCE_INSTANCE_DELETING_def GCE_INSTANCE_CREATING_def GCE_COMPLETE_def SM_START_def

definition gce_del_order :: "string list" where
  "gce_del_order = [SM_START, GCE_INSTANCE_DELETING, GCE_COMPLETE]"

definition gce_del_rank :: "string \<Rightarrow> nat" where
  "gce_del_rank = place_in gce_del_order"

definition gce_cre_order :: "string list" where
  "gce_cre_order = [SM_START, GCE_INSTANCE_CREATING, GCE_COMPLETE]"

definition gce_cre_rank :: "string \<Rightarrow> nat" where
  "gce_cre_rank = place_in gce_cre_order"

lemma gce_ranks [simp]:
  "gce_del_rank SM_START = 1" "gce_del_rank GCE_INSTANCE_DELETING = 2" "gce_del_rank GCE_COMPLETE = 3"
  "gce_cre_rank SM_START = 1" "gce_cre_rank GCE_INSTANCE_CREATING = 2" "gce_cre_rank GCE_COMPLETE = 3"
  by (simp_all add: gce_del_rank_def gce_cre_rank_def gce_del_order_def gce_cre_order_def place_in_def gce_states)

interpretation gce_del: forward_machine "\<lambda>A :: 'c gce_api. gce_delete_advance A" gce_del_rank gce_del_order
proof
  show "keeps_inv (at_least gce_del_rank k) (gce_delete_advance A)" for k and A :: "'c gce_api"
    unfolding gce_delete_advance_def gce_del_start_def gce_del_wait_def
    by (intro keeps keeps_in_state keeps_in_complete keeps_goto) simp_all
  show "gce_del_rank = place_in gce_del_order" by (simp add: gce_del_rank_def)
qed

interpretation gce_cre: forward_machine "\<lambda>(A :: 'c gce_api, cfg). gce_create_advance A cfg" gce_cre_rank gce_cre_order
proof
  have "keeps_inv (at_least gce_cre_rank k) (gce_create_advance A cfg)" for k cfg and A :: "'c gce_api"
    unfolding gce_create_advance_def gce_cre_start_def gce_cre_wait_def gce_need_quota_def gce_cre_result_def
    by (intro keeps keeps_in_state keeps_in_complete keeps_goto)
      (auto intro!: keeps keeps_goto split: option.split prod.split)
  then show "keeps_inv (at_least gce_cre_rank k) (case e of (A :: 'c gce_api, cfg) \<Rightarrow> gce_create_advance A cfg)" for k e
    by (cases e) simp
  show "gce_cre_rank = place_in gce_cre_order" by (simp add: gce_cre_rank_def)
qed

subsection \<open>What is asked for has a name\<close>

text \<open>The external id is unset only before the first call; then it is the hostname.\<close>

definition gce_named :: "string \<Rightarrow> (gce_create, 'w) run \<Rightarrow> bool" where
  "gce_named h r \<longleftrightarrow> gn_hostname (sm_more (ru_machine r)) = h \<and>
     (sm_external_id (ru_machine r) = JStr h \<or>
      sm_state (ru_machine r) = SM_START \<and> sm_external_id (ru_machine r) = JNull)"

lemma keeps_gce_named [keeps]:
  "keeps_inv (gce_named h) finished" "keeps_inv (gce_named h) (on_world m)" "keeps_inv (gce_named h) (get_more f)"
  "keeps_inv (gce_named h) (upd_more (\<lambda>c. c\<lparr>gn_quota := q\<rparr>))"
  "keeps_inv (gce_named h) (upd_more (\<lambda>c. c\<lparr>gn_instance := i\<rparr>))"
  by (auto simp: keeps_inv_def gce_named_def run_ops split: prod.splits)

text \<open>A block of a later state runs with the id set.\<close>

definition gce_has_id :: "string \<Rightarrow> (gce_create, 'w) run \<Rightarrow> bool" where
  "gce_has_id h r \<longleftrightarrow> gn_hostname (sm_more (ru_machine r)) = h \<and> sm_external_id (ru_machine r) = JStr h"

lemma keeps_gce_has_id [keeps]:
  "keeps_inv (gce_has_id h) finished" "keeps_inv (gce_has_id h) (on_world m)" "keeps_inv (gce_has_id h) (get_more f)"
  "keeps_inv (gce_has_id h) (goto s)"
  "keeps_inv (gce_has_id h) (upd_more (\<lambda>c. c\<lparr>gn_quota := q\<rparr>))"
  "keeps_inv (gce_has_id h) (upd_more (\<lambda>c. c\<lparr>gn_instance := i\<rparr>))"
  by (auto simp: keeps_inv_def gce_has_id_def run_ops split: prod.splits)

lemma gce_cre_start_id:
  assumes "gce_named h r"
  shows "gce_has_id h (snd (gce_cre_start A cfg r))"
  using assms by (auto simp: gce_cre_start_def gce_named_def gce_has_id_def run_ops split: prod.splits sum.splits)

lemma gce_cre_wait_id: "keeps_inv (gce_has_id h) (gce_cre_wait A)"
  unfolding gce_cre_wait_def gce_need_quota_def by (intro keeps)

lemma gce_cre_result_id: "keeps_inv (gce_has_id h) gce_cre_result"
  unfolding gce_cre_result_def by (auto intro!: keeps split: option.split prod.split)

text \<open>After one call, whatever it did, the machine has its id.\<close>

lemma gce_advance_id:
  assumes "gce_named h r"
  shows "gce_has_id h (snd (gce_create_advance A cfg r))"
proof -
  let ?rest = "then_go (in_state GCE_INSTANCE_CREATING (gce_cre_wait A)) (in_complete GCE_COMPLETE gce_cre_result)"
  have rest: "keeps_inv (gce_has_id h) ?rest"
    by (intro keeps keeps_in_state_inv keeps_in_complete_inv gce_cre_wait_id gce_cre_result_id)
  show ?thesis
  proof (cases "sm_state (ru_machine r) = SM_START")
    case True
    obtain x r1 where s: "gce_cre_start A cfg r = (x, r1)" by fastforce
    with gce_cre_start_id [OF assms, of A cfg] have r1: "gce_has_id h r1" by simp
    show ?thesis
    proof (cases x)
      case (Inl e)
      with True s r1 show ?thesis
        by (simp add: gce_create_advance_def then_go_def in_state_def go_on_def eff_bind_def eff_get_def eff_seq_def)
    next
      case (Inr u)
      with True s have "gce_create_advance A cfg r = ?rest r1"
        by (simp add: gce_create_advance_def then_go_def in_state_def go_on_def eff_bind_def eff_get_def eff_seq_def eff_ret_def)
      with keepsD [OF rest r1] show ?thesis by simp
    qed
  next
    case False
    with assms have "gce_has_id h r" by (auto simp: gce_named_def gce_has_id_def)
    moreover from False have "gce_create_advance A cfg r = ?rest r"
      by (simp add: gce_create_advance_def then_go_def in_state_def eff_bind_def eff_get_def eff_ret_def)
    ultimately show ?thesis using keepsD [OF rest] by metis
  qed
qed

lemma gce_has_id_named: "gce_has_id h r \<Longrightarrow> gce_named h r"
  by (simp add: gce_has_id_def gce_named_def)

lemma gce_run_named:
  assumes "machine_run (gce_create_advance A cfg)
     \<lparr> ru_machine = gce_getCreateStateMachine l h metadata clk, ru_world = w \<rparr> r"
  shows "gce_named h r"
  using assms
proof (induction rule: machine_run.induct)
  case start
  then show ?case by (simp add: gce_named_def gce_getCreateStateMachine_def sm_init_def)
next
  case (step r)
  from gce_has_id_named [OF gce_advance_id [OF step.IH]] show ?case .
next
  case (others r w)
  then show ?case by (simp add: gce_named_def)
qed

subsection \<open>Metadata\<close>

lemma update_fresh: "k \<notin> fst ` set e \<Longrightarrow> AList.update k v e = e @ [(k, v)]"
  by (induction e) auto

lemma gce_metadata_there:
  assumes "distinct (map fst d)"
  shows "gce_metadata_to_dict (Some (dict_to_gce_metadata d)) = d"
proof -
  have "dict_update e d = e @ d" if "distinct (map fst (e @ d))" for e
    using that
  proof (induction d arbitrary: e)
    case (Cons kv d)
    obtain k v where kv: "kv = (k, v)" by fastforce
    from Cons.prems kv have "AList.update k v e = e @ [(k, v)]" by (intro update_fresh) auto
    with Cons.IH [of "e @ [(k, v)]"] Cons.prems kv show ?case by (simp add: dict_update_def)
  qed (simp add: dict_update_def)
  from this [of "[]"] assms have "dict_update [] d = d" by simp
  moreover have "map (\<lambda>i. (gt_key i, gt_value i)) (map (\<lambda>(k, v). \<lparr> gt_key = k, gt_value = v \<rparr>) d) = d"
    by (induction d) auto
  ultimately show ?thesis by (simp add: gce_metadata_to_dict_def dict_to_gce_metadata_def)
qed

subsection \<open>Deleting\<close>

text \<open>When the cloud refuses the deletion, the machine stays at its start.\<close>

lemma gce_delete_refused:
  assumes "ga_delete A i (gw_cloud w) = (Inl e, c)"
  shows "gce_delete_advance A \<lparr> ru_machine = gce_getDeleteStateMachine i clk, ru_world = w \<rparr> =
    (Inl e, \<lparr> ru_machine = gce_getDeleteStateMachine i clk, ru_world = w\<lparr>gw_cloud := c\<rparr> \<rparr>)"
  using assms
  by (simp add: gce_delete_advance_def then_go_def in_state_def go_on_def gce_del_start_def gce_deleteInstance_def
      on_gce_def gce_getDeleteStateMachine_def sm_init_def run_ops)

section \<open>Properties of the other clouds\<close>

text \<open>
  What the state machines of the smaller cloud drivers guarantee, with witnesses on small clouds.
\<close>

subsection \<open>GCE\<close>

definition gce_api_one :: "gce_instance list gce_api" where
  "gce_api_one = \<lparr> ga_list = (\<lambda>c. (Inr c, c)), ga_insert = (\<lambda>b c. (Inl (OtherError ''HttpError 503''), c)),
     ga_delete = (\<lambda>i c. (if i \<in> gi_name ` set c then (Inr (), filter (\<lambda>x. gi_name x \<noteq> i) c)
                         else (Inl (OtherError ''HttpError 404''), c))),
     ga_family = (\<lambda>p f c. (Inr ''image-1'', c)),
     ga_machine_type = (\<lambda>t c. (Inr \<lparr> gy_self_link = Some ''n1'', gy_cpus = Some 1, gy_memory = Some 1024 \<rparr>, c)),
     ga_region_quotas = (\<lambda>c. (Inr [], c)) \<rparr>"

definition gce_w_one :: "gce_instance list gce_world" where
  "gce_w_one = \<lparr> gw_cloud = [], gw_images = [], gw_types = [] \<rparr>"

definition gce_label_one :: gce_label where
  "gce_label_one = \<lparr> gl_name = ''l'',
     gl_image = Some \<lparr> gg_name = ''i'', gg_image_id = None, gg_project = Some ''p'', gg_family = Some ''f'',
                      gg_username = Some ''zuul'', gg_key = Some ''ssh-rsa'' \<rparr>,
     gl_instance_type = ''n1'', gl_volume_type = ''pd-standard'', gl_volume_size = JStr ''10'' \<rparr>"

text \<open>
  What a GCE create machine asks for is named by its external id: in every state it can get
  into, after any exceptions, the id is the instance's name or the machine has not been advanced yet.
\<close>
theorem gce_name_before_create:
  assumes "machine_run (gce_create_advance A cfg)
     \<lparr> ru_machine = gce_getCreateStateMachine l h metadata clk, ru_world = w \<rparr> r"
  shows "sm_external_id (ru_machine r) = JStr h \<or>
    sm_external_id (ru_machine r) = JNull \<and> sm_state (ru_machine r) = SM_START"
  using gce_run_named [OF assms] by (auto simp: gce_named_def)

theorem gce_name_before_create_witness:
  "sm_external_id (ru_machine (snd (gce_create_advance gce_api_one \<lparr> gc_name = ''gce'', gc_zone = ''z'' \<rparr>
     \<lparr> ru_machine = gce_getCreateStateMachine gce_label_one ''np1'' [] 0, ru_world = gce_w_one \<rparr>))) = JStr ''np1''"
proof -
  have "gce_has_id ''np1'' (snd (gce_create_advance gce_api_one \<lparr> gc_name = ''gce'', gc_zone = ''z'' \<rparr>
     \<lparr> ru_machine = gce_getCreateStateMachine gce_label_one ''np1'' [] 0, ru_world = gce_w_one \<rparr>))"
    by (intro gce_advance_id) (simp add: gce_named_def gce_getCreateStateMachine_def sm_init_def)
  then show ?thesis
    using gce_name_before_create [OF machine_run.step [OF machine_run.start],
      of gce_api_one "\<lparr> gc_name = ''gce'', gc_zone = ''z'' \<rparr>" gce_label_one "''np1''" "[]" 0 gce_w_one]
    by (auto simp: gce_has_id_def)
qed

text \<open>
  The metadata of a node, which tell the provider what belongs to it, survive the way into the
  items of a GCE instance and back.
\<close>
theorem gce_metadata_roundtrip:
  assumes "distinct (map fst d)"
  shows "gce_metadata_to_dict (Some (dict_to_gce_metadata d)) = d"
  using assms by (rule gce_metadata_there)

theorem gce_metadata_roundtrip_witness:
  "gce_metadata_to_dict (Some (dict_to_gce_metadata [(''nodepool_node_id'', ''7''), (''nodepool_provider_name'', ''gce'')])) =
    [(''nodepool_node_id'', ''7''), (''nodepool_provider_name'', ''gce'')]"
  by (rule gce_metadata_roundtrip) simp

text \<open>
  When GCE refuses a deletion, for example because the instance is gone, the delete machine of the node raises what
  the API raised and stays where it was, so that the deletion of the node is tried, and fails, again.
\<close>
theorem gce_gone_stays:
  assumes "ga_delete A i (gw_cloud w) = (Inl e, c)"
  shows "gce_delete_advance A \<lparr> ru_machine = gce_getDeleteStateMachine i clk, ru_world = w \<rparr> =
    (Inl e, \<lparr> ru_machine = gce_getDeleteStateMachine i clk, ru_world = w\<lparr>gw_cloud := c\<rparr> \<rparr>)"
  using assms by (rule gce_delete_refused)

theorem gce_gone_stays_witness:
  "\<exists>r. gce_delete_advance gce_api_one \<lparr> ru_machine = gce_getDeleteStateMachine ''np1'' 0, ru_world = gce_w_one \<rparr> =
    (Inl (OtherError ''HttpError 404''), r) \<and> \<not> sm_complete (ru_machine r)"
  using gce_gone_stays [of gce_api_one "''np1''" gce_w_one "OtherError ''HttpError 404''" "[]" 0]
  by (simp add: gce_api_one_def gce_w_one_def gce_getDeleteStateMachine_def sm_init_def)

subsection \<open>IBM VPC\<close>

text \<open>
  A node's identity survives the way into names and back: what is created with the host name of a node, in
  the resource group made for a provider and a pool, carries exactly the metadata of that node, provider
  and pool, as long as the two names consist of letters, digits and dashes.
\<close>
theorem ibm_metadata_roundtrip:
  assumes "list_all is_name_char p" and "p \<noteq> []" and "list_all is_name_char q" and "q \<noteq> []"
    and "list_all is_digit d" and "d \<noteq> []"
  shows "\<exists>g. make_resource_group_name p q = Inr g \<and>
    get_metadata (Some g) (''np'' @ d) =
      [(''nodepool_node_id'', d), (''nodepool_provider_name'', p), (''nodepool_pool_name'', q)]"
proof -
  from match_group_made [OF assms(1-4)] have m: "match_group (''np_'' @ p @ ''_'' @ q) = Some (p, q)" .
  from match_group_sound [OF m] have "make_resource_group_name p q = Inr (''np_'' @ p @ ''_'' @ q)" .
  with m match_hostname_made [OF assms(6,5)] show ?thesis by (simp add: get_metadata_def)
qed

theorem ibm_metadata_roundtrip_witness:
  "\<exists>g. make_resource_group_name ''ibm-1'' ''main'' = Inr g \<and>
    get_metadata (Some g) ''np7'' =
      [(''nodepool_node_id'', ''7''), (''nodepool_provider_name'', ''ibm-1''), (''nodepool_pool_name'', ''main'')]"
proof -
  have "\<exists>g. make_resource_group_name ''ibm-1'' ''main'' = Inr g \<and>
    get_metadata (Some g) (''np'' @ ''7'') =
      [(''nodepool_node_id'', ''7''), (''nodepool_provider_name'', ''ibm-1''), (''nodepool_pool_name'', ''main'')]"
    by (rule ibm_metadata_roundtrip) (simp_all add: is_name_char_def is_digit_def)
  then show ?thesis by simp
qed

text \<open>
  A name with another character is accepted when the group is made, but what the group holds belongs to
  no provider: neither listed as an instance of the provider nor ever found leaked.
\<close>
theorem ibm_dotted_name_unmanaged:
  "make_resource_group_name ''ibm.1'' ''main'' = Inr ''np_ibm.1_main'' \<and>
   get_metadata (Some ''np_ibm.1_main'') ''np7'' = [(''nodepool_node_id'', ''7'')]"
  by (simp add: make_resource_group_name_def get_metadata_def match_hostname_def match_group_def match_image_group_def
      startswith_def is_name_char_def is_digit_def)

text \<open>
  The delete machine keeps waiting, and does not touch the instance, as long as the floating address is listed.
\<close>
theorem ibm_address_first:
  assumes "sm_state m = IBM_FIP_DELETING" and "id_fip (sm_more m) = Some f"
    and "ia_fips A (iw_cloud w) = (Inr fs, c)" and "find (\<lambda>g. if_id g = if_id f) fs = Some g"
  shows "ibm_delete_advance A \<lparr> ru_machine = m, ru_world = w \<rparr> =
    (Inr None, \<lparr> ru_machine = m\<lparr>sm_more := (sm_more m)\<lparr>id_fip := Some g\<rparr>\<rparr>, ru_world = w\<lparr>iw_cloud := c\<rparr> \<rparr>)"
  using assms by (rule ibm_fip_first)

text \<open>
  An instance whose resource group was created after the provider was started makes the listing of all
  instances fail.
\<close>
theorem ibm_unknown_group_stops:
  assumes "ia_fips A (iw_cloud w) = (Inr fs, c1)" and "ia_vms A c1 = (Inr vs, c2)"
    and "v \<in> set vs" and "ib_name (iv_group v) = Some n" and "map_of (iw_groups w) n = None"
  shows "\<exists>e w'. ibm_listInstances A cfg w = (Inl e, w')"
  using assms by (rule unknown_group_stops)

end
