(* ===== verification/OpenStack.thy ===== *)
theory OpenStack
  imports Machines "HOL-Library.Product_Lexorder"
begin

section \<open>The OpenStack driver: data, caches and listings\<close>

text \<open>
  \<open>nodepool/driver/openstack/adapter.py\<close>, first part: flavors, servers and quota, the caches, the pages
  a listing of servers is read from, and the cleanup of ports. The SDK is a record of functions over
  an abstract cloud; what it says of its exceptions (class, message, resource id) is part of it. The
  caches without a time limit are the adapter's state; the listings that are refreshed in the
  background are answers of the record.
\<close>

subsection \<open>Data\<close>

record os_flavor =
  fl_id :: string
  fl_name :: string
  fl_vcpus :: rat
  fl_ram :: rat

datatype flavor_ref = Full_Flavor os_flavor | Flavor_Id string

record os_volume =
  vo_id :: string
  vo_size :: rat

record os_fip =
  fp_id :: string
  fp_status :: string
  fp_port_id :: "string option"
  fp_address :: string

text \<open>The fault is \<open>None\<close> when it is missing or null; its message may be missing.\<close>

record os_server =
  sv_id :: string
  sv_status :: string
  sv_metadata :: "(string \<times> string) list"
  sv_private_v4 :: "string option"
  sv_public_v4 :: "string option"
  sv_public_v6 :: "string option"
  sv_interface_ip :: "string option"
  sv_host_id :: string
  sv_az :: "string option"
  sv_addresses :: json
  sv_fault :: "string option option"
  sv_flavor :: flavor_ref
  sv_volumes :: "string list"

record os_port =
  pt_id :: string
  pt_owner :: "string option"

record os_cloud_image =
  ci_name :: string
  ci_external_name :: string
  ci_image_id :: "string option"
  ci_config_drive :: json

record os_pool =
  osp_auto_floating_ip :: bool
  osp_security_groups :: "string list"

record os_label =
  osl_name :: string
  osl_pool :: os_pool
  osl_diskimage :: "string option"
  osl_cloud_image :: "os_cloud_image option"
  osl_flavor_name :: "string option"
  osl_min_ram :: "rat option"
  osl_key_name :: "string option"
  osl_networks :: "string list"
  osl_boot_from_volume :: bool
  osl_volume_size :: rat
  osl_userdata :: "string option"
  osl_properties :: "(string \<times> string) list"
  osl_dynamic :: "(string \<times> string) list"
  osl_console_log :: bool

record os_config =
  osc_name :: string
  osc_cloud :: string
  osc_region :: "string option"
  osc_diskimages :: "(string \<times> json) list"       \<comment> \<open>the config drive of each disk image\<close>
  osc_port_cleanup_interval :: int
  osc_clean_floating_ips :: bool
  osc_image_upload_timeout :: rat
  osc_format :: "string \<Rightarrow> pydict \<Rightarrow> string res"   \<comment> \<open>\<open>format\<close> with the request's attributes\<close>

record os_limits =
  om_instances :: rat
  om_cores :: rat
  om_ram :: rat

type_synonym os_params = "(string \<times> string list) list"

record os_page =
  pg_servers :: "os_server list"
  pg_links :: "(string option \<times> string option) list"     \<comment> \<open>\<open>rel\<close> and \<open>href\<close>\<close>
  pg_header :: "string option"                                \<comment> \<open>the next page in the header\<close>

text \<open>What a server is created with: the image's id, the flavor, and the other arguments.\<close>

record os_create_args =
  sa_name :: string
  sa_image :: "string option"
  sa_flavor :: os_flavor
  sa_more :: pydict

record 'c os_api =
  oa_servers :: "('c, os_server list) eff"
  oa_page :: "string \<Rightarrow> os_params \<Rightarrow> ('c, os_page) eff"
  oa_link :: "string \<Rightarrow> string \<times> os_params"              \<comment> \<open>the next link without its query, and its query\<close>
  oa_volumes :: "('c, os_volume list) eff"
  oa_fips :: "('c, os_fip list) eff"
  oa_expand :: "os_server \<Rightarrow> ('c, os_server) eff"
  oa_server_now :: "string \<Rightarrow> ('c, os_server option) eff"
  oa_flavors :: "('c, os_flavor list) eff"
  oa_image :: "string \<Rightarrow> ('c, string option) eff"
  oa_network :: "string \<Rightarrow> ('c, string option) eff"
  oa_azs :: "('c, json list) eff"
  oa_compute_limits :: "('c, os_limits) eff"
  oa_volume_limits :: "('c, rat \<times> rat) eff"
  oa_create_image :: "pydict \<Rightarrow> ('c, string) eff"
  oa_delete_image :: "json \<Rightarrow> ('c, unit) eff"
  oa_create_server :: "os_create_args \<Rightarrow> ('c, os_server) eff"
  oa_delete_server :: "string \<Rightarrow> ('c, unit) eff"
  oa_needs_fip :: "os_server \<Rightarrow> ('c, bool) eff"
  oa_create_fip :: "os_server \<Rightarrow> ('c, os_fip) eff"
  oa_attach_fip :: "os_server \<Rightarrow> os_fip \<Rightarrow> ('c, unit) eff"
  oa_has_fips :: bool
  oa_server_fips :: "json \<Rightarrow> string list"                   \<comment> \<open>the floating addresses of a server\<close>
  oa_find_fip :: "string \<Rightarrow> ('c, os_fip option) eff"
  oa_delete_fip :: "string \<Rightarrow> ('c, unit) eff"
  oa_server_ip :: "os_server \<Rightarrow> string option"
  oa_down_ports :: "('c, os_port list) eff"
  oa_delete_port :: "string \<Rightarrow> ('c, unit) eff"
  oa_delete_unattached :: "('c, unit) eff"
  oa_console :: "string \<Rightarrow> ('c, json) eff"
  oa_cloud_error :: "pyexc \<Rightarrow> bool"                        \<comment> \<open>an \<open>OpenStackCloudException\<close>\<close>
  oa_failed_create :: "pyexc \<Rightarrow> string option option"
    \<comment> \<open>an \<open>OpenStackCloudCreateException\<close>, and its resource id\<close>
  oa_bad_request :: "pyexc \<Rightarrow> bool"
  oa_no_endpoint :: "pyexc \<Rightarrow> bool"
  oa_str :: "pyexc \<Rightarrow> string"

record 'c os_world =
  ow_cloud :: 'c
  ow_images :: "(string \<times> string option) list"
  ow_flavors :: "os_flavor list option"
  ow_networks :: "(string \<times> string) list"
  ow_azs :: "json list option"
  ow_image_failure :: rat
  ow_port_cleanup :: "rat option"
  ow_down_ports :: "string list option"       \<comment> \<open>the attribute is not set at first\<close>

type_synonym ('c, 'a) os_eff = "('c os_world, 'a) eff"

definition on_os :: "('c, 'a) eff \<Rightarrow> ('c, 'a) os_eff" where
  "on_os m = eff_zoom ow_cloud (\<lambda>c w. w\<lparr>ow_cloud := c\<rparr>) m"

definition os_init :: "'c \<Rightarrow> rat \<Rightarrow> 'c os_world" where
  "os_init c now = \<lparr> ow_cloud = c, ow_images = [], ow_flavors = None, ow_networks = [], ow_azs = None,
     ow_image_failure = now, ow_port_cleanup = None, ow_down_ports = None \<rparr>"

subsection \<open>Quota\<close>

definition quota_from_flavor :: "os_flavor \<Rightarrow> os_label option \<Rightarrow> os_volume list \<Rightarrow> quota" where
  "quota_from_flavor f l volumes =
     quota_init (Some (Fin (fl_vcpus f))) (Some (Fin 1)) (Some (Fin (fl_ram f))) (Fin 0)
       (case l of
          Some x \<Rightarrow> if osl_boot_from_volume x
                     then [(''volumes'', QNum (Fin 1)), (''volume-gb'', QNum (Fin (osl_volume_size x)))]
                     else if volumes \<noteq> []
                     then [(''volumes'', QNum (Fin (of_nat (length volumes)))),
                           (''volume-gb'', QNum (Fin (sum_list (map vo_size volumes))))]
                     else []
        | None \<Rightarrow> if volumes \<noteq> []
                   then [(''volumes'', QNum (Fin (of_nat (length volumes)))),
                         (''volume-gb'', QNum (Fin (sum_list (map vo_size volumes))))]
                   else [])"

definition bound_value :: "rat \<Rightarrow> num" where
  "bound_value v = (if v = -1 then PosInf else Fin v)"

definition quota_from_limits :: "os_limits \<Rightarrow> (rat \<times> rat) option \<Rightarrow> quota" where
  "quota_from_limits c v =
     quota_init (Some (bound_value (om_cores c))) (Some (bound_value (om_instances c))) (Some (bound_value (om_ram c)))
       (Fin 0)
       (case v of
          None \<Rightarrow> []
        | Some (n, gb) \<Rightarrow> [(''volumes'', QNum (bound_value n)), (''volume-gb'', QNum (bound_value gb))])"

definition os_instance :: "os_config \<Rightarrow> os_server \<Rightarrow> quota \<Rightarrow> cloud_instance" where
  "os_instance cfg s q =
     instance_init\<lparr>
       in_external_id := JStr (sv_id s), in_metadata := sv_metadata s,
       in_private_ipv4 := first_true [opt_json (sv_private_v4 s), opt_json (sv_public_v4 s)],
       in_private_ipv6 := Some JNull,
       in_public_ipv4 := opt_json (sv_public_v4 s), in_public_ipv6 := opt_json (sv_public_v6 s),
       in_host_id := JStr (sv_host_id s), in_cloud := JStr (osc_cloud cfg), in_region := opt_json (osc_region cfg),
       in_az := opt_json (sv_az s), in_interface_ip := opt_json (sv_interface_ip s), in_quota := Inr q \<rparr>"

record os_resource = cloud_resource +
  or_id :: string

subsection \<open>The caches\<close>

definition os_findImage :: "'c os_api \<Rightarrow> string \<Rightarrow> ('c, string option) os_eff" where
  "os_findImage A name =
     eff_bind (eff_get (\<lambda>w. map_of (ow_images w) name)) (\<lambda>known.
       case known of
         Some i \<Rightarrow> eff_ret i
       | None \<Rightarrow> eff_bind (on_os (oa_image A name)) (\<lambda>i.
                   eff_seq (eff_mod (\<lambda>w. w\<lparr>ow_images := (name, i) # ow_images w\<rparr>)) (eff_ret i)))"

text \<open>Sorted by RAM, then by name.\<close>

definition sort_flavors :: "os_flavor list \<Rightarrow> os_flavor list" where
  "sort_flavors = sort_key (\<lambda>f. (fl_ram f, fl_name f))"

definition listFlavors :: "'c os_api \<Rightarrow> ('c, os_flavor list) os_eff" where
  "listFlavors A =
     eff_bind (eff_get ow_flavors) (\<lambda>known.
       case known of
         Some fs \<Rightarrow> eff_ret fs
       | None \<Rightarrow> eff_bind (on_os (oa_flavors A)) (\<lambda>fs.
                   eff_seq (eff_mod (\<lambda>w. w\<lparr>ow_flavors := Some (sort_flavors fs)\<rparr>)) (eff_ret (sort_flavors fs))))"

definition findNetwork :: "'c os_api \<Rightarrow> string \<Rightarrow> ('c, string) os_eff" where
  "findNetwork A name =
     eff_bind (eff_get (\<lambda>w. map_of (ow_networks w) name)) (\<lambda>known.
       case known of
         Some i \<Rightarrow> eff_ret i
       | None \<Rightarrow> eff_bind (on_os (oa_network A name)) (\<lambda>found.
                   case found of
                     None \<Rightarrow> eff_raise GenericException
                   | Some i \<Rightarrow> eff_seq (eff_mod (\<lambda>w. w\<lparr>ow_networks := (name, i) # ow_networks w\<rparr>)) (eff_ret i)))"

definition listAZs :: "'c os_api \<Rightarrow> ('c, json list) os_eff" where
  "listAZs A =
     eff_bind (eff_get ow_azs) (\<lambda>known.
       case known of
         Some zs \<Rightarrow> eff_ret zs
       | None \<Rightarrow> eff_bind (on_os (oa_azs A)) (\<lambda>zs.
                   eff_seq (eff_mod (\<lambda>w. w\<lparr>ow_azs := Some zs\<rparr>)) (eff_ret zs)))"

definition clear_caches :: "('c, unit) os_eff" where
  "clear_caches = eff_mod (\<lambda>w. w\<lparr>ow_images := [], ow_flavors := None, ow_networks := [], ow_azs := None\<rparr>)"

definition os_getAZs :: "'c os_api \<Rightarrow> ('c, json list) os_eff" where
  "os_getAZs A = eff_bind (listAZs A) (\<lambda>zs. eff_ret (if zs = [] then [JNull] else zs))"

definition findFlavorByName :: "'c os_api \<Rightarrow> string option \<Rightarrow> ('c, os_flavor) os_eff" where
  "findFlavorByName A name =
     eff_bind (listFlavors A) (\<lambda>fs.
       case find (\<lambda>f. name = Some (fl_name f) \<or> name = Some (fl_id f)) fs of
         None \<Rightarrow> eff_raise GenericException | Some f \<Rightarrow> eff_ret f)"

definition ram_fits :: "rat \<Rightarrow> string option \<Rightarrow> os_flavor \<Rightarrow> bool" where
  "ram_fits min_ram name f \<longleftrightarrow> min_ram \<le> fl_ram f \<and>
     (case name of None \<Rightarrow> True | Some n \<Rightarrow> n = [] \<or> occurs_in n (fl_name f))"

definition findFlavorByRam :: "'c os_api \<Rightarrow> rat \<Rightarrow> string option \<Rightarrow> ('c, os_flavor) os_eff" where
  "findFlavorByRam A min_ram name =
     eff_bind (listFlavors A) (\<lambda>fs.
       case find (ram_fits min_ram name) fs of None \<Rightarrow> eff_raise GenericException | Some f \<Rightarrow> eff_ret f)"

definition findFlavorById :: "'c os_api \<Rightarrow> string \<Rightarrow> ('c, os_flavor) os_eff" where
  "findFlavorById A i =
     eff_bind (listFlavors A) (\<lambda>fs.
       case find (\<lambda>f. fl_id f = i) fs of None \<Rightarrow> eff_raise GenericException | Some f \<Rightarrow> eff_ret f)"

definition findFlavor :: "'c os_api \<Rightarrow> string option \<Rightarrow> rat option \<Rightarrow> ('c, os_flavor) os_eff" where
  "findFlavor A name min_ram =
     (case min_ram of
        None \<Rightarrow> findFlavorByName A name
      | Some r \<Rightarrow> if r = 0 then findFlavorByName A name else findFlavorByRam A r name)"

definition getFlavorFromServer :: "'c os_api \<Rightarrow> os_server \<Rightarrow> ('c, os_flavor) os_eff" where
  "getFlavorFromServer A s = (case sv_flavor s of Full_Flavor f \<Rightarrow> eff_ret f | Flavor_Id i \<Rightarrow> findFlavorById A i)"

subsection \<open>Listing the servers\<close>

text \<open>\<open>s[s.find('/', 1):]\<close>: from the second slash on, or the last character when there is none.\<close>

definition from_second_slash :: "string \<Rightarrow> string" where
  "from_second_slash s =
     (let r = dropWhile (\<lambda>c. c \<noteq> CHR ''/'') (tl s) in if r = [] then drop (length s - 1) s else r)"

definition next_href :: "os_page \<Rightarrow> string option" where
  "next_href p =
     (case find (\<lambda>(rel, href). rel = Some ''next'' \<and> href \<noteq> None) (pg_links p) of
        Some (rel, Some h) \<Rightarrow> Some (if startswith h ''/v'' then from_second_slash h else h)
      | _ \<Rightarrow> None)"

definition getNextLink :: "'c os_api \<Rightarrow> os_page \<Rightarrow> string option \<times> os_params" where
  "getNextLink A p =
     (let link = (case next_href p of Some h \<Rightarrow> if h = [] then pg_header p else Some h | None \<Rightarrow> pg_header p)
      in case link of
           None \<Rightarrow> (None, [])
         | Some h \<Rightarrow> if h = [] then (Some h, []) else (case oa_link A h of (u, ps) \<Rightarrow> (Some u, ps)))"

text \<open>
  One page after the other; a page that leads to the marker it was itself asked with ends the listing
  with an exception. The code has no other limit: fuel bounds the number of pages.
\<close>

fun server_pages ::
  "'c os_api \<Rightarrow> nat \<Rightarrow> string option \<Rightarrow> os_params \<Rightarrow> os_server list \<Rightarrow> ('c, os_server list option) os_eff" where
  "server_pages A 0 uri params found = eff_ret None"
| "server_pages A (Suc fuel) uri params found =
     (case uri of
        None \<Rightarrow> eff_ret (Some found)
      | Some u \<Rightarrow>
          if u = [] then eff_ret (Some found)
          else eff_bind (on_os (oa_page A u params)) (\<lambda>page.
            let last_marker = map_of params ''marker'';
                rest = filter (\<lambda>(k, v). k \<noteq> ''marker'' \<and> k \<noteq> ''limit'') params
            in if pg_servers page = [] then eff_ret (Some found)
               else let (next, nps) = getNextLink A page
                    in if map_of nps ''marker'' \<noteq> None \<and> map_of nps ''marker'' = last_marker
                       then eff_raise GenericException
                       else server_pages A fuel next (dict_update rest nps) (found @ pg_servers page)))"

definition simpleServerList :: "'c os_api \<Rightarrow> nat \<Rightarrow> ('c, os_server list option) os_eff" where
  "simpleServerList A fuel = server_pages A fuel (Some ''/servers/detail'') [] []"

subsection \<open>Looking up\<close>

definition os_getServer :: "'c os_api \<Rightarrow> string \<Rightarrow> ('c, os_server option) os_eff" where
  "os_getServer A i =
     eff_bind (on_os (oa_servers A)) (\<lambda>ss.
       case find (\<lambda>s. sv_id s = i) ss of
         None \<Rightarrow> eff_ret None
       | Some s \<Rightarrow> if sv_status s \<in> {''ACTIVE'', ''ERROR''}
                   then eff_bind (on_os (oa_expand A s)) (\<lambda>x. eff_ret (Some x)) else eff_ret (Some s))"

definition refreshServer :: "'c os_api \<Rightarrow> os_server \<Rightarrow> ('c, os_server) os_eff" where
  "refreshServer A s = eff_bind (os_getServer A (sv_id s)) (\<lambda>x. eff_ret (case x of None \<Rightarrow> s | Some t \<Rightarrow> t))"

definition refreshServerDelete :: "'c os_api \<Rightarrow> os_server option \<Rightarrow> ('c, os_server option) os_eff" where
  "refreshServerDelete A x =
     (case x of
        None \<Rightarrow> eff_ret None
      | Some s \<Rightarrow> eff_bind (on_os (oa_servers A)) (\<lambda>ss.
          eff_ret (case find (\<lambda>t. sv_id t = sv_id s) ss of
            None \<Rightarrow> None | Some t \<Rightarrow> if lower (sv_status t) = ''deleted'' then None else Some t)))"

definition refreshFloatingIp :: "'c os_api \<Rightarrow> os_fip \<Rightarrow> ('c, os_fip) os_eff" where
  "refreshFloatingIp A f =
     eff_bind (on_os (oa_fips A)) (\<lambda>fs.
       eff_ret (case find (\<lambda>g. fp_id g = fp_id f) fs of None \<Rightarrow> f | Some g \<Rightarrow> g))"

definition refreshFloatingIpDelete :: "'c os_api \<Rightarrow> os_fip option \<Rightarrow> ('c, os_fip option) os_eff" where
  "refreshFloatingIpDelete A x =
     (case x of
        None \<Rightarrow> eff_ret None
      | Some f \<Rightarrow> eff_bind (on_os (oa_fips A)) (\<lambda>fs.
          eff_ret (case find (\<lambda>g. fp_id g = fp_id f) fs of
            None \<Rightarrow> None | Some g \<Rightarrow> if fp_status g = ''DOWN'' then None else Some g)))"

definition getFloatingIps :: "'c os_api \<Rightarrow> os_server \<Rightarrow> ('c, os_fip option list) os_eff" where
  "getFloatingIps A s =
     eff_fold (\<lambda>a acc. eff_bind (on_os (oa_find_fip A a)) (\<lambda>f. eff_ret (acc @ [f])))
       (oa_server_fips A (sv_addresses s)) []"

definition deleteFloatingIp :: "'c os_api \<Rightarrow> os_fip option \<Rightarrow> ('c, unit) os_eff" where
  "deleteFloatingIp A f = (case f of None \<Rightarrow> eff_raise TypeError | Some x \<Rightarrow> on_os (oa_delete_fip A (fp_id x)))"

definition os_deleteServer :: "'c os_api \<Rightarrow> string \<Rightarrow> ('c, unit) os_eff" where
  "os_deleteServer A i = on_os (oa_delete_server A i)"

subsection \<open>Creating a server\<close>

datatype os_image_arg = Image_Id string | Image_Name string

definition create_more ::
  "os_label \<Rightarrow> json \<Rightarrow> json \<Rightarrow> (string \<times> string) list \<Rightarrow> string list \<Rightarrow> pydict" where
  "create_more l az config_drive props nets =
     [(''config_drive'', config_drive)] @
     (if osl_boot_from_volume l
      then [(''boot_from_volume'', JBool True), (''volume_size'', JNum (osl_volume_size l)),
            (''terminate_volume'', JBool True)] else []) @
     (case osl_key_name l of Some k \<Rightarrow> if k \<noteq> [] then [(''key_name'', JStr k)] else [] | None \<Rightarrow> []) @
     (if truthy az then [(''availability_zone'', az)] else []) @
     (if osp_security_groups (osl_pool l) \<noteq> []
      then [(''security_groups'', JList (map JStr (osp_security_groups (osl_pool l))))] else []) @
     (case osl_userdata l of Some u \<Rightarrow> if u \<noteq> [] then [(''userdata'', JStr u)] else [] | None \<Rightarrow> []) @
     (if nets \<noteq> [] then [(''nics'', JList (map (\<lambda>n. JDict [(''net-id'', JStr n)]) nets))] else []) @
     (if props \<noteq> [] then [(''meta'', JDict (map (\<lambda>(k, v). (k, JStr v)) props))] else [])"

definition os_createServer ::
  "'c os_api \<Rightarrow> string \<Rightarrow> os_image_arg \<Rightarrow> os_flavor \<Rightarrow> os_label \<Rightarrow> json \<Rightarrow> json \<Rightarrow> (string \<times> string) list \<Rightarrow>
     ('c, os_server) os_eff" where
  "os_createServer A name img f l az config_drive props =
     eff_bind (case img of Image_Id i \<Rightarrow> eff_ret (Some i) | Image_Name n \<Rightarrow> os_findImage A n) (\<lambda>i.
     eff_bind (eff_fold (\<lambda>n acc. eff_bind (findNetwork A n) (\<lambda>k. eff_ret (acc @ [k]))) (osl_networks l) []) (\<lambda>nets.
       eff_try (on_os (oa_create_server A \<lparr> sa_name = name, sa_image = i, sa_flavor = f,
                  sa_more = create_more l az config_drive props nets \<rparr>))
         (\<lambda>e. if oa_bad_request A e then eff_seq clear_caches (eff_raise e) else eff_raise e)))"

subsection \<open>Ports\<close>

definition filterComputePorts :: "os_port list \<Rightarrow> os_port list" where
  "filterComputePorts = filter (\<lambda>p. case pt_owner p of None \<Rightarrow> True | Some s \<Rightarrow> s = [] \<or> startswith s ''compute:'')"

definition down_compute_ports :: "'c os_api \<Rightarrow> ('c, string list) os_eff" where
  "down_compute_ports A =
     eff_bind (on_os (oa_down_ports A)) (\<lambda>ps. eff_ret (remdups (map pt_id (filterComputePorts ps))))"

text \<open>\<open>now\<close> is the time of the check, \<open>later\<close> that after the deletions.\<close>

definition cleanupLeakedPorts :: "'c os_api \<Rightarrow> os_config \<Rightarrow> rat \<Rightarrow> rat \<Rightarrow> ('c, unit) os_eff" where
  "cleanupLeakedPorts A cfg now later =
     eff_bind (eff_get ow_port_cleanup) (\<lambda>t.
       if t = None \<or> t = Some 0
       then eff_seq (eff_mod (\<lambda>w. w\<lparr>ow_port_cleanup := Some now\<rparr>))
            (eff_bind (down_compute_ports A) (\<lambda>ps. eff_mod (\<lambda>w. w\<lparr>ow_down_ports := Some ps\<rparr>)))
       else if trunc (now - the t) \<le> osc_port_cleanup_interval cfg then eff_ret ()
       else eff_bind (down_compute_ports A) (\<lambda>current.
            eff_bind (eff_read (\<lambda>w. case ow_down_ports w of None \<Rightarrow> Inl AttributeError | Some ps \<Rightarrow> Inr ps)) (\<lambda>before.
            eff_seq (eff_each (\<lambda>p. eff_ignore (on_os (oa_delete_port A p))) (filter (\<lambda>p. p \<in> set before) current))
            (eff_seq (eff_mod (\<lambda>w. w\<lparr>ow_port_cleanup := Some later\<rparr>))
            (eff_bind (down_compute_ports A) (\<lambda>ps. eff_mod (\<lambda>w. w\<lparr>ow_down_ports := Some ps\<rparr>)))))))"

end
