(* ===== verification/OpenStackMachines.thy ===== *)
theory OpenStackMachines
  imports OpenStack
begin

section \<open>The OpenStack driver: state machines and operations\<close>

text \<open>
  \<open>nodepool/driver/openstack/adapter.py\<close>, second part: the machines that delete and create servers with
  their floating addresses, and the operations of the adapter. A call that is handed to the executor
  is a \<open>future\<close>, which the executor's step makes \<open>Done\<close>.
\<close>

subsection \<open>The delete machine\<close>

definition FLOATING_IP_DELETING :: string where "FLOATING_IP_DELETING = ''deleting floating ip''"
definition SERVER_DELETE_SUBMIT :: string where "SERVER_DELETE_SUBMIT = ''submit delete server''"
definition SERVER_DELETE :: string where "SERVER_DELETE = ''delete server''"
definition SERVER_DELETING :: string where "SERVER_DELETING = ''deleting server''"
definition OS_COMPLETE :: string where "OS_COMPLETE = ''complete''"

record os_delete =
  od_id :: string
  od_server :: "os_server option"
  od_fips :: "os_fip option list option"
  od_future :: "unit future option"

type_synonym ('c, 'a) os_del = "(os_delete, 'c os_world, 'a) run_eff"

definition os_getDeleteStateMachine :: "string \<Rightarrow> rat \<Rightarrow> os_delete state_machine" where
  "os_getDeleteStateMachine i clk =
     (sm_init clk \<lparr> od_id = i, od_server = None, od_fips = None, od_future = None \<rparr>)\<lparr> sm_external_id := JStr i \<rparr>"

definition od_release_fips :: "'c os_api \<Rightarrow> os_server \<Rightarrow> ('c, unit) os_del" where
  "od_release_fips A s =
     eff_bind (on_world (getFloatingIps A s)) (\<lambda>fs.
     eff_seq (upd_more (\<lambda>d. d\<lparr>od_fips := Some fs\<rparr>))
       (eff_each (\<lambda>f. eff_seq (on_world (deleteFloatingIp A f)) (goto FLOATING_IP_DELETING)) fs))"

definition od_start :: "'c os_api \<Rightarrow> ('c, unit) os_del" where
  "od_start A =
     eff_bind (get_more od_id) (\<lambda>i.
     eff_bind (on_world (os_getServer A i)) (\<lambda>x.
     eff_seq (upd_more (\<lambda>d. d\<lparr>od_server := x\<rparr>))
     (eff_seq (case x of
                 None \<Rightarrow> eff_ret ()
               | Some s \<Rightarrow> if oa_has_fips A \<and> truthy (sv_addresses s) then od_release_fips A s else eff_ret ())
     (eff_bind (get_more od_fips) (\<lambda>fs.
        if fs = None \<or> fs = Some [] then goto SERVER_DELETE_SUBMIT else eff_ret ())))))"

definition still_there :: "'c os_api \<Rightarrow> os_fip option \<Rightarrow> os_fip option list \<Rightarrow> ('c, os_fip option list) os_eff" where
  "still_there A f acc =
     eff_bind (refreshFloatingIpDelete A f) (\<lambda>x.
       eff_ret (case x of None \<Rightarrow> acc | Some g \<Rightarrow> if fp_status g = ''DOWN'' then acc else acc @ [Some g]))"

definition od_fip_wait :: "'c os_api \<Rightarrow> ('c, bool) os_del" where
  "od_fip_wait A =
     eff_bind (get_more od_fips) (\<lambda>fs. case fs of None \<Rightarrow> eff_raise TypeError | Some xs \<Rightarrow>
     eff_bind (on_world (eff_fold (still_there A) xs [])) (\<lambda>left.
     eff_seq (upd_more (\<lambda>d. d\<lparr>od_fips := Some left\<rparr>))
       (if left \<noteq> [] then eff_ret False else go_on (goto SERVER_DELETE_SUBMIT))))"

definition od_submit :: "('c, unit) os_del" where
  "od_submit = eff_seq (upd_more (\<lambda>d. d\<lparr>od_future := Some Running\<rparr>)) (goto SERVER_DELETE)"

definition od_submitted :: "('c, unit) os_del" where
  "od_submitted =
     eff_bind (get_more od_future) (\<lambda>f.
       case f of
         None \<Rightarrow> eff_raise AttributeError
       | Some Running \<Rightarrow> eff_ret ()
       | Some (Done (Inl e)) \<Rightarrow> eff_raise e
       | Some (Done (Inr u)) \<Rightarrow> goto SERVER_DELETING)"

definition od_wait :: "'c os_api \<Rightarrow> ('c, bool) os_del" where
  "od_wait A =
     eff_bind (get_more od_server) (\<lambda>s.
     eff_bind (on_world (refreshServerDelete A s)) (\<lambda>x.
     eff_seq (upd_more (\<lambda>d. d\<lparr>od_server := x\<rparr>))
       (if x \<noteq> None then eff_ret False else go_on (goto OS_COMPLETE))))"

definition os_delete_advance :: "'c os_api \<Rightarrow> ('c, unit option) os_del" where
  "os_delete_advance A =
     then_go (in_state SM_START (go_on (od_start A)))
     (then_go (in_state FLOATING_IP_DELETING (od_fip_wait A))
     (then_go (in_state SERVER_DELETE_SUBMIT (go_on od_submit))
     (then_go (in_state SERVER_DELETE (go_on od_submitted))
     (then_go (in_state SERVER_DELETING (od_wait A))
       (in_complete OS_COMPLETE (eff_ret ()))))))"

text \<open>The executor deletes the server.\<close>

definition run_server_delete :: "'c os_api \<Rightarrow> ('c, unit) os_del" where
  "run_server_delete A =
     eff_bind (get_more id) (\<lambda>d.
       if od_future d \<noteq> Some Running then eff_ret ()
       else eff_bind (eff_try (eff_bind (on_world (os_deleteServer A (od_id d))) (\<lambda>u. eff_ret (Inr u))) (\<lambda>e. eff_ret (Inl e)))
              (\<lambda>x. upd_more (\<lambda>d. d\<lparr>od_future := Some (Done x)\<rparr>)))"

subsection \<open>The create machine\<close>

definition SERVER_CREATING_SUBMIT :: string where "SERVER_CREATING_SUBMIT = ''submit creating server''"
definition SERVER_CREATING :: string where "SERVER_CREATING = ''creating server''"
definition FLOATING_IP_CREATING :: string where "FLOATING_IP_CREATING = ''creating floating ip''"
definition FLOATING_IP_ATTACHING :: string where "FLOATING_IP_ATTACHING = ''attaching floating ip''"

record os_create =
  oc_label :: os_label
  oc_hostname :: string
  oc_az :: json
  oc_image :: os_image_arg
  oc_config_drive :: json
  oc_meta :: "(string \<times> string) list"
  oc_flavor :: os_flavor
  oc_quota :: quota
  oc_future :: "os_server future option"
  oc_server :: "os_server option"
  oc_fip :: "os_fip option"

type_synonym ('c, 'a) os_cre = "(os_create, 'c os_world, 'a) run_eff"

text \<open>The image, its config drive and its name: of the disk image that was uploaded, or of the cloud image.\<close>

definition image_of_label :: "os_config \<Rightarrow> os_label \<Rightarrow> string option \<Rightarrow> (os_image_arg \<times> json \<times> string) res" where
  "image_of_label cfg l external =
     (case external of
        Some (c # cs) \<Rightarrow>
          (case osl_diskimage l of
             None \<Rightarrow> Inl AttributeError
           | Some d \<Rightarrow> (case map_of (osc_diskimages cfg) d of
                          None \<Rightarrow> Inl KeyError | Some drive \<Rightarrow> Inr (Image_Name (c # cs), drive, d)))
      | _ \<Rightarrow>
          (case osl_cloud_image l of
             None \<Rightarrow> Inl AttributeError
           | Some i \<Rightarrow> Inr (case ci_image_id i of
                              Some (c # cs) \<Rightarrow> Image_Id (c # cs) | _ \<Rightarrow> Image_Name (ci_external_name i),
                            ci_config_drive i, ci_name i)))"

definition os_properties :: "os_config \<Rightarrow> os_label \<Rightarrow> node_request \<Rightarrow> (string \<times> string) list" where
  "os_properties cfg l r =
     foldl (\<lambda>ps (k, v). case osc_format cfg v (request_safe_attributes r) of
                Inl e \<Rightarrow> ps | Inr s \<Rightarrow> AList.update k s ps)
       (osl_properties l) (osl_dynamic l)"

definition os_metadata ::
  "os_config \<Rightarrow> os_label \<Rightarrow> string \<Rightarrow> node_request \<Rightarrow> (string \<times> string) list \<Rightarrow> (string \<times> string) list" where
  "os_metadata cfg l image_name r metadata =
     dict_update
       (dict_update [(''groups'', py_join '','' [osc_name cfg, image_name, osl_name l])] (os_properties cfg l r))
       metadata"

definition os_getCreateStateMachine ::
  "'c os_api \<Rightarrow> os_config \<Rightarrow> os_label \<Rightarrow> string \<Rightarrow> string option \<Rightarrow> (string \<times> string) list \<Rightarrow> node_request \<Rightarrow> json \<Rightarrow> rat \<Rightarrow>
     ('c, os_create state_machine) os_eff" where
  "os_getCreateStateMachine A cfg l hostname external metadata r az clk =
     eff_bind (eff_lift (image_of_label cfg l external)) (\<lambda>(img, drive, image_name).
     eff_bind (findFlavor A (osl_flavor_name l) (osl_min_ram l)) (\<lambda>f.
       eff_ret (sm_init clk \<lparr> oc_label = l, oc_hostname = hostname, oc_az = az, oc_image = img,
         oc_config_drive = drive, oc_meta = os_metadata cfg l image_name r metadata, oc_flavor = f,
         oc_quota = quota_from_flavor f (Some l) [], oc_future = None, oc_server = None, oc_fip = None \<rparr>)))"

text \<open>Whether the server that was left behind failed because of the quota; what raises is logged.\<close>

definition handleServerFault :: "'c os_api \<Rightarrow> string \<Rightarrow> ('c, bool) os_eff" where
  "handleServerFault A i =
     eff_try (eff_bind (on_os (oa_server_now A i)) (\<lambda>x.
                eff_ret (case x of
                  None \<Rightarrow> False
                | Some s \<Rightarrow> (case sv_fault s of Some (Some m) \<Rightarrow> occurs_in ''quota'' m | _ \<Rightarrow> False))))
       (\<lambda>e. eff_ret False)"

definition oc_start :: "('c, unit) os_cre" where
  "oc_start =
     eff_seq (set_ext (\<lambda>x. JNull))
     (eff_seq (upd_more (\<lambda>c. c\<lparr>oc_future := Some Running\<rparr>)) (goto SERVER_CREATING_SUBMIT))"

text \<open>The outer handler: messages that name a full quota.\<close>

definition quota_or :: "'c os_api \<Rightarrow> pyexc \<Rightarrow> pyexc" where
  "quota_or A e =
     (let s = lower (oa_str A e) in
      if occurs_in ''quota exceeded'' s \<or> occurs_in ''number of ports exceeded'' s then QuotaException else e)"

text \<open>
  A failed creation that left a server behind. One that left none is caught as well, and nothing is
  raised for it: the machine goes on in its state.
\<close>

definition oc_failed :: "'c os_api \<Rightarrow> pyexc \<Rightarrow> ('c, bool) os_cre" where
  "oc_failed A e =
     (case oa_failed_create A e of
        None \<Rightarrow> eff_raise (quota_or A e)
      | Some None \<Rightarrow> eff_ret True
      | Some (Some []) \<Rightarrow> eff_ret True
      | Some (Some i) \<Rightarrow>
          eff_seq (set_ext (\<lambda>x. JStr i))
          (eff_bind (on_world (handleServerFault A i)) (\<lambda>full.
             eff_raise (if full then QuotaException else quota_or A e))))"

definition oc_submit :: "'c os_api \<Rightarrow> ('c, bool) os_cre" where
  "oc_submit A =
     eff_bind (get_more oc_future) (\<lambda>f.
       case f of
         None \<Rightarrow> eff_raise AttributeError
       | Some Running \<Rightarrow> eff_ret False
       | Some (Done (Inl e)) \<Rightarrow> oc_failed A e
       | Some (Done (Inr s)) \<Rightarrow>
           go_on (eff_seq (upd_more (\<lambda>c. c\<lparr>oc_server := Some s\<rparr>))
             (eff_seq (set_ext (\<lambda>x. JStr (sv_id s))) (goto SERVER_CREATING))))"

definition error_of_server :: "os_server \<Rightarrow> pyexc" where
  "error_of_server s =
     (case sv_fault s of
        Some (Some m) \<Rightarrow> if occurs_in ''exceeds'' (lower m) \<and> occurs_in ''quota'' (lower m)
                          then QuotaException else LaunchStatusException
      | _ \<Rightarrow> LaunchStatusException)"

definition oc_active :: "'c os_api \<Rightarrow> os_label \<Rightarrow> os_server \<Rightarrow> ('c, unit) os_cre" where
  "oc_active A l s =
     eff_bind (if osp_auto_floating_ip (osl_pool l) then on_world (on_os (oa_needs_fip A s)) else eff_ret False) (\<lambda>needed.
       if needed
       then eff_bind (on_world (on_os (oa_create_fip A s))) (\<lambda>f.
            eff_seq (upd_more (\<lambda>c. c\<lparr>oc_fip := Some f\<rparr>)) (goto FLOATING_IP_CREATING))
       else goto OS_COMPLETE)"

definition oc_creating :: "'c os_api \<Rightarrow> ('c, bool) os_cre" where
  "oc_creating A =
     eff_bind (get_more id) (\<lambda>c. case oc_server c of None \<Rightarrow> eff_raise TypeError | Some s0 \<Rightarrow>
     eff_bind (on_world (refreshServer A s0)) (\<lambda>s.
     eff_seq (upd_more (\<lambda>c. c\<lparr>oc_server := Some s\<rparr>))
       (if sv_status s = ''ACTIVE'' then go_on (oc_active A (oc_label c) s)
        else if sv_status s = ''ERROR'' then eff_raise (error_of_server s)
        else eff_ret False)))"

definition oc_fip_creating :: "'c os_api \<Rightarrow> ('c, bool) os_cre" where
  "oc_fip_creating A =
     eff_bind (get_more id) (\<lambda>c. case (oc_fip c, oc_server c) of
       (Some f0, Some s) \<Rightarrow>
         eff_bind (on_world (refreshFloatingIp A f0)) (\<lambda>f.
         eff_seq (upd_more (\<lambda>c. c\<lparr>oc_fip := Some f\<rparr>))
           (if fp_port_id f \<noteq> None \<and> fp_port_id f \<noteq> Some []
            then (if fp_status f = ''ACTIVE'' then go_on (goto FLOATING_IP_ATTACHING) else eff_ret False)
            else go_on (eff_seq (on_world (on_os (oa_attach_fip A s f))) (goto FLOATING_IP_ATTACHING))))
     | _ \<Rightarrow> eff_raise TypeError)"

definition oc_fip_attaching :: "'c os_api \<Rightarrow> ('c, bool) os_cre" where
  "oc_fip_attaching A =
     eff_bind (get_more id) (\<lambda>c. case (oc_fip c, oc_server c) of
       (Some f, Some s0) \<Rightarrow>
         eff_bind (on_world (refreshServer A s0)) (\<lambda>s.
         eff_seq (upd_more (\<lambda>c. c\<lparr>oc_server := Some s\<rparr>))
           (if oa_server_ip A s = Some (fp_address f) then go_on (goto OS_COMPLETE) else eff_ret False))
     | _ \<Rightarrow> eff_raise TypeError)"

definition oc_result :: "os_config \<Rightarrow> ('c, cloud_instance) os_cre" where
  "oc_result cfg =
     eff_bind (get_more id) (\<lambda>c. case oc_server c of
       None \<Rightarrow> eff_raise TypeError | Some s \<Rightarrow> eff_ret (os_instance cfg s (oc_quota c)))"

definition os_create_advance :: "'c os_api \<Rightarrow> os_config \<Rightarrow> ('c, cloud_instance option) os_cre" where
  "os_create_advance A cfg =
     then_go (in_state SM_START (go_on oc_start))
     (then_go (in_state SERVER_CREATING_SUBMIT (oc_submit A))
     (then_go (in_state SERVER_CREATING (oc_creating A))
     (then_go (in_state FLOATING_IP_CREATING (oc_fip_creating A))
     (then_go (in_state FLOATING_IP_ATTACHING (oc_fip_attaching A))
       (in_complete OS_COMPLETE (oc_result cfg))))))"

definition run_server_create :: "'c os_api \<Rightarrow> ('c, unit) os_cre" where
  "run_server_create A =
     eff_bind (get_more id) (\<lambda>c.
       if oc_future c \<noteq> Some Running then eff_ret ()
       else eff_bind (eff_try (eff_bind (on_world (os_createServer A (oc_hostname c) (oc_image c) (oc_flavor c) (oc_label c)
                          (oc_az c) (oc_config_drive c) (oc_meta c))) (\<lambda>s. eff_ret (Inr s)))
                        (\<lambda>e. eff_ret (Inl e)))
              (\<lambda>x. upd_more (\<lambda>c. c\<lparr>oc_future := Some (Done x)\<rparr>)))"

subsection \<open>The adapter\<close>

definition os_list_one ::
  "'c os_api \<Rightarrow> os_config \<Rightarrow> os_volume list \<Rightarrow> os_server \<Rightarrow> cloud_instance list \<Rightarrow> ('c, cloud_instance list) os_eff" where
  "os_list_one A cfg volumes s acc =
     (if lower (sv_status s) = ''deleted'' then eff_ret acc
      else eff_bind (getFlavorFromServer A s) (\<lambda>f.
        eff_ret (acc @ [os_instance cfg s (quota_from_flavor f None
          (List.map_filter (\<lambda>i. find (\<lambda>v. vo_id v = i) (rev volumes)) (sv_volumes s)))])))"

definition listVolumes :: "'c os_api \<Rightarrow> ('c, os_volume list) os_eff" where
  "listVolumes A = eff_try (on_os (oa_volumes A)) (\<lambda>e. if oa_no_endpoint A e then eff_ret [] else eff_raise e)"

definition os_listInstances :: "'c os_api \<Rightarrow> os_config \<Rightarrow> ('c, cloud_instance list) os_eff" where
  "os_listInstances A cfg =
     eff_bind (listVolumes A) (\<lambda>volumes.
     eff_bind (on_os (oa_servers A)) (\<lambda>ss. eff_fold (os_list_one A cfg volumes) ss []))"

definition os_listResources :: "'c os_api \<Rightarrow> os_config \<Rightarrow> rat \<Rightarrow> rat \<Rightarrow> ('c, os_resource list) os_eff" where
  "os_listResources A cfg now later =
     eff_bind (on_os (oa_servers A)) (\<lambda>ss.
     eff_seq (if osc_port_cleanup_interval cfg \<noteq> 0 then cleanupLeakedPorts A cfg now later else eff_ret ())
     (eff_seq (if osc_clean_floating_ips cfg then on_os (oa_delete_unattached A) else eff_ret ())
       (eff_ret (map (\<lambda>s. \<lparr> re_metadata = sv_metadata s, re_type = ''instance'', or_id = sv_id s \<rparr>)
          (filter (\<lambda>s. lower (sv_status s) \<noteq> ''deleted'') ss)))))"

definition os_deleteResource :: "'c os_api \<Rightarrow> os_resource \<Rightarrow> ('c, unit) os_eff" where
  "os_deleteResource A r = eff_when (re_type r = ''instance'') (os_deleteServer A (or_id r))"

definition os_getQuotaLimits :: "'c os_api \<Rightarrow> ('c, quota) os_eff" where
  "os_getQuotaLimits A =
     eff_bind (on_os (oa_compute_limits A)) (\<lambda>c.
     eff_bind (eff_try (eff_bind (on_os (oa_volume_limits A)) (\<lambda>v. eff_ret (Some v)))
                 (\<lambda>e. if oa_no_endpoint A e then eff_ret None else eff_raise e)) (\<lambda>v.
       eff_ret (quota_from_limits c v)))"

definition os_getQuotaForLabel :: "'c os_api \<Rightarrow> os_label \<Rightarrow> ('c, quota) os_eff" where
  "os_getQuotaForLabel A l =
     eff_bind (findFlavor A (osl_flavor_name l) (osl_min_ram l)) (\<lambda>f. eff_ret (quota_from_flavor f (Some l) []))"

definition IMAGE_CHECK_TIMEOUT :: rat where "IMAGE_CHECK_TIMEOUT = 300"

text \<open>A missing image is looked for again only when the last clearing is five minutes ago.\<close>

definition os_labelReady :: "'c os_api \<Rightarrow> os_label \<Rightarrow> rat \<Rightarrow> ('c, bool) os_eff" where
  "os_labelReady A l now =
     (case osl_cloud_image l of
        None \<Rightarrow> eff_ret False
      | Some i \<Rightarrow>
          if ci_image_id i \<noteq> None \<and> ci_image_id i \<noteq> Some [] then eff_ret True
          else eff_bind (os_findImage A (ci_external_name i)) (\<lambda>found.
            if found \<noteq> None then eff_ret True
            else eff_bind (eff_get (\<lambda>w. now - ow_image_failure w > IMAGE_CHECK_TIMEOUT)) (\<lambda>due.
              eff_seq (if due then eff_mod (\<lambda>w. w\<lparr>ow_images := [], ow_image_failure := now\<rparr>) else eff_ret ())
                (eff_ret False))))"

definition os_uploadImage ::
  "'c os_api \<Rightarrow> os_config \<Rightarrow> string \<Rightarrow> string \<Rightarrow> string \<Rightarrow> (string \<times> string) list \<Rightarrow> json \<Rightarrow> json \<Rightarrow> ('c, string) os_eff" where
  "os_uploadImage A cfg name filename fmt metadata md5 sha256 =
     on_os (oa_create_image A
       ([(''name'', JStr name), (''filename'', JStr filename), (''is_public'', JBool False), (''wait'', JBool True),
         (''md5'', md5), (''sha256'', sha256), (''timeout'', JNum (osc_image_upload_timeout cfg))] @
        map (\<lambda>(k, v). (k, JStr v)) (if fmt = [] then metadata else AList.update ''disk_format'' fmt metadata)))"

definition os_deleteImage :: "'c os_api \<Rightarrow> json \<Rightarrow> ('c, unit) os_eff" where
  "os_deleteImage A i = on_os (oa_delete_image A i)"

definition os_getConsoleLog :: "'c os_api \<Rightarrow> os_label \<Rightarrow> string \<Rightarrow> ('c, json) os_eff" where
  "os_getConsoleLog A l i =
     (if \<not> osl_console_log l then eff_ret JNull
      else eff_try (on_os (oa_console A i)) (\<lambda>e. if oa_cloud_error A e then eff_ret JNull else eff_raise e))"

end
