(* ===== verification/OpenStackProps.thy ===== *)
theory OpenStackProps
  imports OpenStackMachines
begin

section \<open>Lemmas about the OpenStack driver\<close>

text \<open>
  Both machines only move forward; a server that was created is named by the external id; a server is
  not deleted before its floating addresses are gone; the flavor that is chosen by RAM is the smallest
  that fits; ports are only deleted when they were down twice; and what a listing returns.
\<close>

subsection \<open>The machines move forward\<close>

lemmas os_states = FLOATING_IP_DELETING_def SERVER_DELETE_SUBMIT_def SERVER_DELETE_def SERVER_DELETING_def
  OS_COMPLETE_def SERVER_CREATING_SUBMIT_def SERVER_CREATING_def FLOATING_IP_CREATING_def
  FLOATING_IP_ATTACHING_def SM_START_def

definition os_del_order :: "string list" where
  "os_del_order = [SM_START, FLOATING_IP_DELETING, SERVER_DELETE_SUBMIT, SERVER_DELETE, SERVER_DELETING, OS_COMPLETE]"

definition os_del_rank :: "string \<Rightarrow> nat" where
  "os_del_rank = place_in os_del_order"

definition os_cre_order :: "string list" where
  "os_cre_order = [SM_START, SERVER_CREATING_SUBMIT, SERVER_CREATING, FLOATING_IP_CREATING,
     FLOATING_IP_ATTACHING, OS_COMPLETE]"

definition os_cre_rank :: "string \<Rightarrow> nat" where
  "os_cre_rank = place_in os_cre_order"

lemma os_ranks [simp]:
  "os_del_rank SM_START = 1" "os_del_rank FLOATING_IP_DELETING = 2" "os_del_rank SERVER_DELETE_SUBMIT = 3"
  "os_del_rank SERVER_DELETE = 4" "os_del_rank SERVER_DELETING = 5" "os_del_rank OS_COMPLETE = 6"
  "os_cre_rank SM_START = 1" "os_cre_rank SERVER_CREATING_SUBMIT = 2" "os_cre_rank SERVER_CREATING = 3"
  "os_cre_rank FLOATING_IP_CREATING = 4" "os_cre_rank FLOATING_IP_ATTACHING = 5" "os_cre_rank OS_COMPLETE = 6"
  by (simp_all add: os_del_rank_def os_cre_rank_def os_del_order_def os_cre_order_def place_in_def os_states)

lemma keeps_od_start_rest:
  assumes "k \<le> 1"
  shows "keeps_inv (at_least os_del_rank k) (od_start A)"
  using assms unfolding od_start_def od_release_fips_def
  by (intro keeps) (auto intro!: keeps keeps_goto split: option.split)

interpretation os_del: forward_machine "\<lambda>A :: 'c os_api. os_delete_advance A" os_del_rank os_del_order
proof
  show "keeps_inv (at_least os_del_rank k) (os_delete_advance A)" for k and A :: "'c os_api"
    unfolding os_delete_advance_def od_submit_def od_submitted_def od_fip_wait_def od_wait_def
    by (intro keeps keeps_in_state keeps_in_complete keeps_goto keeps_od_start_rest)
      (auto intro!: keeps keeps_goto keeps_od_start_rest split: option.split future.split sum.split)
  show "os_del_rank = place_in os_del_order" by (simp add: os_del_rank_def)
qed

interpretation os_cre: forward_machine "\<lambda>(A :: 'c os_api, cfg). os_create_advance A cfg" os_cre_rank os_cre_order
proof
  have failed: "keeps_inv (at_least os_cre_rank k) (oc_failed A e)" for k e and A :: "'c os_api"
    unfolding oc_failed_def by (auto intro!: keeps split: option.split list.split)
  have "keeps_inv (at_least os_cre_rank k) (os_create_advance A cfg)" for k cfg and A :: "'c os_api"
    unfolding os_create_advance_def oc_start_def oc_submit_def oc_creating_def oc_active_def oc_fip_creating_def
      oc_fip_attaching_def oc_result_def
    by (intro keeps keeps_in_state keeps_in_complete keeps_goto failed)
      (auto intro!: keeps keeps_goto failed split: option.split future.split sum.split prod.split)
  then show "keeps_inv (at_least os_cre_rank k) (case e of (A :: 'c os_api, cfg) \<Rightarrow> os_create_advance A cfg)" for k e
    by (cases e) simp
  show "os_cre_rank = place_in os_cre_order" by (simp add: os_cre_rank_def)
qed

subsection \<open>Choosing a flavor\<close>

text \<open>The listing in the cache is sorted: nothing that fits has less RAM than what is found.\<close>

definition flavors_sorted :: "'c os_world \<Rightarrow> bool" where
  "flavors_sorted w \<longleftrightarrow> (\<forall>fs. ow_flavors w = Some fs \<longrightarrow> sorted (map (\<lambda>f. (fl_ram f, fl_name f)) fs))"

lemma listFlavors_sorted:
  assumes "flavors_sorted w" and "listFlavors A w = (Inr fs, w')"
  shows "sorted (map (\<lambda>f. (fl_ram f, fl_name f)) fs)" and "ow_flavors w' = Some fs"
  using assms
  by (auto simp: listFlavors_def flavors_sorted_def sort_flavors_def run_ops split: option.splits prod.splits sum.splits)

lemma find_first_sorted:
  assumes "sorted (map g xs)" and "find P xs = Some x" and "y \<in> set xs" and "P y"
  shows "g x \<le> g y"
proof -
  from assms(2) obtain i where i: "i < length xs" "P (xs ! i)" "x = xs ! i" "\<And>j. j < i \<Longrightarrow> \<not> P (xs ! j)"
    by (auto simp: find_Some_iff)
  from assms(3) obtain j where j: "j < length xs" "y = xs ! j" by (auto simp: in_set_conv_nth)
  with assms(4) i(4) have "i \<le> j" using not_le_imp_less by blast
  with assms(1) i(1,3) j show ?thesis by (auto simp: sorted_iff_nth_mono)
qed

lemma smallest_flavor:
  assumes "flavors_sorted w" and "findFlavorByRam A r name w = (Inr f, w')"
  shows "\<exists>fs. ow_flavors w' = Some fs \<and> f \<in> set fs \<and> ram_fits r name f \<and>
    (\<forall>g \<in> set fs. ram_fits r name g \<longrightarrow> fl_ram f \<le> fl_ram g)"
proof -
  from assms(2) obtain fs where l: "listFlavors A w = (Inr fs, w')" and f: "find (ram_fits r name) fs = Some f"
    by (auto simp: findFlavorByRam_def eff_bind_Inr eff_ret_def eff_raise_def split: option.splits)
  note sorted = listFlavors_sorted [OF assms(1) l]
  have "fl_ram f \<le> fl_ram g" if "g \<in> set fs" "ram_fits r name g" for g
    using find_first_sorted [OF sorted(1) f that] by (auto simp: less_eq_prod_def)
  with sorted(2) f show ?thesis by (auto simp: find_Some_iff)
qed

subsection \<open>Ports\<close>

lemma keeps_ignored_ports:
  fixes w :: "'c os_world"
  assumes "\<And>p c. p \<in> set ps \<Longrightarrow> I c \<Longrightarrow> I (snd (oa_delete_port A p c))" and "I (ow_cloud w)"
  shows "I (ow_cloud (snd (eff_each (\<lambda>p. eff_ignore (on_os (oa_delete_port A p))) ps w)))"
  using assms
proof (induction ps arbitrary: w)
  case (Cons p ps)
  obtain r c where o: "oa_delete_port A p (ow_cloud w) = (r, c)" by fastforce
  with Cons.prems(1) [of p "ow_cloud w"] Cons.prems(2) have c: "I (ow_cloud (w\<lparr>ow_cloud := c\<rparr>))" by simp
  have "eff_ignore (on_os (oa_delete_port A p)) w = (Inr (), w\<lparr>ow_cloud := c\<rparr>)"
    using o by (simp add: eff_ignore_run on_os_def eff_zoom_def)
  then show ?case using Cons.IH [OF _ c] Cons.prems(1) by (simp add: eff_seq_def eff_bind_def)
qed (simp add: eff_ret_def)

lemma down_compute_ports_cases:
  assumes "oa_down_ports A (ow_cloud w) = (r, c)"
  shows "down_compute_ports A w =
    (map_sum id (\<lambda>ps. remdups (map pt_id (filterComputePorts ps))) r, w\<lparr>ow_cloud := c\<rparr>)"
  using assms by (cases r) (simp_all add: down_compute_ports_def on_os_def run_ops)

text \<open>The part of a due cleanup after the deletions.\<close>

lemma keeps_recorded_ports:
  assumes "\<And>c. I c \<Longrightarrow> I (snd (oa_down_ports A c))" and "I (ow_cloud w)"
  shows "I (ow_cloud (snd (eff_bind (down_compute_ports A) (\<lambda>ps. eff_mod (\<lambda>w. w\<lparr>ow_down_ports := Some ps\<rparr>)) w)))"
proof -
  obtain r c where o: "oa_down_ports A (ow_cloud w) = (r, c)" by fastforce
  with assms(1) [OF assms(2)] have "I c" by simp
  then show ?thesis by (cases r) (simp_all add: down_compute_ports_cases [OF o] eff_bind_def eff_mod_def)
qed

lemma ports_down_twice:
  fixes w :: "'c os_world"
  assumes before: "ow_down_ports w = Some before" and listed: "oa_down_ports A (ow_cloud w) = (Inr ports, c1)"
    and lists: "\<And>c. I c \<Longrightarrow> I (snd (oa_down_ports A c))"
    and deletes: "\<And>p c. p \<in> set before \<Longrightarrow> p \<in> pt_id ` set ports \<Longrightarrow> I c \<Longrightarrow> I (snd (oa_delete_port A p c))"
    and "I (ow_cloud w)"
  shows "I (ow_cloud (snd (cleanupLeakedPorts A cfg now later w)))"
proof (cases "ow_port_cleanup w = None \<or> ow_port_cleanup w = Some 0")
  case True
  have "I (ow_cloud (w\<lparr>ow_port_cleanup := Some now\<rparr>))" using assms(5) by simp
  from keeps_recorded_ports [OF lists this] True show ?thesis
    by (simp add: cleanupLeakedPorts_def eff_bind_def eff_get_def eff_seq_def eff_mod_def)
next
  case False
  show ?thesis
  proof (cases "trunc (now - the (ow_port_cleanup w)) \<le> osc_port_cleanup_interval cfg")
    case True
    with False assms(5) show ?thesis by (auto simp: cleanupLeakedPorts_def eff_bind_def eff_get_def eff_ret_def)
  next
    case late: False
    let ?current = "remdups (map pt_id (filterComputePorts ports))"
    let ?ps = "filter (\<lambda>p. p \<in> set before) ?current"
    let ?w1 = "w\<lparr>ow_cloud := c1\<rparr>"
    let ?w2 = "snd (eff_each (\<lambda>p. eff_ignore (on_os (oa_delete_port A p))) ?ps ?w1)"
    from lists [OF assms(5)] listed have w1: "I (ow_cloud ?w1)" by simp
    have gone: "I (snd (oa_delete_port A p c))" if "p \<in> set ?ps" "I c" for p c
      using deletes [of p c] that by (auto simp: filterComputePorts_def)
    have w2: "I (ow_cloud ?w2)" by (rule keeps_ignored_ports [where I = I, OF gone w1])
    have "eff_each (\<lambda>p. eff_ignore (on_os (oa_delete_port A p))) ?ps ?w1 = (Inr (), ?w2)"
      by (simp only: eff_each_ignore snd_conv)
    with w2 obtain w2 where all: "eff_each (\<lambda>p. eff_ignore (on_os (oa_delete_port A p))) ?ps ?w1 = (Inr (), w2)"
      and w2: "I (ow_cloud w2)" by blast
    have "I (ow_cloud (w2\<lparr>ow_port_cleanup := Some later\<rparr>))" using w2 by simp
    note rest = keeps_recorded_ports [OF lists this]
    from False obtain t where t: "ow_port_cleanup w = Some t" "t \<noteq> 0" by auto
    with late have "\<not> trunc (now - t) \<le> osc_port_cleanup_interval cfg" by simp
    with t before all rest show ?thesis
      by (simp add: cleanupLeakedPorts_def down_compute_ports_cases [OF listed] eff_bind_def eff_get_def eff_read_def
          eff_seq_def eff_mod_def)
  qed
qed

text \<open>When the very first listing raises, the ports that were down are never recorded.\<close>

definition ports_stuck :: "'c os_world \<Rightarrow> bool" where
  "ports_stuck w \<longleftrightarrow> ow_down_ports w = None \<and> (\<exists>t. ow_port_cleanup w = Some t \<and> t \<noteq> 0)"

lemma first_listing_fails:
  assumes "oa_down_ports A c = (Inl e, c1)" and "now \<noteq> 0"
  shows "\<exists>w. cleanupLeakedPorts A cfg now later (os_init c t) = (Inl e, w) \<and> ports_stuck w"
  using assms
  by (simp add: cleanupLeakedPorts_def os_init_def ports_stuck_def down_compute_ports_def on_os_def run_ops)

lemma ports_stay_stuck:
  assumes "ports_stuck w"
  shows "ports_stuck (snd (cleanupLeakedPorts A cfg now later w))"
proof -
  obtain r c where o: "oa_down_ports A (ow_cloud w) = (r, c)" by fastforce
  with assms show ?thesis
    by (cases r) (auto simp: cleanupLeakedPorts_def ports_stuck_def down_compute_ports_cases [OF o] eff_bind_def
        eff_get_def eff_read_def eff_ret_def)
qed

lemma stuck_raises:
  assumes "ports_stuck w" and "\<not> trunc (now - the (ow_port_cleanup w)) \<le> osc_port_cleanup_interval cfg"
    and "oa_down_ports A (ow_cloud w) = (Inr ports, c)"
  shows "fst (cleanupLeakedPorts A cfg now later w) = Inl AttributeError"
  using assms
  by (auto simp: cleanupLeakedPorts_def ports_stuck_def down_compute_ports_cases [OF assms(3)] eff_bind_def
      eff_get_def eff_read_def)

subsection \<open>Failed creations\<close>

text \<open>A creation that left no server is never reported: each call returns without an exception, in the same state.\<close>

lemma failed_create_silent:
  assumes "sm_state (ru_machine r) = SERVER_CREATING_SUBMIT" and "oc_future (sm_more (ru_machine r)) = Some (Done (Inl e))"
    and "oa_failed_create A e = Some None"
  shows "os_create_advance A cfg r = (Inr None, r)"
  using assms
  by (simp add: os_create_advance_def then_go_def in_state_def in_complete_def oc_submit_def oc_failed_def run_ops os_states)

subsection \<open>Floating addresses go first\<close>

lemma fip_alive_waits:
  assumes "sm_state m = FLOATING_IP_DELETING" and "od_fips (sm_more m) = Some [Some f]"
    and "oa_fips A (ow_cloud w) = (Inr fs, c)" and "find (\<lambda>g. fp_id g = fp_id f) fs = Some g" and "fp_status g \<noteq> ''DOWN''"
  shows "os_delete_advance A \<lparr> ru_machine = m, ru_world = w \<rparr> =
    (Inr None, \<lparr> ru_machine = m\<lparr>sm_more := (sm_more m)\<lparr>od_fips := Some [Some g]\<rparr>\<rparr>, ru_world = w\<lparr>ow_cloud := c\<rparr> \<rparr>)"
  using assms
  by (simp add: os_delete_advance_def then_go_def in_state_def od_fip_wait_def still_there_def
      refreshFloatingIpDelete_def on_os_def run_ops os_states)

subsection \<open>Pages\<close>

text \<open>A listing in pages: each is asked for as the one before says, none leads to its own marker, the last has no next.\<close>

fun paged :: "'c os_api \<Rightarrow> 'c \<Rightarrow> string option \<Rightarrow> os_params \<Rightarrow> os_page list \<Rightarrow> bool" where
  "paged A c uri ps [] \<longleftrightarrow> uri = None"
| "paged A c uri ps (p # rest) \<longleftrightarrow>
     (case uri of
        None \<Rightarrow> False
      | Some u \<Rightarrow> u \<noteq> [] \<and> oa_page A u ps c = (Inr p, c) \<and> pg_servers p \<noteq> [] \<and>
          (case getNextLink A p of (next, nps) \<Rightarrow>
             (map_of nps ''marker'' = None \<or> map_of nps ''marker'' \<noteq> map_of ps ''marker'') \<and>
             paged A c next (dict_update (filter (\<lambda>(k, v). k \<noteq> ''marker'' \<and> k \<noteq> ''limit'') ps) nps) rest))"

lemma server_pages_all:
  assumes "paged A (ow_cloud w) uri ps pages" and "length pages < fuel"
  shows "server_pages A fuel uri ps found w = (Inr (Some (found @ concat (map pg_servers pages))), w)"
  using assms
proof (induction pages arbitrary: uri ps found fuel)
  case Nil
  then obtain n where "fuel = Suc n" by (cases fuel) auto
  with Nil show ?case by (simp add: eff_ret_def)
next
  case (Cons p rest)
  then obtain n where n: "fuel = Suc n" "length rest < n" by (cases fuel) auto
  from Cons.prems(1) obtain u where u: "uri = Some u" "u \<noteq> []" "oa_page A u ps (ow_cloud w) = (Inr p, ow_cloud w)"
    "pg_servers p \<noteq> []" by (auto split: option.splits)
  obtain nxt nps where l: "getNextLink A p = (nxt, nps)" by fastforce
  from Cons.prems(1) u(1) l have rest: "paged A (ow_cloud w) nxt (dict_update (filter (\<lambda>(k, v). k \<noteq> ''marker'' \<and> k \<noteq> ''limit'') ps) nps) rest"
    and m: "\<not> (map_of nps ''marker'' \<noteq> None \<and> map_of nps ''marker'' = map_of ps ''marker'')" by auto
  from Cons.IH [OF rest n(2), of "found @ pg_servers p"] u m l n(1) show ?case
    by (auto simp: eff_bind_def on_os_def eff_zoom_def Let_def)
qed

text \<open>Two pages that lead to each other are not noticed: the listing never ends.\<close>

lemma pages_in_a_circle:
  assumes "u \<noteq> []" and "a \<noteq> b"
    and "oa_page A u [(''marker'', a)] (ow_cloud w) = (Inr p, ow_cloud w)" and "pg_servers p \<noteq> []"
    and "getNextLink A p = (Some u, [(''marker'', b)])"
    and "oa_page A u [(''marker'', b)] (ow_cloud w) = (Inr q, ow_cloud w)" and "pg_servers q \<noteq> []"
    and "getNextLink A q = (Some u, [(''marker'', a)])"
  shows "server_pages A fuel (Some u) [(''marker'', a)] found w = (Inr None, w) \<and>
    server_pages A fuel (Some u) [(''marker'', b)] found w = (Inr None, w)"
proof (induction fuel arbitrary: found)
  case (Suc fuel)
  then show ?case using assms by (simp add: eff_bind_def on_os_def eff_zoom_def dict_update_def)
qed (simp add: eff_ret_def)

section \<open>Properties of the OpenStack driver\<close>

text \<open>
  What the listing, the flavors, the ports and the machines of the OpenStack driver guarantee, and
  where they fail, with witnesses on a small cloud.
\<close>

subsection \<open>A cloud for the witnesses\<close>

definition os_api_one :: "os_server list os_api" where
  "os_api_one = \<lparr> oa_servers = (\<lambda>c. (Inr c, c)),
     oa_page = (\<lambda>u ps c. (case c of [] \<Rightarrow> (Inr \<lparr> pg_servers = [], pg_links = [], pg_header = None \<rparr>, c)
       | s # ss \<Rightarrow> (if ps = [] then (Inr \<lparr> pg_servers = [s], pg_links = [(Some ''next'', Some ''/v2/x/servers/detail?marker=s'')],
                                         pg_header = None \<rparr>, c)
                     else (Inr \<lparr> pg_servers = ss, pg_links = [], pg_header = None \<rparr>, c)))),
     oa_link = (\<lambda>h. (''/servers/detail'', [(''marker'', [''s''])])),
     oa_volumes = (\<lambda>c. (Inr [], c)), oa_fips = (\<lambda>c. (Inr [], c)), oa_expand = (\<lambda>s c. (Inr s, c)),
     oa_server_now = (\<lambda>i c. (Inr None, c)),
     oa_flavors = (\<lambda>c. (Inr [\<lparr> fl_id = ''3'', fl_name = ''large'', fl_vcpus = 8, fl_ram = 16384 \<rparr>,
        \<lparr> fl_id = ''1'', fl_name = ''tiny'', fl_vcpus = 1, fl_ram = 512 \<rparr>,
        \<lparr> fl_id = ''2'', fl_name = ''medium'', fl_vcpus = 4, fl_ram = 8192 \<rparr>], c)),
     oa_image = (\<lambda>n c. (Inr None, c)), oa_network = (\<lambda>n c. (Inr None, c)), oa_azs = (\<lambda>c. (Inr [], c)),
     oa_compute_limits = (\<lambda>c. (Inr \<lparr> om_instances = -1, om_cores = 10, om_ram = 10 \<rparr>, c)),
     oa_volume_limits = (\<lambda>c. (Inr (1, 1), c)),
     oa_create_image = (\<lambda>a c. (Inr ''i'', c)), oa_delete_image = (\<lambda>i c. (Inr (), c)),
     oa_create_server = (\<lambda>a c. (Inl (OtherError ''No valid host was found''), c)),
     oa_delete_server = (\<lambda>i c. (Inr (), filter (\<lambda>s. sv_id s \<noteq> i) c)),
     oa_needs_fip = (\<lambda>s c. (Inr False, c)), oa_create_fip = (\<lambda>s c. (Inl GenericException, c)),
     oa_attach_fip = (\<lambda>s f c. (Inr (), c)), oa_has_fips = False, oa_server_fips = (\<lambda>a. []),
     oa_find_fip = (\<lambda>a c. (Inr None, c)), oa_delete_fip = (\<lambda>i c. (Inr (), c)), oa_server_ip = (\<lambda>s. None),
     oa_down_ports = (\<lambda>c. (Inr [\<lparr> pt_id = ''p1'', pt_owner = Some ''compute:nova'' \<rparr>, \<lparr> pt_id = ''p2'', pt_owner = None \<rparr>], c)),
     oa_delete_port = (\<lambda>p c. (Inr (), if p = ''p1'' then c else [])), oa_delete_unattached = (\<lambda>c. (Inr (), c)),
     oa_console = (\<lambda>i c. (Inr JNull, c)), oa_cloud_error = (\<lambda>e. False),
     oa_failed_create = (\<lambda>e. if e = OtherError ''No valid host was found'' then Some None else None),
     oa_bad_request = (\<lambda>e. False), oa_no_endpoint = (\<lambda>e. False), oa_str = (\<lambda>e. []) \<rparr>"

definition server_one :: os_server where
  "server_one = \<lparr> sv_id = ''s'', sv_status = ''ACTIVE'', sv_metadata = [], sv_private_v4 = None, sv_public_v4 = None,
     sv_public_v6 = None, sv_interface_ip = None, sv_host_id = [], sv_az = None, sv_addresses = JNull, sv_fault = None,
     sv_flavor = Flavor_Id ''1'', sv_volumes = [] \<rparr>"

definition os_w_one :: "os_server list os_world" where
  "os_w_one = os_init [server_one, server_one\<lparr>sv_id := ''t''\<rparr>] 0"

definition os_config_one :: os_config where
  "os_config_one = \<lparr> osc_name = ''os'', osc_cloud = ''os'', osc_region = None, osc_diskimages = [],
     osc_port_cleanup_interval = 600, osc_clean_floating_ips = False, osc_image_upload_timeout = 3600,
     osc_format = (\<lambda>f d. Inr f) \<rparr>"

subsection \<open>Flavors\<close>

text \<open>
  The flavor chosen for a label by its minimal RAM is one the cloud has, it has that RAM and the
  name that is asked for is part of its own, and no other flavor for which this holds has less RAM.
\<close>
theorem os_smallest_flavor:
  assumes "flavors_sorted w" and "findFlavorByRam A r name w = (Inr f, w')"
  shows "\<exists>fs. ow_flavors w' = Some fs \<and> f \<in> set fs \<and> ram_fits r name f \<and>
    (\<forall>g \<in> set fs. ram_fits r name g \<longrightarrow> fl_ram f \<le> fl_ram g)"
  using assms by (rule smallest_flavor)

lemma flavor_one:
  "\<exists>w. findFlavorByRam os_api_one 4096 None os_w_one =
     (Inr \<lparr> fl_id = ''2'', fl_name = ''medium'', fl_vcpus = 4, fl_ram = 8192 \<rparr>, w)"
  by (simp add: findFlavorByRam_def listFlavors_def os_w_one_def os_init_def os_api_one_def on_os_def run_ops
      sort_flavors_def sort_key_simps ram_fits_def less_eq_prod_def)

theorem os_smallest_flavor_witness:
  "\<exists>(w :: os_server list os_world) fs. ow_flavors w = Some fs \<and> \<lparr> fl_id = ''2'', fl_name = ''medium'', fl_vcpus = 4, fl_ram = 8192 \<rparr> \<in> set fs \<and>
    (\<forall>g \<in> set fs. ram_fits 4096 None g \<longrightarrow> 8192 \<le> fl_ram g)"
proof -
  obtain w where "findFlavorByRam os_api_one 4096 None os_w_one =
     (Inr \<lparr> fl_id = ''2'', fl_name = ''medium'', fl_vcpus = 4, fl_ram = 8192 \<rparr>, w)" using flavor_one by blast
  from os_smallest_flavor [OF _ this] show ?thesis
    by (auto simp: flavors_sorted_def os_w_one_def os_init_def)
qed

subsection \<open>Ports\<close>

text \<open>
  C37: The cleanup of ports deletes a port only if it was down at the last cleanup and is down now:
  whatever the deletions of those ports leave as it is, the cleanup leaves as it is.
\<close>
theorem os_ports_down_twice:
  assumes "ow_down_ports w = Some before" and "oa_down_ports A (ow_cloud w) = (Inr ports, c)"
    and "\<And>c. I c \<Longrightarrow> I (snd (oa_down_ports A c))"
    and "\<And>p c. p \<in> set before \<Longrightarrow> p \<in> pt_id ` set ports \<Longrightarrow> I c \<Longrightarrow> I (snd (oa_delete_port A p c))"
    and "I (ow_cloud w)"
  shows "I (ow_cloud (snd (cleanupLeakedPorts A cfg now later w)))"
  using assms by (rule ports_down_twice)

theorem os_ports_down_twice_witness:
  "ow_cloud (snd (cleanupLeakedPorts os_api_one os_config_one 2000 2001
     (os_w_one\<lparr>ow_port_cleanup := Some 1, ow_down_ports := Some [''p1'', ''p3'']\<rparr>))) =
   ow_cloud os_w_one"
  by (rule os_ports_down_twice [where I = "\<lambda>c. c = ow_cloud os_w_one" and before = "[''p1'', ''p3'']"
        and ports = "[\<lparr> pt_id = ''p1'', pt_owner = Some ''compute:nova'' \<rparr>, \<lparr> pt_id = ''p2'', pt_owner = None \<rparr>]"])
    (auto simp: os_api_one_def)

text \<open>
  When the very first listing of ports raises, every later cleanup that is due, and with it
  the cleanup of all leaked resources of the provider, raises an \<open>AttributeError\<close>, whatever the cloud answers.
\<close>
theorem os_ports_stuck:
  assumes "oa_down_ports A c = (Inl e, c1)" and "now \<noteq> 0"
    and "w = fold (\<lambda>(B, t, u) w. snd (cleanupLeakedPorts B cfg t u w)) es
               (snd (cleanupLeakedPorts A cfg now later (os_init c t0)))"
    and "oa_down_ports B (ow_cloud w) = (Inr ports, c2)"
    and "osc_port_cleanup_interval cfg < trunc (t1 - the (ow_port_cleanup w))"
  shows "fst (cleanupLeakedPorts B cfg t1 t2 w) = Inl AttributeError"
proof -
  from first_listing_fails [OF assms(1,2), of cfg later t0]
  have "ports_stuck (snd (cleanupLeakedPorts A cfg now later (os_init c t0)))" by auto
  then have "ports_stuck (fold (\<lambda>(B, t, u) w. snd (cleanupLeakedPorts B cfg t u w)) es
      (snd (cleanupLeakedPorts A cfg now later (os_init c t0))))"
    by (induction es arbitrary: A c later t0 rule: rev_induct) (auto intro: ports_stay_stuck split: prod.split)
  with assms(3-5) show ?thesis by (intro stuck_raises) simp_all
qed

theorem os_ports_stuck_witness:
  "fst (cleanupLeakedPorts os_api_one os_config_one 5000 5001
     (snd (cleanupLeakedPorts (os_api_one\<lparr>oa_down_ports := \<lambda>c. (Inl GenericException, c)\<rparr>) os_config_one 1 2 (os_init [] 0)))) =
   Inl AttributeError"
  by (rule os_ports_stuck [where es = "[]" and A = "os_api_one\<lparr>oa_down_ports := \<lambda>c. (Inl GenericException, c)\<rparr>"])
    (auto simp: os_api_one_def os_config_one_def cleanupLeakedPorts_def os_init_def down_compute_ports_def on_os_def
      run_ops trunc_def)

subsection \<open>Failed creations\<close>

text \<open>
  A creation that failed without leaving a server behind is never reported: each call
  returns without an exception and leaves the machine in its state, so that the launch only ends with its timeout.
\<close>
theorem os_failed_create_silent:
  assumes "sm_state (ru_machine r) = SERVER_CREATING_SUBMIT"
    and "oc_future (sm_more (ru_machine r)) = Some (Done (Inl e))" and "oa_failed_create A e = Some None"
  shows "((\<lambda>s. snd (os_create_advance A cfg s)) ^^ n) r = r \<and> fst (os_create_advance A cfg r) = Inr None"
proof -
  have one: "os_create_advance A cfg r = (Inr None, r)" using assms by (rule failed_create_silent)
  then have "((\<lambda>s. snd (os_create_advance A cfg s)) ^^ n) r = r" by (induction n) simp_all
  with one show ?thesis by simp
qed

definition creating_one :: "(os_create, os_server list os_world) run" where
  "creating_one = \<lparr> ru_machine = (sm_init 0 \<lparr> oc_label = \<lparr> osl_name = ''l'', osl_pool = \<lparr> osp_auto_floating_ip = False,
       osp_security_groups = [] \<rparr>, osl_diskimage = None, osl_cloud_image = None, osl_flavor_name = None, osl_min_ram = None,
       osl_key_name = None, osl_networks = [], osl_boot_from_volume = False, osl_volume_size = 50, osl_userdata = None,
       osl_properties = [], osl_dynamic = [], osl_console_log = False \<rparr>, oc_hostname = ''np1'', oc_az = JNull,
     oc_image = Image_Id ''i'', oc_config_drive = JBool True, oc_meta = [],
     oc_flavor = \<lparr> fl_id = ''1'', fl_name = ''tiny'', fl_vcpus = 1, fl_ram = 512 \<rparr>, oc_quota = no_quota,
     oc_future = Some Running, oc_server = None, oc_fip = None \<rparr>)\<lparr> sm_state := SERVER_CREATING_SUBMIT \<rparr>,
     ru_world = os_w_one \<rparr>"

theorem os_failed_create_silent_witness:
  "fst (os_create_advance os_api_one os_config_one (snd (run_server_create os_api_one creating_one))) = Inr None"
proof -
  let ?r = "snd (run_server_create os_api_one creating_one)"
  have "sm_state (ru_machine ?r) = SERVER_CREATING_SUBMIT \<and>
    oc_future (sm_more (ru_machine ?r)) = Some (Done (Inl (OtherError ''No valid host was found'')))"
    by (simp add: run_server_create_def creating_one_def os_createServer_def os_api_one_def on_os_def run_ops eff_try_def
        sm_init_def)
  with os_failed_create_silent [of ?r "OtherError ''No valid host was found''" os_api_one, where cfg = os_config_one and n = 0] show ?thesis
    by (simp add: os_api_one_def)
qed

subsection \<open>Listing\<close>

text \<open>
  The listing of servers returns the servers of all pages, in order, when every page leads to the next one
  and none to its own marker.
\<close>
theorem os_pages_complete:
  assumes "paged A (ow_cloud w) (Some ''/servers/detail'') [] pages" and "length pages < fuel"
  shows "simpleServerList A fuel w = (Inr (Some (concat (map pg_servers pages))), w)"
  using server_pages_all [OF assms, of "[]"] by (simp add: simpleServerList_def)

theorem os_pages_complete_witness:
  "simpleServerList os_api_one 3 os_w_one = (Inr (Some (ow_cloud os_w_one)), os_w_one)"
proof -
  let ?p = "\<lparr> pg_servers = [server_one], pg_links = [(Some ''next'', Some ''/v2/x/servers/detail?marker=s'')], pg_header = None \<rparr>"
  let ?q = "\<lparr> pg_servers = [server_one\<lparr>sv_id := ''t''\<rparr>], pg_links = [], pg_header = None \<rparr>"
  have "getNextLink os_api_one ?p = (Some ''/servers/detail'', [(''marker'', [''s''])])"
    by (simp add: getNextLink_def next_href_def startswith_def from_second_slash_def os_api_one_def)
  moreover have "getNextLink os_api_one ?q = (None, [])"
    by (simp add: getNextLink_def next_href_def)
  ultimately have "paged os_api_one (ow_cloud os_w_one) (Some ''/servers/detail'') [] [?p, ?q]"
    by (simp add: os_api_one_def os_w_one_def os_init_def dict_update_def)
  from os_pages_complete [OF this, of 3] show ?thesis by (simp add: os_w_one_def os_init_def)
qed

text \<open>
  Two pages that lead to each other are not noticed: the listing never ends, however long it runs.
\<close>
theorem os_pages_in_a_circle:
  assumes "u \<noteq> []" and "a \<noteq> b"
    and "oa_page A u [(''marker'', a)] (ow_cloud w) = (Inr p, ow_cloud w)" and "pg_servers p \<noteq> []"
    and "getNextLink A p = (Some u, [(''marker'', b)])"
    and "oa_page A u [(''marker'', b)] (ow_cloud w) = (Inr q, ow_cloud w)" and "pg_servers q \<noteq> []"
    and "getNextLink A q = (Some u, [(''marker'', a)])"
  shows "server_pages A fuel (Some u) [(''marker'', a)] found w = (Inr None, w)"
  using pages_in_a_circle [OF assms] by simp

end
