(* ===== verification/Components.thy ===== *)
theory Components
  imports ZkPools
begin

section \<open>The component registry\<close>

text \<open>
  \<open>nodepool/zk/components.py\<close>: every process, and every pool of a launcher, announces itself with an ephemeral
  node that carries its attributes; the registry keeps a copy of all of them from the events it gets.
  The version of a node's data is part of its statistics here. The registration is over the
  server model; an ephemeral node is an ordinary one that the server takes away.
\<close>

subsection \<open>Components\<close>

definition MODEL_API :: int where "MODEL_API = 0"

definition COMPONENTS_ROOT :: string where "COMPONENTS_ROOT = ''/nodepool/components''"

record component =
  cm_kind :: string
  cm_content :: pydict
  cm_path :: "string option"
  cm_version :: int                \<comment> \<open>of the data in ZooKeeper\<close>

definition component_content :: "string \<Rightarrow> string \<Rightarrow> json \<Rightarrow> pydict" where
  "component_content kind hostname version =
     [(''hostname'', JStr hostname), (''state'', JStr ''stopped''), (''kind'', JStr kind), (''version'', version),
      (''model_api'', JNum 0)]"

text \<open>A pool has more attributes.\<close>

definition pool_content :: pydict where
  "pool_content =
     [(''id'', JNull), (''name'', JNull), (''provider_name'', JNull), (''supported_labels'', JList []), (''priority'', JNum 100),
      (''paused'', JBool False)]"

definition dict_merge :: "pydict \<Rightarrow> pydict \<Rightarrow> pydict" where
  "dict_merge d e = foldl (\<lambda>d (k, v). AList.update k v d) d e"

definition component_init :: "string \<Rightarrow> string \<Rightarrow> json \<Rightarrow> component" where
  "component_init kind hostname version =
     \<lparr> cm_kind = kind,
       cm_content = (let c = component_content kind hostname version in if kind = ''pool'' then dict_merge c pool_content else c),
       cm_path = None, cm_version = 0 \<rparr>"

text \<open>\<open>__getattr__\<close>, for the attributes of the content.\<close>

definition component_get :: "string \<Rightarrow> component \<Rightarrow> json res" where
  "component_get name c = (case map_of (cm_content c) name of None \<Rightarrow> Inl AttributeError | Some v \<Rightarrow> Inr v)"

text \<open>
  \<open>__setattr__\<close>, for the attributes of the content: the new value is kept in any case; it goes to ZooKeeper
  when the component is registered, at the version the component has seen last. \<open>set_version\<close> is
  kazoo's \<open>set\<close> with a version: the new version, or what it raises.
\<close>

definition component_set ::
  "(string \<Rightarrow> pydict \<Rightarrow> int \<Rightarrow> 'z \<Rightarrow> int res \<times> 'z) \<Rightarrow> string \<Rightarrow> json \<Rightarrow> component \<Rightarrow> 'z \<Rightarrow> pyexc option \<times> component \<times> 'z" where
  "component_set set_version name value c z =
     (if map_of (cm_content c) name = Some value then (None, c, z)
      else let c1 = c\<lparr>cm_content := AList.update name value (cm_content c)\<rparr> in
        case cm_path c of
          None \<Rightarrow> (None, c1, z)
        | Some p \<Rightarrow>
            if p = [] then (None, c1, z)
            else (case set_version p (cm_content c1) (cm_version c) z of
                    (Inr v, z1) \<Rightarrow> (None, c1\<lparr>cm_version := v\<rparr>, z1)
                  | (Inl e, z1) \<Rightarrow> (if e = NoNodeError then None else Some e, c1, z1)))"

text \<open>\<open>register\<close>: a sequence node below the kind, with the host name as its prefix.\<close>

definition component_register :: "'z kazoo \<Rightarrow> json \<Rightarrow> component \<Rightarrow> 'z \<Rightarrow> pyexc option \<times> component \<times> 'z" where
  "component_register K model_api c z =
     (let c1 = c\<lparr>cm_content := AList.update ''model_api'' model_api (cm_content c)\<rparr> in
      case component_get ''hostname'' c1 of
        Inr (JStr h) \<Rightarrow>
          (case kz_create_seq K (COMPONENTS_ROOT @ ''/'' @ cm_kind c @ ''/'' @ h) (serialize (cm_content c1)) z of
             Inl e \<Rightarrow> (Some e, c1, z)
           | Inr (path, z1) \<Rightarrow> (None, c1\<lparr>cm_path := Some path, cm_version := 0\<rparr>, z1))
      | _ \<Rightarrow> (Some TypeError, c1, z))"

definition component_unregister :: "'z kazoo \<Rightarrow> component \<Rightarrow> 'z \<Rightarrow> 'z res" where
  "component_unregister K c z = (case cm_path c of None \<Rightarrow> Inl TypeError | Some p \<Rightarrow> kz_delete K p False z)"

definition updateFromDict :: "pydict \<Rightarrow> component \<Rightarrow> component" where
  "updateFromDict d c = c\<lparr>cm_content := dict_merge (cm_content c) d\<rparr>"

definition component_fromDict :: "string \<Rightarrow> string \<Rightarrow> pydict \<Rightarrow> component" where
  "component_fromDict kind hostname d = updateFromDict d (component_init kind hostname JNull)"

subsection \<open>The registry\<close>

definition COMPONENT_CLASSES :: "string list" where "COMPONENT_CLASSES = [''pool'', ''launcher'', ''builder'']"

text \<open>The components by kind and by the name of their node; the smallest data model, and whether it can be trusted.\<close>

record registry =
  rg_components :: "(string \<times> (string \<times> component) list) list"
  rg_model_api :: "int option"
  rg_init :: bool

type_synonym 'a registry_eff = "(registry, 'a) eff"

definition registry_empty :: registry where
  "registry_empty = \<lparr> rg_components = [], rg_model_api = None, rg_init = False \<rparr>"

definition of_kind :: "registry \<Rightarrow> string \<Rightarrow> (string \<times> component) list" where
  "of_kind s kind = (case map_of (rg_components s) kind of None \<Rightarrow> [] | Some cs \<Rightarrow> cs)"

definition set_kind :: "string \<Rightarrow> (string \<times> component) list \<Rightarrow> registry \<Rightarrow> registry" where
  "set_kind kind cs s = s\<lparr>rg_components := AList.update kind cs (rg_components s)\<rparr>"

definition all_components :: "registry \<Rightarrow> component list" where
  "all_components s = concat (map (\<lambda>(k, cs). map snd cs) (rg_components s))"

definition model_api_of :: "component \<Rightarrow> int res" where
  "model_api_of c = bindE (component_get ''model_api'' c) (\<lambda>v. case v of JNum q \<Rightarrow> Inr \<lfloor>q\<rfloor> | _ \<Rightarrow> Inl TypeError)"

text \<open>\<open>getMinimumModelApi\<close>: its own version and that of everybody else.\<close>

definition getMinimumModelApi :: "registry \<Rightarrow> int res" where
  "getMinimumModelApi s =
     foldE (\<lambda>c version. bindE (model_api_of c) (\<lambda>v. Inr (min version v))) (all_components s) MODEL_API"

text \<open>\<open>sys.exit(1)\<close> is the exception it raises; the other branches differ in what they log.\<close>

definition updateMinimumModelApi :: "unit registry_eff" where
  "updateMinimumModelApi =
     eff_bind (eff_get id) (\<lambda>s.
       if \<not> rg_init s then eff_ret ()
       else eff_bind (eff_lift (getMinimumModelApi s)) (\<lambda>version.
            if rg_model_api s = None \<and> \<not> version < MODEL_API \<and> version > MODEL_API
            then eff_raise (OtherError ''SystemExit'')
            else eff_mod (\<lambda>s. s\<lparr>rg_model_api := Some version\<rparr>)))"

text \<open>The connection is there: the components of every kind are watched, and the data model is trusted.\<close>

definition registry_onConnect :: "unit registry_eff" where
  "registry_onConnect = eff_seq (eff_mod (\<lambda>s. s\<lparr>rg_init := True\<rparr>)) updateMinimumModelApi"

text \<open>The children of a kind that are new, which get a watch of their own.\<close>

definition onComponentRootUpdate :: "string \<Rightarrow> string list \<Rightarrow> registry \<Rightarrow> string list" where
  "onComponentRootUpdate kind children s = filter (\<lambda>h. map_of (of_kind s kind) h = None) children"

datatype component_event = CE_None | CE_Created | CE_Changed | CE_Deleted | CE_Other

definition componentPath :: "string \<Rightarrow> string \<Rightarrow> string" where
  "componentPath kind hostname = COMPONENTS_ROOT @ ''/'' @ kind @ ''/'' @ hostname"

text \<open>
  \<open>_onComponentUpdate\<close>, with the data already parsed: newer data update the component, older data are
  ignored, and without data the component is forgotten. The result tells whether the watch goes on.
\<close>

definition onComponentUpdate :: "string \<Rightarrow> string \<Rightarrow> pydict res option \<Rightarrow> int \<Rightarrow> component_event \<Rightarrow> bool registry_eff" where
  "onComponentUpdate kind hostname data version ev =
     (case data of
        Some d0 \<Rightarrow>
          if ev \<in> {CE_None, CE_Changed, CE_Created}
          then eff_bind (eff_get (\<lambda>s. map_of (of_kind s kind) hostname)) (\<lambda>known.
               eff_bind (eff_lift d0) (\<lambda>d.
                 case known of
                   Some c \<Rightarrow>
                     if version \<le> cm_version c then eff_ret True
                     else eff_seq (eff_mod (\<lambda>s. set_kind kind
                            (AList.update hostname ((updateFromDict d c)\<lparr>cm_version := version\<rparr>) (of_kind s kind)) s))
                          (eff_seq updateMinimumModelApi (eff_ret True))
                 | None \<Rightarrow>
                     if kind \<notin> set COMPONENT_CLASSES then eff_raise KeyError
                     else eff_seq (eff_mod (\<lambda>s. set_kind kind
                            (AList.update hostname ((component_fromDict kind hostname d)
                               \<lparr>cm_path := Some (componentPath kind hostname), cm_version := version\<rparr>) (of_kind s kind)) s))
                          (eff_seq updateMinimumModelApi (eff_ret True))))
          else if ev = CE_Deleted
          then eff_seq (eff_mod (\<lambda>s. set_kind kind (AList.delete hostname (of_kind s kind)) s))
                 (eff_seq updateMinimumModelApi (eff_ret False))
          else eff_ret True
      | None \<Rightarrow>
          eff_seq (eff_mod (\<lambda>s. set_kind kind (AList.delete hostname (of_kind s kind)) s))
            (eff_seq updateMinimumModelApi (eff_ret False)))"

text \<open>\<open>all\<close>, of a kind or of all kinds.\<close>

definition registry_all :: "registry \<Rightarrow> string option \<Rightarrow> (string \<times> component list) list" where
  "registry_all s kind =
     (case kind of
        None \<Rightarrow> map (\<lambda>(k, cs). (k, map snd cs)) (rg_components s)
      | Some k \<Rightarrow> [(k, map snd (of_kind s k))])"

subsection \<open>The smallest data model\<close>

lemma foldE_min_le:
  assumes "foldE (\<lambda>c version. bindE (f c) (\<lambda>v. Inr (min version v))) cs a = Inr (m :: int)"
  shows "m \<le> a \<and> (\<forall>c \<in> set cs. \<exists>v. f c = Inr v \<and> m \<le> v)"
  using assms
proof (induction cs arbitrary: a)
  case (Cons c cs)
  then obtain v where v: "f c = Inr v" "foldE (\<lambda>c version. bindE (f c) (\<lambda>v. Inr (min version v))) cs (min a v) = Inr m"
    by (auto simp: bindE_eq_Inr)
  from Cons.IH [OF v(2)] v(1) show ?case by auto
qed simp

lemma foldE_min_in:
  assumes "foldE (\<lambda>c version. bindE (f c) (\<lambda>v. Inr (min version v))) cs a = Inr (m :: int)"
  shows "m = a \<or> (\<exists>c \<in> set cs. f c = Inr m)"
  using assms
proof (induction cs arbitrary: a)
  case (Cons c cs)
  then obtain v where v: "f c = Inr v" "foldE (\<lambda>c version. bindE (f c) (\<lambda>v. Inr (min version v))) cs (min a v) = Inr m"
    by (auto simp: bindE_eq_Inr)
  from Cons.IH [OF v(2)] v(1) show ?case by (auto simp: min_def split: if_splits)
qed simp

lemma minimum_le_own: "getMinimumModelApi s = Inr m \<Longrightarrow> m \<le> MODEL_API"
  using foldE_min_le [of model_api_of "all_components s" MODEL_API m] by (simp add: getMinimumModelApi_def)

text \<open>The registry knows the smallest data model, or has not been connected yet.\<close>

definition model_api_known :: "registry \<Rightarrow> bool" where
  "model_api_known s \<longleftrightarrow> (rg_init s \<longrightarrow> (\<exists>m. rg_model_api s = Some m \<and> getMinimumModelApi s = Inr m))"

lemma getMinimum_components: "getMinimumModelApi (s\<lparr>rg_model_api := m\<rparr>) = getMinimumModelApi s"
  "getMinimumModelApi (s\<lparr>rg_init := b\<rparr>) = getMinimumModelApi s"
  by (simp_all add: getMinimumModelApi_def all_components_def)

lemma update_known:
  assumes "updateMinimumModelApi s = (Inr u, s')"
  shows "model_api_known s'"
  using assms
  by (auto simp: updateMinimumModelApi_def eff_bind_def eff_get_def eff_ret_def eff_lift_def eff_mod_def eff_raise_def
      model_api_known_def getMinimum_components split: if_splits sum.splits)

lemma update_never_exits: "fst (updateMinimumModelApi s) \<noteq> Inl (OtherError ''SystemExit'')"
proof -
  have "model_api_of c \<noteq> Inl (OtherError ''SystemExit'')" for c
    by (auto simp: model_api_of_def component_get_def bindE_def split: option.splits json.splits sum.splits)
  then have "foldE (\<lambda>c version. bindE (model_api_of c) (\<lambda>v. Inr (min version v))) cs a \<noteq> Inl (OtherError ''SystemExit'')" for cs a
    by (induction cs arbitrary: a) (auto simp: bindE_def split: sum.splits)
  then have "getMinimumModelApi s \<noteq> Inl (OtherError ''SystemExit'')" by (simp add: getMinimumModelApi_def)
  then show ?thesis
    using minimum_le_own [of s]
    by (auto simp: updateMinimumModelApi_def eff_bind_def eff_get_def eff_ret_def eff_lift_def eff_mod_def eff_raise_def
        split: sum.splits)
qed

section \<open>Properties of the component registry\<close>

text \<open>The registry after any events: what it says of the data model, and that it never goes back to older data.\<close>

datatype registry_event =
    RE_Connect
  | RE_Update string string "pydict res option" int component_event

fun registry_step :: "registry_event \<Rightarrow> unit registry_eff" where
  "registry_step RE_Connect = registry_onConnect"
| "registry_step (RE_Update kind h data version ev) = eff_seq (eff_bind (onComponentUpdate kind h data version ev) (\<lambda>b. eff_ret ())) (eff_ret ())"

text \<open>The events one after the other, as long as none raises.\<close>

fun registry_run :: "registry_event list \<Rightarrow> registry \<Rightarrow> registry option" where
  "registry_run [] s = Some s"
| "registry_run (e # es) s = (case registry_step e s of (Inl x, t) \<Rightarrow> None | (Inr u, t) \<Rightarrow> registry_run es t)"

lemma step_known:
  assumes "registry_step e s = (Inr u, t)" and "model_api_known s"
  shows "model_api_known t"
  using assms
  by (cases e)
    (auto simp: registry_onConnect_def onComponentUpdate_def eff_seq_def eff_bind_def eff_get_def eff_ret_def eff_lift_def
      eff_mod_def eff_raise_def dest: update_known split: option.splits if_splits sum.splits prod.splits)

lemma run_known: "registry_run es s = Some t \<Longrightarrow> model_api_known s \<Longrightarrow> model_api_known t"
  by (induction es arbitrary: s) (auto split: prod.splits sum.splits dest: step_known)

lemma known_minimum:
  assumes "model_api_known s" and "rg_init s"
  shows "\<exists>m. rg_model_api s = Some m \<and> m \<le> MODEL_API \<and> (\<forall>c \<in> set (all_components s). \<exists>v. model_api_of c = Inr v \<and> m \<le> v) \<and>
    (m = MODEL_API \<or> (\<exists>c \<in> set (all_components s). model_api_of c = Inr m))"
proof -
  from assms obtain m where m: "rg_model_api s = Some m" "getMinimumModelApi s = Inr m" by (auto simp: model_api_known_def)
  from foldE_min_le [OF m(2) [unfolded getMinimumModelApi_def]] foldE_min_in [OF m(2) [unfolded getMinimumModelApi_def]] m(1)
  show ?thesis by blast
qed

definition launcher_data :: "int \<Rightarrow> pydict" where
  "launcher_data v = [(''hostname'', JStr ''l1''), (''state'', JStr ''running''), (''kind'', JStr ''launcher''), (''model_api'', JNum (of_int v))]"

definition events_one :: "registry_event list" where
  "events_one = [RE_Connect, RE_Update ''launcher'' ''l1-0'' (Some (Inr (launcher_data (- 1)))) 0 CE_Created]"

definition registry_one :: registry where
  "registry_one = \<lparr> rg_components = [(''launcher'', [(''l1-0'', (component_fromDict ''launcher'' ''l1-0'' (launcher_data (- 1)))
      \<lparr>cm_path := Some (componentPath ''launcher'' ''l1-0''), cm_version := 0\<rparr>)])], rg_model_api = Some (- 1), rg_init = True \<rparr>"

lemma floor_minus_one: "\<lfloor>- 1 :: rat\<rfloor> = - 1"
  using floor_of_int [of "- 1", where 'a = rat] by simp

lemma run_one: "registry_run events_one registry_empty = Some registry_one"
  by (simp add: events_one_def registry_one_def registry_empty_def registry_onConnect_def updateMinimumModelApi_def onComponentUpdate_def
      eff_seq_def eff_bind_def eff_get_def eff_ret_def eff_lift_def eff_mod_def eff_raise_def getMinimumModelApi_def all_components_def
      of_kind_def set_kind_def COMPONENT_CLASSES_def MODEL_API_def model_api_of_def component_get_def component_fromDict_def
      updateFromDict_def component_init_def component_content_def dict_merge_def launcher_data_def floor_minus_one)

text \<open>
  C34: Once connected, the data model the registry reports is after any events, none of which raised, the smallest one of all the
  components it knows and its own.
\<close>
theorem registry_minimum:
  assumes "registry_run es registry_empty = Some s" and "rg_init s"
  shows "\<exists>m. rg_model_api s = Some m \<and> m \<le> MODEL_API \<and> (\<forall>c \<in> set (all_components s). \<exists>v. model_api_of c = Inr v \<and> m \<le> v) \<and>
    (m = MODEL_API \<or> (\<exists>c \<in> set (all_components s). model_api_of c = Inr m))"
proof -
  have "model_api_known registry_empty" by (simp add: model_api_known_def registry_empty_def)
  with assms run_known known_minimum show ?thesis by blast
qed

theorem registry_minimum_witness: "rg_model_api registry_one = Some (- 1) \<and> - 1 \<le> MODEL_API"
  using registry_minimum [OF run_one] by (simp add: registry_one_def MODEL_API_def)

text \<open>
  The exit that is to keep a component with an older data model out of a newer system is never reached: in no
  state of the registry does the comparison that guards it hold.
\<close>
theorem registry_never_exits: "fst (updateMinimumModelApi s) \<noteq> Inl (OtherError ''SystemExit'')"
  by (rule update_never_exits)

lemma model_api_keeps_components:
  "updateMinimumModelApi s = (r, t) \<Longrightarrow> rg_components t = rg_components s"
  by (auto simp: updateMinimumModelApi_def eff_bind_def eff_get_def eff_ret_def eff_lift_def eff_mod_def eff_raise_def
      split: if_splits sum.splits)

lemma of_kind_set: "of_kind (set_kind k cs s) k' = (if k' = k then cs else of_kind s k')"
  by (simp add: of_kind_def set_kind_def update_conv')

lemma of_kind_update: "updateMinimumModelApi s = (r, t) \<Longrightarrow> of_kind t k = of_kind s k"
  by (simp add: of_kind_def model_api_keeps_components)

text \<open>
  An event never takes a component the registry has back to older data: it is forgotten or has at least
  the version it had, and the version it had means the data it had.
\<close>
theorem component_never_older:
  assumes "onComponentUpdate kind h data version ev s = (Inr b, t)"
    and "map_of (of_kind s k) n = Some c" and "map_of (of_kind t k) n = Some c1"
  shows "c1 = c \<or> cm_version c < cm_version c1"
  using assms
  by (auto simp: onComponentUpdate_def eff_seq_def eff_bind_def eff_get_def eff_ret_def eff_lift_def eff_mod_def eff_raise_def
      of_kind_set of_kind_update update_conv' delete_conv' not_le
      split: option.splits if_splits sum.splits prod.splits)

theorem component_never_older_witness:
  "\<exists>t c1. onComponentUpdate ''launcher'' ''l1-0'' (Some (Inr (launcher_data 0))) 0 CE_Changed registry_one = (Inr True, t) \<and>
    map_of (of_kind t ''launcher'') ''l1-0'' = Some c1 \<and> (c1 = the (map_of (of_kind registry_one ''launcher'') ''l1-0'') \<or> 0 < cm_version c1)"
proof -
  let ?c = "(component_fromDict ''launcher'' ''l1-0'' (launcher_data (- 1)))
      \<lparr>cm_path := Some (componentPath ''launcher'' ''l1-0''), cm_version := 0\<rparr>"
  have c: "map_of (of_kind registry_one ''launcher'') ''l1-0'' = Some ?c" by (simp add: of_kind_def registry_one_def)
  then have "onComponentUpdate ''launcher'' ''l1-0'' (Some (Inr (launcher_data 0))) 0 CE_Changed registry_one = (Inr True, registry_one)"
    by (simp add: onComponentUpdate_def eff_bind_def eff_get_def eff_ret_def eff_lift_def)
  from component_never_older [OF this c c] this c show ?thesis by auto
qed

end
