(* ===== verification/Status.thy ===== *)
theory Status
  imports Config ZkPools
begin

section \<open>Listings\<close>

text \<open>
  \<open>nodepool/status.py\<close>: the listings the command line and the web application show. A listing is
  a list of rows, dictionaries with one entry per header; the table a listing is shown as is its headings and
  its cells. How a table is drawn and JSON printed is a parameter, and so is the time.
\<close>

subsection \<open>Ages\<close>

text \<open>\<open>'%02d'\<close>.\<close>

definition fmt02 :: "int \<Rightarrow> string" where
  "fmt02 i = (let s = int_str i in if length s < 2 then CHR ''0'' # s else s)"

definition divmod60 :: "rat \<Rightarrow> int \<times> rat" where
  "divmod60 q = (\<lfloor>q / 60\<rfloor>, q - 60 * of_int \<lfloor>q / 60\<rfloor>)"

definition age_fields :: "rat \<Rightarrow> rat \<Rightarrow> int list" where
  "age_fields now timestamp =
     (let (m, s) = divmod60 (now - timestamp); (h, m) = (m div 60, m mod 60); (d, h) = (h div 24, h mod 24)
      in [d, h, m, \<lfloor>s\<rfloor>])"

definition age :: "rat \<Rightarrow> rat \<Rightarrow> string" where
  "age now timestamp = py_join '':'' (map fmt02 (age_fields now timestamp))"

subsection \<open>Tables\<close>

type_synonym listing = "pydict list \<times> (string \<times> string) list"

definition ends_age :: "string \<Rightarrow> bool" where
  "ends_age k = (4 \<le> length k \<and> drop (length k - 4) k = ''_age'')"

fun json_strs :: "json list \<Rightarrow> string list res" where
  "json_strs [] = Inr []"
| "json_strs (JStr s # xs) = map_sum id (Cons s) (json_strs xs)"
| "json_strs (x # xs) = Inl TypeError"

definition pretty_cell :: "rat \<Rightarrow> string \<Rightarrow> json \<Rightarrow> json res" where
  "pretty_cell now k v =
     (if k = ''age'' \<or> ends_age k \<and> v \<noteq> JNull
      then (case py_int v of
              Inl ValueError \<Rightarrow> Inr v
            | Inl e \<Rightarrow> Inl e
            | Inr i \<Rightarrow> Inr (JStr (age now (of_int i))))
      else (case v of
              JList xs \<Rightarrow> map_sum id (\<lambda>ss. JStr (py_join '','' ss)) (json_strs xs)
            | JNull \<Rightarrow> Inr (JStr [])
            | _ \<Rightarrow> Inr v))"

definition shown_headers :: "(string \<times> string) list \<Rightarrow> string list option \<Rightarrow> (string \<times> string) list" where
  "shown_headers headers wanted =
     (case wanted of
        Some (f # fs) \<Rightarrow> filter (\<lambda>h. fst h \<in> set (f # fs)) headers
      | _ \<Rightarrow> headers)"

definition to_pretty_table ::
  "rat \<Rightarrow> pydict list \<Rightarrow> (string \<times> string) list \<Rightarrow> string list option \<Rightarrow> (string list \<times> json list list) res" where
  "to_pretty_table now objs headers wanted =
     (let hs = shown_headers headers wanted in
      map_sum id (Pair (map snd hs))
        (mapE (\<lambda>ob. mapE (\<lambda>(k, h). bindE (case map_of ob k of None \<Rightarrow> Inl KeyError | Some v \<Rightarrow> Inr v) (pretty_cell now k)) hs) objs))"

definition output_listing ::
  "(string list \<times> json list list \<Rightarrow> string) \<Rightarrow> (pydict list \<Rightarrow> string) \<Rightarrow> rat \<Rightarrow> listing \<Rightarrow> string \<Rightarrow> string list option \<Rightarrow> string res" where
  "output_listing render dumps now results fmt wanted =
     (case results of
        (objs, headers) \<Rightarrow>
          if fmt = ''pretty'' then map_sum id render (to_pretty_table now objs headers wanted)
          else if fmt = ''json'' then Inr (dumps objs)
          else Inl ValueError)"

subsection \<open>Nodes\<close>

definition opt_str :: "string option \<Rightarrow> json" where
  "opt_str i = (case i of None \<Rightarrow> JNull | Some s \<Rightarrow> JStr s)"

definition node_headers :: "(string \<times> string) list" where
  "node_headers =
     [(''id'', ''ID''), (''provider'', ''Provider''), (''label'', ''Label''), (''server_id'', ''Server ID''),
      (''public_ipv4'', ''Public IPv4''), (''ipv6'', ''IPv6''), (''state'', ''State''), (''age'', ''Age''),
      (''locked'', ''Locked''), (''pool'', ''Pool''), (''hostname'', ''Hostname''), (''private_ipv4'', ''Private IPv4''),
      (''AZ'', ''AZ''), (''username'', ''Username''), (''connection_port'', ''Port''), (''launcher'', ''Launcher''),
      (''allocated_to'', ''Allocated To''), (''hold_job'', ''Hold Job''), (''comment'', ''Comment''),
      (''user_data'', ''User Data''), (''driver_data'', ''Driver Data'')]"

definition node_locked :: "'z locks \<Rightarrow> node cache option \<Rightarrow> node \<Rightarrow> 'z \<Rightarrow> bool res" where
  "node_locked L nc n z =
     (if nc \<noteq> None then Inr (n_lock_contenders n \<noteq> {})
      else map_sum id (\<lambda>cs. cs \<noteq> []) (getNodeLockContenders L n z))"

text \<open>A port that is not a number may carry credentials.\<close>

definition shown_port :: "json \<Rightarrow> json" where
  "shown_port port = (case py_int port of Inl e \<Rightarrow> JStr ''redacted'' | Inr i \<Rightarrow> port)"

definition get_node_values :: "'z locks \<Rightarrow> node cache option \<Rightarrow> rat \<Rightarrow> 'z \<Rightarrow> node \<Rightarrow> json list res" where
  "get_node_values L nc now z n =
     bindE (node_locked L nc n z) (\<lambda>locked.
     bindE (num_of (o_state_time n)) (\<lambda>t.
       Inr [opt_str (o_id n), n_provider n, JList (n_type n), n_external_id n, n_public_ipv4 n, n_public_ipv6 n,
         state_json (o_state n), JStr (age now t), JStr (if locked then ''locked'' else ''unlocked''), n_pool n,
         n_hostname n, n_private_ipv4 n, n_az n, n_username n, shown_port (n_connection_port n), n_launcher n,
         n_allocated_to n, n_hold_job n, n_comment n, n_user_data n, n_driver_data n]))"

definition node_row :: "json list \<Rightarrow> pydict" where
  "node_row values = zip (map fst node_headers) values"

definition node_list ::
  "'z kazoo \<Rightarrow> 'z locks \<Rightarrow> node cache option \<Rightarrow> string option \<Rightarrow> rat \<Rightarrow> 'z \<Rightarrow> listing res" where
  "node_list K L nc node_id now z =
     map_sum id (\<lambda>vs. (map node_row vs, node_headers))
       (case node_id of
          Some (c # cs) \<Rightarrow>
            bindE (getNode K nc (c # cs) False False now z) (\<lambda>n.
              mapE (get_node_values L nc now z) (case n of None \<Rightarrow> [] | Some n \<Rightarrow> [n]))
        | _ \<Rightarrow>
            bindE (nodeIterator K nc True (nc \<noteq> None) now z) (\<lambda>ns. mapE (get_node_values L nc now z) ns))"

subsection \<open>Images\<close>

definition int_json :: "json \<Rightarrow> json res" where
  "int_json v = map_sum id (\<lambda>i. JNum (of_int i)) (py_int v)"

definition dib_headers :: "(string \<times> string) list" where
  "dib_headers =
     [(''id'', ''ID''), (''image'', ''Image''), (''builder'', ''Builder''), (''formats'', ''Formats''), (''state'', ''State''),
      (''age'', ''Age'')]"

text \<open>The builds and the paused images, from the cache or from the server.\<close>

definition listed_builds ::
  "'z kazoo \<Rightarrow> cached_image cache option \<Rightarrow> rat \<Rightarrow> 'z \<Rightarrow> (image_build list \<times> (string \<times> bool) list) res" where
  "listed_builds K ic now z =
     (case ic of
        Some c \<Rightarrow>
          bindE (getCachedBuilds True c) (\<lambda>builds.
          bindE (getCachedImages True c) (\<lambda>images.
            Inr (builds, rev (map (\<lambda>i. (im_name i, im_paused i)) images))))
      | None \<Rightarrow>
          bindE (getImageNames K z) (\<lambda>names.
          bindE (mapE (\<lambda>img.
              bindE (getImagePaused K img z) (\<lambda>paused.
              bindE (getBuildIds K img z) (\<lambda>ids.
              bindE (mapE (\<lambda>i. getBuild K img i now z) ids) (\<lambda>bs. Inr (somes bs, (img, paused)))))) names) (\<lambda>xs.
            Inr (concat (map fst xs), rev (map snd xs)))))"

text \<open>The id of a row is \<open>'-'.join([image, id])\<close>, which raises unless both are strings.\<close>

definition build_row :: "(string \<times> bool) list \<Rightarrow> image_build \<Rightarrow> pydict res" where
  "build_row image_paused b =
     (case (ib_image_name b, o_id b) of
        (JStr img, Some i) \<Rightarrow>
          bindE (int_json (o_state_time b)) (\<lambda>a.
            Inr [(''id'', JStr (img @ ''-'' @ i)), (''image'', JStr img), (''builder'', ib_builder b),
              (''formats'', JList (map JStr (formats b))),
              (''state'', if map_of image_paused img = Some True then JStr ''paused'' else state_json (o_state b)),
              (''age'', a)])
      | _ \<Rightarrow> Inl TypeError)"

definition status_dib_image_list ::
  "'z kazoo \<Rightarrow> cached_image cache option \<Rightarrow> rat \<Rightarrow> 'z \<Rightarrow> listing res" where
  "status_dib_image_list K ic now z =
     bindE (listed_builds K ic now z) (\<lambda>(builds, image_paused).
       map_sum id (\<lambda>rows. (rows, dib_headers)) (mapE (build_row image_paused) builds))"

definition image_status_headers :: "(string \<times> string) list" where
  "image_status_headers =
     [(''image'', ''Image''), (''paused'', ''Paused''), (''build_request'', ''Build Request''),
      (''build_request_age'', ''Build Request Age'')]"

definition status_image_status :: "'z kazoo \<Rightarrow> 'z \<Rightarrow> listing res" where
  "status_image_status K z =
     bindE (getImageNames K z) (\<lambda>names.
       map_sum id (\<lambda>rows. (rows, image_status_headers)) (mapE (\<lambda>img.
         bindE (getBuildRequest K img z) (\<lambda>request.
         bindE (getImagePaused K img z) (\<lambda>paused.
           Inr [(''image'', JStr img), (''paused'', JBool paused),
             (''build_request'', case request of None \<Rightarrow> JNull
                | Some r \<Rightarrow> JStr (if br_pending r then ''pending'' else ''building'')),
             (''build_request_age'', case request of None \<Rightarrow> JNull
                | Some r \<Rightarrow> JNum (of_int (trunc (br_state_time r))))]))) names))"

definition image_headers :: "(string \<times> string) list" where
  "image_headers =
     [(''id'', ''Build ID''), (''upload_id'', ''Upload ID''), (''provider'', ''Provider''), (''image'', ''Image''),
      (''external_name'', ''Provider Image Name''), (''external_id'', ''Provider Image ID''), (''state'', ''State''),
      (''age'', ''Age'')]"

definition listed_uploads ::
  "'z kazoo \<Rightarrow> cached_image cache option \<Rightarrow> rat \<Rightarrow> 'z \<Rightarrow> image_upload list res" where
  "listed_uploads K ic now z =
     (case ic of
        Some c \<Rightarrow> getCachedImageUploads True c
      | None \<Rightarrow>
          bindE (getImageNames K z) (\<lambda>names. map_sum id concat (mapE (\<lambda>img.
          bindE (getBuildIds K img z) (\<lambda>ids. map_sum id concat (mapE (\<lambda>i.
          bindE (getBuildProviders K img i z) (\<lambda>provs. map_sum id concat (mapE (\<lambda>p.
          bindE (getImageUploadNumbers K img i p z) (\<lambda>ns. map_sum id somes (mapE (\<lambda>n.
            getImageUpload K img i p n now z) ns))) provs))) ids))) names)))"

definition upload_row :: "image_upload \<Rightarrow> pydict res" where
  "upload_row u =
     bindE (int_json (o_state_time u)) (\<lambda>a.
       Inr (zip (map fst image_headers)
         [iu_build_id u, opt_str (o_id u), iu_provider_name u, iu_image_name u, iu_external_name u, iu_external_id u,
          state_json (o_state u), a]))"

definition status_image_list :: "'z kazoo \<Rightarrow> cached_image cache option \<Rightarrow> rat \<Rightarrow> 'z \<Rightarrow> listing res" where
  "status_image_list K ic now z =
     bindE (listed_uploads K ic now z) (\<lambda>us. map_sum id (\<lambda>rows. (rows, image_headers)) (mapE upload_row us))"

subsection \<open>Requests and labels\<close>

definition request_headers :: "(string \<times> string) list" where
  "request_headers =
     [(''id'', ''Request ID''), (''relative_priority'', ''Priority''), (''state'', ''State''), (''requestor'', ''Requestor''),
      (''node_types'', ''Node Types''), (''nodes'', ''Nodes''), (''declined_by'', ''Declined By''), (''event_id'', ''Event ID'')]"

definition request_row :: "node_request \<Rightarrow> pydict" where
  "request_row r =
     zip (map fst request_headers)
       [opt_str (o_id r), r_relative_priority r, state_json (o_state r), r_requestor r, r_node_types r, r_nodes r,
        r_declined_by r, r_event_id r]"

definition status_request_list :: "'z kazoo \<Rightarrow> node_request cache option \<Rightarrow> rat \<Rightarrow> 'z \<Rightarrow> listing res" where
  "status_request_list K rc now z =
     map_sum id (\<lambda>rs. (map request_row rs, request_headers)) (nodeRequestIterator K rc True (rc \<noteq> None) now z)"

text \<open>The labels of the registered pools; the order is the one of a Python set, which is not fixed.\<close>

definition status_label_list :: "string list list \<Rightarrow> listing" where
  "status_label_list supported_labels =
     (map (\<lambda>l. [(''label'', JStr l)]) (remdups (concat supported_labels)), [(''label'', ''Label'')])"

subsection \<open>Reading an age back\<close>

lemma digit_char:
  assumes "k < 10"
  shows "Prelude.is_digit (char_of (48 + k :: nat))" and "of_char (char_of (48 + k :: nat) :: char) = (48 + int k)"
proof -
  have n: "of_char (char_of (48 + k :: nat) :: char) = (48 + k :: nat)" using assms by simp
  then show "Prelude.is_digit (char_of (48 + k :: nat))" using assms unfolding Prelude.is_digit_def by simp
  have "of_char (char_of (48 + k :: nat) :: char) = int (of_char (char_of (48 + k :: nat) :: char))"
    by (simp only: of_nat_of_char)
  with n show "of_char (char_of (48 + k :: nat) :: char) = (48 + int k)" by simp
qed

lemma read_digit: "k < 10 \<Longrightarrow> read_digits (char_of (48 + k :: nat) # t) prev a = read_digits t True (a * 10 + int k)"
  by (simp add: digit_char del: of_char_of)

lemma read_digits_rev:
  "n < f \<Longrightarrow> read_digits (rev (digits_rev f n) @ t) prev 0 = read_digits t True (int n)"
proof (induction f arbitrary: n t prev)
  case (Suc f)
  show ?case
  proof (cases "n < 10")
    case True
    then show ?thesis using read_digit [of n t prev 0] by simp
  next
    case False
    with Suc.prems have "n div 10 < f" by simp
    from Suc.IH [OF this, of "char_of (48 + n mod 10) # t" prev] False read_digit [of "n mod 10" t True "int (n div 10)"]
    show ?thesis by (simp del: read_digits.simps add: of_nat_div of_nat_mod)
  qed
qed simp

lemma read_decimal: "read_digits (decimal n) prev 0 = Some (int n)"
  using read_digits_rev [of n "Suc n" "[]" prev] by (simp add: decimal_def)

lemma digits_rev_digit: "c \<in> set (digits_rev f n) \<Longrightarrow> Prelude.is_digit c"
proof (induction f arbitrary: n)
  case (Suc f)
  then show ?case using digit_char(1) [of "n mod 10"] by (auto split: if_splits)
qed simp

lemma decimal_digit: "c \<in> set (decimal n) \<Longrightarrow> Prelude.is_digit c"
  unfolding decimal_def set_rev by (rule digits_rev_digit)

lemma zero_digit: "Prelude.is_digit (CHR ''0'')"
  unfolding Prelude.is_digit_def by simp

lemma decimal_not_Nil: "decimal n \<noteq> []"
  by (simp add: decimal_def)

lemma strip_free: "\<forall>c \<in> set s. \<not> is_space c \<Longrightarrow> py_strip s = s"
proof -
  have d: "dropWhile is_space t = t" if "\<forall>c \<in> set t. \<not> is_space c" for t
    using that by (cases t) auto
  assume "\<forall>c \<in> set s. \<not> is_space c"
  then show ?thesis by (simp add: py_strip_def d)
qed

lemma digit_not_space: "Prelude.is_digit c \<Longrightarrow> \<not> is_space c \<and> c \<noteq> CHR '':'' \<and> c \<noteq> CHR ''-'' \<and> c \<noteq> CHR ''+'' \<and> c \<noteq> CHR ''_''"
  unfolding Prelude.is_digit_def is_space_def by auto

lemma read_sign:
  assumes "s \<noteq> []" and "\<forall>c \<in> set s. Prelude.is_digit c"
  shows "py_int_str s = read_digits s False 0" and "py_int_str (CHR ''-'' # s) = map_option uminus (read_digits s False 0)"
proof -
  from assms(2) digit_not_space have free: "\<forall>c \<in> set s. \<not> is_space c" by blast
  have "\<not> is_space (CHR ''-'')" by (simp add: is_space_def)
  with free have strip: "py_strip s = s" "py_strip (CHR ''-'' # s) = CHR ''-'' # s" by (simp_all add: strip_free)
  show "py_int_str (CHR ''-'' # s) = map_option uminus (read_digits s False 0)" by (simp add: py_int_str_def strip(2))
  from assms(1) obtain c cs where s: "s = c # cs" by (cases s) auto
  with assms(2) have "Prelude.is_digit c" by simp
  then have "c \<noteq> CHR ''-''" "c \<noteq> CHR ''+''" using digit_not_space by blast+
  then show "py_int_str s = read_digits s False 0" unfolding py_int_str_def strip(1) unfolding s by (simp del: read_digits.simps)
qed

lemma read_fmt02: "py_int_str (fmt02 i) = Some i"
proof (cases "i < 0")
  case True
  then have "fmt02 i = CHR ''-'' # decimal (nat (- i))"
    using decimal_not_Nil by (simp add: fmt02_def int_str_def)
  with True show ?thesis using read_sign(2) [OF decimal_not_Nil] decimal_digit by (simp add: read_decimal)
next
  case False
  note z = zero_digit
  show ?thesis
  proof (cases "length (decimal (nat i)) < 2")
    case True
    with False have "fmt02 i = CHR ''0'' # decimal (nat i)" by (simp add: fmt02_def int_str_def)
    with False z show ?thesis
      using read_sign(1) [of "CHR ''0'' # decimal (nat i)"] decimal_digit by (simp add: read_decimal)
  next
    case longer: False
    with False have "fmt02 i = decimal (nat i)" by (simp add: fmt02_def int_str_def)
    with False show ?thesis using read_sign(1) [OF decimal_not_Nil] decimal_digit by (simp add: read_decimal)
  qed
qed

lemma fmt02_no_colon: "CHR '':'' \<notin> set (fmt02 i)"
proof
  assume "CHR '':'' \<in> set (fmt02 i)"
  then have "CHR '':'' \<in> set (decimal (nat i)) \<or> CHR '':'' \<in> set (decimal (nat (- i)))"
    by (auto simp: fmt02_def int_str_def Let_def split: if_splits)
  then show False using decimal_digit digit_not_space by blast
qed

lemma age_split: "py_split (CHR '':'') (age now t) = map fmt02 (age_fields now t)"
proof -
  have "map fmt02 (age_fields now t) \<noteq> []" by (simp add: age_fields_def divmod60_def Let_def)
  then show ?thesis unfolding age_def using fmt02_no_colon by (intro py_split_join) auto
qed

lemma read_digits_None: "c \<in> set s \<Longrightarrow> \<not> Prelude.is_digit c \<Longrightarrow> c \<noteq> CHR ''_'' \<Longrightarrow> read_digits s p a = None"
  by (induction s arbitrary: p a) auto

lemma colon_no_int: "CHR '':'' \<in> set s \<Longrightarrow> py_int_str s = None"
proof -
  assume a: "CHR '':'' \<in> set s"
  have keep: "CHR '':'' \<in> set (dropWhile is_space t)" if "CHR '':'' \<in> set t" for t
    using that by (induction t) (auto simp: is_space_def)
  from a have c: "CHR '':'' \<in> set (py_strip s)" by (simp add: py_strip_def keep)
  have nd: "\<not> Prelude.is_digit (CHR '':'')" using digit_not_space by blast
  show ?thesis
  proof (cases "py_strip s")
    case (Cons x xs)
    with c have "CHR '':'' \<in> set (x # xs)" by simp
    then show ?thesis
      using Cons read_digits_None [of "CHR '':''" xs False 0, OF _ nd] read_digits_None [of "CHR '':''" "x # xs" False 0, OF _ nd]
      by (auto simp: py_int_str_def simp del: read_digits.simps)
  qed (use c in simp)
qed

lemma age_no_int: "py_int_str (age now t) = None"
proof (rule colon_no_int)
  show "CHR '':'' \<in> set (age now t)" by (simp add: age_def age_fields_def divmod60_def)
qed

end
