(* ===== verification/Commands.thy ===== *)
theory Commands
  imports Status ZkWorld ZkPoolsProps "HOL-Library.Sublist" ZkClaims
begin

section \<open>Commands\<close>

text \<open>
  \<open>nodepool/cmd/nodepoolcmd.py\<close>: what an operator does to the data in ZooKeeper. A command ends with what
  it prints. It has no cache. The cleanup of a node in the foreground is an effect that is given, so are
  the images a provider lists and the operator's answer.
\<close>

datatype outcome =
    Said string
  | Listed "pydict list"
  | Table "json list list"
  | Done

definition list_nodes ::
  "'z kazoo \<Rightarrow> 'z locks \<Rightarrow> string option \<Rightarrow> rat \<Rightarrow> ('z, 'm, outcome) zw_eff" where
  "list_nodes K L node_id now =
     eff_bind (zw_read (node_list K L None node_id now)) (\<lambda>(rows, headers). eff_ret (Listed rows))"

subsection \<open>Nodes\<close>

definition lock_for_command ::
  "'z kazoo \<Rightarrow> 'z locks \<Rightarrow> bool \<Rightarrow> rat \<Rightarrow> node \<Rightarrow> ('z, 'm, node) zw_eff" where
  "lock_for_command K L freed now = zw_obj (\<lambda>n z. lockNode K L n True (Some 5) True None freed now z)"

definition store_and_unlock ::
  "'z kazoo \<Rightarrow> 'z locks \<Rightarrow> zk_state \<Rightarrow> rat \<Rightarrow> node \<Rightarrow> ('z, 'm, unit) zw_eff" where
  "store_and_unlock K L st now n =
     eff_bind (eff_lift (node_state st now n)) (\<lambda>n.
     eff_bind (zw_obj (storeNode K now) n) (\<lambda>n.
     eff_bind (zw_obj (unlockNode L) n) (\<lambda>n. eff_ret ())))"

text \<open>\<open>cleanup\<close> starts the deletion of the node and waits for it to end.\<close>

definition cmd_delete ::
  "'z kazoo \<Rightarrow> 'z locks \<Rightarrow> string list \<Rightarrow> (node \<Rightarrow> ('z, 'm, unit) zw_eff) \<Rightarrow> string \<Rightarrow> bool \<Rightarrow> bool \<Rightarrow> rat \<Rightarrow>
     ('z, 'm, outcome) zw_eff" where
  "cmd_delete K L providers cleanup i at_once freed now =
     eff_bind (zw_read (getNode K None i False False now)) (\<lambda>found.
       case found of
         None \<Rightarrow> eff_ret (Said (''Node id '' @ i @ '' not found''))
       | Some n \<Rightarrow>
           eff_bind (lock_for_command K L freed now n) (\<lambda>n.
             if at_once
             then if n_provider n \<notin> JStr ` set providers
                  then eff_bind (eff_lift (str_of (n_provider n))) (\<lambda>p.
                    eff_ret (Said (''Provider '' @ p @ '' for node '' @ i @ '' not defined on this launcher'')))
                  else eff_seq (cleanup n) (list_nodes K L (o_id n) now)
             else eff_seq (store_and_unlock K L DELETING now n) (list_nodes K L (o_id n) now)))"

definition cmd_hold ::
  "'z kazoo \<Rightarrow> 'z locks \<Rightarrow> string \<Rightarrow> bool \<Rightarrow> rat \<Rightarrow> ('z, 'm, outcome) zw_eff" where
  "cmd_hold K L i freed now =
     eff_bind (zw_read (getNode K None i False False now)) (\<lambda>found.
       case found of
         None \<Rightarrow> eff_ret (Said (''Node id '' @ i @ '' not found''))
       | Some n \<Rightarrow>
           eff_bind (lock_for_command K L freed now n) (\<lambda>n.
             eff_seq (store_and_unlock K L HOLD now n) (list_nodes K L (o_id n) now)))"

subsection \<open>Images\<close>

text \<open>\<open>s.rsplit(c, 1)\<close> unpacked into two names.\<close>

definition rsplit1 :: "char \<Rightarrow> string \<Rightarrow> (string \<times> string) res" where
  "rsplit1 c s =
     (if c \<notin> set s then Inl ValueError
      else let b = rev (takeWhile (\<lambda>x. x \<noteq> c) (rev s)) in Inr (take (length s - Suc (length b)) s, b))"

definition cmd_image_build ::
  "'z kazoo \<Rightarrow> (string \<times> disk_image) list \<Rightarrow> string \<Rightarrow> ('z, 'm, outcome) zw_eff" where
  "cmd_image_build K diskimages img =
     (case map_of diskimages img of
        None \<Rightarrow> eff_raise GenericException
      | Some d \<Rightarrow>
          if truthy (dk_pause d) then eff_raise GenericException
          else eff_seq (zw_write (submitBuildRequest K img)) (eff_ret Done))"

definition store_deleting_build ::
  "'z kazoo \<Rightarrow> string \<Rightarrow> image_build \<Rightarrow> rat \<Rightarrow> ('z, 'm, unit) zw_eff" where
  "store_deleting_build K img b now =
     eff_bind (eff_lift (set_state IMAGE_BUILD_STATES (JStr (state_str DELETING)) now b)) (\<lambda>b.
       zw_write (\<lambda>z. map_sum id snd (storeBuild K img b (o_id b) [] z)))"

definition cmd_dib_image_delete :: "'z kazoo \<Rightarrow> string \<Rightarrow> rat \<Rightarrow> ('z, 'm, outcome) zw_eff" where
  "cmd_dib_image_delete K arg now =
     eff_bind (eff_lift (rsplit1 (CHR ''-'') arg)) (\<lambda>(img, build_id).
     eff_bind (zw_read (getBuild K img build_id now)) (\<lambda>build.
       case build of
         None \<Rightarrow> eff_ret (Said (''Build '' @ arg @ '' not found''))
       | Some b \<Rightarrow>
           if o_state b = Some BUILDING then eff_ret (Said ''Cannot delete a build in progress'')
           else eff_seq (store_deleting_build K img b now) (eff_ret Done)))"

definition store_deleting_upload ::
  "'z kazoo \<Rightarrow> image_upload \<Rightarrow> rat \<Rightarrow> ('z, 'm, unit) zw_eff" where
  "store_deleting_upload K u now =
     eff_bind (eff_lift (set_state IMAGE_UPLOAD_STATES (JStr (state_str DELETING)) now u)) (\<lambda>u.
       case (iu_image_name u, iu_build_id u, iu_provider_name u) of
         (JStr img, JStr build_id, JStr provider) \<Rightarrow>
           zw_write (\<lambda>z. map_sum id snd (storeImageUpload K img build_id provider u (o_id u) z))
       | _ \<Rightarrow> eff_raise TypeError)"

definition cmd_image_delete ::
  "'z kazoo \<Rightarrow> string \<Rightarrow> string \<Rightarrow> string \<Rightarrow> string \<Rightarrow> rat \<Rightarrow> ('z, 'm, outcome) zw_eff" where
  "cmd_image_delete K provider img build_id upload_id now =
     eff_bind (zw_read (getImageUpload K img build_id provider upload_id now)) (\<lambda>upload.
       case upload of
         None \<Rightarrow> eff_ret (Said ''Image upload not found'')
       | Some u \<Rightarrow>
           if o_state u = Some UPLOADING then eff_ret (Said ''Cannot delete because image upload in progress'')
           else eff_seq (store_deleting_upload K u now) (eff_ret Done))"

definition cmd_image_pause :: "'z kazoo \<Rightarrow> string \<Rightarrow> ('z, 'm, outcome) zw_eff" where
  "cmd_image_pause K img = eff_seq (zw_write (setImagePaused K img True)) (eff_ret Done)"

definition cmd_image_unpause :: "'z kazoo \<Rightarrow> string \<Rightarrow> ('z, 'm, outcome) zw_eff" where
  "cmd_image_unpause K img = eff_seq (zw_write (setImagePaused K img False)) (eff_ret Done)"

text \<open>The images of a provider that its cloud has and ZooKeeper has not as ready uploads.\<close>

record cloud_image =
  ci_id :: string
  ci_name :: string
  ci_properties :: pydict

record image_provider =
  ip_name :: string
  ip_diskimages :: "string list"

definition known_uploads :: "'z kazoo \<Rightarrow> image_provider \<Rightarrow> rat \<Rightarrow> 'z \<Rightarrow> image_upload list res" where
  "known_uploads K p now z =
     map_sum id concat (mapE (\<lambda>img.
       bindE (getBuildIds K img z) (\<lambda>ids.
         map_sum id concat (mapE (\<lambda>b. getUploads K img b (ip_name p) (Some [READY]) now z) ids))) (ip_diskimages p))"

definition alien_rows ::
  "'z kazoo \<Rightarrow> (string \<Rightarrow> cloud_image list res) \<Rightarrow> rat \<Rightarrow> 'z \<Rightarrow> image_provider \<Rightarrow> json list list res" where
  "alien_rows K list_images now z p =
     (let provider_images = (case list_images (ip_name p) of
            Inl e \<Rightarrow> []
          | Inr images \<Rightarrow> filter (\<lambda>i. dhas (ci_properties i) ''nodepool_build_id'') images)
      in bindE (known_uploads K p now z) (\<lambda>uploads.
        Inr (map (\<lambda>i. [JStr (ip_name p), JStr (ci_name i), JStr (ci_id i)])
          (filter (\<lambda>i. JStr (ci_id i) \<notin> set (map iu_external_id uploads)) provider_images))))"

definition cmd_alien_image_list ::
  "'z kazoo \<Rightarrow> (string \<Rightarrow> cloud_image list res) \<Rightarrow> image_provider list \<Rightarrow> string option \<Rightarrow> rat \<Rightarrow> ('z, 'm, outcome) zw_eff" where
  "cmd_alien_image_list K list_images providers wanted now =
     (let chosen = (case wanted of Some (c # cs) \<Rightarrow> filter (\<lambda>p. ip_name p = c # cs) providers | _ \<Rightarrow> providers)
      in eff_bind (zw_read (\<lambda>z. mapE (alien_rows K list_images now z) chosen)) (\<lambda>rows. eff_ret (Table (concat rows))))"

subsection \<open>The data of a provider\<close>

definition do_erase ::
  "'z kazoo \<Rightarrow> string \<Rightarrow> (string \<times> string list) list \<Rightarrow> node list \<Rightarrow> rat \<Rightarrow> ('z, 'm, unit) zw_eff" where
  "do_erase K provider_name provider_builds provider_nodes now =
     eff_seq (zw_write (removeProviderBuilds K provider_name provider_builds))
       (eff_bind (zw_obj (removeProviderNodes K now) provider_nodes) (\<lambda>ns. eff_ret ()))"

definition cmd_erase ::
  "'z kazoo \<Rightarrow> string \<Rightarrow> bool \<Rightarrow> string \<Rightarrow> rat \<Rightarrow> ('z, 'm, outcome) zw_eff" where
  "cmd_erase K provider_name force answer now =
     eff_bind (zw_read (getProviderBuilds K provider_name)) (\<lambda>builds.
     eff_bind (zw_read (getProviderNodes K None provider_name now)) (\<lambda>ns.
       if force \<or> answer = ''y'' \<or> answer = ''Y''
       then eff_seq (do_erase K provider_name builds ns now) (eff_ret Done)
       else eff_ret (Said ''Aborted. No data erased.'')))"

definition upload_table :: "(string \<times> (string \<times> image_upload list) list) list \<Rightarrow> json list list" where
  "upload_table uploads =
     concat (map (\<lambda>(img, builds).
       map (\<lambda>(b, us). [JStr img, JStr b, JStr (py_join '','' (sort (map (str_id \<circ> o_id) us)))]) (sort_key fst builds))
       (sort_key fst uploads))"

definition cmd_info :: "'z kazoo \<Rightarrow> string \<Rightarrow> rat \<Rightarrow> ('z, 'm, outcome) zw_eff" where
  "cmd_info K provider_name now =
     eff_bind (zw_read (getProviderUploads K provider_name now)) (\<lambda>uploads.
     eff_bind (zw_read (getProviderNodes K None provider_name now)) (\<lambda>ns.
       eff_ret (Table (upload_table uploads @ map (\<lambda>n. [opt_str (o_id n), n_external_id n]) ns))))"

subsection \<open>Running a command\<close>

definition parser_commands :: "string list" where
  "parser_commands =
     [''list'', ''image-list'', ''dib-image-list'', ''image-status'', ''image-build'', ''alien-image-list'', ''delete'',
      ''hold'', ''image-delete'', ''dib-image-delete'', ''config-validate'', ''request-list'', ''info'', ''erase'',
      ''image-pause'', ''image-unpause'', ''export-image-data'', ''import-image-data'']"

definition zk_commands :: "string list" where
  "zk_commands =
     [''image-build'', ''dib-image-list'', ''image-status'', ''image-list'', ''dib-image-delete'', ''image-delete'',
      ''alien-image-list'', ''list'', ''delete'', ''hold'', ''request-list'', ''info'', ''erase'', ''image-pause'',
      ''image-unpause'', ''export-image-data'', ''import-image-data'']"

text \<open>
  \<open>run\<close>: the code of the program's exit. The parentheses around \<open>'config-validate'\<close> make no tuple,
  so the test is whether the command's name is a part of that string.
\<close>

definition cmd_run ::
  "string option \<Rightarrow> ('s, unit) eff \<Rightarrow> ('s, unit) eff \<Rightarrow> ('s, unit) eff \<Rightarrow> ('s, unit) eff \<Rightarrow> ('s, int) eff \<Rightarrow> ('s, int) eff" where
  "cmd_run cmd load_config connect set_config disconnect func =
     (case cmd of
        None \<Rightarrow> eff_ret 1
      | Some c \<Rightarrow>
          if c = [] then eff_ret 1
          else if sublist c ''config-validate'' then func
          else eff_seq load_config
            (eff_seq (eff_when (c \<in> set zk_commands) connect)
            (eff_seq set_config
            (eff_bind func (\<lambda>r.
             eff_seq (eff_when (c \<in> set zk_commands) disconnect) (eff_ret 0))))))"

section \<open>Properties of the listings and the commands\<close>

text \<open>
  What a listing says of ages and ports, and what \<open>hold\<close>, \<open>delete\<close>, \<open>dib-image-delete\<close> and the choice of a
  command do, over any server and lock recipe that keep the laws of \<open>Kazoo\<close> and \<open>ZkLocks\<close>.
\<close>

subsection \<open>Ages and ports\<close>

lemma divmod_whole:
  "(((\<lfloor>q / 60\<rfloor> div 60 div 24) * 24 + \<lfloor>q / 60\<rfloor> div 60 mod 24) * 60 + \<lfloor>q / 60\<rfloor> mod 60) * 60 + \<lfloor>q - 60 * of_int \<lfloor>q / 60\<rfloor>\<rfloor> = \<lfloor>q :: rat\<rfloor>"
proof -
  let ?m = "\<lfloor>q / 60\<rfloor>"
  have "(?m div 60 div 24) * 24 + ?m div 60 mod 24 = ?m div 60" by simp
  moreover have "?m div 60 * 60 + ?m mod 60 = ?m" by simp
  moreover have "\<lfloor>q - 60 * of_int ?m\<rfloor> = \<lfloor>q\<rfloor> - 60 * ?m"
    using floor_diff_of_int [of q "60 * ?m"] by simp
  ultimately show ?thesis by simp
qed

lemma divmod_seconds: "0 \<le> \<lfloor>q - 60 * of_int \<lfloor>q / 60\<rfloor>\<rfloor> \<and> \<lfloor>q - 60 * of_int \<lfloor>q / 60\<rfloor> :: rat\<rfloor> < 60"
proof -
  have "of_int \<lfloor>q / 60\<rfloor> \<le> q / 60" "q / 60 < of_int \<lfloor>q / 60\<rfloor> + 1" by linarith+
  then show ?thesis by (simp add: floor_less_iff)
qed

lemma fields_whole:
  "\<exists>d h m s. age_fields now t = [d, h, m, s] \<and> 0 \<le> h \<and> h < 24 \<and> 0 \<le> m \<and> m < 60 \<and> 0 \<le> s \<and> s < 60 \<and>
    ((d * 24 + h) * 60 + m) * 60 + s = \<lfloor>now - t\<rfloor>"
  using divmod_whole [of "now - t"] divmod_seconds [of "now - t"]
  unfolding age_fields_def divmod60_def Let_def prod.case by (intro exI conjI) (rule refl | assumption | simp)+

text \<open>
  An age as it is shown has four fields from which the elapsed time can be read back to the second, whatever
  the times are (also for a clock that was set back, when the days are negative); the hours, minutes
  and seconds are in their ranges. In a table it is shown as it is: it is not taken for a time and converted again.
\<close>
theorem age_reads_back:
  "\<exists>d h m s. map py_int_str (py_split (CHR '':'') (age now t)) = [Some d, Some h, Some m, Some s] \<and>
    0 \<le> h \<and> h < 24 \<and> 0 \<le> m \<and> m < 60 \<and> 0 \<le> s \<and> s < 60 \<and> ((d * 24 + h) * 60 + m) * 60 + s = \<lfloor>now - t\<rfloor> \<and>
    pretty_cell now1 ''age'' (JStr (age now t)) = Inr (JStr (age now t))"
proof -
  obtain d h m s where f: "age_fields now t = [d, h, m, s]" and r: "0 \<le> h" "h < 24" "0 \<le> m" "m < 60" "0 \<le> s" "s < 60"
      "((d * 24 + h) * 60 + m) * 60 + s = \<lfloor>now - t\<rfloor>"
    using fields_whole by blast
  have "pretty_cell now1 ''age'' (JStr (age now t)) = Inr (JStr (age now t))" by (simp add: pretty_cell_def age_no_int)
  with r show ?thesis by (simp add: age_split f read_fmt02)
qed

lemma mapE_set: "mapE f xs = Inr ys \<Longrightarrow> y \<in> set ys \<Longrightarrow> \<exists>x \<in> set xs. f x = Inr y"
  by (induction xs arbitrary: ys) (auto simp: bindE_eq_Inr)

lemma node_list_rows:
  "node_list K L nc node_id now z = Inr (rows, headers) \<Longrightarrow>
    \<exists>ns vss. mapE (get_node_values L nc now z) ns = Inr vss \<and> rows = map node_row vss"
  by (auto simp: node_list_def map_sum_eq_Inr bindE_eq_Inr simp del: mapE.simps split: option.splits list.splits)

lemma row_port:
  "get_node_values L nc now z n = Inr vs \<Longrightarrow> map_of (node_row vs) ''connection_port'' = Some (shown_port (n_connection_port n))"
  by (auto simp: get_node_values_def bindE_eq_Inr node_row_def node_headers_def)

lemma shown_port_number: "shown_port p \<noteq> JStr ''redacted'' \<Longrightarrow> \<exists>k. py_int (shown_port p) = Inr k"
  by (auto simp: shown_port_def split: sum.splits)

text \<open>
  C33: No row of a listing of nodes, of one node or of all, from the cache or from the server, shows connection
  information that is not a number: the port is redacted unless \<open>int()\<close> accepts it.
\<close>
theorem listed_port_is_number:
  assumes "node_list K L nc node_id now z = Inr (rows, headers)" and "row \<in> set rows"
  shows "\<exists>v. map_of row ''connection_port'' = Some v \<and> (v = JStr ''redacted'' \<or> (\<exists>k. py_int v = Inr k))"
proof -
  from node_list_rows [OF assms(1)] assms(2) obtain ns vss where m: "mapE (get_node_values L nc now z) ns = Inr vss" "row \<in> node_row ` set vss"
    by auto
  from m(2) obtain vs where vs: "row = node_row vs" "vs \<in> set vss" by blast
  from mapE_set [OF m(1) vs(2)] vs(1) obtain n where n: "row = node_row vs" "get_node_values L nc now z n = Inr vs" by blast
  from row_port [OF n(2)] n(1) shown_port_number show ?thesis by blast
qed

definition n_token :: node where
  "n_token = n_ready\<lparr>o_id := Some ''1'', o_state_time := JNum 0, n_connection_port := JDict [(''token'', JStr ''secret'')]\<rparr>"

definition token_cache :: "node cache" where
  "token_cache = (cache_init NODE_ROOT)\<lparr>cached_objects := [([''1''], n_token)]\<rparr>"

theorem listed_port_is_number_witness:
  "\<exists>rows headers row. node_list mem_kazoo mem_locks (Some token_cache) None 60 z_empty = Inr (rows, headers) \<and> row \<in> set rows \<and>
    map_of row ''connection_port'' = Some (JStr ''redacted'') \<and>
    (\<exists>v. map_of row ''connection_port'' = Some v \<and> (v = JStr ''redacted'' \<or> (\<exists>k. py_int v = Inr k)))"
proof -
  have n: "nodeIterator mem_kazoo (Some token_cache) True True 60 z_empty = Inr [n_token]"
    by (simp add: nodeIterator_def node_ids_of_def getCachedNodeIds_def token_cache_def n_token_def getNode_def getCachedNode_def
        cache_get_def somes_def List.map_filter_simps str_id_def)
  obtain vs where vs: "get_node_values mem_locks (Some token_cache) 60 z_empty n_token = Inr vs"
    by (simp add: get_node_values_def node_locked_def n_token_def)
  with n have l: "node_list mem_kazoo mem_locks (Some token_cache) None 60 z_empty = Inr ([node_row vs], node_headers)"
    by (simp add: node_list_def)
  have "map_of (node_row vs) ''connection_port'' = Some (JStr ''redacted'')"
    using row_port [OF vs] by (simp add: n_token_def shown_port_def)
  with l listed_port_is_number [OF l] show ?thesis by auto
qed

subsection \<open>Nodes that are held or deleted\<close>

lemma bind_InrE:
  assumes "eff_bind m f w = (Inr r, w')"
  obtains x v where "m w = (Inr x, v)" "f x v = (Inr r, w')"
  using assms by (auto simp: eff_bind_Inr)

lemma seq_InrE:
  assumes "eff_seq m f w = (Inr r, w')"
  obtains v where "m w = (Inr (), v)" "f v = (Inr r, w')"
  using assms by (auto simp: eff_seq_def eff_bind_Inr)

lemma zw_obj_InrE:
  assumes "zw_obj f ob w = (Inr ob1, w')"
  obtains z where "f ob (zw_zk w) = (None, ob1, z)" "w' = w\<lparr>zw_zk := z\<rparr>"
  using assms by (auto simp: zw_obj_def split: prod.splits option.splits)

lemma zw_read_InrE:
  assumes "zw_read f w = (Inr x, w')"
  obtains "f (zw_zk w) = Inr x" "w' = w"
proof (rule that)
  from assms show "f (zw_zk w) = Inr x" "w' = w" by (auto simp: zw_read_def eff_read_def)
qed

lemma list_nodes_keeps: "list_nodes K L i now w = (Inr r, w') \<Longrightarrow> w' = w"
  by (auto simp: list_nodes_def eff_ret_def elim!: bind_InrE zw_read_InrE)

definition marked :: "zk_state \<Rightarrow> rat \<Rightarrow> string \<Rightarrow> node \<Rightarrow> (string \<Rightarrow> zdata option) \<Rightarrow> (string \<Rightarrow> zdata option) \<Rightarrow> bool" where
  "marked st now i m t t' \<longleftrightarrow>
     t' (nodePath i) = Some (serialize (node_toDict (m\<lparr>o_state := Some st, o_state_time := JNum now\<rparr>))) \<and>
     kept (t(nodePath i := None)) (t'(nodePath i := None))"

lemma store_and_unlock_marks:
  assumes zl: "zk_locks K tree L" and "store_and_unlock K L st now n w = (Inr u, w')" and i: "o_id n = Some i"
    and s: "stored_node (tree (zw_zk w)) i m" and d: "\<And>st tm. node_toDict (n\<lparr>o_state := st, o_state_time := tm\<rparr>) = node_toDict (m\<lparr>o_state := st, o_state_time := tm\<rparr>)"
  shows "marked st now i m (tree (zw_zk w)) (tree (zw_zk w'))"
proof -
  let ?n = "n\<lparr>o_state := Some st, o_state_time := JNum now\<rparr>"
  let ?d = "serialize (node_toDict ?n)"
  from assms(2) obtain n2 n3 w1 w2 where steps: "node_state st now n = Inr ?n" "zw_obj (storeNode K now) ?n w = (Inr n2, w1)"
      "zw_obj (unlockNode L) n2 w1 = (Inr n3, w2)" "w' = w2"
    by (auto simp: store_and_unlock_def eff_lift_def eff_ret_def node_state_def elim!: bind_InrE split: if_splits)
  from zl have ks: "zk_server K tree" by (simp add: zk_locks_def)
  have sl: "slash \<notin> set i" "i \<noteq> []" "tree (zw_zk w) (nodePath i) \<noteq> None" using s by (simp_all add: stored_node_def)
  from zk_server.set_there [OF ks sl(3), of ?d] obtain z1
    where z1: "kz_set K (nodePath i) ?d (zw_zk w) = Inr z1" "tree z1 = (tree (zw_zk w))(nodePath i \<mapsto> ?d)" by blast
  have "storeNode K now ?n (zw_zk w) = (None, ?n, z1)" using storeNode_existing [of ?n i K now "zw_zk w"] i sl(2) z1(1) by simp
  with steps(2) have w1: "n2 = ?n" "zw_zk w1 = z1" by (auto elim!: zw_obj_InrE)
  from steps(3) obtain z2 where z2: "unlockNode L n2 z1 = (None, n3, z2)" "zw_zk w2 = z2"
    using w1(2) by (auto elim!: zw_obj_InrE)
  from zk_locks.unlockNode_kept [OF zl z2(1)] i w1(1) sl(1) have k: "kept (tree z1) (tree z2)" by simp
  have "tree z2 (nodePath i) = Some ?d" using kept_node [OF k sl(1)] z1(2) by simp
  moreover have "kept ((tree (zw_zk w))(nodePath i := None)) ((tree z2)(nodePath i := None))"
    using kept_except [OF k, of "nodePath i"] z1(2) by simp
  ultimately show ?thesis using z2(2) steps(4) d by (simp add: marked_def)
qed

lemma lock_for_command_stored:
  assumes zl: "zk_locks K tree L" and "lock_for_command K L freed now n w = (Inr n1, w1)" and "o_id n = Some i"
    and "stored_node (tree (zw_zk w)) i m"
  shows "o_id n1 = Some i \<and> stored_node (tree (zw_zk w1)) i m \<and> kept (tree (zw_zk w)) (tree (zw_zk w1)) \<and>
    (\<forall>st tm. node_toDict (n1\<lparr>o_state := st, o_state_time := tm\<rparr>) = node_toDict (m\<lparr>o_state := st, o_state_time := tm\<rparr>))"
proof -
  from assms(2) obtain z where l: "lockNode K L n True (Some 5) True None freed now (zw_zk w) = (None, n1, z)" "w1 = w\<lparr>zw_zk := z\<rparr>"
    by (auto simp: lock_for_command_def elim!: zw_obj_InrE)
  from zk_locks.lockNode_stored [OF zl l(1) assms(3,4)] obtain st where
    "n1 = m\<lparr>o_id := Some i, o_stat := Some st, n_lock := True, n_thread_lock := True, n_lock_contenders := n_lock_contenders n\<rparr>" by blast
  moreover from zk_locks.lockNode_kept [OF zl l(1) assms(3)] assms(4) have k: "kept (tree (zw_zk w)) (tree z)"
    by (simp add: stored_node_def)
  ultimately show ?thesis using kept_stored [OF k assms(4)] l(2) by (simp add: node_toDict_def base_toDict_def)
qed

lemma kept_marked: "kept t t1 \<Longrightarrow> marked st now i m t1 t2 \<Longrightarrow> marked st now i m t t2"
  unfolding marked_def by (blast intro: kept_trans kept_except)

lemma found_node:
  assumes ks: "zk_server K tree" and "stored_node (tree z) i m"
  shows "\<exists>n. getNode K None i False False now z = Inr (Some n) \<and> o_id n = Some i"
  using zk_server.getNode_there [OF ks, of z i m None False now] assms(2) by (auto simp: stored_node_def node_reread_def)

text \<open>
  C31: \<open>hold\<close>, and \<open>delete\<close> without \<open>--now\<close>, of a node ZooKeeper has: when the command returns, the node is stored in the state
  asked for, with that time and every other attribute as it was when its lock was taken, and no other
  payload outside the subtrees of node locks changed.
\<close>
theorem command_marks_node:
  assumes "zk_server K tree" and "lock_recipe L tree" and "stored_node (tree (zw_zk w)) i m"
    and "cmd = cmd_hold K L i freed now \<and> st = HOLD \<or> cmd = cmd_delete K L providers cleanup i False freed now \<and> st = DELETING"
    and "cmd w = (Inr r, w')"
  shows "marked st now i m (tree (zw_zk w)) (tree (zw_zk w'))"
proof -
  have zl: "zk_locks K tree L" using assms(1,2) by (simp add: zk_locks_def)
  from found_node [OF assms(1,3)] obtain n where n: "getNode K None i False False now (zw_zk w) = Inr (Some n)" "o_id n = Some i" by blast
  from assms(4,5) n(1) obtain n1 w1 where steps: "lock_for_command K L freed now n w = (Inr n1, w1)"
      "eff_seq (store_and_unlock K L st now n1) (list_nodes K L (o_id n1) now) w1 = (Inr r, w')"
    by (auto simp: cmd_hold_def cmd_delete_def elim!: bind_InrE zw_read_InrE)
  from steps(2) obtain w2 where w2: "store_and_unlock K L st now n1 w1 = (Inr (), w2)" "w' = w2"
    by (auto elim!: seq_InrE dest: list_nodes_keeps)
  from lock_for_command_stored [OF zl steps(1) n(2) assms(3)]
  have l: "o_id n1 = Some i" "stored_node (tree (zw_zk w1)) i m" "kept (tree (zw_zk w)) (tree (zw_zk w1))"
    "\<And>st tm. node_toDict (n1\<lparr>o_state := st, o_state_time := tm\<rparr>) = node_toDict (m\<lparr>o_state := st, o_state_time := tm\<rparr>)" by auto
  from kept_marked [OF l(3) store_and_unlock_marks [OF zl w2(1) l(1,2,4)]] w2(2) show ?thesis by simp
qed

definition w_node :: "mem_zk zk_world" where
  "w_node = \<lparr> zw_zk = z_node \<rparr>"

lemma hold_runs: "case fst (cmd_hold mem_kazoo mem_locks ''1'' False 9 w_node) of Inl e \<Rightarrow> False | Inr r \<Rightarrow> True"
  by code_simp

theorem command_marks_node_witness:
  "\<exists>r w'. cmd_hold mem_kazoo mem_locks ''1'' False 9 w_node = (Inr r, w') \<and>
    marked HOLD 9 ''1'' n_ready (mem_tree z_node) (mem_tree (zw_zk w'))"
proof -
  obtain r w' where h: "cmd_hold mem_kazoo mem_locks ''1'' False 9 w_node = (Inr r, w')"
    using hold_runs by (cases "cmd_hold mem_kazoo mem_locks ''1'' False 9 w_node") (auto split: sum.splits)
  have "stored_node (mem_tree (zw_zk w_node)) ''1'' n_ready" using z_node_stored by (simp add: w_node_def)
  from command_marks_node [where cmd = "cmd_hold mem_kazoo mem_locks ''1'' False 9" and K = mem_kazoo and L = mem_locks and st = HOLD,
      OF mem.zk_server_axioms mem_lock.lock_recipe_axioms this] h show ?thesis
    by (simp add: w_node_def)
qed

subsection \<open>Builds that are deleted\<close>

lemma rsplit1_append:
  assumes "c \<notin> set b"
  shows "rsplit1 c (a @ c # b) = Inr (a, b)"
proof -
  have "takeWhile (\<lambda>x. x \<noteq> c) (rev (a @ c # b)) = rev b"
    unfolding rev_append rev.simps append_assoc by (subst takeWhile_append2) (use assms in auto)
  then show ?thesis by (simp add: rsplit1_def)
qed

lemma set_state_fields:
  "set_state valid v now ob = Inr ob1 \<Longrightarrow> \<exists>st tm. ob1 = ob\<lparr>o_state := st, o_state_time := tm\<rparr>"
  by (auto simp: set_state_def split: json.splits option.splits if_splits)

lemma getBuild_shape:
  assumes "getBuild K img i now z = Inr (Some b)"
  shows "ib_image_name b = JStr img \<and> o_id b = Some i \<and> (\<forall>f \<in> set (ib_formats b). CHR '','' \<notin> set f) \<and> ib_formats b \<noteq> [[]]"
proof -
  from assms obtain d b0 st where d: "image_build_fromDict d (JStr img) (Some i) now = Inr b0" "b = b0\<lparr>o_stat := Some st\<rparr>"
    by (auto simp: getBuild_def bindE_def split: sum.splits pyexc.splits prod.splits)
  have split: "py_split c s \<noteq> [[]]" if "s \<noteq> []" for c s
    using that by (cases s) (auto split: list.splits)
  from d show ?thesis
    by (auto simp: image_build_fromDict_def image_build_updateFromDict_def from_upd_def image_build_init_def base_updateFromDict_def Let_def
        split split: prod.splits option.splits if_splits json.splits sum.splits dest!: set_state_fields dest: py_split_free_parts)
qed

text \<open>
  C32: The id the listing of builds shows names the build to \<open>dib-image-delete\<close>: whatever dashes the image's
  name has (an id of a build has none), unless the build is still being built, the command marks that very build \<open>DELETING\<close> and keeps its
  formats.
\<close>
theorem listed_build_deleted:
  assumes "zk_server K tree" and "CHR ''-'' \<notin> set i" and "getBuild K img i now (zw_zk w) = Inr (Some b)"
    and "build_row paused b = Inr row" and "dget row ''id'' = JStr arg" and "o_state b \<noteq> Some BUILDING"
    and "cmd_dib_image_delete K arg now w = (Inr r, w')"
  shows "\<exists>b1. getBuild K img i now1 (zw_zk w') = Inr (Some b1) \<and> o_state b1 = Some DELETING \<and> formats b1 = formats b"
proof -
  note sh = getBuild_shape [OF assms(3)]
  let ?b = "b\<lparr>o_state := Some DELETING, o_state_time := JNum now\<rparr>"
  have "arg = img @ CHR ''-'' # i" using assms(4,5) sh by (auto simp: build_row_def bindE_eq_Inr)
  then have split: "rsplit1 (CHR ''-'') arg = Inr (img, i)" using rsplit1_append [OF assms(2)] by simp
  from assms(7) split assms(3,6) have "store_deleting_build K img b now w = (Inr (), w')"
    by (auto simp: cmd_dib_image_delete_def eff_lift_def eff_ret_def elim!: bind_InrE seq_InrE zw_read_InrE)
  then have "map_sum id snd (storeBuild K img ?b (Some i) [] (zw_zk w)) = Inr (zw_zk w')"
    using sh by (auto simp: store_deleting_build_def eff_lift_def zw_write_def IMAGE_BUILD_STATES_def simp del: state_str.simps elim!: bind_InrE split: sum.splits)
  then obtain j where j: "storeBuild K img ?b (Some i) [] (zw_zk w) = Inr (j, zw_zk w')" by (auto simp: map_sum_eq_Inr)
  then have "j = i" by (auto simp: storeBuild_def Let_def map_sum_eq_Inr)
  have "build_good ?b" using sh by (simp add: build_good_def IMAGE_BUILD_STATES_def)
  from zk_server.storeBuild_law [OF assms(1) j this, of now1] \<open>j = i\<close> show ?thesis
    by (auto simp: build_reread_def formats_def sorted_sort_id)
qed

definition z_built :: mem_zk where
  "z_built = \<lparr> mz_nodes = [(imageBuildsPath ''my-img'' @ ''/u1'',
      \<lparr> mn_data = serialize (image_build_toDict b_ready), mn_created = 0, mn_mzxid = 1, mn_mtime = 0, mn_creates = 0 \<rparr>)], mz_zxid = 1, mz_clock = 0 \<rparr>"

lemma built_delete_runs:
  "case fst (cmd_dib_image_delete mem_kazoo ''my-img-u1'' 9 \<lparr> zw_zk = z_built \<rparr>) of Inl e \<Rightarrow> False | Inr r \<Rightarrow> True"
  "case getBuild mem_kazoo ''my-img'' ''u1'' 9 z_built of
     Inr (Some b) \<Rightarrow> o_state b = Some READY \<and> (case build_row [] b of Inr row \<Rightarrow> dget row ''id'' = JStr ''my-img-u1'' | _ \<Rightarrow> False) | _ \<Rightarrow> False"
  by code_simp+

lemma ok_some: "case x of Inr (Some b) \<Rightarrow> P b | _ \<Rightarrow> False \<Longrightarrow> \<exists>b. x = Inr (Some b) \<and> P b"
  by (auto split: sum.splits option.splits)

theorem listed_build_deleted_witness:
  "\<exists>r w' b1. cmd_dib_image_delete mem_kazoo ''my-img-u1'' 9 \<lparr> zw_zk = z_built \<rparr> = (Inr r, w') \<and>
    getBuild mem_kazoo ''my-img'' ''u1'' 10 (zw_zk w') = Inr (Some b1) \<and> o_state b1 = Some DELETING"
proof -
  obtain r w' where c: "cmd_dib_image_delete mem_kazoo ''my-img-u1'' 9 \<lparr> zw_zk = z_built \<rparr> = (Inr r, w')"
    using built_delete_runs(1) by (cases "cmd_dib_image_delete mem_kazoo ''my-img-u1'' 9 \<lparr> zw_zk = z_built \<rparr>") (auto split: sum.splits)
  obtain b where g: "getBuild mem_kazoo ''my-img'' ''u1'' 9 z_built = Inr (Some b)" "o_state b = Some READY"
      "case build_row [] b of Inr row \<Rightarrow> dget row ''id'' = JStr ''my-img-u1'' | _ \<Rightarrow> False"
    using ok_some [OF built_delete_runs(2)] by blast
  then obtain row where row: "build_row [] b = Inr row" "dget row ''id'' = JStr ''my-img-u1''" by (auto split: sum.split_asm)
  have b: "getBuild mem_kazoo ''my-img'' ''u1'' 9 (zw_zk \<lparr> zw_zk = z_built \<rparr>) = Inr (Some b)" "o_state b \<noteq> Some BUILDING"
    using g by simp_all
  have "CHR ''-'' \<notin> set ''u1''" by simp
  from listed_build_deleted [OF mem.zk_server_axioms this b(1) row b(2) c, of 10] c show ?thesis by blast
qed

subsection \<open>The choice of a command\<close>

text \<open>
  Of the commands the parser accepts, the test for a part of \<open>'config-validate'\<close> holds for that command only,
  and all others, and only they, have a connection to ZooKeeper.
\<close>
theorem every_command_connected:
  "list_all (\<lambda>c. c \<noteq> [] \<and> (sublist c ''config-validate'' \<longleftrightarrow> c = ''config-validate'') \<and>
     (c \<in> set zk_commands \<longleftrightarrow> c \<noteq> ''config-validate'')) parser_commands"
  by code_simp

end
