(* ===== verification/K8sConfig.thy ===== *)
theory K8sConfig
  imports K8sLauncher
begin

section \<open>Configuration of the Kubernetes and OpenShift drivers\<close>

text \<open>
  \<open>driver/kubernetes/config.py\<close>, \<open>driver/openshift/config.py\<close> and \<open>driver/openshiftpods/config.py\<close>, over the
  values of the configuration file: how a provider's section becomes its pools and labels, and the names of the options
  the schemas accept (the types of their values are left to the schema library). A limit is a number
  or, by default, infinite.
\<close>

subsection \<open>Limits and resources\<close>

definition limit_or :: "pydict \<Rightarrow> string \<Rightarrow> num \<Rightarrow> num res" where
  "limit_or d k default_limit = (case map_of d k of None \<Rightarrow> Inr default_limit | Some v \<Rightarrow> limit_of v)"

text \<open>\<open>resources.update(v)\<close>.\<close>

definition resource_update :: "(string \<times> num) list \<Rightarrow> json \<Rightarrow> (string \<times> num) list res" where
  "resource_update resources v =
     bindE (Config.dict_of v) (\<lambda>d. foldE (\<lambda>(k, x) acc. bindE (limit_of x) (\<lambda>n. Inr (AList.update k n acc))) d resources)"

text \<open>The format strings of the dynamic labels.\<close>

fun format_strings :: "pydict \<Rightarrow> (string \<times> string) list res" where
  "format_strings [] = Inr []"
| "format_strings ((k, v) # d) = bindE (name_of v) (\<lambda>s. map_sum id (Cons (k, s)) (format_strings d))"

subsection \<open>Labels and pools\<close>

text \<open>A label; \<open>ocp\<close> is the driver for OpenShift, which alone has pull secrets.\<close>

definition load_label :: "bool \<Rightarrow> pydict \<Rightarrow> pydict \<Rightarrow> k8s_label res" where
  "load_label ocp pool_config label =
     bindE (bindE (key_of label ''name'') name_of) (\<lambda>name.
     bindE (bindE (key_of label ''type'') name_of) (\<lambda>type.
     bindE (resource_update [] (dget_or pool_config ''default-label-extra_resources'' (JDict []))) (\<lambda>default_extra.
     bindE (resource_update default_extra (dget_or label ''extra-resources'' (JDict []))) (\<lambda>extra_resources.
     bindE (bindE (Config.dict_of (dget_or label ''dynamic-labels'' (JDict []))) format_strings) (\<lambda>dynamic_labels.
       let cpu = dget_or label ''cpu'' (dget pool_config ''default-label-cpu'');
           memory = dget_or label ''memory'' (dget pool_config ''default-label-memory'');
           storage = dget_or label ''storage'' (dget pool_config ''default-label-storage'');
           default_cpu_limit = dget_or pool_config ''default-label-cpu-limit'' cpu;
           default_memory_limit = dget_or pool_config ''default-label-memory-limit'' memory;
           default_storage_limit = dget_or pool_config ''default-label-storage-limit'' storage
       in Inr \<lparr> kl_name = name, kl_type = type, kl_spec = dget label ''spec'', kl_image = dget label ''image'',
            kl_image_pull = dget_or label ''image-pull'' (JStr ''IfNotPresent''),
            kl_image_pull_secrets = (if ocp then dget_or label ''image-pull-secrets'' (JList []) else JList []),
            kl_python_path = dget_or label ''python-path'' (JStr ''auto''), kl_shell_type = dget label ''shell-type'',
            kl_cpu = cpu, kl_memory = memory, kl_storage = storage,
            kl_cpu_limit = dget_or label ''cpu-limit'' default_cpu_limit,
            kl_memory_limit = dget_or label ''memory-limit'' default_memory_limit,
            kl_storage_limit = dget_or label ''storage-limit'' default_storage_limit,
            kl_gpu = dget label ''gpu'', kl_gpu_resource = dget label ''gpu-resource'',
            kl_env = dget_or label ''env'' (JList []), kl_node_selector = dget label ''node-selector'',
            kl_privileged = dget label ''privileged'', kl_scheduler_name = dget label ''scheduler-name'',
            kl_volumes = dget label ''volumes'', kl_volume_mounts = dget label ''volume-mounts'',
            kl_labels = dget label ''labels'', kl_dynamic_labels = dynamic_labels, kl_annotations = dget label ''annotations'',
            kl_extra_resources = extra_resources \<rparr>)))))"

text \<open>The limits of the provider, which its pools start from.\<close>

record k8s_limits =
  li_max_servers :: num
  li_max_cores :: num
  li_max_ram :: num
  li_max_resources :: "(string \<times> num) list"

text \<open>\<open>full_config.labels[name].pools.append(self)\<close>.\<close>

definition register_pool :: "string \<Rightarrow> string \<Rightarrow> 'p nodepool_config \<Rightarrow> 'p nodepool_config res" where
  "register_pool label_name pool_name c =
     (case map_of (cf_labels c) label_name of
        None \<Rightarrow> Inl KeyError
      | Some r \<Rightarrow> Inr (c\<lparr>cf_labels := AList.update label_name (r\<lparr>lr_pools := lr_pools r @ [pool_name]\<rparr>) (cf_labels c)\<rparr>))"

definition load_labels ::
  "bool \<Rightarrow> string \<Rightarrow> pydict \<Rightarrow> pydict list \<Rightarrow> (string \<times> k8s_label) list \<times> 'p nodepool_config \<Rightarrow>
     ((string \<times> k8s_label) list \<times> 'p nodepool_config) res" where
  "load_labels ocp pool_name pool_config =
     foldE (\<lambda>label (labels, c).
       bindE (load_label ocp pool_config label) (\<lambda>pl.
       bindE (register_pool (kl_name pl) pool_name c) (\<lambda>c1. Inr (AList.update (kl_name pl) pl labels, c1))))"

definition load_pool ::
  "bool \<Rightarrow> k8s_limits \<Rightarrow> pydict \<Rightarrow> 'p nodepool_config \<Rightarrow> (k8s_pool \<times> 'p nodepool_config) res" where
  "load_pool ocp limits pool_config c =
     bindE (bindE (key_of pool_config ''name'') name_of) (\<lambda>name.
     bindE (limit_or pool_config ''max-servers'' (if ocp then li_max_servers limits else PosInf)) (\<lambda>servers.
     bindE (limit_or pool_config ''max-cores'' (li_max_cores limits)) (\<lambda>cores.
     bindE (limit_or pool_config ''max-ram'' (li_max_ram limits)) (\<lambda>ram.
     bindE (resource_update (li_max_resources limits) (dget_or pool_config ''max-resources'' (JDict []))) (\<lambda>resources.
     bindE (bindE (py_iter (dget_or pool_config ''labels'' (JList []))) dicts_of) (\<lambda>labels.
     bindE (load_labels ocp name pool_config labels ([], c)) (\<lambda>(pls, c1).
       Inr (\<lparr> kp_name = name, kp_labels = pls, kp_max_servers = servers, kp_max_cores = Some cores, kp_max_ram = Some ram,
              kp_max_resources = resources, kp_ignore_provider_quota = False \<rparr>, c1))))))))"

subsection \<open>Providers\<close>

datatype k8s_driver = Kubernetes | Openshift | OpenshiftPods

definition load_limits :: "k8s_driver \<Rightarrow> pydict \<Rightarrow> k8s_limits res" where
  "load_limits drv provider =
     bindE (limit_or provider ''max-servers'' PosInf) (\<lambda>max_servers.
     bindE (if drv = Kubernetes then Inr max_servers else limit_or provider ''max-projects'' max_servers) (\<lambda>servers.
     bindE (limit_or provider ''max-cores'' PosInf) (\<lambda>cores.
     bindE (limit_or provider ''max-ram'' PosInf) (\<lambda>ram.
     bindE (resource_update [] (dget_or provider ''max-resources'' (JDict []))) (\<lambda>resources.
       Inr \<lparr> li_max_servers = servers, li_max_cores = cores, li_max_ram = ram, li_max_resources = resources \<rparr>)))))"

text \<open>The driver for pods makes every label of the pool one of type \<open>pod\<close>.\<close>

definition force_pods :: "pydict \<Rightarrow> pydict res" where
  "force_pods pool =
     bindE (bindE (py_iter (dget_or pool ''labels'' (JList []))) dicts_of) (\<lambda>labels.
       Inr (if dhas pool ''labels''
            then AList.update ''labels'' (JList (map (\<lambda>l. JDict (AList.update ''type'' (JStr ''pod'') l)) labels)) pool
            else pool))"

definition load_pools ::
  "k8s_driver \<Rightarrow> k8s_limits \<Rightarrow> pydict list \<Rightarrow> (string \<times> k8s_pool) list \<times> 'p nodepool_config \<Rightarrow>
     ((string \<times> k8s_pool) list \<times> 'p nodepool_config) res" where
  "load_pools drv limits =
     foldE (\<lambda>pool (pools, c).
       bindE (if drv = OpenshiftPods then force_pods pool else Inr pool) (\<lambda>pool_config.
       bindE (load_pool (drv \<noteq> Kubernetes) limits pool_config c) (\<lambda>(pp, c1).
         Inr (AList.update (kp_name pp) pp pools, c1))))"

definition k8s_load ::
  "k8s_driver \<Rightarrow> (string \<Rightarrow> pydict \<Rightarrow> string res) \<Rightarrow> pydict \<Rightarrow> 'p nodepool_config \<Rightarrow> (k8s_config \<times> 'p nodepool_config) res" where
  "k8s_load drv fmt provider c =
     bindE (bindE (key_of provider ''name'') name_of) (\<lambda>name.
     bindE (py_int (dget_or provider ''launch-retries'' (JNum 3))) (\<lambda>retries.
     bindE (if drv = Kubernetes then Inr (dget provider ''context'') else key_of provider ''context'') (\<lambda>context.
     bindE (load_limits drv provider) (\<lambda>limits.
     bindE (bindE (py_iter (dget_or provider ''pools'' (JList []))) dicts_of) (\<lambda>pools.
     bindE (load_pools drv limits pools ([], c)) (\<lambda>(pps, c1).
       Inr (\<lparr> kc_name = name, kc_context = context, kc_launch_retries = retries, kc_pools = pps, kc_format = fmt \<rparr>, c1)))))))"

text \<open>The classes of the drivers for OpenShift are copies of the ones for Kubernetes with these differences.\<close>

definition openshift_load_pool :: "k8s_limits \<Rightarrow> pydict \<Rightarrow> 'p nodepool_config \<Rightarrow> (k8s_pool \<times> 'p nodepool_config) res" where
  "openshift_load_pool = load_pool True"

definition openshift_load ::
  "(string \<Rightarrow> pydict \<Rightarrow> string res) \<Rightarrow> pydict \<Rightarrow> 'p nodepool_config \<Rightarrow> (k8s_config \<times> 'p nodepool_config) res" where
  "openshift_load = k8s_load Openshift"

definition openshiftpods_load ::
  "(string \<Rightarrow> pydict \<Rightarrow> string res) \<Rightarrow> pydict \<Rightarrow> 'p nodepool_config \<Rightarrow> (k8s_config \<times> 'p nodepool_config) res" where
  "openshiftpods_load = k8s_load OpenshiftPods"

text \<open>\<open>getSupportedLabels\<close>, of one pool or of all.\<close>

definition k8s_supported_labels :: "k8s_config \<Rightarrow> string option \<Rightarrow> string list" where
  "k8s_supported_labels cfg pool_name =
     remdups (concat (map (\<lambda>(k, p). if pool_name = None \<or> pool_name = Some [] \<or> pool_name = Some (kp_name p)
        then map fst (kp_labels p) else []) (kc_pools cfg)))"

subsection \<open>The options the schemas accept\<close>

text \<open>The names of the options, and whether they are required.\<close>

type_synonym schema = "(string \<times> bool) list"

definition keys_ok :: "schema \<Rightarrow> pydict \<Rightarrow> bool" where
  "keys_ok schema d \<longleftrightarrow>
     list_all (\<lambda>(k, v). map_of schema k \<noteq> None) d \<and> list_all (\<lambda>(k, required). required \<longrightarrow> dhas d k) schema"

definition optional :: "string list \<Rightarrow> schema" where "optional ks = map (\<lambda>k. (k, False)) ks"

definition required :: "string list \<Rightarrow> schema" where "required ks = map (\<lambda>k. (k, True)) ks"

definition common_pool_schema :: schema where
  "common_pool_schema = optional [''max-servers'', ''node-attributes'', ''priority'']"

definition common_provider_schema :: schema where
  "common_provider_schema = required [''name''] @ optional [''driver'', ''max-concurrency'', ''priority'']"

definition k8s_pool_schema :: schema where
  "k8s_pool_schema =
     common_pool_schema @ required [''name'', ''labels''] @
     optional [''max-cores'', ''max-ram'', ''max-resources'', ''default-label-cpu'', ''default-label-memory'',
       ''default-label-storage'', ''default-label-cpu-limit'', ''default-label-memory-limit'', ''default-label-storage-limit'',
       ''default-label-extra-resources'']"

definition k8s_provider_schema :: "k8s_driver \<Rightarrow> schema" where
  "k8s_provider_schema drv =
     common_provider_schema @ required [''pools''] @
     (case drv of
        Kubernetes \<Rightarrow> optional [''context'', ''launch-retries'', ''max-servers'']
      | Openshift \<Rightarrow> required [''context''] @ optional [''launch-retries'', ''max-projects'']
      | OpenshiftPods \<Rightarrow> required [''context''] @ optional [''launch-retries'', ''max-pods'']) @
     optional [''max-cores'', ''max-ram'', ''max-resources'']"

definition k8s_label_schema :: "k8s_driver \<Rightarrow> schema" where
  "k8s_label_schema drv =
     (if drv = OpenshiftPods then required [''name'', ''image''] else required [''name'', ''type''] @ optional [''image'']) @
     optional [''image-pull'', ''python-path'', ''shell-type'', ''cpu'', ''memory'', ''storage'', ''cpu-limit'', ''memory-limit'',
       ''storage-limit'', ''gpu'', ''gpu-resource'', ''env'', ''node-selector'', ''privileged'', ''scheduler-name'', ''volumes'',
       ''volume-mounts'', ''labels'', ''dynamic-labels'', ''annotations'', ''extra-resources''] @
     (if drv = Kubernetes then [] else optional [''image-pull-secrets''])"

definition k8s_user_label_schema :: "k8s_driver \<Rightarrow> schema" where
  "k8s_user_label_schema drv =
     required ([''name''] @ (if drv = OpenshiftPods then [] else [''type'']) @ [''spec'']) @
     optional [''labels'', ''dynamic-labels'', ''annotations'']"

definition openshift_label_schema :: schema where
  "openshift_label_schema = k8s_label_schema Openshift"

definition openshiftpods_label_schema :: schema where
  "openshiftpods_label_schema = k8s_label_schema OpenshiftPods"

definition openshift_provider_schema :: schema where
  "openshift_provider_schema = k8s_provider_schema Openshift"

definition openshiftpods_provider_schema :: schema where
  "openshiftpods_provider_schema = k8s_provider_schema OpenshiftPods"

subsection \<open>What a configuration gives\<close>

lemma keys_ok_key: "keys_ok schema d \<Longrightarrow> map_of schema k = None \<Longrightarrow> dget_or d k v = v \<and> map_of d k = None"
proof -
  assume a: "keys_ok schema d" "map_of schema k = None"
  have "map_of d k = None"
  proof (rule ccontr)
    assume "map_of d k \<noteq> None"
    then obtain x where "(k, x) \<in> set d" by (auto dest: map_of_SomeD)
    with a show False by (auto simp: keys_ok_def list_all_iff)
  qed
  then show ?thesis by (simp add: dget_or_def)
qed

lemma load_label_fields:
  assumes "load_label ocp pool_config label = Inr l"
  shows "kl_cpu l = dget_or label ''cpu'' (dget pool_config ''default-label-cpu'')"
    and "kl_cpu_limit l = dget_or label ''cpu-limit'' (dget_or pool_config ''default-label-cpu-limit'' (kl_cpu l))"
    and "kl_memory l = dget_or label ''memory'' (dget pool_config ''default-label-memory'')"
    and "kl_memory_limit l = dget_or label ''memory-limit'' (dget_or pool_config ''default-label-memory-limit'' (kl_memory l))"
    and "kl_storage l = dget_or label ''storage'' (dget pool_config ''default-label-storage'')"
    and "kl_storage_limit l = dget_or label ''storage-limit'' (dget_or pool_config ''default-label-storage-limit'' (kl_storage l))"
    and "map_of label ''name'' = Some (JStr (kl_name l))" and "map_of label ''type'' = Some (JStr (kl_type l))"
  using assms by (auto simp: load_label_def bindE_eq_Inr Let_def key_of_def elim!: name_of.elims split: option.splits)

definition offers :: "'p nodepool_config \<Rightarrow> string \<Rightarrow> string \<Rightarrow> bool" where
  "offers c label_name pool_name \<longleftrightarrow> (\<exists>r. map_of (cf_labels c) label_name = Some r \<and> pool_name \<in> set (lr_pools r))"

lemma register_pool_offers:
  assumes "register_pool l p c = Inr c1"
  shows "offers c1 k q \<longleftrightarrow> offers c k q \<or> k = l \<and> q = p"
  using assms by (auto simp: register_pool_def offers_def update_conv' split: option.splits if_splits)

text \<open>What a section itself says: the dictionaries listed under a key, their names, and the labels of a pool.\<close>

definition items_of :: "pydict \<Rightarrow> string \<Rightarrow> pydict list" where
  "items_of d k = (case map_of d k of
     Some (JList xs) \<Rightarrow> List.map_filter (\<lambda>x. case x of JDict e \<Rightarrow> Some e | _ \<Rightarrow> None) xs | _ \<Rightarrow> [])"

definition named :: "string \<Rightarrow> pydict \<Rightarrow> bool" where
  "named s d \<longleftrightarrow> map_of d ''name'' = Some (JStr s)"

definition label_names :: "pydict \<Rightarrow> string set" where
  "label_names pool = {l. \<exists>d \<in> set (items_of pool ''labels''). named l d}"

lemma dicts_of_eq: "dicts_of xs = Inr ds \<Longrightarrow> xs = map JDict ds"
proof (induction xs arbitrary: ds)
  case (Cons x xs)
  then show ?case by (cases x) (auto simp: bindE_eq_Inr)
qed simp

lemma map_filter_dicts: "List.map_filter (\<lambda>x. case x of JDict e \<Rightarrow> Some e | _ \<Rightarrow> None) (map JDict ds) = ds"
  by (induction ds) (simp_all add: List.map_filter_simps)

lemma items_read:
  assumes "bindE (py_iter (dget_or d k (JList []))) dicts_of = Inr ds"
  shows "items_of d k = ds"
proof (cases "map_of d k")
  case None
  with assms show ?thesis by (simp add: items_of_def dget_or_def)
next
  case (Some v)
  with assms obtain xs where xs: "py_iter v = Inr xs" "dicts_of xs = Inr ds"
    by (auto simp: dget_or_def bindE_eq_Inr)
  note eq = dicts_of_eq [OF xs(2)]
  have none: "(map (\<lambda>z. JStr (g z)) zs :: json list) = map JDict ds \<Longrightarrow> ds = []" for g and zs :: "'z list"
    by (cases zs; cases ds) simp_all
  from eq xs(1) Some none [of "\<lambda>c. [c]"] none [of fst] show ?thesis
    by (cases v) (auto simp: items_of_def map_filter_dicts)
qed

lemma load_label_named: "load_label ocp pool_config d = Inr l \<Longrightarrow> named k d \<longleftrightarrow> k = kl_name l"
  using load_label_fields(7) [of ocp pool_config d l] by (auto simp: named_def)

lemma load_labels_exact:
  "load_labels ocp p pool_config ls (acc, c) = Inr (pls, c1) \<Longrightarrow>
    fst ` set pls = fst ` set acc \<union> {l. \<exists>d \<in> set ls. named l d} \<and>
    (\<forall>l q. offers c1 l q \<longleftrightarrow> offers c l q \<or> q = p \<and> (\<exists>d \<in> set ls. named l d))"
proof (induction ls arbitrary: acc c)
  case (Cons x ls)
  then obtain pl c2 where pl: "load_label ocp pool_config x = Inr pl" and s: "register_pool (kl_name pl) p c = Inr c2"
      "load_labels ocp p pool_config ls (AList.update (kl_name pl) pl acc, c2) = Inr (pls, c1)"
    by (auto simp: load_labels_def bindE_eq_Inr)
  have d: "fst ` set (AList.update (kl_name pl) pl acc) = insert (kl_name pl) (fst ` set acc)"
    using dom_update [of "kl_name pl" pl acc] by (simp add: dom_map_of_conv_image_fst)
  from Cons.IH [OF s(2)] register_pool_offers [OF s(1)] load_label_named [OF pl] show ?case
    unfolding d by auto
qed (simp add: load_labels_def)

lemma load_pool_exact:
  assumes "load_pool ocp limits pool_config c = Inr (p, c1)"
  shows "named k pool_config \<longleftrightarrow> k = kp_name p" and "fst ` set (kp_labels p) = label_names pool_config"
    and "offers c1 l q \<longleftrightarrow> offers c l q \<or> q = kp_name p \<and> l \<in> label_names pool_config"
proof -
  from assms have n: "bindE (key_of pool_config ''name'') name_of = Inr (kp_name p)"
    by (auto simp: load_pool_def bindE_eq_Inr)
  then show "named k pool_config \<longleftrightarrow> k = kp_name p"
    by (auto simp: bindE_eq_Inr key_of_def named_def elim!: name_of.elims split: option.splits)
  from assms obtain ls where
      i: "bindE (py_iter (dget_or pool_config ''labels'' (JList []))) dicts_of = Inr ls"
      and l: "load_labels ocp (kp_name p) pool_config ls ([], c) = Inr (kp_labels p, c1)"
    by (auto simp: load_pool_def bindE_eq_Inr)
  note ex = load_labels_exact [OF l, folded items_read [OF i]]
  then show "fst ` set (kp_labels p) = label_names pool_config" by (simp add: label_names_def)
  from ex show "offers c1 l q \<longleftrightarrow> offers c l q \<or> q = kp_name p \<and> l \<in> label_names pool_config"
    by (simp add: label_names_def)
qed

lemma force_pods_same:
  assumes "force_pods pool = Inr pool1"
  shows "named k pool1 = named k pool" and "label_names pool1 = label_names pool"
proof -
  from assms obtain ls where i: "bindE (py_iter (dget_or pool ''labels'' (JList []))) dicts_of = Inr ls"
    and p: "pool1 = (if dhas pool ''labels''
        then AList.update ''labels'' (JList (map (\<lambda>l. JDict (AList.update ''type'' (JStr ''pod'') l)) ls)) pool else pool)"
    by (auto simp: force_pods_def bindE_eq_Inr)
  show "named k pool1 = named k pool" by (simp add: p named_def update_conv')
  have "items_of (AList.update ''labels'' (JList (map (\<lambda>l. JDict (AList.update ''type'' (JStr ''pod'') l)) ls)) pool) ''labels'' =
      map (AList.update ''type'' (JStr ''pod'')) ls"
    using map_filter_dicts [of "map (AList.update ''type'' (JStr ''pod'')) ls"]
    by (simp add: items_of_def update_conv' o_def)
  then show "label_names pool1 = label_names pool"
    by (simp add: p label_names_def items_read [OF i] named_def update_conv')
qed

lemma find_snoc: "find P (xs @ [x]) = (case find P xs of None \<Rightarrow> if P x then Some x else None | Some y \<Rightarrow> Some y)"
  by (induction xs) auto

definition pool_read :: "pydict \<Rightarrow> string \<Rightarrow> k8s_pool option \<Rightarrow> bool" where
  "pool_read section k pool \<longleftrightarrow>
     (\<exists>p. pool = Some p \<and> kp_name p = k \<and> fst ` set (kp_labels p) = label_names section)"

lemma load_pools_exact:
  "load_pools drv limits ps (acc, c) = Inr (pps, c1) \<Longrightarrow> distinct (map fst acc) \<Longrightarrow>
    distinct (map fst pps) \<and>
    (\<forall>k. case find (named k) (rev ps) of None \<Rightarrow> map_of pps k = map_of acc k | Some d \<Rightarrow> pool_read d k (map_of pps k)) \<and>
    (\<forall>l q. offers c1 l q \<longleftrightarrow> offers c l q \<or> (\<exists>d \<in> set ps. named q d \<and> l \<in> label_names d))"
proof (induction ps arbitrary: acc c)
  case (Cons x ps)
  from Cons.prems(1) obtain pool pp c2 where
      f: "(if drv = OpenshiftPods then force_pods x else Inr x) = Inr pool"
      and s: "load_pool (drv \<noteq> Kubernetes) limits pool c = Inr (pp, c2)"
      "load_pools drv limits ps (AList.update (kp_name pp) pp acc, c2) = Inr (pps, c1)"
    by (auto simp: load_pools_def bindE_eq_Inr)
  have x: "named k x \<longleftrightarrow> k = kp_name pp" "label_names x = label_names pool" for k
    using f force_pods_same [of x pool] load_pool_exact(1) [OF s(1)] by (auto split: if_splits)
  have d: "distinct (map fst (AList.update (kp_name pp) pp acc))" using Cons.prems(2) by (rule distinct_update)
  note ih = Cons.IH [OF s(2) d]
  have "case find (named k) (rev (x # ps)) of None \<Rightarrow> map_of pps k = map_of acc k | Some d \<Rightarrow> pool_read d k (map_of pps k)" for k
    using spec [OF conjunct1 [OF conjunct2 [OF ih]], of k] load_pool_exact(2) [OF s(1)]
    by (auto simp: find_snoc x update_conv' pool_read_def split: option.splits)
  moreover have "offers c1 l q \<longleftrightarrow> offers c l q \<or> (\<exists>d \<in> set (x # ps). named q d \<and> l \<in> label_names d)" for l q
    using ih load_pool_exact(3) [OF s(1)] x by auto
  ultimately show ?case using ih by blast
qed (simp add: load_pools_def)

text \<open>
  C35: A provider's section that is read gives one pool for every name in its list of pools - of several
  sections with a name the last one - and no other; the pool has exactly the labels that its section
  lists. And the pools that the configuration's labels are offered by are those they were offered by
  before and, for each pool section of the list, its name at each label that it lists.
\<close>
theorem k8s_labels_registered:
  assumes "k8s_load drv fmt provider c = Inr (cfg, c1)"
  shows "distinct (map fst (kc_pools cfg)) \<and>
    (\<forall>k. case find (named k) (rev (items_of provider ''pools'')) of
           None \<Rightarrow> map_of (kc_pools cfg) k = None
         | Some d \<Rightarrow> \<exists>p. map_of (kc_pools cfg) k = Some p \<and> kp_name p = k \<and> fst ` set (kp_labels p) = label_names d) \<and>
    (\<forall>l q. offers c1 l q \<longleftrightarrow>
       offers c l q \<or> (\<exists>d \<in> set (items_of provider ''pools''). named q d \<and> l \<in> label_names d))"
proof -
  from assms obtain limits ps where i: "bindE (py_iter (dget_or provider ''pools'' (JList []))) dicts_of = Inr ps"
    and l: "load_pools drv limits ps ([], c) = Inr (kc_pools cfg, c1)"
    by (auto simp: k8s_load_def bindE_eq_Inr)
  from load_pools_exact [OF l] show ?thesis unfolding items_read [OF i] pool_read_def map_of.simps list.map distinct.simps by blast
qed

definition pod_section :: pydict where
  "pod_section = [(''name'', JStr ''pods''), (''context'', JStr ''admin''), (''max-pods'', JNum 10),
     (''pools'', JList [JDict [(''name'', JStr ''main''), (''default-label-extra-resources'', JDict [(''gpu'', JNum 1)]),
        (''labels'', JList [JDict [(''name'', JStr ''pod''), (''image'', JStr ''fedora''), (''cpu'', JNum 2)]])]])]"

definition pod_limits :: k8s_limits where
  "pod_limits = \<lparr> li_max_servers = PosInf, li_max_cores = PosInf, li_max_ram = PosInf, li_max_resources = [] \<rparr>"

definition pod_config :: "unit nodepool_config" where
  "pod_config = config_init\<lparr>cf_labels := [(''pod'', \<lparr> lr_name = ''pod'', lr_max_ready_age = JNum 0, lr_min_ready = JNum 0, lr_pools = [] \<rparr>)]\<rparr>"

lemma pod_loads:
  "\<exists>cfg c1 p. k8s_load OpenshiftPods (\<lambda>s d. Inr s) pod_section pod_config = Inr (cfg, c1) \<and> kc_pools cfg = [(''main'', p)] \<and>
     map fst (kp_labels p) = [''pod'']"
  by (simp add: k8s_load_def pod_section_def pod_config_def key_of_def dget_or_def load_limits_def limit_or_def resource_update_def
      load_pools_def force_pods_def dhas_def load_pool_def load_labels_def load_label_def Let_def register_pool_def pop_limit_def limit_of_def)

theorem k8s_labels_registered_witness:
  "\<exists>cfg c1 p. k8s_load OpenshiftPods (\<lambda>s d. Inr s) pod_section pod_config = Inr (cfg, c1) \<and> offers c1 ''pod'' ''main'' \<and>
     map_of (kc_pools cfg) ''main'' = Some p \<and> fst ` set (kp_labels p) = {''pod''}"
proof -
  obtain cfg c1 where l: "k8s_load OpenshiftPods (\<lambda>s d. Inr s) pod_section pod_config = Inr (cfg, c1)"
    using pod_loads by (elim exE conjE)
  have i: "items_of pod_section ''pools'' =
      [[(''name'', JStr ''main''), (''default-label-extra-resources'', JDict [(''gpu'', JNum 1)]),
        (''labels'', JList [JDict [(''name'', JStr ''pod''), (''image'', JStr ''fedora''), (''cpu'', JNum 2)]])]]"
    by (simp add: items_of_def pod_section_def List.map_filter_simps)
  have n: "label_names (hd (items_of pod_section ''pools'')) = {''pod''}" "named ''main'' (hd (items_of pod_section ''pools''))"
    unfolding i by (auto simp: label_names_def items_of_def List.map_filter_simps named_def)
  have one: "rev (items_of pod_section ''pools'') = [hd (items_of pod_section ''pools'')]"
    "set (items_of pod_section ''pools'') = {hd (items_of pod_section ''pools'')}" by (simp_all add: i)
  note reg = k8s_labels_registered [OF l, THEN conjunct2]
  from spec [OF conjunct1 [OF reg], of "''main''"] n obtain p where
    "map_of (kc_pools cfg) ''main'' = Some p" "fst ` set (kp_labels p) = {''pod''}" by (auto simp: one)
  moreover have "offers c1 ''pod'' ''main''" using conjunct2 [OF reg] n by (auto simp: one)
  ultimately show ?thesis using l by blast
qed

text \<open>The first of several options that is set.\<close>

fun first_of :: "(pydict \<times> string) list \<Rightarrow> json" where
  "first_of [] = JNull"
| "first_of ((d, k) # rest) = (case map_of d k of None \<Rightarrow> first_of rest | Some v \<Rightarrow> v)"

text \<open>
  The limits of a label are the first that is set of its own limit, the pool's default limit, its own
  request and the pool's default request, for the cores, the memory and the storage alike.
\<close>
theorem k8s_limit_order:
  assumes "load_label ocp pool_config label = Inr l"
  shows "kl_cpu_limit l = first_of [(label, ''cpu-limit''), (pool_config, ''default-label-cpu-limit''), (label, ''cpu''), (pool_config, ''default-label-cpu'')] \<and>
    kl_memory_limit l = first_of [(label, ''memory-limit''), (pool_config, ''default-label-memory-limit''), (label, ''memory''), (pool_config, ''default-label-memory'')] \<and>
    kl_storage_limit l = first_of [(label, ''storage-limit''), (pool_config, ''default-label-storage-limit''), (label, ''storage''), (pool_config, ''default-label-storage'')]"
  using load_label_fields(1-6) [OF assms] by (simp add: dget_def dget_or_def split: option.splits)

theorem k8s_limit_order_witness:
  "\<exists>l. load_label False [(''default-label-cpu-limit'', JNum 4)] [(''name'', JStr ''pod''), (''type'', JStr ''pod''), (''cpu'', JNum 2), (''memory'', JNum 512)] = Inr l \<and>
    kl_cpu_limit l = JNum 4 \<and> kl_memory_limit l = JNum 512 \<and> kl_storage_limit l = JNull"
proof -
  obtain l where l: "load_label False [(''default-label-cpu-limit'', JNum 4)]
      [(''name'', JStr ''pod''), (''type'', JStr ''pod''), (''cpu'', JNum 2), (''memory'', JNum 512)] = Inr l"
    by (simp add: load_label_def key_of_def dget_or_def resource_update_def Let_def)
  from k8s_limit_order [OF l] l show ?thesis by simp
qed

text \<open>
  The option for extra resources by default does nothing: whatever a pool that the schema accepts says, a
  label's extra resources are its own.
\<close>
theorem k8s_default_extra_ignored:
  assumes "keys_ok k8s_pool_schema pool_config" and "load_label ocp pool_config label = Inr l"
  shows "resource_update [] (dget_or label ''extra-resources'' (JDict [])) = Inr (kl_extra_resources l)"
proof -
  have "map_of k8s_pool_schema ''default-label-extra_resources'' = None"
    by (simp add: k8s_pool_schema_def common_pool_schema_def optional_def required_def)
  from keys_ok_key [OF assms(1) this, of "JDict []"] assms(2) show ?thesis
    by (auto simp: load_label_def bindE_eq_Inr Let_def resource_update_def)
qed

definition gpu_pool :: pydict where
  "gpu_pool = [(''name'', JStr ''main''), (''labels'', JList []), (''default-label-extra-resources'', JDict [(''gpu'', JNum 1)])]"

theorem k8s_default_extra_ignored_witness:
  "\<exists>l. keys_ok k8s_pool_schema gpu_pool \<and> load_label False gpu_pool [(''name'', JStr ''pod''), (''type'', JStr ''pod'')] = Inr l \<and>
    kl_extra_resources l = []"
proof -
  have k: "keys_ok k8s_pool_schema gpu_pool"
    by (auto simp: keys_ok_def gpu_pool_def k8s_pool_schema_def common_pool_schema_def optional_def required_def)
  obtain l where l: "load_label False gpu_pool [(''name'', JStr ''pod''), (''type'', JStr ''pod'')] = Inr l"
    by (simp add: load_label_def key_of_def dget_or_def resource_update_def Let_def gpu_pool_def)
  from k8s_default_extra_ignored [OF k l] k l show ?thesis by (simp add: resource_update_def dget_or_def)
qed

text \<open>
  C36: The limit of the number of pods does nothing: no section of the driver for pods that the schema accepts
  limits the instances of a pool that does not limit them itself.
\<close>
theorem pods_limit_ignored:
  assumes "keys_ok openshiftpods_provider_schema provider" and "load_limits OpenshiftPods provider = Inr limits"
    and "map_of pool_config ''max-servers'' = None" and "openshift_load_pool limits pool_config c = Inr (p, c1)"
  shows "kp_max_servers p = PosInf"
proof -
  have "map_of (k8s_provider_schema OpenshiftPods) ''max-servers'' = None" "map_of (k8s_provider_schema OpenshiftPods) ''max-projects'' = None"
    by (simp_all add: k8s_provider_schema_def common_provider_schema_def optional_def required_def)
  then have "map_of provider ''max-servers'' = None" "map_of provider ''max-projects'' = None"
    using keys_ok_key [OF assms(1) [unfolded openshiftpods_provider_schema_def]] by blast+
  with assms(2) have "li_max_servers limits = PosInf" by (auto simp: load_limits_def limit_or_def bindE_eq_Inr)
  with assms(3,4) show ?thesis by (auto simp: openshift_load_pool_def load_pool_def limit_or_def bindE_eq_Inr)
qed

definition one_pool :: pydict where
  "one_pool = [(''name'', JStr ''main''), (''labels'', JList [])]"

theorem pods_limit_ignored_witness:
  "\<exists>p c1. keys_ok openshiftpods_provider_schema pod_section \<and> map_of pod_section ''max-pods'' = Some (JNum 10) \<and>
    load_limits OpenshiftPods pod_section = Inr pod_limits \<and> openshift_load_pool pod_limits one_pool pod_config = Inr (p, c1) \<and> kp_max_servers p = PosInf"
proof -
  have k: "keys_ok openshiftpods_provider_schema pod_section"
    by (auto simp: keys_ok_def pod_section_def openshiftpods_provider_schema_def k8s_provider_schema_def common_provider_schema_def optional_def required_def)
  have l: "load_limits OpenshiftPods pod_section = Inr pod_limits"
    by (simp add: load_limits_def pod_section_def pod_limits_def limit_or_def resource_update_def dget_or_def)
  have m: "map_of one_pool ''max-servers'' = None" by (simp add: one_pool_def)
  obtain p c1 where p: "openshift_load_pool pod_limits one_pool pod_config = Inr (p, c1)"
    by (simp add: openshift_load_pool_def load_pool_def one_pool_def key_of_def limit_or_def pod_limits_def resource_update_def dget_or_def load_labels_def)
  from pods_limit_ignored [OF k l m p] k l p show ?thesis by (simp add: pod_section_def)
qed

end
