(* ===== verification/Spec2Isabelle.thy ===== *)
theory Spec2Isabelle
  imports AzureClaims K8sClaims ZkClaims DriverClaims HandlerClaims LauncherClaims WorkerClaims BuilderClaims DriverStateClaims AwsClaims CloudClaims OpenStackProps Components Commands K8sConfig
begin

text \<open>
  Nodepool (\<open>src/nodepool\<close>) keeps pools of test nodes: builders make disk images and upload them to clouds,
  launchers answer node requests with nodes of a provider, and everything they agree on is in ZooKeeper.
  This library translates its modules to definitions and proves what makes them correct. Each theory
  says at its beginning which file of \<open>src\<close> it models; definitions keep the names of the code,
  with a prefix where two classes share one.

  \<^bold>\<open>How Python is modelled.\<close> \<open>Prelude\<close>: values from JSON and YAML are the datatype \<open>json\<close>, with Python's truth and
  ordered dictionaries as association lists; exceptions are the datatype \<open>pyexc\<close>; what may raise and changes
  nothing returns \<open>'a res\<close>, that is \<open>pyexc + 'a\<close>. \<open>Eff\<close>: a method that changes state is a function from a state to the
  result and the state as it is then, so that an exception does not undo what was done before it; its combinators
  are sequence, \<open>raise\<close>, \<open>try\<close>, loops and running on a part of the state, and \<open>keeps_inv\<close> with the collection \<open>keeps\<close>
  proves invariants along them. Objects are records; an object with a ZooKeeper identity is the record of
  its attributes. Times are rationals given by the caller. Integers of Python are unbounded and are \<open>int\<close>,
  \<open>nat\<close> or \<open>rat\<close>; floats with infinities are the datatype \<open>num\<close> of \<open>Quota\<close>.

  \<^bold>\<open>ZooKeeper\<close> (\<open>zk/zookeeper.py\<close>). \<open>ZkModel\<close> and \<open>ZkNode\<close> have the stored classes and their codecs, \<open>ZkPaths\<close> the paths and
  their parsers, \<open>ZkNode\<close> the contract of a codec (the locale \<open>serializable\<close>). \<open>Kazoo\<close> and \<open>ZkLocks\<close> make
  the client and its lock recipe parameters: records of functions over an abstract server, whose documented
  laws are the locales \<open>zk_server\<close> and \<open>lock_recipe\<close>; an in-memory server, on which the witnesses run, satisfies both. On them \<open>ZkImages\<close>,
  \<open>ZkNodes\<close> and \<open>ZkPools\<close> have the methods of the class \<open>ZooKeeper\<close>. \<open>ZkCache\<close> has the tree caches with their event and playback
  queues; \<open>ZkCacheInv\<close> states what the cache needs of its subclasses as a locale, and \<open>ZkCacheSync\<close> has
  every interleaving of events, workers, session loss and restart, and of the threads that hold cached objects, lock and change
  them, as inductive step relations. The lemmas
  of \<open>ZkImagesProps\<close>, \<open>ZkNodesProps\<close> and \<open>ZkPoolsProps\<close> are proved inside these locales; \<open>ZkClaims\<close> states the properties: what is stored is read
  back, a cache never goes back to older data nor touches a node that is locked here, and agrees with the tree after a restart, deletions touch what they should.
  \<open>Components\<close> is the registry of processes and pools (\<open>zk/components.py\<close>) and the data model it reports.

  \<^bold>\<open>Launcher\<close> (\<open>launcher.py\<close>, \<open>driver/__init__.py\<close>, \<open>driver/utils.py\<close>, \<open>driver/statemachine.py\<close>). \<open>Quota\<close> is the arithmetic of quotas, \<open>RequestHandler\<close> the handler
  that serves one request, over an arbitrary driver; \<open>SmProvider\<close>, \<open>SmLauncher\<close> and \<open>SmHandler\<close> are the state machine driver, its
  launchers and deleters and its handler, over an arbitrary adapter of a cloud; \<open>Nodescan\<close> is the asynchronous
  scan of host keys; \<open>DriverUtils\<close> the remaining helpers, with segmented uploads on an executor whose waits may run out of time; \<open>PoolWorker\<close>, \<open>Cleanup\<close> and \<open>MinReady\<close> are the workers
  of \<open>launcher.py\<close>. \<open>QuotaProps\<close> and \<open>QuotaUse\<close> show that a launch that passes the checks fits; \<open>HandlerProps\<close> has the
  interface between handlers and drivers as a locale and the invariant that the nodes of a handler are locked;
  \<open>LauncherProps\<close> bounds the attempts of a launch and says when a node gets ready and what the leak cleanup deletes. The properties
  are in \<open>DriverClaims\<close>, \<open>HandlerClaims\<close>, \<open>LauncherClaims\<close> and \<open>WorkerClaims\<close>.

  \<^bold>\<open>Builder\<close> (\<open>builder.py\<close>, \<open>config.py\<close>). \<open>DibFiles\<close> is the images directory, \<open>Config\<close> the configuration with the inheritance of disk images,
  \<open>BuilderWorld\<close>, \<open>BuilderCleanup\<close>, \<open>BuilderBuild\<close>, \<open>BuilderUpload\<close> and \<open>BuilderRun\<close> are the three workers. \<open>BuilderProps\<close>, \<open>DibProps\<close>, \<open>BuildProps\<close> and \<open>Config\<close> say what a
  round of the cleanup keeps, which files it removes, when a build gets ready and something is sent, and that inheritance
  terminates; \<open>BuilderClaims\<close> states the properties.

  \<^bold>\<open>Drivers.\<close> \<open>NodeUtils\<close> is \<open>nodeutils.py\<close>, \<open>ZkWorld\<close> the state of drivers that work on ZooKeeper; \<open>Metastatic\<close> and \<open>StaticDriver\<close> are these two drivers, with their
  invariants in \<open>MetastaticProps\<close>, \<open>MetastaticInit\<close> (where a recovery from ZooKeeper may fail and be begun again) and \<open>StaticProps\<close> and the properties in \<open>DriverStateClaims\<close>. \<open>Machines\<close> has the shape
  the state machines of the clouds share and, as the locale \<open>forward_machine\<close>, what a client may rely on: they only move forward, whatever
  becomes of the futures they wait for and of the cloud between two calls.
  The adapters of the clouds are over records of functions that stand for their services, on an abstract cloud, with their machines,
  listings, quota and images: \<open>Aws\<close>, \<open>AwsMachines\<close>, \<open>AwsLife\<close> and \<open>AwsImages\<close> (properties in \<open>AwsProps\<close> and \<open>AwsClaims\<close>); \<open>Gce\<close>, and
  \<open>Ibm\<close> with \<open>IbmMachines\<close> (\<open>CloudClaims\<close>); \<open>OpenStack\<close> and \<open>OpenStackMachines\<close> (\<open>OpenStackProps\<close>); \<open>Azure\<close>, \<open>AzureMachines\<close> and the client of
  its interface in \<open>Azul\<close> (\<open>AzureClaims\<close>). \<open>K8s\<close> and \<open>K8sLauncher\<close> are the Kubernetes driver and the two for OpenShift, which launch in a thread of
  their own (\<open>K8sClaims\<close>); \<open>K8sConfig\<close> is how a section of the configuration becomes their pools and labels. The properties
  say that machines only move forward and name what they have got, when a node has its addresses, how
  waiting ends, that names and metadata survive the way to the cloud, and where a failure is not reported.

  \<^bold>\<open>Operator\<close> (\<open>status.py\<close>, \<open>cmd/nodepoolcmd.py\<close>). \<open>Status\<close> has the listings, \<open>Commands\<close> the commands, over the methods of \<open>ZooKeeper\<close>: what a
  listing shows of ages and of connection information, and what a command that marks a node or a build does.

  \<^bold>\<open>Bounds and fuel.\<close> Loops that end are recursive functions. A loop that only the outside can end takes fuel or a list of
  answers: the host key scan ends with its list of answers; waiting for an import, a snapshot, an image or an operation of a cloud, reading
  the pages of a listing and drawing a password take fuel and return \<open>None\<close> when it is used up, which the
  properties never take for success. That enough fuel is there is proved where it matters: \<open>azul_wait_ends\<close> for
  the operations of Azure, \<open>os_pages_complete\<close> for the pages of OpenStack. Other properties about such loops hold for every fuel.
  The limits of the code (fifty ids in a batch, a hundred scans at a time, two recent uploads and builds, three
  hundred readings of a pod, thirty of a token) are its constants.

  \<^bold>\<open>Not modelled.\<close> Connecting to ZooKeeper and its threads; logging and statistics; the web application and the starting of
  processes; the types in the schemas of the configuration and, but for Kubernetes and OpenShift, the reading of a driver's section;
  the example, fake and test drivers. A generator is the list of what it yields, which an exception at its end
  loses. Threads that share an object are interleaved as whole operations, or run one after the other
  where the code joins them. Rate limiters only delay and are left out, as are the caches in front of
  the listings of AWS: a cached listing is one of the answers the parameter may give.
\<close>

end
